(* ===== verification/Prelude.thy ===== *)
theory Prelude
  imports Complex_Main "HOL-Library.Signed_Division"
begin

text \<open>
  Shared vocabulary of the development: the result type of fallible code and its sequencing,
  the numbers, strings and dynamic values of JavaScript as far as the sources use them, and the
  generic lemmas on lists and results that the component theories share.

  \<^item> \<open>'e + 'a\<close> is the result of code that may throw: \<open>Inl\<close> carries the thrown error, \<open>Inr\<close>
    the returned value. \<open>bindR\<close> sequences two such computations and \<open>ensure\<close> is the guard
    \<^verbatim>\<open>if (!c) throw e\<close>.
  \<^item> \<open>jsnum\<close> is a JavaScript \<^verbatim>\<open>number\<close>: a finite value (an exact rational, rounding
    of doubles is not modelled), an infinity or \<^verbatim>\<open>NaN\<close>. A \<^verbatim>\<open>bigint\<close> is an \<open>int\<close>;
    its division truncates towards zero, which is \<open>sdiv\<close>.
  \<^item> \<open>toLowerCase\<close> acts on ASCII, which is what addresses, hashes and names are made of.
\<close>

section \<open>Collections of rewrite rules\<close>

named_theorems res_simps \<open>rules that evaluate a sequence of fallible steps\<close>
named_theorems js_simps \<open>rules about JavaScript numbers, strings and dynamic values\<close>

section \<open>Names of the basic types\<close>

type_synonym wei = int
type_synonym address = string
type_synonym hash = string
type_synonym hex = string

section \<open>Results of fallible code\<close>

definition bindR :: "'e + 'a \<Rightarrow> ('a \<Rightarrow> 'e + 'b) \<Rightarrow> 'e + 'b" where
  "bindR m f = (case m of Inl e \<Rightarrow> Inl e | Inr x \<Rightarrow> f x)"

definition ensure :: "bool \<Rightarrow> 'e \<Rightarrow> 'e + unit" where
  "ensure c e = (if c then Inr () else Inl e)"

fun mapR :: "('a \<Rightarrow> 'e + 'b) \<Rightarrow> 'a list \<Rightarrow> 'e + 'b list" where
  "mapR f [] = Inr []"
| "mapR f (x # xs) = bindR (f x) (\<lambda>y. bindR (mapR f xs) (\<lambda>ys. Inr (y # ys)))"

definition is_ok :: "'e + 'a \<Rightarrow> bool" where
  "is_ok r = (case r of Inl _ \<Rightarrow> False | Inr _ \<Rightarrow> True)"

section \<open>JavaScript numbers\<close>

datatype jsnum = NaN | NegInf | PosInf | Fin rat

definition MAX_SAFE_INTEGER :: int where
  "MAX_SAFE_INTEGER = 2 ^ 53 - 1"

fun isFinite :: "jsnum \<Rightarrow> bool" where
  "isFinite (Fin _) = True"
| "isFinite _ = False"

fun isInteger :: "jsnum \<Rightarrow> bool" where
  "isInteger (Fin q) = (of_int \<lfloor>q\<rfloor> = q)"
| "isInteger _ = False"

fun isSafeInteger :: "jsnum \<Rightarrow> bool" where
  "isSafeInteger (Fin q) = (of_int \<lfloor>q\<rfloor> = q \<and> \<bar>\<lfloor>q\<rfloor>\<bar> \<le> MAX_SAFE_INTEGER)"
| "isSafeInteger _ = False"

fun js_lt :: "jsnum \<Rightarrow> jsnum \<Rightarrow> bool" where
  "js_lt NaN _ = False"
| "js_lt _ NaN = False"
| "js_lt NegInf y = (y \<noteq> NegInf)"
| "js_lt _ NegInf = False"
| "js_lt PosInf _ = False"
| "js_lt _ PosInf = True"
| "js_lt (Fin p) (Fin q) = (p < q)"

fun js_le :: "jsnum \<Rightarrow> jsnum \<Rightarrow> bool" where
  "js_le NaN _ = False"
| "js_le _ NaN = False"
| "js_le NegInf _ = True"
| "js_le _ PosInf = True"
| "js_le PosInf _ = False"
| "js_le _ NegInf = False"
| "js_le (Fin p) (Fin q) = (p \<le> q)"

fun js_add :: "jsnum \<Rightarrow> jsnum \<Rightarrow> jsnum" where
  "js_add (Fin p) (Fin q) = Fin (p + q)"
| "js_add NaN _ = NaN"
| "js_add _ NaN = NaN"
| "js_add PosInf NegInf = NaN"
| "js_add NegInf PosInf = NaN"
| "js_add PosInf _ = PosInf"
| "js_add NegInf _ = NegInf"
| "js_add _ PosInf = PosInf"
| "js_add _ NegInf = NegInf"

fun js_neg :: "jsnum \<Rightarrow> jsnum" where
  "js_neg NaN = NaN"
| "js_neg PosInf = NegInf"
| "js_neg NegInf = PosInf"
| "js_neg (Fin q) = Fin (- q)"

definition js_sub :: "jsnum \<Rightarrow> jsnum \<Rightarrow> jsnum" where
  "js_sub x y = js_add x (js_neg y)"

text \<open>Multiplication by a positive finite constant, the only products of numbers in the sources.\<close>

fun js_scale :: "rat \<Rightarrow> jsnum \<Rightarrow> jsnum" where
  "js_scale k (Fin q) = Fin (k * q)"
| "js_scale k x = x"

text \<open>\<^verbatim>\<open>Math.min\<close> and \<^verbatim>\<open>Math.max\<close>: a \<open>NaN\<close> argument wins.\<close>

definition js_min :: "jsnum \<Rightarrow> jsnum \<Rightarrow> jsnum" where
  "js_min x y = (if x = NaN \<or> y = NaN then NaN else if js_le x y then x else y)"

definition js_max :: "jsnum \<Rightarrow> jsnum \<Rightarrow> jsnum" where
  "js_max x y = (if x = NaN \<or> y = NaN then NaN else if js_le x y then y else x)"

text \<open>The integer a safe integer stands for.\<close>

fun js_int :: "jsnum \<Rightarrow> int" where
  "js_int (Fin q) = \<lfloor>q\<rfloor>"
| "js_int _ = 0"

abbreviation jint :: "int \<Rightarrow> jsnum" where
  "jint n \<equiv> Fin (of_int n)"

section \<open>Strings\<close>

definition lower_char :: "char \<Rightarrow> char" where
  "lower_char c = (let n = (of_char c :: nat) in if 65 \<le> n \<and> n \<le> 90 then char_of (n + 32) else c)"

definition toLowerCase :: "string \<Rightarrow> string" where
  "toLowerCase s = map lower_char s"

definition digit_char :: "nat \<Rightarrow> char" where
  "digit_char d = char_of (48 + d)"

fun show_nat :: "nat \<Rightarrow> string" where
  "show_nat n = (if n < 10 then [digit_char n] else show_nat (n div 10) @ [digit_char (n mod 10)])"

definition show_int :: "int \<Rightarrow> string" where
  "show_int n = (if n < 0 then CHR ''-'' # show_nat (nat (- n)) else show_nat (nat n))"

declare show_nat.simps [simp del]

text \<open>Truthiness of an optional string: undefined and the empty string are falsy.\<close>

fun truthy :: "string option \<Rightarrow> bool" where
  "truthy None = False"
| "truthy (Some s) = (s \<noteq> [])"

text \<open>Hexadecimal digits and the number \<^verbatim>\<open>BigInt("0x...")\<close> reads from them.\<close>

definition hex_digit :: "char \<Rightarrow> int option" where
  "hex_digit c =
     (let n = (of_char c :: nat)
      in if 48 \<le> n \<and> n \<le> 57 then Some (int n - 48)
         else if 97 \<le> n \<and> n \<le> 102 then Some (int n - 87)
         else if 65 \<le> n \<and> n \<le> 70 then Some (int n - 55)
         else None)"

fun hex_value :: "int \<Rightarrow> string \<Rightarrow> int" where
  "hex_value acc [] = acc"
| "hex_value acc (c # cs) = hex_value (acc * 16 + (case hex_digit c of None \<Rightarrow> 0 | Some d \<Rightarrow> d)) cs"

definition all_hex :: "string \<Rightarrow> bool" where
  "all_hex s = list_all (\<lambda>c. hex_digit c \<noteq> None) s"

section \<open>Dynamic values\<close>

text \<open>
  The values an untyped dictionary such as \<^verbatim>\<open>DropConfig.extra\<close> may hold. A missing key
  reads as \<open>JUndef\<close>.
\<close>

datatype jsval =
    JUndef
  | JNull
  | JBool bool
  | JNum jsnum
  | JBig int
  | JStr string
  | JArr "jsval list"
  | JObj "(string \<times> jsval) list"

section \<open>Lemmas on results\<close>

lemma bindR_Inl [simp, res_simps]: "bindR (Inl e) f = Inl e"
  by (simp add: bindR_def)

lemma bindR_Inr [simp, res_simps]: "bindR (Inr x) f = f x"
  by (simp add: bindR_def)

lemma bindR_eq_Inr [res_simps]: "bindR m f = Inr y \<longleftrightarrow> (\<exists>x. m = Inr x \<and> f x = Inr y)"
  by (cases m) auto

lemma bindR_eq_Inl: "bindR m f = Inl e \<longleftrightarrow> m = Inl e \<or> (\<exists>x. m = Inr x \<and> f x = Inl e)"
  by (cases m) auto

lemma bindR_assoc: "bindR (bindR m f) g = bindR m (\<lambda>x. bindR (f x) g)"
  by (cases m) auto

lemma ensure_eq_Inr [simp, res_simps]: "ensure c e = Inr u \<longleftrightarrow> c"
  by (simp add: ensure_def)

lemma ensure_eq_Inl [simp, res_simps]: "ensure c e = Inl e' \<longleftrightarrow> \<not> c \<and> e' = e"
  by (auto simp: ensure_def)

lemma ensure_True [simp]: "ensure True e = Inr ()"
  by (simp add: ensure_def)

lemma ensure_False [simp]: "ensure False e = Inl e"
  by (simp add: ensure_def)

lemma is_ok_iff [simp]: "is_ok r \<longleftrightarrow> (\<exists>x. r = Inr x)"
  by (cases r) (auto simp: is_ok_def)

lemma mapR_eq_Inr: "mapR f xs = Inr ys \<longleftrightarrow> list_all2 (\<lambda>x y. f x = Inr y) xs ys"
proof (induction xs arbitrary: ys)
  case Nil
  then show ?case by auto
next
  case (Cons x xs)
  then show ?case by (cases ys) (auto simp: bindR_eq_Inr)
qed

lemma mapR_Inr_each: "mapR f xs = Inr ys \<Longrightarrow> x \<in> set xs \<Longrightarrow> \<exists>y. f x = Inr y"
  by (induction xs arbitrary: ys) (auto simp: bindR_eq_Inr)

lemma mapR_length: "mapR f xs = Inr ys \<Longrightarrow> length ys = length xs"
  by (auto simp: mapR_eq_Inr dest: list_all2_lengthD)

section \<open>Lemmas on numbers\<close>

lemma jint_isInteger [simp, js_simps]: "isInteger (jint n)"
  by simp

lemma jint_isSafeInteger [simp, js_simps]: "isSafeInteger (jint n) \<longleftrightarrow> \<bar>n\<bar> \<le> MAX_SAFE_INTEGER"
  by simp

lemma isSafeInteger_jint [js_simps]:
  "isSafeInteger x \<longleftrightarrow> (\<exists>n. x = jint n \<and> \<bar>n\<bar> \<le> MAX_SAFE_INTEGER)"
proof (cases x)
  case (Fin q)
  then show ?thesis
    by (metis floor_of_int isSafeInteger.simps(1) jsnum.inject)
qed auto

lemma isInteger_jint [js_simps]: "isInteger x \<longleftrightarrow> (\<exists>n. x = jint n)"
proof (cases x)
  case (Fin q)
  then show ?thesis
    by (metis floor_of_int isInteger.simps(1) jsnum.inject)
qed auto

lemma js_int_jint [simp, js_simps]: "js_int (jint n) = n"
  by simp

lemma js_sub_Fin [simp, js_simps]: "js_sub (Fin p) (Fin q) = Fin (p - q)"
  by (simp add: js_sub_def)

lemma js_le_lt: "js_le x y \<longleftrightarrow> js_lt x y \<or> (x = y \<and> x \<noteq> NaN)"
  by (cases x; cases y) auto

lemma js_lt_irrefl [simp]: "\<not> js_lt x x"
  by (cases x) auto

lemma js_lt_trans: "js_lt x y \<Longrightarrow> js_lt y z \<Longrightarrow> js_lt x z"
  by (cases x; cases y; cases z) auto

lemma sdiv_nonneg: "0 \<le> (a::int) \<Longrightarrow> 0 < b \<Longrightarrow> a sdiv b = a div b"
  by (cases "a = 0") (simp_all add: signed_divide_int_def)

text \<open>Division rounded up, written \<^verbatim>\<open>(a + b - 1n) / b\<close> in the sources.\<close>

lemma ceil_div_ge:
  fixes a b :: int
  assumes "0 < b"
  shows "a \<le> ((a + b - 1) div b) * b"
proof -
  have "a + b - 1 = ((a + b - 1) div b) * b + (a + b - 1) mod b" by simp
  moreover have "(a + b - 1) mod b \<le> b - 1" using assms pos_mod_bound [of b] by (simp add: zle_diff1_eq)
  ultimately show ?thesis by linarith
qed

section \<open>Lemmas on strings\<close>

lemma of_char_of_small: "n < 256 \<Longrightarrow> (of_char (char_of n) :: nat) = n"
  by simp

lemma lower_char_idem [simp, js_simps]: "lower_char (lower_char c) = lower_char c"
  by (auto simp: lower_char_def Let_def of_char_of_small)

lemma toLowerCase_idem [simp, js_simps]: "toLowerCase (toLowerCase s) = toLowerCase s"
  by (simp add: toLowerCase_def)

lemma length_toLowerCase [simp, js_simps]: "length (toLowerCase s) = length s"
  by (simp add: toLowerCase_def)

lemma digit_char_inj: "a < 10 \<Longrightarrow> b < 10 \<Longrightarrow> digit_char a = digit_char b \<Longrightarrow> a = b"
proof -
  assume "a < 10" "b < 10" "digit_char a = digit_char b"
  then have "(of_char (digit_char a) :: nat) = of_char (digit_char b)" by simp
  with \<open>a < 10\<close> \<open>b < 10\<close> show "a = b" by (simp add: digit_char_def of_char_of_small)
qed

lemma digit_char_not_colon: "d < 10 \<Longrightarrow> digit_char d \<noteq> CHR '':''"
proof
  assume "d < 10" "digit_char d = CHR '':''"
  then have "(of_char (digit_char d) :: nat) = of_char (CHR '':'')" by simp
  with \<open>d < 10\<close> show False by (simp add: digit_char_def of_char_of_small)
qed

lemma show_nat_nonempty [simp]: "show_nat n \<noteq> []"
  by (subst show_nat.simps) simp

lemma show_nat_inj: "show_nat m = show_nat n \<Longrightarrow> m = n"
proof (induction m arbitrary: n rule: show_nat.induct)
  case (1 m)
  show ?case
  proof (cases "m < 10")
    case m: True
    show ?thesis
    proof (cases "n < 10")
      case True
      with m "1.prems" show ?thesis
        by (simp add: show_nat.simps [of m] show_nat.simps [of n] digit_char_inj)
    next
      case False
      with m "1.prems" have "[digit_char m] = show_nat (n div 10) @ [digit_char (n mod 10)]"
        by (simp add: show_nat.simps [of m] show_nat.simps [of n])
      then show ?thesis by (simp add: Cons_eq_append_conv)
    qed
  next
    case m: False
    show ?thesis
    proof (cases "n < 10")
      case True
      with m "1.prems" have "show_nat (m div 10) @ [digit_char (m mod 10)] = [digit_char n]"
        by (simp add: show_nat.simps [of m] show_nat.simps [of n])
      then show ?thesis by (simp add: append_eq_Cons_conv)
    next
      case False
      with m "1.prems"
      have "show_nat (m div 10) = show_nat (n div 10)"
        and "digit_char (m mod 10) = digit_char (n mod 10)"
        by (simp_all add: show_nat.simps [of m] show_nat.simps [of n])
      with m "1.IH" have "m div 10 = n div 10" and "m mod 10 = n mod 10"
        by (auto intro: digit_char_inj)
      then show ?thesis by (metis div_mult_mod_eq)
    qed
  qed
qed

lemma colon_notin_show_nat: "CHR '':'' \<notin> set (show_nat n)"
proof (induction n rule: show_nat.induct)
  case (1 n)
  show ?case
  proof (cases "n < 10")
    case True
    then show ?thesis using digit_char_not_colon [of n] by (simp add: show_nat.simps [of n])
  next
    case False
    with 1 show ?thesis
      using digit_char_not_colon [of "n mod 10"] by (simp add: show_nat.simps [of n])
  qed
qed

text \<open>Two strings cut at their first occurrence of a separator agree on both parts.\<close>

lemma split_at_first:
  assumes "xs @ c # ys = xs' @ c # ys'" and "c \<notin> set xs" and "c \<notin> set xs'"
  shows "xs = xs' \<and> ys = ys'"
  using assms
proof (induction xs arbitrary: xs')
  case Nil
  then show ?case by (cases xs') auto
next
  case (Cons x xs)
  then show ?case by (cases xs') auto
qed

lemma hex_digit_range: "hex_digit c = Some d \<Longrightarrow> 0 \<le> d \<and> d < 16"
  by (auto simp: hex_digit_def Let_def split: if_splits)

lemma hex_value_bounds:
  assumes "0 \<le> acc" and "acc < 16 ^ k"
  shows "0 \<le> hex_value acc s \<and> hex_value acc s < 16 ^ (k + length s)"
  using assms
proof (induction s arbitrary: acc k)
  case Nil
  then show ?case by simp
next
  case (Cons c s)
  define d where "d = (case hex_digit c of None \<Rightarrow> 0 | Some d \<Rightarrow> d)"
  have d: "0 \<le> d" "d < 16" by (auto simp: d_def hex_digit_range split: option.split dest: hex_digit_range)
  with Cons.prems have "0 \<le> acc * 16 + d" "acc * 16 + d < 16 ^ Suc k" by auto
  from Cons.IH [OF this] show ?case by (simp add: d_def)
qed

section \<open>Lemmas on lists\<close>

lemma find_Some_in: "find P xs = Some x \<Longrightarrow> x \<in> set xs \<and> P x"
  by (induction xs) (auto split: if_splits)

lemma find_None_all: "find P xs = None \<longleftrightarrow> (\<forall>x \<in> set xs. \<not> P x)"
  by (induction xs) auto

lemma sum_list_nonneg_le:
  fixes xs :: "int list"
  assumes "\<forall>x \<in> set xs. 0 \<le> x" and "y \<in> set xs"
  shows "y \<le> sum_list xs"
  using assms by (induction xs) (fastforce intro: add_increasing sum_list_nonneg)+

end
