(* ===== verification/Types.thy ===== *)
theory Types
  imports Prelude
begin

text \<open>
  The data model of the engine package (\<^verbatim>\<open>packages/engine/src/types.ts\<close>): chains and
  finality, drops, broadcast results, transaction intents, reservations, receipts, per-wallet
  results and the classified errors. A TypeScript interface is a \<open>record\<close>, a string union is a
  \<open>datatype\<close>, an optional field is an \<open>option\<close>. Field names that occur in several interfaces
  carry a short prefix.
\<close>

section \<open>Chains and finality\<close>

datatype SupportedChainId = Chain1 | Chain8453 | Chain4663

datatype ChainVerificationStatus =
    Unverified | Verified | Disabled | CharacterizationPending | ExecutionBlocked

record ChainCharacterization =
  ch_status :: ChainVerificationStatus
  acceptedBy :: "string option"
  acceptedAt :: "string option"
  reportRef :: "string option"
  liveMintEvidenceRef :: "string option"
  liveMintTxHash :: "string option"
  ch_notes :: "string option"

datatype FinalityStage = StUnknown | StConfirmed | StSoft | StPosted | StEthereumFinal

record FinalityPolicy =
  stages :: "FinalityStage list"
  settlementStage :: FinalityStage
  fp_notes :: "string option"

record ChainConfig =
  cc_chainId :: SupportedChainId
  cc_name :: string
  blockTimeMs :: int
  confirmationDepth :: int
  cc_rpcEndpoints :: "string list"
  sequencerUrl :: "string option"
  sequencerFeedUrl :: "string option"
  explorerUrl :: "string option"
  flashbotsRelayUrl :: "string option"
  isL2 :: bool
  verificationStatus :: ChainVerificationStatus
  characterization :: "ChainCharacterization option"
  finalityPolicy :: FinalityPolicy
  executionEnabled :: bool

datatype BroadcastMode = ModeAuto | ModePublic | ModeBlast | ModeFlashbots | ModeSequencer

section \<open>Drops\<close>

record DropConfig =
  nftContract :: address
  mintPrice :: wei
  maxTotalMintableByWallet :: int
  maxTokenSupply :: int
  totalMinted :: int
  startTime :: int
  endTime :: int
  feePayer :: address
  strategyName :: string
  drop_chainId :: SupportedChainId
  extra :: "(string \<times> jsval) list option"

text \<open>\<^verbatim>\<open>drop.extra?.[key]\<close>: a missing dictionary and a missing key both read as undefined.\<close>

definition extra_at :: "DropConfig \<Rightarrow> string \<Rightarrow> jsval" where
  "extra_at d key =
     (case extra d of
        None \<Rightarrow> JUndef
      | Some kvs \<Rightarrow> (case map_of kvs key of None \<Rightarrow> JUndef | Some v \<Rightarrow> v))"

record DropValidation =
  valid :: bool
  errors :: "string list"
  warnings :: "string list"

section \<open>Broadcasting\<close>

datatype BroadcastResponseClass =
    Accepted | AlreadyKnown | Rejected | Timeout | Ambiguous | ProviderError

record BroadcastResult =
  br_txHash :: hash
  endpoint :: string
  latencyMs :: int
  success :: bool
  responseClass :: "BroadcastResponseClass option"
  ambiguous :: "bool option"
  br_error :: "string option"
  providerReference :: "string option"

section \<open>Transactions and reservations\<close>

record TransactionAccessListItem =
  al_address :: address
  storageKeys :: "hex list"

record FamilyContext =
  fc_nftContract :: address
  fc_feeRecipient :: address

record TransactionIntent =
  ti_chainId :: SupportedChainId
  ti_from :: address
  ti_to :: address
  ti_value :: wei
  ti_data :: hex
  ti_nonce :: int
  ti_gasLimit :: int
  ti_maxFeePerGas :: wei
  ti_maxPriorityFeePerGas :: wei
  ti_accessList :: "TransactionAccessListItem list option"
  ti_campaignId :: "string option"
  ti_runId :: "string option"
  ti_policyRef :: "string option"
  ti_evidenceRef :: "string option"
  ti_familyContext :: "FamilyContext option"

record ReservationSettlementComponents =
  actualMintValueWei :: wei
  actualL2ExecutionGasWei :: wei
  actualL1DataGasWei :: wei
  actualPriorityFeeComponentWei :: "wei option"
  actualReplacementBudgetWei :: "wei option"

record ReserveInput =
  ri_idempotencyKey :: string
  ri_chainId :: SupportedChainId
  ri_walletIndex :: int
  ri_address :: address
  ri_valueWei :: wei
  ri_maxGasCostWei :: wei
  ri_campaignId :: string
  ri_runId :: string
  ri_executionId :: string
  ri_transactionIntentId :: string
  ri_mintValueWei :: wei
  ri_l2ExecutionGasWei :: wei
  ri_l1DataGasWei :: wei
  ri_priorityFeeComponentWei :: wei
  ri_replacementBudgetWei :: wei
  ri_freeMint :: bool

text \<open>The capability flags a reservation provider shows, and whether it offers \<^verbatim>\<open>reconfirm\<close>.\<close>

record SpendReservationProvider =
  rp_durable :: "bool option"
  rp_storeKind :: "string option"
  rp_reconfirm :: bool

record ExecutionIdentity =
  ei_runId :: string
  ei_executionId :: string
  ei_transactionIntentId :: string

record SimulationEvidence =
  sim_walletIndex :: int
  sim_address :: address
  sourceBlock :: int
  checkedAt :: jsnum
  gasEstimate :: "int option"
  sim_success :: bool
  revertType :: "string option"
  sim_error :: "string option"

record WalletInfo =
  index :: int
  wi_address :: address
  wi_label :: "string option"

section \<open>Lifecycle records\<close>

datatype LifecycleRunState =
    RunPrepared | RunActive | RunRecovering | RunCompleted | RunFailed | RunAborted | RunCancelled

datatype AttemptClass = AttemptSigned | AttemptResponse BroadcastResponseClass

record LifecycleAttemptRecord =
  at_id :: string
  at_executionId :: string
  at_transactionIntentId :: string
  at_endpoint :: string
  at_responseClass :: AttemptClass
  at_txHash :: "hash option"
  at_nonce :: int
  at_replacementOfId :: "string option"

datatype ReceiptRowStatus = RowPending | RowConfirmed | RowReverted | RowReorged | RowDropped

record LifecycleReceiptRecord =
  rr_id :: string
  rr_executionId :: string
  rr_transactionAttemptId :: string
  rr_txHash :: hash
  rr_status :: ReceiptRowStatus
  rr_finalityStage :: FinalityStage

datatype ReconciliationState =
    RsUnresolved | RsMatched | RsAmbiguous | RsReplaced | RsDropped | RsReorged | RsFinal

record LifecycleReconciliationRecord =
  rc_executionId :: string
  rc_transactionAttemptId :: "string option"
  rc_txHash :: "hash option"
  rc_fromAddress :: address
  rc_nonce :: int
  rc_state :: ReconciliationState
  rc_source :: string

section \<open>Receipts and results\<close>

datatype ReceiptStatus = ReceiptSuccess | ReceiptReverted

record MintReceipt =
  mr_txHash :: hash
  mr_status :: ReceiptStatus
  mr_blockNumber :: int
  mr_blockHash :: hash
  mr_gasUsed :: int
  mr_effectiveGasPrice :: wei
  mr_l1DataFeeWei :: "wei option"
  mr_operatorFeeWei :: "wei option"
  mr_priorityFeeComponentWei :: "wei option"
  mr_confirmations :: int
  mr_finalityStage :: FinalityStage

datatype WalletStatus = WSuccess | WPrepared | WFailed | WTimeout | WSkipped | WKilled

datatype LifecycleState =
    LcPrepared | LcSubmitted | LcIncluded | LcPosted | LcEthereumFinal
  | LcReplaced | LcDropped | LcReorged | LcFailed | LcKilled

record WalletMintResult =
  wr_walletIndex :: int
  wr_address :: address
  wr_status :: WalletStatus
  wr_txHash :: "hash option"
  wr_nonce :: "int option"
  wr_gasUsed :: "int option"
  wr_effectiveGasPrice :: "wei option"
  wr_totalFeeWei :: "wei option"
  wr_totalCostWei :: "wei option"
  wr_error :: "string option"
  wr_executionId :: "string option"
  wr_reservationId :: "string option"
  wr_attemptIds :: "string list"
  wr_submittedAttemptId :: "string option"
  wr_lifecycleState :: "LifecycleState option"
  wr_reconciliationState :: "ReconciliationState option"

section \<open>Owner enablement\<close>

record RobinhoodEnablementGrant =
  rg_expiresAt :: string
  rg_paidAllowed :: bool

record BaseEnablementGrant =
  bg_expiresAt :: string
  bg_freeAllowed :: bool
  bg_paidAllowed :: bool

section \<open>Errors\<close>

datatype MintErrorType =
    NONCE_TOO_LOW
  | INSUFFICIENT_FUNDS
  | EXECUTION_REVERTED
  | RPC_ERROR
  | TIMEOUT
  | ALREADY_KNOWN
  | KILLED
  | SPEND_CAP_EXCEEDED
  | DROP_NOT_ACTIVE
  | SIMULATION_FAILED
  | CHAIN_NOT_VERIFIED
  | INVALID_CONFIG
  | UNKNOWN
  | PAID_ROBINHOOD_BLOCKED
  | CHAIN_EXECUTION_DISABLED
  | DURABLE_RESERVATION_REQUIRED
  | AMBIGUOUS_SUBMISSION
  | DROPPED_TRANSACTION
  | REORGED_TRANSACTION
  | STALE_SIMULATION
  | TIMING_GATE
  | PROVIDER_UNAVAILABLE

record MintError =
  me_type :: MintErrorType
  me_message :: string
  me_walletIndex :: "int option"

definition retryable :: "MintError \<Rightarrow> bool" where
  "retryable e \<longleftrightarrow> me_type e \<in> set
     [NONCE_TOO_LOW, RPC_ERROR, TIMEOUT, AMBIGUOUS_SUBMISSION, DROPPED_TRANSACTION]"

section \<open>Lemmas\<close>

lemma extra_at_None [simp]: "extra d = None \<Longrightarrow> extra_at d k = JUndef"
  by (simp add: extra_at_def)

lemma extra_at_Some [simp]:
  "extra d = Some kvs \<Longrightarrow> map_of kvs k = Some v \<Longrightarrow> extra_at d k = v"
  by (simp add: extra_at_def)

end
