(* ===== verification/ReplacementPolicy.thy ===== *)
theory ReplacementPolicy
  imports Types
begin

text \<open>
  The rules of a bounded same-nonce replacement (\<^verbatim>\<open>packages/engine/src/replacement-policy.ts\<close>):
  the fee step, the decision whether a replacement may be planned, the ceiling that keeps a given
  number of replacements possible, and the gas cost reserved at that ceiling. The locale
  \<open>increasing_step\<close> states what the ladder relies on: a step keeps fees valid and raises both
  of them; it is interpreted on \<open>nextStep\<close> once per fee.
\<close>

section \<open>Definitions\<close>

definition MIN_REPLACEMENT_BUMP_BPS :: int where
  "MIN_REPLACEMENT_BUMP_BPS = 1000"

definition MAX_REPLACEMENT_BUMPS_LIMIT :: int where
  "MAX_REPLACEMENT_BUMPS_LIMIT = 5"

definition BPS :: int where
  "BPS = 10000"

record Fees =
  maxFeePerGas :: wei
  maxPriorityFeePerGas :: wei

datatype ReplacementRefusal =
    REPLACEMENT_DISABLED
  | REPLACEMENT_LIMIT_REACHED
  | REPLACEMENT_MAY_HAVE_MINED
  | REPLACEMENT_MINED_STATUS_UNKNOWN
  | REPLACEMENT_CEILING_REACHED
  | REPLACEMENT_FEES_INVALID
  | REPLACEMENT_CONFIG_INVALID

datatype MinedStatus = MinedNo | MinedYes | MinedUnknown

datatype ReplacementDecision = Planned Fees jsnum | Refused ReplacementRefusal

definition validFees :: "Fees \<Rightarrow> bool" where
  "validFees fees \<longleftrightarrow>
     maxFeePerGas fees > 0 \<and> maxPriorityFeePerGas fees \<ge> 0 \<and>
     maxPriorityFeePerGas fees \<le> maxFeePerGas fees"

definition raise :: "int \<Rightarrow> int" where
  "raise value = (value * (BPS + MIN_REPLACEMENT_BUMP_BPS) + BPS - 1) sdiv BPS"

definition nextStep :: "Fees \<Rightarrow> Fees" where
  "nextStep current =
     (let raisedTip = raise (maxPriorityFeePerGas current);
          tip = (if raisedTip > maxPriorityFeePerGas current then raisedTip
                 else maxPriorityFeePerGas current + 1);
          raisedFee = raise (maxFeePerGas current)
      in \<lparr>maxFeePerGas = (if raisedFee > tip then raisedFee else tip),
          maxPriorityFeePerGas = tip\<rparr>)"

record ReplacementInput =
  ri_current :: Fees
  ri_ceiling :: Fees
  ri_bumpsUsed :: jsnum
  ri_maxBumps :: jsnum
  ri_mayHaveMined :: MinedStatus

definition planReplacement :: "ReplacementInput \<Rightarrow> ReplacementDecision" where
  "planReplacement i =
     (if \<not> isSafeInteger (ri_maxBumps i) \<or> js_lt (ri_maxBumps i) (jint 0)
         \<or> js_lt (jint MAX_REPLACEMENT_BUMPS_LIMIT) (ri_maxBumps i)
         \<or> \<not> isSafeInteger (ri_bumpsUsed i) \<or> js_lt (ri_bumpsUsed i) (jint 0)
      then Refused REPLACEMENT_CONFIG_INVALID
      else if ri_maxBumps i = jint 0 then Refused REPLACEMENT_DISABLED
      else if js_le (ri_maxBumps i) (ri_bumpsUsed i) then Refused REPLACEMENT_LIMIT_REACHED
      else if ri_mayHaveMined i = MinedYes then Refused REPLACEMENT_MAY_HAVE_MINED
      else if ri_mayHaveMined i \<noteq> MinedNo then Refused REPLACEMENT_MINED_STATUS_UNKNOWN
      else if \<not> validFees (ri_current i) \<or> \<not> validFees (ri_ceiling i)
      then Refused REPLACEMENT_FEES_INVALID
      else
        let next = nextStep (ri_current i)
        in if maxFeePerGas next > maxFeePerGas (ri_ceiling i)
              \<or> maxPriorityFeePerGas next > maxPriorityFeePerGas (ri_ceiling i)
           then Refused REPLACEMENT_CEILING_REACHED
           else Planned next (js_add (ri_bumpsUsed i) (jint 1)))"

text \<open>The loop \<^verbatim>\<open>for (step = 0; step < maxBumps; step += 1) fees = nextStep(fees)\<close>.\<close>

fun bumpLoop :: "nat \<Rightarrow> Fees \<Rightarrow> Fees" where
  "bumpLoop 0 fees = fees"
| "bumpLoop (Suc n) fees = bumpLoop n (nextStep fees)"

definition requiredCeiling :: "Fees \<Rightarrow> jsnum \<Rightarrow> ReplacementRefusal + Fees" where
  "requiredCeiling initial maxBumps =
     (if \<not> isSafeInteger maxBumps \<or> js_lt maxBumps (jint 0)
         \<or> js_lt (jint MAX_REPLACEMENT_BUMPS_LIMIT) maxBumps
      then Inl REPLACEMENT_CONFIG_INVALID
      else if \<not> validFees initial then Inl REPLACEMENT_FEES_INVALID
      else Inr (bumpLoop (nat (js_int maxBumps)) initial))"

definition ceilingWithinPolicy :: "Fees \<Rightarrow> Fees \<Rightarrow> bool" where
  "ceilingWithinPolicy c policy \<longleftrightarrow>
     validFees c \<and> validFees policy \<and> maxFeePerGas c \<le> maxFeePerGas policy \<and>
     maxPriorityFeePerGas c \<le> maxPriorityFeePerGas policy"

definition reservedGasCostWei :: "int \<Rightarrow> Fees \<Rightarrow> ReplacementRefusal + wei" where
  "reservedGasCostWei gasLimit c =
     (if gasLimit \<le> 0 \<or> \<not> validFees c then Inl REPLACEMENT_FEES_INVALID
      else Inr (gasLimit * maxFeePerGas c))"

text \<open>The order of the two fees at once, used to state what a ceiling allows.\<close>

definition feesLe :: "Fees \<Rightarrow> Fees \<Rightarrow> bool" where
  "feesLe a b \<longleftrightarrow> maxFeePerGas a \<le> maxFeePerGas b \<and> maxPriorityFeePerGas a \<le> maxPriorityFeePerGas b"

section \<open>The contract of a fee step\<close>

locale increasing_step =
  fixes step :: "'a \<Rightarrow> 'a"
    and fits :: "'a \<Rightarrow> bool"
    and rank :: "'a \<Rightarrow> int"
  assumes fits_step: "fits x \<Longrightarrow> fits (step x)"
    and rank_step: "fits x \<Longrightarrow> rank x < rank (step x)"
begin

lemma fits_iter: "fits x \<Longrightarrow> fits ((step ^^ n) x)"
  by (induction n) (auto intro: fits_step)

lemma rank_iter: "fits x \<Longrightarrow> rank x + int n \<le> rank ((step ^^ n) x)"
proof (induction n)
  case 0
  then show ?case by simp
next
  case (Suc n)
  with rank_step [OF fits_iter [OF Suc.prems], of n] show ?case by simp
qed

lemma rank_iter_mono:
  assumes "fits x" and "m \<le> n"
  shows "rank ((step ^^ m) x) \<le> rank ((step ^^ n) x)"
proof -
  from \<open>m \<le> n\<close> obtain k where n: "n = k + m" by (metis add.commute le_Suc_ex)
  have "rank ((step ^^ m) x) + int k \<le> rank ((step ^^ k) ((step ^^ m) x))"
    by (rule rank_iter [OF fits_iter [OF \<open>fits x\<close>]])
  then show ?thesis by (simp add: n funpow_add)
qed

end

section \<open>The fee step\<close>

lemmas bump_consts = BPS_def MIN_REPLACEMENT_BUMP_BPS_def MAX_REPLACEMENT_BUMPS_LIMIT_def

lemma raise_eq: "0 \<le> v \<Longrightarrow> raise v = (v * 11000 + 9999) div 10000"
  by (simp add: raise_def bump_consts sdiv_nonneg)

lemma raise_percent: "0 \<le> v \<Longrightarrow> v * 11000 \<le> raise v * 10000"
  using ceil_div_ge [of 10000 "v * 11000"] by (simp add: raise_eq add.commute add_diff_eq)

lemma raise_least: "0 \<le> v \<Longrightarrow> raise v * 10000 < v * 11000 + 10000"
proof -
  assume "0 \<le> v"
  have "((v * 11000 + 9999) div 10000) * 10000 \<le> v * 11000 + 9999"
    by (metis (no_types) add.commute div_mult_mod_eq le_add_same_cancel2 pos_mod_sign zero_less_numeral)
  with \<open>0 \<le> v\<close> show ?thesis by (simp add: raise_eq)
qed

lemma raise_gt: "0 < v \<Longrightarrow> v < raise v"
  using raise_percent [of v] by linarith

lemma raise_mono: "0 \<le> a \<Longrightarrow> a \<le> b \<Longrightarrow> raise a \<le> raise b"
  by (simp add: raise_eq zdiv_mono1)

lemma nextStep_tip: "validFees f \<Longrightarrow>
    maxPriorityFeePerGas (nextStep f) =
      (if maxPriorityFeePerGas f = 0 then 1 else raise (maxPriorityFeePerGas f))"
  using raise_gt [of "maxPriorityFeePerGas f"]
  by (auto simp: nextStep_def Let_def validFees_def raise_eq)

lemma nextStep_fee: "validFees f \<Longrightarrow> maxFeePerGas (nextStep f) = raise (maxFeePerGas f)"
proof -
  assume v: "validFees f"
  then have "maxPriorityFeePerGas (nextStep f) \<le> raise (maxFeePerGas f)"
    using raise_mono [of "maxPriorityFeePerGas f" "maxFeePerGas f"] raise_gt [of "maxFeePerGas f"]
    by (auto simp: nextStep_tip validFees_def)
  moreover have "maxFeePerGas (nextStep f) =
      max (raise (maxFeePerGas f)) (maxPriorityFeePerGas (nextStep f))"
    by (simp add: nextStep_def Let_def max_def)
  ultimately show ?thesis by simp
qed

lemma nextStep_valid: "validFees f \<Longrightarrow> validFees (nextStep f)"
  using raise_gt [of "maxFeePerGas f"] raise_gt [of "maxPriorityFeePerGas f"]
    raise_mono [of "maxPriorityFeePerGas f" "maxFeePerGas f"]
  by (auto simp: validFees_def nextStep_fee nextStep_tip)

interpretation fee_step: increasing_step nextStep validFees maxFeePerGas
proof unfold_locales
  show "validFees x \<Longrightarrow> validFees (nextStep x)" for x by (rule nextStep_valid)
  show "validFees x \<Longrightarrow> maxFeePerGas x < maxFeePerGas (nextStep x)" for x
    using raise_gt [of "maxFeePerGas x"] by (simp add: nextStep_fee validFees_def)
qed

interpretation tip_step: increasing_step nextStep validFees maxPriorityFeePerGas
proof unfold_locales
  show "validFees x \<Longrightarrow> validFees (nextStep x)" for x by (rule nextStep_valid)
  show "validFees x \<Longrightarrow> maxPriorityFeePerGas x < maxPriorityFeePerGas (nextStep x)" for x
    using raise_gt [of "maxPriorityFeePerGas x"] by (auto simp: nextStep_tip validFees_def)
qed

lemma bumpLoop_funpow: "bumpLoop n f = (nextStep ^^ n) f"
  by (induction n arbitrary: f) (simp_all add: funpow_swap1)

lemma bumpLoop_Suc: "bumpLoop (Suc n) f = nextStep (bumpLoop n f)"
  by (simp only: bumpLoop_funpow funpow.simps o_apply)

lemma bumpLoop_valid: "validFees f \<Longrightarrow> validFees (bumpLoop n f)"
  by (simp add: bumpLoop_funpow fee_step.fits_iter)

lemma bumpLoop_mono: "validFees f \<Longrightarrow> m \<le> n \<Longrightarrow> feesLe (bumpLoop m f) (bumpLoop n f)"
  by (simp add: bumpLoop_funpow feesLe_def fee_step.rank_iter_mono tip_step.rank_iter_mono)

section \<open>The decision\<close>

lemma bumps_in_range: "\<bar>n\<bar> \<le> MAX_SAFE_INTEGER \<Longrightarrow>
   planReplacement \<lparr>ri_current = c, ri_ceiling = l, ri_bumpsUsed = jint k, ri_maxBumps = jint n,
       ri_mayHaveMined = m\<rparr> = Planned next b \<longleftrightarrow>
     0 < n \<and> n \<le> 5 \<and> 0 \<le> k \<and> k < n \<and> m = MinedNo \<and> validFees c \<and> validFees l \<and>
     next = nextStep c \<and> feesLe next l \<and> b = jint (k + 1)"
  by (auto simp: planReplacement_def Let_def feesLe_def MAX_REPLACEMENT_BUMPS_LIMIT_def
      MAX_SAFE_INTEGER_def not_less)

lemma planned_iff:
  "planReplacement i = Planned next b \<longleftrightarrow>
     (\<exists>k n. ri_bumpsUsed i = jint k \<and> ri_maxBumps i = jint n \<and>
        0 \<le> k \<and> k < n \<and> n \<le> MAX_REPLACEMENT_BUMPS_LIMIT \<and> b = jint (k + 1)) \<and>
     ri_mayHaveMined i = MinedNo \<and> validFees (ri_current i) \<and> validFees (ri_ceiling i) \<and>
     next = nextStep (ri_current i) \<and> feesLe next (ri_ceiling i)"
  (is "?L \<longleftrightarrow> ?R")
proof
  assume L: ?L
  then have "isSafeInteger (ri_maxBumps i)" and "isSafeInteger (ri_bumpsUsed i)"
    by (auto simp: planReplacement_def split: if_splits)
  then obtain k n where kn: "ri_bumpsUsed i = jint k" "ri_maxBumps i = jint n"
    by (auto simp: isSafeInteger_jint)
  with L show ?R
    by (auto simp: planReplacement_def Let_def feesLe_def not_less split: if_splits)
next
  assume ?R
  then obtain k n where kn: "ri_bumpsUsed i = jint k" "ri_maxBumps i = jint n" "0 \<le> k" "k < n"
    "n \<le> MAX_REPLACEMENT_BUMPS_LIMIT" "b = jint (k + 1)"
    and rest: "ri_mayHaveMined i = MinedNo" "validFees (ri_current i)" "validFees (ri_ceiling i)"
    "next = nextStep (ri_current i)" "feesLe next (ri_ceiling i)"
    by auto
  from kn(3-5) have "\<bar>n\<bar> \<le> MAX_SAFE_INTEGER" "\<bar>k\<bar> \<le> MAX_SAFE_INTEGER" "n \<noteq> 0" "\<not> n < 0"
    by (auto simp: MAX_REPLACEMENT_BUMPS_LIMIT_def MAX_SAFE_INTEGER_def)
  with kn rest show ?L
    by (auto simp: planReplacement_def Let_def feesLe_def not_less not_le)
qed

section \<open>Properties\<close>

text \<open>
  C36. A replacement is planned exactly under the documented conditions, and then both fees rise
  by at least ten percent (the tip by at least one unit), stay ordered and stay within the
  ceiling, and the bump counter advances by one and never passes the limit of five.
\<close>

theorem planned_replacement_sound:
  assumes "planReplacement i = Planned next b"
  shows "ri_mayHaveMined i = MinedNo \<and>
    maxFeePerGas (ri_current i) * 11000 \<le> maxFeePerGas next * 10000 \<and>
    maxPriorityFeePerGas (ri_current i) * 11000 \<le> maxPriorityFeePerGas next * 10000 \<and>
    maxPriorityFeePerGas (ri_current i) < maxPriorityFeePerGas next \<and>
    validFees next \<and> feesLe next (ri_ceiling i) \<and>
    (\<exists>k. ri_bumpsUsed i = jint k \<and> b = jint (k + 1) \<and> 0 \<le> k \<and> k + 1 \<le> MAX_REPLACEMENT_BUMPS_LIMIT)"
proof -
  from assms have v: "validFees (ri_current i)" and n: "next = nextStep (ri_current i)"
    and le: "feesLe next (ri_ceiling i)" and no: "ri_mayHaveMined i = MinedNo"
    and ks: "\<exists>k. ri_bumpsUsed i = jint k \<and> b = jint (k + 1) \<and> 0 \<le> k \<and> k + 1 \<le> MAX_REPLACEMENT_BUMPS_LIMIT"
    by (auto simp: planned_iff)
  have "maxFeePerGas (ri_current i) * 11000 \<le> maxFeePerGas next * 10000"
    using v by (simp add: n nextStep_fee validFees_def raise_percent)
  moreover have "maxPriorityFeePerGas (ri_current i) * 11000 \<le> maxPriorityFeePerGas next * 10000"
    using v raise_percent [of "maxPriorityFeePerGas (ri_current i)"]
    by (auto simp: n nextStep_tip validFees_def)
  moreover have "maxPriorityFeePerGas (ri_current i) < maxPriorityFeePerGas next"
    using tip_step.rank_step [OF v] by (simp add: n)
  ultimately show ?thesis using nextStep_valid [OF v] le no ks n by simp
qed

theorem planned_replacement_sound_witness:
  "planReplacement \<lparr>ri_current = \<lparr>maxFeePerGas = 100, maxPriorityFeePerGas = 0\<rparr>,
      ri_ceiling = \<lparr>maxFeePerGas = 200, maxPriorityFeePerGas = 5\<rparr>,
      ri_bumpsUsed = jint 0, ri_maxBumps = jint 3, ri_mayHaveMined = MinedNo\<rparr> =
     Planned \<lparr>maxFeePerGas = 110, maxPriorityFeePerGas = 1\<rparr> (jint 1) \<and>
   feesLe \<lparr>maxFeePerGas = 110, maxPriorityFeePerGas = 1\<rparr> \<lparr>maxFeePerGas = 200, maxPriorityFeePerGas = 5\<rparr>"
proof -
  let ?i = "\<lparr>ri_current = \<lparr>maxFeePerGas = 100, maxPriorityFeePerGas = 0\<rparr>,
      ri_ceiling = \<lparr>maxFeePerGas = 200, maxPriorityFeePerGas = 5\<rparr>,
      ri_bumpsUsed = jint 0, ri_maxBumps = jint 3, ri_mayHaveMined = MinedNo\<rparr>"
  have h: "planReplacement ?i = Planned \<lparr>maxFeePerGas = 110, maxPriorityFeePerGas = 1\<rparr> (jint 1)"
    by (simp add: planReplacement_def nextStep_def raise_def bump_consts validFees_def Let_def
        MAX_SAFE_INTEGER_def sdiv_nonneg)
  show ?thesis using h planned_replacement_sound [OF h] by simp
qed

text \<open>
  \<open>requiredCeiling\<close> is exact: from the initial fees, all of the \<open>n\<close> configured replacements
  can be planned one after the other under a valid ceiling if and only if the ceiling is at
  least the computed one in both fees.
\<close>

theorem requiredCeiling_exact:
  assumes "requiredCeiling initial (jint (int n)) = Inr needed" and "validFees c" and "0 < n"
  shows "(\<forall>k < n. planReplacement \<lparr>ri_current = bumpLoop k initial, ri_ceiling = c,
             ri_bumpsUsed = jint (int k), ri_maxBumps = jint (int n), ri_mayHaveMined = MinedNo\<rparr>
           = Planned (bumpLoop (Suc k) initial) (jint (int k + 1)))
         \<longleftrightarrow> feesLe needed c"
    (is "?all \<longleftrightarrow> ?le")
proof -
  from assms(1) have v: "validFees initial" and n5: "int n \<le> MAX_REPLACEMENT_BUMPS_LIMIT"
    and nd: "needed = bumpLoop n initial"
    by (auto simp: requiredCeiling_def not_less split: if_splits)
  have step: "planReplacement \<lparr>ri_current = bumpLoop k initial, ri_ceiling = c,
             ri_bumpsUsed = jint (int k), ri_maxBumps = jint (int n), ri_mayHaveMined = MinedNo\<rparr>
           = Planned (bumpLoop (Suc k) initial) (jint (int k + 1))
         \<longleftrightarrow> feesLe (bumpLoop (Suc k) initial) c" if "k < n" for k
    using that n5 assms(2) bumpLoop_valid [OF v, of k] bumps_in_range [of "int n" _ _ "int k"]
    by (simp add: bumpLoop_Suc MAX_SAFE_INTEGER_def MAX_REPLACEMENT_BUMPS_LIMIT_def
        del: bumpLoop.simps of_int_of_nat_eq)
  show ?thesis
  proof
    assume ?all
    with step have "feesLe (bumpLoop (Suc k) initial) c" if "k < n" for k
      using that by blast
    from this [of "n - 1"] assms(3) show ?le by (simp add: nd del: bumpLoop.simps)
  next
    assume ?le
    then have "feesLe (bumpLoop (Suc k) initial) c" if "k < n" for k
      using bumpLoop_mono [OF v, of "Suc k" n] that by (auto simp: nd feesLe_def simp del: bumpLoop.simps)
    with step show ?all by blast
  qed
qed

theorem requiredCeiling_exact_witness:
  "requiredCeiling \<lparr>maxFeePerGas = 100, maxPriorityFeePerGas = 10\<rparr> (jint (int 2)) =
     Inr \<lparr>maxFeePerGas = 121, maxPriorityFeePerGas = 13\<rparr> \<and>
   planReplacement \<lparr>ri_current = bumpLoop 1 \<lparr>maxFeePerGas = 100, maxPriorityFeePerGas = 10\<rparr>,
        ri_ceiling = \<lparr>maxFeePerGas = 130, maxPriorityFeePerGas = 13\<rparr>,
        ri_bumpsUsed = jint (int 1), ri_maxBumps = jint (int 2), ri_mayHaveMined = MinedNo\<rparr>
      = Planned (bumpLoop (Suc 1) \<lparr>maxFeePerGas = 100, maxPriorityFeePerGas = 10\<rparr>) (jint (int 1 + 1))"
proof -
  have h: "requiredCeiling \<lparr>maxFeePerGas = 100, maxPriorityFeePerGas = 10\<rparr> (jint (int 2)) =
     Inr \<lparr>maxFeePerGas = 121, maxPriorityFeePerGas = 13\<rparr>"
    by (simp add: requiredCeiling_def numeral_2_eq_2 nextStep_def raise_def bump_consts validFees_def
        Let_def MAX_SAFE_INTEGER_def sdiv_nonneg)
  have v: "validFees \<lparr>maxFeePerGas = 130, maxPriorityFeePerGas = 13\<rparr>" by (simp add: validFees_def)
  have le: "feesLe \<lparr>maxFeePerGas = 121, maxPriorityFeePerGas = 13\<rparr> \<lparr>maxFeePerGas = 130, maxPriorityFeePerGas = 13\<rparr>"
    by (simp add: feesLe_def)
  have two: "(0::nat) < 2" and one: "(1::nat) < 2" by simp_all
  from requiredCeiling_exact [OF h v two] le one show ?thesis using h by blast
qed

end
