(* ===== verification/ReplacementLadder.thy ===== *)
theory ReplacementLadder
  imports ReplacementPolicy
begin

text \<open>
  The loop that decides, while a sent mint is unmined, whether to send a bounded same-nonce
  replacement (\<^verbatim>\<open>packages/engine/src/replacement-ladder.ts\<close>). Every side effect of the source is
  injected through \<^verbatim>\<open>LadderDeps\<close>; here each dependency is a function over an abstract
  state \<open>'s\<close> that returns its answer (\<open>Inl\<close> when the source's promise rejects) and the new
  state. The endless \<^verbatim>\<open>for (;;)\<close> is a \<open>partial_function (option)\<close>: \<open>None\<close> is "never returns".

  The locale \<open>ladder_env\<close> states what the loop relies on: the clock reads the state and only
  moves forward, a sleep takes at least the requested time, and only \<open>send\<close> puts a transaction
  on the wire, the one \<open>prepare\<close> made (\<open>good\<close>). Inside it the loop is shown to return and every transaction it sent is shown to
  be in the set it returns.
\<close>

section \<open>Definitions\<close>

record LadderAttempt =
  la_hash :: hash
  la_attemptId :: string
  la_fees :: Fees

record PreparedReplacement =
  signedTx :: hex
  pr_hash :: hash
  pr_attemptId :: string

datatype SendOutcome = SendAccepted | SendAmbiguous | SendRejected

datatype NonceState = NonceConsumed | NonceFree

record 's LadderDeps =
  now :: "'s \<Rightarrow> int \<times> 's"
  sleep :: "int \<Rightarrow> 's \<Rightarrow> 's"
  findMinedHash :: "hash list \<Rightarrow> 's \<Rightarrow> (unit + hash option) \<times> 's"
  nonceState :: "'s \<Rightarrow> (unit + NonceState) \<times> 's"
  preChecks :: "'s \<Rightarrow> string option \<times> 's"
  prepare :: "Fees \<Rightarrow> jsnum \<Rightarrow> string \<Rightarrow> 's \<Rightarrow> (unit + PreparedReplacement) \<times> 's"
  send :: "PreparedReplacement \<Rightarrow> jsnum \<Rightarrow> string \<Rightarrow> 's \<Rightarrow> (unit + SendOutcome) \<times> 's"

record LadderInput =
  li_attempts :: "LadderAttempt list"
  li_maxBumps :: jsnum
  li_ceiling :: Fees
  stuckAfterMs :: int
  pollMs :: int
  li_lastSentAt :: int

datatype LadderStop =
    MINED
  | NONCE_CONSUMED
  | MINED_STATUS_UNKNOWN
  | PRE_CHECK_REFUSED
  | SIGNER_REFUSED
  | REPLACEMENT_REJECTED
  | STOP_DISABLED
  | STOP_LIMIT_REACHED
  | STOP_CEILING_REACHED
  | STOP_CONFIG_INVALID
  | STOP_FEES_INVALID

record LadderResult =
  lr_attempts :: "LadderAttempt list"
  winner :: "hash option"
  stop :: LadderStop
  detail :: "string option"

definition stopped :: "LadderAttempt list \<Rightarrow> LadderStop \<Rightarrow> LadderResult" where
  "stopped as s = \<lparr>lr_attempts = as, winner = None, stop = s, detail = None\<rparr>"

fun stopOfReason :: "ReplacementRefusal \<Rightarrow> LadderStop" where
  "stopOfReason REPLACEMENT_MAY_HAVE_MINED = MINED_STATUS_UNKNOWN"
| "stopOfReason REPLACEMENT_MINED_STATUS_UNKNOWN = MINED_STATUS_UNKNOWN"
| "stopOfReason REPLACEMENT_DISABLED = STOP_DISABLED"
| "stopOfReason REPLACEMENT_LIMIT_REACHED = STOP_LIMIT_REACHED"
| "stopOfReason REPLACEMENT_CEILING_REACHED = STOP_CEILING_REACHED"
| "stopOfReason REPLACEMENT_CONFIG_INVALID = STOP_CONFIG_INVALID"
| "stopOfReason REPLACEMENT_FEES_INVALID = STOP_FEES_INVALID"

text \<open>How an iteration ends: the loop returns, or it goes round with new attempts and send time.\<close>

datatype 's LadderStep =
    Return LadderResult 's
  | Again "LadderAttempt list" int 's

definition decisionOf :: "LadderInput \<Rightarrow> LadderAttempt list \<Rightarrow> MinedStatus \<Rightarrow> ReplacementDecision" where
  "decisionOf i as m = planReplacement
     \<lparr>ri_current = la_fees (last as), ri_ceiling = li_ceiling i,
      ri_bumpsUsed = jint (int (length as) - 1), ri_maxBumps = li_maxBumps i,
      ri_mayHaveMined = m\<rparr>"

text \<open>The part of the iteration after a replacement was decided: check, prepare, join the set, send.\<close>

definition tryReplace ::
  "LadderInput \<Rightarrow> 's LadderDeps \<Rightarrow> LadderAttempt list \<Rightarrow> Fees \<Rightarrow> jsnum \<Rightarrow> 's \<Rightarrow> 's LadderStep" where
  "tryReplace i d as nextFees bump s =
     (let (refusal, s1) = preChecks d s
      in if truthy refusal
         then Return \<lparr>lr_attempts = as, winner = None, stop = PRE_CHECK_REFUSED, detail = refusal\<rparr> s1
         else case prepare d nextFees bump (la_attemptId (last as)) s1 of
           (Inl _, s2) \<Rightarrow> Return (stopped as SIGNER_REFUSED) s2
         | (Inr p, s2) \<Rightarrow>
             let as' = as @ [\<lparr>la_hash = pr_hash p, la_attemptId = pr_attemptId p, la_fees = nextFees\<rparr>];
                 (sent, s3) = send d p bump (la_attemptId (last as)) s2;
                 outcome = (case sent of Inl _ \<Rightarrow> SendAmbiguous | Inr r \<Rightarrow> r);
                 (sentAt, s4) = now d s3
             in if outcome = SendRejected then Return (stopped as' REPLACEMENT_REJECTED) s4
                else Again as' sentAt (sleep d (pollMs i) s4))"

definition ladderIteration ::
  "LadderInput \<Rightarrow> 's LadderDeps \<Rightarrow> LadderAttempt list \<Rightarrow> int \<Rightarrow> 's \<Rightarrow> 's LadderStep" where
  "ladderIteration i d as lastSentAt s =
     (case findMinedHash d (map la_hash as) s of
        (Inl _, s1) \<Rightarrow> Return (stopped as MINED_STATUS_UNKNOWN) s1
      | (Inr mined, s1) \<Rightarrow>
          if truthy mined
          then Return \<lparr>lr_attempts = as, winner = mined, stop = MINED, detail = None\<rparr> s1
          else
            let (t, s2) = now d s1
            in if t - lastSentAt \<ge> stuckAfterMs i
               then (case nonceState d s2 of
                  (Inr NonceConsumed, s3) \<Rightarrow> Return (stopped as NONCE_CONSUMED) s3
                | (nonce, s3) \<Rightarrow>
                    let mayHaveMined = (if nonce = Inr NonceFree then MinedNo else MinedUnknown)
                    in (case decisionOf i as mayHaveMined of
                          Refused reason \<Rightarrow> Return (stopped as (stopOfReason reason)) s3
                        | Planned nextFees bump \<Rightarrow> tryReplace i d as nextFees bump s3))
               else Again as lastSentAt (sleep d (pollMs i) s2))"

partial_function (option) ladderLoop ::
  "LadderInput \<Rightarrow> 's LadderDeps \<Rightarrow> LadderAttempt list \<Rightarrow> int \<Rightarrow> 's \<Rightarrow> (LadderResult \<times> 's) option" where
  "ladderLoop i d as lastSentAt s =
     (case ladderIteration i d as lastSentAt s of
        Return r s' \<Rightarrow> Some (r, s')
      | Again as' sentAt s' \<Rightarrow> ladderLoop i d as' sentAt s')"

definition runReplacementLadder ::
  "LadderInput \<Rightarrow> 's LadderDeps \<Rightarrow> 's \<Rightarrow> (LadderResult \<times> 's) option" where
  "runReplacementLadder i d s =
     (if li_attempts i = []
      then Some (\<lparr>lr_attempts = [], winner = None, stop = STOP_CONFIG_INVALID,
                  detail = Some ''no original attempt''\<rparr>, s)
      else ladderLoop i d (li_attempts i) (li_lastSentAt i) s)"

section \<open>What one iteration may do\<close>

text \<open>
  A planned extension of the attempts: the newest fees were raised by one step, within the
  ceiling and within the number of bumps.
\<close>

definition extends :: "LadderInput \<Rightarrow> LadderAttempt list \<Rightarrow> LadderAttempt list \<Rightarrow> bool" where
  "extends i as as' \<longleftrightarrow>
     (\<exists>a b. as' = as @ [a] \<and> decisionOf i as MinedNo = Planned (la_fees a) b)"

definition attemptsOf :: "'s LadderStep \<Rightarrow> LadderAttempt list" where
  "attemptsOf st = (case st of Return r _ \<Rightarrow> lr_attempts r | Again as _ _ \<Rightarrow> as)"

lemma stopped_attempts [simp]: "lr_attempts (stopped as s) = as"
  by (simp add: stopped_def)

lemma planned_needs_no: "decisionOf i as m = Planned f b \<Longrightarrow> m = MinedNo"
  by (auto simp: decisionOf_def planned_iff)

lemma tryReplace_attempts:
  assumes "decisionOf i as MinedNo = Planned f b"
  shows "attemptsOf (tryReplace i d as f b s) = as \<or> extends i as (attemptsOf (tryReplace i d as f b s))"
  using assms
  by (auto simp: tryReplace_def attemptsOf_def extends_def Let_def split: prod.splits sum.splits)

lemma ladderIteration_attempts:
  "attemptsOf (ladderIteration i d as t s) = as \<or> extends i as (attemptsOf (ladderIteration i d as t s))"
proof -
  have replace: "decisionOf i as m = Planned f b \<Longrightarrow>
      attemptsOf (tryReplace i d as f b s') = as \<or> extends i as (attemptsOf (tryReplace i d as f b s'))"
    for m f b s'
    using tryReplace_attempts planned_needs_no by metis
  show ?thesis
    unfolding ladderIteration_def Let_def
    by (auto simp: attemptsOf_def [where st = "Return _ _"] attemptsOf_def [where st = "Again _ _ _"]
        split: prod.split sum.split NonceState.split ReplacementDecision.split dest: replace)
qed

section \<open>The whole loop\<close>

inductive ladderReach :: "LadderInput \<Rightarrow> LadderAttempt list \<Rightarrow> LadderAttempt list \<Rightarrow> bool"
  for i :: LadderInput where
  reach_refl: "ladderReach i as as"
| reach_step: "ladderReach i as bs \<Longrightarrow> extends i bs cs \<Longrightarrow> ladderReach i as cs"

lemma reach_trans_step: "extends i as bs \<Longrightarrow> ladderReach i bs cs \<Longrightarrow> ladderReach i as cs"
  by (rotate_tac, induction rule: ladderReach.induct) (auto intro: ladderReach.intros)

lemma ladderLoop_reach:
  assumes "ladderLoop i d as t s = Some (r, s')"
  shows "ladderReach i as (lr_attempts r)"
proof -
  have "case res of (r, s') \<Rightarrow> ladderReach i as (lr_attempts r)"
    if ret: "ladderLoop i d as t s = Some res" for res
  proof (rule ladderLoop.raw_induct
      [where P = "\<lambda>i d as t s res. (case res of (r, s') \<Rightarrow> ladderReach i as (lr_attempts r))", OF _ ret])
    fix f :: "LadderInput \<Rightarrow> 'a LadderDeps \<Rightarrow> LadderAttempt list \<Rightarrow> int \<Rightarrow> 'a \<Rightarrow> (LadderResult \<times> 'a) option"
      and i d as t s and res :: "LadderResult \<times> 'a"
    assume IH: "\<And>i d as t s res. f i d as t s = Some res \<Longrightarrow>
        (case res of (r, s') \<Rightarrow> ladderReach i as (lr_attempts r))"
      and eq: "(case ladderIteration i d as t s of Return r s' \<Rightarrow> Some (r, s')
        | Again as' t' s' \<Rightarrow> f i d as' t' s') = Some res"
    show "case res of (r, s') \<Rightarrow> ladderReach i as (lr_attempts r)"
      using eq IH ladderIteration_attempts [of i d as t s]
      by (auto simp: attemptsOf_def split: LadderStep.splits prod.splits
          intro: ladderReach.intros reach_trans_step)
  qed
  with assms show ?thesis by force
qed

lemma run_reach:
  "runReplacementLadder i d s = Some (r, s') \<Longrightarrow> ladderReach i (li_attempts i) (lr_attempts r)"
  by (auto simp: runReplacementLadder_def split: if_splits
      intro: ladderLoop_reach ladderReach.intros)

lemma extends_facts:
  assumes "extends i as bs" and "as \<noteq> []"
  shows "\<exists>a. bs = as @ [a] \<and> la_fees a = nextStep (la_fees (last as)) \<and>
     validFees (la_fees (last as)) \<and> feesLe (la_fees a) (li_ceiling i) \<and>
     (\<exists>n. li_maxBumps i = jint n \<and> int (length as) \<le> n \<and> n \<le> MAX_REPLACEMENT_BUMPS_LIMIT)"
  using assms by (auto simp: extends_def decisionOf_def planned_iff)

text \<open>The shape every reachable set of attempts has.\<close>

definition ladderShape :: "LadderInput \<Rightarrow> LadderAttempt list \<Rightarrow> LadderAttempt list \<Rightarrow> bool" where
  "ladderShape i as bs \<longleftrightarrow>
     (\<exists>new. bs = as @ new \<and>
        map la_fees new = map (\<lambda>k. bumpLoop (Suc k) (la_fees (last as))) [0..<length new] \<and>
        (\<forall>a \<in> set new. feesLe (la_fees a) (li_ceiling i)) \<and>
        (new \<noteq> [] \<longrightarrow> (\<exists>n. li_maxBumps i = jint n \<and> int (length bs) - 1 \<le> n
                         \<and> n \<le> MAX_REPLACEMENT_BUMPS_LIMIT)))"

lemma ladderShape_last:
  assumes "ladderShape i as bs" and "as \<noteq> []"
  shows "la_fees (last bs) = bumpLoop (length bs - length as) (la_fees (last as))"
proof -
  from assms obtain new where new: "bs = as @ new"
    "map la_fees new = map (\<lambda>k. bumpLoop (Suc k) (la_fees (last as))) [0..<length new]"
    by (auto simp: ladderShape_def)
  show ?thesis
  proof (cases new rule: rev_cases)
    case Nil
    with new show ?thesis by simp
  next
    case (snoc ys y)
    with new(2) have "la_fees y = bumpLoop (Suc (length ys)) (la_fees (last as))" by simp
    with snoc new(1) show ?thesis by simp
  qed
qed

lemma ladderReach_shape: "ladderReach i as bs \<Longrightarrow> as \<noteq> [] \<Longrightarrow> ladderShape i as bs"
proof (induction rule: ladderReach.induct)
  case (reach_refl as)
  then show ?case by (auto simp: ladderShape_def)
next
  case (reach_step as bs cs)
  then have shape: "ladderShape i as bs" by simp
  then obtain new where bs: "bs = as @ new"
    and fees: "map la_fees new = map (\<lambda>k. bumpLoop (Suc k) (la_fees (last as))) [0..<length new]"
    and le: "\<forall>a \<in> set new. feesLe (la_fees a) (li_ceiling i)"
    by (auto simp: ladderShape_def)
  from bs reach_step.prems have "bs \<noteq> []" by simp
  from extends_facts [OF reach_step.hyps(2) this] obtain a n where a: "cs = bs @ [a]"
    "la_fees a = nextStep (la_fees (last bs))" "feesLe (la_fees a) (li_ceiling i)"
    "li_maxBumps i = jint n" "int (length bs) \<le> n" "n \<le> MAX_REPLACEMENT_BUMPS_LIMIT"
    by auto
  have "la_fees a = bumpLoop (Suc (length new)) (la_fees (last as))"
    using ladderShape_last [OF shape reach_step.prems] by (simp add: a(2) bs bumpLoop_Suc del: bumpLoop.simps)
  then have "map la_fees (new @ [a]) =
      map (\<lambda>k. bumpLoop (Suc k) (la_fees (last as))) [0..<length (new @ [a])]"
    using fees by simp
  moreover have "cs = as @ (new @ [a])" by (simp add: a bs)
  moreover have "int (length cs) - 1 \<le> n" using a by simp
  ultimately show ?case unfolding ladderShape_def
    using le a(3,4,6) by (intro exI [of _ "new @ [a]"]) auto
qed

section \<open>The environment of the loop\<close>

locale ladder_env =
  fixes d :: "'s LadderDeps"
    and clock :: "'s \<Rightarrow> int"
    and sent :: "'s \<Rightarrow> hash set"
    and good :: "PreparedReplacement \<Rightarrow> bool"
  assumes now_clock: "now d s = (t, s') \<Longrightarrow> t = clock s \<and> clock s' = clock s \<and> sent s' = sent s"
    and sleep_clock: "clock s + p \<le> clock (sleep d p s) \<and> sent (sleep d p s) = sent s"
    and find_env: "findMinedHash d hs s = (r, s') \<Longrightarrow> clock s \<le> clock s' \<and> sent s' = sent s"
    and find_own: "findMinedHash d hs s = (Inr (Some h), s') \<Longrightarrow> h \<in> set hs"
    and nonce_env: "nonceState d s = (n, s') \<Longrightarrow> clock s \<le> clock s' \<and> sent s' = sent s"
    and checks_env: "preChecks d s = (c, s') \<Longrightarrow> clock s \<le> clock s' \<and> sent s' = sent s"
    and prepare_env: "prepare d f b ref s = (pp, s') \<Longrightarrow> clock s \<le> clock s' \<and> sent s' = sent s"
    and prepare_good: "prepare d f b ref s = (Inr pr, s') \<Longrightarrow> good pr"
    and send_env: "send d pr b ref s = (q, s') \<Longrightarrow> good pr \<Longrightarrow> clock s \<le> clock s' \<and> sent s' \<subseteq> insert (pr_hash pr) (sent s)"
begin


text \<open>An iteration that goes round again either appended an attempt or let time pass.\<close>

lemma tryReplace_again:
  assumes "tryReplace i d as f b s = Again as' t' s'"
  shows "length as' = Suc (length as) \<and> clock s + pollMs i \<le> clock s' \<and> t' + pollMs i \<le> clock s' \<and>
    sent s' \<subseteq> sent s \<union> set (map la_hash as')"
proof -
  from assms obtain c s1 p s2 q s3 s4
    where *: "preChecks d s = (c, s1)" "prepare d f b (la_attemptId (last as)) s1 = (Inr p, s2)"
      "send d p b (la_attemptId (last as)) s2 = (q, s3)" "now d s3 = (t', s4)"
      "s' = sleep d (pollMs i) s4"
      "as' = as @ [\<lparr>la_hash = pr_hash p, la_attemptId = pr_attemptId p, la_fees = f\<rparr>]"
    by (auto simp: tryReplace_def Let_def split: prod.splits sum.splits if_splits)
  have "clock s \<le> clock s1 \<and> clock s1 \<le> clock s2 \<and> clock s2 \<le> clock s3 \<and> t' = clock s3 \<and>
      clock s4 = clock s3 \<and> clock s4 + pollMs i \<le> clock s'"
    using checks_env [OF *(1)] prepare_env [OF *(2)] send_env [OF *(3) prepare_good [OF *(2)]] now_clock [OF *(4)]
      sleep_clock [of s4 "pollMs i"] *(5) by simp
  moreover have "sent s' \<subseteq> insert (pr_hash p) (sent s)"
    using checks_env [OF *(1)] prepare_env [OF *(2)] send_env [OF *(3) prepare_good [OF *(2)]] now_clock [OF *(4)]
      sleep_clock [of s4 "pollMs i"] *(5) by simp
  ultimately show ?thesis using *(6) by auto
qed

lemma iteration_again:
  assumes "ladderIteration i d as t s = Again as' t' s'"
  shows "(as' = as \<and> t' = t \<and> clock s + pollMs i \<le> clock s' \<and> sent s' \<subseteq> sent s) \<or>
    (length as' = Suc (length as) \<and> extends i as as' \<and> t' + pollMs i \<le> clock s' \<and>
      clock s + pollMs i \<le> clock s' \<and> sent s' \<subseteq> sent s \<union> set (map la_hash as'))"
proof -
  from assms obtain m s1 t2 s2 where *: "findMinedHash d (map la_hash as) s = (Inr m, s1)"
    "now d s1 = (t2, s2)"
    by (auto simp: ladderIteration_def Let_def split: prod.splits sum.splits if_splits)
  have c: "clock s \<le> clock s1" "sent s1 = sent s" "clock s2 = clock s1" "sent s2 = sent s1"
    using find_env [OF *(1)] now_clock [OF *(2)] by auto
  show ?thesis
  proof (cases "t2 - t \<ge> stuckAfterMs i")
    case False
    with assms * have "as' = as \<and> t' = t \<and> s' = sleep d (pollMs i) s2"
      by (auto simp: ladderIteration_def split: if_splits)
    with c sleep_clock [of s2 "pollMs i"] show ?thesis by auto
  next
    case True
    obtain nc s3 where n: "nonceState d s2 = (nc, s3)" by fastforce
    with assms * True obtain mm f b where pl: "decisionOf i as mm = Planned f b"
      "tryReplace i d as f b s3 = Again as' t' s'"
      by (auto simp: ladderIteration_def Let_def
          split: if_splits sum.splits NonceState.splits ReplacementDecision.splits)
    have "extends i as as'"
      using tryReplace_attempts [of i as f b d s3] pl planned_needs_no [OF pl(1)]
        tryReplace_again [OF pl(2)] by (auto simp: attemptsOf_def)
    with tryReplace_again [OF pl(2)] nonce_env [OF n] c show ?thesis by auto
  qed
qed

text \<open>
  The loop returns: every round either appends an attempt, which can happen at most
  \<open>MAX_REPLACEMENT_BUMPS_LIMIT\<close> times, or moves the clock at least one poll closer to the moment
  the newest attempt counts as stuck; and once it is stuck, a round does not go on unchanged.
\<close>

lemma stuck_round:
  assumes "ladderIteration i d as t s = Again as' t' s'" and "t + stuckAfterMs i \<le> clock s"
  shows "length as' = Suc (length as) \<and> extends i as as'"
proof -
  from assms(1) obtain m s1 t2 s2 where *: "findMinedHash d (map la_hash as) s = (Inr m, s1)"
    "now d s1 = (t2, s2)"
    by (auto simp: ladderIteration_def Let_def split: prod.splits sum.splits if_splits)
  have "t2 - t \<ge> stuckAfterMs i"
    using find_env [OF *(1)] now_clock [OF *(2)] assms(2) by auto
  obtain nc s3 where n: "nonceState d s2 = (nc, s3)" by fastforce
  with assms * \<open>t2 - t \<ge> stuckAfterMs i\<close> obtain mm f b where pl: "decisionOf i as mm = Planned f b"
    "tryReplace i d as f b s3 = Again as' t' s'"
    by (auto simp: ladderIteration_def Let_def
        split: if_splits sum.splits NonceState.splits ReplacementDecision.splits)
  then show ?thesis
    using tryReplace_attempts [of i as f b d s3] planned_needs_no [OF pl(1)]
      tryReplace_again [OF pl(2)] by (auto simp: attemptsOf_def)
qed

definition rounds :: "LadderInput \<Rightarrow> LadderAttempt list \<Rightarrow> int \<Rightarrow> 's \<Rightarrow> nat \<times> nat" where
  "rounds i as t s = (6 - length as, nat (t + stuckAfterMs i - clock s))"

lemma rounds_decrease:
  assumes "ladderIteration i d as t s = Again as' t' s'" and "as \<noteq> []" and "0 < pollMs i"
  shows "((as', t', s'), (as, t, s)) \<in> inv_image (less_than <*lex*> less_than) (\<lambda>(as, t, s). rounds i as t s)"
proof (cases "extends i as as'")
  case True
  from extends_facts [OF this assms(2)] have "length as' = Suc (length as)" "length as \<le> 5"
    by (auto simp: MAX_REPLACEMENT_BUMPS_LIMIT_def)
  then show ?thesis by (auto simp: rounds_def)
next
  case False
  with iteration_again [OF assms(1)] have *: "as' = as" "t' = t" "clock s + pollMs i \<le> clock s'" by auto
  have "\<not> t + stuckAfterMs i \<le> clock s"
    using stuck_round [OF assms(1)] False by blast
  with * assms(3) show ?thesis by (auto simp: rounds_def)
qed

lemma loop_returns:
  assumes "as \<noteq> []" and "0 < pollMs i"
  shows "\<exists>r s'. ladderLoop i d as t s = Some (r, s')"
proof -
  let ?R = "inv_image (less_than <*lex*> less_than) (\<lambda>(as, t, s). rounds i as t s)"
  have "wf ?R" by (auto intro: wf_inv_image wf_lex_prod)
  then have "\<forall>as t s. x = (as, t, s) \<longrightarrow> as \<noteq> [] \<longrightarrow> (\<exists>r s'. ladderLoop i d as t s = Some (r, s'))" for x
  proof (induction x rule: wf_induct_rule)
    case (less x)
    show ?case
    proof (intro allI impI)
      fix as t s assume x: "x = (as, t, s)" and ne: "as \<noteq> []"
      show "\<exists>r s'. ladderLoop i d as t s = Some (r, s')"
      proof (cases "ladderIteration i d as t s")
        case (Return r s')
        then show ?thesis by (simp add: ladderLoop.simps [of i d as t s])
      next
        case (Again as' t' s')
        have "as' \<noteq> []" using iteration_again [OF Again] ne by auto
        with less rounds_decrease [OF Again ne assms(2)] x
        have "\<exists>r s''. ladderLoop i d as' t' s' = Some (r, s'')" by blast
        with Again show ?thesis by (simp add: ladderLoop.simps [of i d as t s])
      qed
    qed
  qed
  with assms(1) show ?thesis by blast
qed

lemma ladder_returns:
  "0 < pollMs i \<Longrightarrow> \<exists>r s'. runReplacementLadder i d s = Some (r, s')"
  using loop_returns by (auto simp: runReplacementLadder_def)

text \<open>Everything that went on the wire is in the set the loop returns.\<close>

lemma iteration_return:
  assumes "ladderIteration i d as t s = Return r s'"
  shows "sent s' \<subseteq> sent s \<union> set (map la_hash (lr_attempts r)) \<and>
    (\<forall>h. winner r = Some h \<longrightarrow> h \<in> set (map la_hash (lr_attempts r)))"
proof -
  obtain m s1 where f: "findMinedHash d (map la_hash as) s = (m, s1)" by fastforce
  obtain t2 s2 where n: "now d s1 = (t2, s2)" by fastforce
  obtain nc s3 where ns: "nonceState d s2 = (nc, s3)" by fastforce
  have c: "sent s1 = sent s" "sent s2 = sent s" "sent s3 = sent s"
    using find_env [OF f] now_clock [OF n] nonce_env [OF ns] by auto
  have repl: "sent s' \<subseteq> sent s \<union> set (map la_hash (lr_attempts r)) \<and> winner r = None"
    if "tryReplace i d as ff b s3 = Return r s'" for ff b
  proof -
    obtain q s4 where pc: "preChecks d s3 = (q, s4)" by fastforce
    obtain p s5 where pp: "prepare d ff b (la_attemptId (last as)) s4 = (p, s5)" by fastforce
    have e: "sent s4 = sent s" "sent s5 = sent s"
      using checks_env [OF pc] prepare_env [OF pp] c by auto
    show ?thesis
    proof (cases p)
      case (Inl u)
      with that pc pp e show ?thesis
        by (auto simp: tryReplace_def stopped_def split: if_splits)
    next
      case (Inr pr)
      obtain o6 s6 where sd: "send d pr b (la_attemptId (last as)) s5 = (o6, s6)" by fastforce
      obtain t7 s7 where nw: "now d s6 = (t7, s7)" by fastforce
      have "sent s7 \<subseteq> insert (pr_hash pr) (sent s)"
        using send_env [OF sd] prepare_good [of ff b _ s4 pr] pp Inr now_clock [OF nw] e by auto
      with that pc pp Inr sd nw e show ?thesis
        by (auto simp: tryReplace_def Let_def stopped_def split: if_splits)
    qed
  qed
  show ?thesis
    using assms f n ns c repl find_own [of "map la_hash as" s]
    by (cases m; cases nc) (auto simp: ladderIteration_def stopped_def Let_def
        split: if_splits NonceState.splits ReplacementDecision.splits option.splits)
qed

lemma loop_sent:
  assumes "ladderLoop i d as t s = Some (r, s')"
  shows "sent s' \<subseteq> sent s \<union> set (map la_hash (lr_attempts r)) \<and>
    set as \<subseteq> set (lr_attempts r) \<and>
    (\<forall>h. winner r = Some h \<longrightarrow> h \<in> set (map la_hash (lr_attempts r)))"
proof -
  let ?P = "\<lambda>i e as t s res. e = d \<longrightarrow> (case res of (r, s') \<Rightarrow>
      sent s' \<subseteq> sent s \<union> set (map la_hash (lr_attempts r)) \<and> set as \<subseteq> set (lr_attempts r) \<and>
      (\<forall>h. winner r = Some h \<longrightarrow> h \<in> set (map la_hash (lr_attempts r))))"
  have "?P i d as t s (r, s')"
  proof (rule ladderLoop.raw_induct [where P = ?P, OF _ assms], intro impI)
    fix f and i e as t s and res :: "LadderResult \<times> 's"
    assume IH: "\<And>i e as t s res. f i e as t s = Some res \<Longrightarrow> ?P i e as t s res"
      and eq: "(case ladderIteration i e as t s of Return r s' \<Rightarrow> Some (r, s')
        | Again as' t' s' \<Rightarrow> f i e as' t' s') = Some res"
      and e: "e = d"
    show "case res of (r, s') \<Rightarrow>
      sent s' \<subseteq> sent s \<union> set (map la_hash (lr_attempts r)) \<and> set as \<subseteq> set (lr_attempts r) \<and>
      (\<forall>h. winner r = Some h \<longrightarrow> h \<in> set (map la_hash (lr_attempts r)))"
    proof (cases "ladderIteration i d as t s")
      case (Return r s')
      have "attemptsOf (ladderIteration i d as t s) = lr_attempts r" by (simp add: Return attemptsOf_def)
      with ladderIteration_attempts [of i d as t s] have "set as \<subseteq> set (lr_attempts r)"
        by (auto simp: extends_def)
      with iteration_return [OF Return] eq Return e show ?thesis by auto
    next
      case (Again as' t' s')
      with eq e have "f i d as' t' s' = Some res" by simp
      from IH [OF this] have "case res of (r, s'') \<Rightarrow>
        sent s'' \<subseteq> sent s' \<union> set (map la_hash (lr_attempts r)) \<and> set as' \<subseteq> set (lr_attempts r) \<and>
        (\<forall>h. winner r = Some h \<longrightarrow> h \<in> set (map la_hash (lr_attempts r)))" by simp
      moreover have "set as \<subseteq> set as'" "sent s' \<subseteq> sent s \<union> set (map la_hash as')"
        using iteration_again [OF Again] by (auto simp: extends_def)
      ultimately show ?thesis by (fastforce split: prod.splits)
    qed
  qed
  then show ?thesis by simp
qed

text \<open>A fact about hashes that the original attempts and every replacement have, all attempts have.\<close>

lemma tryReplace_hashes:
  assumes "\<And>a. a \<in> set as \<Longrightarrow> P (la_hash a)" and "\<And>p. good p \<Longrightarrow> P (pr_hash p)" and "a \<in> set (attemptsOf (tryReplace i d as f b s))"
  shows "P (la_hash a)"
  using assms by (auto simp: tryReplace_def attemptsOf_def Let_def split: prod.splits sum.splits if_splits dest!: prepare_good)

lemma iteration_hashes:
  assumes "\<And>a. a \<in> set as \<Longrightarrow> P (la_hash a)" and "\<And>p. good p \<Longrightarrow> P (pr_hash p)"
    and "a \<in> set (attemptsOf (ladderIteration i d as t s))"
  shows "P (la_hash a)"
proof -
  have "attemptsOf (ladderIteration i d as t s) = as \<or>
      (\<exists>f b s'. attemptsOf (ladderIteration i d as t s) = attemptsOf (tryReplace i d as f b s'))"
    unfolding ladderIteration_def Let_def
    by (auto simp: attemptsOf_def [where st = "Return _ _"] attemptsOf_def [where st = "Again _ _ _"]
        split: prod.split sum.split NonceState.split ReplacementDecision.split)
  then show ?thesis using assms tryReplace_hashes [of as P] by metis
qed

lemma loop_hashes:
  assumes "ladderLoop i d as t s = Some (r, s')" and "\<And>p. good p \<Longrightarrow> P (pr_hash p)" and "\<forall>a \<in> set as. P (la_hash a)"
  shows "\<forall>a \<in> set (lr_attempts r). P (la_hash a)"
proof -
  let ?P = "\<lambda>i e as t s res. e = d \<longrightarrow> (\<forall>a \<in> set as. P (la_hash a)) \<longrightarrow> (\<forall>a \<in> set (lr_attempts (fst res)). P (la_hash a))"
  have "?P i d as t s (r, s')"
  proof (rule ladderLoop.raw_induct [where P = ?P, OF _ assms(1)], intro impI)
    fix f i e as t s and res :: "LadderResult \<times> 's"
    assume IH: "\<And>i e as t s res. f i e as t s = Some res \<Longrightarrow> ?P i e as t s res"
      and eq: "(case ladderIteration i e as t s of Return r s' \<Rightarrow> Some (r, s')
        | Again as' t' s' \<Rightarrow> f i e as' t' s') = Some res" and e: "e = d" and as: "\<forall>a \<in> set as. P (la_hash a)"
    show "\<forall>a \<in> set (lr_attempts (fst res)). P (la_hash a)"
      using eq e IH iteration_hashes [of as P, OF _ assms(2), of _ i t s] as
      by (auto simp: attemptsOf_def split: LadderStep.splits)
  qed
  with assms(3) show ?thesis by simp
qed

lemma ladder_hashes:
  assumes "runReplacementLadder i d s = Some (r, s')" and "\<And>p. good p \<Longrightarrow> P (pr_hash p)" and "\<forall>a \<in> set (li_attempts i). P (la_hash a)"
  shows "\<forall>a \<in> set (lr_attempts r). P (la_hash a)"
  using assms loop_hashes [of i _ _ _ r s' P] by (auto simp: runReplacementLadder_def split: if_splits)

lemma ladder_winner:
  "runReplacementLadder i d s = Some (r, s') \<Longrightarrow> winner r = Some h \<Longrightarrow> h \<in> set (map la_hash (lr_attempts r))"
  by (auto simp: runReplacementLadder_def split: if_splits dest!: loop_sent)

end

section \<open>Invariants of the state\<close>

text \<open>
  What every dependency keeps, the whole loop keeps; \<open>send\<close> may rely on what \<open>prepare\<close> has just
  established for the replacement it returned.
\<close>

locale ladder_inv =
  fixes d :: "'s LadderDeps"
    and I :: "'s \<Rightarrow> bool"
    and J :: "PreparedReplacement \<Rightarrow> 's \<Rightarrow> bool"
  assumes now_inv: "I s \<Longrightarrow> I (snd (now d s))"
    and sleep_inv: "I s \<Longrightarrow> I (sleep d p s)"
    and find_inv: "I s \<Longrightarrow> I (snd (findMinedHash d hs s))"
    and nonce_inv: "I s \<Longrightarrow> I (snd (nonceState d s))"
    and checks_inv: "I s \<Longrightarrow> I (snd (preChecks d s))"
    and prepare_inv: "I s \<Longrightarrow> I (snd (prepare d f b ref s))"
    and prepare_est: "I s \<Longrightarrow> prepare d f b ref s = (Inr pr, s') \<Longrightarrow> J pr s'"
    and send_inv: "I s \<Longrightarrow> J pr s \<Longrightarrow> I (snd (send d pr b ref s))"
begin

definition keptBy :: "'s LadderStep \<Rightarrow> bool" where
  "keptBy st = (case st of Return _ s' \<Rightarrow> I s' | Again _ _ s' \<Rightarrow> I s')"

lemma tryReplace_kept: "I s \<Longrightarrow> keptBy (tryReplace i d as f b s)"
proof -
  assume "I s"
  then have c: "I (snd (preChecks d s))" by (rule checks_inv)
  obtain p s2 where pp: "prepare d f b (la_attemptId (last as)) (snd (preChecks d s)) = (p, s2)" by fastforce
  have s2: "I s2" using prepare_inv [OF c, of f b "la_attemptId (last as)"] pp by simp
  show ?thesis
  proof (cases p)
    case (Inl u)
    with c s2 pp show ?thesis
      by (auto simp: tryReplace_def keptBy_def split: prod.splits)
  next
    case (Inr pr)
    have "I (snd (send d pr b (la_attemptId (last as)) s2))"
      using send_inv [OF s2 prepare_est [OF c]] pp Inr by blast
    with c pp Inr show ?thesis
      by (auto simp: tryReplace_def keptBy_def Let_def split: prod.splits dest: now_inv intro: sleep_inv)
        (metis now_inv sleep_inv snd_conv)+
  qed
qed

lemma iteration_kept: "I s \<Longrightarrow> keptBy (ladderIteration i d as t s)"
proof -
  assume s: "I s"
  obtain m s1 where f: "findMinedHash d (map la_hash as) s = (m, s1)" by fastforce
  obtain t2 s2 where n: "now d s1 = (t2, s2)" by fastforce
  obtain nc s3 where ns: "nonceState d s2 = (nc, s3)" by fastforce
  have s1: "I s1" using find_inv [OF s] f by (metis snd_conv)
  have s2: "I s2" using now_inv [OF s1] n by simp
  have s3: "I s3" using nonce_inv [OF s2] ns by simp
  have sl: "I (sleep d (pollMs i) s2)" by (rule sleep_inv [OF s2])
  show ?thesis
    using f n ns s1 s2 s3 sl tryReplace_kept [OF s3]
    by (cases m; cases nc) (auto simp: ladderIteration_def keptBy_def [where st = "Return _ _"] keptBy_def [where st = "Again _ _ _"]
        Let_def split: NonceState.split ReplacementDecision.split)
qed

lemma loop_kept:
  assumes "ladderLoop i d as t s = Some (r, s')" and "I s"
  shows "I s'"
proof -
  have "e = d \<longrightarrow> I s \<longrightarrow> I (snd res)" if "ladderLoop i e as t s = Some res" for i e as t s res
  proof (rule ladderLoop.raw_induct [where P = "\<lambda>i e as t s res. e = d \<longrightarrow> I s \<longrightarrow> I (snd res)", OF _ that], intro impI)
    fix f i e as t s and res :: "LadderResult \<times> 's"
    assume IH: "\<And>i e as t s res. f i e as t s = Some res \<Longrightarrow> e = d \<longrightarrow> I s \<longrightarrow> I (snd res)"
      and eq: "(case ladderIteration i e as t s of Return r s' \<Rightarrow> Some (r, s')
        | Again as' t' s' \<Rightarrow> f i e as' t' s') = Some res" and e: "e = d" and s: "I s"
    show "I (snd res)"
      using eq e IH iteration_kept [OF s, of i as t] by (auto simp: keptBy_def split: LadderStep.splits)
  qed
  from this [OF assms(1)] assms(2) show ?thesis by simp
qed

lemma ladder_kept: "runReplacementLadder i d s = Some (r, s') \<Longrightarrow> I s \<Longrightarrow> I s'"
  by (auto simp: runReplacementLadder_def split: if_splits intro: loop_kept)

end

section \<open>Properties\<close>

text \<open>
  Whatever the environment answers, the attempts the ladder returns are the original ones
  followed by replacements whose fees climb by one fee step each from the newest original, stay
  within the ceiling, and never number more than the configured bumps (and never more than
  five): a restart or an ambiguous send cannot reset or exceed the ladder.
\<close>

theorem ladder_attempts_bounded:
  assumes "runReplacementLadder i d s = Some (r, s')" and "li_attempts i \<noteq> []"
  shows "\<exists>new. lr_attempts r = li_attempts i @ new \<and>
    map la_fees new = map (\<lambda>k. bumpLoop (Suc k) (la_fees (last (li_attempts i)))) [0..<length new] \<and>
    (\<forall>a \<in> set new. feesLe (la_fees a) (li_ceiling i)) \<and>
    (new \<noteq> [] \<longrightarrow> (\<exists>n. li_maxBumps i = jint n \<and> int (length (lr_attempts r)) - 1 \<le> n
                     \<and> n \<le> MAX_REPLACEMENT_BUMPS_LIMIT))"
  using ladderReach_shape [OF run_reach [OF assms(1)] assms(2)] by (simp add: ladderShape_def)

text \<open>A concrete run for the witness: nothing mines, the clock is past the stuck time, one bump is allowed.\<close>

definition demoDeps :: "nat LadderDeps" where
  "demoDeps = \<lparr>now = (\<lambda>s. (int s, s)), sleep = (\<lambda>ms s. s + nat ms),
     findMinedHash = (\<lambda>hs s. (Inr None, s)), nonceState = (\<lambda>s. (Inr NonceFree, s)),
     preChecks = (\<lambda>s. (None, s)),
     prepare = (\<lambda>f b r s. (Inr \<lparr>signedTx = ''02'', pr_hash = ''h1'', pr_attemptId = ''a1''\<rparr>, s)),
     send = (\<lambda>p b r s. (Inr SendAccepted, s))\<rparr>"

definition demoInput :: LadderInput where
  "demoInput = \<lparr>li_attempts = [\<lparr>la_hash = ''h0'', la_attemptId = ''a0'',
       la_fees = \<lparr>maxFeePerGas = 100, maxPriorityFeePerGas = 10\<rparr>\<rparr>],
     li_maxBumps = jint 1, li_ceiling = \<lparr>maxFeePerGas = 120, maxPriorityFeePerGas = 20\<rparr>,
     stuckAfterMs = 6000, pollMs = 6000, li_lastSentAt = 0\<rparr>"

theorem ladder_attempts_bounded_witness:
  "\<exists>r. runReplacementLadder demoInput demoDeps 6000 = Some (r, 12000) \<and>
     stop r = STOP_LIMIT_REACHED \<and> map la_hash (lr_attempts r) = [''h0'', ''h1''] \<and>
     list_all (\<lambda>a. feesLe (la_fees a) (li_ceiling demoInput)) (tl (lr_attempts r))"
proof -
  have run: "runReplacementLadder demoInput demoDeps 6000 =
     Some (stopped (li_attempts demoInput @ [\<lparr>la_hash = ''h1'', la_attemptId = ''a1'',
       la_fees = \<lparr>maxFeePerGas = 110, maxPriorityFeePerGas = 11\<rparr>\<rparr>]) STOP_LIMIT_REACHED, 12000)"
    by (simp add: runReplacementLadder_def ladderLoop.simps ladderIteration_def demoInput_def demoDeps_def
        decisionOf_def planReplacement_def tryReplace_def nextStep_def raise_def bump_consts
        validFees_def MAX_SAFE_INTEGER_def sdiv_nonneg Let_def)
  have ne: "li_attempts demoInput \<noteq> []" by (simp add: demoInput_def)
  show ?thesis using run ladder_attempts_bounded [OF run ne] by (auto simp: stopped_def demoInput_def)
qed

end
