(* ===== verification/FeeGuard.thy ===== *)
theory FeeGuard
  imports Types
begin

text \<open>
  Fee budgets (\<^verbatim>\<open>packages/engine/src/fee-guard.ts\<close>) and the charges of the Base chain that are not
  execution gas (\<^verbatim>\<open>packages/engine/src/base-fees.ts\<close>). The verdicts of the source are
  datatypes; the text of a refusal is a constructor carrying the numbers it prints. Contract reads
  and the transaction serializer are arguments: their answers arrive as dynamic values, because
  the source checks their run-time type.
\<close>

section \<open>Fee budgets\<close>

record FeeBudgetInput =
  fb_valueWei :: wei
  fb_maxFeePerGasWei :: wei
  fb_gasLimit :: int
  declaredBudgetWei :: "wei option"
  l1DataFeeAllowanceWei :: "wei option"

datatype FeeBudgetRefusal =
    ValueAndGasLimitZero
  | GasLimitZero
  | MaxFeeZero
  | BudgetZero
  | DeclaredBelowWorstCase wei wei

datatype FeeBudgetVerdict = BudgetOk wei | BudgetRefused FeeBudgetRefusal

definition validateFeeBudget :: "FeeBudgetInput \<Rightarrow> FeeBudgetVerdict" where
  "validateFeeBudget i =
     (if fb_valueWei i = 0 \<and> fb_gasLimit i = 0 then BudgetRefused ValueAndGasLimitZero
      else if fb_gasLimit i = 0 then BudgetRefused GasLimitZero
      else if fb_maxFeePerGasWei i = 0 then BudgetRefused MaxFeeZero
      else
        let gasCeilingWei = fb_gasLimit i * fb_maxFeePerGasWei i;
            l1Allowance = (case l1DataFeeAllowanceWei i of None \<Rightarrow> 0 | Some a \<Rightarrow> a);
            worstCaseGasWei = gasCeilingWei + l1Allowance;
            declared = (case declaredBudgetWei i of None \<Rightarrow> worstCaseGasWei + fb_valueWei i | Some b \<Rightarrow> b)
        in if declared = 0 then BudgetRefused BudgetZero
           else
             let worstCaseTotalWei = worstCaseGasWei + fb_valueWei i
             in if declared < worstCaseTotalWei
                then BudgetRefused (DeclaredBelowWorstCase declared worstCaseTotalWei)
                else BudgetOk worstCaseTotalWei)"

section \<open>FREE-mint reserves\<close>

datatype TargetChain = ChainEthereum | ChainBase | ChainRobinhood

record FreeMintReserveCaps =
  perWalletCapWei :: wei
  activePeriodCapWei :: wei

definition FREE_MINT_PER_WALLET_RESERVE_CAP_WEI :: wei where
  "FREE_MINT_PER_WALLET_RESERVE_CAP_WEI = 200000000000000"

definition FREE_MINT_ACTIVE_PERIOD_RESERVE_CAP_WEI :: wei where
  "FREE_MINT_ACTIVE_PERIOD_RESERVE_CAP_WEI = 2000000000000000"

definition BASE_FREE_MINT_PER_WALLET_RESERVE_CAP_WEI :: wei where
  "BASE_FREE_MINT_PER_WALLET_RESERVE_CAP_WEI = 200000000000000"

definition BASE_FREE_MINT_ACTIVE_PERIOD_RESERVE_CAP_WEI :: wei where
  "BASE_FREE_MINT_ACTIVE_PERIOD_RESERVE_CAP_WEI = 1200000000000000"

definition DEFAULT_FREE_MINT_RESERVE_CAPS :: FreeMintReserveCaps where
  "DEFAULT_FREE_MINT_RESERVE_CAPS =
     \<lparr>perWalletCapWei = FREE_MINT_PER_WALLET_RESERVE_CAP_WEI,
      activePeriodCapWei = FREE_MINT_ACTIVE_PERIOD_RESERVE_CAP_WEI\<rparr>"

definition BASE_FREE_MINT_RESERVE_CAPS :: FreeMintReserveCaps where
  "BASE_FREE_MINT_RESERVE_CAPS =
     \<lparr>perWalletCapWei = BASE_FREE_MINT_PER_WALLET_RESERVE_CAP_WEI,
      activePeriodCapWei = BASE_FREE_MINT_ACTIVE_PERIOD_RESERVE_CAP_WEI\<rparr>"

definition effectiveFreeMintReserveCaps :: "FreeMintReserveCaps option \<Rightarrow> FreeMintReserveCaps" where
  "effectiveFreeMintReserveCaps caps =
     (case caps of
        None \<Rightarrow> DEFAULT_FREE_MINT_RESERVE_CAPS
      | Some c \<Rightarrow>
          (if perWalletCapWei c > 0 \<and> activePeriodCapWei c \<ge> perWalletCapWei c then c
           else DEFAULT_FREE_MINT_RESERVE_CAPS))"

fun freeMintReserveCapsForChain ::
  "TargetChain \<Rightarrow> FreeMintReserveCaps option \<Rightarrow> FreeMintReserveCaps" where
  "freeMintReserveCapsForChain ChainEthereum supplied = effectiveFreeMintReserveCaps supplied"
| "freeMintReserveCapsForChain ChainBase supplied = BASE_FREE_MINT_RESERVE_CAPS"
| "freeMintReserveCapsForChain ChainRobinhood supplied = DEFAULT_FREE_MINT_RESERVE_CAPS"

definition exceedsRunReserveCap :: "wei \<Rightarrow> wei \<Rightarrow> FreeMintReserveCaps \<Rightarrow> bool" where
  "exceedsRunReserveCap admittedSoFarWei nextReserveWei caps \<longleftrightarrow>
     admittedSoFarWei + nextReserveWei > activePeriodCapWei caps"

datatype ReserveRefusal =
    NegativeReservation
  | PerWalletReserveExceeds wei
  | ActivePeriodReserveExceeds wei

datatype FreeMintReserveVerdict = ReserveAllowed wei wei | ReserveRefused ReserveRefusal

definition validateFreeMintReserve ::
  "wei \<Rightarrow> wei \<Rightarrow> FreeMintReserveCaps \<Rightarrow> FreeMintReserveVerdict" where
  "validateFreeMintReserve perWalletReserveWei activePeriodReserveWei caps =
     (let eff = effectiveFreeMintReserveCaps (Some caps)
      in if perWalletReserveWei < 0 \<or> activePeriodReserveWei < 0
         then ReserveRefused NegativeReservation
         else if perWalletReserveWei > perWalletCapWei eff
         then ReserveRefused (PerWalletReserveExceeds (perWalletCapWei eff))
         else if activePeriodReserveWei > activePeriodCapWei eff
         then ReserveRefused (ActivePeriodReserveExceeds (activePeriodCapWei eff))
         else ReserveAllowed (perWalletCapWei eff) (activePeriodCapWei eff))"

section \<open>Spend and exposure\<close>

record FreeMintSpendInput =
  fs_configuredPriorityFeeWei :: wei
  fs_actualPriorityComponentWei :: wei
  fs_l2ExecutionGasReservationWei :: wei
  fs_l1DataGasReservationWei :: wei

record FreeMintSpendOk =
  priorityComponentCapWei :: wei
  l2ExecutionGasReservationWei :: wei
  l1DataGasReservationWei :: wei
  totalIndependentReservationWei :: wei

datatype FreeMintSpendVerdict =
    SpendOk FreeMintSpendOk
  | SpendExceeded wei wei
  | SpendInvalid

definition validateFreeMintSpend :: "FreeMintSpendInput \<Rightarrow> FreeMintSpendVerdict" where
  "validateFreeMintSpend i =
     (if fs_configuredPriorityFeeWei i < 0 \<or> fs_actualPriorityComponentWei i < 0
         \<or> fs_l2ExecutionGasReservationWei i < 0 \<or> fs_l1DataGasReservationWei i < 0
      then SpendInvalid
      else
        let cap = fs_configuredPriorityFeeWei i * 2
        in if fs_actualPriorityComponentWei i > cap
           then SpendExceeded cap (fs_actualPriorityComponentWei i)
           else SpendOk
             \<lparr>priorityComponentCapWei = cap,
              l2ExecutionGasReservationWei = fs_l2ExecutionGasReservationWei i,
              l1DataGasReservationWei = fs_l1DataGasReservationWei i,
              totalIndependentReservationWei =
                cap + fs_l2ExecutionGasReservationWei i + fs_l1DataGasReservationWei i\<rparr>)"

definition paidMintExecutionBlock :: "wei \<Rightarrow> bool" where
  "paidMintExecutionBlock valueWei = (\<not> valueWei > 0)"

datatype PaidQuantityVerdict =
    QuantityAllowed jsnum
  | QuantitySettingInvalid
  | QuantityExceeds jsnum

definition validatePaidQuantity :: "jsnum \<Rightarrow> jsnum \<Rightarrow> jsnum option \<Rightarrow> PaidQuantityVerdict" where
  "validatePaidQuantity requestedQuantity contractWalletLimit configuredWalletLimit =
     (let configured = (case configuredWalletLimit of None \<Rightarrow> jint 15 | Some c \<Rightarrow> c)
      in if \<not> isInteger configured \<or> js_lt configured (jint 1) then QuantitySettingInvalid
         else
           let effectiveLimit = js_min configured contractWalletLimit
           in if \<not> isInteger requestedQuantity \<or> js_lt requestedQuantity (jint 1)
                 \<or> js_lt effectiveLimit requestedQuantity
              then QuantityExceeds effectiveLimit
              else QuantityAllowed requestedQuantity)"

datatype PaidGasVerdict = PaidGasAllowed wei wei | PaidGasNegative | PaidGasExceeds

definition validatePaidGasExposure :: "int \<Rightarrow> wei \<Rightarrow> wei \<Rightarrow> wei \<Rightarrow> PaidGasVerdict" where
  "validatePaidGasExposure gasLimit configuredPriorityFeeWei actualPriorityComponentWei l1Wei =
     (if \<exists>v \<in> set [gasLimit, configuredPriorityFeeWei, actualPriorityComponentWei, l1Wei]. v < 0
      then PaidGasNegative
      else
        let priorityGasCapWei = gasLimit * configuredPriorityFeeWei * 3 sdiv 2
        in if actualPriorityComponentWei > priorityGasCapWei then PaidGasExceeds
           else PaidGasAllowed priorityGasCapWei l1Wei)"

definition replacementPriorityBudget :: "wei \<Rightarrow> wei" where
  "replacementPriorityBudget c = (if c < 0 then 0 else c * 2)"

section \<open>Charges of the Base chain\<close>

datatype BaseFeeError =
    BASE_OPERATOR_FEE_MALFORMED
  | BASE_FEE_MALFORMED
  | BASE_FEE_QUOTE_CHAIN_MISMATCH
  | BASE_FEE_QUOTE_MALFORMED
  | BASE_FEE_QUOTE_UNAVAILABLE
  | BASE_FEE_SCALAR_RANGE
  | BASE_OPERATOR_FEE_ORACLE_UNAVAILABLE
  | BASE_OPERATOR_FEE_ORACLE_MALFORMED
  | BASE_RECEIPT_L1_FEE_REQUIRED
  | BASE_RECEIPT_L1_FEE_MALFORMED
  | BASE_RECEIPT_OPERATOR_FEE_REQUIRED
  | BASE_RECEIPT_OPERATOR_FEE_MALFORMED

definition BASE_FEE_SAFETY_BPS :: int where
  "BASE_FEE_SAFETY_BPS = 12000"

definition FEE_BPS :: int where
  "FEE_BPS = 10000"

definition MAX_UINT256 :: int where
  "MAX_UINT256 = 2 ^ 256 - 1"

record BaseFeeBound =
  bf_l1DataFeeWei :: wei
  bf_operatorFeeWei :: wei
  bf_totalWei :: wei
  bf_unsignedTxSize :: int
  bf_operatorFeeScalar :: int
  bf_operatorFeeConstant :: int

definition baseOperatorFeeWei :: "int \<Rightarrow> int \<Rightarrow> int \<Rightarrow> BaseFeeError + wei" where
  "baseOperatorFeeWei gas scalar constant =
     (if gas < 0 \<or> scalar < 0 \<or> scalar > 4294967295 \<or> constant < 0 \<or> constant > 18446744073709551615
      then Inl BASE_OPERATOR_FEE_MALFORMED
      else Inr (gas * scalar sdiv 1000000 + constant))"

definition applyBaseFeeSafetyMargin :: "wei \<Rightarrow> BaseFeeError + wei" where
  "applyBaseFeeSafetyMargin v =
     (if v < 0 then Inl BASE_FEE_MALFORMED
      else Inr ((v * BASE_FEE_SAFETY_BPS + FEE_BPS - 1) sdiv FEE_BPS))"

text \<open>
  \<^verbatim>\<open>quoteBaseFeeBound\<close>: the serialized transaction and the four contract reads are arguments.
  A read that rejects (\<open>None\<close>) rejects the whole call; a run-time type other than the declared
  one is refused, and \<^verbatim>\<open>BigInt(scalar)\<close> throws a range error for a number that is not an integer.
\<close>

definition quoteBaseFeeBound ::
  "SupportedChainId \<Rightarrow> int option \<Rightarrow> hex \<Rightarrow> (int \<Rightarrow> jsval option) \<Rightarrow> (int \<Rightarrow> jsval option) \<Rightarrow>
   jsval option \<Rightarrow> jsval option \<Rightarrow> BaseFeeError + BaseFeeBound" where
  "quoteBaseFeeBound chainId gas serialized getL1FeeUpperBound getOperatorFee operatorFeeScalar operatorFeeConstant =
     (if chainId \<noteq> Chain8453 \<or> gas = None then Inl BASE_FEE_QUOTE_CHAIN_MISMATCH
      else
        let unsignedTxSize = (int (length serialized) - 2) div 2
        in (case (getL1FeeUpperBound unsignedTxSize, getOperatorFee (the gas), operatorFeeScalar, operatorFeeConstant) of
              (Some (JBig l1Upper), Some (JBig operatorUpper), Some (JNum scalar), Some (JBig constant)) \<Rightarrow>
                bindR (ensure (isInteger scalar) BASE_FEE_SCALAR_RANGE) (\<lambda>_.
                bindR (applyBaseFeeSafetyMargin l1Upper) (\<lambda>l1.
                bindR (applyBaseFeeSafetyMargin operatorUpper) (\<lambda>op.
                Inr \<lparr>bf_l1DataFeeWei = l1, bf_operatorFeeWei = op, bf_totalWei = l1 + op,
                     bf_unsignedTxSize = unsignedTxSize, bf_operatorFeeScalar = js_int scalar,
                     bf_operatorFeeConstant = constant\<rparr>)))
            | (Some _, Some _, Some _, Some _) \<Rightarrow> Inl BASE_FEE_QUOTE_MALFORMED
            | _ \<Rightarrow> Inl BASE_FEE_QUOTE_UNAVAILABLE))"

definition readBaseOperatorFee :: "jsval option \<Rightarrow> BaseFeeError + wei" where
  "readBaseOperatorFee answer =
     (case answer of
        None \<Rightarrow> Inl BASE_OPERATOR_FEE_ORACLE_UNAVAILABLE
      | Some (JBig v) \<Rightarrow> (if v < 0 then Inl BASE_OPERATOR_FEE_ORACLE_MALFORMED else Inr v)
      | Some _ \<Rightarrow> Inl BASE_OPERATOR_FEE_ORACLE_MALFORMED)"

text \<open>A fee field of a receipt: absent (undefined or null), a bigint, or a raw hex string.\<close>

datatype FeeField = FeeAbsent | FeeBig int | FeeHex string

record BaseReceiptFeeFields =
  l1Fee :: FeeField
  l1DataFee :: FeeField
  operatorFee :: FeeField

text \<open>The pattern \<^verbatim>\<open>/^0x(?:0|[1-9a-f][0-9a-f]{0,63})$/i\<close> with the length limit of 66.\<close>

definition quantityHex :: "string \<Rightarrow> bool" where
  "quantityHex s \<longleftrightarrow>
     length s \<le> 66 \<and>
     (case s of
        z # x # digits \<Rightarrow> z = CHR ''0'' \<and> (x = CHR ''x'' \<or> x = CHR ''X'') \<and>
          (digits = ''0'' \<or>
           (digits \<noteq> [] \<and> hd digits \<noteq> CHR ''0'' \<and> all_hex digits \<and> length digits \<le> 64))
      | _ \<Rightarrow> False)"

fun normalizeFee :: "FeeField \<Rightarrow> BaseFeeError \<Rightarrow> BaseFeeError \<Rightarrow> BaseFeeError + wei" where
  "normalizeFee FeeAbsent required malformed = Inl required"
| "normalizeFee (FeeBig v) required malformed =
     (if v < 0 \<or> v > MAX_UINT256 then Inl malformed else Inr v)"
| "normalizeFee (FeeHex s) required malformed =
     (if \<not> quantityHex s then Inl malformed else Inr (hex_value 0 (drop 2 s)))"

definition normalizePresent :: "FeeField \<Rightarrow> BaseFeeError + wei option" where
  "normalizePresent f =
     (if f = FeeAbsent then Inr None
      else bindR (normalizeFee f BASE_RECEIPT_L1_FEE_REQUIRED BASE_RECEIPT_L1_FEE_MALFORMED) (\<lambda>v. Inr (Some v)))"

definition baseReceiptFees :: "BaseReceiptFeeFields \<Rightarrow> wei option \<Rightarrow> BaseFeeError + wei \<times> wei" where
  "baseReceiptFees flds oracleOperatorFee =
     bindR (ensure (\<not> (l1DataFee flds = FeeAbsent \<and> l1Fee flds = FeeAbsent)) BASE_RECEIPT_L1_FEE_REQUIRED) (\<lambda>_.
     bindR (normalizePresent (l1DataFee flds)) (\<lambda>normalizedL1DataFee.
     bindR (normalizePresent (l1Fee flds)) (\<lambda>normalizedL1Fee.
     bindR (ensure (\<not> (normalizedL1DataFee \<noteq> None \<and> normalizedL1Fee \<noteq> None \<and>
                        normalizedL1DataFee \<noteq> normalizedL1Fee)) BASE_RECEIPT_L1_FEE_MALFORMED) (\<lambda>_.
     let l1DataFeeWei = (case normalizedL1DataFee of Some v \<Rightarrow> v | None \<Rightarrow> the normalizedL1Fee);
         operator = (if operatorFee flds = FeeAbsent
                     then (case oracleOperatorFee of None \<Rightarrow> FeeAbsent | Some v \<Rightarrow> FeeBig v)
                     else operatorFee flds)
     in bindR (normalizeFee operator BASE_RECEIPT_OPERATOR_FEE_REQUIRED BASE_RECEIPT_OPERATOR_FEE_MALFORMED)
          (\<lambda>operatorFeeWei. Inr (l1DataFeeWei, operatorFeeWei))))))"

section \<open>Lemmas\<close>

lemmas reserve_caps_defs =
  DEFAULT_FREE_MINT_RESERVE_CAPS_def BASE_FREE_MINT_RESERVE_CAPS_def
  FREE_MINT_PER_WALLET_RESERVE_CAP_WEI_def FREE_MINT_ACTIVE_PERIOD_RESERVE_CAP_WEI_def
  BASE_FREE_MINT_PER_WALLET_RESERVE_CAP_WEI_def BASE_FREE_MINT_ACTIVE_PERIOD_RESERVE_CAP_WEI_def

lemma effective_caps_idem [simp]:
  "effectiveFreeMintReserveCaps (Some (effectiveFreeMintReserveCaps c)) = effectiveFreeMintReserveCaps c"
  by (auto simp: effectiveFreeMintReserveCaps_def reserve_caps_defs split: option.splits)

lemma effective_caps_positive:
  "0 < perWalletCapWei (effectiveFreeMintReserveCaps c) \<and>
   perWalletCapWei (effectiveFreeMintReserveCaps c) \<le> activePeriodCapWei (effectiveFreeMintReserveCaps c)"
  by (auto simp: effectiveFreeMintReserveCaps_def reserve_caps_defs split: option.splits)

lemma caps_for_chain_effective [simp]:
  "effectiveFreeMintReserveCaps (Some (freeMintReserveCapsForChain ch c)) = freeMintReserveCapsForChain ch c"
proof (cases ch)
  case ChainEthereum
  then show ?thesis by simp
qed (simp_all add: effectiveFreeMintReserveCaps_def reserve_caps_defs)

lemma reserve_allowed_iff:
  "validateFreeMintReserve w a c = ReserveAllowed pw ap \<longleftrightarrow>
     0 \<le> w \<and> 0 \<le> a \<and> w \<le> perWalletCapWei (effectiveFreeMintReserveCaps (Some c)) \<and>
     a \<le> activePeriodCapWei (effectiveFreeMintReserveCaps (Some c)) \<and>
     pw = perWalletCapWei (effectiveFreeMintReserveCaps (Some c)) \<and>
     ap = activePeriodCapWei (effectiveFreeMintReserveCaps (Some c))"
  by (auto simp: validateFreeMintReserve_def Let_def not_less)

lemma safety_margin_bounds:
  assumes "applyBaseFeeSafetyMargin v = Inr w"
  shows "0 \<le> v \<and> v * 12000 \<le> w * 10000 \<and> w * 10000 < v * 12000 + 10000 \<and> v \<le> w"
proof -
  from assms have v: "0 \<le> v" and w: "w = (v * 12000 + 9999) div 10000"
    by (auto simp: applyBaseFeeSafetyMargin_def BASE_FEE_SAFETY_BPS_def FEE_BPS_def sdiv_nonneg split: if_splits)
  have "v * 12000 \<le> w * 10000" using ceil_div_ge [of 10000 "v * 12000"] by (simp add: w)
  moreover have "w * 10000 < v * 12000 + 10000" unfolding w by linarith
  ultimately show ?thesis using v by linarith
qed

lemma quantityHex_bound: "quantityHex s \<Longrightarrow> 0 \<le> hex_value 0 (drop 2 s) \<and> hex_value 0 (drop 2 s) \<le> MAX_UINT256"
proof -
  assume q: "quantityHex s"
  then have "length (drop 2 s) \<le> 64" by (auto simp: quantityHex_def)
  then have "(16::int) ^ length (drop 2 s) \<le> 16 ^ 64" by (intro power_increasing) auto
  moreover have "0 \<le> hex_value 0 (drop 2 s)" "hex_value 0 (drop 2 s) < 16 ^ length (drop 2 s)"
    using hex_value_bounds [of 0 0 "drop 2 s"] by simp_all
  moreover have "(16::int) ^ 64 = MAX_UINT256 + 1" by (simp add: MAX_UINT256_def)
  ultimately show ?thesis by linarith
qed

lemma normalizeFee_bound: "normalizeFee f r m = Inr v \<Longrightarrow> 0 \<le> v \<and> v \<le> MAX_UINT256"
  by (cases f) (auto split: if_splits dest: quantityHex_bound)

lemma normalizePresent_bound: "normalizePresent f = Inr (Some v) \<Longrightarrow> 0 \<le> v \<and> v \<le> MAX_UINT256"
  by (auto simp: normalizePresent_def bindR_eq_Inr dest: normalizeFee_bound split: if_splits)

lemma normalizePresent_None: "normalizePresent f = Inr None \<longleftrightarrow> f = FeeAbsent"
  by (auto simp: normalizePresent_def bindR_eq_Inr)

section \<open>Properties\<close>

text \<open>
  A FREE-mint reserve accepted for a chain is non-negative and within the caps in force, and
  on Base and Robinhood these are the engine's own constants whatever caps the caller supplied:
  a caller can never widen an L2 cap.
\<close>

theorem free_reserve_within_chain_caps:
  assumes "validateFreeMintReserve w a (freeMintReserveCapsForChain ch supplied) = ReserveAllowed pw ap"
  shows "0 \<le> w \<and> 0 \<le> a \<and> w \<le> pw \<and> a \<le> ap \<and> pw \<le> ap \<and>
    (ch \<noteq> ChainEthereum \<longrightarrow> pw = 200000000000000 \<and> ap \<le> 2000000000000000) \<and>
    (ch = ChainBase \<longrightarrow> ap = 1200000000000000)"
proof -
  have "perWalletCapWei (freeMintReserveCapsForChain ch supplied)
      \<le> activePeriodCapWei (freeMintReserveCapsForChain ch supplied)"
    by (cases ch) (simp_all add: effective_caps_positive reserve_caps_defs)
  moreover from assms have "0 \<le> w \<and> 0 \<le> a \<and> w \<le> pw \<and> a \<le> ap \<and>
      pw = perWalletCapWei (freeMintReserveCapsForChain ch supplied) \<and>
      ap = activePeriodCapWei (freeMintReserveCapsForChain ch supplied)"
    unfolding reserve_allowed_iff caps_for_chain_effective by auto
  ultimately show ?thesis by (cases ch) (auto simp: reserve_caps_defs)
qed

theorem free_reserve_within_chain_caps_witness:
  "validateFreeMintReserve 7 7 (freeMintReserveCapsForChain ChainBase (Some \<lparr>perWalletCapWei = 10 ^ 18, activePeriodCapWei = 10 ^ 19\<rparr>))
     = ReserveAllowed 200000000000000 1200000000000000 \<and> (7::int) \<le> 200000000000000"
proof -
  have h: "validateFreeMintReserve 7 7 (freeMintReserveCapsForChain ChainBase (Some \<lparr>perWalletCapWei = 10 ^ 18, activePeriodCapWei = 10 ^ 19\<rparr>))
     = ReserveAllowed 200000000000000 1200000000000000"
    by (simp add: validateFreeMintReserve_def effectiveFreeMintReserveCaps_def reserve_caps_defs)
  show ?thesis using h free_reserve_within_chain_caps [OF h] by simp
qed

text \<open>
  A validated fee budget bounds every outcome: whatever gas up to the limit is used, at
  whatever price up to the maximum fee, with any data fee up to the allowance, the mint costs at
  most the computed worst case, and a declared budget covers it.
\<close>

theorem fee_budget_bounds_spend:
  assumes "validateFeeBudget i = BudgetOk worst"
    and "0 \<le> gasUsed" "gasUsed \<le> fb_gasLimit i" "0 \<le> price" "price \<le> fb_maxFeePerGasWei i"
    and "l1 \<le> (case l1DataFeeAllowanceWei i of None \<Rightarrow> 0 | Some a \<Rightarrow> a)"
  shows "gasUsed * price + l1 + fb_valueWei i \<le> worst \<and>
    (\<forall>b. declaredBudgetWei i = Some b \<longrightarrow> worst \<le> b \<and> b \<noteq> 0)"
proof -
  from assms(2-5) have "gasUsed * price \<le> fb_gasLimit i * fb_maxFeePerGasWei i"
    by (intro mult_mono) auto
  with assms(1,6) show ?thesis
    by (auto simp: validateFeeBudget_def Let_def not_less split: if_splits option.splits)
qed

theorem fee_budget_bounds_spend_witness:
  "validateFeeBudget \<lparr>fb_valueWei = 5, fb_maxFeePerGasWei = 3, fb_gasLimit = 100, declaredBudgetWei = Some 400,
      l1DataFeeAllowanceWei = Some 21\<rparr> = BudgetOk 326 \<and> (90::int) * 2 + 20 + 5 \<le> 326"
proof -
  let ?i = "\<lparr>fb_valueWei = 5, fb_maxFeePerGasWei = 3, fb_gasLimit = 100, declaredBudgetWei = Some 400,
      l1DataFeeAllowanceWei = Some 21\<rparr>"
  have h: "validateFeeBudget ?i = BudgetOk 326" by (simp add: validateFeeBudget_def)
  show ?thesis using h fee_budget_bounds_spend [OF h, of 90 2 20] by simp
qed

text \<open>
  Base receipt fees fail closed: a result is returned only when an L1 fee and an operator
  fee are both present and well-formed, when two reported L1 fees agree, and then both amounts
  are unsigned 256-bit values.
\<close>

theorem base_receipt_fees_complete:
  assumes "baseReceiptFees flds orc = Inr (l1, op)"
  shows "0 \<le> l1 \<and> l1 \<le> MAX_UINT256 \<and> 0 \<le> op \<and> op \<le> MAX_UINT256 \<and>
    (l1DataFee flds \<noteq> FeeAbsent \<or> l1Fee flds \<noteq> FeeAbsent) \<and>
    (operatorFee flds \<noteq> FeeAbsent \<or> orc \<noteq> None) \<and>
    (l1DataFee flds \<noteq> FeeAbsent \<longrightarrow> normalizePresent (l1DataFee flds) = Inr (Some l1)) \<and>
    (l1Fee flds \<noteq> FeeAbsent \<longrightarrow> normalizePresent (l1Fee flds) = Inr (Some l1))"
proof -
  from assms obtain a b where *: "l1DataFee flds \<noteq> FeeAbsent \<or> l1Fee flds \<noteq> FeeAbsent"
    "normalizePresent (l1DataFee flds) = Inr a" "normalizePresent (l1Fee flds) = Inr b"
    "a \<noteq> None \<longrightarrow> b \<noteq> None \<longrightarrow> a = b"
    "l1 = (case a of Some v \<Rightarrow> v | None \<Rightarrow> the b)"
    and op: "normalizeFee (if operatorFee flds = FeeAbsent
        then (case orc of None \<Rightarrow> FeeAbsent | Some v \<Rightarrow> FeeBig v) else operatorFee flds)
       BASE_RECEIPT_OPERATOR_FEE_REQUIRED BASE_RECEIPT_OPERATOR_FEE_MALFORMED = Inr op"
    by (auto simp: baseReceiptFees_def bindR_eq_Inr Let_def)
  have "operatorFee flds \<noteq> FeeAbsent \<or> orc \<noteq> None"
    using op by (cases orc) auto
  moreover have "l1DataFee flds \<noteq> FeeAbsent \<longrightarrow> a = Some l1"
    and "l1Fee flds \<noteq> FeeAbsent \<longrightarrow> b = Some l1"
    using * by (cases a; cases b; auto simp: normalizePresent_None)+
  ultimately show ?thesis
    using * normalizeFee_bound [OF op] normalizePresent_bound by metis
qed

theorem base_receipt_fees_complete_witness:
  "baseReceiptFees \<lparr>l1Fee = FeeHex ''0x1f'', l1DataFee = FeeBig 31, operatorFee = FeeAbsent\<rparr> (Some 4) = Inr (31, 4) \<and>
   (31::int) \<le> MAX_UINT256"
proof -
  have h: "baseReceiptFees \<lparr>l1Fee = FeeHex ''0x1f'', l1DataFee = FeeBig 31, operatorFee = FeeAbsent\<rparr> (Some 4) = Inr (31, 4)"
    by (simp add: baseReceiptFees_def normalizePresent_def quantityHex_def all_hex_def hex_digit_def MAX_UINT256_def)
  show ?thesis using h base_receipt_fees_complete [OF h] by simp
qed

end
