(* ===== verification/GasStrategy.thy ===== *)
theory GasStrategy
  imports Types
begin

text \<open>
  The retry ladder of private (Flashbots) submissions (\<^verbatim>\<open>packages/engine/src/gas-strategy.ts\<close>): the
  decision after each attempt, and the tip bump. A \<^verbatim>\<open>number\<close> that counts attempts is an \<open>int\<close>.
\<close>

section \<open>Definitions\<close>

definition PRIVATE_ATTEMPTS :: int where
  "PRIVATE_ATTEMPTS = 3"

definition ESCALATION_ATTEMPTS :: int where
  "ESCALATION_ATTEMPTS = 2"

definition TIP_BUMP_FRACTION :: int where
  "TIP_BUMP_FRACTION = 5"

definition MAX_LADDER_ATTEMPTS :: int where
  "MAX_LADDER_ATTEMPTS = PRIVATE_ATTEMPTS + ESCALATION_ATTEMPTS"

datatype RetryAction =
    is_PrivateRetry: PrivateRetry (blockOffset: int) (escalate: bool) (bumpTip: bool)
  | is_PublicFallback: PublicFallback (requireNonceRecheck: bool)
  | RetryStop

record RetryDecisionInput =
  rd_attempt :: int
  landed :: bool
  hasHardCap :: bool
  fundsCoverEscalation :: bool
  relayChain :: bool

definition nextRetryAction :: "RetryDecisionInput \<Rightarrow> RetryAction" where
  "nextRetryAction i =
     (if \<not> relayChain i then RetryStop
      else if landed i then RetryStop
      else if rd_attempt i \<le> PRIVATE_ATTEMPTS then PrivateRetry (rd_attempt i) False False
      else if hasHardCap i then
        (if fundsCoverEscalation i \<and> rd_attempt i \<le> PRIVATE_ATTEMPTS + ESCALATION_ATTEMPTS
         then PrivateRetry (rd_attempt i) True False
         else PublicFallback True)
      else PrivateRetry (rd_attempt i) False True)"

definition applyTipBump :: "wei \<Rightarrow> int \<Rightarrow> wei" where
  "applyTipBump priorityFeeWei fraction = priorityFeeWei + priorityFeeWei sdiv 100 * fraction"

section \<open>A whole ladder\<close>

text \<open>
  The actions of the first \<open>n\<close> unlanded attempts of one mint, starting at a given attempt; funds
  may be checked anew before each of them.
\<close>

fun ladderActions :: "bool \<Rightarrow> (int \<Rightarrow> bool) \<Rightarrow> int \<Rightarrow> nat \<Rightarrow> RetryAction list" where
  "ladderActions cap funds k 0 = []"
| "ladderActions cap funds k (Suc n) =
     nextRetryAction \<lparr>rd_attempt = k, landed = False, hasHardCap = cap, fundsCoverEscalation = funds k,
       relayChain = True\<rparr> # ladderActions cap funds (k + 1) n"

lemmas retry_consts = PRIVATE_ATTEMPTS_def ESCALATION_ATTEMPTS_def MAX_LADDER_ATTEMPTS_def

lemma ladderActions_nth:
  "j < n \<Longrightarrow> ladderActions cap funds k n ! j =
     nextRetryAction \<lparr>rd_attempt = k + int j, landed = False, hasHardCap = cap,
       fundsCoverEscalation = funds (k + int j), relayChain = True\<rparr>"
proof (induction n arbitrary: k j)
  case 0
  then show ?case by simp
next
  case (Suc n)
  then show ?case by (cases j) (simp_all add: algebra_simps)
qed

lemma length_ladderActions [simp]: "length (ladderActions cap funds k n) = n"
  by (induction n arbitrary: k) auto

text \<open>
  Over a whole ladder of unlanded attempts: a mint without a hard cap never goes public; a
  mint with one stays private for the first three attempts, escalates at most in the next two,
  goes public at the sixth at the latest, and never goes public without a fresh nonce check.
\<close>

theorem retry_ladder_goes_public_safely:
  assumes "j < n"
  shows "(\<not> cap \<longrightarrow> is_PrivateRetry (ladderActions cap funds 1 n ! j)) \<and>
    (is_PublicFallback (ladderActions cap funds 1 n ! j) \<longrightarrow>
       cap \<and> 3 \<le> j \<and> requireNonceRecheck (ladderActions cap funds 1 n ! j) \<and>
       (j < 5 \<longrightarrow> \<not> funds (1 + int j))) \<and>
    (is_PrivateRetry (ladderActions cap funds 1 n ! j) \<longrightarrow>
       blockOffset (ladderActions cap funds 1 n ! j) = 1 + int j \<and>
       (escalate (ladderActions cap funds 1 n ! j) \<longrightarrow> cap \<and> (j = 3 \<or> j = 4))) \<and>
    (cap \<and> 5 \<le> j \<longrightarrow> ladderActions cap funds 1 n ! j = PublicFallback True)"
  using assms by (auto simp: ladderActions_nth nextRetryAction_def retry_consts split: if_splits)

theorem retry_ladder_goes_public_safely_witness:
  "ladderActions True (\<lambda>k. k < 5) 1 6 ! 4 = PublicFallback True \<and> requireNonceRecheck (ladderActions True (\<lambda>k. k < 5) 1 6 ! 4)"
proof -
  have h: "(4::nat) < 6" by simp
  have e: "ladderActions True (\<lambda>k. k < 5) 1 6 ! 4 = PublicFallback True"
    by (simp add: ladderActions_nth nextRetryAction_def retry_consts)
  show ?thesis using retry_ladder_goes_public_safely [OF h, of True "\<lambda>k. k < 5"] e by simp
qed

end
