(* ===== verification/Fleet.thy ===== *)
theory Fleet
  imports Types "HOL-Library.Multiset"
begin

text \<open>
  Which wallets of the key list a run signs with (\<^verbatim>\<open>packages/engine/src/fleet-selection.ts\<close>) and in
  which order and with which delay they fire (\<^verbatim>\<open>packages/engine/src/fire-lanes.ts\<close>). Wallet
  positions and delays are JavaScript numbers, since the source checks that they are safe
  integers; a \<^verbatim>\<open>Set\<close> is the list of its members in insertion order, a \<^verbatim>\<open>Map\<close> built from entries
  returns the last entry of a key.
\<close>

section \<open>Selection\<close>

datatype FleetError =
    FLEET_SELECTION_INVALID
  | FLEET_SELECTION_ADDRESSES_REQUIRED
  | FLEET_SELECTION_ADDRESS_MISMATCH
  | FIRE_LANE_FLEET_INVALID
  | FIRE_LANES_INVALID
  | FIRE_LANE_CONFIGURATION_INVALID
  | FIRE_LANE_WALLET_SCOPE_INVALID

record FleetSelectionConfig =
  maxWallets :: int
  walletIndexes :: "jsnum list option"
  expectedAddresses :: "string list option"

text \<open>\<^verbatim>\<open>xs.slice(0, n)\<close>: a negative end counts from the end of the list.\<close>

definition slice0 :: "'a list \<Rightarrow> int \<Rightarrow> 'a list" where
  "slice0 xs n = (if n < 0 then take (nat (int (length xs) + n)) xs else take (nat n) xs)"

definition invalidIndex :: "jsnum \<Rightarrow> bool" where
  "invalidIndex i = (\<not> isSafeInteger i \<or> js_lt i (jint 0))"

text \<open>\<^verbatim>\<open>new Set(xs).size\<close>.\<close>

definition setSize :: "'a list \<Rightarrow> nat" where
  "setSize xs = length (remdups xs)"

definition pickWallet :: "WalletInfo list \<Rightarrow> jsnum \<times> string \<Rightarrow> FleetError + WalletInfo" where
  "pickWallet wallets = (\<lambda>(i, expected).
     case map_of (rev (map (\<lambda>w. (jint (index w), w)) wallets)) i of
       None \<Rightarrow> Inl FLEET_SELECTION_INVALID
     | Some w \<Rightarrow>
         (if toLowerCase (wi_address w) \<noteq> toLowerCase expected
          then Inl FLEET_SELECTION_ADDRESS_MISMATCH else Inr w))"

definition selectFleetWallets ::
  "WalletInfo list \<Rightarrow> FleetSelectionConfig \<Rightarrow> FleetError + WalletInfo list" where
  "selectFleetWallets wallets fleet =
     (case walletIndexes fleet of
        None \<Rightarrow> Inr (slice0 wallets (maxWallets fleet))
      | Some indexes \<Rightarrow>
          if indexes = [] \<or> int (length indexes) > maxWallets fleet \<or> list_ex invalidIndex indexes
             \<or> setSize indexes \<noteq> length indexes
          then Inl FLEET_SELECTION_INVALID
          else case expectedAddresses fleet of
            None \<Rightarrow> Inl FLEET_SELECTION_ADDRESSES_REQUIRED
          | Some expected \<Rightarrow>
              if length expected \<noteq> length indexes then Inl FLEET_SELECTION_ADDRESSES_REQUIRED
              else if setSize (map toLowerCase expected) \<noteq> length expected then Inl FLEET_SELECTION_INVALID
              else mapR (pickWallet wallets) (zip indexes expected))"

section \<open>Fire lanes\<close>

record FireLane =
  lane_walletIndexes :: "jsnum list"
  lane_startOffsetMs :: jsnum
  lane_mode :: BroadcastMode

record FireLaneAssignment =
  fa_walletIndex :: jsnum
  fa_laneIndex :: nat
  fa_startOffsetMs :: jsnum

text \<open>The loop over the wallets of one lane; the state is the set \<^verbatim>\<open>seen\<close> and the assignments.\<close>

fun laneWallets ::
  "jsnum list \<Rightarrow> nat \<Rightarrow> jsnum \<Rightarrow> jsnum list \<Rightarrow> jsnum list \<times> FireLaneAssignment list \<Rightarrow>
   FleetError + jsnum list \<times> FireLaneAssignment list" where
  "laneWallets allowed laneIndex offset [] st = Inr st"
| "laneWallets allowed laneIndex offset (w # ws) (seen, assignments) =
     (if w \<notin> set allowed \<or> w \<in> set seen then Inl FIRE_LANE_WALLET_SCOPE_INVALID
      else laneWallets allowed laneIndex offset ws
        (seen @ [w],
         assignments @ [\<lparr>fa_walletIndex = w, fa_laneIndex = laneIndex, fa_startOffsetMs = offset\<rparr>]))"

text \<open>The loop over the lanes, with the running index and the offset of the lane before.\<close>

fun laneLoop ::
  "jsnum list \<Rightarrow> BroadcastMode \<Rightarrow> nat \<Rightarrow> jsnum \<Rightarrow> FireLane list \<Rightarrow> jsnum list \<times> FireLaneAssignment list \<Rightarrow>
   FleetError + jsnum list \<times> FireLaneAssignment list" where
  "laneLoop allowed mode laneIndex priorOffset [] st = Inr st"
| "laneLoop allowed mode laneIndex priorOffset (lane # lanes) st =
     (if lane_mode lane \<noteq> mode \<or> \<not> isSafeInteger (lane_startOffsetMs lane)
         \<or> js_lt (lane_startOffsetMs lane) priorOffset \<or> js_lt (jint 30000) (lane_startOffsetMs lane)
         \<or> lane_walletIndexes lane = []
      then Inl FIRE_LANE_CONFIGURATION_INVALID
      else bindR (laneWallets allowed laneIndex (lane_startOffsetMs lane) (lane_walletIndexes lane) st)
             (laneLoop allowed mode (Suc laneIndex) (lane_startOffsetMs lane) lanes))"

definition planFireLanes ::
  "jsnum list \<Rightarrow> FireLane list option \<Rightarrow> BroadcastMode \<Rightarrow> FleetError + FireLaneAssignment list" where
  "planFireLanes selected lanes mode =
     (if selected = [] \<or> list_ex invalidIndex selected \<or> setSize selected \<noteq> length selected
      then Inl FIRE_LANE_FLEET_INVALID
      else case lanes of
        None \<Rightarrow> Inr (map (\<lambda>w. \<lparr>fa_walletIndex = w, fa_laneIndex = 0, fa_startOffsetMs = jint 0\<rparr>) selected)
      | Some ls \<Rightarrow>
          if ls = [] \<or> length ls > length selected then Inl FIRE_LANES_INVALID
          else bindR (laneLoop selected mode 0 (jint 0) ls ([], [])) (\<lambda>(seen, assignments).
            if length seen \<noteq> setSize selected then Inl FIRE_LANE_WALLET_SCOPE_INVALID
            else Inr assignments))"

section \<open>Lemmas\<close>

lemma setSize_distinct: "setSize xs = length xs \<longleftrightarrow> distinct xs"
proof
  assume "setSize xs = length xs"
  then have "card (set xs) = length xs" by (simp add: setSize_def length_remdups_card_conv)
  then show "distinct xs" by (rule card_distinct)
qed (simp add: setSize_def distinct_remdups_id)

lemma setSize_map_distinct: "length xs = n \<Longrightarrow> setSize (map f xs) = n \<longleftrightarrow> distinct (map f xs)"
  using setSize_distinct [of "map f xs"] by simp

lemma pickWallet_ok:
  assumes "pickWallet ws (i, e) = Inr w"
  shows "w \<in> set ws \<and> jint (index w) = i \<and> toLowerCase (wi_address w) = toLowerCase e"
  using assms by (auto simp: pickWallet_def split: option.splits if_splits dest: map_of_SomeD)

lemma picks_ok:
  assumes "list_all2 (\<lambda>x y. pickWallet ws x = Inr y) (zip idxs es) ps" and "length idxs = length es"
  shows "map (\<lambda>w. jint (index w)) ps = idxs \<and>
    map (\<lambda>w. toLowerCase (wi_address w)) ps = map toLowerCase es \<and> set ps \<subseteq> set ws"
proof -
  have len: "length ps = length idxs" using assms by (auto dest: list_all2_lengthD)
  have each: "pickWallet ws (idxs ! k, es ! k) = Inr (ps ! k)" if "k < length idxs" for k
    using that assms len by (auto simp: list_all2_conv_all_nth)
  show ?thesis
    using pickWallet_ok [OF each] len assms(2)
    by (auto simp: list_eq_iff_nth_eq in_set_conv_nth)
qed

text \<open>What the loops keep: the assignments follow \<open>seen\<close>, which is distinct and within the fleet.\<close>

definition laneInv :: "jsnum list \<Rightarrow> jsnum \<Rightarrow> nat \<Rightarrow> jsnum list \<times> FireLaneAssignment list \<Rightarrow> bool" where
  "laneInv allowed prior k st = (case st of (seen, as) \<Rightarrow>
     seen = map fa_walletIndex as \<and> distinct seen \<and> set seen \<subseteq> set allowed \<and>
     sorted_wrt js_le (map fa_startOffsetMs as) \<and> sorted (map fa_laneIndex as) \<and>
     (\<forall>a \<in> set as. isSafeInteger (fa_startOffsetMs a) \<and> js_le (jint 0) (fa_startOffsetMs a) \<and>
        js_le (fa_startOffsetMs a) (jint 30000) \<and> js_le (fa_startOffsetMs a) prior \<and> fa_laneIndex a \<le> k))"

lemma laneWallets_inv:
  assumes "laneWallets allowed k off ws st = Inr st'" and "laneInv allowed off k st"
    and "isSafeInteger off" and "js_le (jint 0) off" and "js_le off (jint 30000)"
  shows "laneInv allowed off k st'"
  using assms
proof (induction ws arbitrary: st)
  case Nil
  then show ?case by simp
next
  case (Cons w ws)
  obtain seen as where st: "st = (seen, as)" by fastforce
  from Cons.prems(1) have new: "w \<in> set allowed" "w \<notin> set seen"
    and rest: "laneWallets allowed k off ws
      (seen @ [w], as @ [\<lparr>fa_walletIndex = w, fa_laneIndex = k, fa_startOffsetMs = off\<rparr>]) = Inr st'"
    by (auto simp: st split: if_splits)
  have "js_le off off" using Cons.prems(3) by (cases off) auto
  then have "laneInv allowed off k
      (seen @ [w], as @ [\<lparr>fa_walletIndex = w, fa_laneIndex = k, fa_startOffsetMs = off\<rparr>])"
    using Cons.prems(2-5) new by (auto simp: laneInv_def st sorted_wrt_append)
  from Cons.IH [OF rest this Cons.prems(3-5)] show ?case .
qed

lemma js_not_lt_le: "isSafeInteger x \<Longrightarrow> isSafeInteger y \<Longrightarrow> \<not> js_lt x y \<longleftrightarrow> js_le y x"
  by (auto simp: isSafeInteger_jint)

lemma js_le_trans: "js_le x y \<Longrightarrow> js_le y z \<Longrightarrow> js_le x z"
  by (cases x; cases y; cases z) auto

lemma laneInv_next: "laneInv allowed prior k st \<Longrightarrow> js_le prior off \<Longrightarrow> laneInv allowed off (Suc k) st"
  by (auto simp: laneInv_def split: prod.splits intro: js_le_trans le_SucI)

lemma laneInv_offset: "laneInv allowed prior k st \<Longrightarrow> js_le prior off \<Longrightarrow> laneInv allowed off k st"
  by (auto simp: laneInv_def split: prod.splits intro: js_le_trans)

lemma laneLoop_inv:
  assumes "laneLoop allowed mode k prior ls st = Inr st'" and "laneInv allowed prior k st"
    and "isSafeInteger prior" and "js_le (jint 0) prior"
  shows "(\<exists>p k'. laneInv allowed p k' st') \<and> (\<forall>l \<in> set ls. lane_mode l = mode)"
  using assms
proof (induction ls arbitrary: k prior st)
  case Nil
  then show ?case by auto
next
  case (Cons l ls)
  let ?off = "lane_startOffsetMs l"
  have lim: "isSafeInteger (jint 30000)" by (simp add: MAX_SAFE_INTEGER_def)
  from Cons.prems(1) obtain st1 where guards: "lane_mode l = mode" "isSafeInteger ?off"
      "\<not> js_lt ?off prior" "\<not> js_lt (jint 30000) ?off"
    and step: "laneWallets allowed k ?off (lane_walletIndexes l) st = Inr st1"
    and rest: "laneLoop allowed mode (Suc k) ?off ls st1 = Inr st'"
    by (auto simp: bindR_eq_Inr split: if_splits)
  have le: "js_le prior ?off" and le3: "js_le ?off (jint 30000)"
    using guards js_not_lt_le [OF guards(2) Cons.prems(3)] js_not_lt_le [OF lim guards(2)] by auto
  have ge: "js_le (jint 0) ?off" using Cons.prems(4) le by (rule js_le_trans)
  have "laneInv allowed ?off k st1"
    by (rule laneWallets_inv [OF step laneInv_offset [OF Cons.prems(2) le] guards(2) ge le3])
  then have "laneInv allowed ?off (Suc k) st1" by (rule laneInv_next) (use guards(2) in \<open>cases ?off; auto\<close>)
  from Cons.IH [OF rest this guards(2) ge] guards(1) show ?case by simp
qed

section \<open>Properties\<close>

text \<open>
  With an explicit selection the run signs with exactly the wallets at the approved
  positions, in their order, each with the address the owner approved for that position, no
  wallet twice and never more than the configured number.
\<close>

theorem selection_matches_approval:
  assumes "selectFleetWallets wallets fleet = Inr picked" and "walletIndexes fleet = Some idxs"
  shows "\<exists>es. expectedAddresses fleet = Some es \<and> map (\<lambda>w. jint (index w)) picked = idxs \<and>
    map (\<lambda>w. toLowerCase (wi_address w)) picked = map toLowerCase es \<and>
    distinct (map (\<lambda>w. toLowerCase (wi_address w)) picked) \<and> distinct (map index picked) \<and>
    set picked \<subseteq> set wallets \<and> picked \<noteq> [] \<and> int (length picked) \<le> maxWallets fleet"
proof -
  from assms obtain es where es: "expectedAddresses fleet = Some es" "length es = length idxs"
    "distinct (map toLowerCase es)" "distinct idxs" "idxs \<noteq> []" "int (length idxs) \<le> maxWallets fleet"
    and picks: "list_all2 (\<lambda>x y. pickWallet wallets x = Inr y) (zip idxs es) picked"
    by (auto simp: selectFleetWallets_def mapR_eq_Inr setSize_distinct setSize_map_distinct not_less
        split: if_splits option.splits)
  from picks_ok [OF picks es(2) [symmetric]]
  have p: "map (\<lambda>w. jint (index w)) picked = idxs"
    "map (\<lambda>w. toLowerCase (wi_address w)) picked = map toLowerCase es" "set picked \<subseteq> set wallets"
    by auto
  moreover have "distinct (map index picked)"
  proof -
    have "map jint (map index picked) = idxs" using p(1) by (simp add: comp_def)
    with es(4) show ?thesis by (metis distinct_map)
  qed
  moreover have "length picked = length idxs" using p(1) by (metis length_map)
  ultimately show ?thesis using es by auto
qed

theorem selection_matches_approval_witness:
  "selectFleetWallets [\<lparr>index = 0, wi_address = ''0xa'', wi_label = None\<rparr>, \<lparr>index = 1, wi_address = ''0xb'', wi_label = None\<rparr>]
     \<lparr>maxWallets = 2, walletIndexes = Some [jint 1], expectedAddresses = Some [''0xb'']\<rparr>
   = Inr [\<lparr>index = 1, wi_address = ''0xb'', wi_label = None\<rparr>] \<and> distinct (map index [\<lparr>index = 1, wi_address = ''0xb'', wi_label = None\<rparr>])"
proof -
  have h: "selectFleetWallets [\<lparr>index = 0, wi_address = ''0xa'', wi_label = None\<rparr>, \<lparr>index = 1, wi_address = ''0xb'', wi_label = None\<rparr>]
     \<lparr>maxWallets = 2, walletIndexes = Some [jint 1], expectedAddresses = Some [''0xb'']\<rparr>
   = Inr [\<lparr>index = 1, wi_address = ''0xb'', wi_label = None\<rparr>]"
    by (simp add: selectFleetWallets_def pickWallet_def invalidIndex_def setSize_def MAX_SAFE_INTEGER_def)
  show ?thesis using h selection_matches_approval [OF h] by simp
qed

text \<open>
  A fire plan fires every selected wallet exactly once and no other wallet, its delays are
  safe integers between 0 and 30 seconds that never decrease along the plan, and every configured
  lane uses the run's own broadcast mode.
\<close>

theorem fire_plan_covers_fleet_once:
  assumes "planFireLanes selected lanes mode = Inr as"
  shows "mset (map fa_walletIndex as) = mset selected \<and> distinct (map fa_walletIndex as) \<and>
    sorted_wrt js_le (map fa_startOffsetMs as) \<and> sorted (map fa_laneIndex as) \<and>
    (\<forall>a \<in> set as. isSafeInteger (fa_startOffsetMs a) \<and> js_le (jint 0) (fa_startOffsetMs a) \<and>
       js_le (fa_startOffsetMs a) (jint 30000)) \<and>
    (\<forall>ls. lanes = Some ls \<longrightarrow> (\<forall>l \<in> set ls. lane_mode l = mode))"
proof -
  from assms have d: "distinct selected" using setSize_distinct [of selected]
    by (auto simp: planFireLanes_def split: if_splits)
  show ?thesis
  proof (cases lanes)
    case None
    with assms have "as = map (\<lambda>w. \<lparr>fa_walletIndex = w, fa_laneIndex = 0, fa_startOffsetMs = jint 0\<rparr>) selected"
      by (auto simp: planFireLanes_def split: if_splits)
    with None d show ?thesis
      by (auto simp: comp_def sorted_wrt_iff_nth_less MAX_SAFE_INTEGER_def)
  next
    case (Some ls)
    with assms obtain seen where loop: "laneLoop selected mode 0 (jint 0) ls ([], []) = Inr (seen, as)"
      and len: "length seen = setSize selected"
      by (auto simp: planFireLanes_def bindR_eq_Inr split: if_splits prod.splits)
    have "laneInv selected (jint 0) 0 ([], [])" by (simp add: laneInv_def)
    from laneLoop_inv [OF loop this] obtain p k where inv: "laneInv selected p k (seen, as)"
      and modes: "\<forall>l \<in> set ls. lane_mode l = mode"
      by (auto simp: MAX_SAFE_INTEGER_def)
    from inv have seen: "seen = map fa_walletIndex as" "distinct seen" "set seen \<subseteq> set selected"
      by (auto simp: laneInv_def)
    have "card (set seen) = card (set selected)"
      using seen(2) d len by (simp add: distinct_card setSize_def distinct_remdups_id)
    then have "set seen = set selected" using seen(3) by (simp add: card_subset_eq)
    then have "mset seen = mset selected" using seen(2) d by (simp add: set_eq_iff_mset_eq_distinct)
    with inv seen modes Some show ?thesis by (auto simp: laneInv_def)
  qed
qed

theorem fire_plan_covers_fleet_once_witness:
  "planFireLanes [jint 0, jint 1, jint 2]
     (Some [\<lparr>lane_walletIndexes = [jint 2], lane_startOffsetMs = jint 0, lane_mode = ModeBlast\<rparr>,
            \<lparr>lane_walletIndexes = [jint 1, jint 0], lane_startOffsetMs = jint 500, lane_mode = ModeBlast\<rparr>]) ModeBlast =
   Inr [\<lparr>fa_walletIndex = jint 2, fa_laneIndex = 0, fa_startOffsetMs = jint 0\<rparr>,
        \<lparr>fa_walletIndex = jint 1, fa_laneIndex = 1, fa_startOffsetMs = jint 500\<rparr>,
        \<lparr>fa_walletIndex = jint 0, fa_laneIndex = 1, fa_startOffsetMs = jint 500\<rparr>] \<and>
   mset [jint 2, jint 1, jint 0] = mset [jint 0, jint 1, jint 2]"
proof -
  have h: "planFireLanes [jint 0, jint 1, jint 2]
     (Some [\<lparr>lane_walletIndexes = [jint 2], lane_startOffsetMs = jint 0, lane_mode = ModeBlast\<rparr>,
            \<lparr>lane_walletIndexes = [jint 1, jint 0], lane_startOffsetMs = jint 500, lane_mode = ModeBlast\<rparr>]) ModeBlast =
   Inr [\<lparr>fa_walletIndex = jint 2, fa_laneIndex = 0, fa_startOffsetMs = jint 0\<rparr>,
        \<lparr>fa_walletIndex = jint 1, fa_laneIndex = 1, fa_startOffsetMs = jint 500\<rparr>,
        \<lparr>fa_walletIndex = jint 0, fa_laneIndex = 1, fa_startOffsetMs = jint 500\<rparr>]"
    by (simp add: planFireLanes_def invalidIndex_def setSize_def MAX_SAFE_INTEGER_def)
  show ?thesis using h fire_plan_covers_fleet_once [OF h] by simp
qed

end
