(* ===== verification/Safety.thy ===== *)
theory Safety
  imports Types
begin

text \<open>
  The kill switch and the spend tracker (\<^verbatim>\<open>packages/engine/src/safety.ts\<close>), each as a record of its
  private fields with one function per method. Logging is not modelled. Whether the kill switch
  file exists is an argument of the call that looks, and \<^verbatim>\<open>parseEther\<close> of the viem library is an
  argument of the tracker's constructor.

  The locale \<open>latch\<close> is the contract that stop flags share: no operation of a run clears them.
\<close>

section \<open>Stop flags that cannot be cleared\<close>

locale latch =
  fixes isSet :: "'s \<Rightarrow> bool"
    and admissible :: "'a \<Rightarrow> bool"
    and act :: "'a \<Rightarrow> 's \<Rightarrow> 's"
  assumes stays: "isSet s \<Longrightarrow> admissible a \<Longrightarrow> isSet (act a s)"
begin

lemma stays_fold: "isSet s \<Longrightarrow> \<forall>a \<in> set as. admissible a \<Longrightarrow> isSet (fold act as s)"
  by (induction as arbitrary: s) (auto intro: stays)

text \<open>The flag is set at the end exactly when it was set after some prefix.\<close>

lemma set_iff_some_prefix:
  assumes "\<forall>a \<in> set as. admissible a"
  shows "isSet (fold act as s) \<longleftrightarrow> (\<exists>k \<le> length as. isSet (fold act (take k as) s))"
proof
  assume "\<exists>k \<le> length as. isSet (fold act (take k as) s)"
  then obtain k where k: "isSet (fold act (take k as) s)" by auto
  have "fold act as s = fold act (drop k as) (fold act (take k as) s)"
    by (metis append_take_drop_id fold_append o_apply)
  then show "isSet (fold act as s)"
    using stays_fold [OF k, of "drop k as"] assms by (metis in_set_dropD)
qed auto

end

section \<open>Kill switch\<close>

record KillSwitch =
  killed :: bool
  killReason :: "string option"
  killSwitchFile :: string

definition newKillSwitch :: "string \<Rightarrow> KillSwitch" where
  "newKillSwitch file = \<lparr>killed = False, killReason = None, killSwitchFile = file\<rparr>"

definition isKilled :: "(string \<Rightarrow> bool) \<Rightarrow> KillSwitch \<Rightarrow> bool \<times> KillSwitch" where
  "isKilled existsSync k =
     (if killed k then (True, k)
      else if killSwitchFile k \<noteq> [] \<and> existsSync (killSwitchFile k)
      then (True, k\<lparr>killed := True, killReason := Some (''Kill switch file detected: '' @ killSwitchFile k)\<rparr>)
      else (False, k))"

definition kill :: "string \<Rightarrow> KillSwitch \<Rightarrow> KillSwitch" where
  "kill reason k = k\<lparr>killed := True, killReason := Some reason\<rparr>"

definition getReason :: "KillSwitch \<Rightarrow> string option" where
  "getReason k = killReason k"

definition resetKillSwitch :: "KillSwitch \<Rightarrow> KillSwitch" where
  "resetKillSwitch k = k\<lparr>killed := False, killReason := None\<rparr>"

text \<open>What happens to a kill switch during a run: it is polled or triggered, never reset.\<close>

datatype KillEvent = Poll "string \<Rightarrow> bool" | Trigger string

fun killStep :: "KillEvent \<Rightarrow> KillSwitch \<Rightarrow> KillSwitch" where
  "killStep (Poll f) k = snd (isKilled f k)"
| "killStep (Trigger r) k = kill r k"

text \<open>The events that must stop a run whose switch watches the given file.\<close>

fun stops :: "string \<Rightarrow> KillEvent \<Rightarrow> bool" where
  "stops file (Trigger _) = True"
| "stops file (Poll f) = (file \<noteq> [] \<and> f file)"

section \<open>Spend tracker\<close>

record SpendTracker =
  mintSpendWei :: wei
  dailySpendWei :: wei
  maxMintSpendWei :: wei
  maxDailySpendWei :: wei

definition newSpendTracker :: "(jsnum \<Rightarrow> wei) \<Rightarrow> jsnum \<Rightarrow> jsnum \<Rightarrow> SpendTracker" where
  "newSpendTracker parseEther maxSpendEth dailySpendCapEth =
     \<lparr>mintSpendWei = 0, dailySpendWei = 0, maxMintSpendWei = parseEther maxSpendEth,
      maxDailySpendWei = parseEther dailySpendCapEth\<rparr>"

definition isCapExceeded :: "SpendTracker \<Rightarrow> bool" where
  "isCapExceeded t =
     (if mintSpendWei t > maxMintSpendWei t then True
      else if dailySpendWei t > maxDailySpendWei t then True
      else False)"

definition recordSpend :: "int \<Rightarrow> wei \<Rightarrow> wei \<Rightarrow> SpendTracker \<Rightarrow> bool \<times> SpendTracker" where
  "recordSpend gasUsed effectiveGasPrice mintPriceWei t =
     (let gasCost = gasUsed * effectiveGasPrice;
          totalCost = gasCost + mintPriceWei;
          t' = t\<lparr>mintSpendWei := mintSpendWei t + totalCost, dailySpendWei := dailySpendWei t + totalCost\<rparr>
      in (\<not> isCapExceeded t', t'))"

text \<open>One recorded transaction: gas used, effective price and mint price.\<close>

type_synonym spend = "int \<times> wei \<times> wei"

fun spendStep :: "spend \<Rightarrow> SpendTracker \<Rightarrow> SpendTracker" where
  "spendStep (g, p, m) t = snd (recordSpend g p m t)"

fun spendCost :: "spend \<Rightarrow> wei" where
  "spendCost (g, p, m) = g * p + m"

section \<open>Lemmas\<close>

interpretation kill_latch: latch killed "\<lambda>_. True" killStep
proof unfold_locales
  show "killed k \<Longrightarrow> True \<Longrightarrow> killed (killStep a k)" for k a
    by (cases a) (auto simp: isKilled_def kill_def)
qed

interpretation cap_latch: latch isCapExceeded "\<lambda>s. 0 \<le> spendCost s" spendStep
proof unfold_locales
  show "isCapExceeded t \<Longrightarrow> 0 \<le> spendCost a \<Longrightarrow> isCapExceeded (spendStep a t)" for t a
    by (cases a) (auto simp: isCapExceeded_def recordSpend_def Let_def split: if_splits)
qed

lemma spend_fold:
  "fold spendStep ss t = t\<lparr>mintSpendWei := mintSpendWei t + sum_list (map spendCost ss),
     dailySpendWei := dailySpendWei t + sum_list (map spendCost ss)\<rparr>"
proof (induction ss arbitrary: t)
  case Nil
  then show ?case by simp
next
  case (Cons s ss)
  then show ?case by (cases s) (simp add: recordSpend_def Let_def algebra_simps)
qed

lemma within_caps_iff:
  "\<not> isCapExceeded (fold spendStep ss (newSpendTracker parse maxE dayE)) \<longleftrightarrow>
     sum_list (map spendCost ss) \<le> parse maxE \<and> sum_list (map spendCost ss) \<le> parse dayE"
  by (auto simp: spend_fold isCapExceeded_def newSpendTracker_def)

lemma killStep_set: "killed (killStep e k) \<longleftrightarrow>
    killed k \<or> stops (killSwitchFile k) e"
  by (cases e) (auto simp: isKilled_def kill_def)

lemma killStep_file [simp]: "killSwitchFile (killStep e k) = killSwitchFile k"
  by (cases e) (auto simp: isKilled_def kill_def)

lemma fold_killStep_file [simp]: "killSwitchFile (fold killStep es k) = killSwitchFile k"
  by (induction es arbitrary: k) auto

lemma killed_has_reason:
  "killed k \<longrightarrow> killReason k \<noteq> None \<Longrightarrow>
   killed (fold killStep es k) \<longrightarrow> killReason (fold killStep es k) \<noteq> None"
proof (induction es arbitrary: k)
  case Nil
  then show ?case by simp
next
  case (Cons e es)
  have "killed (killStep e k) \<longrightarrow> killReason (killStep e k) \<noteq> None"
    using Cons.prems by (cases e) (auto simp: isKilled_def kill_def)
  from Cons.IH [OF this] show ?case by simp
qed

section \<open>Properties\<close>

text \<open>
  A kill switch is killed after a run's polls and triggers exactly when somebody triggered it
  or some poll saw its file; from then on every poll answers true, whether or not the file is
  still there, and it always has a reason to show.
\<close>

theorem kill_switch_latches:
  "(killed (fold killStep es (newKillSwitch file)) \<longleftrightarrow>
     (\<exists>e \<in> set es. stops file e)) \<and>
   (killed (fold killStep es (newKillSwitch file)) \<longrightarrow>
     fst (isKilled f (fold killStep (es @ es') (newKillSwitch file))) \<and>
     getReason (fold killStep es (newKillSwitch file)) \<noteq> None)"
proof (intro conjI impI)
  have "killed (fold killStep es k) \<longleftrightarrow> killed k \<or>
     (\<exists>e \<in> set es. stops (killSwitchFile k) e)" for k
    by (induction es arbitrary: k) (auto simp: killStep_set)
  then show "killed (fold killStep es (newKillSwitch file)) \<longleftrightarrow>
     (\<exists>e \<in> set es. stops file e)"
    by (simp add: newKillSwitch_def)
next
  assume k: "killed (fold killStep es (newKillSwitch file))"
  then have "killed (fold killStep (es @ es') (newKillSwitch file))"
    using kill_latch.stays_fold [OF k, of es'] by simp
  then show "fst (isKilled f (fold killStep (es @ es') (newKillSwitch file)))"
    by (simp add: isKilled_def)
  show "getReason (fold killStep es (newKillSwitch file)) \<noteq> None"
    using killed_has_reason [of "newKillSwitch file" es] k by (simp add: getReason_def newKillSwitch_def)
qed

theorem kill_switch_latches_witness:
  "killed (fold killStep [Poll (\<lambda>_. True)] (newKillSwitch ''KILL'')) \<and>
   fst (isKilled (\<lambda>_. False) (fold killStep ([Poll (\<lambda>_. True)] @ [Poll (\<lambda>_. False)]) (newKillSwitch ''KILL'')))"
proof -
  have k: "killed (fold killStep [Poll (\<lambda>_. True)] (newKillSwitch ''KILL''))"
    by (simp add: isKilled_def newKillSwitch_def)
  show ?thesis using k kill_switch_latches [of "[Poll (\<lambda>_. True)]" "''KILL''" "\<lambda>_. False" "[Poll (\<lambda>_. False)]"] by blast
qed

text \<open>
  The tracker's totals are the sum of all recorded costs, and with non-negative costs a cap
  that was exceeded once stays exceeded: the answer of the last recording is true exactly when
  every prefix of the recorded costs stayed within both caps.
\<close>

theorem spend_tracker_sums_and_latches:
  assumes "\<forall>s \<in> set (ss @ [(g, p, m)]). 0 \<le> spendCost s"
  shows "fst (recordSpend g p m (fold spendStep ss (newSpendTracker parseEther maxE dayE))) \<longleftrightarrow>
    (\<forall>k \<le> length (ss @ [(g, p, m)]).
       sum_list (map spendCost (take k (ss @ [(g, p, m)]))) \<le> parseEther maxE \<and>
       sum_list (map spendCost (take k (ss @ [(g, p, m)]))) \<le> parseEther dayE)"
proof -
  let ?t = "newSpendTracker parseEther maxE dayE" and ?all = "ss @ [(g, p, m)]"
  have "fst (recordSpend g p m (fold spendStep ss ?t)) \<longleftrightarrow> \<not> isCapExceeded (fold spendStep ?all ?t)"
    by (simp add: recordSpend_def Let_def)
  also have "\<dots> \<longleftrightarrow> (\<forall>k \<le> length ?all. \<not> isCapExceeded (fold spendStep (take k ?all) ?t))"
    using cap_latch.set_iff_some_prefix [OF assms, of ?t] by blast
  also have "\<dots> \<longleftrightarrow> (\<forall>k \<le> length ?all. sum_list (map spendCost (take k ?all)) \<le> parseEther maxE \<and>
       sum_list (map spendCost (take k ?all)) \<le> parseEther dayE)"
    unfolding within_caps_iff ..
  finally show ?thesis .
qed

theorem spend_tracker_sums_and_latches_witness:
  "fst (recordSpend 10 2 5 (fold spendStep [(1, 1, 1)] (newSpendTracker (\<lambda>_. 100) (jint 1) (jint 1)))) \<and>
   sum_list (map spendCost [(1, 1, 1), (10, 2, 5)]) \<le> (100 :: int)"
proof -
  have c: "\<forall>s \<in> set ([(1, 1, 1)] @ [(10, 2, 5)]). 0 \<le> spendCost s" by simp
  have r: "fst (recordSpend 10 2 5 (fold spendStep [(1, 1, 1)] (newSpendTracker (\<lambda>_. 100) (jint 1) (jint 1))))"
    by (simp add: recordSpend_def newSpendTracker_def isCapExceeded_def)
  have "\<forall>k \<le> length ([(1, 1, 1)] @ [(10, 2, 5)]).
      sum_list (map spendCost (take k ([(1, 1, 1)] @ [(10, 2, 5)]))) \<le> (100 :: int)"
    using spend_tracker_sums_and_latches [OF c, of "\<lambda>_. 100" "jint 1" "jint 1"] r by simp
  from spec [OF this, of 2] r show ?thesis by simp
qed

end
