(* ===== verification/DropRecheck.thy ===== *)
theory DropRecheck
  imports Safety "HOL-Library.List_Lexorder" "HOL-Library.Char_ord"
begin

text \<open>
  The re-read of the drop before each wallet is prepared
  (\<^verbatim>\<open>packages/engine/src/drop-recheck.ts\<close>).

  The replacer of \<^verbatim>\<open>plain\<close> turns bigints into text and sorts the keys of every object, so two
  values have the same JSON text exactly when their normal forms \<open>plain\<close> are equal; keys are
  sorted by code point here, the order itself does not matter for the comparison.

  \<^verbatim>\<open>createDropRecheck\<close> returns a closure over \<^verbatim>\<open>cached\<close> and \<^verbatim>\<open>latched\<close>. Its calls start
  asynchronous runs, so the state also holds the runs, and the events are a call of the closure
  and the completion of a run (its read answered, failed or timed out), in any order.
\<close>

section \<open>What counts as a change\<close>

fun jsonNumber :: "jsnum \<Rightarrow> jsval" where
  "jsonNumber (Fin q) = JNum (Fin q)"
| "jsonNumber _ = JNull"

fun plain :: "jsval \<Rightarrow> jsval" where
  "plain JUndef = JUndef"
| "plain JNull = JNull"
| "plain (JBool b) = JBool b"
| "plain (JNum x) = jsonNumber x"
| "plain (JBig n) = JStr (show_int n @ ''n'')"
| "plain (JStr s) = JStr s"
| "plain (JArr vs) = JArr (map (\<lambda>v. if v = JUndef then JNull else plain v) vs)"
| "plain (JObj kvs) = JObj (sort_key fst (map (\<lambda>(k, v). (k, plain v)) (filter (\<lambda>(k, v). v \<noteq> JUndef) kvs)))"

definition STABLE_SETTINGS :: "string list" where
  "STABLE_SETTINGS = [''feeBps'', ''restrictFeeRecipients'', ''seaDropAddress'', ''allowlistRoot'', ''stageIndex'',
     ''proofSourceDigest'']"

definition OPTIONAL_READ_FLAGS :: "string list" where
  "OPTIONAL_READ_FLAGS = [''totalSupplyKnown'', ''maxSupplyKnown'']"

text \<open>\<^verbatim>\<open>a === b\<close> on two values that were read separately: objects and arrays are never identical.\<close>

fun strictEq :: "jsval \<Rightarrow> jsval \<Rightarrow> bool" where
  "strictEq (JNum x) (JNum y) = (x = y \<and> x \<noteq> NaN)"
| "strictEq (JArr _) _ = False"
| "strictEq (JObj _) _ = False"
| "strictEq x y = (x = y)"

definition isPartialReading :: "DropConfig \<Rightarrow> DropConfig \<Rightarrow> bool" where
  "isPartialReading initial current =
     list_ex (\<lambda>key. \<not> strictEq (extra_at initial key) (extra_at current key)) OPTIONAL_READ_FLAGS"

definition dropChanges :: "DropConfig \<Rightarrow> DropConfig \<Rightarrow> DropValidation \<Rightarrow> string list" where
  "dropChanges initial current validation =
     (if toLowerCase (nftContract initial) \<noteq> toLowerCase (nftContract current) then [''contract''] else []) @
     (if mintPrice initial \<noteq> mintPrice current then [''price''] else []) @
     (if maxTotalMintableByWallet initial \<noteq> maxTotalMintableByWallet current then [''per-wallet limit''] else []) @
     (if extra_at initial ''maxSupplyKnown'' = JBool True \<and> extra_at current ''maxSupplyKnown'' = JBool True
         \<and> maxTokenSupply initial \<noteq> maxTokenSupply current then [''supply''] else []) @
     (if startTime initial \<noteq> startTime current then [''start time''] else []) @
     (if endTime initial \<noteq> endTime current then [''end time''] else []) @
     (if list_ex (\<lambda>key. plain (extra_at initial key) \<noteq> plain (extra_at current key)) STABLE_SETTINGS
      then [''contract settings''] else []) @
     (if \<not> valid validation then [''drop no longer valid (ended or sold out)''] else [])"

fun joinComma :: "string list \<Rightarrow> string" where
  "joinComma [] = []"
| "joinComma [s] = s"
| "joinComma (s # t # ss) = s @ '', '' @ joinComma (t # ss)"

definition describeDropChange :: "DropConfig \<Rightarrow> DropConfig \<Rightarrow> DropValidation \<Rightarrow> string option" where
  "describeDropChange initial current validation =
     (let changed = dropChanges initial current validation
      in if changed \<noteq> [] then Some (joinComma changed) else None)"

section \<open>The recheck closure\<close>

definition DROP_RECHECK_TIMEOUT_MS :: int where
  "DROP_RECHECK_TIMEOUT_MS = 2000"

definition DROP_RECHECK_REUSE_MS :: int where
  "DROP_RECHECK_REUSE_MS = 1500"

datatype RecheckResult = NoChange | RecheckUnknown | Changed string

datatype ReadOutcome = ReadOk DropConfig DropValidation | ReadFailed

datatype RecheckRun = RunPending | RunDone RecheckResult

record RecheckState =
  cached :: "(int \<times> nat) option"
  latched :: "string option"
  runs :: "RecheckRun list"

definition newRecheck :: RecheckState where
  "newRecheck = \<lparr>cached = None, latched = None, runs = []\<rparr>"

text \<open>The end of \<^verbatim>\<open>run\<close>: its answer and the new value of \<^verbatim>\<open>latched\<close>.\<close>

definition unavailable :: "DropConfig \<Rightarrow> string option \<Rightarrow> RecheckResult \<times> string option" where
  "unavailable initial l =
     (if strategyName initial = ''seadrop-v1-allowlist''
      then (Changed ''ALLOWLIST_AUTHORITY_UNAVAILABLE'', Some ''ALLOWLIST_AUTHORITY_UNAVAILABLE'')
      else (RecheckUnknown, l))"

definition finishRun :: "DropConfig \<Rightarrow> string option \<Rightarrow> ReadOutcome \<Rightarrow> RecheckResult \<times> string option" where
  "finishRun initial l outcome =
     (case outcome of
        ReadFailed \<Rightarrow> unavailable initial l
      | ReadOk current validation \<Rightarrow>
          if isPartialReading initial current then unavailable initial l
          else (case describeDropChange initial current validation of
            None \<Rightarrow> (NoChange, l)
          | Some change \<Rightarrow> (Changed change, Some change)))"

text \<open>The start of \<^verbatim>\<open>run\<close>: a set latch answers at once, otherwise the read is pending.\<close>

definition startRun :: "int \<Rightarrow> RecheckState \<Rightarrow> nat \<times> RecheckState" where
  "startRun t st =
     (let r = length (runs st);
          new = (if truthy (latched st) then RunDone (Changed (the (latched st))) else RunPending)
      in (r, st\<lparr>cached := Some (t, r), runs := runs st @ [new]\<rparr>))"

text \<open>A call of the closure at two readings of the clock; the answer is the run it awaits.\<close>

definition callRecheck :: "int \<Rightarrow> int \<Rightarrow> int \<Rightarrow> RecheckState \<Rightarrow> nat \<times> RecheckState" where
  "callRecheck reuseMs t1 t2 st =
     (case cached st of
        Some (since, r) \<Rightarrow> if t1 - since > reuseMs then startRun t2 st else (r, st)
      | None \<Rightarrow> startRun t2 st)"

datatype RecheckEvent = Call int int | Finish nat ReadOutcome

fun recheckStep :: "DropConfig \<Rightarrow> int \<Rightarrow> RecheckEvent \<Rightarrow> RecheckState \<Rightarrow> RecheckState" where
  "recheckStep initial reuseMs (Call t1 t2) st = snd (callRecheck reuseMs t1 t2 st)"
| "recheckStep initial reuseMs (Finish r outcome) st =
     (if r < length (runs st) \<and> runs st ! r = RunPending
      then let (answer, l) = finishRun initial (latched st) outcome
           in st\<lparr>latched := l, runs := (runs st)[r := RunDone answer]\<rparr>
      else st)"

section \<open>Lemmas\<close>

lemma joinComma_nonempty: "xs \<noteq> [] \<Longrightarrow> [] \<notin> set xs \<Longrightarrow> joinComma xs \<noteq> []"
  by (induction xs rule: joinComma.induct) auto

lemma dropChanges_nonempty_texts: "[] \<notin> set (dropChanges i c v)"
  by (simp add: dropChanges_def)

lemma describe_nonempty: "describeDropChange i c v = Some s \<Longrightarrow> s \<noteq> []"
  using joinComma_nonempty [OF _ dropChanges_nonempty_texts]
  by (auto simp: describeDropChange_def Let_def split: if_splits)

lemma describe_truthy: "describeDropChange i c v \<noteq> None \<Longrightarrow> truthy (describeDropChange i c v)"
  using describe_nonempty by fastforce

lemma finishRun_latch:
  "finishRun initial l outcome = (answer, l') \<Longrightarrow>
     (truthy l \<longrightarrow> truthy l') \<and> (\<forall>c. answer = Changed c \<longrightarrow> truthy l') \<and>
     (truthy l' \<longrightarrow> truthy l \<or> (\<exists>c. answer = Changed c))"
  using describe_truthy
  by (force simp: finishRun_def unavailable_def split: ReadOutcome.splits if_splits option.splits)

lemma startRun_latched [simp]: "latched (snd (startRun t st)) = latched st"
  by (simp add: startRun_def Let_def)

lemma callRecheck_latched [simp]: "latched (snd (callRecheck reuse t1 t2 st)) = latched st"
  by (auto simp: callRecheck_def split: option.splits)

interpretation recheck_latch: latch "\<lambda>st. truthy (latched st)" "\<lambda>_. True" "recheckStep initial reuseMs"
  for initial :: DropConfig and reuseMs :: int
proof unfold_locales
  show "truthy (latched st) \<Longrightarrow> True \<Longrightarrow> truthy (latched (recheckStep initial reuseMs e st))" for st e
    using finishRun_latch [of initial "latched st"]
    by (cases e) (auto simp: Let_def split: prod.splits)
qed

text \<open>A reported change has set the latch.\<close>

definition recheckInv :: "RecheckState \<Rightarrow> bool" where
  "recheckInv st \<longleftrightarrow> (\<forall>c. RunDone (Changed c) \<in> set (runs st) \<longrightarrow> truthy (latched st))"

lemma recheckInv_step:
  assumes "recheckInv st"
  shows "recheckInv (recheckStep initial reuseMs e st)"
proof (cases e)
  case (Call t1 t2)
  with assms show ?thesis
    by (auto simp: recheckInv_def callRecheck_def startRun_def Let_def split: option.splits if_splits)
next
  case (Finish r outcome)
  obtain answer l where f: "finishRun initial (latched st) outcome = (answer, l)" by fastforce
  show ?thesis
  proof (cases "r < length (runs st) \<and> runs st ! r = RunPending")
    case True
    have "truthy l" if "RunDone (Changed c) \<in> set ((runs st)[r := RunDone answer])" for c
    proof (cases "answer = Changed c")
      case True
      then show ?thesis using finishRun_latch [OF f] by simp
    next
      case False
      with that have "RunDone (Changed c) \<in> set (runs st)"
        by (metis RecheckRun.inject insertE set_update_subset_insert subsetD)
      then show ?thesis using assms finishRun_latch [OF f] by (auto simp: recheckInv_def)
    qed
    with True show ?thesis by (simp add: Finish f recheckInv_def)
  next
    case False
    with assms show ?thesis by (auto simp: Finish)
  qed
qed

lemma recheckInv_fold: "recheckInv st \<Longrightarrow> recheckInv (fold (recheckStep initial reuseMs) es st)"
  by (induction es arbitrary: st) (auto intro: recheckInv_step)

text \<open>Under a set latch every run from number \<open>n\<close> on has already reported a change.\<close>

definition stoppedFrom :: "nat \<Rightarrow> RecheckState \<Rightarrow> bool" where
  "stoppedFrom n st \<longleftrightarrow> truthy (latched st) \<and>
     (\<forall>r. n \<le> r \<and> r < length (runs st) \<longrightarrow> (\<exists>c. runs st ! r = RunDone (Changed c)))"

lemma stoppedFrom_step:
  assumes "stoppedFrom n st"
  shows "stoppedFrom n (recheckStep initial reuseMs e st)"
proof (cases e)
  case (Call t1 t2)
  with assms show ?thesis
    by (auto simp: stoppedFrom_def callRecheck_def startRun_def Let_def nth_append less_Suc_eq
        split: option.splits if_splits)
next
  case (Finish r outcome)
  obtain answer l where f: "finishRun initial (latched st) outcome = (answer, l)" by fastforce
  have "r < n" if "r < length (runs st)" "runs st ! r = RunPending"
    using assms that unfolding stoppedFrom_def by (metis RecheckRun.distinct(1) not_le_imp_less)
  with assms finishRun_latch [OF f] show ?thesis
    by (auto simp: Finish f stoppedFrom_def)
qed

lemma stoppedFrom_fold: "stoppedFrom n st \<Longrightarrow> stoppedFrom n (fold (recheckStep initial reuseMs) es st)"
  by (induction es arbitrary: st) (auto intro: stoppedFrom_step)

section \<open>Properties\<close>

text \<open>
  Once any run of the recheck has reported a change, the latch is set and every run that
  starts later, whatever is read then, reports a change too: a later matching read cannot
  restart the sends.
\<close>

theorem drop_change_stops_later_runs:
  assumes "RunDone (Changed c) \<in> set (runs (fold (recheckStep initial reuseMs) es newRecheck))"
    and "length (runs (fold (recheckStep initial reuseMs) es newRecheck)) \<le> r"
    and "r < length (runs (fold (recheckStep initial reuseMs) (es @ es') newRecheck))"
  shows "\<exists>c'. runs (fold (recheckStep initial reuseMs) (es @ es') newRecheck) ! r = RunDone (Changed c')"
proof -
  let ?st = "fold (recheckStep initial reuseMs) es newRecheck"
  have "recheckInv ?st" by (rule recheckInv_fold) (simp add: recheckInv_def newRecheck_def)
  with assms(1) have "stoppedFrom (length (runs ?st)) ?st"
    by (auto simp: recheckInv_def stoppedFrom_def)
  from stoppedFrom_fold [OF this, of initial reuseMs es'] assms(2,3) show ?thesis
    by (simp add: stoppedFrom_def)
qed

definition demoDrop :: "wei \<Rightarrow> DropConfig" where
  "demoDrop price = \<lparr>nftContract = ''0xa'', mintPrice = price, maxTotalMintableByWallet = 1, maxTokenSupply = 10,
     totalMinted = 0, startTime = 1, endTime = 2, feePayer = ''0xf'', strategyName = ''seadrop-v1-public'',
     drop_chainId = Chain1, extra = None\<rparr>"

definition demoValid :: DropValidation where
  "demoValid = \<lparr>valid = True, errors = [], warnings = []\<rparr>"

lemmas recheck_eval = callRecheck_def startRun_def newRecheck_def finishRun_def describeDropChange_def dropChanges_def
  isPartialReading_def OPTIONAL_READ_FLAGS_def STABLE_SETTINGS_def demoDrop_def demoValid_def extra_at_def

theorem drop_change_stops_later_runs_witness:
  "runs (fold (recheckStep (demoDrop 0) 1500) ([Call 0 0, Finish 0 (ReadOk (demoDrop 1) demoValid)] @ [Call 1600 1600]) newRecheck)
     = [RunDone (Changed ''price''), RunDone (Changed ''price'')] \<and>
   (\<exists>c'. runs (fold (recheckStep (demoDrop 0) 1500)
      ([Call 0 0, Finish 0 (ReadOk (demoDrop 1) demoValid)] @ [Call 1600 1600]) newRecheck) ! 1 = RunDone (Changed c'))"
proof -
  let ?es = "[Call 0 0, Finish 0 (ReadOk (demoDrop 1) demoValid)]"
  have a: "runs (fold (recheckStep (demoDrop 0) 1500) ?es newRecheck) = [RunDone (Changed ''price'')]"
    by (simp add: recheck_eval)
  have b: "runs (fold (recheckStep (demoDrop 0) 1500) (?es @ [Call 1600 1600]) newRecheck)
     = [RunDone (Changed ''price''), RunDone (Changed ''price'')]"
    by (simp add: recheck_eval)
  have h1: "RunDone (Changed ''price'') \<in> set (runs (fold (recheckStep (demoDrop 0) 1500) ?es newRecheck))"
    unfolding a by simp
  have h2: "length (runs (fold (recheckStep (demoDrop 0) 1500) ?es newRecheck)) \<le> 1"
    unfolding a by simp
  have h3: "1 < length (runs (fold (recheckStep (demoDrop 0) 1500) (?es @ [Call 1600 1600]) newRecheck))"
    unfolding b by simp
  from drop_change_stops_later_runs [OF h1 h2 h3] b show ?thesis by blast
qed

text \<open>
  The latch does not cover runs that overlap: with the default reuse window (1500 ms, shorter
  than the 2000 ms timeout) a second run can start before the first one reports a change, finish
  after it with a matching read, and a call made after the latch was set is answered "no change".
\<close>

theorem overlapping_recheck_forgets_change:
  "\<exists>st. st = fold (recheckStep (demoDrop 0) DROP_RECHECK_REUSE_MS)
        [Call 0 0, Call 1501 1501, Finish 0 (ReadOk (demoDrop 1) demoValid), Finish 1 (ReadOk (demoDrop 0) demoValid)]
        newRecheck \<and>
     latched st = Some ''price'' \<and> fst (callRecheck DROP_RECHECK_REUSE_MS 2100 2100 st) = 1 \<and>
     runs st ! 1 = RunDone NoChange \<and> DROP_RECHECK_REUSE_MS < DROP_RECHECK_TIMEOUT_MS"
  by (simp add: recheck_eval DROP_RECHECK_REUSE_MS_def DROP_RECHECK_TIMEOUT_MS_def)

end
