(* ===== verification/NonceManager.thy ===== *)
theory NonceManager
  imports Types
begin

text \<open>
  The nonce manager and its promise-based mutex (\<^verbatim>\<open>packages/engine/src/nonce-manager.ts\<close>).

  Calls of \<^verbatim>\<open>getNonce\<close> and \<^verbatim>\<open>resetNonce\<close> interleave: a call is a task that first acquires the
  wallet's mutex (at once, or by waiting in its queue) and later, when its request to the chain
  has been answered or has failed, updates the counter and releases the mutex. The relation
  \<open>nonceStep\<close> has one rule for each of these moments, and one for the synchronous \<^verbatim>\<open>consumeNonce\<close>.
  The lists \<open>arrived\<close> and \<open>entered\<close> record the order in which tasks asked for and got a mutex.
\<close>

section \<open>Definitions\<close>

record 't Mutex =
  locked :: bool
  queue :: "'t list"

definition newMutex :: "'t Mutex" where
  "newMutex = \<lparr>locked = False, queue = []\<rparr>"

text \<open>\<open>True\<close>: the caller holds the mutex; \<open>False\<close>: it waits in the queue.\<close>

definition acquire :: "'t \<Rightarrow> 't Mutex \<Rightarrow> bool \<times> 't Mutex" where
  "acquire t mx =
     (if \<not> locked mx then (True, mx\<lparr>locked := True\<rparr>) else (False, mx\<lparr>queue := queue mx @ [t]\<rparr>))"

text \<open>The waiting task that is resumed, if any; the mutex then stays locked.\<close>

definition release :: "'t Mutex \<Rightarrow> 't option \<times> 't Mutex" where
  "release mx =
     (case queue mx of
        next # rest \<Rightarrow> (Some next, mx\<lparr>queue := rest\<rparr>)
      | [] \<Rightarrow> (None, mx\<lparr>locked := False\<rparr>))"

datatype NonceCall = GetNonce | ResetNonce

type_synonym task = "nat \<times> NonceCall"

record WalletNonceState =
  currentNonce :: int
  initialized :: bool
  mutex :: "task Mutex"

definition getOrCreateState :: "address \<Rightarrow> (address \<rightharpoonup> WalletNonceState) \<Rightarrow> WalletNonceState" where
  "getOrCreateState a ws =
     (case ws a of
        Some st \<Rightarrow> st
      | None \<Rightarrow> \<lparr>currentNonce = 0, initialized = False, mutex = newMutex\<rparr>)"

text \<open>
  The bodies between acquire and release. The argument is the chain's pending transaction count,
  \<open>None\<close> when the request fails; \<open>Inl\<close> is the rejection of the call.
\<close>

fun callBody :: "NonceCall \<Rightarrow> int option \<Rightarrow> WalletNonceState \<Rightarrow> (unit + int) \<times> WalletNonceState" where
  "callBody GetNonce chain st =
     (if initialized st then (Inr (currentNonce st), st)
      else case chain of
        None \<Rightarrow> (Inl (), st)
      | Some n \<Rightarrow> (Inr n, st\<lparr>currentNonce := n, initialized := True\<rparr>))"
| "callBody ResetNonce chain st =
     (case chain of
        None \<Rightarrow> (Inl (), st)
      | Some n \<Rightarrow> (Inr n, st\<lparr>currentNonce := n, initialized := True\<rparr>))"

definition consumeNonce :: "address \<Rightarrow> (address \<rightharpoonup> WalletNonceState) \<Rightarrow> unit + (address \<rightharpoonup> WalletNonceState)" where
  "consumeNonce a ws =
     (case ws a of
        None \<Rightarrow> Inl ()
      | Some st \<Rightarrow>
          (if \<not> initialized st then Inl ()
           else Inr (ws(a \<mapsto> st\<lparr>currentNonce := currentNonce st + 1\<rparr>))))"

record NonceSystem =
  wallets :: "address \<rightharpoonup> WalletNonceState"
  inside :: "(address \<times> task) list"
  arrived :: "(address \<times> task) list"
  entered :: "(address \<times> task) list"

definition newNonceSystem :: NonceSystem where
  "newNonceSystem = \<lparr>wallets = Map.empty, inside = [], arrived = [], entered = []\<rparr>"

datatype NonceEvent =
    Arrive address task
  | Finish address task "int option" "unit + int"
  | Consume address

inductive nonceStep :: "NonceSystem \<Rightarrow> NonceEvent \<Rightarrow> NonceSystem \<Rightarrow> bool" where
  arrive: "acquire t (mutex (getOrCreateState a (wallets s))) = (got, mx) \<Longrightarrow>
    nonceStep s (Arrive a t)
      (s\<lparr>wallets := (wallets s)(a \<mapsto> (getOrCreateState a (wallets s))\<lparr>mutex := mx\<rparr>),
        inside := (if got then inside s @ [(a, t)] else inside s),
        arrived := arrived s @ [(a, t)],
        entered := (if got then entered s @ [(a, t)] else entered s)\<rparr>)"
| finish: "(a, t) \<in> set (inside s) \<Longrightarrow> wallets s a = Some st \<Longrightarrow> callBody (snd t) chain st = (answer, st1) \<Longrightarrow>
    release (mutex st1) = (resumed, mx) \<Longrightarrow> new = (case resumed of None \<Rightarrow> [] | Some u \<Rightarrow> [(a, u)]) \<Longrightarrow>
    nonceStep s (Finish a t chain answer)
      (s\<lparr>wallets := (wallets s)(a \<mapsto> st1\<lparr>mutex := mx\<rparr>),
        inside := remove1 (a, t) (inside s) @ new, entered := entered s @ new\<rparr>)"
| consume: "consumeNonce a (wallets s) = Inr ws \<Longrightarrow> nonceStep s (Consume a) (s\<lparr>wallets := ws\<rparr>)"

inductive_cases arriveE: "nonceStep s (Arrive a t) s'"
inductive_cases finishE: "nonceStep s (Finish a t chain answer) s'"
inductive_cases consumeE: "nonceStep s (Consume a) s'"

inductive nonceRun :: "NonceSystem \<Rightarrow> NonceEvent list \<Rightarrow> NonceSystem \<Rightarrow> bool" where
  run_nil: "nonceRun s [] s"
| run_snoc: "nonceRun s es s1 \<Longrightarrow> nonceStep s1 e s2 \<Longrightarrow> nonceRun s (es @ [e]) s2"

section \<open>The mutex\<close>

text \<open>The tasks of one address among the recorded ones.\<close>

definition tasksOf :: "address \<Rightarrow> (address \<times> task) list \<Rightarrow> task list" where
  "tasksOf a xs = map snd (filter (\<lambda>x. fst x = a) xs)"

lemma tasksOf_Nil [simp]: "tasksOf a [] = []"
  by (simp add: tasksOf_def)

lemma tasksOf_append [simp]: "tasksOf a (xs @ ys) = tasksOf a xs @ tasksOf a ys"
  by (simp add: tasksOf_def)

lemma tasksOf_Cons [simp]: "tasksOf a ((b, t) # xs) = (if b = a then t # tasksOf a xs else tasksOf a xs)"
  by (simp add: tasksOf_def)

lemma tasksOf_remove1_other: "b \<noteq> a \<Longrightarrow> tasksOf a (remove1 (b, t) xs) = tasksOf a xs"
  by (induction xs) (auto simp: tasksOf_def)

lemma tasksOf_remove1_same: "tasksOf a (remove1 (a, t) xs) = remove1 t (tasksOf a xs)"
  by (induction xs) (auto simp: tasksOf_def)

lemma tasksOf_mem: "(a, t) \<in> set xs \<Longrightarrow> t \<in> set (tasksOf a xs)"
  by (force simp: tasksOf_def)

text \<open>
  What holds of every wallet: the mutex is locked exactly while one task is inside, tasks wait
  only then, and the order of entering is the order of arriving.
\<close>

definition walletInv :: "NonceSystem \<Rightarrow> address \<Rightarrow> bool" where
  "walletInv s a \<longleftrightarrow>
     (let mx = mutex (getOrCreateState a (wallets s))
      in (if locked mx then \<exists>t. tasksOf a (inside s) = [t] else tasksOf a (inside s) = [] \<and> queue mx = []) \<and>
         tasksOf a (arrived s) = tasksOf a (entered s) @ queue mx)"

lemma callBody_mutex: "callBody c chain st = (answer, st') \<Longrightarrow> mutex st' = mutex st"
  by (cases c) (auto split: if_splits option.splits)

lemma walletInv_arrive:
  assumes "walletInv s b" and "nonceStep s (Arrive a t) s'"
  shows "walletInv s' b"
  using assms(2)
proof (rule arriveE)
  fix got mx
  assume "acquire t (mutex (getOrCreateState a (wallets s))) = (got, mx)"
    and "s' = s\<lparr>wallets := (wallets s)(a \<mapsto> (getOrCreateState a (wallets s))\<lparr>mutex := mx\<rparr>),
        inside := (if got then inside s @ [(a, t)] else inside s), arrived := arrived s @ [(a, t)],
        entered := (if got then entered s @ [(a, t)] else entered s)\<rparr>"
  with assms(1) show ?thesis
    by (cases "b = a") (auto simp: walletInv_def acquire_def Let_def getOrCreateState_def split: if_splits)
qed

lemma walletInv_finish:
  assumes "walletInv s b" and "nonceStep s (Finish a t chain answer) s'"
  shows "walletInv s' b"
proof -
  from assms(2) obtain st st1 resumed mx where t: "(a, t) \<in> set (inside s)" and st: "wallets s a = Some st"
    and body: "callBody (snd t) chain st = (answer, st1)" and rel: "release (mutex st1) = (resumed, mx)"
    and s': "s' = s\<lparr>wallets := (wallets s)(a \<mapsto> st1\<lparr>mutex := mx\<rparr>),
        inside := remove1 (a, t) (inside s) @ (case resumed of None \<Rightarrow> [] | Some u \<Rightarrow> [(a, u)]),
        entered := entered s @ (case resumed of None \<Rightarrow> [] | Some u \<Rightarrow> [(a, u)])\<rparr>"
    by (auto elim: finishE)
  show ?thesis
  proof (cases "b = a")
    case True
    have m: "mutex st1 = mutex st" using body by (rule callBody_mutex)
    have "t \<in> set (tasksOf a (inside s))" using t by (rule tasksOf_mem)
    with assms(1) True st have "tasksOf a (inside s) = [t]" "locked (mutex st)"
      by (auto simp: walletInv_def Let_def getOrCreateState_def split: if_splits)
    with assms(1) True st rel s' m show ?thesis
      by (auto simp: walletInv_def Let_def getOrCreateState_def release_def tasksOf_remove1_same split: list.splits)
  next
    case False
    with assms(1) s' show ?thesis
      by (auto simp: walletInv_def Let_def getOrCreateState_def tasksOf_remove1_other split: option.splits)
  qed
qed

lemma walletInv_consume:
  assumes "walletInv s b" and "nonceStep s (Consume a) s'"
  shows "walletInv s' b"
proof -
  from assms(2) obtain ws where "consumeNonce a (wallets s) = Inr ws" "s' = s\<lparr>wallets := ws\<rparr>"
    by (auto elim: consumeE)
  with assms(1) show ?thesis
    by (cases "b = a") (auto simp: walletInv_def Let_def consumeNonce_def getOrCreateState_def split: option.splits if_splits)
qed

lemma walletInv_step: "nonceStep s e s' \<Longrightarrow> walletInv s b \<Longrightarrow> walletInv s' b"
  by (cases e) (auto intro: walletInv_arrive walletInv_finish walletInv_consume)

lemma walletInv_run: "nonceRun s es s' \<Longrightarrow> walletInv s b \<Longrightarrow> walletInv s' b"
  by (induction rule: nonceRun.induct) (auto intro: walletInv_step)

lemma walletInv_new: "walletInv newNonceSystem a"
  by (simp add: walletInv_def newNonceSystem_def getOrCreateState_def newMutex_def Let_def)

section \<open>The counter\<close>

definition resets :: "address \<Rightarrow> NonceEvent \<Rightarrow> bool" where
  "resets a e \<longleftrightarrow> (\<exists>k chain answer. e = Finish a (k, ResetNonce) chain answer)"

lemma counter_step:
  assumes "nonceStep s e s'" and "wallets s a = Some st" and "initialized st" and "\<not> resets a e"
  shows "\<exists>st'. wallets s' a = Some st' \<and> initialized st' \<and>
     currentNonce st' = currentNonce st + (if e = Consume a then 1 else 0) \<and>
     (\<forall>k chain answer. e = Finish a (k, GetNonce) chain answer \<longrightarrow> answer = Inr (currentNonce st))"
  using assms(1)
proof cases
  case (arrive t b got mx)
  with assms(2-3) show ?thesis by (auto simp: getOrCreateState_def)
next
  case (finish b t st0 chain answer st1 resumed mx new)
  show ?thesis
  proof (cases "b = a")
    case True
    with assms(4) finish have "snd t = GetNonce"
      by (cases t, cases "snd t") (auto simp: resets_def)
    with True finish assms(2,3) have "answer = Inr (currentNonce st)" "st1 = st" by auto
    with True finish assms(2,3) show ?thesis by auto
  next
    case False
    with finish assms(2,3) show ?thesis by auto
  qed
next
  case (consume b ws)
  with assms(2-3) show ?thesis by (auto simp: consumeNonce_def split: option.splits if_splits)
qed

lemma counter_run:
  assumes "nonceRun s es s'" and "wallets s a = Some st" and "initialized st" and "\<forall>e \<in> set es. \<not> resets a e"
  shows "\<exists>st'. wallets s' a = Some st' \<and> initialized st' \<and>
     currentNonce st' = currentNonce st + int (count_list es (Consume a))"
  using assms
proof (induction rule: nonceRun.induct)
  case (run_nil s)
  then show ?case by simp
next
  case (run_snoc s es s1 e s2)
  then obtain st1 where st1: "wallets s1 a = Some st1" "initialized st1"
    "currentNonce st1 = currentNonce st + int (count_list es (Consume a))" by auto
  from counter_step [OF run_snoc.hyps(2) st1(1,2)] run_snoc.prems st1(3) show ?case by auto
qed

section \<open>Properties\<close>

text \<open>
  C38. In every interleaving of calls, at most one task is between acquire and release for a
  wallet, a task waits only while another one is inside (so a release always wakes it), and
  tasks tasksOf a wallet enter in the order in which they arrived.
\<close>

theorem nonce_mutex_exclusive_fifo:
  assumes "nonceRun newNonceSystem es s"
  shows "length (tasksOf a (inside s)) \<le> 1 \<and>
    (queue (mutex (getOrCreateState a (wallets s))) \<noteq> [] \<longrightarrow> length (tasksOf a (inside s)) = 1) \<and>
    tasksOf a (arrived s) = tasksOf a (entered s) @ queue (mutex (getOrCreateState a (wallets s)))"
  using walletInv_run [OF assms walletInv_new, of a]
  by (auto simp: walletInv_def Let_def split: if_splits)

theorem nonce_mutex_exclusive_fifo_witness:
  "nonceRun newNonceSystem ([] @ [Arrive ''0xa'' (0, GetNonce)] @ [Arrive ''0xa'' (1, ResetNonce)])
     \<lparr>wallets = [''0xa'' \<mapsto> \<lparr>currentNonce = 0, initialized = False, mutex = \<lparr>locked = True, queue = [(1, ResetNonce)]\<rparr>\<rparr>],
      inside = [(''0xa'', 0, GetNonce)], arrived = [(''0xa'', 0, GetNonce), (''0xa'', 1, ResetNonce)],
      entered = [(''0xa'', 0, GetNonce)]\<rparr> \<and>
   length (tasksOf ''0xa'' [(''0xa'', 0, GetNonce)]) = 1"
proof -
  let ?s1 = "\<lparr>wallets = [''0xa'' \<mapsto> \<lparr>currentNonce = 0, initialized = False, mutex = \<lparr>locked = True, queue = []\<rparr>\<rparr>],
      inside = [(''0xa'', 0, GetNonce)], arrived = [(''0xa'', 0, GetNonce)], entered = [(''0xa'', 0, GetNonce)]\<rparr>"
  let ?s2 = "\<lparr>wallets = [''0xa'' \<mapsto> \<lparr>currentNonce = 0, initialized = False, mutex = \<lparr>locked = True, queue = [(1, ResetNonce)]\<rparr>\<rparr>],
      inside = [(''0xa'', 0, GetNonce)], arrived = [(''0xa'', 0, GetNonce), (''0xa'', 1, ResetNonce)],
      entered = [(''0xa'', 0, GetNonce)]\<rparr>"
  have 1: "nonceStep newNonceSystem (Arrive ''0xa'' (0, GetNonce)) ?s1"
    using nonceStep.arrive [of "(0, GetNonce)" "''0xa''" newNonceSystem True "\<lparr>locked = True, queue = []\<rparr>"]
    by (simp add: newNonceSystem_def getOrCreateState_def newMutex_def acquire_def)
  have 2: "nonceStep ?s1 (Arrive ''0xa'' (1, ResetNonce)) ?s2"
    using nonceStep.arrive [of "(1, ResetNonce)" "''0xa''" ?s1 False "\<lparr>locked = True, queue = [(1, ResetNonce)]\<rparr>"]
    by (simp add: getOrCreateState_def acquire_def)
  have r: "nonceRun newNonceSystem ([] @ [Arrive ''0xa'' (0, GetNonce)] @ [Arrive ''0xa'' (1, ResetNonce)]) ?s2"
    using run_snoc [OF run_snoc [OF run_nil 1] 2] by simp
  show ?thesis using r nonce_mutex_exclusive_fifo [OF r, of "''0xa''"] by (simp add: getOrCreateState_def)
qed

text \<open>
  After a wallet's counter was fetched, and as long as no reset completes for it, every
  completed \<open>getNonce\<close> of that wallet returns the fetched nonce plus the number of nonces consumed
  since, whatever other wallets do.
\<close>

theorem nonce_counts_consumed:
  assumes "nonceRun s es s1" and "wallets s a = Some st" and "initialized st"
    and "\<forall>e \<in> set es. \<not> resets a e" and "nonceStep s1 (Finish a (k, GetNonce) chain answer) s2"
  shows "answer = Inr (currentNonce st + int (count_list es (Consume a)))"
proof -
  from counter_run [OF assms(1-4)] obtain st1 where st1: "wallets s1 a = Some st1" "initialized st1"
    "currentNonce st1 = currentNonce st + int (count_list es (Consume a))" by auto
  have "\<not> resets a (Finish a (k, GetNonce) chain answer)" by (simp add: resets_def)
  from counter_step [OF assms(5) st1(1,2) this] st1(3) show ?thesis by auto
qed

theorem nonce_counts_consumed_witness:
  "nonceStep
     \<lparr>wallets = [''0xa'' \<mapsto> \<lparr>currentNonce = 6, initialized = True, mutex = \<lparr>locked = True, queue = []\<rparr>\<rparr>],
      inside = [(''0xa'', 0, GetNonce)], arrived = [], entered = []\<rparr>
     (Finish ''0xa'' (0, GetNonce) None (Inr 6))
     \<lparr>wallets = [''0xa'' \<mapsto> \<lparr>currentNonce = 6, initialized = True, mutex = \<lparr>locked = False, queue = []\<rparr>\<rparr>],
      inside = [], arrived = [], entered = []\<rparr> \<and>
   Inr 6 = (Inr (5 + int (count_list [Consume ''0xa''] (Consume ''0xa''))) :: unit + int)"
proof -
  let ?st = "\<lparr>currentNonce = 5, initialized = True, mutex = \<lparr>locked = True, queue = []\<rparr>\<rparr>"
  let ?s = "\<lparr>wallets = [''0xa'' \<mapsto> ?st], inside = [(''0xa'', 0, GetNonce)], arrived = [], entered = []\<rparr>"
  let ?s1 = "\<lparr>wallets = [''0xa'' \<mapsto> \<lparr>currentNonce = 6, initialized = True, mutex = \<lparr>locked = True, queue = []\<rparr>\<rparr>],
      inside = [(''0xa'', 0, GetNonce)], arrived = [], entered = []\<rparr>"
  let ?s2 = "\<lparr>wallets = [''0xa'' \<mapsto> \<lparr>currentNonce = 6, initialized = True, mutex = \<lparr>locked = False, queue = []\<rparr>\<rparr>],
      inside = [], arrived = [], entered = []\<rparr>"
  have "nonceStep ?s (Consume ''0xa'') ?s1"
    using nonceStep.consume [of "''0xa''" ?s "wallets ?s1"] by (simp add: consumeNonce_def)
  then have r: "nonceRun ?s ([] @ [Consume ''0xa'']) ?s1" by (rule run_snoc [OF run_nil])
  have f: "nonceStep ?s1 (Finish ''0xa'' (0, GetNonce) None (Inr 6)) ?s2"
    using nonceStep.finish [of "''0xa''" "(0, GetNonce)" ?s1
        "\<lparr>currentNonce = 6, initialized = True, mutex = \<lparr>locked = True, queue = []\<rparr>\<rparr>" None "Inr 6"
        "\<lparr>currentNonce = 6, initialized = True, mutex = \<lparr>locked = True, queue = []\<rparr>\<rparr>" None "\<lparr>locked = False, queue = []\<rparr>" "[]"]
    by (simp add: release_def)
  have w: "wallets ?s ''0xa'' = Some ?st" "initialized ?st" by simp_all
  have n: "\<forall>e \<in> set ([] @ [Consume ''0xa'']). \<not> resets ''0xa'' e" by (simp add: resets_def)
  from nonce_counts_consumed [OF r w n f] f show ?thesis by simp
qed

end
