(* ===== verification/Effects.thy ===== *)
theory Effects
  imports Prelude
begin

text \<open>
  Sequencing of effectful code. A computation over a state \<open>'s\<close> returns a result (\<open>Inl\<close> a thrown
  error, \<open>Inr\<close> a value) together with the new state; \<open>bindS\<close> is \<^verbatim>\<open>await\<close> followed by the rest of
  the function, \<open>catchS\<close> is \<^verbatim>\<open>try\<close>/\<^verbatim>\<open>catch\<close>, and \<open>forEachS\<close> is a sequential loop over a list.

  The locale \<open>state_order\<close> collects the facts used to show that a computation moves the state only
  along a given preorder (time passes, a trace grows, a flag stays set), one rule per combinator.

  \<open>repeatS\<close> is an endless loop whose body returns or goes round; \<open>None\<close> means that it never returns.
\<close>

named_theorems eff_simps \<open>rules that evaluate sequences of effectful steps\<close>
named_theorems eff_order \<open>rules that show that a computation follows the order on states\<close>

section \<open>Combinators\<close>

type_synonym ('s, 'e, 'a) eff = "'s \<Rightarrow> ('e + 'a) \<times> 's"

definition returnS :: "'a \<Rightarrow> ('s, 'e, 'a) eff" where
  "returnS x s = (Inr x, s)"

definition throwS :: "'e \<Rightarrow> ('s, 'e, 'a) eff" where
  "throwS e s = (Inl e, s)"

definition liftS :: "'e + 'a \<Rightarrow> ('s, 'e, 'a) eff" where
  "liftS r s = (r, s)"

definition bindS :: "('s, 'e, 'a) eff \<Rightarrow> ('a \<Rightarrow> ('s, 'e, 'b) eff) \<Rightarrow> ('s, 'e, 'b) eff" where
  "bindS m f s = (case m s of (Inl e, s') \<Rightarrow> (Inl e, s') | (Inr x, s') \<Rightarrow> f x s')"

definition catchS :: "('s, 'e, 'a) eff \<Rightarrow> ('e \<Rightarrow> ('s, 'f, 'a) eff) \<Rightarrow> ('s, 'f, 'a) eff" where
  "catchS m h s = (case m s of (Inl e, s') \<Rightarrow> h e s' | (Inr x, s') \<Rightarrow> (Inr x, s'))"

definition ensureS :: "bool \<Rightarrow> 'e \<Rightarrow> ('s, 'e, unit) eff" where
  "ensureS c e = (if c then returnS () else throwS e)"

definition getS :: "('s \<Rightarrow> 'a) \<Rightarrow> ('s, 'e, 'a) eff" where
  "getS f s = (Inr (f s), s)"

definition modifyS :: "('s \<Rightarrow> 's) \<Rightarrow> ('s, 'e, unit) eff" where
  "modifyS f s = (Inr (), f s)"

fun forEachS :: "'a list \<Rightarrow> ('a \<Rightarrow> ('s, 'e, unit) eff) \<Rightarrow> ('s, 'e, unit) eff" where
  "forEachS [] f = returnS ()"
| "forEachS (x # xs) f = bindS (f x) (\<lambda>_. forEachS xs f)"

lemma returnS_apply [simp, eff_simps]: "returnS x s = (Inr x, s)"
  by (simp add: returnS_def)

lemma throwS_apply [simp, eff_simps]: "throwS e s = (Inl e, s)"
  by (simp add: throwS_def)

lemma liftS_apply [simp, eff_simps]: "liftS r s = (r, s)"
  by (simp add: liftS_def)

lemma getS_apply [simp, eff_simps]: "getS f s = (Inr (f s), s)"
  by (simp add: getS_def)

lemma modifyS_apply [simp, eff_simps]: "modifyS f s = (Inr (), f s)"
  by (simp add: modifyS_def)

lemma ensureS_apply [simp, eff_simps]: "ensureS c e s = (if c then (Inr (), s) else (Inl e, s))"
  by (simp add: ensureS_def)

lemma bindS_return [simp]: "bindS (returnS x) f = f x"
  by (rule ext) (simp add: bindS_def)

lemma bindS_eq_Inr [eff_simps]:
  "bindS m f s = (Inr y, s'') \<longleftrightarrow> (\<exists>x s'. m s = (Inr x, s') \<and> f x s' = (Inr y, s''))"
  by (auto simp: bindS_def split: prod.splits sum.splits)

lemma bindS_eq_Inl:
  "bindS m f s = (Inl e, s'') \<longleftrightarrow> m s = (Inl e, s'') \<or> (\<exists>x s'. m s = (Inr x, s') \<and> f x s' = (Inl e, s''))"
  by (auto simp: bindS_def split: prod.splits sum.splits)

lemma bindS_Inr [eff_simps]: "m s = (Inr x, s') \<Longrightarrow> bindS m f s = f x s'"
  by (simp add: bindS_def)

lemma bindS_Inl [eff_simps]: "m s = (Inl e, s') \<Longrightarrow> bindS m f s = (Inl e, s')"
  by (simp add: bindS_def)

lemma catchS_eq_Inr:
  "catchS m h s = (Inr y, s'') \<longleftrightarrow> m s = (Inr y, s'') \<or> (\<exists>e s'. m s = (Inl e, s') \<and> h e s' = (Inr y, s''))"
  by (auto simp: catchS_def split: prod.splits sum.splits)

section \<open>Moving along an order on states\<close>

locale state_order =
  fixes R :: "'s \<Rightarrow> 's \<Rightarrow> bool"
  assumes R_refl: "R s s"
    and R_trans: "R s t \<Longrightarrow> R t u \<Longrightarrow> R s u"
begin

definition follows :: "('s, 'e, 'a) eff \<Rightarrow> bool" where
  "follows m \<longleftrightarrow> (\<forall>s. R s (snd (m s)))"

lemma followsD: "follows m \<Longrightarrow> m s = (r, s') \<Longrightarrow> R s s'"
  by (metis follows_def snd_conv)

lemma followsI: "(\<And>s r s'. m s = (r, s') \<Longrightarrow> R s s') \<Longrightarrow> follows m"
  by (metis follows_def prod.collapse)

lemma follows_return [eff_order]: "follows (returnS x)"
  by (simp add: follows_def R_refl)

lemma follows_throw [eff_order]: "follows (throwS e)"
  by (simp add: follows_def R_refl)

lemma follows_lift [eff_order]: "follows (liftS r)"
  by (simp add: follows_def R_refl)

lemma follows_get [eff_order]: "follows (getS f)"
  by (simp add: follows_def R_refl)

lemma follows_ensure [eff_order]: "follows (ensureS c e)"
  by (simp add: follows_def R_refl)

lemma follows_modify: "(\<And>s. R s (f s)) \<Longrightarrow> follows (modifyS f)"
  by (simp add: follows_def)

lemma follows_bind [eff_order]:
  assumes "follows m" and "\<And>x. follows (f x)"
  shows "follows (bindS m f)"
proof (rule followsI)
  fix s r s'
  assume "bindS m f s = (r, s')"
  then show "R s s'"
    using followsD [OF assms(1)] followsD [OF assms(2)] R_trans
    by (cases r) (auto simp: bindS_eq_Inr bindS_eq_Inl, blast+)
qed

lemma follows_catch [eff_order]:
  assumes "follows m" and "\<And>e. follows (h e)"
  shows "follows (catchS m h)"
proof (rule followsI)
  fix s r s'
  assume *: "catchS m h s = (r, s')"
  obtain q t where m: "m s = (q, t)" by fastforce
  show "R s s'"
  proof (cases q)
    case (Inl e)
    with * m have "h e t = (r, s')" by (simp add: catchS_def)
    then show ?thesis using followsD [OF assms(1) m] followsD [OF assms(2)] R_trans by blast
  next
    case (Inr x)
    with * m have "s' = t" by (simp add: catchS_def)
    then show ?thesis using followsD [OF assms(1) m] by simp
  qed
qed

lemma follows_if [eff_order]: "(c \<Longrightarrow> follows m) \<Longrightarrow> (\<not> c \<Longrightarrow> follows n) \<Longrightarrow> follows (if c then m else n)"
  by simp

lemma follows_case_option [eff_order]:
  "(x = None \<Longrightarrow> follows m) \<Longrightarrow> (\<And>y. x = Some y \<Longrightarrow> follows (f y)) \<Longrightarrow>
   follows (case x of None \<Rightarrow> m | Some y \<Rightarrow> f y)"
  by (cases x) auto

lemma follows_case_prod [eff_order]: "(\<And>a b. x = (a, b) \<Longrightarrow> follows (f a b)) \<Longrightarrow> follows (case x of (a, b) \<Rightarrow> f a b)"
  by (cases x) auto

lemma follows_case_sum [eff_order]:
  "(\<And>a. x = Inl a \<Longrightarrow> follows (f a)) \<Longrightarrow> (\<And>b. x = Inr b \<Longrightarrow> follows (g b)) \<Longrightarrow>
   follows (case x of Inl a \<Rightarrow> f a | Inr b \<Rightarrow> g b)"
  by (cases x) auto

lemma follows_Let [eff_order]: "(\<And>x. x = t \<Longrightarrow> follows (f x)) \<Longrightarrow> follows (let x = t in f x)"
  by simp

lemma follows_forEach [eff_order]: "(\<And>x. x \<in> set xs \<Longrightarrow> follows (f x)) \<Longrightarrow> follows (forEachS xs f)"
  by (induction xs) (auto intro: follows_bind follows_return)

end

text \<open>An invariant is kept when states move along the order "if it held, it still holds".\<close>

interpretation keep: state_order "\<lambda>s s'. I s \<longrightarrow> I s'" for I
  by unfold_locales auto

section \<open>Pre- and postconditions\<close>

text \<open>
  \<open>triple P m Q E\<close>: from a state with \<open>P\<close>, a value leaves a state with \<open>Q\<close> and a thrown error one
  with \<open>E\<close>.
\<close>

definition triple :: "('s \<Rightarrow> bool) \<Rightarrow> ('s, 'e, 'a) eff \<Rightarrow> ('a \<Rightarrow> 's \<Rightarrow> bool) \<Rightarrow> ('s \<Rightarrow> bool) \<Rightarrow> bool" where
  "triple P m Q E \<longleftrightarrow>
     (\<forall>s. P s \<longrightarrow> (case m s of (Inl _, s') \<Rightarrow> E s' | (Inr x, s') \<Rightarrow> Q x s'))"

lemma validI:
  assumes "\<And>s x s'. P s \<Longrightarrow> m s = (Inr x, s') \<Longrightarrow> Q x s'" and "\<And>s e s'. P s \<Longrightarrow> m s = (Inl e, s') \<Longrightarrow> E s'"
  shows "triple P m Q E"
  using assms by (auto simp: triple_def split: prod.splits sum.splits)

lemma validD: "triple P m Q E \<Longrightarrow> P s \<Longrightarrow> m s = (Inr x, s') \<Longrightarrow> Q x s'"
  by (force simp: triple_def)

lemma validE: "triple P m Q E \<Longrightarrow> P s \<Longrightarrow> m s = (Inl e, s') \<Longrightarrow> E s'"
  by (force simp: triple_def)

lemma valid_weaken:
  assumes "triple P' m Q' E'" and "\<And>s. P s \<Longrightarrow> P' s" and "\<And>x s. Q' x s \<Longrightarrow> Q x s" and "\<And>s. E' s \<Longrightarrow> E s"
  shows "triple P m Q E"
  by (rule validI) (metis assms validD validE)+

lemma valid_keep: "keep.follows I m \<Longrightarrow> triple I m (\<lambda>_. I) I"
  by (rule validI) (auto dest: keep.followsD)

lemma keep_valid:
  assumes "triple I m (\<lambda>_. I) I"
  shows "keep.follows I m"
proof (rule keep.followsI, rule impI)
  fix s r s'
  assume "m s = (r, s')" "I s"
  then show "I s'" using validD [OF assms] validE [OF assms] by (cases r) blast+
qed

lemma valid_return: "(\<And>s. P s \<Longrightarrow> Q x s) \<Longrightarrow> triple P (returnS x) Q E"
  by (simp add: triple_def)

lemma valid_throw: "(\<And>s. P s \<Longrightarrow> E s) \<Longrightarrow> triple P (throwS e) Q E"
  by (simp add: triple_def)

lemma valid_bind:
  assumes "triple P m R E" and "\<And>x. triple (R x) (f x) Q E"
  shows "triple P (bindS m f) Q E"
  by (rule validI) (auto simp: bindS_eq_Inr bindS_eq_Inl
      dest: validD [OF assms(1)] validE [OF assms(1)] intro: validD [OF assms(2)] validE [OF assms(2)])

lemma valid_catch:
  assumes "triple P m Q F" and "\<And>e. triple F (h e) Q E"
  shows "triple P (catchS m h) Q E"
  by (rule validI) (auto simp: catchS_def split: prod.splits sum.splits
      dest: validD [OF assms(1)] validE [OF assms(1)] intro: validD [OF assms(2)] validE [OF assms(2)])

lemma valid_if: "(c \<Longrightarrow> triple P m Q E) \<Longrightarrow> (\<not> c \<Longrightarrow> triple P n Q E) \<Longrightarrow> triple P (if c then m else n) Q E"
  by simp

lemma valid_modify: "(\<And>s. P s \<Longrightarrow> Q () (f s)) \<Longrightarrow> triple P (modifyS f) Q E"
  by (simp add: triple_def)

lemma valid_get: "(\<And>s. P s \<Longrightarrow> Q (f s) s) \<Longrightarrow> triple P (getS f) Q E"
  by (simp add: triple_def)

section \<open>Endless loops\<close>

partial_function (option) repeatS :: "('s \<Rightarrow> 'r + 's) \<Rightarrow> 's \<Rightarrow> 'r option" where
  "repeatS body s = (case body s of Inl r \<Rightarrow> Some r | Inr s' \<Rightarrow> repeatS body s')"

lemma repeatS_returns:
  fixes m :: "'s \<Rightarrow> nat"
  assumes "I s" and "\<And>s s'. I s \<Longrightarrow> body s = Inr s' \<Longrightarrow> I s' \<and> m s' < m s"
  shows "\<exists>r. repeatS body s = Some r"
  using assms(1)
proof (induction s rule: measure_induct_rule [where f = m])
  case (less s)
  show ?case
  proof (cases "body s")
    case (Inl r)
    then show ?thesis by (simp add: repeatS.simps)
  next
    case (Inr s')
    with assms(2) [OF less.prems Inr] less.IH show ?thesis by (simp add: repeatS.simps [of body s])
  qed
qed

lemma repeatS_result:
  fixes body :: "'s \<Rightarrow> 'r + 's"
  assumes "repeatS body s = Some r" and "I s" and "\<And>s s'. I s \<Longrightarrow> body s = Inr s' \<Longrightarrow> I s'"
  shows "\<exists>s'. I s' \<and> body s' = Inl r"
proof -
  have "b = body \<longrightarrow> I s \<longrightarrow> (\<exists>s'. I s' \<and> body s' = Inl r)" if "repeatS b s = Some r" for b :: "'s \<Rightarrow> 'r + 's" and s
  proof (rule repeatS.raw_induct [where P = "\<lambda>b s r. b = body \<longrightarrow> I s \<longrightarrow> (\<exists>s'. I s' \<and> body s' = Inl r)", OF _ that], intro impI)
    fix f and b :: "'s \<Rightarrow> 'r + 's" and s r
    assume IH: "\<And>b s r. f b s = Some r \<Longrightarrow> b = body \<longrightarrow> I s \<longrightarrow> (\<exists>s'. I s' \<and> body s' = Inl r)"
      and eq: "(case b s of Inl r \<Rightarrow> Some r | Inr s' \<Rightarrow> f b s') = Some r" and b: "b = body" and s: "I s"
    show "\<exists>s'. I s' \<and> body s' = Inl r"
    proof (cases "body s")
      case (Inl q)
      with eq b s show ?thesis by auto
    next
      case (Inr s')
      with eq b have "f body s' = Some r" by simp
      with IH assms(3) [OF s Inr] show ?thesis by blast
    qed
  qed
  with assms(1,2) show ?thesis by blast
qed

section \<open>The world outside\<close>

text \<open>
  A program's surroundings: the clock in milliseconds, an arbitrary outside state that answers
  the calls the program makes, and the trace of the events the model records. Every call to the
  outside takes some non-negative time. The clock is taken to be monotone.
\<close>

record ('x, 'ev) World =
  clock :: int
  outside :: 'x
  trace :: "'ev list"

type_synonym ('x, 'r) ask = "'x \<Rightarrow> 'r \<times> nat \<times> 'x"

definition askS :: "('x, 'e + 'r) ask \<Rightarrow> (('x, 'ev) World, 'e, 'r) eff" where
  "askS f w = (case f (outside w) of (r, elapsed, x) \<Rightarrow>
     (r, w\<lparr>clock := clock w + int elapsed, outside := x\<rparr>))"

definition nowS :: "(('x, 'ev) World, 'e, int) eff" where
  "nowS = getS clock"

text \<open>A timer fires after at least the requested time; \<open>late\<close> is the delay beyond it.\<close>

definition sleepS :: "('x, nat) ask \<Rightarrow> int \<Rightarrow> (('x, 'ev) World, 'e, unit) eff" where
  "sleepS late ms w = (case late (outside w) of (d, elapsed, x) \<Rightarrow>
     (Inr (), w\<lparr>clock := clock w + max 0 ms + int d + int elapsed, outside := x\<rparr>))"

definition emitS :: "'ev \<Rightarrow> (('x, 'ev) World, 'e, unit) eff" where
  "emitS ev = modifyS (\<lambda>w. w\<lparr>trace := trace w @ [ev]\<rparr>)"

lemma nowS_apply [simp, eff_simps]: "nowS w = (Inr (clock w), w)"
  by (simp add: nowS_def)

lemma askS_clock: "askS f w = (r, w') \<Longrightarrow> clock w \<le> clock w'"
  by (auto simp: askS_def split: prod.splits)

lemma askS_trace: "askS f w = (r, w') \<Longrightarrow> trace w' = trace w"
  by (auto simp: askS_def split: prod.splits)

lemma sleepS_clock: "sleepS late ms w = (r, w') \<Longrightarrow> clock w + ms \<le> clock w' \<and> clock w \<le> clock w'"
  by (auto simp: sleepS_def split: prod.splits)

lemma sleepS_trace: "sleepS late ms w = (r, w') \<Longrightarrow> trace w' = trace w"
  by (auto simp: sleepS_def split: prod.splits)

interpretation time: state_order "\<lambda>w w'. clock w \<le> clock w'"
  by unfold_locales auto

lemma time_askS [eff_order]: "time.follows (askS f)"
  by (rule time.followsI) (rule askS_clock)

lemma time_sleepS [eff_order]: "time.follows (sleepS late ms)"
  by (rule time.followsI) (simp add: sleepS_clock)

lemma time_nowS [eff_order]: "time.follows nowS"
  by (simp add: nowS_def time.follows_get)

lemma time_emitS [eff_order]: "time.follows (emitS ev)"
  by (simp add: emitS_def time.follows_modify)

interpretation quiet: state_order "\<lambda>w w'. trace w' = trace w"
  by unfold_locales auto

lemma quiet_askS [eff_order]: "quiet.follows (askS f)"
  by (rule quiet.followsI) (rule askS_trace)

lemma quiet_sleepS [eff_order]: "quiet.follows (sleepS late ms)"
  by (rule quiet.followsI) (rule sleepS_trace)

lemma quiet_nowS [eff_order]: "quiet.follows nowS"
  by (simp add: nowS_def quiet.follows_get)

end
