(* ===== verification/Lifecycle.thy ===== *)
theory Lifecycle
  imports Types
begin

text \<open>
  The lifecycle gates and the reconciliation decisions of the engine
  (\<^verbatim>\<open>packages/engine/src/lifecycle.ts\<close> and \<^verbatim>\<open>packages/engine/src/reconciliation.ts\<close>).

  A gate that throws a \<^verbatim>\<open>LifecycleGateError\<close> returns \<open>Inl\<close> with the error's code and gate; the
  prose of the message is not modelled. A \<^verbatim>\<open>Date\<close> is the number its \<^verbatim>\<open>getTime\<close> returns (\<open>NaN\<close> for
  an invalid date). \<^verbatim>\<open>Date.parse\<close>, whose result outside the ISO format is left to the
  implementation, and the SHA-256 digest of the crypto module are arguments.
\<close>

section \<open>Gates\<close>

datatype ExecutionGate = GateSimulation | GateAdmission | GateSign | GateBroadcast | GateProvider

record LifecycleGateError =
  ge_code :: string
  ge_gate :: ExecutionGate

definition gateError :: "string \<Rightarrow> ExecutionGate \<Rightarrow> LifecycleGateError" where
  "gateError c g = \<lparr>ge_code = c, ge_gate = g\<rparr>"

definition grantIsCurrent ::
  "(string \<Rightarrow> jsnum) \<Rightarrow> RobinhoodEnablementGrant option \<Rightarrow> jsnum \<Rightarrow> bool" where
  "grantIsCurrent parse grant now =
     (case grant of
        None \<Rightarrow> False
      | Some g \<Rightarrow>
          let expires = parse (rg_expiresAt g)
          in isFinite expires \<and> isFinite now \<and> js_lt now expires)"

definition baseGrantIsCurrent ::
  "(string \<Rightarrow> jsnum) \<Rightarrow> BaseEnablementGrant option \<Rightarrow> jsnum \<Rightarrow> bool" where
  "baseGrantIsCurrent parse grant now =
     (case grant of
        None \<Rightarrow> False
      | Some g \<Rightarrow>
          bg_freeAllowed g \<and>
          (let expires = parse (bg_expiresAt g) in isFinite expires \<and> js_lt now expires))"

definition isPaid :: "wei option \<Rightarrow> bool" where
  "isPaid mintValueWei = (case mintValueWei of None \<Rightarrow> False | Some v \<Rightarrow> v > 0)"

definition assertDirectChainExecutionPolicy ::
  "(string \<Rightarrow> jsnum) \<Rightarrow> SupportedChainId \<Rightarrow> wei option \<Rightarrow> bool \<Rightarrow> RobinhoodEnablementGrant option \<Rightarrow>
   jsnum \<Rightarrow> BaseEnablementGrant option \<Rightarrow> LifecycleGateError + unit" where
  "assertDirectChainExecutionPolicy parse chainId mintValueWei dryRun grant now baseGrant =
     (if chainId = Chain8453 then
        (if isPaid mintValueWei \<and> \<not> (baseGrantIsCurrent parse baseGrant now \<and> bg_paidAllowed (the baseGrant))
         then Inl (gateError ''PAID_BASE_BLOCKED'' GateAdmission)
         else if \<not> dryRun \<and> \<not> baseGrantIsCurrent parse baseGrant now
         then Inl (gateError ''CHAIN_8453_EXECUTION_DISABLED'' GateAdmission)
         else Inr ())
      else if chainId \<noteq> Chain4663 then Inr ()
      else
        let granted = grantIsCurrent parse grant now
        in if isPaid mintValueWei \<and> \<not> (granted \<and> rg_paidAllowed (the grant))
           then Inl (gateError ''PAID_ROBINHOOD_BLOCKED'' GateAdmission)
           else if \<not> dryRun \<and> \<not> granted
           then Inl (gateError ''CHAIN_4663_EXECUTION_DISABLED'' GateAdmission)
           else Inr ())"

definition authorizedBaseExecutionProfile ::
  "(string \<Rightarrow> jsnum) \<Rightarrow> ChainConfig \<Rightarrow> bool \<Rightarrow> BaseEnablementGrant option \<Rightarrow> jsnum \<Rightarrow>
   LifecycleGateError + ChainConfig" where
  "authorizedBaseExecutionProfile parse config dryRun grant now =
     bindR (ensure (cc_chainId config = Chain8453) (gateError ''BASE_PROFILE_REQUIRED'' GateAdmission)) (\<lambda>_.
     bindR (assertDirectChainExecutionPolicy parse Chain8453 None dryRun None now grant) (\<lambda>_.
     Inr (config\<lparr>verificationStatus := Verified, executionEnabled := True\<rparr>)))"

definition authorizedRobinhoodExecutionProfile ::
  "(string \<Rightarrow> jsnum) \<Rightarrow> ChainConfig \<Rightarrow> bool \<Rightarrow> RobinhoodEnablementGrant option \<Rightarrow> jsnum \<Rightarrow> wei option \<Rightarrow>
   LifecycleGateError + ChainConfig" where
  "authorizedRobinhoodExecutionProfile parse config dryRun grant now mintValueWei =
     bindR (ensure (cc_chainId config = Chain4663) (gateError ''ROBINHOOD_PROFILE_REQUIRED'' GateAdmission)) (\<lambda>_.
     bindR (assertDirectChainExecutionPolicy parse Chain4663 mintValueWei dryRun grant now None) (\<lambda>_.
     if dryRun then Inr config
     else Inr (config\<lparr>verificationStatus := Verified, executionEnabled := True\<rparr>)))"

definition assertDurableReservationProvider ::
  "SpendReservationProvider option \<Rightarrow> bool \<Rightarrow> LifecycleGateError + unit" where
  "assertDurableReservationProvider provider dryRun =
     (if dryRun then Inr ()
      else case provider of
        None \<Rightarrow> Inl (gateError ''DURABLE_RESERVATION_REQUIRED'' GateProvider)
      | Some p \<Rightarrow>
          (if rp_durable p \<noteq> Some True \<or> rp_storeKind p \<noteq> Some ''normalized-sqlite''
           then Inl (gateError ''DURABLE_RESERVATION_REQUIRED'' GateProvider)
           else Inr ()))"

definition assertSimulationFresh ::
  "SimulationEvidence option \<Rightarrow> jsnum \<Rightarrow> jsnum \<Rightarrow> LifecycleGateError + unit" where
  "assertSimulationFresh simulation now maxAgeMs =
     (case simulation of
        None \<Rightarrow> Inl (gateError ''SIMULATION_FAILED'' GateSimulation)
      | Some s \<Rightarrow>
          bindR (ensure (sim_success s) (gateError ''SIMULATION_FAILED'' GateSimulation)) (\<lambda>_.
          bindR (ensure (\<not> (\<not> isFinite maxAgeMs \<or> js_lt maxAgeMs (jint 0)))
                   (gateError ''INVALID_SIMULATION_FRESHNESS'' GateSimulation)) (\<lambda>_.
          let ageMs = js_sub now (checkedAt s)
          in ensure (\<not> (js_lt ageMs (jint 0) \<or> js_lt maxAgeMs ageMs))
               (gateError ''STALE_SIMULATION'' GateSimulation))))"

definition assertTimingWindow :: "jsnum \<Rightarrow> jsnum \<Rightarrow> jsnum \<Rightarrow> LifecycleGateError + unit" where
  "assertTimingWindow startUnix nowUnix armBeforeMs =
     (if js_le startUnix (jint 0) then Inr ()
      else if \<not> isFinite nowUnix \<or> \<not> isFinite armBeforeMs \<or> js_lt armBeforeMs (jint 0)
      then Inl (gateError ''INVALID_TIMING_GATE'' GateAdmission)
      else if js_lt (js_add (js_scale 1000 nowUnix) armBeforeMs) (js_scale 1000 startUnix)
      then Inl (gateError ''TIMING_GATE'' GateAdmission)
      else if js_lt (js_add startUnix (jint (86400 * 365))) nowUnix
      then Inl (gateError ''TIMING_GATE'' GateAdmission)
      else Inr ())"

section \<open>Broadcast attempts\<close>

definition isPrefixOf :: "string \<Rightarrow> string \<Rightarrow> bool" where
  "isPrefixOf p s = (take (length p) s = p)"

text \<open>The unanchored, case-insensitive regular expressions of the source, on a lower-cased text.\<close>

fun containsText :: "string \<Rightarrow> string \<Rightarrow> bool" where
  "containsText p [] = (p = [])"
| "containsText p (c # cs) = (isPrefixOf p (c # cs) \<or> containsText p cs)"

text \<open>The ASCII members of the class \<^verbatim>\<open>\s\<close>.\<close>

definition isSpace :: "char \<Rightarrow> bool" where
  "isSpace c = (let n = (of_char c :: nat) in n = 32 \<or> (9 \<le> n \<and> n \<le> 13))"

fun alreadyKnownText :: "string \<Rightarrow> bool" where
  "alreadyKnownText [] = False"
| "alreadyKnownText (c # cs) =
     (isPrefixOf ''already'' (c # cs) \<and> isPrefixOf ''known'' (dropWhile isSpace (drop 7 (c # cs)))
      \<or> alreadyKnownText cs)"

definition timeoutText :: "string \<Rightarrow> bool" where
  "timeoutText s = (containsText ''timeout'' s \<or> containsText ''timed out'' s \<or> containsText ''deadline'' s)"

definition classifyBroadcastResult :: "BroadcastResult \<Rightarrow> BroadcastResponseClass" where
  "classifyBroadcastResult result =
     (case responseClass result of
        Some c \<Rightarrow> c
      | None \<Rightarrow>
          if success result then Accepted
          else if ambiguous result = Some True then Ambiguous
          else
            let text = toLowerCase (case br_error result of None \<Rightarrow> [] | Some e \<Rightarrow> e)
            in if alreadyKnownText text then AlreadyKnown
               else if timeoutText text then Timeout
               else ProviderError)"

fun showResponseClass :: "BroadcastResponseClass \<Rightarrow> string" where
  "showResponseClass Accepted = ''accepted''"
| "showResponseClass AlreadyKnown = ''already_known''"
| "showResponseClass Rejected = ''rejected''"
| "showResponseClass Timeout = ''timeout''"
| "showResponseClass Ambiguous = ''ambiguous''"
| "showResponseClass ProviderError = ''provider_error''"

definition broadcastAttemptId :: "string \<Rightarrow> nat \<Rightarrow> BroadcastResponseClass \<Rightarrow> string" where
  "broadcastAttemptId executionId resultIndex c =
     executionId @ '':attempt:'' @ show_nat resultIndex @ '':'' @ showResponseClass c"

fun findIndex :: "('a \<Rightarrow> bool) \<Rightarrow> 'a list \<Rightarrow> nat option" where
  "findIndex P [] = None"
| "findIndex P (x # xs) = (if P x then Some 0 else map_option Suc (findIndex P xs))"

definition selectBroadcastAttempt ::
  "string \<Rightarrow> BroadcastResult list \<Rightarrow> (nat \<times> string \<times> BroadcastResult) option" where
  "selectBroadcastAttempt executionId results =
     (case findIndex success results of
        None \<Rightarrow> None
      | Some i \<Rightarrow>
          let result = results ! i
          in Some (i, broadcastAttemptId executionId i (classifyBroadcastResult result), result))"

section \<open>Identities\<close>

definition canonicalExecutionIdentity ::
  "(string \<Rightarrow> string) \<Rightarrow> string \<Rightarrow> string option \<Rightarrow> int \<Rightarrow> address \<Rightarrow> ExecutionIdentity" where
  "canonicalExecutionIdentity sha256hex runId intentId walletIndex wallet =
     (let normalizedWallet = toLowerCase wallet;
          digest = (\<lambda>value. take 32 (sha256hex value));
          executionId = ''execution_'' @ digest (runId @ '':'' @ normalizedWallet);
          transactionIntentId =
            (if truthy intentId then ''intent_'' @ digest (the intentId @ '':'' @ normalizedWallet)
             else executionId @ '':intent'')
      in \<lparr>ei_runId = runId,
          ei_executionId = (if executionId = [] then runId @ '':wallet:'' @ show_int walletIndex else executionId),
          ei_transactionIntentId = transactionIntentId\<rparr>)"

definition reservationCampaignId :: "string option \<Rightarrow> address \<Rightarrow> string" where
  "reservationCampaignId campaignId contract =
     (case campaignId of Some c \<Rightarrow> c | None \<Rightarrow> ''contract:'' @ toLowerCase contract)"

section \<open>Reconciliation by hash and nonce\<close>

datatype SubmissionDisposition =
    Matched | DispAmbiguous | Replaced "hash option" | Dropped | Reorged | Unresolved

record ReconcileInput =
  originalHash :: "hash option"
  ownHashes :: "hash list option"
  observedHash :: "hash option"
  receiptVisible :: bool
  receiptStatus :: "ReceiptStatus option"
  receiptCanonical :: "bool option"
  nonceConsumedByDifferentHash :: "bool option"
  dropped :: "bool option"

definition isOwnHash :: "ReconcileInput \<Rightarrow> bool" where
  "isOwnHash i =
     (case observedHash i of
        None \<Rightarrow> False
      | Some h \<Rightarrow> list_ex (\<lambda>own. toLowerCase own = toLowerCase h)
                   (case ownHashes i of None \<Rightarrow> [] | Some hs \<Rightarrow> hs))"

text \<open>Both hashes are known and differ up to letter case.\<close>

definition hashesDiffer :: "hash option \<Rightarrow> hash option \<Rightarrow> bool" where
  "hashesDiffer a b = (truthy a \<and> truthy b \<and> toLowerCase (the a) \<noteq> toLowerCase (the b))"

definition reconcileByHashAndNonce :: "ReconcileInput \<Rightarrow> SubmissionDisposition" where
  "reconcileByHashAndNonce i =
     (if receiptVisible i \<and> receiptCanonical i = Some False then Reorged
      else
        let ownHash = isOwnHash i
        in if (nonceConsumedByDifferentHash i = Some True \<and> \<not> ownHash)
              \<or> (\<not> ownHash \<and> hashesDiffer (observedHash i) (originalHash i))
           then Replaced (observedHash i)
           else if receiptVisible i \<and> receiptStatus i = Some ReceiptSuccess then Matched
           else if receiptVisible i \<and> receiptStatus i = Some ReceiptReverted then Matched
           else if dropped i = Some True then Dropped
           else if truthy (observedHash i) then DispAmbiguous
           else Unresolved)"

section \<open>Finality and settlement\<close>

definition lifecycleStateForFinality ::
  "SupportedChainId \<Rightarrow> FinalityStage \<Rightarrow> ReceiptStatus \<Rightarrow> LifecycleState" where
  "lifecycleStateForFinality chainId stage status =
     (if status = ReceiptReverted \<and> (chainId = Chain1 \<or> stage = StEthereumFinal) then LcFailed
      else if chainId = Chain4663 \<or> chainId = Chain8453 then
        (if stage = StEthereumFinal then LcEthereumFinal
         else if stage = StPosted then LcPosted
         else LcIncluded)
      else LcIncluded)"

definition shouldSettleReceipt :: "SupportedChainId \<Rightarrow> ReceiptStatus \<Rightarrow> FinalityStage \<Rightarrow> bool" where
  "shouldSettleReceipt chainId status stage = (if chainId = Chain1 then True else stage = StEthereumFinal)"

definition actualSettlementComponents :: "wei \<Rightarrow> wei \<Rightarrow> wei \<Rightarrow> ReservationSettlementComponents" where
  "actualSettlementComponents totalGasWei l1DataFeeWei priorityFeeComponentWei =
     (let total = (if totalGasWei < 0 then 0 else totalGasWei);
          l1 = (if l1DataFeeWei < 0 then 0 else l1DataFeeWei);
          priority = (if priorityFeeComponentWei < 0 then 0
                      else if priorityFeeComponentWei > total then total
                      else priorityFeeComponentWei)
      in \<lparr>actualMintValueWei = 0, actualL2ExecutionGasWei = total - priority,
          actualL1DataGasWei = l1, actualPriorityFeeComponentWei = Some priority,
          actualReplacementBudgetWei = None\<rparr>)"

section \<open>The reconciler\<close>

datatype ReconciliationAction =
    WaitAndRecheck
  | MarkSubmitted
  | MarkConfirmed
  | MarkReverted
  | RecordReplacement
  | ReconcileByNonce
  | MarkReorged
  | MarkDropped
  | RetainAmbiguous
  | BlockNewWork

record ReconciliationInput =
  rx_receiptVisible :: bool
  rx_receiptStatus :: "ReceiptStatus option"
  rx_originalHash :: "hash option"
  rx_observedHash :: "hash option"
  rx_sender :: address
  rx_nonce :: int
  chainPendingNonce :: int
  rx_restart :: bool
  rx_chainId :: "SupportedChainId option"
  rx_finalityStage :: "FinalityStage option"
  rx_receiptCanonical :: "bool option"
  rx_nonceConsumedByDifferentHash :: "bool option"
  rx_dropped :: "bool option"

definition onL2 :: "SupportedChainId option \<Rightarrow> bool" where
  "onL2 c = (c = Some Chain8453 \<or> c = Some Chain4663)"

definition reconcileTransaction :: "ReconciliationInput \<Rightarrow> ReconciliationAction" where
  "reconcileTransaction i =
     (if rx_restart i then BlockNewWork
      else if rx_receiptVisible i \<and> rx_receiptCanonical i = Some False then MarkReorged
      else if rx_nonceConsumedByDifferentHash i = Some True then RecordReplacement
      else if rx_receiptVisible i \<and> rx_receiptStatus i = Some ReceiptSuccess then
        (if hashesDiffer (rx_observedHash i) (rx_originalHash i) then RecordReplacement
         else if onL2 (rx_chainId i) \<and> rx_finalityStage i \<noteq> Some StEthereumFinal then MarkSubmitted
         else MarkConfirmed)
      else if rx_receiptVisible i \<and> rx_receiptStatus i = Some ReceiptReverted then MarkReverted
      else if truthy (rx_observedHash i) then MarkSubmitted
      else if rx_dropped i = Some True then MarkDropped
      else if chainPendingNonce i > rx_nonce i then ReconcileByNonce
      else RetainAmbiguous)"

datatype ExactChainStatus =
    ExSubmitted | ExIncluded | ExPosted | ExEthereumFinal | ExReplaced | ExDropped | ExReorged
  | ExReverted | ExUnresolved

record ChainStatusInput =
  cs_chainId :: SupportedChainId
  cs_receiptVisible :: bool
  cs_receiptStatus :: "ReceiptStatus option"
  cs_finalityStage :: "FinalityStage option"
  cs_receiptCanonical :: "bool option"
  cs_replaced :: "bool option"
  cs_dropped :: "bool option"

definition mapChainStatus :: "ChainStatusInput \<Rightarrow> ExactChainStatus" where
  "mapChainStatus i =
     (if cs_receiptCanonical i = Some False then ExReorged
      else if cs_replaced i = Some True then ExReplaced
      else if cs_dropped i = Some True then ExDropped
      else if \<not> cs_receiptVisible i then ExUnresolved
      else if cs_receiptStatus i = Some ReceiptReverted then ExReverted
      else if cs_chainId i = Chain8453 \<or> cs_chainId i = Chain4663 then
        (if cs_finalityStage i = Some StEthereumFinal then ExEthereumFinal
         else if cs_finalityStage i = Some StPosted then ExPosted
         else ExIncluded)
      else if cs_finalityStage i = Some StConfirmed then ExIncluded
      else ExSubmitted)"

section \<open>Lemmas on the gates\<close>

lemma grantIsCurrent_iff:
  "grantIsCurrent parse g now \<longleftrightarrow>
     (\<exists>gr. g = Some gr \<and> isFinite (parse (rg_expiresAt gr)) \<and> isFinite now \<and> js_lt now (parse (rg_expiresAt gr)))"
  by (auto simp: grantIsCurrent_def Let_def split: option.splits)

lemma baseGrantIsCurrent_iff:
  "baseGrantIsCurrent parse g now \<longleftrightarrow>
     (\<exists>gr. g = Some gr \<and> bg_freeAllowed gr \<and> isFinite (parse (bg_expiresAt gr)) \<and>
       js_lt now (parse (bg_expiresAt gr)))"
  by (auto simp: baseGrantIsCurrent_def Let_def split: option.splits)

lemma js_le_lt_trans: "js_le x y \<Longrightarrow> js_lt y z \<Longrightarrow> js_lt x z"
  by (auto simp: js_le_lt intro: js_lt_trans)

lemma grant_current_earlier:
  "grantIsCurrent parse g now \<Longrightarrow> isFinite t \<Longrightarrow> js_le t now \<Longrightarrow> grantIsCurrent parse g t"
  by (auto simp: grantIsCurrent_iff intro: js_le_lt_trans)

lemma base_grant_current_earlier:
  "baseGrantIsCurrent parse g now \<Longrightarrow> js_le t now \<Longrightarrow> baseGrantIsCurrent parse g t"
  by (auto simp: baseGrantIsCurrent_iff intro: js_le_lt_trans)

lemma policy_ok_iff:
  "assertDirectChainExecutionPolicy parse ch v dry g now bg = Inr () \<longleftrightarrow>
     (ch = Chain8453 \<longrightarrow>
        (isPaid v \<longrightarrow> baseGrantIsCurrent parse bg now \<and> bg_paidAllowed (the bg)) \<and>
        (dry \<or> baseGrantIsCurrent parse bg now)) \<and>
     (ch = Chain4663 \<longrightarrow>
        (isPaid v \<longrightarrow> grantIsCurrent parse g now \<and> rg_paidAllowed (the g)) \<and>
        (dry \<or> grantIsCurrent parse g now))"
  by (cases ch) (auto simp: assertDirectChainExecutionPolicy_def Let_def)

lemma simulation_fresh_iff:
  "assertSimulationFresh sim now maxAge = Inr () \<longleftrightarrow>
     (\<exists>s. sim = Some s \<and> sim_success s \<and> isFinite maxAge \<and> \<not> js_lt maxAge (jint 0) \<and>
        \<not> js_lt (js_sub now (checkedAt s)) (jint 0) \<and> \<not> js_lt maxAge (js_sub now (checkedAt s)))"
  by (auto simp: assertSimulationFresh_def bindR_eq_Inr Let_def split: option.splits)

lemma timing_window_ok:
  "0 < start \<Longrightarrow> assertTimingWindow (jint start) (jint n) (jint arm) = Inr () \<longleftrightarrow>
     0 \<le> arm \<and> start * 1000 \<le> n * 1000 + arm \<and> n \<le> start + 31536000"
proof -
  assume "0 < start"
  have *: "(1000 * of_int n + of_int arm < (1000 * of_int start :: rat)) \<longleftrightarrow> 1000 * n + arm < 1000 * start"
    by (metis of_int_add of_int_less_iff of_int_mult of_int_numeral)
  have **: "(of_int start + 31536000 < (of_int n :: rat)) \<longleftrightarrow> start + 31536000 < n"
    by (metis of_int_add of_int_less_iff of_int_numeral)
  show ?thesis using \<open>0 < start\<close> by (auto simp: assertTimingWindow_def * ** not_less)
qed

lemma durable_provider_iff:
  "assertDurableReservationProvider p dry = Inr () \<longleftrightarrow>
     dry \<or> (\<exists>q. p = Some q \<and> rp_durable q = Some True \<and> rp_storeKind q = Some ''normalized-sqlite'')"
  by (auto simp: assertDurableReservationProvider_def split: option.splits)

section \<open>Lemmas on attempts and identities\<close>

lemma findIndex_Some:
  "findIndex P xs = Some i \<longleftrightarrow> i < length xs \<and> P (xs ! i) \<and> (\<forall>j < i. \<not> P (xs ! j))"
proof (induction xs arbitrary: i)
  case Nil
  then show ?case by simp
next
  case (Cons x xs)
  then show ?case by (cases i) (auto simp: nth_Cons split: nat.splits)
qed

lemma findIndex_None: "findIndex P xs = None \<longleftrightarrow> (\<forall>x \<in> set xs. \<not> P x)"
  by (induction xs) auto

lemma colon_notin_class: "CHR '':'' \<notin> set (showResponseClass c)"
  by (cases c) auto

lemma showResponseClass_inj: "showResponseClass c = showResponseClass d \<Longrightarrow> c = d"
  by (cases c; cases d) auto

text \<open>Two strings cut at their last separator agree on both parts.\<close>

lemma split_at_last:
  assumes "xs @ c # ys = xs' @ c # ys'" and "c \<notin> set ys" and "c \<notin> set ys'"
  shows "xs = xs' \<and> ys = ys'"
  using split_at_first [of "rev ys" c "rev xs" "rev ys'" "rev xs'"] assms
  by (metis append.assoc append_Cons append_Nil rev.simps(2) rev_append rev_rev_ident set_rev)

lemma selected_attempt_first_success:
  "selectBroadcastAttempt e rs = Some (i, aid, r) \<longleftrightarrow>
     i < length rs \<and> r = rs ! i \<and> success r \<and> (\<forall>j < i. \<not> success (rs ! j)) \<and>
     aid = broadcastAttemptId e i (classifyBroadcastResult r)"
proof -
  have "selectBroadcastAttempt e rs = Some (i, aid, r) \<longleftrightarrow>
      findIndex success rs = Some i \<and> r = rs ! i \<and> aid = broadcastAttemptId e i (classifyBroadcastResult r)"
    by (auto simp: selectBroadcastAttempt_def Let_def split: option.splits)
  then show ?thesis by (auto simp: findIndex_Some)
qed

section \<open>Properties\<close>

text \<open>
  Live execution on an L2 passes the chain policy only under an owner grant that has not
  expired (on Base one that allows free mints), and a paid mint only when that grant allows paid
  mints; passing is monotone, so a grant that has expired is never current again.
\<close>

theorem live_l2_needs_current_grant:
  assumes "assertDirectChainExecutionPolicy parse ch v False g now bg = Inr ()" and "ch \<noteq> Chain1"
  shows "(\<exists>expiry paid.
      ((ch = Chain4663 \<and> (\<exists>gr. g = Some gr \<and> expiry = parse (rg_expiresAt gr) \<and> paid = rg_paidAllowed gr)) \<or>
       (ch = Chain8453 \<and> (\<exists>gr. bg = Some gr \<and> bg_freeAllowed gr \<and> expiry = parse (bg_expiresAt gr) \<and>
          paid = bg_paidAllowed gr))) \<and>
      isFinite expiry \<and> js_lt now expiry \<and> (isPaid v \<longrightarrow> paid)) \<and>
    (\<forall>earlier. isFinite earlier \<and> js_le earlier now \<longrightarrow>
      assertDirectChainExecutionPolicy parse ch v False g earlier bg = Inr ())"
proof (cases ch)
  case Chain8453
  with assms have c: "baseGrantIsCurrent parse bg now" and p: "isPaid v \<longrightarrow> bg_paidAllowed (the bg)"
    by (auto simp: policy_ok_iff)
  have "assertDirectChainExecutionPolicy parse ch v False g earlier bg = Inr ()"
    if "js_le earlier now" for earlier
    using Chain8453 p base_grant_current_earlier [OF c that] by (auto simp: policy_ok_iff)
  with c p Chain8453 show ?thesis by (auto simp: baseGrantIsCurrent_iff)
next
  case Chain4663
  with assms have c: "grantIsCurrent parse g now" and p: "isPaid v \<longrightarrow> rg_paidAllowed (the g)"
    by (auto simp: policy_ok_iff)
  have "assertDirectChainExecutionPolicy parse ch v False g earlier bg = Inr ()"
    if "isFinite earlier" "js_le earlier now" for earlier
    using Chain4663 p grant_current_earlier [OF c that] by (auto simp: policy_ok_iff)
  with c p Chain4663 show ?thesis by (auto simp: grantIsCurrent_iff)
qed (use assms in simp)

theorem live_l2_needs_current_grant_witness:
  "assertDirectChainExecutionPolicy (\<lambda>s. jint (int (length s))) Chain4663 (Some 5) False
      (Some \<lparr>rg_expiresAt = ''2026'', rg_paidAllowed = True\<rparr>) (jint 3) None = Inr () \<and>
   assertDirectChainExecutionPolicy (\<lambda>s. jint (int (length s))) Chain4663 (Some 5) False
      (Some \<lparr>rg_expiresAt = ''2026'', rg_paidAllowed = True\<rparr>) (jint 2) None = Inr ()"
proof -
  have h: "assertDirectChainExecutionPolicy (\<lambda>s. jint (int (length s))) Chain4663 (Some 5) False
      (Some \<lparr>rg_expiresAt = ''2026'', rg_paidAllowed = True\<rparr>) (jint 3) None = Inr ()"
    by (simp add: assertDirectChainExecutionPolicy_def grantIsCurrent_def)
  show ?thesis using h live_l2_needs_current_grant [OF h] by simp
qed

text \<open>
  The id of a broadcast attempt determines the execution, the position of the result and its
  class, whatever characters the execution id has: two attempts never share an id.
\<close>

theorem attempt_ids_injective:
  "broadcastAttemptId e n c = broadcastAttemptId e' n' c' \<longleftrightarrow> e = e' \<and> n = n' \<and> c = c'"
proof
  assume "broadcastAttemptId e n c = broadcastAttemptId e' n' c'"
  then have "(e @ '':attempt:'' @ show_nat n) @ CHR '':'' # showResponseClass c =
      (e' @ '':attempt:'' @ show_nat n') @ CHR '':'' # showResponseClass c'"
    by (simp add: broadcastAttemptId_def)
  from split_at_last [OF this colon_notin_class colon_notin_class]
  have 1: "e @ '':attempt:'' @ show_nat n = e' @ '':attempt:'' @ show_nat n'" and c: "c = c'"
    by (auto dest: showResponseClass_inj)
  from 1 have "(e @ '':attempt'') @ CHR '':'' # show_nat n = (e' @ '':attempt'') @ CHR '':'' # show_nat n'"
    by simp
  from split_at_last [OF this colon_notin_show_nat colon_notin_show_nat] c
  show "e = e' \<and> n = n' \<and> c = c'" by (auto dest: show_nat_inj)
qed simp

text \<open>
  As long as the digest has no collision on the strings hashed, the execution id of a run
  and a wallet identifies both: it is equal for two wallets of any two runs exactly when the runs
  are the same and the addresses agree up to letter case, and it does not depend on the wallet's
  index or the intent.
\<close>

theorem execution_identity_collision_free:
  assumes "inj_on (\<lambda>s. take 32 (sha s)) S"
    and "r @ '':'' @ toLowerCase a \<in> S" and "r' @ '':'' @ toLowerCase a' \<in> S"
    and "CHR '':'' \<notin> set (toLowerCase a)" and "CHR '':'' \<notin> set (toLowerCase a')"
  shows "ei_executionId (canonicalExecutionIdentity sha r i k a) =
      ei_executionId (canonicalExecutionIdentity sha r' i' k' a') \<longleftrightarrow>
    r = r' \<and> toLowerCase a = toLowerCase a'"
proof -
  have "ei_executionId (canonicalExecutionIdentity sha r i k a) =
      ei_executionId (canonicalExecutionIdentity sha r' i' k' a') \<longleftrightarrow>
      r @ '':'' @ toLowerCase a = r' @ '':'' @ toLowerCase a'"
    using inj_onD [OF assms(1) _ assms(2,3)] by (auto simp: canonicalExecutionIdentity_def Let_def)
  also have "\<dots> \<longleftrightarrow> r = r' \<and> toLowerCase a = toLowerCase a'"
    using split_at_last [of r "CHR '':''" "toLowerCase a" r' "toLowerCase a'"] assms(4,5) by auto
  finally show ?thesis .
qed

theorem execution_identity_collision_free_witness:
  "ei_executionId (canonicalExecutionIdentity (\<lambda>s. s) ''r'' None 0 ''0xA'') =
     ei_executionId (canonicalExecutionIdentity (\<lambda>s. s) ''r'' (Some ''i'') 4 ''0xa'') \<and>
   ei_executionId (canonicalExecutionIdentity (\<lambda>s. s) ''r'' None 0 ''0xa'') \<noteq>
     ei_executionId (canonicalExecutionIdentity (\<lambda>s. s) ''r'' None 1 ''0xb'')"
proof -
  have i: "inj_on (\<lambda>s::string. take 32 s) {''r:0xa'', ''r:0xb''}" by simp
  have low: "toLowerCase ''0xA'' = ''0xa''" "toLowerCase ''0xa'' = ''0xa''" "toLowerCase ''0xb'' = ''0xb''"
    by code_simp+
  show ?thesis
    using execution_identity_collision_free [OF i, of "''r''" "''0xA''" "''r''" "''0xa''" None 0 "Some ''i''" 4]
      execution_identity_collision_free [OF i, of "''r''" "''0xa''" "''r''" "''0xb''" None 0 None 1]
    by (simp add: low)
qed

text \<open>The arguments of the reconciler, read as the arguments of the reconciliation by hash and nonce.\<close>

definition asReconcileInput :: "ReconciliationInput \<Rightarrow> ReconcileInput" where
  "asReconcileInput i = \<lparr>originalHash = rx_originalHash i, ownHashes = None, observedHash = rx_observedHash i,
     receiptVisible = rx_receiptVisible i, receiptStatus = rx_receiptStatus i,
     receiptCanonical = rx_receiptCanonical i,
     nonceConsumedByDifferentHash = rx_nonceConsumedByDifferentHash i, dropped = rx_dropped i\<rparr>"



text \<open>
  A settlement accounts for exactly the gas of the receipt: execution gas and priority
  component are non-negative and add up to it (a negative total counts as zero), the priority
  component is never counted twice, and no mint value is charged here.
\<close>

theorem settlement_conserves_gas:
  "actualL2ExecutionGasWei (actualSettlementComponents gas l1 prio) +
     the (actualPriorityFeeComponentWei (actualSettlementComponents gas l1 prio)) = max 0 gas \<and>
   0 \<le> actualL2ExecutionGasWei (actualSettlementComponents gas l1 prio) \<and>
   0 \<le> the (actualPriorityFeeComponentWei (actualSettlementComponents gas l1 prio)) \<and>
   actualL1DataGasWei (actualSettlementComponents gas l1 prio) = max 0 l1 \<and>
   actualMintValueWei (actualSettlementComponents gas l1 prio) = 0"
  by (simp add: actualSettlementComponents_def Let_def max_def)

text \<open>
  On an L2 a reservation is settled from a receipt exactly when the receipt's lifecycle state
  is terminal (failed or final on Ethereum); on Ethereum every receipt settles.
\<close>

theorem settlement_matches_terminal_state:
  "shouldSettleReceipt ch status stage \<longleftrightarrow>
     ch = Chain1 \<or> lifecycleStateForFinality ch stage status \<in> {LcFailed, LcEthereumFinal}"
  by (cases ch; cases status) (auto simp: shouldSettleReceipt_def lifecycleStateForFinality_def)

end
