(* ===== verification/Finality.thy ===== *)
theory Finality
  imports Effects FeeGuard Lifecycle
begin

text \<open>
  The finality observers (\<^verbatim>\<open>packages/engine/src/finality-observer.ts\<close>) and the receipt watcher
  (\<^verbatim>\<open>packages/engine/src/receipt-watcher.ts\<close>).

  An observer reads its sources once per observation: the sources are a record of answers, \<open>Inl\<close>
  with the error's message when the request rejects. \<^verbatim>\<open>observedAt\<close> is not modelled. The locale
  \<open>finality_observer\<close> is the contract the watcher relies on (ready only when canonical and at the
  settlement stage); it is interpreted on every observer of the source, on the independent Base
  observer through the contracts of its two parts.

  The watcher's \<^verbatim>\<open>while\<close> loop runs over a world whose outside answers the requests of the two
  clients; \<open>waitForReceipt\<close> is \<open>None\<close> if the loop never ends, and is shown to end.
\<close>

section \<open>Observers\<close>

record FinalityObservation =
  fo_chainId :: SupportedChainId
  fo_stage :: FinalityStage
  fo_canonical :: "bool option"
  fo_ready :: bool
  fo_reason :: "string option"

record FinalitySources =
  src_chainId :: SupportedChainId
  currentBlockNumber :: "string + int"
  receiptBlockHash :: "(hash \<Rightarrow> string + hash option) option"
  canonicalBlockHash :: "(int \<Rightarrow> string + hash option) option"
  expectedBlockHash :: "hash option"

record BaseFinalitySources = FinalitySources +
  safeBlockNumber :: "string + int"
  finalizedBlockNumber :: "string + int"

record RobinhoodFinalitySources = FinalitySources +
  isPosted :: "hash \<Rightarrow> int \<Rightarrow> string + bool"
  isEthereumFinal :: "hash \<Rightarrow> int \<Rightarrow> string + bool"

definition isCanonical :: "'z FinalitySources_scheme \<Rightarrow> hash \<Rightarrow> int \<Rightarrow> string + bool option" where
  "isCanonical src txHash txBlockNumber =
     (case receiptBlockHash src of
        None \<Rightarrow> Inr None
      | Some readReceipt \<Rightarrow>
          bindR (readReceipt txHash) (\<lambda>observed.
          case observed of
            None \<Rightarrow> Inr None
          | Some obs \<Rightarrow>
              bindR (case expectedBlockHash src of
                       Some e \<Rightarrow> Inr (Some e)
                     | None \<Rightarrow> (case canonicalBlockHash src of None \<Rightarrow> Inr None | Some readBlock \<Rightarrow> readBlock txBlockNumber))
                (\<lambda>expected. Inr (case expected of None \<Rightarrow> None | Some e \<Rightarrow> Some (toLowerCase obs = toLowerCase e)))))"

definition safeConfirmations :: "int \<Rightarrow> int \<Rightarrow> int" where
  "safeConfirmations headBlock block =
     (if headBlock < block then 0
      else let confirmations = headBlock - block + 1
           in if confirmations > MAX_SAFE_INTEGER then MAX_SAFE_INTEGER else confirmations)"

type_synonym observer = "hash \<Rightarrow> int \<Rightarrow> string + FinalityObservation"

definition observation ::
  "SupportedChainId \<Rightarrow> FinalityStage \<Rightarrow> bool option \<Rightarrow> bool \<Rightarrow> string option \<Rightarrow> FinalityObservation" where
  "observation chainId stage canonical ready reason =
     \<lparr>fo_chainId = chainId, fo_stage = stage, fo_canonical = canonical, fo_ready = ready, fo_reason = reason\<rparr>"

definition observeEthereum :: "FinalitySources \<Rightarrow> int \<Rightarrow> observer" where
  "observeEthereum src depth txHash txBlockNumber =
     bindR (isCanonical src txHash txBlockNumber) (\<lambda>canonical.
     bindR (currentBlockNumber src) (\<lambda>headBlock.
     let confirmations = safeConfirmations headBlock txBlockNumber;
         ready = (canonical = Some True \<and> confirmations \<ge> depth)
     in Inr (observation Chain1 StConfirmed canonical ready
          (if ready then None
           else if canonical = None then Some ''canonicality-unknown''
           else if canonical = Some True then Some ''confirmation-depth-pending''
           else Some ''receipt-not-canonical''))))"

definition EthereumFinalityObserver :: "FinalitySources \<Rightarrow> int \<Rightarrow> string + observer" where
  "EthereumFinalityObserver src depth =
     (if src_chainId src \<noteq> Chain1 then Inl ''EthereumFinalityObserver requires chain ID 1''
      else Inr (observeEthereum src depth))"

definition observeBase :: "BaseFinalitySources \<Rightarrow> observer" where
  "observeBase src txHash txBlockNumber =
     bindR (isCanonical src txHash txBlockNumber) (\<lambda>canonical.
     if canonical = Some False then Inr (observation Chain8453 StSoft (Some False) False (Some ''receipt-not-canonical''))
     else if canonical = None then Inr (observation Chain8453 StSoft None False (Some ''canonicality-unknown''))
     else
       bindR (safeBlockNumber src) (\<lambda>safe.
       bindR (finalizedBlockNumber src) (\<lambda>finalized.
       if finalized \<ge> txBlockNumber then Inr (observation Chain8453 StEthereumFinal (Some True) True None)
       else if safe \<ge> txBlockNumber
       then Inr (observation Chain8453 StPosted (Some True) False (Some ''ethereum-finality-pending''))
       else Inr (observation Chain8453 StSoft (Some True) False (Some ''l1-derivation-pending'')))))"

definition BaseFinalityObserver :: "BaseFinalitySources \<Rightarrow> string + observer" where
  "BaseFinalityObserver src =
     (if src_chainId src \<noteq> Chain8453 then Inl ''BaseFinalityObserver requires chain ID 8453''
      else Inr (observeBase src))"

definition IndependentBaseFinalityObserver :: "observer \<Rightarrow> observer \<Rightarrow> observer" where
  "IndependentBaseFinalityObserver primary secondary txHash txBlockNumber =
     bindR (primary txHash txBlockNumber) (\<lambda>left.
     bindR (secondary txHash txBlockNumber) (\<lambda>right.
     if fo_chainId left \<noteq> Chain8453 \<or> fo_chainId right \<noteq> Chain8453 \<or> fo_stage left \<noteq> fo_stage right
        \<or> fo_canonical left \<noteq> fo_canonical right \<or> fo_ready left \<noteq> fo_ready right
     then Inl ''BASE_PROVIDER_FINALITY_DISAGREEMENT''
     else Inr left))"

definition observeRobinhood :: "RobinhoodFinalitySources \<Rightarrow> int \<Rightarrow> observer" where
  "observeRobinhood src depth txHash txBlockNumber =
     bindR (isCanonical src txHash txBlockNumber) (\<lambda>canonical.
     if canonical = Some False then Inr (observation Chain4663 StSoft (Some False) False (Some ''receipt-not-canonical''))
     else if canonical = None then Inr (observation Chain4663 StSoft None False (Some ''canonicality-unknown''))
     else
       bindR (currentBlockNumber src) (\<lambda>headBlock.
       if safeConfirmations headBlock txBlockNumber < depth
       then Inr (observation Chain4663 StSoft (Some True) False (Some ''confirmation-depth-pending''))
       else
         bindR (isEthereumFinal src txHash txBlockNumber) (\<lambda>final.
         if final then Inr (observation Chain4663 StEthereumFinal (Some True) True None)
         else
           bindR (isPosted src txHash txBlockNumber) (\<lambda>posted.
           if posted then Inr (observation Chain4663 StPosted (Some True) False (Some ''ethereum-finality-pending''))
           else Inr (observation Chain4663 StSoft (Some True) False (Some ''l1-posting-pending''))))))"

definition RobinhoodFinalityObserver :: "RobinhoodFinalitySources \<Rightarrow> int \<Rightarrow> string + observer" where
  "RobinhoodFinalityObserver src depth =
     (if src_chainId src \<noteq> Chain4663 then Inl ''RobinhoodFinalityObserver requires chain ID 4663''
      else Inr (observeRobinhood src depth))"

section \<open>The receipt watcher\<close>

record RawReceipt =
  raw_blockNumber :: int
  raw_blockHash :: hash
  raw_status :: ReceiptStatus
  raw_gasUsed :: int
  raw_effectiveGasPrice :: wei
  raw_fees :: BaseReceiptFeeFields
  raw_priorityFeeComponentWei :: "wei option"

record ReceiptWatcherOptions =
  wo_chainId :: SupportedChainId
  initialPollMs :: int
  maxPollMs :: int
  maxWaitMs :: int
  backoffMultiplier :: int
  wo_finalityPolicy :: FinalityPolicy

definition DEFAULT_OPTIONS :: ReceiptWatcherOptions where
  "DEFAULT_OPTIONS =
     \<lparr>wo_chainId = Chain1, initialPollMs = 500, maxPollMs = 8000, maxWaitMs = 120000, backoffMultiplier = 2,
      wo_finalityPolicy = \<lparr>stages = [StConfirmed], settlementStage = StConfirmed, fp_notes = None\<rparr>\<rparr>"

datatype WatchError =
    ReceiptReorgedError hash int
  | ReceiptTimeoutError hash int
  | WatchMessage string

text \<open>The clients and the observer of a watcher, as the requests they make to the outside.\<close>

datatype 'x WatchObserver =
    NoObserver
  | ObjectObserver "hash \<Rightarrow> int \<Rightarrow> ('x, string + FinalityObservation) ask"
  | StageObserver "hash \<Rightarrow> int \<Rightarrow> ('x, string + FinalityStage) ask"

record 'x WatchClient =
  getTransactionReceipt :: "hash \<Rightarrow> ('x, string + RawReceipt option) ask"
  getBlockNumber :: "('x, string + int) ask"
  getOperatorFee :: "int \<Rightarrow> int \<Rightarrow> ('x, jsval option) ask"

record 'x Watcher =
  w_client :: "'x WatchClient"
  w_fallback :: "'x WatchClient option"
  w_observer :: "'x WatchObserver"
  w_timer :: "('x, nat) ask"
  w_options :: ReceiptWatcherOptions

type_synonym ('x, 'ev, 'a) watch = "(('x, 'ev) World, WatchError, 'a) eff"

text \<open>A request whose rejection carries an error message.\<close>

definition requestS :: "('x, string + 'r) ask \<Rightarrow> ('x, 'ev, 'r) watch" where
  "requestS f = catchS (askS f) (\<lambda>msg. throwS (WatchMessage msg))"

definition observeS :: "'x Watcher \<Rightarrow> hash \<Rightarrow> int \<Rightarrow>
   ('x, 'ev, (FinalityStage \<times> bool option \<times> bool) option) watch" where
  "observeS w txHash block =
     (case w_observer w of
        NoObserver \<Rightarrow> returnS None
      | ObjectObserver f \<Rightarrow>
          bindS (requestS (f txHash block)) (\<lambda>obs. returnS (Some (fo_stage obs, fo_canonical obs, fo_ready obs)))
      | StageObserver f \<Rightarrow>
          bindS (requestS (f txHash block)) (\<lambda>stage. returnS (Some (stage, None, True))))"

definition stageOf :: "FinalityPolicy \<Rightarrow> (FinalityStage \<times> bool option \<times> bool) option \<Rightarrow> FinalityStage" where
  "stageOf policy obs =
     (case obs of
        Some (stage, _, _) \<Rightarrow> stage
      | None \<Rightarrow> if StSoft \<in> set (stages policy) then stages policy ! 0 else settlementStage policy)"

fun baseFeeMessage :: "BaseFeeError \<Rightarrow> string" where
  "baseFeeMessage BASE_OPERATOR_FEE_MALFORMED = ''BASE_OPERATOR_FEE_MALFORMED''"
| "baseFeeMessage BASE_FEE_MALFORMED = ''BASE_FEE_MALFORMED''"
| "baseFeeMessage BASE_FEE_QUOTE_CHAIN_MISMATCH = ''BASE_FEE_QUOTE_CHAIN_MISMATCH''"
| "baseFeeMessage BASE_FEE_QUOTE_MALFORMED = ''BASE_FEE_QUOTE_MALFORMED''"
| "baseFeeMessage BASE_FEE_QUOTE_UNAVAILABLE = ''request failed''"
| "baseFeeMessage BASE_FEE_SCALAR_RANGE = ''not an integer''"
| "baseFeeMessage BASE_OPERATOR_FEE_ORACLE_UNAVAILABLE = ''BASE_OPERATOR_FEE_ORACLE_UNAVAILABLE''"
| "baseFeeMessage BASE_OPERATOR_FEE_ORACLE_MALFORMED = ''BASE_OPERATOR_FEE_ORACLE_MALFORMED''"
| "baseFeeMessage BASE_RECEIPT_L1_FEE_REQUIRED = ''BASE_RECEIPT_L1_FEE_REQUIRED''"
| "baseFeeMessage BASE_RECEIPT_L1_FEE_MALFORMED = ''BASE_RECEIPT_L1_FEE_MALFORMED''"
| "baseFeeMessage BASE_RECEIPT_OPERATOR_FEE_REQUIRED = ''BASE_RECEIPT_OPERATOR_FEE_REQUIRED''"
| "baseFeeMessage BASE_RECEIPT_OPERATOR_FEE_MALFORMED = ''BASE_RECEIPT_OPERATOR_FEE_MALFORMED''"

definition liftFee :: "BaseFeeError + 'a \<Rightarrow> ('x, 'ev, 'a) watch" where
  "liftFee r = (case r of Inl e \<Rightarrow> throwS (WatchMessage (baseFeeMessage e)) | Inr x \<Rightarrow> returnS x)"

text \<open>The operator fee is asked of the oracle contract only when the receipt does not state it.\<close>

definition oracleFeeS :: "'x WatchClient \<Rightarrow> RawReceipt \<Rightarrow> ('x, 'ev, wei option) watch" where
  "oracleFeeS client receipt =
     (if operatorFee (raw_fees receipt) = FeeAbsent
      then bindS (askS (\<lambda>x. case getOperatorFee client (raw_gasUsed receipt) (raw_blockNumber receipt) x of
               (answer, elapsed, x') \<Rightarrow> (Inr answer, elapsed, x'))) (\<lambda>answer.
           bindS (liftFee (readBaseOperatorFee answer)) (\<lambda>fee. returnS (Some fee)))
      else returnS None)"

definition receiptsAgree :: "RawReceipt \<Rightarrow> RawReceipt \<Rightarrow> bool" where
  "receiptsAgree a b \<longleftrightarrow>
     toLowerCase (raw_blockHash a) = toLowerCase (raw_blockHash b) \<and> raw_blockNumber a = raw_blockNumber b \<and>
     raw_status a = raw_status b \<and> raw_gasUsed a = raw_gasUsed b \<and>
     raw_effectiveGasPrice a = raw_effectiveGasPrice b"

definition baseFeesS :: "'x Watcher \<Rightarrow> hash \<Rightarrow> RawReceipt \<Rightarrow> ('x, 'ev, wei \<times> wei) watch" where
  "baseFeesS w txHash receipt =
     (case w_fallback w of
        None \<Rightarrow> throwS (WatchMessage ''BASE_FALLBACK_PROVIDER_REQUIRED'')
      | Some fallback \<Rightarrow>
          bindS (requestS (getTransactionReceipt fallback txHash)) (\<lambda>answer.
          case answer of
            None \<Rightarrow> throwS (WatchMessage ''Cannot read properties of null'')
          | Some fallbackReceipt \<Rightarrow>
              bindS (ensureS (receiptsAgree fallbackReceipt receipt) (WatchMessage ''BASE_PROVIDER_RECEIPT_DISAGREEMENT'')) (\<lambda>_.
              bindS (oracleFeeS (w_client w) receipt) (\<lambda>primaryOracle.
              bindS (oracleFeeS fallback fallbackReceipt) (\<lambda>fallbackOracle.
              bindS (liftFee (baseReceiptFees (raw_fees receipt) primaryOracle)) (\<lambda>primaryFees.
              bindS (liftFee (baseReceiptFees (raw_fees fallbackReceipt) fallbackOracle)) (\<lambda>fallbackFees.
              bindS (ensureS (primaryFees = fallbackFees) (WatchMessage ''BASE_PROVIDER_FEE_DISAGREEMENT'')) (\<lambda>_.
              returnS primaryFees))))))))"

definition plainL1Fee :: "BaseReceiptFeeFields \<Rightarrow> wei option" where
  "plainL1Fee flds =
     (case (if l1DataFee flds = FeeAbsent then l1Fee flds else l1DataFee flds) of
        FeeBig v \<Rightarrow> Some v
      | _ \<Rightarrow> None)"

definition mintReceipt :: "hash \<Rightarrow> RawReceipt \<Rightarrow> (wei \<times> wei) option \<Rightarrow> int \<Rightarrow> FinalityStage \<Rightarrow> MintReceipt" where
  "mintReceipt txHash receipt baseFees confirmations stage =
     \<lparr>mr_txHash = txHash, mr_status = raw_status receipt, mr_blockNumber = raw_blockNumber receipt,
      mr_blockHash = raw_blockHash receipt, mr_gasUsed = raw_gasUsed receipt,
      mr_effectiveGasPrice = raw_effectiveGasPrice receipt,
      mr_l1DataFeeWei = (case baseFees of Some (l1, _) \<Rightarrow> Some l1 | None \<Rightarrow> plainL1Fee (raw_fees receipt)),
      mr_operatorFeeWei = (case baseFees of Some (_, op) \<Rightarrow> Some op | None \<Rightarrow> None),
      mr_priorityFeeComponentWei = raw_priorityFeeComponentWei receipt,
      mr_confirmations = confirmations, mr_finalityStage = stage\<rparr>"

text \<open>The \<^verbatim>\<open>try\<close> block of an iteration.\<close>

datatype Poll = PollReceipt MintReceipt | PollNotSettled | PollShallow | PollMissing

definition obsCanonical :: "(FinalityStage \<times> bool option \<times> bool) option \<Rightarrow> bool option" where
  "obsCanonical obs = (case obs of None \<Rightarrow> None | Some (_, canonical, _) \<Rightarrow> canonical)"

definition obsPending :: "(FinalityStage \<times> bool option \<times> bool) option \<Rightarrow> bool" where
  "obsPending obs = (case obs of None \<Rightarrow> False | Some (_, _, ready) \<Rightarrow> \<not> ready)"

definition deliverS :: "'x Watcher \<Rightarrow> hash \<Rightarrow> RawReceipt \<Rightarrow> int \<Rightarrow> (FinalityStage \<times> bool option \<times> bool) option \<Rightarrow>
   ('x, 'ev, Poll) watch" where
  "deliverS w txHash receipt confirmations obs =
     (let policy = wo_finalityPolicy (w_options w);
          stage = stageOf policy obs
      in if obsCanonical obs = Some False then throwS (ReceiptReorgedError txHash (raw_blockNumber receipt))
         else if obsPending obs \<or> stage \<noteq> settlementStage policy then returnS PollNotSettled
         else if wo_chainId (w_options w) = Chain8453 then
           bindS (baseFeesS w txHash receipt) (\<lambda>fees.
           returnS (PollReceipt (mintReceipt txHash receipt (Some fees) confirmations stage)))
         else returnS (PollReceipt (mintReceipt txHash receipt None confirmations stage)))"

definition pollS :: "'x Watcher \<Rightarrow> hash \<Rightarrow> int \<Rightarrow> ('x, 'ev, Poll) watch" where
  "pollS w txHash depth =
     bindS (requestS (getTransactionReceipt (w_client w) txHash)) (\<lambda>answer.
     case answer of
       None \<Rightarrow> returnS PollMissing
     | Some receipt \<Rightarrow>
         bindS (requestS (getBlockNumber (w_client w))) (\<lambda>currentBlock.
         let confirmations = currentBlock - raw_blockNumber receipt + 1
         in if confirmations \<ge> depth then
              bindS (observeS w txHash (raw_blockNumber receipt)) (deliverS w txHash receipt confirmations)
            else returnS PollShallow))"

definition rethrows :: "WatchError \<Rightarrow> bool" where
  "rethrows e =
     (case e of
        ReceiptReorgedError _ _ \<Rightarrow> True
      | ReceiptTimeoutError _ _ \<Rightarrow> False
      | WatchMessage m \<Rightarrow>
          isPrefixOf ''BASE_RECEIPT_'' m \<or> isPrefixOf ''BASE_OPERATOR_'' m \<or> isPrefixOf ''BASE_PROVIDER_'' m
          \<or> m = ''BASE_FALLBACK_PROVIDER_REQUIRED'')"

text \<open>An iteration of the loop: the state is the world and the poll interval.\<close>

definition watchBody :: "'x Watcher \<Rightarrow> hash \<Rightarrow> int \<Rightarrow> int \<Rightarrow> ('x, 'ev) World \<times> int \<Rightarrow>
   ((WatchError + MintReceipt) \<times> ('x, 'ev) World) + (('x, 'ev) World \<times> int)" where
  "watchBody w txHash depth startedAt = (\<lambda>(s, pollInterval).
     let o' = w_options w;
         backoff = (\<lambda>interval s'. Inr (snd ((sleepS (w_timer w) interval :: ('x, 'ev, unit) watch) s'),
                                       min (interval * backoffMultiplier o') (maxPollMs o')))
     in if \<not> (clock s - startedAt < maxWaitMs o') then Inl (Inl (ReceiptTimeoutError txHash (maxWaitMs o')), s)
        else (case pollS w txHash depth s of
            (Inr (PollReceipt r), s') \<Rightarrow> Inl (Inr r, s')
          | (Inr PollNotSettled, s') \<Rightarrow>
              Inr (snd ((sleepS (w_timer w) (initialPollMs o') :: ('x, 'ev, unit) watch) s'), initialPollMs o')
          | (Inr PollShallow, s') \<Rightarrow> backoff (initialPollMs o') s'
          | (Inr PollMissing, s') \<Rightarrow> backoff pollInterval s'
          | (Inl e, s') \<Rightarrow> if rethrows e then Inl (Inl e, s') else backoff pollInterval s'))"

definition waitForReceipt :: "'x Watcher \<Rightarrow> hash \<Rightarrow> int \<Rightarrow> ('x, 'ev) World \<Rightarrow>
   ((WatchError + MintReceipt) \<times> ('x, 'ev) World) option" where
  "waitForReceipt w txHash depth s =
     repeatS (watchBody w txHash depth (clock s)) (s, initialPollMs (w_options w))"

section \<open>The contract of an observer\<close>

locale finality_observer =
  fixes observe :: observer
    and settlement :: FinalityStage
  assumes ready_settled: "observe h b = Inr obs \<Longrightarrow> fo_ready obs \<Longrightarrow>
      fo_canonical obs = Some True \<and> fo_stage obs = settlement"
begin

lemma not_canonical_not_ready: "observe h b = Inr obs \<Longrightarrow> fo_canonical obs \<noteq> Some True \<Longrightarrow> \<not> fo_ready obs"
  using ready_settled by blast

end

text \<open>Two observers that must agree: the combination keeps the contract of the first.\<close>

locale agreeing_observers = first: finality_observer primary settlement
  for primary :: observer and settlement :: FinalityStage +
  fixes secondary :: observer
begin

sublocale both: finality_observer "IndependentBaseFinalityObserver primary secondary" settlement
proof unfold_locales
  show "IndependentBaseFinalityObserver primary secondary h b = Inr obs \<Longrightarrow> fo_ready obs \<Longrightarrow>
      fo_canonical obs = Some True \<and> fo_stage obs = settlement" for h b obs
    by (auto simp: IndependentBaseFinalityObserver_def bindR_eq_Inr split: if_splits
        dest: first.ready_settled)
qed

lemma both_agree:
  "IndependentBaseFinalityObserver primary secondary h b = Inr obs \<Longrightarrow>
     primary h b = Inr obs \<and> (\<exists>other. secondary h b = Inr other \<and> fo_stage other = fo_stage obs \<and>
       fo_canonical other = fo_canonical obs \<and> fo_ready other = fo_ready obs)"
  by (auto simp: IndependentBaseFinalityObserver_def bindR_eq_Inr split: if_splits)

end

lemmas observer_simps = observation_def bindR_eq_Inr Let_def

interpretation eth_obs: finality_observer "observeEthereum src depth" StConfirmed
  for src :: FinalitySources and depth :: int
proof unfold_locales
  show "observeEthereum src depth h b = Inr obs \<Longrightarrow> fo_ready obs \<Longrightarrow>
      fo_canonical obs = Some True \<and> fo_stage obs = StConfirmed" for h b obs
    by (auto simp: observeEthereum_def observer_simps)
qed

interpretation base_obs: finality_observer "observeBase src" StEthereumFinal
  for src :: BaseFinalitySources
proof unfold_locales
  show "observeBase src h b = Inr obs \<Longrightarrow> fo_ready obs \<Longrightarrow>
      fo_canonical obs = Some True \<and> fo_stage obs = StEthereumFinal" for h b obs
    by (auto simp: observeBase_def observer_simps split: if_splits)
qed

interpretation robinhood_obs: finality_observer "observeRobinhood src depth" StEthereumFinal
  for src :: RobinhoodFinalitySources and depth :: int
proof unfold_locales
  show "observeRobinhood src depth h b = Inr obs \<Longrightarrow> fo_ready obs \<Longrightarrow>
      fo_canonical obs = Some True \<and> fo_stage obs = StEthereumFinal" for h b obs
    by (auto simp: observeRobinhood_def observer_simps split: if_splits)
qed

interpretation independent_base: agreeing_observers "observeBase src" StEthereumFinal secondary
  for src :: BaseFinalitySources and secondary :: observer ..

section \<open>Lemmas on the watcher\<close>

lemma time_requestS [eff_order]: "time.follows (requestS f)"
  unfolding requestS_def by (intro eff_order)

lemma time_liftFee [eff_order]: "time.follows (liftFee r)"
  unfolding liftFee_def by (intro eff_order)

lemma time_oracleFeeS [eff_order]: "time.follows (oracleFeeS c r)"
  unfolding oracleFeeS_def by (intro eff_order)

lemma time_observeS [eff_order]: "time.follows (observeS w h b)"
  unfolding observeS_def by (cases "w_observer w") (auto intro: eff_order)

lemma time_baseFeesS [eff_order]: "time.follows (baseFeesS w h r)"
  unfolding baseFeesS_def by (intro eff_order)

lemma time_deliverS [eff_order]: "time.follows (deliverS w h r n obs)"
  unfolding deliverS_def by (intro eff_order)

lemma time_pollS: "time.follows (pollS w h depth)"
  unfolding pollS_def by (intro eff_order)

lemma quiet_requestS [eff_order]: "quiet.follows (requestS f)"
  unfolding requestS_def by (intro eff_order)

lemma quiet_liftFee [eff_order]: "quiet.follows (liftFee r)"
  unfolding liftFee_def by (intro eff_order)

lemma quiet_oracleFeeS [eff_order]: "quiet.follows (oracleFeeS c r)"
  unfolding oracleFeeS_def by (intro eff_order)

lemma quiet_observeS [eff_order]: "quiet.follows (observeS w h b)"
  unfolding observeS_def by (cases "w_observer w") (auto intro: eff_order)

lemma quiet_baseFeesS [eff_order]: "quiet.follows (baseFeesS w h r)"
  unfolding baseFeesS_def by (intro eff_order)

lemma quiet_deliverS [eff_order]: "quiet.follows (deliverS w h r n obs)"
  unfolding deliverS_def by (intro eff_order)

lemma quiet_pollS: "quiet.follows (pollS w h depth)"
  unfolding pollS_def by (intro eff_order)

lemma watchBody_again:
  assumes "watchBody w h depth t0 (s, i) = Inr (s', i')" and "0 < i"
    and "0 < initialPollMs (w_options w)" "0 < maxPollMs (w_options w)" "0 < backoffMultiplier (w_options w)"
  shows "0 < i' \<and> clock s + 1 \<le> clock s' \<and> clock s - t0 < maxWaitMs (w_options w)"
proof -
  obtain q s1 where p: "pollS w h depth s = (q, s1)" by fastforce
  have t1: "clock s \<le> clock s1" by (rule time.followsD [OF time_pollS p])
  have sl: "clock s1 + k \<le> clock (snd ((sleepS (w_timer w) k :: ('a, 'b, unit) watch) s1))" for k
    using sleepS_clock [of "w_timer w" k s1] by (metis prod.collapse)
  have *: "\<exists>k > 0. s' = snd ((sleepS (w_timer w) k :: ('a, 'b, unit) watch) s1) \<and>
      (i' = k \<or> i' = min (k * backoffMultiplier (w_options w)) (maxPollMs (w_options w)))"
    and c: "clock s - t0 < maxWaitMs (w_options w)"
    using assms p by (auto simp: watchBody_def Let_def split: if_splits sum.splits Poll.splits)
  from * obtain k where "0 < k" "clock s1 + k \<le> clock s'"
    "i' = k \<or> i' = min (k * backoffMultiplier (w_options w)) (maxPollMs (w_options w))" using sl by blast
  with assms(4,5) c t1 show ?thesis by auto
qed

lemma watchBody_receipt:
  "watchBody w h depth t0 (s, i) = Inl (Inr r, s') \<Longrightarrow> pollS w h depth s = (Inr (PollReceipt r), s')"
  by (auto simp: watchBody_def Let_def split: if_splits prod.splits sum.splits Poll.splits)

lemma waited_receipt:
  assumes "waitForReceipt w h depth s = Some (Inr r, s')"
  shows "\<exists>s1. pollS w h depth s1 = (Inr (PollReceipt r), s')"
proof -
  from assms have "repeatS (watchBody w h depth (clock s)) (s, initialPollMs (w_options w)) = Some (Inr r, s')"
    by (simp add: waitForReceipt_def)
  from repeatS_result [OF this, of "\<lambda>_. True"] obtain st
    where "watchBody w h depth (clock s) st = Inl (Inr r, s')" by auto
  then show ?thesis by (cases st) (auto dest: watchBody_receipt)
qed

lemma requestS_Inr: "requestS f s = (Inr x, s') \<longleftrightarrow> askS f s = (Inr x, s')"
  by (auto simp: requestS_def catchS_eq_Inr)

lemma askS_Inr: "askS f s = (Inr x, s') \<Longrightarrow> \<exists>e y. f (outside s) = (Inr x, e, y)"
  by (auto simp: askS_def split: prod.splits)

lemma observeS_object:
  assumes "observeS w h b s = (Inr obs, s')" and "w_observer w = ObjectObserver f"
  shows "\<exists>x ob e y. f h b x = (Inr ob, e, y) \<and> obs = Some (fo_stage ob, fo_canonical ob, fo_ready ob)"
  using assms by (auto simp: observeS_def bindS_eq_Inr requestS_Inr dest!: askS_Inr)

lemma liftFee_Inr: "liftFee r s = (Inr x, s') \<longleftrightarrow> r = Inr x \<and> s' = s"
  by (cases r) (auto simp: liftFee_def)

lemma deliverS_receipt:
  assumes "deliverS w h raw n obs s = (Inr (PollReceipt r), s')"
  shows "\<exists>fees. r = mintReceipt h raw fees n (stageOf (wo_finalityPolicy (w_options w)) obs) \<and>
    obsCanonical obs \<noteq> Some False \<and> \<not> obsPending obs \<and>
    (wo_chainId (w_options w) = Chain8453 \<longrightarrow> (\<exists>fs. fees = Some fs \<and> baseFeesS w h raw s = (Inr fs, s')))"
  using assms by (auto simp: deliverS_def Let_def bindS_eq_Inr split: if_splits)

lemma pollS_receipt:
  assumes "pollS w h depth s = (Inr (PollReceipt r), s')"
  shows "\<exists>raw n obs s1 s2. depth \<le> n \<and> observeS w h (raw_blockNumber raw) s1 = (Inr obs, s2) \<and>
    deliverS w h raw n obs s2 = (Inr (PollReceipt r), s')"
  using assms by (auto simp: pollS_def Let_def bindS_eq_Inr split: option.splits if_splits) blast

lemma baseFeesS_agreed:
  assumes "baseFeesS w h raw s = (Inr (l1, op), s')"
  shows "\<exists>other oa ob. receiptsAgree other raw \<and> baseReceiptFees (raw_fees raw) oa = Inr (l1, op) \<and>
    baseReceiptFees (raw_fees other) ob = Inr (l1, op)"
  using assms by (fastforce simp: baseFeesS_def bindS_eq_Inr liftFee_Inr split: option.splits if_splits)

text \<open>The watcher records no events, and a receipt it delivers is for the hash it was asked for.\<close>

lemma sleep_quiet [simp]: "trace (snd ((sleepS f k :: ('x, 'ev, unit) watch) s)) = trace s"
  by (auto simp: sleepS_def split: prod.splits)

lemma watchBody_quiet:
  "watchBody w h depth t0 (s, i) = Inr (s', i') \<Longrightarrow> trace s' = trace s"
  "watchBody w h depth t0 (s, i) = Inl (r, s') \<Longrightarrow> trace s' = trace s"
  using quiet.followsD [OF quiet_pollS, of w h depth s]
  by (auto simp: watchBody_def Let_def split: if_splits prod.splits sum.splits Poll.splits)

lemma wait_quiet:
  assumes "waitForReceipt w h depth s = Some (r, s')"
  shows "trace s' = trace s"
proof -
  from assms have run: "repeatS (watchBody w h depth (clock s)) (s, initialPollMs (w_options w)) = Some (r, s')"
    by (simp add: waitForReceipt_def)
  have step: "trace (fst b) = trace s"
    if "trace (fst a) = trace s" "watchBody w h depth (clock s) a = Inr b" for a b
    using that by (cases a; cases b) (auto dest: watchBody_quiet(1))
  have "\<exists>a. trace (fst a) = trace s \<and> watchBody w h depth (clock s) a = Inl (r, s')"
    by (rule repeatS_result [OF run]) (auto simp: step)
  then obtain a where "trace (fst a) = trace s" "watchBody w h depth (clock s) a = Inl (r, s')" by blast
  then show ?thesis by (cases a) (auto dest: watchBody_quiet(2))
qed

lemma wait_hash: "waitForReceipt w h depth s = Some (Inr r, s') \<Longrightarrow> mr_txHash r = h"
proof -
  assume "waitForReceipt w h depth s = Some (Inr r, s')"
  then obtain s1 where "pollS w h depth s1 = (Inr (PollReceipt r), s')" using waited_receipt by blast
  then obtain raw n obs s2 where "deliverS w h raw n obs s2 = (Inr (PollReceipt r), s')" using pollS_receipt by blast
  from deliverS_receipt [OF this] show ?thesis by (auto simp: mintReceipt_def)
qed

lemma wait_returns:
  assumes "0 < initialPollMs (w_options w)" and "0 < maxPollMs (w_options w)" and "0 < backoffMultiplier (w_options w)"
  shows "\<exists>r s'. waitForReceipt w h depth s = Some (r, s')"
proof -
  let ?m = "\<lambda>(s', i). nat (clock s + maxWaitMs (w_options w) - clock s')"
  have "\<exists>r. repeatS (watchBody w h depth (clock s)) (s, initialPollMs (w_options w)) = Some r"
  proof (rule repeatS_returns [where I = "\<lambda>(_, i). 0 < i" and m = ?m])
    show "case (s, initialPollMs (w_options w)) of (_, i) \<Rightarrow> 0 < i" using assms(1) by simp
    fix a b
    assume "case a of (_, i) \<Rightarrow> 0 < i" and "watchBody w h depth (clock s) a = Inr b"
    then show "(case b of (_, i) \<Rightarrow> 0 < i) \<and> ?m b < ?m a"
      using watchBody_again [of w h depth "clock s"] assms by (cases a; cases b) fastforce
  qed
  then show ?thesis by (auto simp: waitForReceipt_def)
qed

section \<open>Properties\<close>

text \<open>
  C39. The watcher always returns, with a receipt, an error or the timeout, when its poll intervals
  and its backoff factor are positive: whatever the nodes answer and however long they take, the
  loop cannot spin.
\<close>

theorem receipt_watch_returns:
  assumes "0 < initialPollMs (w_options w)" and "0 < maxPollMs (w_options w)" and "0 < backoffMultiplier (w_options w)"
  shows "\<exists>r s'. waitForReceipt w h depth s = Some (r, s')"
  using assms by (rule wait_returns)

text \<open>A watcher for the witnesses: both providers know the same final transaction.\<close>

definition demoRaw :: RawReceipt where
  "demoRaw = \<lparr>raw_blockNumber = 7, raw_blockHash = ''0xb'', raw_status = ReceiptSuccess, raw_gasUsed = 21000,
     raw_effectiveGasPrice = 3, raw_fees = \<lparr>l1Fee = FeeBig 5, l1DataFee = FeeAbsent, operatorFee = FeeBig 2\<rparr>,
     raw_priorityFeeComponentWei = None\<rparr>"

definition demoClient :: "unit WatchClient" where
  "demoClient = \<lparr>getTransactionReceipt = (\<lambda>h x. (Inr (Some demoRaw), 10, x)), getBlockNumber = (\<lambda>x. (Inr 9, 10, x)),
     getOperatorFee = (\<lambda>g b x. (None, 10, x))\<rparr>"

definition demoBaseSources :: BaseFinalitySources where
  "demoBaseSources = \<lparr>src_chainId = Chain8453, currentBlockNumber = Inr 9,
     receiptBlockHash = Some (\<lambda>h. Inr (Some ''0xb'')), canonicalBlockHash = Some (\<lambda>b. Inr (Some ''0xb'')),
     expectedBlockHash = None, safeBlockNumber = Inr 9, finalizedBlockNumber = Inr 8\<rparr>"

definition demoObserve :: "hash \<Rightarrow> int \<Rightarrow> (unit, string + FinalityObservation) ask" where
  "demoObserve h b x = (IndependentBaseFinalityObserver (observeBase demoBaseSources) (observeBase demoBaseSources) h b, 10, x)"

definition demoWatcher :: "unit Watcher" where
  "demoWatcher = \<lparr>w_client = demoClient, w_fallback = Some demoClient, w_observer = ObjectObserver demoObserve,
     w_timer = (\<lambda>x. (0, 0, x)),
     w_options = DEFAULT_OPTIONS\<lparr>wo_chainId := Chain8453, wo_finalityPolicy :=
       \<lparr>stages = [StSoft, StPosted, StEthereumFinal], settlementStage = StEthereumFinal, fp_notes = None\<rparr>\<rparr>\<rparr>"

definition demoWorld :: "(unit, unit) World" where
  "demoWorld = \<lparr>clock = 0, outside = (), trace = []\<rparr>"

theorem receipt_watch_returns_witness:
  "\<exists>r s'. waitForReceipt demoWatcher ''0x1'' 1 demoWorld = Some (r, s')"
  using receipt_watch_returns [of demoWatcher "''0x1''" 1 demoWorld]
  by (simp add: demoWatcher_def DEFAULT_OPTIONS_def)

text \<open>The observers the engine configures on the two L2 chains.\<close>

definition l2Observes :: "hash \<Rightarrow> int \<Rightarrow> FinalityObservation \<Rightarrow> bool" where
  "l2Observes h b obs \<longleftrightarrow>
     (\<exists>p q. IndependentBaseFinalityObserver (observeBase p) (observeBase q) h b = Inr obs) \<or>
     (\<exists>src depth. observeRobinhood src depth h b = Inr obs)"

lemma l2Observes_settled: "l2Observes h b obs \<Longrightarrow> fo_ready obs \<Longrightarrow>
    fo_canonical obs = Some True \<and> fo_stage obs = StEthereumFinal"
  by (auto simp: l2Observes_def dest: independent_base.both.ready_settled robinhood_obs.ready_settled)

text \<open>
  A receipt returned by a watcher whose observer is one of the L2 observers belongs to the
  transaction asked for, has the required confirmations, and was observed canonical and final on
  Ethereum. On Base its two fees are complete, and a second provider agreed on block, status,
  gas and fees.
\<close>

theorem settled_receipt_is_final:
  assumes "waitForReceipt w h depth s = Some (Inr r, s')"
    and "w_observer w = ObjectObserver f"
    and "\<And>h b x obs e y. f h b x = (Inr obs, e, y) \<Longrightarrow> l2Observes h b obs"
  shows "mr_txHash r = h \<and> depth \<le> mr_confirmations r \<and> mr_finalityStage r = StEthereumFinal \<and>
    (\<exists>x obs e y. f h (mr_blockNumber r) x = (Inr obs, e, y) \<and> fo_canonical obs = Some True) \<and>
    (wo_chainId (w_options w) = Chain8453 \<longrightarrow>
       (\<exists>l1 op raw other oa ob. mr_l1DataFeeWei r = Some l1 \<and> mr_operatorFeeWei r = Some op \<and>
          receiptsAgree other raw \<and> raw_blockHash raw = mr_blockHash r \<and> raw_gasUsed raw = mr_gasUsed r \<and>
          baseReceiptFees (raw_fees raw) oa = Inr (l1, op) \<and> baseReceiptFees (raw_fees other) ob = Inr (l1, op)))"
proof -
  from waited_receipt [OF assms(1)] obtain s1 where "pollS w h depth s1 = (Inr (PollReceipt r), s')" ..
  from pollS_receipt [OF this] obtain raw n obs s2 s3
    where n: "depth \<le> n" and ob: "observeS w h (raw_blockNumber raw) s2 = (Inr obs, s3)"
      and del: "deliverS w h raw n obs s3 = (Inr (PollReceipt r), s')" by blast
  from deliverS_receipt [OF del] obtain fees
    where r: "r = mintReceipt h raw fees n (stageOf (wo_finalityPolicy (w_options w)) obs)"
      and ready: "\<not> obsPending obs"
      and base: "wo_chainId (w_options w) = Chain8453 \<longrightarrow> (\<exists>fs. fees = Some fs \<and> baseFeesS w h raw s3 = (Inr fs, s'))"
    by blast
  from observeS_object [OF ob assms(2)] obtain x o1 e y where f: "f h (raw_blockNumber raw) x = (Inr o1, e, y)"
    and obs: "obs = Some (fo_stage o1, fo_canonical o1, fo_ready o1)" by blast
  have settled: "fo_canonical o1 = Some True \<and> fo_stage o1 = StEthereumFinal"
    using l2Observes_settled [OF assms(3) [OF f]] ready obs by (simp add: obsPending_def)
  have flds: "mr_txHash r = h" "depth \<le> mr_confirmations r" "mr_blockNumber r = raw_blockNumber raw" "mr_finalityStage r = StEthereumFinal"
    "mr_blockHash r = raw_blockHash raw" "mr_gasUsed r = raw_gasUsed raw"
    "\<And>l1 op. fees = Some (l1, op) \<Longrightarrow> mr_l1DataFeeWei r = Some l1 \<and> mr_operatorFeeWei r = Some op"
    using settled n by (simp_all add: r mintReceipt_def stageOf_def obs)
  have "\<exists>l1 op raw other oa ob. mr_l1DataFeeWei r = Some l1 \<and> mr_operatorFeeWei r = Some op \<and>
          receiptsAgree other raw \<and> raw_blockHash raw = mr_blockHash r \<and> raw_gasUsed raw = mr_gasUsed r \<and>
          baseReceiptFees (raw_fees raw) oa = Inr (l1, op) \<and> baseReceiptFees (raw_fees other) ob = Inr (l1, op)"
    if "wo_chainId (w_options w) = Chain8453"
  proof -
    from base that obtain l1 op where fees: "fees = Some (l1, op)" "baseFeesS w h raw s3 = (Inr (l1, op), s')" by auto
    from baseFeesS_agreed [OF fees(2)] flds(5,6) flds(7) [OF fees(1)] show ?thesis by metis
  qed
  with flds(1-4) f settled show ?thesis by metis
qed

theorem settled_receipt_is_final_witness:
  "\<exists>r s'. waitForReceipt demoWatcher ''0x1'' 1 demoWorld = Some (Inr r, s') \<and>
     mr_finalityStage r = StEthereumFinal \<and> mr_l1DataFeeWei r = Some 5 \<and> mr_operatorFeeWei r = Some 2"
proof -
  have o1: "demoObserve h b x = (Inr obs, e, y) \<Longrightarrow> l2Observes h b obs" for h b x obs e y
    by (auto simp: demoObserve_def l2Observes_def)
  have o2: "w_observer demoWatcher = ObjectObserver demoObserve" by (simp add: demoWatcher_def)
  have low: "toLowerCase ''0xb'' = ''0xb''" by code_simp
  let ?r = "mintReceipt ''0x1'' demoRaw (Some (5, 2)) 3 StEthereumFinal"
  have fees: "baseReceiptFees (raw_fees demoRaw) None = Inr (5, 2)"
    by (simp add: demoRaw_def baseReceiptFees_def normalizePresent_def MAX_UINT256_def)
  have raw: "raw_blockNumber demoRaw = 7" "operatorFee (raw_fees demoRaw) = FeeBig 2" by (simp_all add: demoRaw_def)
  have obs: "demoObserve h 7 x = (Inr (observation Chain8453 StEthereumFinal (Some True) True None), 10, x)" for h x
    by (simp add: demoObserve_def IndependentBaseFinalityObserver_def observeBase_def isCanonical_def demoBaseSources_def
        observation_def low)
  have "\<exists>s'. pollS demoWatcher ''0x1'' 1 demoWorld = (Inr (PollReceipt ?r), s')"
    by (simp add: pollS_def bindS_def requestS_def catchS_def askS_def demoWatcher_def demoClient_def demoWorld_def
        observeS_def obs deliverS_def Let_def obsCanonical_def obsPending_def stageOf_def baseFeesS_def
        receiptsAgree_def oracleFeeS_def liftFee_def fees raw observation_def DEFAULT_OPTIONS_def)
  then obtain s' where w: "waitForReceipt demoWatcher ''0x1'' 1 demoWorld = Some (Inr ?r, s')"
    by (auto simp: waitForReceipt_def repeatS.simps watchBody_def Let_def demoWorld_def demoWatcher_def DEFAULT_OPTIONS_def)
  show ?thesis using settled_receipt_is_final [OF w o2 o1] w by (auto simp: mintReceipt_def)
qed

end
