(* ===== verification/Providers.thy ===== *)
theory Providers
  imports Lifecycle
begin

text \<open>
  Checks of what providers report: the agreement of the two Base providers before signing
  (\<^verbatim>\<open>packages/engine/src/base-provider-agreement.ts\<close>), the correlation of the sequencer feed with the
  RPC state (\<^verbatim>\<open>packages/engine/src/sequencer-correlation.ts\<close>) and the label under which an endpoint may
  be logged (\<^verbatim>\<open>packages/engine/src/endpoint-reference.ts\<close>). A client is the record of its answers; a
  request that rejects is \<open>Inl\<close> with its message.
\<close>

section \<open>Agreement of the Base providers\<close>

type_synonym block = "int option \<times> hash option"

record BaseAgreementClient =
  getChainId :: "string + int"
  getFinalizedBlock :: "string + block"
  getBlockAt :: "int \<Rightarrow> string + block"
  getPendingCount :: "address \<Rightarrow> string + int"

definition MAX_BASE_FINALIZED_HEAD_LAG_BLOCKS :: int where
  "MAX_BASE_FINALIZED_HEAD_LAG_BLOCKS = 300"

definition noncesAgree :: "BaseAgreementClient \<Rightarrow> BaseAgreementClient \<Rightarrow> address \<Rightarrow> string + unit" where
  "noncesAgree primary fallback a =
     bindR (getPendingCount primary a) (\<lambda>p.
     bindR (getPendingCount fallback a) (\<lambda>f.
     ensure (p = f) ''BASE_PROVIDER_PENDING_NONCE_DISAGREEMENT''))"

definition commonBlockAgrees ::
  "BaseAgreementClient \<Rightarrow> BaseAgreementClient \<Rightarrow> int \<times> hash \<Rightarrow> int \<times> hash \<Rightarrow> string + unit" where
  "commonBlockAgrees primary fallback p f =
     (let common = (if fst p \<le> fst f then fst p else fst f)
      in bindR (if fst p = common then Inr (Some (fst p), Some (snd p)) else getBlockAt primary common) (\<lambda>pc.
         bindR (if fst f = common then Inr (Some (fst f), Some (snd f)) else getBlockAt fallback common) (\<lambda>fc.
         ensure (\<not> (fst pc \<noteq> Some common \<or> fst fc \<noteq> Some common \<or> snd pc = None \<or> snd fc = None
                     \<or> toLowerCase (the (snd pc)) \<noteq> toLowerCase (the (snd fc))))
           ''BASE_PROVIDER_FINALIZED_STATE_DISAGREEMENT'')))"

definition assertBaseProviderAgreement ::
  "BaseAgreementClient \<Rightarrow> BaseAgreementClient \<Rightarrow> address list \<Rightarrow> string + unit" where
  "assertBaseProviderAgreement primary fallback wallets =
     bindR (getChainId primary) (\<lambda>pid.
     bindR (getChainId fallback) (\<lambda>fid.
     bindR (ensure (\<not> (pid \<noteq> 8453 \<or> fid \<noteq> 8453)) ''BASE_PROVIDER_CHAIN_DISAGREEMENT'') (\<lambda>_.
     bindR (getFinalizedBlock primary) (\<lambda>pb.
     bindR (getFinalizedBlock fallback) (\<lambda>fb.
     case (pb, fb) of
       ((Some pn, Some ph), (Some fn, Some fh)) \<Rightarrow>
         let headLag = (if pn \<ge> fn then pn - fn else fn - pn)
         in bindR (ensure (\<not> headLag > MAX_BASE_FINALIZED_HEAD_LAG_BLOCKS) ''BASE_PROVIDER_FINALIZED_HEAD_LAG_TOO_LARGE'') (\<lambda>_.
            bindR (commonBlockAgrees primary fallback (pn, ph) (fn, fh)) (\<lambda>_.
            bindR (mapR (noncesAgree primary fallback) wallets) (\<lambda>_. Inr ())))
     | _ \<Rightarrow> Inl ''BASE_PROVIDER_FINALIZED_STATE_DISAGREEMENT'')))))"

section \<open>Sequencer feed\<close>

record SequencerObservation =
  feed_txHash :: "hash option"
  feed_from :: "address option"
  feed_nonce :: "int option"
  feed_blockNumber :: "int option"
  feed_sequence :: "int option"

record RpcObservation =
  rpc_txHash :: "hash option"
  rpc_from :: "address option"
  rpc_nonce :: "int option"
  rpc_blockNumber :: "int option"
  rpc_receiptVisible :: bool

datatype SequencerCorrelation =
    Correlated hash "int option" "int option"
  | CorrelationPending string
  | CorrelationMismatch string

definition numbersDiffer :: "int option \<Rightarrow> int option \<Rightarrow> bool" where
  "numbersDiffer a b = (a \<noteq> None \<and> b \<noteq> None \<and> a \<noteq> b)"

definition correlateSequencerObservation ::
  "SequencerObservation \<Rightarrow> RpcObservation \<Rightarrow> SequencerCorrelation" where
  "correlateSequencerObservation feed rpc =
     (if \<not> truthy (feed_txHash feed) then CorrelationPending ''feed-missing-hash''
      else if hashesDiffer (rpc_txHash rpc) (feed_txHash feed) then CorrelationMismatch ''hash''
      else if hashesDiffer (feed_from feed) (rpc_from rpc) then CorrelationMismatch ''sender''
      else if numbersDiffer (feed_nonce feed) (rpc_nonce rpc) then CorrelationMismatch ''nonce''
      else if numbersDiffer (feed_blockNumber feed) (rpc_blockNumber rpc) then CorrelationMismatch ''block''
      else if \<not> rpc_receiptVisible rpc then CorrelationPending ''rpc-lag''
      else Correlated (the (feed_txHash feed))
        (case feed_blockNumber feed of Some b \<Rightarrow> Some b | None \<Rightarrow> rpc_blockNumber rpc) (feed_sequence feed))"

section \<open>Endpoint labels\<close>

definition trimText :: "string \<Rightarrow> string" where
  "trimText s = rev (dropWhile isSpace (rev (dropWhile isSpace s)))"

text \<open>The class \<^verbatim>\<open>[a-z0-9._:-]\<close> under the flag \<^verbatim>\<open>i\<close>.\<close>

definition labelChar :: "char \<Rightarrow> bool" where
  "labelChar c =
     (let n = (of_char c :: nat)
      in (97 \<le> n \<and> n \<le> 122) \<or> (65 \<le> n \<and> n \<le> 90) \<or> (48 \<le> n \<and> n \<le> 57) \<or> c \<in> set ''._:-'')"

fun percentEscape :: "string \<Rightarrow> bool" where
  "percentEscape (p # a # b # cs) =
     ((p = CHR ''%'' \<and> hex_digit a \<noteq> None \<and> hex_digit b \<noteq> None) \<or> percentEscape (a # b # cs))"
| "percentEscape _ = False"

definition urlShaped :: "string \<Rightarrow> bool" where
  "urlShaped s = (list_ex (\<lambda>c. c \<in> set ''/?#@'') s \<or> percentEscape s)"

definition safeEndpointReference :: "string \<Rightarrow> string" where
  "safeEndpointReference value =
     (let label = trimText value
      in if length label = 0 \<or> length label > 80 \<or> urlShaped label \<or> \<not> (label \<noteq> [] \<and> list_all labelChar label)
         then ''rpc'' else label)"

section \<open>Lemmas\<close>

lemma common_block_ok:
  assumes "commonBlockAgrees primary fallback (pn, ph) (fn, fh) = Inr ()"
  shows "\<exists>a b. toLowerCase a = toLowerCase b \<and>
    (pn \<le> fn \<longrightarrow> a = ph) \<and> (fn \<le> pn \<longrightarrow> b = fh) \<and>
    (fn < pn \<longrightarrow> getBlockAt primary fn = Inr (Some fn, Some a)) \<and>
    (pn < fn \<longrightarrow> getBlockAt fallback pn = Inr (Some pn, Some b))"
  using assms by (auto simp: commonBlockAgrees_def Let_def bindR_eq_Inr split: if_splits)

lemma finalized_heads:
  assumes "assertBaseProviderAgreement primary fallback as = Inr ()"
  shows "\<exists>pn ph fn fh us. getChainId primary = Inr 8453 \<and> getChainId fallback = Inr 8453 \<and>
    getFinalizedBlock primary = Inr (Some pn, Some ph) \<and> getFinalizedBlock fallback = Inr (Some fn, Some fh) \<and>
    \<not> (if pn \<ge> fn then pn - fn else fn - pn) > MAX_BASE_FINALIZED_HEAD_LAG_BLOCKS \<and>
    commonBlockAgrees primary fallback (pn, ph) (fn, fh) = Inr () \<and>
    mapR (noncesAgree primary fallback) as = Inr us"
proof -
  from assms obtain pn ph fn fh where b: "getFinalizedBlock primary = Inr (pn, ph)"
    "getFinalizedBlock fallback = Inr (fn, fh)"
    by (auto simp: assertBaseProviderAgreement_def bindR_eq_Inr)
  show ?thesis
  proof (cases "pn = None \<or> ph = None \<or> fn = None \<or> fh = None")
    case True
    with assms b show ?thesis
      by (auto simp: assertBaseProviderAgreement_def bindR_eq_Inr split: option.splits)
  next
    case False
    with assms b show ?thesis
      by (auto simp: assertBaseProviderAgreement_def bindR_eq_Inr Let_def split del: if_split)
  qed
qed

lemma nonces_ok:
  "mapR (noncesAgree primary fallback) as = Inr us \<Longrightarrow> a \<in> set as \<Longrightarrow>
     \<exists>n. getPendingCount primary a = Inr n \<and> getPendingCount fallback a = Inr n"
  by (auto simp: mapR_eq_Inr list_all2_conv_all_nth in_set_conv_nth noncesAgree_def bindR_eq_Inr)

lemma label_rpc: "list_all labelChar ''rpc''"
  by code_simp

section \<open>Properties\<close>

text \<open>
  The agreement check passes only when both providers name Base, their finalized heads are
  at most 300 blocks apart, both give the same hash for the lower of the two heads, and they
  report the same pending nonce for every wallet.
\<close>

theorem base_agreement_sound:
  assumes "assertBaseProviderAgreement primary fallback as = Inr ()"
  shows "getChainId primary = Inr 8453 \<and> getChainId fallback = Inr 8453 \<and>
    (\<exists>pn ph fn fh a b. getFinalizedBlock primary = Inr (Some pn, Some ph) \<and>
       getFinalizedBlock fallback = Inr (Some fn, Some fh) \<and> \<bar>pn - fn\<bar> \<le> 300 \<and>
       toLowerCase a = toLowerCase b \<and> (pn \<le> fn \<longrightarrow> a = ph) \<and> (fn \<le> pn \<longrightarrow> b = fh) \<and>
       (fn < pn \<longrightarrow> getBlockAt primary fn = Inr (Some fn, Some a)) \<and>
       (pn < fn \<longrightarrow> getBlockAt fallback pn = Inr (Some pn, Some b))) \<and>
    (\<forall>w \<in> set as. \<exists>n. getPendingCount primary w = Inr n \<and> getPendingCount fallback w = Inr n)"
proof -
  from assms obtain pn ph fn fh us where heads: "getChainId primary = Inr 8453" "getChainId fallback = Inr 8453"
    "getFinalizedBlock primary = Inr (Some pn, Some ph)" "getFinalizedBlock fallback = Inr (Some fn, Some fh)"
    and lag: "\<not> (if pn \<ge> fn then pn - fn else fn - pn) > MAX_BASE_FINALIZED_HEAD_LAG_BLOCKS"
    and common: "commonBlockAgrees primary fallback (pn, ph) (fn, fh) = Inr ()"
    and nonces: "mapR (noncesAgree primary fallback) as = Inr us"
    using finalized_heads [OF assms] by blast
  have "\<bar>pn - fn\<bar> \<le> 300" using lag by (auto simp: MAX_BASE_FINALIZED_HEAD_LAG_BLOCKS_def split: if_splits)
  with heads common_block_ok [OF common] nonces_ok [OF nonces] show ?thesis by auto
qed

definition demoProvider :: "int \<Rightarrow> BaseAgreementClient" where
  "demoProvider n = \<lparr>getChainId = Inr 8453, getFinalizedBlock = Inr (Some n, Some ''0xaa''),
     getBlockAt = (\<lambda>b. Inr (Some b, Some ''0xaa'')), getPendingCount = (\<lambda>a. Inr 4)\<rparr>"

theorem base_agreement_sound_witness:
  "assertBaseProviderAgreement (demoProvider 100) (demoProvider 90) [''0x1''] = Inr () \<and>
   getChainId (demoProvider 100) = Inr 8453"
proof -
  have h: "assertBaseProviderAgreement (demoProvider 100) (demoProvider 90) [''0x1''] = Inr ()"
    by (simp add: assertBaseProviderAgreement_def demoProvider_def commonBlockAgrees_def noncesAgree_def
        MAX_BASE_FINALIZED_HEAD_LAG_BLOCKS_def)
  show ?thesis using h base_agreement_sound [OF h] by simp
qed

text \<open>
  A logged endpoint label never reveals a URL: it has between 1 and 80 characters, all of
  them letters, digits, dots, underscores, colons or dashes, so no scheme separator, path, query,
  fragment, user info or escape can occur in it; relabelling a label changes nothing.
\<close>

theorem endpoint_label_is_safe:
  "safeEndpointReference s \<noteq> [] \<and> length (safeEndpointReference s) \<le> 80 \<and>
   list_all labelChar (safeEndpointReference s) \<and>
   \<not> urlShaped (safeEndpointReference s) \<and>
   safeEndpointReference (safeEndpointReference s) = safeEndpointReference s"
proof -
  have trim: "trimText t = t" if "list_all labelChar t" for t
  proof -
    have "\<not> isSpace c" if "labelChar c" for c
      using that by (auto simp: labelChar_def isSpace_def Let_def)
    with that have "list_all (\<lambda>c. \<not> isSpace c) t" by (auto simp: list_all_iff)
    then show ?thesis
      by (metis (no_types, lifting) dropWhile_eq_self_iff hd_in_set list_all_iff rev_rev_ident set_rev trimText_def)
  qed
  have rpc: "\<not> urlShaped ''rpc''" "safeEndpointReference ''rpc'' = ''rpc''" by code_simp+
  show ?thesis
  proof (cases "safeEndpointReference s = ''rpc''")
    case True
    then show ?thesis using rpc label_rpc by simp
  next
    case False
    then have *: "safeEndpointReference s = trimText s" "list_all labelChar (trimText s)" "trimText s \<noteq> []"
      "length (trimText s) \<le> 80" "\<not> urlShaped (trimText s)"
      by (auto simp: safeEndpointReference_def Let_def split: if_splits)
    moreover have "safeEndpointReference (trimText s) = trimText s"
      using * trim [OF *(2)] by (simp add: safeEndpointReference_def Let_def)
    ultimately show ?thesis by simp
  qed
qed

end
