(* ===== verification/Chains.thy ===== *)
theory Chains
  imports Lifecycle
begin

text \<open>
  The chain registry (\<^verbatim>\<open>packages/engine/src/chains.ts\<close>) and the evidence gate of the Robinhood chain
  (\<^verbatim>\<open>packages/engine/src/robinhood-gate.ts\<close>). The free text of notes is left out of the profiles, and
  the endpoints read from the secret store are an argument of the functions that resolve them.
\<close>

section \<open>Registry\<close>

definition ETHEREUM_FINALITY :: FinalityPolicy where
  "ETHEREUM_FINALITY = \<lparr>stages = [StConfirmed], settlementStage = StConfirmed, fp_notes = None\<rparr>"

definition L2_STAGED_FINALITY :: FinalityPolicy where
  "L2_STAGED_FINALITY =
     \<lparr>stages = [StSoft, StPosted, StEthereumFinal], settlementStage = StEthereumFinal, fp_notes = None\<rparr>"

definition SEADROP_V1_ADDRESS :: address where
  "SEADROP_V1_ADDRESS = ''0x00005EA00Ac477B1030CE78506496e8C2dE24bf5''"

definition OPENSEA_FEE_COLLECTOR :: address where
  "OPENSEA_FEE_COLLECTOR = ''0x0000a26b00c1F0DF003000390027140000fAa719''"

fun CHAINS :: "SupportedChainId \<Rightarrow> ChainConfig" where
  "CHAINS Chain1 =
     \<lparr>cc_chainId = Chain1, cc_name = ''Ethereum'', blockTimeMs = 12000, confirmationDepth = 2,
      cc_rpcEndpoints = [], sequencerUrl = None, sequencerFeedUrl = None, explorerUrl = None,
      flashbotsRelayUrl = Some ''https://relay.flashbots.net'', isL2 = False, verificationStatus = Verified,
      characterization = None, finalityPolicy = ETHEREUM_FINALITY, executionEnabled = True\<rparr>"
| "CHAINS Chain8453 =
     \<lparr>cc_chainId = Chain8453, cc_name = ''Base'', blockTimeMs = 2000, confirmationDepth = 1,
      cc_rpcEndpoints = [], sequencerUrl = None, sequencerFeedUrl = None, explorerUrl = None,
      flashbotsRelayUrl = None, isL2 = True, verificationStatus = Unverified,
      characterization = None, finalityPolicy = L2_STAGED_FINALITY, executionEnabled = False\<rparr>"
| "CHAINS Chain4663 =
     \<lparr>cc_chainId = Chain4663, cc_name = ''Robinhood'', blockTimeMs = 2000, confirmationDepth = 1,
      cc_rpcEndpoints = [], sequencerUrl = Some ''https://sequencer.mainnet.chain.robinhood.com'',
      sequencerFeedUrl = Some ''wss://feed.mainnet.chain.robinhood.com'',
      explorerUrl = Some ''https://robinhoodchain.blockscout.com'',
      flashbotsRelayUrl = None, isL2 = True, verificationStatus = Unverified,
      characterization = Some
        \<lparr>ch_status = Unverified, acceptedBy = Some ''Junayd (Product Owner)'',
         acceptedAt = Some ''2026-08-26T00:00:00.000Z'', reportRef = Some ''./Robinhood Technical Report'',
         liveMintEvidenceRef = Some ''tx 0x790edf4d04c66e3d3ea1e6ed9c2a81466962824159f247a95f1b3503c30ac158'',
         liveMintTxHash = Some ''0x790edf4d04c66e3d3ea1e6ed9c2a81466962824159f247a95f1b3503c30ac158'',
         ch_notes = None\<rparr>,
      finalityPolicy = L2_STAGED_FINALITY, executionEnabled = False\<rparr>"

fun CHAIN_ENV_REFS :: "SupportedChainId \<Rightarrow> string list" where
  "CHAIN_ENV_REFS Chain1 = [''ETHEREUM_RPC_URL'', ''ETHEREUM_RPC_FBACK'', ''ETHEREUM_RPC_FBACK_II'']"
| "CHAIN_ENV_REFS Chain8453 = [''BASE_RPC_URL'', ''BASE_RPC_FBACK'', ''BASE_RPC_FBACK_II'']"
| "CHAIN_ENV_REFS Chain4663 = [''ROBINHOOD_RPC_URL'', ''ROBINHOOD_RPC_FBACK'', ''ROBINHOOD_RPC_FBACK_II'']"

definition getChainConfig :: "SupportedChainId \<Rightarrow> ChainConfig" where
  "getChainConfig chainId = CHAINS chainId"

definition chainMap :: "(string \<times> SupportedChainId) list" where
  "chainMap = [(''ethereum'', Chain1), (''eth'', Chain1), (''mainnet'', Chain1), (''base'', Chain8453),
     (''robinhood'', Chain4663)]"

text \<open>\<open>None\<close>: the name is unknown and the source throws.\<close>

definition getChainByName :: "string \<Rightarrow> ChainConfig option" where
  "getChainByName name = map_option getChainConfig (map_of chainMap (toLowerCase name))"

definition getAllChains :: "ChainConfig list" where
  "getAllChains = map CHAINS [Chain1, Chain4663, Chain8453]"

definition resolveChainId :: "string \<Rightarrow> SupportedChainId option" where
  "resolveChainId chainName =
     map_of [(''ethereum'', Chain1), (''base'', Chain8453), (''robinhood'', Chain4663)] chainName"

definition chainRpcSecretNames :: "SupportedChainId \<Rightarrow> string list" where
  "chainRpcSecretNames chainId = CHAIN_ENV_REFS chainId"

definition resolveChainConfigFromSecrets ::
  "(string list \<Rightarrow> 'e + string list) \<Rightarrow> SupportedChainId \<Rightarrow> 'e + ChainConfig" where
  "resolveChainConfigFromSecrets resolveChainEndpoints chainId =
     bindR (resolveChainEndpoints (CHAIN_ENV_REFS chainId)) (\<lambda>endpoints.
     Inr ((getChainConfig chainId)\<lparr>cc_rpcEndpoints := endpoints\<rparr>))"

section \<open>Robinhood evidence\<close>

record RobinhoodGateEvidence =
  ownerAccepted :: bool
  positiveSeaDropMint :: bool
  archiveForkReplay :: bool
  negativeCaseSuite :: bool
  sequencerFeedCorrelation :: bool
  duplicateTimeoutLagReplacement :: bool
  startupReconciliation :: bool
  signerBroadcastFinality :: bool

definition evidenceEntries :: "RobinhoodGateEvidence \<Rightarrow> (string \<times> bool) list" where
  "evidenceEntries e =
     [(''ownerAccepted'', ownerAccepted e), (''positiveSeaDropMint'', positiveSeaDropMint e),
      (''archiveForkReplay'', archiveForkReplay e), (''negativeCaseSuite'', negativeCaseSuite e),
      (''sequencerFeedCorrelation'', sequencerFeedCorrelation e),
      (''duplicateTimeoutLagReplacement'', duplicateTimeoutLagReplacement e),
      (''startupReconciliation'', startupReconciliation e), (''signerBroadcastFinality'', signerBroadcastFinality e)]"

text \<open>Whether the chain is verified, and the names of the missing evidence.\<close>

definition evaluateRobinhoodVerification :: "RobinhoodGateEvidence \<Rightarrow> bool \<times> string list" where
  "evaluateRobinhoodVerification e =
     (let missing = map fst (filter (\<lambda>(_, shown). \<not> shown) (evidenceEntries e))
      in (missing = [], missing))"

definition emptyCharacterization :: ChainCharacterization where
  "emptyCharacterization = \<lparr>ch_status = Unverified, acceptedBy = None, acceptedAt = None, reportRef = None,
     liveMintEvidenceRef = None, liveMintTxHash = None, ch_notes = None\<rparr>"

definition applyRobinhoodVerification ::
  "ChainConfig \<Rightarrow> RobinhoodGateEvidence \<Rightarrow> string list + ChainConfig" where
  "applyRobinhoodVerification config e =
     (let (verified, missing) = evaluateRobinhoodVerification e
      in if \<not> verified then Inl missing
         else Inr (config\<lparr>verificationStatus := Verified, executionEnabled := True,
                characterization := Some ((case characterization config of Some c \<Rightarrow> c | None \<Rightarrow> emptyCharacterization)
                  \<lparr>ch_status := Verified\<rparr>)\<rparr>))"

section \<open>Lemmas\<close>

lemma chain_of_config [simp]: "cc_chainId (CHAINS c) = c"
  by (cases c) auto

lemma named_chain: "getChainByName n = Some c \<Longrightarrow> c = CHAINS (cc_chainId c)"
  by (auto simp: getChainByName_def getChainConfig_def)

lemma verification_applied_iff:
  "is_ok (applyRobinhoodVerification config e) \<longleftrightarrow>
     ownerAccepted e \<and> positiveSeaDropMint e \<and> archiveForkReplay e \<and> negativeCaseSuite e \<and>
     sequencerFeedCorrelation e \<and> duplicateTimeoutLagReplacement e \<and> startupReconciliation e \<and>
     signerBroadcastFinality e"
  by (auto simp: applyRobinhoodVerification_def evaluateRobinhoodVerification_def evidenceEntries_def Let_def
      split: if_splits)

end
