(* ===== verification/Broadcasters.thy ===== *)
theory Broadcasters
  imports Chains
begin

text \<open>
  The broadcasters (\<^verbatim>\<open>packages/engine/src/broadcasters/*.ts\<close>). The network is an argument: for each
  request it gives the reply (the JSON-RPC body, or the message of a failed transport) and the
  measured latency. \<^verbatim>\<open>keccak256\<close> of the viem library is an argument. \<^verbatim>\<open>warmup\<close> sends nothing that
  matters for a transaction and is not modelled.

  The locale \<open>broadcaster\<close> is the contract the engine relies on: every result is classified, and a
  result that was not accepted still carries the hash of a transaction that was sent. It is
  interpreted on the single broadcasters; the fallback combination inherits it from its parts.
\<close>

section \<open>Replies\<close>

datatype RpcReply =
    Reply "hash option" "string option"
  | TransportError string

type_synonym network = "string \<Rightarrow> hex \<Rightarrow> RpcReply \<times> int"

definition plainResult ::
  "hash \<Rightarrow> string \<Rightarrow> int \<Rightarrow> bool \<Rightarrow> BroadcastResponseClass \<Rightarrow> string option \<Rightarrow> bool option \<Rightarrow> BroadcastResult" where
  "plainResult h url latency ok c err amb =
     \<lparr>br_txHash = h, endpoint = url, latencyMs = latency, success = ok, responseClass = Some c,
      ambiguous = amb, br_error = err, providerReference = None\<rparr>"

text \<open>
  The reading of one reply to \<^verbatim>\<open>eth_sendRawTransaction\<close>. The broadcasters differ in how they
  recognise "already known" and in the text of an error without message.
\<close>

definition readReply ::
  "(string \<Rightarrow> bool) \<Rightarrow> string \<Rightarrow> (hex \<Rightarrow> hash) \<Rightarrow> string \<Rightarrow> hex \<Rightarrow> RpcReply \<times> int \<Rightarrow> BroadcastResult" where
  "readReply known noMessage keccak url signedTx = (\<lambda>(reply, latency).
     case reply of
       TransportError msg \<Rightarrow> plainResult (keccak signedTx) url latency False Ambiguous (Some msg) (Some True)
     | Reply result err \<Rightarrow>
         if truthy result then plainResult (the result) url latency True Accepted None None
         else if known (case err of None \<Rightarrow> [] | Some m \<Rightarrow> m)
         then plainResult (keccak signedTx) url latency True AlreadyKnown (Some ''already known'') None
         else plainResult (keccak signedTx) url latency False Rejected
                (Some (case err of None \<Rightarrow> noMessage | Some m \<Rightarrow> m)) None)"

section \<open>The single broadcasters\<close>

definition publicBroadcast :: "network \<Rightarrow> (hex \<Rightarrow> hash) \<Rightarrow> string \<Rightarrow> hex list \<Rightarrow> BroadcastResult list" where
  "publicBroadcast net keccak rpcUrl signedTxs =
     map (\<lambda>signedTx. readReply (\<lambda>m. containsText ''already known'' (toLowerCase m)) ''Unknown RPC error''
            keccak rpcUrl signedTx (net rpcUrl signedTx)) signedTxs"

definition fireBlast :: "network \<Rightarrow> (hex \<Rightarrow> hash) \<Rightarrow> string list \<Rightarrow> hex \<Rightarrow> BroadcastResult list" where
  "fireBlast net keccak urls signedTx =
     map (\<lambda>url. readReply (\<lambda>m. alreadyKnownText (toLowerCase m)) ''Unknown error'' keccak url signedTx (net url signedTx)) urls"

definition blastBroadcast :: "network \<Rightarrow> (hex \<Rightarrow> hash) \<Rightarrow> string list \<Rightarrow> hex list \<Rightarrow> BroadcastResult list" where
  "blastBroadcast net keccak endpoints signedTxs = concat (map (fireBlast net keccak endpoints) signedTxs)"

definition sequencerBroadcast ::
  "network \<Rightarrow> (hex \<Rightarrow> hash) \<Rightarrow> string \<Rightarrow> string list \<Rightarrow> hex list \<Rightarrow> BroadcastResult list" where
  "sequencerBroadcast net keccak url fallbackUrls signedTxs =
     concat (map (\<lambda>signedTx. map (\<lambda>u. readReply (\<lambda>m. alreadyKnownText (toLowerCase m)) ''Unknown error'' keccak u signedTx
       (net u signedTx)) (url # fallbackUrls)) signedTxs)"

section \<open>Flashbots\<close>

text \<open>The relay's answer to a bundle, or the message of a failed signature or transport.\<close>

datatype BundleReply =
    BundleReply "hash option" "(string \<times> int) option"
  | BundleFailure string

record FlashbotsConfig =
  relayUrl :: "string option"
  fb_blockRange :: "nat option"

type_synonym relay = "hex list \<Rightarrow> int \<Rightarrow> BundleReply \<times> int"

fun sendBundle :: "BundleReply \<Rightarrow> string + hash" where
  "sendBundle (BundleFailure msg) = Inl msg"
| "sendBundle (BundleReply bundle (Some (msg, code))) =
     Inl (''Flashbots relay error: '' @ msg @ '' (code: '' @ show_int code @ '')'')"
| "sendBundle (BundleReply bundle None) =
     (if truthy bundle then Inr (the bundle) else Inl ''Flashbots relay returned no bundle hash'')"

definition relayRefused :: "string \<Rightarrow> bool" where
  "relayRefused msg =
     (containsText ''relay error'' (toLowerCase msg) \<or> containsText ''returned no bundle hash'' (toLowerCase msg))"

definition bundleResult :: "hash \<Rightarrow> string \<Rightarrow> BundleReply \<times> int \<Rightarrow> BroadcastResult" where
  "bundleResult h url = (\<lambda>(reply, latency).
     case sendBundle reply of
       Inr bundleHash \<Rightarrow> (plainResult h url latency True Accepted None None)\<lparr>providerReference := Some bundleHash\<rparr>
     | Inl err \<Rightarrow>
         if relayRefused err then plainResult h url latency False Rejected (Some err) None
         else plainResult h url latency False Ambiguous (Some err) (Some True))"

text \<open>
  \<open>None\<close> is a rejected call: no target block, or no transaction to take the hash of.
\<close>

definition flashbotsBroadcast ::
  "relay \<Rightarrow> (hex \<Rightarrow> hash) \<Rightarrow> FlashbotsConfig \<Rightarrow> int option \<Rightarrow> hex list \<Rightarrow> BroadcastResult list option" where
  "flashbotsBroadcast relay keccak config targetBlock signedTxs =
     (let url = (case relayUrl config of Some u \<Rightarrow> u | None \<Rightarrow> ''https://relay.flashbots.net'');
          blockRange = (case fb_blockRange config of Some n \<Rightarrow> n | None \<Rightarrow> 3)
      in case targetBlock of
           None \<Rightarrow> None
         | Some target \<Rightarrow>
             if target = 0 then None
             else if blockRange = 0 then Some []
             else (case signedTxs of
                [] \<Rightarrow> None
              | tx # _ \<Rightarrow>
                  Some (map (\<lambda>off. bundleResult (keccak tx) url (relay signedTxs (target + int off))) [0..<blockRange])))"

section \<open>The fallback combination\<close>

definition ambiguousResults :: "(hex \<Rightarrow> hash) \<Rightarrow> string \<Rightarrow> string \<Rightarrow> hex list \<Rightarrow> BroadcastResult list" where
  "ambiguousResults keccak name err signedTxs =
     map (\<lambda>tx. plainResult (keccak tx) name 0 False Ambiguous (Some err) (Some True)) signedTxs"

definition fallbackBroadcast ::
  "(hex \<Rightarrow> hash) \<Rightarrow> string \<Rightarrow> string \<Rightarrow> (hex list \<Rightarrow> BroadcastResult list option) \<Rightarrow>
   (hex list \<Rightarrow> BroadcastResult list option) \<Rightarrow> hex list \<Rightarrow> BroadcastResult list" where
  "fallbackBroadcast keccak primaryName fallbackName primary fallback signedTxs =
     (let primaryResults = (case primary signedTxs of Some rs \<Rightarrow> rs
            | None \<Rightarrow> ambiguousResults keccak primaryName ''Error'' signedTxs)
      in if list_ex success primaryResults then primaryResults
         else primaryResults @ (case fallback signedTxs of Some rs \<Rightarrow> rs
            | None \<Rightarrow> ambiguousResults keccak fallbackName ''Error'' signedTxs))"

section \<open>The factory\<close>

datatype Broadcaster =
    PublicMempool string
  | Blast "string list"
  | SequencerDirect string "string list"
  | Flashbots FlashbotsConfig
  | Fallback Broadcaster Broadcaster

fun nameOf :: "Broadcaster \<Rightarrow> string" where
  "nameOf (PublicMempool _) = ''public-mempool''"
| "nameOf (Blast _) = ''blast''"
| "nameOf (SequencerDirect _ _) = ''sequencer-direct''"
| "nameOf (Flashbots _) = ''flashbots''"
| "nameOf (Fallback p _) = nameOf p"

text \<open>\<^verbatim>\<open>[...new Set(xs)]\<close> keeps the first occurrence of every endpoint.\<close>

definition uniqueFirst :: "'a list \<Rightarrow> 'a list" where
  "uniqueFirst xs = rev (remdups (rev xs))"

definition newBlast :: "string list \<Rightarrow> string + Broadcaster" where
  "newBlast endpoints =
     (if endpoints = [] then Inl ''BlastBroadcaster requires at least one endpoint'' else Inr (Blast endpoints))"

definition createBroadcaster ::
  "ChainConfig \<Rightarrow> BroadcastMode \<Rightarrow> string list \<Rightarrow> FlashbotsConfig option \<Rightarrow> string + Broadcaster" where
  "createBroadcaster chain mode rpcEndpoints flashbots =
     (if \<not> executionEnabled chain then Inl ''Execution is disabled for unverified chain''
      else
        let allEndpoints = uniqueFirst (cc_rpcEndpoints chain @ rpcEndpoints)
        in case mode of
             ModePublic \<Rightarrow>
               if allEndpoints = [] then Inl ''No RPC endpoints configured'' else Inr (PublicMempool (hd allEndpoints))
           | ModeBlast \<Rightarrow>
               if allEndpoints = [] then Inl ''No RPC endpoints configured'' else newBlast allEndpoints
           | ModeSequencer \<Rightarrow>
               if \<not> truthy (sequencerUrl chain) then Inl ''No sequencer URL configured''
               else Inr (SequencerDirect (the (sequencerUrl chain)) allEndpoints)
           | ModeFlashbots \<Rightarrow>
               (case flashbots of
                  None \<Rightarrow> Inl ''Flashbots mode requires a dedicated auth signer''
                | Some config \<Rightarrow>
                    if allEndpoints \<noteq> [] then bindR (newBlast allEndpoints) (\<lambda>b. Inr (Fallback (Flashbots config) b))
                    else Inr (Flashbots config))
           | ModeAuto \<Rightarrow>
               if isL2 chain then
                 (if truthy (sequencerUrl chain) then Inr (SequencerDirect (the (sequencerUrl chain)) allEndpoints)
                  else newBlast allEndpoints)
               else (case flashbots of
                  None \<Rightarrow> Inl ''Ethereum auto mode requires Flashbots authentication''
                | Some config \<Rightarrow> Inr (Flashbots config)))"

fun broadcastBy ::
  "network \<Rightarrow> relay \<Rightarrow> (hex \<Rightarrow> hash) \<Rightarrow> int option \<Rightarrow> Broadcaster \<Rightarrow> hex list \<Rightarrow> BroadcastResult list option" where
  "broadcastBy net relay keccak target (PublicMempool url) txs = Some (publicBroadcast net keccak url txs)"
| "broadcastBy net relay keccak target (Blast urls) txs = Some (blastBroadcast net keccak urls txs)"
| "broadcastBy net relay keccak target (SequencerDirect url urls) txs = Some (sequencerBroadcast net keccak url urls txs)"
| "broadcastBy net relay keccak target (Flashbots config) txs = flashbotsBroadcast relay keccak config target txs"
| "broadcastBy net relay keccak target (Fallback p f) txs =
     Some (fallbackBroadcast keccak (nameOf p) (nameOf f) (broadcastBy net relay keccak target p)
       (broadcastBy net relay keccak target f) txs)"

section \<open>The contract of a broadcaster\<close>

definition classified :: "(hex \<Rightarrow> hash) \<Rightarrow> hex list \<Rightarrow> BroadcastResult \<Rightarrow> bool" where
  "classified keccak txs r \<longleftrightarrow>
     (success r \<longrightarrow> responseClass r = Some Accepted \<or> responseClass r = Some AlreadyKnown) \<and>
     (\<not> success r \<longrightarrow> responseClass r = Some Rejected \<or> (responseClass r = Some Ambiguous \<and> ambiguous r = Some True)) \<and>
     (responseClass r \<noteq> Some Accepted \<longrightarrow> br_txHash r \<in> keccak ` set txs) \<and>
     ((\<forall>tx \<in> set txs. keccak tx \<noteq> []) \<longrightarrow> br_txHash r \<noteq> [])"

locale broadcaster =
  fixes send :: "hex list \<Rightarrow> BroadcastResult list option"
    and keccak :: "hex \<Rightarrow> hash"
  assumes send_classified: "send txs = Some rs \<Longrightarrow> r \<in> set rs \<Longrightarrow> classified keccak txs r"
begin

lemma class_is_recorded: "send txs = Some rs \<Longrightarrow> r \<in> set rs \<Longrightarrow>
    responseClass r = Some (classifyBroadcastResult r)"
  using send_classified [of txs rs r] by (auto simp: classified_def classifyBroadcastResult_def)

lemma hash_nonempty: "send txs = Some rs \<Longrightarrow> r \<in> set rs \<Longrightarrow> (\<And>tx. keccak tx \<noteq> []) \<Longrightarrow> br_txHash r \<noteq> []"
  using send_classified [of txs rs r] by (auto simp: classified_def)

lemma unsent_identity: "send txs = Some rs \<Longrightarrow> r \<in> set rs \<Longrightarrow> \<not> success r \<Longrightarrow> br_txHash r \<in> keccak ` set txs"
  using send_classified [of txs rs r] by (auto simp: classified_def)

end

locale broadcaster_pair = first: broadcaster primary keccak + second: broadcaster secondary keccak
  for primary secondary :: "hex list \<Rightarrow> BroadcastResult list option" and keccak :: "hex \<Rightarrow> hash" +
  fixes primaryName secondaryName :: string
begin

lemma ambiguous_classified: "r \<in> set (ambiguousResults keccak n e txs) \<Longrightarrow> classified keccak txs r"
  by (auto simp: ambiguousResults_def classified_def plainResult_def)

sublocale pair: broadcaster "\<lambda>txs. Some (fallbackBroadcast keccak primaryName secondaryName primary secondary txs)" keccak
proof unfold_locales
  fix txs rs r
  assume "Some (fallbackBroadcast keccak primaryName secondaryName primary secondary txs) = Some rs" "r \<in> set rs"
  then show "classified keccak txs r"
    using first.send_classified [of txs] second.send_classified [of txs] ambiguous_classified
    by (auto simp: fallbackBroadcast_def Let_def split: if_splits option.splits)
qed

lemma pair_contract:
  "broadcaster (\<lambda>txs. Some (fallbackBroadcast keccak primaryName secondaryName primary secondary txs)) keccak"
  by (rule pair.broadcaster_axioms)

end

lemma readReply_classified: "tx \<in> set txs \<Longrightarrow> classified keccak txs (readReply known d keccak url tx reply)"
  by (cases reply) (auto simp: readReply_def plainResult_def classified_def elim!: truthy.elims split: RpcReply.splits)

interpretation public_bc: broadcaster "\<lambda>txs. Some (publicBroadcast net keccak url txs)" keccak
  for net keccak url
  by unfold_locales (auto simp: publicBroadcast_def intro: readReply_classified)

interpretation blast_bc: broadcaster "\<lambda>txs. Some (blastBroadcast net keccak urls txs)" keccak
  for net keccak urls
  by unfold_locales (auto simp: blastBroadcast_def fireBlast_def intro: readReply_classified)

interpretation sequencer_bc: broadcaster "\<lambda>txs. Some (sequencerBroadcast net keccak url urls txs)" keccak
  for net keccak url urls
  by unfold_locales (auto simp: sequencerBroadcast_def intro: readReply_classified)

lemma bundle_classified: "classified keccak (tx # txs) (bundleResult (keccak tx) url reply)"
  by (cases reply) (auto simp: bundleResult_def classified_def plainResult_def split: sum.splits)

interpretation flashbots_bc: broadcaster "flashbotsBroadcast relay keccak config target" keccak
  for relay keccak config target
  by unfold_locales (auto simp: flashbotsBroadcast_def Let_def bundle_classified split: option.splits list.splits if_splits)

lemma broadcastBy_contract: "broadcaster (broadcastBy net relay keccak target b) keccak"
proof (induction b)
  case (Fallback p f)
  then have "broadcaster_pair (broadcastBy net relay keccak target p) (broadcastBy net relay keccak target f) keccak"
    by (simp add: broadcaster_pair_def)
  from broadcaster_pair.pair_contract [OF this] show ?case by simp
qed (simp_all add: public_bc.broadcaster_axioms blast_bc.broadcaster_axioms sequencer_bc.broadcaster_axioms
    flashbots_bc.broadcaster_axioms)

interpretation any_bc: broadcaster "broadcastBy net relay keccak target b" keccak
  for net relay keccak target b
  by (rule broadcastBy_contract)

section \<open>Properties\<close>

text \<open>
  Whatever broadcaster the factory builds and whatever the network replies, every result is
  recorded under the class the engine later derives from it: successes are accepted or already
  known, failures are rejected or marked ambiguous, and every result that was not accepted keeps
  the hash of one of the transactions sent, so it can still be reconciled.
\<close>

theorem broadcast_results_classified:
  assumes "broadcastBy net relay keccak target b txs = Some rs" and "r \<in> set rs"
  shows "responseClass r = Some (classifyBroadcastResult r) \<and>
    (success r \<longleftrightarrow> classifyBroadcastResult r \<in> {Accepted, AlreadyKnown}) \<and>
    (\<not> success r \<longrightarrow> classifyBroadcastResult r = Rejected \<or>
       (classifyBroadcastResult r = Ambiguous \<and> ambiguous r = Some True)) \<and>
    (classifyBroadcastResult r \<noteq> Accepted \<longrightarrow> br_txHash r \<in> keccak ` set txs)"
  using any_bc.send_classified [OF assms] any_bc.class_is_recorded [OF assms]
  by (auto simp: classified_def)

definition demoNet :: network where
  "demoNet url tx = (if url = ''https://a'' then (TransportError ''socket hang up'', 3) else (Reply None (Some ''nonce too low''), 5))"

definition demoRelay :: relay where
  "demoRelay txs b = (BundleReply None None, 2)"

theorem broadcast_results_classified_witness:
  "broadcastBy demoNet demoRelay id None (Blast [''https://a'']) [''02''] =
     Some [plainResult ''02'' ''https://a'' 3 False Ambiguous (Some ''socket hang up'') (Some True)] \<and>
   br_txHash (plainResult ''02'' ''https://a'' 3 False Ambiguous (Some ''socket hang up'') (Some True)) \<in>
     id ` set [''02'']"
proof -
  let ?r = "plainResult ''02'' ''https://a'' 3 False Ambiguous (Some ''socket hang up'') (Some True)"
  have h: "broadcastBy demoNet demoRelay id None (Blast [''https://a'']) [''02''] = Some [?r]"
    by (simp add: blastBroadcast_def fireBlast_def readReply_def demoNet_def)
  have c: "classifyBroadcastResult ?r = Ambiguous" by (simp add: classifyBroadcastResult_def plainResult_def)
  have m: "?r \<in> set [?r]" by simp
  from broadcast_results_classified [OF h m] c h show ?thesis by simp
qed

text \<open>
  The fallback route is used only on total failure of the primary one: when the primary route
  reports a success its results are returned unchanged and the secondary is not consulted,
  otherwise all primary results are kept in front of the secondary's; the combination itself
  never rejects, and reports every transaction when a route rejects.
\<close>

theorem fallback_only_on_total_failure:
  "(\<exists>rs. broadcastBy net relay keccak target (Fallback p f) txs = Some rs) \<and>
   (\<forall>ps. broadcastBy net relay keccak target p txs = Some ps \<longrightarrow>
      (if list_ex success ps
       then broadcastBy net relay keccak target (Fallback p f) txs = Some ps
       else \<exists>fs. broadcastBy net relay keccak target (Fallback p f) txs = Some (ps @ fs) \<and>
              (\<forall>gs. broadcastBy net relay keccak target f txs = Some gs \<longrightarrow> fs = gs))) \<and>
   (broadcastBy net relay keccak target p txs = None \<longrightarrow>
      (\<exists>rs. broadcastBy net relay keccak target (Fallback p f) txs = Some rs \<and>
         keccak ` set txs \<subseteq> br_txHash ` set rs))"
proof (intro conjI)
  have amb: "br_txHash ` set (ambiguousResults keccak n e txs) = keccak ` set txs" for n e
    by (auto simp: ambiguousResults_def plainResult_def image_image)
  have none: "\<not> list_ex success (ambiguousResults keccak n e txs)" for n e
    by (auto simp: ambiguousResults_def plainResult_def list_ex_iff)
  show "broadcastBy net relay keccak target p txs = None \<longrightarrow>
      (\<exists>rs. broadcastBy net relay keccak target (Fallback p f) txs = Some rs \<and>
         keccak ` set txs \<subseteq> br_txHash ` set rs)"
    using amb none by (auto simp: fallbackBroadcast_def Let_def image_Un)
qed (auto simp: fallbackBroadcast_def Let_def split: option.splits)

theorem fallback_only_on_total_failure_witness:
  "broadcastBy demoNet demoRelay id (Some 9)
      (Fallback (PublicMempool ''https://b'') (Blast [''https://a''])) [''02''] =
     Some ([plainResult ''02'' ''https://b'' 5 False Rejected (Some ''nonce too low'') None] @
           [plainResult ''02'' ''https://a'' 3 False Ambiguous (Some ''socket hang up'') (Some True)])"
proof -
  have known: "\<not> containsText ''already known'' (toLowerCase ''nonce too low'')" by code_simp
  have p: "broadcastBy demoNet demoRelay id (Some 9) (PublicMempool ''https://b'') [''02''] =
      Some [plainResult ''02'' ''https://b'' 5 False Rejected (Some ''nonce too low'') None]"
    using known by (simp add: publicBroadcast_def readReply_def demoNet_def)
  have f: "broadcastBy demoNet demoRelay id (Some 9) (Blast [''https://a'']) [''02''] =
      Some [plainResult ''02'' ''https://a'' 3 False Ambiguous (Some ''socket hang up'') (Some True)]"
    by (simp add: blastBroadcast_def fireBlast_def readReply_def demoNet_def)
  have "\<not> list_ex success [plainResult ''02'' ''https://b'' 5 False Rejected (Some ''nonce too low'') None]"
    by (simp add: plainResult_def)
  with p f fallback_only_on_total_failure [of demoNet demoRelay id "Some 9"
      "PublicMempool ''https://b''" "Blast [''https://a'']" "[''02'']"]
  show ?thesis by auto
qed

text \<open>
  In auto mode on Ethereum the engine only ever uses the private relay: the factory builds
  the Flashbots broadcaster alone, without a public fallback, so what it returns does not depend
  on any public endpoint.
\<close>

theorem ethereum_auto_mode_is_private:
  assumes "createBroadcaster chain ModeAuto eps flashbots = Inr b" and "\<not> isL2 chain"
  shows "(\<exists>config. flashbots = Some config \<and> b = Flashbots config) \<and>
    broadcastBy net relay keccak target b txs = broadcastBy net' relay keccak target b txs"
  using assms by (auto simp: createBroadcaster_def Let_def split: if_splits option.splits)

theorem ethereum_auto_mode_is_private_witness:
  "createBroadcaster (CHAINS Chain1) ModeAuto [''https://a''] (Some \<lparr>relayUrl = None, fb_blockRange = None\<rparr>) =
     Inr (Flashbots \<lparr>relayUrl = None, fb_blockRange = None\<rparr>) \<and>
   broadcastBy demoNet demoRelay id None (Flashbots \<lparr>relayUrl = None, fb_blockRange = None\<rparr>) [''02''] =
     broadcastBy (\<lambda>_ _. (Reply None None, 0)) demoRelay id None (Flashbots \<lparr>relayUrl = None, fb_blockRange = None\<rparr>) [''02'']"
proof -
  have h: "createBroadcaster (CHAINS Chain1) ModeAuto [''https://a''] (Some \<lparr>relayUrl = None, fb_blockRange = None\<rparr>) =
     Inr (Flashbots \<lparr>relayUrl = None, fb_blockRange = None\<rparr>)"
    by (simp add: createBroadcaster_def)
  have l: "\<not> isL2 (CHAINS Chain1)" by simp
  show ?thesis using h ethereum_auto_mode_is_private [OF h l] by blast
qed

end
