(* ===== verification/PreSign.thy ===== *)
theory PreSign
  imports Effects Types
begin

text \<open>
  The checks around the one place the engine may sign (\<^verbatim>\<open>packages/engine/src/pre-sign.ts\<close>).
  Decoding a signed transaction and recovering its sender are functions of the viem library and
  arguments here (\<open>None\<close> when they throw). The callbacks of \<^verbatim>\<open>reserveThenSign\<close> are effectful
  computations over the caller's state.
\<close>

section \<open>Definitions\<close>

definition mintError :: "MintErrorType \<Rightarrow> string \<Rightarrow> MintError" where
  "mintError t msg = \<lparr>me_type = t, me_message = msg, me_walletIndex = None\<rparr>"

text \<open>\<open>None\<close>: the input is invalid and the source throws.\<close>

definition robinhoodL1DataGasWei :: "int \<Rightarrow> wei \<Rightarrow> wei option" where
  "robinhoodL1DataGasWei gasLimit maxFeePerGasWei =
     (if gasLimit < 0 \<or> maxFeePerGasWei < 0 then None
      else Some (((gasLimit + 15) sdiv 16) * maxFeePerGasWei))"

record ReservationRequestAmounts =
  ra_valueWei :: wei
  ra_maxGasCostWei :: wei
  ra_mintValueWei :: wei
  ra_l2ExecutionGasWei :: wei

definition assertRequestMatchesIntent ::
  "TransactionIntent \<Rightarrow> ReservationRequestAmounts \<Rightarrow> wei option \<Rightarrow> MintError + unit" where
  "assertRequestMatchesIntent i request reservedMaxFeePerGas =
     (let feeForWorstCase = (case reservedMaxFeePerGas of None \<Rightarrow> ti_maxFeePerGas i | Some f \<Rightarrow> f)
      in if (case reservedMaxFeePerGas of None \<Rightarrow> False | Some f \<Rightarrow> f < ti_maxFeePerGas i)
         then Inl (mintError DURABLE_RESERVATION_REQUIRED ''Replacement ceiling is below the first fee'')
         else
           let worstCaseGas = ti_gasLimit i * feeForWorstCase
           in if ra_valueWei request \<noteq> ti_value i \<or> ra_mintValueWei request \<noteq> ti_value i
                 \<or> ra_maxGasCostWei request \<noteq> worstCaseGas \<or> ra_l2ExecutionGasWei request \<noteq> worstCaseGas
              then Inl (mintError DURABLE_RESERVATION_REQUIRED
                     ''Reservation amounts differ from the transaction about to be signed'')
              else Inr ())"

record ParsedTransaction =
  px_chainId :: int
  px_to :: "address option"
  px_value :: "wei option"
  px_data :: "hex option"
  px_nonce :: "int option"
  px_gas :: "int option"
  px_maxFeePerGas :: "wei option"
  px_maxPriorityFeePerGas :: "wei option"

fun chainNumber :: "SupportedChainId \<Rightarrow> int" where
  "chainNumber Chain1 = 1"
| "chainNumber Chain8453 = 8453"
| "chainNumber Chain4663 = 4663"

definition sameTransaction :: "ParsedTransaction \<Rightarrow> TransactionIntent \<Rightarrow> bool" where
  "sameTransaction parsed i \<longleftrightarrow>
     px_chainId parsed = chainNumber (ti_chainId i) \<and>
     map_option toLowerCase (px_to parsed) = Some (toLowerCase (ti_to i)) \<and>
     (case px_value parsed of None \<Rightarrow> 0 | Some v \<Rightarrow> v) = ti_value i \<and>
     toLowerCase (case px_data parsed of None \<Rightarrow> ''0x'' | Some d \<Rightarrow> d) = toLowerCase (ti_data i) \<and>
     px_nonce parsed = Some (ti_nonce i) \<and> px_gas parsed = Some (ti_gasLimit i) \<and>
     px_maxFeePerGas parsed = Some (ti_maxFeePerGas i) \<and>
     px_maxPriorityFeePerGas parsed = Some (ti_maxPriorityFeePerGas i)"

record TxCodec =
  parseTransaction :: "hex \<Rightarrow> ParsedTransaction option"
  recoverAddress :: "hex \<Rightarrow> address option"

definition assertSignedMatchesIntent :: "TxCodec \<Rightarrow> hex \<Rightarrow> TransactionIntent \<Rightarrow> MintError + unit" where
  "assertSignedMatchesIntent codec signed i =
     (case parseTransaction codec signed of
        None \<Rightarrow> Inl (mintError UNKNOWN ''Signed transaction could not be decoded; nothing was broadcast'')
      | Some parsed \<Rightarrow>
          if \<not> sameTransaction parsed i
          then Inl (mintError UNKNOWN ''Signed transaction differs from the checked transaction; nothing was broadcast'')
          else if \<not> truthy (recoverAddress codec signed)
                  \<or> toLowerCase (the (recoverAddress codec signed)) \<noteq> toLowerCase (ti_from i)
          then Inl (mintError UNKNOWN ''Signed transaction was not signed by the expected wallet; nothing was broadcast'')
          else Inr ())"

text \<open>
  The callbacks may reject with any error of the caller; \<open>sa_raise\<close> is how the module's own errors
  appear among them.
\<close>

record ('s, 'e, 'r) SignArgs =
  sa_intent :: TransactionIntent
  sa_request :: ReservationRequestAmounts
  sa_reserve :: "('s, 'e, 'r) eff"
  sa_sign :: "('s, 'e, hex) eff"
  sa_checkKill :: "('s, 'e, unit) eff"
  sa_reservedMaxFeePerGas :: "wei option"
  sa_onReserved :: "'r \<Rightarrow> ('s, 'e, unit) eff"
  sa_raise :: "MintError \<Rightarrow> 'e"

definition raiseS :: "('s, 'e, 'r) SignArgs \<Rightarrow> MintError + 'a \<Rightarrow> ('s, 'e, 'a) eff" where
  "raiseS a r = (case r of Inl e \<Rightarrow> throwS (sa_raise a e) | Inr x \<Rightarrow> returnS x)"

definition reserveThenSign :: "TxCodec \<Rightarrow> ('s, 'e, 'r) SignArgs \<Rightarrow> ('s, 'e, 'r \<times> hex) eff" where
  "reserveThenSign codec a =
     bindS (raiseS a (assertRequestMatchesIntent (sa_intent a) (sa_request a) (sa_reservedMaxFeePerGas a))) (\<lambda>_.
     bindS (sa_reserve a) (\<lambda>reservation.
     bindS (sa_onReserved a reservation) (\<lambda>_.
     bindS (sa_checkKill a) (\<lambda>_.
     bindS (sa_sign a) (\<lambda>signed.
     bindS (sa_checkKill a) (\<lambda>_.
     bindS (raiseS a (assertSignedMatchesIntent codec signed (sa_intent a))) (\<lambda>_.
     returnS (reservation, signed))))))))"

section \<open>Lemmas\<close>

lemma request_matches_iff:
  "assertRequestMatchesIntent i q ceil = Inr () \<longleftrightarrow>
     (\<forall>f. ceil = Some f \<longrightarrow> ti_maxFeePerGas i \<le> f) \<and>
     ra_valueWei q = ti_value i \<and> ra_mintValueWei q = ti_value i \<and>
     ra_maxGasCostWei q = ti_gasLimit i * (case ceil of None \<Rightarrow> ti_maxFeePerGas i | Some f \<Rightarrow> f) \<and>
     ra_l2ExecutionGasWei q = ra_maxGasCostWei q"
  by (auto simp: assertRequestMatchesIntent_def Let_def split: option.splits)

lemma raiseS_eq_Inr [simp]: "raiseS a r s = (Inr x, s') \<longleftrightarrow> r = Inr x \<and> s' = s"
  by (auto simp: raiseS_def split: sum.splits)

lemma raiseS_update [simp]: "raiseS (a\<lparr>sa_sign := g\<rparr>) r = raiseS a r"
  by (auto simp: raiseS_def split: sum.splits)

lemma signed_matches_iff:
  "assertSignedMatchesIntent codec tx i = Inr () \<longleftrightarrow>
     (\<exists>p a. parseTransaction codec tx = Some p \<and> sameTransaction p i \<and> recoverAddress codec tx = Some a \<and>
        a \<noteq> [] \<and> toLowerCase a = toLowerCase (ti_from i))"
  by (auto simp: assertSignedMatchesIntent_def split: option.splits) (metis option.sel truthy.elims(2))

section \<open>Properties\<close>

text \<open>
  Nothing is signed without a reservation of exactly the worst case: when a signed
  transaction comes back, a reservation was accepted before the signer ran, for the value and
  the gas limit at the reserved fee (never below the first fee), the kill switch was checked
  before and after signing, and the signed bytes decode to the checked transaction from the
  expected wallet. When the amounts differ or the reservation is refused, the outcome does not
  depend on the signer: it is never called.
\<close>

theorem reservation_precedes_signature:
  "(reserveThenSign codec a s = (Inr (reservation, tx), s') \<longrightarrow>
     ra_valueWei (sa_request a) = ti_value (sa_intent a) \<and>
     ti_gasLimit (sa_intent a) * (case sa_reservedMaxFeePerGas a of None \<Rightarrow> ti_maxFeePerGas (sa_intent a) | Some f \<Rightarrow> f)
       = ra_maxGasCostWei (sa_request a) \<and>
     (\<forall>f. sa_reservedMaxFeePerGas a = Some f \<longrightarrow> ti_maxFeePerGas (sa_intent a) \<le> f) \<and>
     (\<exists>s1 s2 s3 s4. sa_reserve a s = (Inr reservation, s1) \<and> sa_onReserved a reservation s1 = (Inr (), s2) \<and>
        sa_checkKill a s2 = (Inr (), s3) \<and> sa_sign a s3 = (Inr tx, s4) \<and> sa_checkKill a s4 = (Inr (), s')) \<and>
     (\<exists>p w. parseTransaction codec tx = Some p \<and> sameTransaction p (sa_intent a) \<and>
        recoverAddress codec tx = Some w \<and> toLowerCase w = toLowerCase (ti_from (sa_intent a)))) \<and>
   (\<not> is_ok (assertRequestMatchesIntent (sa_intent a) (sa_request a) (sa_reservedMaxFeePerGas a)) \<or>
      \<not> is_ok (fst (sa_reserve a s)) \<longrightarrow>
    reserveThenSign codec (a\<lparr>sa_sign := signer'\<rparr>) s = reserveThenSign codec a s)"
proof (intro conjI impI)
  assume "reserveThenSign codec a s = (Inr (reservation, tx), s')"
  then have *: "assertRequestMatchesIntent (sa_intent a) (sa_request a) (sa_reservedMaxFeePerGas a) = Inr ()"
    "assertSignedMatchesIntent codec tx (sa_intent a) = Inr ()"
    "\<exists>s1 s2 s3 s4. sa_reserve a s = (Inr reservation, s1) \<and> sa_onReserved a reservation s1 = (Inr (), s2) \<and>
        sa_checkKill a s2 = (Inr (), s3) \<and> sa_sign a s3 = (Inr tx, s4) \<and> sa_checkKill a s4 = (Inr (), s')"
    by (auto simp: reserveThenSign_def bindS_eq_Inr)
  then show "ra_valueWei (sa_request a) = ti_value (sa_intent a)"
    and "ti_gasLimit (sa_intent a) * (case sa_reservedMaxFeePerGas a of None \<Rightarrow> ti_maxFeePerGas (sa_intent a) | Some f \<Rightarrow> f)
       = ra_maxGasCostWei (sa_request a)"
    and "\<forall>f. sa_reservedMaxFeePerGas a = Some f \<longrightarrow> ti_maxFeePerGas (sa_intent a) \<le> f"
    by (auto simp: request_matches_iff)
  show "\<exists>s1 s2 s3 s4. sa_reserve a s = (Inr reservation, s1) \<and> sa_onReserved a reservation s1 = (Inr (), s2) \<and>
        sa_checkKill a s2 = (Inr (), s3) \<and> sa_sign a s3 = (Inr tx, s4) \<and> sa_checkKill a s4 = (Inr (), s')"
    by (rule *(3))
  show "\<exists>p w. parseTransaction codec tx = Some p \<and> sameTransaction p (sa_intent a) \<and>
        recoverAddress codec tx = Some w \<and> toLowerCase w = toLowerCase (ti_from (sa_intent a))"
    using *(2) by (auto simp: signed_matches_iff)
next
  assume "\<not> is_ok (assertRequestMatchesIntent (sa_intent a) (sa_request a) (sa_reservedMaxFeePerGas a)) \<or>
      \<not> is_ok (fst (sa_reserve a s))"
  then show "reserveThenSign codec (a\<lparr>sa_sign := signer'\<rparr>) s = reserveThenSign codec a s"
    by (cases "sa_reserve a s"; cases "fst (sa_reserve a s)";
        cases "assertRequestMatchesIntent (sa_intent a) (sa_request a) (sa_reservedMaxFeePerGas a)")
      (auto simp: reserveThenSign_def bindS_def raiseS_def)
qed

definition demoIntent :: TransactionIntent where
  "demoIntent = \<lparr>ti_chainId = Chain1, ti_from = ''0xa'', ti_to = ''0xb'', ti_value = 7, ti_data = ''0x16'', ti_nonce = 3,
     ti_gasLimit = 100, ti_maxFeePerGas = 20, ti_maxPriorityFeePerGas = 2, ti_accessList = None, ti_campaignId = None,
     ti_runId = None, ti_policyRef = None, ti_evidenceRef = None, ti_familyContext = None\<rparr>"

definition demoCodec :: TxCodec where
  "demoCodec = \<lparr>parseTransaction = (\<lambda>tx. Some \<lparr>px_chainId = 1, px_to = Some ''0xb'', px_value = Some 7, px_data = Some ''0x16'',
     px_nonce = Some 3, px_gas = Some 100, px_maxFeePerGas = Some 20, px_maxPriorityFeePerGas = Some 2\<rparr>),
     recoverAddress = (\<lambda>tx. Some ''0xa'')\<rparr>"

definition demoArgs :: "(nat, MintError, string) SignArgs" where
  "demoArgs = \<lparr>sa_intent = demoIntent,
     sa_request = \<lparr>ra_valueWei = 7, ra_maxGasCostWei = 2500, ra_mintValueWei = 7, ra_l2ExecutionGasWei = 2500\<rparr>,
     sa_reserve = (\<lambda>n. (Inr ''r1'', n + 1)), sa_sign = (\<lambda>n. (Inr ''02ff'', n + 10)), sa_checkKill = returnS (),
     sa_reservedMaxFeePerGas = Some 25, sa_onReserved = (\<lambda>_. returnS ()), sa_raise = id\<rparr>"

theorem reservation_precedes_signature_witness:
  "reserveThenSign demoCodec demoArgs 0 = (Inr (''r1'', ''02ff''), 11) \<and>
   ra_valueWei (sa_request demoArgs) = ti_value (sa_intent demoArgs)"
proof -
  have h: "reserveThenSign demoCodec demoArgs 0 = (Inr (''r1'', ''02ff''), 11)"
    by (simp add: reserveThenSign_def raiseS_def bindS_def assertRequestMatchesIntent_def assertSignedMatchesIntent_def
        sameTransaction_def demoArgs_def demoCodec_def demoIntent_def)
  show ?thesis using h reservation_precedes_signature [of demoCodec demoArgs 0 "''r1''" "''02ff''" 11 "sa_sign demoArgs"] by blast
qed

end
