(* ===== verification/Allowlist.thy ===== *)
theory Allowlist
  imports Types Lifecycle
begin

text \<open>
  Read-only allowlist eligibility (\<^verbatim>\<open>packages/engine/src/allowlist.ts\<close>): the Merkle tree over a
  published list, its proofs and their verification, and the verdict per wallet.

  A 32-byte hash is the integer \<^verbatim>\<open>BigInt\<close> reads from it, so the letter case of its text does not
  matter. Three functions of the viem library are arguments, gathered in \<open>Hashing\<close>: \<^verbatim>\<open>keccak256\<close> of
  two concatenated hashes, the leaf of an address and its parameters, and \<^verbatim>\<open>isAddress\<close>. The parser
  of the published file is in \<open>AllowlistAuthority\<close>; the prose of the reasons is not modelled.
\<close>

section \<open>Merkle trees\<close>

record MintParams =
  mp_mintPrice :: int
  mp_maxTotalMintableByWallet :: int
  mp_startTime :: int
  mp_endTime :: int
  mp_dropStageIndex :: int
  mp_maxTokenSupplyForStage :: int
  mp_feeBps :: int
  mp_restrictFeeRecipients :: bool

record Hashing =
  keccakPair :: "int \<Rightarrow> int \<Rightarrow> int"
  allowlistLeaf :: "address \<Rightarrow> MintParams \<Rightarrow> int"
  isAddress :: "string \<Rightarrow> bool"

definition hashPair :: "Hashing \<Rightarrow> int \<Rightarrow> int \<Rightarrow> int" where
  "hashPair H left right = (if left \<le> right then keccakPair H left right else keccakPair H right left)"

definition verifyProof :: "Hashing \<Rightarrow> int list \<Rightarrow> int \<Rightarrow> int \<Rightarrow> bool" where
  "verifyProof H proof rt leaf = (foldl (hashPair H) leaf proof = rt)"

text \<open>The inner loop: pair the nodes of a level, an unpaired node moves up unchanged.\<close>

fun nextLevel :: "Hashing \<Rightarrow> int list \<Rightarrow> int list" where
  "nextLevel H (a # b # rest) = hashPair H a b # nextLevel H rest"
| "nextLevel H [a] = [a]"
| "nextLevel H [] = []"

lemma length_nextLevel: "length (nextLevel H xs) = (length xs + 1) div 2"
  by (induction H xs rule: nextLevel.induct) auto

text \<open>The outer loop, from a non-empty level to the root.\<close>

function buildLevels :: "Hashing \<Rightarrow> int list \<Rightarrow> int list list" where
  "buildLevels H level = (if length level > 1 then level # buildLevels H (nextLevel H level) else [level])"
  by auto
termination
  by (relation "measure (\<lambda>(H, level). length level)") (auto simp: length_nextLevel)

declare buildLevels.simps [simp del]

record MerkleTree =
  mt_levels :: "int list list"
  mt_root :: int

definition buildTree :: "Hashing \<Rightarrow> int list \<Rightarrow> MerkleTree" where
  "buildTree H leaves =
     (if leaves = [] then \<lparr>mt_levels = [], mt_root = 0\<rparr>
      else let levels = buildLevels H (sort leaves) in \<lparr>mt_levels = levels, mt_root = hd (last levels)\<rparr>)"

fun proofLoop :: "nat \<Rightarrow> int list list \<Rightarrow> int list" where
  "proofLoop i [] = []"
| "proofLoop i (level # levels) =
     (let sibling = (if i mod 2 = 0 then i + 1 else i - 1)
      in (if sibling < length level then [level ! sibling] else []) @ proofLoop (i div 2) levels)"

definition proofFor :: "MerkleTree \<Rightarrow> int \<Rightarrow> int list option" where
  "proofFor t leaf =
     (case mt_levels t of
        [] \<Rightarrow> None
      | base # _ \<Rightarrow>
          (case findIndex (\<lambda>item. item = leaf) base of
             None \<Rightarrow> None
           | Some i \<Rightarrow> Some (proofLoop i (butlast (mt_levels t)))))"

section \<open>Verdicts\<close>

record PublishedEntry =
  pe_address :: address
  pe_mintParams :: MintParams
  pe_proof :: "int list option"

datatype ListKind = FullList | ProofsOnly

datatype AllowlistVerdict = Eligible MintParams | NotListed | VerdictUnknown

definition entriesOf :: "PublishedEntry list \<Rightarrow> string \<Rightarrow> PublishedEntry list" where
  "entriesOf entries wallet = filter (\<lambda>e. toLowerCase (pe_address e) = toLowerCase wallet) entries"

definition entryProof :: "Hashing \<Rightarrow> MerkleTree option \<Rightarrow> PublishedEntry \<Rightarrow> int list option" where
  "entryProof H tree e =
     (case pe_proof e of
        Some p \<Rightarrow> Some p
      | None \<Rightarrow> (case tree of None \<Rightarrow> None | Some t \<Rightarrow> proofFor t (allowlistLeaf H (pe_address e) (pe_mintParams e))))"

definition entryEligible :: "Hashing \<Rightarrow> MerkleTree option \<Rightarrow> int \<Rightarrow> PublishedEntry \<Rightarrow> bool" where
  "entryEligible H tree rt e =
     (case entryProof H tree e of
        None \<Rightarrow> False
      | Some p \<Rightarrow> verifyProof H p rt (allowlistLeaf H (pe_address e) (pe_mintParams e)))"

definition walletVerdict ::
  "Hashing \<Rightarrow> MerkleTree option \<Rightarrow> bool \<Rightarrow> int \<Rightarrow> PublishedEntry list \<Rightarrow> string \<Rightarrow> AllowlistVerdict" where
  "walletVerdict H tree completeList rt entries wallet =
     (if \<not> isAddress H wallet then VerdictUnknown
      else
        let mine = entriesOf entries wallet
        in case find (entryEligible H tree rt) mine of
             Some e \<Rightarrow> Eligible (pe_mintParams e)
           | None \<Rightarrow>
               if mine \<noteq> [] then VerdictUnknown
               else if completeList then NotListed
               else VerdictUnknown)"

definition checkAllowlist ::
  "Hashing \<Rightarrow> string list \<Rightarrow> int option \<Rightarrow> (ListKind \<times> PublishedEntry list) option \<Rightarrow>
   (string \<times> AllowlistVerdict) list" where
  "checkAllowlist H wallets onChainRoot publishedList =
     (let unknownAll = map (\<lambda>w. (w, VerdictUnknown)) wallets
      in case onChainRoot of
           None \<Rightarrow> unknownAll
         | Some rt \<Rightarrow>
             if rt = 0 then unknownAll
             else (case publishedList of
                None \<Rightarrow> unknownAll
              | Some (kind, entries) \<Rightarrow>
                  let tree = (if kind = FullList
                        then Some (buildTree H (map (\<lambda>e. allowlistLeaf H (pe_address e) (pe_mintParams e)) entries))
                        else None);
                      completeList = (case tree of None \<Rightarrow> False | Some t \<Rightarrow> mt_root t = rt)
                  in map (\<lambda>w. (w, walletVerdict H tree completeList rt entries w)) wallets))"

section \<open>Lemmas\<close>

lemma hashPair_commute: "hashPair H a b = hashPair H b a"
  by (auto simp: hashPair_def)

text \<open>A node's parent is the hash of the node with its sibling, or the node itself.\<close>

lemma nextLevel_parent:
  assumes "i < length level"
  shows "nextLevel H level ! (i div 2) =
    (let sibling = (if i mod 2 = 0 then i + 1 else i - 1)
     in if sibling < length level then hashPair H (level ! i) (level ! sibling) else level ! i)"
  using assms
proof (induction H level arbitrary: i rule: nextLevel.induct)
  case (1 H a b rest)
  consider "i = 0" | "i = 1" | j where "i = Suc (Suc j)" by (metis One_nat_def not0_implies_Suc)
  then show ?case
  proof cases
    case 3
    then have "j < length rest" using "1.prems" by simp
    have "j mod 2 \<noteq> 0 \<Longrightarrow> 0 < j" by (cases j) auto
    with "1.IH" [OF \<open>j < length rest\<close>] 3 show ?thesis
      by (auto simp: Let_def nth_Cons' split: if_splits)
  qed (auto simp: Let_def hashPair_commute)
qed auto

lemma buildLevels_Cons: "\<exists>rest. buildLevels H level = level # rest"
  by (subst buildLevels.simps) auto

text \<open>Folding the proof of a position climbs to the root.\<close>

lemma proof_climbs:
  "i < length level \<Longrightarrow>
   foldl (hashPair H) (level ! i) (proofLoop i (butlast (buildLevels H level))) = hd (last (buildLevels H level))"
proof (induction H level arbitrary: i rule: buildLevels.induct)
  case (1 H level)
  show ?case
  proof (cases "length level > 1")
    case True
    obtain rest where rest: "buildLevels H (nextLevel H level) = nextLevel H level # rest"
      using buildLevels_Cons by blast
    have step: "buildLevels H level = level # buildLevels H (nextLevel H level)"
      using True by (subst buildLevels.simps) simp
    have cut: "butlast (buildLevels H level) = level # butlast (buildLevels H (nextLevel H level))"
      and top: "last (buildLevels H level) = last (buildLevels H (nextLevel H level))"
      unfolding step rest by simp_all
    have "i div 2 < length (nextLevel H level)" using "1.prems" by (simp add: length_nextLevel)
    note climb = "1.IH" [OF True this]
    define sib where "sib = (if i mod 2 = 0 then i + 1 else i - 1)"
    have "foldl (hashPair H) (level ! i) (if sib < length level then [level ! sib] else []) =
        nextLevel H level ! (i div 2)"
      using nextLevel_parent [OF "1.prems", of H] unfolding sib_def [symmetric] Let_def by simp
    then show ?thesis
      unfolding cut top proofLoop.simps Let_def sib_def [symmetric] foldl_append by (simp only: climb)
  next
    case False
    with "1.prems" have "length level = 1" "i = 0" by auto
    then show ?thesis by (cases level) (auto simp: buildLevels.simps)
  qed
qed

lemma proof_verifies:
  assumes "leaf \<in> set leaves"
  shows "\<exists>p. proofFor (buildTree H leaves) leaf = Some p \<and> verifyProof H p (mt_root (buildTree H leaves)) leaf"
proof -
  have ne: "leaves \<noteq> []" using assms by auto
  obtain rest where levels: "buildLevels H (sort leaves) = sort leaves # rest" using buildLevels_Cons by blast
  obtain i where i: "findIndex (\<lambda>item. item = leaf) (sort leaves) = Some i"
    using assms findIndex_None [of "\<lambda>item. item = leaf" "sort leaves"] by (metis not_None_eq set_sort)
  then have "i < length (sort leaves)" "sort leaves ! i = leaf" by (auto simp: findIndex_Some)
  from proof_climbs [OF this(1), of H] this(2) have
    "foldl (hashPair H) leaf (proofLoop i (butlast (buildLevels H (sort leaves)))) = hd (last (buildLevels H (sort leaves)))"
    by simp
  then show ?thesis using ne i levels by (simp add: buildTree_def proofFor_def verifyProof_def Let_def)
qed

section \<open>Properties\<close>

text \<open>
  C40. Every leaf of a published list has a proof, and the proof verifies against the tree's root,
  for every number of leaves and whatever the hash function is.
\<close>

theorem merkle_proofs_verify:
  assumes "leaf \<in> set leaves"
  shows "\<exists>p. proofFor (buildTree H leaves) leaf = Some p \<and> verifyProof H p (mt_root (buildTree H leaves)) leaf"
  by (rule proof_verifies [OF assms])

definition demoHashing :: Hashing where
  "demoHashing = \<lparr>keccakPair = (\<lambda>a b. 10 * a + b), allowlistLeaf = (\<lambda>a p. int (length a)), isAddress = (\<lambda>s. s \<noteq> [])\<rparr>"

theorem merkle_proofs_verify_witness:
  "(5::int) \<in> set [9, 5, 2] \<and>
   (\<exists>p. proofFor (buildTree demoHashing [9, 5, 2]) 5 = Some p \<and>
      verifyProof demoHashing p (mt_root (buildTree demoHashing [9, 5, 2])) 5)"
  using merkle_proofs_verify [of 5 "[9, 5, 2]" demoHashing] by simp

text \<open>
  The verdicts are sound and, for a complete list, complete. "Eligible" is given only for an
  address that the list names and whose proof verifies against the root held on chain; "not
  listed" only when the list rebuilds into that root and does not name the wallet; and when the
  full list rebuilds into the root, every wallet it names without a proof of its own is eligible.
\<close>

theorem allowlist_verdicts_sound:
  assumes "(w, v) \<in> set (checkAllowlist H wallets onChainRoot lst)"
  shows "(\<forall>params. v = Eligible params \<longrightarrow>
      (\<exists>rt kind entries e p. onChainRoot = Some rt \<and> lst = Some (kind, entries) \<and> e \<in> set entries \<and>
         toLowerCase (pe_address e) = toLowerCase w \<and> params = pe_mintParams e \<and>
         verifyProof H p rt (allowlistLeaf H (pe_address e) params))) \<and>
    (v = NotListed \<longrightarrow>
      (\<exists>rt entries. onChainRoot = Some rt \<and> lst = Some (FullList, entries) \<and>
         mt_root (buildTree H (map (\<lambda>e. allowlistLeaf H (pe_address e) (pe_mintParams e)) entries)) = rt \<and>
         (\<forall>e \<in> set entries. toLowerCase (pe_address e) \<noteq> toLowerCase w))) \<and>
    (\<forall>rt entries e. onChainRoot = Some rt \<and> rt \<noteq> 0 \<and> lst = Some (FullList, entries) \<and> e \<in> set entries \<and>
       mt_root (buildTree H (map (\<lambda>e. allowlistLeaf H (pe_address e) (pe_mintParams e)) entries)) = rt \<and>
       toLowerCase (pe_address e) = toLowerCase w \<and> pe_proof e = None \<and> isAddress H w
       \<longrightarrow> (\<exists>params. v = Eligible params))"
proof (intro conjI)
  show "\<forall>params. v = Eligible params \<longrightarrow>
      (\<exists>rt kind entries e p. onChainRoot = Some rt \<and> lst = Some (kind, entries) \<and> e \<in> set entries \<and>
         toLowerCase (pe_address e) = toLowerCase w \<and> params = pe_mintParams e \<and>
         verifyProof H p rt (allowlistLeaf H (pe_address e) params))"
    using assms
    by (fastforce simp: checkAllowlist_def walletVerdict_def Let_def entriesOf_def entryEligible_def
        split: option.splits if_splits dest: find_Some_in)
  show "v = NotListed \<longrightarrow>
      (\<exists>rt entries. onChainRoot = Some rt \<and> lst = Some (FullList, entries) \<and>
         mt_root (buildTree H (map (\<lambda>e. allowlistLeaf H (pe_address e) (pe_mintParams e)) entries)) = rt \<and>
         (\<forall>e \<in> set entries. toLowerCase (pe_address e) \<noteq> toLowerCase w))"
    using assms
    by (auto simp: checkAllowlist_def walletVerdict_def Let_def entriesOf_def filter_empty_conv
        split: option.splits if_splits)
  show "\<forall>rt entries e. onChainRoot = Some rt \<and> rt \<noteq> 0 \<and> lst = Some (FullList, entries) \<and> e \<in> set entries \<and>
       mt_root (buildTree H (map (\<lambda>e. allowlistLeaf H (pe_address e) (pe_mintParams e)) entries)) = rt \<and>
       toLowerCase (pe_address e) = toLowerCase w \<and> pe_proof e = None \<and> isAddress H w
       \<longrightarrow> (\<exists>params. v = Eligible params)"
  proof (intro allI impI, elim conjE)
    fix rt e and entries :: "PublishedEntry list"
    let ?leaf = "\<lambda>e. allowlistLeaf H (pe_address e) (pe_mintParams e)"
    let ?tree = "buildTree H (map ?leaf entries)"
    assume h: "onChainRoot = Some rt" "rt \<noteq> 0" "lst = Some (FullList, entries)" "e \<in> set entries"
      "mt_root ?tree = rt" "toLowerCase (pe_address e) = toLowerCase w" "pe_proof e = None" "isAddress H w"
    have v: "v = walletVerdict H (Some ?tree) True rt entries w"
      using assms h by (auto simp: checkAllowlist_def Let_def)
    have "?leaf e \<in> set (map ?leaf entries)" using h(4) by simp
    from proof_verifies [OF this, of H] have el: "entryEligible H (Some ?tree) rt e"
      using h(5,7) by (auto simp: entryEligible_def entryProof_def)
    have mem: "e \<in> set (entriesOf entries w)" using h(4,6) by (simp add: entriesOf_def)
    from el mem obtain e' where "find (entryEligible H (Some ?tree) rt) (entriesOf entries w) = Some e'"
      by (metis find_None_all not_None_eq)
    then show "\<exists>params. v = Eligible params" using v h(8) by (simp add: walletVerdict_def Let_def)
  qed
qed

definition demoEntry :: PublishedEntry where
  "demoEntry = \<lparr>pe_address = ''0xab'', pe_mintParams = \<lparr>mp_mintPrice = 0, mp_maxTotalMintableByWallet = 1, mp_startTime = 1,
     mp_endTime = 2, mp_dropStageIndex = 1, mp_maxTokenSupplyForStage = 10, mp_feeBps = 0, mp_restrictFeeRecipients = False\<rparr>,
     pe_proof = None\<rparr>"

theorem allowlist_verdicts_sound_witness:
  "(''0xab'', Eligible (pe_mintParams demoEntry)) \<in>
     set (checkAllowlist demoHashing [''0xab''] (Some 4) (Some (FullList, [demoEntry]))) \<and>
   (\<exists>p. verifyProof demoHashing p 4 (allowlistLeaf demoHashing ''0xab'' (pe_mintParams demoEntry)))"
proof -
  have h: "(''0xab'', Eligible (pe_mintParams demoEntry)) \<in>
     set (checkAllowlist demoHashing [''0xab''] (Some 4) (Some (FullList, [demoEntry])))"
    by (simp add: checkAllowlist_def walletVerdict_def entriesOf_def demoEntry_def demoHashing_def entryEligible_def
        entryProof_def buildTree_def buildLevels.simps proofFor_def verifyProof_def)
  from allowlist_verdicts_sound [OF h] have
    "\<exists>e p. e \<in> set [demoEntry] \<and> verifyProof demoHashing p 4 (allowlistLeaf demoHashing (pe_address e) (pe_mintParams demoEntry))"
    by fastforce
  then show ?thesis using h by (auto simp: demoEntry_def)
qed

end
