(* ===== verification/Strategy.thy ===== *)
theory Strategy
  imports Chains "HOL-Library.AList"
begin

text \<open>
  The SeaDrop v1 public strategy (\<^verbatim>\<open>packages/engine/src/strategies/seadrop-v1-public.ts\<close>), the drop reader
  (\<^verbatim>\<open>packages/engine/src/drop-reader.ts\<close>) and the replication planner
  (\<^verbatim>\<open>packages/engine/src/replication.ts\<close>). Contract reads are the record \<open>DropReads\<close> of their answers
  (\<open>None\<close> when the read fails), and the ABI encoder and decoder of the viem library are arguments.
  The numbers and dates inside the texts of errors and warnings are left out.
\<close>

section \<open>Reading a drop\<close>

record SeaDropPublicDrop =
  pd_mintPrice :: wei
  pd_startTime :: int
  pd_endTime :: int
  pd_maxTotalMintableByWallet :: int
  pd_feeBps :: int
  pd_restrictFeeRecipients :: bool

record DropReads =
  getPublicDrop :: "SeaDropPublicDrop option"
  getAllowedFeeRecipients :: "address list option"
  totalSupplyRead :: "int option"
  maxSupplyRead :: "int option"

datatype StrategyError = READ_FAILED | NO_PUBLIC_DROP | INVALID_QUANTITY | UNKNOWN_STRATEGY | BAD_EXTRA

definition resolveSeaDropFeeRecipient :: "DropReads \<Rightarrow> bool option \<Rightarrow> StrategyError + address" where
  "resolveSeaDropFeeRecipient reads restrictFeeRecipients =
     bindR (case restrictFeeRecipients of
              Some r \<Rightarrow> Inr r
            | None \<Rightarrow> (case getPublicDrop reads of None \<Rightarrow> Inl READ_FAILED | Some d \<Rightarrow> Inr (pd_restrictFeeRecipients d)))
       (\<lambda>restricted.
        if \<not> restricted then Inr OPENSEA_FEE_COLLECTOR
        else case getAllowedFeeRecipients reads of
          Some (first # _) \<Rightarrow> Inr (if first \<noteq> [] then first else OPENSEA_FEE_COLLECTOR)
        | _ \<Rightarrow> Inr OPENSEA_FEE_COLLECTOR)"

definition zeroAddress :: address where
  "zeroAddress = ''0x'' @ replicate 40 (CHR ''0'')"

type_synonym encoder = "address \<times> address \<times> address \<times> int \<Rightarrow> hex"

definition buildSeaDropPublicMintCalldata ::
  "encoder \<Rightarrow> address \<Rightarrow> address \<Rightarrow> jsnum \<Rightarrow> StrategyError + hex" where
  "buildSeaDropPublicMintCalldata encode nft feeRecipient quantity =
     (if \<not> isSafeInteger quantity \<or> js_lt quantity (jint 1) then Inl INVALID_QUANTITY
      else Inr (encode (nft, feeRecipient, zeroAddress, js_int quantity)))"

definition optionalRead :: "int option \<Rightarrow> int \<times> bool" where
  "optionalRead answer = (case answer of Some v \<Rightarrow> (v, True) | None \<Rightarrow> (0, False))"

definition readDrop :: "DropReads \<Rightarrow> address \<Rightarrow> SupportedChainId \<Rightarrow> StrategyError + DropConfig" where
  "readDrop reads nft chainId =
     (case getPublicDrop reads of
        None \<Rightarrow> Inl READ_FAILED
      | Some d \<Rightarrow>
          if pd_startTime d = 0 \<and> pd_endTime d = 0 \<and> pd_mintPrice d = 0 then Inl NO_PUBLIC_DROP
          else
            bindR (resolveSeaDropFeeRecipient reads (Some (pd_restrictFeeRecipients d))) (\<lambda>feeRecipient.
            let (minted, totalSupplyKnown) = optionalRead (totalSupplyRead reads);
                (supply, maxSupplyKnown) = optionalRead (maxSupplyRead reads)
            in Inr \<lparr>nftContract = nft, mintPrice = pd_mintPrice d,
                 maxTotalMintableByWallet = pd_maxTotalMintableByWallet d, maxTokenSupply = supply,
                 totalMinted = minted, startTime = pd_startTime d, endTime = pd_endTime d,
                 feePayer = feeRecipient, strategyName = ''seadrop-v1-public'', drop_chainId = chainId,
                 extra = Some [(''feeBps'', JNum (jint (pd_feeBps d))),
                   (''restrictFeeRecipients'', JBool (pd_restrictFeeRecipients d)),
                   (''seaDropAddress'', JStr SEADROP_V1_ADDRESS),
                   (''totalSupplyKnown'', JBool totalSupplyKnown), (''maxSupplyKnown'', JBool maxSupplyKnown)]\<rparr>))"

definition buildCalldata :: "encoder \<Rightarrow> DropConfig \<Rightarrow> address \<Rightarrow> jsnum \<Rightarrow> StrategyError + hex" where
  "buildCalldata encode d minter quantity = buildSeaDropPublicMintCalldata encode (nftContract d) (feePayer d) quantity"

text \<open>
  The price warning compares a double with 1: \<^verbatim>\<open>parseFloat\<close> rounds, so the price has to exceed one
  ether by more than half of the distance to the next double.
\<close>

definition highPrice :: "wei \<Rightarrow> bool" where
  "highPrice p \<longleftrightarrow> p * 2 ^ 53 > 10 ^ 18 * (2 ^ 53 + 1)"

definition validateDrop :: "DropConfig \<Rightarrow> jsnum \<Rightarrow> DropValidation" where
  "validateDrop d now =
     (let errs =
            (if endTime d > 0 \<and> js_lt (jint (endTime d)) now then [''Drop has ended''] else []) @
            (if maxTokenSupply d > 0 \<and> totalMinted d \<ge> maxTokenSupply d then [''Drop is sold out''] else []);
          warns =
            (if startTime d > 0 \<and> js_lt now (jint (startTime d)) then [''Drop has not started yet''] else []) @
            (if mintPrice d > 0 \<and> highPrice (mintPrice d) then [''High mint price''] else []) @
            (if maxTotalMintableByWallet d = 0 then [''maxTotalMintableByWallet is 0''] else [])
      in \<lparr>valid = (length errs = 0), errors = errs, warnings = warns\<rparr>)"

section \<open>The drop reader\<close>

text \<open>The registry of strategies, in the order of registration; a later registration replaces.\<close>

definition registerStrategy :: "string \<Rightarrow> 'a \<Rightarrow> (string \<times> 'a) list \<Rightarrow> (string \<times> 'a) list" where
  "registerStrategy name strategy registry = AList.update name strategy registry"

definition getStrategy :: "(string \<times> 'a) list \<Rightarrow> string \<Rightarrow> StrategyError + 'a" where
  "getStrategy registry name =
     (case map_of registry name of None \<Rightarrow> Inl UNKNOWN_STRATEGY | Some s \<Rightarrow> Inr s)"

definition classifyRevert :: "string \<Rightarrow> string option" where
  "classifyRevert message =
     (let m = toLowerCase message
      in if containsText ''insufficient'' m \<or> containsText ''fund'' m then Some ''insufficient-funds''
         else if containsText ''sold'' m \<or> containsText ''supply'' m then Some ''supply''
         else if containsText ''price'' m \<or> containsText ''value'' m then Some ''price''
         else None)"

text \<open>
  \<^verbatim>\<open>simulateMint\<close> after its calldata was built: \<open>call\<close> is \<open>None\<close> when the call succeeds and the
  revert message otherwise.
\<close>

definition simulateMint ::
  "StrategyError + hex \<Rightarrow> StrategyError + int \<Rightarrow> string option \<Rightarrow> address \<Rightarrow> int \<Rightarrow> jsnum \<Rightarrow>
   StrategyError + SimulationEvidence" where
  "simulateMint calldata blockNumber call minter walletIndex checked =
     bindR calldata (\<lambda>_.
     bindR blockNumber (\<lambda>block.
     Inr \<lparr>sim_walletIndex = walletIndex, sim_address = minter, sourceBlock = block, checkedAt = checked,
          gasEstimate = None, sim_success = (call = None),
          revertType = (case call of None \<Rightarrow> None | Some m \<Rightarrow> classifyRevert m),
          sim_error = (case call of None \<Rightarrow> None | Some m \<Rightarrow> Some (''Simulation reverted: '' @ m))\<rparr>))"

section \<open>Replication\<close>

datatype ReplicationReasonCode =
    CHAIN_MISMATCH
  | TARGET_NOT_SEADROP
  | UNKNOWN_SELECTOR
  | MALFORMED_CALLDATA
  | CONTRACT_MISMATCH
  | FEE_RECIPIENT_MISMATCH
  | WALLET_BOUND_ARGUMENT
  | REPL_INVALID_QUANTITY
  | QUANTITY_EXCEEDS_DROP_LIMIT
  | VALUE_MISMATCH
  | NO_TARGET_WALLETS

record ObservedMintTransaction =
  ob_chainId :: SupportedChainId
  ob_from :: address
  ob_to :: address
  ob_value :: wei
  ob_data :: hex

record ReplicationTarget =
  rt_wallet :: address
  rt_to :: address
  rt_value :: wei
  rt_data :: hex
  rt_quantity :: int

record ReplicationChecklist =
  knownStrategy :: bool
  chainMatches :: bool
  targetMatches :: bool
  selectorDecoded :: bool
  contractMatches :: bool
  feeRecipientMatches :: bool
  walletIndependent :: bool
  valueMatches :: bool
  quantityWithinDrop :: bool

record ReplicationPlan =
  replicable :: bool
  rp_checklist :: ReplicationChecklist
  rp_reasons :: "ReplicationReasonCode list"
  rp_targets :: "ReplicationTarget list"

definition sameAddress :: "string \<Rightarrow> string \<Rightarrow> bool" where
  "sameAddress left right = (toLowerCase left = toLowerCase right)"

definition validAddress :: "string \<Rightarrow> bool" where
  "validAddress s = (length s = 42 \<and> take 2 s = ''0x'' \<and> all_hex (drop 2 s))"

text \<open>A \<^verbatim>\<open>Map\<close> keeps the position of a key's first insertion and the value of its last.\<close>

definition uniqueTargets :: "address list \<Rightarrow> address list" where
  "uniqueTargets ws = map snd (fold (\<lambda>w. AList.update (toLowerCase w) w) ws [])"

text \<open>The configured SeaDrop contract; a value that is not text would throw.\<close>

definition seaDropOf :: "DropConfig \<Rightarrow> StrategyError + address" where
  "seaDropOf d =
     (case extra_at d ''seaDropAddress'' of
        JStr s \<Rightarrow> Inr s
      | JUndef \<Rightarrow> Inr SEADROP_V1_ADDRESS
      | JNull \<Rightarrow> Inr SEADROP_V1_ADDRESS
      | _ \<Rightarrow> Inl BAD_EXTRA)"

type_synonym decoder = "hex \<Rightarrow> (address \<times> address \<times> address \<times> int) option"

definition selectorMatches :: "hex \<Rightarrow> bool" where
  "selectorMatches calldata = (\<not> (length calldata < 10 \<or> toLowerCase (take 10 calldata) \<noteq> ''0x161ac21f''))"

text \<open>The decoded arguments; a quantity beyond the safe integers is undefined.\<close>

definition decodeMint ::
  "decoder \<Rightarrow> hex \<Rightarrow> ReplicationReasonCode + (address \<times> address \<times> address \<times> int option)" where
  "decodeMint decode calldata =
     (if \<not> selectorMatches calldata then Inl UNKNOWN_SELECTOR
      else case decode calldata of
        None \<Rightarrow> Inl MALFORMED_CALLDATA
      | Some (nft, fee, minter, raw) \<Rightarrow> Inr (nft, fee, minter, if raw > MAX_SAFE_INTEGER then None else Some raw))"

definition argumentReasons ::
  "ObservedMintTransaction \<Rightarrow> DropConfig \<Rightarrow> address \<times> address \<times> address \<times> int option \<Rightarrow> ReplicationReasonCode list" where
  "argumentReasons ob d = (\<lambda>(nft, fee, minter, quantity).
     (if \<not> (nft \<noteq> [] \<and> sameAddress nft (nftContract d)) then [CONTRACT_MISMATCH] else []) @
     (if \<not> (fee \<noteq> [] \<and> sameAddress fee (feePayer d)) then [FEE_RECIPIENT_MISMATCH] else []) @
     (if \<not> (minter \<noteq> [] \<and> sameAddress minter zeroAddress) then [WALLET_BOUND_ARGUMENT] else []) @
     (case quantity of
        None \<Rightarrow> [REPL_INVALID_QUANTITY]
      | Some q \<Rightarrow>
          if \<not> (\<bar>q\<bar> \<le> MAX_SAFE_INTEGER \<and> q > 0) then [REPL_INVALID_QUANTITY]
          else if maxTotalMintableByWallet d > 0 \<and> q > maxTotalMintableByWallet d then [QUANTITY_EXCEEDS_DROP_LIMIT]
          else []) @
     (if \<not> (quantity \<noteq> None \<and> ob_value ob = mintPrice d * the quantity) then [VALUE_MISMATCH] else []))"

definition checklistOf ::
  "bool \<times> bool \<times> bool \<Rightarrow> (address \<times> address \<times> address \<times> int option) option \<Rightarrow> ReplicationReasonCode list \<Rightarrow>
   ReplicationChecklist" where
  "checklistOf = (\<lambda>(known, chain, target) args rs.
     let decoded = (args \<noteq> None)
     in \<lparr>knownStrategy = known, chainMatches = chain, targetMatches = target, selectorDecoded = decoded,
         contractMatches = (decoded \<and> CONTRACT_MISMATCH \<notin> set rs),
         feeRecipientMatches = (decoded \<and> FEE_RECIPIENT_MISMATCH \<notin> set rs),
         walletIndependent = (decoded \<and> WALLET_BOUND_ARGUMENT \<notin> set rs),
         valueMatches = (decoded \<and> VALUE_MISMATCH \<notin> set rs),
         quantityWithinDrop = (decoded \<and> REPL_INVALID_QUANTITY \<notin> set rs \<and> QUANTITY_EXCEEDS_DROP_LIMIT \<notin> set rs)\<rparr>)"

definition targetFor :: "encoder \<Rightarrow> DropConfig \<Rightarrow> address \<Rightarrow> int \<Rightarrow> address \<Rightarrow> StrategyError + ReplicationTarget" where
  "targetFor encode d target quantity wallet =
     bindR (buildSeaDropPublicMintCalldata encode (nftContract d) (feePayer d) (jint quantity)) (\<lambda>calldata.
     Inr \<lparr>rt_wallet = wallet, rt_to = target, rt_value = mintPrice d * quantity, rt_data = calldata,
          rt_quantity = quantity\<rparr>)"

definition buildReplicationPlan ::
  "encoder \<Rightarrow> decoder \<Rightarrow> ObservedMintTransaction \<Rightarrow> DropConfig \<Rightarrow> address list \<Rightarrow> StrategyError + ReplicationPlan" where
  "buildReplicationPlan encode decode ob d targetWallets =
     bindR (seaDropOf d) (\<lambda>target.
     let known = (strategyName d = ''seadrop-v1-public'');
         chain = (ob_chainId ob = drop_chainId d);
         tgt = sameAddress (ob_to ob) target;
         before = (if \<not> known then [UNKNOWN_SELECTOR] else []) @ (if \<not> chain then [CHAIN_MISMATCH] else []) @
                  (if \<not> tgt then [TARGET_NOT_SEADROP] else []);
         decoded = decodeMint decode (ob_data ob);
         args = (case decoded of Inl _ \<Rightarrow> None | Inr a \<Rightarrow> Some a);
         rs = before @ (case decoded of Inl r \<Rightarrow> [r] | Inr a \<Rightarrow> argumentReasons ob d a)
     in bindR (if args \<noteq> None \<and> rs = []
               then mapR (targetFor encode d target (the (snd (snd (snd (the args))))))
                      (filter validAddress (uniqueTargets targetWallets))
               else Inr [])
          (\<lambda>targets.
           let rs' = rs @ (if rs = [] \<and> targets = [] then [NO_TARGET_WALLETS] else [])
           in Inr \<lparr>replicable = (rs' = []), rp_checklist = checklistOf (known, chain, tgt) args rs, rp_reasons = rs',
                   rp_targets = targets\<rparr>))"

section \<open>Lemmas\<close>

lemma unique_fold_inv:
  assumes "\<forall>(k, v) \<in> set al. k = toLowerCase v \<and> v \<in> S" and "distinct (map fst al)" and "set ws \<subseteq> S"
  shows "(\<forall>(k, v) \<in> set (fold (\<lambda>w. AList.update (toLowerCase w) w) ws al). k = toLowerCase v \<and> v \<in> S) \<and>
    distinct (map fst (fold (\<lambda>w. AList.update (toLowerCase w) w) ws al))"
  using assms
proof (induction ws arbitrary: al)
  case Nil
  then show ?case by simp
next
  case (Cons w ws)
  have "\<forall>(k, v) \<in> set (AList.update (toLowerCase w) w al). k = toLowerCase v \<and> v \<in> S"
    using Cons.prems(1,3) by (induction al) (auto split: if_splits)
  with Cons.IH [of "AList.update (toLowerCase w) w al"] Cons.prems show ?case
    by (simp add: distinct_update)
qed

lemma uniqueTargets_ok: "set (uniqueTargets ws) \<subseteq> set ws \<and> distinct (map toLowerCase (uniqueTargets ws))"
proof -
  let ?al = "fold (\<lambda>w. AList.update (toLowerCase w) w) ws []"
  have inv: "\<forall>(k, v) \<in> set ?al. k = toLowerCase v \<and> v \<in> set ws" "distinct (map fst ?al)"
    using unique_fold_inv [of "[]" "set ws" ws] by auto
  then have "map toLowerCase (map snd ?al) = map fst ?al" by (auto intro!: map_cong)
  then have "distinct (map toLowerCase (map snd ?al))" using inv(2) by (simp only:)
  then show ?thesis using inv(1) unfolding uniqueTargets_def by auto
qed

lemma targetFor_ok:
  "targetFor encode d target q w = Inr t \<Longrightarrow>
     rt_wallet t = w \<and> rt_to t = target \<and> rt_value t = mintPrice d * q \<and> rt_quantity t = q \<and>
     rt_data t = encode (nftContract d, feePayer d, zeroAddress, q)"
  by (auto simp: targetFor_def buildSeaDropPublicMintCalldata_def bindR_eq_Inr split: if_splits)

lemma targets_ok:
  assumes "mapR (targetFor encode d target q) ws = Inr ts"
  shows "map rt_wallet ts = ws \<and> (\<forall>t \<in> set ts. rt_to t = target \<and> rt_value t = mintPrice d * q \<and> rt_quantity t = q \<and>
     rt_data t = encode (nftContract d, feePayer d, zeroAddress, q))"
proof -
  from assms have all: "list_all2 (\<lambda>w t. targetFor encode d target q w = Inr t) ws ts" by (simp add: mapR_eq_Inr)
  then show ?thesis
  proof (induction rule: list_all2_induct)
    case Nil
    then show ?case by simp
  next
    case (Cons w ws t ts)
    then show ?case using targetFor_ok [of encode d target q w t] by auto
  qed
qed

lemma no_argument_reasons:
  assumes "argumentReasons ob d (nft, fee, minter, quantity) = []"
  shows "sameAddress nft (nftContract d) \<and> sameAddress fee (feePayer d) \<and> sameAddress minter zeroAddress \<and>
    (\<exists>q. quantity = Some q \<and> 0 < q \<and> q \<le> MAX_SAFE_INTEGER \<and> ob_value ob = mintPrice d * q \<and>
      (maxTotalMintableByWallet d > 0 \<longrightarrow> q \<le> maxTotalMintableByWallet d))"
  using assms by (auto simp: argumentReasons_def split: if_splits option.splits)

lemma replication_targets:
  assumes "buildReplicationPlan encode decode ob d ws = Inr plan" and "rp_targets plan \<noteq> []"
  shows "\<exists>target nft fee minter q. seaDropOf d = Inr target \<and> sameAddress (ob_to ob) target \<and>
     strategyName d = ''seadrop-v1-public'' \<and> ob_chainId ob = drop_chainId d \<and>
     decodeMint decode (ob_data ob) = Inr (nft, fee, minter, Some q) \<and>
     argumentReasons ob d (nft, fee, minter, Some q) = [] \<and> rp_reasons plan = [] \<and> replicable plan \<and>
     mapR (targetFor encode d target q) (filter validAddress (uniqueTargets ws)) = Inr (rp_targets plan)"
proof -
  from assms obtain target nft fee minter quantity where *: "seaDropOf d = Inr target" "sameAddress (ob_to ob) target"
    "strategyName d = ''seadrop-v1-public''" "ob_chainId ob = drop_chainId d"
    "decodeMint decode (ob_data ob) = Inr (nft, fee, minter, quantity)"
    "argumentReasons ob d (nft, fee, minter, quantity) = []" "rp_reasons plan = []" "replicable plan"
    "mapR (targetFor encode d target (the quantity)) (filter validAddress (uniqueTargets ws)) = Inr (rp_targets plan)"
    by (auto simp: buildReplicationPlan_def bindR_eq_Inr Let_def split: sum.splits if_splits)
  from no_argument_reasons [OF *(6)] obtain q where "quantity = Some q" by blast
  with * show ?thesis by auto
qed

section \<open>Properties\<close>

text \<open>
  A replication plan has targets exactly when it is replicable. Its targets are valid
  addresses among the given wallets, no wallet twice, and all of them send the same call: the
  approved contract and fee recipient, no bound minter, the observed quantity within the
  drop's limit, and the observed value, which is price times quantity.
\<close>

theorem replication_plan_sound:
  assumes "buildReplicationPlan encode decode ob d ws = Inr plan"
  shows "(replicable plan \<longleftrightarrow> rp_targets plan \<noteq> []) \<and> (replicable plan \<longleftrightarrow> rp_reasons plan = []) \<and>
    distinct (map (\<lambda>t. toLowerCase (rt_wallet t)) (rp_targets plan)) \<and>
    (\<forall>t \<in> set (rp_targets plan). rt_wallet t \<in> set ws \<and> validAddress (rt_wallet t) \<and>
       sameAddress (ob_to ob) (rt_to t) \<and> ob_chainId ob = drop_chainId d \<and>
       rt_data t = encode (nftContract d, feePayer d, zeroAddress, rt_quantity t) \<and>
       rt_value t = ob_value ob \<and> ob_value ob = mintPrice d * rt_quantity t \<and> 1 \<le> rt_quantity t \<and>
       (maxTotalMintableByWallet d > 0 \<longrightarrow> rt_quantity t \<le> maxTotalMintableByWallet d))"
proof (cases "rp_targets plan = []")
  case True
  with assms show ?thesis
    by (auto simp: buildReplicationPlan_def bindR_eq_Inr Let_def split: if_splits)
next
  case False
  from replication_targets [OF assms False] obtain target nft fee minter q
    where *: "sameAddress (ob_to ob) target" "ob_chainId ob = drop_chainId d"
      "argumentReasons ob d (nft, fee, minter, Some q) = []" "rp_reasons plan = []" "replicable plan"
      "mapR (targetFor encode d target q) (filter validAddress (uniqueTargets ws)) = Inr (rp_targets plan)"
    by blast
  note ts = targets_ok [OF *(6)]
  have "map (\<lambda>t. toLowerCase (rt_wallet t)) (rp_targets plan) = map toLowerCase (filter validAddress (uniqueTargets ws))"
    using ts by (metis (no_types, lifting) comp_apply map_map map_eq_conv)
  moreover have "distinct (map toLowerCase (filter validAddress (uniqueTargets ws)))"
    using uniqueTargets_ok [of ws] by (metis distinct_map_filter)
  moreover have "rt_wallet t \<in> set ws \<and> validAddress (rt_wallet t)" if "t \<in> set (rp_targets plan)" for t
  proof -
    have "rt_wallet t \<in> set (filter validAddress (uniqueTargets ws))" using ts that by (metis image_eqI set_map)
    then show ?thesis using uniqueTargets_ok [of ws] by auto
  qed
  ultimately show ?thesis using * ts False no_argument_reasons [OF *(3)] by auto
qed

definition demoWallet :: address where
  "demoWallet = ''0x'' @ replicate 40 (CHR ''a'')"

definition demoObserved :: ObservedMintTransaction where
  "demoObserved = \<lparr>ob_chainId = Chain1, ob_from = ''0x9'', ob_to = SEADROP_V1_ADDRESS, ob_value = 6,
     ob_data = ''0x161ac21f''\<rparr>"

definition demoPublicDrop :: DropConfig where
  "demoPublicDrop = \<lparr>nftContract = ''0xc'', mintPrice = 3, maxTotalMintableByWallet = 4, maxTokenSupply = 10, totalMinted = 0,
     startTime = 1, endTime = 0, feePayer = ''0xf'', strategyName = ''seadrop-v1-public'', drop_chainId = Chain1, extra = None\<rparr>"

definition demoEncode :: encoder where
  "demoEncode = (\<lambda>(n, f, m, q). ''call'')"

definition demoDecode :: decoder where
  "demoDecode calldata = Some (''0xc'', ''0xf'', zeroAddress, 2)"

theorem replication_plan_sound_witness:
  "\<exists>plan. buildReplicationPlan demoEncode demoDecode demoObserved demoPublicDrop [demoWallet] = Inr plan \<and>
     replicable plan \<and> map rt_wallet (rp_targets plan) = [demoWallet] \<and> map rt_value (rp_targets plan) = [6]"
proof -
  have v: "validAddress demoWallet" by code_simp
  have s: "selectorMatches ''0x161ac21f''" by code_simp
  have z: "zeroAddress \<noteq> []" by (simp add: zeroAddress_def)
  let ?plan = "\<lparr>replicable = True,
     rp_checklist = checklistOf (True, True, True) (Some (''0xc'', ''0xf'', zeroAddress, Some 2)) [], rp_reasons = [],
     rp_targets = [\<lparr>rt_wallet = demoWallet, rt_to = SEADROP_V1_ADDRESS, rt_value = 6, rt_data = ''call'', rt_quantity = 2\<rparr>]\<rparr>"
  have h: "buildReplicationPlan demoEncode demoDecode demoObserved demoPublicDrop [demoWallet] = Inr ?plan"
    using v s z by (simp add: buildReplicationPlan_def seaDropOf_def demoPublicDrop_def demoObserved_def decodeMint_def
        demoDecode_def argumentReasons_def sameAddress_def uniqueTargets_def targetFor_def
        buildSeaDropPublicMintCalldata_def demoEncode_def MAX_SAFE_INTEGER_def)
  show ?thesis using h replication_plan_sound [OF h] by auto
qed

end
