(* ===== verification/Admission.thy ===== *)
theory Admission
  imports FeeGuard ReplacementPolicy PreSign Strategy Fleet
begin

text \<open>
  The part of \<^verbatim>\<open>packages/engine/src/mint-engine.ts\<close> that decides, before anything is prepared, which
  wallets of a fleet may mint: the preflight of \<^verbatim>\<open>MintEngine.execute\<close> (gas estimates, simulations,
  fee budgets, reserve and value caps, funding), \<^verbatim>\<open>replacementPlan\<close>, and the \<^verbatim>\<open>AdmissionGate\<close> that
  serializes the irreversible part of the wallets' runs.

  The configuration is the record of \<^verbatim>\<open>types.ts\<close> with its nested objects flattened; numbers that the
  source turns into wei with viem's \<^verbatim>\<open>parseGwei\<close> and \<^verbatim>\<open>parseEther\<close> stay numbers and the two parsers
  are arguments. What the node answers for a wallet is an argument as well. The mint quantity is an
  integer: \<^verbatim>\<open>BigInt\<close> refuses any other number before the preflight starts.
\<close>

section \<open>Configuration and errors\<close>

record ReplacementSettings =
  ceilingMaxFeePerGasGwei :: jsnum
  ceilingMaxPriorityFeePerGasGwei :: jsnum
  policyLimits :: "(jsnum \<times> jsnum) option"
  ownerCap :: "(jsnum \<times> jsnum) option"
  rs_stuckAfterMs :: int

record MintJobConfig =
  cfg_chain :: TargetChain
  cfg_contract :: address
  cfg_quantity :: int
  cfg_campaignId :: "string option"
  cfg_policyRef :: "string option"
  cfg_fleet :: FleetSelectionConfig
  cfg_fireLanes :: "FireLane list option"
  cfg_simulationFreshnessMs :: "jsnum option"
  cfg_maxFeePerGasGwei :: jsnum
  cfg_maxPriorityFeePerGasGwei :: jsnum
  cfg_gasLimitPadding :: jsnum
  cfg_replacement :: "ReplacementSettings option"
  cfg_maxReplacementBumps :: jsnum
  cfg_dryRun :: bool
  cfg_paidMaxQuantityPerWallet :: "jsnum option"
  cfg_paidRunMintValueCapEth :: "jsnum option"
  cfg_freeMintReserveCaps :: "FreeMintReserveCaps option"
  cfg_robinhoodGrant :: "RobinhoodEnablementGrant option"
  cfg_baseGrant :: "BaseEnablementGrant option"
  cfg_mode :: BroadcastMode
  cfg_rpcEndpoints :: "string list"

record Units =
  parseGwei :: "jsnum \<Rightarrow> wei"
  parseEther :: "jsnum \<Rightarrow> wei"

text \<open>What the engine's code throws, by the classes its catch block distinguishes.\<close>

datatype EngineError =
    EMint MintError
  | EGate LifecycleGateError
  | EReorged hash int
  | EWatchTimeout hash int
  | EOther string

definition refuse :: "MintErrorType \<Rightarrow> string \<Rightarrow> EngineError" where
  "refuse t msg = EMint (mintError t msg)"

definition liftGate :: "LifecycleGateError + 'a \<Rightarrow> EngineError + 'a" where
  "liftGate r = (case r of Inl e \<Rightarrow> Inl (EGate e) | Inr x \<Rightarrow> Inr x)"

definition checkKill :: "string option \<Rightarrow> EngineError + unit" where
  "checkKill killed =
     (case killed of
        None \<Rightarrow> Inr ()
      | Some why \<Rightarrow> Inl (refuse KILLED (''Kill switch triggered: '' @ why)))"

section \<open>The admission gate\<close>

text \<open>
  One entry per call of \<^verbatim>\<open>enter\<close>, in order: whether its \<^verbatim>\<open>release\<close> was called. The promise an entry
  waits for, the old \<^verbatim>\<open>tail\<close>, is resolved exactly when every earlier entry was released.
\<close>

record AdmissionGate =
  turns :: "bool list"

definition newGate :: AdmissionGate where
  "newGate = \<lparr>turns = []\<rparr>"

definition enterGate :: "AdmissionGate \<Rightarrow> nat \<times> AdmissionGate" where
  "enterGate g = (length (turns g), g\<lparr>turns := turns g @ [False]\<rparr>)"

definition releaseGate :: "nat \<Rightarrow> AdmissionGate \<Rightarrow> AdmissionGate" where
  "releaseGate t g = g\<lparr>turns := (turns g)[t := True]\<rparr>"

definition admitted :: "AdmissionGate \<Rightarrow> nat \<Rightarrow> bool" where
  "admitted g t \<longleftrightarrow> t < length (turns g) \<and> list_all id (take t (turns g))"

definition inside :: "AdmissionGate \<Rightarrow> nat \<Rightarrow> bool" where
  "inside g t \<longleftrightarrow> admitted g t \<and> \<not> turns g ! t"

lemma gate_exclusive: "inside g t \<Longrightarrow> inside g u \<Longrightarrow> t = u"
proof (induction t u rule: linorder_wlog)
  case (le t u)
  then show ?case
    by (cases "t < u") (auto simp: inside_def admitted_def list_all_length)
next
  case (sym t u)
  then show ?case by metis
qed

lemma gate_fifo: "admitted g t \<Longrightarrow> u < t \<Longrightarrow> turns g ! u"
  by (auto simp: admitted_def list_all_length)

lemma gate_admits_next: "list_all id (turns g) \<Longrightarrow> enterGate g = (t, g') \<Longrightarrow> inside g' t"
  by (auto simp: enterGate_def inside_def admitted_def)

lemma release_admits_next:
  assumes "inside g t" and "Suc t < length (turns g)" and "\<not> turns g ! Suc t"
  shows "inside (releaseGate t g) (Suc t)"
  using assms
  by (auto simp: inside_def admitted_def releaseGate_def list_all_length nth_list_update less_Suc_eq)

section \<open>Replacements\<close>

record ReplacementPlan =
  rp_ceiling :: Fees
  rp_maxBumps :: jsnum
  rp_stuckAfterMs :: int

definition feesOf :: "Units \<Rightarrow> jsnum \<times> jsnum \<Rightarrow> Fees" where
  "feesOf u = (\<lambda>(fee, tip). \<lparr>maxFeePerGas = parseGwei u fee, maxPriorityFeePerGas = parseGwei u tip\<rparr>)"

definition insideLimit :: "Units \<Rightarrow> Fees \<Rightarrow> (jsnum \<times> jsnum) option \<Rightarrow> bool" where
  "insideLimit u c limit = (case limit of None \<Rightarrow> False | Some l \<Rightarrow> ceilingWithinPolicy c (feesOf u l))"

definition replacementPlan ::
  "Units \<Rightarrow> MintJobConfig \<Rightarrow> SupportedChainId \<Rightarrow> string \<Rightarrow> EngineError + ReplacementPlan option" where
  "replacementPlan u cfg chainId broadcasterName =
     (case cfg_replacement cfg of
        None \<Rightarrow> Inr None
      | Some configured \<Rightarrow>
          let maxBumps = cfg_maxReplacementBumps cfg
          in if cfg_dryRun cfg \<or> \<not> js_lt (jint 0) maxBumps then Inr None
             else if (chainId \<noteq> Chain8453 \<and> chainId \<noteq> Chain4663) \<or> broadcasterName = ''flashbots'' then Inr None
             else
               let c = feesOf u (ceilingMaxFeePerGasGwei configured, ceilingMaxPriorityFeePerGasGwei configured);
                   first = feesOf u (cfg_maxFeePerGasGwei cfg, cfg_maxPriorityFeePerGasGwei cfg)
               in (case requiredCeiling first maxBumps of
                     Inl _ \<Rightarrow> Inl (refuse INVALID_CONFIG ''Replacement settings are invalid'')
                   | Inr needed \<Rightarrow>
                       if maxFeePerGas needed > maxFeePerGas c
                          \<or> maxPriorityFeePerGas needed > maxPriorityFeePerGas c
                          \<or> maxPriorityFeePerGas c > maxFeePerGas c
                       then Inl (refuse INVALID_CONFIG ''Replacement ceiling is too low for the configured number of replacements'')
                       else if \<not> insideLimit u c (policyLimits configured)
                       then Inl (refuse INVALID_CONFIG ''Replacement ceiling is not inside the signed provider policy limits'')
                       else if \<not> insideLimit u c (ownerCap configured)
                       then Inl (refuse INVALID_CONFIG ''Replacement ceiling is above the owner fee cap for this campaign'')
                       else Inr (Some \<lparr>rp_ceiling = c, rp_maxBumps = maxBumps,
                                      rp_stuckAfterMs = max (rs_stuckAfterMs configured) 6000\<rparr>)))"

section \<open>Preflight\<close>

text \<open>What the chain and the kill switch answer for a wallet during the preflight.\<close>

record FleetReads =
  estimateOf :: "WalletInfo \<Rightarrow> EngineError + int"
  simCalldata :: "WalletInfo \<Rightarrow> StrategyError + hex"
  simBlock :: "WalletInfo \<Rightarrow> StrategyError + int"
  simCall :: "WalletInfo \<Rightarrow> string option"
  simTime :: "WalletInfo \<Rightarrow> jsnum"
  balanceOf :: "WalletInfo \<Rightarrow> EngineError + wei"
  killBefore :: "WalletInfo \<Rightarrow> string option"
  killAfter :: "WalletInfo \<Rightarrow> string option"

definition liftStrategy :: "StrategyError + 'a \<Rightarrow> EngineError + 'a" where
  "liftStrategy r = (case r of Inl _ \<Rightarrow> Inl (EOther ''strategy'') | Inr x \<Rightarrow> Inr x)"

text \<open>\<^verbatim>\<open>BigInt(Math.ceil(Number(estimate) * padding))\<close>; \<^verbatim>\<open>BigInt\<close> throws on a number that is not finite.\<close>

definition paddedGas :: "int \<Rightarrow> jsnum \<Rightarrow> EngineError + int" where
  "paddedGas estimate padding =
     (case padding of
        Fin q \<Rightarrow> Inr \<lceil>of_int estimate * q\<rceil>
      | _ \<Rightarrow> Inl (EOther ''RangeError''))"

type_synonym gasMap = "(int \<times> int) list"
type_synonym simMap = "(int \<times> SimulationEvidence) list"

fun estimateFleet ::
  "FleetReads \<Rightarrow> jsnum \<Rightarrow> WalletInfo list \<Rightarrow> gasMap \<times> simMap \<Rightarrow> EngineError + gasMap \<times> simMap" where
  "estimateFleet r padding [] maps = Inr maps"
| "estimateFleet r padding (w # ws) (gasLimits, simulations) =
     bindR (checkKill (killBefore r w)) (\<lambda>_.
     bindR (estimateOf r w) (\<lambda>estimate.
     bindR (paddedGas estimate padding) (\<lambda>padded.
     bindR (liftStrategy (simulateMint (simCalldata r w) (simBlock r w) (simCall r w) (wi_address w) (index w) (simTime r w)))
       (\<lambda>simulation.
     bindR (checkKill (killAfter r w)) (\<lambda>_.
     estimateFleet r padding ws
       (AList.update (index w) padded gasLimits,
        AList.update (index w) (simulation\<lparr>gasEstimate := Some estimate\<rparr>) simulations))))))"

text \<open>The L1 data charge that only the Robinhood chain is given here.\<close>

definition l1Charge :: "SupportedChainId \<Rightarrow> int \<Rightarrow> wei \<Rightarrow> EngineError + wei" where
  "l1Charge chainId gasLimit maxFee =
     (if chainId = Chain4663
      then (case robinhoodL1DataGasWei gasLimit maxFee of
              None \<Rightarrow> Inl (EOther ''robinhoodL1DataGasWei'') | Some v \<Rightarrow> Inr v)
      else Inr 0)"

definition gasLimitOf :: "gasMap \<Rightarrow> int \<Rightarrow> int \<Rightarrow> int" where
  "gasLimitOf gasLimits otherwise i = (case map_of gasLimits i of None \<Rightarrow> otherwise | Some g \<Rightarrow> g)"

text \<open>The reserve of each wallet of a free mint, or why the reserve policy refuses it.\<close>

fun freeReserves ::
  "SupportedChainId \<Rightarrow> wei \<Rightarrow> FreeMintReserveCaps \<Rightarrow> gasMap \<Rightarrow> WalletInfo list \<Rightarrow>
   (int \<times> (ReserveRefusal + wei)) list \<Rightarrow> EngineError + (int \<times> (ReserveRefusal + wei)) list" where
  "freeReserves chainId maxFee caps gasLimits [] acc = Inr acc"
| "freeReserves chainId maxFee caps gasLimits (w # ws) acc =
     (let gasLimit = gasLimitOf gasLimits 0 (index w)
      in bindR (l1Charge chainId gasLimit maxFee) (\<lambda>l1DataGas.
         let reserve = gasLimit * maxFee + l1DataGas;
             verdict = (case validateFreeMintReserve reserve reserve caps of
                          ReserveRefused why \<Rightarrow> Inl why | ReserveAllowed _ _ \<Rightarrow> Inr reserve)
         in freeReserves chainId maxFee caps gasLimits ws (AList.update (index w) verdict acc)))"

datatype SkipReason =
    SkipSimulation "string option"
  | SkipFreeReserve ReserveRefusal
  | SkipRunReserveCap wei
  | SkipInsufficientFunds wei
  | SkipRunValueCap wei

record Preflight =
  pf_skipped :: "(WalletInfo \<times> SkipReason) list"
  pf_funded :: "WalletInfo list"
  admittedMintValueWei :: wei
  admittedFreeReserveWei :: wei

record AdmitContext =
  ac_chainId :: SupportedChainId
  ac_dryRun :: bool
  ac_mintCost :: wei
  ac_maxFee :: wei
  ac_paddedGasLimit :: int
  ac_gasLimits :: gasMap
  ac_simulations :: simMap
  ac_freeReserves :: "(int \<times> (ReserveRefusal + wei)) list"
  ac_caps :: FreeMintReserveCaps
  ac_runMintValueCapWei :: wei

definition skipWallet :: "WalletInfo \<Rightarrow> SkipReason \<Rightarrow> Preflight \<Rightarrow> Preflight" where
  "skipWallet w why p = p\<lparr>pf_skipped := pf_skipped p @ [(w, why)]\<rparr>"

definition simulated :: "AdmitContext \<Rightarrow> WalletInfo \<Rightarrow> bool" where
  "simulated c w = (case map_of (ac_simulations c) (index w) of None \<Rightarrow> False | Some s \<Rightarrow> sim_success s)"

definition simulationError :: "AdmitContext \<Rightarrow> WalletInfo \<Rightarrow> string option" where
  "simulationError c w =
     (case map_of (ac_simulations c) (index w) of
        None \<Rightarrow> Some ''Simulation unavailable''
      | Some s \<Rightarrow> (case sim_error s of None \<Rightarrow> Some ''Simulation unavailable'' | Some e \<Rightarrow> Some e))"

text \<open>The most the wallet can be charged, as the funding check computes it.\<close>

definition walletMaxCost :: "AdmitContext \<Rightarrow> WalletInfo \<Rightarrow> EngineError + wei" where
  "walletMaxCost c w =
     (let gas = gasLimitOf (ac_gasLimits c) (ac_paddedGasLimit c) (index w)
      in bindR (if ac_mintCost c = 0 then l1Charge (ac_chainId c) gas (ac_maxFee c) else Inr 0) (\<lambda>l1.
         Inr (ac_mintCost c + gas * ac_maxFee c + l1)))"

definition freeReserveOf :: "AdmitContext \<Rightarrow> WalletInfo \<Rightarrow> wei" where
  "freeReserveOf c w =
     (case map_of (ac_freeReserves c) (index w) of Some (Inr reserve) \<Rightarrow> reserve | _ \<Rightarrow> 0)"

definition freeReserveError :: "AdmitContext \<Rightarrow> WalletInfo \<Rightarrow> ReserveRefusal option" where
  "freeReserveError c w =
     (case map_of (ac_freeReserves c) (index w) of Some (Inl why) \<Rightarrow> Some why | _ \<Rightarrow> None)"

definition admitWallet :: "FleetReads \<Rightarrow> AdmitContext \<Rightarrow> WalletInfo \<Rightarrow> Preflight \<Rightarrow> EngineError + Preflight" where
  "admitWallet r c w p =
     (if \<not> ac_dryRun c \<and> \<not> simulated c w then Inr (skipWallet w (SkipSimulation (simulationError c w)) p)
      else
        bindR (walletMaxCost c w) (\<lambda>maxCost.
        bindR (balanceOf r w) (\<lambda>balance.
        let freeReserve = freeReserveOf c w
        in Inr (case freeReserveError c w of
             Some why \<Rightarrow> skipWallet w (SkipFreeReserve why) p
           | None \<Rightarrow>
               if ac_mintCost c = 0 \<and> exceedsRunReserveCap (admittedFreeReserveWei p) freeReserve (ac_caps c)
               then skipWallet w (SkipRunReserveCap (activePeriodCapWei (ac_caps c))) p
               else if balance < maxCost then skipWallet w (SkipInsufficientFunds maxCost) p
               else if ac_mintCost c > 0 \<and> admittedMintValueWei p + ac_mintCost c > ac_runMintValueCapWei c
               then skipWallet w (SkipRunValueCap (ac_runMintValueCapWei c)) p
               else p\<lparr>pf_funded := pf_funded p @ [w],
                      admittedMintValueWei := admittedMintValueWei p + ac_mintCost c,
                      admittedFreeReserveWei := admittedFreeReserveWei p + freeReserve\<rparr>))))"

fun admitLoop :: "FleetReads \<Rightarrow> AdmitContext \<Rightarrow> WalletInfo list \<Rightarrow> Preflight \<Rightarrow> EngineError + Preflight" where
  "admitLoop r c [] p = Inr p"
| "admitLoop r c (w # ws) p = bindR (admitWallet r c w p) (admitLoop r c ws)"

definition paidRunCapEth :: "MintJobConfig \<Rightarrow> jsnum" where
  "paidRunCapEth cfg = (case cfg_paidRunMintValueCapEth cfg of None \<Rightarrow> Fin (3 / 10) | Some c \<Rightarrow> c)"

definition paidChecks ::
  "MintJobConfig \<Rightarrow> DropConfig \<Rightarrow> bool \<Rightarrow> EngineError + unit" where
  "paidChecks cfg d hasProvider =
     (case validatePaidQuantity (jint (cfg_quantity cfg)) (jint (maxTotalMintableByWallet d)) (cfg_paidMaxQuantityPerWallet cfg) of
        QuantityAllowed _ \<Rightarrow>
          bindR (ensure (\<not> (\<not> hasProvider \<and> \<not> cfg_dryRun cfg))
                   (refuse INVALID_CONFIG ''Paid live execution requires a durable spend reservation provider'')) (\<lambda>_.
          ensure (\<not> (\<not> isFinite (paidRunCapEth cfg) \<or> js_le (paidRunCapEth cfg) (jint 0)))
            (refuse INVALID_CONFIG ''Paid run mint-value cap must be greater than zero''))
      | _ \<Rightarrow> Inl (refuse INVALID_CONFIG ''quantity policy''))"

definition budgetChecks ::
  "Units \<Rightarrow> MintJobConfig \<Rightarrow> SupportedChainId \<Rightarrow> wei \<Rightarrow> int \<Rightarrow> gasMap \<Rightarrow> EngineError + unit" where
  "budgetChecks u cfg chainId mintCost paddedGasLimit gasLimits =
     (let maxFee = parseGwei u (cfg_maxFeePerGasGwei cfg);
          tip = parseGwei u (cfg_maxPriorityFeePerGasGwei cfg)
      in bindR (l1Charge chainId paddedGasLimit maxFee) (\<lambda>l1.
         case validateFeeBudget \<lparr>fb_valueWei = mintCost, fb_maxFeePerGasWei = maxFee, fb_gasLimit = paddedGasLimit,
                 declaredBudgetWei = None, l1DataFeeAllowanceWei = Some l1\<rparr> of
           BudgetRefused _ \<Rightarrow> Inl (refuse INVALID_CONFIG ''Fee budget refuses to arm'')
         | BudgetOk _ \<Rightarrow>
             bindR (if mintCost = 0
                    then (case validateFreeMintSpend \<lparr>fs_configuredPriorityFeeWei = tip, fs_actualPriorityComponentWei = 0,
                             fs_l2ExecutionGasReservationWei = paddedGasLimit * maxFee, fs_l1DataGasReservationWei = l1\<rparr> of
                            SpendOk _ \<Rightarrow> Inr ()
                          | _ \<Rightarrow> Inl (refuse INVALID_CONFIG ''FREE-mint fee exposure policy rejected the configuration''))
                    else Inr ()) (\<lambda>_.
             if mintCost > 0
             then bindR (mapR (\<lambda>(i, gas). bindR (l1Charge chainId gas maxFee) (\<lambda>l1'.
                          case validatePaidGasExposure gas tip 0 l1' of
                            PaidGasAllowed _ _ \<Rightarrow> Inr ()
                          | _ \<Rightarrow> Inl (refuse INVALID_CONFIG ''paid gas exposure''))) gasLimits) (\<lambda>_. Inr ())
             else Inr ())))"

record PreflightResult =
  pr_gasLimits :: gasMap
  pr_simulations :: simMap
  pr_admission :: Preflight

definition preflight ::
  "Units \<Rightarrow> MintJobConfig \<Rightarrow> SupportedChainId \<Rightarrow> DropConfig \<Rightarrow> bool \<Rightarrow> FleetReads \<Rightarrow> WalletInfo list \<Rightarrow>
   EngineError + PreflightResult" where
  "preflight u cfg chainId d hasProvider r wallets =
     (let mintCost = mintPrice d * cfg_quantity cfg;
          maxFee = parseGwei u (cfg_maxFeePerGasGwei cfg);
          caps = freeMintReserveCapsForChain (cfg_chain cfg) (cfg_freeMintReserveCaps cfg)
      in bindR (if mintCost > 0 then paidChecks cfg d hasProvider else Inr ()) (\<lambda>_.
         bindR (estimateFleet r (cfg_gasLimitPadding cfg) wallets ([], [])) (\<lambda>(gasLimits, simulations).
         let paddedGasLimit = gasLimitOf gasLimits 0 (case wallets of [] \<Rightarrow> -1 | w # _ \<Rightarrow> index w)
         in bindR (budgetChecks u cfg chainId mintCost paddedGasLimit gasLimits) (\<lambda>_.
            bindR (if mintCost = 0 then freeReserves chainId maxFee caps gasLimits wallets [] else Inr []) (\<lambda>reserves.
            bindR (admitLoop r
                     \<lparr>ac_chainId = chainId, ac_dryRun = cfg_dryRun cfg, ac_mintCost = mintCost, ac_maxFee = maxFee,
                      ac_paddedGasLimit = paddedGasLimit, ac_gasLimits = gasLimits, ac_simulations = simulations,
                      ac_freeReserves = reserves, ac_caps = caps,
                      ac_runMintValueCapWei = parseEther u (paidRunCapEth cfg)\<rparr>
                     wallets
                     \<lparr>pf_skipped = [], pf_funded = [], admittedMintValueWei = 0, admittedFreeReserveWei = 0\<rparr>) (\<lambda>p.
            if pf_funded p = [] then Inl (refuse INSUFFICIENT_FUNDS ''No wallets have sufficient funds'')
            else Inr \<lparr>pr_gasLimits = gasLimits, pr_simulations = simulations, pr_admission = p\<rparr>))))))"

section \<open>Lemmas\<close>

text \<open>What a wallet must have shown to be admitted by \<^const>\<open>admitWallet\<close>.\<close>

definition fundable :: "FleetReads \<Rightarrow> AdmitContext \<Rightarrow> WalletInfo \<Rightarrow> bool" where
  "fundable r c w \<longleftrightarrow>
     (ac_dryRun c \<or> simulated c w) \<and> freeReserveError c w = None \<and>
     (\<exists>cost bal. walletMaxCost c w = Inr cost \<and> balanceOf r w = Inr bal \<and> cost \<le> bal)"

text \<open>
  One step of the loop over the admitted totals, written once for the loop: the wallet is either
  skipped, or admitted with its cost and reserve added within the cap that applies.
\<close>

definition admitStep :: "FleetReads \<Rightarrow> AdmitContext \<Rightarrow> WalletInfo \<Rightarrow> Preflight \<Rightarrow> Preflight \<Rightarrow> bool" where
  "admitStep r c w p p' \<longleftrightarrow>
     (\<exists>why. p' = skipWallet w why p) \<or>
     (fundable r c w \<and>
      (ac_mintCost c = 0 \<longrightarrow> admittedFreeReserveWei p' \<le> activePeriodCapWei (ac_caps c)) \<and>
      (ac_mintCost c > 0 \<longrightarrow> admittedMintValueWei p' \<le> ac_runMintValueCapWei c) \<and>
      p' = p\<lparr>pf_funded := pf_funded p @ [w], admittedMintValueWei := admittedMintValueWei p + ac_mintCost c,
             admittedFreeReserveWei := admittedFreeReserveWei p + freeReserveOf c w\<rparr>)"

lemma admitWallet_step:
  assumes "admitWallet r c w p = Inr p'"
  shows "admitStep r c w p p'"
proof (cases "\<not> ac_dryRun c \<and> \<not> simulated c w")
  case True
  with assms show ?thesis by (auto simp: admitWallet_def admitStep_def)
next
  case False
  with assms obtain cost bal where cost: "walletMaxCost c w = Inr cost" and bal: "balanceOf r w = Inr bal"
    by (auto simp: admitWallet_def bindR_eq_Inr)
  show ?thesis
  proof (cases "freeReserveError c w \<noteq> None
      \<or> (ac_mintCost c = 0 \<and> exceedsRunReserveCap (admittedFreeReserveWei p) (freeReserveOf c w) (ac_caps c))
      \<or> bal < cost \<or> (ac_mintCost c > 0 \<and> admittedMintValueWei p + ac_mintCost c > ac_runMintValueCapWei c)")
    case True
    have "admitWallet r c w p = Inr p'" by (rule assms)
    with False cost bal True have "\<exists>why. p' = skipWallet w why p"
      by (cases "freeReserveError c w") (auto simp: admitWallet_def Let_def split: if_splits)
    then show ?thesis by (simp add: admitStep_def)
  next
    case fits: False
    with False assms cost bal have "p' = p\<lparr>pf_funded := pf_funded p @ [w],
        admittedMintValueWei := admittedMintValueWei p + ac_mintCost c,
        admittedFreeReserveWei := admittedFreeReserveWei p + freeReserveOf c w\<rparr>"
      by (auto simp: admitWallet_def Let_def)
    moreover from fits False cost bal have "fundable r c w" by (auto simp: fundable_def)
    ultimately show ?thesis using fits by (auto simp: admitStep_def exceedsRunReserveCap_def)
  qed
qed

text \<open>What the loop has done after some wallets.\<close>

definition admission_inv :: "FleetReads \<Rightarrow> AdmitContext \<Rightarrow> WalletInfo list \<Rightarrow> Preflight \<Rightarrow> bool" where
  "admission_inv r c ws0 p \<longleftrightarrow>
     mset (pf_funded p) + mset (map fst (pf_skipped p)) = mset ws0 \<and>
     admittedMintValueWei p = ac_mintCost c * int (length (pf_funded p)) \<and>
     admittedFreeReserveWei p = (\<Sum>w \<leftarrow> pf_funded p. freeReserveOf c w) \<and>
     list_all (fundable r c) (pf_funded p) \<and>
     (pf_funded p \<noteq> [] \<longrightarrow> ac_mintCost c = 0 \<longrightarrow> admittedFreeReserveWei p \<le> activePeriodCapWei (ac_caps c)) \<and>
     (pf_funded p \<noteq> [] \<longrightarrow> ac_mintCost c > 0 \<longrightarrow> admittedMintValueWei p \<le> ac_runMintValueCapWei c)"

lemma admission_inv_step:
  "admission_inv r c ws0 p \<Longrightarrow> admitStep r c w p p' \<Longrightarrow> admission_inv r c (ws0 @ [w]) p'"
  by (auto simp: admission_inv_def admitStep_def skipWallet_def algebra_simps)

lemma admitLoop_inv:
  "admission_inv r c ws0 p \<Longrightarrow> admitLoop r c ws p = Inr p' \<Longrightarrow> admission_inv r c (ws0 @ ws) p'"
proof (induction ws arbitrary: ws0 p)
  case (Cons w ws)
  then obtain q where "admitWallet r c w p = Inr q" and rest: "admitLoop r c ws q = Inr p'"
    by (auto simp: bindR_eq_Inr)
  then have "admission_inv r c (ws0 @ [w]) q"
    using admitWallet_step admission_inv_step Cons.prems(1) by blast
  from Cons.IH [OF this rest] show ?case by simp
qed simp

lemma estimateFleet_limits:
  assumes "estimateFleet r padding ws (gas, sims) = Inr (gas', sims')" and "w \<in> set ws \<or> index w \<in> dom (map_of gas)"
  shows "index w \<in> dom (map_of gas')"
  using assms
proof (induction ws arbitrary: gas sims)
  case (Cons v ws)
  from Cons.prems(1) obtain padded sim where rest:
    "estimateFleet r padding ws (AList.update (index v) padded gas, AList.update (index v) sim sims) = Inr (gas', sims')"
    by (auto simp: bindR_eq_Inr)
  show ?case by (rule Cons.IH [OF rest]) (use Cons.prems(2) in \<open>auto simp: update_conv'\<close>)
qed auto

text \<open>The worst case of a wallet's gas, with the L1 charge on Robinhood.\<close>

definition worstCaseGas :: "SupportedChainId \<Rightarrow> wei \<Rightarrow> int \<Rightarrow> wei" where
  "worstCaseGas chainId maxFee gas =
     gas * maxFee + (if chainId = Chain4663 then ((gas + 15) sdiv 16) * maxFee else 0)"

lemma l1Charge_value:
  "l1Charge chainId gas maxFee = Inr v \<Longrightarrow> gas * maxFee + v = worstCaseGas chainId maxFee gas"
  by (auto simp: l1Charge_def worstCaseGas_def robinhoodL1DataGasWei_def split: if_splits option.splits)

definition reserveEntry ::
  "SupportedChainId \<Rightarrow> wei \<Rightarrow> FreeMintReserveCaps \<Rightarrow> int \<Rightarrow> ReserveRefusal + wei \<Rightarrow> bool" where
  "reserveEntry chainId maxFee caps gas e =
     (case e of
        Inl _ \<Rightarrow> True
      | Inr v \<Rightarrow> v = worstCaseGas chainId maxFee gas \<and> v \<le> perWalletCapWei (effectiveFreeMintReserveCaps (Some caps)))"

lemma freeReserves_entry:
  assumes "freeReserves chainId maxFee caps gasLimits ws acc = Inr acc'"
    and "w \<in> set ws \<or> (\<exists>e. map_of acc (index w) = Some e \<and>
           reserveEntry chainId maxFee caps (gasLimitOf gasLimits 0 (index w)) e)"
  shows "\<exists>e. map_of acc' (index w) = Some e \<and>
    reserveEntry chainId maxFee caps (gasLimitOf gasLimits 0 (index w)) e"
  using assms
proof (induction ws arbitrary: acc)
  case Nil
  then show ?case by auto
next
  case (Cons x ws)
  from Cons.prems(1) obtain l1 where l1: "l1Charge chainId (gasLimitOf gasLimits 0 (index x)) maxFee = Inr l1"
    and rest: "freeReserves chainId maxFee caps gasLimits ws
      (AList.update (index x)
        (case validateFreeMintReserve (gasLimitOf gasLimits 0 (index x) * maxFee + l1)
                (gasLimitOf gasLimits 0 (index x) * maxFee + l1) caps of
           ReserveRefused why \<Rightarrow> Inl why
         | ReserveAllowed _ _ \<Rightarrow> Inr (gasLimitOf gasLimits 0 (index x) * maxFee + l1)) acc) = Inr acc'"
    by (auto simp: bindR_eq_Inr Let_def)
  show ?case
  proof (cases "index w = index x")
    case True
    show ?thesis
      by (rule Cons.IH [OF rest])
        (auto simp: update_conv' True l1Charge_value [OF l1] validateFreeMintReserve_def reserveEntry_def Let_def
          split: FreeMintReserveVerdict.splits if_splits)
  next
    case False
    show ?thesis
      by (rule Cons.IH [OF rest]) (use Cons.prems False in \<open>auto simp: update_conv'\<close>)
  qed
qed

text \<open>The context \<^const>\<open>preflight\<close> hands to the loop, and what it rests on.\<close>

definition contextOf ::
  "Units \<Rightarrow> MintJobConfig \<Rightarrow> SupportedChainId \<Rightarrow> DropConfig \<Rightarrow> gasMap \<Rightarrow> simMap \<Rightarrow>
   (int \<times> (ReserveRefusal + wei)) list \<Rightarrow> int \<Rightarrow> AdmitContext" where
  "contextOf u cfg chainId d gasLimits simulations reserves padded =
     \<lparr>ac_chainId = chainId, ac_dryRun = cfg_dryRun cfg, ac_mintCost = mintPrice d * cfg_quantity cfg,
      ac_maxFee = parseGwei u (cfg_maxFeePerGasGwei cfg),
      ac_paddedGasLimit = padded, ac_gasLimits = gasLimits, ac_simulations = simulations,
      ac_freeReserves = reserves, ac_caps = freeMintReserveCapsForChain (cfg_chain cfg) (cfg_freeMintReserveCaps cfg),
      ac_runMintValueCapWei = parseEther u (paidRunCapEth cfg)\<rparr>"

lemma preflight_parts:
  assumes "preflight u cfg chainId d hasProvider r wallets = Inr res"
  obtains reserves padded where
    "\<And>w. w \<in> set wallets \<Longrightarrow> index w \<in> dom (map_of (pr_gasLimits res))"
    "mintPrice d * cfg_quantity cfg = 0 \<Longrightarrow>
       freeReserves chainId (parseGwei u (cfg_maxFeePerGasGwei cfg))
         (freeMintReserveCapsForChain (cfg_chain cfg) (cfg_freeMintReserveCaps cfg)) (pr_gasLimits res) wallets [] = Inr reserves"
    "admission_inv r (contextOf u cfg chainId d (pr_gasLimits res) (pr_simulations res) reserves padded) wallets (pr_admission res)"
    "pf_funded (pr_admission res) \<noteq> []"
proof -
  let ?p0 = "\<lparr>pf_skipped = [], pf_funded = [], admittedMintValueWei = 0, admittedFreeReserveWei = 0\<rparr>"
  from assms obtain padded reserves where
    est: "estimateFleet r (cfg_gasLimitPadding cfg) wallets ([], []) = Inr (pr_gasLimits res, pr_simulations res)"
    and res: "mintPrice d * cfg_quantity cfg = 0 \<Longrightarrow>
      freeReserves chainId (parseGwei u (cfg_maxFeePerGasGwei cfg))
        (freeMintReserveCapsForChain (cfg_chain cfg) (cfg_freeMintReserveCaps cfg)) (pr_gasLimits res) wallets [] = Inr reserves"
    and loop: "admitLoop r (contextOf u cfg chainId d (pr_gasLimits res) (pr_simulations res) reserves padded) wallets ?p0
      = Inr (pr_admission res)"
    and ne: "pf_funded (pr_admission res) \<noteq> []"
    by (auto simp: preflight_def contextOf_def Let_def bindR_eq_Inr split: if_splits)
  have "admission_inv r (contextOf u cfg chainId d (pr_gasLimits res) (pr_simulations res) reserves padded) ([] @ wallets)
      (pr_admission res)"
    by (rule admitLoop_inv [OF _ loop]) (simp add: admission_inv_def)
  with that [OF _ res _ ne] estimateFleet_limits [OF est] show ?thesis by simp
qed

lemma contextOf_reserve:
  assumes "freeReserves chainId (parseGwei u (cfg_maxFeePerGasGwei cfg))
      (freeMintReserveCapsForChain (cfg_chain cfg) (cfg_freeMintReserveCaps cfg)) gas ws [] = Inr reserves"
    and "w \<in> set ws" and "freeReserveError (contextOf u cfg chainId d gas sims reserves padded) w = None"
  shows "freeReserveOf (contextOf u cfg chainId d gas sims reserves padded) w =
      worstCaseGas chainId (parseGwei u (cfg_maxFeePerGasGwei cfg)) (gasLimitOf gas 0 (index w)) \<and>
    freeReserveOf (contextOf u cfg chainId d gas sims reserves padded) w
      \<le> perWalletCapWei (freeMintReserveCapsForChain (cfg_chain cfg) (cfg_freeMintReserveCaps cfg))"
proof -
  from freeReserves_entry [OF assms(1), of w] assms(2) obtain e where e: "map_of reserves (index w) = Some e"
    and ok: "reserveEntry chainId (parseGwei u (cfg_maxFeePerGasGwei cfg))
      (freeMintReserveCapsForChain (cfg_chain cfg) (cfg_freeMintReserveCaps cfg)) (gasLimitOf gas 0 (index w)) e"
    by auto
  from assms(3) e obtain v where "e = Inr v"
    by (cases e) (auto simp: freeReserveError_def contextOf_def)
  with e ok show ?thesis by (simp add: freeReserveOf_def contextOf_def reserveEntry_def)
qed

lemma contextOf_fundable:
  assumes "fundable r (contextOf u cfg chainId d gas sims reserves padded) w" and "index w \<in> dom (map_of gas)"
  shows "\<exists>g bal. map_of gas (index w) = Some g \<and> balanceOf r w = Inr bal \<and>
    (0 < mintPrice d * cfg_quantity cfg \<longrightarrow>
       mintPrice d * cfg_quantity cfg + g * parseGwei u (cfg_maxFeePerGasGwei cfg) \<le> bal) \<and>
    (mintPrice d * cfg_quantity cfg = 0 \<longrightarrow>
       worstCaseGas chainId (parseGwei u (cfg_maxFeePerGasGwei cfg)) g \<le> bal) \<and>
    (\<not> cfg_dryRun cfg \<longrightarrow> (\<exists>s. map_of sims (index w) = Some s \<and> sim_success s))"
proof -
  let ?c = "contextOf u cfg chainId d gas sims reserves padded"
  let ?cost = "mintPrice d * cfg_quantity cfg" and ?fee = "parseGwei u (cfg_maxFeePerGasGwei cfg)"
  from assms(2) obtain g where g: "map_of gas (index w) = Some g" by blast
  from assms(1) obtain cost bal where b: "walletMaxCost ?c w = Inr cost" "balanceOf r w = Inr bal" "cost \<le> bal"
    by (auto simp: fundable_def)
  have "?cost = 0 \<Longrightarrow> cost = worstCaseGas chainId ?fee g" "?cost \<noteq> 0 \<Longrightarrow> cost = ?cost + g * ?fee"
    using b(1) g l1Charge_value [of chainId g ?fee]
    by (auto simp: walletMaxCost_def contextOf_def gasLimitOf_def bindR_eq_Inr simp del: mult_eq_0_iff)
  moreover have "\<not> cfg_dryRun cfg \<Longrightarrow> \<exists>s. map_of sims (index w) = Some s \<and> sim_success s"
    using assms(1) by (auto simp: fundable_def simulated_def contextOf_def split: option.splits)
  ultimately show ?thesis using b g by (auto simp del: mult_eq_0_iff)
qed

section \<open>Properties\<close>

text \<open>
  C8. The preflight admits wallets only within the caps of the run. Every wallet of the fleet is
  either admitted or skipped with a reason, exactly once. A paid run admits at most the mint value
  that its cap allows; a free run admits at most the gas reserve of the active period, and each
  wallet at most the reserve of a wallet, at the worst case of its gas limit. Every admitted wallet
  has a gas limit and a balance that covers its cost, and in a live run a successful simulation.
\<close>

theorem admission_within_caps:
  assumes "preflight u cfg chainId d hasProvider r wallets = Inr res"
  shows "mset (pf_funded (pr_admission res)) + mset (map fst (pf_skipped (pr_admission res))) = mset wallets \<and>
    (0 < mintPrice d * cfg_quantity cfg \<longrightarrow>
       mintPrice d * cfg_quantity cfg * int (length (pf_funded (pr_admission res))) \<le> parseEther u (paidRunCapEth cfg)) \<and>
    (mintPrice d * cfg_quantity cfg = 0 \<longrightarrow>
       (\<Sum>w \<leftarrow> pf_funded (pr_admission res).
          worstCaseGas chainId (parseGwei u (cfg_maxFeePerGasGwei cfg)) (gasLimitOf (pr_gasLimits res) 0 (index w)))
       \<le> activePeriodCapWei (freeMintReserveCapsForChain (cfg_chain cfg) (cfg_freeMintReserveCaps cfg))) \<and>
    (\<forall>w \<in> set (pf_funded (pr_admission res)). \<exists>g bal.
       map_of (pr_gasLimits res) (index w) = Some g \<and> balanceOf r w = Inr bal \<and>
       (0 < mintPrice d * cfg_quantity cfg \<longrightarrow>
          mintPrice d * cfg_quantity cfg + g * parseGwei u (cfg_maxFeePerGasGwei cfg) \<le> bal) \<and>
       (mintPrice d * cfg_quantity cfg = 0 \<longrightarrow>
          worstCaseGas chainId (parseGwei u (cfg_maxFeePerGasGwei cfg)) g \<le> bal \<and>
          worstCaseGas chainId (parseGwei u (cfg_maxFeePerGasGwei cfg)) g
            \<le> perWalletCapWei (freeMintReserveCapsForChain (cfg_chain cfg) (cfg_freeMintReserveCaps cfg))) \<and>
       (\<not> cfg_dryRun cfg \<longrightarrow> (\<exists>s. map_of (pr_simulations res) (index w) = Some s \<and> sim_success s)))"
proof -
  let ?cost = "mintPrice d * cfg_quantity cfg"
  let ?fee = "parseGwei u (cfg_maxFeePerGasGwei cfg)"
  let ?caps = "freeMintReserveCapsForChain (cfg_chain cfg) (cfg_freeMintReserveCaps cfg)"
  from preflight_parts [OF assms] obtain reserves padded where
    gas: "\<And>w. w \<in> set wallets \<Longrightarrow> index w \<in> dom (map_of (pr_gasLimits res))"
    and free: "?cost = 0 \<Longrightarrow> freeReserves chainId ?fee ?caps (pr_gasLimits res) wallets [] = Inr reserves"
    and inv: "admission_inv r (contextOf u cfg chainId d (pr_gasLimits res) (pr_simulations res) reserves padded)
      wallets (pr_admission res)"
    and ne: "pf_funded (pr_admission res) \<noteq> []"
    by metis
  let ?c = "contextOf u cfg chainId d (pr_gasLimits res) (pr_simulations res) reserves padded"
  have parts: "mset (pf_funded (pr_admission res)) + mset (map fst (pf_skipped (pr_admission res))) = mset wallets"
    using inv by (simp add: admission_inv_def)
  then have sub: "w \<in> set (pf_funded (pr_admission res)) \<Longrightarrow> w \<in> set wallets" for w
    by (metis set_mset_mset set_mset_union UnI1)
  have fundable: "w \<in> set (pf_funded (pr_admission res)) \<Longrightarrow> fundable r ?c w" for w
    using inv by (auto simp: admission_inv_def list_all_iff)
  have reserve: "freeReserveOf ?c w = worstCaseGas chainId ?fee (gasLimitOf (pr_gasLimits res) 0 (index w)) \<and>
      freeReserveOf ?c w \<le> perWalletCapWei ?caps" if "?cost = 0" "w \<in> set (pf_funded (pr_admission res))" for w
  proof -
    have "freeReserveError ?c w = None" using fundable [OF that(2)] by (simp add: fundable_def)
    from contextOf_reserve [OF free [OF that(1)] sub [OF that(2)] this] show ?thesis .
  qed
  have each: "\<exists>g bal. map_of (pr_gasLimits res) (index w) = Some g \<and> balanceOf r w = Inr bal \<and>
      (0 < ?cost \<longrightarrow> ?cost + g * ?fee \<le> bal) \<and>
      (?cost = 0 \<longrightarrow> worstCaseGas chainId ?fee g \<le> bal \<and> worstCaseGas chainId ?fee g \<le> perWalletCapWei ?caps) \<and>
      (\<not> cfg_dryRun cfg \<longrightarrow> (\<exists>s. map_of (pr_simulations res) (index w) = Some s \<and> sim_success s))"
    if w: "w \<in> set (pf_funded (pr_admission res))" for w
    using contextOf_fundable [OF fundable [OF w] gas [OF sub [OF w]]] reserve [OF _ w]
    by (auto simp: gasLimitOf_def simp del: mult_eq_0_iff)
  have total: "(\<Sum>w \<leftarrow> pf_funded (pr_admission res). freeReserveOf ?c w) =
      (\<Sum>w \<leftarrow> pf_funded (pr_admission res). worstCaseGas chainId ?fee (gasLimitOf (pr_gasLimits res) 0 (index w)))"
    if "?cost = 0"
    by (rule arg_cong [where f = sum_list], rule map_cong, rule refl) (use reserve [OF that] in blast)
  have "?cost = 0 \<Longrightarrow> (\<Sum>w \<leftarrow> pf_funded (pr_admission res). freeReserveOf ?c w) \<le> activePeriodCapWei ?caps"
    "0 < ?cost \<Longrightarrow> ?cost * int (length (pf_funded (pr_admission res))) \<le> parseEther u (paidRunCapEth cfg)"
    using inv ne by (simp_all add: admission_inv_def contextOf_def del: mult_eq_0_iff)
  then show ?thesis using parts each total by (simp del: mult_eq_0_iff)
qed

definition demoConfig :: MintJobConfig where
  "demoConfig = \<lparr>cfg_chain = ChainRobinhood, cfg_contract = ''0xc'', cfg_quantity = 1, cfg_campaignId = Some ''c1'',
     cfg_policyRef = None, cfg_fleet = \<lparr>maxWallets = 2, walletIndexes = None, expectedAddresses = None\<rparr>,
     cfg_fireLanes = None, cfg_simulationFreshnessMs = None, cfg_maxFeePerGasGwei = jint 1,
     cfg_maxPriorityFeePerGasGwei = jint 1, cfg_gasLimitPadding = Fin (6 / 5), cfg_replacement = None,
     cfg_maxReplacementBumps = jint 0, cfg_dryRun = False, cfg_paidMaxQuantityPerWallet = None,
     cfg_paidRunMintValueCapEth = None, cfg_freeMintReserveCaps = None, cfg_robinhoodGrant = None,
     cfg_baseGrant = None, cfg_mode = ModeBlast, cfg_rpcEndpoints = []\<rparr>"

definition demoUnits :: Units where
  "demoUnits = \<lparr>parseGwei = (\<lambda>x. 1000000000 * js_int x), parseEther = (\<lambda>x. 300000000000000000)\<rparr>"

definition demoFree :: DropConfig where
  "demoFree = \<lparr>nftContract = ''0xc'', mintPrice = 0, maxTotalMintableByWallet = 5, maxTokenSupply = 100, totalMinted = 3,
     startTime = 0, endTime = 0, feePayer = ''0xf'', strategyName = ''seadrop-v1-public'', drop_chainId = Chain4663,
     extra = None\<rparr>"

definition demoPair :: "WalletInfo list" where
  "demoPair = [\<lparr>index = 0, wi_address = ''0xa'', wi_label = None\<rparr>, \<lparr>index = 1, wi_address = ''0xb'', wi_label = None\<rparr>]"

definition demoReads :: FleetReads where
  "demoReads = \<lparr>estimateOf = (\<lambda>w. Inr 100000), simCalldata = (\<lambda>w. Inr ''0x''), simBlock = (\<lambda>w. Inr 7),
     simCall = (\<lambda>w. None), simTime = (\<lambda>w. jint 5),
     balanceOf = (\<lambda>w. Inr (if index w = 0 then 127500000000000 else 127499999999999)),
     killBefore = (\<lambda>w. None), killAfter = (\<lambda>w. None)\<rparr>"

theorem admission_within_caps_witness:
  "\<exists>res. preflight demoUnits demoConfig Chain4663 demoFree True demoReads demoPair = Inr res \<and>
     map index (pf_funded (pr_admission res)) = [0] \<and>
     (\<Sum>w \<leftarrow> pf_funded (pr_admission res). worstCaseGas Chain4663 1000000000 (gasLimitOf (pr_gasLimits res) 0 (index w)))
       \<le> 2000000000000000"
proof -
  obtain res where res: "preflight demoUnits demoConfig Chain4663 demoFree True demoReads demoPair = Inr res"
    and funded: "map index (pf_funded (pr_admission res)) = [0]"
    by (simp add: preflight_def demoUnits_def demoConfig_def demoFree_def demoReads_def demoPair_def checkKill_def
        paddedGas_def liftStrategy_def simulateMint_def gasLimitOf_def budgetChecks_def l1Charge_def
        robinhoodL1DataGasWei_def validateFeeBudget_def validateFreeMintSpend_def validateFreeMintReserve_def
        effectiveFreeMintReserveCaps_def reserve_caps_defs admitWallet_def simulated_def walletMaxCost_def
        freeReserveOf_def freeReserveError_def exceedsRunReserveCap_def skipWallet_def sdiv_nonneg Let_def)
  have "(\<Sum>w \<leftarrow> pf_funded (pr_admission res).
      worstCaseGas Chain4663 (parseGwei demoUnits (cfg_maxFeePerGasGwei demoConfig)) (gasLimitOf (pr_gasLimits res) 0 (index w)))
      \<le> activePeriodCapWei (freeMintReserveCapsForChain (cfg_chain demoConfig) (cfg_freeMintReserveCaps demoConfig))"
    using admission_within_caps [OF res] by (simp add: demoFree_def)
  with res funded show ?thesis by (auto simp: demoUnits_def demoConfig_def reserve_caps_defs)
qed

end
