(* ===== verification/MintEngine.thy ===== *)
theory MintEngine
  imports Admission ReplacementLadder Broadcasters Finality DropRecheck Providers
begin

text \<open>
  One wallet of a run: the body of \<^verbatim>\<open>MintEngine.executeFleet\<close> for an assignment of the fire plan
  (\<^verbatim>\<open>packages/engine/src/mint-engine.ts\<close>), from the first gate to the result it returns, with the
  replacement ladder, the receipt watcher and the catch block.

  The state of a run is a world (clock, everything outside, and the trace of the events that
  leave the engine) together with the mutable variables of the closure. Whatever other wallets,
  the node, the signer or the store do happens inside the outside: every call is a question to it,
  its answer is arbitrary and takes some time. The shared objects of the fleet (nonce manager, drop
  recheck, admission gate, kill switch) are asked in the same way; their own theories show what
  they guarantee. Events are recorded when a call leaves the engine; \<open>Reserved\<close>, \<open>Answered\<close> and the
  \<open>Stored\<close> events when it has succeeded.

  Left out: logging, durations, the texts of gate errors (the code stands for the text), time stamps
  and error texts inside stored records, and how provider texts are redacted (an argument). The
  watchers of several hashes, which race in the source, run one after the other.
\<close>

section \<open>Events, variables, environment\<close>

datatype EngineEvent =
    IntentStored string TransactionIntent
  | EnteredGate
  | LeftGate
  | ReserveCall ReserveInput
  | Reserved ReserveInput string
  | Reconfirmed ReserveInput
  | SignCall int TransactionIntent
  | AttemptStored LifecycleAttemptRecord
  | Broadcast hex
  | Answered hex "BroadcastResult list"
  | ConsumedNonce address
  | ReceiptStored LifecycleReceiptRecord
  | ReconciliationStored LifecycleReconciliationRecord
  | SettleCall string ReservationSettlementComponents
  | SettlePlainCall string wei wei
  | ReleaseCall string

record Locals =
  builtNonce :: "int option"
  reservation :: "string option"
  holdsGate :: bool
  submittedHash :: "hash option"
  attemptIds :: "string list"
  submissionAttemptId :: "string option"
  executionId :: "string option"
  transactionIntentId :: "string option"
  familySigningContext :: "FamilyContext option"
  attemptHashes :: "(string \<times> hash) list"
  attemptReplacements :: "(string \<times> string) list"
  replacedAttemptIds :: "string list"
  acceptedAttemptByHash :: "(hash \<times> string) list"
  gateRelease :: bool
  laddersStarted :: "string list"

definition newLocals :: "string list \<Rightarrow> Locals" where
  "newLocals started =
     \<lparr>builtNonce = None, reservation = None, holdsGate = False, submittedHash = None, attemptIds = [],
      submissionAttemptId = None, executionId = None, transactionIntentId = None, familySigningContext = None,
      attemptHashes = [], attemptReplacements = [], replacedAttemptIds = [], acceptedAttemptByHash = [],
      gateRelease = False, laddersStarted = started\<rparr>"

text \<open>The EIP-1559 transaction that is built, with the identity of its execution.\<close>

record BuiltTx =
  bt_nonce :: int
  bt_to :: address
  bt_value :: wei
  bt_data :: hex
  bt_gas :: int
  bt_fees :: Fees
  bt_executionId :: string
  bt_intentId :: string

record 'x EngineEnv =
  ev_killed :: "('x, string option) ask"
  ev_timer :: "('x, nat) ask"
  ev_listWallets :: "('x, string + WalletInfo list) ask"
  ev_recheckDrop :: "('x, string + RecheckResult) ask"
  ev_calldata :: "address \<Rightarrow> string + hex"
  ev_getNonce :: "address \<Rightarrow> ('x, string + int) ask"
  ev_consumeNonce :: "address \<Rightarrow> ('x, unit) ask"
  ev_baseReads :: "('x, (int \<Rightarrow> jsval option) \<times> (int \<Rightarrow> jsval option) \<times> jsval option \<times> jsval option) ask"
  ev_store :: bool
  ev_persistIntent :: "string \<Rightarrow> TransactionIntent \<Rightarrow> ('x, string + unit) ask"
  ev_persistAttempt :: "LifecycleAttemptRecord \<Rightarrow> ('x, string + unit) ask"
  ev_persistReceipt :: "LifecycleReceiptRecord \<Rightarrow> ('x, string + unit) ask"
  ev_persistReconciliation :: "LifecycleReconciliationRecord \<Rightarrow> ('x, string + unit) ask"
  ev_enterGate :: "('x, unit) ask"
  ev_leaveGate :: "('x, unit) ask"
  ev_provider :: "SpendReservationProvider option"
  ev_reserve :: "ReserveInput \<Rightarrow> ('x, string + string) ask"
  ev_reconfirm :: "ReserveInput \<Rightarrow> ('x, string + unit) ask"
  ev_settleComponents :: "(ReservationSettlementComponents \<Rightarrow> ('x, string + unit) ask) option"
  ev_settle :: "wei \<Rightarrow> wei \<Rightarrow> ('x, string + unit) ask"
  ev_release :: "('x, string + unit) ask"
  ev_sign :: "int \<Rightarrow> TransactionIntent \<Rightarrow> ('x, string + hex) ask"
  ev_signerAsksReady :: "('x, bool) ask"
  ev_network :: "('x, network \<times> relay) ask"
  ev_blockNumber :: "('x, string + int) ask"
  ev_latestCount :: "address \<Rightarrow> ('x, string + int) ask"
  ev_pendingCount :: "address \<Rightarrow> ('x, string + int) ask"
  ev_probeReceipt :: "hash \<Rightarrow> ('x, (string \<times> string) + unit) ask"
  ev_simulationReads :: "('x, (StrategyError + hex) \<times> (StrategyError + int) \<times> string option) ask"
  ev_watcher :: "'x Watcher"
  ev_codec :: TxCodec
  ev_keccak :: "hex \<Rightarrow> hash"
  ev_sha256 :: "string \<Rightarrow> string"
  ev_parseDate :: "string \<Rightarrow> jsnum"
  ev_serialize :: "SupportedChainId \<Rightarrow> BuiltTx \<Rightarrow> hex"
  ev_redact :: "string \<Rightarrow> string"
  ev_identity :: "(int \<Rightarrow> address \<Rightarrow> ExecutionIdentity) option"

text \<open>What \<^verbatim>\<open>executeFleet\<close> is given for the whole run.\<close>

record Job =
  jb_cfg :: MintJobConfig
  jb_units :: Units
  jb_runId :: string
  jb_intentId :: "string option"
  jb_chainId :: SupportedChainId
  jb_drop :: DropConfig
  jb_broadcaster :: Broadcaster
  jb_gasLimits :: gasMap
  jb_simulations :: simMap
  jb_replacement :: "ReplacementPlan option"
  jb_startedAt :: int

type_synonym 'x engState = "('x, EngineEvent) World \<times> Locals"
type_synonym ('x, 'a) eng = "('x engState, EngineError, 'a) eff"

definition worldS :: "(('x, EngineEvent) World, EngineError, 'a) eff \<Rightarrow> ('x, 'a) eng" where
  "worldS m = (\<lambda>(w, l). case m w of (r, w') \<Rightarrow> (r, (w', l)))"

definition localsS :: "(Locals \<Rightarrow> Locals) \<Rightarrow> ('x, unit) eng" where
  "localsS f = modifyS (\<lambda>(w, l). (w, f l))"

definition readS :: "(Locals \<Rightarrow> 'a) \<Rightarrow> ('x, 'a) eng" where
  "readS f = getS (\<lambda>(w, l). f l)"

definition eventS :: "EngineEvent \<Rightarrow> ('x, unit) eng" where
  "eventS ev = worldS (emitS ev)"

definition timeS :: "('x, int) eng" where
  "timeS = worldS nowS"

text \<open>A call that cannot reject, and one whose rejection is an error with a message.\<close>

definition tellS :: "('x, 'r) ask \<Rightarrow> ('x, 'r) eng" where
  "tellS f = worldS (askS (\<lambda>x. case f x of (r, t, x') \<Rightarrow> (Inr r, t, x')))"

definition callS :: "('x, string + 'r) ask \<Rightarrow> ('x, 'r) eng" where
  "callS f = worldS (askS (\<lambda>x. case f x of (r, t, x') \<Rightarrow>
     ((case r of Inl msg \<Rightarrow> Inl (EOther msg) | Inr y \<Rightarrow> Inr y), t, x')))"

definition storeS :: "'x EngineEnv \<Rightarrow> ('x, string + unit) ask \<Rightarrow> EngineEvent \<Rightarrow> ('x, unit) eng" where
  "storeS e f ev = (if ev_store e then bindS (callS f) (\<lambda>_. eventS ev) else returnS ())"

definition persistAttempt :: "'x EngineEnv \<Rightarrow> LifecycleAttemptRecord \<Rightarrow> ('x, unit) eng" where
  "persistAttempt e a = storeS e (ev_persistAttempt e a) (AttemptStored a)"

definition persistReconciliation :: "'x EngineEnv \<Rightarrow> LifecycleReconciliationRecord \<Rightarrow> ('x, unit) eng" where
  "persistReconciliation e r = storeS e (ev_persistReconciliation e r) (ReconciliationStored r)"

definition leaveGate :: "'x EngineEnv \<Rightarrow> ('x, unit) eng" where
  "leaveGate e = bindS (tellS (ev_leaveGate e)) (\<lambda>_. eventS LeftGate)"

definition killS :: "'x EngineEnv \<Rightarrow> ('x, unit) eng" where
  "killS e = bindS (tellS (ev_killed e)) (\<lambda>k. liftS (checkKill k))"

definition refuseAt :: "int \<Rightarrow> MintErrorType \<Rightarrow> string \<Rightarrow> EngineError" where
  "refuseAt i t msg = EMint \<lparr>me_type = t, me_message = msg, me_walletIndex = Some i\<rparr>"

definition mintValue :: "Job \<Rightarrow> wei" where
  "mintValue job = mintPrice (jb_drop job) * cfg_quantity (jb_cfg job)"

definition policyS :: "'x EngineEnv \<Rightarrow> Job \<Rightarrow> ('x, unit) eng" where
  "policyS e job =
     bindS timeS (\<lambda>t. liftS (liftGate (assertDirectChainExecutionPolicy (ev_parseDate e) (jb_chainId job)
       (Some (mintValue job)) (cfg_dryRun (jb_cfg job)) (cfg_robinhoodGrant (jb_cfg job)) (jint t)
       (cfg_baseGrant (jb_cfg job)))))"

definition simulationFor :: "Job \<Rightarrow> int \<Rightarrow> SimulationEvidence option" where
  "simulationFor job i = map_of (jb_simulations job) i"

definition freshS :: "Job \<Rightarrow> int \<Rightarrow> ('x, unit) eng" where
  "freshS job i =
     bindS timeS (\<lambda>t. liftS (liftGate (assertSimulationFresh (simulationFor job i) (jint t)
       (case cfg_simulationFreshnessMs (jb_cfg job) of None \<Rightarrow> jint 120000 | Some ms \<Rightarrow> ms))))"

section \<open>The gates of a wallet\<close>

datatype 'a Stage = Finished WalletMintResult | Go 'a

definition walletResult :: "int \<Rightarrow> address \<Rightarrow> WalletStatus \<Rightarrow> string option \<Rightarrow> WalletMintResult" where
  "walletResult i addr status err =
     \<lparr>wr_walletIndex = i, wr_address = addr, wr_status = status, wr_txHash = None, wr_nonce = None, wr_gasUsed = None,
      wr_effectiveGasPrice = None, wr_totalFeeWei = None, wr_totalCostWei = None, wr_error = err, wr_executionId = None,
      wr_reservationId = None, wr_attemptIds = [], wr_submittedAttemptId = None, wr_lifecycleState = None,
      wr_reconciliationState = None\<rparr>"

definition changeText :: "RecheckResult \<Rightarrow> string option" where
  "changeText change =
     (case change of Changed c \<Rightarrow> (if c \<noteq> [] \<and> c \<noteq> ''unknown'' then Some c else None) | _ \<Rightarrow> None)"

definition recheckS :: "'x EngineEnv \<Rightarrow> Job \<Rightarrow> ('x, RecheckResult) eng" where
  "recheckS e job = (if cfg_dryRun (jb_cfg job) then returnS NoChange else callS (ev_recheckDrop e))"

definition gateStage :: "'x EngineEnv \<Rightarrow> Job \<Rightarrow> int \<Rightarrow> address \<Rightarrow> int \<Rightarrow> ('x, unit Stage) eng" where
  "gateStage e job i addr startOffsetMs =
     bindS timeS (\<lambda>t.
     let delayMs = min startOffsetMs (max 0 (jb_startedAt job + startOffsetMs - t))
     in bindS (if delayMs > 0 then worldS (sleepS (ev_timer e) delayMs) else returnS ()) (\<lambda>_.
        bindS (tellS (ev_killed e)) (\<lambda>killed.
        case killed of
          Some why \<Rightarrow> returnS (Finished (walletResult i addr WKilled (Some why)))
        | None \<Rightarrow>
            bindS (policyS e job) (\<lambda>_.
            bindS (recheckS e job) (\<lambda>change.
            case changeText change of
              Some c \<Rightarrow> returnS (Finished (walletResult i addr WSkipped (Some (''CAMPAIGN_CHANGED_MID_RUN: '' @ c))))
            | None \<Rightarrow>
                if \<not> cfg_dryRun (jb_cfg job) \<and>
                   (case simulationFor job i of None \<Rightarrow> True | Some s \<Rightarrow> \<not> sim_success s)
                then returnS (Finished (walletResult i addr WSkipped
                       (Some (case simulationFor job i of
                                None \<Rightarrow> ''Simulation unavailable''
                              | Some s \<Rightarrow> (case sim_error s of None \<Rightarrow> ''Simulation unavailable'' | Some m \<Rightarrow> m)))))
                else returnS (Go ()))))))"

section \<open>Building the transaction\<close>

definition mintTarget :: "DropConfig \<Rightarrow> address" where
  "mintTarget d = (case extra_at d ''seaDropAddress'' of JStr a \<Rightarrow> a | _ \<Rightarrow> nftContract d)"

definition identityFor :: "'x EngineEnv \<Rightarrow> Job \<Rightarrow> int \<Rightarrow> address \<Rightarrow> ExecutionIdentity" where
  "identityFor e job i addr =
     (case ev_identity e of
        Some f \<Rightarrow> f i addr
      | None \<Rightarrow> canonicalExecutionIdentity (ev_sha256 e) (jb_runId job) (jb_intentId job) i addr)"

definition firstFees :: "Job \<Rightarrow> Fees" where
  "firstFees job = feesOf (jb_units job) (cfg_maxFeePerGasGwei (jb_cfg job), cfg_maxPriorityFeePerGasGwei (jb_cfg job))"

definition buildTx :: "'x EngineEnv \<Rightarrow> Job \<Rightarrow> int \<Rightarrow> address \<Rightarrow> hex \<Rightarrow> int \<Rightarrow> BuiltTx" where
  "buildTx e job i addr calldata nonce =
     \<lparr>bt_nonce = nonce, bt_to = mintTarget (jb_drop job), bt_value = mintValue job, bt_data = calldata,
      bt_gas = gasLimitOf (jb_gasLimits job) 0 i, bt_fees = firstFees job,
      bt_executionId = ei_executionId (identityFor e job i addr),
      bt_intentId = ei_transactionIntentId (identityFor e job i addr)\<rparr>"

definition buildStage :: "'x EngineEnv \<Rightarrow> Job \<Rightarrow> int \<Rightarrow> address \<Rightarrow> ('x, BuiltTx Stage) eng" where
  "buildStage e job i addr =
     bindS (liftS (case ev_calldata e addr of Inl m \<Rightarrow> Inl (EOther m) | Inr c \<Rightarrow> Inr c)) (\<lambda>calldata.
     bindS (callS (ev_getNonce e addr)) (\<lambda>nonce.
     bindS (localsS (\<lambda>l. l\<lparr>builtNonce := Some nonce\<rparr>)) (\<lambda>_.
     let tx = buildTx e job i addr calldata nonce
     in if cfg_dryRun (jb_cfg job)
        then returnS (Finished ((walletResult i addr WPrepared None)
               \<lparr>wr_executionId := Some (bt_executionId tx), wr_lifecycleState := Some LcPrepared\<rparr>))
        else returnS (Go tx))))"

section \<open>Reserving and signing\<close>

definition reserveFees :: "Job \<Rightarrow> BuiltTx \<Rightarrow> Fees" where
  "reserveFees job tx = (case jb_replacement job of Some p \<Rightarrow> rp_ceiling p | None \<Rightarrow> bt_fees tx)"

text \<open>The charges beyond L2 execution that are reserved: the quoted bound on Base, the L1 estimate on Robinhood.\<close>

definition otherChargesS :: "'x EngineEnv \<Rightarrow> Job \<Rightarrow> BuiltTx \<Rightarrow> ('x, wei) eng" where
  "otherChargesS e job tx =
     (if jb_chainId job = Chain8453
      then bindS (tellS (ev_baseReads e)) (\<lambda>(l1, operator, scalar, constant).
           case quoteBaseFeeBound (jb_chainId job) (Some (bt_gas tx)) (ev_serialize e (jb_chainId job) tx)
                  l1 operator scalar constant of
             Inl err \<Rightarrow> throwS (EOther (baseFeeMessage err))
           | Inr b \<Rightarrow> returnS (bf_totalWei b))
      else liftS (l1Charge (jb_chainId job) (bt_gas tx) (maxFeePerGas (reserveFees job tx))))"

definition reserveCheck :: "Job \<Rightarrow> int \<Rightarrow> BuiltTx \<Rightarrow> wei \<Rightarrow> EngineError + unit" where
  "reserveCheck job i tx others =
     (if bt_value tx = 0
      then (let amount = bt_gas tx * maxFeePerGas (reserveFees job tx) + others
            in case validateFreeMintReserve amount amount
                      (freeMintReserveCapsForChain (cfg_chain (jb_cfg job)) (cfg_freeMintReserveCaps (jb_cfg job))) of
                 ReserveAllowed _ _ \<Rightarrow> Inr ()
               | ReserveRefused _ \<Rightarrow> Inl (refuseAt i INVALID_CONFIG ''reserve''))
      else Inr ())"

definition seaDropFamily :: "DropConfig \<Rightarrow> bool" where
  "seaDropFamily d \<longleftrightarrow> strategyName d = ''seadrop-v1-public'' \<or> strategyName d = ''seadrop-v1-allowlist''"

definition familyOf :: "DropConfig \<Rightarrow> FamilyContext" where
  "familyOf d = \<lparr>fc_nftContract = nftContract d, fc_feeRecipient = feePayer d\<rparr>"

definition intentOf :: "Job \<Rightarrow> address \<Rightarrow> BuiltTx \<Rightarrow> TransactionIntent" where
  "intentOf job addr tx =
     \<lparr>ti_chainId = jb_chainId job, ti_from = addr, ti_to = bt_to tx, ti_value = bt_value tx, ti_data = bt_data tx,
      ti_nonce = bt_nonce tx, ti_gasLimit = bt_gas tx, ti_maxFeePerGas = maxFeePerGas (bt_fees tx),
      ti_maxPriorityFeePerGas = maxPriorityFeePerGas (bt_fees tx), ti_accessList = None,
      ti_campaignId = cfg_campaignId (jb_cfg job), ti_runId = Some (jb_runId job),
      ti_policyRef = Some (case cfg_policyRef (jb_cfg job) of None \<Rightarrow> ''phase-1'' | Some p \<Rightarrow> p), ti_evidenceRef = None,
      ti_familyContext = (if seaDropFamily (jb_drop job) then Some (familyOf (jb_drop job)) else None)\<rparr>"

definition reserveRequest :: "Job \<Rightarrow> int \<Rightarrow> address \<Rightarrow> BuiltTx \<Rightarrow> wei \<Rightarrow> ReserveInput" where
  "reserveRequest job i addr tx others =
     (let fees = reserveFees job tx
      in \<lparr>ri_idempotencyKey = bt_intentId tx @ '':reservation'', ri_chainId = jb_chainId job, ri_walletIndex = i,
          ri_address = addr, ri_valueWei = bt_value tx, ri_maxGasCostWei = bt_gas tx * maxFeePerGas fees,
          ri_campaignId = reservationCampaignId (cfg_campaignId (jb_cfg job)) (cfg_contract (jb_cfg job)),
          ri_runId = jb_runId job, ri_executionId = bt_executionId tx, ri_transactionIntentId = bt_intentId tx,
          ri_mintValueWei = bt_value tx, ri_l2ExecutionGasWei = bt_gas tx * maxFeePerGas fees,
          ri_l1DataGasWei = others, ri_priorityFeeComponentWei = maxPriorityFeePerGas fees,
          ri_replacementBudgetWei = replacementPriorityBudget (maxPriorityFeePerGas fees),
          ri_freeMint = (bt_value tx = 0)\<rparr>)"

definition amountsOf :: "ReserveInput \<Rightarrow> ReservationRequestAmounts" where
  "amountsOf q = \<lparr>ra_valueWei = ri_valueWei q, ra_maxGasCostWei = ri_maxGasCostWei q,
     ra_mintValueWei = ri_mintValueWei q, ra_l2ExecutionGasWei = ri_l2ExecutionGasWei q\<rparr>"

definition canReconfirm :: "'x EngineEnv \<Rightarrow> bool" where
  "canReconfirm e = (case ev_provider e of None \<Rightarrow> False | Some p \<Rightarrow> rp_reconfirm p)"

definition reconfirmS :: "'x EngineEnv \<Rightarrow> ReserveInput \<Rightarrow> ('x, unit) eng" where
  "reconfirmS e q = bindS (callS (ev_reconfirm e q)) (\<lambda>_. eventS (Reconfirmed q))"

text \<open>The callback that the signer may use before it signs for a bounded contract family.\<close>

definition assertReady :: "'x EngineEnv \<Rightarrow> Job \<Rightarrow> int \<Rightarrow> ReserveInput \<Rightarrow> ('x, unit) eng" where
  "assertReady e job i q =
     bindS (ensureS (canReconfirm e)
       (EOther (if strategyName (jb_drop job) = ''seadrop-v1-allowlist'' then ''TURNKEY_ALLOWLIST_RESERVATION_RECHECK_REQUIRED''
                else ''TURNKEY_PUBLIC_RESERVATION_RECHECK_REQUIRED''))) (\<lambda>_.
     bindS (reconfirmS e q) (\<lambda>_.
     bindS (killS e) (\<lambda>_.
     bindS (freshS job i) (\<lambda>_. policyS e job))))"

definition hasWalletProof :: "DropConfig \<Rightarrow> address \<Rightarrow> bool" where
  "hasWalletProof d addr =
     (case extra_at d ''walletProofs'' of
        JArr proofs \<Rightarrow> list_ex (\<lambda>p. case p of
            JObj kvs \<Rightarrow> (case map_of kvs ''wallet'' of Some (JStr w) \<Rightarrow> toLowerCase w = toLowerCase addr | _ \<Rightarrow> False)
          | _ \<Rightarrow> False) proofs
      | _ \<Rightarrow> False)"

text \<open>A request to the signer; with a family context it may first call \<^const>\<open>assertReady\<close>.\<close>

definition signerS :: "'x EngineEnv \<Rightarrow> Job \<Rightarrow> int \<Rightarrow> ReserveInput \<Rightarrow> bool \<Rightarrow> TransactionIntent \<Rightarrow> ('x, hex) eng" where
  "signerS e job i q callback intent =
     bindS (eventS (SignCall i intent)) (\<lambda>_.
     bindS (if callback
            then bindS (tellS (ev_signerAsksReady e)) (\<lambda>asks. if asks then assertReady e job i q else returnS ())
            else returnS ()) (\<lambda>_.
     callS (ev_sign e i intent)))"

definition signFirst :: "'x EngineEnv \<Rightarrow> Job \<Rightarrow> int \<Rightarrow> address \<Rightarrow> ReserveInput \<Rightarrow> TransactionIntent \<Rightarrow> ('x, hex) eng" where
  "signFirst e job i addr q intent =
     (if \<not> seaDropFamily (jb_drop job) then signerS e job i q False intent
      else if strategyName (jb_drop job) = ''seadrop-v1-allowlist'' \<and> \<not> hasWalletProof (jb_drop job) addr
      then throwS (EOther ''ALLOWLIST_OWN_WALLET_PROOF_REQUIRED'')
      else bindS (localsS (\<lambda>l. l\<lparr>familySigningContext := Some (familyOf (jb_drop job))\<rparr>)) (\<lambda>_.
           signerS e job i q True (intent\<lparr>ti_familyContext := Some (familyOf (jb_drop job))\<rparr>)))"

definition reserveS :: "'x EngineEnv \<Rightarrow> ReserveInput \<Rightarrow> ('x, string) eng" where
  "reserveS e q =
     bindS (eventS (ReserveCall q)) (\<lambda>_.
     bindS (callS (ev_reserve e q)) (\<lambda>rid.
     bindS (eventS (Reserved q rid)) (\<lambda>_. returnS rid)))"

definition signArgs :: "'x EngineEnv \<Rightarrow> Job \<Rightarrow> int \<Rightarrow> address \<Rightarrow> BuiltTx \<Rightarrow> ReserveInput \<Rightarrow>
   ('x engState, EngineError, string) SignArgs" where
  "signArgs e job i addr tx q =
     \<lparr>sa_intent = intentOf job addr tx, sa_request = amountsOf q, sa_reserve = reserveS e q,
      sa_sign = signFirst e job i addr q (intentOf job addr tx), sa_checkKill = killS e,
      sa_reservedMaxFeePerGas = map_option (\<lambda>p. maxFeePerGas (rp_ceiling p)) (jb_replacement job),
      sa_onReserved = (\<lambda>rid. localsS (\<lambda>l. l\<lparr>reservation := Some rid\<rparr>)), sa_raise = EMint\<rparr>"

text \<open>Everything from the fee quote to the signature: intent, gate, reservation, signing.\<close>

definition enterGateS :: "'x EngineEnv \<Rightarrow> int \<Rightarrow> ('x, unit) eng" where
  "enterGateS e i =
     bindS (tellS (ev_enterGate e)) (\<lambda>_.
     bindS (eventS EnteredGate) (\<lambda>_.
     bindS (localsS (\<lambda>l. l\<lparr>holdsGate := True\<rparr>)) (\<lambda>_.
     bindS (tellS (ev_killed e)) (\<lambda>killed.
     bindS (ensureS (killed = None) (refuseAt i KILLED ''Kill switch triggered before signing'')) (\<lambda>_.
     bindS (ensureS (ev_provider e \<noteq> None)
       (refuseAt i DURABLE_RESERVATION_REQUIRED ''Live execution requires a normalized durable reservation provider'')) (\<lambda>_.
     killS e))))))"

definition signStage :: "'x EngineEnv \<Rightarrow> Job \<Rightarrow> int \<Rightarrow> address \<Rightarrow> BuiltTx \<Rightarrow> ('x, ReserveInput \<times> hex) eng" where
  "signStage e job i addr tx =
     bindS (otherChargesS e job tx) (\<lambda>others.
     bindS (liftS (reserveCheck job i tx others)) (\<lambda>_.
     bindS (localsS (\<lambda>l. l\<lparr>executionId := Some (bt_executionId tx), transactionIntentId := Some (bt_intentId tx)\<rparr>)) (\<lambda>_.
     bindS (freshS job i) (\<lambda>_.
     bindS (killS e) (\<lambda>_.
     bindS (storeS e (ev_persistIntent e (bt_intentId tx) (intentOf job addr tx))
              (IntentStored (bt_intentId tx) (intentOf job addr tx))) (\<lambda>_.
     bindS (enterGateS e i) (\<lambda>_.
     let q = reserveRequest job i addr tx others
     in bindS (reserveThenSign (ev_codec e) (signArgs e job i addr tx q)) (\<lambda>(rid, signed).
        bindS (localsS (\<lambda>l. l\<lparr>reservation := Some rid\<rparr>)) (\<lambda>_.
        returnS (q, signed))))))))))"

section \<open>Broadcasting\<close>

text \<open>What the catch blocks read of an error.\<close>

definition errorText :: "EngineError \<Rightarrow> string" where
  "errorText err =
     (case err of
        EMint m \<Rightarrow> me_message m
      | EGate g \<Rightarrow> ge_code g
      | EReorged h _ \<Rightarrow> ''Receipt for '' @ h @ '' is no longer canonical''
      | EWatchTimeout h ms \<Rightarrow> ''Timeout waiting for receipt of '' @ h @ '' after '' @ show_int ms @ ''ms''
      | EOther msg \<Rightarrow> msg)"

definition maybeSubmitted :: "BroadcastResult \<Rightarrow> bool" where
  "maybeSubmitted r \<longleftrightarrow>
     ambiguous r = Some True \<or> classifyBroadcastResult r = Ambiguous \<or> classifyBroadcastResult r = Timeout"

definition hashOr :: "hash \<Rightarrow> BroadcastResult \<Rightarrow> hash" where
  "hashOr signedHash r = (if br_txHash r \<noteq> ''0x'' then br_txHash r else signedHash)"

definition broadcastS :: "'x EngineEnv \<Rightarrow> Job \<Rightarrow> int option \<Rightarrow> hex \<Rightarrow> ('x, BroadcastResult list) eng" where
  "broadcastS e job target signed =
     bindS (eventS (Broadcast signed)) (\<lambda>_.
     bindS (tellS (ev_network e)) (\<lambda>(net, relay).
     case broadcastBy net relay (ev_keccak e) target (jb_broadcaster job) [signed] of
       None \<Rightarrow> throwS (EOther ''broadcast rejected'')
     | Some results \<Rightarrow> bindS (eventS (Answered signed results)) (\<lambda>_. returnS results)))"

definition attemptRecord ::
  "string \<Rightarrow> BuiltTx \<Rightarrow> string \<Rightarrow> AttemptClass \<Rightarrow> hash option \<Rightarrow> string option \<Rightarrow> LifecycleAttemptRecord" where
  "attemptRecord aid tx ep cls h replaces =
     \<lparr>at_id = aid, at_executionId = bt_executionId tx, at_transactionIntentId = bt_intentId tx, at_endpoint = ep,
      at_responseClass = cls, at_txHash = h, at_nonce = bt_nonce tx, at_replacementOfId = replaces\<rparr>"

definition recordOf ::
  "address \<Rightarrow> BuiltTx \<Rightarrow> string option \<Rightarrow> hash option \<Rightarrow> ReconciliationState \<Rightarrow> string \<Rightarrow> LifecycleReconciliationRecord" where
  "recordOf addr tx aid h st src =
     \<lparr>rc_executionId = bt_executionId tx, rc_transactionAttemptId = aid, rc_txHash = h, rc_fromAddress = addr,
      rc_nonce = bt_nonce tx, rc_state = st, rc_source = src\<rparr>"

text \<open>The first answer that is, or may be, a submission gives the hash to look for.\<close>

definition noteSubmission :: "'x EngineEnv \<Rightarrow> hex \<Rightarrow> BroadcastResult list \<Rightarrow> ('x, unit) eng" where
  "noteSubmission e signed results =
     (case find (\<lambda>r. success r \<or> maybeSubmitted r) results of
        None \<Rightarrow> returnS ()
      | Some r \<Rightarrow> localsS (\<lambda>l. l\<lparr>submittedHash := Some (hashOr (ev_keccak e signed) r)\<rparr>))"

text \<open>A rejected call of the broadcaster: the signed hash is kept for recovery.\<close>

definition lostBroadcast :: "'x EngineEnv \<Rightarrow> int \<Rightarrow> address \<Rightarrow> BuiltTx \<Rightarrow> hex \<Rightarrow> EngineError \<Rightarrow> ('x, BroadcastResult list) eng" where
  "lostBroadcast e i addr tx signed err =
     bindS (localsS (\<lambda>l. l\<lparr>submittedHash := Some (ev_keccak e signed)\<rparr>)) (\<lambda>_.
     bindS (persistReconciliation e
              (recordOf addr tx (Some (bt_executionId tx @ '':attempt:signed'')) (Some (ev_keccak e signed)) RsAmbiguous ''broadcast'')) (\<lambda>_.
     throwS (case err of
         EMint m \<Rightarrow> EMint (m\<lparr>me_message := ev_redact e (me_message m)\<rparr>)
       | _ \<Rightarrow> refuseAt i PROVIDER_UNAVAILABLE (ev_redact e (errorText err)))))"

definition targetS :: "'x EngineEnv \<Rightarrow> Job \<Rightarrow> ('x, int option) eng" where
  "targetS e job =
     (if nameOf (jb_broadcaster job) = ''flashbots''
      then bindS (callS (ev_blockNumber e)) (\<lambda>n. returnS (Some (n + 1)))
      else returnS None)"

definition firstBroadcast :: "'x EngineEnv \<Rightarrow> Job \<Rightarrow> int \<Rightarrow> address \<Rightarrow> BuiltTx \<Rightarrow> hex \<Rightarrow> ('x, BroadcastResult list) eng" where
  "firstBroadcast e job i addr tx signed =
     catchS
       (bindS (targetS e job) (\<lambda>target.
        bindS (broadcastS e job target signed) (\<lambda>results.
        bindS (noteSubmission e signed results) (\<lambda>_. returnS results))))
       (lostBroadcast e i addr tx signed)"

text \<open>One row per answer of the broadcaster.\<close>

definition storeResult :: "'x EngineEnv \<Rightarrow> BuiltTx \<Rightarrow> nat \<times> BroadcastResult \<Rightarrow> ('x, unit) eng" where
  "storeResult e tx = (\<lambda>(k, r).
     let cls = classifyBroadcastResult r;
         aid = broadcastAttemptId (bt_executionId tx) k cls
     in bindS (localsS (\<lambda>l. l\<lparr>attemptIds := attemptIds l @ [aid]\<rparr>)) (\<lambda>_.
        persistAttempt e (attemptRecord aid tx (safeEndpointReference (endpoint r)) (AttemptResponse cls)
          (if br_txHash r \<noteq> ''0x'' then Some (br_txHash r) else None) None)))"

text \<open>
  What follows from the answers: a success is the submission that is watched, an answer that may have
  been a submission is recorded and stops the run, and otherwise nothing was submitted.
\<close>

definition selectSubmission :: "'x EngineEnv \<Rightarrow> int \<Rightarrow> address \<Rightarrow> BuiltTx \<Rightarrow> hex \<Rightarrow> BroadcastResult list \<Rightarrow> ('x, hash) eng" where
  "selectSubmission e i addr tx signed results =
     (case selectBroadcastAttempt (bt_executionId tx) results of
        Some (k, aid, r) \<Rightarrow>
          bindS (localsS (\<lambda>l. l\<lparr>submittedHash := Some (br_txHash r), submissionAttemptId := Some aid\<rparr>)) (\<lambda>_.
          bindS (tellS (ev_consumeNonce e addr)) (\<lambda>_.
          bindS (eventS (ConsumedNonce addr)) (\<lambda>_. returnS (br_txHash r))))
      | None \<Rightarrow>
          (case findIndex maybeSubmitted results of
             Some k \<Rightarrow>
               let r = results ! k;
                   aid = broadcastAttemptId (bt_executionId tx) k (classifyBroadcastResult r);
                   h = hashOr (ev_keccak e signed) r
               in bindS (localsS (\<lambda>l. l\<lparr>submittedHash := Some h, submissionAttemptId := Some aid\<rparr>)) (\<lambda>_.
                  bindS (tellS (ev_consumeNonce e addr)) (\<lambda>_.
                  bindS (eventS (ConsumedNonce addr)) (\<lambda>_.
                  bindS (persistReconciliation e (recordOf addr tx (Some aid) (Some h) RsAmbiguous ''broadcast'')) (\<lambda>_.
                  throwS (refuseAt i AMBIGUOUS_SUBMISSION ''Broadcast outcome is ambiguous'')))))
           | None \<Rightarrow> throwS (refuseAt i RPC_ERROR ''All broadcast endpoints failed'')))"

definition broadcastStage :: "'x EngineEnv \<Rightarrow> Job \<Rightarrow> int \<Rightarrow> address \<Rightarrow> BuiltTx \<Rightarrow> hex \<Rightarrow> ('x, hash) eng" where
  "broadcastStage e job i addr tx signed =
     bindS (tellS (ev_killed e)) (\<lambda>killed.
     bindS (ensureS (killed = None) (refuseAt i KILLED ''Kill switch triggered before broadcast'')) (\<lambda>_.
     bindS (firstBroadcast e job i addr tx signed) (\<lambda>results.
     bindS (killS e) (\<lambda>_.
     bindS (forEachS (enumerate 0 results) (storeResult e tx)) (\<lambda>_.
     bindS (leaveGate e) (\<lambda>_.
     bindS (localsS (\<lambda>l. l\<lparr>holdsGate := False\<rparr>)) (\<lambda>_.
     selectSubmission e i addr tx signed results)))))))"

definition sendStage :: "'x EngineEnv \<Rightarrow> Job \<Rightarrow> int \<Rightarrow> address \<Rightarrow> BuiltTx \<Rightarrow> hex \<Rightarrow> ('x, hash) eng" where
  "sendStage e job i addr tx signed =
     (let signedId = bt_executionId tx @ '':attempt:signed''
      in bindS (localsS (\<lambda>l. l\<lparr>attemptIds := [signedId]\<rparr>)) (\<lambda>_.
         bindS (persistAttempt e (attemptRecord signedId tx ''signer'' AttemptSigned (Some (ev_keccak e signed)) None)) (\<lambda>_.
         broadcastStage e job i addr tx signed)))"

section \<open>The replacement ladder of a wallet\<close>

definition isReceiptNotFound :: "string \<times> string \<Rightarrow> bool" where
  "isReceiptNotFound = (\<lambda>(name, message).
     name = ''TransactionReceiptNotFoundError'' \<or> containsText ''could not be found'' (toLowerCase message))"

fun probeHashes :: "'x EngineEnv \<Rightarrow> hash list \<Rightarrow> ('x, hash option) eng" where
  "probeHashes e [] = returnS None"
| "probeHashes e (h # hs) =
     bindS (tellS (ev_probeReceipt e h)) (\<lambda>answer.
     case answer of
       Inr _ \<Rightarrow> returnS (Some h)
     | Inl err \<Rightarrow> if isReceiptNotFound err then probeHashes e hs else throwS (EOther (snd err)))"

fun showErrorType :: "MintErrorType \<Rightarrow> string" where
  "showErrorType NONCE_TOO_LOW = ''NONCE_TOO_LOW''"
| "showErrorType INSUFFICIENT_FUNDS = ''INSUFFICIENT_FUNDS''"
| "showErrorType EXECUTION_REVERTED = ''EXECUTION_REVERTED''"
| "showErrorType RPC_ERROR = ''RPC_ERROR''"
| "showErrorType TIMEOUT = ''TIMEOUT''"
| "showErrorType ALREADY_KNOWN = ''ALREADY_KNOWN''"
| "showErrorType KILLED = ''KILLED''"
| "showErrorType SPEND_CAP_EXCEEDED = ''SPEND_CAP_EXCEEDED''"
| "showErrorType DROP_NOT_ACTIVE = ''DROP_NOT_ACTIVE''"
| "showErrorType SIMULATION_FAILED = ''SIMULATION_FAILED''"
| "showErrorType CHAIN_NOT_VERIFIED = ''CHAIN_NOT_VERIFIED''"
| "showErrorType INVALID_CONFIG = ''INVALID_CONFIG''"
| "showErrorType UNKNOWN = ''UNKNOWN''"
| "showErrorType PAID_ROBINHOOD_BLOCKED = ''PAID_ROBINHOOD_BLOCKED''"
| "showErrorType CHAIN_EXECUTION_DISABLED = ''CHAIN_EXECUTION_DISABLED''"
| "showErrorType DURABLE_RESERVATION_REQUIRED = ''DURABLE_RESERVATION_REQUIRED''"
| "showErrorType AMBIGUOUS_SUBMISSION = ''AMBIGUOUS_SUBMISSION''"
| "showErrorType DROPPED_TRANSACTION = ''DROPPED_TRANSACTION''"
| "showErrorType REORGED_TRANSACTION = ''REORGED_TRANSACTION''"
| "showErrorType STALE_SIMULATION = ''STALE_SIMULATION''"
| "showErrorType TIMING_GATE = ''TIMING_GATE''"
| "showErrorType PROVIDER_UNAVAILABLE = ''PROVIDER_UNAVAILABLE''"

text \<open>The checks before a replacement; \<open>Some\<close> is the refusal the source returns.\<close>

definition simulationRefusal :: "'x EngineEnv \<Rightarrow> int \<Rightarrow> address \<Rightarrow> ('x, string option) eng" where
  "simulationRefusal e i addr =
     bindS (tellS (ev_simulationReads e)) (\<lambda>(calldata, block, call).
     bindS timeS (\<lambda>t.
     returnS (case simulateMint calldata block call addr i (jint t) of
         Inl _ \<Rightarrow> Some ''REPLACEMENT_SIMULATION_FAILED''
       | Inr s \<Rightarrow> (if sim_success s then None else Some ''REPLACEMENT_SIMULATION_FAILED''))))"

definition changeRefusal :: "'x EngineEnv \<Rightarrow> Job \<Rightarrow> ('x, string option) eng" where
  "changeRefusal e job =
     catchS (bindS (recheckS e job) (\<lambda>change.
             returnS (map_option (\<lambda>c. ''CAMPAIGN_CHANGED_MID_RUN: '' @ c) (changeText change))))
            (\<lambda>_. returnS None)"

definition gateRefusal :: "'x EngineEnv \<Rightarrow> ReserveInput \<Rightarrow> ('x, string option) eng" where
  "gateRefusal e q =
     (if \<not> canReconfirm e then returnS (Some ''REPLACEMENT_GATE_UNAVAILABLE'')
      else catchS (bindS (reconfirmS e q) (\<lambda>_. returnS None))
             (\<lambda>err. returnS (Some (''REPLACEMENT_GATE_REFUSED: '' @ take 80 (ev_redact e (errorText err))))))"

definition policyRefusal :: "'x EngineEnv \<Rightarrow> Job \<Rightarrow> ('x, string option) eng" where
  "policyRefusal e job =
     catchS (bindS (killS e) (\<lambda>_. bindS (policyS e job) (\<lambda>_. returnS None)))
       (\<lambda>err. returnS (Some (case err of EMint m \<Rightarrow> showErrorType (me_type m) | _ \<Rightarrow> ''REPLACEMENT_NOT_PERMITTED'')))"

definition orElse :: "('x, string option) eng \<Rightarrow> ('x, string option) eng \<Rightarrow> ('x, string option) eng" where
  "orElse a b = bindS a (\<lambda>r. case r of Some why \<Rightarrow> returnS (Some why) | None \<Rightarrow> b)"

definition preCheckS :: "'x EngineEnv \<Rightarrow> Job \<Rightarrow> int \<Rightarrow> address \<Rightarrow> ReserveInput \<Rightarrow> ('x, string option) eng" where
  "preCheckS e job i addr q =
     orElse (policyRefusal e job) (orElse (gateRefusal e q) (orElse (changeRefusal e job) (simulationRefusal e i addr)))"

definition replacementIntent :: "TransactionIntent \<Rightarrow> Fees \<Rightarrow> FamilyContext option \<Rightarrow> TransactionIntent" where
  "replacementIntent intent next family =
     (let i = intent\<lparr>ti_maxFeePerGas := maxFeePerGas next, ti_maxPriorityFeePerGas := maxPriorityFeePerGas next\<rparr>
      in case family of None \<Rightarrow> i | Some c \<Rightarrow> i\<lparr>ti_familyContext := Some c\<rparr>)"

definition prepareBody ::
  "'x EngineEnv \<Rightarrow> Job \<Rightarrow> int \<Rightarrow> address \<Rightarrow> BuiltTx \<Rightarrow> ReserveInput \<Rightarrow> Fees \<Rightarrow> Fees \<Rightarrow> jsnum \<Rightarrow> string \<Rightarrow>
   ('x, PreparedReplacement) eng" where
  "prepareBody e job i addr tx q c next bump replaces =
     bindS (killS e) (\<lambda>_.
     bindS (if canReconfirm e then reconfirmS e q else returnS ()) (\<lambda>_.
     bindS (ensureS (\<not> (maxFeePerGas next > maxFeePerGas c \<or> maxPriorityFeePerGas next > maxPriorityFeePerGas c))
              (EOther ''REPLACEMENT_ABOVE_CEILING'')) (\<lambda>_.
     bindS (readS familySigningContext) (\<lambda>family.
     let intent = replacementIntent (intentOf job addr tx) next family;
         signedId = bt_executionId tx @ '':attempt:replacement-'' @ show_int (js_int bump) @ '':signed''
     in bindS (signerS e job i q (family \<noteq> None) intent) (\<lambda>signed.
        bindS (killS e) (\<lambda>_.
        bindS (liftS (case assertSignedMatchesIntent (ev_codec e) signed intent of Inl m \<Rightarrow> Inl (EMint m) | Inr u \<Rightarrow> Inr u)) (\<lambda>_.
        let h = ev_keccak e signed
        in bindS (persistAttempt e (attemptRecord signedId tx ''signer'' AttemptSigned (Some h) (Some replaces))) (\<lambda>_.
           bindS (localsS (\<lambda>l. l\<lparr>attemptIds := attemptIds l @ [signedId],
                    attemptHashes := AList.update signedId h (attemptHashes l),
                    attemptReplacements := AList.update signedId replaces (attemptReplacements l),
                    acceptedAttemptByHash := AList.update (toLowerCase h) signedId (acceptedAttemptByHash l)\<rparr>)) (\<lambda>_.
           returnS \<lparr>signedTx = signed, pr_hash = h, pr_attemptId = signedId\<rparr>)))))))))"

text \<open>Signing takes place inside the admission gate, which is left again when it fails.\<close>

definition prepareS ::
  "'x EngineEnv \<Rightarrow> Job \<Rightarrow> int \<Rightarrow> address \<Rightarrow> BuiltTx \<Rightarrow> ReserveInput \<Rightarrow> Fees \<Rightarrow> Fees \<Rightarrow> jsnum \<Rightarrow> string \<Rightarrow>
   ('x, PreparedReplacement) eng" where
  "prepareS e job i addr tx q c next bump replaces =
     bindS (tellS (ev_enterGate e)) (\<lambda>_.
     bindS (eventS EnteredGate) (\<lambda>_.
     bindS (localsS (\<lambda>l. l\<lparr>gateRelease := True\<rparr>)) (\<lambda>_.
     catchS (prepareBody e job i addr tx q c next bump replaces)
       (\<lambda>err. bindS (localsS (\<lambda>l. l\<lparr>gateRelease := False\<rparr>)) (\<lambda>_. bindS (leaveGate e) (\<lambda>_. throwS err))))))"

definition storeReplacement ::
  "'x EngineEnv \<Rightarrow> BuiltTx \<Rightarrow> PreparedReplacement \<Rightarrow> string \<Rightarrow> string \<Rightarrow> nat \<times> BroadcastResult \<Rightarrow> ('x, unit) eng" where
  "storeReplacement e tx p sentId replaces = (\<lambda>(k, r).
     let cls = classifyBroadcastResult r;
         aid = broadcastAttemptId sentId k cls
     in bindS (persistAttempt e (attemptRecord aid tx (safeEndpointReference (endpoint r)) (AttemptResponse cls)
          (Some (pr_hash p)) (Some replaces))) (\<lambda>_.
        localsS (\<lambda>l. l\<lparr>attemptIds := attemptIds l @ [aid],
          attemptHashes := AList.update aid (pr_hash p) (attemptHashes l),
          attemptReplacements := AList.update aid replaces (attemptReplacements l)\<rparr>)))"

definition sendBody ::
  "'x EngineEnv \<Rightarrow> Job \<Rightarrow> BuiltTx \<Rightarrow> PreparedReplacement \<Rightarrow> jsnum \<Rightarrow> string \<Rightarrow> ('x, SendOutcome) eng" where
  "sendBody e job tx p bump replaces =
     (let sentId = bt_executionId tx @ '':replacement-'' @ show_int (js_int bump)
      in bindS (killS e) (\<lambda>_.
         bindS (broadcastS e job None (signedTx p)) (\<lambda>results.
         bindS (forEachS (enumerate 0 results) (storeReplacement e tx p sentId replaces)) (\<lambda>_.
         bindS (localsS (\<lambda>l. l\<lparr>acceptedAttemptByHash := AList.update (toLowerCase (pr_hash p))
                  (case selectBroadcastAttempt sentId results of Some (k, aid, r) \<Rightarrow> aid | None \<Rightarrow> pr_attemptId p)
                  (acceptedAttemptByHash l)\<rparr>)) (\<lambda>_.
         returnS (if list_ex success results then SendAccepted
                  else if list_ex maybeSubmitted results then SendAmbiguous else SendRejected))))))"

definition finallyLeave :: "'x EngineEnv \<Rightarrow> ('x, unit) eng" where
  "finallyLeave e =
     bindS (readS gateRelease) (\<lambda>held.
     bindS (localsS (\<lambda>l. l\<lparr>gateRelease := False\<rparr>)) (\<lambda>_.
     if held then leaveGate e else returnS ()))"

definition sendS ::
  "'x EngineEnv \<Rightarrow> Job \<Rightarrow> BuiltTx \<Rightarrow> PreparedReplacement \<Rightarrow> jsnum \<Rightarrow> string \<Rightarrow> ('x, SendOutcome) eng" where
  "sendS e job tx p bump replaces =
     bindS (catchS (sendBody e job tx p bump replaces) (\<lambda>err. bindS (finallyLeave e) (\<lambda>_. throwS err)))
       (\<lambda>outcome. bindS (finallyLeave e) (\<lambda>_. returnS outcome))"

text \<open>The ladder does not look at the errors of its dependencies.\<close>

definition anyError :: "('s, 'e, 'a) eff \<Rightarrow> 's \<Rightarrow> (unit + 'a) \<times> 's" where
  "anyError m s = (case m s of (Inl _, s') \<Rightarrow> (Inl (), s') | (Inr x, s') \<Rightarrow> (Inr x, s'))"

definition nonceS :: "'x EngineEnv \<Rightarrow> address \<Rightarrow> BuiltTx \<Rightarrow> ('x, NonceState) eng" where
  "nonceS e addr tx =
     bindS (callS (ev_latestCount e addr)) (\<lambda>n. returnS (if n > bt_nonce tx then NonceConsumed else NonceFree))"

definition ladderDeps ::
  "'x EngineEnv \<Rightarrow> Job \<Rightarrow> int \<Rightarrow> address \<Rightarrow> BuiltTx \<Rightarrow> ReserveInput \<Rightarrow> ReplacementPlan \<Rightarrow> 'x engState LadderDeps" where
  "ladderDeps e job i addr tx q plan =
     \<lparr>now = (\<lambda>s. (clock (fst s), s)),
      sleep = (\<lambda>ms s. snd ((worldS (sleepS (ev_timer e) ms) :: ('x, unit) eng) s)),
      findMinedHash = (\<lambda>hs. anyError (probeHashes e hs)),
      nonceState = anyError (nonceS e addr tx),
      preChecks = (\<lambda>s. case preCheckS e job i addr q s of (Inl _, s') \<Rightarrow> (None, s') | (Inr r, s') \<Rightarrow> (r, s')),
      prepare = (\<lambda>next bump replaces. anyError (prepareS e job i addr tx q (rp_ceiling plan) next bump replaces)),
      send = (\<lambda>p bump replaces. anyError (sendS e job tx p bump replaces))\<rparr>"

definition ladderInput :: "ReplacementPlan \<Rightarrow> BuiltTx \<Rightarrow> hash \<Rightarrow> string \<Rightarrow> int \<Rightarrow> LadderInput" where
  "ladderInput plan tx firstHash attemptId t =
     \<lparr>li_attempts = [\<lparr>la_hash = firstHash, la_attemptId = attemptId, la_fees = bt_fees tx\<rparr>],
      li_maxBumps = rp_maxBumps plan, li_ceiling = rp_ceiling plan, stuckAfterMs = rp_stuckAfterMs plan,
      pollMs = 1000, li_lastSentAt = t\<rparr>"

text \<open>The hashes to watch afterwards and the winner the ladder saw; a ladder starts once per execution.\<close>

definition ladderStage ::
  "'x EngineEnv \<Rightarrow> Job \<Rightarrow> int \<Rightarrow> address \<Rightarrow> BuiltTx \<Rightarrow> ReserveInput \<Rightarrow> hash \<Rightarrow> 'x engState \<Rightarrow>
   ((hash list \<times> hash option) \<times> 'x engState) option" where
  "ladderStage e job i addr tx q firstHash = (\<lambda>(w, l0).
     let l = l0\<lparr>acceptedAttemptByHash := [(toLowerCase firstHash,
                  case submissionAttemptId l0 of Some aid \<Rightarrow> aid | None \<Rightarrow> attemptIds l0 ! 0)]\<rparr>
     in case jb_replacement job of
          None \<Rightarrow> Some (([firstHash], None), (w, l))
        | Some plan \<Rightarrow>
            if bt_executionId tx \<in> set (laddersStarted l) then Some (([firstHash], None), (w, l))
            else
              let l' = l\<lparr>laddersStarted := bt_executionId tx # laddersStarted l,
                         attemptHashes := fold (\<lambda>aid. AList.update aid firstHash) (attemptIds l) (attemptHashes l)\<rparr>
              in map_option (\<lambda>(r, s). ((map la_hash (lr_attempts r), winner r), s))
                   (runReplacementLadder (ladderInput plan tx firstHash (attemptIds l ! 0) (clock w))
                      (ladderDeps e job i addr tx q plan) (w, l')))"

section \<open>The receipt and the result\<close>

definition watchFailure :: "WatchError \<Rightarrow> EngineError" where
  "watchFailure err =
     (case err of
        ReceiptReorgedError h b \<Rightarrow> EReorged h b
      | ReceiptTimeoutError h ms \<Rightarrow> EWatchTimeout h ms
      | WatchMessage msg \<Rightarrow> EOther msg)"

definition watchOne :: "'x EngineEnv \<Rightarrow> int \<Rightarrow> hash \<Rightarrow> 'x engState \<Rightarrow> ((EngineError + MintReceipt) \<times> 'x engState) option" where
  "watchOne e depth h = (\<lambda>(w, l).
     map_option (\<lambda>(r, w'). ((case r of Inl err \<Rightarrow> Inl (watchFailure err) | Inr m \<Rightarrow> Inr m), (w', l)))
       (waitForReceipt (ev_watcher e) h depth w))"

text \<open>\<^verbatim>\<open>Promise.any\<close>: the first receipt, or the error of the first watcher when all of them fail.\<close>

fun anyReceipt ::
  "'x EngineEnv \<Rightarrow> int \<Rightarrow> EngineError option \<Rightarrow> hash list \<Rightarrow> 'x engState \<Rightarrow>
   ((EngineError + MintReceipt) \<times> 'x engState) option" where
  "anyReceipt e depth first [] s =
     Some (Inl (case first of None \<Rightarrow> EOther ''AggregateError'' | Some err \<Rightarrow> err), s)"
| "anyReceipt e depth first (h # hs) s =
     (case watchOne e depth h s of
        None \<Rightarrow> None
      | Some (Inr receipt, s') \<Rightarrow> Some (Inr receipt, s')
      | Some (Inl err, s') \<Rightarrow> anyReceipt e depth (case first of None \<Rightarrow> Some err | Some f \<Rightarrow> Some f) hs s')"

definition watchStage ::
  "'x EngineEnv \<Rightarrow> int \<Rightarrow> hash list \<Rightarrow> hash option \<Rightarrow> 'x engState \<Rightarrow> ((EngineError + MintReceipt) \<times> 'x engState) option" where
  "watchStage e depth watched winnerHint s =
     (if truthy winnerHint then watchOne e depth (the winnerHint) s
      else if length watched = 1 then watchOne e depth (watched ! 0) s
      else anyReceipt e depth None watched s)"

definition reconciliationStateOf :: "SubmissionDisposition \<Rightarrow> ReconciliationState" where
  "reconciliationStateOf d =
     (case d of Matched \<Rightarrow> RsMatched | DispAmbiguous \<Rightarrow> RsAmbiguous | Replaced _ \<Rightarrow> RsReplaced | Dropped \<Rightarrow> RsDropped
      | Reorged \<Rightarrow> RsReorged | Unresolved \<Rightarrow> RsUnresolved)"

definition receiptState :: "SubmissionDisposition \<Rightarrow> ReconciliationState" where
  "receiptState d = (case d of Matched \<Rightarrow> RsMatched | Reorged \<Rightarrow> RsReorged | _ \<Rightarrow> RsAmbiguous)"

definition authoritative :: "SupportedChainId \<Rightarrow> MintReceipt \<Rightarrow> bool" where
  "authoritative chainId r \<longleftrightarrow> chainId = Chain1 \<or> mr_finalityStage r = StEthereumFinal"

definition orZero :: "wei option \<Rightarrow> wei" where
  "orZero v = (case v of None \<Rightarrow> 0 | Some x \<Rightarrow> x)"

definition gasCost :: "MintReceipt \<Rightarrow> wei" where
  "gasCost r = mr_gasUsed r * mr_effectiveGasPrice r"

definition otherFees :: "MintReceipt \<Rightarrow> wei" where
  "otherFees r = orZero (mr_l1DataFeeWei r) + orZero (mr_operatorFeeWei r)"

definition paidValue :: "BuiltTx \<Rightarrow> MintReceipt \<Rightarrow> wei" where
  "paidValue tx r = (if mr_status r = ReceiptSuccess then bt_value tx else 0)"

definition receiptRow :: "Job \<Rightarrow> BuiltTx \<Rightarrow> string option \<Rightarrow> MintReceipt \<Rightarrow> LifecycleReceiptRecord" where
  "receiptRow job tx winnerId r =
     \<lparr>rr_id = bt_executionId tx @ '':receipt:'' @ mr_blockHash r, rr_executionId = bt_executionId tx,
      rr_transactionAttemptId = (case winnerId of Some aid \<Rightarrow> aid | None \<Rightarrow> bt_executionId tx @ '':attempt:signed''),
      rr_txHash = mr_txHash r,
      rr_status = (if mr_status r = ReceiptSuccess then (if authoritative (jb_chainId job) r then RowConfirmed else RowPending)
                   else RowReverted),
      rr_finalityStage = mr_finalityStage r\<rparr>"

definition settleS :: "'x EngineEnv \<Rightarrow> string \<Rightarrow> BuiltTx \<Rightarrow> MintReceipt \<Rightarrow> ('x, unit) eng" where
  "settleS e rid tx r =
     (case ev_settleComponents e of
        Some f \<Rightarrow>
          let c = (actualSettlementComponents (gasCost r) (otherFees r) (orZero (mr_priorityFeeComponentWei r)))
                    \<lparr>actualMintValueWei := paidValue tx r\<rparr>
          in bindS (eventS (SettleCall rid c)) (\<lambda>_. callS (f c))
      | None \<Rightarrow>
          bindS (eventS (SettlePlainCall rid (paidValue tx r) (gasCost r + otherFees r))) (\<lambda>_.
          callS (ev_settle e (paidValue tx r) (gasCost r + otherFees r))))"

definition noteWinner :: "hash list \<Rightarrow> string option \<Rightarrow> MintReceipt \<Rightarrow> Locals \<Rightarrow> Locals" where
  "noteWinner watched winnerId r l =
     (if length watched > 1
      then l\<lparr>submittedHash := Some (mr_txHash r), submissionAttemptId := winnerId,
             replacedAttemptIds := replacedAttemptIds l @
               map fst (filter (\<lambda>(aid, h). toLowerCase h \<noteq> toLowerCase (mr_txHash r)) (attemptHashes l))\<rparr>
      else l)"

definition finishResult :: "Job \<Rightarrow> int \<Rightarrow> address \<Rightarrow> BuiltTx \<Rightarrow> MintReceipt \<Rightarrow> ReconciliationState \<Rightarrow> Locals \<Rightarrow> WalletMintResult" where
  "finishResult job i addr tx r recon l =
     (let final = authoritative (jb_chainId job) r;
          status = (if mr_status r = ReceiptSuccess \<and> final then WSuccess
                    else if mr_status r = ReceiptReverted \<and> final then WFailed else WTimeout)
      in (walletResult i addr status
            (if mr_status r = ReceiptReverted
             then Some (if final then ''Transaction reverted on-chain'' else ''revert is pending Ethereum finality'')
             else if final then None else Some ''finality is pending Ethereum finality''))
         \<lparr>wr_txHash := Some (mr_txHash r), wr_nonce := Some (bt_nonce tx), wr_gasUsed := Some (mr_gasUsed r),
          wr_effectiveGasPrice := Some (mr_effectiveGasPrice r), wr_totalFeeWei := Some (gasCost r + otherFees r),
          wr_totalCostWei := Some (gasCost r + otherFees r + paidValue tx r), wr_executionId := Some (bt_executionId tx),
          wr_reservationId := reservation l, wr_attemptIds := attemptIds l,
          wr_submittedAttemptId := submissionAttemptId l,
          wr_lifecycleState := Some (lifecycleStateForFinality (jb_chainId job) (mr_finalityStage r) (mr_status r)),
          wr_reconciliationState := Some recon\<rparr>)"

definition finishStage ::
  "'x EngineEnv \<Rightarrow> Job \<Rightarrow> int \<Rightarrow> address \<Rightarrow> BuiltTx \<Rightarrow> hex \<Rightarrow> hash list \<Rightarrow> MintReceipt \<Rightarrow> ('x, WalletMintResult) eng" where
  "finishStage e job i addr tx signed watched r =
     bindS (readS (\<lambda>l. case map_of (acceptedAttemptByHash l) (toLowerCase (mr_txHash r)) of
                         Some aid \<Rightarrow> Some aid | None \<Rightarrow> submissionAttemptId l)) (\<lambda>winnerId.
     bindS (localsS (noteWinner watched winnerId r)) (\<lambda>_.
     let disposition = reconcileByHashAndNonce
           \<lparr>originalHash = Some (ev_keccak e signed), ownHashes = Some watched, observedHash = Some (mr_txHash r),
            receiptVisible = True, receiptStatus = Some (mr_status r), receiptCanonical = Some True,
            nonceConsumedByDifferentHash = None, dropped = None\<rparr>;
         recon = receiptState disposition;
         row = receiptRow job tx winnerId r
     in bindS (storeS e (ev_persistReceipt e row) (ReceiptStored row)) (\<lambda>_.
        bindS (persistReconciliation e (recordOf addr tx winnerId (Some (mr_txHash r)) recon ''receipt-watcher'')) (\<lambda>_.
        bindS (readS reservation) (\<lambda>rid.
        bindS (if shouldSettleReceipt (jb_chainId job) (mr_status r) (mr_finalityStage r)
               then (case rid of None \<Rightarrow> throwS (EOther ''TypeError'') | Some x \<Rightarrow> settleS e x tx r)
               else returnS ()) (\<lambda>_.
        readS (finishResult job i addr tx r recon)))))))"

section \<open>Recovery\<close>

definition lifecycleErrorType :: "string \<Rightarrow> MintErrorType" where
  "lifecycleErrorType code =
     (if code = ''SIMULATION_FAILED'' then SIMULATION_FAILED
      else if code = ''STALE_SIMULATION'' then STALE_SIMULATION
      else if code = ''TIMING_GATE'' then TIMING_GATE
      else if code = ''DURABLE_RESERVATION_REQUIRED'' \<or> code = ''DURABLE_LIFECYCLE_STORE_REQUIRED'' then DURABLE_RESERVATION_REQUIRED
      else if code = ''PAID_ROBINHOOD_BLOCKED'' then PAID_ROBINHOOD_BLOCKED
      else if code = ''CHAIN_4663_EXECUTION_DISABLED'' \<or> code = ''CHAIN_8453_EXECUTION_DISABLED''
              \<or> code = ''PAID_BASE_BLOCKED'' then CHAIN_EXECUTION_DISABLED
      else if code = ''AMBIGUOUS_SUBMISSION'' then AMBIGUOUS_SUBMISSION
      else INVALID_CONFIG)"

definition mintErrorOf :: "int \<Rightarrow> EngineError \<Rightarrow> MintError" where
  "mintErrorOf i err =
     (case err of
        EMint m \<Rightarrow> m
      | EReorged _ _ \<Rightarrow> \<lparr>me_type = REORGED_TRANSACTION, me_message = errorText err, me_walletIndex = Some i\<rparr>
      | EWatchTimeout _ _ \<Rightarrow> \<lparr>me_type = TIMEOUT, me_message = errorText err, me_walletIndex = Some i\<rparr>
      | EGate g \<Rightarrow> \<lparr>me_type = lifecycleErrorType (ge_code g), me_message = errorText err, me_walletIndex = Some i\<rparr>
      | EOther _ \<Rightarrow> \<lparr>me_type = UNKNOWN, me_message = errorText err, me_walletIndex = Some i\<rparr>)"

definition isReorg :: "EngineError \<Rightarrow> bool" where
  "isReorg err = (case err of EReorged _ _ \<Rightarrow> True | _ \<Rightarrow> False)"

definition releaseS :: "'x EngineEnv \<Rightarrow> ('x, unit) eng" where
  "releaseS e =
     bindS (readS (\<lambda>l. (submittedHash l, reservation l))) (\<lambda>(h, rid).
     if truthy h then returnS ()
     else case rid of
       None \<Rightarrow> returnS ()
     | Some x \<Rightarrow> bindS (eventS (ReleaseCall x)) (\<lambda>_. callS (ev_release e)))"

definition unresolvedDisposition :: "EngineError \<Rightarrow> Locals \<Rightarrow> bool \<Rightarrow> SubmissionDisposition" where
  "unresolvedDisposition err l consumed =
     (if isReorg err then Reorged
      else reconcileByHashAndNonce
        \<lparr>originalHash = submittedHash l,
         ownHashes = (if length (remdups (map (toLowerCase \<circ> snd) (attemptHashes l))) > 1
                      then Some (the (submittedHash l) # map snd (attemptHashes l)) else None),
         observedHash = submittedHash l, receiptVisible = False, receiptStatus = None, receiptCanonical = None,
         nonceConsumedByDifferentHash = Some consumed, dropped = None\<rparr>)"

definition recoveryRecord :: "address \<Rightarrow> MintError \<Rightarrow> SubmissionDisposition \<Rightarrow> Locals \<Rightarrow> LifecycleReconciliationRecord" where
  "recoveryRecord addr m d l =
     \<lparr>rc_executionId = the (executionId l),
      rc_transactionAttemptId = (case submissionAttemptId l of
          Some aid \<Rightarrow> Some aid | None \<Rightarrow> (if attemptIds l = [] then None else Some (last (attemptIds l)))),
      rc_txHash = submittedHash l, rc_fromAddress = addr, rc_nonce = the (builtNonce l), rc_state = reconciliationStateOf d,
      rc_source = (if me_type m = AMBIGUOUS_SUBMISSION then ''broadcast'' else ''receipt-watcher'')\<rparr>"

text \<open>What was found out about a transaction that may still be mined: its disposition and a failure to store it.\<close>

definition reconcileS :: "'x EngineEnv \<Rightarrow> int \<Rightarrow> address \<Rightarrow> EngineError \<Rightarrow> ('x, (SubmissionDisposition \<times> string option) option) eng" where
  "reconcileS e i addr err =
     bindS (readS id) (\<lambda>l.
     if truthy (submittedHash l) \<and> truthy (executionId l) \<and> builtNonce l \<noteq> None
     then
       bindS (if isReorg err then returnS False
              else catchS (bindS (callS (ev_pendingCount e addr)) (\<lambda>n. returnS (n > the (builtNonce l)))) (\<lambda>_. returnS False))
         (\<lambda>consumed.
       let d = unresolvedDisposition err l consumed
       in catchS (bindS (persistReconciliation e (recoveryRecord addr (mintErrorOf i err) d l)) (\<lambda>_. returnS (Some (d, None))))
            (\<lambda>perr. returnS (Some (d, Some (ev_redact e (errorText perr))))))
     else returnS None)"

definition recoverResult ::
  "int \<Rightarrow> address \<Rightarrow> MintError \<Rightarrow> (SubmissionDisposition \<times> string option) option \<Rightarrow> Locals \<Rightarrow> WalletMintResult" where
  "recoverResult i addr m recovery l =
     (let submitted = truthy (submittedHash l);
          recon = (case recovery of None \<Rightarrow> RsAmbiguous | Some (d, _) \<Rightarrow> reconciliationStateOf d);
          text = (case recovery of
              Some (_, Some perr) \<Rightarrow> me_message m @ ''; recovery persistence failed: '' @ perr
            | _ \<Rightarrow> me_message m)
      in (walletResult i addr (if submitted then WTimeout else WFailed) (Some text))
         \<lparr>wr_txHash := (if submitted then submittedHash l else None), wr_nonce := builtNonce l,
          wr_executionId := (if truthy (executionId l) then executionId l else None), wr_reservationId := reservation l,
          wr_attemptIds := attemptIds l,
          wr_submittedAttemptId := (if truthy (submissionAttemptId l) then submissionAttemptId l else None),
          wr_lifecycleState := (if \<not> submitted then None
             else Some (if recon = RsReorged then LcReorged else if recon = RsReplaced then LcReplaced
                        else if recon = RsDropped then LcDropped else LcSubmitted)),
          wr_reconciliationState := (if submitted then Some recon else None)\<rparr>)"

definition recoverStage :: "'x EngineEnv \<Rightarrow> int \<Rightarrow> address \<Rightarrow> EngineError \<Rightarrow> ('x, WalletMintResult) eng" where
  "recoverStage e i addr err =
     bindS (readS holdsGate) (\<lambda>held.
     bindS (if held then leaveGate e else returnS ()) (\<lambda>_.
     bindS (releaseS e) (\<lambda>_.
     bindS (reconcileS e i addr err) (\<lambda>recovery.
     readS (recoverResult i addr (mintErrorOf i err) recovery)))))"

section \<open>The run of a wallet\<close>

definition submitStage ::
  "'x EngineEnv \<Rightarrow> Job \<Rightarrow> int \<Rightarrow> address \<Rightarrow> BuiltTx \<Rightarrow> ('x, (BuiltTx \<times> ReserveInput \<times> hex \<times> hash) Stage) eng" where
  "submitStage e job i addr tx =
     bindS (signStage e job i addr tx) (\<lambda>(q, signed).
     bindS (sendStage e job i addr tx signed) (\<lambda>firstHash.
     returnS (Go (tx, q, signed, firstHash))))"

definition firstPart ::
  "'x EngineEnv \<Rightarrow> Job \<Rightarrow> int \<Rightarrow> address \<Rightarrow> int \<Rightarrow> ('x, (BuiltTx \<times> ReserveInput \<times> hex \<times> hash) Stage) eng" where
  "firstPart e job i addr startOffsetMs =
     bindS (gateStage e job i addr startOffsetMs) (\<lambda>g.
     case g of
       Finished r \<Rightarrow> returnS (Finished r)
     | Go _ \<Rightarrow>
         bindS (buildStage e job i addr) (\<lambda>b.
         case b of Finished r \<Rightarrow> returnS (Finished r) | Go tx \<Rightarrow> submitStage e job i addr tx))"

definition secondPart ::
  "'x EngineEnv \<Rightarrow> Job \<Rightarrow> int \<Rightarrow> address \<Rightarrow> BuiltTx \<times> ReserveInput \<times> hex \<times> hash \<Rightarrow> 'x engState \<Rightarrow>
   ((EngineError + WalletMintResult) \<times> 'x engState) option" where
  "secondPart e job i addr = (\<lambda>(tx, q, signed, firstHash) s.
     case ladderStage e job i addr tx q firstHash s of
       None \<Rightarrow> None
     | Some ((watched, winnerHint), s2) \<Rightarrow>
         (case watchStage e (confirmationDepth (getChainConfig (jb_chainId job))) watched winnerHint s2 of
            None \<Rightarrow> None
          | Some (Inl err, s3) \<Rightarrow> Some (recoverStage e i addr err s3)
          | Some (Inr receipt, s3) \<Rightarrow>
              Some (catchS (finishStage e job i addr tx signed watched receipt) (recoverStage e i addr) s3)))"

definition walletBody ::
  "'x EngineEnv \<Rightarrow> Job \<Rightarrow> int \<Rightarrow> address \<Rightarrow> int \<Rightarrow> 'x engState \<Rightarrow> ((EngineError + WalletMintResult) \<times> 'x engState) option" where
  "walletBody e job i addr startOffsetMs s =
     (case firstPart e job i addr startOffsetMs s of
        (Inl err, s1) \<Rightarrow> Some (recoverStage e i addr err s1)
      | (Inr (Finished r), s1) \<Rightarrow> Some (Inr r, s1)
      | (Inr (Go submitted), s1) \<Rightarrow> secondPart e job i addr submitted s1)"

text \<open>\<open>Inl\<close> is a rejected promise: the wallet was not found, or the catch block itself failed.\<close>

definition walletRun ::
  "'x EngineEnv \<Rightarrow> Job \<Rightarrow> int \<Rightarrow> int \<Rightarrow> 'x engState \<Rightarrow> ((EngineError + WalletMintResult) \<times> 'x engState) option" where
  "walletRun e job i startOffsetMs s =
     (case callS (ev_listWallets e) s of
        (Inl err, s1) \<Rightarrow> Some (Inl err, s1)
      | (Inr wallets, s1) \<Rightarrow>
          (case find (\<lambda>w. index w = i) wallets of
             None \<Rightarrow> Some (Inl (EOther (''Wallet index '' @ show_int i @ '' not found'')), s1)
           | Some info \<Rightarrow> walletBody e job i (wi_address info) startOffsetMs s1))"

section \<open>The results of a fleet\<close>

definition admittedLanes :: "FireLaneAssignment list \<Rightarrow> int list \<Rightarrow> FireLaneAssignment list" where
  "admittedLanes plan walletIndices = filter (\<lambda>a. fa_walletIndex a \<in> set (map jint walletIndices)) plan"

text \<open>\<^verbatim>\<open>Promise.allSettled\<close> over the admitted lanes, and the fallback for a rejected promise.\<close>

definition fleetResults :: "int list \<Rightarrow> (EngineError + WalletMintResult) list \<Rightarrow> WalletMintResult list" where
  "fleetResults walletIndices settled =
     map (\<lambda>(k, r). case r of
            Inr result \<Rightarrow> result
          | Inl err \<Rightarrow> walletResult (walletIndices ! k) ''0x'' WFailed (Some (errorText err)))
       (enumerate 0 settled)"

record MintJobResult =
  jr_walletResults :: "WalletMintResult list"
  jr_totalGasSpentWei :: wei
  jr_totalMintCostWei :: wei
  jr_successCount :: nat
  jr_failCount :: nat

definition spentOn :: "WalletMintResult \<Rightarrow> wei" where
  "spentOn r = (case wr_totalFeeWei r of Some v \<Rightarrow> v | None \<Rightarrow> orZero (wr_gasUsed r) * orZero (wr_effectiveGasPrice r))"

definition skippedResult :: "WalletInfo \<times> SkipReason \<Rightarrow> WalletMintResult" where
  "skippedResult = (\<lambda>(w, why). walletResult (index w) (wi_address w) WSkipped
     (case why of SkipSimulation err \<Rightarrow> err | _ \<Rightarrow> Some ''skipped''))"

definition collectResults :: "wei \<Rightarrow> (WalletInfo \<times> SkipReason) list \<Rightarrow> WalletMintResult list \<Rightarrow> MintJobResult" where
  "collectResults mintCost skipped executed =
     (let rs = map skippedResult skipped @ executed;
          succeeded = length (filter (\<lambda>r. wr_status r = WSuccess) rs)
      in \<lparr>jr_walletResults = rs, jr_totalGasSpentWei = (\<Sum>r \<leftarrow> rs. spentOn r),
          jr_totalMintCostWei = mintCost * int succeeded, jr_successCount = succeeded,
          jr_failCount = length (filter (\<lambda>r. wr_status r = WFailed) rs)\<rparr>)"

end
