(* ===== verification/EngineSafety.thy ===== *)
theory EngineSafety
  imports MintEngine
begin

text \<open>
  What a wallet's run guarantees about the events that leave the engine. The trace of a run is
  shown to be safe, one rule per event: a signature is requested only under an accepted reservation
  that covers it, a transaction is handed to a broadcaster only when it was signed, matched its
  intent and was stored, a reservation is settled only with a stored authoritative receipt and
  released only when nothing can have been submitted.

  The stages keep an invariant over the trace and the closure's variables; their rules are collected
  in \<open>engine_keep\<close>. The ladder of the engine is an instance of the locales of the ladder, so
  that it returns and keeps the invariant.
\<close>

named_theorems engine_keep \<open>stages that keep an invariant of the trace and the variables\<close>
named_theorems engine_still \<open>stages that broadcast nothing while time passes\<close>

section \<open>Invariants over the trace and the variables\<close>

definition onTrace :: "(EngineEvent list \<Rightarrow> Locals \<Rightarrow> bool) \<Rightarrow> 'x engState \<Rightarrow> bool" where
  "onTrace J s = J (trace (fst s)) (snd s)"

abbreviation keeps :: "(EngineEvent list \<Rightarrow> Locals \<Rightarrow> bool) \<Rightarrow> ('x, 'a) eng \<Rightarrow> bool" where
  "keeps J \<equiv> keep.follows (onTrace J)"

lemma worldS_apply: "worldS m (w, l) = (r, (w', l')) \<longleftrightarrow> m w = (r, w') \<and> l' = l"
  by (auto simp: worldS_def split: prod.splits)

lemma keep_quiet:
  assumes "quiet.follows m"
  shows "keeps J (worldS m)"
  using quiet.followsD [OF assms]
  by (intro keep.followsI) (auto simp: onTrace_def worldS_apply)

lemma keep_tell [engine_keep]: "keeps J (tellS f)"
  by (simp add: tellS_def keep_quiet quiet_askS)

lemma keep_call [engine_keep]: "keeps J (callS f)"
  by (simp add: callS_def keep_quiet quiet_askS)

lemma keep_time [engine_keep]: "keeps J timeS"
  by (simp add: timeS_def keep_quiet quiet_nowS)

lemma keep_sleep [engine_keep]: "keeps J (worldS (sleepS f ms))"
  by (simp add: keep_quiet quiet_sleepS)

lemma keep_read [engine_keep]: "keeps J (readS f)"
  by (simp add: readS_def keep.follows_get)

lemma keep_kill [engine_keep]: "keeps J (killS e)"
  unfolding killS_def by (intro keep.follows_bind keep.follows_lift engine_keep)

lemma keep_policy [engine_keep]: "keeps J (policyS e job)"
  unfolding policyS_def by (intro keep.follows_bind keep.follows_lift engine_keep)

lemma keep_fresh [engine_keep]: "keeps J (freshS job i)"
  unfolding freshS_def by (intro keep.follows_bind keep.follows_lift engine_keep)

lemma keep_recheck [engine_keep]: "keeps J (recheckS e job)"
  unfolding recheckS_def by (intro keep.follows_if keep.follows_return engine_keep)

lemma keep_locals: "(\<And>tr l. J tr l \<Longrightarrow> J tr (f l)) \<Longrightarrow> keeps J (localsS f)"
  unfolding localsS_def by (rule keep.follows_modify) (auto simp: onTrace_def)

lemma eventS_apply [simp]: "eventS ev (w, l) = (Inr (), (w\<lparr>trace := trace w @ [ev]\<rparr>, l))"
  by (simp add: eventS_def worldS_def emitS_def)

lemma keep_event: "(\<And>tr l. J tr l \<Longrightarrow> J (tr @ [ev]) l) \<Longrightarrow> keeps J (eventS ev)"
  by (rule keep.followsI) (auto simp: onTrace_def)

section \<open>Safe traces\<close>

definition covers :: "ReserveInput \<Rightarrow> TransactionIntent \<Rightarrow> bool" where
  "covers q intent \<longleftrightarrow>
     ri_chainId q = ti_chainId intent \<and> ri_address q = ti_from intent \<and> ri_valueWei q = ti_value intent \<and>
     ti_gasLimit intent * ti_maxFeePerGas intent \<le> ri_l2ExecutionGasWei q"

definition refusedBy :: "BroadcastResult list \<Rightarrow> bool" where
  "refusedBy rs \<longleftrightarrow> list_all (\<lambda>r. \<not> success r \<and> \<not> maybeSubmitted r) rs"

text \<open>Nothing that was handed to a broadcaster can have been submitted.\<close>

definition unsubmitted :: "EngineEvent list \<Rightarrow> bool" where
  "unsubmitted tr \<longleftrightarrow> (\<forall>tx. Broadcast tx \<in> set tr \<longrightarrow> (\<exists>rs. Answered tx rs \<in> set tr \<and> refusedBy rs))"

definition reserved :: "EngineEvent list \<Rightarrow> string \<Rightarrow> bool" where
  "reserved tr rid \<longleftrightarrow> (\<exists>q. Reserved q rid \<in> set tr)"

definition storedFinal :: "'x EngineEnv \<Rightarrow> Job \<Rightarrow> EngineEvent list \<Rightarrow> bool" where
  "storedFinal e job tr \<longleftrightarrow>
     (ev_store e \<longrightarrow> (\<exists>row. ReceiptStored row \<in> set tr \<and>
        (jb_chainId job = Chain1 \<or> rr_finalityStage row = StEthereumFinal)))"

fun permitted :: "'x EngineEnv \<Rightarrow> Job \<Rightarrow> EngineEvent list \<Rightarrow> EngineEvent \<Rightarrow> bool" where
  "permitted e job tr (SignCall i intent) = (\<exists>q rid. Reserved q rid \<in> set tr \<and> covers q intent)"
| "permitted e job tr (Broadcast tx) =
     ((\<exists>i intent. SignCall i intent \<in> set tr \<and> assertSignedMatchesIntent (ev_codec e) tx intent = Inr ()) \<and>
      (ev_store e \<longrightarrow> (\<exists>a. AttemptStored a \<in> set tr \<and> at_responseClass a = AttemptSigned \<and>
         at_txHash a = Some (ev_keccak e tx))))"
| "permitted e job tr (SettleCall rid c) = (reserved tr rid \<and> storedFinal e job tr)"
| "permitted e job tr (SettlePlainCall rid v g) = (reserved tr rid \<and> storedFinal e job tr)"
| "permitted e job tr (ReleaseCall rid) = (reserved tr rid \<and> unsubmitted tr)"
| "permitted e job tr _ = True"

definition safe :: "'x EngineEnv \<Rightarrow> Job \<Rightarrow> EngineEvent list \<Rightarrow> bool" where
  "safe e job tr \<longleftrightarrow> (\<forall>k < length tr. permitted e job (take k tr) (tr ! k))"

lemma safe_Nil [simp]: "safe e job []"
  by (simp add: safe_def)

lemma safe_snoc [simp]: "safe e job (tr @ [ev]) \<longleftrightarrow> safe e job tr \<and> permitted e job tr ev"
  by (auto simp: safe_def nth_append less_Suc_eq)

text \<open>A fact about the trace and the submitted hash that stays true when the trace grows.\<close>

definition grows :: "(EngineEvent list \<Rightarrow> hash option \<Rightarrow> bool) \<Rightarrow> bool" where
  "grows K \<longleftrightarrow> (\<forall>tr ev h. K tr h \<longrightarrow> K (tr @ [ev]) h)"

text \<open>
  The invariant of a run: the trace is safe and has the fact \<open>K\<close>, the reservation held is one that
  was accepted, and without a submitted hash nothing can have been submitted.
\<close>

definition runInv :: "'x EngineEnv \<Rightarrow> Job \<Rightarrow> (EngineEvent list \<Rightarrow> hash option \<Rightarrow> bool) \<Rightarrow> EngineEvent list \<Rightarrow> Locals \<Rightarrow> bool" where
  "runInv e job K tr l \<longleftrightarrow>
     safe e job tr \<and> K tr (submittedHash l) \<and> (\<forall>rid. reservation l = Some rid \<longrightarrow> reserved tr rid) \<and>
     (truthy (submittedHash l) \<or> unsubmitted tr)"

lemma reserved_snoc: "reserved tr rid \<Longrightarrow> reserved (tr @ [ev]) rid"
  by (auto simp: reserved_def)

lemma unsubmitted_snoc: "unsubmitted tr \<Longrightarrow> (\<And>tx. ev \<noteq> Broadcast tx) \<Longrightarrow> unsubmitted (tr @ [ev])"
  by (fastforce simp: unsubmitted_def)

lemma runInv_event:
  assumes "runInv e job K tr l" and "grows K" and "permitted e job tr ev" and "\<And>tx. ev \<noteq> Broadcast tx"
  shows "runInv e job K (tr @ [ev]) l"
  using assms(1-3) unsubmitted_snoc [OF _ assms(4), of tr]
  by (auto simp: runInv_def grows_def intro: reserved_snoc)

text \<open>Events that need no permission and are not broadcasts.\<close>

fun harmless :: "EngineEvent \<Rightarrow> bool" where
  "harmless (SignCall _ _) = False"
| "harmless (Broadcast _) = False"
| "harmless (SettleCall _ _) = False"
| "harmless (SettlePlainCall _ _ _) = False"
| "harmless (ReleaseCall _) = False"
| "harmless _ = True"

lemma keep_harmless:
  assumes "grows K" and "harmless ev"
  shows "keeps (runInv e job K) (eventS ev)"
proof (rule keep_event)
  fix tr l
  assume "runInv e job K tr l"
  with assms show "runInv e job K (tr @ [ev]) l"
    by (intro runInv_event) (cases ev; simp)+
qed

lemma keep_neutral:
  "(\<And>l. reservation (f l) = reservation l \<and> submittedHash (f l) = submittedHash l) \<Longrightarrow> keeps (runInv e job K) (localsS f)"
  by (rule keep_locals) (simp add: runInv_def)

lemma keep_store: "grows K \<Longrightarrow> harmless ev \<Longrightarrow> keeps (runInv e' job K) (storeS e f ev)"
  unfolding storeS_def by (intro keep.follows_if keep.follows_bind keep.follows_return engine_keep keep_harmless)

lemma keep_attempt: "grows K \<Longrightarrow> keeps (runInv e' job K) (persistAttempt e a)"
  unfolding persistAttempt_def by (rule keep_store) simp_all

lemma keep_reconciliation: "grows K \<Longrightarrow> keeps (runInv e' job K) (persistReconciliation e a)"
  unfolding persistReconciliation_def by (rule keep_store) simp_all

lemma keep_leave: "grows K \<Longrightarrow> keeps (runInv e' job K) (leaveGate e)"
  unfolding leaveGate_def by (intro keep.follows_bind engine_keep keep_harmless) simp_all

lemma keep_reconfirm: "grows K \<Longrightarrow> keeps (runInv e' job K) (reconfirmS e q)"
  unfolding reconfirmS_def by (intro keep.follows_bind engine_keep keep_harmless) simp_all

lemma keep_ready: "grows K \<Longrightarrow> keeps (runInv e' job' K) (assertReady e job i q)"
  unfolding assertReady_def
  by (intro keep.follows_bind keep.follows_ensure engine_keep keep_reconfirm)

lemmas engine_rules = keep.follows_bind keep.follows_return keep.follows_throw keep.follows_lift keep.follows_ensure
  keep.follows_if keep.follows_catch keep.follows_case_option keep.follows_case_prod keep.follows_case_sum keep.follows_Let
  keep_attempt keep_reconciliation keep_leave keep_reconfirm keep_ready keep_store engine_keep

section \<open>The stages before a signature\<close>

lemma keep_gateStage: "keeps J (gateStage e job i addr off)"
  unfolding gateStage_def by (intro engine_rules)

lemma keep_buildStage: "keeps (runInv e job K) (buildStage e' job' i addr)"
  unfolding buildStage_def by (intro engine_rules keep_neutral) simp_all

lemma keep_otherCharges: "keeps J (otherChargesS e job tx)"
  unfolding otherChargesS_def by (intro engine_rules)

lemma keep_enterGate: "grows K \<Longrightarrow> keeps (runInv e' job K) (enterGateS e i)"
  unfolding enterGateS_def by (intro engine_rules keep_harmless keep_neutral) simp_all

text \<open>A request to the signer is permitted once a reservation that covers it was accepted.\<close>

lemma keep_signer:
  assumes "grows K" and "\<And>tr h. K tr h \<Longrightarrow> \<exists>q rid. Reserved q rid \<in> set tr \<and> covers q intent"
  shows "keeps (runInv e' job' K) (signerS e job i q callback intent)"
proof -
  have "keeps (runInv e' job' K) (eventS (SignCall i intent))"
    using assms by (intro keep_event runInv_event) (auto simp: runInv_def)
  then show ?thesis
    unfolding signerS_def using assms(1) by (intro engine_rules)
qed

section \<open>Reserving and signing\<close>

text \<open>The invariant as a pre- or postcondition; the facts about the trace accumulate along a stage.\<close>

abbreviation holds :: "'x EngineEnv \<Rightarrow> Job \<Rightarrow> (EngineEvent list \<Rightarrow> hash option \<Rightarrow> bool) \<Rightarrow> 'x engState \<Rightarrow> bool" where
  "holds e job K \<equiv> onTrace (runInv e job K)"

lemma holds_mono: "holds e job K s \<Longrightarrow> (\<And>tr h. K tr h \<Longrightarrow> K' tr h) \<Longrightarrow> holds e job K' s"
  by (auto simp: onTrace_def runInv_def)

lemma grows_conj: "grows K \<Longrightarrow> grows K' \<Longrightarrow> grows (\<lambda>tr h. K tr h \<and> K' tr h)"
  by (simp add: grows_def)

lemma grows_event: "grows (\<lambda>tr h. ev \<in> set tr)"
  by (simp add: grows_def)

lemma valid_permitted:
  assumes "grows K" and "\<And>tr l. runInv e job K tr l \<Longrightarrow> permitted e job tr ev" and "\<And>tx. ev \<noteq> Broadcast tx"
  shows "triple (holds e job K) (eventS ev) (\<lambda>_. holds e job (\<lambda>tr h. K tr h \<and> ev \<in> set tr)) E"
proof (rule validI)
  fix s x s'
  assume s: "holds e job K s" and "eventS ev s = (Inr x, s')"
  moreover obtain w l where "s = (w, l)" by (cases s)
  ultimately have *: "runInv e job K (trace w) l" "s' = (w\<lparr>trace := trace w @ [ev]\<rparr>, l)" by (simp_all add: onTrace_def)
  from runInv_event [OF *(1) assms(1) assms(2) [OF *(1)] assms(3)] *(2)
  show "holds e job (\<lambda>tr h. K tr h \<and> ev \<in> set tr) s'" by (auto simp: onTrace_def runInv_def)
next
  fix s err s'
  assume "holds e job K s" and "eventS ev s = (Inl err, s')"
  then show "E s'" by (cases s) simp
qed

lemma valid_event:
  "grows K \<Longrightarrow> harmless ev \<Longrightarrow> triple (holds e job K) (eventS ev) (\<lambda>_. holds e job (\<lambda>tr h. K tr h \<and> ev \<in> set tr)) E"
  by (rule valid_permitted) (cases ev; simp)+

lemma valid_stage:
  assumes "keeps (runInv e job K) m" and "\<And>tr h. K tr h \<Longrightarrow> K' tr h"
  shows "triple (holds e job K) m (\<lambda>_. holds e job K) (holds e job K')"
  by (rule valid_weaken [OF valid_keep [OF assms(1)]]) (auto intro: holds_mono [OF _ assms(2)])

lemma valid_raise: "triple P (raiseS a r) (\<lambda>x s. r = Inr x \<and> P s) P"
  by (rule validI) (auto simp: raiseS_def split: sum.splits)

lemma valid_pure: "(c \<Longrightarrow> triple P m Q E) \<Longrightarrow> triple (\<lambda>s. c \<and> P s) m Q E"
  by (auto simp: triple_def)

definition underReservation :: "ReserveInput \<Rightarrow> EngineEvent list \<Rightarrow> bool" where
  "underReservation q tr \<longleftrightarrow> (\<exists>rid. Reserved q rid \<in> set tr)"

lemma grows_reservation [intro]: "grows (\<lambda>tr h. underReservation q tr)"
  by (auto simp: grows_def underReservation_def)

lemma valid_reserve:
  assumes "grows K"
  shows "triple (holds e job K) (reserveS e' q) (\<lambda>rid. holds e job (\<lambda>tr h. K tr h \<and> Reserved q rid \<in> set tr)) (holds e job K)"
  unfolding reserveS_def
  by (intro valid_bind [OF valid_stage [OF keep_harmless [OF assms]]] valid_bind [OF valid_stage [OF keep_call]]
      valid_bind [OF valid_event [OF assms]] valid_return) simp_all

lemma request_covers:
  assumes "assertRequestMatchesIntent (intentOf job addr tx) (amountsOf (reserveRequest job i addr tx others))
      (map_option (\<lambda>p. maxFeePerGas (rp_ceiling p)) (jb_replacement job)) = Inr ()" and "0 \<le> bt_gas tx"
  shows "covers (reserveRequest job i addr tx others) (intentOf job addr tx)"
  using assms
  by (cases "jb_replacement job")
    (auto simp: request_matches_iff covers_def reserveRequest_def intentOf_def reserveFees_def Let_def
      intro: mult_left_mono)

lemma valid_signer:
  assumes "grows K" and "\<And>tr h. K tr h \<Longrightarrow> \<exists>q rid. Reserved q rid \<in> set tr \<and> covers q intent" and "\<And>tr h. K tr h \<Longrightarrow> K' tr h"
  shows "triple (holds e job K) (signerS e' job' i q callback intent) (\<lambda>_. holds e job (\<lambda>tr h. K tr h \<and> SignCall i intent \<in> set tr))
    (holds e job K')"
  unfolding signerS_def
proof (rule valid_bind)
  show "triple (holds e job K) (eventS (SignCall i intent)) (\<lambda>_. holds e job (\<lambda>tr h. K tr h \<and> SignCall i intent \<in> set tr)) (holds e job K')"
    using assms(1,2) by (intro valid_permitted) (auto simp: runInv_def)
  have g: "grows (\<lambda>tr h. K tr h \<and> SignCall i intent \<in> set tr)" by (intro grows_conj grows_event assms(1))
  show "triple (holds e job (\<lambda>tr h. K tr h \<and> SignCall i intent \<in> set tr))
     (bindS (if callback then bindS (tellS (ev_signerAsksReady e')) (\<lambda>asks. if asks then assertReady e' job' i q else returnS ())
             else returnS ()) (\<lambda>_. callS (ev_sign e' i intent)))
     (\<lambda>_. holds e job (\<lambda>tr h. K tr h \<and> SignCall i intent \<in> set tr)) (holds e job K')" for x
    by (rule valid_stage) (use g assms(3) in \<open>intro engine_rules | simp\<close>)+
qed

lemma intentOf_family [simp]:
  "seaDropFamily (jb_drop job) \<Longrightarrow> (intentOf job addr tx)\<lparr>ti_familyContext := Some (familyOf (jb_drop job))\<rparr> = intentOf job addr tx"
  by (simp add: intentOf_def)

lemma valid_signFirst:
  assumes "grows K" and "\<And>tr h. K tr h \<Longrightarrow> \<exists>q rid. Reserved q rid \<in> set tr \<and> covers q (intentOf job addr tx)"
    and "\<And>tr h. K tr h \<Longrightarrow> K' tr h"
  shows "triple (holds e job K) (signFirst e' job i addr q (intentOf job addr tx))
    (\<lambda>_. holds e job (\<lambda>tr h. K tr h \<and> SignCall i (intentOf job addr tx) \<in> set tr)) (holds e job K')"
  unfolding signFirst_def
  using valid_signer [OF assms(1,2,3)]
  by (auto intro!: valid_throw valid_bind [OF valid_stage [OF keep_neutral]] intro: holds_mono assms(3))

definition signedUnder :: "int \<Rightarrow> ReserveInput \<Rightarrow> TransactionIntent \<Rightarrow> EngineEvent list \<Rightarrow> bool" where
  "signedUnder i q intent tr \<longleftrightarrow> underReservation q tr \<and> SignCall i intent \<in> set tr"

lemma grows_signedUnder [intro]: "grows (\<lambda>tr h. signedUnder i q intent tr)"
  by (auto simp: grows_def signedUnder_def underReservation_def)

text \<open>A new value of the variable \<open>reservation\<close> is one that was accepted.\<close>

lemma valid_onReserved:
  assumes "\<And>tr h. K tr h \<Longrightarrow> reserved tr rid"
  shows "triple (holds e job K) (localsS (\<lambda>l. l\<lparr>reservation := Some rid\<rparr>)) (\<lambda>_. holds e job K) E"
  unfolding localsS_def
  by (rule valid_modify) (auto simp: onTrace_def runInv_def assms)

lemma valid_reserveThenSign:
  assumes "grows K" and "0 \<le> bt_gas tx" and q: "q = reserveRequest job i addr tx others"
  shows "triple (holds e job K) (reserveThenSign (ev_codec e) (signArgs e job i addr tx q))
    (\<lambda>(rid, signed) s. assertSignedMatchesIntent (ev_codec e) signed (intentOf job addr tx) = Inr () \<and>
       holds e job (\<lambda>tr h. K tr h \<and> signedUnder i q (intentOf job addr tx) tr \<and> reserved tr rid) s) (holds e job K)"
proof -
  let ?intent = "intentOf job addr tx" and ?a = "signArgs e job i addr tx q"
  let ?K1 = "\<lambda>rid tr h. K tr h \<and> Reserved q rid \<in> set tr"
  let ?K2 = "\<lambda>rid tr h. ?K1 rid tr h \<and> SignCall i ?intent \<in> set tr"
  have g1: "grows (?K1 rid)" for rid by (intro grows_conj grows_event assms(1))
  have g2: "grows (?K2 rid)" for rid by (intro grows_conj grows_event assms(1))
  have tail: "triple (holds e job (?K1 rid))
      (bindS (sa_onReserved ?a rid) (\<lambda>_. bindS (sa_checkKill ?a) (\<lambda>_. bindS (sa_sign ?a) (\<lambda>signed.
       bindS (sa_checkKill ?a) (\<lambda>_. bindS (raiseS ?a (assertSignedMatchesIntent (ev_codec e) signed (sa_intent ?a))) (\<lambda>_.
       returnS (rid, signed)))))))
      (\<lambda>(rid, signed) s. assertSignedMatchesIntent (ev_codec e) signed ?intent = Inr () \<and>
         holds e job (\<lambda>tr h. K tr h \<and> signedUnder i q ?intent tr \<and> reserved tr rid) s) (holds e job K)"
    if cov: "covers q ?intent" for rid
    unfolding signArgs_def SignArgs.simps
  proof (intro valid_bind)
    show "triple (holds e job (?K1 rid)) (localsS (\<lambda>l. l\<lparr>reservation := Some rid\<rparr>)) (\<lambda>_. holds e job (?K1 rid)) (holds e job K)"
      by (rule valid_onReserved) (auto simp: reserved_def)
    show "triple (holds e job (?K1 rid)) (killS e) (\<lambda>_. holds e job (?K1 rid)) (holds e job K)"
      by (rule valid_stage [OF keep_kill]) simp
    show "triple (holds e job (?K1 rid)) (signFirst e job i addr q ?intent) (\<lambda>_. holds e job (?K2 rid)) (holds e job K)"
      by (rule valid_signFirst [OF g1]) (use cov in blast)+
    show "triple (holds e job (?K2 rid)) (killS e) (\<lambda>_. holds e job (?K2 rid)) (holds e job K)"
      by (rule valid_stage [OF keep_kill]) simp
    show "triple (holds e job (?K2 rid)) (raiseS a r) (\<lambda>x s. r = Inr x \<and> holds e job (?K2 rid) s) (holds e job K)" for a r
      by (rule valid_weaken [OF valid_raise [where P = "holds e job (?K2 rid)"]]) (auto intro: holds_mono)
    show "triple (\<lambda>s. assertSignedMatchesIntent (ev_codec e) signed ?intent = Inr u \<and> holds e job (?K2 rid) s) (returnS (rid, signed))
      (\<lambda>(rid, signed) s. assertSignedMatchesIntent (ev_codec e) signed ?intent = Inr () \<and>
         holds e job (\<lambda>tr h. K tr h \<and> signedUnder i q ?intent tr \<and> reserved tr rid) s) (holds e job K)" for signed u
      by (rule valid_return) (auto elim!: holds_mono simp: signedUnder_def underReservation_def reserved_def)
  qed
  show ?thesis
    unfolding reserveThenSign_def
  proof (rule valid_bind)
    show "triple (holds e job K) (raiseS ?a (assertRequestMatchesIntent (sa_intent ?a) (sa_request ?a) (sa_reservedMaxFeePerGas ?a)))
      (\<lambda>x s. assertRequestMatchesIntent (sa_intent ?a) (sa_request ?a) (sa_reservedMaxFeePerGas ?a) = Inr x \<and> holds e job K s)
      (holds e job K)"
      by (rule valid_raise)
    show "triple (\<lambda>s. assertRequestMatchesIntent (sa_intent ?a) (sa_request ?a) (sa_reservedMaxFeePerGas ?a) = Inr x \<and> holds e job K s)
      (bindS (sa_reserve ?a) (\<lambda>rid. bindS (sa_onReserved ?a rid) (\<lambda>_. bindS (sa_checkKill ?a) (\<lambda>_. bindS (sa_sign ?a) (\<lambda>signed.
       bindS (sa_checkKill ?a) (\<lambda>_. bindS (raiseS ?a (assertSignedMatchesIntent (ev_codec e) signed (sa_intent ?a))) (\<lambda>_.
       returnS (rid, signed))))))))
      (\<lambda>(rid, signed) s. assertSignedMatchesIntent (ev_codec e) signed ?intent = Inr () \<and>
         holds e job (\<lambda>tr h. K tr h \<and> signedUnder i q ?intent tr \<and> reserved tr rid) s) (holds e job K)" for x
    proof (rule valid_pure, rule valid_bind)
      show "triple (holds e job K) (sa_reserve ?a) (\<lambda>rid. holds e job (?K1 rid)) (holds e job K)"
        using valid_reserve [OF assms(1)] by (simp add: signArgs_def)
    qed (rule tail, use request_covers assms(2) in \<open>auto simp: signArgs_def q\<close>)
  qed
qed

lemma valid_then:
  assumes "keeps (runInv e job K) m" and "\<And>x. triple (holds e job K) (f x) Q (holds e job K)"
  shows "triple (holds e job K) (bindS m f) Q (holds e job K)"
  by (rule valid_bind [OF valid_stage [OF assms(1)] assms(2)])

lemma valid_thenE:
  assumes "keeps (runInv e job K) m" and "\<And>tr h. K tr h \<Longrightarrow> K' tr h" and "\<And>x. triple (holds e job K) (f x) Q (holds e job K')"
  shows "triple (holds e job K) (bindS m f) Q (holds e job K')"
  by (rule valid_bind [OF valid_stage [OF assms(1,2)] assms(3)])

lemma valid_keepReservation:
  assumes "\<And>tr h. K' tr h \<Longrightarrow> K tr h \<and> signedUnder i q intent tr \<and> reserved tr rid"
  shows "triple (\<lambda>s. c \<and> holds e job K' s) (bindS (localsS (\<lambda>l. l\<lparr>reservation := Some rid\<rparr>)) (\<lambda>_. returnS x))
    (\<lambda>y s. y = x \<and> c \<and> holds e job (\<lambda>tr h. K tr h \<and> signedUnder i q intent tr) s) E"
  by (intro valid_pure valid_bind [OF valid_onReserved] valid_return) (use assms in \<open>auto elim!: holds_mono\<close>)

lemma valid_signStage:
  assumes "grows K" and "0 \<le> bt_gas tx"
  shows "triple (holds e job K) (signStage e job i addr tx)
    (\<lambda>(q, signed) s. (\<exists>others. q = reserveRequest job i addr tx others) \<and>
       assertSignedMatchesIntent (ev_codec e) signed (intentOf job addr tx) = Inr () \<and>
       holds e job (\<lambda>tr h. K tr h \<and> signedUnder i q (intentOf job addr tx) tr) s) (holds e job K)"
    (is "triple ?P _ ?Q ?P")
proof -
  have sign: "triple ?P (bindS (reserveThenSign (ev_codec e) (signArgs e job i addr tx q)) (\<lambda>(rid, signed).
      bindS (localsS (\<lambda>l. l\<lparr>reservation := Some rid\<rparr>)) (\<lambda>_. returnS (q, signed)))) ?Q ?P"
    if q: "q = reserveRequest job i addr tx others" for q others
    by (rule valid_bind [OF valid_reserveThenSign [OF assms q]], clarsimp)
      (rule valid_weaken [OF valid_keepReservation [where i = i and q = q and intent = "intentOf job addr tx" and K = K]],
       use q in \<open>auto simp: reserved_def\<close>)
  show ?thesis
    unfolding signStage_def Let_def
    by (rule valid_then [OF keep_otherCharges], rule valid_then [OF keep.follows_lift],
        rule valid_then [OF keep_neutral], simp, rule valid_then [OF keep_fresh], rule valid_then [OF keep_kill],
        rule valid_then [OF keep_store [OF assms(1)]], simp, rule valid_then [OF keep_enterGate [OF assms(1)]], rule sign, rule refl)
qed

section \<open>Broadcasting\<close>

text \<open>Between the call of a broadcaster and the note of its answer, the transaction at hand is open.\<close>

definition midInv ::
  "'x EngineEnv \<Rightarrow> Job \<Rightarrow> (EngineEvent list \<Rightarrow> hash option \<Rightarrow> bool) \<Rightarrow> hex \<Rightarrow> EngineEvent list \<Rightarrow> Locals \<Rightarrow> bool" where
  "midInv e job K signed tr l \<longleftrightarrow>
     safe e job tr \<and> K tr (submittedHash l) \<and> (\<forall>rid. reservation l = Some rid \<longrightarrow> reserved tr rid) \<and>
     (truthy (submittedHash l) \<or>
      (\<forall>tx. Broadcast tx \<in> set tr \<longrightarrow> tx = signed \<or> (\<exists>rs. Answered tx rs \<in> set tr \<and> refusedBy rs)))"

lemma runInv_mid: "runInv e job K tr l \<Longrightarrow> midInv e job K signed tr l"
  by (auto simp: runInv_def midInv_def unsubmitted_def)

lemma mid_broadcast:
  "runInv e job K tr l \<Longrightarrow> grows K \<Longrightarrow> permitted e job tr (Broadcast signed) \<Longrightarrow>
   midInv e job K signed (tr @ [Broadcast signed]) l"
  by (fastforce simp: runInv_def midInv_def unsubmitted_def grows_def intro: reserved_snoc)

lemma mid_answered:
  "midInv e job K signed tr l \<Longrightarrow> grows K \<Longrightarrow> midInv e job K signed (tr @ [Answered signed rs]) l"
  by (fastforce simp: midInv_def grows_def intro: reserved_snoc)

lemma mid_refused:
  "midInv e job K signed tr l \<Longrightarrow> Answered signed rs \<in> set tr \<Longrightarrow> refusedBy rs \<Longrightarrow> runInv e job K tr l"
  by (auto simp: runInv_def midInv_def unsubmitted_def)

lemma mid_submitted:
  "midInv e job (\<lambda>tr h. C tr) signed tr l \<Longrightarrow> h \<noteq> [] \<Longrightarrow> runInv e job (\<lambda>tr h. C tr) tr (l\<lparr>submittedHash := Some h\<rparr>)"
  by (auto simp: runInv_def midInv_def)

lemma mid_truthy: "midInv e job K signed tr l \<Longrightarrow> truthy (submittedHash l) \<Longrightarrow> runInv e job K tr l"
  by (auto simp: runInv_def midInv_def)

lemma valid_broadcast:
  assumes "grows K" and "\<And>tr h. K tr h \<Longrightarrow> permitted e job tr (Broadcast signed)" and "\<And>tx. ev_keccak e tx \<noteq> []"
  shows "triple (holds e job K) (broadcastS e job' target signed)
    (\<lambda>rs s. list_all (\<lambda>r. br_txHash r \<noteq> []) rs \<and>
       onTrace (\<lambda>tr l. midInv e job K signed tr l \<and> Answered signed rs \<in> set tr) s)
    (onTrace (midInv e job K signed))"
  unfolding broadcastS_def
proof (intro valid_bind)
  show "triple (holds e job K) (eventS (Broadcast signed)) (\<lambda>_. onTrace (midInv e job K signed)) (onTrace (midInv e job K signed))"
  proof (rule validI)
    fix s x s'
    assume "holds e job K s" and "eventS (Broadcast signed) s = (Inr x, s')"
    then show "onTrace (midInv e job K signed) s'"
      using mid_broadcast [OF _ assms(1) assms(2)] by (cases s) (auto simp: onTrace_def runInv_def)
  next
    fix s err s'
    assume "holds e job K s" and "eventS (Broadcast signed) s = (Inl err, s')"
    then show "onTrace (midInv e job K signed) s'" by (cases s) simp
  qed
  show "triple (onTrace (midInv e job K signed)) (tellS (ev_network e)) (\<lambda>_. onTrace (midInv e job K signed))
      (onTrace (midInv e job K signed))"
    by (rule valid_keep [OF keep_tell])
  fix answer :: "network \<times> relay"
  obtain net relay where answer: "answer = (net, relay)" by (cases answer)
  have noted: "triple (onTrace (midInv e job K signed)) (bindS (eventS (Answered signed rs)) (\<lambda>_. returnS rs))
      (\<lambda>rs s. list_all (\<lambda>r. br_txHash r \<noteq> []) rs \<and>
         onTrace (\<lambda>tr l. midInv e job K signed tr l \<and> Answered signed rs \<in> set tr) s) (onTrace (midInv e job K signed))"
    if "list_all (\<lambda>r. br_txHash r \<noteq> []) rs" for rs
    using that mid_answered [OF _ assms(1)]
    by (intro validI) (auto simp: bindS_def onTrace_def)
  show "triple (onTrace (midInv e job K signed))
     (case answer of (net, relay) \<Rightarrow>
        (case broadcastBy net relay (ev_keccak e) target (jb_broadcaster job') [signed] of
           None \<Rightarrow> throwS (EOther ''broadcast rejected'')
         | Some results \<Rightarrow> bindS (eventS (Answered signed results)) (\<lambda>_. returnS results)))
      (\<lambda>rs s. list_all (\<lambda>r. br_txHash r \<noteq> []) rs \<and>
         onTrace (\<lambda>tr l. midInv e job K signed tr l \<and> Answered signed rs \<in> set tr) s) (onTrace (midInv e job K signed))"
  proof (cases "broadcastBy net relay (ev_keccak e) target (jb_broadcaster job') [signed]")
    case None
    then show ?thesis by (simp add: answer valid_throw)
  next
    case (Some rs)
    then have "list_all (\<lambda>r. br_txHash r \<noteq> []) rs"
      using any_bc.hash_nonempty [OF Some _ assms(3)] by (simp add: list_all_iff)
    with Some noted show ?thesis by (simp add: answer)
  qed
qed

text \<open>Facts that do not depend on the submitted hash, and the rule for noting a hash.\<close>

abbreviation always :: "(EngineEvent list \<Rightarrow> bool) \<Rightarrow> EngineEvent list \<Rightarrow> hash option \<Rightarrow> bool" where
  "always C \<equiv> (\<lambda>tr h. C tr)"

lemma valid_submitted:
  assumes "\<And>l. submittedHash (f l) = Some h \<and> reservation (f l) = reservation l" and "h \<noteq> []"
    and "\<And>tr l. J tr l \<Longrightarrow> midInv e job (always C) signed tr l"
  shows "triple (onTrace J) (localsS f) (\<lambda>_. holds e job (\<lambda>tr h. C tr \<and> truthy h)) E"
  unfolding localsS_def
  using assms by (intro valid_modify) (auto simp: onTrace_def runInv_def midInv_def)

lemma valid_noteSubmission:
  assumes "list_all (\<lambda>r. br_txHash r \<noteq> []) rs" and "\<And>tx. ev_keccak e tx \<noteq> []"
  shows "triple (onTrace (\<lambda>tr l. midInv e job (always C) signed tr l \<and> Answered signed rs \<in> set tr))
    (noteSubmission e signed rs) (\<lambda>_. holds e job (always C)) E"
proof (cases "find (\<lambda>r. success r \<or> maybeSubmitted r) rs")
  case None
  then have "refusedBy rs" by (auto simp: find_None_iff refusedBy_def list_all_iff)
  with None show ?thesis by (auto intro!: valid_return mid_refused simp: onTrace_def noteSubmission_def)
next
  case (Some r)
  then have "r \<in> set rs" by (auto simp: find_Some_iff)
  with assms have h: "hashOr (ev_keccak e signed) r \<noteq> []" by (auto simp: hashOr_def list_all_iff)
  have "triple (onTrace (\<lambda>tr l. midInv e job (always C) signed tr l \<and> Answered signed rs \<in> set tr))
    (localsS (\<lambda>l. l\<lparr>submittedHash := Some (hashOr (ev_keccak e signed) r)\<rparr>)) (\<lambda>_. holds e job (\<lambda>tr h. C tr \<and> truthy h)) E"
    by (rule valid_submitted [OF _ h, where signed = signed]) simp_all
  then have "triple (onTrace (\<lambda>tr l. midInv e job (always C) signed tr l \<and> Answered signed rs \<in> set tr))
    (localsS (\<lambda>l. l\<lparr>submittedHash := Some (hashOr (ev_keccak e signed) r)\<rparr>)) (\<lambda>_. holds e job (always C)) E"
    by (rule valid_weaken) (auto elim: holds_mono)
  with Some show ?thesis by (simp add: noteSubmission_def)
qed

lemma keep_target: "keeps J (targetS e job)"
  unfolding targetS_def by (intro engine_rules)

lemma valid_lost:
  assumes "grows (always C)" and "\<And>tx. ev_keccak e tx \<noteq> []"
  shows "triple (onTrace (midInv e job (always C) signed)) (lostBroadcast e i addr tx signed err) Q (holds e job (always C))"
  unfolding lostBroadcast_def
proof (intro valid_bind)
  show "triple (onTrace (midInv e job (always C) signed)) (localsS (\<lambda>l. l\<lparr>submittedHash := Some (ev_keccak e signed)\<rparr>))
    (\<lambda>_. holds e job (\<lambda>tr h. C tr \<and> truthy h)) (holds e job (always C))"
    by (rule valid_submitted [OF _ assms(2), where signed = signed]) simp_all
  have "grows (\<lambda>tr h. C tr \<and> truthy h)" using assms(1) by (simp add: grows_def)
  then show "triple (holds e job (\<lambda>tr h. C tr \<and> truthy h)) (persistReconciliation e r)
    (\<lambda>_. holds e job (\<lambda>tr h. C tr \<and> truthy h)) (holds e job (always C))" for r
    by (intro valid_stage keep_reconciliation) simp_all
  show "triple (holds e job (\<lambda>tr h. C tr \<and> truthy h)) (throwS x) Q (holds e job (always C))" for x
    by (rule valid_throw) (auto elim: holds_mono)
qed

lemma valid_firstBroadcast:
  assumes "grows (always C)" and "\<And>tr. C tr \<Longrightarrow> permitted e job tr (Broadcast signed)" and "\<And>tx. ev_keccak e tx \<noteq> []"
  shows "triple (holds e job (always C)) (firstBroadcast e job' i addr tx signed)
    (\<lambda>rs s. list_all (\<lambda>r. br_txHash r \<noteq> []) rs \<and> holds e job (always C) s) (holds e job (always C))"
  unfolding firstBroadcast_def
proof (rule valid_catch [OF _ valid_lost [OF assms(1,3)]], intro valid_bind)
  let ?mid = "onTrace (midInv e job (always C) signed)"
  show "triple (holds e job (always C)) (targetS e job') (\<lambda>_. holds e job (always C)) ?mid"
    by (rule valid_weaken [OF valid_keep [OF keep_target [where J = "runInv e job (always C)"]]])
      (auto simp: onTrace_def runInv_mid)
  show "triple (holds e job (always C)) (broadcastS e job' target signed)
      (\<lambda>rs s. list_all (\<lambda>r. br_txHash r \<noteq> []) rs \<and>
         onTrace (\<lambda>tr l. midInv e job (always C) signed tr l \<and> Answered signed rs \<in> set tr) s) ?mid" for target
    by (rule valid_broadcast) (use assms in auto)
  show "triple (\<lambda>s. list_all (\<lambda>r. br_txHash r \<noteq> []) rs \<and>
         onTrace (\<lambda>tr l. midInv e job (always C) signed tr l \<and> Answered signed rs \<in> set tr) s)
      (noteSubmission e signed rs) (\<lambda>_ s. list_all (\<lambda>r. br_txHash r \<noteq> []) rs \<and> holds e job (always C) s) ?mid" for rs
    by (rule valid_pure, rule valid_weaken [OF valid_noteSubmission [where E = ?mid]]) (use assms(3) in auto)
  show "triple (\<lambda>s. list_all (\<lambda>r. br_txHash r \<noteq> []) rs \<and> holds e job (always C) s) (returnS rs)
      (\<lambda>rs s. list_all (\<lambda>r. br_txHash r \<noteq> []) rs \<and> holds e job (always C) s) ?mid" for rs
    by (rule valid_return)
qed

text \<open>The rows for the answers, and the choice of the submission.\<close>

lemma keep_storeResult: "grows K \<Longrightarrow> keeps (runInv e' job K) (storeResult e tx kr)"
  unfolding storeResult_def by (cases kr) (auto simp: Let_def intro!: engine_rules keep_neutral)

lemma valid_selectSubmission:
  assumes "grows (always C)" and "list_all (\<lambda>r. br_txHash r \<noteq> []) rs" and "\<And>tx. ev_keccak e tx \<noteq> []"
  shows "triple (holds e job (always C)) (selectSubmission e i addr tx signed rs)
    (\<lambda>h s. h \<noteq> [] \<and> holds e job (\<lambda>tr h. C tr \<and> truthy h) s) (holds e job (always C))"
proof -
  have g: "grows (\<lambda>tr h. C tr \<and> truthy h)" using assms(1) by (simp add: grows_def)
  have set: "triple (holds e job (always C)) (localsS (\<lambda>l. l\<lparr>submittedHash := Some h, submissionAttemptId := a\<rparr>))
      (\<lambda>_. holds e job (\<lambda>tr h. C tr \<and> truthy h)) (holds e job (always C))" if "h \<noteq> []" for h a
    by (rule valid_submitted [OF _ that, where signed = "[]"]) (simp_all add: runInv_mid)
  show ?thesis
  proof (cases "selectBroadcastAttempt (bt_executionId tx) rs")
    case (Some x)
    then obtain k where k: "x = (k, broadcastAttemptId (bt_executionId tx) k (classifyBroadcastResult (rs ! k)), rs ! k)"
      and "findIndex success rs = Some k"
      by (auto simp: selectBroadcastAttempt_def Let_def split: option.splits)
    with assms(2) have "br_txHash (rs ! k) \<noteq> []" by (simp add: findIndex_Some list_all_length)
    with Some k show ?thesis
      unfolding selectSubmission_def
      by (auto intro!: valid_bind [OF set] valid_thenE [OF keep_tell] valid_thenE [OF keep_harmless [OF g]] valid_return)
  next
    case None
    show ?thesis
    proof (cases "findIndex maybeSubmitted rs")
      case None2: None
      with None show ?thesis unfolding selectSubmission_def by (auto intro!: valid_throw)
    next
      case (Some k)
      with assms(2,3) have "hashOr (ev_keccak e signed) (rs ! k) \<noteq> []"
        by (auto simp: findIndex_Some list_all_length hashOr_def)
      with None Some show ?thesis
        unfolding selectSubmission_def
        by (auto simp: Let_def elim: holds_mono intro!: valid_bind [OF set] valid_thenE [OF keep_tell]
            valid_thenE [OF keep_harmless [OF g]] valid_thenE [OF keep_reconciliation [OF g]] valid_throw)
    qed
  qed
qed

lemma valid_store:
  assumes "grows K" and "harmless ev"
  shows "triple (holds e job K) (storeS e f ev) (\<lambda>_. holds e job (\<lambda>tr h. K tr h \<and> (ev_store e \<longrightarrow> ev \<in> set tr))) (holds e job K)"
  unfolding storeS_def
  by (rule valid_if, rule valid_then [OF keep_call], rule valid_weaken [OF valid_event [OF assms]], assumption)
    (auto intro!: valid_return elim: holds_mono)

text \<open>The fact that permits a broadcast: the transaction was signed for an intent it matches, and stored.\<close>

definition readyToSend :: "'x EngineEnv \<Rightarrow> hex \<Rightarrow> EngineEvent list \<Rightarrow> bool" where
  "readyToSend e signed tr \<longleftrightarrow>
     (\<exists>i intent. SignCall i intent \<in> set tr \<and> assertSignedMatchesIntent (ev_codec e) signed intent = Inr ()) \<and>
     (ev_store e \<longrightarrow> (\<exists>a. AttemptStored a \<in> set tr \<and> at_responseClass a = AttemptSigned \<and>
        at_txHash a = Some (ev_keccak e signed)))"

lemma grows_ready: "grows (always (readyToSend e signed))"
  by (auto simp: grows_def readyToSend_def)

lemma ready_permits: "readyToSend e signed tr \<Longrightarrow> permitted e job tr (Broadcast signed)"
  by (auto simp: readyToSend_def)

lemma keep_forEach: "(\<And>x. keeps J (f x)) \<Longrightarrow> keeps J (forEachS xs f)"
  by (rule keep.follows_forEach)

lemma valid_broadcastStage:
  assumes g: "grows (always C)" and keccak: "\<And>tx. ev_keccak e tx \<noteq> []" and ready: "\<And>tr. C tr \<Longrightarrow> readyToSend e signed tr"
  shows "triple (holds e job (always C)) (broadcastStage e job i addr tx signed)
    (\<lambda>h s. h \<noteq> [] \<and> holds e job (\<lambda>tr h. C tr \<and> truthy h) s) (holds e job (always C))"
  unfolding broadcastStage_def
proof (rule valid_then [OF keep_tell], rule valid_then [OF keep.follows_ensure],
    rule valid_bind [OF valid_firstBroadcast [OF g _ keccak]])
  show "permitted e job tr (Broadcast signed)" if "C tr" for tr
    by (rule ready_permits [OF ready [OF that]])
  show "triple (\<lambda>s. list_all (\<lambda>r. br_txHash r \<noteq> []) rs \<and> holds e job (always C) s)
     (bindS (killS e) (\<lambda>_. bindS (forEachS (enumerate 0 rs) (storeResult e tx)) (\<lambda>_. bindS (leaveGate e) (\<lambda>_.
      bindS (localsS (\<lambda>l. l\<lparr>holdsGate := False\<rparr>)) (\<lambda>_. selectSubmission e i addr tx signed rs)))))
     (\<lambda>h s. h \<noteq> [] \<and> holds e job (\<lambda>tr h. C tr \<and> truthy h) s) (holds e job (always C))" for rs
    by (rule valid_pure, rule valid_then [OF keep_kill], rule valid_then [OF keep_forEach [OF keep_storeResult [OF g]]],
        rule valid_then [OF keep_leave [OF g]], rule valid_then [OF keep_neutral], simp,
        rule valid_selectSubmission [OF g _ keccak])
qed

lemma valid_sendStage:
  assumes g: "grows (always C)" and keccak: "\<And>tx. ev_keccak e tx \<noteq> []"
    and sig: "\<And>tr. C tr \<Longrightarrow> \<exists>i intent. SignCall i intent \<in> set tr \<and> assertSignedMatchesIntent (ev_codec e) signed intent = Inr ()"
  shows "triple (holds e job (always C)) (sendStage e job i addr tx signed)
    (\<lambda>h s. h \<noteq> [] \<and> holds e job (\<lambda>tr h. C tr \<and> truthy h) s) (holds e job (always C))"
proof -
  let ?a = "attemptRecord (bt_executionId tx @ '':attempt:signed'') tx ''signer'' AttemptSigned (Some (ev_keccak e signed)) None"
  let ?C = "\<lambda>tr. C tr \<and> readyToSend e signed tr"
  have ready: "C tr \<Longrightarrow> (ev_store e \<longrightarrow> AttemptStored ?a \<in> set tr) \<Longrightarrow> ?C tr" for tr
    using sig [of tr] by (fastforce simp: readyToSend_def attemptRecord_def)
  have stored: "triple (holds e job (always C)) (persistAttempt e ?a) (\<lambda>_. holds e job (always ?C)) (holds e job (always C))"
    unfolding persistAttempt_def
    by (rule valid_weaken [OF valid_store [OF g]]) (auto elim!: holds_mono intro: ready [THEN conjunct2])
  have sent: "triple (holds e job (always ?C)) (broadcastStage e job i addr tx signed)
    (\<lambda>h s. h \<noteq> [] \<and> holds e job (\<lambda>tr h. C tr \<and> truthy h) s) (holds e job (always C))"
    by (rule valid_weaken [OF valid_broadcastStage [OF grows_conj [OF g grows_ready] keccak]]) (auto elim: holds_mono)
  show ?thesis
    unfolding sendStage_def Let_def
    by (rule valid_then [OF keep_neutral], simp, rule valid_bind [OF stored sent])
qed

section \<open>The ladder of the engine returns\<close>

definition broadcasts :: "EngineEvent list \<Rightarrow> hex set" where
  "broadcasts tr = {tx. Broadcast tx \<in> set tr}"

text \<open>Steps that hand nothing to a broadcaster while time passes.\<close>

interpretation still: state_order
  "\<lambda>s s'. clock (fst s) \<le> clock (fst s') \<and> broadcasts (trace (fst s')) = broadcasts (trace (fst s))"
  by unfold_locales auto

lemma still_world:
  assumes "time.follows m" and "quiet.follows m"
  shows "still.follows (worldS m)"
  using time.followsD [OF assms(1)] quiet.followsD [OF assms(2)]
  by (intro still.followsI) (auto simp: worldS_apply)

lemma still_tell [engine_still]: "still.follows (tellS f)"
  by (simp add: tellS_def still_world time_askS quiet_askS)

lemma still_call [engine_still]: "still.follows (callS f)"
  by (simp add: callS_def still_world time_askS quiet_askS)

lemma still_time [engine_still]: "still.follows timeS"
  by (simp add: timeS_def still_world time_nowS quiet_nowS)

lemma still_sleep [engine_still]: "still.follows (worldS (sleepS f ms))"
  by (simp add: still_world time_sleepS quiet_sleepS)

lemma still_read [engine_still]: "still.follows (readS f)"
  by (simp add: readS_def still.follows_get)

lemma still_locals [engine_still]: "still.follows (localsS f)"
  unfolding localsS_def by (rule still.follows_modify) auto

lemma still_event: "(\<And>tx. ev \<noteq> Broadcast tx) \<Longrightarrow> still.follows (eventS ev)"
  by (rule still.followsI) (cases ev; auto simp: broadcasts_def)

lemmas still_rules = still.follows_bind still.follows_return still.follows_throw still.follows_lift still.follows_ensure
  still.follows_if still.follows_catch still.follows_case_option still.follows_case_prod still.follows_case_sum still.follows_Let

lemma still_kill [engine_still]: "still.follows (killS e)"
  unfolding killS_def by (intro still_rules engine_still)

lemma still_policy [engine_still]: "still.follows (policyS e job)"
  unfolding policyS_def by (intro still_rules engine_still)

lemma still_fresh [engine_still]: "still.follows (freshS job i)"
  unfolding freshS_def by (intro still_rules engine_still)

lemma still_recheck [engine_still]: "still.follows (recheckS e job)"
  unfolding recheckS_def by (intro still_rules engine_still)

lemma still_store [engine_still]: "(\<And>tx. ev \<noteq> Broadcast tx) \<Longrightarrow> still.follows (storeS e f ev)"
  unfolding storeS_def by (intro still_rules engine_still still_event)

lemma still_attempt [engine_still]: "still.follows (persistAttempt e a)"
  unfolding persistAttempt_def by (intro engine_still) simp

lemma still_leave [engine_still]: "still.follows (leaveGate e)"
  unfolding leaveGate_def by (intro still_rules engine_still still_event) simp

lemma still_reconfirm [engine_still]: "still.follows (reconfirmS e q)"
  unfolding reconfirmS_def by (intro still_rules engine_still still_event) simp

lemma still_ready [engine_still]: "still.follows (assertReady e job i q)"
  unfolding assertReady_def by (intro still_rules engine_still)

lemma still_signer [engine_still]: "still.follows (signerS e job i q callback intent)"
  unfolding signerS_def by (intro still_rules engine_still still_event) simp

lemma still_probe [engine_still]: "still.follows (probeHashes e hs)"
proof (induction hs)
  case (Cons h hs)
  then show ?case unfolding probeHashes.simps by (intro still_rules engine_still)
qed (simp only: probeHashes.simps still.follows_return)

lemma still_preCheck [engine_still]: "still.follows (preCheckS e job i addr q)"
  unfolding preCheckS_def orElse_def policyRefusal_def gateRefusal_def changeRefusal_def simulationRefusal_def
  by (intro still_rules engine_still)

lemma still_prepare [engine_still]: "still.follows (prepareS e job i addr tx q c next bump replaces)"
  unfolding prepareS_def prepareBody_def Let_def by (intro still_rules engine_still still_event) simp

lemma still_nonce [engine_still]: "still.follows (nonceS e addr tx)"
  unfolding nonceS_def by (intro still_rules engine_still)

lemma still_finally [engine_still]: "still.follows (finallyLeave e)"
  unfolding finallyLeave_def by (intro still_rules engine_still)

text \<open>Steps that hand at most one given transaction to a broadcaster.\<close>

interpretation sends: state_order
  "\<lambda>s s'. clock (fst s) \<le> clock (fst s') \<and> broadcasts (trace (fst s')) \<subseteq> insert tx (broadcasts (trace (fst s)))" for tx
  by unfold_locales auto

lemma sends_still: "still.follows m \<Longrightarrow> sends.follows tx m"
  by (rule sends.followsI) (auto dest: still.followsD)

lemma sends_event: "sends.follows tx (eventS (Broadcast tx))"
  by (rule sends.followsI) (auto simp: broadcasts_def)

lemmas sends_rules = sends.follows_bind sends.follows_return sends.follows_throw sends.follows_catch sends.follows_case_option
  sends.follows_case_prod sends.follows_Let sends.follows_forEach sends_event

lemma sends_broadcast: "sends.follows signed (broadcastS e job target signed)"
  unfolding broadcastS_def by (intro sends_rules sends_still still_event engine_still) simp

lemma still_storeReplacement [engine_still]: "still.follows (storeReplacement e tx p sentId replaces kr)"
  unfolding storeReplacement_def Let_def by (intro still_rules engine_still)

lemma sends_sendS: "sends.follows (signedTx p) (sendS e job tx p bump replaces)"
  unfolding sendS_def sendBody_def
  by (intro sends_rules sends_broadcast sends_still [OF still_kill] sends_still [OF still_storeReplacement]
      sends_still [OF still_locals] sends_still [OF still_finally])

lemma anyError_apply: "anyError m s = (r, s') \<Longrightarrow> \<exists>r'. m s = (r', s') \<and> (\<forall>x. r = Inr x \<longrightarrow> r' = Inr x)"
  by (auto simp: anyError_def split: prod.splits sum.splits)

lemma probe_own: "probeHashes e hs s = (Inr (Some h), s') \<Longrightarrow> h \<in> set hs"
proof (induction hs arbitrary: s)
  case (Cons g hs)
  then obtain answer :: "(string \<times> string) + unit" and t where "(case answer of Inr _ \<Rightarrow> returnS (Some g)
      | Inl err \<Rightarrow> if isReceiptNotFound err then probeHashes e hs else throwS (EOther (snd err))) t = (Inr (Some h), s')"
    unfolding probeHashes.simps bindS_eq_Inr by blast
  with Cons.IH show ?case by (cases answer) (auto split: if_splits)
qed simp

lemma prepare_hash:
  "prepareS e job i addr tx q c next bump replaces s = (Inr p, s') \<Longrightarrow> pr_hash p = ev_keccak e (signedTx p)"
  by (auto simp: prepareS_def prepareBody_def Let_def bindS_eq_Inr catchS_eq_Inr)

text \<open>
  The ladder's environment, instantiated with the engine's dependencies: the clock of the world, the
  hashes of everything handed to a broadcaster, and replacements that carry their own hash.
\<close>

lemma still_anyError: "still.follows m \<Longrightarrow> anyError m s = (r, s') \<Longrightarrow>
    clock (fst s) \<le> clock (fst s') \<and> broadcasts (trace (fst s')) = broadcasts (trace (fst s))"
  by (drule anyError_apply) (auto dest: still.followsD)

lemma sleep_engine:
  "clock (fst s) + p \<le> clock (fst (snd ((worldS (sleepS f p) :: ('x, unit) eng) s))) \<and>
   trace (fst (snd ((worldS (sleepS f p) :: ('x, unit) eng) s))) = trace (fst s)"
  by (cases s) (auto simp: worldS_def sleepS_def split: prod.splits)

interpretation engine_ladder: ladder_env "ladderDeps e job i addr tx q plan" "\<lambda>s. clock (fst s)"
  "\<lambda>s. ev_keccak e ` broadcasts (trace (fst s))" "\<lambda>p. pr_hash p = ev_keccak e (signedTx p)"
  for e job i addr tx q plan
proof (unfold_locales, goal_cases)
  case (1 s t s')
  then show ?case by (auto simp: ladderDeps_def)
next
  case (2 s p)
  show ?case using sleep_engine [of s p] by (simp add: ladderDeps_def)
next
  case (3 hs s r s')
  then have "anyError (probeHashes e hs) s = (r, s')" by (simp add: ladderDeps_def)
  from still_anyError [OF still_probe this] show ?case by simp
next
  case (4 hs s h s')
  then have "anyError (probeHashes e hs) s = (Inr (Some h), s')" by (simp add: ladderDeps_def)
  from anyError_apply [OF this] show ?case by (auto dest: probe_own)
next
  case (5 s n s')
  then have "anyError (nonceS e addr tx) s = (n, s')" by (simp add: ladderDeps_def)
  from still_anyError [OF still_nonce this] show ?case by simp
next
  case (6 s c s')
  then obtain r where "preCheckS e job i addr q s = (r, s')"
    by (auto simp: ladderDeps_def split: prod.splits sum.splits)
  from still.followsD [OF still_preCheck this] show ?case by simp
next
  case (7 f b ref s pp s')
  then have "anyError (prepareS e job i addr tx q (rp_ceiling plan) f b ref) s = (pp, s')" by (simp add: ladderDeps_def)
  from still_anyError [OF still_prepare this] show ?case by simp
next
  case (8 f b ref s pr s')
  then have "anyError (prepareS e job i addr tx q (rp_ceiling plan) f b ref) s = (Inr pr, s')" by (simp add: ladderDeps_def)
  from anyError_apply [OF this] show ?case by (auto dest: prepare_hash)
next
  case (9 pr b ref s r s')
  then obtain r' where "sendS e job tx pr b ref s = (r', s')" by (auto simp: ladderDeps_def dest: anyError_apply)
  from sends.followsD [OF sends_sendS this] 9(2) show ?case by auto
qed

end
