(* ===== verification/EngineRun.thy ===== *)
theory EngineRun
  imports EngineSafety
begin

text \<open>
  The whole run of a wallet. The ladder, the watcher, the settlement and the catch block keep the
  invariant of \<open>EngineSafety\<close>, so that every trace of \<^const>\<open>walletRun\<close> is safe; and the run returns,
  whatever the outside answers.
\<close>

section \<open>The ladder keeps the invariant\<close>

lemma holds_conj: "holds e job K s \<Longrightarrow> holds e job K' s \<Longrightarrow> holds e job (\<lambda>tr h. K tr h \<and> K' tr h) s"
  by (simp add: onTrace_def runInv_def)

lemma valid_ensure: "triple P (ensureS c err) (\<lambda>_ s. c \<and> P s) P"
  by (auto simp: triple_def)

lemma keep_probe: "keeps J (probeHashes e hs)"
proof (induction hs)
  case (Cons h hs)
  then show ?case unfolding probeHashes.simps by (intro engine_rules)
qed (simp only: probeHashes.simps keep.follows_return)

lemma keep_nonce: "keeps J (nonceS e addr tx)"
  unfolding nonceS_def by (intro engine_rules)

lemma keep_preCheck: "grows K \<Longrightarrow> keeps (runInv e' job' K) (preCheckS e job i addr q)"
  unfolding preCheckS_def orElse_def policyRefusal_def gateRefusal_def changeRefusal_def simulationRefusal_def
  by (intro engine_rules)

lemma keep_finally: "grows K \<Longrightarrow> keeps (runInv e' job' K) (finallyLeave e)"
  unfolding finallyLeave_def by (intro engine_rules keep_neutral) simp_all

lemma keep_storeReplacement: "grows K \<Longrightarrow> keeps (runInv e' job' K) (storeReplacement e tx p sentId replaces kr)"
  unfolding storeReplacement_def by (cases kr) (auto simp: Let_def intro!: engine_rules keep_neutral)

text \<open>Once a hash is noted, another broadcast of a transaction that may be sent keeps the invariant.\<close>

lemma keep_rebroadcast:
  assumes "grows K" and "\<And>tr h. K tr h \<Longrightarrow> permitted e job tr (Broadcast signed)" and "\<And>tx. ev_keccak e tx \<noteq> []"
    and "\<And>tr h. K tr h \<Longrightarrow> truthy h"
  shows "keeps (runInv e job K) (broadcastS e job' target signed)"
proof -
  have "runInv e job K tr l" if "midInv e job K signed tr l" for tr l
    using that assms(4) by (intro mid_truthy [OF that]) (auto simp: midInv_def)
  then show ?thesis
    by (intro keep_valid valid_weaken [OF valid_broadcast [OF assms(1-3)]]) (auto simp: onTrace_def)
qed

lemma keep_send:
  assumes "grows K" and "\<And>tr h. K tr h \<Longrightarrow> permitted e job tr (Broadcast (signedTx p))" and "\<And>tx. ev_keccak e tx \<noteq> []"
    and "\<And>tr h. K tr h \<Longrightarrow> truthy h"
  shows "keeps (runInv e job K) (sendS e job' tx p bump replaces)"
  unfolding sendS_def sendBody_def Let_def
  using assms(1)
  by (intro engine_rules keep_rebroadcast [OF assms] keep_forEach keep_storeReplacement keep_finally keep_neutral) simp_all

text \<open>A replacement within the ceiling is covered by the reservation, which was made for the ceiling.\<close>

definition admissible :: "'x EngineEnv \<Rightarrow> Job \<Rightarrow> int \<Rightarrow> address \<Rightarrow> BuiltTx \<Rightarrow> ReserveInput \<Rightarrow> ReplacementPlan \<Rightarrow> bool" where
  "admissible e job i addr tx q plan \<longleftrightarrow>
     (\<forall>t. ev_keccak e t \<noteq> []) \<and> 0 \<le> bt_gas tx \<and> jb_replacement job = Some plan \<and>
     (\<exists>others. q = reserveRequest job i addr tx others)"

lemma replacement_covered:
  assumes "admissible e job i addr tx q plan" and "maxFeePerGas next \<le> maxFeePerGas (rp_ceiling plan)"
  shows "covers q (replacementIntent (intentOf job addr tx) next family)"
  using assms by (cases family)
    (auto simp: admissible_def covers_def replacementIntent_def intentOf_def reserveRequest_def reserveFees_def Let_def
      intro: mult_left_mono)

lemma valid_liftMatch:
  "triple P (liftS (case r of Inl m \<Rightarrow> Inl (EMint m) | Inr u \<Rightarrow> Inr u)) (\<lambda>_ s. r = Inr () \<and> P s) P"
  by (auto simp: triple_def split: sum.splits)

lemma valid_prepareBody:
  assumes adm: "admissible e job i addr tx q plan" and g: "grows K" and res: "\<And>tr h. K tr h \<Longrightarrow> underReservation q tr"
  shows "triple (holds e job K) (prepareBody e job i addr tx q (rp_ceiling plan) next bump replaces)
    (\<lambda>p. holds e job (\<lambda>tr h. K tr h \<and> readyToSend e (signedTx p) tr)) (holds e job K)"
proof -
  let ?within = "\<not> (maxFeePerGas next > maxFeePerGas (rp_ceiling plan) \<or> maxPriorityFeePerGas next > maxPriorityFeePerGas (rp_ceiling plan))"
  let ?intent = "\<lambda>family. replacementIntent (intentOf job addr tx) next family"
  let ?S = "\<lambda>family tr h. K tr h \<and> SignCall i (?intent family) \<in> set tr"
  have gS: "grows (?S family)" for family by (intro grows_conj grows_event g)
  have store: "triple (\<lambda>s. assertSignedMatchesIntent (ev_codec e) signed (?intent family) = Inr () \<and> holds e job (?S family) s)
     (bindS (persistAttempt e (attemptRecord sid tx ''signer'' AttemptSigned (Some (ev_keccak e signed)) (Some replaces))) (\<lambda>_.
      bindS (localsS f) (\<lambda>_. returnS \<lparr>signedTx = signed, pr_hash = ev_keccak e signed, pr_attemptId = sid\<rparr>)))
     (\<lambda>p. holds e job (\<lambda>tr h. K tr h \<and> readyToSend e (signedTx p) tr)) (holds e job K)"
    if f: "\<And>l. reservation (f l) = reservation l \<and> submittedHash (f l) = submittedHash l" for signed family sid f
  proof (rule valid_pure)
    let ?a = "attemptRecord sid tx ''signer'' AttemptSigned (Some (ev_keccak e signed)) (Some replaces)"
    assume m: "assertSignedMatchesIntent (ev_codec e) signed (?intent family) = Inr ()"
    have ready: "?S family tr h \<Longrightarrow> (ev_store e \<longrightarrow> AttemptStored ?a \<in> set tr) \<Longrightarrow> readyToSend e signed tr" for tr h
      using m by (fastforce simp: readyToSend_def attemptRecord_def)
    have "triple (holds e job (?S family)) (persistAttempt e ?a)
        (\<lambda>_. holds e job (\<lambda>tr h. K tr h \<and> readyToSend e signed tr)) (holds e job K)"
      unfolding persistAttempt_def
      by (rule valid_weaken [OF valid_store [OF gS]]) (auto elim!: holds_mono intro: ready)
    then show "triple (holds e job (?S family)) (bindS (persistAttempt e ?a) (\<lambda>_.
      bindS (localsS f) (\<lambda>_. returnS \<lparr>signedTx = signed, pr_hash = ev_keccak e signed, pr_attemptId = sid\<rparr>)))
     (\<lambda>p. holds e job (\<lambda>tr h. K tr h \<and> readyToSend e (signedTx p) tr)) (holds e job K)"
      by (rule valid_bind, intro valid_thenE [OF keep_neutral [OF f]] valid_return) simp_all
  qed
  have sign: "triple (holds e job K) (signerS e job i q callback (?intent family)) (\<lambda>_. holds e job (?S family)) (holds e job K)"
    if ?within for callback family
  proof (rule valid_signer [OF g])
    show "\<exists>q rid. Reserved q rid \<in> set tr \<and> covers q (?intent family)" if "K tr h" for tr h
      using res [OF that] replacement_covered [OF adm] \<open>?within\<close> by (auto simp: underReservation_def not_less)
  qed
  have again: "keeps (runInv e job K) (if canReconfirm e then reconfirmS e q else returnS ())"
    by (intro engine_rules g)
  show ?thesis
    unfolding prepareBody_def Let_def
  proof (rule valid_then [OF keep_kill], rule valid_then [OF again], rule valid_bind [OF valid_ensure],
      rule valid_pure, rule valid_then [OF keep_read], rule valid_bind [OF sign], assumption)
    show "triple (holds e job (?S family)) (bindS (killS e) (\<lambda>_.
       bindS (liftS (case assertSignedMatchesIntent (ev_codec e) signed (?intent family) of Inl m \<Rightarrow> Inl (EMint m) | Inr u \<Rightarrow> Inr u)) (\<lambda>_.
       bindS (persistAttempt e (attemptRecord sid tx ''signer'' AttemptSigned (Some (ev_keccak e signed)) (Some replaces))) (\<lambda>_.
       bindS (localsS (\<lambda>l. l\<lparr>attemptIds := attemptIds l @ [sid], attemptHashes := AList.update sid (ev_keccak e signed) (attemptHashes l),
          attemptReplacements := AList.update sid replaces (attemptReplacements l),
          acceptedAttemptByHash := AList.update (toLowerCase (ev_keccak e signed)) sid (acceptedAttemptByHash l)\<rparr>))
        (\<lambda>_. returnS \<lparr>signedTx = signed, pr_hash = ev_keccak e signed, pr_attemptId = sid\<rparr>)))))
      (\<lambda>p. holds e job (\<lambda>tr h. K tr h \<and> readyToSend e (signedTx p) tr)) (holds e job K)" for family signed sid
      by (rule valid_thenE [OF keep_kill], simp,
          rule valid_bind [OF valid_weaken [OF valid_liftMatch [where P = "holds e job (?S family)"]] store])
        (auto elim: holds_mono)
  qed
qed

lemma valid_prepare:
  assumes "admissible e job i addr tx q plan" and "grows K" and "\<And>tr h. K tr h \<Longrightarrow> underReservation q tr"
  shows "triple (holds e job K) (prepareS e job i addr tx q (rp_ceiling plan) next bump replaces)
    (\<lambda>p. holds e job (\<lambda>tr h. K tr h \<and> readyToSend e (signedTx p) tr)) (holds e job K)"
  unfolding prepareS_def
  by (rule valid_then [OF keep_tell], rule valid_then [OF keep_harmless [OF assms(2)]], simp, rule valid_then [OF keep_neutral],
      simp, rule valid_catch [OF valid_prepareBody [OF assms(1,2)]], erule assms(3), rule valid_then [OF keep_neutral], simp,
      rule valid_then [OF keep_leave [OF assms(2)]], rule valid_throw)

definition ladderFact :: "ReserveInput \<Rightarrow> EngineEvent list \<Rightarrow> hash option \<Rightarrow> bool" where
  "ladderFact q tr h \<longleftrightarrow> underReservation q tr \<and> truthy h"

lemma grows_ladderFact: "grows (ladderFact q)"
  by (auto simp: grows_def ladderFact_def underReservation_def)

lemma keeps_state: "keeps J m \<Longrightarrow> onTrace J s \<Longrightarrow> onTrace J (snd (m s))"
  by (metis keep.followsD prod.collapse)

lemma keeps_anyError: "keeps J m \<Longrightarrow> onTrace J s \<Longrightarrow> onTrace J (snd (anyError m s))"
  using keeps_state [of J m s] by (auto simp: anyError_def split: prod.splits sum.splits)

lemma preChecks_state: "snd (preChecks (ladderDeps e job i addr tx q plan) s) = snd (preCheckS e job i addr q s)"
  by (auto simp: ladderDeps_def split: prod.splits sum.splits)

lemma send_kept:
  assumes "admissible e job i addr tx q plan" and "holds e job (ladderFact q) s"
    and "holds e job (\<lambda>tr h. readyToSend e (signedTx p) tr) s"
  shows "holds e job (ladderFact q) (snd (anyError (sendS e job tx p bump replaces) s))"
proof -
  let ?K = "\<lambda>tr h. ladderFact q tr h \<and> readyToSend e (signedTx p) tr"
  have "keeps (runInv e job ?K) (sendS e job tx p bump replaces)"
    by (rule keep_send [OF grows_conj [OF grows_ladderFact grows_ready]])
      (use assms(1) in \<open>auto simp: admissible_def ladderFact_def simp del: permitted.simps intro: ready_permits\<close>)
  from keeps_anyError [OF this holds_conj [OF assms(2,3)]] show ?thesis by (rule holds_mono) simp
qed

lemma prepare_kept:
  assumes "admissible e job i addr tx q plan" and "holds e job (ladderFact q) s"
    and "prepareS e job i addr tx q (rp_ceiling plan) next bump replaces s = (r, s')"
  shows "holds e job (ladderFact q) s'"
    and "r = Inr p \<Longrightarrow> holds e job (\<lambda>tr h. readyToSend e (signedTx p) tr) s'"
proof -
  have v: "triple (holds e job (ladderFact q)) (prepareS e job i addr tx q (rp_ceiling plan) next bump replaces)
    (\<lambda>p. holds e job (\<lambda>tr h. ladderFact q tr h \<and> readyToSend e (signedTx p) tr)) (holds e job (ladderFact q))"
    by (rule valid_prepare [OF assms(1) grows_ladderFact]) (simp add: ladderFact_def)
  show "holds e job (ladderFact q) s'"
    using validD [OF v assms(2)] validE [OF v assms(2)] assms(3) by (cases r) (auto elim: holds_mono)
  show "holds e job (\<lambda>tr h. readyToSend e (signedTx p) tr) s'" if "r = Inr p"
    using validD [OF v assms(2)] assms(3) that by (auto elim: holds_mono)
qed

interpretation engine_inv: ladder_inv "ladderDeps e job i addr tx q plan"
  "\<lambda>s. admissible e job i addr tx q plan \<longrightarrow> holds e job (ladderFact q) s"
  "\<lambda>p s. admissible e job i addr tx q plan \<longrightarrow> holds e job (\<lambda>tr h. readyToSend e (signedTx p) tr) s"
  for e job i addr tx q plan
proof (unfold_locales, goal_cases)
  case (1 s)
  then show ?case by (simp add: ladderDeps_def)
next
  case (2 s p)
  then show ?case using keeps_state [OF keep_sleep, of _ s] by (simp add: ladderDeps_def)
next
  case (3 s hs)
  then show ?case using keeps_anyError [OF keep_probe, of _ s] by (simp add: ladderDeps_def)
next
  case (4 s)
  then show ?case using keeps_anyError [OF keep_nonce, of _ s] by (simp add: ladderDeps_def)
next
  case (5 s)
  then show ?case using keeps_state [OF keep_preCheck [OF grows_ladderFact]] unfolding preChecks_state by blast
next
  case (6 s f b ref)
  obtain r t where "prepareS e job i addr tx q (rp_ceiling plan) f b ref s = (r, t)" by (metis prod.collapse)
  with prepare_kept(1) [OF _ _ this] 6 show ?case
    by (cases r) (simp_all add: ladderDeps_def anyError_def)
next
  case (7 s f b ref pr s')
  then have "anyError (prepareS e job i addr tx q (rp_ceiling plan) f b ref) s = (Inr pr, s')" by (simp add: ladderDeps_def)
  from anyError_apply [OF this] have "prepareS e job i addr tx q (rp_ceiling plan) f b ref s = (Inr pr, s')" by auto
  from prepare_kept(2) [OF _ _ this refl] 7(1) show ?case by blast
next
  case (8 s pr b ref)
  then show ?case using send_kept [of e job i addr tx q plan s] by (simp add: ladderDeps_def)
qed

section \<open>From the ladder to the result\<close>

text \<open>The hashes that are watched afterwards are the first one and those of prepared replacements.\<close>

lemma ladderStage_kept:
  assumes "ladderStage e job i addr tx q firstHash s = Some ((watched, hint), s')"
    and "\<And>plan. jb_replacement job = Some plan \<Longrightarrow> admissible e job i addr tx q plan"
    and "holds e job (ladderFact q) s" and "firstHash \<noteq> []" and "\<And>t. ev_keccak e t \<noteq> []"
  shows "holds e job (ladderFact q) s'" and "\<forall>h \<in> set watched. h \<noteq> []" and "\<forall>h. hint = Some h \<longrightarrow> h \<in> set watched"
proof -
  obtain w l0 where s: "s = (w, l0)" by (cases s)
  define l where "l = l0\<lparr>acceptedAttemptByHash := [(toLowerCase firstHash,
      case submissionAttemptId l0 of Some aid \<Rightarrow> aid | None \<Rightarrow> attemptIds l0 ! 0)]\<rparr>"
  have neutral: "holds e job (ladderFact q) (w, l0\<lparr>acceptedAttemptByHash := a, laddersStarted := b, attemptHashes := c\<rparr>)"
    "holds e job (ladderFact q) (w, l0\<lparr>acceptedAttemptByHash := a\<rparr>)" for a b c
    using assms(3) by (simp_all add: s onTrace_def runInv_def)
  have "holds e job (ladderFact q) s' \<and> (\<forall>h \<in> set watched. h \<noteq> []) \<and> (\<forall>h. hint = Some h \<longrightarrow> h \<in> set watched)"
  proof (cases "\<exists>plan. jb_replacement job = Some plan \<and> bt_executionId tx \<notin> set (laddersStarted l)")
    case False
    with assms(1,4) neutral show ?thesis by (auto simp: s ladderStage_def Let_def l_def split: option.splits)
  next
    case True
    then obtain plan where plan: "jb_replacement job = Some plan" "bt_executionId tx \<notin> set (laddersStarted l)" by blast
    let ?l = "l\<lparr>laddersStarted := bt_executionId tx # laddersStarted l,
        attemptHashes := fold (\<lambda>aid. AList.update aid firstHash) (attemptIds l) (attemptHashes l)\<rparr>"
    from assms(1) plan obtain r where r:
      "runReplacementLadder (ladderInput plan tx firstHash (attemptIds l ! 0) (clock w)) (ladderDeps e job i addr tx q plan) (w, ?l) = Some (r, s')"
      "watched = map la_hash (lr_attempts r)" "hint = winner r"
      by (auto simp: s ladderStage_def Let_def l_def split: if_splits)
    have "holds e job (ladderFact q) (w, ?l)" using neutral(1) by (simp add: l_def)
    with engine_inv.ladder_kept [OF r(1)] assms(2) [OF plan(1)] have "holds e job (ladderFact q) s'" by blast
    moreover have "\<forall>a \<in> set (lr_attempts r). la_hash a \<noteq> []"
      by (rule engine_ladder.ladder_hashes [OF r(1)]) (use assms(4,5) in \<open>auto simp: ladderInput_def\<close>)
    ultimately show ?thesis using engine_ladder.ladder_winner [OF r(1)] r(2,3) by auto
  qed
  then show "holds e job (ladderFact q) s'" and "\<forall>h \<in> set watched. h \<noteq> []" and "\<forall>h. hint = Some h \<longrightarrow> h \<in> set watched"
    by blast+
qed

lemma watchOne_facts:
  assumes "watchOne e depth h s = Some (r, s')"
  shows "trace (fst s') = trace (fst s) \<and> snd s' = snd s \<and> (\<forall>m. r = Inr m \<longrightarrow> mr_txHash m = h)"
proof -
  obtain w l where s: "s = (w, l)" by (cases s)
  with assms obtain x w' where "waitForReceipt (ev_watcher e) h depth w = Some (x, w')" "s' = (w', l)"
    "r = (case x of Inl err \<Rightarrow> Inl (watchFailure err) | Inr m \<Rightarrow> Inr m)"
    by (auto simp: watchOne_def)
  then show ?thesis using wait_quiet wait_hash s by (cases x) fastforce+
qed

lemma anyReceipt_facts:
  "anyReceipt e depth first hs s = Some (r, s') \<Longrightarrow>
   trace (fst s') = trace (fst s) \<and> snd s' = snd s \<and> (\<forall>m. r = Inr m \<longrightarrow> mr_txHash m \<in> set hs)"
proof (induction e depth first hs s rule: anyReceipt.induct)
  case (2 e depth first h hs s)
  then show ?case by (auto split: option.splits prod.splits sum.splits dest!: watchOne_facts)
qed auto

lemma watchStage_facts:
  assumes "watchStage e depth watched hint s = Some (r, s')" and "\<forall>h. hint = Some h \<longrightarrow> h \<in> set watched"
  shows "trace (fst s') = trace (fst s) \<and> snd s' = snd s \<and> (\<forall>m. r = Inr m \<longrightarrow> mr_txHash m \<in> set watched)"
proof -
  have "length watched = 1 \<Longrightarrow> watched ! 0 \<in> set watched" by (cases watched) auto
  with assms show ?thesis
    by (cases hint) (auto simp: watchStage_def split: if_splits dest!: watchOne_facts anyReceipt_facts)
qed

text \<open>Settling: the reservation is one that was accepted, and the receipt has been stored.\<close>

lemma valid_reservation:
  "triple (holds e job K) (readS reservation) (\<lambda>rid. holds e job (\<lambda>tr h. K tr h \<and> (\<forall>x. rid = Some x \<longrightarrow> reserved tr x))) E"
  unfolding readS_def by (rule valid_get) (auto simp: onTrace_def runInv_def)

lemma grows_reserved: "grows (\<lambda>tr h. \<forall>x. rid = Some x \<longrightarrow> reserved tr x)"
  by (auto simp: grows_def intro: reserved_snoc)

lemma keep_settle:
  assumes "grows K" and "\<And>tr h. K tr h \<Longrightarrow> reserved tr rid \<and> storedFinal e job tr"
  shows "keeps (runInv e job K) (settleS e' rid tx r)"
proof -
  have "keeps (runInv e job K) (eventS (SettleCall rid c))" "keeps (runInv e job K) (eventS (SettlePlainCall rid v g))" for c v g
    using assms by (auto intro!: keep_event runInv_event simp: runInv_def)
  then show ?thesis unfolding settleS_def Let_def by (intro engine_rules)
qed

lemma keep_noteWinner:
  assumes "mr_txHash r \<noteq> []"
  shows "keeps (runInv e job (\<lambda>tr h. C tr \<and> truthy h)) (localsS (noteWinner watched winnerId r))"
  by (rule keep_locals) (use assms in \<open>auto simp: runInv_def noteWinner_def\<close>)

lemma valid_settling:
  assumes g: "grows K" and final: "\<And>tr h. K tr h \<Longrightarrow> shouldSettleReceipt (jb_chainId job) (mr_status r) (mr_finalityStage r) \<Longrightarrow>
      storedFinal e job tr"
  shows "triple (holds e job K) (bindS (readS reservation) (\<lambda>rid.
        bindS (if shouldSettleReceipt (jb_chainId job) (mr_status r) (mr_finalityStage r)
               then (case rid of None \<Rightarrow> throwS (EOther ''TypeError'') | Some x \<Rightarrow> settleS e' x tx r)
               else returnS ()) (\<lambda>_. readS f))) (\<lambda>_. holds e job K) (holds e job K)"
proof (rule valid_bind [OF valid_reservation])
  fix rid
  let ?K = "\<lambda>tr h. K tr h \<and> (\<forall>x. rid = Some x \<longrightarrow> reserved tr x)"
  have gK: "grows ?K" by (intro grows_conj g grows_reserved)
  have "keeps (runInv e job ?K) (bindS (if shouldSettleReceipt (jb_chainId job) (mr_status r) (mr_finalityStage r)
      then (case rid of None \<Rightarrow> throwS (EOther ''TypeError'') | Some x \<Rightarrow> settleS e' x tx r) else returnS ()) (\<lambda>_. readS f))"
    by (intro keep.follows_bind keep.follows_if keep.follows_case_option keep.follows_throw keep.follows_return keep_read
        keep_settle [OF gK]) (use final in auto)
  from valid_keep [OF this] show "triple (holds e job ?K) (bindS (if shouldSettleReceipt (jb_chainId job) (mr_status r) (mr_finalityStage r)
      then (case rid of None \<Rightarrow> throwS (EOther ''TypeError'') | Some x \<Rightarrow> settleS e' x tx r) else returnS ()) (\<lambda>_. readS f))
      (\<lambda>_. holds e job K) (holds e job K)"
    by (rule valid_weaken) (auto elim: holds_mono)
qed

lemma valid_finishStage:
  assumes "mr_txHash r \<noteq> []"
  shows "triple (holds e job (\<lambda>tr h. truthy h)) (finishStage e job i addr tx signed watched r)
    (\<lambda>_. holds e job (\<lambda>tr h. truthy h)) (holds e job (\<lambda>tr h. truthy h))"
proof -
  let ?T = "\<lambda>(tr :: EngineEvent list) h. truthy h"
  have g: "grows ?T" by (simp add: grows_def)
  have noted: "keeps (runInv e job ?T) (localsS (noteWinner watched winnerId r))" for winnerId
    using keep_noteWinner [OF assms, where C = "\<lambda>_. True"] by simp
  have rest: "triple (holds e job ?T) (bindS (storeS e (ev_persistReceipt e (receiptRow job tx winnerId r)) (ReceiptStored (receiptRow job tx winnerId r))) (\<lambda>_.
        bindS (persistReconciliation e rec) (\<lambda>_. bindS (readS reservation) (\<lambda>rid.
        bindS (if shouldSettleReceipt (jb_chainId job) (mr_status r) (mr_finalityStage r)
               then (case rid of None \<Rightarrow> throwS (EOther ''TypeError'') | Some x \<Rightarrow> settleS e x tx r)
               else returnS ()) (\<lambda>_. readS f))))) (\<lambda>_. holds e job ?T) (holds e job ?T)" for winnerId rec f
  proof (rule valid_bind [OF valid_store [OF g]], simp)
    let ?K = "\<lambda>tr h. truthy h \<and> (ev_store e \<longrightarrow> ReceiptStored (receiptRow job tx winnerId r) \<in> set tr)"
    have gK: "grows ?K" by (auto simp: grows_def)
    have final: "storedFinal e job tr"
      if "?K tr h" "shouldSettleReceipt (jb_chainId job) (mr_status r) (mr_finalityStage r)" for tr h
      using that by (cases "jb_chainId job = Chain1") (force simp: storedFinal_def shouldSettleReceipt_def receiptRow_def)+
    show "triple (holds e job ?K) (bindS (persistReconciliation e rec) (\<lambda>_. bindS (readS reservation) (\<lambda>rid.
        bindS (if shouldSettleReceipt (jb_chainId job) (mr_status r) (mr_finalityStage r)
               then (case rid of None \<Rightarrow> throwS (EOther ''TypeError'') | Some x \<Rightarrow> settleS e x tx r)
               else returnS ()) (\<lambda>_. readS f)))) (\<lambda>_. holds e job ?T) (holds e job ?T)"
      by (rule valid_weaken [OF valid_then [OF keep_reconciliation [OF gK] valid_settling [OF gK final]]])
        (auto elim: holds_mono)
  qed
  show ?thesis
    unfolding finishStage_def Let_def
    by (rule valid_then [OF keep_read], rule valid_then [OF noted], rule rest)
qed

section \<open>Recovery\<close>

lemma keep_release: "keeps (runInv e job (\<lambda>tr h. True)) (releaseS e)"
proof (rule keep.followsI, rule impI)
  fix s r s'
  assume run: "releaseS e s = (r, s')" and inv: "holds e job (\<lambda>tr h. True) s"
  obtain w l where s: "s = (w, l)" by (cases s)
  show "holds e job (\<lambda>tr h. True) s'"
  proof (cases "truthy (submittedHash l) \<or> reservation l = None")
    case True
    with run s have "s' = s" by (auto simp: releaseS_def readS_def bindS_def split: if_splits)
    with inv show ?thesis by simp
  next
    case False
    then obtain x where x: "reservation l = Some x" and h: "\<not> truthy (submittedHash l)" by blast
    let ?w = "w\<lparr>trace := trace w @ [ReleaseCall x]\<rparr>"
    from run s x h have call: "callS (ev_release e) (?w, l) = (r, s')" by (simp add: releaseS_def readS_def bindS_def)
    have "runInv e job (\<lambda>tr h. True) (trace w @ [ReleaseCall x]) l"
      by (rule runInv_event) (use inv s x h in \<open>auto simp: onTrace_def runInv_def grows_def\<close>)
    then have "holds e job (\<lambda>tr h. True) (?w, l)" by (simp add: onTrace_def)
    with keep.followsD [OF keep_call call] show ?thesis by blast
  qed
qed

lemma keep_recoverStage: "keeps (runInv e job (\<lambda>tr h. True)) (recoverStage e i addr err)"
proof -
  have g: "grows (\<lambda>tr h. True)" by (simp add: grows_def)
  have "keeps (runInv e job (\<lambda>tr h. True)) (reconcileS e i addr err)"
    unfolding reconcileS_def Let_def by (intro engine_rules g)
  then show ?thesis unfolding recoverStage_def by (intro engine_rules keep_release g)
qed

section \<open>The run\<close>

abbreviation started :: "'x EngineEnv \<Rightarrow> Job \<Rightarrow> 'x engState \<Rightarrow> bool" where
  "started e job \<equiv> holds e job (\<lambda>tr h. True)"

definition wellSet :: "'x EngineEnv \<Rightarrow> Job \<Rightarrow> int \<Rightarrow> bool" where
  "wellSet e job i \<longleftrightarrow> (\<forall>t. ev_keccak e t \<noteq> []) \<and> 0 \<le> gasLimitOf (jb_gasLimits job) 0 i"

lemma started_mono: "holds e job K s \<Longrightarrow> started e job s"
  by (erule holds_mono) simp

lemma build_gas:
  assumes "buildStage e job i addr s = (Inr (Go tx), s')" and "wellSet e job i"
  shows "0 \<le> bt_gas tx"
  using assms by (auto simp: buildStage_def bindS_eq_Inr Let_def buildTx_def wellSet_def split: if_splits)

lemma valid_build:
  assumes "wellSet e job i"
  shows "triple (started e job) (buildStage e job i addr)
    (\<lambda>b s. (\<forall>tx. b = Go tx \<longrightarrow> 0 \<le> bt_gas tx) \<and> started e job s) (started e job)"
  using keep.followsD [OF keep_buildStage] build_gas [OF _ assms] by (intro validI) blast+

text \<open>After the first broadcast the ladder's fact holds, and the request for the reservation is known.\<close>

definition handedOver :: "'x EngineEnv \<Rightarrow> Job \<Rightarrow> int \<Rightarrow> address \<Rightarrow> BuiltTx \<times> ReserveInput \<times> hex \<times> hash \<Rightarrow> 'x engState \<Rightarrow> bool" where
  "handedOver e job i addr = (\<lambda>(tx, q, signed, h) s.
     0 \<le> bt_gas tx \<and> (\<exists>others. q = reserveRequest job i addr tx others) \<and> h \<noteq> [] \<and> holds e job (ladderFact q) s)"

lemma valid_submitStage:
  assumes "wellSet e job i" and gas: "0 \<le> bt_gas tx"
  shows "triple (started e job) (submitStage e job i addr tx)
    (\<lambda>r s. case r of Finished _ \<Rightarrow> started e job s | Go x \<Rightarrow> handedOver e job i addr x s) (started e job)"
    (is "triple _ _ ?Q _")
proof -
  have keccak: "\<And>t. ev_keccak e t \<noteq> []" using assms(1) by (simp add: wellSet_def)
  have send: "triple (\<lambda>s. (\<exists>others. q = reserveRequest job i addr tx others) \<and>
         assertSignedMatchesIntent (ev_codec e) signed (intentOf job addr tx) = Inr () \<and>
         holds e job (\<lambda>tr h. True \<and> signedUnder i q (intentOf job addr tx) tr) s)
      (bindS (sendStage e job i addr tx signed) (\<lambda>h. returnS (Go (tx, q, signed, h)))) ?Q (started e job)" for q signed
  proof (intro valid_pure)
    assume q: "\<exists>others. q = reserveRequest job i addr tx others"
      and m: "assertSignedMatchesIntent (ev_codec e) signed (intentOf job addr tx) = Inr ()"
    have "triple (holds e job (\<lambda>tr h. signedUnder i q (intentOf job addr tx) tr)) (sendStage e job i addr tx signed)
      (\<lambda>h s. h \<noteq> [] \<and> holds e job (\<lambda>tr h. signedUnder i q (intentOf job addr tx) tr \<and> truthy h) s)
      (holds e job (\<lambda>tr h. signedUnder i q (intentOf job addr tx) tr))"
      by (rule valid_sendStage [OF grows_signedUnder keccak]) (use m in \<open>auto simp: signedUnder_def\<close>)
    then have "triple (holds e job (\<lambda>tr h. True \<and> signedUnder i q (intentOf job addr tx) tr)) (sendStage e job i addr tx signed)
      (\<lambda>h s. h \<noteq> [] \<and> holds e job (ladderFact q) s) (started e job)"
      by (rule valid_weaken) (auto elim!: holds_mono started_mono simp: ladderFact_def signedUnder_def)
    then show "triple (holds e job (\<lambda>tr h. True \<and> signedUnder i q (intentOf job addr tx) tr))
      (bindS (sendStage e job i addr tx signed) (\<lambda>h. returnS (Go (tx, q, signed, h)))) ?Q (started e job)"
      by (rule valid_bind) (use q gas in \<open>auto intro!: valid_return simp: handedOver_def\<close>)
  qed
  have "triple (started e job) (signStage e job i addr tx)
    (\<lambda>(q, signed) s. (\<exists>others. q = reserveRequest job i addr tx others) \<and>
       assertSignedMatchesIntent (ev_codec e) signed (intentOf job addr tx) = Inr () \<and>
       holds e job (\<lambda>tr h. True \<and> signedUnder i q (intentOf job addr tx) tr) s) (started e job)"
    by (rule valid_signStage [OF _ gas]) (simp add: grows_def)
  then show ?thesis
    unfolding submitStage_def by (rule valid_bind) (use send in auto)
qed

lemma valid_firstPart:
  assumes "wellSet e job i"
  shows "triple (started e job) (firstPart e job i addr off)
    (\<lambda>r s. case r of Finished _ \<Rightarrow> started e job s | Go x \<Rightarrow> handedOver e job i addr x s) (started e job)"
    (is "triple _ _ ?Q _")
proof -
  have submit: "triple (\<lambda>s. (\<forall>tx. b = Go tx \<longrightarrow> 0 \<le> bt_gas tx) \<and> started e job s)
    (case b of Finished r \<Rightarrow> returnS (Finished r) | Go tx \<Rightarrow> submitStage e job i addr tx) ?Q (started e job)" for b
    by (cases b) (auto intro!: valid_return valid_pure valid_submitStage [OF assms])
  have build: "triple (started e job) (case g of Finished r \<Rightarrow> returnS (Finished r) | Go x \<Rightarrow>
      bindS (buildStage e job i addr) (\<lambda>b. case b of Finished r \<Rightarrow> returnS (Finished r) | Go tx \<Rightarrow> submitStage e job i addr tx))
      ?Q (started e job)" for g :: "unit Stage"
    by (cases g) (auto intro!: valid_return valid_bind [OF valid_build [OF assms] submit])
  show ?thesis unfolding firstPart_def by (rule valid_then [OF keep_gateStage build])
qed

lemma recovered: "started e job s \<Longrightarrow> recoverStage e i addr err s = (r, s') \<Longrightarrow> started e job s'"
  using keep.followsD [OF keep_recoverStage] by blast

lemma secondPart_safe:
  assumes run: "secondPart e job i addr x s = Some (r, s')" and h: "handedOver e job i addr x s" and ws: "wellSet e job i"
  shows "started e job s'"
proof -
  obtain tx q signed fh where x: "x = (tx, q, signed, fh)" by (cases x)
  from run x obtain watched hint s2 where l: "ladderStage e job i addr tx q fh s = Some ((watched, hint), s2)"
    by (auto simp: secondPart_def split: option.splits)
  have adm: "admissible e job i addr tx q plan" if "jb_replacement job = Some plan" for plan
    using that h ws by (simp add: admissible_def handedOver_def wellSet_def x)
  have s2: "holds e job (ladderFact q) s2" "\<forall>h \<in> set watched. h \<noteq> []" "\<forall>h. hint = Some h \<longrightarrow> h \<in> set watched"
    by (rule ladderStage_kept [OF l adm]; use h ws in \<open>simp add: handedOver_def wellSet_def x\<close>)+
  from run x l obtain w s3 where w: "watchStage e (confirmationDepth (getChainConfig (jb_chainId job))) watched hint s2 = Some (w, s3)"
    by (auto simp: secondPart_def split: option.splits)
  from watchStage_facts [OF w s2(3)] s2(1)
  have s3: "holds e job (\<lambda>tr h. truthy h) s3" and m: "\<And>m. w = Inr m \<Longrightarrow> mr_txHash m \<noteq> []"
    using s2(2) by (auto simp: onTrace_def runInv_def ladderFact_def)
  show ?thesis
  proof (cases w)
    case (Inl err)
    with run x l w have "recoverStage e i addr err s3 = (r, s')" by (simp add: secondPart_def)
    then show ?thesis by (rule recovered [OF started_mono [OF s3]])
  next
    case (Inr receipt)
    with run x l w have c: "catchS (finishStage e job i addr tx signed watched receipt) (recoverStage e i addr) s3 = (r, s')"
      by (simp add: secondPart_def)
    have "triple (holds e job (\<lambda>tr h. truthy h)) (catchS (finishStage e job i addr tx signed watched receipt) (recoverStage e i addr))
        (\<lambda>_. started e job) (started e job)"
      by (rule valid_catch [OF valid_weaken [OF valid_finishStage [OF m [OF Inr]]] valid_keep [OF keep_recoverStage]])
        (auto elim: started_mono)
    from validD [OF this s3] validE [OF this s3] c show ?thesis by (cases r) auto
  qed
qed

lemma walletBody_safe:
  assumes "walletBody e job i addr off s = Some (r, s')" and "started e job s" and "wellSet e job i"
  shows "started e job s'"
proof -
  obtain p s1 where p: "firstPart e job i addr off s = (p, s1)" by (metis prod.collapse)
  have ok: "case x of Finished _ \<Rightarrow> started e job s1 | Go y \<Rightarrow> handedOver e job i addr y s1" if "p = Inr x" for x
    using validD [OF valid_firstPart [OF assms(3)] assms(2)] p that by blast
  have bad: "started e job s1" if "p = Inl err" for err
    using validE [OF valid_firstPart [OF assms(3)] assms(2)] p that by blast
  show ?thesis
  proof (cases p)
    case (Inl err)
    with assms(1) p have "recoverStage e i addr err s1 = (r, s')" by (simp add: walletBody_def)
    then show ?thesis by (rule recovered [OF bad [OF Inl]])
  next
    case (Inr x)
    show ?thesis
    proof (cases x)
      case (Finished y)
      with Inr assms(1) p ok [OF Inr] show ?thesis by (simp add: walletBody_def)
    next
      case (Go y)
      with Inr assms(1) p have "secondPart e job i addr y s1 = Some (r, s')" by (simp add: walletBody_def)
      with secondPart_safe ok [OF Inr] Go assms(3) show ?thesis by simp
    qed
  qed
qed

text \<open>Whatever the outside answers, the trace of a run is safe.\<close>

lemma run_safe:
  assumes "walletRun e job i off s = Some (r, s')" and "trace (fst s) = []" and "snd s = newLocals begun"
    and "wellSet e job i"
  shows "safe e job (trace (fst s'))"
proof -
  have s: "started e job s" using assms(2,3) by (simp add: onTrace_def runInv_def newLocals_def unsubmitted_def)
  obtain p s1 where p: "callS (ev_listWallets e) s = (p, s1)" by (metis prod.collapse)
  with s have s1: "started e job s1" using keep.followsD [OF keep_call p] by blast
  have "started e job s'"
  proof (cases p)
    case (Inl err)
    with assms(1) p s1 show ?thesis by (simp add: walletRun_def)
  next
    case (Inr ws)
    with assms(1) p s1 show ?thesis
      by (auto simp: walletRun_def split: option.splits dest: walletBody_safe [OF _ s1 assms(4)])
  qed
  then show ?thesis by (simp add: onTrace_def runInv_def)
qed

section \<open>The run returns\<close>

definition wellPaced :: "ReceiptWatcherOptions \<Rightarrow> bool" where
  "wellPaced o' \<longleftrightarrow> 0 < initialPollMs o' \<and> 0 < maxPollMs o' \<and> 0 < backoffMultiplier o'"

lemma watchOne_returns: "wellPaced (w_options (ev_watcher e)) \<Longrightarrow> \<exists>y. watchOne e depth h s = Some y"
  using wait_returns [of "ev_watcher e" h depth] by (cases s) (force simp: wellPaced_def watchOne_def)

lemma anyReceipt_returns: "wellPaced (w_options (ev_watcher e)) \<Longrightarrow> \<exists>y. anyReceipt e depth first hs s = Some y"
proof (induction hs arbitrary: first s)
  case (Cons h hs)
  from watchOne_returns [OF Cons.prems] obtain r s' where "watchOne e depth h s = Some (r, s')" by (metis prod.collapse)
  with Cons show ?case by (cases r) auto
qed simp

lemma watchStage_returns: "wellPaced (w_options (ev_watcher e)) \<Longrightarrow> \<exists>y. watchStage e depth watched hint s = Some y"
  unfolding watchStage_def by (auto intro: watchOne_returns anyReceipt_returns simp del: split_paired_Ex)

lemma ladderStage_returns: "\<exists>y. ladderStage e job i addr tx q h s = Some y"
proof -
  have "\<exists>y. runReplacementLadder (ladderInput plan tx h a t) (ladderDeps e job i addr tx q plan) s1 = Some y" for plan a t s1
    using engine_ladder.ladder_returns [of "ladderInput plan tx h a t"] by (fastforce simp: ladderInput_def)
  then show ?thesis
    by (cases s; cases "jb_replacement job") (simp_all add: ladderStage_def Let_def del: split_paired_Ex)
qed

lemma secondPart_returns:
  assumes "wellPaced (w_options (ev_watcher e))"
  shows "\<exists>y. secondPart e job i addr x s = Some y"
proof -
  obtain tx q signed fh where x: "x = (tx, q, signed, fh)" by (cases x)
  obtain watched hint s2 where l: "ladderStage e job i addr tx q fh s = Some ((watched, hint), s2)"
    using ladderStage_returns by (metis prod.collapse)
  obtain r s3 where "watchStage e (confirmationDepth (getChainConfig (jb_chainId job))) watched hint s2 = Some (r, s3)"
    using watchStage_returns [OF assms] by (metis prod.collapse)
  with l x show ?thesis by (cases r) (simp_all add: secondPart_def del: split_paired_Ex)
qed

lemma walletBody_returns:
  "wellPaced (w_options (ev_watcher e)) \<Longrightarrow> \<exists>y. walletBody e job i addr off s = Some y"
  by (auto simp: walletBody_def split: prod.split sum.split Stage.split simp del: split_paired_Ex split_paired_All
      intro: secondPart_returns)

lemma run_returns:
  "wellPaced (w_options (ev_watcher e)) \<Longrightarrow> \<exists>y. walletRun e job i off s = Some y"
  by (auto simp: walletRun_def split: prod.split sum.split option.split simp del: split_paired_Ex split_paired_All
      intro: walletBody_returns)

section \<open>Success\<close>

definition settledIn :: "EngineEvent list \<Rightarrow> string \<Rightarrow> bool" where
  "settledIn tr rid \<longleftrightarrow> (\<exists>c. SettleCall rid c \<in> set tr) \<or> (\<exists>v g. SettlePlainCall rid v g \<in> set tr)"

lemma grows_settled: "grows (\<lambda>tr h. settledIn tr rid)"
  by (auto simp: grows_def settledIn_def)

lemma call_quiet: "callS f s = (r, s') \<Longrightarrow> trace (fst s') = trace (fst s) \<and> snd s' = snd s"
  by (cases s; cases s') (auto simp: callS_def worldS_apply dest: askS_trace)

lemma settle_recorded:
  "settleS e rid tx r s = (Inr u, s') \<Longrightarrow> settledIn (trace (fst s')) rid \<and> set (trace (fst s)) \<subseteq> set (trace (fst s')) \<and> snd s' = snd s"
  unfolding settleS_def Let_def
  by (cases s) (auto simp: bindS_eq_Inr settledIn_def split: option.splits dest!: call_quiet, blast+)

lemma store_recorded:
  "storeS e f ev s = (Inr u, s') \<Longrightarrow> (ev_store e \<longrightarrow> ev \<in> set (trace (fst s'))) \<and> set (trace (fst s)) \<subseteq> set (trace (fst s')) \<and> snd s' = snd s"
  by (cases s) (auto simp: storeS_def bindS_eq_Inr split: if_splits dest!: call_quiet)

lemma readS_eq: "readS f s = (r, s') \<longleftrightarrow> r = Inr (f (snd s)) \<and> s' = s"
  by (cases s) (auto simp: readS_def)

lemma localsS_eq: "localsS f s = (r, s') \<longleftrightarrow> r = Inr () \<and> s' = (fst s, f (snd s))"
  by (cases s) (auto simp: localsS_def)

lemma finish_success:
  assumes "finishStage e job i addr tx signed watched r s = (Inr res, s')" and "wr_status res = WSuccess"
  shows "\<exists>rid row. wr_reservationId res = Some rid \<and> settledIn (trace (fst s')) rid \<and> mr_status r = ReceiptSuccess \<and>
    authoritative (jb_chainId job) r \<and> wr_txHash res = Some (mr_txHash r) \<and>
    (ev_store e \<longrightarrow> ReceiptStored row \<in> set (trace (fst s')) \<and> rr_status row = RowConfirmed \<and> rr_txHash row = mr_txHash r)"
proof -
  from assms(1) obtain winnerId recon rec s2 s3 s4 u1 u2 u3 f where
    st: "storeS e (ev_persistReceipt e (receiptRow job tx winnerId r)) (ReceiptStored (receiptRow job tx winnerId r)) s2 = (Inr u1, s3)"
    "persistReconciliation e rec s3 = (Inr u2, s4)"
    "(if shouldSettleReceipt (jb_chainId job) (mr_status r) (mr_finalityStage r)
      then (case reservation (snd s4) of None \<Rightarrow> throwS (EOther ''TypeError'') | Some x \<Rightarrow> settleS e x tx r) else returnS ()) s4 = (Inr u3, s')"
    and res: "res = finishResult job i addr tx r recon (snd s')"
    by (auto simp: finishStage_def Let_def bindS_eq_Inr readS_eq localsS_eq)
  from res assms(2) have ok: "mr_status r = ReceiptSuccess" "authoritative (jb_chainId job) r" "wr_txHash res = Some (mr_txHash r)"
    "wr_reservationId res = reservation (snd s')"
    by (auto simp: finishResult_def Let_def walletResult_def split: if_splits)
  then have "shouldSettleReceipt (jb_chainId job) (mr_status r) (mr_finalityStage r)"
    by (auto simp: authoritative_def shouldSettleReceipt_def)
  with st(3) obtain rid where rid: "reservation (snd s4) = Some rid" "settleS e rid tx r s4 = (Inr u3, s')"
    by (auto split: option.splits)
  have "rr_status (receiptRow job tx winnerId r) = RowConfirmed" "rr_txHash (receiptRow job tx winnerId r) = mr_txHash r"
    using ok by (simp_all add: receiptRow_def)
  then show ?thesis
    using ok rid(1) settle_recorded [OF rid(2)] store_recorded [OF st(1)] store_recorded [OF st(2) [unfolded persistReconciliation_def]]
    by (auto intro!: exI [of _ "receiptRow job tx winnerId r"])
qed

lemma recoverResult_status [simp]: "wr_status (recoverResult i addr m recovery l) = (if truthy (submittedHash l) then WTimeout else WFailed)"
  by (simp add: recoverResult_def Let_def walletResult_def)

lemma walletResult_status [simp]: "wr_status (walletResult i addr st err) = st"
  by (simp add: walletResult_def)

lemma recover_status: "recoverStage e i addr err s = (Inr res, s') \<Longrightarrow> wr_status res \<in> {WTimeout, WFailed}"
  unfolding recoverStage_def bindS_eq_Inr readS_eq by fastforce

lemma gate_status:
  fixes e :: "'x EngineEnv"
  assumes "gateStage e job i addr off s = (Inr (Finished r), s')"
  shows "wr_status r = WKilled \<or> (\<not> cfg_dryRun (jb_cfg job) \<and> wr_status r = WSkipped)"
proof -
  let ?tail = "\<lambda>change. (case changeText change of
      Some c \<Rightarrow> returnS (Finished (walletResult i addr WSkipped (Some (''CAMPAIGN_CHANGED_MID_RUN: '' @ c))))
    | None \<Rightarrow> if \<not> cfg_dryRun (jb_cfg job) \<and> (case simulationFor job i of None \<Rightarrow> True | Some s \<Rightarrow> \<not> sim_success s)
        then returnS (Finished (walletResult i addr WSkipped
               (Some (case simulationFor job i of None \<Rightarrow> ''Simulation unavailable''
                  | Some s \<Rightarrow> (case sim_error s of None \<Rightarrow> ''Simulation unavailable'' | Some m \<Rightarrow> m)))))
        else returnS (Go ())) :: ('x, unit Stage) eng"
  from assms obtain killed s1 where k: "(case killed of Some why \<Rightarrow> returnS (Finished (walletResult i addr WKilled (Some why)))
      | None \<Rightarrow> bindS (policyS e job) (\<lambda>_. bindS (recheckS e job) ?tail)) s1 = (Inr (Finished r), s')"
    unfolding gateStage_def Let_def bindS_eq_Inr by blast
  show ?thesis
  proof (cases killed)
    case (Some why)
    with k show ?thesis by auto
  next
    case None
    with k have "bindS (policyS e job) (\<lambda>_. bindS (recheckS e job) ?tail) s1 = (Inr (Finished r), s')" by simp
    then obtain change s2 s3 where c: "recheckS e job s2 = (Inr change, s3)" "?tail change s3 = (Inr (Finished r), s')"
      unfolding bindS_eq_Inr by blast
    show ?thesis
    proof (cases "cfg_dryRun (jb_cfg job)")
      case True
      with c(1) have "changeText change = None" by (simp add: recheckS_def changeText_def)
      with c(2) True show ?thesis by simp
    next
      case False
      with c(2) show ?thesis by (auto split: option.splits if_splits)
    qed
  qed
qed

lemma build_status: "buildStage e job i addr s = (Inr (Finished r), s') \<Longrightarrow> wr_status r = WPrepared"
  by (auto simp: buildStage_def bindS_eq_Inr Let_def walletResult_def split: if_splits)

lemma firstPart_status:
  assumes "firstPart e job i addr off s = (Inr (Finished r), s')"
  shows "wr_status r = WKilled \<or> wr_status r = WPrepared \<or> (\<not> cfg_dryRun (jb_cfg job) \<and> wr_status r = WSkipped)"
proof -
  from assms obtain g s1 where g: "gateStage e job i addr off s = (Inr g, s1)"
    and rest: "(case g of Finished r \<Rightarrow> returnS (Finished r) | Go _ \<Rightarrow> bindS (buildStage e job i addr) (\<lambda>b.
         case b of Finished r \<Rightarrow> returnS (Finished r) | Go tx \<Rightarrow> submitStage e job i addr tx)) s1 = (Inr (Finished r), s')"
    by (auto simp: firstPart_def bindS_eq_Inr)
  show ?thesis
  proof (cases g)
    case (Finished r')
    with rest g show ?thesis by (auto dest: gate_status)
  next
    case (Go u)
    with rest obtain b s2 where b: "buildStage e job i addr s1 = (Inr b, s2)"
      "(case b of Finished r \<Rightarrow> returnS (Finished r) | Go tx \<Rightarrow> submitStage e job i addr tx) s2 = (Inr (Finished r), s')"
      by (auto simp: bindS_eq_Inr)
    then show ?thesis by (cases b) (auto dest: build_status simp: submitStage_def bindS_eq_Inr split: prod.splits)
  qed
qed

definition provenSuccess :: "'x EngineEnv \<Rightarrow> EngineEvent list \<Rightarrow> WalletMintResult \<Rightarrow> bool" where
  "provenSuccess e tr res \<longleftrightarrow>
     (\<exists>rid row. wr_reservationId res = Some rid \<and> settledIn tr rid \<and>
        (ev_store e \<longrightarrow> ReceiptStored row \<in> set tr \<and> rr_status row = RowConfirmed \<and> wr_txHash res = Some (rr_txHash row)))"

lemma secondPart_success:
  assumes "secondPart e job i addr x s = Some (Inr res, s')" and "wr_status res = WSuccess"
  shows "provenSuccess e (trace (fst s')) res"
proof -
  obtain tx q signed fh where x: "x = (tx, q, signed, fh)" by (cases x)
  have finish: "provenSuccess e (trace (fst s')) res"
    if "catchS (finishStage e job i addr tx signed watched r) (recoverStage e i addr) s3 = (Inr res, s')" for watched r s3
    using that assms(2) finish_success [of e job i addr tx signed watched r s3 res s']
    unfolding catchS_eq_Inr provenSuccess_def by (metis WalletStatus.distinct insertE recover_status singletonD)
  from assms x finish show ?thesis
    by (auto simp: secondPart_def split: option.splits prod.splits sum.splits dest: recover_status)
qed

lemma run_success:
  assumes "walletRun e job i off s = Some (Inr res, s')" and "wr_status res = WSuccess"
  shows "provenSuccess e (trace (fst s')) res"
proof -
  have body: "provenSuccess e (trace (fst s')) res" if "walletBody e job i addr off s1 = Some (Inr res, s')" for addr s1
    using that assms(2)
    by (auto simp: walletBody_def split: prod.splits sum.splits Stage.splits dest: recover_status firstPart_status
        intro: secondPart_success)
  with assms(1) show ?thesis by (auto simp: walletRun_def split: prod.splits sum.splits option.splits)
qed

section \<open>Dry runs\<close>

definition untouched :: "EngineEvent list \<Rightarrow> EngineEvent list \<Rightarrow> Locals \<Rightarrow> bool" where
  "untouched tr0 tr l \<longleftrightarrow> tr = tr0 \<and> reservation l = None \<and> submittedHash l = None \<and> \<not> holdsGate l"

lemma dry_build: "cfg_dryRun (jb_cfg job) \<Longrightarrow> buildStage e job i addr s \<noteq> (Inr (Go tx), s')"
  by (auto simp: buildStage_def bindS_eq_Inr Let_def)

lemma dry_firstPart:
  assumes "cfg_dryRun (jb_cfg job)" and "firstPart e job i addr off s = (p, s')" and "onTrace (untouched tr0) s"
  shows "onTrace (untouched tr0) s' \<and> (\<forall>x. p \<noteq> Inr (Go x))"
proof -
  have keep: "keeps (untouched tr0) (buildStage e job i addr)"
    unfolding buildStage_def by (intro engine_rules keep_locals) (simp add: untouched_def)
  have "triple (onTrace (untouched tr0)) (firstPart e job i addr off)
      (\<lambda>p s. onTrace (untouched tr0) s \<and> (\<forall>x. p \<noteq> Go x)) (onTrace (untouched tr0))"
    unfolding firstPart_def
  proof (rule valid_bind [OF valid_keep [OF keep_gateStage]])
    fix g :: "unit Stage"
    have "triple (onTrace (untouched tr0)) (bindS (buildStage e job i addr) (\<lambda>b.
        case b of Finished r \<Rightarrow> returnS (Finished r) | Go tx \<Rightarrow> submitStage e job i addr tx))
        (\<lambda>p s. onTrace (untouched tr0) s \<and> (\<forall>x. p \<noteq> Go x)) (onTrace (untouched tr0))"
    proof (rule valid_bind)
      show "triple (onTrace (untouched tr0)) (buildStage e job i addr)
          (\<lambda>b s. (\<forall>tx. b \<noteq> Go tx) \<and> onTrace (untouched tr0) s) (onTrace (untouched tr0))"
        using keep.followsD [OF keep] dry_build [OF assms(1)] by (intro validI) blast+
    qed (auto split: Stage.split intro!: valid_pure valid_return simp: triple_def)
    then show "triple (onTrace (untouched tr0)) (case g of Finished r \<Rightarrow> returnS (Finished r) | Go _ \<Rightarrow>
        bindS (buildStage e job i addr) (\<lambda>b. case b of Finished r \<Rightarrow> returnS (Finished r) | Go tx \<Rightarrow> submitStage e job i addr tx))
        (\<lambda>p s. onTrace (untouched tr0) s \<and> (\<forall>x. p \<noteq> Go x)) (onTrace (untouched tr0))"
      by (cases g) (auto intro!: valid_return)
  qed
  from validD [OF this assms(3)] validE [OF this assms(3)] assms(2) show ?thesis by (cases p) auto
qed

lemma dry_recover:
  assumes "onTrace (untouched tr0) s"
  shows "recoverStage e i addr err s = (Inr (recoverResult i addr (mintErrorOf i err) None (snd s)), s)"
  using assms by (cases s) (simp add: recoverStage_def releaseS_def reconcileS_def bindS_def readS_def onTrace_def untouched_def)

lemma dry_body:
  assumes "cfg_dryRun (jb_cfg job)" and "onTrace (untouched tr0) s" and "walletBody e job i addr off s = Some (r, s')"
  shows "trace (fst s') = tr0 \<and> (\<forall>res. r = Inr res \<longrightarrow> wr_status res \<in> {WKilled, WPrepared, WFailed})"
proof -
  obtain p s1 where p: "firstPart e job i addr off s = (p, s1)" by (metis prod.collapse)
  from dry_firstPart [OF assms(1) p assms(2)] have s1: "onTrace (untouched tr0) s1" and ng: "\<forall>x. p \<noteq> Inr (Go x)" by auto
  then have tr: "trace (fst s1) = tr0" "submittedHash (snd s1) = None" by (simp_all add: onTrace_def untouched_def)
  show ?thesis
  proof (cases p)
    case (Inl err)
    with assms(3) p dry_recover [OF s1] tr show ?thesis
      by (auto simp: walletBody_def recoverResult_def Let_def walletResult_def)
  next
    case (Inr x)
    with ng obtain y where "x = Finished y" by (cases x) auto
    with Inr assms(1,3) p tr show ?thesis by (auto simp: walletBody_def dest: firstPart_status)
  qed
qed

lemma dry_run:
  assumes "cfg_dryRun (jb_cfg job)" and "snd s = newLocals begun" and "walletRun e job i off s = Some (r, s')"
  shows "trace (fst s') = trace (fst s) \<and> (\<forall>res. r = Inr res \<longrightarrow> wr_status res \<in> {WKilled, WPrepared, WFailed})"
proof -
  obtain p s1 where p: "callS (ev_listWallets e) s = (p, s1)" by (metis prod.collapse)
  have s1: "onTrace (untouched (trace (fst s))) s1" "trace (fst s1) = trace (fst s)"
    using call_quiet [OF p] assms(2) by (simp_all add: onTrace_def untouched_def newLocals_def)
  show ?thesis
  proof (cases p)
    case (Inl err)
    with assms(3) p s1(2) show ?thesis by (auto simp: walletRun_def)
  next
    case (Inr ws)
    with assms(3) p s1 show ?thesis
      by (auto simp: walletRun_def split: option.splits dest: dry_body [OF assms(1) s1(1)])
  qed
qed

end
