(* ===== verification/EngineTheorems.thy ===== *)
theory EngineTheorems
  imports EngineRun
begin

text \<open>
  The properties of a wallet's run: what it guarantees about signatures, broadcasts, settlements and
  releases, that it returns, that a dry run touches nothing, and how the results of a fleet are
  labelled. A small run on Ethereum is evaluated once for the witnesses.
\<close>

section \<open>A concrete run\<close>

declare repeatS.simps [code] ladderLoop.simps [code]

definition demoJob :: Job where
  "demoJob = \<lparr>jb_cfg = demoConfig\<lparr>cfg_chain := ChainEthereum\<rparr>, jb_units = demoUnits, jb_runId = ''run'', jb_intentId = None,
     jb_chainId = Chain1, jb_drop = demoFree\<lparr>strategyName := ''other'', drop_chainId := Chain1\<rparr>,
     jb_broadcaster = PublicMempool ''u'', jb_gasLimits = [(0, 100000)],
     jb_simulations = [(0, \<lparr>sim_walletIndex = 0, sim_address = ''0xa'', sourceBlock = 7, checkedAt = jint 0,
        gasEstimate = None, sim_success = True, revertType = None, sim_error = None\<rparr>)],
     jb_replacement = None, jb_startedAt = 0\<rparr>"

definition mainWatcher :: "unit Watcher" where
  "mainWatcher = \<lparr>w_client = demoClient, w_fallback = None, w_observer = NoObserver, w_timer = (\<lambda>x. (0, 0, x)), w_options = DEFAULT_OPTIONS\<rparr>"

definition mainCodec :: TxCodec where
  "mainCodec = \<lparr>parseTransaction = (\<lambda>tx. Some \<lparr>px_chainId = 1, px_to = Some ''0xc'', px_value = Some 0, px_data = Some ''0x16'',
     px_nonce = Some 3, px_gas = Some 100000, px_maxFeePerGas = Some 1000000000, px_maxPriorityFeePerGas = Some 1000000000\<rparr>),
     recoverAddress = (\<lambda>tx. Some ''0xa'')\<rparr>"

text \<open>The outside always answers at once; \<open>signed\<close> is what the signer answers.\<close>

definition demoEnv :: "(string + hex) \<Rightarrow> unit EngineEnv" where
  "demoEnv signed =
     \<lparr>ev_killed = (\<lambda>x. (None, 0, x)), ev_timer = (\<lambda>x. (0, 0, x)),
      ev_listWallets = (\<lambda>x. (Inr [\<lparr>index = 0, wi_address = ''0xa'', wi_label = None\<rparr>], 0, x)),
      ev_recheckDrop = (\<lambda>x. (Inr NoChange, 0, x)), ev_calldata = (\<lambda>a. Inr ''0x16''), ev_getNonce = (\<lambda>a x. (Inr 3, 0, x)),
      ev_consumeNonce = (\<lambda>a x. ((), 0, x)), ev_baseReads = (\<lambda>x. ((\<lambda>_. None, \<lambda>_. None, None, None), 0, x)), ev_store = True,
      ev_persistIntent = (\<lambda>a b x. (Inr (), 0, x)), ev_persistAttempt = (\<lambda>a x. (Inr (), 0, x)),
      ev_persistReceipt = (\<lambda>a x. (Inr (), 0, x)), ev_persistReconciliation = (\<lambda>a x. (Inr (), 0, x)),
      ev_enterGate = (\<lambda>x. ((), 0, x)), ev_leaveGate = (\<lambda>x. ((), 0, x)),
      ev_provider = Some \<lparr>rp_durable = Some True, rp_storeKind = Some ''normalized'', rp_reconfirm = True\<rparr>,
      ev_reserve = (\<lambda>q x. (Inr ''r1'', 0, x)), ev_reconfirm = (\<lambda>q x. (Inr (), 0, x)), ev_settleComponents = None,
      ev_settle = (\<lambda>v g x. (Inr (), 0, x)), ev_release = (\<lambda>x. (Inr (), 0, x)), ev_sign = (\<lambda>i t x. (signed, 0, x)),
      ev_signerAsksReady = (\<lambda>x. (False, 0, x)),
      ev_network = (\<lambda>x. ((\<lambda>url tx. (Reply (Some ''0xh'') None, 1), \<lambda>txs b. (BundleFailure ''none'', 0)), 0, x)),
      ev_blockNumber = (\<lambda>x. (Inr 7, 0, x)), ev_latestCount = (\<lambda>a x. (Inr 3, 0, x)), ev_pendingCount = (\<lambda>a x. (Inr 3, 0, x)),
      ev_probeReceipt = (\<lambda>h x. (Inr (), 0, x)), ev_simulationReads = (\<lambda>x. ((Inr ''0x16'', Inr 7, None), 0, x)),
      ev_watcher = mainWatcher, ev_codec = mainCodec, ev_keccak = (\<lambda>tx. ''0xh''), ev_sha256 = (\<lambda>s. ''5''),
      ev_parseDate = (\<lambda>s. NaN), ev_serialize = (\<lambda>c t. ''02''), ev_redact = (\<lambda>s. s),
      ev_identity = Some (\<lambda>i a. \<lparr>ei_runId = ''run'', ei_executionId = ''ex'', ei_transactionIntentId = ''ti''\<rparr>)\<rparr>"

definition demoStart :: "unit engState" where
  "demoStart = (\<lparr>clock = 0, outside = (), trace = []\<rparr>, newLocals [])"

fun eventName :: "EngineEvent \<Rightarrow> string" where
  "eventName (IntentStored _ _) = ''intent''"
| "eventName EnteredGate = ''enter''"
| "eventName LeftGate = ''leave''"
| "eventName (ReserveCall _) = ''reserve''"
| "eventName (Reserved _ _) = ''reserved''"
| "eventName (Reconfirmed _) = ''reconfirmed''"
| "eventName (SignCall _ _) = ''sign''"
| "eventName (AttemptStored _) = ''attempt''"
| "eventName (Broadcast _) = ''broadcast''"
| "eventName (Answered _ _) = ''answered''"
| "eventName (ConsumedNonce _) = ''nonce''"
| "eventName (ReceiptStored _) = ''receipt''"
| "eventName (ReconciliationStored _) = ''reconciliation''"
| "eventName (SettleCall _ _) = ''settle''"
| "eventName (SettlePlainCall _ _ _) = ''settle''"
| "eventName (ReleaseCall _) = ''release''"

lemma demo_sent:
  "map_option (\<lambda>(r, s). (case r of Inl _ \<Rightarrow> None | Inr res \<Rightarrow> Some (wr_status res), map eventName (trace (fst s))))
     (walletRun (demoEnv (Inr ''02'')) demoJob 0 0 demoStart) =
   Some (Some WSuccess, [''intent'', ''enter'', ''reserve'', ''reserved'', ''sign'', ''attempt'', ''broadcast'', ''answered'',
     ''attempt'', ''leave'', ''nonce'', ''receipt'', ''reconciliation'', ''settle''])"
  by code_simp

lemma demo_refused:
  "map_option (\<lambda>(r, s). map eventName (trace (fst s))) (walletRun (demoEnv (Inl ''locked'')) demoJob 0 0 demoStart) =
   Some [''intent'', ''enter'', ''reserve'', ''reserved'', ''sign'', ''leave'', ''release'']"
  by code_simp

lemma demo_run:
  obtains r s where "walletRun (demoEnv (Inr ''02'')) demoJob 0 0 demoStart = Some (Inr r, s)" and "wr_status r = WSuccess"
    and "length (trace (fst s)) = 14" and "eventName (trace (fst s) ! 4) = ''sign''" and "eventName (trace (fst s) ! 6) = ''broadcast''"
    and "eventName (trace (fst s) ! 13) = ''settle''"
proof -
  from demo_sent obtain x s where "walletRun (demoEnv (Inr ''02'')) demoJob 0 0 demoStart = Some (x, s)"
    "(case x of Inl _ \<Rightarrow> None | Inr res \<Rightarrow> Some (wr_status res)) = Some WSuccess"
    and ev: "map eventName (trace (fst s)) = [''intent'', ''enter'', ''reserve'', ''reserved'', ''sign'', ''attempt'', ''broadcast'',
       ''answered'', ''attempt'', ''leave'', ''nonce'', ''receipt'', ''reconciliation'', ''settle'']"
    by auto
  then obtain r where "walletRun (demoEnv (Inr ''02'')) demoJob 0 0 demoStart = Some (Inr r, s)" "wr_status r = WSuccess"
    by (cases x) auto
  moreover have len: "length (trace (fst s)) = 14" using arg_cong [OF ev, of length] by simp
  moreover have "eventName (trace (fst s) ! 4) = ''sign''" "eventName (trace (fst s) ! 6) = ''broadcast''"
    "eventName (trace (fst s) ! 13) = ''settle''"
    using arg_cong [OF ev, of "\<lambda>xs. xs ! 4"] arg_cong [OF ev, of "\<lambda>xs. xs ! 6"] arg_cong [OF ev, of "\<lambda>xs. xs ! 13"] len
    by simp_all
  ultimately show thesis by (rule that)
qed

lemma demo_wellSet: "\<forall>t. ev_keccak (demoEnv x) t \<noteq> []" "0 \<le> gasLimitOf (jb_gasLimits demoJob) 0 0" "trace (fst demoStart) = []"
  "snd demoStart = newLocals []" "ev_store (demoEnv x)"
  by (simp_all add: demoEnv_def demoJob_def gasLimitOf_def demoStart_def)

lemma demo_paced: "wellPaced (w_options (ev_watcher (demoEnv x)))"
  by (simp add: demoEnv_def mainWatcher_def DEFAULT_OPTIONS_def wellPaced_def)

lemma named_event:
  "eventName ev = ''sign'' \<Longrightarrow> \<exists>i intent. ev = SignCall i intent"
  "eventName ev = ''broadcast'' \<Longrightarrow> \<exists>tx. ev = Broadcast tx"
  "eventName ev = ''settle'' \<Longrightarrow> (\<exists>rid c. ev = SettleCall rid c) \<or> (\<exists>rid v g. ev = SettlePlainCall rid v g)"
  "eventName ev = ''release'' \<Longrightarrow> \<exists>rid. ev = ReleaseCall rid"
  by (cases ev; simp)+

section \<open>Properties\<close>

lemma run_permitted:
  assumes "walletRun e job i off s = Some (r, s')" and "trace (fst s) = []" and "snd s = newLocals begun"
    and "\<forall>t. ev_keccak e t \<noteq> []" and "0 \<le> gasLimitOf (jb_gasLimits job) 0 i" and "k < length (trace (fst s'))"
  shows "permitted e job (take k (trace (fst s'))) (trace (fst s') ! k)"
  using run_safe [OF assms(1-3)] assms(4-6) by (simp add: wellSet_def safe_def)

text \<open>
  C1. Nothing is signed without money set aside for it: whenever a wallet's run asks the signer for a
  signature, for the first transaction or for a replacement, a reservation was accepted before, for
  the same chain, wallet and value, and it covers the gas limit at the fee that is signed. This holds
  whatever the node, the store, the signer and the kill switch answer.
\<close>

theorem signatures_are_reserved:
  assumes "walletRun e job i off s = Some (r, s')" and "trace (fst s) = []" and "snd s = newLocals begun"
    and "\<forall>t. ev_keccak e t \<noteq> []" and "0 \<le> gasLimitOf (jb_gasLimits job) 0 i"
    and "k < length (trace (fst s'))" and "trace (fst s') ! k = SignCall j intent"
  shows "\<exists>q rid. Reserved q rid \<in> set (take k (trace (fst s'))) \<and> ri_chainId q = ti_chainId intent \<and>
    ri_address q = ti_from intent \<and> ri_valueWei q = ti_value intent \<and>
    ti_gasLimit intent * ti_maxFeePerGas intent \<le> ri_l2ExecutionGasWei q"
  using run_permitted [OF assms(1-6)] assms(7) by (auto simp: covers_def)

theorem signatures_are_reserved_witness:
  "\<exists>r s q rid. walletRun (demoEnv (Inr ''02'')) demoJob 0 0 demoStart = Some (r, s) \<and>
     eventName (trace (fst s) ! 4) = ''sign'' \<and> Reserved q rid \<in> set (take 4 (trace (fst s)))"
proof -
  obtain r s where d: "walletRun (demoEnv (Inr ''02'')) demoJob 0 0 demoStart = Some (Inr r, s)"
    "length (trace (fst s)) = 14" "eventName (trace (fst s) ! 4) = ''sign''" by (rule demo_run)
  from named_event(1) [OF d(3)] obtain i intent where "trace (fst s) ! 4 = SignCall i intent" by blast
  from signatures_are_reserved [OF d(1) demo_wellSet(3,4,1,2) _ this] d show ?thesis by auto
qed

text \<open>
  C2. Nothing reaches a broadcaster unless it was signed for an intent it was checked against field by
  field, and, when there is a lifecycle store, unless the signed attempt with its hash had been stored
  before: a crash after the broadcast can always find what was sent.
\<close>

theorem broadcasts_are_signed_and_stored:
  assumes "walletRun e job i off s = Some (r, s')" and "trace (fst s) = []" and "snd s = newLocals begun"
    and "\<forall>t. ev_keccak e t \<noteq> []" and "0 \<le> gasLimitOf (jb_gasLimits job) 0 i"
    and "k < length (trace (fst s'))" and "trace (fst s') ! k = Broadcast tx"
  shows "(\<exists>j intent. SignCall j intent \<in> set (take k (trace (fst s'))) \<and>
       assertSignedMatchesIntent (ev_codec e) tx intent = Inr ()) \<and>
    (ev_store e \<longrightarrow> (\<exists>a. AttemptStored a \<in> set (take k (trace (fst s'))) \<and> at_responseClass a = AttemptSigned \<and>
       at_txHash a = Some (ev_keccak e tx)))"
  using run_permitted [OF assms(1-6)] assms(7) by simp

theorem broadcasts_are_signed_and_stored_witness:
  "\<exists>r s a. walletRun (demoEnv (Inr ''02'')) demoJob 0 0 demoStart = Some (r, s) \<and>
     eventName (trace (fst s) ! 6) = ''broadcast'' \<and> AttemptStored a \<in> set (take 6 (trace (fst s))) \<and>
     at_txHash a = Some ''0xh''"
proof -
  obtain r s where d: "walletRun (demoEnv (Inr ''02'')) demoJob 0 0 demoStart = Some (Inr r, s)"
    "length (trace (fst s)) = 14" "eventName (trace (fst s) ! 6) = ''broadcast''" by (rule demo_run)
  from named_event(2) [OF d(3)] obtain tx where "trace (fst s) ! 6 = Broadcast tx" by blast
  from broadcasts_are_signed_and_stored [OF d(1) demo_wellSet(3,4,1,2) _ this] d demo_wellSet(5)
  show ?thesis by (auto simp: demoEnv_def)
qed

text \<open>
  C3. A reservation is released only when it is one that was accepted in this run and nothing can have
  been submitted under it: every transaction handed to a broadcaster was answered, and every answer
  was a definite refusal.
\<close>

theorem release_only_unsubmitted:
  assumes "walletRun e job i off s = Some (r, s')" and "trace (fst s) = []" and "snd s = newLocals begun"
    and "\<forall>t. ev_keccak e t \<noteq> []" and "0 \<le> gasLimitOf (jb_gasLimits job) 0 i"
    and "k < length (trace (fst s'))" and "trace (fst s') ! k = ReleaseCall rid"
  shows "(\<exists>q. Reserved q rid \<in> set (take k (trace (fst s')))) \<and>
    (\<forall>tx. Broadcast tx \<in> set (take k (trace (fst s'))) \<longrightarrow>
       (\<exists>rs. Answered tx rs \<in> set (take k (trace (fst s'))) \<and> list_all (\<lambda>a. \<not> success a \<and> \<not> maybeSubmitted a) rs))"
  using run_permitted [OF assms(1-6)] assms(7) by (simp add: reserved_def unsubmitted_def refusedBy_def)

theorem release_only_unsubmitted_witness:
  "\<exists>r s q rid. walletRun (demoEnv (Inl ''locked'')) demoJob 0 0 demoStart = Some (r, s) \<and>
     trace (fst s) ! 6 = ReleaseCall rid \<and> Reserved q rid \<in> set (take 6 (trace (fst s)))"
proof -
  from demo_refused obtain r s where d: "walletRun (demoEnv (Inl ''locked'')) demoJob 0 0 demoStart = Some (r, s)"
    and ev: "map eventName (trace (fst s)) = [''intent'', ''enter'', ''reserve'', ''reserved'', ''sign'', ''leave'', ''release'']"
    by auto
  have len: "6 < length (trace (fst s))" using arg_cong [OF ev, of length] by simp
  have "eventName (trace (fst s) ! 6) = map eventName (trace (fst s)) ! 6" using len by simp
  then obtain rid where rid: "trace (fst s) ! 6 = ReleaseCall rid" using named_event(4) by (auto simp: ev)
  from release_only_unsubmitted [OF d demo_wellSet(3,4,1,2) len rid] d rid show ?thesis by blast
qed

text \<open>
  C4. A reservation is settled only when it was accepted in this run and, with a lifecycle store, only
  after a receipt was stored that is final for the chain: on the L2 chains, one observed final on
  Ethereum.
\<close>

theorem settles_only_final_receipts:
  assumes "walletRun e job i off s = Some (r, s')" and "trace (fst s) = []" and "snd s = newLocals begun"
    and "\<forall>t. ev_keccak e t \<noteq> []" and "0 \<le> gasLimitOf (jb_gasLimits job) 0 i" and "k < length (trace (fst s'))"
    and "trace (fst s') ! k = SettleCall rid c \<or> trace (fst s') ! k = SettlePlainCall rid v g"
  shows "(\<exists>q. Reserved q rid \<in> set (take k (trace (fst s')))) \<and>
    (ev_store e \<longrightarrow> (\<exists>row. ReceiptStored row \<in> set (take k (trace (fst s'))) \<and>
       (jb_chainId job = Chain1 \<or> rr_finalityStage row = StEthereumFinal)))"
  using run_permitted [OF assms(1-6)] assms(7) by (auto simp: reserved_def storedFinal_def)

theorem settles_only_final_receipts_witness:
  "\<exists>r s row. walletRun (demoEnv (Inr ''02'')) demoJob 0 0 demoStart = Some (r, s) \<and>
     eventName (trace (fst s) ! 13) = ''settle'' \<and> ReceiptStored row \<in> set (take 13 (trace (fst s)))"
proof -
  obtain r s where d: "walletRun (demoEnv (Inr ''02'')) demoJob 0 0 demoStart = Some (Inr r, s)"
    "length (trace (fst s)) = 14" "eventName (trace (fst s) ! 13) = ''settle''" by (rule demo_run)
  from named_event(3) [OF d(3)] obtain rid c v g
    where "trace (fst s) ! 13 = SettleCall rid c \<or> trace (fst s) ! 13 = SettlePlainCall rid v g" by blast
  from settles_only_final_receipts [OF d(1) demo_wellSet(3,4,1,2) _ this] d demo_wellSet(5) show ?thesis by auto
qed

text \<open>
  C5. A wallet is reported as a success only when its reservation was settled in this run and, with a
  lifecycle store, a confirmed receipt for the reported hash was stored.
\<close>

theorem success_is_settled:
  assumes "walletRun e job i off s = Some (Inr res, s')" and "wr_status res = WSuccess"
  shows "\<exists>rid row. wr_reservationId res = Some rid \<and>
    ((\<exists>c. SettleCall rid c \<in> set (trace (fst s'))) \<or> (\<exists>v g. SettlePlainCall rid v g \<in> set (trace (fst s')))) \<and>
    (ev_store e \<longrightarrow> ReceiptStored row \<in> set (trace (fst s')) \<and> rr_status row = RowConfirmed \<and>
       wr_txHash res = Some (rr_txHash row))"
  using run_success [OF assms] by (simp add: provenSuccess_def settledIn_def)

theorem success_is_settled_witness:
  "\<exists>res s row. walletRun (demoEnv (Inr ''02'')) demoJob 0 0 demoStart = Some (Inr res, s) \<and>
     ReceiptStored row \<in> set (trace (fst s)) \<and> rr_status row = RowConfirmed"
proof -
  obtain r s where d: "walletRun (demoEnv (Inr ''02'')) demoJob 0 0 demoStart = Some (Inr r, s)" "wr_status r = WSuccess"
    by (rule demo_run)
  from success_is_settled [OF d] d(1) demo_wellSet(5) show ?thesis by blast
qed

text \<open>
  C6. The run of a wallet always returns: with positive poll intervals of the watcher, neither the
  replacement ladder nor the receipt watcher can keep it from ending, whatever the outside answers and
  however long it takes.
\<close>

theorem wallet_run_returns:
  assumes "0 < initialPollMs (w_options (ev_watcher e))" and "0 < maxPollMs (w_options (ev_watcher e))"
    and "0 < backoffMultiplier (w_options (ev_watcher e))"
  shows "\<exists>r s'. walletRun e job i off s = Some (r, s')"
  using run_returns [of e job i off s] assms by (simp add: wellPaced_def)

theorem wallet_run_returns_witness:
  "\<exists>r s'. walletRun (demoEnv (Inr ''02'')) demoJob 0 0 demoStart = Some (r, s')"
  by (rule wallet_run_returns) (simp_all add: demoEnv_def mainWatcher_def DEFAULT_OPTIONS_def)

text \<open>
  C7. A dry run touches nothing: no reservation, no gate, no signature, no broadcast and nothing stored,
  and the wallet ends prepared, killed or failed, never as submitted or minted.
\<close>

theorem dry_run_touches_nothing:
  assumes "cfg_dryRun (jb_cfg job)" and "snd s = newLocals begun" and "walletRun e job i off s = Some (r, s')"
  shows "trace (fst s') = trace (fst s) \<and> (\<forall>res. r = Inr res \<longrightarrow> wr_status res \<in> {WKilled, WPrepared, WFailed})"
  by (rule dry_run [OF assms])

definition demoDry :: Job where
  "demoDry = demoJob\<lparr>jb_cfg := demoConfig\<lparr>cfg_chain := ChainEthereum, cfg_dryRun := True\<rparr>\<rparr>"

theorem dry_run_touches_nothing_witness:
  "\<exists>r s'. walletRun (demoEnv (Inr ''02'')) demoDry 0 0 demoStart = Some (r, s') \<and> trace (fst s') = []"
proof -
  obtain y where y: "walletRun (demoEnv (Inr ''02'')) demoDry 0 0 demoStart = Some y"
    using run_returns [OF demo_paced] by blast
  obtain r s' where rs: "y = (r, s')" by (cases y)
  have "trace (fst s') = trace (fst demoStart)"
    using dry_run_touches_nothing [OF _ demo_wellSet(4) y [unfolded rs]] by (simp add: demoDry_def)
  with y rs demo_wellSet(3) show ?thesis by auto
qed

text \<open>
  The labels of a rejected promise come from the admitted wallets in their order, the promises follow
  the order of the fire plan: with lanes that fire wallet 1 before wallet 0, the rejection of wallet 1
  is reported under wallet 0.
\<close>

definition swappedLanes :: "FireLane list" where
  "swappedLanes = [\<lparr>lane_walletIndexes = [jint 1], lane_startOffsetMs = jint 0, lane_mode = ModeBlast\<rparr>,
     \<lparr>lane_walletIndexes = [jint 0], lane_startOffsetMs = jint 5, lane_mode = ModeBlast\<rparr>]"

lemma rejection_labelled_by_position:
  "(case planFireLanes [jint 0, jint 1] (Some swappedLanes) ModeBlast of
      Inl _ \<Rightarrow> [] | Inr plan \<Rightarrow> map fa_walletIndex (admittedLanes plan [0, 1])) = [jint 1, jint 0] \<and>
   map wr_walletIndex (fleetResults [0, 1]
     [Inl (EOther ''Wallet index 1 not found''), Inr (walletResult 0 ''0xa'' WPrepared None)]) = [0, 0]"
  by code_simp

end
