(* ===== verification/Database.thy ===== *)
theory Database
  imports Effects
begin

text \<open>
  The tables of the canonical SQLite database that spend accounting reads and writes
  (\<^verbatim>\<open>packages/database/src\<close>), and the admission window of \<^verbatim>\<open>spend-window.ts\<close>.

  \<^item> A table is the list of its rows in row order, a row a record of its columns. A query by key is
    \<open>find\<close>, a query by condition \<open>filter\<close>. Amounts, stored as decimal texts, are integers. A stored
    time is the number of milliseconds it stands for, \<open>None\<close> for a text (or \<^verbatim>\<open>NULL\<close>) that
    \<^verbatim>\<open>julianday\<close> and \<^verbatim>\<open>Date.parse\<close> cannot read; a \<^verbatim>\<open>Date\<close> is \<open>None\<close> when it is invalid.
    The evidence streams are ordered by the text of their times, which stays a text.
  \<^item> A statement that may fail returns an error or the new database. \<open>immediate\<close> is
    \<^verbatim>\<open>BEGIN IMMEDIATE\<close> with its \<^verbatim>\<open>COMMIT\<close> or \<^verbatim>\<open>ROLLBACK\<close>.
  \<^item> Key and uniqueness constraints and the check on \<^verbatim>\<open>amount_wei\<close> are written out. The triggers
    and foreign keys of the migrations can only refuse a write; which writes they let through is
    the argument \<open>allows\<close>, so a theorem holds for every set of triggers.
\<close>

section \<open>Texts and times\<close>

type_synonym date = "int option"
type_synonym dbError = string

text \<open>Comparison of two texts, as SQLite and JavaScript order them.\<close>

fun textLe :: "string \<Rightarrow> string \<Rightarrow> bool" where
  "textLe [] _ = True"
| "textLe (_ # _) [] = False"
| "textLe (x # xs) (y # ys) =
     (if x = y then textLe xs ys else (of_char x :: nat) < of_char y)"

text \<open>\<^verbatim>\<open>toISOString\<close>: a time outside the range of dates throws.\<close>

definition MAX_DATE_MS :: int where
  "MAX_DATE_MS = 8640000000000000"

fun toISOString :: "date \<Rightarrow> dbError + int" where
  "toISOString None = Inl ''Invalid time value''"
| "toISOString (Some t) = (if \<bar>t\<bar> \<le> MAX_DATE_MS then Inr t else Inl ''Invalid time value'')"

section \<open>Tables\<close>

datatype ReservationStatus = Reserved | Settled | Released | Expired

datatype MintClass = FreeMint | PaidMint | LegacyMint

record ReservationRow =
  rv_id :: string
  rv_walletId :: string
  rv_executionId :: "string option"
  rv_idempotencyKey :: string
  rv_requestId :: "string option"
  rv_fingerprint :: "hash option"
  rv_policyId :: string
  rv_amountWei :: wei
  rv_reservedWei :: "wei option"
  rv_usageDate :: string
  rv_status :: ReservationStatus
  rv_createdAt :: date
  rv_settledAt :: date
  rv_chainProfileId :: "string option"
  rv_campaignId :: "string option"
  rv_mintValueWei :: wei
  rv_l2GasWei :: wei
  rv_l1GasWei :: wei
  rv_priorityWei :: wei
  rv_replacementWei :: wei
  rv_mintBufferWei :: wei
  rv_l2BufferWei :: wei
  rv_l1BufferWei :: wei
  rv_priorityBufferWei :: wei
  rv_mintPeriodId :: string
  rv_intentId :: "string option"
  rv_mintClass :: MintClass
  rv_feePolicy :: "(string \<times> string) option"
  rv_settledWei :: "wei option"
  rv_settledParts :: "wei list option"

record ExecutionRow =
  ex_id :: string
  ex_walletId :: string
  ex_campaignId :: string
  ex_intentId :: string
  ex_reservationId :: "string option"
  ex_state :: string
  ex_runId :: "string option"

record SpendPolicyRow =
  sp_id :: string
  sp_walletId :: string
  sp_dailyCapWei :: wei
  sp_timezone :: string
  sp_active :: bool
  sp_campaignCapWei :: "wei option"
  sp_freeWalletCapWei :: wei
  sp_freePeriodCapWei :: wei

datatype ZeroPriorityPolicy = RequiresPoResolution | ZeroBlocked | ZeroAllowed

record FeePolicyRow =
  fp_id :: string
  fp_version :: string
  fp_chainProfileId :: string
  fp_maxTotalFeeWei :: wei
  fp_freeTotalFeeWei :: wei
  fp_freePriorityWei :: wei
  fp_freePriorityMultiplier :: int
  fp_paidEnabled :: bool
  fp_zeroPolicy :: ZeroPriorityPolicy
  fp_active :: bool

record ChainProfileRow =
  cp_id :: string
  cp_chainId :: int
  cp_executionEnabled :: bool
  cp_verified :: bool
  cp_successStage :: string

record WalletRow =
  wl_id :: string
  wl_chainProfileId :: string
  wl_address :: address

record IntentRow =
  in_id :: string
  in_walletId :: string
  in_campaignId :: string
  in_chainProfileId :: "string option"
  in_valueWei :: wei
  in_idempotencyKey :: "string option"
  in_requestId :: "string option"
  in_fingerprint :: "hash option"
  in_runId :: "string option"

record AttemptRow =
  at_id :: string
  at_intentId :: string
  at_executionId :: "string option"
  at_txHash :: "hash option"

record ReceiptRow =
  rc_id :: string
  rc_attemptId :: string
  rc_executionId :: "string option"
  rc_status :: string
  rc_finalityStage :: string
  rc_observedAt :: string

record ReconciliationRow =
  rn_id :: string
  rn_executionId :: "string option"
  rn_state :: string
  rn_checkedAt :: string

record LedgerEntry =
  le_id :: string
  le_walletId :: string
  le_executionId :: "string option"
  le_reservationId :: string
  le_entryType :: string
  le_component :: string
  le_amountWei :: wei
  le_createdAt :: int

text \<open>The owner's enablement records of Base and Robinhood, in row order, and their revocations.\<close>

record EnablementRow =
  en_id :: string
  en_approvedBy :: string
  en_approvedAt :: date
  en_expiresAt :: date
  en_freeAllowed :: bool
  en_paidAllowed :: bool
  en_evidence :: "(string \<times> jsval) list"
  en_evidenceDigest :: string
  en_strategyVersion :: string
  en_feePolicyVersion :: string
  en_primaryEndpoint :: string
  en_fallbackEndpoint :: string
  en_custodyMode :: string

record VerificationRow =
  cv_chainProfileId :: string
  cv_status :: string
  cv_checkedAt :: string
  cv_expiresAt :: date

record RunRow =
  ru_id :: string
  ru_campaignId :: string
  ru_fingerprint :: hash
  ru_backendDigest :: "hash option"
  ru_state :: string

text \<open>A row of the lifecycle or audit history: kind of entity, entity, new state.\<close>

record AuditRow =
  au_entityType :: string
  au_entityId :: string
  au_newState :: string

text \<open>
  The campaign's chain profile is what the join over its drop, collection and contract yields.
\<close>

record Db =
  db_killSwitch :: bool
  db_killChangedBy :: string
  db_killChangedAt :: date
  db_watermark :: "date option"
  db_reservations :: "ReservationRow list"
  db_executions :: "ExecutionRow list"
  db_spendPolicies :: "SpendPolicyRow list"
  db_feePolicies :: "FeePolicyRow list"
  db_chainProfiles :: "ChainProfileRow list"
  db_wallets :: "WalletRow list"
  db_intents :: "IntentRow list"
  db_campaignProfile :: "(string \<times> string) list"
  db_campaignWallets :: "(string \<times> string \<times> bool) list"
  db_campaignPeriods :: "(string \<times> string) list"
  db_robinhoodEnablements :: "EnablementRow list"
  db_baseEnablements :: "EnablementRow list"
  db_revocations :: "string list"
  db_verifications :: "VerificationRow list"
  db_runs :: "RunRow list"
  db_attempts :: "AttemptRow list"
  db_receipts :: "ReceiptRow list"
  db_reconciliations :: "ReconciliationRow list"
  db_ledger :: "LedgerEntry list"
  db_audit :: "AuditRow list"

datatype DbWrite =
    InsertReservation ReservationRow
  | UpdateReservation ReservationRow ReservationRow
  | UpdateExecution ExecutionRow ExecutionRow
  | InsertLedgerEntry LedgerEntry
  | InsertExecution ExecutionRow
  | InsertWallet WalletRow
  | InsertSpendPolicy SpendPolicyRow
  | InsertIntent IntentRow
  | InsertChainProfile ChainProfileRow
  | InsertFeePolicy FeePolicyRow
  | InsertAudit AuditRow
  | UpdateRun RunRow RunRow

type_synonym schema = "Db \<Rightarrow> DbWrite \<Rightarrow> bool"

section \<open>Statements\<close>

definition immediate :: "(Db \<Rightarrow> dbError + 'a \<times> Db) \<Rightarrow> (Db, dbError, 'a) eff" where
  "immediate operation db =
     (case operation db of
        Inl e \<Rightarrow> (Inl e, db)
      | Inr (x, db') \<Rightarrow> (Inr x, db'))"

definition constraintError :: dbError where
  "constraintError = ''SQLITE_CONSTRAINT''"

text \<open>The unique keys of \<^verbatim>\<open>spend_reservation\<close>: two rows that agree on one of them.\<close>

definition sharesKey :: "ReservationRow \<Rightarrow> ReservationRow \<Rightarrow> bool" where
  "sharesKey r s \<longleftrightarrow>
     rv_id r = rv_id s
     \<or> rv_idempotencyKey r = rv_idempotencyKey s
     \<or> (rv_executionId r \<noteq> None \<and> rv_executionId r = rv_executionId s)
     \<or> (rv_intentId r \<noteq> None \<and> rv_intentId r = rv_intentId s)
     \<or> (rv_requestId r \<noteq> None \<and> rv_requestId r = rv_requestId s \<and> rv_walletId r = rv_walletId s)"

definition insertReservation :: "schema \<Rightarrow> ReservationRow \<Rightarrow> Db \<Rightarrow> dbError + Db" where
  "insertReservation allows row db =
     (if list_ex (sharesKey row) (db_reservations db) \<or> rv_amountWei row \<le> 0
         \<or> \<not> allows db (InsertReservation row)
      then Inl constraintError
      else Inr (db\<lparr>db_reservations := db_reservations db @ [row]\<rparr>))"

text \<open>\<^verbatim>\<open>UPDATE ... WHERE id = ? AND status = 'reserved'\<close>: at most one row has the id.\<close>

definition updateReservation ::
  "schema \<Rightarrow> string \<Rightarrow> (ReservationRow \<Rightarrow> ReservationRow) \<Rightarrow> Db \<Rightarrow> dbError + Db" where
  "updateReservation allows key f db =
     (let hit = (\<lambda>r. rv_id r = key \<and> rv_status r = Reserved)
      in if list_ex (\<lambda>r. hit r \<and> (rv_amountWei (f r) \<le> 0 \<or> \<not> allows db (UpdateReservation r (f r))))
              (db_reservations db)
         then Inl constraintError
         else Inr (db\<lparr>db_reservations := map (\<lambda>r. if hit r then f r else r) (db_reservations db)\<rparr>))"

definition insertLedgerEntry :: "schema \<Rightarrow> LedgerEntry \<Rightarrow> Db \<Rightarrow> dbError + Db" where
  "insertLedgerEntry allows entry db =
     (if list_ex (\<lambda>e. le_id e = le_id entry) (db_ledger db) \<or> \<not> allows db (InsertLedgerEntry entry)
      then Inl constraintError
      else Inr (db\<lparr>db_ledger := db_ledger db @ [entry]\<rparr>))"

fun insertLedgerEntries :: "schema \<Rightarrow> LedgerEntry list \<Rightarrow> Db \<Rightarrow> dbError + Db" where
  "insertLedgerEntries allows [] db = Inr db"
| "insertLedgerEntries allows (e # es) db =
     bindR (insertLedgerEntry allows e db) (insertLedgerEntries allows es)"

section \<open>The admission window\<close>

definition ROLLING_SPEND_WINDOW_MS :: int where
  "ROLLING_SPEND_WINDOW_MS = 24 * 60 * 60 * 1000"

definition ADMISSION_CLOCK_SKEW_TOLERANCE_MS :: int where
  "ADMISSION_CLOCK_SKEW_TOLERANCE_MS = 5000"

definition rollingSpendCutoff :: "date \<Rightarrow> dbError + int" where
  "rollingSpendCutoff moment =
     (case moment of
        None \<Rightarrow> Inl ''ADMISSION_TIME_INVALID''
      | Some time \<Rightarrow> toISOString (Some (time - ROLLING_SPEND_WINDOW_MS)))"

definition assertNoStalePendingReservations :: "Db \<Rightarrow> date \<Rightarrow> dbError + unit" where
  "assertNoStalePendingReservations db moment =
     bindR (rollingSpendCutoff moment) (\<lambda>cutoff.
       ensure (\<not> list_ex (\<lambda>r. rv_status r = Reserved
                  \<and> (case rv_createdAt r of None \<Rightarrow> True | Some t \<Rightarrow> t \<le> cutoff)) (db_reservations db))
         ''STALE_PENDING_RESERVATION_REQUIRES_RECONCILIATION'')"

definition assertAndAdvanceAdmissionClock :: "date \<Rightarrow> Db \<Rightarrow> dbError + Db" where
  "assertAndAdvanceAdmissionClock moment db =
     (case moment of
        None \<Rightarrow> Inl ''ADMISSION_TIME_INVALID''
      | Some time \<Rightarrow>
          (case db_watermark db of
             Some None \<Rightarrow> Inl ''ADMISSION_CLOCK_WATERMARK_INVALID''
           | Some (Some previous) \<Rightarrow>
               if time + ADMISSION_CLOCK_SKEW_TOLERANCE_MS < previous then Inl ''ADMISSION_CLOCK_ROLLBACK''
               else bindR (toISOString (Some (max time previous))) (\<lambda>t.
                      Inr (db\<lparr>db_watermark := Some (Some t)\<rparr>))
           | None \<Rightarrow>
               bindR (toISOString (Some time)) (\<lambda>t. Inr (db\<lparr>db_watermark := Some (Some t)\<rparr>))))"

section \<open>Exposure\<close>

definition componentExposure :: "ReservationRow \<Rightarrow> wei" where
  "componentExposure row =
     (case rv_status row of
        Reserved \<Rightarrow>
          (case rv_reservedWei row of
             None \<Rightarrow> rv_amountWei row
           | Some n \<Rightarrow> if n = 0 then rv_amountWei row else n)
      | Settled \<Rightarrow> rv_amountWei row
      | _ \<Rightarrow> 0)"

text \<open>A pending row always counts, a settled one until it leaves the window.\<close>

definition inWindow :: "int \<Rightarrow> ReservationRow \<Rightarrow> bool" where
  "inWindow cutoff r \<longleftrightarrow>
     rv_status r = Reserved
     \<or> (rv_status r = Settled \<and> (case rv_settledAt r of None \<Rightarrow> True | Some t \<Rightarrow> cutoff \<le> t))"

definition openOrSettled :: "ReservationRow \<Rightarrow> bool" where
  "openOrSettled r \<longleftrightarrow> rv_status r \<in> {Reserved, Settled}"

definition exposureOf :: "(ReservationRow \<Rightarrow> bool) \<Rightarrow> Db \<Rightarrow> wei" where
  "exposureOf scope db = sum_list (map componentExposure (filter scope (db_reservations db)))"

section \<open>Lemmas\<close>

lemma toISOString_Inr [simp]: "toISOString d = Inr t \<longleftrightarrow> d = Some t \<and> \<bar>t\<bar> \<le> MAX_DATE_MS"
  by (cases d) auto

lemma rollingSpendCutoff_Inr:
  "rollingSpendCutoff moment = Inr c \<longleftrightarrow>
     (\<exists>t. moment = Some t \<and> c = t - ROLLING_SPEND_WINDOW_MS \<and> \<bar>c\<bar> \<le> MAX_DATE_MS)"
  by (cases moment) (auto simp: rollingSpendCutoff_def)

lemma immediate_error [simp]:
  "immediate operation db = (Inl e, db') \<longleftrightarrow> operation db = Inl e \<and> db' = db"
  by (auto simp: immediate_def split: sum.splits)

lemma immediate_ok [simp]:
  "immediate operation db = (Inr x, db') \<longleftrightarrow> operation db = Inr (x, db')"
  by (auto simp: immediate_def split: sum.splits)

text \<open>The watermark never moves backwards.\<close>

lemma clock_advances:
  assumes "assertAndAdvanceAdmissionClock moment db = Inr db'"
  obtains t w where "moment = Some t" and "db' = db\<lparr>db_watermark := Some (Some w)\<rparr>" and "t \<le> w"
    and "w \<le> t + ADMISSION_CLOCK_SKEW_TOLERANCE_MS"
    and "\<And>p. db_watermark db = Some (Some p) \<Longrightarrow> p \<le> w"
proof -
  from assms obtain t where t: "moment = Some t"
    by (auto simp: assertAndAdvanceAdmissionClock_def split: option.splits)
  show ?thesis
  proof (cases "db_watermark db")
    case None
    with assms t show ?thesis
      by (intro that [of t t])
         (auto simp: assertAndAdvanceAdmissionClock_def bindR_eq_Inr ADMISSION_CLOCK_SKEW_TOLERANCE_MS_def
               split: if_splits)
  next
    case (Some d)
    with assms t obtain p where p: "d = Some p"
      by (cases d) (auto simp: assertAndAdvanceAdmissionClock_def)
    with assms t Some show ?thesis
      by (intro that [of t "max t p"])
         (auto simp: assertAndAdvanceAdmissionClock_def bindR_eq_Inr ADMISSION_CLOCK_SKEW_TOLERANCE_MS_def
               split: if_splits)
  qed
qed

lemma insertReservation_Inr:
  "insertReservation allows row db = Inr db' \<longleftrightarrow>
     \<not> list_ex (sharesKey row) (db_reservations db) \<and> 0 < rv_amountWei row
     \<and> allows db (InsertReservation row)
     \<and> db' = db\<lparr>db_reservations := db_reservations db @ [row]\<rparr>"
  by (auto simp: insertReservation_def)

lemma insertLedgerEntries_Inr:
  "insertLedgerEntries allows es db = Inr db' \<Longrightarrow> db' = db\<lparr>db_ledger := db_ledger db @ es\<rparr>"
  by (induction es arbitrary: db db')
     (fastforce simp: bindR_eq_Inr insertLedgerEntry_def split: if_splits)+

lemma insertLedgerEntries_fresh:
  "insertLedgerEntries allows es db = Inr db' \<Longrightarrow>
     distinct (map le_id es) \<and> set (map le_id es) \<inter> set (map le_id (db_ledger db)) = {}"
  by (induction es arbitrary: db db')
     (fastforce simp: bindR_eq_Inr insertLedgerEntry_def list_ex_iff split: if_splits)+

lemma exposureOf_insert:
  "exposureOf scope (db\<lparr>db_reservations := db_reservations db @ [row]\<rparr>)
     = exposureOf scope db + (if scope row then componentExposure row else 0)"
  by (simp add: exposureOf_def)

lemma exposureOf_cong:
  "db_reservations db' = db_reservations db \<Longrightarrow> exposureOf scope db' = exposureOf scope db"
  by (simp add: exposureOf_def)

text \<open>Replacing rows by rows that weigh no more in the scope lowers the exposure.\<close>

lemma exposureOf_map_le:
  assumes "\<And>r. r \<in> set (db_reservations db) \<Longrightarrow>
    (if scope (g r) then componentExposure (g r) else 0) \<le> (if scope r then componentExposure r else 0)"
  shows "exposureOf scope (db\<lparr>db_reservations := map g (db_reservations db)\<rparr>) \<le> exposureOf scope db"
proof -
  have weight: "sum_list (map componentExposure (filter scope rs))
      = sum_list (map (\<lambda>r. if scope r then componentExposure r else 0) rs)" for rs
    by (induction rs) auto
  have "sum_list (map (\<lambda>r. if scope (g r) then componentExposure (g r) else 0) (db_reservations db))
      \<le> sum_list (map (\<lambda>r. if scope r then componentExposure r else 0) (db_reservations db))"
    using assms by (intro sum_list_mono) auto
  then show ?thesis by (simp add: exposureOf_def weight o_def)
qed

text \<open>As the cutoff moves forward, settled rows leave the window.\<close>

lemma inWindow_antimono: "c \<le> c' \<Longrightarrow> inWindow c' r \<Longrightarrow> inWindow c r"
  by (auto simp: inWindow_def split: option.splits)

lemma exposureOf_mono:
  assumes "\<And>r. r \<in> set (db_reservations db) \<Longrightarrow> scope r \<Longrightarrow> scope' r"
    and "\<And>r. r \<in> set (db_reservations db) \<Longrightarrow> 0 \<le> componentExposure r"
  shows "exposureOf scope db \<le> exposureOf scope' db"
proof -
  have "sum_list (map componentExposure (filter scope rs)) \<le> sum_list (map componentExposure (filter scope' rs))"
    if "set rs \<subseteq> set (db_reservations db)" for rs
    using that assms by (induction rs) (auto intro: add_increasing)
  then show ?thesis by (simp add: exposureOf_def)
qed

end
