(* ===== verification/Enablement.thy ===== *)
theory Enablement
  imports Database
begin

text \<open>
  The owner's enablement of Base and Robinhood (\<^verbatim>\<open>packages/backend/src/base-enablement.ts\<close>,
  \<^verbatim>\<open>robinhood-enablement.ts\<close> and the newest records of \<^verbatim>\<open>packages/database/src/repositories.ts\<close>), and the
  spend limits of the fleet (\<^verbatim>\<open>packages/backend/src/fleet-policy.ts\<close>, \<^verbatim>\<open>policy.ts\<close>, \<^verbatim>\<open>fees.ts\<close>).

  The sources judge an untyped value; here it is the stored row the canonical store hands over, whose
  columns have the types of the table. A time that is not an exact ISO text is \<open>None\<close>.
\<close>

section \<open>Robinhood\<close>

definition ROBINHOOD_EVIDENCE_STEPS :: "string list" where
  "ROBINHOOD_EVIDENCE_STEPS = [''E1'', ''E2'', ''E3'', ''E4'', ''E5'', ''E6'', ''E7'']"

definition PAID_EVIDENCE_STEPS :: "string list" where
  "PAID_EVIDENCE_STEPS = [''paidRehearsal'', ''paidPolicyApproved'']"

definition stepDone :: "EnablementRow \<Rightarrow> string \<Rightarrow> bool" where
  "stepDone e step \<longleftrightarrow> map_of (en_evidence e) step = Some (JBool True)"

definition requiredSteps :: "string list \<Rightarrow> EnablementRow \<Rightarrow> string list" where
  "requiredSteps steps e = (if en_paidAllowed e then steps @ PAID_EVIDENCE_STEPS else steps)"

definition validRobinhoodEnablement :: "EnablementRow option \<Rightarrow> date \<Rightarrow> EnablementRow option" where
  "validRobinhoodEnablement value now =
     (case value of
        None \<Rightarrow> None
      | Some e \<Rightarrow>
          (let required = requiredSteps ROBINHOOD_EVIDENCE_STEPS e; steps = map fst (en_evidence e)
           in if en_id e = [] \<or> 200 < length (en_id e) then None
              else if en_approvedBy e \<noteq> ''owner-cli'' then None
              else (case (en_approvedAt e, en_expiresAt e, now) of
                      (Some approved, Some expires, Some t) \<Rightarrow>
                        if t < approved \<or> expires \<le> t \<or> expires \<le> approved then None
                        else if length steps \<noteq> length required \<or> \<not> list_all (\<lambda>s. s \<in> set required) steps then None
                        else if list_all (stepDone e) required then Some e
                        else None
                    | _ \<Rightarrow> None)))"

datatype FeeKind = FreeKind | PaidKind

definition assertRobinhoodLiveAllowed :: "FeeKind \<Rightarrow> EnablementRow option \<Rightarrow> date \<Rightarrow> dbError + unit" where
  "assertRobinhoodLiveAllowed kind enablement now =
     (case validRobinhoodEnablement enablement now of
        None \<Rightarrow> Inl (if kind = PaidKind then ''ROBINHOOD_PAID_MINTS_DISABLED'' else ''ROBINHOOD_EXECUTION_DISABLED'')
      | Some e \<Rightarrow> ensure (\<not> (kind = PaidKind \<and> \<not> en_paidAllowed e)) ''ROBINHOOD_PAID_MINTS_DISABLED'')"

section \<open>Base\<close>

definition BASE_EVIDENCE_STEPS :: "string list" where
  "BASE_EVIDENCE_STEPS =
     [''reviewedCode'', ''forkRehearsal'', ''finality'', ''endpointAgreement'', ''feeObservation'',
      ''liveSimulation'', ''custodyReadiness'']"

definition hexDigest :: "string \<Rightarrow> bool" where
  "hexDigest s \<longleftrightarrow> length s = 64 \<and> list_all (\<lambda>c. c \<in> set ''0123456789abcdef'') s"

definition validBaseEnablement :: "EnablementRow option \<Rightarrow> date \<Rightarrow> EnablementRow option" where
  "validBaseEnablement value now =
     (case value of
        None \<Rightarrow> None
      | Some e \<Rightarrow>
          (let steps = requiredSteps BASE_EVIDENCE_STEPS e
           in if en_approvedBy e \<noteq> ''owner-cli'' \<or> \<not> en_freeAllowed e then None
              else (case (en_approvedAt e, en_expiresAt e) of
                      (Some approved, Some expires) \<Rightarrow>
                        if (case now of None \<Rightarrow> False | Some t \<Rightarrow> t < approved \<or> expires \<le> t) then None
                        else if length (en_evidence e) \<noteq> length steps \<or> \<not> list_all (stepDone e) steps then None
                        else if \<not> hexDigest (en_evidenceDigest e) then None
                        else if en_strategyVersion e = [] \<or> en_feePolicyVersion e = [] then None
                        else if en_primaryEndpoint e = en_fallbackEndpoint e then None
                        else if en_custodyMode e \<noteq> ''local-personal-live'' then None
                        else Some e
                    | _ \<Rightarrow> None)))"

definition assertBaseLiveAllowed :: "FeeKind \<Rightarrow> EnablementRow option \<Rightarrow> date \<Rightarrow> dbError + unit" where
  "assertBaseLiveAllowed kind enablement now =
     ensure (case validBaseEnablement enablement now of
               None \<Rightarrow> False
             | Some e \<Rightarrow> \<not> (kind = PaidKind \<and> \<not> en_paidAllowed e))
       (if kind = PaidKind then ''BASE_PAID_MINTS_DISABLED'' else ''BASE_EXECUTION_DISABLED'')"

definition assertBaseFirstRehearsal :: "bool \<Rightarrow> bool \<Rightarrow> nat \<Rightarrow> jsnum \<Rightarrow> dbError + unit" where
  "assertBaseFirstRehearsal completed outstanding walletCount quantity =
     (if completed then Inr ()
      else bindR (ensure (\<not> outstanding) ''BASE_FIRST_REHEARSAL_PENDING_FINALIZATION'') (\<lambda>_.
           bindR (ensure (walletCount = 1) ''BASE_FIRST_REHEARSAL_REQUIRES_ONE_WALLET'') (\<lambda>_.
           ensure (quantity = jint 1) ''BASE_FIRST_REHEARSAL_REQUIRES_ONE_NFT'')))"

section \<open>The newest records\<close>

definition newestEnablement :: "EnablementRow list \<Rightarrow> EnablementRow option" where
  "newestEnablement rows = (if rows = [] then None else Some (last rows))"

definition isRevoked :: "string \<Rightarrow> Db \<Rightarrow> bool" where
  "isRevoked enablementId db \<longleftrightarrow> enablementId \<in> set (db_revocations db)"

definition unlessRevoked :: "Db \<Rightarrow> EnablementRow option \<Rightarrow> EnablementRow option" where
  "unlessRevoked db latest =
     (case latest of None \<Rightarrow> None | Some e \<Rightarrow> if isRevoked (en_id e) db then None else Some e)"

definition latestRobinhoodEnablement :: "Db \<Rightarrow> EnablementRow option" where
  "latestRobinhoodEnablement db = unlessRevoked db (newestEnablement (db_robinhoodEnablements db))"

definition latestBaseEnablement :: "Db \<Rightarrow> EnablementRow option" where
  "latestBaseEnablement db = unlessRevoked db (newestEnablement (db_baseEnablements db))"

section \<open>Fleet limits\<close>

record FleetSpendPolicy =
  fl_freeDailyCapWei :: wei
  fl_paidDailyCapWei :: wei
  fl_paidHeadroomAlertWei :: wei
  fl_paidMaxPricePerNftWei :: wei
  fl_paidMaxWalletsPerMint :: jsnum
  fl_freeFeeAllowanceWei :: wei
  fl_paidFeeAllowanceWei :: wei

definition isDigit :: "char \<Rightarrow> bool" where
  "isDigit c \<longleftrightarrow> 48 \<le> (of_char c :: nat) \<and> (of_char c :: nat) \<le> 57"

fun decimalValue :: "int \<Rightarrow> string \<Rightarrow> int" where
  "decimalValue acc [] = acc"
| "decimalValue acc (c # cs) = decimalValue (acc * 10 + (int (of_char c) - 48)) cs"

definition ethToWei :: "string \<Rightarrow> dbError + wei" where
  "ethToWei value =
     (let whole = takeWhile isDigit value; rest = dropWhile isDigit value; fraction = drop 1 rest
      in if whole = [] then Inl ''ETH_AMOUNT_INVALID''
         else if rest = [] then Inr (decimalValue 0 whole * 10 ^ 18)
         else if hd rest = CHR ''.'' \<and> fraction \<noteq> [] \<and> length fraction \<le> 18 \<and> list_all isDigit fraction
         then Inr (decimalValue 0 whole * 10 ^ 18 + decimalValue 0 (fraction @ replicate (18 - length fraction) CHR ''0''))
         else Inl ''ETH_AMOUNT_INVALID'')"

definition eth :: "string \<Rightarrow> wei" where
  "eth value = (case ethToWei value of Inl _ \<Rightarrow> 0 | Inr n \<Rightarrow> n)"

definition PERSONAL_LIVE_FLEET_POLICY :: FleetSpendPolicy where
  "PERSONAL_LIVE_FLEET_POLICY =
     \<lparr>fl_freeDailyCapWei = eth ''0.0024'', fl_paidDailyCapWei = eth ''0.0082'',
      fl_paidHeadroomAlertWei = eth ''0.0075'', fl_paidMaxPricePerNftWei = eth ''0.0037'',
      fl_paidMaxWalletsPerMint = jint 2, fl_freeFeeAllowanceWei = eth ''0.0004'',
      fl_paidFeeAllowanceWei = eth ''0.00037''\<rparr>"

definition BASE_PERSONAL_LIVE_FLEET_POLICY :: FleetSpendPolicy where
  "BASE_PERSONAL_LIVE_FLEET_POLICY =
     \<lparr>fl_freeDailyCapWei = eth ''0.0012'', fl_paidDailyCapWei = eth ''0.0082'',
      fl_paidHeadroomAlertWei = eth ''0.0075'', fl_paidMaxPricePerNftWei = eth ''0.0037'',
      fl_paidMaxWalletsPerMint = jint 2, fl_freeFeeAllowanceWei = eth ''0.0002'',
      fl_paidFeeAllowanceWei = eth ''0.0002''\<rparr>"

definition validateFleetSpendPolicy :: "FleetSpendPolicy \<Rightarrow> dbError + FleetSpendPolicy" where
  "validateFleetSpendPolicy policy =
     (if list_ex (\<lambda>a. a \<le> 0)
           [fl_freeDailyCapWei policy, fl_paidDailyCapWei policy, fl_paidHeadroomAlertWei policy,
            fl_paidMaxPricePerNftWei policy, fl_freeFeeAllowanceWei policy, fl_paidFeeAllowanceWei policy]
         \<or> fl_paidDailyCapWei policy < fl_paidHeadroomAlertWei policy
         \<or> \<not> isSafeInteger (fl_paidMaxWalletsPerMint policy)
         \<or> js_lt (fl_paidMaxWalletsPerMint policy) (jint 1)
      then Inl ''FLEET_SPEND_POLICY_INVALID''
      else Inr policy)"

definition ROBINHOOD_FREE_PER_WALLET_CAP_WEI :: wei where
  "ROBINHOOD_FREE_PER_WALLET_CAP_WEI = 200000000000000"

definition ROBINHOOD_FREE_ACTIVE_PERIOD_CAP_WEI :: wei where
  "ROBINHOOD_FREE_ACTIVE_PERIOD_CAP_WEI = 2000000000000000"

definition assertRobinhoodFreePolicy :: "wei \<Rightarrow> wei \<Rightarrow> wei option \<Rightarrow> dbError + unit" where
  "assertRobinhoodFreePolicy gasCeiling periodCap reservation =
     bindR (ensure (\<not> ROBINHOOD_FREE_PER_WALLET_CAP_WEI < gasCeiling) ''ROBINHOOD_PER_WALLET_CAP_EXCEEDED'') (\<lambda>_.
     bindR (ensure (\<not> ROBINHOOD_FREE_ACTIVE_PERIOD_CAP_WEI < periodCap) ''ROBINHOOD_ACTIVE_PERIOD_CAP_EXCEEDED'') (\<lambda>_.
     ensure (case reservation of None \<Rightarrow> True | Some n \<Rightarrow> \<not> ROBINHOOD_FREE_PER_WALLET_CAP_WEI < n)
       ''ROBINHOOD_PER_WALLET_RESERVE_EXCEEDED''))"

record FeeBudgetInput =
  fb_totalFeeWei :: "wei option"
  fb_gasLimit :: "wei option"
  fb_baseFeeWei :: "wei option"
  fb_priorityFeeWei :: "wei option"
  fb_dataFeeWei :: "wei option"
  fb_multiplier :: "jsnum option"

definition normalizeTotalFeeBudget :: "FeeBudgetInput \<Rightarrow> dbError + wei" where
  "normalizeTotalFeeBudget input =
     (case fb_totalFeeWei input of
        Some fee \<Rightarrow> if fee < 0 then Inl ''INVALID_TOTAL_FEE'' else Inr fee
      | None \<Rightarrow>
          (case (fb_gasLimit input, fb_baseFeeWei input, fb_priorityFeeWei input, fb_dataFeeWei input) of
             (Some gas, Some base, Some tip, Some dataFee) \<Rightarrow>
               if gas < 0 \<or> base < 0 \<or> tip < 0 \<or> dataFee < 0 then Inl ''INVALID_TOTAL_FEE''
               else let multiplier = (case fb_multiplier input of None \<Rightarrow> jint 1 | Some n \<Rightarrow> n)
                    in if \<not> isSafeInteger multiplier \<or> js_lt multiplier (jint 1) then Inl ''AMBIGUOUS_TOTAL_FEE_BUDGET''
                       else Inr (gas * (base + tip * js_int multiplier) + dataFee)
           | _ \<Rightarrow> Inl ''AMBIGUOUS_TOTAL_FEE_BUDGET''))"

section \<open>Lemmas\<close>

text \<open>A judged record is current, complete and was written by the owner.\<close>

lemma validRobinhoodEnablement_Some:
  assumes "validRobinhoodEnablement value now = Some e"
  shows "value = Some e" and "en_approvedBy e = ''owner-cli''"
    and "\<exists>a x t. en_approvedAt e = Some a \<and> en_expiresAt e = Some x \<and> now = Some t \<and> a \<le> t \<and> t < x"
    and "list_all (stepDone e) (requiredSteps ROBINHOOD_EVIDENCE_STEPS e)"
  using assms by (auto simp: validRobinhoodEnablement_def Let_def split: option.splits if_splits)

lemma validBaseEnablement_Some:
  assumes "validBaseEnablement value (Some t) = Some e"
  shows "value = Some e" and "en_approvedBy e = ''owner-cli''"
    and "\<exists>a x. en_approvedAt e = Some a \<and> en_expiresAt e = Some x \<and> a \<le> t \<and> t < x"
    and "list_all (stepDone e) (requiredSteps BASE_EVIDENCE_STEPS e)"
    and "en_primaryEndpoint e \<noteq> en_fallbackEndpoint e"
  using assms by (auto simp: validBaseEnablement_def Let_def split: option.splits if_splits)

end
