(* ===== verification/Compensating.thy ===== *)
theory Compensating
  imports Enablement "HOL-Library.List_Lexorder" "HOL-Library.Char_ord"
begin

text \<open>
  The compensating controls that may stand in for a hardware attestation of the custody provider
  (\<^verbatim>\<open>packages/backend/src/compensating-controls.ts\<close>): six controls that must all be present and current,
  among them bounded balances of the wallets of a run.

  \<^item> A time stamp is the number its text parses to, \<open>None\<close> when it does not parse.
  \<^item> SHA-256 is the parameter \<open>sha256\<close>. A dictionary keyed by address is a list of pairs.
\<close>

section \<open>Texts\<close>

definition SHA256_TEXT :: "string \<Rightarrow> bool" where
  "SHA256_TEXT s \<longleftrightarrow> toLowerCase (take 7 s) = ''sha256:'' \<and> hexDigest (toLowerCase (drop 7 s))"

definition ADDRESS :: "string \<Rightarrow> bool" where
  "ADDRESS s \<longleftrightarrow> take 2 s = ''0x'' \<and> length s = 42 \<and> all_hex (drop 2 s)"

definition DECIMAL :: "string \<Rightarrow> bool" where
  "DECIMAL s \<longleftrightarrow> 1 \<le> length s \<and> length s \<le> 40 \<and> list_all isDigit s"

definition bigintOf :: "string option \<Rightarrow> int option" where
  "bigintOf v = (case v of None \<Rightarrow> None | Some s \<Rightarrow> if DECIMAL s then Some (decimalValue 0 s) else None)"

definition sameDigest :: "string \<Rightarrow> string \<Rightarrow> bool" where
  "sameDigest left right \<longleftrightarrow> toLowerCase left = toLowerCase right"

definition COMPENSATING_OBSERVATION_MAX_AGE_MS :: int where
  "COMPENSATING_OBSERVATION_MAX_AGE_MS = 10 * 60 * 1000"

section \<open>Evidence and expectation\<close>

record BalanceCeiling =
  bl_walletMaxWei :: wei
  bl_fleetMaxWei :: wei
  bl_runEnvelopeMaxWei :: "wei option"
  bl_runEnvelopeFleetMaxWei :: "wei option"

record WalletBalance =
  wb_address :: address
  wb_balanceWei :: string

record ObservedBalances =
  ob_observedAt :: date
  ob_expiresAt :: date
  ob_wallets :: "WalletBalance list"

record PolicyRecordEvidence =
  pr_digest :: string
  pr_issuedAt :: date
  pr_expiresAt :: date

record ProviderProbe =
  pp_observedAt :: date
  pp_status :: string
  pp_policyRecordDigest :: string

record SignatureChecks =
  sc_transactionMatch :: bool
  sc_signerRecovery :: bool

record Rehearsal =
  rh_recordedAt :: date
  rh_policyRecordDigest :: string
  rh_walletSetDigest :: string
  rh_lockfileDigest :: string
  rh_broadcastAttempted :: bool

record CompensatingControlsEvidence =
  cc_version :: int
  cc_chainId :: jsnum
  cc_recordDigest :: string
  cc_walletSetDigest :: string
  cc_lockfileDigest :: string
  cc_balances :: "ObservedBalances option"
  cc_policyRecord :: "PolicyRecordEvidence option"
  cc_providerProbe :: "ProviderProbe option"
  cc_signatureChecks :: "SignatureChecks option"
  cc_rehearsal :: "Rehearsal option"
  cc_killSwitchOnDrift :: "bool option"

record ExpectedDigests =
  xd_recordDigest :: string
  xd_walletSetDigest :: string
  xd_lockfileDigest :: string

record CompensatingAssuranceConfig =
  ac_ceilings :: "(int \<times> BalanceCeiling) list"
  ac_expected :: ExpectedDigests
  ac_runEnvelopeWei :: "(address \<times> string) list option"
  ac_minimumBalanceWei :: "(address \<times> string) list option"

record CompensatingAssuranceContext =
  ax_config :: CompensatingAssuranceConfig
  ax_chainId :: "int option"
  ax_wallets :: "address list option"

datatype CompensatingControlId =
    BoundedBalances | PolicyRecordControl | ProviderProbeControl | SignatureVerification | RehearsalControl | DriftResponse

record ControlResult =
  cr_id :: CompensatingControlId
  cr_ok :: bool
  cr_reason :: "string option"

section \<open>Wallet set digest\<close>

fun joinLines :: "string list \<Rightarrow> string" where
  "joinLines [] = []"
| "joinLines [x] = x"
| "joinLines (x # xs) = x @ [CHR 0x0A] @ joinLines xs"

definition computeWalletSetDigest :: "(string \<Rightarrow> string) \<Rightarrow> address list \<Rightarrow> dbError + string" where
  "computeWalletSetDigest sha256 addresses =
     bindR (mapR (\<lambda>a. if ADDRESS a then Inr (toLowerCase a) else Inl ''COMPENSATING_WALLET_ADDRESS_INVALID'') addresses) (\<lambda>low.
       let normalized = sort (remdups low)
       in bindR (ensure (normalized \<noteq> []) ''COMPENSATING_WALLET_SET_EMPTY'') (\<lambda>_.
          Inr (''sha256:'' @ sha256 (joinLines normalized))))"

section \<open>Balances\<close>

definition dictLookup :: "(address \<times> string) list option \<Rightarrow> address \<Rightarrow> string option" where
  "dictLookup d a = Option.bind d (\<lambda>entries. map_of entries a)"

definition raisedBound :: "wei option \<Rightarrow> wei \<Rightarrow> wei" where
  "raisedBound envelope idle = (case envelope of None \<Rightarrow> idle | Some b \<Rightarrow> if idle < b then b else idle)"

definition walletLimitFor :: "CompensatingAssuranceConfig \<Rightarrow> BalanceCeiling \<Rightarrow> address \<Rightarrow> wei" where
  "walletLimitFor config limits a =
     (case bigintOf (dictLookup (ac_runEnvelopeWei config) a) of
        None \<Rightarrow> bl_walletMaxWei limits
      | Some envelope \<Rightarrow>
          if envelope \<le> bl_walletMaxWei limits then bl_walletMaxWei limits
          else (let bound = raisedBound (bl_runEnvelopeMaxWei limits) (bl_walletMaxWei limits)
                in if envelope < bound then envelope else bound))"

text \<open>The loop over the observed wallets: a reason to refuse, or the addresses seen and the fleet's sum.\<close>

fun observeWallets ::
  "CompensatingAssuranceConfig \<Rightarrow> BalanceCeiling \<Rightarrow> WalletBalance list \<Rightarrow> address list \<Rightarrow> wei \<Rightarrow> string + address list \<times> wei" where
  "observeWallets config limits [] seen fleet = Inr (seen, fleet)"
| "observeWallets config limits (w # ws) seen fleet =
     (if \<not> ADDRESS (wb_address w) then Inl ''INVALID_WALLET''
      else let a = toLowerCase (wb_address w)
        in if a \<in> set seen then Inl ''DUPLICATE_WALLET''
           else (case bigintOf (Some (wb_balanceWei w)) of
             None \<Rightarrow> Inl ''INVALID_BALANCE''
           | Some balance \<Rightarrow>
               if walletLimitFor config limits a < balance then Inl ''WALLET_ABOVE_LIMIT''
               else (let given = dictLookup (ac_minimumBalanceWei config) a; minimum = bigintOf given
                     in if given \<noteq> None \<and> minimum = None then Inl ''INVALID_MINIMUM''
                        else if (case minimum of None \<Rightarrow> False | Some m \<Rightarrow> balance < m) then Inl ''FUNDING_NOT_ARRIVED''
                        else observeWallets config limits ws (seen @ [a]) (fleet + balance))))"

definition observedFleetLimit :: "CompensatingAssuranceConfig \<Rightarrow> BalanceCeiling \<Rightarrow> address list \<Rightarrow> wei" where
  "observedFleetLimit config limits seen =
     (if ac_runEnvelopeWei config = None then bl_fleetMaxWei limits
      else (let envelopeTotal = sum_list (map (walletLimitFor config limits) seen);
                bound = raisedBound (bl_runEnvelopeFleetMaxWei limits) (bl_fleetMaxWei limits);
                raised = (if envelopeTotal < bound then envelopeTotal else bound)
            in if bl_fleetMaxWei limits < raised then raised else bl_fleetMaxWei limits))"

definition ceilingFor :: "CompensatingAssuranceConfig \<Rightarrow> jsnum \<Rightarrow> BalanceCeiling option" where
  "ceilingFor config chainId = (if isInteger chainId then map_of (ac_ceilings config) (js_int chainId) else None)"

definition staleObservation :: "date \<Rightarrow> date \<Rightarrow> int \<Rightarrow> bool" where
  "staleObservation observed expires now =
     (case (observed, expires) of
        (Some o', Some e) \<Rightarrow> e \<le> now \<or> now < o' \<or> e \<le> o' \<or> COMPENSATING_OBSERVATION_MAX_AGE_MS < now - o'
      | _ \<Rightarrow> True)"

text \<open>A control answers with the reason to refuse, or nothing; computing a digest may throw.\<close>

definition checkBalances ::
  "(string \<Rightarrow> string) \<Rightarrow> CompensatingControlsEvidence \<Rightarrow> CompensatingAssuranceConfig \<Rightarrow> int \<Rightarrow> dbError + string option" where
  "checkBalances sha256 evidence config now =
     (case ceilingFor config (cc_chainId evidence) of
        None \<Rightarrow> Inr (Some ''NO_BALANCE_CEILING_FOR_CHAIN'')
      | Some limits \<Rightarrow>
          if bl_walletMaxWei limits \<le> 0 \<or> bl_fleetMaxWei limits \<le> 0 then Inr (Some ''NO_BALANCE_CEILING_FOR_CHAIN'')
          else (case cc_balances evidence of
            None \<Rightarrow> Inr (Some ''MISSING'')
          | Some b \<Rightarrow>
              if staleObservation (ob_observedAt b) (ob_expiresAt b) now then Inr (Some ''STALE'')
              else if ob_wallets b = [] then Inr (Some ''NO_WALLETS_OBSERVED'')
              else (case observeWallets config limits (ob_wallets b) [] 0 of
                Inl reason \<Rightarrow> Inr (Some reason)
              | Inr (seen, fleet) \<Rightarrow>
                  bindR (computeWalletSetDigest sha256 seen) (\<lambda>digest.
                    Inr (if digest \<noteq> toLowerCase (xd_walletSetDigest (ac_expected config)) then Some ''WALLET_SET_MISMATCH''
                         else if observedFleetLimit config limits seen < fleet then Some ''FLEET_ABOVE_LIMIT''
                         else None)))))"

section \<open>The other controls\<close>

definition checkPolicyRecord :: "CompensatingControlsEvidence \<Rightarrow> CompensatingAssuranceConfig \<Rightarrow> int \<Rightarrow> string option" where
  "checkPolicyRecord evidence config now =
     (case cc_policyRecord evidence of
        None \<Rightarrow> Some ''MISSING''
      | Some r \<Rightarrow>
          (let x = ac_expected config
           in if \<not> SHA256_TEXT (pr_digest r) \<or> \<not> sameDigest (pr_digest r) (xd_recordDigest x)
                 \<or> \<not> sameDigest (cc_recordDigest evidence) (xd_recordDigest x) then Some ''DIGEST_MISMATCH''
              else if \<not> sameDigest (cc_walletSetDigest evidence) (xd_walletSetDigest x) then Some ''WALLET_SET_MISMATCH''
              else (case (pr_issuedAt r, pr_expiresAt r) of
                      (Some issued, Some expires) \<Rightarrow>
                        if expires \<le> issued \<or> now < issued then Some ''INVALID_TIME''
                        else if expires \<le> now then Some ''EXPIRED'' else None
                    | _ \<Rightarrow> Some ''INVALID_TIME'')))"

definition checkProbe :: "CompensatingControlsEvidence \<Rightarrow> CompensatingAssuranceConfig \<Rightarrow> int \<Rightarrow> string option" where
  "checkProbe evidence config now =
     (case cc_providerProbe evidence of
        None \<Rightarrow> Some ''MISSING''
      | Some p \<Rightarrow>
          if pp_status p \<noteq> ''ok'' then Some ''NOT_OK''
          else if \<not> sameDigest (pp_policyRecordDigest p) (xd_recordDigest (ac_expected config)) then Some ''DIGEST_MISMATCH''
          else (case pp_observedAt p of
                  None \<Rightarrow> Some ''INVALID_TIME''
                | Some observed \<Rightarrow>
                    if now < observed then Some ''INVALID_TIME''
                    else if COMPENSATING_OBSERVATION_MAX_AGE_MS < now - observed then Some ''STALE'' else None))"

definition checkSignatureChecks :: "CompensatingControlsEvidence \<Rightarrow> string option" where
  "checkSignatureChecks evidence =
     (case cc_signatureChecks evidence of
        None \<Rightarrow> Some ''MISSING''
      | Some c \<Rightarrow> if \<not> sc_transactionMatch c \<or> \<not> sc_signerRecovery c then Some ''NOT_ENFORCED'' else None)"

definition checkRehearsal :: "CompensatingControlsEvidence \<Rightarrow> CompensatingAssuranceConfig \<Rightarrow> int \<Rightarrow> string option" where
  "checkRehearsal evidence config now =
     (case cc_rehearsal evidence of
        None \<Rightarrow> Some ''MISSING''
      | Some r \<Rightarrow>
          (let x = ac_expected config
           in if rh_broadcastAttempted r then Some ''BROADCAST_ATTEMPTED''
              else if \<not> sameDigest (rh_policyRecordDigest r) (xd_recordDigest x) then Some ''DIGEST_MISMATCH''
              else if \<not> sameDigest (rh_walletSetDigest r) (xd_walletSetDigest x) then Some ''WALLET_SET_MISMATCH''
              else if \<not> sameDigest (rh_lockfileDigest r) (xd_lockfileDigest x)
                 \<or> \<not> sameDigest (cc_lockfileDigest evidence) (xd_lockfileDigest x) then Some ''DEPENDENCIES_CHANGED''
              else (case (rh_recordedAt r, Option.bind (cc_policyRecord evidence) pr_issuedAt) of
                      (None, _) \<Rightarrow> Some ''INVALID_TIME''
                    | (Some recorded, issued) \<Rightarrow>
                        if now < recorded then Some ''INVALID_TIME''
                        else if (case issued of None \<Rightarrow> True | Some i \<Rightarrow> recorded < i) then Some ''OLDER_THAN_RECORD''
                        else None)))"

definition checkDriftResponse :: "CompensatingControlsEvidence \<Rightarrow> string option" where
  "checkDriftResponse evidence =
     (case cc_killSwitchOnDrift evidence of
        None \<Rightarrow> Some ''MISSING'' | Some enforced \<Rightarrow> if \<not> enforced then Some ''NOT_ENFORCED'' else None)"

section \<open>All controls\<close>

definition runControl ::
  "CompensatingControlsEvidence option \<Rightarrow> CompensatingControlId \<Rightarrow> (CompensatingControlsEvidence \<Rightarrow> dbError + string option) \<Rightarrow>
     ControlResult" where
  "runControl evidence control check =
     (case evidence of
        None \<Rightarrow> \<lparr>cr_id = control, cr_ok = False, cr_reason = Some ''MISSING''\<rparr>
      | Some e \<Rightarrow>
          (case check e of
             Inl _ \<Rightarrow> \<lparr>cr_id = control, cr_ok = False, cr_reason = Some ''INVALID''\<rparr>
           | Inr reason \<Rightarrow> \<lparr>cr_id = control, cr_ok = (reason = None), cr_reason = reason\<rparr>))"

definition evaluateCompensatingControls ::
  "(string \<Rightarrow> string) \<Rightarrow> CompensatingControlsEvidence option \<Rightarrow> CompensatingAssuranceConfig \<Rightarrow> int \<Rightarrow> ControlResult list" where
  "evaluateCompensatingControls sha256 evidence config now =
     [runControl evidence BoundedBalances (\<lambda>e. checkBalances sha256 e config now),
      runControl evidence PolicyRecordControl (\<lambda>e. Inr (checkPolicyRecord e config now)),
      runControl evidence ProviderProbeControl (\<lambda>e. Inr (checkProbe e config now)),
      runControl evidence SignatureVerification (\<lambda>e. Inr (checkSignatureChecks e)),
      runControl evidence RehearsalControl (\<lambda>e. Inr (checkRehearsal e config now)),
      runControl evidence DriftResponse (\<lambda>e. Inr (checkDriftResponse e))]"

fun controlCode :: "CompensatingControlId \<Rightarrow> string" where
  "controlCode BoundedBalances = ''BOUNDED_BALANCES''"
| "controlCode PolicyRecordControl = ''POLICY_RECORD''"
| "controlCode ProviderProbeControl = ''PROVIDER_PROBE''"
| "controlCode SignatureVerification = ''SIGNATURE_VERIFICATION''"
| "controlCode RehearsalControl = ''REHEARSAL''"
| "controlCode DriftResponse = ''DRIFT_RESPONSE''"

definition observedWallets :: "CompensatingControlsEvidence \<Rightarrow> address list" where
  "observedWallets evidence =
     (case cc_balances evidence of None \<Rightarrow> [] | Some b \<Rightarrow> map (\<lambda>w. toLowerCase (wb_address w)) (ob_wallets b))"

definition assertCompensatingControls ::
  "(string \<Rightarrow> string) \<Rightarrow> CompensatingControlsEvidence option \<Rightarrow> CompensatingAssuranceContext option \<Rightarrow> int \<Rightarrow> dbError + unit" where
  "assertCompensatingControls sha256 evidence context now =
     (case context of
        None \<Rightarrow> Inl ''CUSTODY_COMPENSATING_ASSURANCE_NOT_ACCEPTED''
      | Some c \<Rightarrow>
          (case evidence of
             None \<Rightarrow> Inl ''COMPENSATING_CONTROL_EVIDENCE_REQUIRED''
           | Some e \<Rightarrow>
               bindR (ensure (cc_version e = 1) ''COMPENSATING_CONTROL_EVIDENCE_REQUIRED'') (\<lambda>_.
               bindR (ensure (isInteger (cc_chainId e)) ''COMPENSATING_CONTROL_CHAIN_REQUIRED'') (\<lambda>_.
               bindR (ensure (case ax_chainId c of None \<Rightarrow> True | Some k \<Rightarrow> cc_chainId e = jint k)
                        ''COMPENSATING_CONTROL_CHAIN_MISMATCH'') (\<lambda>_.
               bindR (case ax_wallets c of
                        None \<Rightarrow> Inr ()
                      | Some ws \<Rightarrow>
                          bindR (ensure (ws \<noteq> []) ''COMPENSATING_CONTROL_WALLETS_REQUIRED'') (\<lambda>_.
                          ensure (list_all (\<lambda>w. toLowerCase w \<in> set (observedWallets e)) ws)
                            ''COMPENSATING_CONTROL_WALLET_NOT_COVERED'')) (\<lambda>_.
               case find (\<lambda>r. \<not> cr_ok r) (evaluateCompensatingControls sha256 evidence (ax_config c) now) of
                 None \<Rightarrow> Inr ()
               | Some failed \<Rightarrow>
                   Inl (''COMPENSATING_CONTROL_'' @ controlCode (cr_id failed) @ ''_''
                        @ (case cr_reason failed of None \<Rightarrow> ''FAILED'' | Some reason \<Rightarrow> reason))))))))"

definition COMPENSATING_ASSURANCE_KIND :: string where
  "COMPENSATING_ASSURANCE_KIND = ''turnkey-compensating-controls''"

definition describeCustodyAssurance :: "string option \<Rightarrow> string \<Rightarrow> string" where
  "describeCustodyAssurance kind attestationStatus =
     (if kind = Some COMPENSATING_ASSURANCE_KIND then ''Compensating controls (not TVC attestation)''
      else if attestationStatus = ''verified'' then ''TVC attestation verified''
      else ''TVC attestation '' @ attestationStatus)"


section \<open>Lemmas\<close>

definition balanceOf :: "WalletBalance \<Rightarrow> wei" where
  "balanceOf w = (case bigintOf (Some (wb_balanceWei w)) of None \<Rightarrow> 0 | Some n \<Rightarrow> n)"

lemma walletLimit_bound: "walletLimitFor config limits a \<le> raisedBound (bl_runEnvelopeMaxWei limits) (bl_walletMaxWei limits)"
proof -
  have "bl_walletMaxWei limits \<le> raisedBound (bl_runEnvelopeMaxWei limits) (bl_walletMaxWei limits)"
    by (simp add: raisedBound_def split: option.split)
  then show ?thesis by (simp add: walletLimitFor_def Let_def split: option.split)
qed

lemma observedFleetLimit_bound: "observedFleetLimit config limits seen \<le> raisedBound (bl_runEnvelopeFleetMaxWei limits) (bl_fleetMaxWei limits)"
proof -
  have "bl_fleetMaxWei limits \<le> raisedBound (bl_runEnvelopeFleetMaxWei limits) (bl_fleetMaxWei limits)"
    by (simp add: raisedBound_def split: option.split)
  then show ?thesis by (simp add: observedFleetLimit_def Let_def)
qed

text \<open>What the loop has checked of a wallet it has passed.\<close>

definition walletFunded :: "CompensatingAssuranceConfig \<Rightarrow> BalanceCeiling \<Rightarrow> WalletBalance \<Rightarrow> bool" where
  "walletFunded config limits w \<longleftrightarrow>
     ADDRESS (wb_address w)
     \<and> balanceOf w \<le> walletLimitFor config limits (toLowerCase (wb_address w))
     \<and> (case bigintOf (dictLookup (ac_minimumBalanceWei config) (toLowerCase (wb_address w))) of
          None \<Rightarrow> dictLookup (ac_minimumBalanceWei config) (toLowerCase (wb_address w)) = None
        | Some m \<Rightarrow> m \<le> balanceOf w)"

lemma observeWallets_step:
  assumes "observeWallets config limits (w # ws) seen fleet = Inr r"
  shows "walletFunded config limits w \<and> toLowerCase (wb_address w) \<notin> set seen
    \<and> observeWallets config limits ws (seen @ [toLowerCase (wb_address w)]) (fleet + balanceOf w) = Inr r"
proof -
  from assms obtain balance where b: "bigintOf (Some (wb_balanceWei w)) = Some balance"
    by (auto simp: Let_def split: if_splits option.splits)
  then have "balanceOf w = balance" by (simp add: balanceOf_def)
  with assms b show ?thesis
    by (auto simp: Let_def walletFunded_def split: if_splits option.splits)
qed

lemma observeWallets_Inr:
  assumes "observeWallets config limits ws seen fleet = Inr (seen', fleet')"
  shows "seen' = seen @ map (\<lambda>w. toLowerCase (wb_address w)) ws \<and> fleet' = fleet + sum_list (map balanceOf ws)
    \<and> list_all (walletFunded config limits) ws \<and> (distinct seen \<longrightarrow> distinct seen')"
  using assms
proof (induction ws arbitrary: seen fleet)
  case Nil
  then show ?case by simp
next
  case (Cons w ws)
  from observeWallets_step [OF Cons.prems]
  have one: "walletFunded config limits w" "toLowerCase (wb_address w) \<notin> set seen"
    and rest: "observeWallets config limits ws (seen @ [toLowerCase (wb_address w)]) (fleet + balanceOf w) = Inr (seen', fleet')"
    by auto
  from Cons.IH [OF rest] one show ?case by (auto, blast)
qed

lemma checkBalances_None:
  assumes "checkBalances sha256 evidence config now = Inr None"
  obtains limits b observed where "ceilingFor config (cc_chainId evidence) = Some limits" "cc_balances evidence = Some b"
    "ob_observedAt b = Some observed" "observed \<le> now" "now - observed \<le> COMPENSATING_OBSERVATION_MAX_AGE_MS"
    "list_all (walletFunded config limits) (ob_wallets b)"
    "distinct (map (\<lambda>w. toLowerCase (wb_address w)) (ob_wallets b))"
    "sum_list (map balanceOf (ob_wallets b)) \<le> raisedBound (bl_runEnvelopeFleetMaxWei limits) (bl_fleetMaxWei limits)"
    "computeWalletSetDigest sha256 (map (\<lambda>w. toLowerCase (wb_address w)) (ob_wallets b))
       = Inr (toLowerCase (xd_walletSetDigest (ac_expected config)))"
proof -
  from assms obtain limits b where l: "ceilingFor config (cc_chainId evidence) = Some limits"
    and b: "cc_balances evidence = Some b" and fresh: "\<not> staleObservation (ob_observedAt b) (ob_expiresAt b) now"
    by (auto simp: checkBalances_def split: option.splits if_splits)
  from fresh obtain observed where o: "ob_observedAt b = Some observed" "observed \<le> now"
      "now - observed \<le> COMPENSATING_OBSERVATION_MAX_AGE_MS"
    by (auto simp: staleObservation_def split: option.splits)
  from assms l b fresh obtain seen fleet digest where
    w: "observeWallets config limits (ob_wallets b) [] 0 = Inr (seen, fleet)"
    and d: "computeWalletSetDigest sha256 seen = Inr digest" "digest = toLowerCase (xd_walletSetDigest (ac_expected config))"
    and f: "fleet \<le> observedFleetLimit config limits seen"
    by (auto simp: checkBalances_def bindR_eq_Inr split: if_splits sum.splits)
  from observeWallets_Inr [OF w] have seen: "seen = map (\<lambda>w. toLowerCase (wb_address w)) (ob_wallets b)"
    and sums: "fleet = sum_list (map balanceOf (ob_wallets b))"
    and all: "list_all (walletFunded config limits) (ob_wallets b)" "distinct seen" by auto
  have bound: "sum_list (map balanceOf (ob_wallets b)) \<le> raisedBound (bl_runEnvelopeFleetMaxWei limits) (bl_fleetMaxWei limits)"
    using f sums observedFleetLimit_bound order_trans by blast
  from that [OF l b o all(1) all(2) [unfolded seen] bound] d seen show ?thesis by simp
qed

lemma runControl_ok:
  "cr_ok (runControl evidence i check) \<longleftrightarrow> (\<exists>e. evidence = Some e \<and> check e = Inr None)"
  by (auto simp: runControl_def split: option.splits sum.splits)

lemma assertCompensatingControls_Inr:
  assumes "assertCompensatingControls sha256 evidence context now = Inr ()"
  obtains c e where "context = Some c" "evidence = Some e" "cc_version e = 1"
    "\<forall>k. ax_chainId c = Some k \<longrightarrow> cc_chainId e = jint k"
    "\<forall>ws. ax_wallets c = Some ws \<longrightarrow> ws \<noteq> [] \<and> (\<forall>w\<in>set ws. toLowerCase w \<in> set (observedWallets e))"
    "checkBalances sha256 e (ax_config c) now = Inr None" "checkPolicyRecord e (ax_config c) now = None"
    "checkProbe e (ax_config c) now = None" "checkSignatureChecks e = None" "checkRehearsal e (ax_config c) now = None"
    "checkDriftResponse e = None"
proof -
  from assms obtain c e where ce: "context = Some c" "evidence = Some e" "cc_version e = 1"
    by (auto simp: assertCompensatingControls_def bindR_eq_Inr split: option.splits)
  have chain: "\<forall>k. ax_chainId c = Some k \<longrightarrow> cc_chainId e = jint k"
    using assms ce by (auto simp: assertCompensatingControls_def bindR_eq_Inr)
  have ws: "\<forall>ws. ax_wallets c = Some ws \<longrightarrow> ws \<noteq> [] \<and> (\<forall>w\<in>set ws. toLowerCase w \<in> set (observedWallets e))"
    using assms ce by (auto simp: assertCompensatingControls_def bindR_eq_Inr list_all_iff)
  have "find (\<lambda>r. \<not> cr_ok r) (evaluateCompensatingControls sha256 evidence (ax_config c) now) = None"
    using assms ce by (auto simp: assertCompensatingControls_def bindR_eq_Inr split: option.splits)
  then have "\<forall>r\<in>set (evaluateCompensatingControls sha256 evidence (ax_config c) now). cr_ok r"
    by (auto simp: find_None_iff)
  then have all: "checkBalances sha256 e (ax_config c) now = Inr None" "checkPolicyRecord e (ax_config c) now = None"
    "checkProbe e (ax_config c) now = None" "checkSignatureChecks e = None" "checkRehearsal e (ax_config c) now = None"
    "checkDriftResponse e = None"
    using ce(2) by (simp_all add: evaluateCompensatingControls_def runControl_ok)
  show thesis by (rule that [OF ce chain ws all])
qed

section \<open>Property\<close>

text \<open>
  C26. A compensated run holds bounded funds. When the compensating controls of a run are accepted,
  every wallet of the run was observed at most ten minutes ago; every observed balance is within the
  wallet ceiling of the chain, or its envelope ceiling where that is higher; their sum is within the
  fleet ceiling, or the fleet envelope ceiling; each wallet counts once and holds at least the minimum
  asked for; and the other five controls hold too.
\<close>

theorem compensated_run_is_bounded:
  assumes "assertCompensatingControls sha256 evidence context now = Inr ()"
  shows "\<exists>c e limits b. context = Some c \<and> evidence = Some e \<and> cc_balances e = Some b
    \<and> ceilingFor (ax_config c) (cc_chainId e) = Some limits
    \<and> (\<forall>ws. ax_wallets c = Some ws \<longrightarrow>
         set (map toLowerCase ws) \<subseteq> set (map (\<lambda>w. toLowerCase (wb_address w)) (ob_wallets b)))
    \<and> (\<exists>t. ob_observedAt b = Some t \<and> t \<le> now \<and> now - t \<le> 600000)
    \<and> distinct (map (\<lambda>w. toLowerCase (wb_address w)) (ob_wallets b))
    \<and> (\<forall>w\<in>set (ob_wallets b). walletFunded (ax_config c) limits w
         \<and> balanceOf w \<le> raisedBound (bl_runEnvelopeMaxWei limits) (bl_walletMaxWei limits))
    \<and> sum_list (map balanceOf (ob_wallets b)) \<le> raisedBound (bl_runEnvelopeFleetMaxWei limits) (bl_fleetMaxWei limits)
    \<and> checkPolicyRecord e (ax_config c) now = None \<and> checkProbe e (ax_config c) now = None
    \<and> checkSignatureChecks e = None \<and> checkRehearsal e (ax_config c) now = None \<and> checkDriftResponse e = None"
proof -
  from assms obtain c e where ce: "context = Some c" "evidence = Some e"
    and "cc_version e = 1" and "\<forall>k. ax_chainId c = Some k \<longrightarrow> cc_chainId e = jint k"
    and ws: "\<forall>ws. ax_wallets c = Some ws \<longrightarrow> ws \<noteq> [] \<and> (\<forall>w\<in>set ws. toLowerCase w \<in> set (observedWallets e))"
    and bal: "checkBalances sha256 e (ax_config c) now = Inr None"
    and others: "checkPolicyRecord e (ax_config c) now = None" "checkProbe e (ax_config c) now = None"
      "checkSignatureChecks e = None" "checkRehearsal e (ax_config c) now = None" "checkDriftResponse e = None"
    by (rule assertCompensatingControls_Inr)
  from bal obtain limits b observed where lb: "ceilingFor (ax_config c) (cc_chainId e) = Some limits" "cc_balances e = Some b"
    and t: "ob_observedAt b = Some observed" "observed \<le> now" "now - observed \<le> COMPENSATING_OBSERVATION_MAX_AGE_MS"
    and all: "list_all (walletFunded (ax_config c) limits) (ob_wallets b)"
      "distinct (map (\<lambda>w. toLowerCase (wb_address w)) (ob_wallets b))"
      "sum_list (map balanceOf (ob_wallets b)) \<le> raisedBound (bl_runEnvelopeFleetMaxWei limits) (bl_fleetMaxWei limits)"
    and "computeWalletSetDigest sha256 (map (\<lambda>w. toLowerCase (wb_address w)) (ob_wallets b))
       = Inr (toLowerCase (xd_walletSetDigest (ac_expected (ax_config c))))"
    by (rule checkBalances_None)
  have covered: "set (map toLowerCase ws) \<subseteq> set (map (\<lambda>w. toLowerCase (wb_address w)) (ob_wallets b))"
    if "ax_wallets c = Some ws" for ws
    using ws that lb(2) by (auto simp: observedWallets_def)
  have each: "walletFunded (ax_config c) limits w \<and> balanceOf w \<le> raisedBound (bl_runEnvelopeMaxWei limits) (bl_walletMaxWei limits)"
    if "w \<in> set (ob_wallets b)" for w
  proof -
    have "walletFunded (ax_config c) limits w" using all(1) that by (simp add: list_all_iff)
    then show ?thesis unfolding walletFunded_def using walletLimit_bound order_trans by blast
  qed
  have young: "\<exists>t. ob_observedAt b = Some t \<and> t \<le> now \<and> now - t \<le> 600000"
    using t by (simp add: COMPENSATING_OBSERVATION_MAX_AGE_MS_def)
  show ?thesis using ce lb covered each young all(2,3) others by blast
qed


definition demoLimits :: BalanceCeiling where
  "demoLimits = \<lparr>bl_walletMaxWei = 100, bl_fleetMaxWei = 150, bl_runEnvelopeMaxWei = Some 200, bl_runEnvelopeFleetMaxWei = None\<rparr>"

definition demoAddress :: "string \<Rightarrow> address" where
  "demoAddress prefix = prefix @ replicate 39 CHR ''A''"

definition demoDigest :: string where
  "demoDigest = ''sha256:'' @ replicate 64 CHR ''a''"

definition demoControls :: CompensatingControlsEvidence where
  "demoControls = \<lparr>cc_version = 1, cc_chainId = jint 1, cc_recordDigest = demoDigest, cc_walletSetDigest = ''sha256:0'',
     cc_lockfileDigest = ''l'',
     cc_balances = Some \<lparr>ob_observedAt = Some 500, ob_expiresAt = Some 2000,
       ob_wallets = [\<lparr>wb_address = demoAddress ''0x1'', wb_balanceWei = ''120''\<rparr>]\<rparr>,
     cc_policyRecord = Some \<lparr>pr_digest = demoDigest, pr_issuedAt = Some 1, pr_expiresAt = Some 3000\<rparr>,
     cc_providerProbe = Some \<lparr>pp_observedAt = Some 600, pp_status = ''ok'', pp_policyRecordDigest = demoDigest\<rparr>,
     cc_signatureChecks = Some \<lparr>sc_transactionMatch = True, sc_signerRecovery = True\<rparr>,
     cc_rehearsal = Some \<lparr>rh_recordedAt = Some 10, rh_policyRecordDigest = demoDigest,
       rh_walletSetDigest = ''sha256:0'', rh_lockfileDigest = ''l'', rh_broadcastAttempted = False\<rparr>,
     cc_killSwitchOnDrift = Some True\<rparr>"

definition demoAssurance :: CompensatingAssuranceContext where
  "demoAssurance = \<lparr>ax_config = \<lparr>ac_ceilings = [(1, demoLimits)],
       ac_expected = \<lparr>xd_recordDigest = demoDigest, xd_walletSetDigest = ''sha256:0'', xd_lockfileDigest = ''l''\<rparr>,
       ac_runEnvelopeWei = Some [(toLowerCase (demoAddress ''0x1''), ''150'')],
       ac_minimumBalanceWei = Some [(toLowerCase (demoAddress ''0x1''), ''110'')]\<rparr>,
     ax_chainId = Some 1, ax_wallets = Some [demoAddress ''0x1'']\<rparr>"

theorem compensated_run_is_bounded_witness:
  "assertCompensatingControls (\<lambda>_. ''0'') (Some demoControls) (Some demoAssurance) 1000 = Inr ()
   \<and> (\<exists>b. cc_balances demoControls = Some b \<and> sum_list (map balanceOf (ob_wallets b)) \<le> 150)"
proof -
  let ?c = "ax_config demoAssurance"
  have bal: "checkBalances (\<lambda>_. ''0'') demoControls ?c 1000 = Inr None" by code_simp
  have digest: "SHA256_TEXT demoDigest" by code_simp
  have rest: "checkPolicyRecord demoControls ?c 1000 = None" "checkProbe demoControls ?c 1000 = None"
    "checkSignatureChecks demoControls = None" "checkRehearsal demoControls ?c 1000 = None"
    "checkDriftResponse demoControls = None"
    using digest
    by (simp_all add: checkPolicyRecord_def checkProbe_def checkSignatureChecks_def checkRehearsal_def checkDriftResponse_def
        demoControls_def demoAssurance_def sameDigest_def COMPENSATING_OBSERVATION_MAX_AGE_MS_def)
  have "observedWallets demoControls = [toLowerCase (demoAddress ''0x1'')]"
    by (simp add: observedWallets_def demoControls_def)
  with bal rest have ok: "assertCompensatingControls (\<lambda>_. ''0'') (Some demoControls) (Some demoAssurance) 1000 = Inr ()"
    by (simp add: assertCompensatingControls_def evaluateCompensatingControls_def runControl_def)
       (simp add: demoControls_def demoAssurance_def)
  have limits: "ceilingFor (ax_config demoAssurance) (cc_chainId demoControls) = Some demoLimits" by code_simp
  have "raisedBound (bl_runEnvelopeFleetMaxWei demoLimits) (bl_fleetMaxWei demoLimits) = 150" by code_simp
  with ok limits compensated_run_is_bounded [OF ok] show ?thesis by auto
qed

end
