(* ===== verification/Custody.thy ===== *)
theory Custody
  imports Compensating
begin

text \<open>
  The judgement of custody evidence and of the operational probe that every live arm and execute passes
  (\<^verbatim>\<open>packages/backend/src/custody.ts\<close>): a provider with an attestation or with compensating controls, or
  the owner's own keystore for an attended run.

  A time stamp is the number its text parses to, \<open>None\<close> when it does not parse; \<open>now\<close> is a valid date.
\<close>

section \<open>Data\<close>

record CustodyReadiness =
  ku_provider :: string
  ku_providerIdentity :: string
  ku_policyReference :: string
  ku_policyDigest :: string
  ku_recordDigest :: "string option"
  ku_policyStatus :: string
  ku_healthStatus :: string
  ku_attestationStatus :: string
  ku_evidenceId :: string
  ku_observedAt :: date
  ku_expiresAt :: date
  ku_keystoreDigest :: "string option"
  ku_wallets :: "address list option"
  ku_confirmedBy :: "string option"
  ku_chainId :: "int option"
  ku_assuranceKind :: "string option"
  ku_compensatingControls :: "CompensatingControlsEvidence option"

record PersonalLiveContext =
  pl_chainId :: int
  pl_wallets :: "address list"

record CustodyPolicyBinding =
  kb_provider :: string
  kb_providerIdentity :: string
  kb_policyReference :: string
  kb_policyDigest :: string
  kb_recordDigest :: "string option"

record OperationalReadiness =
  op_secretStoreReference :: "string option"
  op_storePath :: "string option"
  op_signerReady :: bool
  op_custody :: "CustodyReadiness option"
  op_killSwitchEngaged :: bool
  op_notificationReady :: bool
  op_chainVerification :: string
  op_lastReconciliationAt :: date
  op_observedAt :: date
  op_expiresAt :: date

definition PERSONAL_LIVE_CUSTODY_MAX_MS :: int where
  "PERSONAL_LIVE_CUSTODY_MAX_MS = 24 * 60 * 60 * 1000"

section \<open>Patterns\<close>

definition DIGEST :: "string \<Rightarrow> bool" where
  "DIGEST s \<longleftrightarrow> toLowerCase (take 2 s) = ''0x'' \<and> hexDigest (toLowerCase (drop 2 s))"

definition RECORD_DIGEST :: "string \<Rightarrow> bool" where
  "RECORD_DIGEST s \<longleftrightarrow> take 7 s = ''sha256:'' \<and> hexDigest (drop 7 s)"

fun includesText :: "string \<Rightarrow> string \<Rightarrow> bool" where
  "includesText needle [] = (needle = [])"
| "includesText needle (c # cs) = (take (length needle) (c # cs) = needle \<or> includesText needle cs)"

text \<open>\<^verbatim>\<open>/(?:private|secret|credential|token|password|mnemonic|seed|api[_-]?key)/i\<close>\<close>

definition SECRET_NAME :: "string \<Rightarrow> bool" where
  "SECRET_NAME s \<longleftrightarrow>
     list_ex (\<lambda>w. includesText w (toLowerCase s))
       [''private'', ''secret'', ''credential'', ''token'', ''password'', ''mnemonic'', ''seed'', ''apikey'', ''api_key'', ''api-key'']"

definition multiLine :: "string \<Rightarrow> bool" where
  "multiLine s \<longleftrightarrow> list_ex (\<lambda>c. c = CHR 0x0A \<or> c = CHR 0x0D) s"

definition assertReference :: "string \<Rightarrow> string \<Rightarrow> dbError + unit" where
  "assertReference value code =
     ensure (value \<noteq> [] \<and> length value \<le> 256 \<and> \<not> multiLine value \<and> \<not> SECRET_NAME value) code"

text \<open>A name followed by one of \<^verbatim>\<open>[:/-]\<close>, at the start of the text, in any case; and what follows it.\<close>

definition afterPrefix :: "string \<Rightarrow> string \<Rightarrow> string option" where
  "afterPrefix name s =
     (let n = length name
      in if toLowerCase (take n s) = name \<and> n < length s \<and> s ! n \<in> set '':/-'' then Some (drop (Suc n) s) else None)"

section \<open>The owner's keystore\<close>

definition staleEvidence :: "date \<Rightarrow> date \<Rightarrow> int \<Rightarrow> dbError + int \<times> int" where
  "staleEvidence observedAt expiresAt now =
     (case (observedAt, expiresAt) of
        (Some observed, Some expires) \<Rightarrow>
          bindR (ensure (\<not> (expires \<le> now \<or> now < observed \<or> expires \<le> observed)) ''CUSTODY_EVIDENCE_STALE'') (\<lambda>_.
          Inr (observed, expires))
      | _ \<Rightarrow> Inl ''CUSTODY_EVIDENCE_TIME_INVALID'')"

definition coversWallets :: "address list option \<Rightarrow> address list \<Rightarrow> bool" where
  "coversWallets evidence wallets \<longleftrightarrow>
     (let named = map toLowerCase (case evidence of None \<Rightarrow> [] | Some ws \<Rightarrow> ws)
      in named \<noteq> [] \<and> wallets \<noteq> [] \<and> list_all (\<lambda>w. toLowerCase w \<in> set named) wallets)"

definition assertPersonalLiveLocalCustody ::
  "CustodyReadiness \<Rightarrow> int \<Rightarrow> CustodyPolicyBinding option \<Rightarrow> PersonalLiveContext option \<Rightarrow> dbError + unit" where
  "assertPersonalLiveLocalCustody evidence now expected personalLive =
     (case (personalLive, expected) of
        (Some live, None) \<Rightarrow>
          bindR (ensure (pl_chainId live = 1 \<or> pl_chainId live = 8453) ''CUSTODY_PERSONAL_LIVE_CHAIN_UNAPPROVED'') (\<lambda>_.
          bindR (ensure (\<not> (pl_chainId live = 8453 \<and> ku_chainId evidence \<noteq> Some 8453)) ''CUSTODY_BASE_CHAIN_BINDING_REQUIRED'') (\<lambda>_.
          bindR (assertReference (ku_providerIdentity evidence) ''CUSTODY_PROVIDER_IDENTITY_REQUIRED'') (\<lambda>_.
          bindR (assertReference (ku_policyReference evidence) ''CUSTODY_POLICY_REFERENCE_REQUIRED'') (\<lambda>_.
          bindR (ensure (afterPrefix ''personal-live'' (ku_policyReference evidence) \<noteq> None) ''CUSTODY_POLICY_PROVIDER_MISMATCH'') (\<lambda>_.
          bindR (ensure (\<not> (pl_chainId live = 8453
                     \<and> Option.bind (afterPrefix ''personal-live'' (ku_policyReference evidence)) (afterPrefix ''base'') = None))
                   ''CUSTODY_BASE_POLICY_BINDING_REQUIRED'') (\<lambda>_.
          bindR (ensure (DIGEST (ku_policyDigest evidence)
                     \<and> (case ku_keystoreDigest evidence of None \<Rightarrow> False | Some d \<Rightarrow> DIGEST d)) ''CUSTODY_POLICY_DIGEST_REQUIRED'') (\<lambda>_.
          bindR (ensure (ku_policyStatus evidence = ''approved'') ''CUSTODY_POLICY_NOT_APPROVED'') (\<lambda>_.
          bindR (ensure (ku_healthStatus evidence = ''healthy'') ''CUSTODY_HEALTH_NOT_READY'') (\<lambda>_.
          bindR (ensure (ku_attestationStatus evidence = ''verified'') ''CUSTODY_ATTESTATION_REQUIRED'') (\<lambda>_.
          bindR (assertReference (ku_evidenceId evidence) ''CUSTODY_EVIDENCE_ID_REQUIRED'') (\<lambda>_.
          bindR (assertReference (case ku_confirmedBy evidence of None \<Rightarrow> [] | Some c \<Rightarrow> c) ''CUSTODY_OWNER_CONFIRMATION_REQUIRED'') (\<lambda>_.
          bindR (ensure (coversWallets (ku_wallets evidence) (pl_wallets live)) ''CUSTODY_WALLET_NOT_COVERED'') (\<lambda>_.
          bindR (staleEvidence (ku_observedAt evidence) (ku_expiresAt evidence) now) (\<lambda>(observed, expires).
          ensure (expires - observed \<le> PERSONAL_LIVE_CUSTODY_MAX_MS) ''CUSTODY_EVIDENCE_TOO_LONG''))))))))))))))
      | _ \<Rightarrow> Inl ''CUSTODY_PROVIDER_UNAPPROVED'')"

section \<open>A custody provider\<close>

definition policyPrefixMatches :: "string \<Rightarrow> string \<Rightarrow> bool" where
  "policyPrefixMatches provider reference \<longleftrightarrow>
     (if provider = ''turnkey'' then afterPrefix ''turnkey'' reference \<noteq> None
      else afterPrefix ''kms'' reference \<noteq> None \<or> afterPrefix ''aws-kms'' reference \<noteq> None)"

definition assertAssurance ::
  "(string \<Rightarrow> string) \<Rightarrow> CustodyReadiness \<Rightarrow> int \<Rightarrow> CustodyPolicyBinding option \<Rightarrow> CompensatingAssuranceContext option \<Rightarrow>
     dbError + unit" where
  "assertAssurance sha256 evidence now expected compensating =
     (if ku_assuranceKind evidence = Some COMPENSATING_ASSURANCE_KIND
      then bindR (ensure (ku_provider evidence = ''turnkey'') ''CUSTODY_COMPENSATING_ASSURANCE_PROVIDER_MISMATCH'') (\<lambda>_.
           bindR (ensure (expected \<noteq> None) ''CUSTODY_EXPECTED_POLICY_REQUIRED'') (\<lambda>_.
           bindR (ensure (ku_attestationStatus evidence \<noteq> ''verified'') ''CUSTODY_COMPENSATED_MUST_NOT_CLAIM_TVC'') (\<lambda>_.
           assertCompensatingControls sha256 (ku_compensatingControls evidence) compensating now)))
      else if ku_assuranceKind evidence \<noteq> None then Inl ''CUSTODY_ASSURANCE_KIND_UNKNOWN''
      else ensure (ku_attestationStatus evidence = ''verified'') ''CUSTODY_ATTESTATION_REQUIRED'')"

definition assertPolicyBinding :: "CustodyReadiness \<Rightarrow> CustodyPolicyBinding \<Rightarrow> dbError + unit" where
  "assertPolicyBinding evidence x =
     bindR (ensure (case kb_recordDigest x of
              None \<Rightarrow> True
            | Some d \<Rightarrow> RECORD_DIGEST d \<and> RECORD_DIGEST (case ku_recordDigest evidence of None \<Rightarrow> [] | Some e \<Rightarrow> e))
              ''CUSTODY_POLICY_RECORD_DIGEST_REQUIRED'') (\<lambda>_.
     bindR (ensure (ku_provider evidence = kb_provider x \<and> ku_providerIdentity evidence = kb_providerIdentity x)
              ''CUSTODY_PROVIDER_MISMATCH'') (\<lambda>_.
     ensure (ku_policyReference evidence = kb_policyReference x
             \<and> toLowerCase (ku_policyDigest evidence) = toLowerCase (kb_policyDigest x)
             \<and> \<not> (kb_recordDigest x \<noteq> None \<and> ku_recordDigest evidence \<noteq> kb_recordDigest x)) ''CUSTODY_POLICY_MISMATCH''))"

definition assertCustodyReadiness ::
  "(string \<Rightarrow> string) \<Rightarrow> CustodyReadiness option \<Rightarrow> int \<Rightarrow> CustodyPolicyBinding option \<Rightarrow> PersonalLiveContext option \<Rightarrow>
     CompensatingAssuranceContext option \<Rightarrow> dbError + unit" where
  "assertCustodyReadiness sha256 custody now expected personalLive compensating =
     (case custody of
        None \<Rightarrow> Inl ''CUSTODY_EVIDENCE_REQUIRED''
      | Some evidence \<Rightarrow>
          if ku_provider evidence = ''local-personal-live'' then assertPersonalLiveLocalCustody evidence now expected personalLive
          else bindR (ensure (ku_provider evidence = ''turnkey'' \<or> ku_provider evidence = ''kms'') ''CUSTODY_PROVIDER_UNAPPROVED'') (\<lambda>_.
               bindR (assertReference (ku_providerIdentity evidence) ''CUSTODY_PROVIDER_IDENTITY_REQUIRED'') (\<lambda>_.
               bindR (assertReference (ku_policyReference evidence) ''CUSTODY_POLICY_REFERENCE_REQUIRED'') (\<lambda>_.
               bindR (ensure (policyPrefixMatches (ku_provider evidence) (ku_policyReference evidence))
                        ''CUSTODY_POLICY_PROVIDER_MISMATCH'') (\<lambda>_.
               bindR (ensure (DIGEST (ku_policyDigest evidence)) ''CUSTODY_POLICY_DIGEST_REQUIRED'') (\<lambda>_.
               bindR (ensure (ku_policyStatus evidence = ''approved'') ''CUSTODY_POLICY_NOT_APPROVED'') (\<lambda>_.
               bindR (ensure (ku_healthStatus evidence = ''healthy'') ''CUSTODY_HEALTH_NOT_READY'') (\<lambda>_.
               bindR (assertAssurance sha256 evidence now expected compensating) (\<lambda>_.
               bindR (assertReference (ku_evidenceId evidence) ''CUSTODY_EVIDENCE_ID_REQUIRED'') (\<lambda>_.
               bindR (staleEvidence (ku_observedAt evidence) (ku_expiresAt evidence) now) (\<lambda>_.
               (case expected of None \<Rightarrow> Inr () | Some x \<Rightarrow> assertPolicyBinding evidence x))))))))))))"

section \<open>The operational probe\<close>

definition assertLiveOperationalReadiness ::
  "(string \<Rightarrow> string) \<Rightarrow> OperationalReadiness option \<Rightarrow> int \<Rightarrow> CustodyPolicyBinding option \<Rightarrow> PersonalLiveContext option \<Rightarrow>
     CompensatingAssuranceContext option \<Rightarrow> dbError + unit" where
  "assertLiveOperationalReadiness sha256 operational now expected personalLive compensating =
     (case operational of
        None \<Rightarrow> Inl ''RUNTIME_READINESS_REQUIRED''
      | Some r \<Rightarrow>
          bindR (ensure (op_signerReady r) ''SIGNER_NOT_READY'') (\<lambda>_.
          bindR (assertCustodyReadiness sha256 (op_custody r) now expected personalLive compensating) (\<lambda>_.
          bindR (ensure (\<not> op_killSwitchEngaged r) ''KILL_SWITCH_ENGAGED'') (\<lambda>_.
          bindR (ensure (op_notificationReady r) ''NOTIFICATION_NOT_READY'') (\<lambda>_.
          bindR (ensure (op_chainVerification r = ''verified'') ''CHAIN_VERIFICATION_REQUIRED'') (\<lambda>_.
          bindR (ensure (op_observedAt r \<noteq> None \<and> (case op_expiresAt r of None \<Rightarrow> False | Some e \<Rightarrow> now < e)) ''RUNTIME_PROBE_STALE'') (\<lambda>_.
          ensure (case op_lastReconciliationAt r of None \<Rightarrow> False | Some t \<Rightarrow> t \<le> now) ''RECONCILIATION_REQUIRED'')))))))"

section \<open>Lemmas\<close>

text \<open>Accepted custody: what every accepted evidence has in common.\<close>

definition soundCustody :: "int \<Rightarrow> CustodyReadiness \<Rightarrow> bool" where
  "soundCustody now e \<longleftrightarrow>
     ku_policyStatus e = ''approved'' \<and> ku_healthStatus e = ''healthy'' \<and> DIGEST (ku_policyDigest e)
     \<and> (\<exists>observed expires. ku_observedAt e = Some observed \<and> ku_expiresAt e = Some expires \<and> observed \<le> now \<and> now < expires)"

lemma staleEvidence_Inr:
  "staleEvidence a b now = Inr (observed, expires) \<Longrightarrow> a = Some observed \<and> b = Some expires \<and> observed \<le> now \<and> now < expires"
  by (auto simp: staleEvidence_def bindR_eq_Inr split: option.splits)

lemma personalLive_Inr:
  assumes "assertPersonalLiveLocalCustody e now expected live = Inr ()"
  obtains x observed expires where "live = Some x" "expected = None" "pl_chainId x \<in> {1, 8453}" "soundCustody now e"
    "ku_attestationStatus e = ''verified''" "coversWallets (ku_wallets e) (pl_wallets x)"
    "ku_observedAt e = Some observed" "ku_expiresAt e = Some expires" "expires - observed \<le> PERSONAL_LIVE_CUSTODY_MAX_MS"
    "pl_chainId x = 8453 \<longrightarrow> ku_chainId e = Some 8453"
proof -
  from assms obtain x where x: "live = Some x" "expected = None"
    by (auto simp: assertPersonalLiveLocalCustody_def split: option.splits)
  from assms obtain observed expires where
    t: "staleEvidence (ku_observedAt e) (ku_expiresAt e) now = Inr (observed, expires)"
    and all: "pl_chainId x \<in> {1, 8453}" "ku_policyStatus e = ''approved''" "ku_healthStatus e = ''healthy''"
      "DIGEST (ku_policyDigest e)" "ku_attestationStatus e = ''verified''" "coversWallets (ku_wallets e) (pl_wallets x)"
      "expires - observed \<le> PERSONAL_LIVE_CUSTODY_MAX_MS" "pl_chainId x = 8453 \<longrightarrow> ku_chainId e = Some 8453"
    by (auto simp: assertPersonalLiveLocalCustody_def x bindR_eq_Inr)
  show thesis
    using that [OF x all(1) _ all(5,6) _ _ all(7,8)] staleEvidence_Inr [OF t] all(2-4) by (auto simp: soundCustody_def)
qed

lemma providerCustody_Inr:
  assumes "assertCustodyReadiness sha256 (Some e) now expected live compensating = Inr ()"
    and "ku_provider e \<noteq> ''local-personal-live''"
  shows "ku_provider e \<in> {''turnkey'', ''kms''} \<and> soundCustody now e
    \<and> assertAssurance sha256 e now expected compensating = Inr ()
    \<and> (case expected of None \<Rightarrow> True | Some x \<Rightarrow> assertPolicyBinding e x = Inr ())"
proof -
  from assms obtain t where t: "staleEvidence (ku_observedAt e) (ku_expiresAt e) now = Inr t"
    and all: "ku_provider e \<in> {''turnkey'', ''kms''}" "ku_policyStatus e = ''approved''" "ku_healthStatus e = ''healthy''"
      "DIGEST (ku_policyDigest e)" "assertAssurance sha256 e now expected compensating = Inr ()"
      "case expected of None \<Rightarrow> True | Some x \<Rightarrow> assertPolicyBinding e x = Inr ()"
    by (auto simp: assertCustodyReadiness_def bindR_eq_Inr split: option.splits)
  with staleEvidence_Inr [of "ku_observedAt e" "ku_expiresAt e" now "fst t" "snd t"] show ?thesis
    by (simp add: soundCustody_def)
qed


lemma custody_sound:
  assumes "assertCustodyReadiness sha256 custody now expected live compensating = Inr ()"
  shows "\<exists>e. custody = Some e \<and> soundCustody now e"
proof -
  from assms obtain e where e: "custody = Some e" by (auto simp: assertCustodyReadiness_def split: option.splits)
  show ?thesis
  proof (cases "ku_provider e = ''local-personal-live''")
    case True
    with assms e have "assertPersonalLiveLocalCustody e now expected live = Inr ()" by (simp add: assertCustodyReadiness_def)
    then have "soundCustody now e" by (rule personalLive_Inr)
    with e show ?thesis by blast
  next
    case False
    with providerCustody_Inr [OF assms [unfolded e]] e show ?thesis by blast
  qed
qed

text \<open>What an accepted operational probe says.\<close>

definition soundProbe :: "int \<Rightarrow> OperationalReadiness \<Rightarrow> bool" where
  "soundProbe now r \<longleftrightarrow>
     op_signerReady r \<and> \<not> op_killSwitchEngaged r \<and> op_notificationReady r \<and> op_chainVerification r = ''verified''
     \<and> (\<exists>e. op_custody r = Some e \<and> soundCustody now e)
     \<and> (\<exists>expires. op_expiresAt r = Some expires \<and> now < expires)
     \<and> (\<exists>t. op_lastReconciliationAt r = Some t \<and> t \<le> now)"

lemma operational_sound:
  assumes "assertLiveOperationalReadiness sha256 operational now expected live compensating = Inr ()"
  shows "\<exists>r. operational = Some r \<and> soundProbe now r"
proof -
  from assms obtain r where r: "operational = Some r" by (auto simp: assertLiveOperationalReadiness_def split: option.splits)
  with assms have "assertCustodyReadiness sha256 (op_custody r) now expected live compensating = Inr ()"
    and rest: "op_signerReady r" "\<not> op_killSwitchEngaged r" "op_notificationReady r" "op_chainVerification r = ''verified''"
      "\<exists>expires. op_expiresAt r = Some expires \<and> now < expires" "\<exists>t. op_lastReconciliationAt r = Some t \<and> t \<le> now"
    by (auto simp: assertLiveOperationalReadiness_def bindR_eq_Inr split: option.splits)
  from custody_sound [OF this(1)] r rest show ?thesis by (simp add: soundProbe_def)
qed

end
