(* ===== verification/BackendTypes.thy ===== *)
theory BackendTypes
  imports Custody
begin

text \<open>
  The records of the backend (\<^verbatim>\<open>packages/backend/src/types.ts\<close>) that admission, the spend ledger and the
  execution coordinator share.
\<close>

datatype CampaignState =
    CDraft | CValidating | CReady | CArmed | CActive | CPaused | CCompleted | CFailed | CAborted | CCancelled

datatype ExecutionState =
    XPrepared | XSigned | XSubmitted | XPending | XConfirmed | XReorged | XReplaced | XFailed | XAborted

datatype RunMode = DryRun | Live

record SpendLimits =
  sl_maxRunWei :: wei
  sl_dailyCapWei :: wei
  sl_gasCeilingWei :: wei

record CampaignFees =
  cf_kind :: FeeKind
  cf_priorityWei :: wei
  cf_freeCapWei :: "wei option"
  cf_l2BudgetWei :: "wei option"
  cf_l1BudgetWei :: "wei option"
  cf_totalWei :: "wei option"

record ChainVerification =
  vf_chainId :: int
  vf_status :: string
  vf_seaDropCompatible :: bool
  vf_evidenceId :: "string option"
  vf_checkedAt :: "string option"
  vf_sourceBlock :: "int option"
  vf_endpointReference :: string

record CustodyPolicy =
  cu_provider :: string
  cu_policyReference :: string
  cu_policyDigest :: string
  cu_recordDigest :: "string option"

record Campaign =
  cm_id :: string
  cm_chainId :: int
  cm_contract :: address
  cm_strategy :: string
  cm_quantity :: jsnum
  cm_dryRun :: bool
  cm_spendPolicy :: SpendLimits
  cm_broadcastMode :: "string option"
  cm_mintPriceWei :: wei
  cm_feePolicy :: CampaignFees
  cm_chainVerification :: ChainVerification
  cm_custodyPolicy :: "CustodyPolicy option"

record RunRecord =
  rr_id :: string
  rr_intentId :: string
  rr_campaignId :: string
  rr_mode :: RunMode
  rr_requestDigest :: hash
  rr_state :: CampaignState
  rr_idempotencyKey :: "string option"

record IntentRecord =
  ir_id :: string
  ir_runId :: string
  ir_campaignId :: string
  ir_campaignSnapshot :: Campaign
  ir_wallets :: "address list"
  ir_simulationIds :: "string list"

datatype BackendStatus = BReserved | BSettled | BReleased | BReorged

record Reservation =
  rs_id :: string
  rs_runId :: string
  rs_campaignId :: string
  rs_chainId :: "int option"
  rs_wallet :: address
  rs_amountWei :: wei
  rs_actualWei :: "wei option"
  rs_accountingDate :: string
  rs_status :: BackendStatus

record AttemptRecord =
  ar_id :: string
  ar_executionId :: string
  ar_runId :: string
  ar_wallet :: address
  ar_hash :: "hash option"
  ar_state :: ExecutionState

record BackendReceipt =
  bc_id :: string
  bc_executionId :: string
  bc_runId :: string
  bc_attemptId :: "string option"
  bc_state :: ExecutionState
  bc_finalityStage :: "string option"
  bc_robinhoodFinality :: "string option"
  bc_blockNumber :: "int option"
  bc_blockHash :: "hash option"
  bc_actualSpendWei :: "wei option"

record ExecutionResult =
  xr_executionIds :: "string list"
  xr_attempts :: "AttemptRecord list"
  xr_receipts :: "BackendReceipt list"
  xr_state :: ExecutionState

record PreparedExecution =
  pe_wallet :: address
  pe_intentId :: string
  pe_executionId :: string

datatype ReconciliationResult = RConfirmed | RFailed | RUnknown | RReorged | RSoft | RPosted | RFinal

record ReconciliationUpdate =
  up_result :: ReconciliationResult
  up_attempts :: "AttemptRecord list"
  up_receipts :: "BackendReceipt list"

record BackendReconciliation =
  br_runId :: string
  br_attemptId :: "string option"
  br_result :: ReconciliationResult

record CommandResponse =
  cs_id :: string
  cs_state :: string
  cs_nextAction :: string
  cs_data :: "ExecutionResult option"

text \<open>
  An event with the parts of its data that are read again: the receipt of a finality report, the
  campaign, key and digest of an approval (with its id) and of a command (with its response).
\<close>

record BackendEvent =
  be_type :: string
  be_runId :: "string option"
  be_receiptId :: "string option"
  be_approvalId :: "string option"
  be_campaignId :: "string option"
  be_idempotencyKey :: "string option"
  be_requestDigest :: "hash option"
  be_response :: "CommandResponse option"

definition plainEvent :: "string \<Rightarrow> string option \<Rightarrow> BackendEvent" where
  "plainEvent kind runId = \<lparr>be_type = kind, be_runId = runId, be_receiptId = None, be_approvalId = None, be_campaignId = None,
     be_idempotencyKey = None, be_requestDigest = None, be_response = None\<rparr>"

datatype StartupState = SCold | SReconciling | SReady | SBlocked

record RuntimeStatus =
  rt_startupState :: StartupState
  rt_blockingReasons :: "string list"
  rt_engine :: bool
  rt_chain :: bool
  rt_backup :: bool
  rt_notifications :: bool
  rt_operational :: "OperationalReadiness option"
  rt_chainTimeOffsetMs :: "jsnum option"
  rt_chainTimeObserved :: bool

text \<open>A time stamp that the code also compares as a text: the text and the number it parses to.\<close>

record Stamp =
  st_text :: string
  st_time :: date

record ChainEvidenceRecord =
  ev_id :: string
  ev_chainId :: int
  ev_status :: string
  ev_executionEnabled :: bool
  ev_seaDropCompatible :: bool
  ev_positiveLivePath :: bool
  ev_archiveForkPassed :: bool
  ev_negativeCases :: "(string \<times> bool) list"
  ev_reconciliationPassed :: bool
  ev_finalityPassed :: bool
  ev_endpointIdentity :: string
  ev_strategyVersion :: string
  ev_checkedAt :: Stamp
  ev_expiresAt :: Stamp
  ev_sourceBlock :: int
  ev_sourceBlockHash :: hash
  ev_acceptedAt :: "string option"
  ev_acceptedBy :: "string option"
  ev_approvalProof :: "string option"

record SimulationEvidenceRecord =
  sm_id :: string
  sm_campaignId :: string
  sm_wallet :: address
  sm_inputDigest :: hash
  sm_success :: bool
  sm_sourceBlock :: int
  sm_sourceBlockHash :: hash
  sm_checkedAt :: Stamp
  sm_expiresAt :: Stamp
  sm_worstCaseFeeWei :: wei

datatype JobKind = ExecuteJob | ReconcileJob | NotificationJob | HealthJob | Phase2Job

datatype JobState = JScheduled | JRunning | JSucceeded | JFailed | JBlocked | JCancelled

record ScheduledJobRecord =
  sj_id :: string
  sj_kind :: JobKind
  sj_runId :: "string option"
  sj_campaignId :: "string option"
  sj_state :: JobState
  sj_scheduledAt :: Stamp
  sj_targetAt :: "Stamp option"
  sj_tMinusMs :: jsnum
  sj_chainTimeOffsetMs :: jsnum
  sj_idempotencyKey :: string
  sj_requestDigest :: string
  sj_payload :: "(string \<times> jsval) list"
  sj_attempts :: int
  sj_maxAttempts :: int
  sj_lastError :: "string option"
  sj_nextAttemptAt :: "Stamp option"
  sj_leaseOwner :: "string option"
  sj_leaseExpiresAt :: "Stamp option"
  sj_startedAt :: "Stamp option"
  sj_completedAt :: "Stamp option"
  sj_createdAt :: Stamp
  sj_updatedAt :: Stamp

text \<open>
  The state of the backend store. The times of creation and update (except those of a job), and the
  tables that the coordinator, the ledger, the evidence and the scheduler never read, are left out.
\<close>

record BackendState =
  bs_campaigns :: "Campaign list"
  bs_runs :: "RunRecord list"
  bs_intents :: "IntentRecord list"
  bs_attempts :: "AttemptRecord list"
  bs_receipts :: "BackendReceipt list"
  bs_reconciliations :: "BackendReconciliation list"
  bs_reservations :: "Reservation list"
  bs_events :: "BackendEvent list"
  bs_chainEvidence :: "ChainEvidenceRecord list"
  bs_simulations :: "SimulationEvidenceRecord list"
  bs_jobs :: "ScheduledJobRecord list"
  bs_runtime :: RuntimeStatus
  bs_killed :: bool
  bs_killReason :: "string option"

text \<open>
  \<^verbatim>\<open>DurableStore.transaction\<close> runs on a copy of the state, which becomes the state when the callback
  returns; when it throws, the state stays. Transactions are queued, so none sees another half done.
\<close>

definition storeTransaction :: "('s \<Rightarrow> 'e + 'a \<times> 's) \<Rightarrow> ('s, 'e, 'a) eff" where
  "storeTransaction mutate s = (case mutate s of Inl e \<Rightarrow> (Inl e, s) | Inr (x, s') \<Rightarrow> (Inr x, s'))"

lemma storeTransaction_Inr: "storeTransaction m s = (Inr x, s') \<longleftrightarrow> m s = Inr (x, s')"
  by (auto simp: storeTransaction_def split: sum.splits)

lemma storeTransaction_Inl: "storeTransaction m s = (Inl e, s') \<longleftrightarrow> m s = Inl e \<and> s' = s"
  by (auto simp: storeTransaction_def split: sum.splits)

text \<open>\<^verbatim>\<open>list.find(...)\<close> followed by an assignment to the element found.\<close>

fun updateFirst :: "('a \<Rightarrow> bool) \<Rightarrow> ('a \<Rightarrow> 'a) \<Rightarrow> 'a list \<Rightarrow> 'a list" where
  "updateFirst P f [] = []"
| "updateFirst P f (x # xs) = (if P x then f x # xs else x # updateFirst P f xs)"

lemma updateFirst_map: "(\<And>x. g (f x) = g x) \<Longrightarrow> map g (updateFirst P f xs) = map g xs"
  by (induction xs) auto

lemma find_updateFirst:
  assumes "\<And>x. key (f x) = key x"
  shows "find (\<lambda>x. key x = j) (updateFirst (\<lambda>x. key x = i) f xs) =
    (if i = j then map_option f (find (\<lambda>x. key x = j) xs) else find (\<lambda>x. key x = j) xs)"
  by (induction xs) (auto simp: assms)

text \<open>\<^verbatim>\<open>BigInt(n)\<close> of a number throws unless the number is an integer.\<close>

definition bigIntOf :: "jsnum \<Rightarrow> dbError + int" where
  "bigIntOf n = (if isInteger n then Inr (js_int n) else Inl ''RangeError'')"

end
