(* ===== verification/SpendReservations.thy ===== *)
theory SpendReservations
  imports Database
begin

text \<open>
  Spend reservations of the database package
  (\<^verbatim>\<open>packages/database/src/spend-reservations.ts\<close>): reserving, releasing and settling the worst-case
  cost of a mint, with the ledger entries a settlement writes.

  \<^verbatim>\<open>JSON.stringify\<close>, \<^verbatim>\<open>localeCompare\<close>, the SHA-256 of the crypto module and the calendar of a
  time zone are the fields of \<open>JsonEnv\<close>.
\<close>

section \<open>Fingerprints\<close>

record JsonEnv =
  je_stringify :: "jsval \<Rightarrow> string option"
  je_localeLe :: "string \<Rightarrow> string \<Rightarrow> bool"
  je_sha256 :: "string \<Rightarrow> hash"
  je_localDate :: "int \<Rightarrow> string \<Rightarrow> string option"

fun insertEntry :: "(string \<Rightarrow> string \<Rightarrow> bool) \<Rightarrow> string \<times> jsval \<Rightarrow> (string \<times> jsval) list \<Rightarrow> (string \<times> jsval) list" where
  "insertEntry le e [] = [e]"
| "insertEntry le e (f # fs) = (if le (fst e) (fst f) then e # f # fs else f # insertEntry le e fs)"

definition sortEntries :: "(string \<Rightarrow> string \<Rightarrow> bool) \<Rightarrow> (string \<times> jsval) list \<Rightarrow> (string \<times> jsval) list" where
  "sortEntries le es = foldr (insertEntry le) es []"

fun normalize :: "(string \<Rightarrow> string \<Rightarrow> bool) \<Rightarrow> jsval \<Rightarrow> jsval" where
  "normalize le (JBig n) = JStr (show_int n)"
| "normalize le (JArr xs) = JArr (map (normalize le) xs)"
| "normalize le (JObj kvs) = JObj (sortEntries le (map (\<lambda>kv. (fst kv, normalize le (snd kv))) kvs))"
| "normalize le v = v"

definition SECRET_KEYS :: "string list" where
  "SECRET_KEYS =
     [''privatekey'', ''private_key'', ''private-key'', ''mnemonic'',
      ''seed'', ''seedphrase'', ''seed_phrase'', ''seed-phrase'', ''passphrase'', ''password'',
      ''apikey'', ''api_key'', ''api-key'', ''accesstoken'', ''access_token'', ''access-token'',
      ''secretkey'', ''secret_key'', ''secret-key'', ''authtoken'', ''auth_token'', ''auth-token'']"

definition isSpace :: "char \<Rightarrow> bool" where
  "isSpace c \<longleftrightarrow> of_char c \<in> {9, 10, 11, 12, 13, 32, 160 :: nat}"

text \<open>The pattern matches where a quoted secret name is followed by blanks and a colon.\<close>

definition startsSecretKey :: "string \<Rightarrow> bool" where
  "startsSecretKey s =
     list_ex (\<lambda>name.
       let quoted = CHR 0x22 # name @ [CHR 0x22]
       in take (length quoted) s = quoted
          \<and> take 1 (dropWhile isSpace (drop (length quoted) s)) = '':'') SECRET_KEYS"

fun secretLike :: "string \<Rightarrow> bool" where
  "secretLike [] = False"
| "secretLike (c # cs) = (startsSecretKey (c # cs) \<or> secretLike cs)"

definition encode :: "JsonEnv \<Rightarrow> jsval \<Rightarrow> dbError + string" where
  "encode env value =
     (case je_stringify env (normalize (je_localeLe env) value) of
        None \<Rightarrow> Inr ''{}''
      | Some result \<Rightarrow>
          if secretLike (toLowerCase result) then Inl ''secret-like values must remain in the approved secret store''
          else Inr result)"

definition digest :: "JsonEnv \<Rightarrow> jsval \<Rightarrow> dbError + hash" where
  "digest env value = bindR (encode env value) (\<lambda>text. Inr (je_sha256 env text))"

definition policyUsageDate :: "JsonEnv \<Rightarrow> date \<Rightarrow> string \<Rightarrow> dbError + string" where
  "policyUsageDate env moment timezone =
     (case moment of
        None \<Rightarrow> Inl ''invalid spend policy timezone''
      | Some t \<Rightarrow>
          (case je_localDate env t timezone of
             None \<Rightarrow> Inl ''invalid spend policy timezone''
           | Some d \<Rightarrow> Inr d))"

definition nonNegative :: "wei list \<Rightarrow> dbError \<Rightarrow> dbError + unit" where
  "nonNegative amounts message = ensure (\<not> list_ex (\<lambda>a. a < 0) amounts) message"

section \<open>The kill switch\<close>

definition setKillSwitch :: "bool \<Rightarrow> string \<Rightarrow> date \<Rightarrow> (Db, dbError, unit) eff" where
  "setKillSwitch engaged changedBy moment =
     immediate (\<lambda>db. bindR (toISOString moment) (\<lambda>t.
       Inr ((), db\<lparr>db_killSwitch := engaged, db_killChangedBy := changedBy, db_killChangedAt := Some t\<rparr>)))"

definition killSwitchStatus :: "Db \<Rightarrow> bool \<times> string \<times> date" where
  "killSwitchStatus db = (db_killSwitch db, db_killChangedBy db, db_killChangedAt db)"

definition isKillSwitchEngaged :: "Db \<Rightarrow> bool" where
  "isKillSwitchEngaged db = db_killSwitch db"

section \<open>Reserving\<close>

record ReservationRequest =
  rq_id :: string
  rq_walletId :: string
  rq_executionId :: "string option"
  rq_idempotencyKey :: string
  rq_requestId :: "string option"
  rq_fingerprint :: "hash option"
  rq_policyId :: string
  rq_amountWei :: wei
  rq_at :: "date option"

definition spendCapExceeded :: dbError where
  "spendCapExceeded = ''daily spend cap exceeded''"

definition reservationConflict :: dbError where
  "reservationConflict = ''idempotency key was reused with a different request fingerprint''"

definition jsonOption :: "string option \<Rightarrow> jsval" where
  "jsonOption v = (case v of None \<Rightarrow> JNull | Some s \<Rightarrow> JStr s)"

definition momentOf :: "int \<Rightarrow> date option \<Rightarrow> date" where
  "momentOf now moment = (case moment of None \<Rightarrow> Some now | Some d \<Rightarrow> d)"

definition activePolicy :: "string \<Rightarrow> string \<Rightarrow> Db \<Rightarrow> SpendPolicyRow option" where
  "activePolicy policyId walletId db =
     find (\<lambda>p. sp_id p = policyId \<and> sp_walletId p = walletId \<and> sp_active p) (db_spendPolicies db)"

definition reservationByKey :: "string \<Rightarrow> Db \<Rightarrow> ReservationRow option" where
  "reservationByKey key db = find (\<lambda>r. rv_idempotencyKey r = key) (db_reservations db)"

definition walletExposure :: "string \<Rightarrow> int \<Rightarrow> Db \<Rightarrow> wei" where
  "walletExposure walletId cutoff db = exposureOf (\<lambda>r. rv_walletId r = walletId \<and> inWindow cutoff r) db"

definition legacyRow ::
  "ReservationRequest \<Rightarrow> hash \<Rightarrow> string \<Rightarrow> int \<Rightarrow> ReservationRow" where
  "legacyRow request fingerprint day created =
     \<lparr>rv_id = rq_id request, rv_walletId = rq_walletId request, rv_executionId = rq_executionId request,
      rv_idempotencyKey = rq_idempotencyKey request,
      rv_requestId = Some (case rq_requestId request of None \<Rightarrow> rq_idempotencyKey request | Some r \<Rightarrow> r),
      rv_fingerprint = Some fingerprint, rv_policyId = rq_policyId request,
      rv_amountWei = rq_amountWei request, rv_reservedWei = Some (rq_amountWei request),
      rv_usageDate = day, rv_status = Reserved, rv_createdAt = Some created, rv_settledAt = None,
      rv_chainProfileId = None, rv_campaignId = None,
      rv_mintValueWei = 0, rv_l2GasWei = 0, rv_l1GasWei = 0, rv_priorityWei = 0, rv_replacementWei = 0,
      rv_mintBufferWei = 0, rv_l2BufferWei = 0, rv_l1BufferWei = 0, rv_priorityBufferWei = 0,
      rv_mintPeriodId = ''default'', rv_intentId = None, rv_mintClass = LegacyMint,
      rv_feePolicy = None, rv_settledWei = None, rv_settledParts = None\<rparr>"

text \<open>An idempotency key seen before answers with the stored status, or is a conflict.\<close>

definition replayOr ::
  "string \<Rightarrow> hash \<Rightarrow> hash option \<Rightarrow> (Db \<Rightarrow> dbError + ReservationStatus \<times> Db) \<Rightarrow> Db \<Rightarrow> dbError + ReservationStatus \<times> Db" where
  "replayOr key computed supplied fresh db =
     (if supplied \<noteq> None \<and> supplied \<noteq> Some computed then Inl reservationConflict
      else case reservationByKey key db of
             Some r \<Rightarrow> if rv_fingerprint r \<noteq> Some computed then Inl reservationConflict else Inr (rv_status r, db)
           | None \<Rightarrow> fresh db)"

definition reserveFresh ::
  "schema \<Rightarrow> ReservationRequest \<Rightarrow> date \<Rightarrow> wei \<Rightarrow> hash \<Rightarrow> string \<Rightarrow> Db \<Rightarrow> dbError + ReservationStatus \<times> Db" where
  "reserveFresh allows request moment cap fingerprint day db =
     bindR (assertAndAdvanceAdmissionClock moment db) (\<lambda>db.
     bindR (assertNoStalePendingReservations db moment) (\<lambda>_.
     bindR (rollingSpendCutoff moment) (\<lambda>cutoff.
     bindR (ensure (\<not> cap < walletExposure (rq_walletId request) cutoff db + rq_amountWei request) spendCapExceeded) (\<lambda>_.
     bindR (toISOString moment) (\<lambda>created.
     bindR (insertReservation allows (legacyRow request fingerprint day created) db) (\<lambda>db.
     Inr (Reserved, db)))))))"

definition reserveTx ::
  "JsonEnv \<Rightarrow> schema \<Rightarrow> ReservationRequest \<Rightarrow> date \<Rightarrow> Db \<Rightarrow> dbError + ReservationStatus \<times> Db" where
  "reserveTx env allows request moment db =
     bindR (ensure (\<not> isKillSwitchEngaged db) ''kill switch engaged'') (\<lambda>_.
     bindR (ensure (truthy (rq_executionId request) \<longrightarrow>
                (case find (\<lambda>e. Some (ex_id e) = rq_executionId request) (db_executions db) of
                   None \<Rightarrow> False
                 | Some e \<Rightarrow> ex_walletId e = rq_walletId request))
              ''reservation execution does not match wallet'') (\<lambda>_.
     (case activePolicy (rq_policyId request) (rq_walletId request) db of
        None \<Rightarrow> Inl ''active spend policy not found''
      | Some policy \<Rightarrow>
          bindR (policyUsageDate env moment (sp_timezone policy)) (\<lambda>day.
          bindR (digest env (JObj
                   [(''walletId'', JStr (rq_walletId request)),
                    (''executionId'', jsonOption (rq_executionId request)),
                    (''policyId'', JStr (rq_policyId request)),
                    (''amountWei'', JStr (show_int (rq_amountWei request))),
                    (''usageDate'', JStr day),
                    (''timezone'', JStr (sp_timezone policy))])) (\<lambda>computed.
          replayOr (rq_idempotencyKey request) computed (rq_fingerprint request)
            (reserveFresh allows request moment (sp_dailyCapWei policy) computed day) db)))))"

definition reserve ::
  "JsonEnv \<Rightarrow> schema \<Rightarrow> int \<Rightarrow> ReservationRequest \<Rightarrow> (Db, dbError, ReservationStatus) eff" where
  "reserve env allows now request =
     bindS (liftS (nonNegative [rq_amountWei request] ''reservation amount must be non-negative'')) (\<lambda>_.
     bindS (ensureS (rq_amountWei request \<noteq> 0) ''reservation amount must be positive'') (\<lambda>_.
     bindS (ensureS (rq_idempotencyKey request \<noteq> []) ''idempotency key must not be empty'') (\<lambda>_.
     immediate (reserveTx env allows request (momentOf now (rq_at request))))))"

section \<open>Releasing, expiring and settling as a whole\<close>

definition reservedRow :: "string \<Rightarrow> Db \<Rightarrow> ReservationRow option" where
  "reservedRow key db = find (\<lambda>r. rv_id r = key \<and> rv_status r = Reserved) (db_reservations db)"

definition notReservable :: dbError where
  "notReservable = ''reservation is missing or no longer reservable''"

definition linked :: "ReservationRow \<Rightarrow> bool" where
  "linked row \<longleftrightarrow>
     rv_executionId row \<noteq> None \<or> rv_intentId row \<noteq> None
     \<or> list_ex (\<lambda>a. a \<noteq> 0)
          [rv_mintValueWei row, rv_l2GasWei row, rv_l1GasWei row, rv_priorityWei row, rv_replacementWei row]"

definition attemptCount :: "ReservationRow \<Rightarrow> Db \<Rightarrow> nat" where
  "attemptCount row db =
     (if truthy (rv_executionId row)
      then length (filter (\<lambda>a. at_executionId a = rv_executionId row) (db_attempts db))
      else if truthy (rv_intentId row)
      then length (filter (\<lambda>a. Some (at_intentId a) = rv_intentId row) (db_attempts db))
      else 0)"

definition transitionRow :: "ReservationStatus \<Rightarrow> int \<Rightarrow> ReservationRow \<Rightarrow> ReservationRow" where
  "transitionRow status t r =
     r\<lparr>rv_status := status,
       rv_settledAt := (if status = Settled then Some t else rv_settledAt r),
       rv_settledWei := (if status = Settled then Some (rv_amountWei r) else rv_settledWei r)\<rparr>"

definition transitionTx ::
  "schema \<Rightarrow> string \<Rightarrow> ReservationStatus \<Rightarrow> date \<Rightarrow> Db \<Rightarrow> dbError + unit \<times> Db" where
  "transitionTx allows key status moment db =
     (case reservedRow key db of
        None \<Rightarrow> Inl notReservable
      | Some row \<Rightarrow>
          bindR (ensure (\<not> (status = Settled \<and> linked row))
                   ''linked reservations require authoritative component settlement'') (\<lambda>_.
          bindR (ensure (\<not> (status \<in> {Released, Expired} \<and> 0 < attemptCount row db))
                   ''submitted reservations cannot be released or expired'') (\<lambda>_.
          bindR (toISOString moment) (\<lambda>t.
          bindR (updateReservation allows key (transitionRow status t) db) (\<lambda>db'.
          if status = Settled
          then bindR (insertLedgerEntry allows
                        \<lparr>le_id = key @ '':settled:total'', le_walletId = rv_walletId row,
                         le_executionId = rv_executionId row, le_reservationId = key,
                         le_entryType = ''mint'', le_component = ''total'',
                         le_amountWei = rv_amountWei row, le_createdAt = t\<rparr> db') (\<lambda>db'. Inr ((), db'))
          else Inr ((), db'))))))"

definition transition ::
  "schema \<Rightarrow> string \<Rightarrow> ReservationStatus \<Rightarrow> date \<Rightarrow> (Db, dbError, unit) eff" where
  "transition allows key status moment = immediate (transitionTx allows key status moment)"

section \<open>Settling the components\<close>

record SettlementComponents =
  sc_mintValueWei :: wei
  sc_l2GasWei :: wei
  sc_l1GasWei :: wei
  sc_priorityWei :: "wei option"
  sc_replacementWei :: "wei option"
  sc_receiptId :: "string option"
  sc_reconciliationId :: "string option"

definition amountOr0 :: "wei option \<Rightarrow> wei" where
  "amountOr0 v = (case v of None \<Rightarrow> 0 | Some n \<Rightarrow> n)"

text \<open>\<^verbatim>\<open>ORDER BY time DESC, id DESC LIMIT 1\<close>.\<close>

fun latestBy :: "('r \<Rightarrow> string) \<Rightarrow> ('r \<Rightarrow> string) \<Rightarrow> 'r list \<Rightarrow> 'r option" where
  "latestBy moment key [] = None"
| "latestBy moment key (r # rs) =
     (case latestBy moment key rs of
        None \<Rightarrow> Some r
      | Some s \<Rightarrow>
          if moment r = moment s
          then if textLe (key r) (key s) then Some s else Some r
          else if textLe (moment r) (moment s) then Some s else Some r)"

definition receiptExecution :: "Db \<Rightarrow> ReceiptRow \<Rightarrow> string option" where
  "receiptExecution db r =
     (case find (\<lambda>a. at_id a = rc_attemptId r) (db_attempts db) of
        None \<Rightarrow> None
      | Some a \<Rightarrow> at_executionId a)"

text \<open>The chain profile of the wallet of the intent of the receipt's attempt.\<close>

definition receiptProfile :: "Db \<Rightarrow> ReceiptRow \<Rightarrow> ChainProfileRow option" where
  "receiptProfile db r =
     Option.bind (find (\<lambda>a. at_id a = rc_attemptId r) (db_attempts db)) (\<lambda>a.
     Option.bind (find (\<lambda>i. in_id i = at_intentId a) (db_intents db)) (\<lambda>i.
     Option.bind (find (\<lambda>w. wl_id w = in_walletId i) (db_wallets db)) (\<lambda>w.
     find (\<lambda>c. cp_id c = wl_chainProfileId w) (db_chainProfiles db))))"

definition latestReceipt :: "string \<Rightarrow> Db \<Rightarrow> (ReceiptRow \<times> ChainProfileRow) option" where
  "latestReceipt execution db =
     Option.bind (latestBy rc_observedAt rc_id
                    (filter (\<lambda>r. receiptExecution db r = Some execution) (db_receipts db))) (\<lambda>r.
     Option.bind (receiptProfile db r) (\<lambda>c. Some (r, c)))"

definition latestReconciliation :: "string \<Rightarrow> Db \<Rightarrow> ReconciliationRow option" where
  "latestReconciliation execution db =
     latestBy rn_checkedAt rn_id (filter (\<lambda>r. rn_executionId r = Some execution) (db_reconciliations db))"

definition assertSettlementEvidence ::
  "SettlementComponents \<Rightarrow> int \<Rightarrow> string \<Rightarrow> Db \<Rightarrow> dbError + unit" where
  "assertSettlementEvidence components chainId execution db =
     (let receipt = latestReceipt execution db;
          reconciliation = latestReconciliation execution db;
          receiptIs = (\<lambda>P. case receipt of None \<Rightarrow> False | Some (r, c) \<Rightarrow> P r c);
          reconciliationIsLatest =
            (case reconciliation of
               None \<Rightarrow> False
             | Some n \<Rightarrow>
                 (case receipt of None \<Rightarrow> True | Some (r, c) \<Rightarrow> textLe (rc_observedAt r) (rn_checkedAt n)));
          reconciled = (case reconciliation of None \<Rightarrow> False | Some n \<Rightarrow> rn_state n \<in> {''final'', ''reorged''})
      in
        bindR (ensure (receipt \<noteq> None \<or> reconciliation \<noteq> None)
                 ''settlement requires authoritative receipt or reconciliation'') (\<lambda>_.
        bindR (ensure (\<not> receiptIs (\<lambda>r c. rc_status r = ''confirmed''
                          \<and> (\<not> cp_executionEnabled c \<or> rc_finalityStage r \<noteq> cp_successStage c)))
                 ''settlement requires enabled-chain finality'') (\<lambda>_.
        bindR (ensure (\<not> receiptIs (\<lambda>r c. rc_status r = ''reverted'' \<and> chainId \<noteq> 1
                          \<and> rc_finalityStage r \<noteq> cp_successStage c))
                 ''settlement requires enabled-chain finality'') (\<lambda>_.
        bindR (ensure (\<not> (receiptIs (\<lambda>r c. rc_status r \<notin> {''confirmed'', ''reverted'', ''reorged'', ''dropped''})
                          \<and> (\<not> reconciliationIsLatest \<or> \<not> reconciled)))
                 ''settlement outcome is not authoritative'') (\<lambda>_.
        bindR (ensure (map_option rn_state reconciliation \<noteq> Some ''ambiguous'')
                 ''ambiguous reconciliation cannot settle'') (\<lambda>_.
        bindR (ensure (sc_receiptId components = None
                       \<or> sc_receiptId components = map_option (\<lambda>(r, c). rc_id r) receipt)
                 ''settlement receipt is not the latest authoritative receipt'') (\<lambda>_.
        ensure (sc_reconciliationId components = None
                \<or> sc_reconciliationId components = map_option rn_id reconciliation)
          ''settlement reconciliation is not the latest authoritative record'')))))))"

definition settlementParts :: "SettlementComponents \<Rightarrow> wei list" where
  "settlementParts components =
     [sc_mintValueWei components, sc_l2GasWei components, sc_l1GasWei components,
      amountOr0 (sc_priorityWei components), amountOr0 (sc_replacementWei components)]"

definition boundExceeded :: "SettlementComponents \<Rightarrow> int \<Rightarrow> ReservationRow \<Rightarrow> bool" where
  "boundExceeded components chainId row =
     (let priority = amountOr0 (sc_priorityWei components);
          mintBound = rv_mintValueWei row + rv_mintBufferWei row;
          l2Bound = rv_l2GasWei row + rv_l2BufferWei row;
          l1Bound = rv_l1GasWei row + rv_l1BufferWei row;
          priorityBound = rv_priorityWei row + rv_priorityBufferWei row
      in mintBound < sc_mintValueWei components
         \<or> (if chainId = 8453
             then l2Bound + l1Bound + priorityBound
                    < sc_l2GasWei components + sc_l1GasWei components + priority
             else l2Bound < sc_l2GasWei components \<or> l1Bound < sc_l1GasWei components \<or> priorityBound < priority)
         \<or> rv_replacementWei row < amountOr0 (sc_replacementWei components))"

definition settledRow :: "SettlementComponents \<Rightarrow> int \<Rightarrow> ReservationRow \<Rightarrow> ReservationRow" where
  "settledRow components t r =
     r\<lparr>rv_status := Settled,
       rv_amountWei := sum_list (settlementParts components),
       rv_settledWei := Some (sum_list (settlementParts components)),
       rv_settledParts := Some (settlementParts components),
       rv_settledAt := Some t\<rparr>"

definition ledgerEntry ::
  "string \<Rightarrow> ReservationRow \<Rightarrow> int \<Rightarrow> string \<times> string \<times> wei \<Rightarrow> LedgerEntry" where
  "ledgerEntry key row t e =
     (case e of (entryType, part, amount) \<Rightarrow>
        \<lparr>le_id = key @ '':settled:'' @ part, le_walletId = rv_walletId row,
         le_executionId = rv_executionId row, le_reservationId = key,
         le_entryType = entryType, le_component = part, le_amountWei = amount, le_createdAt = t\<rparr>)"

definition settlementEntries ::
  "SettlementComponents \<Rightarrow> wei \<Rightarrow> (string \<times> string \<times> wei) list" where
  "settlementEntries components refund =
     [(''mint'', ''mint_value'', sc_mintValueWei components),
      (''gas'', ''l2_execution_gas'', sc_l2GasWei components),
      (''gas'', ''l1_data_gas'', sc_l1GasWei components),
      (''gas'', ''priority_fee'', amountOr0 (sc_priorityWei components)),
      (''gas'', ''replacement_budget'', amountOr0 (sc_replacementWei components))]
     @ (if 0 < refund then [(''refund'', ''refund'', refund)] else [])"

text \<open>The row must have a chain profile; \<^verbatim>\<open>reserved_amount_wei\<close> is not null in the table.\<close>

definition settleableRow :: "string \<Rightarrow> Db \<Rightarrow> (ReservationRow \<times> ChainProfileRow) option" where
  "settleableRow key db =
     Option.bind (reservedRow key db) (\<lambda>r.
     Option.bind (find (\<lambda>c. Some (cp_id c) = rv_chainProfileId r) (db_chainProfiles db)) (\<lambda>c. Some (r, c)))"

definition settleExecutionComponentsInTransaction ::
  "schema \<Rightarrow> string \<Rightarrow> SettlementComponents \<Rightarrow> date \<Rightarrow> Db \<Rightarrow> dbError + unit \<times> Db" where
  "settleExecutionComponentsInTransaction allows key components moment db =
     bindR (nonNegative (settlementParts components) ''settled amounts must be non-negative'') (\<lambda>_.
     (case settleableRow key db of
        None \<Rightarrow> Inl notReservable
      | Some (row, chain) \<Rightarrow>
          bindR (case rv_executionId row of
                   None \<Rightarrow> Inr ()
                 | Some execution \<Rightarrow> assertSettlementEvidence components (cp_chainId chain) execution db) (\<lambda>_.
          bindR (ensure (\<not> boundExceeded components (cp_chainId chain) row)
                   ''settled amount exceeds reservation bound'') (\<lambda>_.
          let actualTotal = sum_list (settlementParts components);
              reserved = amountOr0 (rv_reservedWei row)
          in
          bindR (ensure (\<not> reserved < actualTotal) ''settled amount exceeds all-in reservation'') (\<lambda>_.
          bindR (toISOString moment) (\<lambda>t.
          bindR (updateReservation allows key (settledRow components t) db) (\<lambda>db'.
          bindR (insertLedgerEntries allows
                   (map (ledgerEntry key row t) (settlementEntries components (reserved - actualTotal))) db') (\<lambda>db'.
          Inr ((), db')))))))))"

definition settleExecutionComponents ::
  "schema \<Rightarrow> string \<Rightarrow> SettlementComponents \<Rightarrow> date \<Rightarrow> (Db, dbError, unit) eff" where
  "settleExecutionComponents allows key components moment =
     immediate (settleExecutionComponentsInTransaction allows key components moment)"

datatype DateOrWei = ADate date | AWei wei

definition settleExecution ::
  "schema \<Rightarrow> int \<Rightarrow> string \<Rightarrow> wei \<Rightarrow> wei \<Rightarrow> wei \<Rightarrow> DateOrWei \<Rightarrow> DateOrWei option \<Rightarrow> wei \<Rightarrow> (Db, dbError, unit) eff" where
  "settleExecution allows now key mintValue l2Gas l1Gas first second replacement =
     (let moment = (case first of ADate d \<Rightarrow> d | AWei _ \<Rightarrow> (case second of Some (ADate d) \<Rightarrow> d | _ \<Rightarrow> Some now));
          priority = (case first of AWei n \<Rightarrow> n | ADate _ \<Rightarrow> (case second of Some (AWei n) \<Rightarrow> n | _ \<Rightarrow> 0))
      in immediate (\<lambda>db.
           bindR (ensure (reservedRow key db \<noteq> None) notReservable) (\<lambda>_.
           settleExecutionComponentsInTransaction allows key
             \<lparr>sc_mintValueWei = mintValue, sc_l2GasWei = l2Gas, sc_l1GasWei = l1Gas,
              sc_priorityWei = Some priority, sc_replacementWei = Some replacement,
              sc_receiptId = None, sc_reconciliationId = None\<rparr> moment db)))"

section \<open>Reserving for an execution\<close>

record ExecutionReservationRequest =
  er_id :: string
  er_walletId :: string
  er_chainProfileId :: string
  er_campaignId :: string
  er_mintPeriodId :: "string option"
  er_executionId :: "string option"
  er_intentId :: "string option"
  er_idempotencyKey :: string
  er_requestId :: "string option"
  er_fingerprint :: "hash option"
  er_policyId :: string
  er_mintValueWei :: wei
  er_l2GasWei :: wei
  er_l1GasWei :: wei
  er_priorityWei :: wei
  er_replacementWei :: "wei option"
  er_mintBufferWei :: "wei option"
  er_l2BufferWei :: "wei option"
  er_l1BufferWei :: "wei option"
  er_priorityBufferWei :: "wei option"
  er_freeMint :: bool
  er_policySnapshot :: "jsval option"
  er_at :: "date option"

definition requestAmounts :: "ExecutionReservationRequest \<Rightarrow> wei list" where
  "requestAmounts q =
     [er_mintValueWei q, er_l2GasWei q, er_l1GasWei q, er_priorityWei q, amountOr0 (er_replacementWei q),
      amountOr0 (er_mintBufferWei q), amountOr0 (er_l2BufferWei q), amountOr0 (er_l1BufferWei q),
      amountOr0 (er_priorityBufferWei q)]"

definition priorityExposure :: "ExecutionReservationRequest \<Rightarrow> wei" where
  "priorityExposure q = er_priorityWei q + amountOr0 (er_priorityBufferWei q)"

definition feeExposure :: "ExecutionReservationRequest \<Rightarrow> wei" where
  "feeExposure q =
     er_l2GasWei q + amountOr0 (er_l2BufferWei q) + er_l1GasWei q + amountOr0 (er_l1BufferWei q)
     + priorityExposure q + amountOr0 (er_replacementWei q)"

definition requestExposure :: "ExecutionReservationRequest \<Rightarrow> wei" where
  "requestExposure q = er_mintValueWei q + amountOr0 (er_mintBufferWei q) + feeExposure q"

text \<open>
  The newest enablement record of a chain allows paid mints: not expired, not revoked, with both
  paid evidence keys set to \<^verbatim>\<open>true\<close>.
\<close>

definition paidEnabled :: "int \<Rightarrow> EnablementRow list \<Rightarrow> string list \<Rightarrow> bool" where
  "paidEnabled now rows revoked =
     (rows \<noteq> []
      \<and> (let e = last rows
         in en_paidAllowed e
            \<and> (case en_expiresAt e of None \<Rightarrow> False | Some t \<Rightarrow> now < t)
            \<and> en_id e \<notin> set revoked
            \<and> map_of (en_evidence e) ''paidRehearsal'' = Some (JBool True)
            \<and> map_of (en_evidence e) ''paidPolicyApproved'' = Some (JBool True)))"

definition assertChainReady ::
  "int \<Rightarrow> ExecutionReservationRequest \<Rightarrow> Db \<Rightarrow> dbError + unit" where
  "assertChainReady now q db =
     (case find (\<lambda>c. cp_id c = er_chainProfileId q) (db_chainProfiles db) of
        None \<Rightarrow> Inl ''chain profile not found''
      | Some chain \<Rightarrow>
          bindR (ensure (\<not> (cp_chainId chain = 4663 \<and> \<not> er_freeMint q
                            \<and> \<not> paidEnabled now (db_robinhoodEnablements db) (db_revocations db)))
                   ''paid Robinhood mints are blocked'') (\<lambda>_.
          bindR (ensure (\<not> (cp_chainId chain = 8453 \<and> \<not> er_freeMint q
                            \<and> \<not> paidEnabled now (db_baseEnablements db) (db_revocations db)))
                   ''paid Base mints are blocked'') (\<lambda>_.
          bindR (ensure (\<not> (cp_chainId chain = 4663 \<and> \<not> cp_executionEnabled chain))
                   ''Robinhood execution is disabled'') (\<lambda>_.
          bindR (ensure (cp_verified chain \<and> cp_executionEnabled chain)
                   ''chain execution is not enabled or verified'') (\<lambda>_.
          ensure (\<not> (cp_chainId chain = 4663 \<and> er_freeMint q \<and> er_mintValueWei q \<noteq> 0))
            ''Robinhood free reservations must have zero mint value'')))))"

definition findLinkage :: "ExecutionReservationRequest \<Rightarrow> Db \<Rightarrow> (ExecutionRow \<times> IntentRow) option" where
  "findLinkage q db =
     Option.bind (find (\<lambda>e. Some (ex_id e) = er_executionId q) (db_executions db)) (\<lambda>e.
     Option.bind (find (\<lambda>i. in_id i = ex_intentId e \<and> Some (in_id i) = er_intentId q) (db_intents db)) (\<lambda>i.
     Some (e, i)))"

definition assertLinkage :: "ExecutionReservationRequest \<Rightarrow> Db \<Rightarrow> dbError + unit" where
  "assertLinkage q db =
     bindR (ensure (truthy (er_executionId q) \<and> truthy (er_intentId q))
              ''execution reservation requires execution and transaction intent linkage'') (\<lambda>_.
     bindR (ensure (map_option wl_chainProfileId (find (\<lambda>w. wl_id w = er_walletId q) (db_wallets db))
                      = Some (er_chainProfileId q))
              ''reservation chain does not match wallet'') (\<lambda>_.
     bindR (ensure (map_of (db_campaignProfile db) (er_campaignId q) = Some (er_chainProfileId q))
              ''reservation chain does not match campaign'') (\<lambda>_.
     bindR (ensure (map_option (snd \<circ> snd)
                      (find (\<lambda>m. fst m = er_campaignId q \<and> fst (snd m) = er_walletId q) (db_campaignWallets db))
                      = Some True)
              ''reservation requires enabled campaign wallet membership'') (\<lambda>_.
     (case findLinkage q db of
        None \<Rightarrow> Inl ''reservation execution and intent linkage mismatch''
      | Some (e, i) \<Rightarrow>
          bindR (ensure (ex_walletId e = er_walletId q \<and> ex_campaignId e = er_campaignId q
                         \<and> in_walletId i = er_walletId q \<and> in_campaignId i = er_campaignId q
                         \<and> in_chainProfileId i = Some (er_chainProfileId q))
                   ''reservation execution and intent linkage mismatch'') (\<lambda>_.
          bindR (ensure (in_valueWei i = er_mintValueWei q)
                   ''reservation mint value does not match transaction intent'') (\<lambda>_.
          ensure (ex_reservationId e = None) ''execution already has a reservation'')))))))"

definition periodOf :: "ExecutionReservationRequest \<Rightarrow> string" where
  "periodOf q = (case er_mintPeriodId q of None \<Rightarrow> ''campaign:'' @ er_campaignId q | Some p \<Rightarrow> p)"

definition assertFeePolicy :: "ExecutionReservationRequest \<Rightarrow> FeePolicyRow \<Rightarrow> dbError + unit" where
  "assertFeePolicy q fee =
     bindR (ensure (er_freeMint q \<or> fp_paidEnabled fee) ''paid-mint policy is not approved'') (\<lambda>_.
     bindR (ensure (er_freeMint q = (er_mintValueWei q = 0))
              ''reservation mint classification does not match transaction intent value'') (\<lambda>_.
     bindR (ensure (\<not> (er_priorityWei q = 0 \<and> fp_zeroPolicy fee = ZeroBlocked))
              ''zero-priority-fee policy is blocked'') (\<lambda>_.
     bindR (ensure (\<not> (er_priorityWei q = 0 \<and> fp_zeroPolicy fee \<noteq> ZeroAllowed))
              ''zero-priority-fee policy requires PO resolution'') (\<lambda>_.
     bindR (ensure (\<not> (er_freeMint q \<and> fp_freePriorityWei fee * fp_freePriorityMultiplier fee < priorityExposure q))
              ''priority fee component exceeds free-mint policy'') (\<lambda>_.
     let feeCap = (if er_freeMint q then fp_freeTotalFeeWei fee else fp_maxTotalFeeWei fee)
     in bindR (ensure (\<not> feeCap < feeExposure q) ''total fee exceeds policy'') (\<lambda>_.
        ensure (\<not> feeCap < amountOr0 (er_replacementWei q)) ''replacement budget exceeds fee policy''))))))"

definition classOf :: "ExecutionReservationRequest \<Rightarrow> string" where
  "classOf q = (if er_freeMint q then ''free'' else ''paid'')"

definition zeroPolicyText :: "ZeroPriorityPolicy \<Rightarrow> string" where
  "zeroPolicyText z =
     (case z of RequiresPoResolution \<Rightarrow> ''requires_po_resolution'' | ZeroBlocked \<Rightarrow> ''blocked'' | ZeroAllowed \<Rightarrow> ''allowed'')"

definition feePolicyJson :: "FeePolicyRow \<Rightarrow> jsval" where
  "feePolicyJson fee =
     JObj [(''id'', JStr (fp_id fee)), (''version'', JStr (fp_version fee)),
           (''maxFee'', JStr (show_int (fp_maxTotalFeeWei fee))),
           (''freeFee'', JStr (show_int (fp_freeTotalFeeWei fee))),
           (''component'', JStr (show_int (fp_freePriorityWei fee))),
           (''multiplier'', JNum (jint (fp_freePriorityMultiplier fee))),
           (''paid'', JNum (jint (if fp_paidEnabled fee then 1 else 0))),
           (''zeroPolicy'', JStr (zeroPolicyText (fp_zeroPolicy fee)))]"

definition amountsJson :: "ExecutionReservationRequest \<Rightarrow> (string \<times> jsval) list" where
  "amountsJson q =
     zip [''mintValueWei'', ''l2ExecutionGasWei'', ''l1DataGasWei'', ''priorityFeeComponentWei'',
          ''replacementBudgetWei'', ''mintValueBufferWei'', ''l2ExecutionGasBufferWei'',
          ''l1DataGasBufferWei'', ''priorityFeeBufferWei'']
       (map (\<lambda>n. JStr (show_int n)) (requestAmounts q))"

definition executionFingerprint ::
  "ExecutionReservationRequest \<Rightarrow> SpendPolicyRow \<Rightarrow> FeePolicyRow \<Rightarrow> string \<Rightarrow> jsval" where
  "executionFingerprint q policy fee day =
     JObj ([(''walletId'', JStr (er_walletId q)), (''chainProfileId'', JStr (er_chainProfileId q)),
            (''campaignId'', JStr (er_campaignId q)), (''mintPeriodId'', JStr (periodOf q)),
            (''executionId'', jsonOption (er_executionId q)),
            (''transactionIntentId'', jsonOption (er_intentId q)),
            (''policyId'', JStr (er_policyId q)), (''mintClass'', JStr (classOf q))]
           @ amountsJson q
           @ [(''policySnapshot'', case er_policySnapshot q of None \<Rightarrow> JNull | Some v \<Rightarrow> v),
              (''effectiveSpendPolicy'',
                 JObj [(''id'', JStr (er_policyId q)), (''cap'', JStr (show_int (sp_dailyCapWei policy))),
                       (''timezone'', JStr (sp_timezone policy)),
                       (''campaignCap'', jsonOption (map_option show_int (sp_campaignCapWei policy))),
                       (''walletCap'', JStr (show_int (sp_freeWalletCapWei policy))),
                       (''periodCap'', JStr (show_int (sp_freePeriodCapWei policy)))]),
              (''effectiveFeePolicy'', feePolicyJson fee), (''usageDate'', JStr day)])"

text \<open>The snapshot stored with the row: the caller's, or the effective amounts and fee policy.\<close>

definition policySnapshotJson ::
  "ExecutionReservationRequest \<Rightarrow> FeePolicyRow \<Rightarrow> string \<Rightarrow> jsval" where
  "policySnapshotJson q fee day =
     (case er_policySnapshot q of
        Some v \<Rightarrow> v
      | None \<Rightarrow>
          JObj ([(''chainProfileId'', JStr (er_chainProfileId q)), (''campaignId'', JStr (er_campaignId q)),
                 (''mintClass'', JStr (classOf q))]
                @ amountsJson q
                @ [(''feePolicyId'', JStr (fp_id fee)), (''feePolicyVersion'', JStr (fp_version fee)),
                   (''feePolicyMaxFeeWei'', JStr (show_int (fp_maxTotalFeeWei fee))),
                   (''feePolicyFreeFeeWei'', JStr (show_int (fp_freeTotalFeeWei fee))),
                   (''zeroPriorityFeePolicy'', JStr (zeroPolicyText (fp_zeroPolicy fee))),
                   (''usageDate'', JStr day)]))"

definition executionRow ::
  "ExecutionReservationRequest \<Rightarrow> FeePolicyRow \<Rightarrow> hash \<Rightarrow> string \<Rightarrow> int \<Rightarrow> ReservationRow" where
  "executionRow q fee fingerprint day created =
     \<lparr>rv_id = er_id q, rv_walletId = er_walletId q, rv_executionId = er_executionId q,
      rv_idempotencyKey = er_idempotencyKey q,
      rv_requestId = Some (case er_requestId q of None \<Rightarrow> er_idempotencyKey q | Some r \<Rightarrow> r),
      rv_fingerprint = Some fingerprint, rv_policyId = er_policyId q,
      rv_amountWei = requestExposure q, rv_reservedWei = Some (requestExposure q),
      rv_usageDate = day, rv_status = Reserved, rv_createdAt = Some created, rv_settledAt = None,
      rv_chainProfileId = Some (er_chainProfileId q), rv_campaignId = Some (er_campaignId q),
      rv_mintValueWei = er_mintValueWei q, rv_l2GasWei = er_l2GasWei q, rv_l1GasWei = er_l1GasWei q,
      rv_priorityWei = er_priorityWei q, rv_replacementWei = amountOr0 (er_replacementWei q),
      rv_mintBufferWei = amountOr0 (er_mintBufferWei q), rv_l2BufferWei = amountOr0 (er_l2BufferWei q),
      rv_l1BufferWei = amountOr0 (er_l1BufferWei q), rv_priorityBufferWei = amountOr0 (er_priorityBufferWei q),
      rv_mintPeriodId = periodOf q, rv_intentId = er_intentId q,
      rv_mintClass = (if er_freeMint q then FreeMint else PaidMint),
      rv_feePolicy = Some (fp_id fee, fp_version fee), rv_settledWei = None, rv_settledParts = None\<rparr>"

definition freeWalletExposure :: "string \<Rightarrow> Db \<Rightarrow> wei" where
  "freeWalletExposure walletId db =
     exposureOf (\<lambda>r. rv_walletId r = walletId \<and> rv_mintClass r = FreeMint \<and> openOrSettled r) db"

definition campaignExposure :: "string \<Rightarrow> string \<Rightarrow> Db \<Rightarrow> wei" where
  "campaignExposure walletId campaignId db =
     exposureOf (\<lambda>r. rv_walletId r = walletId \<and> rv_campaignId r = Some campaignId \<and> openOrSettled r) db"

definition periodExposure :: "string \<Rightarrow> string \<Rightarrow> string \<Rightarrow> Db \<Rightarrow> wei" where
  "periodExposure profileId campaignId periodId db =
     exposureOf (\<lambda>r. rv_chainProfileId r = Some profileId \<and> rv_campaignId r = Some campaignId
                     \<and> rv_mintPeriodId r = periodId \<and> rv_mintClass r = FreeMint \<and> openOrSettled r) db"

definition linkReservation :: "schema \<Rightarrow> string \<Rightarrow> string option \<Rightarrow> Db \<Rightarrow> dbError + Db" where
  "linkReservation allows reservation execution db =
     (let hit = (\<lambda>e. Some (ex_id e) = execution \<and> ex_reservationId e = None);
          link = (\<lambda>e. e\<lparr>ex_reservationId := Some reservation\<rparr>)
      in if list_ex (\<lambda>e. hit e \<and> \<not> allows db (UpdateExecution e (link e))) (db_executions db)
         then Inl constraintError
         else if length (filter hit (db_executions db)) \<noteq> 1
         then Inl ''execution reservation linkage could not be established''
         else Inr (db\<lparr>db_executions := map (\<lambda>e. if hit e then link e else e) (db_executions db)\<rparr>))"

definition reserveExecutionFresh ::
  "JsonEnv \<Rightarrow> schema \<Rightarrow> ExecutionReservationRequest \<Rightarrow> date \<Rightarrow> SpendPolicyRow \<Rightarrow> FeePolicyRow \<Rightarrow> hash \<Rightarrow> string
     \<Rightarrow> Db \<Rightarrow> dbError + ReservationStatus \<times> Db" where
  "reserveExecutionFresh env allows q moment policy fee fingerprint day db =
     (let exposure = requestExposure q;
          campaignCap = (case sp_campaignCapWei policy of None \<Rightarrow> sp_dailyCapWei policy | Some n \<Rightarrow> n)
      in
      bindR (assertAndAdvanceAdmissionClock moment db) (\<lambda>db.
      bindR (assertNoStalePendingReservations db moment) (\<lambda>_.
      bindR (rollingSpendCutoff moment) (\<lambda>cutoff.
      bindR (ensure (\<not> sp_dailyCapWei policy < walletExposure (er_walletId q) cutoff db + exposure) spendCapExceeded) (\<lambda>_.
      bindR (ensure (\<not> (er_freeMint q \<and> sp_freeWalletCapWei policy < freeWalletExposure (er_walletId q) db + exposure))
               spendCapExceeded) (\<lambda>_.
      bindR (ensure (\<not> campaignCap < campaignExposure (er_walletId q) (er_campaignId q) db + exposure) spendCapExceeded) (\<lambda>_.
      bindR (ensure (\<not> (er_freeMint q \<and> sp_freePeriodCapWei policy
                          < periodExposure (er_chainProfileId q) (er_campaignId q) (periodOf q) db + exposure))
               spendCapExceeded) (\<lambda>_.
      bindR (encode env (policySnapshotJson q fee day)) (\<lambda>_.
      bindR (encode env (feePolicyJson fee)) (\<lambda>_.
      bindR (toISOString moment) (\<lambda>created.
      bindR (insertReservation allows (executionRow q fee fingerprint day created) db) (\<lambda>db.
      bindR (linkReservation allows (er_id q) (er_executionId q) db) (\<lambda>db.
      Inr (Reserved, db))))))))))))))"

definition reserveExecutionTx ::
  "JsonEnv \<Rightarrow> schema \<Rightarrow> int \<Rightarrow> ExecutionReservationRequest \<Rightarrow> date \<Rightarrow> Db \<Rightarrow> dbError + ReservationStatus \<times> Db" where
  "reserveExecutionTx env allows now q moment db =
     bindR (ensure (\<not> isKillSwitchEngaged db) ''kill switch engaged'') (\<lambda>_.
     bindR (assertChainReady now q db) (\<lambda>_.
     bindR (assertLinkage q db) (\<lambda>_.
     bindR (ensure ((periodOf q, er_campaignId q) \<in> set (db_campaignPeriods db))
              ''reservation period is not an approved campaign period'') (\<lambda>_.
     (case activePolicy (er_policyId q) (er_walletId q) db of
        None \<Rightarrow> Inl ''active spend policy not found''
      | Some policy \<Rightarrow>
          bindR (policyUsageDate env moment (sp_timezone policy)) (\<lambda>day.
          (case find (\<lambda>f. fp_chainProfileId f = er_chainProfileId q \<and> fp_active f) (db_feePolicies db) of
             None \<Rightarrow> Inl ''active fee policy not found''
           | Some fee \<Rightarrow>
               bindR (assertFeePolicy q fee) (\<lambda>_.
               bindR (digest env (executionFingerprint q policy fee day)) (\<lambda>computed.
               replayOr (er_idempotencyKey q) computed (er_fingerprint q)
                 (reserveExecutionFresh env allows q moment policy fee computed day) db)))))))))"

definition reserveExecution ::
  "JsonEnv \<Rightarrow> schema \<Rightarrow> int \<Rightarrow> ExecutionReservationRequest \<Rightarrow> (Db, dbError, ReservationStatus) eff" where
  "reserveExecution env allows now q =
     bindS (liftS (nonNegative (requestAmounts q) ''reservation amounts must be non-negative'')) (\<lambda>_.
     bindS (liftS (toISOString (momentOf now (er_at q)))) (\<lambda>_.
     bindS (ensureS (er_idempotencyKey q \<noteq> []) ''idempotency key must not be empty'') (\<lambda>_.
     bindS (ensureS (requestExposure q \<noteq> 0) ''reservation exposure must be positive'') (\<lambda>_.
     immediate (reserveExecutionTx env allows now q (momentOf now (er_at q)))))))"

end
