(* ===== verification/CanonicalStore.thy ===== *)
theory CanonicalStore
  imports BackendTypes SpendReservations
begin

text \<open>
  The canonical store of the backend (\<^verbatim>\<open>packages/backend/src/canonical-store.ts\<close>): the admission of a
  live run, which is the only place that reserves live spend, the settlement of its reservations,
  and the two ways an unsent run is closed.

  \<^item> \<open>CanonicalEnv\<close> holds what the store is built with: the fleet policy, the triggers and foreign
    keys of the schema, the clock (read as one time during a call) and its ISO text, the truncated
    SHA-256 \<^verbatim>\<open>digest\<close>, the JSON text of a fee policy's snapshot and the fingerprint of an intent.
  \<^item> The rows of contracts, collections and drops that \<^verbatim>\<open>ensureCampaignGraph\<close> adds are not in the
    model: no query of an admission reads them except to find the chain profile of a campaign,
    which \<open>db_campaignProfile\<close> is. JSON snapshots stored with a row are left out.
\<close>

section \<open>Vocabularies\<close>

definition dbCampaignState :: "CampaignState \<Rightarrow> string" where
  "dbCampaignState s =
     (case s of CDraft \<Rightarrow> ''draft'' | CValidating \<Rightarrow> ''validating'' | CReady \<Rightarrow> ''ready'' | CArmed \<Rightarrow> ''armed''
      | CActive \<Rightarrow> ''active'' | CPaused \<Rightarrow> ''paused'' | CCompleted \<Rightarrow> ''completed'' | CFailed \<Rightarrow> ''failed''
      | CAborted \<Rightarrow> ''aborted'' | CCancelled \<Rightarrow> ''cancelled'')"

definition dbRunState :: "CampaignState \<Rightarrow> string" where
  "dbRunState s =
     (case s of CArmed \<Rightarrow> ''prepared'' | CActive \<Rightarrow> ''active'' | CAborted \<Rightarrow> ''aborted'' | CCancelled \<Rightarrow> ''cancelled''
      | CFailed \<Rightarrow> ''failed'' | CCompleted \<Rightarrow> ''completed'' | _ \<Rightarrow> ''prepared'')"

definition backendRunState :: "string \<Rightarrow> CampaignState" where
  "backendRunState s =
     (if s = ''prepared'' then CArmed
      else if s = ''active'' \<or> s = ''recovering'' then CActive
      else if s = ''completed'' then CCompleted
      else if s = ''failed'' then CFailed
      else if s = ''aborted'' then CAborted
      else if s = ''cancelled'' then CCancelled
      else CArmed)"

definition executionState :: "string \<Rightarrow> ExecutionState" where
  "executionState state =
     (let s = toLowerCase state
      in if s = ''signed'' then XSigned
         else if s \<in> {''submitted'', ''included'', ''posted_to_ethereum''} then XSubmitted
         else if s \<in> {''pending'', ''executing''} then XPending
         else if s \<in> {''confirmed'', ''ethereum_final'', ''minted'', ''settled''} then XConfirmed
         else if s = ''reorged'' then XReorged
         else if s = ''replaced'' then XReplaced
         else if s \<in> {''aborted'', ''killed'', ''skipped''} then XAborted
         else if s \<in> {''failed'', ''dropped'', ''reverted''} then XFailed
         else XPrepared)"

definition canonicalReceiptState :: "string \<Rightarrow> ExecutionState" where
  "canonicalReceiptState s =
     (if s = ''reorged'' then XReorged else if s = ''confirmed'' then XConfirmed
      else if s = ''pending'' then XPending else XFailed)"

definition canonicalReceiptFinalityStage :: "int \<Rightarrow> ExecutionState \<Rightarrow> string option \<Rightarrow> string" where
  "canonicalReceiptFinalityStage chainId state finality =
     (let final = finality \<in> {Some ''final'', Some ''ethereum_final''};
          staged = (if finality = Some ''soft'' then Some ''soft''
                    else if finality = Some ''posted'' then Some ''posted''
                    else if final then Some ''ethereum_final'' else None)
      in if chainId = 4663 \<or> chainId = 8453
         then if state = XFailed \<and> final then ''ethereum_final''
              else if state \<noteq> XConfirmed \<and> state \<noteq> XPending then ''unknown''
              else (case staged of Some s \<Rightarrow> s | None \<Rightarrow> ''unknown'')
         else if state \<noteq> XConfirmed \<and> state \<noteq> XPending then ''unknown''
              else (case staged of Some s \<Rightarrow> s | None \<Rightarrow> if state = XConfirmed then ''ethereum_final'' else ''unknown''))"

definition reconciliationResult :: "string \<Rightarrow> ReconciliationResult" where
  "reconciliationResult s =
     (if s = ''final'' then RFinal else if s = ''matched'' then RConfirmed
      else if s = ''reorged'' then RReorged else RUnknown)"

definition databaseReconciliationState :: "ReconciliationResult \<Rightarrow> string" where
  "databaseReconciliationState r =
     (case r of RFinal \<Rightarrow> ''final'' | RConfirmed \<Rightarrow> ''matched'' | RSoft \<Rightarrow> ''matched'' | RPosted \<Rightarrow> ''matched''
      | RReorged \<Rightarrow> ''reorged'' | RFailed \<Rightarrow> ''ambiguous'' | RUnknown \<Rightarrow> ''unresolved'')"

section \<open>Environment and identities\<close>

record CanonicalEnv =
  ce_allows :: schema
  ce_now :: date
  ce_digest :: "string \<Rightarrow> string"
  ce_nowText :: string
  ce_snapshotText :: "string \<Rightarrow> nat \<Rightarrow> wei \<times> wei \<times> wei \<Rightarrow> bool \<Rightarrow> string"
  ce_intentHash :: "IntentRow \<Rightarrow> hash"
  ce_fleetPolicy :: "FleetSpendPolicy option"

record CanonicalAdmissionInput =
  ai_run :: RunRecord
  ai_intent :: IntentRecord
  ai_campaign :: Campaign
  ai_wallets :: "address list"

definition canonicalId :: "CanonicalEnv \<Rightarrow> string \<Rightarrow> string \<Rightarrow> string" where
  "canonicalId env prefix value = prefix @ ''_'' @ ce_digest env value"

definition walletKey :: "string \<Rightarrow> address \<Rightarrow> string" where
  "walletKey owner wallet = owner @ '':'' @ toLowerCase wallet"

definition policyId :: "CanonicalEnv \<Rightarrow> string \<Rightarrow> address \<Rightarrow> string" where
  "policyId env campaignId wallet = canonicalId env ''policy'' (walletKey campaignId wallet)"

definition executionIdFor :: "CanonicalEnv \<Rightarrow> string \<Rightarrow> address \<Rightarrow> string" where
  "executionIdFor env runId wallet = canonicalId env ''execution'' (walletKey runId wallet)"

definition reservationIdFor :: "CanonicalEnv \<Rightarrow> string \<Rightarrow> address \<Rightarrow> string" where
  "reservationIdFor env runId wallet = canonicalId env ''reservation'' (walletKey runId wallet)"

definition intentRowId :: "CanonicalEnv \<Rightarrow> string \<Rightarrow> address \<Rightarrow> string" where
  "intentRowId env intentId wallet = canonicalId env ''intent'' (walletKey intentId wallet)"

definition chainProfileForCampaign :: "string \<Rightarrow> Db \<Rightarrow> ChainProfileRow option" where
  "chainProfileForCampaign campaignId db =
     Option.bind (map_of (db_campaignProfile db) campaignId) (\<lambda>p.
       find (\<lambda>c. cp_id c = p) (db_chainProfiles db))"

definition walletAddress :: "string \<Rightarrow> Db \<Rightarrow> address" where
  "walletAddress walletId db =
     (case find (\<lambda>w. wl_id w = walletId) (db_wallets db) of None \<Rightarrow> walletId | Some w \<Rightarrow> wl_address w)"

definition runFingerprint :: "CanonicalEnv \<Rightarrow> string \<Rightarrow> Db \<Rightarrow> hash" where
  "runFingerprint env runId db =
     (case find (\<lambda>r. ru_id r = runId) (db_runs db) of
        None \<Rightarrow> ce_digest env runId
      | Some r \<Rightarrow> (case ru_backendDigest r of Some d \<Rightarrow> d | None \<Rightarrow> ru_fingerprint r))"

section \<open>Rows an admission prepares\<close>

definition recordAudit :: "CanonicalEnv \<Rightarrow> string \<Rightarrow> string \<Rightarrow> string \<Rightarrow> Db \<Rightarrow> dbError + Db" where
  "recordAudit env entityType entityId newState db =
     (let row = \<lparr>au_entityType = entityType, au_entityId = entityId, au_newState = newState\<rparr>
      in if ce_allows env db (InsertAudit row) then Inr (db\<lparr>db_audit := db_audit db @ [row]\<rparr>) else Inl constraintError)"

definition ensureSpendPolicy :: "CanonicalEnv \<Rightarrow> string \<Rightarrow> Campaign \<Rightarrow> Db \<Rightarrow> dbError + Db" where
  "ensureSpendPolicy env walletId campaign db =
     (let key = policyId env (cm_id campaign) (walletAddress walletId db);
          row = \<lparr>sp_id = key, sp_walletId = walletId, sp_dailyCapWei = sl_dailyCapWei (cm_spendPolicy campaign),
                 sp_timezone = ''UTC'', sp_active = True, sp_campaignCapWei = None,
                 sp_freeWalletCapWei = 200000000000000, sp_freePeriodCapWei = 2000000000000000\<rparr>
      in if find (\<lambda>p. sp_id p = key) (db_spendPolicies db) \<noteq> None then Inr db
         else if ce_allows env db (InsertSpendPolicy row)
         then Inr (db\<lparr>db_spendPolicies := db_spendPolicies db @ [row]\<rparr>)
         else Inl constraintError)"

definition ensureWallet :: "CanonicalEnv \<Rightarrow> string \<Rightarrow> address \<Rightarrow> Campaign \<Rightarrow> Db \<Rightarrow> dbError + string \<times> Db" where
  "ensureWallet env profileId addr campaign db =
     (case find (\<lambda>w. wl_chainProfileId w = profileId \<and> toLowerCase (wl_address w) = toLowerCase addr) (db_wallets db) of
        Some w \<Rightarrow> bindR (ensureSpendPolicy env (wl_id w) campaign db) (\<lambda>db. Inr (wl_id w, db))
      | None \<Rightarrow>
          (let walletId = canonicalId env ''wallet'' (walletKey profileId addr);
               row = \<lparr>wl_id = walletId, wl_chainProfileId = profileId, wl_address = addr\<rparr>
           in if find (\<lambda>w. wl_id w = walletId) (db_wallets db) \<noteq> None \<or> \<not> ce_allows env db (InsertWallet row)
              then Inl constraintError
              else bindR (ensureSpendPolicy env walletId campaign (db\<lparr>db_wallets := db_wallets db @ [row]\<rparr>)) (\<lambda>db.
                     Inr (walletId, db))))"

definition findWallet :: "CanonicalEnv \<Rightarrow> Campaign \<Rightarrow> address \<Rightarrow> Db \<Rightarrow> dbError + (string \<times> string) \<times> Db" where
  "findWallet env campaign addr db =
     (case chainProfileForCampaign (cm_id campaign) db of
        None \<Rightarrow> Inl ''CANONICAL_CHAIN_PROFILE_REQUIRED''
      | Some profile \<Rightarrow>
          bindR (ensureWallet env (cp_id profile) addr campaign db) (\<lambda>(walletId, db).
            Inr ((walletId, cp_id profile), db)))"

definition profileByChain :: "int \<Rightarrow> Db \<Rightarrow> ChainProfileRow option" where
  "profileByChain chainId db = find (\<lambda>c. cp_chainId c = chainId) (db_chainProfiles db)"

definition ensureEthereumChainProfile :: "CanonicalEnv \<Rightarrow> Db \<Rightarrow> dbError + Db" where
  "ensureEthereumChainProfile env db =
     (case profileByChain 1 db of
        Some _ \<Rightarrow> Inr db
      | None \<Rightarrow>
          (let row = \<lparr>cp_id = canonicalId env ''chain'' ''ethereum-1'', cp_chainId = 1, cp_executionEnabled = False,
                      cp_verified = False, cp_successStage = ''ethereum_final''\<rparr>
           in if find (\<lambda>c. cp_id c = cp_id row) (db_chainProfiles db) \<noteq> None \<or> \<not> ce_allows env db (InsertChainProfile row)
              then Inl constraintError
              else Inr (db\<lparr>db_chainProfiles := db_chainProfiles db @ [row]\<rparr>)))"

definition activeFeePolicy :: "string \<Rightarrow> Db \<Rightarrow> FeePolicyRow option" where
  "activeFeePolicy profileId db =
     (let rows = filter (\<lambda>f. fp_chainProfileId f = profileId \<and> fp_active f) (db_feePolicies db)
      in if rows = [] then None else Some (last rows))"

definition APPROVED_ETHEREUM_TIP_WEI :: wei where
  "APPROVED_ETHEREUM_TIP_WEI = 100000000"

text \<open>The amounts of a new fee policy: largest total fee, free cap and priority component.\<close>

definition feePolicySeed :: "CanonicalEnv \<Rightarrow> CampaignFees \<Rightarrow> int \<Rightarrow> wei \<times> wei \<times> wei" where
  "feePolicySeed env fees chainId =
     (case (if chainId = 1 then ce_fleetPolicy env else None) of
        Some p \<Rightarrow> (max (fl_freeFeeAllowanceWei p) (fl_paidFeeAllowanceWei p), fl_freeFeeAllowanceWei p, APPROVED_ETHEREUM_TIP_WEI)
      | None \<Rightarrow> (amountOr0 (cf_totalWei fees), amountOr0 (cf_freeCapWei fees), cf_priorityWei fees))"

definition insertFeePolicyRow ::
  "CanonicalEnv \<Rightarrow> string \<Rightarrow> wei \<times> wei \<times> wei \<Rightarrow> bool \<Rightarrow> Db \<Rightarrow> dbError + Db" where
  "insertFeePolicyRow env profileId values paid db =
     (case values of (maxFee, freeCap, priority) \<Rightarrow>
        let sequence = length (filter (\<lambda>f. fp_chainProfileId f = profileId) (db_feePolicies db));
            snapshot = ce_snapshotText env profileId sequence values paid;
            row = \<lparr>fp_id = canonicalId env ''fee'' (profileId @ '':'' @ snapshot @ '':'' @ ce_nowText env),
                   fp_version = ''backend-'' @ ce_digest env (snapshot @ ce_nowText env),
                   fp_chainProfileId = profileId, fp_maxTotalFeeWei = maxFee, fp_freeTotalFeeWei = freeCap,
                   fp_freePriorityWei = priority, fp_freePriorityMultiplier = 2, fp_paidEnabled = paid,
                   fp_zeroPolicy = (if priority = 0 then RequiresPoResolution else ZeroAllowed), fp_active = True\<rparr>
        in if ce_allows env db (InsertFeePolicy row) then Inr (db\<lparr>db_feePolicies := db_feePolicies db @ [row]\<rparr>)
           else Inl constraintError)"

definition ensureFeePolicy :: "CanonicalEnv \<Rightarrow> string \<Rightarrow> CampaignFees \<Rightarrow> int \<Rightarrow> Db \<Rightarrow> dbError + Db" where
  "ensureFeePolicy env profileId fees chainId db =
     bindR (if cf_kind fees = PaidKind \<and> chainId = 4663
            then assertRobinhoodLiveAllowed PaidKind (latestRobinhoodEnablement db) (ce_now env) else Inr ()) (\<lambda>_.
     bindR (if chainId = 8453 then assertBaseLiveAllowed (cf_kind fees) (latestBaseEnablement db) (ce_now env) else Inr ()) (\<lambda>_.
     (case activeFeePolicy profileId db of
        Some existing \<Rightarrow>
          if cf_kind fees = PaidKind \<and> \<not> fp_paidEnabled existing then Inl ''PAID_MINT_POLICY_REQUIRED'' else Inr db
      | None \<Rightarrow> insertFeePolicyRow env profileId (feePolicySeed env fees chainId) (cf_kind fees = PaidKind) db)))"

definition ensureCampaignGraph :: "CanonicalEnv \<Rightarrow> Campaign \<Rightarrow> Db \<Rightarrow> dbError + string \<times> Db" where
  "ensureCampaignGraph env campaign db =
     bindR (if cm_chainId campaign = 1 then ensureEthereumChainProfile env db else Inr db) (\<lambda>db.
     (case profileByChain (cm_chainId campaign) db of
        None \<Rightarrow> Inl ''CANONICAL_CHAIN_PROFILE_REQUIRED''
      | Some profile \<Rightarrow>
          bindR (ensureFeePolicy env (cp_id profile) (cm_feePolicy campaign) (cm_chainId campaign) db) (\<lambda>db.
            Inr (cp_id profile, db))))"

section \<open>Intents and executions\<close>

definition intentOfWallet :: "CanonicalEnv \<Rightarrow> IntentRecord \<Rightarrow> string \<Rightarrow> string \<Rightarrow> address \<Rightarrow> int \<Rightarrow> IntentRow" where
  "intentOfWallet env intent profileId walletId addr quantity =
     (let campaign = ir_campaignSnapshot intent;
          row = \<lparr>in_id = intentRowId env (ir_id intent) addr, in_walletId = walletId, in_campaignId = cm_id campaign,
                 in_chainProfileId = Some profileId, in_valueWei = cm_mintPriceWei campaign * quantity,
                 in_idempotencyKey = Some (walletKey (ir_id intent) addr), in_requestId = Some (ir_id intent),
                 in_fingerprint = None, in_runId = Some (ir_runId intent)\<rparr>
      in row\<lparr>in_fingerprint := Some (ce_intentHash env row)\<rparr>)"

definition saveIntent :: "CanonicalEnv \<Rightarrow> Campaign \<Rightarrow> IntentRow \<Rightarrow> Db \<Rightarrow> dbError + Db" where
  "saveIntent env campaign row db =
     (let sameKey = (\<lambda>i. in_idempotencyKey row \<noteq> Some [] \<and> in_idempotencyKey i = in_idempotencyKey row);
          sameRequest = (\<lambda>i. in_requestId row \<noteq> Some [] \<and> in_requestId i = in_requestId row \<and> in_walletId i = in_walletId row);
          known = (case find sameKey (db_intents db) of
                     Some i \<Rightarrow> Some i
                   | None \<Rightarrow> (case find sameRequest (db_intents db) of
                                Some i \<Rightarrow> Some i
                              | None \<Rightarrow> find (\<lambda>i. in_id i = in_id row) (db_intents db)))
      in bindR (ensure (in_idempotencyKey row \<noteq> Some []) ''idempotency/request ID must not be empty'') (\<lambda>_.
         (case known of
            Some i \<Rightarrow> if in_fingerprint i \<noteq> in_fingerprint row then Inl ''IDEMPOTENCY_CONFLICT'' else Inr db
          | None \<Rightarrow>
              bindR (ensure (\<not> list_ex (\<lambda>a. a < 0)
                         [in_valueWei row, sl_gasCeilingWei (cm_spendPolicy campaign),
                          amountOr0 (cf_totalWei (cm_feePolicy campaign)), cf_priorityWei (cm_feePolicy campaign)])
                       ''transaction intent amounts must be non-negative'') (\<lambda>_.
              (case find (\<lambda>w. wl_id w = in_walletId row) (db_wallets db) of
                 None \<Rightarrow> Inl ''wallet not found for transaction intent''
               | Some w \<Rightarrow>
                   (case chainProfileForCampaign (in_campaignId row) db of
                      None \<Rightarrow> Inl ''campaign not found for transaction intent''
                    | Some c \<Rightarrow>
                        bindR (ensure (in_chainProfileId row = Some (wl_chainProfileId w) \<and> in_chainProfileId row = Some (cp_id c))
                                 ''transaction intent chain does not match wallet and campaign'') (\<lambda>_.
                        bindR (ensure (map_option (snd \<circ> snd)
                                  (find (\<lambda>m. fst m = in_campaignId row \<and> fst (snd m) = in_walletId row) (db_campaignWallets db))
                                  = Some True)
                                 ''transaction intent requires enabled campaign wallet membership'') (\<lambda>_.
                        if ce_allows env db (InsertIntent row) then Inr (db\<lparr>db_intents := db_intents db @ [row]\<rparr>)
                        else Inl constraintError))))))))"

definition joinCampaign :: "string \<Rightarrow> string \<Rightarrow> Db \<Rightarrow> Db" where
  "joinCampaign campaignId walletId db =
     (if find (\<lambda>m. fst m = campaignId \<and> fst (snd m) = walletId) (db_campaignWallets db) \<noteq> None then db
      else db\<lparr>db_campaignWallets := db_campaignWallets db @ [(campaignId, walletId, True)]\<rparr>)"

fun persistIntentWallets :: "CanonicalEnv \<Rightarrow> IntentRecord \<Rightarrow> string \<Rightarrow> address list \<Rightarrow> Db \<Rightarrow> dbError + Db" where
  "persistIntentWallets env intent profileId [] db = Inr db"
| "persistIntentWallets env intent profileId (addr # wallets) db =
     (let campaign = ir_campaignSnapshot intent
      in bindR (ensureWallet env profileId addr campaign db) (\<lambda>(walletId, db).
         if find (\<lambda>i. in_id i = intentRowId env (ir_id intent) addr) (db_intents db) \<noteq> None
         then persistIntentWallets env intent profileId wallets db
         else bindR (ensureSpendPolicy env walletId campaign db) (\<lambda>db.
              bindR (bigIntOf (cm_quantity campaign)) (\<lambda>quantity.
              let row = intentOfWallet env intent profileId walletId addr quantity
              in bindR (saveIntent env campaign row (joinCampaign (cm_id campaign) walletId db)) (\<lambda>db.
                 bindR (recordAudit env ''transaction_intent'' (in_id row) ''prepared'' db)
                   (persistIntentWallets env intent profileId wallets))))))"

definition persistIntent :: "CanonicalEnv \<Rightarrow> IntentRecord \<Rightarrow> Db \<Rightarrow> dbError + Db" where
  "persistIntent env intent db =
     bindR (ensureCampaignGraph env (ir_campaignSnapshot intent) db) (\<lambda>(profileId, db).
       persistIntentWallets env intent profileId (ir_wallets intent) db)"

definition saveExecution :: "CanonicalEnv \<Rightarrow> ExecutionRow \<Rightarrow> Db \<Rightarrow> dbError + Db" where
  "saveExecution env row db =
     (case find (\<lambda>i. in_id i = ex_intentId row) (db_intents db) of
        None \<Rightarrow> Inl ''transaction intent not found for execution''
      | Some i \<Rightarrow>
          if in_campaignId i \<noteq> ex_campaignId row \<or> in_walletId i \<noteq> ex_walletId row
          then Inl ''execution does not match transaction intent''
          else if find (\<lambda>e. ex_campaignId e = ex_campaignId row \<and> ex_walletId e = ex_walletId row) (db_executions db) \<noteq> None
          then Inl ''CAMPAIGN_WALLET_ALREADY_USED''
          else if \<not> ce_allows env db (InsertExecution row) then Inl constraintError
          else Inr (db\<lparr>db_executions := db_executions db @ [row]\<rparr>))"

section \<open>Exposure and limits\<close>

definition PHASE1_ZERO_ADMISSION_BUFFERS :: "wei list" where
  "PHASE1_ZERO_ADMISSION_BUFFERS = [0, 0, 0, 0, 0]"

definition campaignFee :: "Campaign \<Rightarrow> wei" where
  "campaignFee campaign =
     (let fee = cm_feePolicy campaign
      in case cf_totalWei fee of
           Some n \<Rightarrow> n
         | None \<Rightarrow> cf_priorityWei fee + amountOr0 (cf_l2BudgetWei fee) + amountOr0 (cf_l1BudgetWei fee))"

definition exposure :: "Campaign \<Rightarrow> dbError + wei" where
  "exposure campaign =
     bindR (bigIntOf (cm_quantity campaign)) (\<lambda>quantity.
       Inr (cm_mintPriceWei campaign * quantity + campaignFee campaign + sum_list PHASE1_ZERO_ADMISSION_BUFFERS))"

definition fleetPolicyFor :: "CanonicalEnv \<Rightarrow> int \<Rightarrow> FleetSpendPolicy option" where
  "fleetPolicyFor env chainId = (if chainId = 8453 then Some BASE_PERSONAL_LIVE_FLEET_POLICY else ce_fleetPolicy env)"

definition fleetClass :: "Campaign \<Rightarrow> MintClass" where
  "fleetClass campaign = (if cm_mintPriceWei campaign = 0 then FreeMint else PaidMint)"

definition distinctLower :: "address list \<Rightarrow> nat" where
  "distinctLower ws = length (remdups (map toLowerCase ws))"

definition assertFleetRunLimits :: "CanonicalEnv \<Rightarrow> CanonicalAdmissionInput \<Rightarrow> dbError + unit" where
  "assertFleetRunLimits env input =
     (let campaign = ai_campaign input; price = cm_mintPriceWei campaign
      in case fleetPolicyFor env (cm_chainId campaign) of
           None \<Rightarrow> ensure (rr_mode (ai_run input) \<noteq> Live) ''FLEET_SPEND_POLICY_REQUIRED''
         | Some policy \<Rightarrow>
             bindR (ensure (isSafeInteger (cm_quantity campaign) \<and> \<not> js_lt (cm_quantity campaign) (jint 1) \<and> 0 \<le> price)
                      ''CAMPAIGN_AMOUNTS_INVALID'') (\<lambda>_.
             bindR (exposure campaign) (\<lambda>amount.
             let feeAllowance = amount - price * js_int (cm_quantity campaign)
             in if fleetClass campaign = PaidMint
                then bindR (ensure (\<not> fl_paidMaxPricePerNftWei policy < price) ''PAID_PRICE_PER_NFT_EXCEEDED'') (\<lambda>_.
                     bindR (ensure (\<not> js_lt (fl_paidMaxWalletsPerMint policy)
                                     (jint (int (distinctLower (ir_wallets (ai_intent input) @ ai_wallets input)))))
                              ''PAID_WALLET_LIMIT_EXCEEDED'') (\<lambda>_.
                     ensure (\<not> fl_paidFeeAllowanceWei policy < feeAllowance) ''FEE_ALLOWANCE_EXCEEDED''))
                else ensure (\<not> fl_freeFeeAllowanceWei policy < feeAllowance) ''FEE_ALLOWANCE_EXCEEDED'')))"

fun findWallets :: "CanonicalEnv \<Rightarrow> Campaign \<Rightarrow> address list \<Rightarrow> Db \<Rightarrow> dbError + string list \<times> Db" where
  "findWallets env campaign [] db = Inr ([], db)"
| "findWallets env campaign (w # ws) db =
     bindR (findWallet env campaign w db) (\<lambda>((walletId, _), db).
     bindR (findWallets env campaign ws db) (\<lambda>(ids, db). Inr (walletId # ids, db)))"

definition assertPaidWalletsPerMint :: "CanonicalEnv \<Rightarrow> CanonicalAdmissionInput \<Rightarrow> Db \<Rightarrow> dbError + Db" where
  "assertPaidWalletsPerMint env input db =
     (case fleetPolicyFor env (cm_chainId (ai_campaign input)) of
        None \<Rightarrow> Inr db
      | Some policy \<Rightarrow>
          (let holding = map rv_walletId (filter (\<lambda>r. rv_campaignId r = Some (cm_id (ai_campaign input)) \<and> openOrSettled r)
                                            (db_reservations db))
           in bindR (findWallets env (ai_campaign input) (ai_wallets input) db) (\<lambda>(ids, db).
              bindR (ensure (\<not> js_lt (fl_paidMaxWalletsPerMint policy) (jint (int (length (remdups (holding @ ids))))))
                       ''PAID_WALLET_LIMIT_EXCEEDED'') (\<lambda>_. Inr db))))"

text \<open>\<^verbatim>\<open>COALESCE(reserved_amount_wei, amount_wei)\<close>: a settled row counts with what it reserved.\<close>

definition coalesceWei :: "ReservationRow \<Rightarrow> wei" where
  "coalesceWei r = (case rv_reservedWei r of None \<Rightarrow> rv_amountWei r | Some n \<Rightarrow> n)"

definition coalescedExposure :: "(ReservationRow \<Rightarrow> bool) \<Rightarrow> Db \<Rightarrow> wei" where
  "coalescedExposure scope db = sum_list (map coalesceWei (filter scope (db_reservations db)))"

definition rowChain :: "Db \<Rightarrow> ReservationRow \<Rightarrow> int option" where
  "rowChain db r =
     Option.bind (rv_chainProfileId r) (\<lambda>p. map_option cp_chainId (find (\<lambda>c. cp_id c = p) (db_chainProfiles db)))"

definition ofClass :: "MintClass \<Rightarrow> ReservationRow \<Rightarrow> bool" where
  "ofClass mintClass r = (if mintClass = FreeMint then rv_mintValueWei r = 0 else 0 < rv_mintValueWei r)"

definition fleetDailyExposure :: "int \<Rightarrow> MintClass \<Rightarrow> int \<Rightarrow> Db \<Rightarrow> wei" where
  "fleetDailyExposure chainId mintClass cutoff db =
     coalescedExposure (\<lambda>r. rowChain db r = Some chainId \<and> inWindow cutoff r \<and> ofClass mintClass r) db"

definition fleetCap :: "int \<Rightarrow> MintClass \<Rightarrow> FleetSpendPolicy \<Rightarrow> wei" where
  "fleetCap chainId mintClass policy =
     (let freeCap = (if chainId = 4663 \<and> ROBINHOOD_FREE_ACTIVE_PERIOD_CAP_WEI < fl_freeDailyCapWei policy
                     then ROBINHOOD_FREE_ACTIVE_PERIOD_CAP_WEI else fl_freeDailyCapWei policy)
      in if mintClass = FreeMint then freeCap else fl_paidDailyCapWei policy)"

definition assertFleetDailyCap :: "CanonicalEnv \<Rightarrow> int \<Rightarrow> MintClass \<Rightarrow> int \<Rightarrow> wei \<Rightarrow> Db \<Rightarrow> dbError + unit" where
  "assertFleetDailyCap env chainId mintClass cutoff amount db =
     (case fleetPolicyFor env chainId of
        None \<Rightarrow> Inr ()
      | Some policy \<Rightarrow>
          ensure (\<not> fleetCap chainId mintClass policy < fleetDailyExposure chainId mintClass cutoff db + amount)
            ''FLEET_DAILY_CAP_EXCEEDED'')"

definition runExposure :: "string \<Rightarrow> Db \<Rightarrow> wei" where
  "runExposure runId db =
     coalescedExposure (\<lambda>r. openOrSettled r
       \<and> list_ex (\<lambda>e. rv_executionId r = Some (ex_id e) \<and> ex_runId e = Some runId) (db_executions db)) db"

definition assertCaps :: "string \<Rightarrow> Campaign \<Rightarrow> int \<Rightarrow> wei \<Rightarrow> wei \<Rightarrow> Db \<Rightarrow> dbError + unit" where
  "assertCaps walletId campaign cutoff amount priorRunExposure db =
     bindR (ensure (\<not> sl_maxRunWei (cm_spendPolicy campaign) < priorRunExposure + amount) ''SPEND_CAP_EXCEEDED'') (\<lambda>_.
     ensure (\<not> sl_dailyCapWei (cm_spendPolicy campaign)
                < coalescedExposure (\<lambda>r. rv_walletId r = walletId \<and> inWindow cutoff r) db + amount)
       ''DAILY_SPEND_CAP_EXCEEDED'')"

definition assertCanonicalFeePolicy :: "CanonicalEnv \<Rightarrow> Campaign \<Rightarrow> Db \<Rightarrow> dbError + unit" where
  "assertCanonicalFeePolicy env campaign db =
     (let fee = cm_feePolicy campaign; totalFee = amountOr0 (cf_totalWei fee)
      in case chainProfileForCampaign (cm_id campaign) db of
           None \<Rightarrow> Inl ''CANONICAL_CHAIN_PROFILE_REQUIRED''
         | Some profile \<Rightarrow>
             bindR (if cp_chainId profile = 4663 \<and> cf_kind fee = PaidKind
                    then assertRobinhoodLiveAllowed PaidKind (latestRobinhoodEnablement db) (ce_now env) else Inr ()) (\<lambda>_.
             bindR (if cp_chainId profile = 8453
                    then assertBaseLiveAllowed (cf_kind fee) (latestBaseEnablement db) (ce_now env) else Inr ()) (\<lambda>_.
             bindR (ensure (\<not> (cp_chainId profile = 1 \<and> cf_kind fee = PaidKind \<and> cm_broadcastMode campaign \<noteq> Some ''public''))
                      ''PAID_ETHEREUM_PUBLIC_MODE_REQUIRED'') (\<lambda>_.
             bindR (ensure (0 \<le> totalFee \<and> totalFee \<le> sl_gasCeilingWei (cm_spendPolicy campaign)) ''GAS_CEILING_EXCEEDED'') (\<lambda>_.
             (case activeFeePolicy (cp_id profile) db of
                None \<Rightarrow> Inl ''FEE_POLICY_REQUIRED''
              | Some policy \<Rightarrow>
                  bindR (ensure (\<not> (cf_kind fee = PaidKind \<and> \<not> fp_paidEnabled policy)) ''PAID_MINT_POLICY_REQUIRED'') (\<lambda>_.
                  bindR (ensure (\<not> (cf_kind fee = FreeKind \<and> fp_freeTotalFeeWei policy < totalFee)) ''FREE_TOTAL_SPEND_CAP_EXCEEDED'') (\<lambda>_.
                  bindR (ensure (totalFee \<le> fp_maxTotalFeeWei policy) ''FEE_POLICY_CAP_EXCEEDED'') (\<lambda>_.
                  ensure (\<not> (cf_priorityWei fee = 0 \<and> fp_zeroPolicy policy \<noteq> ZeroAllowed)) ''ZERO_PRIORITY_FEE_POLICY_REQUIRED'')))))))))"

text \<open>The newest verification by the text of its time; the later row wins a tie.\<close>

fun newestVerification :: "VerificationRow list \<Rightarrow> VerificationRow option" where
  "newestVerification [] = None"
| "newestVerification (v # vs) =
     (case newestVerification vs of
        None \<Rightarrow> Some v
      | Some u \<Rightarrow> if textLe (cv_checkedAt v) (cv_checkedAt u) then Some u else Some v)"

definition assertCanonicalChainProfile :: "CanonicalEnv \<Rightarrow> Campaign \<Rightarrow> Db \<Rightarrow> dbError + unit" where
  "assertCanonicalChainProfile env campaign db =
     (case profileByChain (cm_chainId campaign) db of
        None \<Rightarrow> Inl ''CANONICAL_CHAIN_PROFILE_REQUIRED''
      | Some profile \<Rightarrow>
          bindR (if cm_chainId campaign = 4663
                 then assertRobinhoodLiveAllowed FreeKind (latestRobinhoodEnablement db) (ce_now env) else Inr ()) (\<lambda>_.
          bindR (if cm_chainId campaign = 8453
                 then assertBaseLiveAllowed (cf_kind (cm_feePolicy campaign)) (latestBaseEnablement db) (ce_now env) else Inr ()) (\<lambda>_.
          bindR (ensure (cp_executionEnabled profile) ''CHAIN_EXECUTION_DISABLED'') (\<lambda>_.
          ensure (case newestVerification (filter (\<lambda>v. cv_chainProfileId v = cp_id profile) (db_verifications db)) of
                    None \<Rightarrow> False
                  | Some v \<Rightarrow> cv_status v = ''verified''
                      \<and> (case (cv_expiresAt v, ce_now env) of
                           (Some x, Some t) \<Rightarrow> t < x
                         | (Some x, None) \<Rightarrow> True
                         | _ \<Rightarrow> False))
            ''CHAIN_VERIFICATION_REQUIRED''))))"

section \<open>Admission\<close>

record Admission =
  ad_runId :: string
  ad_fingerprint :: hash
  ad_amountWei :: wei
  ad_cutoff :: int
  ad_created :: int
  ad_usageDate :: string

record AdmissionState =
  as_db :: Db
  as_runExposure :: wei
  as_reservations :: "Reservation list"
  as_executions :: "PreparedExecution list"

record CanonicalAdmissionResult =
  ca_reservations :: "Reservation list"
  ca_executions :: "PreparedExecution list"
  ca_headroomNotice :: bool

definition mapReservation :: "Db \<Rightarrow> string \<Rightarrow> int option \<Rightarrow> ReservationRow \<Rightarrow> Reservation" where
  "mapReservation db runId chainId row =
     \<lparr>rs_id = rv_id row, rs_runId = runId,
      rs_campaignId = (case rv_campaignId row of None \<Rightarrow> [] | Some c \<Rightarrow> c),
      rs_chainId = chainId, rs_wallet = walletAddress (rv_walletId row) db, rs_amountWei = coalesceWei row,
      rs_actualWei = rv_settledWei row, rs_accountingDate = rv_usageDate row,
      rs_status = (case rv_status row of Reserved \<Rightarrow> BReserved | Settled \<Rightarrow> BSettled | _ \<Rightarrow> BReleased)\<rparr>"

definition canonicalRow ::
  "CanonicalEnv \<Rightarrow> CanonicalAdmissionInput \<Rightarrow> Admission \<Rightarrow> address \<Rightarrow> string \<Rightarrow> string \<Rightarrow> FeePolicyRow \<Rightarrow> int \<Rightarrow> ReservationRow" where
  "canonicalRow env input a wallet walletId profileId fee quantity =
     (let campaign = ai_campaign input; fees = cm_feePolicy campaign; mintValue = cm_mintPriceWei campaign * quantity
      in \<lparr>rv_id = reservationIdFor env (ad_runId a) wallet, rv_walletId = walletId,
          rv_executionId = Some (executionIdFor env (ad_runId a) wallet),
          rv_idempotencyKey = walletKey (ad_runId a) wallet, rv_requestId = Some (ad_runId a),
          rv_fingerprint = Some (ad_fingerprint a), rv_policyId = policyId env (cm_id campaign) wallet,
          rv_amountWei = ad_amountWei a, rv_reservedWei = Some (ad_amountWei a), rv_usageDate = ad_usageDate a,
          rv_status = Reserved, rv_createdAt = Some (ad_created a), rv_settledAt = None,
          rv_chainProfileId = Some profileId, rv_campaignId = Some (cm_id campaign),
          rv_mintValueWei = mintValue, rv_l2GasWei = amountOr0 (cf_l2BudgetWei fees),
          rv_l1GasWei = amountOr0 (cf_l1BudgetWei fees), rv_priorityWei = cf_priorityWei fees,
          rv_replacementWei = 0, rv_mintBufferWei = 0, rv_l2BufferWei = 0, rv_l1BufferWei = 0, rv_priorityBufferWei = 0,
          rv_mintPeriodId = ''campaign:'' @ cm_id campaign,
          rv_intentId = Some (intentRowId env (ir_id (ai_intent input)) wallet),
          rv_mintClass = (if mintValue = 0 then FreeMint else PaidMint),
          rv_feePolicy = Some (fp_id fee, fp_version fee), rv_settledWei = None, rv_settledParts = None\<rparr>)"

text \<open>The execution of a wallet is stored before anything is reserved for it.\<close>

definition ensureExecution ::
  "CanonicalEnv \<Rightarrow> CanonicalAdmissionInput \<Rightarrow> Admission \<Rightarrow> address \<Rightarrow> string \<Rightarrow> Db \<Rightarrow> dbError + Db" where
  "ensureExecution env input a wallet walletId db =
     (let key = executionIdFor env (ad_runId a) wallet
      in if find (\<lambda>e. ex_id e = key) (db_executions db) \<noteq> None then Inr db
         else bindR (saveExecution env
                       \<lparr>ex_id = key, ex_walletId = walletId, ex_campaignId = cm_id (ai_campaign input),
                        ex_intentId = intentRowId env (ir_id (ai_intent input)) wallet, ex_reservationId = None,
                        ex_state = ''prepared'', ex_runId = Some (ad_runId a)\<rparr> db)
                (recordAudit env ''execution'' key ''prepared''))"

definition reserveWallet ::
  "CanonicalEnv \<Rightarrow> CanonicalAdmissionInput \<Rightarrow> Admission \<Rightarrow> address \<Rightarrow> string \<Rightarrow> string \<Rightarrow> wei \<Rightarrow> Db \<Rightarrow> dbError + Db" where
  "reserveWallet env input a wallet walletId profileId priorRunExposure db =
     (let campaign = ai_campaign input
      in bindR (assertCanonicalFeePolicy env campaign db) (\<lambda>_.
         bindR (assertCaps walletId campaign (ad_cutoff a) (ad_amountWei a) priorRunExposure db) (\<lambda>_.
         bindR (assertFleetDailyCap env (cm_chainId campaign) (fleetClass campaign) (ad_cutoff a) (ad_amountWei a) db) (\<lambda>_.
         bindR (bigIntOf (cm_quantity campaign)) (\<lambda>quantity.
         bindR (ensure ((''campaign:'' @ cm_id campaign, cm_id campaign) \<in> set (db_campaignPeriods db)) ''CAMPAIGN_PERIOD_REQUIRED'') (\<lambda>_.
         (case activeFeePolicy profileId db of
            None \<Rightarrow> Inl ''FEE_POLICY_REQUIRED''
          | Some fee \<Rightarrow>
              insertReservation (ce_allows env) (canonicalRow env input a wallet walletId profileId fee quantity) db)))))))"

definition linkExecution :: "CanonicalEnv \<Rightarrow> string \<Rightarrow> string \<Rightarrow> Db \<Rightarrow> dbError + Db" where
  "linkExecution env executionId reservationId db =
     (case find (\<lambda>e. ex_id e = executionId) (db_executions db) of
        None \<Rightarrow> Inl ''EXECUTION_REQUIRED''
      | Some e \<Rightarrow>
          (case ex_reservationId e of
             Some r \<Rightarrow> if r \<noteq> reservationId then Inl ''EXECUTION_RESERVATION_IDENTITY_MISMATCH'' else Inr db
           | None \<Rightarrow>
               if ce_allows env db (UpdateExecution e (e\<lparr>ex_reservationId := Some reservationId\<rparr>))
               then Inr (db\<lparr>db_executions :=
                      map (\<lambda>x. if ex_id x = executionId then x\<lparr>ex_reservationId := Some reservationId\<rparr> else x) (db_executions db)\<rparr>)
               else Inl constraintError))"

definition admitWallet ::
  "CanonicalEnv \<Rightarrow> CanonicalAdmissionInput \<Rightarrow> Admission \<Rightarrow> address \<Rightarrow> AdmissionState \<Rightarrow> dbError + AdmissionState" where
  "admitWallet env input a wallet s =
     (let reservationId = reservationIdFor env (ad_runId a) wallet;
          executionId = executionIdFor env (ad_runId a) wallet
      in bindR (findWallet env (ai_campaign input) wallet (as_db s)) (\<lambda>((walletId, profileId), db).
         let existing = find (\<lambda>r. rv_id r = reservationId) (db_reservations db)
         in bindR (ensure (case existing of None \<Rightarrow> True | Some r \<Rightarrow> rv_status r \<notin> {Released, Expired})
                     ''RESERVATION_IDEMPOTENCY_REPLAY'') (\<lambda>_.
            bindR (ensure (case existing of None \<Rightarrow> True
                           | Some r \<Rightarrow> rv_fingerprint r = None \<or> rv_fingerprint r = Some (ad_fingerprint a))
                     ''IDEMPOTENCY_KEY_CONFLICT'') (\<lambda>_.
            bindR (ensureExecution env input a wallet walletId db) (\<lambda>db.
            bindR (if existing = None then reserveWallet env input a wallet walletId profileId (as_runExposure s) db
                   else Inr db) (\<lambda>db.
            bindR (linkExecution env executionId reservationId db) (\<lambda>db.
            (case find (\<lambda>r. rv_id r = reservationId) (db_reservations db) of
               None \<Rightarrow> Inl ''TypeError''
             | Some row \<Rightarrow>
                 Inr \<lparr>as_db = db,
                      as_runExposure = as_runExposure s + (if existing = None then ad_amountWei a else 0),
                      as_reservations = as_reservations s
                        @ [mapReservation db (ad_runId a) (Some (cm_chainId (ai_campaign input))) row],
                      as_executions = as_executions s
                        @ [\<lparr>pe_wallet = wallet, pe_intentId = intentRowId env (ir_id (ai_intent input)) wallet,
                            pe_executionId = executionId\<rparr>]\<rparr>))))))))"

fun admitWallets ::
  "CanonicalEnv \<Rightarrow> CanonicalAdmissionInput \<Rightarrow> Admission \<Rightarrow> address list \<Rightarrow> AdmissionState \<Rightarrow> dbError + AdmissionState" where
  "admitWallets env input a [] s = Inr s"
| "admitWallets env input a (w # ws) s = bindR (admitWallet env input a w s) (admitWallets env input a ws)"

text \<open>Before the first finalized Base mint, one wallet may mint one piece and nothing may be open.\<close>

definition baseCompleted :: "Db \<Rightarrow> bool" where
  "baseCompleted db =
     list_ex (\<lambda>r. rc_status r = ''confirmed'' \<and> rc_finalityStage r = ''ethereum_final''
       \<and> list_ex (\<lambda>e. rc_executionId r = Some (ex_id e)
            \<and> map_option cp_chainId (chainProfileForCampaign (ex_campaignId e) db) = Some 8453
            \<and> list_ex (\<lambda>s. rv_executionId s = Some (ex_id e) \<and> rv_status s = Settled) (db_reservations db))
          (db_executions db)) (db_receipts db)"

definition baseOutstanding :: "Db \<Rightarrow> bool" where
  "baseOutstanding db =
     list_ex (\<lambda>s. rowChain db s = Some 8453
       \<and> (rv_status s = Reserved
          \<or> (rv_status s = Settled
             \<and> \<not> list_ex (\<lambda>r. rc_executionId r \<noteq> None \<and> rc_executionId r = rv_executionId s
                   \<and> rc_finalityStage r = ''ethereum_final'' \<and> rc_status r \<in> {''confirmed'', ''reverted''}) (db_receipts db))))
       (db_reservations db)"

definition updateRunState :: "CanonicalEnv \<Rightarrow> string \<Rightarrow> string \<Rightarrow> RunRecord \<Rightarrow> Db \<Rightarrow> dbError + Db" where
  "updateRunState env runId state run db =
     (if list_ex (\<lambda>r. ru_id r = runId \<and> \<not> ce_allows env db (UpdateRun r (r\<lparr>ru_state := state\<rparr>))) (db_runs db)
      then Inl constraintError
      else let db = db\<lparr>db_runs := map (\<lambda>r. if ru_id r = runId then r\<lparr>ru_state := state\<rparr> else r) (db_runs db)\<rparr>
           in if rr_state run \<noteq> backendRunState state then recordAudit env ''execution_run'' runId state db else Inr db)"

definition admissionBody ::
  "CanonicalEnv \<Rightarrow> CanonicalAdmissionInput \<Rightarrow> hash \<Rightarrow> Db \<Rightarrow> dbError + CanonicalAdmissionResult \<times> Db" where
  "admissionBody env input fingerprint db =
     (let campaign = ai_campaign input; run = ai_run input
      in bindR (ensure (\<not> isKillSwitchEngaged db) ''KILLED'') (\<lambda>_.
         bindR (assertCanonicalChainProfile env campaign db) (\<lambda>_.
         bindR (toISOString (ce_now env)) (\<lambda>created.
         bindR (rollingSpendCutoff (ce_now env)) (\<lambda>cutoff.
         bindR (if rr_mode run = Live
                then bindR (assertAndAdvanceAdmissionClock (ce_now env) db) (\<lambda>db.
                     bindR (assertNoStalePendingReservations db (ce_now env)) (\<lambda>_. Inr db))
                else Inr db) (\<lambda>db.
         bindR (if cm_chainId campaign = 8453 \<and> rr_mode run = Live
                then assertBaseFirstRehearsal (baseCompleted db) (\<not> baseCompleted db \<and> baseOutstanding db)
                       (length (ai_wallets input)) (cm_quantity campaign)
                else Inr ()) (\<lambda>_.
         bindR (if fleetClass campaign = PaidMint then assertPaidWalletsPerMint env input db else Inr db) (\<lambda>db.
         bindR (persistIntent env (ai_intent input) db) (\<lambda>db.
         bindR (exposure campaign) (\<lambda>amount.
         bindR (ensure (0 < amount) ''RESERVATION_EXPOSURE_MUST_BE_POSITIVE'') (\<lambda>_.
         bindR (admitWallets env input
                  \<lparr>ad_runId = rr_id run, ad_fingerprint = fingerprint, ad_amountWei = amount, ad_cutoff = cutoff,
                   ad_created = created, ad_usageDate = take 10 (ce_nowText env)\<rparr> (ai_wallets input)
                  \<lparr>as_db = db, as_runExposure = runExposure (rr_id run) db, as_reservations = [], as_executions = []\<rparr>) (\<lambda>s.
         bindR (updateRunState env (rr_id run) ''active'' run (as_db s)) (\<lambda>db.
         bindR (recordAudit env ''execution_run'' (rr_id run) ''active'' db) (\<lambda>db.
         Inr (\<lparr>ca_reservations = as_reservations s, ca_executions = as_executions s,
               ca_headroomNotice =
                 (case fleetPolicyFor env (cm_chainId campaign) of
                    None \<Rightarrow> False
                  | Some policy \<Rightarrow> fleetClass campaign = PaidMint
                      \<and> fl_paidHeadroomAlertWei policy < fleetDailyExposure (cm_chainId campaign) PaidMint cutoff db)\<rparr>, db)
         ))))))))))))))"

definition admitExecution :: "CanonicalEnv \<Rightarrow> CanonicalAdmissionInput \<Rightarrow> (Db, dbError, CanonicalAdmissionResult) eff" where
  "admitExecution env input db =
     (let campaign = ai_campaign input; run = ai_run input; intent = ai_intent input; wallets = ai_wallets input;
          fingerprint = runFingerprint env (rr_id run) db
      in bindS (ensureS (wallets \<noteq> []) ''EMPTY_RESERVATION_BATCH'') (\<lambda>_.
         bindS (ensureS (distinctLower wallets = length wallets) ''DUPLICATE_WALLET'') (\<lambda>_.
         bindS (ensureS (rr_state run = CArmed) ''RUN_NOT_ARMED'') (\<lambda>_.
         bindS (ensureS (ir_runId intent = rr_id run) ''INTENT_RUN_MISMATCH'') (\<lambda>_.
         bindS (ensureS (ir_campaignId intent = cm_id campaign \<and> rr_campaignId run = cm_id campaign) ''INTENT_CAMPAIGN_MISMATCH'') (\<lambda>_.
         bindS (ensureS (list_all (\<lambda>w. toLowerCase w \<in> toLowerCase ` set (ir_wallets intent)) wallets) ''INTENT_WALLET_MISMATCH'') (\<lambda>_.
         bindS (liftS (if cm_chainId campaign = 4663 \<and> cf_kind (cm_feePolicy campaign) = PaidKind
                       then assertRobinhoodLiveAllowed PaidKind (latestRobinhoodEnablement db) (ce_now env) else Inr ())) (\<lambda>_.
         bindS (liftS (if cm_chainId campaign = 8453
                       then assertBaseLiveAllowed (cf_kind (cm_feePolicy campaign)) (latestBaseEnablement db) (ce_now env) else Inr ())) (\<lambda>_.
         bindS (ensureS (rr_requestDigest run = fingerprint) ''IDEMPOTENCY_KEY_CONFLICT'') (\<lambda>_.
         bindS (liftS (assertFleetRunLimits env input)) (\<lambda>_.
         immediate (admissionBody env input fingerprint))))))))))) db)"

section \<open>Settling and closing\<close>

definition settleCanonical ::
  "CanonicalEnv \<Rightarrow> string \<Rightarrow> SettlementComponents \<Rightarrow> (Db, dbError, unit) eff" where
  "settleCanonical env key components =
     immediate (\<lambda>db.
       (case find (\<lambda>r. rv_id r = key) (db_reservations db) of
          None \<Rightarrow> Inl ''RESERVATION_NOT_FOUND''
        | Some row \<Rightarrow>
            if rv_status row = Settled then Inr ((), db)
            else if rv_status row \<noteq> Reserved then Inl ''INVALID_RESERVATION_TRANSITION''
            else settleExecutionComponentsInTransaction (ce_allows env) key components (ce_now env) db))"

definition transitionExecution :: "CanonicalEnv \<Rightarrow> string \<Rightarrow> string \<Rightarrow> Db \<Rightarrow> dbError + Db" where
  "transitionExecution env executionId state db =
     (case find (\<lambda>e. ex_id e = executionId) (db_executions db) of
        None \<Rightarrow> Inr db
      | Some e \<Rightarrow>
          if ex_state e = state then Inr db
          else if \<not> ce_allows env db (UpdateExecution e (e\<lparr>ex_state := state\<rparr>)) then Inl constraintError
          else recordAudit env ''execution'' executionId state
                 (db\<lparr>db_executions := map (\<lambda>x. if ex_id x = executionId then x\<lparr>ex_state := state\<rparr> else x) (db_executions db)\<rparr>))"

text \<open>\<^verbatim>\<open>UPDATE spend_reservation SET status = 'released' WHERE execution_id = ? AND status = 'reserved'\<close>.\<close>

definition releaseExecution :: "CanonicalEnv \<Rightarrow> string \<Rightarrow> Db \<Rightarrow> dbError + Db" where
  "releaseExecution env executionId db =
     (let hit = (\<lambda>r. rv_executionId r = Some executionId \<and> rv_status r = Reserved)
      in if list_ex (\<lambda>r. hit r \<and> \<not> ce_allows env db (UpdateReservation r (r\<lparr>rv_status := Released\<rparr>))) (db_reservations db)
         then Inl constraintError
         else Inr (db\<lparr>db_reservations := map (\<lambda>r. if hit r then r\<lparr>rv_status := Released\<rparr> else r) (db_reservations db)\<rparr>))"

definition abortExecution :: "CanonicalEnv \<Rightarrow> string \<Rightarrow> string \<Rightarrow> Db \<Rightarrow> dbError + Db" where
  "abortExecution env executionId state db =
     bindR (if state \<noteq> ''aborted'' then transitionExecution env executionId ''aborted'' db else Inr db)
       (releaseExecution env executionId)"

fun abortExecutions :: "CanonicalEnv \<Rightarrow> ExecutionRow list \<Rightarrow> Db \<Rightarrow> dbError + Db" where
  "abortExecutions env [] db = Inr db"
| "abortExecutions env (e # es) db = bindR (abortExecution env (ex_id e) (ex_state e) db) (abortExecutions env es)"

definition submitted :: "Db \<Rightarrow> ExecutionRow \<Rightarrow> bool" where
  "submitted db e = list_ex (\<lambda>a. at_executionId a = Some (ex_id e) \<and> at_txHash a \<noteq> None) (db_attempts db)"

definition openState :: "string \<Rightarrow> bool" where
  "openState s \<longleftrightarrow> s \<in> {''prepared'', ''signed'', ''submitted'', ''pending'', ''executing'', ''active''}"

definition abortRuns :: "CanonicalEnv \<Rightarrow> (RunRow \<Rightarrow> bool) \<Rightarrow> Db \<Rightarrow> dbError + Db" where
  "abortRuns env chosen db =
     (if list_ex (\<lambda>r. chosen r \<and> \<not> ce_allows env db (UpdateRun r (r\<lparr>ru_state := ''aborted''\<rparr>))) (db_runs db)
      then Inl constraintError
      else Inr (db\<lparr>db_runs := map (\<lambda>r. if chosen r then r\<lparr>ru_state := ''aborted''\<rparr> else r) (db_runs db)\<rparr>))"

definition openRun :: "RunRow \<Rightarrow> bool" where
  "openRun r \<longleftrightarrow> ru_state r \<in> {''prepared'', ''active'', ''recovering''}"

definition abortRemaining :: "CanonicalEnv \<Rightarrow> (Db, dbError, unit) eff" where
  "abortRemaining env =
     immediate (\<lambda>db.
       bindR (abortExecutions env (filter (\<lambda>e. openState (ex_state e) \<and> \<not> submitted db e) (db_executions db)) db) (\<lambda>db.
       bindR (abortRuns env openRun db) (\<lambda>db.
       bindR (recordAudit env ''state_transition'' ''global'' ''aborted'' db) (\<lambda>db. Inr ((), db)))))"

datatype CloseOutcome = Closed | Left | Absent

definition attempted :: "Db \<Rightarrow> ExecutionRow \<Rightarrow> bool" where
  "attempted db e =
     list_ex (\<lambda>a. at_executionId a = Some (ex_id e) \<or> at_intentId a = ex_intentId e) (db_attempts db)"

definition abortRunIfUnsent :: "CanonicalEnv \<Rightarrow> string \<Rightarrow> (Db, dbError, CloseOutcome) eff" where
  "abortRunIfUnsent env runId =
     immediate (\<lambda>db.
       (case find (\<lambda>r. ru_id r = runId) (db_runs db) of
          None \<Rightarrow> Inr (Absent, db)
        | Some run \<Rightarrow>
            if \<not> openRun run then Inr (Absent, db)
            else let rows = filter (\<lambda>e. ex_runId e = Some runId) (db_executions db)
                 in if list_ex (\<lambda>e. attempted db e \<or> ex_state e \<notin> {''prepared'', ''aborted''}) rows then Inr (Left, db)
                    else bindR (abortExecutions env rows db) (\<lambda>db.
                         bindR (abortRuns env (\<lambda>r. ru_id r = runId) db) (\<lambda>db.
                         bindR (recordAudit env ''execution_run'' runId ''aborted'' db) (\<lambda>db. Inr (Closed, db))))))"

section \<open>Results of the engine\<close>

text \<open>
  A result is rebound to the executions that were admitted for its wallets: by wallet for the
  attempts, and through the attempts for the receipts and the execution ids (the last attempt with
  an execution id decides).
\<close>

definition executionOf :: "PreparedExecution list \<Rightarrow> address \<Rightarrow> string option" where
  "executionOf prepared wallet =
     map_of (rev (map (\<lambda>p. (toLowerCase (pe_wallet p), pe_executionId p)) prepared)) (toLowerCase wallet)"

definition oldToNew :: "PreparedExecution list \<Rightarrow> AttemptRecord list \<Rightarrow> string \<Rightarrow> string option" where
  "oldToNew prepared attempts =
     map_of (rev (map (\<lambda>a. (ar_executionId a, case executionOf prepared (ar_wallet a) of None \<Rightarrow> [] | Some e \<Rightarrow> e)) attempts))"

definition rebindExecutionResult :: "ExecutionResult \<Rightarrow> PreparedExecution list \<Rightarrow> dbError + ExecutionResult" where
  "rebindExecutionResult result prepared =
     (if prepared = [] then Inr result
      else bindR (mapR (\<lambda>a. case executionOf prepared (ar_wallet a) of
                              None \<Rightarrow> Inl ''UNADMITTED_EXECUTION_WALLET''
                            | Some [] \<Rightarrow> Inl ''UNADMITTED_EXECUTION_WALLET''
                            | Some e \<Rightarrow> Inr (a\<lparr>ar_executionId := e\<rparr>)) (xr_attempts result)) (\<lambda>attempts.
           bindR (mapR (\<lambda>r. case oldToNew prepared (xr_attempts result) (bc_executionId r) of
                              None \<Rightarrow> Inl ''UNADMITTED_RECEIPT_EXECUTION''
                            | Some [] \<Rightarrow> Inl ''UNADMITTED_RECEIPT_EXECUTION''
                            | Some e \<Rightarrow> Inr (r\<lparr>bc_executionId := e\<rparr>)) (xr_receipts result)) (\<lambda>receipts.
           let ids = map (\<lambda>i. case oldToNew prepared (xr_attempts result) i of None \<Rightarrow> i | Some e \<Rightarrow> e) (xr_executionIds result)
           in bindR (ensure (list_all (\<lambda>i. list_ex (\<lambda>p. pe_executionId p = i) prepared) ids) ''UNADMITTED_EXECUTION_ID'') (\<lambda>_.
              Inr (result\<lparr>xr_executionIds := ids, xr_attempts := attempts, xr_receipts := receipts\<rparr>)))))"

end
