(* ===== verification/CappedStore.thy ===== *)
theory CappedStore
  imports Prelude
begin

text \<open>
  The contract of a store that admits spending under a cap over a rolling window, as a locale. The
  exposure is measured from a cutoff on: what is pending counts, what is settled counts until it
  leaves the window. An admission checks the exposure it leaves behind against the cap at a
  cutoff that is not later than the one of its admission clock; every other step only lowers the
  exposure and never turns the clock back. Then no sequence of steps exceeds the cap.

  The interpretations are in the theories of the stores: \<open>SpendSafety\<close> (a wallet's daily cap in the
  database package), \<open>FleetAdmission\<close> (the caps of the fleet) and \<open>SpendLedger\<close> (the run cap of the
  backend).
\<close>

locale capped_store =
  fixes exposure :: "int \<Rightarrow> 's \<Rightarrow> wei"
    and cutoff :: "'s \<Rightarrow> int option"
    and ok :: "'s \<Rightarrow> bool"
    and admits :: "'s \<Rightarrow> 's \<Rightarrow> bool"
    and lowers :: "'s \<Rightarrow> 's \<Rightarrow> bool"
    and cap :: wei
  assumes admits_ok: "ok s \<Longrightarrow> admits s s' \<Longrightarrow> ok s'"
    and admits_capped: "ok s \<Longrightarrow> admits s s' \<Longrightarrow> \<exists>c d. cutoff s' = Some d \<and> c \<le> d \<and> exposure c s' \<le> cap"
    and lowers_ok: "ok s \<Longrightarrow> lowers s s' \<Longrightarrow> ok s'"
    and lowers_exposure: "ok s \<Longrightarrow> lowers s s' \<Longrightarrow> exposure c s' \<le> exposure c s"
    and lowers_cutoff: "ok s \<Longrightarrow> lowers s s' \<Longrightarrow> cutoff s = Some d \<Longrightarrow> \<exists>d'. cutoff s' = Some d' \<and> d \<le> d'"
    and exposure_antimono: "ok s \<Longrightarrow> c \<le> d \<Longrightarrow> exposure d s \<le> exposure c s"
begin

definition capKept :: "'s \<Rightarrow> bool" where
  "capKept s \<longleftrightarrow> ok s \<and> (case cutoff s of None \<Rightarrow> \<forall>c. exposure c s \<le> cap | Some d \<Rightarrow> exposure d s \<le> cap)"

inductive steps :: "'s \<Rightarrow> 's \<Rightarrow> bool" where
  steps_refl: "steps s s"
| steps_admit: "steps s t \<Longrightarrow> admits t u \<Longrightarrow> steps s u"
| steps_lower: "steps s t \<Longrightarrow> lowers t u \<Longrightarrow> steps s u"

lemma capKept_admit: "ok s \<Longrightarrow> admits s s' \<Longrightarrow> capKept s'"
proof -
  assume ok: "ok s" and step: "admits s s'"
  from admits_capped [OF this] obtain c d where d: "cutoff s' = Some d" and "c \<le> d" and "exposure c s' \<le> cap"
    by blast
  moreover have "ok s'" using ok step by (rule admits_ok)
  ultimately show ?thesis using exposure_antimono [of s' c d] by (auto simp: capKept_def)
qed

lemma capKept_lower: "capKept s \<Longrightarrow> lowers s s' \<Longrightarrow> capKept s'"
proof -
  assume w: "capKept s" and step: "lowers s s'"
  then have ok: "ok s" by (simp add: capKept_def)
  have less: "exposure c s' \<le> exposure c s" for c using ok step by (rule lowers_exposure)
  show ?thesis
  proof (cases "cutoff s")
    case None
    with w have all: "exposure c s \<le> cap" for c by (simp add: capKept_def)
    have "exposure c s' \<le> cap" for c by (rule order_trans [OF less all])
    with lowers_ok [OF ok step] show ?thesis by (auto simp: capKept_def split: option.splits)
  next
    case (Some d)
    then obtain d' where d': "cutoff s' = Some d'" "d \<le> d'" using lowers_cutoff [OF ok step] by blast
    have "exposure d' s' \<le> exposure d s'" using exposure_antimono lowers_ok [OF ok step] d'(2) by blast
    also have "\<dots> \<le> exposure d s" by (rule less)
    also have "\<dots> \<le> cap" using w Some by (simp add: capKept_def)
    finally show ?thesis using lowers_ok [OF ok step] d' by (simp add: capKept_def)
  qed
qed

lemma capKept_steps: "steps s t \<Longrightarrow> capKept s \<Longrightarrow> capKept t"
proof (induction rule: steps.induct)
  case (steps_admit s t u)
  then have "ok t" by (simp add: capKept_def)
  with steps_admit.hyps(2) show ?case by (rule capKept_admit [rotated])
qed (auto intro: capKept_lower)

end

end
