(* ===== verification/SpendSafety.thy ===== *)
theory SpendSafety
  imports SpendReservations CappedStore
begin

text \<open>
  What the reservation operations guarantee. \<open>opStep\<close> is one call of an operation that commits,
  \<open>dbOk\<close> the invariant of the reservation and ledger tables: keys are unique, amounts positive, a
  pending row holds the amount it reserved, a settled one the sum of its parts, and the ledger
  entries of a reservation add up to what it held once it is settled.
\<close>

section \<open>Steps\<close>

inductive opStep :: "JsonEnv \<Rightarrow> schema \<Rightarrow> Db \<Rightarrow> Db \<Rightarrow> bool" for env allows where
  step_reserve: "reserve env allows now q db = (Inr s, db') \<Longrightarrow> opStep env allows db db'"
| step_reserveExecution: "reserveExecution env allows now e db = (Inr s, db') \<Longrightarrow> opStep env allows db db'"
| step_transition: "st \<noteq> Reserved \<Longrightarrow> transition allows key st moment db = (Inr u, db') \<Longrightarrow> opStep env allows db db'"
| step_settle: "settleExecutionComponents allows key comps moment db = (Inr u, db') \<Longrightarrow> opStep env allows db db'"
| step_kill: "setKillSwitch engaged who moment db = (Inr u, db') \<Longrightarrow> opStep env allows db db'"

text \<open>The positional form of the settlement is a settlement of components.\<close>

lemma settleExecution_step:
  "settleExecution allows now key m l2 l1 first second r db = (Inr u, db') \<Longrightarrow> opStep env allows db db'"
  by (auto simp: settleExecution_def Let_def bindR_eq_Inr settleExecutionComponents_def intro!: step_settle)

text \<open>What a reservation held when it was made, and what the ledger says about it.\<close>

definition heldWei :: "ReservationRow \<Rightarrow> wei" where
  "heldWei r = amountOr0 (rv_reservedWei r)"

definition ledgerTotal :: "string \<Rightarrow> Db \<Rightarrow> wei" where
  "ledgerTotal key db = sum_list (map le_amountWei (filter (\<lambda>e. le_reservationId e = key) (db_ledger db)))"

definition rowOk :: "Db \<Rightarrow> ReservationRow \<Rightarrow> bool" where
  "rowOk db r \<longleftrightarrow>
     0 < rv_amountWei r
     \<and> rv_amountWei r \<le> heldWei r
     \<and> (rv_status r = Reserved \<longrightarrow> rv_amountWei r = heldWei r)
     \<and> (rv_status r = Settled \<longrightarrow> rv_settledWei r = Some (rv_amountWei r))
     \<and> (case rv_settledParts r of None \<Rightarrow> True | Some ps \<Rightarrow> rv_status r = Settled \<and> sum_list ps = rv_amountWei r)
     \<and> ledgerTotal (rv_id r) db = (if rv_status r = Settled then heldWei r else 0)"

fun keysUnique :: "ReservationRow list \<Rightarrow> bool" where
  "keysUnique [] = True"
| "keysUnique (r # rs) = (\<not> list_ex (sharesKey r) rs \<and> keysUnique rs)"

definition dbOk :: "Db \<Rightarrow> bool" where
  "dbOk db \<longleftrightarrow>
     keysUnique (db_reservations db)
     \<and> list_all (rowOk db) (db_reservations db)
     \<and> list_all (\<lambda>e. le_reservationId e \<in> rv_id ` set (db_reservations db)) (db_ledger db)"

section \<open>What an operation does when it commits\<close>

text \<open>An admission appends one pending row, within the cap at the cutoff of its own time.\<close>

definition admittedRow :: "wei \<Rightarrow> Db \<Rightarrow> ReservationRow \<Rightarrow> Db \<Rightarrow> bool" where
  "admittedRow cap db row db' \<longleftrightarrow>
     db_reservations db' = db_reservations db @ [row]
     \<and> db_ledger db' = db_ledger db \<and> db_spendPolicies db' = db_spendPolicies db
     \<and> \<not> list_ex (sharesKey row) (db_reservations db)
     \<and> 0 < rv_amountWei row \<and> rv_reservedWei row = Some (rv_amountWei row)
     \<and> rv_status row = Reserved \<and> rv_settledParts row = None
     \<and> (\<exists>t w. db_watermark db' = Some (Some w) \<and> t \<le> w
          \<and> (\<forall>p. db_watermark db = Some (Some p) \<longrightarrow> p \<le> w)
          \<and> walletExposure (rv_walletId row) (t - ROLLING_SPEND_WINDOW_MS) db + rv_amountWei row \<le> cap)"

lemma walletExposure_watermark [simp]: "walletExposure w c (db\<lparr>db_watermark := x\<rparr>) = walletExposure w c db"
  by (simp add: walletExposure_def exposureOf_def)

lemma reserveFresh_admits:
  assumes "reserveFresh allows q moment cap fp day db = Inr (s, db')" and "0 < rq_amountWei q"
  shows "\<exists>row. s = Reserved \<and> rv_walletId row = rq_walletId q \<and> rv_id row = rq_id q
           \<and> rv_amountWei row = rq_amountWei q \<and> admittedRow cap db row db'"
proof -
  from assms(1) obtain db1 created cutoff where
    clock: "assertAndAdvanceAdmissionClock moment db = Inr db1" and
    cutoff: "rollingSpendCutoff moment = Inr cutoff" and
    cap: "walletExposure (rq_walletId q) cutoff db1 + rq_amountWei q \<le> cap" and
    ins: "insertReservation allows (legacyRow q fp day created) db1 = Inr db'" and s: "s = Reserved"
    by (auto simp: reserveFresh_def bindR_eq_Inr not_less simp del: toISOString_Inr)
  from clock obtain t w where tw: "moment = Some t" "db1 = db\<lparr>db_watermark := Some (Some w)\<rparr>" "t \<le> w"
    "\<And>p. db_watermark db = Some (Some p) \<Longrightarrow> p \<le> w"
    by (rule clock_advances) blast
  with cutoff have "cutoff = t - ROLLING_SPEND_WINDOW_MS" by (simp add: rollingSpendCutoff_Inr)
  with tw cap ins s assms(2) show ?thesis
    by (intro exI [of _ "legacyRow q fp day created"])
       (auto simp: admittedRow_def insertReservation_Inr legacyRow_def)
qed

lemma linkReservation_Inr:
  "linkReservation allows k e db = Inr db' \<Longrightarrow>
     \<exists>es. db' = db\<lparr>db_executions := es\<rparr>"
  by (auto simp: linkReservation_def Let_def split: if_splits)

lemma reserveExecutionFresh_admits:
  assumes "reserveExecutionFresh env allows q moment policy fee fp day db = Inr (s, db')"
    and "0 < requestExposure q"
  shows "\<exists>row. s = Reserved \<and> rv_walletId row = er_walletId q \<and> rv_id row = er_id q
           \<and> rv_amountWei row = requestExposure q \<and> admittedRow (sp_dailyCapWei policy) db row db'"
proof -
  from assms(1) obtain db1 db2 created cutoff where
    clock: "assertAndAdvanceAdmissionClock moment db = Inr db1" and
    cutoff: "rollingSpendCutoff moment = Inr cutoff" and
    cap: "walletExposure (er_walletId q) cutoff db1 + requestExposure q \<le> sp_dailyCapWei policy" and
    ins: "insertReservation allows (executionRow q fee fp day created) db1 = Inr db2" and
    link: "linkReservation allows (er_id q) (er_executionId q) db2 = Inr db'" and s: "s = Reserved"
    by (auto simp: reserveExecutionFresh_def bindR_eq_Inr not_less Let_def simp del: toISOString_Inr)
  from clock obtain t w where tw: "moment = Some t" "db1 = db\<lparr>db_watermark := Some (Some w)\<rparr>" "t \<le> w"
    "\<And>p. db_watermark db = Some (Some p) \<Longrightarrow> p \<le> w"
    by (rule clock_advances) blast
  with cutoff have "cutoff = t - ROLLING_SPEND_WINDOW_MS" by (simp add: rollingSpendCutoff_Inr)
  moreover from linkReservation_Inr [OF link] obtain es where "db' = db2\<lparr>db_executions := es\<rparr>" by blast
  ultimately show ?thesis using tw cap ins s assms(2)
    by (intro exI [of _ "executionRow q fee fp day created"])
       (simp add: admittedRow_def insertReservation_Inr, auto simp: executionRow_def)
qed

text \<open>A replay leaves the database as it is, anything else is an admission.\<close>

lemma replayOr_Inr:
  "replayOr key computed supplied fresh db = Inr (s, db') \<longleftrightarrow>
     (supplied = None \<or> supplied = Some computed)
     \<and> (case reservationByKey key db of
          Some r \<Rightarrow> rv_fingerprint r = Some computed \<and> s = rv_status r \<and> db' = db
        | None \<Rightarrow> fresh db = Inr (s, db'))"
  by (auto simp: replayOr_def split: option.splits if_splits)

lemma reserve_outcome:
  assumes "reserve env allows now q db = (Inr s, db')"
  obtains (replay) r where "reservationByKey (rq_idempotencyKey q) db = Some r" "s = rv_status r" "db' = db"
  | (fresh) policy row where "reservationByKey (rq_idempotencyKey q) db = None" "s = Reserved"
      "activePolicy (rq_policyId q) (rq_walletId q) db = Some policy"
      "rv_walletId row = rq_walletId q" "rv_id row = rq_id q" "rv_amountWei row = rq_amountWei q"
      "admittedRow (sp_dailyCapWei policy) db row db'"
proof -
  from assms have pos: "0 < rq_amountWei q"
    and tx: "reserveTx env allows q (momentOf now (rq_at q)) db = Inr (s, db')"
    by (auto simp: reserve_def bindS_eq_Inr nonNegative_def split: if_splits)
  from tx obtain policy day computed where
    policy: "activePolicy (rq_policyId q) (rq_walletId q) db = Some policy" and
    rest: "replayOr (rq_idempotencyKey q) computed (rq_fingerprint q)
            (reserveFresh allows q (momentOf now (rq_at q)) (sp_dailyCapWei policy) computed day) db = Inr (s, db')"
    by (auto simp: reserveTx_def bindR_eq_Inr split: option.splits)
  show ?thesis
  proof (cases "reservationByKey (rq_idempotencyKey q) db")
    case None
    with rest have "reserveFresh allows q (momentOf now (rq_at q)) (sp_dailyCapWei policy) computed day db = Inr (s, db')"
      by (simp add: replayOr_Inr)
    from reserveFresh_admits [OF this pos] policy None show ?thesis by (auto intro: fresh)
  next
    case (Some r)
    with rest show ?thesis by (auto simp: replayOr_Inr intro: replay)
  qed
qed

lemma sum_list_pos:
  fixes xs :: "int list"
  assumes "\<not> list_ex (\<lambda>a. a < 0) xs" and "sum_list xs \<noteq> 0"
  shows "0 < sum_list xs"
proof -
  from assms(1) have "0 \<le> sum_list xs" by (auto simp: list_ex_iff not_less intro!: sum_list_nonneg)
  with assms(2) show ?thesis by simp
qed

lemma requestExposure_sum: "requestExposure q = sum_list (requestAmounts q)"
  by (simp add: requestExposure_def feeExposure_def priorityExposure_def requestAmounts_def)

lemma reserveExecution_outcome:
  assumes "reserveExecution env allows now q db = (Inr s, db')"
  obtains (replay) r where "reservationByKey (er_idempotencyKey q) db = Some r" "s = rv_status r" "db' = db"
  | (fresh) policy row where "reservationByKey (er_idempotencyKey q) db = None" "s = Reserved"
      "activePolicy (er_policyId q) (er_walletId q) db = Some policy"
      "rv_walletId row = er_walletId q" "rv_id row = er_id q" "rv_amountWei row = requestExposure q"
      "admittedRow (sp_dailyCapWei policy) db row db'"
proof -
  from assms have pos: "0 < requestExposure q"
    and tx: "reserveExecutionTx env allows now q (momentOf now (er_at q)) db = Inr (s, db')"
    by (auto simp: reserveExecution_def bindS_eq_Inr nonNegative_def requestExposure_sum split: if_splits
             intro: sum_list_pos)
  from tx obtain policy fee day computed where
    policy: "activePolicy (er_policyId q) (er_walletId q) db = Some policy" and
    rest: "replayOr (er_idempotencyKey q) computed (er_fingerprint q)
            (reserveExecutionFresh env allows q (momentOf now (er_at q)) policy fee computed day) db = Inr (s, db')"
    by (auto simp: reserveExecutionTx_def bindR_eq_Inr split: option.splits)
  show ?thesis
  proof (cases "reservationByKey (er_idempotencyKey q) db")
    case None
    with rest have "reserveExecutionFresh env allows q (momentOf now (er_at q)) policy fee computed day db = Inr (s, db')"
      by (simp add: replayOr_Inr)
    from reserveExecutionFresh_admits [OF this pos] policy None show ?thesis by (auto intro: fresh)
  next
    case (Some r)
    with rest show ?thesis by (auto simp: replayOr_Inr intro: replay)
  qed
qed

text \<open>Releasing, expiring and settling change one pending row and append its ledger entries.\<close>

definition closedRow :: "string \<Rightarrow> ReservationRow \<Rightarrow> (ReservationRow \<Rightarrow> ReservationRow) \<Rightarrow> LedgerEntry list \<Rightarrow> Db \<Rightarrow> Db \<Rightarrow> bool" where
  "closedRow key row f entries db db' \<longleftrightarrow>
     reservedRow key db = Some row \<and> 0 < rv_amountWei (f row)
     \<and> db' = db\<lparr>db_reservations :=
                  map (\<lambda>r. if rv_id r = key \<and> rv_status r = Reserved then f r else r) (db_reservations db),
                db_ledger := db_ledger db @ entries\<rparr>"

lemma reservedRow_Some:
  "reservedRow key db = Some row \<Longrightarrow> row \<in> set (db_reservations db) \<and> rv_id row = key \<and> rv_status row = Reserved"
  unfolding reservedRow_def by (drule find_Some_in) simp

lemma updateReservation_Inr:
  assumes "updateReservation allows key f db = Inr db'" and "reservedRow key db = Some row"
  shows "0 < rv_amountWei (f row)"
    and "db' = db\<lparr>db_reservations :=
                  map (\<lambda>r. if rv_id r = key \<and> rv_status r = Reserved then f r else r) (db_reservations db)\<rparr>"
  using assms reservedRow_Some [OF assms(2)]
  by (auto simp: updateReservation_def Let_def list_ex_iff not_le split: if_splits)

definition totalEntry :: "string \<Rightarrow> ReservationRow \<Rightarrow> int \<Rightarrow> LedgerEntry" where
  "totalEntry key row t =
     \<lparr>le_id = key @ '':settled:total'', le_walletId = rv_walletId row, le_executionId = rv_executionId row,
      le_reservationId = key, le_entryType = ''mint'', le_component = ''total'',
      le_amountWei = rv_amountWei row, le_createdAt = t\<rparr>"

lemma transition_outcome:
  assumes "transition allows key st moment db = (Inr u, db')"
  obtains row t where "moment = Some t"
    and "closedRow key row (transitionRow st t) (if st = Settled then [totalEntry key row t] else []) db db'"
    and "st = Settled \<Longrightarrow> \<not> linked row"
    and "st \<in> {Released, Expired} \<Longrightarrow> attemptCount row db = 0"
proof -
  from assms obtain row where row: "reservedRow key db = Some row"
    by (auto simp: transition_def transitionTx_def split: option.splits)
  from assms row obtain t db1 where t: "moment = Some t" and
    guards: "st = Settled \<Longrightarrow> \<not> linked row" "st \<in> {Released, Expired} \<Longrightarrow> attemptCount row db = 0" and
    upd: "updateReservation allows key (transitionRow st t) db = Inr db1" and
    ledger: "if st = Settled then insertLedgerEntry allows (totalEntry key row t) db1 = Inr db' else db' = db1"
    by (auto simp: transition_def transitionTx_def bindR_eq_Inr totalEntry_def split: if_splits)
  from ledger have "db' = db1\<lparr>db_ledger := db_ledger db1 @ (if st = Settled then [totalEntry key row t] else [])\<rparr>"
    by (auto simp: insertLedgerEntry_def split: if_splits)
  with updateReservation_Inr [OF upd row] row
  have "closedRow key row (transitionRow st t) (if st = Settled then [totalEntry key row t] else []) db db'"
    by (simp add: closedRow_def)
  with t guards show ?thesis by (intro that [of t row]) auto
qed

lemma settle_outcome:
  assumes "settleExecutionComponentsInTransaction allows key comps moment db = Inr (u, db')"
  obtains row chain t where "moment = Some t" and "settleableRow key db = Some (row, chain)"
    and "closedRow key row (settledRow comps t)
           (map (ledgerEntry key row t) (settlementEntries comps (heldWei row - sum_list (settlementParts comps)))) db db'"
    and "list_all (\<lambda>a. 0 \<le> a) (settlementParts comps)"
    and "\<not> boundExceeded comps (cp_chainId chain) row"
    and "sum_list (settlementParts comps) \<le> heldWei row"
    and "\<And>ex. rv_executionId row = Some ex \<Longrightarrow> assertSettlementEvidence comps (cp_chainId chain) ex db = Inr ()"
proof -
  from assms obtain row chain where sr: "settleableRow key db = Some (row, chain)"
    by (auto simp: settleExecutionComponentsInTransaction_def bindR_eq_Inr split: option.splits)
  then have row: "reservedRow key db = Some row"
    by (auto simp: settleableRow_def Option.bind_eq_Some_conv)
  from assms sr obtain t db1 where t: "moment = Some t" and
    parts: "list_all (\<lambda>a. 0 \<le> a) (settlementParts comps)" and
    bound: "\<not> boundExceeded comps (cp_chainId chain) row" and
    total: "sum_list (settlementParts comps) \<le> heldWei row" and
    evidence: "(case rv_executionId row of None \<Rightarrow> Inr ()
                | Some ex \<Rightarrow> assertSettlementEvidence comps (cp_chainId chain) ex db) = Inr ()" and
    upd: "updateReservation allows key (settledRow comps t) db = Inr db1" and
    ledger: "insertLedgerEntries allows
       (map (ledgerEntry key row t) (settlementEntries comps (heldWei row - sum_list (settlementParts comps)))) db1 = Inr db'"
    by (auto simp: settleExecutionComponentsInTransaction_def bindR_eq_Inr Let_def heldWei_def nonNegative_def
          list_ex_iff list_all_iff not_less)
  from updateReservation_Inr [OF upd row] insertLedgerEntries_Inr [OF ledger] row
  have "closedRow key row (settledRow comps t)
           (map (ledgerEntry key row t) (settlementEntries comps (heldWei row - sum_list (settlementParts comps)))) db db'"
    by (simp add: closedRow_def)
  with t sr parts bound total evidence show ?thesis by (intro that [of t row chain]) auto
qed

section \<open>The invariant\<close>

lemma keysUnique_id:
  "keysUnique rs \<Longrightarrow> r \<in> set rs \<Longrightarrow> s \<in> set rs \<Longrightarrow> rv_id r = rv_id s \<Longrightarrow> r = s"
  by (induction rs) (auto simp: list_ex_iff sharesKey_def)

lemma sharesKey_sym: "sharesKey r s \<longleftrightarrow> sharesKey s r"
  by (auto simp: sharesKey_def)

lemma keysUnique_append:
  "keysUnique (rs @ [row]) \<longleftrightarrow> keysUnique rs \<and> \<not> list_ex (sharesKey row) rs"
  by (induction rs) (auto simp: sharesKey_sym [of _ row])

lemma keysUnique_map:
  assumes "\<And>r. rv_id (g r) = rv_id r" "\<And>r. rv_idempotencyKey (g r) = rv_idempotencyKey r"
    "\<And>r. rv_executionId (g r) = rv_executionId r" "\<And>r. rv_intentId (g r) = rv_intentId r"
    "\<And>r. rv_requestId (g r) = rv_requestId r" "\<And>r. rv_walletId (g r) = rv_walletId r"
  shows "keysUnique (map g rs) = keysUnique rs"
proof -
  have "sharesKey (g r) (g s) = sharesKey r s" for r s by (simp only: sharesKey_def assms)
  then show ?thesis by (induction rs) (simp_all add: list_ex_iff)
qed

lemma ledgerTotal_append:
  "ledgerTotal k (db\<lparr>db_reservations := rs, db_ledger := db_ledger db @ es\<rparr>)
     = ledgerTotal k db + sum_list (map le_amountWei (filter (\<lambda>e. le_reservationId e = k) es))"
  by (simp add: ledgerTotal_def)

lemma rowOk_cong: "db_ledger db' = db_ledger db \<Longrightarrow> rowOk db' r = rowOk db r"
  by (simp add: rowOk_def ledgerTotal_def)

lemma dbOk_admit:
  assumes "dbOk db" and "admittedRow cap db row db'"
  shows "dbOk db'"
proof -
  from assms have fresh: "\<not> list_ex (sharesKey row) (db_reservations db)" by (simp add: admittedRow_def)
  then have "rv_id row \<notin> rv_id ` set (db_reservations db)" by (auto simp: list_ex_iff sharesKey_def)
  with assms(1) have "\<forall>e \<in> set (db_ledger db). le_reservationId e \<noteq> rv_id row"
    by (metis dbOk_def list_all_iff)
  then have "filter (\<lambda>e. le_reservationId e = rv_id row) (db_ledger db) = []"
    by (simp add: filter_empty_conv)
  then have "ledgerTotal (rv_id row) db = 0" by (simp add: ledgerTotal_def)
  with assms have "rowOk db row" by (auto simp: rowOk_def admittedRow_def heldWei_def amountOr0_def)
  with assms fresh show ?thesis
    by (auto simp: dbOk_def admittedRow_def keysUnique_append rowOk_cong [of db' db] list_all_iff)
qed

lemma closeRow_keys:
  assumes "\<And>r. rv_id (f r) = rv_id r \<and> rv_idempotencyKey (f r) = rv_idempotencyKey r
    \<and> rv_executionId (f r) = rv_executionId r \<and> rv_intentId (f r) = rv_intentId r
    \<and> rv_requestId (f r) = rv_requestId r \<and> rv_walletId (f r) = rv_walletId r"
  shows "keysUnique (map (\<lambda>r. if P r then f r else r) rs) = keysUnique rs"
  by (rule keysUnique_map) (simp_all add: assms)

text \<open>Closing a row keeps the invariant when the entries add up to what the row held.\<close>

lemma dbOk_close:
  assumes ok: "dbOk db" and closed: "closedRow key row f entries db db'"
    and keys: "\<And>r. rv_id (f r) = rv_id r \<and> rv_idempotencyKey (f r) = rv_idempotencyKey r
      \<and> rv_executionId (f r) = rv_executionId r \<and> rv_intentId (f r) = rv_intentId r
      \<and> rv_requestId (f r) = rv_requestId r \<and> rv_walletId (f r) = rv_walletId r"
    and entries: "list_all (\<lambda>e. le_reservationId e = key) entries"
    and shape: "rv_status (f row) \<noteq> Reserved" "rv_amountWei (f row) \<le> heldWei (f row)" "heldWei (f row) = heldWei row"
      "rv_status (f row) = Settled \<longrightarrow> rv_settledWei (f row) = Some (rv_amountWei (f row))"
      "case rv_settledParts (f row) of None \<Rightarrow> True
       | Some ps \<Rightarrow> rv_status (f row) = Settled \<and> sum_list ps = rv_amountWei (f row)"
    and total: "sum_list (map le_amountWei entries) = (if rv_status (f row) = Settled then heldWei row else 0)"
  shows "dbOk db'"
proof -
  let ?g = "\<lambda>r. if rv_id r = key \<and> rv_status r = Reserved then f r else r"
  from closed have row: "row \<in> set (db_reservations db)" "rv_id row = key" "rv_status row = Reserved"
    and pos: "0 < rv_amountWei (f row)"
    and db': "db' = db\<lparr>db_reservations := map ?g (db_reservations db), db_ledger := db_ledger db @ entries\<rparr>"
    by (auto simp: closedRow_def dest: reservedRow_Some)
  have uniq: "keysUnique (db_reservations db)" and rows: "\<And>r. r \<in> set (db_reservations db) \<Longrightarrow> rowOk db r"
    using ok by (auto simp: dbOk_def list_all_iff)
  have mine: "filter (\<lambda>e. le_reservationId e = key) entries = entries"
    and other: "k \<noteq> key \<Longrightarrow> filter (\<lambda>e. le_reservationId e = k) entries = []" for k
    using entries by (auto simp: list_all_iff filter_id_conv filter_empty_conv)
  have rs: "db_reservations db' = map ?g (db_reservations db)" by (simp add: db')
  have row_ok: "rowOk db' (?g r)" if r: "r \<in> set (db_reservations db)" for r
  proof (cases "rv_id r = key")
    case True
    with r row uniq have "r = row" by (auto intro: keysUnique_id)
    moreover have "ledgerTotal key db = 0" using rows [OF row(1)] row by (simp add: rowOk_def)
    ultimately show ?thesis
      using row pos shape total keys [of row] by (simp add: rowOk_def db' ledgerTotal_append mine)
  next
    case False
    with rows [OF r] show ?thesis by (simp add: rowOk_def db' ledgerTotal_append other)
  qed
  have "list_all (rowOk db') (db_reservations db')"
    unfolding list_all_iff rs set_map using row_ok by blast
  moreover have "keysUnique (db_reservations db')" using uniq closeRow_keys [OF keys] by (simp add: db')
  moreover have "list_all (\<lambda>e. le_reservationId e \<in> rv_id ` set (db_reservations db')) (db_ledger db')"
  proof -
    have "rv_id ` set (db_reservations db') = rv_id ` set (db_reservations db)"
      unfolding rs set_map image_image using keys by (intro image_cong) auto
    then show ?thesis using ok entries row by (auto simp: dbOk_def db' list_all_iff)
  qed
  ultimately show ?thesis by (simp add: dbOk_def)
qed

lemma settlementEntries_sum:
  "sum_list (map le_amountWei (map (ledgerEntry key row t) (settlementEntries comps refund)))
     = sum_list (settlementParts comps) + (if 0 < refund then refund else 0)"
  by (simp add: settlementEntries_def settlementParts_def ledgerEntry_def)

lemma dbOk_transition:
  assumes "dbOk db" and "st \<noteq> Reserved" and "transition allows key st moment db = (Inr u, db')"
  shows "dbOk db'"
  using assms(3)
proof (rule transition_outcome)
  fix row t
  assume closed: "closedRow key row (transitionRow st t) (if st = Settled then [totalEntry key row t] else []) db db'"
  then have "reservedRow key db = Some row" by (simp add: closedRow_def)
  then have "rowOk db row" and "rv_status row = Reserved"
    using assms(1) by (auto simp: dbOk_def list_all_iff dest: reservedRow_Some)
  then show ?thesis using assms(2)
    by (intro dbOk_close [OF assms(1) closed]) 
       (auto simp: transitionRow_def totalEntry_def rowOk_def heldWei_def split: option.splits)
qed

lemma dbOk_settle:
  assumes "dbOk db" and "settleExecutionComponentsInTransaction allows key comps moment db = Inr (u, db')"
  shows "dbOk db'"
  using assms(2)
proof (rule settle_outcome)
  fix row chain t
  assume closed: "closedRow key row (settledRow comps t)
      (map (ledgerEntry key row t) (settlementEntries comps (heldWei row - sum_list (settlementParts comps)))) db db'"
    and total: "sum_list (settlementParts comps) \<le> heldWei row"
  let ?entries = "map (ledgerEntry key row t) (settlementEntries comps (heldWei row - sum_list (settlementParts comps)))"
  have "list_all (\<lambda>e. le_reservationId e = key) ?entries"
    by (auto simp: list_all_iff ledgerEntry_def)
  moreover have "sum_list (map le_amountWei ?entries) = heldWei row"
    using total by (simp only: settlementEntries_sum) auto
  ultimately show ?thesis using total
    by (intro dbOk_close [OF assms(1) closed]) (simp_all add: settledRow_def heldWei_def)
qed

lemma dbOk_same_tables:
  "db_reservations db' = db_reservations db \<Longrightarrow> db_ledger db' = db_ledger db \<Longrightarrow> dbOk db' = dbOk db"
  by (simp add: dbOk_def list_all_iff rowOk_cong [of db' db])

lemma dbOk_step:
  assumes "opStep env allows db db'" and "dbOk db"
  shows "dbOk db'"
  using assms(1)
proof cases
  case (step_reserve now q s)
  from this assms(2) show ?thesis by (elim reserve_outcome) (auto intro: dbOk_admit)
next
  case (step_reserveExecution now e s)
  from this assms(2) show ?thesis by (elim reserveExecution_outcome) (auto intro: dbOk_admit)
next
  case (step_transition st key moment u)
  from dbOk_transition [OF assms(2) this] show ?thesis .
next
  case (step_settle key comps moment u)
  then have "settleExecutionComponentsInTransaction allows key comps moment db = Inr (u, db')"
    by (simp add: settleExecutionComponents_def)
  from dbOk_settle [OF assms(2) this] show ?thesis .
next
  case (step_kill engaged who moment u)
  then show ?thesis using assms(2) dbOk_same_tables [of db' db] by (auto simp: setKillSwitch_def bindR_eq_Inr)
qed

section \<open>A wallet stays within its daily cap\<close>

text \<open>The start of the spend window of the newest admission.\<close>

definition admissionCutoff :: "Db \<Rightarrow> int option" where
  "admissionCutoff db =
     (case db_watermark db of Some (Some t) \<Rightarrow> Some (t - ROLLING_SPEND_WINDOW_MS) | _ \<Rightarrow> None)"

definition policiesWithin :: "wei \<Rightarrow> string \<Rightarrow> Db \<Rightarrow> bool" where
  "policiesWithin cap w db \<longleftrightarrow>
     list_all (\<lambda>p. sp_walletId p = w \<and> sp_active p \<longrightarrow> sp_dailyCapWei p \<le> cap) (db_spendPolicies db)"

definition walletAdmits :: "string \<Rightarrow> Db \<Rightarrow> Db \<Rightarrow> bool" where
  "walletAdmits w db db' \<longleftrightarrow>
     (\<exists>policy row. policy \<in> set (db_spendPolicies db) \<and> sp_walletId policy = w \<and> sp_active policy
        \<and> rv_walletId row = w \<and> admittedRow (sp_dailyCapWei policy) db row db')"

definition walletLowers :: "JsonEnv \<Rightarrow> schema \<Rightarrow> string \<Rightarrow> Db \<Rightarrow> Db \<Rightarrow> bool" where
  "walletLowers env allows w db db' \<longleftrightarrow> opStep env allows db db' \<and> \<not> walletAdmits w db db'"

lemma activePolicy_Some:
  "activePolicy p w db = Some policy \<Longrightarrow> policy \<in> set (db_spendPolicies db) \<and> sp_walletId policy = w \<and> sp_active policy"
  unfolding activePolicy_def by (drule find_Some_in) simp

lemma rowOk_exposure:
  "rowOk db r \<Longrightarrow> rv_status r = Reserved \<Longrightarrow> componentExposure r = heldWei r"
  by (auto simp: rowOk_def componentExposure_def heldWei_def amountOr0_def split: option.splits)

lemma rowOk_exposure_nonneg: "rowOk db r \<Longrightarrow> 0 \<le> componentExposure r"
  by (cases "rv_status r")
     (auto simp: rowOk_def componentExposure_def heldWei_def amountOr0_def split: option.splits)

lemma closedRow_exposure:
  assumes ok: "dbOk db" and closed: "closedRow key row f entries db db'"
    and shape: "rv_walletId (f row) = rv_walletId row" "rv_status (f row) \<noteq> Reserved"
      "rv_amountWei (f row) \<le> heldWei row"
  shows "walletExposure w c db' \<le> walletExposure w c db"
proof -
  let ?g = "\<lambda>r. if rv_id r = key \<and> rv_status r = Reserved then f r else r"
  let ?scope = "\<lambda>r. rv_walletId r = w \<and> inWindow c r"
  from closed have row: "row \<in> set (db_reservations db)" "rv_id row = key" "rv_status row = Reserved"
    and rs: "db_reservations db' = map ?g (db_reservations db)"
    and uniq: "keysUnique (db_reservations db)"
    using ok by (auto simp: closedRow_def dbOk_def dest: reservedRow_Some)
  have "(if ?scope (?g r) then componentExposure (?g r) else 0) \<le> (if ?scope r then componentExposure r else 0)"
    if r: "r \<in> set (db_reservations db)" for r
  proof (cases "rv_id r = key \<and> rv_status r = Reserved")
    case True
    with r row uniq have "r = row" by (auto intro: keysUnique_id)
    moreover from ok row have "rowOk db row" by (simp add: dbOk_def list_all_iff)
    moreover have "componentExposure (f row) \<le> heldWei row"
      using shape \<open>rowOk db row\<close> by (cases "rv_status (f row)") (auto simp: componentExposure_def rowOk_def)
    ultimately show ?thesis
      using row shape by (auto simp: inWindow_def rowOk_exposure rowOk_def)
  qed auto
  then have "exposureOf ?scope (db\<lparr>db_reservations := map ?g (db_reservations db)\<rparr>) \<le> exposureOf ?scope db"
    by (rule exposureOf_map_le)
  then show ?thesis using exposureOf_cong [of db' "db\<lparr>db_reservations := map ?g (db_reservations db)\<rparr>"] rs
    by (simp add: walletExposure_def)
qed

lemma closedRow_frame:
  "closedRow key row f entries db db' \<Longrightarrow>
     db_watermark db' = db_watermark db \<and> db_spendPolicies db' = db_spendPolicies db"
  by (auto simp: closedRow_def)

lemma admittedRow_exposure:
  "admittedRow cap db row db' \<Longrightarrow>
     walletExposure w c db' = walletExposure w c db + (if rv_walletId row = w then rv_amountWei row else 0)"
  by (auto simp: walletExposure_def exposureOf_def admittedRow_def inWindow_def componentExposure_def)

text \<open>Everything but an admission of the wallet leaves its exposure alone or lowers it.\<close>

lemma step_cases:
  assumes "opStep env allows db db'"
  obtains (same) "db_reservations db' = db_reservations db" "db_watermark db' = db_watermark db"
      "db_spendPolicies db' = db_spendPolicies db"
  | (admit) cap row policy where "admittedRow cap db row db'" "cap = sp_dailyCapWei policy"
      "policy \<in> set (db_spendPolicies db)" "sp_walletId policy = rv_walletId row" "sp_active policy"
  | (close) key row f entries where "closedRow key row f entries db db'" "rv_walletId (f row) = rv_walletId row"
      "rv_status (f row) \<noteq> Reserved" "rv_amountWei (f row) = rv_amountWei row \<or> rv_amountWei (f row) \<le> heldWei row"
  using assms
proof cases
  case (step_reserve now q s)
  then show ?thesis
    by (elim reserve_outcome) (rule same, simp_all, metis admit activePolicy_Some)
next
  case (step_reserveExecution now e s)
  then show ?thesis
    by (elim reserveExecution_outcome) (rule same, simp_all, metis admit activePolicy_Some)
next
  case (step_transition st key moment u)
  from step_transition(2) show ?thesis
    by (rule transition_outcome) (rule close, assumption, auto simp: transitionRow_def step_transition)
next
  case (step_settle key comps moment u)
  then have "settleExecutionComponentsInTransaction allows key comps moment db = Inr (u, db')"
    by (simp add: settleExecutionComponents_def)
  then show ?thesis by (rule settle_outcome) (rule close, assumption, auto simp: settledRow_def)
next
  case (step_kill engaged who moment u)
  then show ?thesis by (intro same) (auto simp: setKillSwitch_def bindR_eq_Inr)
qed

lemma step_wallet_lowers:
  assumes ok: "dbOk db" and step: "opStep env allows db db'" and "\<not> walletAdmits w db db'"
  shows "walletExposure w c db' \<le> walletExposure w c db"
  using step
proof (cases rule: step_cases)
  case same
  then show ?thesis by (simp add: walletExposure_def exposureOf_def)
next
  case (admit cap row policy)
  with assms(3) have "rv_walletId row \<noteq> w" by (auto simp: walletAdmits_def)
  with admittedRow_exposure [OF admit(1)] show ?thesis by simp
next
  case (close key row f entries)
  then have "reservedRow key db = Some row" by (simp add: closedRow_def)
  with ok have "rowOk db row" by (auto simp: dbOk_def list_all_iff dest: reservedRow_Some)
  with close show ?thesis by (intro closedRow_exposure [OF ok close(1)]) (auto simp: rowOk_def)
qed

lemma step_clock:
  assumes "opStep env allows db db'" and "admissionCutoff db = Some d"
  shows "\<exists>d'. admissionCutoff db' = Some d' \<and> d \<le> d'"
  using assms(1)
proof (cases rule: step_cases)
  case same
  with assms(2) show ?thesis by (simp add: admissionCutoff_def)
next
  case (admit cap row policy)
  then obtain t where "db_watermark db' = Some (Some t)" "\<forall>p. db_watermark db = Some (Some p) \<longrightarrow> p \<le> t"
    by (auto simp: admittedRow_def)
  with assms(2) show ?thesis by (auto simp: admissionCutoff_def split: option.splits)
next
  case (close key row f entries)
  with assms(2) show ?thesis by (auto simp: admissionCutoff_def dest!: closedRow_frame)
qed

lemma step_policies: "opStep env allows db db' \<Longrightarrow> db_spendPolicies db' = db_spendPolicies db"
  by (erule step_cases) (auto simp: admittedRow_def dest: closedRow_frame)

lemma walletAdmits_capped:
  assumes "policiesWithin cap w db" and "walletAdmits w db db'"
  shows "\<exists>c d. admissionCutoff db' = Some d \<and> c \<le> d \<and> walletExposure w c db' \<le> cap"
proof -
  from assms(2) obtain policy row where policy: "policy \<in> set (db_spendPolicies db)" "sp_walletId policy = w" "sp_active policy"
    and row: "rv_walletId row = w" and admitted: "admittedRow (sp_dailyCapWei policy) db row db'"
    by (auto simp: walletAdmits_def)
  from admitted obtain t u where t: "db_watermark db' = Some (Some u)" "t \<le> u"
    "walletExposure (rv_walletId row) (t - ROLLING_SPEND_WINDOW_MS) db + rv_amountWei row \<le> sp_dailyCapWei policy"
    by (auto simp: admittedRow_def)
  have "sp_dailyCapWei policy \<le> cap" using assms(1) policy by (auto simp: policiesWithin_def list_all_iff)
  then have "walletExposure w (t - ROLLING_SPEND_WINDOW_MS) db' \<le> cap"
    using t row admittedRow_exposure [OF admitted, of w "t - ROLLING_SPEND_WINDOW_MS"] by simp
  with t show ?thesis
    by (intro exI [of _ "t - ROLLING_SPEND_WINDOW_MS"] exI [of _ "u - ROLLING_SPEND_WINDOW_MS"])
       (simp add: admissionCutoff_def)
qed

lemma walletAdmits_frame:
  "walletAdmits w db db' \<Longrightarrow> dbOk db \<Longrightarrow> policiesWithin cap w db \<Longrightarrow> dbOk db' \<and> policiesWithin cap w db'"
  by (auto simp: walletAdmits_def policiesWithin_def intro: dbOk_admit) (simp add: admittedRow_def)

lemma walletExposure_antimono: "dbOk db \<Longrightarrow> c \<le> d \<Longrightarrow> walletExposure w d db \<le> walletExposure w c db"
  unfolding walletExposure_def
  by (rule exposureOf_mono) (auto simp: dbOk_def list_all_iff intro: inWindow_antimono rowOk_exposure_nonneg)

text \<open>The reservation operations are a capped store for every wallet.\<close>

interpretation wallet_store: capped_store "walletExposure w" admissionCutoff
  "\<lambda>db. dbOk db \<and> policiesWithin cap w db" "walletAdmits w" "walletLowers env allows w" cap
  for w env allows cap
proof unfold_locales
  fix db db' and c d :: int
  assume ok: "dbOk db \<and> policiesWithin cap w db"
  {
    assume "walletAdmits w db db'"
    with ok show "dbOk db' \<and> policiesWithin cap w db'"
      and "\<exists>c d. admissionCutoff db' = Some d \<and> c \<le> d \<and> walletExposure w c db' \<le> cap"
      by (auto dest: walletAdmits_frame walletAdmits_capped)
  }
  {
    assume low: "walletLowers env allows w db db'"
    then show "dbOk db' \<and> policiesWithin cap w db'"
      using ok by (auto simp: walletLowers_def policiesWithin_def step_policies intro: dbOk_step)
    from low show "walletExposure w c db' \<le> walletExposure w c db"
      using ok by (auto simp: walletLowers_def intro: step_wallet_lowers)
    assume "admissionCutoff db = Some d"
    with low show "\<exists>d'. admissionCutoff db' = Some d' \<and> d \<le> d'"
      by (auto simp: walletLowers_def intro: step_clock)
  }
  assume "c \<le> d"
  with ok show "walletExposure w d db \<le> walletExposure w c db" by (auto intro: walletExposure_antimono)
qed

lemma opSteps_store:
  "(opStep env allows)\<^sup>*\<^sup>* db db' \<Longrightarrow> wallet_store.steps w env allows db db'"
proof (induction rule: rtranclp_induct)
  case base
  show ?case by (rule wallet_store.steps_refl)
next
  case (step y z)
  show ?case
  proof (cases "walletAdmits w y z")
    case True
    with step.IH show ?thesis by (rule wallet_store.steps_admit)
  next
    case False
    with step.hyps have "walletLowers env allows w y z" by (simp add: walletLowers_def)
    with step.IH show ?thesis by (rule wallet_store.steps_lower)
  qed
qed

section \<open>An abstract account book\<close>

datatype Account = Held wei | Spent wei | Freed

type_synonym accounts = "string \<Rightarrow> Account option"

definition hold :: "string \<Rightarrow> wei \<Rightarrow> accounts \<Rightarrow> accounts option" where
  "hold key n m = (if m key = None \<and> 0 < n then Some (m(key \<mapsto> Held n)) else None)"

definition spend :: "string \<Rightarrow> wei \<Rightarrow> accounts \<Rightarrow> accounts option" where
  "spend key n m =
     (case m key of
        Some (Held h) \<Rightarrow> if 0 < n \<and> n \<le> h then Some (m(key \<mapsto> Spent n)) else None
      | _ \<Rightarrow> None)"

definition free :: "string \<Rightarrow> accounts \<Rightarrow> accounts option" where
  "free key m = (case m key of Some (Held h) \<Rightarrow> Some (m(key \<mapsto> Freed)) | _ \<Rightarrow> None)"

definition accountOf :: "ReservationRow \<Rightarrow> Account" where
  "accountOf r = (case rv_status r of Reserved \<Rightarrow> Held (heldWei r) | Settled \<Rightarrow> Spent (rv_amountWei r) | _ \<Rightarrow> Freed)"

definition account :: "Db \<Rightarrow> accounts" where
  "account db key = map_option accountOf (find (\<lambda>r. rv_id r = key) (db_reservations db))"

lemma find_append: "find P (xs @ ys) = (case find P xs of None \<Rightarrow> find P ys | Some x \<Rightarrow> Some x)"
  by (induction xs) auto

lemma find_map_same:
  "(\<And>x. P (g x) = P x) \<Longrightarrow> find P (map g xs) = map_option g (find P xs)"
  by (induction xs) auto

lemma account_admit:
  assumes "admittedRow cap db row db'"
  shows "hold (rv_id row) (rv_amountWei row) (account db) = Some (account db')"
proof -
  have "find (\<lambda>r. rv_id r = rv_id row) (db_reservations db) = None"
    using assms by (auto simp: admittedRow_def find_None_all list_ex_iff sharesKey_def)
  moreover have "account db' = (account db)(rv_id row \<mapsto> Held (rv_amountWei row))"
    using assms calculation
    by (intro ext) (auto simp: account_def admittedRow_def find_append accountOf_def heldWei_def amountOr0_def
          split: option.splits)
  ultimately show ?thesis using assms by (simp add: hold_def account_def admittedRow_def)
qed

lemma find_reserved:
  assumes "dbOk db" and "reservedRow key db = Some row"
  shows "find (\<lambda>r. rv_id r = key) (db_reservations db) = Some row"
proof -
  have row: "row \<in> set (db_reservations db)" "rv_id row = key" using assms(2) by (auto dest: reservedRow_Some)
  then obtain r where r: "find (\<lambda>r. rv_id r = key) (db_reservations db) = Some r"
    by (cases "find (\<lambda>r. rv_id r = key) (db_reservations db)") (auto simp: find_None_all)
  from find_Some_in [OF r] row assms(1) have "r = row" by (auto simp: dbOk_def intro: keysUnique_id)
  with r show ?thesis by simp
qed

lemma account_close:
  assumes ok: "dbOk db" and closed: "closedRow key row f entries db db'" and ids: "\<And>r. rv_id (f r) = rv_id r"
  shows "account db key = Some (Held (heldWei row))"
    and "account db' = (account db)(key \<mapsto> accountOf (f row))"
proof -
  from closed have row: "reservedRow key db = Some row" by (simp add: closedRow_def)
  with ok have find: "find (\<lambda>r. rv_id r = key) (db_reservations db) = Some row" by (rule find_reserved)
  from row have st: "rv_status row = Reserved" "rv_id row = key" by (auto dest: reservedRow_Some)
  with find show "account db key = Some (Held (heldWei row))" by (simp add: account_def accountOf_def)
  let ?g = "\<lambda>r. if rv_id r = key \<and> rv_status r = Reserved then f r else r"
  have moved: "find (\<lambda>r. rv_id r = k) (map ?g rs) = map_option ?g (find (\<lambda>r. rv_id r = k) rs)" for k rs
    by (rule find_map_same) (simp add: ids)
  show "account db' = (account db)(key \<mapsto> accountOf (f row))"
  proof (rule ext)
    fix k
    show "account db' k = ((account db)(key \<mapsto> accountOf (f row))) k"
    proof (cases "k = key")
      case True
      with closed find st show ?thesis by (simp add: account_def closedRow_def moved)
    next
      case False
      have "map_option accountOf (map_option ?g (find (\<lambda>r. rv_id r = k) (db_reservations db)))
          = map_option accountOf (find (\<lambda>r. rv_id r = k) (db_reservations db))"
        using False by (cases "find (\<lambda>r. rv_id r = k) (db_reservations db)") (auto dest: find_Some_in)
      with closed False show ?thesis by (simp add: account_def closedRow_def moved)
    qed
  qed
qed

lemma step_refines:
  assumes ok: "dbOk db" and "opStep env allows db db'"
  shows "account db' = account db
    \<or> (\<exists>key n. hold key n (account db) = Some (account db'))
    \<or> (\<exists>key n. spend key n (account db) = Some (account db'))
    \<or> (\<exists>key. free key (account db) = Some (account db'))"
  using assms(2)
proof cases
  case (step_reserve now q s)
  then show ?thesis by (elim reserve_outcome) (auto dest: account_admit)
next
  case (step_reserveExecution now e s)
  then show ?thesis by (elim reserveExecution_outcome) (auto dest: account_admit)
next
  case (step_transition st key moment u)
  from step_transition(2) show ?thesis
  proof (rule transition_outcome)
    fix row t
    assume closed: "closedRow key row (transitionRow st t) (if st = Settled then [totalEntry key row t] else []) db db'"
    then have "rowOk db row" "rv_status row = Reserved"
      using ok by (auto simp: closedRow_def dbOk_def list_all_iff dest!: reservedRow_Some)
    moreover have "account db key = Some (Held (heldWei row))"
      and moved: "account db' = (account db)(key \<mapsto> accountOf (transitionRow st t row))"
      using account_close [OF ok closed] by (simp_all add: transitionRow_def)
    ultimately have "if st = Settled then spend key (rv_amountWei row) (account db) = Some (account db')
        else free key (account db) = Some (account db')"
      using step_transition(1) by (cases st) (simp_all add: transitionRow_def accountOf_def spend_def free_def rowOk_def)
    then show ?thesis by (cases "st = Settled") auto
  qed
next
  case (step_settle key comps moment u)
  then have "settleExecutionComponentsInTransaction allows key comps moment db = Inr (u, db')"
    by (simp add: settleExecutionComponents_def)
  then show ?thesis
  proof (rule settle_outcome)
    fix row chain t
    assume closed: "closedRow key row (settledRow comps t)
        (map (ledgerEntry key row t) (settlementEntries comps (heldWei row - sum_list (settlementParts comps)))) db db'"
      and total: "sum_list (settlementParts comps) \<le> heldWei row"
    from closed have "0 < sum_list (settlementParts comps)" by (simp add: closedRow_def settledRow_def)
    moreover note account_close [OF ok closed]
    ultimately have "spend key (sum_list (settlementParts comps)) (account db) = Some (account db')"
      using total by (simp add: spend_def accountOf_def settledRow_def)
    then show ?thesis by blast
  qed
next
  case (step_kill engaged who moment u)
  then have "account db' = account db" by (auto simp: setKillSwitch_def bindR_eq_Inr account_def)
  then show ?thesis ..
qed

section \<open>A database to run on\<close>

text \<open>One verified chain and one wallet with a daily cap of 100.\<close>

definition demoJson :: JsonEnv where
  "demoJson = \<lparr>je_stringify = (\<lambda>v. case v of JObj kvs \<Rightarrow> Some (concat (map fst kvs)) | _ \<Rightarrow> None),
     je_localeLe = textLe, je_sha256 = (\<lambda>s. s), je_localDate = (\<lambda>t z. Some z)\<rparr>"

definition demoDb :: Db where
  "demoDb = \<lparr>db_killSwitch = False, db_killChangedBy = [], db_killChangedAt = None, db_watermark = Some (Some 1000),
     db_reservations = [], db_executions = [],
     db_spendPolicies = [\<lparr>sp_id = ''p'', sp_walletId = ''w'', sp_dailyCapWei = 100, sp_timezone = ''UTC'', sp_active = True,
        sp_campaignCapWei = None, sp_freeWalletCapWei = 100, sp_freePeriodCapWei = 100\<rparr>],
     db_feePolicies = [],
     db_chainProfiles = [\<lparr>cp_id = ''c'', cp_chainId = 1, cp_executionEnabled = True, cp_verified = True,
        cp_successStage = ''ethereum_final''\<rparr>],
     db_wallets = [\<lparr>wl_id = ''w'', wl_chainProfileId = ''c'', wl_address = ''0xw''\<rparr>], db_intents = [],
     db_campaignProfile = [], db_campaignWallets = [], db_campaignPeriods = [],
     db_robinhoodEnablements = [], db_baseEnablements = [], db_revocations = [], db_verifications = [], db_runs = [],
     db_attempts = [], db_receipts = [], db_reconciliations = [], db_ledger = [], db_audit = []\<rparr>"

definition demoRequest :: "string \<Rightarrow> wei \<Rightarrow> ReservationRequest" where
  "demoRequest key amount = \<lparr>rq_id = key, rq_walletId = ''w'', rq_executionId = None, rq_idempotencyKey = key,
     rq_requestId = None, rq_fingerprint = None, rq_policyId = ''p'', rq_amountWei = amount, rq_at = None\<rparr>"

definition demoReserved :: Db where
  "demoReserved = snd (reserve demoJson (\<lambda>_ _. True) 2000 (demoRequest ''r1'' 60) demoDb)"

lemma demo_reserve:
  "reserve demoJson (\<lambda>_ _. True) 2000 (demoRequest ''r1'' 60) demoDb = (Inr Reserved, demoReserved)"
  by code_simp

lemma demo_step: "opStep demoJson (\<lambda>_ _. True) demoDb demoReserved"
  using demo_reserve by (rule step_reserve)

lemma demo_ok: "dbOk demoDb" by code_simp

section \<open>Properties\<close>

text \<open>
  C31. A wallet stays within its daily cap. Start from well-formed reservation tables in which the
  wallet's exposure is within the cap and every active policy of the wallet allows at most the
  cap; then after any sequence of committed reservations, releases, expiries and settlements, by
  any wallets and at any times, what the wallet has pending or settled since the start of the
  rolling window of the admission clock is still at most the cap.
\<close>

theorem wallet_exposure_capped:
  assumes "dbOk db" and "policiesWithin cap w db"
    and "case admissionCutoff db of None \<Rightarrow> \<forall>c. walletExposure w c db \<le> cap | Some d \<Rightarrow> walletExposure w d db \<le> cap"
    and "(opStep env allows)\<^sup>*\<^sup>* db db'" and "admissionCutoff db' = Some d"
  shows "walletExposure w d db' \<le> cap"
proof -
  have "wallet_store.capKept w cap db" using assms(1,2,3) by (simp add: wallet_store.capKept_def)
  with opSteps_store [OF assms(4)] have "wallet_store.capKept w cap db'" by (rule wallet_store.capKept_steps)
  with assms(5) show ?thesis by (simp add: wallet_store.capKept_def)
qed

theorem wallet_exposure_capped_witness:
  "walletExposure ''w'' (2000 - ROLLING_SPEND_WINDOW_MS) demoReserved \<le> 100
   \<and> walletExposure ''w'' (2000 - ROLLING_SPEND_WINDOW_MS) demoReserved = 60"
proof
  have "policiesWithin 100 ''w'' demoDb" "admissionCutoff demoReserved = Some (2000 - ROLLING_SPEND_WINDOW_MS)"
    "admissionCutoff demoDb = Some (1000 - ROLLING_SPEND_WINDOW_MS)"
    "walletExposure ''w'' (1000 - ROLLING_SPEND_WINDOW_MS) demoDb \<le> 100"
    by code_simp+
  then show "walletExposure ''w'' (2000 - ROLLING_SPEND_WINDOW_MS) demoReserved \<le> 100"
    using wallet_exposure_capped [OF demo_ok _ _ r_into_rtranclp, of 100 "''w''"] demo_step by fastforce
  show "walletExposure ''w'' (2000 - ROLLING_SPEND_WINDOW_MS) demoReserved = 60" by code_simp
qed

text \<open>
  C33. The reservation tables stay well formed: the unique keys are unique, every amount is positive
  and at most what was held, a pending row holds exactly what it reserved, a settled row records
  the sum of its components, and the ledger entries of a reservation, refund included, add up to
  what it held as soon as it is settled and to nothing before.
\<close>

theorem reservation_tables_well_formed:
  assumes "dbOk db" and "(opStep env allows)\<^sup>*\<^sup>* db db'"
  shows "dbOk db'"
  using assms(2,1) by (induction rule: rtranclp_induct) (auto intro: dbOk_step)

theorem reservation_tables_well_formed_witness: "dbOk demoDb \<and> dbOk demoReserved"
  using demo_ok reservation_tables_well_formed [OF demo_ok r_into_rtranclp [of "opStep demoJson (\<lambda>_ _. True)", OF demo_step]]
  by simp

text \<open>
  C34. The reservation operations refine an account book. A reservation is an account that holds
  an amount, has spent part of it, or was freed; every committed operation opens one new account,
  spends from one that holds, frees one that holds, or changes no account. An account that has
  spent or was freed never changes again.
\<close>

theorem reservations_refine_accounts:
  assumes "dbOk db" and "opStep env allows db db'"
  shows "account db' = account db
    \<or> (\<exists>key n. hold key n (account db) = Some (account db'))
    \<or> (\<exists>key n. spend key n (account db) = Some (account db'))
    \<or> (\<exists>key. free key (account db) = Some (account db'))"
  using assms by (rule step_refines)

theorem reservations_refine_accounts_witness:
  "account demoReserved \<noteq> account demoDb
   \<and> ((\<exists>key n. hold key n (account demoDb) = Some (account demoReserved))
      \<or> (\<exists>key n. spend key n (account demoDb) = Some (account demoReserved))
      \<or> (\<exists>key. free key (account demoDb) = Some (account demoReserved)))"
proof -
  have "account demoReserved ''r1'' \<noteq> account demoDb ''r1''" by code_simp
  then have "account demoReserved \<noteq> account demoDb" by auto
  with reservations_refine_accounts [OF demo_ok demo_step] show ?thesis by blast
qed

section \<open>Settlement, release and replay\<close>

text \<open>A pending reservation of 60 whose transaction has a final receipt.\<close>

definition demoRow :: ReservationRow where
  "demoRow = (legacyRow (demoRequest ''r1'' 60) ''fp'' ''day'' 2000)
     \<lparr>rv_executionId := Some ''e1'', rv_intentId := Some ''i1'', rv_chainProfileId := Some ''c'',
      rv_mintValueWei := 50, rv_l2GasWei := 10, rv_mintClass := PaidMint\<rparr>"

definition demoSubmitted :: Db where
  "demoSubmitted = demoDb\<lparr>db_reservations := [demoRow],
     db_intents := [\<lparr>in_id = ''i1'', in_walletId = ''w'', in_campaignId = ''k'', in_chainProfileId = Some ''c'', in_valueWei = 50,
        in_idempotencyKey = None, in_requestId = None, in_fingerprint = None, in_runId = None\<rparr>],
     db_attempts := [\<lparr>at_id = ''a1'', at_intentId = ''i1'', at_executionId = Some ''e1'', at_txHash = Some ''0xh''\<rparr>],
     db_receipts := [\<lparr>rc_id = ''x1'', rc_attemptId = ''a1'', rc_executionId = Some ''e1'', rc_status = ''confirmed'',
        rc_finalityStage = ''ethereum_final'', rc_observedAt = ''2026''\<rparr>]\<rparr>"

definition demoParts :: "wei \<Rightarrow> wei \<Rightarrow> SettlementComponents" where
  "demoParts mint gas = \<lparr>sc_mintValueWei = mint, sc_l2GasWei = gas, sc_l1GasWei = 0, sc_priorityWei = None,
     sc_replacementWei = None, sc_receiptId = Some ''x1'', sc_reconciliationId = None\<rparr>"

definition demoSettled :: Db where
  "demoSettled = snd (settleExecutionComponents (\<lambda>_ _. True) ''r1'' (demoParts 50 7) (Some 3000) demoSubmitted)"

lemma demo_settle:
  "settleExecutionComponents (\<lambda>_ _. True) ''r1'' (demoParts 50 7) (Some 3000) demoSubmitted = (Inr (), demoSettled)"
  by code_simp



text \<open>
  A reservation with a submitted transaction is never given back. Releasing or expiring succeeds
  only for a pending reservation, and only when no attempt is recorded for its execution (or, if
  it has none, for its intent); the account is freed and no ledger entry is written.
\<close>

theorem release_needs_no_attempt:
  assumes "dbOk db" and "transition allows key st moment db = (Inr u, db')" and "st \<in> {Released, Expired}"
  shows "\<exists>row. reservedRow key db = Some row
    \<and> (truthy (rv_executionId row) \<longrightarrow> (\<forall>a \<in> set (db_attempts db). at_executionId a \<noteq> rv_executionId row))
    \<and> (\<not> truthy (rv_executionId row) \<and> truthy (rv_intentId row) \<longrightarrow>
         (\<forall>a \<in> set (db_attempts db). Some (at_intentId a) \<noteq> rv_intentId row))
    \<and> account db' = (account db)(key \<mapsto> Freed) \<and> db_ledger db' = db_ledger db"
  using assms(2)
proof (rule transition_outcome)
  fix row t
  assume closed: "closedRow key row (transitionRow st t) (if st = Settled then [totalEntry key row t] else []) db db'"
    and "st \<in> {Released, Expired} \<Longrightarrow> attemptCount row db = 0"
  with assms(3) have count: "attemptCount row db = 0" by blast
  have "account db' = (account db)(key \<mapsto> Freed)"
    using account_close [OF assms(1) closed] assms(3) by (auto simp: transitionRow_def accountOf_def)
  moreover have "reservedRow key db = Some row" "db_ledger db' = db_ledger db"
    using closed assms(3) by (auto simp: closedRow_def)
  ultimately show ?thesis using count
    by (auto simp: attemptCount_def filter_empty_conv split: if_splits)
qed

theorem release_needs_no_attempt_witness:
  "\<exists>db'. transition (\<lambda>_ _. True) ''r1'' Released (Some 3000) demoReserved = (Inr (), db')
     \<and> account db' ''r1'' = Some Freed"
proof -
  have ok: "dbOk demoReserved" by code_simp
  let ?db = "snd (transition (\<lambda>_ _. True) ''r1'' Released (Some 3000) demoReserved)"
  have run: "transition (\<lambda>_ _. True) ''r1'' Released (Some 3000) demoReserved = (Inr (), ?db)" by code_simp
  from release_needs_no_attempt [OF ok run] have "account ?db ''r1'' = Some Freed" by auto
  with run show ?thesis by blast
qed

text \<open>
  A settlement of nothing is refused. The schema demands a positive \<^verbatim>\<open>amount_wei\<close>, and a
  settlement stores the settled total there; so a reservation whose actual cost is zero, for
  example one whose transaction was dropped, cannot be settled and stays pending.
\<close>

theorem zero_settlement_refused:
  assumes "sum_list (settlementParts comps) = 0"
  shows "\<exists>e. settleExecutionComponents allows key comps moment db = (Inl e, db)"
proof (cases "settleExecutionComponentsInTransaction allows key comps moment db")
  case (Inl e)
  then show ?thesis by (simp add: settleExecutionComponents_def)
next
  case (Inr r)
  obtain u db' where "r = (u, db')" by (cases r)
  with Inr have "settleExecutionComponentsInTransaction allows key comps moment db = Inr (u, db')" by simp
  then have False
    by (rule settle_outcome) (use assms in \<open>simp add: closedRow_def settledRow_def\<close>)
  then show ?thesis ..
qed

theorem zero_settlement_refused_witness:
  "(\<exists>e. settleExecutionComponents (\<lambda>_ _. True) ''r1'' (demoParts 0 0) (Some 3000) demoSubmitted = (Inl e, demoSubmitted))
   \<and> settleExecutionComponents (\<lambda>_ _. True) ''r1'' (demoParts 50 7) (Some 3000) demoSubmitted = (Inr (), demoSettled)"
proof -
  have "sum_list (settlementParts (demoParts 0 0)) = 0" by code_simp
  from zero_settlement_refused [OF this] demo_settle show ?thesis by blast
qed

lemma reserveFresh_row:
  assumes "reserveFresh allows q moment cap fp day db = Inr (s, db')"
  shows "\<exists>row w. s = Reserved \<and> rv_idempotencyKey row = rq_idempotencyKey q \<and> rv_fingerprint row = Some fp
           \<and> rv_status row = Reserved
           \<and> db' = db\<lparr>db_watermark := w, db_reservations := db_reservations db @ [row]\<rparr>"
proof -
  from assms obtain db1 created where
    clock: "assertAndAdvanceAdmissionClock moment db = Inr db1" and
    ins: "insertReservation allows (legacyRow q fp day created) db1 = Inr db'" and s: "s = Reserved"
    by (auto simp: reserveFresh_def bindR_eq_Inr simp del: toISOString_Inr)
  from clock obtain w where "db1 = db\<lparr>db_watermark := w\<rparr>" by (rule clock_advances) blast
  with ins s show ?thesis
    by (intro exI [of _ "legacyRow q fp day created"] exI [of _ w]) (simp add: insertReservation_Inr legacyRow_def)
qed

text \<open>
  Retrying a reservation is safe. Once a request with a given time has been accepted, sending
  the same request again, at any later moment and under any triggers, answers with the same
  status and leaves the database exactly as it is: nothing is reserved twice.
\<close>

theorem reserve_is_idempotent:
  assumes "reserve env allows now q db = (Inr s, db')" and "rq_at q = Some moment"
  shows "reserve env allows' now' q db' = (Inr s, db')"
proof -
  have moment: "momentOf n (rq_at q) = moment" for n using assms(2) by (simp add: momentOf_def)
  from assms(1) have pre: "\<not> rq_amountWei q < 0" "rq_amountWei q \<noteq> 0" "rq_idempotencyKey q \<noteq> []"
    and tx: "reserveTx env allows q moment db = Inr (s, db')"
    by (auto simp: reserve_def bindS_eq_Inr nonNegative_def moment split: if_splits)
  have retry: "reserveTx env allows' q moment db' = Inr (s, db')"
  proof (cases "db' = db \<and> reservationByKey (rq_idempotencyKey q) db \<noteq> None")
    case True
    with tx show ?thesis by (auto simp: reserveTx_def bindR_eq_Inr replayOr_Inr split: option.splits)
  next
    case False
    from tx obtain policy day computed where
      kill: "\<not> isKillSwitchEngaged db" and
      execution: "truthy (rq_executionId q) \<longrightarrow>
         (case find (\<lambda>e. Some (ex_id e) = rq_executionId q) (db_executions db) of
            None \<Rightarrow> False | Some e \<Rightarrow> ex_walletId e = rq_walletId q)" and
      policy: "activePolicy (rq_policyId q) (rq_walletId q) db = Some policy" and
      day: "policyUsageDate env moment (sp_timezone policy) = Inr day" and
      computed: "digest env (JObj
                   [(''walletId'', JStr (rq_walletId q)),
                    (''executionId'', jsonOption (rq_executionId q)),
                    (''policyId'', JStr (rq_policyId q)),
                    (''amountWei'', JStr (show_int (rq_amountWei q))),
                    (''usageDate'', JStr day),
                    (''timezone'', JStr (sp_timezone policy))]) = Inr computed" and
      rest: "replayOr (rq_idempotencyKey q) computed (rq_fingerprint q)
              (reserveFresh allows q moment (sp_dailyCapWei policy) computed day) db = Inr (s, db')"
      by (auto simp: reserveTx_def bindR_eq_Inr split: option.splits)
    from rest False have none: "reservationByKey (rq_idempotencyKey q) db = None"
      and fp: "rq_fingerprint q = None \<or> rq_fingerprint q = Some computed"
      and fresh: "reserveFresh allows q moment (sp_dailyCapWei policy) computed day db = Inr (s, db')"
      by (auto simp: replayOr_Inr split: option.splits)
    from reserveFresh_row [OF fresh] obtain row w where s: "s = Reserved" and
      row: "rv_idempotencyKey row = rq_idempotencyKey q" "rv_fingerprint row = Some computed" "rv_status row = Reserved" and
      db': "db' = db\<lparr>db_watermark := w, db_reservations := db_reservations db @ [row]\<rparr>" by blast
    have "reservationByKey (rq_idempotencyKey q) db' = Some row"
      using none row by (simp add: reservationByKey_def db' find_append)
    then have "replayOr (rq_idempotencyKey q) computed (rq_fingerprint q)
        (reserveFresh allows' q moment (sp_dailyCapWei policy) computed day) db' = Inr (s, db')"
      using fp row s by (simp add: replayOr_Inr)
    then show ?thesis
      using kill execution policy day computed
      by (simp add: reserveTx_def db' isKillSwitchEngaged_def activePolicy_def bindR_eq_Inr)
  qed
  with pre show ?thesis by (simp add: reserve_def bindS_eq_Inr nonNegative_def moment)
qed

theorem reserve_is_idempotent_witness:
  "let q = (demoRequest ''r1'' 60)\<lparr>rq_at := Some (Some 2000)\<rparr>;
       db' = snd (reserve demoJson (\<lambda>_ _. True) 5 q demoDb)
   in reserve demoJson (\<lambda>_ _. True) 5 q demoDb = (Inr Reserved, db')
      \<and> reserve demoJson (\<lambda>_ _. False) 900 q db' = (Inr Reserved, db')"
proof -
  let ?q = "(demoRequest ''r1'' 60)\<lparr>rq_at := Some (Some 2000)\<rparr>"
  let ?db = "snd (reserve demoJson (\<lambda>_ _. True) 5 ?q demoDb)"
  have first: "reserve demoJson (\<lambda>_ _. True) 5 ?q demoDb = (Inr Reserved, ?db)" by code_simp
  have "rq_at ?q = Some (Some 2000)" by simp
  from reserve_is_idempotent [OF first this, of "\<lambda>_ _. False" 900] first show ?thesis by (simp add: Let_def)
qed

end
