(* ===== verification/FleetAdmission.thy ===== *)
theory FleetAdmission
  imports CanonicalStore SpendSafety
begin

text \<open>
  What the canonical store guarantees. The caps of the fleet hold through every sequence of live
  admissions, settlements and closed runs; an accepted admission passed every gate; closing a run
  never gives back money of a transaction that may have been sent.
\<close>

section \<open>What the preparing steps leave alone\<close>

definition framed :: "Db \<Rightarrow> Db \<Rightarrow> bool" where
  "framed db db' \<longleftrightarrow>
     db_reservations db' = db_reservations db \<and> db_watermark db' = db_watermark db
     \<and> db_campaignProfile db' = db_campaignProfile db \<and> db_attempts db' = db_attempts db
     \<and> (\<exists>xs. db_chainProfiles db' = db_chainProfiles db @ xs)"

lemma framed_refl [simp]: "framed db db"
  by (simp add: framed_def)

lemma framed_trans [trans]: "framed a b \<Longrightarrow> framed b c \<Longrightarrow> framed a c"
  by (auto simp: framed_def)

lemma framed_audit: "recordAudit env t i s db = Inr db' \<Longrightarrow> framed db db'"
  by (auto simp: recordAudit_def Let_def framed_def split: if_splits)

lemma framed_policy: "ensureSpendPolicy env w c db = Inr db' \<Longrightarrow> framed db db'"
  by (auto simp: ensureSpendPolicy_def Let_def framed_def split: if_splits)

lemma framed_wallet: "ensureWallet env p a c db = Inr (w, db') \<Longrightarrow> framed db db'"
proof -
  assume wallet: "ensureWallet env p a c db = Inr (w, db')"
  show ?thesis
  proof (cases "find (\<lambda>w. wl_chainProfileId w = p \<and> toLowerCase (wl_address w) = toLowerCase a) (db_wallets db)")
    case (Some x)
    with wallet show ?thesis by (auto simp: ensureWallet_def bindR_eq_Inr dest: framed_policy)
  next
    case None
    with wallet obtain row where "ensureSpendPolicy env w c (db\<lparr>db_wallets := db_wallets db @ [row]\<rparr>) = Inr db'"
      by (auto simp: ensureWallet_def bindR_eq_Inr Let_def split: if_splits)
    then have "framed (db\<lparr>db_wallets := db_wallets db @ [row]\<rparr>) db'" by (rule framed_policy)
    then show ?thesis by (simp add: framed_def)
  qed
qed

lemma framed_findWallet: "findWallet env c a db = Inr (x, db') \<Longrightarrow> framed db db'"
  by (auto simp: findWallet_def bindR_eq_Inr split: option.splits prod.splits dest: framed_wallet)

lemma framed_findWallets: "findWallets env c ws db = Inr (ids, db') \<Longrightarrow> framed db db'"
proof (induction ws arbitrary: ids db db')
  case Nil
  then show ?case by simp
next
  case (Cons w ws)
  then obtain x db1 ids1 where "findWallet env c w db = Inr (x, db1)" "findWallets env c ws db1 = Inr (ids1, db')"
    by (auto simp: bindR_eq_Inr split: prod.splits)
  with Cons.IH show ?case by (meson framed_findWallet framed_trans)
qed

lemma framed_paidWallets: "assertPaidWalletsPerMint env input db = Inr db' \<Longrightarrow> framed db db'"
  by (auto simp: assertPaidWalletsPerMint_def bindR_eq_Inr Let_def split: option.splits prod.splits
      dest: framed_findWallets)

lemma framed_feePolicy: "ensureFeePolicy env p f k db = Inr db' \<Longrightarrow> framed db db'"
  by (auto simp: ensureFeePolicy_def insertFeePolicyRow_def bindR_eq_Inr Let_def framed_def
      split: option.splits if_splits prod.splits)

lemma framed_profile: "ensureEthereumChainProfile env db = Inr db' \<Longrightarrow> framed db db'"
  by (auto simp: ensureEthereumChainProfile_def Let_def framed_def split: option.splits if_splits)

lemma framed_graph: "ensureCampaignGraph env c db = Inr (p, db') \<Longrightarrow> framed db db'"
proof -
  assume "ensureCampaignGraph env c db = Inr (p, db')"
  then obtain db1 where "(if cm_chainId c = 1 then ensureEthereumChainProfile env db else Inr db) = Inr db1"
    and "\<exists>q. ensureFeePolicy env q (cm_feePolicy c) (cm_chainId c) db1 = Inr db'"
    by (auto simp: ensureCampaignGraph_def bindR_eq_Inr split: option.splits)
  then show ?thesis
    by (metis (no_types, lifting) Inr_inject framed_feePolicy framed_profile framed_refl framed_trans)
qed

lemma framed_saveIntent: "saveIntent env c row db = Inr db' \<Longrightarrow> framed db db'"
  by (auto simp: saveIntent_def Let_def bindR_eq_Inr framed_def split: option.splits if_splits)

lemma framed_join: "framed db (joinCampaign c w db)"
  by (simp add: joinCampaign_def framed_def)

lemma framed_intentWallets: "persistIntentWallets env intent p ws db = Inr db' \<Longrightarrow> framed db db'"
proof (induction ws arbitrary: db)
  case Nil
  then show ?case by simp
next
  case (Cons a ws)
  from Cons.prems obtain w db1 where wallet: "ensureWallet env p a (ir_campaignSnapshot intent) db = Inr (w, db1)"
    by (auto simp: Let_def bindR_eq_Inr split: prod.splits)
  have "framed db1 db'"
  proof (cases "find (\<lambda>i. in_id i = intentRowId env (ir_id intent) a) (db_intents db1)")
    case (Some i)
    with Cons wallet show ?thesis by (simp add: Let_def bindR_eq_Inr)
  next
    case None
    with Cons.prems wallet obtain db2 row db3 db4 where
      "ensureSpendPolicy env w (ir_campaignSnapshot intent) db1 = Inr db2"
      "saveIntent env (ir_campaignSnapshot intent) row (joinCampaign (cm_id (ir_campaignSnapshot intent)) w db2) = Inr db3"
      "recordAudit env ''transaction_intent'' (in_id row) ''prepared'' db3 = Inr db4"
      "persistIntentWallets env intent p ws db4 = Inr db'"
      by (auto simp: Let_def bindR_eq_Inr)
    then show ?thesis
      by (meson Cons.IH framed_policy framed_join framed_saveIntent framed_audit framed_trans)
  qed
  with framed_wallet [OF wallet] show ?case by (rule framed_trans)
qed

lemma framed_intent: "persistIntent env intent db = Inr db' \<Longrightarrow> framed db db'"
  by (auto simp: persistIntent_def bindR_eq_Inr split: prod.splits
      dest: framed_graph framed_intentWallets intro: framed_trans)

lemma framed_saveExecution: "saveExecution env row db = Inr db' \<Longrightarrow> framed db db'"
  by (auto simp: saveExecution_def framed_def split: option.splits if_splits)

lemma framed_execution: "ensureExecution env input a w i db = Inr db' \<Longrightarrow> framed db db'"
  by (auto simp: ensureExecution_def Let_def bindR_eq_Inr split: if_splits
      dest: framed_saveExecution framed_audit intro: framed_trans)

lemma framed_link: "linkExecution env e r db = Inr db' \<Longrightarrow> framed db db'"
  by (auto simp: linkExecution_def framed_def split: option.splits if_splits)

lemma framed_run: "updateRunState env i s run db = Inr db' \<Longrightarrow> framed db db'"
  by (auto simp: updateRunState_def Let_def framed_def recordAudit_def split: if_splits)

lemmas framed_steps = framed_audit framed_findWallet framed_paidWallets framed_intent framed_execution framed_link framed_run

section \<open>The exposure of the fleet\<close>

text \<open>Rows record what they reserved, and their chain profile is stored.\<close>

definition rowSound :: "Db \<Rightarrow> ReservationRow \<Rightarrow> bool" where
  "rowSound db r \<longleftrightarrow>
     (case rv_reservedWei r of None \<Rightarrow> False | Some n \<Rightarrow> 0 \<le> n)
     \<and> (case rv_chainProfileId r of None \<Rightarrow> True | Some p \<Rightarrow> list_ex (\<lambda>c. cp_id c = p) (db_chainProfiles db))"

definition fleetOk :: "Db \<Rightarrow> bool" where
  "fleetOk db \<longleftrightarrow> list_all (rowSound db) (db_reservations db)"

definition inFleet :: "int \<Rightarrow> MintClass \<Rightarrow> int \<Rightarrow> Db \<Rightarrow> ReservationRow \<Rightarrow> bool" where
  "inFleet k m c db r \<longleftrightarrow> rowChain db r = Some k \<and> inWindow c r \<and> ofClass m r"

lemma fleetDailyExposure_inFleet:
  "fleetDailyExposure k m c db = sum_list (map coalesceWei (filter (inFleet k m c db) (db_reservations db)))"
  by (simp add: fleetDailyExposure_def coalescedExposure_def inFleet_def [abs_def])

lemma rowChain_framed:
  assumes "framed db db'" and "rowSound db r"
  shows "rowChain db' r = rowChain db r"
proof (cases "rv_chainProfileId r")
  case None
  then show ?thesis by (simp add: rowChain_def)
next
  case (Some p)
  with assms(2) have "find (\<lambda>c. cp_id c = p) (db_chainProfiles db) \<noteq> None"
    by (auto simp: rowSound_def find_None_all list_ex_iff)
  with assms(1) Some show ?thesis by (auto simp: rowChain_def framed_def find_append)
qed

lemma fleetExposure_framed:
  assumes "framed db db'" and "fleetOk db"
  shows "fleetDailyExposure k m c db' = fleetDailyExposure k m c db"
proof -
  have "filter (inFleet k m c db') (db_reservations db) = filter (inFleet k m c db) (db_reservations db)"
    using assms by (intro filter_cong refl) (auto simp: inFleet_def fleetOk_def list_all_iff rowChain_framed)
  with assms(1) show ?thesis by (simp add: fleetDailyExposure_inFleet framed_def)
qed

lemma fleetOk_framed:
  assumes "framed db db'" and "fleetOk db"
  shows "fleetOk db'"
  using assms by (force simp: fleetOk_def list_all_iff rowSound_def framed_def split: option.splits)

lemma profile_framed:
  assumes "framed db db'" and "chainProfileForCampaign c db = Some p"
  shows "chainProfileForCampaign c db' = Some p"
  using assms by (auto simp: chainProfileForCampaign_def framed_def find_append Option.bind_eq_Some_conv)

text \<open>
  One step of an admission either leaves the exposure of a chain and class alone, or brings it to
  at most the cap at the cutoff of the admission.
\<close>

definition fleetStep :: "int \<Rightarrow> MintClass \<Rightarrow> int \<Rightarrow> wei \<Rightarrow> Db \<Rightarrow> Db \<Rightarrow> bool" where
  "fleetStep k m c cap db db' \<longleftrightarrow>
     fleetOk db' \<and> db_watermark db' = db_watermark db
     \<and> ((\<forall>x. fleetDailyExposure k m x db' = fleetDailyExposure k m x db) \<or> fleetDailyExposure k m c db' \<le> cap)"

lemma fleetStep_framed: "framed db db' \<Longrightarrow> fleetOk db \<Longrightarrow> fleetStep k m c cap db db'"
  by (simp add: fleetStep_def fleetOk_framed fleetExposure_framed) (simp add: framed_def)

lemma fleetStep_trans: "fleetStep k m c cap a b \<Longrightarrow> fleetStep k m c cap b d \<Longrightarrow> fleetStep k m c cap a d"
  by (auto simp: fleetStep_def)

definition fleetLimit :: "FleetSpendPolicy option \<Rightarrow> int \<Rightarrow> MintClass \<Rightarrow> wei" where
  "fleetLimit fp k m =
     (case (if k = 8453 then Some BASE_PERSONAL_LIVE_FLEET_POLICY else fp) of
        None \<Rightarrow> 0
      | Some p \<Rightarrow> fleetCap k m p)"

lemma inFleet_reservations [simp]: "inFleet k m c (db\<lparr>db_reservations := rs\<rparr>) = inFleet k m c db"
  by (simp add: inFleet_def [abs_def] rowChain_def)

lemma rowSound_reservations [simp]: "rowSound (db\<lparr>db_reservations := rs\<rparr>) = rowSound db"
  by (simp add: rowSound_def fun_eq_iff split: option.split)

text \<open>Inserting the row of an admitted wallet.\<close>

lemma reserveWallet_step:
  assumes ok: "fleetOk db"
    and profile: "chainProfileForCampaign (cm_id (ai_campaign input)) db = Some p" "cp_id p = profileId"
      "cp_chainId p = cm_chainId (ai_campaign input)"
    and quantity: "isSafeInteger (cm_quantity (ai_campaign input))" "\<not> js_lt (cm_quantity (ai_campaign input)) (jint 1)"
      "0 \<le> cm_mintPriceWei (ai_campaign input)"
    and policy: "fleetPolicyFor env (cm_chainId (ai_campaign input)) \<noteq> None"
    and m: "m \<in> {FreeMint, PaidMint}"
    and run: "reserveWallet env input a wallet walletId profileId prior db = Inr db'"
  shows "fleetStep k m (ad_cutoff a) (fleetLimit (ce_fleetPolicy env) k m) db db'"
proof -
  let ?campaign = "ai_campaign input"
  from run obtain q fee where
    cap: "assertFleetDailyCap env (cm_chainId ?campaign) (fleetClass ?campaign) (ad_cutoff a) (ad_amountWei a) db = Inr ()" and
    q: "bigIntOf (cm_quantity ?campaign) = Inr q" and
    ins: "insertReservation (ce_allows env) (canonicalRow env input a wallet walletId profileId fee q) db = Inr db'"
    by (auto simp: reserveWallet_def Let_def bindR_eq_Inr split: option.splits)
  define row where "row = canonicalRow env input a wallet walletId profileId fee q"
  have db': "db' = db\<lparr>db_reservations := db_reservations db @ [row]\<rparr>" and pos: "0 < ad_amountWei a"
    using ins by (auto simp: insertReservation_Inr row_def canonicalRow_def Let_def)
  have row: "coalesceWei row = ad_amountWei a" "rv_status row = Reserved" "rv_chainProfileId row = Some profileId"
    "rv_mintValueWei row = cm_mintPriceWei ?campaign * q" "rv_reservedWei row = Some (ad_amountWei a)"
    by (simp_all add: row_def canonicalRow_def Let_def coalesceWei_def)
  have found: "find (\<lambda>c. cp_id c = profileId) (db_chainProfiles db) = Some p"
    using profile by (auto simp: chainProfileForCampaign_def Option.bind_eq_Some_conv dest: find_Some_in)
  then have sound: "rowSound db row"
    using row pos find_Some_in [OF found] by (auto simp: rowSound_def list_ex_iff)
  have "1 \<le> q" using q quantity by (auto simp: bigIntOf_def isSafeInteger_jint split: if_splits)
  then have classIff: "ofClass m row \<longleftrightarrow> m = fleetClass ?campaign"
    using m row quantity(3) by (auto simp: ofClass_def fleetClass_def zero_less_mult_iff)
  have chain: "rowChain db row = Some (cm_chainId ?campaign)"
    using found row profile by (simp add: rowChain_def)
  have member: "inFleet k m c db row \<longleftrightarrow> k = cm_chainId ?campaign \<and> m = fleetClass ?campaign" for c
    using chain classIff row by (auto simp: inFleet_def inWindow_def)
  have grown: "fleetDailyExposure k m c db' = fleetDailyExposure k m c db
      + (if k = cm_chainId ?campaign \<and> m = fleetClass ?campaign then ad_amountWei a else 0)" for c
    using member row by (simp add: fleetDailyExposure_inFleet db')
  have "fleetOk db'" using ok sound by (simp add: fleetOk_def db')
  moreover have "fleetDailyExposure k m (ad_cutoff a) db' \<le> fleetLimit (ce_fleetPolicy env) k m"
    if "k = cm_chainId ?campaign" "m = fleetClass ?campaign"
    using cap policy that grown [of "ad_cutoff a"]
    by (auto simp: assertFleetDailyCap_def fleetLimit_def fleetPolicyFor_def split: option.splits if_splits)
  ultimately show ?thesis using grown by (auto simp: fleetStep_def db')
qed

lemma admitCanonical_step:
  assumes ok: "fleetOk (as_db s)"
    and profile: "chainProfileForCampaign (cm_id (ai_campaign input)) (as_db s) = Some p"
      "cp_chainId p = cm_chainId (ai_campaign input)"
    and quantity: "isSafeInteger (cm_quantity (ai_campaign input))" "\<not> js_lt (cm_quantity (ai_campaign input)) (jint 1)"
      "0 \<le> cm_mintPriceWei (ai_campaign input)"
    and policy: "fleetPolicyFor env (cm_chainId (ai_campaign input)) \<noteq> None"
    and m: "m \<in> {FreeMint, PaidMint}"
    and run: "admitWallet env input a wallet s = Inr s'"
  shows "fleetStep k m (ad_cutoff a) (fleetLimit (ce_fleetPolicy env) k m) (as_db s) (as_db s')"
    and "chainProfileForCampaign (cm_id (ai_campaign input)) (as_db s') = Some p"
proof -
  from run obtain walletId profileId db1 db2 db3 where
    found: "findWallet env (ai_campaign input) wallet (as_db s) = Inr ((walletId, profileId), db1)" and
    execution: "ensureExecution env input a wallet walletId db1 = Inr db2" and
    reserved: "reserveWallet env input a wallet walletId profileId (as_runExposure s) db2 = Inr db3 \<or> db3 = db2" and
    link: "linkExecution env (executionIdFor env (ad_runId a) wallet) (reservationIdFor env (ad_runId a) wallet) db3 = Inr (as_db s')"
    by (auto simp: admitWallet_def Let_def bindR_eq_Inr split: prod.splits option.splits) blast+
  let ?limit = "fleetLimit (ce_fleetPolicy env) k m"
  have f2: "framed (as_db s) db2" using found execution by (meson framed_steps framed_trans)
  then have ok2: "fleetOk db2" and p2: "chainProfileForCampaign (cm_id (ai_campaign input)) db2 = Some p"
    using ok profile by (auto intro: fleetOk_framed profile_framed)
  have pid: "cp_id p = profileId"
    using found profile by (auto simp: findWallet_def bindR_eq_Inr split: prod.splits)
  have step3: "fleetStep k m (ad_cutoff a) ?limit db2 db3 \<and> chainProfileForCampaign (cm_id (ai_campaign input)) db3 = Some p"
    using reserved
  proof
    assume run: "reserveWallet env input a wallet walletId profileId (as_runExposure s) db2 = Inr db3"
    have "chainProfileForCampaign (cm_id (ai_campaign input)) db3 = Some p"
      using run p2 by (auto simp: reserveWallet_def Let_def bindR_eq_Inr insertReservation_Inr chainProfileForCampaign_def
          split: option.splits)
    with reserveWallet_step [OF ok2 p2 pid profile(2) quantity policy m run] show ?thesis by simp
  next
    assume "db3 = db2"
    with p2 ok2 show ?thesis by (simp add: fleetStep_framed)
  qed
  have f4: "framed db3 (as_db s')" using link by (rule framed_link)
  show "fleetStep k m (ad_cutoff a) ?limit (as_db s) (as_db s')"
    using fleetStep_framed [OF f2 ok] step3 fleetStep_framed [OF f4] by (meson fleetStep_trans fleetStep_def)
  show "chainProfileForCampaign (cm_id (ai_campaign input)) (as_db s') = Some p"
    using step3 f4 by (blast intro: profile_framed)
qed

lemma admitCanonicals_step:
  assumes "fleetOk (as_db s)"
    and "chainProfileForCampaign (cm_id (ai_campaign input)) (as_db s) = Some p"
      "cp_chainId p = cm_chainId (ai_campaign input)"
    and "isSafeInteger (cm_quantity (ai_campaign input))" "\<not> js_lt (cm_quantity (ai_campaign input)) (jint 1)"
      "0 \<le> cm_mintPriceWei (ai_campaign input)"
    and "fleetPolicyFor env (cm_chainId (ai_campaign input)) \<noteq> None"
    and "m \<in> {FreeMint, PaidMint}"
    and "admitWallets env input a ws s = Inr s'"
  shows "fleetStep k m (ad_cutoff a) (fleetLimit (ce_fleetPolicy env) k m) (as_db s) (as_db s')"
  using assms
proof (induction ws arbitrary: s)
  case Nil
  then show ?case by (simp add: fleetStep_framed)
next
  case (Cons w ws)
  from Cons.prems(9) obtain s1 where s1: "admitWallet env input a w s = Inr s1" "admitWallets env input a ws s1 = Inr s'"
    by (auto simp: bindR_eq_Inr)
  note first = admitCanonical_step [OF Cons.prems(1-8) s1(1)]
  have "fleetOk (as_db s1)" using first(1) by (simp add: fleetStep_def)
  from Cons.IH [OF this first(2) Cons.prems(3-8) s1(2)] first(1) show ?case by (meson fleetStep_trans)
qed

section \<open>A live admission\<close>

lemma watermark_neutral [simp]:
  "fleetOk (db\<lparr>db_watermark := w\<rparr>) = fleetOk db"
  "fleetDailyExposure k m c (db\<lparr>db_watermark := w\<rparr>) = fleetDailyExposure k m c db"
  "chainProfileForCampaign i (db\<lparr>db_watermark := w\<rparr>) = chainProfileForCampaign i db"
  by (simp_all add: fleetOk_def list_all_iff rowSound_def fleetDailyExposure_def coalescedExposure_def rowChain_def
      chainProfileForCampaign_def split: option.split)

text \<open>What an accepted admission checked before its transaction began.\<close>

lemma admitExecution_Inr:
  "admitExecution env input db = (Inr r, db') \<longleftrightarrow>
     ai_wallets input \<noteq> [] \<and> distinctLower (ai_wallets input) = length (ai_wallets input)
     \<and> rr_state (ai_run input) = CArmed
     \<and> ir_runId (ai_intent input) = rr_id (ai_run input)
     \<and> ir_campaignId (ai_intent input) = cm_id (ai_campaign input) \<and> rr_campaignId (ai_run input) = cm_id (ai_campaign input)
     \<and> list_all (\<lambda>w. toLowerCase w \<in> toLowerCase ` set (ir_wallets (ai_intent input))) (ai_wallets input)
     \<and> (cm_chainId (ai_campaign input) = 4663 \<and> cf_kind (cm_feePolicy (ai_campaign input)) = PaidKind \<longrightarrow>
          assertRobinhoodLiveAllowed PaidKind (latestRobinhoodEnablement db) (ce_now env) = Inr ())
     \<and> (cm_chainId (ai_campaign input) = 8453 \<longrightarrow>
          assertBaseLiveAllowed (cf_kind (cm_feePolicy (ai_campaign input))) (latestBaseEnablement db) (ce_now env) = Inr ())
     \<and> rr_requestDigest (ai_run input) = runFingerprint env (rr_id (ai_run input)) db
     \<and> assertFleetRunLimits env input = Inr ()
     \<and> admissionBody env input (runFingerprint env (rr_id (ai_run input)) db) db = Inr (r, db')"
  by (auto simp: admitExecution_def Let_def bindS_eq_Inr split: if_splits)

lemma fleetRunLimits_live:
  assumes "assertFleetRunLimits env input = Inr ()" and "rr_mode (ai_run input) = Live"
  shows "fleetPolicyFor env (cm_chainId (ai_campaign input)) \<noteq> None"
    and "isSafeInteger (cm_quantity (ai_campaign input))" and "\<not> js_lt (cm_quantity (ai_campaign input)) (jint 1)"
    and "0 \<le> cm_mintPriceWei (ai_campaign input)"
  using assms by (auto simp: assertFleetRunLimits_def Let_def bindR_eq_Inr split: option.splits)

lemma admissionBody_Inr:
  assumes "admissionBody env input f db = Inr (r, db')" and "rr_mode (ai_run input) = Live"
  obtains db1 db2 db3 cutoff created amount s db4 where
    "\<not> isKillSwitchEngaged db" "assertCanonicalChainProfile env (ai_campaign input) db = Inr ()"
    "rollingSpendCutoff (ce_now env) = Inr cutoff"
    "assertAndAdvanceAdmissionClock (ce_now env) db = Inr db1"
    "assertNoStalePendingReservations db1 (ce_now env) = Inr ()"
    "cm_chainId (ai_campaign input) = 8453 \<longrightarrow>
       assertBaseFirstRehearsal (baseCompleted db1) (\<not> baseCompleted db1 \<and> baseOutstanding db1)
         (length (ai_wallets input)) (cm_quantity (ai_campaign input)) = Inr ()"
    "(if fleetClass (ai_campaign input) = PaidMint then assertPaidWalletsPerMint env input db1 else Inr db1) = Inr db2"
    "persistIntent env (ai_intent input) db2 = Inr db3"
    "exposure (ai_campaign input) = Inr amount" "0 < amount"
    "admitWallets env input
       \<lparr>ad_runId = rr_id (ai_run input), ad_fingerprint = f, ad_amountWei = amount, ad_cutoff = cutoff,
        ad_created = created, ad_usageDate = take 10 (ce_nowText env)\<rparr> (ai_wallets input)
       \<lparr>as_db = db3, as_runExposure = runExposure (rr_id (ai_run input)) db3, as_reservations = [], as_executions = []\<rparr> = Inr s"
    "updateRunState env (rr_id (ai_run input)) ''active'' (ai_run input) (as_db s) = Inr db4"
    "recordAudit env ''execution_run'' (rr_id (ai_run input)) ''active'' db4 = Inr db'"
    "ca_executions r = as_executions s" "ca_reservations r = as_reservations s"
  using assms
  by (auto simp: admissionBody_def Let_def bindR_eq_Inr simp del: toISOString_Inr split: if_splits)

text \<open>
  A live admission of a campaign that is stored under the chain it names, with the fleet policy the
  store was built with.
\<close>

definition campaignStored :: "Campaign \<Rightarrow> Db \<Rightarrow> bool" where
  "campaignStored campaign db \<longleftrightarrow>
     map_option cp_chainId (chainProfileForCampaign (cm_id campaign) db) = Some (cm_chainId campaign)"

definition liveAdmission :: "FleetSpendPolicy option \<Rightarrow> Db \<Rightarrow> Db \<Rightarrow> bool" where
  "liveAdmission fp db db' \<longleftrightarrow>
     (\<exists>env input r. ce_fleetPolicy env = fp \<and> rr_mode (ai_run input) = Live \<and> campaignStored (ai_campaign input) db
        \<and> admitExecution env input db = (Inr r, db'))"

lemma framed_before:
  assumes "(if fleetClass c = PaidMint then assertPaidWalletsPerMint env input db else Inr db) = Inr db1"
    and "persistIntent env intent db1 = Inr db2"
  shows "framed db db2"
  using assms by (auto split: if_splits dest: framed_intent framed_paidWallets intro: framed_trans)

lemma liveAdmission_step:
  assumes ok: "fleetOk db" and m: "m \<in> {FreeMint, PaidMint}" and admission: "liveAdmission fp db db'"
  obtains t w where "db_watermark db' = Some (Some w)" and "t \<le> w"
    and "\<And>p. db_watermark db = Some (Some p) \<Longrightarrow> p \<le> w" and "fleetOk db'"
    and "(\<forall>x. fleetDailyExposure k m x db' = fleetDailyExposure k m x db)
         \<or> fleetDailyExposure k m (t - ROLLING_SPEND_WINDOW_MS) db' \<le> fleetLimit fp k m"
proof -
  from admission obtain env input r where fp: "ce_fleetPolicy env = fp" and live: "rr_mode (ai_run input) = Live"
    and stored: "campaignStored (ai_campaign input) db" and run: "admitExecution env input db = (Inr r, db')"
    by (auto simp: liveAdmission_def)
  from run have limits: "assertFleetRunLimits env input = Inr ()"
    and body: "admissionBody env input (runFingerprint env (rr_id (ai_run input)) db) db = Inr (r, db')"
    by (simp_all add: admitExecution_Inr)
  from body live show ?thesis
  proof (rule admissionBody_Inr)
    fix db1 db2 db3 cutoff created amount s db4
    assume clock: "assertAndAdvanceAdmissionClock (ce_now env) db = Inr db1"
      and cutoff: "rollingSpendCutoff (ce_now env) = Inr cutoff"
      and before: "(if fleetClass (ai_campaign input) = PaidMint then assertPaidWalletsPerMint env input db1 else Inr db1) = Inr db2"
        "persistIntent env (ai_intent input) db2 = Inr db3"
      and wallets: "admitWallets env input
           \<lparr>ad_runId = rr_id (ai_run input), ad_fingerprint = runFingerprint env (rr_id (ai_run input)) db,
            ad_amountWei = amount, ad_cutoff = cutoff, ad_created = created, ad_usageDate = take 10 (ce_nowText env)\<rparr>
           (ai_wallets input)
           \<lparr>as_db = db3, as_runExposure = runExposure (rr_id (ai_run input)) db3, as_reservations = [], as_executions = []\<rparr>
           = Inr s"
      and after: "updateRunState env (rr_id (ai_run input)) ''active'' (ai_run input) (as_db s) = Inr db4"
        "recordAudit env ''execution_run'' (rr_id (ai_run input)) ''active'' db4 = Inr db'"
    from clock obtain t w where tw: "ce_now env = Some t" "db1 = db\<lparr>db_watermark := Some (Some w)\<rparr>" "t \<le> w"
      "\<And>p. db_watermark db = Some (Some p) \<Longrightarrow> p \<le> w"
      by (rule clock_advances) blast
    from cutoff tw(1) have c: "cutoff = t - ROLLING_SPEND_WINDOW_MS" by (simp add: rollingSpendCutoff_Inr)
    have f1: "framed db1 db3" using before by (rule framed_before)
    have ok1: "fleetOk db1" using ok by (simp add: tw)
    from stored obtain p where p: "chainProfileForCampaign (cm_id (ai_campaign input)) db1 = Some p"
      "cp_chainId p = cm_chainId (ai_campaign input)" by (auto simp: campaignStored_def tw)
    note step = admitCanonicals_step [OF _ _ p(2) fleetRunLimits_live(2-4) [OF limits live] fleetRunLimits_live(1) [OF limits live]
        m wallets, where k = k]
    have "fleetStep k m cutoff (fleetLimit fp k m) db3 (as_db s)"
      using step fleetOk_framed [OF f1 ok1] profile_framed [OF f1 p(1)] fp by simp
    moreover have "framed (as_db s) db'" using after by (meson framed_run framed_audit framed_trans)
    ultimately have all: "fleetStep k m cutoff (fleetLimit fp k m) db1 db'"
      using fleetStep_framed [OF f1 ok1] fleetStep_framed by (meson fleetStep_trans fleetStep_def)
    show ?thesis
      by (rule that [of w t]) (use all tw c in \<open>auto simp: fleetStep_def\<close>)
  qed
qed

section \<open>Steps that close reservations\<close>

text \<open>Rows that are closed keep their amounts, their chain and their class.\<close>

definition closedTo :: "ReservationRow \<Rightarrow> ReservationRow \<Rightarrow> bool" where
  "closedTo r r' \<longleftrightarrow>
     rv_reservedWei r' = rv_reservedWei r \<and> rv_chainProfileId r' = rv_chainProfileId r
     \<and> rv_mintValueWei r' = rv_mintValueWei r \<and> (r' = r \<or> rv_status r = Reserved)"

definition closes :: "Db \<Rightarrow> Db \<Rightarrow> bool" where
  "closes db db' \<longleftrightarrow>
     db_watermark db' = db_watermark db \<and> db_chainProfiles db' = db_chainProfiles db
     \<and> list_all2 closedTo (db_reservations db) (db_reservations db')"

lemma closedTo_refl [simp]: "closedTo r r"
  by (simp add: closedTo_def)

lemma closedTo_trans: "closedTo a b \<Longrightarrow> closedTo b c \<Longrightarrow> closedTo a c"
  by (auto simp: closedTo_def)

lemma closes_refl [simp]: "closes db db"
  by (simp add: closes_def list.rel_refl)

lemma closes_trans: "closes a b \<Longrightarrow> closes b c \<Longrightarrow> closes a c"
proof -
  assume "closes a b" "closes b c"
  moreover have "list_all2 closedTo (db_reservations a) (db_reservations c)" if
    "list_all2 closedTo (db_reservations a) (db_reservations b)" "list_all2 closedTo (db_reservations b) (db_reservations c)"
    using list_all2_trans [OF _ that, of closedTo] closedTo_trans by blast
  ultimately show ?thesis by (simp add: closes_def)
qed

lemma closes_map:
  assumes "\<And>r. closedTo r (g r)" and "db_reservations db' = map g (db_reservations db)"
    and "db_watermark db' = db_watermark db" "db_chainProfiles db' = db_chainProfiles db"
  shows "closes db db'"
  using assms by (simp add: closes_def list_all2_map2 list.rel_refl)

lemma closes_fleetOk:
  assumes "closes db db'" and "fleetOk db"
  shows "fleetOk db'"
proof -
  have "rowSound db' r'" if "rowSound db r" "closedTo r r'" for r r'
    using that assms(1) by (auto simp: rowSound_def closedTo_def closes_def split: option.split)
  moreover have "list_all2 closedTo (db_reservations db) (db_reservations db')"
    using assms(1) by (simp add: closes_def)
  ultimately show ?thesis using assms(2)
    unfolding fleetOk_def by (auto simp: list_all_length list_all2_conv_all_nth)
qed

lemma closes_exposure:
  assumes "closes db db'" and "fleetOk db"
  shows "fleetDailyExposure k m c db' \<le> fleetDailyExposure k m c db"
proof -
  have one: "(if inFleet k m c db' r' then coalesceWei r' else 0) \<le> (if inFleet k m c db r then coalesceWei r else 0)"
    if "closedTo r r'" "rowSound db r" for r r'
  proof -
    from that(2) have "0 \<le> coalesceWei r" by (auto simp: rowSound_def coalesceWei_def split: option.splits)
    moreover have "coalesceWei r' = coalesceWei r"
      using that by (auto simp: closedTo_def coalesceWei_def rowSound_def split: option.splits)
    moreover have "inFleet k m c db r" if "inFleet k m c db' r'"
      using that \<open>closedTo r r'\<close> assms(1)
      by (auto simp: inFleet_def rowChain_def ofClass_def closedTo_def closes_def inWindow_def split: if_splits)
    ultimately show ?thesis by auto
  qed
  have weight: "sum_list (map coalesceWei (filter P rs)) = sum_list (map (\<lambda>r. if P r then coalesceWei r else 0) rs)" for P rs
    by (induction rs) auto
  have "sum_list (map (\<lambda>r. if inFleet k m c db' r then coalesceWei r else 0) rs')
      \<le> sum_list (map (\<lambda>r. if inFleet k m c db r then coalesceWei r else 0) rs)"
    if "list_all2 closedTo rs rs'" "list_all (rowSound db) rs" for rs rs'
    using that by (induction rule: list_all2_induct) (simp_all only: list.simps list.pred_inject sum_list.Cons add_mono one)
  then show ?thesis
    using assms by (simp add: fleetDailyExposure_inFleet weight closes_def fleetOk_def)
qed

lemma closedRow_closes:
  assumes "closedRow key row f entries db db'"
    and "\<And>r. rv_reservedWei (f r) = rv_reservedWei r \<and> rv_chainProfileId (f r) = rv_chainProfileId r
          \<and> rv_mintValueWei (f r) = rv_mintValueWei r"
  shows "closes db db'"
  using assms
  by (intro closes_map [of "\<lambda>r. if rv_id r = key \<and> rv_status r = Reserved then f r else r"])
     (auto simp: closedRow_def closedTo_def)

lemma closes_transition: "transition allows key st moment db = (Inr u, db') \<Longrightarrow> closes db db'"
proof (erule transition_outcome)
  fix row t
  assume "closedRow key row (transitionRow st t) (if st = Settled then [totalEntry key row t] else []) db db'"
  then show "closes db db'" by (rule closedRow_closes) (simp add: transitionRow_def)
qed

lemma settleCanonical_Inr:
  "settleCanonical env key comps db = (Inr u, db') \<Longrightarrow>
     db' = db \<or> settleExecutionComponentsInTransaction (ce_allows env) key comps (ce_now env) db = Inr (u, db')"
  unfolding settleCanonical_def immediate_ok by (cases "find (\<lambda>r. rv_id r = key) (db_reservations db)") (auto split: if_splits)

lemma closes_settle: "settleCanonical env key comps db = (Inr u, db') \<Longrightarrow> closes db db'"
proof (drule settleCanonical_Inr, erule disjE)
  assume "settleExecutionComponentsInTransaction (ce_allows env) key comps (ce_now env) db = Inr (u, db')"
  then show "closes db db'"
  proof (rule settle_outcome)
    fix row chain t
    assume "closedRow key row (settledRow comps t)
      (map (ledgerEntry key row t) (settlementEntries comps (heldWei row - sum_list (settlementParts comps)))) db db'"
    then show "closes db db'" by (rule closedRow_closes) (simp add: settledRow_def)
  qed
qed simp

text \<open>Closing executions gives back their pending rows and nothing else.\<close>

definition givenBack :: "string set \<Rightarrow> ReservationRow \<Rightarrow> ReservationRow \<Rightarrow> bool" where
  "givenBack ids r r' \<longleftrightarrow>
     r' = r \<or> rv_status r = Reserved \<and> r' = r\<lparr>rv_status := Released\<rparr> \<and> rv_executionId r \<in> Some ` ids"

definition releases :: "string set \<Rightarrow> Db \<Rightarrow> Db \<Rightarrow> bool" where
  "releases ids db db' \<longleftrightarrow>
     db_watermark db' = db_watermark db \<and> db_chainProfiles db' = db_chainProfiles db
     \<and> db_attempts db' = db_attempts db \<and> db_ledger db' = db_ledger db
     \<and> list_all2 (givenBack ids) (db_reservations db) (db_reservations db')"

lemma givenBack_trans: "givenBack ids x y \<Longrightarrow> givenBack ids y z \<Longrightarrow> givenBack ids x z"
  by (auto simp: givenBack_def)

lemma releases_same:
  "db_watermark db' = db_watermark db \<Longrightarrow> db_chainProfiles db' = db_chainProfiles db \<Longrightarrow> db_attempts db' = db_attempts db \<Longrightarrow>
   db_ledger db' = db_ledger db \<Longrightarrow> db_reservations db' = db_reservations db \<Longrightarrow> releases ids db db'"
  by (simp add: releases_def list_all2_same givenBack_def)

lemma releases_trans:
  assumes "releases ids a b" and "releases ids b c"
  shows "releases ids a c"
proof -
  have "list_all2 (givenBack ids) (db_reservations a) (db_reservations c)"
    by (rule list_all2_trans [OF givenBack_trans]) (use assms in \<open>auto simp: releases_def\<close>)
  with assms show ?thesis by (simp add: releases_def)
qed

lemma releases_mono:
  assumes "releases ids db db'" and "ids \<subseteq> ids'"
  shows "releases ids' db db'"
proof -
  have "givenBack ids r r' \<Longrightarrow> givenBack ids' r r'" for r r' using assms(2) by (auto simp: givenBack_def)
  with assms(1) show ?thesis by (auto simp: releases_def elim: list_all2_mono)
qed

lemma releases_audit: "recordAudit env t i s db = Inr db' \<Longrightarrow> releases ids db db'"
  by (rule releases_same) (auto simp: recordAudit_def Let_def split: if_splits)

lemma releases_transition: "transitionExecution env e s db = Inr db' \<Longrightarrow> releases ids db db'"
  by (rule releases_same)
     (auto simp: transitionExecution_def recordAudit_def Let_def split: if_splits option.splits)

lemma releases_runs: "abortRuns env chosen db = Inr db' \<Longrightarrow> releases ids db db'"
  by (rule releases_same) (auto simp: abortRuns_def split: if_splits)

lemma releases_execution: "releaseExecution env e db = Inr db' \<Longrightarrow> releases {e} db db'"
  by (auto simp: releaseExecution_def Let_def releases_def givenBack_def list_all2_map2 list_all2_same split: if_splits)

lemma releases_abort: "abortExecution env e s db = Inr db' \<Longrightarrow> releases {e} db db'"
  by (auto simp: abortExecution_def bindR_eq_Inr split: if_splits
      intro: releases_trans dest: releases_transition releases_execution)

lemma releases_aborts: "abortExecutions env es db = Inr db' \<Longrightarrow> releases (ex_id ` set es) db db'"
proof (induction es arbitrary: db)
  case Nil
  then show ?case by (simp add: releases_same)
next
  case (Cons e es)
  from Cons.prems obtain db1 where "abortExecution env (ex_id e) (ex_state e) db = Inr db1" "abortExecutions env es db1 = Inr db'"
    by (auto simp: bindR_eq_Inr)
  then have "releases {ex_id e} db db1" "releases (ex_id ` set es) db1 db'"
    using Cons.IH by (auto intro: releases_abort)
  then show ?case by (auto intro: releases_trans releases_mono)
qed

lemma releases_abortRemaining:
  assumes "abortRemaining env db = (Inr u, db')"
  shows "releases (ex_id ` {e \<in> set (db_executions db). openState (ex_state e) \<and> \<not> submitted db e}) db db'"
proof -
  from assms obtain db1 db2 where
    "abortExecutions env (filter (\<lambda>e. openState (ex_state e) \<and> \<not> submitted db e) (db_executions db)) db = Inr db1"
    "abortRuns env openRun db1 = Inr db2" "recordAudit env ''state_transition'' ''global'' ''aborted'' db2 = Inr db'"
    by (auto simp: abortRemaining_def bindR_eq_Inr)
  then have "releases (ex_id ` set (filter (\<lambda>e. openState (ex_state e) \<and> \<not> submitted db e) (db_executions db))) db db'"
    by (meson releases_aborts releases_runs releases_audit releases_trans)
  then show ?thesis by (simp add: conj_commute)
qed

lemma releases_abortRun:
  assumes "abortRunIfUnsent env runId db = (Inr outcome, db')"
  shows "outcome \<noteq> Closed \<and> db' = db
    \<or> outcome = Closed \<and> list_all (\<lambda>e. ex_runId e = Some runId \<longrightarrow> \<not> attempted db e) (db_executions db)
      \<and> releases (ex_id ` {e \<in> set (db_executions db). ex_runId e = Some runId}) db db'"
proof (cases "find (\<lambda>r. ru_id r = runId) (db_runs db)")
  case None
  with assms show ?thesis by (auto simp: abortRunIfUnsent_def)
next
  case (Some run)
  let ?rows = "filter (\<lambda>e. ex_runId e = Some runId) (db_executions db)"
  show ?thesis
  proof (cases "\<not> openRun run \<or> list_ex (\<lambda>e. attempted db e \<or> ex_state e \<notin> {''prepared'', ''aborted''}) ?rows")
    case True
    with assms Some show ?thesis by (auto simp: abortRunIfUnsent_def Let_def split: if_splits)
  next
    case False
    with assms Some obtain db1 db2 where o: "outcome = Closed" and
      "abortExecutions env ?rows db = Inr db1" "abortRuns env (\<lambda>r. ru_id r = runId) db1 = Inr db2"
      "recordAudit env ''execution_run'' runId ''aborted'' db2 = Inr db'"
      by (auto simp: abortRunIfUnsent_def Let_def bindR_eq_Inr)
    then have "releases (ex_id ` set ?rows) db db'"
      by (meson releases_aborts releases_runs releases_audit releases_trans)
    with False o show ?thesis by (auto simp: list_ex_iff list_all_iff)
  qed
qed

lemma releases_closes: "releases ids db db' \<Longrightarrow> closes db db'"
  unfolding releases_def closes_def
  by (elim conjE) (intro conjI, assumption+, erule list_all2_mono, auto simp: closedTo_def givenBack_def)

section \<open>The caps of the fleet\<close>

inductive storeStep :: "FleetSpendPolicy option \<Rightarrow> Db \<Rightarrow> Db \<Rightarrow> bool" for fp where
  store_admit: "liveAdmission fp db db' \<Longrightarrow> storeStep fp db db'"
| store_settle: "settleCanonical env key comps db = (Inr u, db') \<Longrightarrow> storeStep fp db db'"
| store_transition: "transition allows key st moment db = (Inr u, db') \<Longrightarrow> storeStep fp db db'"
| store_abort: "abortRemaining env db = (Inr u, db') \<Longrightarrow> storeStep fp db db'"
| store_close: "abortRunIfUnsent env runId db = (Inr outcome, db') \<Longrightarrow> storeStep fp db db'"

definition fleetAdmits :: "FleetSpendPolicy option \<Rightarrow> int \<Rightarrow> MintClass \<Rightarrow> Db \<Rightarrow> Db \<Rightarrow> bool" where
  "fleetAdmits fp k m db db' \<longleftrightarrow>
     liveAdmission fp db db' \<and> \<not> (\<forall>x. fleetDailyExposure k m x db' = fleetDailyExposure k m x db)"

definition fleetLowers :: "FleetSpendPolicy option \<Rightarrow> int \<Rightarrow> MintClass \<Rightarrow> Db \<Rightarrow> Db \<Rightarrow> bool" where
  "fleetLowers fp k m db db' \<longleftrightarrow> storeStep fp db db' \<and> \<not> fleetAdmits fp k m db db'"

lemma storeStep_cases:
  assumes "storeStep fp db db'"
  obtains "liveAdmission fp db db'" | "closes db db'"
  using assms
proof cases
  case (store_close env runId outcome)
  with that(2) show ?thesis using releases_abortRun releases_closes closes_refl by blast
qed (use that in \<open>auto dest: closes_settle closes_transition releases_closes releases_abortRemaining\<close>)

lemma fleetExposure_antimono:
  assumes "fleetOk db" and "c \<le> d"
  shows "fleetDailyExposure k m d db \<le> fleetDailyExposure k m c db"
proof -
  have mono: "inFleet k m d db r \<Longrightarrow> inFleet k m c db r" for r
    using assms(2) by (auto simp: inFleet_def intro: inWindow_antimono)
  have nonneg: "0 \<le> coalesceWei r" if "rowSound db r" for r
    using that by (auto simp: rowSound_def coalesceWei_def split: option.splits)
  have "sum_list (map coalesceWei (filter (inFleet k m d db) rs)) \<le> sum_list (map coalesceWei (filter (inFleet k m c db) rs))"
    if "list_all (rowSound db) rs" for rs
    using that by (induction rs) (auto dest: mono nonneg)
  with assms(1) show ?thesis by (simp add: fleetDailyExposure_inFleet fleetOk_def)
qed

lemma fleetAdmits_capped:
  assumes "fleetOk db \<and> m \<in> {FreeMint, PaidMint}" and "fleetAdmits fp k m db db'"
  shows "\<exists>c d. admissionCutoff db' = Some d \<and> c \<le> d \<and> fleetDailyExposure k m c db' \<le> fleetLimit fp k m"
  using assms(1)
proof (elim conjE)
  assume ok: "fleetOk db" and m: "m \<in> {FreeMint, PaidMint}"
  have live: "liveAdmission fp db db'" using assms(2) by (simp add: fleetAdmits_def)
  from ok m live show ?thesis
  proof (rule liveAdmission_step [where k = k])
    fix t w
    assume "db_watermark db' = Some (Some w)" "t \<le> w"
      "(\<forall>x. fleetDailyExposure k m x db' = fleetDailyExposure k m x db)
       \<or> fleetDailyExposure k m (t - ROLLING_SPEND_WINDOW_MS) db' \<le> fleetLimit fp k m"
    with assms(2) show ?thesis by (auto simp: fleetAdmits_def admissionCutoff_def intro!: exI [of _ "t - ROLLING_SPEND_WINDOW_MS"])
  qed
qed

lemma storeStep_clock:
  assumes "fleetOk db" and "storeStep fp db db'"
  shows "fleetOk db' \<and> (\<forall>d. admissionCutoff db = Some d \<longrightarrow> (\<exists>d'. admissionCutoff db' = Some d' \<and> d \<le> d'))"
  using assms(2)
proof (cases rule: storeStep_cases)
  case 1
  from assms(1) _ this show ?thesis
    by (rule liveAdmission_step [where m = FreeMint]) (auto simp: admissionCutoff_def split: option.splits)
next
  case 2
  with assms(1) show ?thesis by (auto simp: closes_def admissionCutoff_def intro: closes_fleetOk)
qed

lemma storeStep_lowers:
  assumes "fleetOk db" and "storeStep fp db db'" and "\<not> fleetAdmits fp k m db db'"
  shows "fleetDailyExposure k m c db' \<le> fleetDailyExposure k m c db"
  using assms(2)
proof (cases rule: storeStep_cases)
  case 1
  with assms(3) show ?thesis by (simp add: fleetAdmits_def)
next
  case 2
  then show ?thesis using assms(1) by (rule closes_exposure)
qed

text \<open>The canonical store is a capped store for every chain and both classes of mints.\<close>

interpretation fleet_store: capped_store "fleetDailyExposure k m" admissionCutoff
  "\<lambda>db. fleetOk db \<and> m \<in> {FreeMint, PaidMint}" "fleetAdmits fp k m" "fleetLowers fp k m" "fleetLimit fp k m"
  for k m fp
proof unfold_locales
  fix db db' and c d :: int
  assume ok: "fleetOk db \<and> m \<in> {FreeMint, PaidMint}"
  {
    assume step: "fleetAdmits fp k m db db'"
    then have "storeStep fp db db'" by (auto simp: fleetAdmits_def intro: store_admit)
    with ok show "fleetOk db' \<and> m \<in> {FreeMint, PaidMint}" by (auto dest: storeStep_clock)
    from ok step show "\<exists>c d. admissionCutoff db' = Some d \<and> c \<le> d \<and> fleetDailyExposure k m c db' \<le> fleetLimit fp k m"
      by (rule fleetAdmits_capped)
  }
  {
    assume low: "fleetLowers fp k m db db'"
    with ok show "fleetOk db' \<and> m \<in> {FreeMint, PaidMint}" by (auto simp: fleetLowers_def dest: storeStep_clock)
    from low ok show "fleetDailyExposure k m c db' \<le> fleetDailyExposure k m c db"
      by (auto simp: fleetLowers_def intro: storeStep_lowers)
    assume "admissionCutoff db = Some d"
    with low ok show "\<exists>d'. admissionCutoff db' = Some d' \<and> d \<le> d'"
      by (auto simp: fleetLowers_def dest: storeStep_clock)
  }
  assume "c \<le> d"
  with ok show "fleetDailyExposure k m d db \<le> fleetDailyExposure k m c db" by (auto intro: fleetExposure_antimono)
qed

lemma storeSteps_store: "(storeStep fp)\<^sup>*\<^sup>* db db' \<Longrightarrow> fleet_store.steps fp k m db db'"
proof (induction rule: rtranclp_induct)
  case base
  show ?case by (rule fleet_store.steps_refl)
next
  case (step y z)
  show ?case
  proof (cases "fleetAdmits fp k m y z")
    case True
    with step.IH show ?thesis by (rule fleet_store.steps_admit)
  next
    case False
    with step.hyps have "fleetLowers fp k m y z" by (simp add: fleetLowers_def)
    with step.IH show ?thesis by (rule fleet_store.steps_lower)
  qed
qed

section \<open>The gates of an admission\<close>

lemma distinct_card_remdups: "length (remdups xs) = length xs \<Longrightarrow> distinct xs"
  by (metis length_remdups_eq remdups_id_iff_distinct distinct_remdups)

lemma newestVerification_in: "newestVerification vs = Some v \<Longrightarrow> v \<in> set vs"
  by (induction vs arbitrary: v) (auto split: option.splits if_splits)

lemma chainProfile_gate:
  assumes "assertCanonicalChainProfile env campaign db = Inr ()" and "ce_now env = Some t"
  shows "\<exists>p v x. profileByChain (cm_chainId campaign) db = Some p \<and> cp_executionEnabled p
           \<and> v \<in> set (db_verifications db) \<and> cv_chainProfileId v = cp_id p \<and> cv_status v = ''verified''
           \<and> cv_expiresAt v = Some x \<and> t < x"
    and "cm_chainId campaign = 4663 \<longrightarrow> validRobinhoodEnablement (latestRobinhoodEnablement db) (Some t) \<noteq> None"
  using assms
  by (auto simp: assertCanonicalChainProfile_def bindR_eq_Inr assertRobinhoodLiveAllowed_def
      split: option.splits if_splits dest!: newestVerification_in)

section \<open>A store to run on\<close>

text \<open>An armed run of a free mint with two wallets on Ethereum.\<close>

definition demoEnv :: CanonicalEnv where
  "demoEnv = \<lparr>ce_allows = (\<lambda>_ _. True), ce_now = Some 5000, ce_digest = (\<lambda>s. s), ce_nowText = ''1970-01-01T00:00:05.000Z'',
     ce_snapshotText = (\<lambda>p n v paid. p), ce_intentHash = in_id, ce_fleetPolicy = Some PERSONAL_LIVE_FLEET_POLICY\<rparr>"

definition demoCampaign :: Campaign where
  "demoCampaign = \<lparr>cm_id = ''k'', cm_chainId = 1, cm_contract = ''0xc'', cm_strategy = ''seadrop'', cm_quantity = jint 1,
     cm_dryRun = False,
     cm_spendPolicy = \<lparr>sl_maxRunWei = 10 ^ 15, sl_dailyCapWei = 10 ^ 15, sl_gasCeilingWei = 4 * 10 ^ 14\<rparr>,
     cm_broadcastMode = None, cm_mintPriceWei = 0,
     cm_feePolicy = \<lparr>cf_kind = FreeKind, cf_priorityWei = 1, cf_freeCapWei = None, cf_l2BudgetWei = None, cf_l1BudgetWei = None,
       cf_totalWei = Some (3 * 10 ^ 14)\<rparr>,
     cm_chainVerification = \<lparr>vf_chainId = 1, vf_status = ''verified'', vf_seaDropCompatible = True, vf_evidenceId = Some ''ev'',
       vf_checkedAt = Some ''1970'', vf_sourceBlock = Some 1, vf_endpointReference = ''rpc''\<rparr>, cm_custodyPolicy = None\<rparr>"

definition demoInput :: CanonicalAdmissionInput where
  "demoInput = \<lparr>
     ai_run = \<lparr>rr_id = ''run'', rr_intentId = ''in'', rr_campaignId = ''k'', rr_mode = Live, rr_requestDigest = ''fp'',
       rr_state = CArmed, rr_idempotencyKey = None\<rparr>,
     ai_intent = \<lparr>ir_id = ''in'', ir_runId = ''run'', ir_campaignId = ''k'', ir_campaignSnapshot = demoCampaign,
       ir_wallets = [''0xw'', ''0xv''], ir_simulationIds = []\<rparr>,
     ai_campaign = demoCampaign, ai_wallets = [''0xw'', ''0xv'']\<rparr>"

definition demoStore :: Db where
  "demoStore = demoDb\<lparr>db_campaignProfile := [(''k'', ''c'')], db_campaignPeriods := [(''campaign:k'', ''k'')],
     db_verifications := [\<lparr>cv_chainProfileId = ''c'', cv_status = ''verified'', cv_checkedAt = ''1970'', cv_expiresAt = Some 9000\<rparr>],
     db_runs := [\<lparr>ru_id = ''run'', ru_campaignId = ''k'', ru_fingerprint = ''fp'', ru_backendDigest = None, ru_state = ''prepared''\<rparr>]\<rparr>"

definition demoAdmitted :: Db where
  "demoAdmitted = snd (admitExecution demoEnv demoInput demoStore)"

definition demoResult :: CanonicalAdmissionResult where
  "demoResult = projr (fst (admitExecution demoEnv demoInput demoStore))"

lemma demo_admits: "admitExecution demoEnv demoInput demoStore = (Inr demoResult, demoAdmitted)"
  by code_simp

section \<open>Properties of the store\<close>

lemma demo_stored: "campaignStored (ai_campaign demoInput) demoStore"
  by code_simp

lemma demo_storeStep: "storeStep (Some PERSONAL_LIVE_FLEET_POLICY) demoStore demoAdmitted"
proof (rule store_admit)
  have "ce_fleetPolicy demoEnv = Some PERSONAL_LIVE_FLEET_POLICY" "rr_mode (ai_run demoInput) = Live"
    by (simp_all add: demoEnv_def demoInput_def)
  with demo_stored demo_admits show "liveAdmission (Some PERSONAL_LIVE_FLEET_POLICY) demoStore demoAdmitted"
    unfolding liveAdmission_def by blast
qed

text \<open>
  C32. The fleet stays within its daily caps. Start from a store whose reservations record what they
  reserved and whose free (or paid) exposure on a chain is within the cap of the fleet policy; then
  after any sequence of live admissions, settlements, releases, kill-switch aborts and closed runs,
  in any order and at any times, what the fleet has pending on the chain or settled since the start
  of the rolling window of the admission clock is still within the cap. Base always uses its own
  policy, and Robinhood's free cap is at most the one of its active period.
\<close>

theorem fleet_exposure_capped:
  assumes "fleetOk db" and "m \<in> {FreeMint, PaidMint}"
    and "case admissionCutoff db of None \<Rightarrow> \<forall>c. fleetDailyExposure k m c db \<le> fleetLimit fp k m
         | Some d \<Rightarrow> fleetDailyExposure k m d db \<le> fleetLimit fp k m"
    and "(storeStep fp)\<^sup>*\<^sup>* db db'" and "admissionCutoff db' = Some d"
  shows "fleetDailyExposure k m d db' \<le> fleetLimit fp k m"
proof -
  have "fleet_store.capKept k m fp db" unfolding fleet_store.capKept_def using assms(1,2,3) by blast
  with storeSteps_store [OF assms(4)] have "fleet_store.capKept k m fp db'" by (rule fleet_store.capKept_steps)
  with assms(5) show ?thesis unfolding fleet_store.capKept_def by simp
qed

theorem fleet_exposure_capped_witness:
  "fleetDailyExposure 1 FreeMint (5000 - ROLLING_SPEND_WINDOW_MS) demoAdmitted
     \<le> fleetLimit (Some PERSONAL_LIVE_FLEET_POLICY) 1 FreeMint
   \<and> fleetDailyExposure 1 FreeMint (5000 - ROLLING_SPEND_WINDOW_MS) demoAdmitted = 6 * 10 ^ 14"
proof
  have ok: "fleetOk demoStore" by code_simp
  have start: "case admissionCutoff demoStore of
      None \<Rightarrow> \<forall>c. fleetDailyExposure 1 FreeMint c demoStore \<le> fleetLimit (Some PERSONAL_LIVE_FLEET_POLICY) 1 FreeMint
    | Some d \<Rightarrow> fleetDailyExposure 1 FreeMint d demoStore \<le> fleetLimit (Some PERSONAL_LIVE_FLEET_POLICY) 1 FreeMint"
  proof -
    have cut: "admissionCutoff demoStore = Some (1000 - ROLLING_SPEND_WINDOW_MS)" by code_simp
    have "fleetDailyExposure 1 FreeMint (1000 - ROLLING_SPEND_WINDOW_MS) demoStore
        \<le> fleetLimit (Some PERSONAL_LIVE_FLEET_POLICY) 1 FreeMint" by code_simp
    then show ?thesis by (simp add: cut)
  qed
  have last: "admissionCutoff demoAdmitted = Some (5000 - ROLLING_SPEND_WINDOW_MS)" by code_simp
  show "fleetDailyExposure 1 FreeMint (5000 - ROLLING_SPEND_WINDOW_MS) demoAdmitted
      \<le> fleetLimit (Some PERSONAL_LIVE_FLEET_POLICY) 1 FreeMint"
    by (rule fleet_exposure_capped [OF ok _ start r_into_rtranclp [of "storeStep _", OF demo_storeStep] last]) simp
  show "fleetDailyExposure 1 FreeMint (5000 - ROLLING_SPEND_WINDOW_MS) demoAdmitted = 6 * 10 ^ 14" by code_simp
qed

text \<open>
  Nothing is admitted past the gates. When a run is admitted, the kill switch is off; the run is
  armed and matches its campaign and intent; its wallets are pairwise different and named by the
  intent; the chain is enabled and its newest verification is a positive one that has not expired;
  Robinhood and Base hold a valid owner enablement, which covers paid mints when the mint is
  paid; and a live run has a fleet policy whose price and wallet limits it respects.
\<close>

theorem admission_passes_gates:
  assumes "admitExecution env input db = (Inr r, db')" and "ce_now env = Some t"
  shows "\<not> isKillSwitchEngaged db \<and> rr_state (ai_run input) = CArmed
    \<and> ir_runId (ai_intent input) = rr_id (ai_run input) \<and> rr_campaignId (ai_run input) = cm_id (ai_campaign input)
    \<and> ai_wallets input \<noteq> [] \<and> distinct (map toLowerCase (ai_wallets input))
    \<and> set (map toLowerCase (ai_wallets input)) \<subseteq> set (map toLowerCase (ir_wallets (ai_intent input)))
    \<and> (\<exists>p v x. profileByChain (cm_chainId (ai_campaign input)) db = Some p \<and> cp_executionEnabled p
         \<and> v \<in> set (db_verifications db) \<and> cv_chainProfileId v = cp_id p \<and> cv_status v = ''verified''
         \<and> cv_expiresAt v = Some x \<and> t < x)
    \<and> (cm_chainId (ai_campaign input) = 4663 \<longrightarrow>
         (\<exists>e. validRobinhoodEnablement (latestRobinhoodEnablement db) (Some t) = Some e
            \<and> (cf_kind (cm_feePolicy (ai_campaign input)) = PaidKind \<longrightarrow> en_paidAllowed e)))
    \<and> (cm_chainId (ai_campaign input) = 8453 \<longrightarrow>
         (\<exists>e. validBaseEnablement (latestBaseEnablement db) (Some t) = Some e
            \<and> (cf_kind (cm_feePolicy (ai_campaign input)) = PaidKind \<longrightarrow> en_paidAllowed e)))
    \<and> (rr_mode (ai_run input) = Live \<longrightarrow>
         (\<exists>policy. fleetPolicyFor env (cm_chainId (ai_campaign input)) = Some policy
            \<and> (cm_mintPriceWei (ai_campaign input) \<noteq> 0 \<longrightarrow>
                 cm_mintPriceWei (ai_campaign input) \<le> fl_paidMaxPricePerNftWei policy
                 \<and> \<not> js_lt (fl_paidMaxWalletsPerMint policy)
                      (jint (int (distinctLower (ir_wallets (ai_intent input) @ ai_wallets input)))))))"
proof -
  from assms(1) have pre: "ai_wallets input \<noteq> []" "distinctLower (ai_wallets input) = length (ai_wallets input)"
    "rr_state (ai_run input) = CArmed" "ir_runId (ai_intent input) = rr_id (ai_run input)"
    "rr_campaignId (ai_run input) = cm_id (ai_campaign input)"
    "list_all (\<lambda>w. toLowerCase w \<in> toLowerCase ` set (ir_wallets (ai_intent input))) (ai_wallets input)"
    "cm_chainId (ai_campaign input) = 4663 \<and> cf_kind (cm_feePolicy (ai_campaign input)) = PaidKind \<longrightarrow>
       assertRobinhoodLiveAllowed PaidKind (latestRobinhoodEnablement db) (ce_now env) = Inr ()"
    "cm_chainId (ai_campaign input) = 8453 \<longrightarrow>
       assertBaseLiveAllowed (cf_kind (cm_feePolicy (ai_campaign input))) (latestBaseEnablement db) (ce_now env) = Inr ()"
    "assertFleetRunLimits env input = Inr ()"
    by (simp_all add: admitExecution_Inr)
  from assms(1) have gates: "\<not> isKillSwitchEngaged db" "assertCanonicalChainProfile env (ai_campaign input) db = Inr ()"
    by (simp_all add: admitExecution_Inr admissionBody_def Let_def bindR_eq_Inr)
  note chain = chainProfile_gate [OF gates(2) assms(2)]
  have "distinct (map toLowerCase (ai_wallets input))"
    using pre(2) unfolding distinctLower_def by (metis distinct_card_remdups length_map)
  moreover have "set (map toLowerCase (ai_wallets input)) \<subseteq> set (map toLowerCase (ir_wallets (ai_intent input)))"
    using pre(6) by (auto simp: list_all_iff)
  moreover have "rr_mode (ai_run input) = Live \<longrightarrow>
         (\<exists>policy. fleetPolicyFor env (cm_chainId (ai_campaign input)) = Some policy
            \<and> (cm_mintPriceWei (ai_campaign input) \<noteq> 0 \<longrightarrow>
                 cm_mintPriceWei (ai_campaign input) \<le> fl_paidMaxPricePerNftWei policy
                 \<and> \<not> js_lt (fl_paidMaxWalletsPerMint policy)
                      (jint (int (distinctLower (ir_wallets (ai_intent input) @ ai_wallets input))))))"
    using pre(9) by (auto simp: assertFleetRunLimits_def fleetClass_def Let_def bindR_eq_Inr split: option.splits)
  moreover have "cm_chainId (ai_campaign input) = 4663 \<longrightarrow>
         (\<exists>e. validRobinhoodEnablement (latestRobinhoodEnablement db) (Some t) = Some e
            \<and> (cf_kind (cm_feePolicy (ai_campaign input)) = PaidKind \<longrightarrow> en_paidAllowed e))"
    using chain(2) pre(7) assms(2) by (auto simp: assertRobinhoodLiveAllowed_def split: option.splits)
  moreover have "cm_chainId (ai_campaign input) = 8453 \<longrightarrow>
         (\<exists>e. validBaseEnablement (latestBaseEnablement db) (Some t) = Some e
            \<and> (cf_kind (cm_feePolicy (ai_campaign input)) = PaidKind \<longrightarrow> en_paidAllowed e))"
    using pre(8) assms(2) by (auto simp: assertBaseLiveAllowed_def split: option.splits)
  ultimately show ?thesis using pre gates(1) chain(1) by blast
qed

theorem admission_passes_gates_witness:
  "\<not> isKillSwitchEngaged demoStore \<and> distinct (map toLowerCase [''0xw'', ''0xv''])
   \<and> (\<exists>policy. fleetPolicyFor demoEnv 1 = Some policy)"
proof -
  have t: "ce_now demoEnv = Some 5000" and ws: "ai_wallets demoInput = [''0xw'', ''0xv'']"
    and chain: "cm_chainId (ai_campaign demoInput) = 1" and live: "rr_mode (ai_run demoInput) = Live"
    by (simp_all add: demoEnv_def demoInput_def demoCampaign_def)
  show ?thesis using admission_passes_gates [OF demo_admits t] unfolding ws chain live by blast
qed

text \<open>
  Closing runs spares what may have been sent. The kill-switch abort and the closing of one run
  change no reservation except to release pending ones; a row the abort releases belongs to an
  execution without a recorded transaction hash, and a row the closing releases to an execution of
  that run without any recorded attempt. Every other row, the ledger and the attempts stay.
\<close>

theorem closing_spares_sent:
  "(abortRemaining env db = (Inr u, db') \<longrightarrow>
      db_ledger db' = db_ledger db \<and> db_attempts db' = db_attempts db
      \<and> list_all2 (\<lambda>r r'. r' = r \<or> rv_status r = Reserved \<and> r' = r\<lparr>rv_status := Released\<rparr>
           \<and> \<not> list_ex (\<lambda>a. at_executionId a = rv_executionId r \<and> at_txHash a \<noteq> None) (db_attempts db))
         (db_reservations db) (db_reservations db'))
   \<and> (abortRunIfUnsent env runId db = (Inr outcome, db') \<longrightarrow>
      db_ledger db' = db_ledger db \<and> db_attempts db' = db_attempts db
      \<and> list_all2 (\<lambda>r r'. r' = r \<or> rv_status r = Reserved \<and> r' = r\<lparr>rv_status := Released\<rparr>
           \<and> outcome = Closed \<and> \<not> list_ex (\<lambda>a. at_executionId a = rv_executionId r) (db_attempts db))
         (db_reservations db) (db_reservations db'))"
proof (intro conjI impI)
  assume run: "abortRemaining env db = (Inr u, db')"
  note rel = releases_abortRemaining [OF run]
  then show "db_ledger db' = db_ledger db" "db_attempts db' = db_attempts db" by (simp_all add: releases_def)
  from rel have "list_all2 (givenBack (ex_id ` {e \<in> set (db_executions db). openState (ex_state e) \<and> \<not> submitted db e}))
      (db_reservations db) (db_reservations db')" by (simp add: releases_def)
  then show "list_all2 (\<lambda>r r'. r' = r \<or> rv_status r = Reserved \<and> r' = r\<lparr>rv_status := Released\<rparr>
           \<and> \<not> list_ex (\<lambda>a. at_executionId a = rv_executionId r \<and> at_txHash a \<noteq> None) (db_attempts db))
         (db_reservations db) (db_reservations db')"
    by (rule list_all2_mono) (auto simp: givenBack_def submitted_def list_ex_iff)
next
  assume run: "abortRunIfUnsent env runId db = (Inr outcome, db')"
  note rel = releases_abortRun [OF run]
  then show "db_ledger db' = db_ledger db" "db_attempts db' = db_attempts db" by (auto simp: releases_def)
  show "list_all2 (\<lambda>r r'. r' = r \<or> rv_status r = Reserved \<and> r' = r\<lparr>rv_status := Released\<rparr>
           \<and> outcome = Closed \<and> \<not> list_ex (\<lambda>a. at_executionId a = rv_executionId r) (db_attempts db))
         (db_reservations db) (db_reservations db')"
  proof (cases "outcome = Closed")
    case True
    with rel have "list_all2 (givenBack (ex_id ` {e \<in> set (db_executions db). ex_runId e = Some runId}))
        (db_reservations db) (db_reservations db')"
      and "list_all (\<lambda>e. ex_runId e = Some runId \<longrightarrow> \<not> attempted db e) (db_executions db)" by (auto simp: releases_def)
    with True show ?thesis
      by (elim list_all2_mono) (auto simp: givenBack_def attempted_def list_ex_iff list_all_iff)
  next
    case False
    with rel show ?thesis by (simp add: list_all2_same)
  qed
qed

text \<open>Two executions of the admitted run; the first wallet has sent its transaction.\<close>

definition demoSent :: Db where
  "demoSent = demoStore\<lparr>
     db_reservations := [demoRow, demoRow\<lparr>rv_id := ''r2'', rv_executionId := Some ''e2'', rv_intentId := Some ''i2''\<rparr>],
     db_executions :=
       [\<lparr>ex_id = ''e1'', ex_walletId = ''w'', ex_campaignId = ''k'', ex_intentId = ''i1'', ex_reservationId = Some ''r1'',
         ex_state = ''submitted'', ex_runId = Some ''run''\<rparr>,
        \<lparr>ex_id = ''e2'', ex_walletId = ''v'', ex_campaignId = ''k'', ex_intentId = ''i2'', ex_reservationId = Some ''r2'',
         ex_state = ''prepared'', ex_runId = Some ''run''\<rparr>],
     db_attempts := [\<lparr>at_id = ''a1'', at_intentId = ''i1'', at_executionId = Some ''e1'', at_txHash = Some ''0xh''\<rparr>]\<rparr>"

theorem closing_spares_sent_witness:
  "\<exists>db'. abortRemaining demoEnv demoSent = (Inr (), db') \<and> map rv_status (db_reservations db') = [Reserved, Released]
     \<and> db_ledger db' = db_ledger demoSent"
proof -
  let ?db = "snd (abortRemaining demoEnv demoSent)"
  have run: "abortRemaining demoEnv demoSent = (Inr (), ?db)" by code_simp
  have "map rv_status (db_reservations ?db) = [Reserved, Released]" by code_simp
  moreover have "db_ledger ?db = db_ledger demoSent"
    using mp [OF conjunct1 [OF closing_spares_sent] run] by (rule conjunct1)
  ultimately show ?thesis using run by (intro exI [of _ ?db] conjI)
qed

section \<open>Results of the engine are bound to admitted executions\<close>

lemma executionOf_in: "executionOf prepared w = Some e \<Longrightarrow> e \<in> pe_executionId ` set prepared"
  unfolding executionOf_def by (drule map_of_SomeD) auto

lemma oldToNew_in:
  assumes "oldToNew prepared attempts i = Some e" and "e \<noteq> []"
  shows "e \<in> pe_executionId ` set prepared"
  using assms unfolding oldToNew_def
  by (drule_tac map_of_SomeD) (auto split: option.splits dest: executionOf_in)

text \<open>
  An engine result only ever touches admitted executions. Rebinding a result to the executions
  prepared for its run either fails or yields attempts, receipts and execution ids that all
  belong to prepared executions; each attempt keeps its wallet and gets the execution that was
  admitted for this wallet, and no attempt or receipt is lost.
\<close>

theorem rebind_only_admitted:
  assumes "rebindExecutionResult result prepared = Inr result'" and "prepared \<noteq> []"
  shows "list_all2 (\<lambda>a a'. executionOf prepared (ar_wallet a) = Some (ar_executionId a')
             \<and> a' = a\<lparr>ar_executionId := ar_executionId a'\<rparr>) (xr_attempts result) (xr_attempts result')
    \<and> list_all2 (\<lambda>r r'. r' = r\<lparr>bc_executionId := bc_executionId r'\<rparr>) (xr_receipts result) (xr_receipts result')
    \<and> ar_executionId ` set (xr_attempts result') \<subseteq> pe_executionId ` set prepared
    \<and> bc_executionId ` set (xr_receipts result') \<subseteq> pe_executionId ` set prepared
    \<and> set (xr_executionIds result') \<subseteq> pe_executionId ` set prepared"
proof -
  let ?bindA = "\<lambda>a. case executionOf prepared (ar_wallet a) of
        None \<Rightarrow> Inl ''UNADMITTED_EXECUTION_WALLET'' | Some [] \<Rightarrow> Inl ''UNADMITTED_EXECUTION_WALLET''
      | Some e \<Rightarrow> Inr (a\<lparr>ar_executionId := e\<rparr>)"
  let ?bindR = "\<lambda>r. case oldToNew prepared (xr_attempts result) (bc_executionId r) of
        None \<Rightarrow> Inl ''UNADMITTED_RECEIPT_EXECUTION'' | Some [] \<Rightarrow> Inl ''UNADMITTED_RECEIPT_EXECUTION''
      | Some e \<Rightarrow> Inr (r\<lparr>bc_executionId := e\<rparr>)"
  from assms obtain attempts receipts where
    attempts: "mapR ?bindA (xr_attempts result) = Inr attempts" and
    receipts: "mapR ?bindR (xr_receipts result) = Inr receipts" and
    ids: "list_all (\<lambda>i. list_ex (\<lambda>p. pe_executionId p = i) prepared) (xr_executionIds result')" and
    result': "xr_attempts result' = attempts" "xr_receipts result' = receipts"
    by (auto simp: rebindExecutionResult_def bindR_eq_Inr Let_def)
  have a: "list_all2 (\<lambda>a a'. executionOf prepared (ar_wallet a) = Some (ar_executionId a')
      \<and> a' = a\<lparr>ar_executionId := ar_executionId a'\<rparr>) (xr_attempts result) attempts"
    by (rule list_all2_mono [OF iffD1 [OF mapR_eq_Inr attempts]]) (auto split: option.splits list.splits)
  have r: "list_all2 (\<lambda>r r'. r' = r\<lparr>bc_executionId := bc_executionId r'\<rparr> \<and> bc_executionId r' \<in> pe_executionId ` set prepared)
      (xr_receipts result) receipts"
    by (rule list_all2_mono [OF iffD1 [OF mapR_eq_Inr receipts]]) (auto split: option.splits list.splits dest!: oldToNew_in)
  show ?thesis
  proof (intro conjI)
    show "list_all2 (\<lambda>r r'. r' = r\<lparr>bc_executionId := bc_executionId r'\<rparr>) (xr_receipts result) (xr_receipts result')"
      unfolding result' by (rule list_all2_mono [OF r]) simp
    show "ar_executionId ` set (xr_attempts result') \<subseteq> pe_executionId ` set prepared"
      using a unfolding result' by (auto simp: list_all2_conv_all_nth in_set_conv_nth [of _ attempts])
        (metis executionOf_in)
    show "bc_executionId ` set (xr_receipts result') \<subseteq> pe_executionId ` set prepared"
      using r unfolding result' by (auto simp: list_all2_conv_all_nth in_set_conv_nth [of _ receipts])
    show "set (xr_executionIds result') \<subseteq> pe_executionId ` set prepared"
      using ids by (auto simp: list_all_iff list_ex_iff)
  qed (use a result' in simp)
qed

definition demoEngineResult :: ExecutionResult where
  "demoEngineResult = \<lparr>xr_executionIds = [''old''],
     xr_attempts = [\<lparr>ar_id = ''a'', ar_executionId = ''old'', ar_runId = ''run'', ar_wallet = ''0xW'', ar_hash = Some ''0xh'',
       ar_state = XSubmitted\<rparr>],
     xr_receipts = [\<lparr>bc_id = ''b'', bc_executionId = ''old'', bc_runId = ''run'', bc_attemptId = None, bc_state = XConfirmed, bc_finalityStage = None,
       bc_robinhoodFinality = None, bc_blockNumber = None, bc_blockHash = None, bc_actualSpendWei = None\<rparr>],
     xr_state = XSubmitted\<rparr>"

definition demoPrepared :: "PreparedExecution list" where
  "demoPrepared = [\<lparr>pe_wallet = ''0xw'', pe_intentId = ''i1'', pe_executionId = ''e1''\<rparr>,
     \<lparr>pe_wallet = ''0xv'', pe_intentId = ''i2'', pe_executionId = ''e2''\<rparr>]"

theorem rebind_only_admitted_witness:
  "\<exists>result'. rebindExecutionResult demoEngineResult demoPrepared = Inr result' \<and> xr_executionIds result' = [''e1'']
     \<and> ar_executionId ` set (xr_attempts result') \<subseteq> {''e1'', ''e2''}"
proof -
  let ?r = "projr (rebindExecutionResult demoEngineResult demoPrepared)"
  have run: "rebindExecutionResult demoEngineResult demoPrepared = Inr ?r" by code_simp
  have some: "demoPrepared \<noteq> []" and ids: "pe_executionId ` set demoPrepared = {''e1'', ''e2''}"
    by (simp_all add: demoPrepared_def)
  have "xr_executionIds ?r = [''e1'']" by code_simp
  moreover have "ar_executionId ` set (xr_attempts ?r) \<subseteq> {''e1'', ''e2''}"
    using rebind_only_admitted [OF run some] unfolding ids by blast
  ultimately show ?thesis using run by blast
qed

end
