(* ===== verification/Evidence.thy ===== *)
theory Evidence
  imports BackendTypes
begin

text \<open>
  The evidence behind a live run (\<^verbatim>\<open>packages/backend/src/evidence.ts\<close>): chain evidence, submitted pending
  and accepted by an authority, and a fresh simulation of every wallet for this very campaign.

  Hashing is a parameter: \<open>hashInput\<close> of the fields of a campaign that a simulation binds, and
  \<open>hashRequest\<close> of a request to arm.
\<close>

section \<open>Digests\<close>

type_synonym hashInput = "int \<Rightarrow> address \<Rightarrow> string \<Rightarrow> jsnum \<Rightarrow> wei \<Rightarrow> CampaignFees \<Rightarrow> CustodyPolicy option \<Rightarrow> hash"
type_synonym hashRequest = "hash \<Rightarrow> RunMode \<Rightarrow> address list \<Rightarrow> string list \<Rightarrow> hash"

definition campaignInputDigest :: "hashInput \<Rightarrow> Campaign \<Rightarrow> hash" where
  "campaignInputDigest hashInput c =
     hashInput (cm_chainId c) (toLowerCase (cm_contract c)) (cm_strategy c) (cm_quantity c) (cm_mintPriceWei c)
       (cm_feePolicy c) (cm_custodyPolicy c)"

definition liveRequestDigest :: "hashInput \<Rightarrow> hashRequest \<Rightarrow> Campaign \<Rightarrow> RunMode \<Rightarrow> address list \<Rightarrow> string list \<Rightarrow> hash" where
  "liveRequestDigest hashInput hashRequest c mode wallets simulationIds =
     hashRequest (campaignInputDigest hashInput c) mode (sort (map toLowerCase wallets)) (sort simulationIds)"

section \<open>Recording\<close>

definition badStamps :: "Stamp \<Rightarrow> Stamp \<Rightarrow> bool" where
  "badStamps checkedAt expiresAt \<longleftrightarrow>
     st_time checkedAt = None \<or> st_time expiresAt = None \<or> textLe (st_text expiresAt) (st_text checkedAt)"

definition recordChainEvidence :: "ChainEvidenceRecord \<Rightarrow> (BackendState, dbError, unit) eff" where
  "recordChainEvidence r =
     bindS (ensureS (\<not> (badStamps (ev_checkedAt r) (ev_expiresAt r) \<or> ev_sourceBlock r < 0 \<or> ev_sourceBlockHash r = []
              \<or> ev_endpointIdentity r = [] \<or> ev_strategyVersion r = [])) ''INVALID_CHAIN_EVIDENCE'') (\<lambda>_.
     bindS (ensureS (\<not> (ev_status r \<noteq> ''pending'' \<or> ev_executionEnabled r \<or> truthy (ev_acceptedAt r)
              \<or> truthy (ev_acceptedBy r) \<or> truthy (ev_approvalProof r))) ''EVIDENCE_MUST_BE_SUBMITTED_PENDING'') (\<lambda>_.
     storeTransaction (\<lambda>s.
       if list_ex (\<lambda>e. ev_id e = ev_id r) (bs_chainEvidence s) then Inl ''CHAIN_EVIDENCE_ALREADY_EXISTS''
       else Inr ((), s\<lparr>bs_chainEvidence := bs_chainEvidence s @ [r]\<rparr>))))"

record EvidenceApproval =
  ea_verifierId :: string
  ea_proof :: string
  ea_acceptedAt :: string

type_synonym evidenceAuthority = "ChainEvidenceRecord \<Rightarrow> EvidenceApproval \<Rightarrow> bool"

definition disableOther :: "string \<Rightarrow> ChainEvidenceRecord \<Rightarrow> ChainEvidenceRecord" where
  "disableOther accepted e = (if ev_chainId e = 1 \<and> ev_id e \<noteq> accepted then e\<lparr>ev_executionEnabled := False\<rparr> else e)"

definition approve :: "EvidenceApproval \<Rightarrow> ChainEvidenceRecord \<Rightarrow> ChainEvidenceRecord" where
  "approve approval e = e\<lparr>ev_status := ''accepted'', ev_executionEnabled := True,
     ev_acceptedAt := Some (ea_acceptedAt approval), ev_acceptedBy := Some (ea_verifierId approval),
     ev_approvalProof := Some (ea_proof approval)\<rparr>"

definition acceptEvidence :: "evidenceAuthority \<Rightarrow> string \<Rightarrow> EvidenceApproval \<Rightarrow> BackendState \<Rightarrow> dbError + unit \<times> BackendState" where
  "acceptEvidence verify evidenceId approval s =
     (case find (\<lambda>e. ev_id e = evidenceId) (bs_chainEvidence s) of
        None \<Rightarrow> Inl ''CHAIN_EVIDENCE_NOT_FOUND''
      | Some r \<Rightarrow>
          bindR (ensure (ev_status r = ''pending'') ''CHAIN_EVIDENCE_ALREADY_DECIDED'') (\<lambda>_.
          bindR (ensure (verify r approval) ''EVIDENCE_APPROVAL_REJECTED'') (\<lambda>_.
          let others = (if ev_chainId r = 1 then map (disableOther evidenceId) (bs_chainEvidence s) else bs_chainEvidence s)
          in Inr ((), s\<lparr>bs_chainEvidence := updateFirst (\<lambda>e. ev_id e = evidenceId) (approve approval) others\<rparr>))))"

definition acceptChainEvidence ::
  "evidenceAuthority option \<Rightarrow> string \<Rightarrow> EvidenceApproval \<Rightarrow> (BackendState, dbError, unit) eff" where
  "acceptChainEvidence authority evidenceId approval =
     (case authority of
        None \<Rightarrow> throwS ''EVIDENCE_AUTHORITY_REQUIRED''
      | Some verify \<Rightarrow> storeTransaction (acceptEvidence verify evidenceId approval))"

definition recordSimulation :: "SimulationEvidenceRecord \<Rightarrow> (BackendState, dbError, unit) eff" where
  "recordSimulation r =
     bindS (ensureS (\<not> (badStamps (sm_checkedAt r) (sm_expiresAt r) \<or> sm_sourceBlock r < 0 \<or> sm_worstCaseFeeWei r < 0
              \<or> sm_sourceBlockHash r = [] \<or> sm_inputDigest r = [])) ''INVALID_SIMULATION_EVIDENCE'') (\<lambda>_.
     storeTransaction (\<lambda>s.
       if list_ex (\<lambda>e. sm_id e = sm_id r) (bs_simulations s) then Inl ''SIMULATION_EVIDENCE_ALREADY_EXISTS''
       else Inr ((), s\<lparr>bs_simulations := bs_simulations s @ [r]\<rparr>)))"

section \<open>Judging a live run\<close>

definition SEADROP_PUBLIC_FREE_ALLOWLIST_BASELINE :: string where
  "SEADROP_PUBLIC_FREE_ALLOWLIST_BASELINE = ''seadrop-v1-baseline-public-free-allowlist@1''"

definition strategyCompatible :: "ChainEvidenceRecord \<Rightarrow> Campaign \<Rightarrow> BackendState \<Rightarrow> int \<Rightarrow> bool" where
  "strategyCompatible evidence campaign s now \<longleftrightarrow>
     (if ev_strategyVersion evidence \<noteq> SEADROP_PUBLIC_FREE_ALLOWLIST_BASELINE
      then ev_strategyVersion evidence \<in> {''seadrop-v1-public'', ''seadrop-v1-public@1'', ''seadrop-v1-public-1''}
           \<and> cm_strategy campaign = ''seadrop-v1-public''
      else if cm_strategy campaign = ''seadrop-v1-public'' then True
      else if cm_strategy campaign \<noteq> ''seadrop-v1-allowlist'' \<or> cm_mintPriceWei campaign \<noteq> 0
           \<or> cf_kind (cm_feePolicy campaign) \<noteq> FreeKind then False
      else (case (cm_custodyPolicy campaign, rt_operational (bs_runtime s)) of
              (Some binding, Some operational) \<Rightarrow>
                cu_provider binding = ''turnkey''
                \<and> (case cu_recordDigest binding of None \<Rightarrow> False | Some d \<Rightarrow> RECORD_DIGEST d)
                \<and> (case op_custody operational of
                     None \<Rightarrow> False
                   | Some custody \<Rightarrow>
                       ku_provider custody = ''turnkey'' \<and> ku_policyStatus custody = ''approved''
                       \<and> ku_policyReference custody = cu_policyReference binding
                       \<and> ku_policyDigest custody = cu_policyDigest binding
                       \<and> ku_recordDigest custody = cu_recordDigest binding)
                \<and> op_signerReady operational
                \<and> (case op_expiresAt operational of None \<Rightarrow> False | Some t \<Rightarrow> now < t)
            | _ \<Rightarrow> False))"

definition ROBINHOOD_CASES :: "string list" where
  "ROBINHOOD_CASES = [''revert'', ''sold_out'', ''price_drift'', ''insufficient_funds'', ''quantity_limit'', ''stale_phase'',
     ''fee_recipient'', ''kill'', ''cap'']"

definition walletSimulation :: "Campaign \<Rightarrow> string list \<Rightarrow> BackendState \<Rightarrow> address \<Rightarrow> SimulationEvidenceRecord option" where
  "walletSimulation campaign simulationIds s wallet =
     find (\<lambda>m. sm_id m \<in> set simulationIds \<and> sm_campaignId m = cm_id campaign \<and> toLowerCase (sm_wallet m) = toLowerCase wallet)
       (bs_simulations s)"

definition assertWalletSimulation ::
  "hashInput \<Rightarrow> string \<Rightarrow> Campaign \<Rightarrow> ChainEvidenceRecord \<Rightarrow> string list \<Rightarrow> BackendState \<Rightarrow> address \<Rightarrow> dbError + unit" where
  "assertWalletSimulation hashInput nowText campaign evidence simulationIds s wallet =
     (case walletSimulation campaign simulationIds s wallet of
        None \<Rightarrow> Inl ''WALLET_SIMULATION_NOT_FOUND''
      | Some m \<Rightarrow>
          bindR (ensure (sm_inputDigest m \<noteq> [] \<and> sm_sourceBlockHash m \<noteq> []) ''WALLET_SIMULATION_PROVENANCE_REQUIRED'') (\<lambda>_.
          bindR (ensure (sm_inputDigest m = campaignInputDigest hashInput campaign \<and> ev_sourceBlock evidence \<le> sm_sourceBlock m)
                   ''WALLET_SIMULATION_SNAPSHOT_MISMATCH'') (\<lambda>_.
          bindR (ensure (sm_success m) ''WALLET_SIMULATION_FAILED'') (\<lambda>_.
          bindR (ensure (\<not> textLe (st_text (sm_expiresAt m)) nowText) ''WALLET_SIMULATION_STALE'') (\<lambda>_.
          ensure (sm_worstCaseFeeWei m \<le> sl_gasCeilingWei (cm_spendPolicy campaign)) ''GAS_CEILING_EXCEEDED'')))))"

definition assertWalletSimulations ::
  "hashInput \<Rightarrow> string \<Rightarrow> Campaign \<Rightarrow> ChainEvidenceRecord \<Rightarrow> address list \<Rightarrow> string list \<Rightarrow> BackendState \<Rightarrow> dbError + string list" where
  "assertWalletSimulations hashInput nowText campaign evidence wallets simulationIds s =
     bindR (ensure (wallets \<noteq> [] \<and> length simulationIds = length wallets) ''PER_WALLET_SIMULATION_REQUIRED'') (\<lambda>_.
     bindR (ensure (distinct (map toLowerCase wallets)) ''DUPLICATE_WALLET'') (\<lambda>_.
     bindR (ensure (distinct simulationIds) ''DUPLICATE_SIMULATION_EVIDENCE'') (\<lambda>_.
     bindR (mapR (assertWalletSimulation hashInput nowText campaign evidence simulationIds s) wallets) (\<lambda>_.
     Inr simulationIds))))"

definition evidenceFor :: "Campaign \<Rightarrow> BackendState \<Rightarrow> ChainEvidenceRecord option" where
  "evidenceFor campaign s =
     (case vf_evidenceId (cm_chainVerification campaign) of
        None \<Rightarrow> None
      | Some i \<Rightarrow> if i = [] then None else find (\<lambda>e. ev_id e = i) (bs_chainEvidence s))"

definition assertLiveEvidence ::
  "hashInput \<Rightarrow> int \<Rightarrow> string \<Rightarrow> Campaign \<Rightarrow> address list \<Rightarrow> string list \<Rightarrow> BackendState \<Rightarrow> dbError + string list" where
  "assertLiveEvidence hashInput now nowText campaign wallets simulationIds s =
     (let v = cm_chainVerification campaign
      in case evidenceFor campaign s of
           None \<Rightarrow> Inl ''CHAIN_VERIFICATION_EVIDENCE_NOT_FOUND''
         | Some e \<Rightarrow>
             bindR (ensure (ev_chainId e = cm_chainId campaign) ''CHAIN_VERIFICATION_EVIDENCE_NOT_FOUND'') (\<lambda>_.
             bindR (ensure (ev_status e = ''accepted'' \<and> ev_executionEnabled e \<and> truthy (ev_acceptedAt e) \<and> truthy (ev_acceptedBy e)
                        \<and> truthy (ev_approvalProof e)) ''CHAIN_VERIFICATION_NOT_ACCEPTED'') (\<lambda>_.
             bindR (ensure (\<not> textLe (st_text (ev_expiresAt e)) nowText) ''CHAIN_VERIFICATION_EVIDENCE_STALE'') (\<lambda>_.
             bindR (ensure (ev_endpointIdentity e \<noteq> [] \<and> ev_strategyVersion e \<noteq> [] \<and> ev_sourceBlockHash e \<noteq> []
                        \<and> ev_endpointIdentity e = vf_endpointReference v \<and> strategyCompatible e campaign s now)
                      ''CHAIN_VERIFICATION_PROVENANCE_REQUIRED'') (\<lambda>_.
             bindR (ensure (vf_sourceBlock v = Some (ev_sourceBlock e) \<and> vf_checkedAt v = Some (st_text (ev_checkedAt e)))
                      ''CHAIN_VERIFICATION_SNAPSHOT_MISMATCH'') (\<lambda>_.
             bindR (ensure (ev_seaDropCompatible e \<and> ev_positiveLivePath e) ''SEADROP_EVIDENCE_REQUIRED'') (\<lambda>_.
             bindR (if cm_chainId campaign = 4663
                    then bindR (ensure (ev_archiveForkPassed e \<and> ev_reconciliationPassed e \<and> ev_finalityPassed e)
                                  ''ROBINHOOD_SAFETY_EVIDENCE_INCOMPLETE'') (\<lambda>_.
                         ensure (list_all (\<lambda>name. map_of (ev_negativeCases e) name = Some True) ROBINHOOD_CASES) ''ROBINHOOD_NEGATIVE_EVIDENCE_INCOMPLETE'')
                    else Inr ()) (\<lambda>_.
             assertWalletSimulations hashInput nowText campaign e wallets simulationIds s))))))))"


section \<open>Only approved evidence\<close>

inductive evidenceStep :: "evidenceAuthority \<Rightarrow> BackendState \<Rightarrow> BackendState \<Rightarrow> bool" for verify where
  recordStep: "recordChainEvidence r s = (res, s') \<Longrightarrow> evidenceStep verify s s'"
| acceptStep: "acceptChainEvidence (Some verify) i approval s = (res, s') \<Longrightarrow> evidenceStep verify s s'"
| simulateStep: "recordSimulation m s = (res, s') \<Longrightarrow> evidenceStep verify s s'"

inductive_cases evidenceStepE: "evidenceStep verify s s'"

text \<open>Evidence that opens a chain is approved by the authority, unless it did so from the beginning.\<close>

definition approved :: "evidenceAuthority \<Rightarrow> ChainEvidenceRecord set \<Rightarrow> ChainEvidenceRecord \<Rightarrow> bool" where
  "approved verify old e \<longleftrightarrow>
     e \<in> old \<or> (\<exists>pending approval. verify pending approval \<and> ev_status pending = ''pending'' \<and> e = approve approval pending)"

definition opensEthereum :: "ChainEvidenceRecord \<Rightarrow> bool" where
  "opensEthereum e \<longleftrightarrow> ev_executionEnabled e \<and> ev_chainId e = 1"

definition soleEthereum :: "ChainEvidenceRecord set \<Rightarrow> bool" where
  "soleEthereum es \<longleftrightarrow> (\<forall>e\<in>es. \<forall>e'\<in>es. opensEthereum e \<and> opensEthereum e' \<longrightarrow> ev_id e = ev_id e')"

lemma soleEthereum_mono: "soleEthereum es \<Longrightarrow> (\<And>e. e \<in> es' \<Longrightarrow> opensEthereum e \<Longrightarrow> e \<in> es) \<Longrightarrow> soleEthereum es'"
  unfolding soleEthereum_def by blast

lemma soleEthereum_id: "(\<And>e. e \<in> es \<Longrightarrow> opensEthereum e \<Longrightarrow> ev_id e = i) \<Longrightarrow> soleEthereum es"
  unfolding soleEthereum_def by blast

definition evidenceOk :: "evidenceAuthority \<Rightarrow> ChainEvidenceRecord set \<Rightarrow> BackendState \<Rightarrow> bool" where
  "evidenceOk verify old s \<longleftrightarrow>
     distinct (map ev_id (bs_chainEvidence s))
     \<and> (\<forall>e\<in>set (bs_chainEvidence s). ev_executionEnabled e \<longrightarrow> approved verify old e)
     \<and> soleEthereum (set (bs_chainEvidence s))"

lemma evidenceOk_same: "bs_chainEvidence s' = bs_chainEvidence s \<Longrightarrow> evidenceOk verify old s \<Longrightarrow> evidenceOk verify old s'"
  by (simp add: evidenceOk_def)

lemma disableOther_simps [simp]:
  "ev_id (disableOther i e) = ev_id e" "ev_chainId (disableOther i e) = ev_chainId e" "ev_status (disableOther i e) = ev_status e"
  by (simp_all add: disableOther_def)

lemma disableOther_enabled:
  "ev_executionEnabled (disableOther i e) \<Longrightarrow> disableOther i e = e \<and> ev_executionEnabled e \<and> (ev_chainId e = 1 \<longrightarrow> ev_id e = i)"
  by (auto simp: disableOther_def split: if_splits)

lemma set_updateFirst:
  assumes "distinct (map key xs)"
  shows "set (updateFirst (\<lambda>x. key x = i) f xs) = {if key x = i then f x else x | x. x \<in> set xs}"
  using assms
proof (induction xs)
  case (Cons x xs)
  show ?case
  proof (cases "key x = i")
    case True
    with Cons.prems have "\<forall>y\<in>set xs. key y \<noteq> i" by (metis distinct.simps(2) image_eqI list.simps(9) list.set_map)
    with True show ?thesis by auto
  next
    case False
    with Cons show ?thesis by auto
  qed
qed simp

lemma evidenceOk_record:
  assumes "evidenceOk verify old s" and "recordChainEvidence r s = (res, s')"
  shows "evidenceOk verify old s'"
proof (cases "bs_chainEvidence s' = bs_chainEvidence s")
  case True
  then show ?thesis using assms(1) by (rule evidenceOk_same)
next
  case False
  with assms(2) have "s' = s\<lparr>bs_chainEvidence := bs_chainEvidence s @ [r]\<rparr>" "\<not> ev_executionEnabled r"
    "\<forall>e\<in>set (bs_chainEvidence s). ev_id e \<noteq> ev_id r"
    by (auto simp: recordChainEvidence_def bindS_def storeTransaction_def list_ex_iff split: if_splits)
  moreover from this have "soleEthereum (set (bs_chainEvidence s'))"
    using assms(1) by (auto simp: evidenceOk_def opensEthereum_def intro: soleEthereum_mono)
  ultimately show ?thesis using assms(1) by (auto simp: evidenceOk_def)
qed

lemma evidenceOk_accept:
  assumes ok: "evidenceOk verify old s" and run: "acceptEvidence verify i approval s = Inr ((), s')"
  shows "evidenceOk verify old s'"
proof -
  from run obtain r where r: "find (\<lambda>e. ev_id e = i) (bs_chainEvidence s) = Some r"
    and pending: "ev_status r = ''pending''" "verify r approval"
    by (auto simp: acceptEvidence_def bindR_eq_Inr split: option.splits)
  define others where "others = (if ev_chainId r = 1 then map (disableOther i) (bs_chainEvidence s) else bs_chainEvidence s)"
  have s': "s' = s\<lparr>bs_chainEvidence := updateFirst (\<lambda>e. ev_id e = i) (approve approval) others\<rparr>"
    using run r pending by (simp add: acceptEvidence_def others_def Let_def)
  from r have rin: "r \<in> set (bs_chainEvidence s)" "ev_id r = i" by (auto dest: find_Some_in)
  have ids: "map ev_id others = map ev_id (bs_chainEvidence s)" by (simp add: others_def comp_def)
  then have dist: "distinct (map ev_id others)" using ok by (simp add: evidenceOk_def)
  have keep: "ev_id (approve approval e) = ev_id e" for e by (simp add: approve_def)
  have rself: "disableOther i r = r" using rin by (simp add: disableOther_def)
  then have rother: "r \<in> set others" using rin(1) by (auto simp: others_def image_iff intro: bexI [of _ r])
  have unique: "e = r" if "e \<in> set others" "ev_id e = i" for e
    using dist that rother rin(2) by (metis (no_types, lifting) distinct_map inj_onD)
  have sel: "set (bs_chainEvidence s') = {if ev_id e = i then approve approval e else e | e. e \<in> set others}"
    using set_updateFirst [OF dist, of i "approve approval"] by (simp add: s')
  have members: "set (bs_chainEvidence s') = insert (approve approval r) {e \<in> set others. ev_id e \<noteq> i}"
  proof (rule set_eqI, rule iffI)
    fix x
    assume "x \<in> set (bs_chainEvidence s')"
    then have "x \<in> {if ev_id e = i then approve approval e else e | e. e \<in> set others}"
      by (simp only: sel)
    then obtain e where e: "e \<in> set others" "x = (if ev_id e = i then approve approval e else e)" by blast
    show "x \<in> insert (approve approval r) {e \<in> set others. ev_id e \<noteq> i}"
    proof (cases "ev_id e = i")
      case True
      with e unique have "e = r" by blast
      with e True show ?thesis by simp
    qed (use e in simp)
  next
    fix x
    assume "x \<in> insert (approve approval r) {e \<in> set others. ev_id e \<noteq> i}"
    then have "x = (if ev_id r = i then approve approval r else r) \<or> x \<in> set others \<and> x = (if ev_id x = i then approve approval x else x)"
      using rin(2) by auto
    then have "x \<in> {if ev_id e = i then approve approval e else e | e. e \<in> set others}" using rother by blast
    then show "x \<in> set (bs_chainEvidence s')"
      by (simp only: sel)
  qed
  have old': "e \<in> set (bs_chainEvidence s) \<and> (ev_chainId r = 1 \<and> ev_chainId e = 1 \<longrightarrow> ev_id e = i)"
    if "e \<in> set others" "ev_executionEnabled e" for e
  proof (cases "ev_chainId r = 1")
    case True
    with that(1) obtain x where x: "x \<in> set (bs_chainEvidence s)" "e = disableOther i x" by (auto simp: others_def)
    with that(2) disableOther_enabled [of i x] have "e = x" "ev_chainId e = 1 \<longrightarrow> ev_id e = i" by simp_all
    with x(1) show ?thesis by blast
  next
    case False
    with that(1) show ?thesis by (simp add: others_def)
  qed
  have "distinct (map ev_id (bs_chainEvidence s'))"
    using dist by (simp add: s' updateFirst_map keep)
  moreover have "approved verify old (approve approval r)" using pending unfolding approved_def by blast
  moreover have "ev_chainId (approve approval r) = ev_chainId r" "ev_id (approve approval r) = i"
    using rin(2) by (simp_all add: approve_def)
  moreover have "approved verify old e" if "e \<in> set others" "ev_executionEnabled e" for e
    using ok old' [OF that] that(2) by (auto simp: evidenceOk_def)
  moreover have "soleEthereum (set (bs_chainEvidence s'))"
  proof (cases "ev_chainId r = 1")
    case True
    have "ev_id e = i" if "e \<in> set (bs_chainEvidence s')" "opensEthereum e" for e
      using that old' True \<open>ev_id (approve approval r) = i\<close> by (auto simp: members opensEthereum_def)
    then show ?thesis by (rule soleEthereum_id)
  next
    case False
    have "soleEthereum (set (bs_chainEvidence s))" using ok by (simp add: evidenceOk_def)
    then show ?thesis
      by (rule soleEthereum_mono) (use False old' \<open>ev_chainId (approve approval r) = ev_chainId r\<close> in \<open>auto simp: members opensEthereum_def\<close>)
  qed
  ultimately show ?thesis unfolding evidenceOk_def by (auto simp: members)
qed

lemma evidenceOk_step: "evidenceStep verify s s' \<Longrightarrow> evidenceOk verify old s \<Longrightarrow> evidenceOk verify old s'"
proof (erule evidenceStepE)
  fix r res
  assume "evidenceOk verify old s" "recordChainEvidence r s = (res, s')"
  then show ?thesis by (rule evidenceOk_record)
next
  fix i approval res
  assume "evidenceOk verify old s" "acceptChainEvidence (Some verify) i approval s = (res, s')"
  then show ?thesis
    by (cases res) (auto simp: acceptChainEvidence_def storeTransaction_Inr storeTransaction_Inl intro: evidenceOk_accept)
next
  fix m res
  assume "evidenceOk verify old s" "recordSimulation m s = (res, s')"
  then show ?thesis
    by (auto simp: recordSimulation_def bindS_def storeTransaction_def split: if_splits intro: evidenceOk_same)
qed

text \<open>
  C27. Only approved evidence opens a chain. After any sequence of submitting and accepting chain
  evidence and of recording simulations, every record that enables execution was enabled from the
  beginning or was pending and approved by the authority, no two records have the same id, and on
  Ethereum at most one record is enabled.
\<close>

theorem evidence_needs_authority:
  assumes "(evidenceStep verify)\<^sup>*\<^sup>* s s'" and "distinct (map ev_id (bs_chainEvidence s))"
    and "soleEthereum (set (bs_chainEvidence s))"
  shows "evidenceOk verify (set (bs_chainEvidence s)) s'"
proof -
  have "evidenceOk verify (set (bs_chainEvidence s)) s" using assms(2,3) by (simp add: evidenceOk_def approved_def)
  with assms(1) show ?thesis by (induction rule: rtranclp_induct) (blast intro: evidenceOk_step)+
qed


section \<open>What accepted evidence says\<close>

text \<open>A simulation of this wallet for this very campaign: successful, fresh and within the gas ceiling.\<close>

definition walletSimulated :: "hashInput \<Rightarrow> string \<Rightarrow> Campaign \<Rightarrow> BackendState \<Rightarrow> address \<Rightarrow> bool" where
  "walletSimulated hashInput nowText campaign s w \<longleftrightarrow>
     (\<exists>m\<in>set (bs_simulations s). toLowerCase (sm_wallet m) = toLowerCase w \<and> sm_campaignId m = cm_id campaign
        \<and> sm_inputDigest m = campaignInputDigest hashInput campaign \<and> sm_success m
        \<and> \<not> textLe (st_text (sm_expiresAt m)) nowText
        \<and> sm_worstCaseFeeWei m \<le> sl_gasCeilingWei (cm_spendPolicy campaign))"

lemma assertWalletSimulation_Inr:
  "assertWalletSimulation hashInput nowText campaign e ids s w = Inr () \<Longrightarrow> walletSimulated hashInput nowText campaign s w"
  by (auto simp: assertWalletSimulation_def walletSimulation_def bindR_eq_Inr walletSimulated_def split: option.splits dest!: find_Some_in)

lemma assertLiveEvidence_Inr:
  assumes "assertLiveEvidence hashInput now nowText campaign wallets ids s = Inr ids'"
  shows "ids' = ids \<and> wallets \<noteq> [] \<and> distinct (map toLowerCase wallets) \<and> (\<forall>w\<in>set wallets. walletSimulated hashInput nowText campaign s w)
    \<and> (\<exists>e\<in>set (bs_chainEvidence s). ev_chainId e = cm_chainId campaign \<and> ev_status e = ''accepted'' \<and> ev_executionEnabled e
         \<and> \<not> textLe (st_text (ev_expiresAt e)) nowText)"
proof -
  from assms obtain e where e: "evidenceFor campaign s = Some e" "ev_chainId e = cm_chainId campaign" "ev_status e = ''accepted''"
      "ev_executionEnabled e" "\<not> textLe (st_text (ev_expiresAt e)) nowText"
    and sims: "assertWalletSimulations hashInput nowText campaign e wallets ids s = Inr ids'"
    by (auto simp: assertLiveEvidence_def Let_def bindR_eq_Inr split: option.splits)
  from e(1) have "e \<in> set (bs_chainEvidence s)" by (auto simp: evidenceFor_def split: option.splits if_splits dest!: find_Some_in)
  moreover from sims have "\<exists>us. mapR (assertWalletSimulation hashInput nowText campaign e ids s) wallets = Inr us"
    and "ids' = ids" "wallets \<noteq> []" "distinct (map toLowerCase wallets)"
    unfolding assertWalletSimulations_def bindR_eq_Inr by auto
  moreover have "walletSimulated hashInput nowText campaign s w" if "w \<in> set wallets" for w
    using calculation(2) that mapR_Inr_each assertWalletSimulation_Inr by (metis (full_types) old.unit.exhaust)
  ultimately show ?thesis using e(2-5) by blast
qed

end
