(* ===== verification/Coordinator.thy ===== *)
theory Coordinator
  imports CanonicalStore Evidence
begin

text \<open>
  The execution coordinator of the backend (\<^verbatim>\<open>packages/backend/src/coordinator.ts\<close>): arming a run, executing
  it once, reconciling it with the chain until it is final, starting up after a crash and the kill.

  \<^item> The state is the one of the backend store. An awaited call of another component is a field of
    \<open>CoordEnv\<close> that may change the state, so it also stands for whatever else runs meanwhile.
  \<^item> The engine, the canonical store as the backend state shows it, the readiness refresh and the
    alerts are such fields; ids, hashes and the configuration of custody are too. The clock is read
    as one time during a call.
  \<^item> Only one reconciliation pass runs at a time (\<^verbatim>\<open>reconcilePass\<close>), so a pass is one call here.
\<close>

section \<open>Facts of the engine\<close>

definition receiptAuthorizesSettlement :: "int \<Rightarrow> BackendReceipt \<Rightarrow> bool" where
  "receiptAuthorizesSettlement chainId receipt \<longleftrightarrow>
     (if bc_state receipt \<noteq> XConfirmed \<and> bc_state receipt \<noteq> XFailed then False
      else if chainId = 1 then True
      else if bc_finalityStage receipt \<noteq> Some ''ethereum_final'' then False
      else chainId \<noteq> 4663 \<or> bc_robinhoodFinality receipt = Some ''final'')"

definition partialFleetFailurePending :: "ExecutionResult \<Rightarrow> bool" where
  "partialFleetFailurePending result \<longleftrightarrow>
     xr_state result = XPending
     \<and> (list_ex (\<lambda>a. ar_state a = XFailed) (xr_attempts result) \<or> list_ex (\<lambda>r. bc_state r = XFailed) (xr_receipts result))"

definition assertEngineFacts ::
  "string \<Rightarrow> int \<Rightarrow> string list \<Rightarrow> AttemptRecord list \<Rightarrow> BackendReceipt list \<Rightarrow> bool \<Rightarrow> dbError + unit" where
  "assertEngineFacts runId chainId executionIds attempts receipts allowUnfinalizedL2 =
     bindR (ensure (distinct executionIds) ''DUPLICATE_EXECUTION_ID'') (\<lambda>_.
     bindR (ensure (list_all (\<lambda>a. ar_runId a = runId \<and> ar_executionId a \<in> set executionIds) attempts
                    \<and> list_all (\<lambda>r. bc_runId r = runId \<and> bc_executionId r \<in> set executionIds) receipts)
              ''INVALID_ENGINE_EXECUTION_FACTS'') (\<lambda>_.
     bindR (ensure (distinct (map ar_id attempts) \<and> distinct (map bc_id receipts)) ''DUPLICATE_ENGINE_FACT_ID'') (\<lambda>_.
     bindR (ensure (list_all (\<lambda>r. bc_state r \<in> {XPending, XConfirmed, XReorged, XFailed}
                      \<and> \<not> (bc_state r = XPending \<and> (\<not> allowUnfinalizedL2 \<or> chainId = 1))
                      \<and> bc_blockNumber r \<noteq> None \<and> truthy (bc_blockHash r)
                      \<and> (case bc_actualSpendWei r of None \<Rightarrow> False | Some n \<Rightarrow> 0 \<le> n)) receipts)
              ''INVALID_RECEIPT_FACT'') (\<lambda>_.
     bindR (ensure (\<not> (chainId \<noteq> 1 \<and> \<not> allowUnfinalizedL2
                      \<and> list_ex (\<lambda>r. bc_finalityStage r \<noteq> Some ''ethereum_final'') receipts)) ''L2_FINALITY_REQUIRED'') (\<lambda>_.
     ensure (\<not> (chainId = 4663
               \<and> list_ex (\<lambda>r. bc_finalityStage r = Some ''ethereum_final'' \<and> bc_robinhoodFinality r \<noteq> Some ''final'') receipts))
       ''ROBINHOOD_FINALITY_REQUIRED'')))))"

definition assertReconciliationCoherence ::
  "string \<Rightarrow> int \<Rightarrow> ReconciliationResult \<Rightarrow> AttemptRecord list \<Rightarrow> AttemptRecord list \<Rightarrow> BackendReceipt list \<Rightarrow> dbError + unit" where
  "assertReconciliationCoherence runId chainId result existingAttempts attempts receipts =
     (let expected = remdups (map ar_executionId existingAttempts);
          terminal = result \<in> {RConfirmed, RFinal, RReorged}
      in bindR (ensure (\<not> (terminal \<and> expected = [])) ''TERMINAL_RECONCILIATION_FACTS_REQUIRED'') (\<lambda>_.
         bindR (ensure (\<not> (terminal \<and> list_ex (\<lambda>i. \<not> list_ex (\<lambda>r. bc_executionId r = i) receipts) expected))
                  ''INCOMPLETE_TERMINAL_RECEIPTS'') (\<lambda>_.
         bindR (ensure (\<not> (result = RFinal
                  \<and> (chainId = 1
                     \<or> list_ex (\<lambda>r. bc_state r \<noteq> XConfirmed \<or> bc_finalityStage r \<noteq> Some ''ethereum_final''
                          \<or> (chainId = 4663 \<and> bc_robinhoodFinality r \<noteq> Some ''final'')) receipts)))
                  ''INVALID_FINALITY_COHERENCE'') (\<lambda>_.
         bindR (ensure (\<not> (result = RConfirmed \<and> (chainId \<noteq> 1 \<or> list_ex (\<lambda>r. bc_state r \<noteq> XConfirmed) receipts)))
                  ''INVALID_FINALITY_COHERENCE'') (\<lambda>_.
         bindR (ensure (\<not> (result = RReorged \<and> list_ex (\<lambda>r. bc_state r \<noteq> XReorged) receipts)) ''INVALID_REORG_COHERENCE'') (\<lambda>_.
         bindR (ensure (\<not> (result = RFailed \<and> attempts = [] \<and> receipts = [])) ''FAILED_RECONCILIATION_FACTS_REQUIRED'') (\<lambda>_.
         ensure (list_all (\<lambda>a. ar_runId a = runId) attempts) ''INVALID_ENGINE_EXECUTION_FACTS'')))))))"

section \<open>Run states\<close>

definition allowedTransitions :: "CampaignState \<Rightarrow> CampaignState list" where
  "allowedTransitions s =
     (case s of CArmed \<Rightarrow> [CActive, CAborted, CFailed] | CActive \<Rightarrow> [CCompleted, CFailed, CAborted]
      | CCompleted \<Rightarrow> [CFailed] | _ \<Rightarrow> [])"

definition canTransition :: "CampaignState \<Rightarrow> CampaignState \<Rightarrow> bool" where
  "canTransition s t \<longleftrightarrow> s = t \<or> t \<in> set (allowedTransitions s)"

definition findRun :: "string \<Rightarrow> BackendState \<Rightarrow> RunRecord option" where
  "findRun runId s = find (\<lambda>r. rr_id r = runId) (bs_runs s)"

definition transitionRun :: "string \<Rightarrow> CampaignState \<Rightarrow> BackendState \<Rightarrow> dbError + BackendState" where
  "transitionRun runId to s =
     (case findRun runId s of
        None \<Rightarrow> Inl ''TypeError''
      | Some run \<Rightarrow>
          if \<not> canTransition (rr_state run) to then Inl ''INVALID_RUN_TRANSITION''
          else Inr (s\<lparr>bs_runs := updateFirst (\<lambda>r. rr_id r = runId) (rr_state_update (\<lambda>_. to)) (bs_runs s)\<rparr>))"

section \<open>Accounting\<close>

definition setReservation :: "BackendStatus \<Rightarrow> wei option \<Rightarrow> Reservation \<Rightarrow> dbError + Reservation" where
  "setReservation status actual r =
     (if rs_status r = BSettled then Inr r
      else if (case actual of None \<Rightarrow> False | Some n \<Rightarrow> n < 0 \<or> rs_amountWei r < n) then Inl ''INVALID_SETTLEMENT_AMOUNT''
      else if rs_status r = BReleased then Inl ''INVALID_RESERVATION_TRANSITION''
      else Inr (r\<lparr>rs_status := status, rs_actualWei := (case actual of None \<Rightarrow> rs_actualWei r | Some n \<Rightarrow> Some n)\<rparr>))"

definition walletAttemptsOf :: "AttemptRecord list \<Rightarrow> Reservation \<Rightarrow> AttemptRecord list" where
  "walletAttemptsOf attempts r = filter (\<lambda>a. toLowerCase (ar_wallet a) = toLowerCase (rs_wallet r)) attempts"

definition confirmedReceipt :: "int \<Rightarrow> AttemptRecord list \<Rightarrow> BackendReceipt list \<Rightarrow> BackendReceipt option" where
  "confirmedReceipt chainId mine receipts =
     Option.bind (find (\<lambda>a. ar_state a = XConfirmed) mine) (\<lambda>c.
       find (\<lambda>x. bc_executionId x = ar_executionId c \<and> bc_state x = XConfirmed \<and> receiptAuthorizesSettlement chainId x) receipts)"

definition failedReceipt :: "int \<Rightarrow> AttemptRecord list \<Rightarrow> BackendReceipt list \<Rightarrow> BackendReceipt option" where
  "failedReceipt chainId mine receipts =
     find (\<lambda>x. bc_state x = XFailed \<and> receiptAuthorizesSettlement chainId x
        \<and> list_ex (\<lambda>a. ar_executionId a = bc_executionId x) mine) receipts"

definition reorgReceipt :: "AttemptRecord list \<Rightarrow> BackendReceipt list \<Rightarrow> BackendReceipt option" where
  "reorgReceipt mine receipts =
     find (\<lambda>x. bc_state x = XReorged \<and> list_ex (\<lambda>a. ar_executionId a = bc_executionId x) mine) receipts"

definition accountReservation ::
  "int \<Rightarrow> AttemptRecord list \<Rightarrow> BackendReceipt list \<Rightarrow> Reservation \<Rightarrow> dbError + Reservation" where
  "accountReservation chainId attempts receipts r =
     (let mine = walletAttemptsOf attempts r
      in case (confirmedReceipt chainId mine receipts, failedReceipt chainId mine receipts, reorgReceipt mine receipts) of
           (Some x, _, _) \<Rightarrow> setReservation BSettled (bc_actualSpendWei x) r
         | (None, Some x, _) \<Rightarrow> setReservation BSettled (bc_actualSpendWei x) r
         | (None, None, Some x) \<Rightarrow> setReservation BReorged (bc_actualSpendWei x) r
         | (None, None, None) \<Rightarrow>
             if mine \<noteq> [] \<and> list_all (\<lambda>a. ar_state a = XFailed \<and> \<not> truthy (ar_hash a)) mine
             then setReservation BReleased None r else Inr r)"

definition applyAccountingToState ::
  "int \<Rightarrow> string \<Rightarrow> AttemptRecord list \<Rightarrow> BackendReceipt list \<Rightarrow> BackendState \<Rightarrow> dbError + BackendState" where
  "applyAccountingToState chainId runId attempts receipts s =
     bindR (mapR (\<lambda>r. if rs_runId r = runId \<and> rs_status r \<noteq> BReleased then accountReservation chainId attempts receipts r
                      else Inr r) (bs_reservations s)) (\<lambda>rs.
       Inr (s\<lparr>bs_reservations := rs\<rparr>))"

section \<open>What the coordinator calls\<close>

record CanonicalOps =
  cn_admit :: "CanonicalAdmissionInput \<Rightarrow> (BackendState, dbError, CanonicalAdmissionResult) eff"
  cn_abortRemaining :: "string \<Rightarrow> (BackendState, dbError, unit) eff"
  cn_abortRunIfUnsent :: "(string \<Rightarrow> string \<Rightarrow> (BackendState, dbError, CloseOutcome) eff) option"

text \<open>
  What the service configures for custody may depend on the run and may throw. The wallet watch says
  whether it covers the wallets of a chain and is alive. \<open>co_alert\<close> delivers an alert (a kind, a run and a text); a
  delivery that is not configured does nothing.
\<close>

datatype AssuranceOption =
    NoAssurance
  | FixedAssurance CompensatingAssuranceConfig
  | PerRunAssurance "Campaign \<Rightarrow> address list \<Rightarrow> dbError + CompensatingAssuranceConfig"

record WalletWatch =
  ww_covers :: "int \<Rightarrow> address list \<Rightarrow> bool"
  ww_healthy :: bool

record CoordEnv =
  co_prepare :: "RunRecord \<Rightarrow> Campaign \<Rightarrow> address list \<Rightarrow> (BackendState, dbError, ExecutionResult) eff"
  co_execute :: "RunRecord \<Rightarrow> Campaign \<Rightarrow> address list \<Rightarrow> string list \<Rightarrow> (BackendState, dbError, ExecutionResult) eff"
  co_reconcile :: "RunRecord \<Rightarrow> (BackendState, dbError, ReconciliationUpdate) eff"
  co_canonical :: "CanonicalOps option"
  co_durable :: bool
  co_atomic :: bool
  co_refresh :: "(Campaign \<Rightarrow> address list \<Rightarrow> (BackendState, dbError, unit) eff) option"
  co_expectedCustody :: "(Campaign \<Rightarrow> address list \<Rightarrow> dbError + CustodyPolicyBinding) option"
  co_acceptLocalCustody :: bool
  co_assurance :: AssuranceOption
  co_watch :: "WalletWatch option"
  co_sha256 :: "string \<Rightarrow> string"
  co_hashInput :: hashInput
  co_hashRequest :: hashRequest
  co_robinhood :: "BackendState \<Rightarrow> EnablementRow option"
  co_base :: "BackendState \<Rightarrow> EnablementRow option"
  co_now :: int
  co_nowText :: string
  co_freshRun :: "BackendState \<Rightarrow> string"
  co_freshIntent :: "BackendState \<Rightarrow> string"
  co_alert :: "string \<Rightarrow> string \<Rightarrow> string \<Rightarrow> (BackendState, dbError, unit) eff"
  co_alertsFinality :: bool

text \<open>Compensating controls count on the wallet watch, so one without the other is refused at start-up.\<close>

definition newCoordinator :: "CoordEnv \<Rightarrow> dbError + CoordEnv" where
  "newCoordinator env =
     bindR (ensure (\<not> (co_assurance env \<noteq> NoAssurance \<and> co_watch env = None)) ''COMPENSATING_ASSURANCE_REQUIRES_WALLET_WATCH'')
       (\<lambda>_. Inr env)"

definition pushEvent :: "string \<Rightarrow> string option \<Rightarrow> BackendState \<Rightarrow> BackendState" where
  "pushEvent kind runId s = s\<lparr>bs_events := bs_events s @ [plainEvent kind runId]\<rparr>"

definition recordEvent :: "string \<Rightarrow> string option \<Rightarrow> (BackendState, dbError, unit) eff" where
  "recordEvent kind runId = storeTransaction (\<lambda>s. Inr ((), pushEvent kind runId s))"

definition quietly :: "('s, 'e, unit) eff \<Rightarrow> ('s, 'e, unit) eff" where
  "quietly m = catchS m (\<lambda>_. returnS ())"

definition raiseFleetNotices :: "CoordEnv \<Rightarrow> string \<Rightarrow> string list \<Rightarrow> (BackendState, dbError, unit) eff" where
  "raiseFleetNotices env runId notices =
     forEachS notices (\<lambda>notice.
       quietly (bindS (recordEvent ''fleet_spend_notice'' (Some runId)) (\<lambda>_. co_alert env ''cap'' runId notice)))"

definition raiseAdmissionBlock :: "CoordEnv \<Rightarrow> string \<Rightarrow> string \<Rightarrow> (BackendState, dbError, unit) eff" where
  "raiseAdmissionBlock env runId reason =
     bindS (quietly (recordEvent ''admission_blocked'' (Some runId))) (\<lambda>_. quietly (co_alert env ''cap'' runId reason))"

definition raiseExecutionNotice :: "CoordEnv \<Rightarrow> string \<Rightarrow> string \<Rightarrow> (BackendState, dbError, unit) eff" where
  "raiseExecutionNotice env runId reason =
     bindS (quietly (recordEvent ''execution_notice'' (Some runId))) (\<lambda>_. quietly (co_alert env ''failed'' runId reason))"

section \<open>Readiness\<close>

text \<open>\<^verbatim>\<open>/^[A-Z][A-Z0-9_]{2,80}(?::[A-Z0-9_]{1,80})?$/\<close>: only a fixed code of a failed check may be shown.\<close>

definition isUpper :: "char \<Rightarrow> bool" where
  "isUpper c \<longleftrightarrow> 65 \<le> (of_char c :: nat) \<and> (of_char c :: nat) \<le> 90"

definition codeChar :: "char \<Rightarrow> bool" where
  "codeChar c \<longleftrightarrow> isUpper c \<or> isDigit c \<or> c = CHR ''_''"

definition fixedCode :: "string \<Rightarrow> bool" where
  "fixedCode message =
     (let code = takeWhile (\<lambda>c. c \<noteq> CHR '':'') message; rest = drop (length code) message
      in 3 \<le> length code \<and> length code \<le> 81 \<and> isUpper (hd code) \<and> list_all codeChar code
         \<and> (rest = [] \<or> 2 \<le> length rest \<and> length rest \<le> 81 \<and> list_all codeChar (tl rest)))"

definition refreshReadiness :: "CoordEnv \<Rightarrow> Campaign \<Rightarrow> address list \<Rightarrow> (BackendState, dbError, bool) eff" where
  "refreshReadiness env campaign wallets =
     (case co_refresh env of
        None \<Rightarrow> returnS False
      | Some refresh \<Rightarrow>
          bindS (catchS (refresh campaign wallets)
                   (\<lambda>e. throwS (if fixedCode e then ''READINESS_REFRESH_FAILED:'' @ e else ''READINESS_REFRESH_FAILED'')))
            (\<lambda>_. returnS True))"

definition runtimeReady :: "BackendState \<Rightarrow> dbError + unit" where
  "runtimeReady s =
     (let r = bs_runtime s
      in bindR (ensure (rt_startupState r = SReady) ''STARTUP_RECONCILIATION_REQUIRED'') (\<lambda>_.
         ensure (rt_engine r \<and> rt_chain r \<and> rt_backup r) ''DEPLOYMENT_DEPENDENCIES_NOT_READY''))"

definition assertLiveStoreReady :: "CoordEnv \<Rightarrow> dbError + unit" where
  "assertLiveStoreReady env =
     bindR (ensure (co_durable env) ''DURABLE_STORE_REQUIRED'') (\<lambda>_. ensure (co_atomic env) ''ATOMIC_STORE_REQUIRED'')"

definition expectedCustodyPolicy :: "CoordEnv \<Rightarrow> Campaign \<Rightarrow> address list \<Rightarrow> dbError + CustodyPolicyBinding option" where
  "expectedCustodyPolicy env campaign wallets =
     (case co_expectedCustody env of
        None \<Rightarrow> Inr None | Some expected \<Rightarrow> bindR (expected campaign wallets) (\<lambda>binding. Inr (Some binding)))"

text \<open>A configuration made for the run must fund every wallet of it.\<close>

definition fundsAll :: "CompensatingAssuranceConfig \<Rightarrow> address list \<Rightarrow> bool" where
  "fundsAll config wallets \<longleftrightarrow>
     list_all (\<lambda>w. dictLookup (ac_runEnvelopeWei config) (toLowerCase w) \<noteq> None
                 \<and> dictLookup (ac_minimumBalanceWei config) (toLowerCase w) \<noteq> None) wallets"

definition assuranceContext ::
  "CoordEnv \<Rightarrow> Campaign \<Rightarrow> address list \<Rightarrow> dbError + CompensatingAssuranceContext option" where
  "assuranceContext env campaign wallets =
     (let context = (\<lambda>config. Inr (Some \<lparr>ax_config = config, ax_chainId = Some (cm_chainId campaign), ax_wallets = Some wallets\<rparr>))
      in case co_assurance env of
           NoAssurance \<Rightarrow> Inr None
         | FixedAssurance config \<Rightarrow> context config
         | PerRunAssurance resolve \<Rightarrow>
             bindR (resolve campaign wallets) (\<lambda>config.
             bindR (ensure (fundsAll config wallets) ''COMPENSATING_ASSURANCE_FUNDING_MISSING'') (\<lambda>_. context config)))"

definition assertWalletWatch :: "CoordEnv \<Rightarrow> int \<Rightarrow> address list \<Rightarrow> dbError + unit" where
  "assertWalletWatch env chainId wallets =
     (case co_watch env of
        None \<Rightarrow> Inr ()
      | Some watch \<Rightarrow>
          bindR (ensure (ww_covers watch chainId wallets) ''FLEET_WATCH_NOT_COVERING_WALLETS'') (\<lambda>_.
          ensure (ww_healthy watch) ''FLEET_WATCH_NOT_HEALTHY''))"

definition custodyGate :: "CoordEnv \<Rightarrow> Campaign \<Rightarrow> address list \<Rightarrow> BackendState \<Rightarrow> dbError + unit" where
  "custodyGate env campaign wallets readiness =
     bindR (expectedCustodyPolicy env campaign wallets) (\<lambda>expected.
     bindR (assuranceContext env campaign wallets) (\<lambda>compensating.
     bindR (assertLiveOperationalReadiness (co_sha256 env) (rt_operational (bs_runtime readiness)) (co_now env) expected
              (if co_acceptLocalCustody env then Some \<lparr>pl_chainId = cm_chainId campaign, pl_wallets = wallets\<rparr> else None)
              compensating) (\<lambda>_.
     assertWalletWatch env (cm_chainId campaign) wallets)))"

text \<open>The gates that arming and executing share; without a refresh the earlier snapshot is judged.\<close>

definition liveGates :: "CoordEnv \<Rightarrow> Campaign \<Rightarrow> address list \<Rightarrow> BackendState \<Rightarrow> (BackendState, dbError, unit) eff" where
  "liveGates env campaign wallets before =
     bindS (liftS (runtimeReady before)) (\<lambda>_.
     bindS (liftS (assertLiveStoreReady env)) (\<lambda>_.
     bindS (refreshReadiness env campaign wallets) (\<lambda>refreshed.
     bindS (getS (\<lambda>s. if refreshed then s else before)) (\<lambda>readiness.
     bindS (ensureS (\<not> bs_killed readiness) ''KILLED'') (\<lambda>_.
     bindS (ensureS (case rt_operational (bs_runtime readiness) of
                       None \<Rightarrow> False | Some r \<Rightarrow> truthy (op_secretStoreReference r) \<and> truthy (op_storePath r))
              ''RUNTIME_READINESS_REQUIRED'') (\<lambda>_.
     liftS (custodyGate env campaign wallets readiness)))))))"

definition liveEvidence :: "CoordEnv \<Rightarrow> Campaign \<Rightarrow> address list \<Rightarrow> string list \<Rightarrow> BackendState \<Rightarrow> dbError + string list" where
  "liveEvidence env = assertLiveEvidence (co_hashInput env) (co_now env) (co_nowText env)"

section \<open>Arming\<close>

record ValidatedCampaign =
  vc_campaignId :: string
  vc_simulationIds :: "string list option"
  vc_wallets :: "address list option"
  vc_evidenceAt :: string

definition listOr :: "'a list option \<Rightarrow> 'a list" where
  "listOr xs = (case xs of None \<Rightarrow> [] | Some ys \<Rightarrow> ys)"

definition chainGates :: "CoordEnv \<Rightarrow> Campaign \<Rightarrow> address list \<Rightarrow> BackendState \<Rightarrow> dbError + unit" where
  "chainGates env campaign wallets s =
     (let v = cm_chainVerification campaign; k = cm_chainId campaign; kind = cf_kind (cm_feePolicy campaign)
      in bindR (ensure (vf_status v = ''verified'' \<and> vf_seaDropCompatible v) ''CHAIN_VERIFICATION_REQUIRED'') (\<lambda>_.
         bindR (ensure (truthy (vf_evidenceId v) \<and> truthy (vf_checkedAt v) \<and> vf_sourceBlock v \<noteq> None)
                  ''CHAIN_VERIFICATION_EVIDENCE_REQUIRED'') (\<lambda>_.
         bindR (ensure (\<not> (k = 4663 \<and> cm_broadcastMode campaign \<noteq> Some ''sequencer'')) ''ROBINHOOD_SEQUENCER_REQUIRED'') (\<lambda>_.
         bindR (if k = 4663 \<and> kind = PaidKind then assertRobinhoodLiveAllowed PaidKind (co_robinhood env s) (Some (co_now env)) else Inr ()) (\<lambda>_.
         bindR (if k = 8453
                then bindR (ensure (cm_broadcastMode campaign = Some ''public'') ''BASE_SINGLE_PRIMARY_RPC_REQUIRED'') (\<lambda>_.
                     bindR (ensure (\<not> js_lt (jint 4) (cm_quantity campaign)) ''BASE_QUANTITY_LIMIT_EXCEEDED'') (\<lambda>_.
                     bindR (ensure (\<not> 6 < length wallets) ''BASE_FLEET_LIMIT_EXCEEDED'') (\<lambda>_.
                     assertBaseLiveAllowed kind (co_base env s) (Some (co_now env)))))
                else Inr ()) (\<lambda>_.
         if k = 1 \<and> kind = PaidKind
         then bindR (ensure (cm_broadcastMode campaign = Some ''public'') ''PAID_ETHEREUM_PUBLIC_MODE_REQUIRED'') (\<lambda>_.
              case cf_totalWei (cm_feePolicy campaign) of
                None \<Rightarrow> Inl ''PAID_ETHEREUM_CAP_REQUIRED''
              | Some fee \<Rightarrow>
                  bindR (bigIntOf (cm_quantity campaign)) (\<lambda>quantity.
                  let allIn = cm_mintPriceWei campaign * quantity + fee; policy = cm_spendPolicy campaign
                  in ensure (\<not> (sl_maxRunWei policy < allIn \<or> sl_dailyCapWei policy < allIn \<or> sl_gasCeilingWei policy < fee))
                       ''PAID_ETHEREUM_CAP_REQUIRED''))
         else Inr ()))))))"

definition runByKey :: "string option \<Rightarrow> BackendState \<Rightarrow> RunRecord option" where
  "runByKey key s = (if truthy key then find (\<lambda>r. rr_idempotencyKey r = key) (bs_runs s) else None)"

definition storeRun :: "RunRecord \<Rightarrow> IntentRecord \<Rightarrow> BackendState \<Rightarrow> dbError + RunRecord \<times> BackendState" where
  "storeRun run intent s =
     (case runByKey (rr_idempotencyKey run) s of
        Some duplicate \<Rightarrow>
          if rr_requestDigest duplicate \<noteq> rr_requestDigest run then Inl ''IDEMPOTENCY_KEY_CONFLICT'' else Inr (duplicate, s)
      | None \<Rightarrow>
          Inr (run, pushEvent ''run_armed'' (Some (rr_id run))
                 (s\<lparr>bs_runs := bs_runs s @ [run], bs_intents := bs_intents s @ [intent]\<rparr>)))"

text \<open>The checks of a live arm, which return the simulations it rests on.\<close>

definition liveChecks ::
  "CoordEnv \<Rightarrow> Campaign \<Rightarrow> address list \<Rightarrow> string list \<Rightarrow> BackendState \<Rightarrow> (BackendState, dbError, string list) eff" where
  "liveChecks env campaign wallets simulationIds initial =
     bindS (liveGates env campaign wallets initial) (\<lambda>_.
     bindS (getS (liveEvidence env campaign wallets simulationIds)) (\<lambda>evidence.
     bindS (liftS evidence) (\<lambda>ids.
     bindS (getS (chainGates env campaign wallets)) (\<lambda>gates.
     bindS (liftS gates) (\<lambda>_. returnS ids)))))"

definition arm :: "CoordEnv \<Rightarrow> ValidatedCampaign \<Rightarrow> RunMode \<Rightarrow> string option \<Rightarrow> (BackendState, dbError, RunRecord) eff" where
  "arm env input mode key initial =
     (let wallets = listOr (vc_wallets input)
      in case find (\<lambda>c. cm_id c = vc_campaignId input) (bs_campaigns initial) of
           None \<Rightarrow> (Inl ''CAMPAIGN_NOT_FOUND'', initial)
         | Some campaign \<Rightarrow>
             bindS (ensureS (\<not> (mode = Live \<and> cm_dryRun campaign)) ''LIVE_REQUIRES_NON_DRY_CAMPAIGN'') (\<lambda>_.
             bindS (ensureS (\<not> (mode = Live
                      \<and> (case cm_custodyPolicy campaign of
                           None \<Rightarrow> False
                         | Some p \<Rightarrow> cu_provider p = ''turnkey''
                             \<and> \<not> RECORD_DIGEST (case cu_recordDigest p of None \<Rightarrow> [] | Some d \<Rightarrow> d))))
                      ''TURNKEY_CAMPAIGN_POLICY_BINDING_REQUIRED'') (\<lambda>_.
             bindS (if mode = Live then liveChecks env campaign wallets (listOr (vc_simulationIds input)) initial
                    else returnS (listOr (vc_simulationIds input))) (\<lambda>simulationIds.
             let digest = liveRequestDigest (co_hashInput env) (co_hashRequest env) campaign mode wallets simulationIds
             in case runByKey key initial of
                  Some existing \<Rightarrow>
                    bindS (ensureS (rr_requestDigest existing = digest) ''IDEMPOTENCY_KEY_CONFLICT'') (\<lambda>_. returnS existing)
                | None \<Rightarrow>
                    bindS (getS (\<lambda>s. (co_freshRun env s, co_freshIntent env s))) (\<lambda>(runId, intentId).
                    storeTransaction (storeRun
                      \<lparr>rr_id = runId, rr_intentId = intentId, rr_campaignId = cm_id campaign, rr_mode = mode,
                       rr_requestDigest = digest, rr_state = CArmed,
                       rr_idempotencyKey = (if truthy key then key else None)\<rparr>
                      \<lparr>ir_id = intentId, ir_runId = runId, ir_campaignId = cm_id campaign, ir_campaignSnapshot = campaign,
                       ir_wallets = wallets, ir_simulationIds = simulationIds\<rparr>))))) initial)"

section \<open>Executing\<close>

definition completeDryRun :: "string \<Rightarrow> BackendState \<Rightarrow> dbError + unit \<times> BackendState" where
  "completeDryRun runId s =
     bindR (case findRun runId s of
              None \<Rightarrow> Inr s
            | Some _ \<Rightarrow> bindR (transitionRun runId CActive s) (transitionRun runId CCompleted)) (\<lambda>s.
       Inr ((), pushEvent ''dry_run_completed'' (Some runId) s))"

definition executeDryRun ::
  "CoordEnv \<Rightarrow> RunRecord \<Rightarrow> Campaign \<Rightarrow> address list \<Rightarrow> (BackendState, dbError, ExecutionResult) eff" where
  "executeDryRun env run campaign wallets =
     bindS (co_prepare env run campaign wallets) (\<lambda>result.
     bindS (ensureS (xr_state result = XPrepared \<and> xr_receipts result = []
              \<and> list_all (\<lambda>a. ar_hash a = None \<and> ar_state a \<in> {XPrepared, XFailed}) (xr_attempts result))
              ''DRY_RUN_SIDE_EFFECT_DETECTED'') (\<lambda>_.
     bindS (storeTransaction (completeDryRun (rr_id run))) (\<lambda>_. returnS result)))"

text \<open>What is recorded after the engine has run: its facts, the state of the run and the accounting.\<close>

definition storeFacts :: "string \<Rightarrow> ExecutionResult \<Rightarrow> BackendState \<Rightarrow> BackendState" where
  "storeFacts runId result s =
     pushEvent ''execution_facts_recorded'' (Some runId)
       (s\<lparr>bs_attempts := bs_attempts s @ xr_attempts result, bs_receipts := bs_receipts s @ xr_receipts result\<rparr>)"

definition resultTransition :: "int \<Rightarrow> string \<Rightarrow> ExecutionState \<Rightarrow> bool \<Rightarrow> BackendState \<Rightarrow> dbError + BackendState" where
  "resultTransition chainId runId state killed s =
     (case findRun runId s of
        None \<Rightarrow> Inr s
      | Some run \<Rightarrow>
          if killed \<and> rr_state run = CActive then transitionRun runId CAborted s
          else if state = XFailed then transitionRun runId CFailed s
          else if state = XAborted \<and> rr_state run = CActive then transitionRun runId CAborted s
          else if state = XConfirmed \<and> chainId = 1 then transitionRun runId CCompleted s
          else Inr s)"

definition recordFacts :: "int \<Rightarrow> string \<Rightarrow> ExecutionResult \<Rightarrow> bool \<Rightarrow> BackendState \<Rightarrow> dbError + unit \<times> BackendState" where
  "recordFacts chainId runId result killed s =
     bindR (resultTransition chainId runId (xr_state result) killed (storeFacts runId result s)) (\<lambda>s1.
     bindR (applyAccountingToState chainId runId (xr_attempts result) (xr_receipts result) s1) (\<lambda>s2. Inr ((), s2)))"

definition finishExecution ::
  "CoordEnv \<Rightarrow> CanonicalOps \<Rightarrow> string \<Rightarrow> Campaign \<Rightarrow> PreparedExecution list \<Rightarrow> ExecutionResult \<Rightarrow>
     (BackendState, dbError, ExecutionResult) eff" where
  "finishExecution env canonical runId campaign prepared engineResult =
     bindS (liftS (rebindExecutionResult engineResult prepared)) (\<lambda>result.
     bindS (liftS (assertEngineFacts runId (cm_chainId campaign) (xr_executionIds result) (xr_attempts result)
              (xr_receipts result) False)) (\<lambda>_.
     bindS (getS bs_killed) (\<lambda>killed.
     bindS (storeTransaction (recordFacts (cm_chainId campaign) runId result killed)) (\<lambda>_.
     bindS (if partialFleetFailurePending result then raiseExecutionNotice env runId ''PARTIAL_FLEET_FAILURE_PENDING''
            else returnS ()) (\<lambda>_.
     bindS (if killed then cn_abortRemaining canonical ''KILLED'' else returnS ()) (\<lambda>_. returnS result))))))"

definition runEngine ::
  "CoordEnv \<Rightarrow> CanonicalOps \<Rightarrow> RunRecord \<Rightarrow> Campaign \<Rightarrow> address list \<Rightarrow> CanonicalAdmissionResult \<Rightarrow>
     (BackendState, dbError, ExecutionResult) eff" where
  "runEngine env canonical run campaign wallets admission =
     (let runId = rr_id run;
          notices = (if ca_headroomNotice admission then [''PAID_DAILY_HEADROOM_USED''] else [])
      in bindS (catchS (co_execute env run campaign wallets (map rs_id (ca_reservations admission))) (\<lambda>e.
                  bindS (getS bs_killed) (\<lambda>killed.
                  bindS (if killed then cn_abortRemaining canonical ''KILLED''
                         else recordEvent ''execution_outcome_unknown'' (Some runId)) (\<lambda>_.
                  bindS (raiseFleetNotices env runId notices) (\<lambda>_. throwS e))))) (\<lambda>engineResult.
         bindS (raiseFleetNotices env runId notices) (\<lambda>_.
         finishExecution env canonical runId campaign (ca_executions admission) engineResult)))"

definition admitRun ::
  "CoordEnv \<Rightarrow> CanonicalOps \<Rightarrow> CanonicalAdmissionInput \<Rightarrow> (BackendState, dbError, CanonicalAdmissionResult) eff" where
  "admitRun env canonical input =
     catchS (cn_admit canonical input) (\<lambda>reason.
       bindS (if reason = ''STALE_PENDING_RESERVATION_REQUIRES_RECONCILIATION'' \<or> reason = ''ADMISSION_CLOCK_ROLLBACK''
              then raiseAdmissionBlock env (rr_id (ai_run input)) reason else returnS ()) (\<lambda>_. throwS reason))"

definition fleetMatches :: "address list \<Rightarrow> address list \<Rightarrow> bool" where
  "fleetMatches wallets armed \<longleftrightarrow>
     length wallets = length armed
     \<and> list_all (\<lambda>w. list_ex (\<lambda>a. toLowerCase a = toLowerCase w) armed) wallets"

definition enablementGates :: "CoordEnv \<Rightarrow> Campaign \<Rightarrow> BackendState \<Rightarrow> dbError + unit" where
  "enablementGates env campaign s =
     (let kind = cf_kind (cm_feePolicy campaign)
      in bindR (if cm_chainId campaign = 4663
                then bindR (assertRobinhoodLiveAllowed FreeKind (co_robinhood env s) (Some (co_now env))) (\<lambda>_.
                     if kind = PaidKind then assertRobinhoodLiveAllowed PaidKind (co_robinhood env s) (Some (co_now env)) else Inr ())
                else Inr ()) (\<lambda>_.
         if cm_chainId campaign = 8453 then assertBaseLiveAllowed kind (co_base env s) (Some (co_now env)) else Inr ()))"

text \<open>
  The live path. The branch of the source for a store without canonical admission cannot be reached:
  such a store is refused before it.
\<close>

definition executeLive ::
  "CoordEnv \<Rightarrow> RunRecord \<Rightarrow> IntentRecord \<Rightarrow> address list \<Rightarrow> (BackendState, dbError, ExecutionResult) eff" where
  "executeLive env run intent wallets =
     (let campaign = ir_campaignSnapshot intent; armed = ir_wallets intent
      in bindS (getS (\<lambda>s. s)) (\<lambda>current.
         bindS (liveGates env campaign armed current) (\<lambda>_.
         bindS (getS (liveEvidence env campaign armed (ir_simulationIds intent))) (\<lambda>evidence.
         bindS (liftS evidence) (\<lambda>_.
         bindS (ensureS (fleetMatches wallets armed) ''EXECUTION_FLEET_MISMATCH'') (\<lambda>_.
         bindS (getS (enablementGates env campaign)) (\<lambda>gates.
         bindS (liftS gates) (\<lambda>_.
         bindS (ensureS (cf_totalWei (cm_feePolicy campaign) \<noteq> None) ''TOTAL_FEE_BUDGET_REQUIRED'') (\<lambda>_.
         bindS (liftS (bigIntOf (cm_quantity campaign))) (\<lambda>_.
         (case co_canonical env of
            None \<Rightarrow> throwS ''CANONICAL_STORE_REQUIRED_FOR_LIVE''
          | Some canonical \<Rightarrow>
              bindS (admitRun env canonical
                       \<lparr>ai_run = run, ai_intent = intent, ai_campaign = campaign, ai_wallets = wallets\<rparr>) (\<lambda>admission.
              bindS (getS bs_killed) (\<lambda>killed.
              if killed then bindS (cn_abortRemaining canonical ''KILLED'') (\<lambda>_. throwS ''KILLED'')
              else runEngine env canonical run campaign armed admission)))))))))))))"

definition executeRun :: "CoordEnv \<Rightarrow> string \<Rightarrow> address list \<Rightarrow> (BackendState, dbError, ExecutionResult) eff" where
  "executeRun env runId wallets =
     bindS (getS (\<lambda>s. s)) (\<lambda>s.
     bindS (ensureS (\<not> bs_killed s) ''KILLED'') (\<lambda>_.
     (case findRun runId s of
        None \<Rightarrow> throwS ''RUN_NOT_FOUND''
      | Some run \<Rightarrow>
          bindS (ensureS (\<not> list_ex (\<lambda>a. ar_runId a = runId) (bs_attempts s)
                          \<and> \<not> list_ex (\<lambda>e. be_runId e = Some runId \<and> be_type e = ''execution_facts_recorded'') (bs_events s))
                   ''RUN_ALREADY_EXECUTED'') (\<lambda>_.
          bindS (ensureS (rr_state run = CArmed) ''RUN_NOT_ARMED'') (\<lambda>_.
          (case find (\<lambda>i. ir_id i = rr_intentId run) (bs_intents s) of
             None \<Rightarrow> throwS ''INTENT_NOT_FOUND''
           | Some intent \<Rightarrow>
               if rr_mode run = DryRun then executeDryRun env run (ir_campaignSnapshot intent) wallets
               else executeLive env run intent wallets))))))"

section \<open>Reconciling\<close>

definition reconcileTransition :: "int \<Rightarrow> ReconciliationResult \<Rightarrow> string \<Rightarrow> BackendState \<Rightarrow> dbError + BackendState" where
  "reconcileTransition chainId result runId s =
     (case findRun runId s of
        None \<Rightarrow> Inl ''RUN_NOT_FOUND''
      | Some run \<Rightarrow>
          if rr_state run = CAborted then Inr s
          else if (result = RConfirmed \<and> chainId = 1) \<or> result = RFinal
          then bindR (if rr_state run = CArmed then transitionRun runId CActive s else Inr s) (\<lambda>s1.
                 if rr_state run \<in> {CArmed, CActive} then transitionRun runId CCompleted s1 else Inr s1)
          else if result = RSoft \<or> result = RPosted
          then if rr_state run = CArmed then transitionRun runId CActive s else Inr s
          else if (result = RFailed \<or> result = RReorged) \<and> rr_state run \<noteq> CFailed then transitionRun runId CFailed s
          else Inr s)"

definition reconciliationAttempt :: "string \<Rightarrow> ReconciliationUpdate \<Rightarrow> BackendState \<Rightarrow> string option" where
  "reconciliationAttempt runId update before =
     (case find (\<lambda>r. truthy (bc_attemptId r)) (up_receipts update) of
        Some r \<Rightarrow> bc_attemptId r
      | None \<Rightarrow>
          (case up_attempts update of
             a # _ \<Rightarrow> Some (ar_id a)
           | [] \<Rightarrow> map_option ar_id (find (\<lambda>a. ar_runId a = runId \<and> truthy (ar_hash a)) (bs_attempts before))))"

definition appendFacts :: "string \<Rightarrow> ReconciliationUpdate \<Rightarrow> BackendState \<Rightarrow> BackendState \<Rightarrow> BackendState" where
  "appendFacts runId update before s =
     (let attempt = reconciliationAttempt runId update before
      in s\<lparr>
           bs_attempts := bs_attempts s @ filter (\<lambda>a. \<not> list_ex (\<lambda>b. ar_id b = ar_id a) (bs_attempts s)) (up_attempts update),
           bs_receipts := bs_receipts s @ filter (\<lambda>a. \<not> list_ex (\<lambda>b. bc_id b = bc_id a) (bs_receipts s)) (up_receipts update),
           bs_reconciliations := bs_reconciliations s
             @ [\<lparr>br_runId = runId, br_attemptId = (if truthy attempt then attempt else None), br_result = up_result update\<rparr>]\<rparr>)"

definition applyReconciliation ::
  "int \<Rightarrow> string \<Rightarrow> ReconciliationUpdate \<Rightarrow> BackendState \<Rightarrow> BackendState \<Rightarrow> dbError + unit \<times> BackendState" where
  "applyReconciliation chainId runId update before s =
     bindR (ensure (findRun runId s \<noteq> None) ''RUN_NOT_FOUND'') (\<lambda>_.
     bindR (reconcileTransition chainId (up_result update) runId (appendFacts runId update before s)) (\<lambda>s1.
     bindR (applyAccountingToState chainId runId (up_attempts update) (up_receipts update) s1) (\<lambda>s2. Inr ((), s2))))"

definition finalityReported :: "string \<Rightarrow> string \<Rightarrow> BackendState \<Rightarrow> bool" where
  "finalityReported runId receiptId s =
     list_ex (\<lambda>e. be_type e = ''robinhood_finality_reported'' \<and> be_runId e = Some runId \<and> be_receiptId e = Some receiptId) (bs_events s)"

definition unreportedFinal :: "string \<Rightarrow> BackendState \<Rightarrow> BackendReceipt \<Rightarrow> bool" where
  "unreportedFinal runId s r \<longleftrightarrow>
     bc_runId r = runId \<and> bc_finalityStage r = Some ''ethereum_final'' \<and> bc_robinhoodFinality r = Some ''final''
     \<and> bc_state r \<in> {XConfirmed, XFailed} \<and> \<not> finalityReported runId (bc_id r) s"

definition reportFinality :: "CoordEnv \<Rightarrow> string \<Rightarrow> BackendState \<Rightarrow> BackendReceipt \<Rightarrow> (BackendState, dbError, unit) eff" where
  "reportFinality env runId latest r =
     (case (if truthy (bc_attemptId r)
            then find (\<lambda>a. ar_runId a = runId \<and> Some (ar_id a) = bc_attemptId r \<and> truthy (ar_hash a)) (bs_attempts latest)
            else None) of
        None \<Rightarrow> returnS ()
      | Some a \<Rightarrow>
          quietly (bindS (co_alert env (if bc_state r = XConfirmed then ''confirmed'' else ''mintFailed'') runId (ar_wallet a)) (\<lambda>_.
            storeTransaction (\<lambda>s.
              Inr ((), if finalityReported runId (bc_id r) s then s
                       else s\<lparr>bs_events := bs_events s
                         @ [(plainEvent ''robinhood_finality_reported'' (Some runId))\<lparr>be_receiptId := Some (bc_id r)\<rparr>]\<rparr>)))))"

definition reconcileRun :: "CoordEnv \<Rightarrow> string \<Rightarrow> (BackendState, dbError, unit) eff" where
  "reconcileRun env runId =
     bindS (getS (\<lambda>s. s)) (\<lambda>before.
     (case Option.bind (findRun runId before) (\<lambda>run.
             map_option (Pair run) (find (\<lambda>i. ir_id i = rr_intentId run) (bs_intents before))) of
        None \<Rightarrow> throwS ''INTENT_NOT_FOUND''
      | Some (run, intent) \<Rightarrow>
          (let chainId = cm_chainId (ir_campaignSnapshot intent)
           in bindS (co_reconcile env run) (\<lambda>update.
              bindS (liftS (assertEngineFacts runId chainId
                       (remdups (map ar_executionId (up_attempts update) @ map bc_executionId (up_receipts update)))
                       (up_attempts update) (up_receipts update) True)) (\<lambda>_.
              bindS (liftS (assertReconciliationCoherence runId chainId (up_result update)
                       (filter (\<lambda>a. ar_runId a = runId) (bs_attempts before)) (up_attempts update) (up_receipts update))) (\<lambda>_.
              bindS (storeTransaction (applyReconciliation chainId runId update before)) (\<lambda>_.
              if chainId \<noteq> 4663 then returnS ()
              else bindS (getS (\<lambda>s. s)) (\<lambda>latest.
                   forEachS (filter (unreportedFinal runId latest) (bs_receipts latest)) (reportFinality env runId latest)))))))))"

definition latestResult :: "string \<Rightarrow> BackendState \<Rightarrow> ReconciliationResult option" where
  "latestResult runId s =
     (let rs = filter (\<lambda>r. br_runId r = runId) (bs_reconciliations s)
      in if rs = [] then None else Some (br_result (last rs)))"

definition hasUnreportedFinality :: "CoordEnv \<Rightarrow> BackendState \<Rightarrow> RunRecord \<Rightarrow> bool" where
  "hasUnreportedFinality env s run \<longleftrightarrow>
     co_alertsFinality env
     \<and> map_option (\<lambda>i. cm_chainId (ir_campaignSnapshot i)) (find (\<lambda>i. ir_runId i = rr_id run) (bs_intents s)) = Some 4663
     \<and> list_ex (unreportedFinal (rr_id run) s) (bs_receipts s)"

definition hasSubmitted :: "BackendState \<Rightarrow> RunRecord \<Rightarrow> bool" where
  "hasSubmitted s run \<longleftrightarrow> list_ex (\<lambda>a. ar_runId a = rr_id run \<and> truthy (ar_hash a)) (bs_attempts s)"

definition reconcileCandidate :: "CoordEnv \<Rightarrow> BackendState \<Rightarrow> RunRecord \<Rightarrow> bool" where
  "reconcileCandidate env s run \<longleftrightarrow>
     rr_state run \<in> {CArmed, CActive}
     \<or> (rr_state run = CCompleted \<and> latestResult (rr_id run) s \<noteq> Some RFinal)
     \<or> (rr_state run = CAborted \<and> hasSubmitted s run)
     \<or> hasUnreportedFinality env s run"

definition reconcilePass :: "CoordEnv \<Rightarrow> (BackendState, dbError, unit) eff" where
  "reconcilePass env =
     bindS (getS (\<lambda>s. map rr_id (filter (reconcileCandidate env s) (bs_runs s)))) (\<lambda>ids.
       forEachS ids (reconcileRun env))"

section \<open>Starting and killing\<close>

definition closeUnsentRun :: "CoordEnv \<Rightarrow> string \<Rightarrow> string \<Rightarrow> (BackendState, dbError, CloseOutcome) eff" where
  "closeUnsentRun env runId reason =
     (case Option.bind (co_canonical env) cn_abortRunIfUnsent of
        None \<Rightarrow> returnS Absent
      | Some close \<Rightarrow>
          bindS (close runId reason) (\<lambda>outcome.
          bindS (if outcome = Closed then recordEvent ''run_closed_unsent'' (Some runId) else returnS ()) (\<lambda>_.
          returnS outcome)))"

definition unresolved :: "BackendState \<Rightarrow> RunRecord \<Rightarrow> bool" where
  "unresolved s run \<longleftrightarrow>
     (rr_state run \<in> {CArmed, CActive} \<or> (rr_state run = CAborted \<and> hasSubmitted s run))
     \<and> \<not> (let result = latestResult (rr_id run) s
          in result = Some RFailed \<or> result = Some RFinal
             \<or> (result = Some RConfirmed
                \<and> map_option cm_chainId (find (\<lambda>c. cm_id c = rr_campaignId run) (bs_campaigns s)) = Some 1))"

definition startupVerdict :: "BackendState \<Rightarrow> BackendState" where
  "startupVerdict s =
     s\<lparr>bs_runtime :=
        (if list_ex (unresolved s) (bs_runs s)
         then (bs_runtime s)\<lparr>rt_startupState := SBlocked, rt_blockingReasons := [''UNRESOLVED_EXECUTIONS'']\<rparr>
         else (bs_runtime s)\<lparr>rt_startupState := SReady, rt_blockingReasons := []\<rparr>)\<rparr>"

definition isPrefix :: "string \<Rightarrow> string \<Rightarrow> bool" where
  "isPrefix p s \<longleftrightarrow> take (length p) s = p"

definition liveRequestRun :: "RunRecord \<Rightarrow> bool" where
  "liveRequestRun run \<longleftrightarrow>
     rr_state run = CArmed \<and> rr_mode run = Live
     \<and> (case rr_idempotencyKey run of None \<Rightarrow> False | Some k \<Rightarrow> isPrefix ''live-request:'' k)"

definition start :: "CoordEnv \<Rightarrow> (BackendState, dbError, unit) eff" where
  "start env =
     bindS (storeTransaction (\<lambda>s. Inr ((), s\<lparr>bs_runtime := (bs_runtime s)\<lparr>rt_startupState := SReconciling,
              rt_blockingReasons := [''RECONCILIATION_IN_PROGRESS'']\<rparr>\<rparr>))) (\<lambda>_.
     bindS (getS (\<lambda>s. map rr_id (filter liveRequestRun (bs_runs s)))) (\<lambda>ids.
     bindS (forEachS ids (\<lambda>i. bindS (closeUnsentRun env i ''STARTUP_UNSENT_LIVE_REQUEST'') (\<lambda>_. returnS ()))) (\<lambda>_.
     bindS (reconcilePass env) (\<lambda>_.
     storeTransaction (\<lambda>s. Inr ((), startupVerdict s))))))"

definition engageKill :: "string \<Rightarrow> BackendState \<Rightarrow> BackendState" where
  "engageKill reason s =
     (let reasons = rt_blockingReasons (bs_runtime s) @ [''KILLED'']
      in pushEvent ''kill'' None (s\<lparr>bs_killed := True, bs_killReason := Some reason,
           bs_runtime := (bs_runtime s)\<lparr>rt_startupState := SBlocked, rt_blockingReasons := rev (remdups (rev reasons))\<rparr>\<rparr>))"

definition abortOpenRuns :: "BackendState \<Rightarrow> BackendState" where
  "abortOpenRuns s =
     s\<lparr>bs_runs := map (\<lambda>r. if rr_state r \<in> {CArmed, CActive} then r\<lparr>rr_state := CAborted\<rparr> else r) (bs_runs s)\<rparr>"

definition killAll :: "CoordEnv \<Rightarrow> string \<Rightarrow> (BackendState, dbError, unit) eff" where
  "killAll env reason =
     bindS (storeTransaction (\<lambda>s. Inr ((), engageKill reason s))) (\<lambda>_.
     (case co_canonical env of
        Some canonical \<Rightarrow> cn_abortRemaining canonical reason
      | None \<Rightarrow> storeTransaction (\<lambda>s. Inr ((), abortOpenRuns s))))"

end
