(* ===== verification/Application.thy ===== *)
theory Application
  imports Coordinator
begin

text \<open>
  The application in front of the coordinator (\<^verbatim>\<open>packages/backend/src/application.ts\<close>): the commands of
  the operator (approve, arm, dry-run, run, reconcile, kill and the reports) and the creation of a
  campaign with its spend policy.

  \<^item> The untyped input of a command is a record of the fields it reads, each absent when the input
    lacks it or has another type. The contents of the reports (health, summary) are not modelled.
  \<^item> The opening time and the lead of a campaign are checked and then left out, as the records of
    the model do.
\<close>

section \<open>Surroundings\<close>

record CampaignInput =
  ci_chainId :: int
  ci_contract :: address
  ci_strategy :: string
  ci_quantity :: jsnum
  ci_dryRun :: "bool option"
  ci_maxRunWei :: wei
  ci_dailyCapWei :: wei
  ci_gasCeilingWei :: wei
  ci_broadcastMode :: "string option"
  ci_chainVerification :: ChainVerification
  ci_mintPriceWei :: "wei option"
  ci_feePolicy :: CampaignFees
  ci_openingAt :: "date option"
  ci_tMinusMs :: "jsnum option"
  ci_custodyPolicy :: "CustodyPolicy option"

record AppEnv =
  ap_coord :: CoordEnv
  ap_readOnly :: bool
  ap_fleetPolicy :: "FleetSpendPolicy option"
  ap_custodyPolicyFor :: "(CampaignInput \<Rightarrow> (BackendState, dbError, CustodyPolicy option) eff) option"
  ap_health :: "BackendState \<Rightarrow> string \<times> bool"
  ap_freshCampaign :: "BackendState \<Rightarrow> string"
  ap_freshApproval :: "BackendState \<Rightarrow> string"

section \<open>Creating a campaign\<close>

definition MAX_FREE_TIP_WEI :: wei where
  "MAX_FREE_TIP_WEI = 2000000000"

definition mintPriceOf :: "CampaignInput \<Rightarrow> wei" where
  "mintPriceOf input = (case ci_mintPriceWei input of None \<Rightarrow> 0 | Some p \<Rightarrow> p)"

text \<open>\<^verbatim>\<open>/^turnkey:[^:]+:0x[0-9a-f]{64}$/i\<close>, and the reference ends with the requested.\<close>

definition custodySelection :: "CustodyPolicy \<Rightarrow> bool" where
  "custodySelection p \<longleftrightarrow>
     (let reference = cu_policyReference p; rest = drop 8 reference; middle = takeWhile (\<lambda>c. c \<noteq> CHR '':'') rest;
          tail = CHR '':'' # toLowerCase (cu_policyDigest p)
      in cu_provider p = ''turnkey''
         \<and> toLowerCase (take 8 reference) = ''turnkey:'' \<and> middle \<noteq> [] \<and> length middle < length rest
         \<and> DIGEST (drop (Suc (length middle)) rest)
         \<and> DIGEST (cu_policyDigest p)
         \<and> (case cu_recordDigest p of None \<Rightarrow> False | Some d \<Rightarrow> RECORD_DIGEST d)
         \<and> drop (length reference - length tail) (toLowerCase reference) = tail)"

definition checkIdentity :: "CampaignInput \<Rightarrow> CustodyPolicy option \<Rightarrow> dbError + unit" where
  "checkIdentity input custody =
     (let k = ci_chainId input; mode = ci_broadcastMode input
      in bindR (ensure (\<not> js_lt (ci_quantity input) (jint 1) \<and> isSafeInteger (ci_quantity input)) ''INVALID_QUANTITY'') (\<lambda>_.
         bindR (ensure (ci_openingAt input \<noteq> Some None) ''INVALID_OPENING_TIME'') (\<lambda>_.
         bindR (ensure (case ci_tMinusMs input of None \<Rightarrow> True | Some t \<Rightarrow> isFinite t \<and> \<not> js_lt t (jint 0)) ''INVALID_T_MINUS'') (\<lambda>_.
         bindR (ensure (0 \<le> ci_maxRunWei input \<and> 0 \<le> ci_dailyCapWei input \<and> 0 \<le> ci_gasCeilingWei input
                        \<and> 0 \<le> mintPriceOf input) ''INVALID_SPEND_POLICY'') (\<lambda>_.
         bindR (ensure (k = 1 \<or> k = 8453 \<or> k = 4663) ''CHAIN_EXECUTION_BLOCKED'') (\<lambda>_.
         bindR (ensure (\<not> (mode = Some ''flashbots'' \<and> k \<noteq> 1)) ''FLASHBOTS_ETHEREUM_ONLY'') (\<lambda>_.
         bindR (ensure (\<not> (k = 4663 \<and> mode \<noteq> Some ''sequencer'')) ''ROBINHOOD_SEQUENCER_REQUIRED'') (\<lambda>_.
         bindR (ensure (\<not> (k = 8453 \<and> mode \<noteq> Some ''public'')) ''BASE_SINGLE_PRIMARY_RPC_REQUIRED'') (\<lambda>_.
         bindR (ensure (\<not> (k = 8453 \<and> js_lt (jint 4) (ci_quantity input))) ''BASE_QUANTITY_LIMIT_EXCEEDED'') (\<lambda>_.
         bindR (ensure (\<not> (k = 1 \<and> mode = Some ''sequencer'')) ''SEQUENCER_ROBINHOOD_ONLY'') (\<lambda>_.
         bindR (ensure (vf_chainId (ci_chainVerification input) = k) ''CHAIN_VERIFICATION_MISMATCH'') (\<lambda>_.
         bindR (ensure (0 \<le> cf_priorityWei (ci_feePolicy input)) ''INVALID_PRIORITY_FEE_POLICY'') (\<lambda>_.
         ensure (case custody of None \<Rightarrow> True | Some p \<Rightarrow> custodySelection p) ''CUSTODY_POLICY_SELECTION_INVALID'')))))))))))))"

definition totalFeeBudget :: "CampaignInput \<Rightarrow> dbError + wei" where
  "totalFeeBudget input =
     (let fees = ci_feePolicy input
      in case (cf_l2BudgetWei fees, cf_l1BudgetWei fees) of
           (Some l2, Some l1) \<Rightarrow>
             bindR (ensure (0 \<le> l2 \<and> 0 \<le> l1) ''GAS_COMPONENT_BUDGETS_REQUIRED'') (\<lambda>_.
             let budget = cf_priorityWei fees + l2 + l1
             in bindR (ensure (cf_totalWei fees = Some budget) ''TOTAL_FEE_BUDGET_MISMATCH'') (\<lambda>_.
                bindR (ensure (budget \<le> ci_gasCeilingWei input) ''GAS_CEILING_EXCEEDED'') (\<lambda>_. Inr budget)))
         | _ \<Rightarrow> Inl ''GAS_COMPONENT_BUDGETS_REQUIRED'')"

definition checkPaid :: "AppEnv \<Rightarrow> CampaignInput \<Rightarrow> wei \<Rightarrow> BackendState \<Rightarrow> dbError + unit" where
  "checkPaid env input budget s =
     (let k = ci_chainId input; c = ap_coord env
      in bindR (if k = 4663 then assertRobinhoodLiveAllowed PaidKind (co_robinhood c s) (Some (co_now c)) else Inr ()) (\<lambda>_.
         bindR (if k = 8453 then assertBaseLiveAllowed PaidKind (co_base c s) (Some (co_now c)) else Inr ()) (\<lambda>_.
         bindR (ensure (\<not> (k = 1 \<and> ci_broadcastMode input \<noteq> Some ''public'')) ''PAID_ETHEREUM_PUBLIC_MODE_REQUIRED'') (\<lambda>_.
         bindR (ensure (0 < mintPriceOf input) ''PAID_MINT_VALUE_REQUIRED'') (\<lambda>_.
         bindR (bigIntOf (ci_quantity input)) (\<lambda>quantity.
         let allIn = mintPriceOf input * quantity + budget
         in ensure (\<not> (ci_maxRunWei input < allIn \<or> ci_dailyCapWei input < allIn)) ''PAID_ETHEREUM_CAP_REQUIRED''))))))"

definition approvedAllowance :: "AppEnv \<Rightarrow> int \<Rightarrow> wei option" where
  "approvedAllowance env k =
     (if k = 8453 then Some (fl_freeFeeAllowanceWei BASE_PERSONAL_LIVE_FLEET_POLICY)
      else if k = 4663 then Some ROBINHOOD_FREE_PER_WALLET_CAP_WEI
      else map_option fl_freeFeeAllowanceWei (ap_fleetPolicy env))"

definition freeFeeShape :: "AppEnv \<Rightarrow> CampaignInput \<Rightarrow> wei \<Rightarrow> dbError + unit" where
  "freeFeeShape env input budget =
     (let fees = ci_feePolicy input; k = ci_chainId input; tip = cf_priorityWei fees
      in case approvedAllowance env k of
           Some allowance \<Rightarrow>
             if (k = 1 \<or> k = 8453 \<or> k = 4663) \<and> cf_freeCapWei fees = Some allowance
             then bindR (ensure (0 < tip \<and> tip \<le> MAX_FREE_TIP_WEI) ''FREE_TIP_OUT_OF_RANGE'') (\<lambda>_.
                  ensure (budget \<le> allowance) ''FREE_TOTAL_SPEND_CAP_EXCEEDED'')
             else bindR (ensure (cf_freeCapWei fees = Some (tip * 2)) ''FREE_TOTAL_SPEND_POLICY_INVALID'') (\<lambda>_.
                  ensure (budget \<le> tip * 2) ''FREE_TOTAL_SPEND_CAP_EXCEEDED'')
         | None \<Rightarrow>
             bindR (ensure (cf_freeCapWei fees = Some (tip * 2)) ''FREE_TOTAL_SPEND_POLICY_INVALID'') (\<lambda>_.
             ensure (budget \<le> tip * 2) ''FREE_TOTAL_SPEND_CAP_EXCEEDED''))"

definition checkFree :: "AppEnv \<Rightarrow> CampaignInput \<Rightarrow> wei \<Rightarrow> dbError + unit" where
  "checkFree env input budget =
     (let k = ci_chainId input
      in bindR (ensure (mintPriceOf input = 0) ''FREE_MINT_VALUE_MUST_BE_ZERO'') (\<lambda>_.
         bindR (freeFeeShape env input budget) (\<lambda>_.
         bindR (if k = 4663 then assertRobinhoodFreePolicy (ci_gasCeilingWei input) (ci_dailyCapWei input) (Some budget) else Inr ()) (\<lambda>_.
         bindR (ensure (\<not> (k = 4663 \<and> ROBINHOOD_FREE_ACTIVE_PERIOD_CAP_WEI < ci_dailyCapWei input))
                  ''ROBINHOOD_ACTIVE_PERIOD_CAP_EXCEEDED'') (\<lambda>_.
         ensure (\<not> (k = 8453 \<and> (fl_freeDailyCapWei BASE_PERSONAL_LIVE_FLEET_POLICY < ci_dailyCapWei input
                     \<or> fl_freeFeeAllowanceWei BASE_PERSONAL_LIVE_FLEET_POLICY < budget))) ''BASE_FREE_CAP_EXCEEDED'')))))"

definition campaignOf :: "string \<Rightarrow> CampaignInput \<Rightarrow> CustodyPolicy option \<Rightarrow> Campaign" where
  "campaignOf campaignId input custody = \<lparr>cm_id = campaignId, cm_chainId = ci_chainId input, cm_contract = ci_contract input,
     cm_strategy = ci_strategy input, cm_quantity = ci_quantity input,
     cm_dryRun = (case ci_dryRun input of None \<Rightarrow> True | Some d \<Rightarrow> d),
     cm_spendPolicy = \<lparr>sl_maxRunWei = ci_maxRunWei input, sl_dailyCapWei = ci_dailyCapWei input, sl_gasCeilingWei = ci_gasCeilingWei input\<rparr>,
     cm_broadcastMode = (if truthy (ci_broadcastMode input) then ci_broadcastMode input else None), cm_mintPriceWei = mintPriceOf input,
     cm_feePolicy = ci_feePolicy input, cm_chainVerification = ci_chainVerification input, cm_custodyPolicy = custody\<rparr>"

definition chooseCustody :: "AppEnv \<Rightarrow> CampaignInput \<Rightarrow> (BackendState, dbError, CustodyPolicy option) eff" where
  "chooseCustody env input =
     (case ci_custodyPolicy input of
        Some p \<Rightarrow> returnS (Some p)
      | None \<Rightarrow>
          if ci_dryRun input = Some False
          then (case ap_custodyPolicyFor env of None \<Rightarrow> returnS None | Some select \<Rightarrow> select input)
          else returnS None)"

definition checkCampaign :: "AppEnv \<Rightarrow> CampaignInput \<Rightarrow> CustodyPolicy option \<Rightarrow> BackendState \<Rightarrow> dbError + unit" where
  "checkCampaign env input custody s =
     bindR (checkIdentity input custody) (\<lambda>_.
     bindR (totalFeeBudget input) (\<lambda>budget.
     if cf_kind (ci_feePolicy input) = PaidKind then checkPaid env input budget s else checkFree env input budget))"

definition createCampaign :: "AppEnv \<Rightarrow> CampaignInput \<Rightarrow> (BackendState, dbError, Campaign) eff" where
  "createCampaign env input =
     bindS (chooseCustody env input) (\<lambda>custody.
     bindS (getS (checkCampaign env input custody)) (\<lambda>checked.
     bindS (liftS checked) (\<lambda>_.
     bindS (getS (\<lambda>s. campaignOf (ap_freshCampaign env s) input custody)) (\<lambda>campaign.
     storeTransaction (\<lambda>s. Inr (campaign, s\<lparr>bs_campaigns := bs_campaigns s @ [campaign]\<rparr>))))))"

section \<open>Commands\<close>

record CommandInput =
  cmd_validated :: "ValidatedCampaign option"
  cmd_mode :: "string option"
  cmd_idempotencyKey :: "string option"
  cmd_approvalId :: "string option"
  cmd_runId :: "string option"
  cmd_wallets :: "address list option"
  cmd_reason :: "string option"

definition commaJoin :: "string list \<Rightarrow> string" where
  "commaJoin xs = (case xs of [] \<Rightarrow> [] | y # ys \<Rightarrow> y @ concat (map (\<lambda>z. CHR '','' # z) ys))"

definition keyOr :: "string option \<Rightarrow> string \<Rightarrow> string" where
  "keyOr key fallback = (if truthy key then the key else fallback)"

definition findCampaign :: "string \<Rightarrow> BackendState \<Rightarrow> Campaign option" where
  "findCampaign campaignId s = find (\<lambda>c. cm_id c = campaignId) (bs_campaigns s)"

definition digestOf :: "AppEnv \<Rightarrow> Campaign \<Rightarrow> RunMode \<Rightarrow> ValidatedCampaign \<Rightarrow> hash" where
  "digestOf env campaign mode v =
     liveRequestDigest (co_hashInput (ap_coord env)) (co_hashRequest (ap_coord env)) campaign mode (listOr (vc_wallets v))
       (listOr (vc_simulationIds v))"

definition keyedEvent :: "string \<Rightarrow> string \<Rightarrow> BackendState \<Rightarrow> BackendEvent option" where
  "keyedEvent kind key s = find (\<lambda>e. be_type e = kind \<and> be_idempotencyKey e = Some key) (bs_events s)"

definition addEvent :: "BackendEvent \<Rightarrow> (BackendState, dbError, unit) eff" where
  "addEvent e = storeTransaction (\<lambda>s. Inr ((), s\<lparr>bs_events := bs_events s @ [e]\<rparr>))"

definition approvalResponse :: "BackendEvent \<Rightarrow> CommandResponse" where
  "approvalResponse e = \<lparr>cs_id = (case be_approvalId e of None \<Rightarrow> [] | Some i \<Rightarrow> i), cs_state = ''Approved'',
     cs_nextAction = ''Arm the approved campaign'', cs_data = None\<rparr>"

definition approveCommand :: "AppEnv \<Rightarrow> CommandInput \<Rightarrow> (BackendState, dbError, CommandResponse) eff" where
  "approveCommand env input s =
     (case cmd_validated input of
        None \<Rightarrow> (Inl ''VALIDATED_CAMPAIGN_REQUIRED'', s)
      | Some v \<Rightarrow>
          (case findCampaign (vc_campaignId v) s of
             None \<Rightarrow> (Inl ''CAMPAIGN_NOT_FOUND'', s)
           | Some campaign \<Rightarrow>
               let key = keyOr (cmd_idempotencyKey input) (''approval:'' @ cm_id campaign @ '':'' @ vc_evidenceAt v);
                   requested = digestOf env campaign Live v
               in case keyedEvent ''campaign_approved'' key s of
                    Some existing \<Rightarrow>
                      if be_requestDigest existing \<noteq> Some requested then (Inl ''IDEMPOTENCY_KEY_CONFLICT'', s)
                      else (Inr (approvalResponse existing), s)
                  | None \<Rightarrow>
                      let event = (plainEvent ''campaign_approved'' None)\<lparr>be_approvalId := Some (ap_freshApproval env s),
                            be_campaignId := Some (cm_id campaign), be_idempotencyKey := Some key, be_requestDigest := Some requested\<rparr>
                      in bindS (addEvent event) (\<lambda>_. returnS (approvalResponse event)) s))"

definition approvedFor :: "AppEnv \<Rightarrow> CommandInput \<Rightarrow> ValidatedCampaign \<Rightarrow> Campaign \<Rightarrow> BackendEvent \<Rightarrow> bool" where
  "approvedFor env input v campaign e \<longleftrightarrow>
     be_type e = ''campaign_approved'' \<and> be_campaignId e = Some (vc_campaignId v)
     \<and> be_requestDigest e = Some (digestOf env campaign Live v)
     \<and> (\<not> truthy (cmd_approvalId input) \<or> be_approvalId e = cmd_approvalId input)"

fun stateText :: "CampaignState \<Rightarrow> string" where
  "stateText CDraft = ''Draft''" | "stateText CValidating = ''Validating''" | "stateText CReady = ''Ready''"
| "stateText CArmed = ''Armed''" | "stateText CActive = ''Active''" | "stateText CPaused = ''Paused''"
| "stateText CCompleted = ''Completed''" | "stateText CFailed = ''Failed''" | "stateText CAborted = ''Aborted''"
| "stateText CCancelled = ''Cancelled''"

definition armCommand :: "AppEnv \<Rightarrow> CommandInput \<Rightarrow> (BackendState, dbError, CommandResponse) eff" where
  "armCommand env input s =
     (case cmd_validated input of
        None \<Rightarrow> (Inl ''VALIDATED_CAMPAIGN_REQUIRED'', s)
      | Some v \<Rightarrow>
          let mode = (if cmd_mode input = Some ''live'' then Live else DryRun)
          in bindS (if mode = DryRun then returnS ()
                    else (case findCampaign (vc_campaignId v) s of
                            None \<Rightarrow> throwS ''CAMPAIGN_NOT_FOUND''
                          | Some campaign \<Rightarrow>
                              ensureS (list_ex (approvedFor env input v campaign) (bs_events s)) ''APPROVAL_REQUIRED'')) (\<lambda>_.
             bindS (arm (ap_coord env) v mode (cmd_idempotencyKey input)) (\<lambda>run.
             returnS \<lparr>cs_id = rr_id run, cs_state = stateText (rr_state run), cs_nextAction = ''Execute run'', cs_data = None\<rparr>)) s)"

text \<open>A command that executes is recorded with its response, which a repeated command gets again.\<close>

definition replay :: "string \<Rightarrow> string \<Rightarrow> hash \<Rightarrow> (BackendState, dbError, CommandResponse) eff \<Rightarrow>
    (BackendState, dbError, CommandResponse) eff" where
  "replay kind key requested fresh s =
     (case keyedEvent kind key s of
        Some prior \<Rightarrow>
          if be_requestDigest prior \<noteq> Some requested then (Inl ''IDEMPOTENCY_KEY_CONFLICT'', s)
          else (case be_response prior of None \<Rightarrow> (Inl ''TypeError'', s) | Some response \<Rightarrow> (Inr response, s))
      | None \<Rightarrow> fresh s)"

definition recordCommand :: "string \<Rightarrow> string \<Rightarrow> string \<Rightarrow> hash \<Rightarrow> CommandResponse \<Rightarrow> (BackendState, dbError, CommandResponse) eff" where
  "recordCommand kind runId key requested response =
     bindS (addEvent ((plainEvent kind (Some runId))\<lparr>be_idempotencyKey := Some key, be_requestDigest := Some requested,
              be_response := Some response\<rparr>)) (\<lambda>_. returnS response)"

definition runState :: "string \<Rightarrow> (BackendState, dbError, CampaignState) eff" where
  "runState runId = bindS (getS (findRun runId)) (\<lambda>found.
     case found of None \<Rightarrow> throwS ''RUN_NOT_FOUND'' | Some run \<Rightarrow> returnS (rr_state run))"

definition dryRunCommand :: "AppEnv \<Rightarrow> CommandInput \<Rightarrow> (BackendState, dbError, CommandResponse) eff" where
  "dryRunCommand env input s =
     (case cmd_validated input of
        None \<Rightarrow> (Inl ''VALIDATED_CAMPAIGN_REQUIRED'', s)
      | Some v \<Rightarrow>
          (case (vc_wallets v, findCampaign (vc_campaignId v) s) of
             (None, _) \<Rightarrow> (Inl ''VALIDATED_CAMPAIGN_REQUIRED'', s)
           | (Some _, None) \<Rightarrow> (Inl ''CAMPAIGN_NOT_FOUND'', s)
           | (Some wallets, Some campaign) \<Rightarrow>
               let key = keyOr (cmd_idempotencyKey input)
                     (''dry-run:'' @ cm_id campaign @ '':'' @ commaJoin (map toLowerCase wallets));
                   requested = digestOf env campaign DryRun v
               in replay ''command_dry_run'' key requested
                    (bindS (arm (ap_coord env) (v\<lparr>vc_simulationIds := Some (listOr (vc_simulationIds v))\<rparr>) DryRun (Some key)) (\<lambda>run.
                     bindS (executeRun (ap_coord env) (rr_id run) wallets) (\<lambda>result.
                     bindS (runState (rr_id run)) (\<lambda>state.
                     recordCommand ''command_dry_run'' (rr_id run) key requested
                       \<lparr>cs_id = rr_id run, cs_state = stateText state, cs_nextAction = ''Inspect run summary'',
                        cs_data = Some result\<rparr>)))) s))"

definition runCommand :: "AppEnv \<Rightarrow> CommandInput \<Rightarrow> (BackendState, dbError, CommandResponse) eff" where
  "runCommand env input =
     (case (cmd_runId input, cmd_wallets input) of
        (Some runId, Some wallets) \<Rightarrow>
          (let fleet = runId @ '':'' @ commaJoin (map toLowerCase wallets);
               key = keyOr (cmd_idempotencyKey input) (''run:'' @ fleet)
           in replay ''command_run'' key fleet
                (bindS (executeRun (ap_coord env) runId wallets) (\<lambda>result.
                 bindS (runState runId) (\<lambda>state.
                 recordCommand ''command_run'' runId key fleet
                   \<lparr>cs_id = runId, cs_state = stateText state,
                    cs_nextAction = (if state \<in> {CCompleted, CFailed, CAborted} then ''Inspect run'' else ''Monitor run''),
                    cs_data = Some result\<rparr>))))
      | _ \<Rightarrow> throwS ''RUN_AND_WALLETS_REQUIRED'')"

definition fundCommand :: "CommandInput \<Rightarrow> (BackendState, dbError, CommandResponse) eff" where
  "fundCommand input s =
     (let found = Option.bind (cmd_runId input) (\<lambda>i. findRun i s);
          armed = (case Option.bind found (\<lambda>r. find (\<lambda>x. ir_id x = rr_intentId r) (bs_intents s)) of
                     None \<Rightarrow> [] | Some intent \<Rightarrow> ir_wallets intent);
          wallets = (case cmd_wallets input of Some ws \<Rightarrow> ws | None \<Rightarrow> armed)
      in if cmd_runId input \<noteq> None \<and> found = None then (Inl ''RUN_NOT_FOUND'', s)
         else if wallets = [] then (Inl ''FUNDING_WALLETS_REQUIRED'', s)
         else (Inr \<lparr>cs_id = (case cmd_runId input of None \<Rightarrow> ''fund'' | Some i \<Rightarrow> i), cs_state = ''FundingReport'',
                 cs_nextAction = ''Fund through the approved operator flow, then rerun health'', cs_data = None\<rparr>, s))"

definition response :: "string \<Rightarrow> string \<Rightarrow> string \<Rightarrow> CommandResponse" where
  "response i state next = \<lparr>cs_id = i, cs_state = state, cs_nextAction = next, cs_data = None\<rparr>"

definition upperText :: "string \<Rightarrow> string" where
  "upperText s = map (\<lambda>c. let n = (of_char c :: nat) in if 97 \<le> n \<and> n \<le> 122 then char_of (n - 32) else c) s"

definition appCommand :: "AppEnv \<Rightarrow> string \<Rightarrow> CommandInput \<Rightarrow> (BackendState, dbError, CommandResponse) eff" where
  "appCommand env name input =
     (if ap_readOnly env \<and> name \<in> {''approve'', ''arm'', ''run'', ''execute'', ''fund'', ''kill''} then throwS ''PHASE2_MUTATION_DISABLED''
      else if name = ''health''
      then getS (\<lambda>s. response ''health'' (fst (ap_health env s))
             (if snd (ap_health env s) then ''Monitor health'' else ''Resolve blocking reasons''))
      else if name = ''kill''
      then bindS (killAll (ap_coord env) (case cmd_reason input of None \<Rightarrow> ''operator kill'' | Some r \<Rightarrow> r)) (\<lambda>_.
           returnS (response ''kill'' ''Aborted'' ''Reconcile submitted work''))
      else if name = ''reconcile''
      then bindS (reconcilePass (ap_coord env)) (\<lambda>_.
           returnS (response (case cmd_idempotencyKey input of None \<Rightarrow> ''reconcile'' | Some k \<Rightarrow> k) ''Reconciled'' ''Inspect run records''))
      else if name \<in> {''prepare'', ''resolve'', ''validate'', ''simulate''} then throwS (upperText name @ ''_ADAPTER_NOT_CONFIGURED'')
      else if name = ''approve'' then approveCommand env input
      else if name = ''arm'' then armCommand env input
      else if name = ''dry-run'' then dryRunCommand env input
      else if name = ''run'' \<or> name = ''execute'' then runCommand env input
      else if name = ''summary''
      then returnS (response (case cmd_runId input of None \<Rightarrow> ''summary'' | Some i \<Rightarrow> i) ''Summarized'' ''Inspect canonical run facts'')
      else if name = ''fund'' then fundCommand input
      else throwS (upperText name @ ''_UNSUPPORTED''))"

end
