(* ===== verification/JobStore.thy ===== *)
theory JobStore
  imports BackendTypes Effects
begin

text \<open>
  The stores of scheduled jobs: \<^verbatim>\<open>JsonJobStore\<close> (\<^verbatim>\<open>packages/backend/src/job-store.ts\<close>), which keeps a
  list of jobs and writes it to a file after every change, and \<^verbatim>\<open>CanonicalJobStore\<close>
  (\<^verbatim>\<open>canonical-job-store.ts\<close>), which keeps the same jobs as records of the backend store.

  \<^item> The redaction of error texts and the test for secret-like text of the file are parameters.
  \<^item> A file holds the decoded jobs; reading, writing and renaming it are taken to succeed.
  \<^item> The queue of the file store and the transactions of the backend store make the operations atomic.
\<close>

section \<open>Jobs\<close>

record ScheduledJob =
  jo_id :: string
  jo_runId :: string
  jo_wallets :: "string list"
  jo_executeAt :: Stamp
  jo_mode :: RunMode
  jo_state :: JobState
  jo_attempts :: int
  jo_createdAt :: Stamp
  jo_updatedAt :: Stamp
  jo_lastError :: "string option"
  jo_completedAt :: "Stamp option"

record JobInput =
  ji_id :: string
  ji_runId :: string
  ji_wallets :: "string list"
  ji_executeAt :: Stamp
  ji_mode :: RunMode
  ji_state :: "JobState option"
  ji_attempts :: "int option"
  ji_createdAt :: "Stamp option"
  ji_updatedAt :: "Stamp option"
  ji_lastError :: "string option"
  ji_completedAt :: "Stamp option"

record JobPatch =
  jp_state :: "JobState option"
  jp_lastError :: "string option"
  jp_completedAt :: "Stamp option"
  jp_updatedAt :: "Stamp option"
  jp_executeAt :: "Stamp option"

definition valueOr :: "'a option \<Rightarrow> 'a \<Rightarrow> 'a" where
  "valueOr x d = (case x of None \<Rightarrow> d | Some y \<Rightarrow> y)"

definition firstOf :: "'a option \<Rightarrow> 'a option \<Rightarrow> 'a option" where
  "firstOf x y = (case x of None \<Rightarrow> y | Some _ \<Rightarrow> x)"

text \<open>The job that putting an input over an existing job results in, the same in both stores.\<close>

definition mergeJob :: "(string \<Rightarrow> string) \<Rightarrow> Stamp \<Rightarrow> ScheduledJob option \<Rightarrow> JobInput \<Rightarrow> ScheduledJob" where
  "mergeJob redact now existing input = \<lparr>jo_id = ji_id input, jo_runId = ji_runId input, jo_wallets = ji_wallets input,
     jo_executeAt = ji_executeAt input, jo_mode = ji_mode input,
     jo_state = valueOr (firstOf (ji_state input) (map_option jo_state existing)) JScheduled,
     jo_attempts = valueOr (firstOf (ji_attempts input) (map_option jo_attempts existing)) 0,
     jo_createdAt = valueOr (firstOf (ji_createdAt input) (map_option jo_createdAt existing)) now,
     jo_updatedAt = valueOr (ji_updatedAt input) now,
     jo_lastError = firstOf (map_option redact (ji_lastError input)) (Option.bind existing jo_lastError),
     jo_completedAt = firstOf (ji_completedAt input) (Option.bind existing jo_completedAt)\<rparr>"

definition patchJob :: "(string \<Rightarrow> string) \<Rightarrow> Stamp \<Rightarrow> JobPatch \<Rightarrow> ScheduledJob \<Rightarrow> ScheduledJob" where
  "patchJob redact now patch job = job\<lparr>jo_state := valueOr (jp_state patch) (jo_state job),
     jo_executeAt := valueOr (jp_executeAt patch) (jo_executeAt job),
     jo_lastError := firstOf (map_option redact (jp_lastError patch)) (jo_lastError job),
     jo_completedAt := firstOf (jp_completedAt patch) (jo_completedAt job),
     jo_updatedAt := valueOr (jp_updatedAt patch) now\<rparr>"

text \<open>A comparison of two dates is false when one is invalid.\<close>

definition later :: "date \<Rightarrow> date \<Rightarrow> bool" where
  "later d t = (case (d, t) of (Some x, Some y) \<Rightarrow> y < x | _ \<Rightarrow> False)"

definition startJob :: "Stamp \<Rightarrow> ScheduledJob \<Rightarrow> ScheduledJob" where
  "startJob now job = job\<lparr>jo_state := JRunning, jo_attempts := jo_attempts job + 1, jo_updatedAt := now\<rparr>"

definition RESTART_RECOVERY :: string where
  "RESTART_RECOVERY = ''RESTART_RECOVERY_PENDING_RECONCILIATION''"

definition requeueJob :: "Stamp \<Rightarrow> ScheduledJob \<Rightarrow> ScheduledJob" where
  "requeueJob now job = job\<lparr>jo_state := JScheduled, jo_updatedAt := now, jo_lastError := Some RESTART_RECOVERY\<rparr>"

section \<open>The file store\<close>

record JsonStore =
  js_jobs :: "ScheduledJob list"
  js_opened :: bool
  js_file :: "ScheduledJob list option"

definition newline_free :: "string \<Rightarrow> bool" where
  "newline_free s \<longleftrightarrow> CHR 0x0A \<notin> set s \<and> CHR 0x0D \<notin> set s"

definition assertJob :: "ScheduledJob \<Rightarrow> dbError + unit" where
  "assertJob job =
     bindR (ensure (jo_id job \<noteq> [] \<and> jo_runId job \<noteq> [] \<and> jo_wallets job \<noteq> []
                    \<and> list_all (\<lambda>w. w \<noteq> [] \<and> newline_free w) (jo_wallets job)) ''SCHEDULED_JOB_IDENTITY_INVALID'') (\<lambda>_.
     bindR (ensure (st_time (jo_executeAt job) \<noteq> None \<and> st_time (jo_createdAt job) \<noteq> None
                    \<and> st_time (jo_updatedAt job) \<noteq> None) ''SCHEDULED_JOB_TIME_INVALID'') (\<lambda>_.
     bindR (ensure (0 \<le> jo_attempts job \<and> jo_attempts job \<le> MAX_SAFE_INTEGER) ''SCHEDULED_JOB_STATE_INVALID'') (\<lambda>_.
     ensure (case jo_lastError job of None \<Rightarrow> True | Some e \<Rightarrow> newline_free e) ''SCHEDULED_JOB_ERROR_INVALID'')))"

definition parseFile :: "ScheduledJob list \<Rightarrow> dbError + ScheduledJob list" where
  "parseFile jobs =
     bindR (mapR assertJob jobs) (\<lambda>_.
     bindR (ensure (distinct (map jo_id jobs) \<and> distinct (map jo_runId jobs)) ''SCHEDULED_JOB_DUPLICATE'') (\<lambda>_. Inr jobs))"

definition persist :: "(ScheduledJob list \<Rightarrow> bool) \<Rightarrow> (JsonStore, dbError, unit) eff" where
  "persist secretLike s =
     (if secretLike (js_jobs s) then (Inl ''SCHEDULED_JOB_SECRET_LIKE_VALUE'', s)
      else (Inr (), s\<lparr>js_file := Some (js_jobs s)\<rparr>))"

definition openJson :: "(ScheduledJob list \<Rightarrow> bool) \<Rightarrow> (JsonStore, dbError, unit) eff" where
  "openJson secretLike s =
     (if js_opened s then (Inr (), s)
      else (case js_file s of
              None \<Rightarrow> bindS (persist secretLike) (\<lambda>_. modifyS (\<lambda>s. s\<lparr>js_opened := True\<rparr>)) s
            | Some content \<Rightarrow>
                (case parseFile content of
                   Inl e \<Rightarrow> (Inl e, s)
                 | Inr jobs \<Rightarrow> (Inr (), s\<lparr>js_jobs := jobs, js_opened := True\<rparr>))))"

definition ensureOpen :: "(JsonStore, dbError, unit) eff" where
  "ensureOpen s = (if js_opened s then (Inr (), s) else (Inl ''SCHEDULED_JOB_STORE_NOT_OPEN'', s))"

definition listJson :: "(JsonStore, dbError, ScheduledJob list) eff" where
  "listJson = bindS ensureOpen (\<lambda>_. getS js_jobs)"

definition putJson :: "(string \<Rightarrow> string) \<Rightarrow> (ScheduledJob list \<Rightarrow> bool) \<Rightarrow> Stamp \<Rightarrow> JobInput \<Rightarrow>
    (JsonStore, dbError, ScheduledJob) eff" where
  "putJson redact secretLike now input =
     bindS ensureOpen (\<lambda>_.
     bindS (getS (\<lambda>s. find (\<lambda>j. jo_id j = ji_id input) (js_jobs s))) (\<lambda>existing.
     bindS (ensureS (case existing of None \<Rightarrow> True | Some j \<Rightarrow> jo_runId j = ji_runId input) ''SCHEDULED_JOB_ID_CONFLICT'') (\<lambda>_.
     let job = mergeJob redact now existing input
     in bindS (liftS (assertJob job)) (\<lambda>_.
        bindS (case existing of
                 Some _ \<Rightarrow> modifyS (js_jobs_update (updateFirst (\<lambda>j. jo_id j = ji_id input) (\<lambda>_. job)))
               | None \<Rightarrow>
                   bindS (getS (\<lambda>s. list_ex (\<lambda>j. jo_runId j = jo_runId job) (js_jobs s))) (\<lambda>taken.
                   bindS (ensureS (\<not> taken) ''SCHEDULED_JOB_RUN_CONFLICT'') (\<lambda>_.
                   modifyS (js_jobs_update (\<lambda>jobs. jobs @ [job]))))) (\<lambda>_.
        bindS (persist secretLike) (\<lambda>_. returnS job))))))"

text \<open>The loop of a claim: the claimed jobs and the jobs afterwards; \<open>n\<close> counts the claimed.\<close>

fun claimJobs :: "Stamp \<Rightarrow> jsnum \<Rightarrow> int \<Rightarrow> ScheduledJob list \<Rightarrow> ScheduledJob list \<times> ScheduledJob list" where
  "claimJobs now limit n [] = ([], [])"
| "claimJobs now limit n (job # jobs) =
     (if js_le limit (jint n) \<or> jo_state job \<noteq> JScheduled \<or> later (st_time (jo_executeAt job)) (st_time now)
      then (let (cs, js) = claimJobs now limit n jobs in (cs, job # js))
      else (let (cs, js) = claimJobs now limit (n + 1) jobs in (startJob now job # cs, startJob now job # js)))"

definition claimJson :: "(ScheduledJob list \<Rightarrow> bool) \<Rightarrow> Stamp \<Rightarrow> jsnum \<Rightarrow> (JsonStore, dbError, ScheduledJob list) eff" where
  "claimJson secretLike now limit =
     bindS ensureOpen (\<lambda>_.
     bindS (ensureS (isSafeInteger limit \<and> \<not> js_lt limit (jint 1)) ''SCHEDULED_JOB_LIMIT_INVALID'') (\<lambda>_.
     bindS (ensureS (st_time now \<noteq> None) ''SCHEDULED_JOB_TIME_INVALID'') (\<lambda>_.
     bindS (getS (\<lambda>s. claimJobs now limit 0 (js_jobs s))) (\<lambda>(claimed, jobs).
     bindS (modifyS (\<lambda>s. s\<lparr>js_jobs := jobs\<rparr>)) (\<lambda>_.
     bindS (if claimed = [] then returnS () else persist secretLike) (\<lambda>_. returnS claimed))))))"

text \<open>The stored job is changed before it is checked.\<close>

definition updateJson :: "(string \<Rightarrow> string) \<Rightarrow> (ScheduledJob list \<Rightarrow> bool) \<Rightarrow> Stamp \<Rightarrow> string \<Rightarrow> JobPatch \<Rightarrow>
    (JsonStore, dbError, ScheduledJob) eff" where
  "updateJson redact secretLike now i patch =
     bindS ensureOpen (\<lambda>_.
     bindS (getS (\<lambda>s. find (\<lambda>j. jo_id j = i) (js_jobs s))) (\<lambda>found.
     case found of
       None \<Rightarrow> throwS ''SCHEDULED_JOB_NOT_FOUND''
     | Some job \<Rightarrow>
         bindS (modifyS (js_jobs_update (updateFirst (\<lambda>j. jo_id j = i) (patchJob redact now patch)))) (\<lambda>_.
         bindS (liftS (assertJob (patchJob redact now patch job))) (\<lambda>_.
         bindS (persist secretLike) (\<lambda>_. returnS (patchJob redact now patch job))))))"

definition recoverJson :: "(ScheduledJob list \<Rightarrow> bool) \<Rightarrow> Stamp \<Rightarrow> (JsonStore, dbError, nat) eff" where
  "recoverJson secretLike now =
     bindS ensureOpen (\<lambda>_.
     bindS (getS (\<lambda>s. length (filter (\<lambda>j. jo_state j = JRunning) (js_jobs s)))) (\<lambda>recovered.
     bindS (modifyS (js_jobs_update (map (\<lambda>j. if jo_state j = JRunning then requeueJob now j else j)))) (\<lambda>_.
     bindS (if 0 < recovered then persist secretLike else returnS ()) (\<lambda>_. returnS recovered))))"

section \<open>The canonical store\<close>

definition truthyStamp :: "Stamp option \<Rightarrow> bool" where
  "truthyStamp t = (case t of None \<Rightarrow> False | Some t \<Rightarrow> st_text t \<noteq> [])"

definition keptText :: "string option \<Rightarrow> string option" where
  "keptText t = (if truthy t then t else None)"

definition keptStamp :: "Stamp option \<Rightarrow> Stamp option" where
  "keptStamp t = (if truthyStamp t then t else None)"

definition modeText :: "RunMode \<Rightarrow> string" where
  "modeText m = (case m of DryRun \<Rightarrow> ''dry-run'' | Live \<Rightarrow> ''live'')"

definition stringsOf :: "jsval option \<Rightarrow> string list" where
  "stringsOf v = (case v of Some (JArr xs) \<Rightarrow> concat (map (\<lambda>x. case x of JStr t \<Rightarrow> [t] | _ \<Rightarrow> []) xs) | _ \<Rightarrow> [])"

definition fromRecord :: "ScheduledJobRecord \<Rightarrow> ScheduledJob" where
  "fromRecord r = \<lparr>jo_id = sj_id r, jo_runId = valueOr (sj_runId r) [],
     jo_wallets = stringsOf (map_of (sj_payload r) ''wallets''), jo_executeAt = sj_scheduledAt r,
     jo_mode = (if map_of (sj_payload r) ''mode'' = Some (JStr ''live'') then Live else DryRun),
     jo_state = sj_state r, jo_attempts = sj_attempts r, jo_createdAt = sj_createdAt r, jo_updatedAt = sj_updatedAt r,
     jo_lastError = keptText (sj_lastError r),
     jo_completedAt = keptStamp (sj_completedAt r)\<rparr>"

definition payloadOf :: "ScheduledJob \<Rightarrow> (string \<times> jsval) list" where
  "payloadOf job = [(''wallets'', JArr (map JStr (jo_wallets job))), (''mode'', JStr (modeText (jo_mode job)))]"

definition toRecord :: "(string \<Rightarrow> string) \<Rightarrow> ScheduledJob \<Rightarrow> ScheduledJobRecord option \<Rightarrow> ScheduledJobRecord" where
  "toRecord redact job previous =
     (let key = ''phase2:'' @ jo_id job
      in \<lparr>sj_id = jo_id job, sj_kind = Phase2Job, sj_runId = Some (jo_runId job),
          sj_campaignId = keptText (Option.bind previous sj_campaignId),
          sj_state = jo_state job, sj_scheduledAt = jo_executeAt job,
          sj_targetAt = Some (valueOr (keptStamp (Option.bind previous sj_targetAt)) (jo_executeAt job)),
          sj_tMinusMs = valueOr (map_option sj_tMinusMs previous) (jint 0),
          sj_chainTimeOffsetMs = valueOr (map_option sj_chainTimeOffsetMs previous) (jint 0),
          sj_idempotencyKey = valueOr (map_option sj_idempotencyKey previous) key,
          sj_requestDigest = valueOr (map_option sj_requestDigest previous) key,
          sj_payload = payloadOf job, sj_attempts = jo_attempts job,
          sj_maxAttempts = valueOr (map_option sj_maxAttempts previous) 1,
          sj_lastError = map_option redact (keptText (jo_lastError job)),
          sj_nextAttemptAt = keptStamp (Option.bind previous sj_nextAttemptAt),
          sj_leaseOwner = keptText (Option.bind previous sj_leaseOwner),
          sj_leaseExpiresAt = keptStamp (Option.bind previous sj_leaseExpiresAt), sj_startedAt = keptStamp (Option.bind previous sj_startedAt),
          sj_completedAt = keptStamp (jo_completedAt job),
          sj_createdAt = jo_createdAt job, sj_updatedAt = jo_updatedAt job\<rparr>)"

text \<open>\<^verbatim>\<open>Object.assign(record, toRecord(job, record))\<close>: a field left out of the new record keeps its old value.\<close>

definition assignRecord :: "(string \<Rightarrow> string) \<Rightarrow> ScheduledJob \<Rightarrow> ScheduledJobRecord \<Rightarrow> ScheduledJobRecord" where
  "assignRecord redact job r =
     (let new = toRecord redact job (Some r)
      in new\<lparr>sj_campaignId := firstOf (sj_campaignId new) (sj_campaignId r), sj_lastError := firstOf (sj_lastError new) (sj_lastError r),
          sj_nextAttemptAt := firstOf (sj_nextAttemptAt new) (sj_nextAttemptAt r),
          sj_leaseOwner := firstOf (sj_leaseOwner new) (sj_leaseOwner r),
          sj_leaseExpiresAt := firstOf (sj_leaseExpiresAt new) (sj_leaseExpiresAt r),
          sj_startedAt := firstOf (sj_startedAt new) (sj_startedAt r),
          sj_completedAt := firstOf (sj_completedAt new) (sj_completedAt r)\<rparr>)"

definition assertStored :: "ScheduledJob \<Rightarrow> dbError + unit" where
  "assertStored job = ensure (jo_id job \<noteq> [] \<and> jo_runId job \<noteq> [] \<and> jo_wallets job \<noteq> []) ''SCHEDULED_JOB_INVALID''"

definition phase2Id :: "string \<Rightarrow> ScheduledJobRecord \<Rightarrow> bool" where
  "phase2Id i r \<longleftrightarrow> sj_kind r = Phase2Job \<and> sj_id r = i"

definition listJobs :: "BackendState \<Rightarrow> ScheduledJob list" where
  "listJobs s = map fromRecord (filter (\<lambda>r. sj_kind r = Phase2Job) (bs_jobs s))"

definition putJob :: "(string \<Rightarrow> string) \<Rightarrow> Stamp \<Rightarrow> JobInput \<Rightarrow> (BackendState, dbError, ScheduledJob) eff" where
  "putJob redact now input =
     storeTransaction (\<lambda>s.
       let found = find (phase2Id (ji_id input)) (bs_jobs s); existing = map_option fromRecord found;
           job = mergeJob redact now existing input
       in bindR (ensure (case existing of None \<Rightarrow> True | Some j \<Rightarrow> jo_runId j = ji_runId input) ''SCHEDULED_JOB_ID_CONFLICT'') (\<lambda>_.
          bindR (assertStored job) (\<lambda>_.
          case found of
            Some _ \<Rightarrow> Inr (job, s\<lparr>bs_jobs := updateFirst (phase2Id (ji_id input)) (assignRecord redact job) (bs_jobs s)\<rparr>)
          | None \<Rightarrow>
              bindR (ensure (\<not> list_ex (\<lambda>r. sj_kind r = Phase2Job \<and> sj_runId r = Some (jo_runId job)) (bs_jobs s))
                       ''SCHEDULED_JOB_RUN_CONFLICT'') (\<lambda>_.
              Inr (job, s\<lparr>bs_jobs := bs_jobs s @ [toRecord redact job None]\<rparr>)))))"

fun claimRecords :: "(string \<Rightarrow> string) \<Rightarrow> Stamp \<Rightarrow> jsnum \<Rightarrow> int \<Rightarrow> ScheduledJobRecord list \<Rightarrow>
    ScheduledJob list \<times> ScheduledJobRecord list" where
  "claimRecords redact now limit n [] = ([], [])"
| "claimRecords redact now limit n (r # rs) =
     (if sj_kind r \<noteq> Phase2Job \<or> js_le limit (jint n) \<or> sj_state r \<noteq> JScheduled
         \<or> later (st_time (sj_scheduledAt r)) (st_time now)
      then (let (cs, out) = claimRecords redact now limit n rs in (cs, r # out))
      else (let job = startJob now (fromRecord r); (cs, out) = claimRecords redact now limit (n + 1) rs
            in (job # cs, assignRecord redact job r # out)))"

text \<open>\<^verbatim>\<open>now.toISOString()\<close> throws for an invalid date.\<close>

definition claimDue :: "(string \<Rightarrow> string) \<Rightarrow> Stamp \<Rightarrow> jsnum \<Rightarrow> (BackendState, dbError, ScheduledJob list) eff" where
  "claimDue redact now limit =
     storeTransaction (\<lambda>s.
       let (claimed, records) = claimRecords redact now limit 0 (bs_jobs s)
       in bindR (ensure (claimed = [] \<or> st_time now \<noteq> None) ''RangeError'') (\<lambda>_. Inr (claimed, s\<lparr>bs_jobs := records\<rparr>)))"

definition updateJob :: "(string \<Rightarrow> string) \<Rightarrow> Stamp \<Rightarrow> string \<Rightarrow> JobPatch \<Rightarrow> (BackendState, dbError, ScheduledJob) eff" where
  "updateJob redact now i patch =
     storeTransaction (\<lambda>s.
       case find (phase2Id i) (bs_jobs s) of
         None \<Rightarrow> Inl ''SCHEDULED_JOB_NOT_FOUND''
       | Some r \<Rightarrow>
           let job = patchJob redact now patch (fromRecord r)
           in bindR (assertStored job) (\<lambda>_.
              Inr (job, s\<lparr>bs_jobs := updateFirst (phase2Id i) (assignRecord redact job) (bs_jobs s)\<rparr>)))"

definition recoverRunning :: "(string \<Rightarrow> string) \<Rightarrow> Stamp \<Rightarrow> (BackendState, dbError, nat) eff" where
  "recoverRunning redact now =
     storeTransaction (\<lambda>s.
       let interrupted = (\<lambda>r. sj_kind r = Phase2Job \<and> sj_state r = JRunning)
       in Inr (length (filter interrupted (bs_jobs s)),
               s\<lparr>bs_jobs := map (\<lambda>r. if interrupted r then assignRecord redact (requeueJob now (fromRecord r)) r else r) (bs_jobs s)\<rparr>))"

section \<open>A new backend store\<close>

text \<open>\<^verbatim>\<open>emptyState\<close> of \<^verbatim>\<open>store.ts\<close>: what a store holds before anything is loaded.\<close>

definition emptyState :: BackendState where
  "emptyState = \<lparr>bs_campaigns = [], bs_runs = [], bs_intents = [], bs_attempts = [], bs_receipts = [], bs_reconciliations = [],
     bs_reservations = [], bs_events = [], bs_chainEvidence = [], bs_simulations = [], bs_jobs = [],
     bs_runtime = \<lparr>rt_startupState = SCold, rt_blockingReasons = [''RECONCILIATION_REQUIRED''], rt_engine = False,
       rt_chain = False, rt_backup = False, rt_notifications = False, rt_operational = None, rt_chainTimeOffsetMs = None,
       rt_chainTimeObserved = False\<rparr>,
     bs_killed = False, bs_killReason = None\<rparr>"

end
