(* ===== verification/ServiceOrchestrator.thy ===== *)
theory ServiceOrchestrator
  imports Application JobStore
begin

text \<open>
  The supervised scheduler (\<^verbatim>\<open>packages/backend/src/service-orchestrator.ts\<close>) and the release of the kill switch
  (\<^verbatim>\<open>kill-switch-release.ts\<close> and \<^verbatim>\<open>releaseKillSwitch\<close> of \<^verbatim>\<open>canonical-store.ts\<close>).

  \<^item> The state is the backend store together with the fields of the service object.
  \<^item> A tick takes what it reads from outside as an input: the time, the backup status file and the two
    probes of the kill file. A service without a probe is one whose probes answer no.
  \<^item> The claimed jobs of a tick run one after the other. The source starts them together; the command
    each one gives throws before it waits for anything, so there is nothing to interleave.
  \<^item> Metrics and logs are left out.
\<close>

section \<open>Releasing the kill switch\<close>

definition unresolvedRunIds :: "BackendState \<Rightarrow> string list" where
  "unresolvedRunIds s = map rr_id (filter (unresolved s) (bs_runs s))"

record KillSwitchStatus =
  ks_engaged :: bool
  ks_changedBy :: string
  ks_changedAt :: string

definition killReleasePhrase :: "KillSwitchStatus \<Rightarrow> string" where
  "killReleasePhrase status =
     (if ks_engaged status then ''RELEASE-KILL-SWITCH engaged '' @ ks_changedAt status else ''RELEASE-KILL-SWITCH file-only'')"

definition assertKillReleaseAllowed :: "KillSwitchStatus \<Rightarrow> string option \<Rightarrow> string list \<Rightarrow> dbError + unit" where
  "assertKillReleaseAllowed status confirm pending =
     bindR (ensure (pending = []) ''KILL_RELEASE_BLOCKED_UNRESOLVED_RUNS'') (\<lambda>_.
     ensure (confirm = Some (killReleasePhrase status)) ''CONFIRMATION_PHRASE_MISMATCH'')"

text \<open>The flag of the database is read as \<open>status\<close>; the result says whether something was released.\<close>

definition releaseKillSwitch :: "KillSwitchStatus \<Rightarrow> (BackendState, dbError, bool) eff" where
  "releaseKillSwitch status s =
     (if unresolvedRunIds s \<noteq> [] then (Inl ''KILL_RELEASE_BLOCKED_UNRESOLVED_RUNS'', s)
      else if \<not> ks_engaged status \<and> \<not> bs_killed s then (Inr False, s)
      else storeTransaction (\<lambda>s.
        let runtime = (bs_runtime s)\<lparr>rt_operational := None,
              rt_blockingReasons := filter (\<lambda>r. r \<noteq> ''KILLED'') (rt_blockingReasons (bs_runtime s))\<rparr>
        in Inr (True, pushEvent ''kill_released'' None (s\<lparr>bs_killed := False, bs_killReason := None, bs_runtime := runtime\<rparr>))) s)"

section \<open>The service\<close>

record OrchestratorState =
  os_running :: bool
  os_ticking :: bool
  os_jobsSnapshot :: "ScheduledJob list"
  os_killAlertRecorded :: bool
  os_killAlertOccurrence :: "string option"
  os_lastBackupObservation :: "string option"
  os_backupOk :: "bool option"
  os_backupRecordedAt :: "int option"

record OrchWorld =
  ow_store :: BackendState
  ow_self :: OrchestratorState

record OrchEnv =
  oe_app :: AppEnv
  oe_redact :: "string \<Rightarrow> string"
  oe_schedulerIntervalMs :: jsnum
  oe_reconciliationIntervalMs :: jsnum
  oe_maxConcurrentJobs :: jsnum
  oe_dryRunOnly :: bool
  oe_backupPath :: bool
  oe_backupMaxAgeMs :: "jsnum option"
  oe_requireOffHostBackup :: bool
  oe_killAlert :: "string \<Rightarrow> (BackendState, dbError, unit) eff"
  oe_switchOffExpired :: "(BackendState, dbError, unit) eff"
  oe_freshOccurrence :: "OrchWorld \<Rightarrow> string"

record BackupFile =
  bf_status :: "string option"
  bf_recordedAt :: "Stamp option"
  bf_offHost :: bool
  bf_remoteVerified :: bool

record TickInput =
  tk_now :: Stamp
  tk_backup :: "BackupFile option"
  tk_probe :: bool
  tk_probeAgain :: bool

text \<open>The constructor, with its defaults applied by the caller.\<close>

definition newOrchestrator :: "OrchEnv \<Rightarrow> dbError + OrchestratorState" where
  "newOrchestrator env =
     (let interval = (\<lambda>n low. isSafeInteger n \<and> \<not> js_lt n (jint low))
      in bindR (ensure (interval (oe_schedulerIntervalMs env) 100) ''SCHEDULER_INTERVAL_INVALID'') (\<lambda>_.
         bindR (ensure (interval (oe_reconciliationIntervalMs env) 100) ''RECONCILIATION_INTERVAL_INVALID'') (\<lambda>_.
         bindR (ensure (interval (oe_maxConcurrentJobs env) 1) ''MAX_CONCURRENT_JOBS_INVALID'') (\<lambda>_.
         Inr \<lparr>os_running = False, os_ticking = False, os_jobsSnapshot = [], os_killAlertRecorded = False,
              os_killAlertOccurrence = None, os_lastBackupObservation = None, os_backupOk = None, os_backupRecordedAt = None\<rparr>))))"

definition backendS :: "(BackendState, dbError, 'a) eff \<Rightarrow> (OrchWorld, dbError, 'a) eff" where
  "backendS m w = (case m (ow_store w) of (r, s) \<Rightarrow> (r, w\<lparr>ow_store := s\<rparr>))"

definition selfS :: "(OrchestratorState \<Rightarrow> OrchestratorState) \<Rightarrow> (OrchWorld, dbError, unit) eff" where
  "selfS f w = (Inr (), w\<lparr>ow_self := f (ow_self w)\<rparr>)"

definition onStore :: "(BackendState \<Rightarrow> BackendState) \<Rightarrow> (OrchWorld, dbError, unit) eff" where
  "onStore f = backendS (storeTransaction (\<lambda>s. Inr ((), f s)))"

definition runtimeOf :: "OrchWorld \<Rightarrow> RuntimeStatus" where
  "runtimeOf w = bs_runtime (ow_store w)"

definition whenS :: "bool \<Rightarrow> (OrchWorld, dbError, unit) eff \<Rightarrow> (OrchWorld, dbError, unit) eff" where
  "whenS c m = (if c then m else returnS ())"

definition snapshotJobs :: "(OrchWorld, dbError, unit) eff" where
  "snapshotJobs w = selfS (\<lambda>me. me\<lparr>os_jobsSnapshot := listJobs (ow_store w)\<rparr>) w"

section \<open>Blocking reasons\<close>

definition withReason :: "string \<Rightarrow> string list \<Rightarrow> string list" where
  "withReason reason reasons = rev (remdups (rev (reasons @ [reason])))"

definition blockFor :: "string \<Rightarrow> BackendState \<Rightarrow> BackendState" where
  "blockFor reason s = s\<lparr>bs_runtime := (bs_runtime s)\<lparr>rt_startupState := SBlocked,
     rt_blockingReasons := withReason reason (rt_blockingReasons (bs_runtime s))\<rparr>\<rparr>"

definition blockedFor :: "string \<Rightarrow> RuntimeStatus \<Rightarrow> bool" where
  "blockedFor reason r \<longleftrightarrow> rt_startupState r = SBlocked \<and> reason \<in> set (rt_blockingReasons r)"

text \<open>A reason goes; with the last one gone the service is ready, else it stays in its state.\<close>

definition liftReason :: "string \<Rightarrow> BackendState \<Rightarrow> BackendState" where
  "liftReason reason s =
     (let reasons = filter (\<lambda>r. r \<noteq> reason) (rt_blockingReasons (bs_runtime s))
      in s\<lparr>bs_runtime := (bs_runtime s)\<lparr>rt_startupState := (if reasons = [] then SReady else rt_startupState (bs_runtime s)),
           rt_blockingReasons := reasons\<rparr>\<rparr>)"

definition liftKill :: "BackendState \<Rightarrow> BackendState" where
  "liftKill s =
     (if bs_killed s then s
      else let others = filter (\<lambda>r. r \<noteq> ''KILL_SWITCH_ENGAGED'') (rt_blockingReasons (bs_runtime s));
               reasons = (if unresolvedRunIds s \<noteq> [] then withReason ''UNRESOLVED_EXECUTIONS'' others else others)
           in s\<lparr>bs_runtime := (bs_runtime s)\<lparr>rt_startupState := (if reasons = [] then SReady else SBlocked),
                rt_blockingReasons := reasons\<rparr>\<rparr>)"

definition liftUnresolved :: "BackendState \<Rightarrow> BackendState" where
  "liftUnresolved s =
     (if ''UNRESOLVED_EXECUTIONS'' \<notin> set (rt_blockingReasons (bs_runtime s)) \<or> bs_killed s \<or> unresolvedRunIds s \<noteq> [] then s
      else liftReason ''UNRESOLVED_EXECUTIONS'' s)"

section \<open>Backups\<close>

definition flagText :: "bool \<Rightarrow> string" where
  "flagText b = (if b then ''true'' else ''false'')"

definition backupFingerprint :: "BackupFile \<Rightarrow> string" where
  "backupFingerprint f =
     valueOr (bf_status f) ''unknown'' @ '':'' @ (case bf_recordedAt f of None \<Rightarrow> [] | Some t \<Rightarrow> st_text t)
     @ '':'' @ flagText (bf_offHost f) @ '':'' @ flagText (bf_remoteVerified f)"

definition observeBackup :: "OrchEnv \<Rightarrow> TickInput \<Rightarrow> OrchestratorState \<Rightarrow> OrchestratorState" where
  "observeBackup env input self =
     (if \<not> oe_backupPath env then self
      else case tk_backup input of
        None \<Rightarrow>
          if os_lastBackupObservation self = Some ''missing'' then self
          else self\<lparr>os_lastBackupObservation := Some ''missing'', os_backupOk := Some False, os_backupRecordedAt := None\<rparr>
      | Some f \<Rightarrow>
          (let recordedAt = (if truthyStamp (bf_recordedAt f) then Option.bind (bf_recordedAt f) st_time else None);
               fingerprint = backupFingerprint f;
               valid = (case (recordedAt, st_time (tk_now input)) of (Some t, Some now) \<Rightarrow> t \<le> now | _ \<Rightarrow> False);
               offHost = (\<not> oe_requireOffHostBackup env \<or> (bf_offHost f \<and> bf_remoteVerified f));
               good = (bf_status f = Some ''ok'' \<and> valid \<and> offHost)
           in if os_lastBackupObservation self = Some fingerprint then self
              else self\<lparr>os_lastBackupObservation := Some fingerprint, os_backupOk := Some good,
                        os_backupRecordedAt := (if good then recordedAt else None)\<rparr>))"

definition backupReady :: "OrchEnv \<Rightarrow> TickInput \<Rightarrow> OrchestratorState \<Rightarrow> bool" where
  "backupReady env input self \<longleftrightarrow>
     \<not> oe_backupPath env
     \<or> (os_backupOk self = Some True
        \<and> (case (os_backupRecordedAt self, st_time (tk_now input)) of
             (Some t, Some now) \<Rightarrow>
               js_le (jint (now - t)) (valueOr (oe_backupMaxAgeMs env)
                 (if oe_requireOffHostBackup env then jint (8 * 60 * 60000) else jint (30 * 86400000)))
           | _ \<Rightarrow> False))"

section \<open>Running jobs\<close>

definition dryRunInput :: "ScheduledJob \<Rightarrow> CommandInput" where
  "dryRunInput job = \<lparr>cmd_validated = None, cmd_mode = None, cmd_idempotencyKey = Some (''scheduled:'' @ jo_id job),
     cmd_approvalId = None, cmd_runId = Some (jo_runId job), cmd_wallets = Some (jo_wallets job), cmd_reason = None\<rparr>"

definition settleJob :: "OrchEnv \<Rightarrow> TickInput \<Rightarrow> string \<Rightarrow> JobState \<Rightarrow> string option \<Rightarrow> (OrchWorld, dbError, unit) eff" where
  "settleJob env input i state lastError =
     bindS (backendS (updateJob (oe_redact env) (tk_now input) i
       \<lparr>jp_state = Some state, jp_lastError = lastError, jp_completedAt = Some (tk_now input), jp_updatedAt = None, jp_executeAt = None\<rparr>))
       (\<lambda>_. returnS ())"

definition attemptJob :: "OrchEnv \<Rightarrow> TickInput \<Rightarrow> ScheduledJob \<Rightarrow> (OrchWorld, dbError, unit) eff" where
  "attemptJob env input job =
     bindS (ensureS (jo_mode job = DryRun \<and> oe_dryRunOnly env) ''PHASE2_LIVE_MODE_DISABLED'') (\<lambda>_.
     bindS (backendS (appCommand (oe_app env) ''dry-run'' (dryRunInput job))) (\<lambda>result.
     if cs_state result = ''Failed'' then settleJob env input (jo_id job) JFailed (Some ''RUN_FAILED'')
     else if cs_state result = ''Aborted'' then settleJob env input (jo_id job) JBlocked (Some ''RUN_ABORTED'')
     else settleJob env input (jo_id job) JSucceeded None))"

definition runJob :: "OrchEnv \<Rightarrow> TickInput \<Rightarrow> ScheduledJob \<Rightarrow> (OrchWorld, dbError, unit) eff" where
  "runJob env input job =
     bindS (catchS (attemptJob env input job) (\<lambda>e. settleJob env input (jo_id job) JBlocked (Some e))) (\<lambda>_. snapshotJobs)"

section \<open>The tick\<close>

definition blockWhenNeeded :: "string \<Rightarrow> (OrchWorld, dbError, unit) eff" where
  "blockWhenNeeded reason = bindS (getS runtimeOf) (\<lambda>r. whenS (\<not> blockedFor reason r) (onStore (blockFor reason)))"

definition raiseKillAlert :: "OrchEnv \<Rightarrow> (OrchWorld, dbError, unit) eff" where
  "raiseKillAlert env =
     bindS (getS (oe_freshOccurrence env)) (\<lambda>fresh.
     bindS (selfS (\<lambda>me. me\<lparr>os_killAlertOccurrence := Some (valueOr (os_killAlertOccurrence me) fresh)\<rparr>)) (\<lambda>_.
     bindS (getS ow_self) (\<lambda>self.
     whenS (\<not> os_killAlertRecorded self)
       (quietly (bindS (backendS (oe_killAlert env (valueOr (os_killAlertOccurrence self) fresh))) (\<lambda>_.
          selfS (\<lambda>me. me\<lparr>os_killAlertRecorded := True\<rparr>)))))))"

definition killedPatch :: JobPatch where
  "killedPatch = \<lparr>jp_state = Some JBlocked, jp_lastError = Some ''KILL_SWITCH_ENGAGED'', jp_completedAt = None, jp_updatedAt = None,
     jp_executeAt = None\<rparr>"

definition blockLiveJobs :: "OrchEnv \<Rightarrow> TickInput \<Rightarrow> (OrchWorld, dbError, unit) eff" where
  "blockLiveJobs env input =
     bindS (getS (\<lambda>w. listJobs (ow_store w))) (\<lambda>jobs.
     forEachS (filter (\<lambda>j. jo_state j = JScheduled \<and> jo_mode j = Live) jobs) (\<lambda>j.
       bindS (backendS (updateJob (oe_redact env) (tk_now input) (jo_id j) killedPatch)) (\<lambda>_. returnS ())))"

definition killedTick :: "OrchEnv \<Rightarrow> TickInput \<Rightarrow> (OrchWorld, dbError, unit) eff" where
  "killedTick env input =
     bindS (blockWhenNeeded ''KILL_SWITCH_ENGAGED'') (\<lambda>_.
     bindS (raiseKillAlert env) (\<lambda>_.
     bindS (blockLiveJobs env input) (\<lambda>_. snapshotJobs)))"

definition claimAndRun :: "OrchEnv \<Rightarrow> TickInput \<Rightarrow> jsnum \<Rightarrow> (OrchWorld, dbError, unit) eff" where
  "claimAndRun env input capacity =
     bindS (getS runtimeOf) (\<lambda>r.
     if rt_startupState r \<noteq> SReady \<or> capacity = jint 0 then returnS ()
     else bindS snapshotJobs (\<lambda>_.
       bindS (getS (\<lambda>w. os_jobsSnapshot (ow_self w))) (\<lambda>jobs.
       let due = (\<lambda>j. jo_state j = JScheduled
             \<and> (case (st_time (jo_executeAt j), st_time (tk_now input)) of (Some t, Some now) \<Rightarrow> t \<le> now | _ \<Rightarrow> False))
       in if \<not> list_ex due jobs then returnS ()
          else bindS (backendS (claimDue (oe_redact env) (tk_now input) capacity)) (\<lambda>claimed.
            bindS snapshotJobs (\<lambda>_.
            bindS (forEachS claimed (\<lambda>job. quietly (runJob env input job))) (\<lambda>_. snapshotJobs))))))"

definition capacityOf :: "OrchEnv \<Rightarrow> OrchestratorState \<Rightarrow> jsnum" where
  "capacityOf env self =
     js_max (jint 0) (js_sub (oe_maxConcurrentJobs env)
       (jint (int (length (filter (\<lambda>j. jo_state j = JRunning) (os_jobsSnapshot self))))))"

definition openTick :: "OrchEnv \<Rightarrow> TickInput \<Rightarrow> jsnum \<Rightarrow> (OrchWorld, dbError, unit) eff" where
  "openTick env input capacity =
     bindS (selfS (\<lambda>me. me\<lparr>os_killAlertRecorded := False, os_killAlertOccurrence := None\<rparr>)) (\<lambda>_.
     bindS (getS runtimeOf) (\<lambda>r.
     let wasKilled = (''KILL_SWITCH_ENGAGED'' \<in> set (rt_blockingReasons r))
     in bindS (whenS wasKilled (onStore liftKill)) (\<lambda>_.
        if wasKilled \<and> tk_probeAgain input then onStore (blockFor ''KILL_SWITCH_ENGAGED'')
        else bindS (onStore liftUnresolved) (\<lambda>_. claimAndRun env input capacity))))"

definition backupGate :: "OrchEnv \<Rightarrow> TickInput \<Rightarrow> (OrchWorld, dbError, bool) eff" where
  "backupGate env input =
     bindS (selfS (observeBackup env input)) (\<lambda>_.
     bindS (backendS (quietly (oe_switchOffExpired env))) (\<lambda>_.
     bindS (getS (\<lambda>w. backupReady env input (ow_self w))) (\<lambda>ready.
     bindS (getS runtimeOf) (\<lambda>r.
     bindS (whenS (oe_backupPath env \<and> rt_backup r \<noteq> ready)
       (onStore (\<lambda>s. s\<lparr>bs_runtime := (bs_runtime s)\<lparr>rt_backup := ready\<rparr>\<rparr>))) (\<lambda>_.
     bindS (if \<not> ready then blockWhenNeeded ''BACKUP_NOT_READY''
            else bindS (getS runtimeOf) (\<lambda>r.
              whenS (oe_backupPath env \<and> ''BACKUP_NOT_READY'' \<in> set (rt_blockingReasons r)) (onStore (liftReason ''BACKUP_NOT_READY'')))) (\<lambda>_.
     returnS ready))))))"

definition tickBody :: "OrchEnv \<Rightarrow> TickInput \<Rightarrow> (OrchWorld, dbError, unit) eff" where
  "tickBody env input =
     bindS (backupGate env input) (\<lambda>ready.
     if \<not> ready then returnS ()
     else bindS (getS (\<lambda>w. (bs_killed (ow_store w) \<or> tk_probe input, capacityOf env (ow_self w)))) (\<lambda>(killed, capacity).
       if killed then killedTick env input else openTick env input capacity))"

text \<open>One tick at a time; the flag is taken back whatever happens.\<close>

definition tick :: "OrchEnv \<Rightarrow> TickInput \<Rightarrow> (OrchWorld, dbError, unit) eff" where
  "tick env input w =
     (if \<not> os_running (ow_self w) \<or> os_ticking (ow_self w) then (Inr (), w)
      else (case tickBody env input (w\<lparr>ow_self := (ow_self w)\<lparr>os_ticking := True\<rparr>\<rparr>) of
              (r, w') \<Rightarrow> (r, w'\<lparr>ow_self := (ow_self w')\<lparr>os_ticking := False\<rparr>\<rparr>)))"

section \<open>The other operations\<close>

record ScheduleInput =
  sc_id :: string
  sc_runId :: string
  sc_wallets :: "string list"
  sc_executeAt :: Stamp
  sc_mode :: RunMode

definition schedule :: "OrchEnv \<Rightarrow> Stamp \<Rightarrow> ScheduleInput \<Rightarrow> (OrchWorld, dbError, ScheduledJob) eff" where
  "schedule env now input =
     bindS (ensureS (sc_id input \<noteq> [] \<and> sc_runId input \<noteq> [] \<and> sc_wallets input \<noteq> []) ''SCHEDULED_JOB_IDENTITY_INVALID'') (\<lambda>_.
     bindS (ensureS (sc_mode input = DryRun \<and> oe_dryRunOnly env) ''PHASE2_LIVE_MODE_DISABLED'') (\<lambda>_.
     backendS (putJob (oe_redact env) now
       \<lparr>ji_id = sc_id input, ji_runId = sc_runId input, ji_wallets = sc_wallets input, ji_executeAt = sc_executeAt input,
        ji_mode = sc_mode input, ji_state = None, ji_attempts = None, ji_createdAt = None, ji_updatedAt = None,
        ji_lastError = None, ji_completedAt = None\<rparr>)))"

definition startService :: "OrchEnv \<Rightarrow> TickInput \<Rightarrow> (OrchWorld, dbError, unit) eff" where
  "startService env input =
     bindS (getS (\<lambda>w. os_running (ow_self w))) (\<lambda>running.
     if running then returnS ()
     else bindS (backendS (recoverRunning (oe_redact env) (tk_now input))) (\<lambda>_.
       bindS snapshotJobs (\<lambda>_.
       bindS (selfS (\<lambda>me. (observeBackup env input me)\<lparr>os_running := True\<rparr>)) (\<lambda>_.
       bindS (catchS (backendS (start (ap_coord (oe_app env)))) (\<lambda>_. onStore (blockFor ''RECONCILIATION_FAILED''))) (\<lambda>_.
       tick env input)))))"

definition stopService :: "(OrchWorld, dbError, unit) eff" where
  "stopService = selfS (\<lambda>me. me\<lparr>os_running := False\<rparr>)"

definition periodicReconcile :: "OrchEnv \<Rightarrow> (OrchWorld, dbError, unit) eff" where
  "periodicReconcile env =
     bindS (getS (\<lambda>w. os_running (ow_self w) \<and> \<not> bs_killed (ow_store w))) (\<lambda>go.
     whenS go (quietly (backendS (reconcilePass (ap_coord (oe_app env))))))"

record OrchestratorStatus =
  ot_running :: bool
  ot_state :: "StartupState option"
  ot_active :: nat
  ot_queued :: nat
  ot_blocked :: nat
  ot_failed :: nat
  ot_completed :: nat
  ot_blockingReasons :: "string list"

text \<open>The state \<open>None\<close> is \<^verbatim>\<open>'stopped'\<close>.\<close>

definition serviceStatus :: "OrchWorld \<Rightarrow> OrchestratorStatus" where
  "serviceStatus w =
     (let jobs = os_jobsSnapshot (ow_self w); count = (\<lambda>states. length (filter (\<lambda>j. jo_state j \<in> states) jobs))
      in \<lparr>ot_running = os_running (ow_self w),
          ot_state = (if os_running (ow_self w) then Some (rt_startupState (runtimeOf w)) else None),
          ot_active = count {JRunning}, ot_queued = count {JScheduled}, ot_blocked = count {JBlocked, JCancelled},
          ot_failed = count {JFailed}, ot_completed = count {JSucceeded},
          ot_blockingReasons = rt_blockingReasons (runtimeOf w)\<rparr>)"

end
