(* ===== verification/JobStoreFacts.thy ===== *)
theory JobStoreFacts
  imports JobStore
begin

text \<open>
  What the job stores promise. The locale \<open>job_store\<close> is the contract the scheduler relies on, stated over
  what a job shows (its id, state, attempts and due time); both stores are instances of it. The
  canonical store also does exactly what the file store does.
\<close>

section \<open>The contract\<close>

type_synonym jobView = "string \<times> JobState \<times> int \<times> date"

definition jobView :: "ScheduledJob \<Rightarrow> jobView" where
  "jobView j = (jo_id j, jo_state j, jo_attempts j, st_time (jo_executeAt j))"

definition dueView :: "date \<Rightarrow> jobView \<Rightarrow> bool" where
  "dueView now v \<longleftrightarrow> (case v of (i, st, n, due) \<Rightarrow> st = JScheduled \<and> \<not> later due now)"

definition startView :: "jobView \<Rightarrow> jobView" where
  "startView v = (case v of (i, st, n, due) \<Rightarrow> (i, JRunning, n + 1, due))"

fun claimViews :: "date \<Rightarrow> jsnum \<Rightarrow> int \<Rightarrow> jobView list \<Rightarrow> jobView list \<times> jobView list" where
  "claimViews now limit n [] = ([], [])"
| "claimViews now limit n (v # vs) =
     (if js_le limit (jint n) \<or> \<not> dueView now v
      then (let (cs, out) = claimViews now limit n vs in (cs, v # out))
      else (let (cs, out) = claimViews now limit (n + 1) vs in (startView v # cs, startView v # out)))"

definition requeueView :: "jobView \<Rightarrow> jobView" where
  "requeueView v = (case v of (i, st, n, due) \<Rightarrow> (i, if st = JRunning then JScheduled else st, n, due))"

definition patchView :: "JobPatch \<Rightarrow> jobView \<Rightarrow> jobView" where
  "patchView p v = (case v of (i, st, n, due) \<Rightarrow>
     (i, valueOr (jp_state p) st, n, case jp_executeAt p of None \<Rightarrow> due | Some t \<Rightarrow> st_time t))"

locale job_store =
  fixes jobs :: "'s \<Rightarrow> ScheduledJob list"
    and claim :: "Stamp \<Rightarrow> jsnum \<Rightarrow> ('s, dbError, ScheduledJob list) eff"
    and update :: "Stamp \<Rightarrow> string \<Rightarrow> JobPatch \<Rightarrow> ('s, dbError, ScheduledJob) eff"
    and recover :: "Stamp \<Rightarrow> ('s, dbError, nat) eff"
  assumes claim_law: "claim now limit s = (Inr cs, s') \<Longrightarrow>
      claimViews (st_time now) limit 0 (map jobView (jobs s)) = (map jobView cs, map jobView (jobs s'))"
    and update_law: "update now i patch s = (Inr j, s') \<Longrightarrow>
      map jobView (jobs s') = updateFirst (\<lambda>v. fst v = i) (patchView patch) (map jobView (jobs s))"
    and recover_law: "recover now s = (Inr n, s') \<Longrightarrow> map jobView (jobs s') = map requeueView (map jobView (jobs s))"
begin

definition shown :: "'s \<Rightarrow> jobView list" where
  "shown s = map jobView (jobs s)"

definition names :: "'s \<Rightarrow> string list" where
  "names s = map jo_id (jobs s)"

lemma names_shown: "names s = map fst (shown s)"
  by (simp add: names_def shown_def jobView_def)

end

lemma startView_id [simp]: "fst (startView v) = fst v"
  by (cases v) (simp add: startView_def)

lemma startView_running: "fst (snd (startView v)) = JRunning"
  by (cases v) (simp add: startView_def)

lemma claimViews_names: "claimViews now limit n vs = (cs, out) \<Longrightarrow> map fst out = map fst vs"
  by (induction now limit n vs arbitrary: cs out rule: claimViews.induct) (auto split: prod.splits if_splits)

text \<open>The claimed are the started images of due jobs, and stay in the list as running.\<close>

lemma claimViews_claimed:
  "claimViews now limit n vs = (cs, out) \<Longrightarrow> c \<in> set cs \<Longrightarrow> c \<in> set out \<and> (\<exists>v\<in>set vs. dueView now v \<and> c = startView v)"
  by (induction now limit n vs arbitrary: cs out rule: claimViews.induct) (auto split: prod.splits if_splits)

lemma claimViews_out:
  "claimViews now limit n vs = (cs, out) \<Longrightarrow> v \<in> set out \<Longrightarrow> v \<in> set vs \<or> fst (snd v) = JRunning"
  by (induction now limit n vs arbitrary: cs out rule: claimViews.induct)
     (auto simp: startView_running split: prod.splits if_splits)

lemma claimViews_length:
  "claimViews now (jint l) n vs = (cs, out) \<Longrightarrow> int (length cs) \<le> max 0 (l - n)"
proof (induction now "jint l" n vs arbitrary: cs out rule: claimViews.induct)
  case (2 now n v vs)
  show ?case
  proof (cases "js_le (jint l) (jint n) \<or> \<not> dueView now v")
    case True
    obtain cs' out' where rec: "claimViews now (jint l) n vs = (cs', out')" by fastforce
    with 2(3) True have "cs = cs'" by auto
    with 2(1) [OF True rec] show ?thesis by simp
  next
    case False
    then have less: "n < l" by simp
    obtain cs' out' where rec: "claimViews now (jint l) (n + 1) vs = (cs', out')" by fastforce
    with 2(3) False have "cs = startView v # cs'" by auto
    with 2(2) [OF False rec] less show ?thesis by simp
  qed
qed simp

context job_store
begin

lemma claim_names: "claim now limit s = (Inr cs, s') \<Longrightarrow> names s' = names s"
  by (drule claim_law) (auto simp: names_shown shown_def dest: claimViews_names)

lemma claim_due:
  assumes "claim now limit s = (Inr cs, s')" and "c \<in> set cs"
  shows "jo_state c = JRunning \<and> jobView c \<in> set (shown s')
    \<and> (\<exists>j\<in>set (jobs s). jo_id j = jo_id c \<and> jo_state j = JScheduled \<and> jo_attempts c = jo_attempts j + 1
         \<and> \<not> later (st_time (jo_executeAt j)) (st_time now))"
proof -
  have c: "jobView c \<in> set (shown s')" "\<exists>v\<in>set (shown s). dueView (st_time now) v \<and> jobView c = startView v"
    using claimViews_claimed [OF claim_law [OF assms(1)], of "jobView c"] assms(2) by (simp_all add: shown_def)
  then obtain j where j: "j \<in> set (jobs s)" "dueView (st_time now) (jobView j)" "jobView c = startView (jobView j)"
    by (auto simp: shown_def)
  then have "jo_state c = JRunning" "jo_id j = jo_id c" "jo_state j = JScheduled" "jo_attempts c = jo_attempts j + 1"
    "\<not> later (st_time (jo_executeAt j)) (st_time now)" by (simp_all add: jobView_def dueView_def startView_def)
  with c(1) j(1) show ?thesis by blast
qed

lemma claim_length: "claim now (jint l) s = (Inr cs, s') \<Longrightarrow> int (length cs) \<le> max 0 l"
  using claimViews_length [OF claim_law] by fastforce

text \<open>What one claim has taken, the next one does not take again.\<close>

lemma claim_once:
  assumes "claim now limit s = (Inr cs, s1)" and "claim now' limit' s1 = (Inr cs', s2)" and "distinct (names s)"
  shows "jo_id ` set cs \<inter> jo_id ` set cs' = {}"
proof -
  have d: "distinct (map fst (shown s1))" using assms(3) claim_names [OF assms(1)] by (simp add: names_shown)
  have False if c: "c \<in> set cs" and c': "c' \<in> set cs'" and same: "jo_id c = jo_id c'" for c c'
  proof -
    have run: "jobView c \<in> set (shown s1)" "jo_state c = JRunning" using claim_due [OF assms(1) c] by auto
    obtain j where j: "j \<in> set (jobs s1)" "jo_id j = jo_id c'" "jo_state j = JScheduled"
      using claim_due [OF assms(2) c'] by auto
    have "jobView j \<in> set (shown s1)" using j(1) by (simp add: shown_def)
    with run(1) have "jobView j = jobView c"
      using d same j(2) by (metis eq_key_imp_eq_value fst_conv jobView_def prod.collapse)
    with run(2) j(3) show False by (simp add: jobView_def)
  qed
  then show ?thesis by blast
qed

text \<open>A requeued job is claimable again: recovery leaves no job running.\<close>

lemma recover_scheduled:
  assumes "recover now s = (Inr n, s')"
  shows "names s' = names s \<and> (\<forall>j\<in>set (jobs s'). jo_state j \<noteq> JRunning)"
proof -
  note law = recover_law [OF assms]
  have "map fst (map requeueView vs) = map fst vs" for vs by (induction vs) (auto simp: requeueView_def split: prod.splits)
  with law have "names s' = names s" by (simp only: names_shown shown_def)
  moreover have "fst (snd (requeueView v)) \<noteq> JRunning" for v by (auto simp: requeueView_def split: prod.splits)
  then have "\<forall>w\<in>set (map jobView (jobs s')). fst (snd w) \<noteq> JRunning" unfolding law by auto
  ultimately show ?thesis by (auto simp: jobView_def)
qed

end

section \<open>Both stores keep the contract\<close>

lemma jobView_start: "jobView (startJob now j) = startView (jobView j)"
  by (simp add: jobView_def startJob_def startView_def)

lemma jobView_patch: "jobView (patchJob redact now p j) = patchView p (jobView j)"
  by (simp add: jobView_def patchJob_def patchView_def valueOr_def split: option.split)

lemma dueView_job: "dueView (st_time now) (jobView j) \<longleftrightarrow> jo_state j = JScheduled \<and> \<not> later (st_time (jo_executeAt j)) (st_time now)"
  by (simp add: dueView_def jobView_def)

lemma map_updateFirst:
  assumes "\<And>x. P x = Q (g x)" and "\<And>x. P x \<Longrightarrow> find P xs = Some x \<Longrightarrow> g (f x) = h (g x)"
  shows "map g (updateFirst P f xs) = updateFirst Q h (map g xs)"
  using assms(2) by (induction xs) (auto simp: assms(1))

lemma claimJobs_views:
  "claimJobs now limit n js = (cs, out) \<Longrightarrow> claimViews (st_time now) limit n (map jobView js) = (map jobView cs, map jobView out)"
  by (induction now limit n js arbitrary: cs out rule: claimJobs.induct)
     (auto simp: dueView_job jobView_start split: prod.splits if_splits)

interpretation json: job_store js_jobs "claimJson secretLike" "updateJson redact secretLike" "recoverJson secretLike"
  for redact secretLike
proof unfold_locales
  fix now limit s cs s'
  assume "claimJson secretLike now limit s = (Inr cs, s')"
  then have "claimJobs now limit 0 (js_jobs s) = (cs, js_jobs s')"
    by (auto simp: claimJson_def bindS_eq_Inr ensureOpen_def persist_def split: if_splits prod.splits)
  then show "claimViews (st_time now) limit 0 (map jobView (js_jobs s)) = (map jobView cs, map jobView (js_jobs s'))"
    by (rule claimJobs_views)
next
  fix now i patch s j s'
  assume "updateJson redact secretLike now i patch s = (Inr j, s')"
  then have "js_jobs s' = updateFirst (\<lambda>j. jo_id j = i) (patchJob redact now patch) (js_jobs s)"
    by (auto simp: updateJson_def bindS_eq_Inr ensureOpen_def persist_def split: if_splits option.splits)
  then show "map jobView (js_jobs s') = updateFirst (\<lambda>v. fst v = i) (patchView patch) (map jobView (js_jobs s))"
    by (simp add: map_updateFirst [where Q = "\<lambda>v. fst v = i" and h = "patchView patch"] jobView_patch jobView_def [THEN arg_cong [where f = fst]])
next
  fix now s n s'
  assume "recoverJson secretLike now s = (Inr n, s')"
  then have "js_jobs s' = map (\<lambda>j. if jo_state j = JRunning then requeueJob now j else j) (js_jobs s)"
    by (auto simp: recoverJson_def bindS_eq_Inr ensureOpen_def persist_def split: if_splits)
  then show "map jobView (js_jobs s') = map requeueView (map jobView (js_jobs s))"
    by (simp add: jobView_def requeueView_def requeueJob_def)
qed

abbreviation phase2 :: "ScheduledJobRecord \<Rightarrow> bool" where
  "phase2 r \<equiv> sj_kind r = Phase2Job"

lemma assignRecord_same [simp]: "sj_kind (assignRecord redact job r) = Phase2Job" "sj_id (assignRecord redact job r) = jo_id job"
  by (simp_all add: assignRecord_def toRecord_def Let_def)

lemma jobView_assign [simp]: "jobView (fromRecord (assignRecord redact job r)) = jobView job"
  by (simp add: jobView_def fromRecord_def assignRecord_def toRecord_def Let_def)

lemma claimRecords_views:
  "claimRecords redact now limit n rs = (cs, out) \<Longrightarrow>
    claimViews (st_time now) limit n (map jobView (map fromRecord (filter phase2 rs)))
      = (map jobView cs, map jobView (map fromRecord (filter phase2 out)))"
proof (induction redact now limit n rs arbitrary: cs out rule: claimRecords.induct)
  case (2 redact now limit n r rs)
  have due: "dueView (st_time now) (jobView (fromRecord r)) \<longleftrightarrow> sj_state r = JScheduled \<and> \<not> later (st_time (sj_scheduledAt r)) (st_time now)"
    by (simp add: dueView_job fromRecord_def)
  show ?case
    using 2 by (cases "phase2 r") (auto simp: due jobView_start Let_def split: prod.splits if_splits)
qed simp

lemma updateFirst_filter:
  assumes "\<And>r. P r \<Longrightarrow> Q r" and "\<And>r. Q (f r)" and "\<And>r. Q r \<Longrightarrow> P r = P' (g r)" and "\<And>r. find P rs = Some r \<Longrightarrow> g (f r) = h (g r)"
  shows "map g (filter Q (updateFirst P f rs)) = updateFirst P' h (map g (filter Q rs))"
  using assms(4) by (induction rs) (auto simp: assms(1,2) dest: assms(1,3))

interpretation canonical: job_store listJobs "claimDue redact" "updateJob redact" "recoverRunning redact" for redact
proof unfold_locales
  fix now limit s cs s'
  assume "claimDue redact now limit s = (Inr cs, s')"
  then obtain out where "claimRecords redact now limit 0 (bs_jobs s) = (cs, out)" "bs_jobs s' = out"
    by (auto simp: claimDue_def storeTransaction_Inr bindR_eq_Inr split: prod.splits)
  with claimRecords_views show "claimViews (st_time now) limit 0 (map jobView (listJobs s)) = (map jobView cs, map jobView (listJobs s'))"
    unfolding listJobs_def by blast
next
  fix now i patch s j s'
  assume run: "updateJob redact now i patch s = (Inr j, s')"
  then obtain r where r: "find (phase2Id i) (bs_jobs s) = Some r"
    and s': "bs_jobs s' = updateFirst (phase2Id i) (assignRecord redact (patchJob redact now patch (fromRecord r))) (bs_jobs s)"
    by (auto simp: updateJob_def storeTransaction_Inr bindR_eq_Inr Let_def split: option.splits)
  have "map (jobView \<circ> fromRecord) (filter phase2 (bs_jobs s')) =
      updateFirst (\<lambda>v. fst v = i) (patchView patch) (map (jobView \<circ> fromRecord) (filter phase2 (bs_jobs s)))"
    unfolding s' by (rule updateFirst_filter) (use r in \<open>auto simp: phase2Id_def jobView_patch\<close>, auto simp: jobView_def fromRecord_def)
  then show "map jobView (listJobs s') = updateFirst (\<lambda>v. fst v = i) (patchView patch) (map jobView (listJobs s))"
    by (simp add: listJobs_def)
next
  fix now s n s'
  assume "recoverRunning redact now s = (Inr n, s')"
  then have s': "bs_jobs s' = map (\<lambda>r. if phase2 r \<and> sj_state r = JRunning then assignRecord redact (requeueJob now (fromRecord r)) r else r) (bs_jobs s)"
    by (auto simp: recoverRunning_def storeTransaction_Inr Let_def)
  have one: "jobView (requeueJob now (fromRecord r)) = requeueView (jobView (fromRecord r))"
    if "sj_state r = JRunning" for r using that by (simp add: jobView_def requeueView_def requeueJob_def fromRecord_def)
  have two: "jobView (fromRecord r) = requeueView (jobView (fromRecord r))" if "sj_state r \<noteq> JRunning" for r
    using that by (simp add: jobView_def requeueView_def fromRecord_def)
  have "map jobView (map fromRecord (filter phase2
      (map (\<lambda>r. if phase2 r \<and> sj_state r = JRunning then assignRecord redact (requeueJob now (fromRecord r)) r else r) rs)))
    = map requeueView (map jobView (map fromRecord (filter phase2 rs)))" for rs
    by (induction rs) (auto simp: one intro: two)
  then show "map jobView (listJobs s') = map requeueView (map jobView (listJobs s))"
    unfolding listJobs_def s' .
qed

section \<open>The canonical store does what the file store does\<close>

datatype JobOp = ListOp | PutOp JobInput | ClaimOp jsnum | UpdateOp string JobPatch | RecoverOp

datatype JobAnswer = OneJob ScheduledJob | ManyJobs "ScheduledJob list" | HowMany nat

definition answer :: "('a \<Rightarrow> JobAnswer) \<Rightarrow> ('s, dbError, 'a) eff \<Rightarrow> ('s, dbError, JobAnswer) eff" where
  "answer f m = bindS m (\<lambda>x. returnS (f x))"

definition jsonStep :: "(string \<Rightarrow> string) \<Rightarrow> (ScheduledJob list \<Rightarrow> bool) \<Rightarrow> Stamp \<Rightarrow> JobOp \<Rightarrow> (JsonStore, dbError, JobAnswer) eff" where
  "jsonStep redact secretLike now op = (case op of
     ListOp \<Rightarrow> answer ManyJobs listJson
   | PutOp input \<Rightarrow> answer OneJob (putJson redact secretLike now input)
   | ClaimOp limit \<Rightarrow> answer ManyJobs (claimJson secretLike now limit)
   | UpdateOp i patch \<Rightarrow> answer OneJob (updateJson redact secretLike now i patch)
   | RecoverOp \<Rightarrow> answer HowMany (recoverJson secretLike now))"

definition canonicalStep :: "(string \<Rightarrow> string) \<Rightarrow> Stamp \<Rightarrow> JobOp \<Rightarrow> (BackendState, dbError, JobAnswer) eff" where
  "canonicalStep redact now op = (case op of
     ListOp \<Rightarrow> answer ManyJobs (getS listJobs)
   | PutOp input \<Rightarrow> answer OneJob (putJob redact now input)
   | ClaimOp limit \<Rightarrow> answer ManyJobs (claimDue redact now limit)
   | UpdateOp i patch \<Rightarrow> answer OneJob (updateJob redact now i patch)
   | RecoverOp \<Rightarrow> answer HowMany (recoverRunning redact now))"

text \<open>
  The canonical store redacts an error text again whenever it writes the record, and does not store
  an empty error text or completion time. So the stores agree on texts that are not empty and whose redaction is stable.
\<close>

definition stable :: "(string \<Rightarrow> string) \<Rightarrow> string option \<Rightarrow> bool" where
  "stable redact e \<longleftrightarrow> (case e of None \<Rightarrow> True | Some t \<Rightarrow> redact t \<noteq> [] \<and> redact (redact t) = redact t)"

definition given :: "Stamp option \<Rightarrow> bool" where
  "given t \<longleftrightarrow> (case t of None \<Rightarrow> True | Some t \<Rightarrow> st_text t \<noteq> [])"

definition fits :: "(string \<Rightarrow> string) \<Rightarrow> JobOp \<Rightarrow> bool" where
  "fits redact op \<longleftrightarrow> (case op of
     PutOp input \<Rightarrow> stable redact (ji_lastError input) \<and> given (ji_completedAt input)
   | UpdateOp i patch \<Rightarrow> stable redact (jp_lastError patch) \<and> given (jp_completedAt patch)
   | RecoverOp \<Rightarrow> redact RESTART_RECOVERY = RESTART_RECOVERY
   | _ \<Rightarrow> True)"

definition cleanJob :: "(string \<Rightarrow> string) \<Rightarrow> ScheduledJob \<Rightarrow> bool" where
  "cleanJob redact j \<longleftrightarrow> given (jo_completedAt j) \<and> (case jo_lastError j of None \<Rightarrow> True | Some t \<Rightarrow> t \<noteq> [] \<and> redact t = t)"

lemma from_to:
  assumes "cleanJob redact job"
  shows "fromRecord (toRecord redact job previous) = job"
proof -
  have "stringsOf (Some (JArr (map JStr ws))) = ws" for ws by (induction ws) (simp_all add: stringsOf_def)
  moreover have "keptText (map_option redact (keptText (jo_lastError job))) = jo_lastError job"
    and "keptStamp (keptStamp (jo_completedAt job)) = jo_completedAt job"
    using assms by (auto simp: cleanJob_def given_def keptText_def keptStamp_def truthyStamp_def split: option.splits)
  ultimately show ?thesis
    by (cases "jo_mode job"; simp add: fromRecord_def toRecord_def Let_def valueOr_def payloadOf_def modeText_def)
qed

lemma from_assign:
  assumes "cleanJob redact job" and "jo_lastError job = None \<Longrightarrow> jo_lastError (fromRecord r) = None"
    and "jo_completedAt job = None \<Longrightarrow> jo_completedAt (fromRecord r) = None"
  shows "fromRecord (assignRecord redact job r) = job"
proof -
  have same: "fromRecord (assignRecord redact job r) = (fromRecord (toRecord redact job (Some r)))\<lparr>
      jo_lastError := keptText (firstOf (sj_lastError (toRecord redact job (Some r))) (sj_lastError r)),
      jo_completedAt := keptStamp (firstOf (sj_completedAt (toRecord redact job (Some r))) (sj_completedAt r))\<rparr>"
    by (simp add: fromRecord_def assignRecord_def Let_def)
  have "keptText (firstOf (sj_lastError (toRecord redact job (Some r))) (sj_lastError r)) = jo_lastError job"
    using assms(1,2) by (auto simp: cleanJob_def toRecord_def Let_def keptText_def firstOf_def fromRecord_def split: option.splits if_splits)
  moreover have "keptStamp (firstOf (sj_completedAt (toRecord redact job (Some r))) (sj_completedAt r)) = jo_completedAt job"
    using assms(1,3) by (auto simp: cleanJob_def given_def toRecord_def Let_def keptStamp_def truthyStamp_def firstOf_def fromRecord_def split: option.splits if_splits)
  ultimately show ?thesis unfolding same from_to [OF assms(1)] by simp
qed

lemma from_given: "given (jo_completedAt (fromRecord r))" "jo_lastError (fromRecord r) \<noteq> Some []"
  by (auto simp: fromRecord_def given_def keptStamp_def truthyStamp_def keptText_def split: option.splits if_splits)

lemma clean_merge:
  assumes "stable redact (ji_lastError input)" "given (ji_completedAt input)" "\<And>j. existing = Some j \<Longrightarrow> cleanJob redact j"
  shows "cleanJob redact (mergeJob redact now existing input)"
  using assms
  by (cases existing)
     (auto simp: cleanJob_def given_def stable_def mergeJob_def firstOf_def split: option.splits)

lemma clean_patch:
  assumes "stable redact (jp_lastError p)" "given (jp_completedAt p)" "cleanJob redact j"
  shows "cleanJob redact (patchJob redact now p j)"
  using assms by (auto simp: cleanJob_def given_def stable_def patchJob_def firstOf_def split: option.splits)

lemma clean_start: "cleanJob redact j \<Longrightarrow> cleanJob redact (startJob now j)"
  by (simp add: cleanJob_def startJob_def)

lemma clean_requeue: "redact RESTART_RECOVERY = RESTART_RECOVERY \<Longrightarrow> cleanJob redact j \<Longrightarrow> cleanJob redact (requeueJob now j)"
  by (simp add: cleanJob_def requeueJob_def RESTART_RECOVERY_def)

definition agree :: "(string \<Rightarrow> string) \<Rightarrow> JsonStore \<Rightarrow> BackendState \<Rightarrow> bool" where
  "agree redact j s \<longleftrightarrow> js_jobs j = listJobs s \<and> (\<forall>x\<in>set (listJobs s). cleanJob redact x)"

lemma find_listJobs: "find (\<lambda>j. jo_id j = i) (listJobs s) = map_option fromRecord (find (phase2Id i) (bs_jobs s))"
proof -
  have "find (\<lambda>j. jo_id j = i) (map fromRecord (filter phase2 rs)) = map_option fromRecord (find (phase2Id i) rs)" for rs
    by (induction rs) (auto simp: phase2Id_def fromRecord_def)
  then show ?thesis by (simp add: listJobs_def)
qed

lemma updateFirst_member: "x \<in> set (updateFirst P f xs) \<Longrightarrow> x \<in> set xs \<or> (\<exists>y. find P xs = Some y \<and> x = f y)"
  by (induction xs) (auto split: if_splits)

text \<open>Writing a job over its record.\<close>

lemma agree_write:
  assumes "agree redact j s" and "find (phase2Id i) (bs_jobs s) = Some r" and "jo_id job = i" and "cleanJob redact job"
    and "jo_lastError job = None \<Longrightarrow> jo_lastError (fromRecord r) = None"
    and "jo_completedAt job = None \<Longrightarrow> jo_completedAt (fromRecord r) = None"
  shows "listJobs (s\<lparr>bs_jobs := updateFirst (phase2Id i) (assignRecord redact job) (bs_jobs s)\<rparr>) =
      updateFirst (\<lambda>j. jo_id j = i) (\<lambda>_. job) (listJobs s)"
    and "\<forall>x\<in>set (updateFirst (\<lambda>j. jo_id j = i) (\<lambda>_. job) (listJobs s)). cleanJob redact x"
proof -
  have "map fromRecord (filter phase2 (updateFirst (phase2Id i) (assignRecord redact job) (bs_jobs s))) =
      updateFirst (\<lambda>j. jo_id j = i) (\<lambda>_. job) (map fromRecord (filter phase2 (bs_jobs s)))"
    by (rule updateFirst_filter)
       (use assms(2) from_assign [OF assms(4-6)] in \<open>auto simp: phase2Id_def\<close>, simp_all add: fromRecord_def)
  then show "listJobs (s\<lparr>bs_jobs := updateFirst (phase2Id i) (assignRecord redact job) (bs_jobs s)\<rparr>) =
      updateFirst (\<lambda>j. jo_id j = i) (\<lambda>_. job) (listJobs s)"
    by (simp add: listJobs_def)
  show "\<forall>x\<in>set (updateFirst (\<lambda>j. jo_id j = i) (\<lambda>_. job) (listJobs s)). cleanJob redact x"
    using assms(1,4) by (auto simp: agree_def dest!: updateFirst_member)
qed

lemma claimRecords_agree:
  assumes "\<And>x. x \<in> set (map fromRecord (filter phase2 rs)) \<Longrightarrow> cleanJob redact x"
    and "claimRecords redact now limit n rs = (cs, out)"
  shows "claimJobs now limit n (map fromRecord (filter phase2 rs)) = (cs, map fromRecord (filter phase2 out))
    \<and> (\<forall>x\<in>set (map fromRecord (filter phase2 out)). cleanJob redact x)"
  using assms
proof (induction redact now limit n rs arbitrary: cs out rule: claimRecords.induct)
  case (2 redact now limit n r rs)
  have same: "jo_state (fromRecord r) = sj_state r" "jo_executeAt (fromRecord r) = sj_scheduledAt r"
    by (simp_all add: fromRecord_def)
  have started: "cleanJob redact (startJob now (fromRecord r))" if "phase2 r"
    using 2(3) [of "fromRecord r"] that by (simp add: clean_start)
  then have wrote: "fromRecord (assignRecord redact (startJob now (fromRecord r)) r) = startJob now (fromRecord r)" if "phase2 r"
    by (rule from_assign) (simp_all add: that, simp_all add: startJob_def)
  have rest: "\<And>x. x \<in> set (map fromRecord (filter phase2 rs)) \<Longrightarrow> cleanJob redact x" using 2(3) by auto
  show ?case
  proof (cases "sj_kind r \<noteq> Phase2Job \<or> js_le limit (jint n) \<or> sj_state r \<noteq> JScheduled \<or> later (st_time (sj_scheduledAt r)) (st_time now)")
    case True
    obtain cs' out' where rec: "claimRecords redact now limit n rs = (cs', out')" by fastforce
    with 2(4) True have "cs = cs'" "out = r # out'" by auto
    with 2(1) [OF True rest rec] 2(3) True show ?thesis by (auto simp: same)
  next
    case False
    obtain cs' out' where rec: "claimRecords redact now limit (n + 1) rs = (cs', out')" by fastforce
    with 2(4) False have eq: "cs = startJob now (fromRecord r) # cs'" "out = assignRecord redact (startJob now (fromRecord r)) r # out'"
      by (auto simp: Let_def)
    from 2(2) [OF False refl rest rec] False show ?thesis by (auto simp: eq same wrote started)
  qed
qed simp

text \<open>The jobs of other kinds, which these operations leave alone.\<close>

definition otherJobs :: "BackendState \<Rightarrow> ScheduledJobRecord list" where
  "otherJobs s = filter (\<lambda>r. \<not> phase2 r) (bs_jobs s)"

lemma otherJobs_write: "otherJobs (s\<lparr>bs_jobs := updateFirst (phase2Id i) (assignRecord redact job) (bs_jobs s)\<rparr>) = otherJobs s"
proof -
  have "filter (\<lambda>r. \<not> phase2 r) (updateFirst (phase2Id i) (assignRecord redact job) rs) = filter (\<lambda>r. \<not> phase2 r) rs" for rs
    by (induction rs) (auto simp: phase2Id_def)
  then show ?thesis by (simp add: otherJobs_def)
qed

definition matches :: "(string \<Rightarrow> string) \<Rightarrow> (BackendState, dbError, 'a) eff \<Rightarrow> BackendState \<Rightarrow> 'a \<Rightarrow> JsonStore \<Rightarrow> bool" where
  "matches redact m s x j \<longleftrightarrow> (\<exists>s'. m s = (Inr x, s') \<and> agree redact j s' \<and> otherJobs s' = otherJobs s)"

lemma assertJob_Inr:
  assumes "assertJob job = Inr ()"
  shows "assertStored job = Inr ()" and "jo_runId job \<noteq> []"
  using assms by (auto simp: assertJob_def assertStored_def bindR_eq_Inr)

lemma put_matches:
  assumes "agree redact j s" and "fits redact (PutOp input)" and run: "putJson redact secretLike now input j = (Inr x, j')"
  shows "matches redact (putJob redact now input) s x j'"
proof -
  define existing where "existing = map_option fromRecord (find (phase2Id (ji_id input)) (bs_jobs s))"
  define job where "job = mergeJob redact now existing input"
  have found: "find (\<lambda>j. jo_id j = ji_id input) (js_jobs j) = existing"
    using assms(1) by (simp add: agree_def find_listJobs existing_def)
  have checks: "case existing of None \<Rightarrow> True | Some j \<Rightarrow> jo_runId j = ji_runId input" and stored: "assertJob job = Inr ()" and x: "x = job"
    and new: "existing = None \<Longrightarrow> \<not> list_ex (\<lambda>j. jo_runId j = jo_runId job) (js_jobs j)"
    and j': "js_jobs j' = (if existing = None then js_jobs j @ [job] else updateFirst (\<lambda>j. jo_id j = ji_id input) (\<lambda>_. job) (js_jobs j))"
    using run by (auto simp: putJson_def found Let_def job_def bindS_eq_Inr ensureOpen_def persist_def split: option.splits if_splits)
  have clean: "cleanJob redact job"
    unfolding job_def
  proof (rule clean_merge)
    show "stable redact (ji_lastError input)" "given (ji_completedAt input)" using assms(2) by (simp_all add: fits_def)
    show "cleanJob redact k" if "existing = Some k" for k
      using that assms(1) found by (auto simp: agree_def dest: find_Some_in)
  qed
  note ok = assertJob_Inr [OF stored]
  show ?thesis
  proof (cases "find (phase2Id (ji_id input)) (bs_jobs s)")
    case None
    then have none: "existing = None" by (simp add: existing_def)
    then have job: "mergeJob redact now None input = job" by (simp add: job_def existing_def)
    have free: "\<not> list_ex (\<lambda>r. phase2 r \<and> sj_runId r = Some (jo_runId job)) (bs_jobs s)"
      using new [OF none] assms(1) by (auto simp: agree_def list_ex_iff listJobs_def fromRecord_def valueOr_def)
    have put: "putJob redact now input s = (Inr job, s\<lparr>bs_jobs := bs_jobs s @ [toRecord redact job None]\<rparr>)"
      using free ok(1) by (simp add: putJob_def storeTransaction_def Let_def None job)
    have "fromRecord (toRecord redact job None) = job" "phase2 (toRecord redact job None)"
      by (rule from_to [OF clean]) (simp add: toRecord_def Let_def)
    then show ?thesis
      using assms(1) clean none by (auto simp: matches_def put agree_def j' x listJobs_def otherJobs_def)
  next
    case (Some r)
    then have some: "existing = Some (fromRecord r)" by (simp add: existing_def)
    have id: "jo_id job = ji_id input" by (simp add: job_def mergeJob_def)
    have keep: "jo_lastError job = None \<Longrightarrow> jo_lastError (fromRecord r) = None"
      "jo_completedAt job = None \<Longrightarrow> jo_completedAt (fromRecord r) = None"
      by (auto simp: job_def some mergeJob_def firstOf_def split: option.splits)
    note wrote = agree_write [OF assms(1) Some id clean keep]
    have job: "mergeJob redact now (Some (fromRecord r)) input = job" by (simp add: job_def some)
    have put: "putJob redact now input s = (Inr job, s\<lparr>bs_jobs := updateFirst (phase2Id (ji_id input)) (assignRecord redact job) (bs_jobs s)\<rparr>)"
      using checks ok(1) by (simp add: putJob_def storeTransaction_def Let_def Some job some)
    show ?thesis
      using some wrote assms(1) by (simp add: matches_def put agree_def j' x otherJobs_write)
  qed
qed

lemma update_matches:
  assumes "agree redact j s" and "fits redact (UpdateOp i patch)" and run: "updateJson redact secretLike now i patch j = (Inr x, j')"
  shows "matches redact (updateJob redact now i patch) s x j'"
proof -
  have found: "find (\<lambda>j. jo_id j = i) (js_jobs j) = map_option fromRecord (find (phase2Id i) (bs_jobs s))"
    using assms(1) by (simp add: agree_def find_listJobs)
  from run obtain r where r: "find (phase2Id i) (bs_jobs s) = Some r"
    by (auto simp: updateJson_def found bindS_eq_Inr ensureOpen_def split: option.splits if_splits)
  define job where "job = patchJob redact now patch (fromRecord r)"
  have stored: "assertJob job = Inr ()" and x: "x = job"
    and j': "js_jobs j' = updateFirst (\<lambda>j. jo_id j = i) (patchJob redact now patch) (js_jobs j)"
    using run by (auto simp: updateJson_def found r job_def bindS_eq_Inr ensureOpen_def persist_def split: if_splits)
  have "updateFirst P f xs = updateFirst P (\<lambda>_. f y) xs" if "find P xs = Some y" for P f and xs :: "ScheduledJob list" and y
    using that by (induction xs) (auto split: if_splits)
  from this [OF found [unfolded r option.map]] have same: "js_jobs j' = updateFirst (\<lambda>j. jo_id j = i) (\<lambda>_. job) (js_jobs j)"
    unfolding j' job_def by blast
  have clean: "cleanJob redact job"
    unfolding job_def using assms(2) assms(1) find_Some_in [OF found [unfolded r option.map]]
    by (intro clean_patch) (auto simp: fits_def agree_def)
  have id: "jo_id job = i" using find_Some_in [OF r] by (simp add: job_def patchJob_def phase2Id_def fromRecord_def)
  have keep: "jo_lastError job = None \<Longrightarrow> jo_lastError (fromRecord r) = None"
    "jo_completedAt job = None \<Longrightarrow> jo_completedAt (fromRecord r) = None"
    by (auto simp: job_def patchJob_def firstOf_def split: option.splits)
  note wrote = agree_write [OF assms(1) r id clean keep]
  have update: "updateJob redact now i patch s = (Inr job, s\<lparr>bs_jobs := updateFirst (phase2Id i) (assignRecord redact job) (bs_jobs s)\<rparr>)"
    using assertJob_Inr [OF stored] by (simp add: updateJob_def storeTransaction_def Let_def r, simp add: job_def)
  show ?thesis
    using wrote assms(1) by (simp add: matches_def update agree_def same x otherJobs_write)
qed

lemma claim_matches:
  assumes "agree redact j s" and run: "claimJson secretLike now limit j = (Inr cs, j')"
  shows "matches redact (claimDue redact now limit) s cs j'"
proof -
  from run have claimed: "claimJobs now limit 0 (js_jobs j) = (cs, js_jobs j')" and "st_time now \<noteq> None"
    by (auto simp: claimJson_def bindS_eq_Inr ensureOpen_def persist_def split: if_splits prod.splits)
  obtain cs' out where rec: "claimRecords redact now limit 0 (bs_jobs s) = (cs', out)" by fastforce
  have "\<And>x. x \<in> set (map fromRecord (filter phase2 (bs_jobs s))) \<Longrightarrow> cleanJob redact x"
    using assms(1) by (auto simp: agree_def listJobs_def)
  note same = claimRecords_agree [OF this rec]
  have others: "claimRecords redact now limit n rs = (cs, out) \<Longrightarrow> filter (\<lambda>r. \<not> phase2 r) out = filter (\<lambda>r. \<not> phase2 r) rs"
    for n rs cs out
    by (induction redact now limit n rs arbitrary: cs out rule: claimRecords.induct) (auto simp: Let_def split: prod.splits if_splits)
  have "cs' = cs" "js_jobs j' = map fromRecord (filter phase2 out)"
    using same claimed assms(1) by (auto simp: agree_def listJobs_def)
  then show ?thesis
    using same others [OF rec] \<open>st_time now \<noteq> None\<close>
    by (auto simp: matches_def claimDue_def storeTransaction_def rec agree_def listJobs_def otherJobs_def)
qed

lemma recover_matches:
  assumes "agree redact j s" and "redact RESTART_RECOVERY = RESTART_RECOVERY" and run: "recoverJson secretLike now j = (Inr n, j')"
  shows "matches redact (recoverRunning redact now) s n j'"
proof -
  define go where "go = (\<lambda>r. if phase2 r \<and> sj_state r = JRunning then assignRecord redact (requeueJob now (fromRecord r)) r else r)"
  define json where "json = (\<lambda>j. if jo_state j = JRunning then requeueJob now j else j)"
  from run have j': "js_jobs j' = map json (js_jobs j)" and n: "n = length (filter (\<lambda>j. jo_state j = JRunning) (js_jobs j))"
    by (auto simp: json_def recoverJson_def bindS_eq_Inr ensureOpen_def persist_def split: if_splits)
  have rec: "recoverRunning redact now s = (Inr (length (filter (\<lambda>r. phase2 r \<and> sj_state r = JRunning) (bs_jobs s))),
      s\<lparr>bs_jobs := map go (bs_jobs s)\<rparr>)"
    by (simp add: go_def recoverRunning_def storeTransaction_def Let_def)
  have state: "jo_state (fromRecord r) = sj_state r" for r by (simp add: fromRecord_def)
  have count: "length (filter (\<lambda>j. jo_state j = JRunning) (map fromRecord (filter phase2 rs))) = length (filter (\<lambda>r. phase2 r \<and> sj_state r = JRunning) rs)" for rs
    by (induction rs) (simp_all add: state)
  have again: "cleanJob redact k \<Longrightarrow> cleanJob redact (requeueJob now k)" for k
    by (rule clean_requeue) (rule assms(2))
  have one: "fromRecord (go r) = json (fromRecord r) \<and> cleanJob redact (json (fromRecord r))" if "cleanJob redact (fromRecord r)" "phase2 r" for r
  proof (cases "sj_state r = JRunning")
    case True
    have "fromRecord (assignRecord redact (requeueJob now (fromRecord r)) r) = requeueJob now (fromRecord r)"
      by (rule from_assign [OF again [OF that(1)]]) (simp_all add: requeueJob_def)
    with True that show ?thesis by (simp add: go_def json_def state again)
  qed (simp add: go_def json_def state that)
  have kind: "phase2 (go r) = phase2 r" "\<not> phase2 r \<Longrightarrow> go r = r" for r by (simp_all add: go_def)
  have each: "map fromRecord (filter phase2 (map go rs)) = map json (map fromRecord (filter phase2 rs))
      \<and> (\<forall>x\<in>set (map json (map fromRecord (filter phase2 rs))). cleanJob redact x)
      \<and> filter (\<lambda>r. \<not> phase2 r) (map go rs) = filter (\<lambda>r. \<not> phase2 r) rs"
    if "\<forall>x\<in>set (map fromRecord (filter phase2 rs)). cleanJob redact x" for rs
    using that
  proof (induction rs)
    case (Cons r rs)
    then show ?case using one [of r] by (cases "phase2 r") (simp_all add: kind)
  qed simp
  have "\<forall>x\<in>set (map fromRecord (filter phase2 (bs_jobs s))). cleanJob redact x"
    using assms(1) unfolding agree_def listJobs_def by blast
  note step = each [OF this]
  have put: "bs_jobs (s\<lparr>bs_jobs := map go (bs_jobs s)\<rparr>) = map go (bs_jobs s)" by simp
  have all: "listJobs (s\<lparr>bs_jobs := map go (bs_jobs s)\<rparr>) = map json (listJobs s)"
    "\<forall>x\<in>set (map json (listJobs s)). cleanJob redact x" "otherJobs (s\<lparr>bs_jobs := map go (bs_jobs s)\<rparr>) = otherJobs s"
    unfolding listJobs_def otherJobs_def put using step by blast+
  have "n = length (filter (\<lambda>r. phase2 r \<and> sj_state r = JRunning) (bs_jobs s))"
    using assms(1) count [of "bs_jobs s"] by (simp only: n agree_def listJobs_def)
  then show ?thesis
    using all assms(1) by (simp only: matches_def rec agree_def j') simp
qed


text \<open>
  A job is handed out at most once. What a claim of the canonical store returns are jobs that
  were scheduled and due, now running with one attempt more, at most the limit of them; and the next claim
  returns none of them again.
\<close>

theorem job_claimed_once:
  assumes "claimDue redact now (jint l) s = (Inr cs, s1)" and "claimDue redact now' limit' s1 = (Inr cs', s2)"
    and "distinct (map jo_id (listJobs s))"
  shows "jo_id ` set cs \<inter> jo_id ` set cs' = {} \<and> int (length cs) \<le> max 0 l
    \<and> (\<forall>c\<in>set cs. jo_state c = JRunning \<and> (\<exists>j\<in>set (listJobs s). jo_id j = jo_id c \<and> jo_state j = JScheduled
          \<and> jo_attempts c = jo_attempts j + 1 \<and> \<not> later (st_time (jo_executeAt j)) (st_time now)))"
  using canonical.claim_once [OF assms(1,2)] assms(3) canonical.claim_length [OF assms(1)] canonical.claim_due [OF assms(1)]
  by (auto simp: canonical.names_def)

text \<open>
  A refused update spoils the file store. When an update of the file store gives a job that fails its
  check (an error text with a line break is enough), the update throws, but the job in memory is already
  changed; the next successful write of any other job stores it, and the file can not be opened again.
\<close>

theorem refused_update_spoils_file:
  assumes "updateJson redact secretLike now i patch j = (Inl e, j1)" and "js_opened j"
    and "find (\<lambda>x. jo_id x = i) (js_jobs j) = Some job" and "assertJob (patchJob redact now patch job) = Inl e"
    and "putJson redact secretLike now' input j1 = (Inr x, j2)" and "ji_id input \<noteq> i"
  shows "\<exists>e' j3. openJson secretLike (j2\<lparr>js_opened := False, js_jobs := []\<rparr>) = (Inl e', j3)"
proof -
  have j1: "js_jobs j1 = updateFirst (\<lambda>x. jo_id x = i) (patchJob redact now patch) (js_jobs j)"
    using assms(1-4) by (auto simp: updateJson_def bindS_def ensureOpen_def)
  have hit: "find P xs = Some y \<Longrightarrow> f y \<in> set (updateFirst P f xs)" for P f and xs :: "ScheduledJob list" and y
    by (induction xs) (auto split: if_splits)
  have miss: "y \<in> set (updateFirst P f xs)" if "y \<in> set xs" "\<not> P y" for P f and xs :: "ScheduledJob list" and y
    using that by (induction xs) auto
  let ?bad = "patchJob redact now patch job"
  have "jo_id ?bad = i" using find_Some_in [OF assms(3)] by (simp add: patchJob_def)
  moreover have "?bad \<in> set (js_jobs j1)" unfolding j1 by (rule hit [OF assms(3)])
  moreover have "js_file j2 = Some (js_jobs j2)" and "js_jobs j2 = js_jobs j1 @ [x]
      \<or> js_jobs j2 = updateFirst (\<lambda>y. jo_id y = ji_id input) (\<lambda>_. x) (js_jobs j1)"
    using assms(5) by (auto simp: putJson_def Let_def bindS_eq_Inr ensureOpen_def persist_def split: option.splits if_splits)
  ultimately have bad: "?bad \<in> set (js_jobs j2)" and stored: "js_file j2 = Some (js_jobs j2)"
    using miss assms(6) by auto
  have "mapR assertJob (js_jobs j2) \<noteq> Inr us" for us
    using mapR_Inr_each [OF _ bad, of assertJob us] assms(4) by auto
  then obtain e' where "parseFile (js_jobs j2) = Inl e'"
    by (cases "mapR assertJob (js_jobs j2)") (auto simp: parseFile_def)
  with stored show ?thesis by (simp add: openJson_def)
qed

section \<open>Examples\<close>

definition demoTime :: "int \<Rightarrow> Stamp" where
  "demoTime t = \<lparr>st_text = ''t'', st_time = Some t\<rparr>"

definition demoPut :: "string \<Rightarrow> JobInput" where
  "demoPut i = \<lparr>ji_id = i, ji_runId = ''run-'' @ i, ji_wallets = [''0xw''], ji_executeAt = demoTime 5, ji_mode = DryRun,
     ji_state = None, ji_attempts = None, ji_createdAt = None, ji_updatedAt = None, ji_lastError = None, ji_completedAt = None\<rparr>"

definition demoJobs :: BackendState where
  "demoJobs = snd (bindS (putJob id (demoTime 1) (demoPut ''a'')) (\<lambda>_. putJob id (demoTime 1) (demoPut ''b'')) emptyState)"

definition demoFile :: JsonStore where
  "demoFile = \<lparr>js_jobs = listJobs demoJobs, js_opened = True, js_file = None\<rparr>"

definition neverSecret :: "ScheduledJob list \<Rightarrow> bool" where
  "neverSecret jobs = False"


theorem job_claimed_once_witness:
  "map jo_id (projr (fst (claimDue id (demoTime 9) (jint 1) demoJobs))) = [''a'']
   \<and> map jo_id (projr (fst (claimDue id (demoTime 9) (jint 1) (snd (claimDue id (demoTime 9) (jint 1) demoJobs))))) = [''b'']
   \<and> jo_id ` set (projr (fst (claimDue id (demoTime 9) (jint 1) demoJobs)))
       \<inter> jo_id ` set (projr (fst (claimDue id (demoTime 9) (jint 1) (snd (claimDue id (demoTime 9) (jint 1) demoJobs))))) = {}"
proof -
  let ?one = "claimDue id (demoTime 9) (jint 1) demoJobs"
  let ?two = "claimDue id (demoTime 9) (jint 1) (snd ?one)"
  have "is_ok (fst ?one)" "is_ok (fst ?two)" by code_simp+
  then obtain cs cs' where "?one = (Inr cs, snd ?one)" "?two = (Inr cs', snd ?two)"
    by (metis is_ok_iff prod.collapse)
  moreover have "distinct (map jo_id (listJobs demoJobs))" by code_simp
  ultimately have "jo_id ` set cs \<inter> jo_id ` set cs' = {}" "cs = projr (fst ?one)" "cs' = projr (fst ?two)"
    using job_claimed_once by (blast, metis fst_conv sum.sel(2), metis fst_conv sum.sel(2))
  moreover have "map jo_id (projr (fst ?one)) = [''a'']" "map jo_id (projr (fst ?two)) = [''b'']" by code_simp+
  ultimately show ?thesis by simp
qed

definition brokenText :: JobPatch where
  "brokenText = \<lparr>jp_state = Some JBlocked, jp_lastError = Some (''a'' @ [CHR 0x0A] @ ''b''), jp_completedAt = None, jp_updatedAt = None,
     jp_executeAt = None\<rparr>"

theorem refused_update_spoils_file_witness:
  "\<exists>e j. openJson neverSecret ((snd (putJson id neverSecret (demoTime 2) (demoPut ''b'')
        (snd (updateJson id neverSecret (demoTime 2) ''a'' brokenText demoFile))))\<lparr>js_opened := False, js_jobs := []\<rparr>) = (Inl e, j)"
proof -
  let ?u = "updateJson id neverSecret (demoTime 2) ''a'' brokenText demoFile"
  let ?p = "putJson id neverSecret (demoTime 2) (demoPut ''b'') (snd ?u)"
  have "fst ?u = Inl ''SCHEDULED_JOB_ERROR_INVALID''" "is_ok (fst ?p)" by code_simp+
  then obtain x where u: "?u = (Inl ''SCHEDULED_JOB_ERROR_INVALID'', snd ?u)" and p: "?p = (Inr x, snd ?p)"
    by (metis is_ok_iff prod.collapse)
  define job where "job = the (find (\<lambda>x. jo_id x = ''a'') (js_jobs demoFile))"
  have "find (\<lambda>x. jo_id x = ''a'') (js_jobs demoFile) \<noteq> None" by code_simp
  then have "find (\<lambda>x. jo_id x = ''a'') (js_jobs demoFile) = Some job" by (auto simp: job_def)
  moreover have "assertJob (patchJob id (demoTime 2) brokenText (the (find (\<lambda>x. jo_id x = ''a'') (js_jobs demoFile))))
      = Inl ''SCHEDULED_JOB_ERROR_INVALID''" by code_simp
  moreover have "js_opened demoFile" by (simp add: demoFile_def)
  moreover have "ji_id (demoPut ''b'') \<noteq> ''a''" by (simp add: demoPut_def)
  ultimately show ?thesis using refused_update_spoils_file [OF u _ _ _ p] by (simp add: job_def)
qed

end
