(* ===== verification/CoordinatorOrder.thy ===== *)
theory CoordinatorOrder
  imports Coordinator
begin

text \<open>
  The rules by which the coordinator's operations move the backend state, as a locale: for every
  preorder that recording events, attempts, receipts and reservations respects and along which a run
  may change its state, arming, executing and reconciling move along it too, if the awaited
  components do (\<open>obeys\<close>). \<open>CoordinatorSafety\<close>, \<open>CoordinatorFacts\<close> and \<open>ApplicationFacts\<close> interpret it.
\<close>

lemma storeTransaction_cases:
  assumes "storeTransaction m s = (r, s')"
  obtains e where "m s = Inl e" "r = Inl e" "s' = s" | x where "m s = Inr (x, s')" "r = Inr x"
  using assms by (cases r) (auto simp: storeTransaction_Inr storeTransaction_Inl)

locale coordinator_order = state_order R for R :: "BackendState \<Rightarrow> BackendState \<Rightarrow> bool" +
  assumes R_event: "R s (s\<lparr>bs_events := bs_events s @ [(plainEvent kind about)\<lparr>be_receiptId := receipt\<rparr>]\<rparr>)"
    and R_transition: "transitionRun i to s = Inr s' \<Longrightarrow> R s s'"
    and R_records: "R s (s\<lparr>bs_attempts := as, bs_receipts := rs, bs_reconciliations := cs\<rparr>)"
    and R_reservations: "R s (s\<lparr>bs_reservations := vs\<rparr>)"
begin

lemma R_push: "R s (pushEvent kind i s)"
proof -
  have "(plainEvent kind i)\<lparr>be_receiptId := None\<rparr> = plainEvent kind i" by (simp add: plainEvent_def)
  with R_event [where s = s and kind = kind and about = i and receipt = None] show ?thesis by (simp add: pushEvent_def)
qed

lemma R_accounting: "applyAccountingToState k i as rs s = Inr s' \<Longrightarrow> R s s'"
  by (auto simp: applyAccountingToState_def bindR_eq_Inr R_reservations)

lemma R_storeFacts: "R s (storeFacts i result s)"
proof -
  let ?t = "s\<lparr>bs_attempts := bs_attempts s @ xr_attempts result, bs_receipts := bs_receipts s @ xr_receipts result\<rparr>"
  have "R s ?t"
    using R_records [where s = s and cs = "bs_reconciliations s"] by simp
  then show ?thesis unfolding storeFacts_def by (rule R_trans) (rule R_push)
qed

lemma R_appendFacts: "R s (appendFacts i u before s)"
  by (simp add: appendFacts_def Let_def R_records)

lemma R_reconcile: "reconcileTransition k res i s = Inr s' \<Longrightarrow> R s s'"
  by (auto simp: reconcileTransition_def bindR_eq_Inr split: option.splits if_splits intro: R_transition R_refl R_trans)

lemma follows_transaction:
  assumes "\<And>s x s'. m s = Inr (x, s') \<Longrightarrow> R s s'"
  shows "follows (storeTransaction m)"
  by (rule followsI) (erule storeTransaction_cases, auto intro: R_refl assms)

lemma follows_event: "follows (recordEvent kind i)"
  unfolding recordEvent_def by (rule follows_transaction) (auto simp: R_push)

lemma follows_quietly: "follows m \<Longrightarrow> follows (quietly m)"
  unfolding quietly_def by (intro follows_catch follows_return)

lemma follows_recordFacts: "follows (storeTransaction (recordFacts k i result killed))"
proof (rule follows_transaction)
  fix s x s'
  assume "recordFacts k i result killed s = Inr (x, s')"
  then obtain s1 where s1: "resultTransition k i (xr_state result) killed (storeFacts i result s) = Inr s1"
    and s2: "applyAccountingToState k i (xr_attempts result) (xr_receipts result) s1 = Inr s'"
    by (auto simp: recordFacts_def bindR_eq_Inr)
  have "R (storeFacts i result s) s1"
    using s1 by (auto simp: resultTransition_def split: option.splits if_splits intro: R_transition R_refl)
  then show "R s s'" using R_storeFacts R_accounting [OF s2] R_trans by blast
qed

lemma follows_applyReconciliation: "follows (storeTransaction (applyReconciliation k i update before))"
proof (rule follows_transaction)
  fix s x s'
  assume "applyReconciliation k i update before s = Inr (x, s')"
  then obtain s1 where s1: "reconcileTransition k (up_result update) i (appendFacts i update before s) = Inr s1"
    and s2: "applyAccountingToState k i (up_attempts update) (up_receipts update) s1 = Inr s'"
    by (auto simp: applyReconciliation_def bindR_eq_Inr)
  show "R s s'" using R_appendFacts R_reconcile [OF s1] R_accounting [OF s2] R_trans by blast
qed

lemma follows_completeDryRun: "follows (storeTransaction (completeDryRun i))"
proof (rule follows_transaction)
  fix s x s'
  assume "completeDryRun i s = Inr (x, s')"
  then obtain s1 where "(case findRun i s of None \<Rightarrow> Inr s
      | Some _ \<Rightarrow> bindR (transitionRun i CActive s) (transitionRun i CCompleted)) = Inr s1"
    and s': "s' = pushEvent ''dry_run_completed'' (Some i) s1"
    by (auto simp: completeDryRun_def bindR_eq_Inr)
  then have "R s s1" by (auto simp: bindR_eq_Inr split: option.splits intro: R_transition R_refl R_trans)
  then show "R s s'" unfolding s' by (rule R_trans) (rule R_push)
qed

text \<open>The awaited components move along the order.\<close>

definition obeys :: "CoordEnv \<Rightarrow> bool" where
  "obeys env \<longleftrightarrow>
     (\<forall>r c ws. follows (co_prepare env r c ws))
     \<and> (\<forall>r c ws ids. follows (co_execute env r c ws ids))
     \<and> (\<forall>r. follows (co_reconcile env r))
     \<and> (\<forall>k i x. follows (co_alert env k i x))
     \<and> (\<forall>f c ws. co_refresh env = Some f \<longrightarrow> follows (f c ws))
     \<and> (\<forall>cn. co_canonical env = Some cn \<longrightarrow>
          (\<forall>input. follows (cn_admit cn input))
          \<and> (\<forall>x. follows (cn_abortRemaining cn x))
          \<and> (\<forall>f i x. cn_abortRunIfUnsent cn = Some f \<longrightarrow> follows (f i x)))"

lemmas follows_rules =
  follows_return follows_throw follows_lift follows_get follows_ensure follows_bind follows_catch follows_if
  follows_case_option follows_case_prod follows_Let follows_forEach follows_event follows_quietly
  follows_recordFacts follows_applyReconciliation follows_completeDryRun

lemma follows_notices: "obeys env \<Longrightarrow> follows (raiseFleetNotices env i ns)"
  unfolding raiseFleetNotices_def by (intro follows_rules) (simp add: obeys_def)

lemma follows_block: "obeys env \<Longrightarrow> follows (raiseAdmissionBlock env i x)"
  unfolding raiseAdmissionBlock_def by (intro follows_rules) (simp add: obeys_def)

lemma follows_notice: "obeys env \<Longrightarrow> follows (raiseExecutionNotice env i x)"
  unfolding raiseExecutionNotice_def by (intro follows_rules) (simp add: obeys_def)

lemma follows_gates: "obeys env \<Longrightarrow> follows (liveGates env c ws s)"
  unfolding liveGates_def refreshReadiness_def by (intro follows_rules) (simp add: obeys_def)

lemma follows_checks: "obeys env \<Longrightarrow> follows (liveChecks env c ws ids s)"
  unfolding liveChecks_def by (intro follows_rules follows_gates)

lemma follows_executeDryRun: "obeys env \<Longrightarrow> follows (executeDryRun env r c ws)"
  unfolding executeDryRun_def by (intro follows_rules) (simp add: obeys_def)

lemma follows_finish: "obeys env \<Longrightarrow> co_canonical env = Some cn \<Longrightarrow> follows (finishExecution env cn i c ps x)"
  unfolding finishExecution_def by (intro follows_rules follows_notice) (simp_all add: obeys_def)

lemma follows_runEngine: "obeys env \<Longrightarrow> co_canonical env = Some cn \<Longrightarrow> follows (runEngine env cn r c ws a)"
  unfolding runEngine_def by (intro follows_rules follows_finish follows_notices) (simp_all add: obeys_def)

lemma follows_admitRun: "obeys env \<Longrightarrow> co_canonical env = Some cn \<Longrightarrow> follows (admitRun env cn input)"
  unfolding admitRun_def by (intro follows_rules follows_block) (simp_all add: obeys_def)

lemma follows_executeLive: "obeys env \<Longrightarrow> follows (executeLive env r i ws)"
  unfolding executeLive_def
  by (intro follows_rules follows_gates follows_admitRun follows_runEngine) (simp_all add: obeys_def)

lemma follows_executeRun: "obeys env \<Longrightarrow> follows (executeRun env i ws)"
  unfolding executeRun_def by (intro follows_rules follows_executeDryRun follows_executeLive)

lemma follows_report: "obeys env \<Longrightarrow> follows (reportFinality env i s r)"
  unfolding reportFinality_def
  by (intro follows_rules follows_transaction) (auto simp: obeys_def R_refl R_event split: if_splits)

lemma follows_reconcileRun: "obeys env \<Longrightarrow> follows (reconcileRun env i)"
  unfolding reconcileRun_def by (intro follows_rules follows_report) (simp_all add: obeys_def)

lemma follows_reconcilePass: "obeys env \<Longrightarrow> follows (reconcilePass env)"
  unfolding reconcilePass_def by (intro follows_rules follows_reconcileRun)

lemma follows_close: "obeys env \<Longrightarrow> follows (closeUnsentRun env i x)"
  unfolding closeUnsentRun_def by (intro follows_rules) (auto simp: obeys_def Option.bind_eq_Some_conv)

lemma follows_arm:
  assumes env: "obeys env" and new: "\<And>run intent s r s'. storeRun run intent s = Inr (r, s') \<Longrightarrow> R s s'"
  shows "follows (arm env v mode key)"
proof (rule followsI)
  fix s r s'
  assume run: "arm env v mode key s = (r, s')"
  show "R s s'"
  proof (cases "find (\<lambda>c. cm_id c = vc_campaignId v) (bs_campaigns s)")
    case None
    with run show ?thesis by (auto simp: arm_def R_refl)
  next
    case (Some campaign)
    show ?thesis
      using run Some unfolding arm_def Let_def
      by (simp only: option.case)
         (erule followsD [rotated], intro follows_rules follows_checks [OF env] follows_transaction, erule new)
  qed
qed

end

end
