(* ===== verification/CoordinatorSafety.thy ===== *)
theory CoordinatorSafety
  imports CoordinatorOrder
begin

text \<open>
  What the coordinator guarantees. Every operation moves a run only along its state machine and never
  takes a kill back, whatever the awaited components do, as long as they keep to the same order; the
  engine is only asked after an accepted admission; money is only settled on a final receipt; and a
  start only reports ready when nothing is open.
\<close>

section \<open>The order of run states\<close>

definition runLater :: "CampaignState \<Rightarrow> CampaignState \<Rightarrow> bool" where
  "runLater s t \<longleftrightarrow>
     s = t
     \<or> (s = CArmed \<and> t \<in> {CActive, CCompleted, CFailed, CAborted})
     \<or> (s = CActive \<and> t \<in> {CCompleted, CFailed, CAborted})
     \<or> (s = CCompleted \<and> t = CFailed)"

lemma runLater_refl [simp]: "runLater s s"
  by (simp add: runLater_def)

lemma runLater_trans: "runLater s t \<Longrightarrow> runLater t u \<Longrightarrow> runLater s u"
  by (auto simp: runLater_def)

lemma canTransition_later: "canTransition s t \<Longrightarrow> runLater s t"
  by (cases s) (auto simp: canTransition_def allowedTransitions_def runLater_def)

text \<open>It is what the transitions of the source reach.\<close>

lemma runLater_iff: "runLater s t \<longleftrightarrow> canTransition\<^sup>*\<^sup>* s t"
proof
  have one: "canTransition s t \<Longrightarrow> canTransition\<^sup>*\<^sup>* s t" for s t by (rule r_into_rtranclp)
  have two: "canTransition\<^sup>*\<^sup>* CArmed CCompleted"
    by (rule rtranclp_trans [OF one one, of _ CActive]) (simp_all add: canTransition_def allowedTransitions_def)
  assume "runLater s t"
  then have "canTransition s t \<or> s = CArmed \<and> t = CCompleted"
    by (auto simp: runLater_def canTransition_def allowedTransitions_def)
  then show "canTransition\<^sup>*\<^sup>* s t" using one two by auto
next
  assume "canTransition\<^sup>*\<^sup>* s t"
  then show "runLater s t"
    by (induction rule: rtranclp_induct) (auto intro: runLater_trans canTransition_later)
qed

lemma runLater_stuck: "runLater s t \<Longrightarrow> s \<in> {CAborted, CFailed} \<Longrightarrow> t = s"
  by (auto simp: runLater_def)

definition runOrder :: "BackendState \<Rightarrow> BackendState \<Rightarrow> bool" where
  "runOrder s s' \<longleftrightarrow>
     (bs_killed s \<longrightarrow> bs_killed s')
     \<and> (\<forall>i r. findRun i s = Some r \<longrightarrow> (\<exists>r'. findRun i s' = Some r' \<and> runLater (rr_state r) (rr_state r')))"

lemma runOrder_same: "bs_runs s' = bs_runs s \<Longrightarrow> (bs_killed s \<longrightarrow> bs_killed s') \<Longrightarrow> runOrder s s'"
  by (auto simp: runOrder_def findRun_def)

lemma runOrder_transition: "transitionRun i to s = Inr s' \<Longrightarrow> runOrder s s'"
proof -
  assume step: "transitionRun i to s = Inr s'"
  then obtain r where r: "findRun i s = Some r" "canTransition (rr_state r) to"
    and s': "s' = s\<lparr>bs_runs := updateFirst (\<lambda>r. rr_id r = i) (rr_state_update (\<lambda>_. to)) (bs_runs s)\<rparr>"
    by (auto simp: transitionRun_def split: option.splits if_splits)
  have "findRun j s' = (if i = j then map_option (rr_state_update (\<lambda>_. to)) (findRun j s) else findRun j s)" for j
    unfolding s' findRun_def by (simp add: find_updateFirst)
  with r show ?thesis by (auto simp: runOrder_def s' canTransition_later)
qed

lemma runOrder_abortOpen: "runOrder s (abortOpenRuns s)"
proof -
  let ?g = "\<lambda>r. if rr_state r \<in> {CArmed, CActive} then r\<lparr>rr_state := CAborted\<rparr> else r"
  have "find (\<lambda>r. rr_id r = i) (map ?g rs) = map_option ?g (find (\<lambda>r. rr_id r = i) rs)" for i rs
    by (induction rs) auto
  then have found: "findRun i (abortOpenRuns s) = map_option ?g (findRun i s)" for i
    by (simp add: findRun_def abortOpenRuns_def)
  show ?thesis unfolding runOrder_def found by (auto simp: abortOpenRuns_def runLater_def)
qed

lemma runOrder_storeRun: "storeRun run intent s = Inr (r, s') \<Longrightarrow> runOrder s s'"
proof -
  have app: "find P (xs @ ys) = (case find P xs of None \<Rightarrow> find P ys | Some x \<Rightarrow> Some x)" for P and xs ys :: "RunRecord list"
    by (induction xs) auto
  assume "storeRun run intent s = Inr (r, s')"
  then show ?thesis
    by (auto simp: storeRun_def pushEvent_def runOrder_def findRun_def app split: option.splits if_splits)
qed


interpretation run_order: coordinator_order runOrder
proof unfold_locales
  show "runOrder s s" for s by (auto simp: runOrder_def)
  show "runOrder s u" if "runOrder s t" "runOrder t u" for s t u
    using that unfolding runOrder_def by (blast intro: runLater_trans)
  show "transitionRun i to s = Inr s' \<Longrightarrow> runOrder s s'" for i to s s' by (rule runOrder_transition)
qed (simp_all add: runOrder_same)

text \<open>The awaited components keep to the order: they too move runs forward and never take a kill back.\<close>

definition orderly :: "CoordEnv \<Rightarrow> bool" where
  "orderly env \<longleftrightarrow> run_order.obeys env"

lemma follows_startOrder: "orderly env \<Longrightarrow> run_order.follows (start env)"
  unfolding start_def orderly_def
  by (intro run_order.follows_rules run_order.follows_close run_order.follows_reconcilePass run_order.follows_transaction)
     (auto simp: startupVerdict_def intro: runOrder_same)

lemma follows_killAll: "orderly env \<Longrightarrow> run_order.follows (killAll env reason)"
  unfolding killAll_def orderly_def
  by (intro run_order.follows_rules run_order.follows_transaction)
     (auto simp: run_order.obeys_def engageKill_def pushEvent_def Let_def intro: runOrder_same runOrder_abortOpen)

lemma follows_armOrder: "orderly env \<Longrightarrow> run_order.follows (arm env v mode key)"
  by (rule run_order.follows_arm [OF _ runOrder_storeRun]) (simp_all add: orderly_def)

section \<open>Where the engine is asked\<close>

lemma bindS_differ:
  assumes "bindS m f s \<noteq> bindS m g s"
  obtains x t where "m s = (Inr x, t)" "f x t \<noteq> g x t"
  using assms by (auto simp: bindS_def split: prod.splits sum.splits)

lemma custodyGate_engine [simp]: "custodyGate (env\<lparr>co_execute := engine\<rparr>) = custodyGate env"
  by (intro ext) (simp add: custodyGate_def expectedCustodyPolicy_def assuranceContext_def assertWalletWatch_def)

lemma liveEvidence_engine [simp]: "liveEvidence (env\<lparr>co_execute := engine\<rparr>) = liveEvidence env"
  by (simp add: liveEvidence_def)

lemma liveGates_engine [simp]: "liveGates (env\<lparr>co_execute := engine\<rparr>) = liveGates env"
  by (intro ext) (simp add: liveGates_def refreshReadiness_def assertLiveStoreReady_def)

lemma block_engine [simp]: "raiseAdmissionBlock (env\<lparr>co_execute := engine\<rparr>) = raiseAdmissionBlock env"
  by (intro ext) (simp add: raiseAdmissionBlock_def)

lemma admitRun_engine [simp]: "admitRun (env\<lparr>co_execute := engine\<rparr>) = admitRun env"
  by (intro ext) (simp add: admitRun_def cong: if_cong)

lemma enablementGates_engine [simp]: "enablementGates (env\<lparr>co_execute := engine\<rparr>) = enablementGates env"
  by (intro ext) (simp add: enablementGates_def Let_def cong: if_cong)

lemma admitRun_Inr: "admitRun env cn input s = (Inr a, t) \<Longrightarrow> cn_admit cn input s = (Inr a, t)"
  by (auto simp: admitRun_def catchS_eq_Inr bindS_eq_Inr)

lemma differ_live:
  assumes "executeLive env run intent ws s \<noteq> executeLive (env\<lparr>co_execute := engine\<rparr>) run intent ws s"
  shows "\<exists>canonical admission s1 s2. fleetMatches ws (ir_wallets intent) \<and> co_canonical env = Some canonical
    \<and> liveGates env (ir_campaignSnapshot intent) (ir_wallets intent) s s = (Inr (), s1)
    \<and> (\<exists>ids. liveEvidence env (ir_campaignSnapshot intent) (ir_wallets intent) (ir_simulationIds intent) s1 = Inr ids)
    \<and> enablementGates env (ir_campaignSnapshot intent) s1 = Inr ()
    \<and> cn_admit canonical \<lparr>ai_run = run, ai_intent = intent, ai_campaign = ir_campaignSnapshot intent, ai_wallets = ws\<rparr> s1
        = (Inr admission, s2)
    \<and> \<not> bs_killed s2"
  using assms unfolding executeLive_def Let_def
  by (auto elim!: bindS_differ dest!: admitRun_Inr split: option.splits if_splits)

section \<open>A backend to run on\<close>

text \<open>Admission makes the run active, the abort closes what is open, and the engine submits one transaction.\<close>

definition demoTransfer :: "CampaignState \<Rightarrow> string \<Rightarrow> (BackendState, dbError, unit) eff" where
  "demoTransfer to i =
     storeTransaction (\<lambda>s. case transitionRun i to s of Inl e \<Rightarrow> Inl e | Inr s' \<Rightarrow> Inr ((), s'))"

definition demoOps :: CanonicalOps where
  "demoOps = \<lparr>cn_admit = (\<lambda>input. bindS (demoTransfer CActive (rr_id (ai_run input))) (\<lambda>_.
       returnS \<lparr>ca_reservations = [], ca_executions = [\<lparr>pe_wallet = ''0xw'', pe_intentId = ''i'', pe_executionId = ''e1''\<rparr>],
                ca_headroomNotice = False\<rparr>)),
     cn_abortRemaining = (\<lambda>_. storeTransaction (\<lambda>s. Inr ((), abortOpenRuns s))),
     cn_abortRunIfUnsent = None\<rparr>"

definition demoSubmission :: ExecutionResult where
  "demoSubmission = \<lparr>xr_executionIds = [''old''],
     xr_attempts = [\<lparr>ar_id = ''a'', ar_executionId = ''old'', ar_runId = ''run'', ar_wallet = ''0xw'', ar_hash = Some ''0xh'',
       ar_state = XSubmitted\<rparr>], xr_receipts = [], xr_state = XPending\<rparr>"

definition demoCoord :: CoordEnv where
  "demoCoord = \<lparr>co_prepare = (\<lambda>_ _ _. throwS ''unused''), co_execute = (\<lambda>_ _ _ _. returnS demoSubmission),
     co_reconcile = (\<lambda>_. returnS \<lparr>up_result = RUnknown, up_attempts = [], up_receipts = []\<rparr>), co_canonical = Some demoOps,
     co_durable = True, co_atomic = True, co_refresh = None, co_expectedCustody = None,
     co_acceptLocalCustody = False, co_assurance = NoAssurance, co_watch = Some \<lparr>ww_covers = (\<lambda>_ _. True), ww_healthy = True\<rparr>,
     co_sha256 = (\<lambda>_. ''0''), co_hashInput = (\<lambda>_ _ _ _ _ _ _. ''in''), co_hashRequest = (\<lambda>_ _ _ _. ''d''),
     co_robinhood = (\<lambda>_. None), co_base = (\<lambda>_. None), co_now = 100, co_nowText = ''1970-01-01T00:00:00.100Z'', co_freshRun = (\<lambda>_. ''run''), co_freshIntent = (\<lambda>_. ''intent''),
     co_alert = (\<lambda>_ _ _. returnS ()), co_alertsFinality = False\<rparr>"

definition demoMint :: Campaign where
  "demoMint = \<lparr>cm_id = ''k'', cm_chainId = 1, cm_contract = ''0xc'', cm_strategy = ''seadrop-v1-public'', cm_quantity = jint 1,
     cm_dryRun = False, cm_spendPolicy = \<lparr>sl_maxRunWei = 9, sl_dailyCapWei = 9, sl_gasCeilingWei = 9\<rparr>,
     cm_broadcastMode = None, cm_mintPriceWei = 0,
     cm_feePolicy = \<lparr>cf_kind = FreeKind, cf_priorityWei = 1, cf_freeCapWei = None, cf_l2BudgetWei = None, cf_l1BudgetWei = None,
       cf_totalWei = Some 3\<rparr>,
     cm_chainVerification = \<lparr>vf_chainId = 1, vf_status = ''verified'', vf_seaDropCompatible = True, vf_evidenceId = Some ''ev'',
       vf_checkedAt = Some ''1970-01-01T00:00:00.001Z'', vf_sourceBlock = Some 1, vf_endpointReference = ''rpc''\<rparr>, cm_custodyPolicy = None\<rparr>"

text \<open>Custody by a key service with an attestation, accepted chain evidence and a simulation of the wallet.\<close>

definition demoProbe :: OperationalReadiness where
  "demoProbe = \<lparr>op_secretStoreReference = Some ''s'', op_storePath = Some ''p'', op_signerReady = True,
     op_custody = Some \<lparr>ku_provider = ''kms'', ku_providerIdentity = ''id'', ku_policyReference = ''kms:p'',
       ku_policyDigest = ''0x'' @ replicate 64 CHR ''0'', ku_recordDigest = None, ku_policyStatus = ''approved'',
       ku_healthStatus = ''healthy'', ku_attestationStatus = ''verified'', ku_evidenceId = ''e'', ku_observedAt = Some 1,
       ku_expiresAt = Some 900, ku_keystoreDigest = None, ku_wallets = None, ku_confirmedBy = None, ku_chainId = None,
       ku_assuranceKind = None, ku_compensatingControls = None\<rparr>,
     op_killSwitchEngaged = False, op_notificationReady = True, op_chainVerification = ''verified'',
     op_lastReconciliationAt = Some 1, op_observedAt = Some 1, op_expiresAt = Some 900\<rparr>"

definition demoStamp :: "string \<Rightarrow> int \<Rightarrow> Stamp" where
  "demoStamp ms t = \<lparr>st_text = ''1970-01-01T00:00:00.'' @ ms @ ''Z'', st_time = Some t\<rparr>"

definition demoEvidence :: ChainEvidenceRecord where
  "demoEvidence = \<lparr>ev_id = ''ev'', ev_chainId = 1, ev_status = ''accepted'', ev_executionEnabled = True, ev_seaDropCompatible = True,
     ev_positiveLivePath = True, ev_archiveForkPassed = True, ev_negativeCases = [], ev_reconciliationPassed = True,
     ev_finalityPassed = True, ev_endpointIdentity = ''rpc'', ev_strategyVersion = ''seadrop-v1-public'',
     ev_checkedAt = demoStamp ''001'' 1, ev_expiresAt = demoStamp ''900'' 900, ev_sourceBlock = 1, ev_sourceBlockHash = ''0xb'',
     ev_acceptedAt = Some ''a'', ev_acceptedBy = Some ''owner'', ev_approvalProof = Some ''proof''\<rparr>"

definition demoSimulation :: SimulationEvidenceRecord where
  "demoSimulation = \<lparr>sm_id = ''sim'', sm_campaignId = ''k'', sm_wallet = ''0xw'', sm_inputDigest = ''in'', sm_success = True,
     sm_sourceBlock = 2, sm_sourceBlockHash = ''0xb2'', sm_checkedAt = demoStamp ''002'' 2, sm_expiresAt = demoStamp ''800'' 800,
     sm_worstCaseFeeWei = 5\<rparr>"

definition demoRun :: "CampaignState \<Rightarrow> RunRecord" where
  "demoRun st = \<lparr>rr_id = ''run'', rr_intentId = ''intent'', rr_campaignId = ''k'', rr_mode = Live, rr_requestDigest = ''d'',
     rr_state = st, rr_idempotencyKey = None\<rparr>"

definition demoBackend :: "CampaignState \<Rightarrow> BackendState" where
  "demoBackend st = \<lparr>bs_campaigns = [demoMint], bs_runs = [demoRun st],
     bs_intents = [\<lparr>ir_id = ''intent'', ir_runId = ''run'', ir_campaignId = ''k'', ir_campaignSnapshot = demoMint,
       ir_wallets = [''0xw''], ir_simulationIds = [''sim'']\<rparr>],
     bs_attempts = [], bs_receipts = [], bs_reconciliations = [], bs_reservations = [], bs_events = [],
     bs_chainEvidence = [demoEvidence], bs_simulations = [demoSimulation], bs_jobs = [],
     bs_runtime = \<lparr>rt_startupState = SReady, rt_blockingReasons = [], rt_engine = True, rt_chain = True, rt_backup = True,
       rt_notifications = True, rt_operational = Some demoProbe, rt_chainTimeOffsetMs = None, rt_chainTimeObserved = False\<rparr>, bs_killed = False, bs_killReason = None\<rparr>"

lemma demo_orderly: "orderly demoCoord"
proof -
  have move: "run_order.follows (demoTransfer to i)" for to i
    unfolding demoTransfer_def by (rule run_order.follows_transaction) (auto split: sum.splits intro: runOrder_transition)
  have abort: "run_order.follows (storeTransaction (\<lambda>s. Inr ((), abortOpenRuns s)))"
    by (rule run_order.follows_transaction) (auto intro: runOrder_abortOpen)
  show ?thesis
    using move abort by (auto simp: orderly_def run_order.obeys_def demoCoord_def demoOps_def intro: run_order.follows_rules)
qed

section \<open>Properties\<close>

text \<open>
  C18. Runs move only forward. Starting, arming, executing, reconciling and killing never take a kill
  back, never lose a run, and move every run only along the state machine of the source: from armed
  to active, then completed, failed or aborted, and from completed only to failed; so an aborted
  or failed run stays as it is. This holds whatever the awaited components do, as long as they too
  move runs only this way.
\<close>

theorem runs_follow_machine:
  assumes "orderly env"
    and "s' \<in> {snd (start env s), snd (arm env v mode key s), snd (executeRun env i ws s),
           snd (reconcilePass env s), snd (killAll env reason s)}"
  shows "(bs_killed s \<longrightarrow> bs_killed s')
    \<and> (\<forall>j r. findRun j s = Some r \<longrightarrow> (\<exists>r'. findRun j s' = Some r'
         \<and> canTransition\<^sup>*\<^sup>* (rr_state r) (rr_state r')
         \<and> (rr_state r \<in> {CAborted, CFailed} \<longrightarrow> rr_state r' = rr_state r)))"
proof -
  note ops = follows_startOrder follows_armOrder follows_killAll
    run_order.follows_executeRun run_order.follows_reconcilePass
  have "runOrder s s'" using assms(2) ops(1-3) [OF assms(1)] ops(4,5) [OF assms(1) [unfolded orderly_def]]
    by (auto simp: run_order.follows_def)
  then show ?thesis unfolding runOrder_def runLater_iff [symmetric] using runLater_stuck by blast
qed

theorem runs_follow_machine_witness:
  "map rr_state (bs_runs (snd (executeRun demoCoord ''run'' [''0xw''] (demoBackend CArmed)))) = [CActive]
   \<and> (\<exists>r'. findRun ''run'' (snd (executeRun demoCoord ''run'' [''0xw''] (demoBackend CArmed))) = Some r'
          \<and> canTransition\<^sup>*\<^sup>* CArmed (rr_state r'))"
proof
  show "map rr_state (bs_runs (snd (executeRun demoCoord ''run'' [''0xw''] (demoBackend CArmed)))) = [CActive]" by code_simp
  have run: "findRun ''run'' (demoBackend CArmed) = Some (demoRun CArmed)" by code_simp
  have "\<forall>j r. findRun j (demoBackend CArmed) = Some r \<longrightarrow>
      (\<exists>r'. findRun j (snd (executeRun demoCoord ''run'' [''0xw''] (demoBackend CArmed))) = Some r'
        \<and> canTransition\<^sup>*\<^sup>* (rr_state r) (rr_state r'))"
    using runs_follow_machine [OF demo_orderly, of "snd (executeRun demoCoord ''run'' [''0xw''] (demoBackend CArmed))"]
    by blast
  from this [rule_format, OF run] show "\<exists>r'. findRun ''run'' (snd (executeRun demoCoord ''run'' [''0xw''] (demoBackend CArmed))) = Some r'
          \<and> canTransition\<^sup>*\<^sup>* CArmed (rr_state r')"
    by (simp add: demoRun_def)
qed

text \<open>
  C12. The engine is asked only after an accepted admission. If replacing the engine changes the
  outcome of executing a run, then the run was armed, live and never executed before, the kill was
  not set, the fleet was the armed one, every live gate had passed, chain evidence and the simulation of
  every wallet were accepted, and the canonical store had accepted its admission with no
  kill set afterwards. In every other case the engine plays no part in the outcome.
\<close>

theorem engine_runs_only_after_admission:
  assumes "executeRun env i ws s \<noteq> executeRun (env\<lparr>co_execute := engine\<rparr>) i ws s"
  shows "\<exists>run intent canonical admission s1 s2.
    findRun i s = Some run \<and> rr_state run = CArmed \<and> rr_mode run = Live \<and> \<not> bs_killed s
    \<and> (\<forall>a \<in> set (bs_attempts s). ar_runId a \<noteq> i)
    \<and> find (\<lambda>x. ir_id x = rr_intentId run) (bs_intents s) = Some intent \<and> fleetMatches ws (ir_wallets intent)
    \<and> co_canonical env = Some canonical
    \<and> liveGates env (ir_campaignSnapshot intent) (ir_wallets intent) s s = (Inr (), s1)
    \<and> (\<exists>ids. liveEvidence env (ir_campaignSnapshot intent) (ir_wallets intent) (ir_simulationIds intent) s1 = Inr ids)
    \<and> enablementGates env (ir_campaignSnapshot intent) s1 = Inr ()
    \<and> cn_admit canonical \<lparr>ai_run = run, ai_intent = intent, ai_campaign = ir_campaignSnapshot intent, ai_wallets = ws\<rparr> s1
        = (Inr admission, s2)
    \<and> \<not> bs_killed s2"
proof -
  let ?env = "env\<lparr>co_execute := engine\<rparr>"
  from assms obtain run where run: "\<not> bs_killed s" "findRun i s = Some run"
    by (auto simp: executeRun_def bindS_def split: option.splits if_splits)
  from assms run have fresh: "\<forall>a \<in> set (bs_attempts s). ar_runId a \<noteq> i" and armed: "rr_state run = CArmed"
    by (auto simp: executeRun_def bindS_def list_ex_iff split: if_splits)
  from assms run fresh armed obtain intent where
    intent: "find (\<lambda>x. ir_id x = rr_intentId run) (bs_intents s) = Some intent" and live: "rr_mode run = Live"
    and differ: "executeLive env run intent ws s \<noteq> executeLive ?env run intent ws s"
    by (auto simp: executeRun_def bindS_def executeDryRun_def list_ex_iff split: option.splits if_splits
        intro: RunMode.exhaust)
  from differ_live [OF differ] run fresh armed intent live show ?thesis by blast
qed


theorem engine_runs_only_after_admission_witness:
  "executeRun demoCoord ''run'' [''0xw''] (demoBackend CArmed)
     \<noteq> executeRun (demoCoord\<lparr>co_execute := \<lambda>_ _ _ _. throwS ''down''\<rparr>) ''run'' [''0xw''] (demoBackend CArmed)
   \<and> (\<exists>run. findRun ''run'' (demoBackend CArmed) = Some run \<and> rr_state run = CArmed \<and> rr_mode run = Live)"
proof -
  have one: "is_ok (fst (executeRun demoCoord ''run'' [''0xw''] (demoBackend CArmed)))" by code_simp
  have two: "\<not> is_ok (fst (executeRun (demoCoord\<lparr>co_execute := \<lambda>_ _ _ _. throwS ''down''\<rparr>) ''run'' [''0xw''] (demoBackend CArmed)))"
    by code_simp
  have differ: "executeRun demoCoord ''run'' [''0xw''] (demoBackend CArmed)
     \<noteq> executeRun (demoCoord\<lparr>co_execute := \<lambda>_ _ _ _. throwS ''down''\<rparr>) ''run'' [''0xw''] (demoBackend CArmed)"
    using one two by (auto simp del: is_ok_iff)
  from engine_runs_only_after_admission [OF differ] show ?thesis using differ by blast
qed

end
