(* ===== verification/CoordinatorFacts.thy ===== *)
theory CoordinatorFacts
  imports CoordinatorSafety
begin

text \<open>
  What the coordinator records: money moves only on a final receipt, a start reports ready only
  when nothing is open, and what happens to the facts of a run that a kill has aborted meanwhile.
\<close>

section \<open>Accounting\<close>

lemma setReservation_cases:
  assumes "setReservation st actual r = Inr r'"
  obtains "rs_status r = BSettled" "r' = r"
  | "rs_status r \<noteq> BSettled" "rs_status r \<noteq> BReleased" "rs_status r' = st"
    "r' = r\<lparr>rs_status := st, rs_actualWei := rs_actualWei r'\<rparr>"
    "rs_actualWei r' = (case actual of None \<Rightarrow> rs_actualWei r | Some n \<Rightarrow> Some n)"
    "\<And>n. actual = Some n \<Longrightarrow> 0 \<le> n \<and> n \<le> rs_amountWei r"
  using assms by (auto simp: setReservation_def split: if_splits option.splits)

lemma confirmedReceipt_Some:
  assumes "confirmedReceipt k mine rs = Some x"
  shows "x \<in> set rs \<and> bc_state x = XConfirmed \<and> receiptAuthorizesSettlement k x
    \<and> (\<exists>a\<in>set mine. ar_executionId a = bc_executionId x)"
  using assms by (force simp: confirmedReceipt_def Option.bind_eq_Some_conv dest!: find_Some_in)

lemma failedReceipt_Some:
  assumes "failedReceipt k mine rs = Some x"
  shows "x \<in> set rs \<and> bc_state x = XFailed \<and> receiptAuthorizesSettlement k x
    \<and> (\<exists>a\<in>set mine. ar_executionId a = bc_executionId x)"
  using assms by (auto simp: failedReceipt_def list_ex_iff dest!: find_Some_in)

lemma reorgReceipt_Some:
  assumes "reorgReceipt mine rs = Some x"
  shows "x \<in> set rs \<and> bc_state x = XReorged \<and> (\<exists>a\<in>set mine. ar_executionId a = bc_executionId x)"
  using assms by (auto simp: reorgReceipt_def list_ex_iff dest!: find_Some_in)

text \<open>Why a reservation of the run may take its new status.\<close>

definition justified :: "int \<Rightarrow> AttemptRecord list \<Rightarrow> BackendReceipt list \<Rightarrow> Reservation \<Rightarrow> BackendStatus \<Rightarrow> bool" where
  "justified k attempts receipts r status \<longleftrightarrow>
     (let mine = walletAttemptsOf attempts r;
          own = (\<lambda>x. x \<in> set receipts \<and> (\<exists>a\<in>set mine. ar_executionId a = bc_executionId x))
      in case status of
           BReserved \<Rightarrow> False
         | BSettled \<Rightarrow> \<exists>x. own x \<and> receiptAuthorizesSettlement k x
         | BReorged \<Rightarrow> \<exists>x. own x \<and> bc_state x = XReorged
         | BReleased \<Rightarrow> mine \<noteq> [] \<and> (\<forall>a\<in>set mine. ar_state a = XFailed \<and> \<not> truthy (ar_hash a)))"

definition moved :: "(BackendStatus \<Rightarrow> bool) \<Rightarrow> Reservation \<Rightarrow> Reservation \<Rightarrow> bool" where
  "moved why r r' \<longleftrightarrow>
     rs_status r \<in> {BReserved, BReorged} \<and> why (rs_status r')
     \<and> r' = r\<lparr>rs_status := rs_status r', rs_actualWei := rs_actualWei r'\<rparr>
     \<and> (\<forall>n. rs_actualWei r' = Some n \<longrightarrow> rs_actualWei r = Some n \<or> 0 \<le> n \<and> n \<le> rs_amountWei r)"

lemma setReservation_moved:
  assumes "setReservation st actual r = Inr r'" and "why st"
  shows "r' = r \<or> moved why r r'"
  using assms(1)
proof (cases rule: setReservation_cases)
  case 2
  have "rs_status r \<in> {BReserved, BReorged}" using 2(1,2) by (cases "rs_status r") simp_all
  moreover have "rs_actualWei r' = Some n \<Longrightarrow> rs_actualWei r = Some n \<or> 0 \<le> n \<and> n \<le> rs_amountWei r" for n
    using 2(5,6) by (cases actual) simp_all
  moreover have "r' = r\<lparr>rs_status := rs_status r', rs_actualWei := rs_actualWei r'\<rparr>" using 2(3,4) by simp
  ultimately show ?thesis using 2(3) assms(2) unfolding moved_def by blast
qed simp

lemma accountReservation_moved:
  assumes "accountReservation k attempts receipts r = Inr r'"
  shows "r' = r \<or> moved (justified k attempts receipts r) r r'"
proof -
  let ?mine = "walletAttemptsOf attempts r"
  consider (ok) x where "confirmedReceipt k ?mine receipts = Some x"
  | (failed) x where "confirmedReceipt k ?mine receipts = None" "failedReceipt k ?mine receipts = Some x"
  | (reorg) x where "confirmedReceipt k ?mine receipts = None" "failedReceipt k ?mine receipts = None"
      "reorgReceipt ?mine receipts = Some x"
  | (none) "confirmedReceipt k ?mine receipts = None" "failedReceipt k ?mine receipts = None"
      "reorgReceipt ?mine receipts = None" by (meson option.exhaust)
  then show ?thesis
  proof cases
    case ok
    with assms have "setReservation BSettled (bc_actualSpendWei x) r = Inr r'" by (simp add: accountReservation_def)
    moreover have "justified k attempts receipts r BSettled"
      using confirmedReceipt_Some [OF ok] by (auto simp: justified_def Let_def)
    ultimately show ?thesis by (rule setReservation_moved)
  next
    case failed
    with assms have "setReservation BSettled (bc_actualSpendWei x) r = Inr r'" by (simp add: accountReservation_def)
    moreover have "justified k attempts receipts r BSettled"
      using failedReceipt_Some [OF failed(2)] by (auto simp: justified_def Let_def)
    ultimately show ?thesis by (rule setReservation_moved)
  next
    case reorg
    with assms have "setReservation BReorged (bc_actualSpendWei x) r = Inr r'" by (simp add: accountReservation_def)
    moreover have "justified k attempts receipts r BReorged"
      using reorgReceipt_Some [OF reorg(3)] by (auto simp: justified_def Let_def)
    ultimately show ?thesis by (rule setReservation_moved)
  next
    case none
    show ?thesis
    proof (cases "?mine \<noteq> [] \<and> list_all (\<lambda>a. ar_state a = XFailed \<and> \<not> truthy (ar_hash a)) ?mine")
      case True
      with none assms have "setReservation BReleased None r = Inr r'"
        unfolding accountReservation_def Let_def by (simp only: option.case prod.case if_True simp_thms)
      moreover have "justified k attempts receipts r BReleased" using True by (auto simp: justified_def list_all_iff)
      ultimately show ?thesis by (rule setReservation_moved)
    next
      case False
      with none assms have "r' = r"
        unfolding accountReservation_def Let_def by (simp only: option.case prod.case if_False simp_thms sum.inject)
      then show ?thesis by simp
    qed
  qed
qed

text \<open>
  C19. Money moves only on final evidence. Recording the facts of a run changes no other part of the
  state and no reservation of another run; a reservation of the run is settled only with a confirmed
  or failed receipt of the final stage of its chain for a transaction of its own wallet, marked
  reorged only with a reorged receipt of it, and released only when every attempt of its wallet
  failed without a hash. A new actual amount lies between zero and the reserved amount, and a
  settled or released reservation never changes again.
\<close>

theorem accounting_needs_final_receipt:
  assumes "applyAccountingToState k i attempts receipts s = Inr s'"
  shows "s' = s\<lparr>bs_reservations := bs_reservations s'\<rparr>
    \<and> list_all2 (\<lambda>r r'. r' = r \<or> rs_runId r = i \<and> moved (justified k attempts receipts r) r r')
        (bs_reservations s) (bs_reservations s')"
proof -
  from assms obtain rs where rs: "mapR (\<lambda>r. if rs_runId r = i \<and> rs_status r \<noteq> BReleased
      then accountReservation k attempts receipts r else Inr r) (bs_reservations s) = Inr rs"
    and s': "s' = s\<lparr>bs_reservations := rs\<rparr>"
    by (auto simp: applyAccountingToState_def bindR_eq_Inr)
  have "list_all2 (\<lambda>r r'. r' = r \<or> rs_runId r = i \<and> moved (justified k attempts receipts r) r r')
      (bs_reservations s) rs"
    using rs unfolding mapR_eq_Inr by (rule list_all2_mono) (auto split: if_splits dest: accountReservation_moved)
  with s' show ?thesis by simp
qed


definition demoHeld :: Reservation where
  "demoHeld = \<lparr>rs_id = ''r1'', rs_runId = ''run'', rs_campaignId = ''k'', rs_chainId = Some 1, rs_wallet = ''0xW'',
     rs_amountWei = 10, rs_actualWei = None, rs_accountingDate = ''d'', rs_status = BReserved\<rparr>"

definition demoPaid :: "string \<Rightarrow> BackendReceipt" where
  "demoPaid e = \<lparr>bc_id = ''p'', bc_executionId = e, bc_runId = ''run'', bc_attemptId = Some ''a'', bc_state = XConfirmed,
     bc_finalityStage = None, bc_robinhoodFinality = None, bc_blockNumber = Some 5, bc_blockHash = Some ''0xb'',
     bc_actualSpendWei = Some 7\<rparr>"

definition demoSent :: "ExecutionState \<Rightarrow> AttemptRecord" where
  "demoSent st = \<lparr>ar_id = ''a'', ar_executionId = ''e1'', ar_runId = ''run'', ar_wallet = ''0xw'', ar_hash = Some ''0xh'',
     ar_state = st\<rparr>"

definition demoAccounted :: BackendState where
  "demoAccounted = (demoBackend CActive)\<lparr>bs_reservations := [demoHeld\<lparr>rs_status := BSettled, rs_actualWei := Some 7\<rparr>]\<rparr>"

theorem accounting_needs_final_receipt_witness:
  "moved (justified 1 [demoSent XConfirmed] [demoPaid ''e1''] demoHeld) demoHeld
     (demoHeld\<lparr>rs_status := BSettled, rs_actualWei := Some 7\<rparr>)"
proof -
  have "applyAccountingToState 1 ''run'' [demoSent XConfirmed] [demoPaid ''e1'']
      ((demoBackend CActive)\<lparr>bs_reservations := [demoHeld]\<rparr>) = Inr demoAccounted" by code_simp
  from accounting_needs_final_receipt [OF this] show ?thesis
    by (simp add: demoAccounted_def demoHeld_def)
qed

section \<open>Starting up\<close>

definition notReady :: "BackendState \<Rightarrow> bool" where
  "notReady s \<longleftrightarrow> rt_startupState (bs_runtime s) \<noteq> SReady"

lemma notReady_transition: "transitionRun i to s = Inr s' \<Longrightarrow> notReady s' = notReady s"
  by (auto simp: transitionRun_def notReady_def split: option.splits if_splits)

definition staysUnready :: "BackendState \<Rightarrow> BackendState \<Rightarrow> bool" where
  "staysUnready s s' \<longleftrightarrow> (notReady s \<longrightarrow> notReady s')"

lemma staysUnready_same: "bs_runtime s' = bs_runtime s \<Longrightarrow> staysUnready s s'"
  by (simp add: staysUnready_def notReady_def)

interpretation ready_order: coordinator_order staysUnready
proof unfold_locales
  show "staysUnready s u" if "staysUnready s t" "staysUnready t u" for s t u
    using that by (simp add: staysUnready_def)
  show "transitionRun i to s = Inr s' \<Longrightarrow> staysUnready s s'" for i to s s'
    by (simp add: staysUnready_def notReady_transition)
qed (simp_all add: staysUnready_same)

text \<open>The components a start waits for do not report ready themselves.\<close>

definition steady :: "CoordEnv \<Rightarrow> bool" where
  "steady env \<longleftrightarrow> ready_order.obeys env"

definition beforeVerdict :: "CoordEnv \<Rightarrow> (BackendState, dbError, unit) eff" where
  "beforeVerdict env =
     bindS (getS (\<lambda>s. map rr_id (filter liveRequestRun (bs_runs s)))) (\<lambda>ids.
     bindS (forEachS ids (\<lambda>i. bindS (closeUnsentRun env i ''STARTUP_UNSENT_LIVE_REQUEST'') (\<lambda>_. returnS ()))) (\<lambda>_.
     reconcilePass env))"

lemma notReady_beforeVerdict: "steady env \<Longrightarrow> ready_order.follows (beforeVerdict env)"
  unfolding beforeVerdict_def steady_def
  by (intro ready_order.follows_rules ready_order.follows_close ready_order.follows_reconcilePass)

definition reconciling :: "BackendState \<Rightarrow> BackendState" where
  "reconciling s = s\<lparr>bs_runtime := (bs_runtime s)\<lparr>rt_startupState := SReconciling,
     rt_blockingReasons := [''RECONCILIATION_IN_PROGRESS'']\<rparr>\<rparr>"

lemma bindS_assoc: "bindS (bindS m f) g = bindS m (\<lambda>x. bindS (f x) g)"
  by (rule ext) (auto simp: bindS_def split: prod.splits sum.splits)

lemma start_split:
  "start env s = bindS (beforeVerdict env) (\<lambda>_. storeTransaction (\<lambda>s. Inr ((), startupVerdict s))) (reconciling s)"
  by (simp add: start_def beforeVerdict_def bindS_assoc bindS_def [of "storeTransaction _"] storeTransaction_def reconciling_def
      split: prod.split sum.split)

text \<open>
  C20. A start reports ready exactly when it ran to its end and no run is open: every armed or active
  run, and every aborted run with a submitted transaction, has as its latest reconciliation a final
  or failed one, or a confirmed one for a campaign of Ethereum. If it throws, or any such run is
  unresolved, live arming and executing stay refused.
\<close>

theorem startup_ready_means_resolved:
  assumes "steady env" and "start env s = (r, s')"
  shows "rt_startupState (bs_runtime s') = SReady \<longleftrightarrow>
    r = Inr () \<and> (\<forall>run\<in>set (bs_runs s'). rr_state run \<in> {CArmed, CActive} \<or> (rr_state run = CAborted \<and> hasSubmitted s' run) \<longrightarrow>
      latestResult (rr_id run) s' \<in> {Some RFailed, Some RFinal}
      \<or> (latestResult (rr_id run) s' = Some RConfirmed
         \<and> map_option cm_chainId (find (\<lambda>c. cm_id c = rr_campaignId run) (bs_campaigns s')) = Some 1))"
proof -
  obtain q u where q: "beforeVerdict env (reconciling s) = (q, u)" by fastforce
  have u: "notReady u"
    using ready_order.followsD [OF notReady_beforeVerdict [OF assms(1)] q] by (simp add: staysUnready_def notReady_def reconciling_def)
  show ?thesis
  proof (cases q)
    case (Inl e)
    with q assms(2) have "r = Inl e \<and> s' = u" by (simp add: start_split bindS_def)
    with u show ?thesis by (simp add: notReady_def)
  next
    case (Inr x)
    with q assms(2) have "r = Inr () \<and> s' = startupVerdict u"
      by (simp add: start_split bindS_def storeTransaction_def)
    then show ?thesis
      by (auto simp: startupVerdict_def list_ex_iff unresolved_def hasSubmitted_def latestResult_def Let_def)
  qed
qed


lemma demo_steady: "steady demoCoord"
proof -
  have move: "ready_order.follows (demoTransfer to i)" for to i
    unfolding demoTransfer_def
    by (rule ready_order.follows_transaction) (auto split: sum.splits simp: staysUnready_def notReady_transition)
  have abort: "ready_order.follows (storeTransaction (\<lambda>s. Inr ((), abortOpenRuns s)))"
    by (rule ready_order.follows_transaction) (auto simp: staysUnready_same abortOpenRuns_def)
  show ?thesis
    using move abort by (auto simp: steady_def ready_order.obeys_def demoCoord_def demoOps_def intro: ready_order.follows_rules)
qed

theorem startup_ready_means_resolved_witness:
  "rt_startupState (bs_runtime (snd (start demoCoord (demoBackend CCompleted)))) = SReady
   \<and> fst (start demoCoord (demoBackend CCompleted)) = Inr ()
   \<and> rt_startupState (bs_runtime (snd (start demoCoord (demoBackend CArmed)))) \<noteq> SReady"
proof -
  note ready = startup_ready_means_resolved [OF demo_steady prod.collapse [symmetric]]
  have fin: "rt_startupState (bs_runtime (snd (start demoCoord (demoBackend CCompleted)))) = SReady" by code_simp
  have still: "\<exists>run\<in>set (bs_runs (snd (start demoCoord (demoBackend CArmed)))). rr_state run = CArmed
     \<and> latestResult (rr_id run) (snd (start demoCoord (demoBackend CArmed))) = Some RUnknown" by code_simp
  show ?thesis
  proof (intro conjI)
    show "fst (start demoCoord (demoBackend CCompleted)) = Inr ()" using ready fin by blast
    show "rt_startupState (bs_runtime (snd (start demoCoord (demoBackend CArmed)))) \<noteq> SReady"
      using ready [of "demoBackend CArmed"] still by fastforce
  qed (rule fin)
qed

section \<open>A kill during execution\<close>

text \<open>
  C28. When the kill has aborted the run while the engine was at work, and the engine then reports the
  fleet as failed (or, on Ethereum, as confirmed), recording the result is refused as an invalid
  transition: nothing of the engine's attempts, receipts and accounting is recorded by the
  coordinator, and the caller gets this error.
\<close>

theorem aborted_run_loses_facts:
  assumes "rebindExecutionResult engineResult prepared = Inr result"
    and "assertEngineFacts i (cm_chainId campaign) (xr_executionIds result) (xr_attempts result) (xr_receipts result) False = Inr ()"
    and "findRun i s = Some run" and "rr_state run = CAborted"
    and "xr_state result = XFailed \<or> (xr_state result = XConfirmed \<and> cm_chainId campaign = 1)"
  shows "finishExecution env canonical i campaign prepared engineResult s = (Inl ''INVALID_RUN_TRANSITION'', s)"
proof -
  have "findRun i (storeFacts i result s) = Some run" using assms(3) by (simp add: storeFacts_def pushEvent_def findRun_def)
  with assms(4,5) have "resultTransition (cm_chainId campaign) i (xr_state result) (bs_killed s) (storeFacts i result s)
      = Inl ''INVALID_RUN_TRANSITION''"
    by (auto simp: resultTransition_def transitionRun_def canTransition_def allowedTransitions_def)
  then have "recordFacts (cm_chainId campaign) i result (bs_killed s) s = Inl ''INVALID_RUN_TRANSITION''"
    by (simp add: recordFacts_def)
  then show ?thesis
    using assms(1,2) by (simp add: finishExecution_def bindS_def storeTransaction_def)
qed

definition demoFailure :: ExecutionResult where
  "demoFailure = \<lparr>xr_executionIds = [''old''],
     xr_attempts = [(demoSent XFailed)\<lparr>ar_executionId := ''old''\<rparr>], xr_receipts = [], xr_state = XFailed\<rparr>"

definition demoPrepared :: PreparedExecution where
  "demoPrepared = \<lparr>pe_wallet = ''0xw'', pe_intentId = ''i'', pe_executionId = ''e1''\<rparr>"

definition demoRebound :: ExecutionResult where
  "demoRebound = demoFailure\<lparr>xr_executionIds := [''e1''], xr_attempts := [demoSent XFailed]\<rparr>"

theorem aborted_run_loses_facts_witness:
  "finishExecution demoCoord demoOps ''run'' demoMint [demoPrepared] demoFailure ((demoBackend CAborted)\<lparr>bs_killed := True\<rparr>)
   = (Inl ''INVALID_RUN_TRANSITION'', (demoBackend CAborted)\<lparr>bs_killed := True\<rparr>)"
proof (rule aborted_run_loses_facts)
  show "rebindExecutionResult demoFailure [demoPrepared] = Inr demoRebound" by code_simp
  show "assertEngineFacts ''run'' (cm_chainId demoMint) (xr_executionIds demoRebound) (xr_attempts demoRebound)
      (xr_receipts demoRebound) False = Inr ()" by code_simp
  show "findRun ''run'' ((demoBackend CAborted)\<lparr>bs_killed := True\<rparr>) = Some (demoRun CAborted)" by code_simp
  show "rr_state (demoRun CAborted) = CAborted" by code_simp
  show "xr_state demoRebound = XFailed \<or> (xr_state demoRebound = XConfirmed \<and> cm_chainId demoMint = 1)" by code_simp
qed


section \<open>What a live arm rests on\<close>

lemma liveGates_Inr:
  assumes "liveGates env campaign wallets s s = (Inr (), s1)"
  shows "rt_startupState (bs_runtime s) = SReady \<and> co_durable env \<and> co_atomic env \<and> \<not> bs_killed s1
    \<and> custodyGate env campaign wallets s1 = Inr ()"
proof (cases "co_refresh env")
  case None
  with assms show ?thesis
    by (auto simp: liveGates_def refreshReadiness_def runtimeReady_def assertLiveStoreReady_def bindS_def bindR_eq_Inr
        Let_def split: sum.splits if_splits)
next
  case (Some refresh)
  with assms show ?thesis
    by (auto simp: liveGates_def refreshReadiness_def runtimeReady_def assertLiveStoreReady_def bindS_eq_Inr bindR_eq_Inr
        catchS_eq_Inr Let_def split: if_splits)
qed

lemma custodyGate_Inr:
  assumes "custodyGate env campaign wallets s = Inr ()"
  shows "(\<exists>r. rt_operational (bs_runtime s) = Some r \<and> soundProbe (co_now env) r)
    \<and> (\<forall>w. co_watch env = Some w \<longrightarrow> ww_covers w (cm_chainId campaign) wallets \<and> ww_healthy w)"
proof -
  from assms obtain expected compensating where
    "assertLiveOperationalReadiness (co_sha256 env) (rt_operational (bs_runtime s)) (co_now env) expected
       (if co_acceptLocalCustody env then Some \<lparr>pl_chainId = cm_chainId campaign, pl_wallets = wallets\<rparr> else None)
       compensating = Inr ()" and watch: "assertWalletWatch env (cm_chainId campaign) wallets = Inr ()"
    by (auto simp: custodyGate_def bindR_eq_Inr)
  with operational_sound show ?thesis by (auto simp: assertWalletWatch_def bindR_eq_Inr)
qed

lemma arm_live_Inr:
  assumes "arm env v Live key s = (Inr run, s')"
  obtains campaign s1 ids where
    "find (\<lambda>c. cm_id c = vc_campaignId v) (bs_campaigns s) = Some campaign" "\<not> cm_dryRun campaign"
    "liveGates env campaign (listOr (vc_wallets v)) s s = (Inr (), s1)"
    "liveEvidence env campaign (listOr (vc_wallets v)) (listOr (vc_simulationIds v)) s1 = Inr ids"
    "chainGates env campaign (listOr (vc_wallets v)) s1 = Inr ()"
proof -
  have "find (\<lambda>c. cm_id c = vc_campaignId v) (bs_campaigns s) \<noteq> None"
  proof
    assume "find (\<lambda>c. cm_id c = vc_campaignId v) (bs_campaigns s) = None"
    with assms show False by (simp add: arm_def)
  qed
  then obtain campaign where c: "find (\<lambda>c. cm_id c = vc_campaignId v) (bs_campaigns s) = Some campaign" by blast
  with assms obtain ids s1 where dry: "\<not> cm_dryRun campaign"
    and checks: "liveChecks env campaign (listOr (vc_wallets v)) (listOr (vc_simulationIds v)) s s = (Inr ids, s1)"
    by (auto simp: arm_def c Let_def bindS_eq_Inr split: if_splits)
  from checks show thesis
    by (auto simp: liveChecks_def bindS_eq_Inr intro: that [OF c dry])
qed



section \<open>Evidence on a backend\<close>

definition demoPending :: ChainEvidenceRecord where
  "demoPending = demoEvidence\<lparr>ev_id := ''ev2'', ev_status := ''pending'', ev_executionEnabled := False\<rparr>"

definition demoApproval :: EvidenceApproval where
  "demoApproval = \<lparr>ea_verifierId = ''owner'', ea_proof = ''proof'', ea_acceptedAt = ''a''\<rparr>"

theorem evidence_needs_authority_witness:
  "map ev_executionEnabled (bs_chainEvidence (snd (acceptChainEvidence (Some (\<lambda>_ _. True)) ''ev2'' demoApproval
       ((demoBackend CArmed)\<lparr>bs_chainEvidence := [demoEvidence, demoPending]\<rparr>)))) = [False, True]
   \<and> evidenceOk (\<lambda>_ _. True) {demoEvidence, demoPending} (snd (acceptChainEvidence (Some (\<lambda>_ _. True)) ''ev2'' demoApproval
       ((demoBackend CArmed)\<lparr>bs_chainEvidence := [demoEvidence, demoPending]\<rparr>)))"
proof -
  let ?s = "(demoBackend CArmed)\<lparr>bs_chainEvidence := [demoEvidence, demoPending]\<rparr>"
  have "evidenceStep (\<lambda>_ _. True) ?s (snd (acceptChainEvidence (Some (\<lambda>_ _. True)) ''ev2'' demoApproval ?s))"
    by (rule acceptStep) (rule prod.collapse [symmetric])
  then have step: "(evidenceStep (\<lambda>_ _. True))\<^sup>*\<^sup>* ?s (snd (acceptChainEvidence (Some (\<lambda>_ _. True)) ''ev2'' demoApproval ?s))"
    by (rule r_into_rtranclp)
  have "distinct (map ev_id (bs_chainEvidence ?s))" "soleEthereum (set (bs_chainEvidence ?s))"
    by (simp_all add: demoPending_def demoEvidence_def soleEthereum_def opensEthereum_def)
  from evidence_needs_authority [OF step this]
  have "evidenceOk (\<lambda>_ _. True) {demoEvidence, demoPending} (snd (acceptChainEvidence (Some (\<lambda>_ _. True)) ''ev2'' demoApproval ?s))"
    by simp
  moreover have "map ev_executionEnabled (bs_chainEvidence (snd (acceptChainEvidence (Some (\<lambda>_ _. True)) ''ev2'' demoApproval ?s)))
      = [False, True]" by code_simp
  ultimately show ?thesis by blast
qed

end
