(* ===== verification/ApplicationFacts.thy ===== *)
theory ApplicationFacts
  imports Application CoordinatorFacts
begin

text \<open>
  What the commands of the operator guarantee: a live arm rests on an approval of the very same
  request, a campaign is only created within its limits, and a repeated run command is answered from
  the record of the first one, without executing again.
\<close>

section \<open>Approvals\<close>

lemma arm_live_digest:
  assumes "arm env v Live key s = (Inr run, s')"
  shows "\<exists>campaign. findCampaign (vc_campaignId v) s = Some campaign
    \<and> rr_requestDigest run = liveRequestDigest (co_hashInput env) (co_hashRequest env) campaign Live (listOr (vc_wallets v))
          (listOr (vc_simulationIds v))"
proof -
  from assms obtain campaign s1 ids where c: "find (\<lambda>c. cm_id c = vc_campaignId v) (bs_campaigns s) = Some campaign"
      and dry: "\<not> cm_dryRun campaign"
      and gates: "liveGates env campaign (listOr (vc_wallets v)) s s = (Inr (), s1)"
      and evidence: "liveEvidence env campaign (listOr (vc_wallets v)) (listOr (vc_simulationIds v)) s1 = Inr ids"
      and chain: "chainGates env campaign (listOr (vc_wallets v)) s1 = Inr ()" by (rule arm_live_Inr)
  have ids: "ids = listOr (vc_simulationIds v)"
    using assertLiveEvidence_Inr [OF evidence [unfolded liveEvidence_def]] by blast
  have checks: "liveChecks env campaign (listOr (vc_wallets v)) (listOr (vc_simulationIds v)) s s = (Inr ids, s1)"
    by (simp add: liveChecks_def bindS_def gates evidence chain)
  have "rr_requestDigest run = liveRequestDigest (co_hashInput env) (co_hashRequest env) campaign Live (listOr (vc_wallets v)) ids"
    using assms checks
    by (auto simp: arm_def c Let_def bindS_eq_Inr storeTransaction_Inr storeRun_def split: option.splits if_splits)
  with c ids show ?thesis by (simp add: findCampaign_def)
qed

text \<open>
  C14. A live arm needs an approval of the very same request. When the arm command succeeds in live
  mode, mutations were enabled, an approval event for the campaign of the request was stored (the one
  that the command names, if it names one), the run is the one that the coordinator armed, and the
  digest of its request is the approved one.
\<close>

theorem live_arm_needs_approval:
  assumes "appCommand env ''arm'' input s = (Inr resp, s')" and "cmd_mode input = Some ''live''"
  shows "\<not> ap_readOnly env \<and> (\<exists>v campaign e run. cmd_validated input = Some v
    \<and> findCampaign (vc_campaignId v) s = Some campaign
    \<and> e \<in> set (bs_events s) \<and> approvedFor env input v campaign e
    \<and> arm (ap_coord env) v Live (cmd_idempotencyKey input) s = (Inr run, s')
    \<and> be_requestDigest e = Some (rr_requestDigest run) \<and> cs_id resp = rr_id run)"
proof -
  have open_: "\<not> ap_readOnly env" and cmd: "armCommand env input s = (Inr resp, s')"
    using assms(1) by (auto simp: appCommand_def split: if_splits)
  from cmd assms(2) obtain v campaign run where v: "cmd_validated input = Some v"
      and c: "findCampaign (vc_campaignId v) s = Some campaign"
      and approved: "list_ex (approvedFor env input v campaign) (bs_events s)"
      and run: "arm (ap_coord env) v Live (cmd_idempotencyKey input) s = (Inr run, s')" and resp: "cs_id resp = rr_id run"
    by (auto simp: armCommand_def Let_def bindS_eq_Inr split: option.splits if_splits)
  from approved obtain e where e: "e \<in> set (bs_events s)" "approvedFor env input v campaign e" by (auto simp: list_ex_iff)
  have "rr_requestDigest run = digestOf env campaign Live v" using arm_live_digest [OF run] c by (auto simp: digestOf_def)
  with e have "be_requestDigest e = Some (rr_requestDigest run)" by (simp add: approvedFor_def)
  with open_ v c e run resp show ?thesis by blast
qed

definition demoApp :: AppEnv where
  "demoApp = \<lparr>ap_coord = demoCoord, ap_readOnly = False, ap_fleetPolicy = None, ap_custodyPolicyFor = None,
     ap_health = (\<lambda>_. (''Ready'', True)), ap_freshCampaign = (\<lambda>_. ''c2''), ap_freshApproval = (\<lambda>_. ''approval_1'')\<rparr>"

definition demoCommand :: CommandInput where
  "demoCommand = \<lparr>cmd_validated = Some \<lparr>vc_campaignId = ''k'', vc_simulationIds = Some [''sim''], vc_wallets = Some [''0xw''],
       vc_evidenceAt = ''1970''\<rparr>,
     cmd_mode = Some ''live'', cmd_idempotencyKey = None, cmd_approvalId = None, cmd_runId = Some ''run'',
     cmd_wallets = Some [''0xw''], cmd_reason = None\<rparr>"

theorem live_arm_needs_approval_witness:
  "\<not> is_ok (fst (appCommand demoApp ''arm'' demoCommand (demoBackend CCompleted)))
   \<and> is_ok (fst (appCommand demoApp ''arm'' demoCommand (snd (appCommand demoApp ''approve'' demoCommand (demoBackend CCompleted)))))
   \<and> (\<exists>e. be_approvalId e = Some ''approval_1''
         \<and> e \<in> set (bs_events (snd (appCommand demoApp ''approve'' demoCommand (demoBackend CCompleted)))))"
proof -
  let ?s = "snd (appCommand demoApp ''approve'' demoCommand (demoBackend CCompleted))"
  have no: "\<not> is_ok (fst (appCommand demoApp ''arm'' demoCommand (demoBackend CCompleted)))" by code_simp
  have yes: "is_ok (fst (appCommand demoApp ''arm'' demoCommand ?s))" by code_simp
  then obtain resp s' where "appCommand demoApp ''arm'' demoCommand ?s = (Inr resp, s')" by (auto simp: prod_eq_iff)
  from live_arm_needs_approval [OF this] have "\<exists>e. e \<in> set (bs_events ?s)" by (auto simp: demoCommand_def)
  moreover have "map be_approvalId (bs_events ?s) = [Some ''approval_1'']" by code_simp
  ultimately show ?thesis using no yes by (auto simp: map_eq_Cons_conv)
qed

section \<open>Repeated commands\<close>

definition unrecorded :: "string \<Rightarrow> string \<Rightarrow> BackendState \<Rightarrow> BackendState \<Rightarrow> bool" where
  "unrecorded kind key s s' \<longleftrightarrow> (keyedEvent kind key s = None \<longrightarrow> keyedEvent kind key s' = None)"

lemma unrecorded_same: "bs_events s' = bs_events s \<Longrightarrow> unrecorded kind key s s'"
  by (simp add: unrecorded_def keyedEvent_def)

interpretation record_order: coordinator_order "unrecorded kind key" for kind key
proof unfold_locales
  show "unrecorded kind key s u" if "unrecorded kind key s t" "unrecorded kind key t u" for s t u
    using that by (simp add: unrecorded_def)
  show "unrecorded kind key s s'" if "transitionRun i to s = Inr s'" for i to s s'
    using that by (auto simp: transitionRun_def split: option.splits if_splits intro: unrecorded_same)
  show "unrecorded kind key s (s\<lparr>bs_events := bs_events s @ [(plainEvent k about)\<lparr>be_receiptId := receipt\<rparr>]\<rparr>)" for s k about receipt
    by (auto simp: unrecorded_def keyedEvent_def find_None_iff plainEvent_def)
qed (simp_all add: unrecorded_same)

text \<open>The components a run waits for record no command of this key.\<close>

definition noCommand :: "string \<Rightarrow> string \<Rightarrow> CoordEnv \<Rightarrow> bool" where
  "noCommand kind key env \<longleftrightarrow> record_order.obeys kind key env"

lemma replay_same: "replay kind key requested m s = (Inr r, s') \<Longrightarrow> keyedEvent kind key s = Some e \<Longrightarrow> s' = s"
  by (auto simp: replay_def split: if_splits option.splits)

lemma recordCommand_keyed:
  assumes "recordCommand kind i key requested r s = (Inr r', s')" and "keyedEvent kind key s = None"
  shows "r' = r \<and> (\<exists>e. keyedEvent kind key s' = Some e \<and> be_requestDigest e = Some requested \<and> be_response e = Some r)"
proof -
  have last: "find P xs = None \<Longrightarrow> P y \<Longrightarrow> find P (xs @ [y]) = Some y" for P and xs :: "BackendEvent list" and y
    by (induction xs) auto
  show ?thesis
    using assms by (auto simp: recordCommand_def addEvent_def bindS_eq_Inr storeTransaction_Inr keyedEvent_def plainEvent_def last)
qed

lemma executeRun_unrecorded:
  assumes "noCommand kind key env" and "executeRun env i ws s = (r, s')"
  shows "keyedEvent kind key s = None \<Longrightarrow> keyedEvent kind key s' = None"
  using record_order.followsD [OF record_order.follows_executeRun assms(2)] assms(1)
  by (simp add: noCommand_def unrecorded_def)

definition runKey :: "CommandInput \<Rightarrow> string \<Rightarrow> address list \<Rightarrow> string" where
  "runKey input runId wallets =
     keyOr (cmd_idempotencyKey input) (''run:'' @ runId @ '':'' @ commaJoin (map toLowerCase wallets))"

text \<open>
  A repeated run command does not execute again. When a run command has returned a response, the
  same command issued next returns the same response and leaves the state unchanged, whether the first
  one executed or was itself a repetition.
\<close>

theorem run_command_replayed:
  assumes "runCommand env input s = (Inr resp, s')"
    and "\<And>i ws. cmd_runId input = Some i \<Longrightarrow> cmd_wallets input = Some ws \<Longrightarrow>
      noCommand ''command_run'' (runKey input i ws) (ap_coord env)"
  shows "runCommand env input s' = (Inr resp, s')"
proof -
  obtain i ws where i: "cmd_runId input = Some i" and ws: "cmd_wallets input = Some ws"
    using assms(1) by (auto simp: runCommand_def split: option.splits)
  let ?key = "runKey input i ws" and ?fleet = "i @ '':'' @ commaJoin (map toLowerCase ws)"
  obtain fresh where run: "\<And>u. runCommand env input u = replay ''command_run'' ?key ?fleet fresh u"
    and fresh: "fresh = bindS (executeRun (ap_coord env) i ws) (\<lambda>result. bindS (runState i) (\<lambda>state.
          recordCommand ''command_run'' i ?key ?fleet
            \<lparr>cs_id = i, cs_state = stateText state,
             cs_nextAction = (if state \<in> {CCompleted, CFailed, CAborted} then ''Inspect run'' else ''Monitor run''),
             cs_data = Some result\<rparr>))"
    by (simp add: runCommand_def i ws Let_def runKey_def)
  show ?thesis
  proof (cases "keyedEvent ''command_run'' ?key s")
    case (Some e)
    with assms(1) have "s' = s" using replay_same by (simp add: run)
    with assms(1) show ?thesis by simp
  next
    case None
    with assms(1) have "fresh s = (Inr resp, s')" by (simp add: run replay_def)
    then obtain result s1 r where exec: "executeRun (ap_coord env) i ws s = (Inr result, s1)"
      and rec: "recordCommand ''command_run'' i ?key ?fleet r s1 = (Inr resp, s')"
      by (auto simp: fresh bindS_eq_Inr runState_def split: option.splits)
    have "keyedEvent ''command_run'' ?key s1 = None"
      by (rule executeRun_unrecorded [OF assms(2) [OF i ws] exec None])
    from recordCommand_keyed [OF rec this] show ?thesis by (auto simp: run replay_def)
  qed
qed

lemma demo_noCommand: "noCommand kind key demoCoord"
proof -
  have move: "record_order.follows kind key (demoTransfer to i)" for to i
    unfolding demoTransfer_def
    by (rule record_order.follows_transaction) (auto split: sum.splits option.splits if_splits simp: transitionRun_def intro: unrecorded_same)
  have abort: "record_order.follows kind key (storeTransaction (\<lambda>s. Inr ((), abortOpenRuns s)))"
    by (rule record_order.follows_transaction) (auto simp: unrecorded_same abortOpenRuns_def)
  show ?thesis
    using move abort by (auto simp: noCommand_def record_order.obeys_def demoCoord_def demoOps_def intro: record_order.follows_rules)
qed

theorem run_command_replayed_witness:
  "is_ok (fst (runCommand demoApp demoCommand (demoBackend CArmed)))
   \<and> runCommand demoApp demoCommand (snd (runCommand demoApp demoCommand (demoBackend CArmed)))
      = runCommand demoApp demoCommand (demoBackend CArmed)"
proof -
  let ?r = "runCommand demoApp demoCommand (demoBackend CArmed)"
  have ok: "is_ok (fst ?r)" by code_simp
  then obtain resp s' where r: "?r = (Inr resp, s')" by (auto simp: prod_eq_iff)
  have "noCommand ''command_run'' k (ap_coord demoApp)" for k by (simp add: demoApp_def demo_noCommand)
  from run_command_replayed [OF r this] show ?thesis using ok r by simp
qed

section \<open>Creating campaigns\<close>

lemma createCampaign_Inr:
  assumes "createCampaign env input s = (Inr campaign, s')"
  obtains custody t where "chooseCustody env input s = (Inr custody, t)" "checkCampaign env input custody t = Inr ()"
    "campaign = campaignOf (ap_freshCampaign env t) input custody" "s' = t\<lparr>bs_campaigns := bs_campaigns t @ [campaign]\<rparr>"
  using assms by (auto simp: createCampaign_def bindS_eq_Inr storeTransaction_Inr)

text \<open>The limits of a campaign: the fee budget, and what a run may cost at most.\<close>

definition feeTotal :: "Campaign \<Rightarrow> wei" where
  "feeTotal c = (let f = cm_feePolicy c; part = (\<lambda>x. case x of None \<Rightarrow> 0 | Some n \<Rightarrow> n)
     in cf_priorityWei f + part (cf_l2BudgetWei f) + part (cf_l1BudgetWei f))"

definition chainFits :: "Campaign \<Rightarrow> bool" where
  "chainFits c \<longleftrightarrow> cm_chainId c \<in> {1, 8453, 4663} \<and> vf_chainId (cm_chainVerification c) = cm_chainId c
     \<and> (cm_chainId c = 4663 \<longrightarrow> cm_broadcastMode c = Some ''sequencer'')
     \<and> (cm_chainId c = 8453 \<longrightarrow> cm_broadcastMode c = Some ''public'' \<and> \<not> js_lt (jint 4) (cm_quantity c))
     \<and> (cm_chainId c = 1 \<longrightarrow> cm_broadcastMode c \<noteq> Some ''sequencer'')"

definition freeFits :: "AppEnv \<Rightarrow> Campaign \<Rightarrow> bool" where
  "freeFits env c \<longleftrightarrow> cm_mintPriceWei c = 0
     \<and> (feeTotal c \<le> 2 * cf_priorityWei (cm_feePolicy c)
        \<or> (cf_priorityWei (cm_feePolicy c) \<le> MAX_FREE_TIP_WEI
           \<and> (\<exists>a. approvedAllowance env (cm_chainId c) = Some a \<and> feeTotal c \<le> a)))
     \<and> (cm_chainId c = 4663 \<longrightarrow> feeTotal c \<le> ROBINHOOD_FREE_PER_WALLET_CAP_WEI
          \<and> sl_dailyCapWei (cm_spendPolicy c) \<le> ROBINHOOD_FREE_ACTIVE_PERIOD_CAP_WEI)
     \<and> (cm_chainId c = 8453 \<longrightarrow> feeTotal c \<le> fl_freeFeeAllowanceWei BASE_PERSONAL_LIVE_FLEET_POLICY
          \<and> sl_dailyCapWei (cm_spendPolicy c) \<le> fl_freeDailyCapWei BASE_PERSONAL_LIVE_FLEET_POLICY)"

definition paidFits :: "Campaign \<Rightarrow> bool" where
  "paidFits c \<longleftrightarrow> 0 < cm_mintPriceWei c
     \<and> (let allIn = cm_mintPriceWei c * js_int (cm_quantity c) + feeTotal c
        in allIn \<le> sl_maxRunWei (cm_spendPolicy c) \<and> allIn \<le> sl_dailyCapWei (cm_spendPolicy c))"

lemma checkIdentity_Inr:
  assumes "checkIdentity input custody = Inr ()"
  shows "chainFits (campaignOf i input custody) \<and> isSafeInteger (ci_quantity input) \<and> \<not> js_lt (ci_quantity input) (jint 1)
    \<and> 0 \<le> cf_priorityWei (ci_feePolicy input)"
proof -
  note facts = assms [unfolded checkIdentity_def Let_def bindR_eq_Inr ensure_eq_Inr]
  let ?k = "ci_chainId input" and ?mode = "ci_broadcastMode input"
  have k: "?k = 1 \<or> ?k = 8453 \<or> ?k = 4663" "vf_chainId (ci_chainVerification input) = ?k" using facts by blast+
  have modes: "?k = 4663 \<Longrightarrow> ?mode = Some ''sequencer''" "?k = 8453 \<Longrightarrow> ?mode = Some ''public''"
    "?k = 1 \<Longrightarrow> ?mode \<noteq> Some ''sequencer''" using facts by blast+
  have few: "?k = 8453 \<Longrightarrow> \<not> js_lt (jint 4) (ci_quantity input)" using facts by blast
  have "isSafeInteger (ci_quantity input)" "\<not> js_lt (ci_quantity input) (jint 1)" "0 \<le> cf_priorityWei (ci_feePolicy input)"
    using facts by blast+
  moreover have "chainFits (campaignOf i input custody)"
    using k modes few by (auto simp: chainFits_def campaignOf_def)
  ultimately show ?thesis by blast
qed

lemma totalFeeBudget_Inr:
  assumes "totalFeeBudget input = Inr budget"
  shows "budget = feeTotal (campaignOf i input custody) \<and> cf_totalWei (ci_feePolicy input) = Some budget
    \<and> budget \<le> ci_gasCeilingWei input \<and> cf_priorityWei (ci_feePolicy input) \<le> budget"
  using assms
  by (auto simp: totalFeeBudget_def Let_def bindR_eq_Inr feeTotal_def campaignOf_def split: option.splits)

lemma checkPaid_Inr:
  assumes "checkPaid env input (feeTotal (campaignOf i input custody)) s = Inr ()"
  shows "paidFits (campaignOf i input custody)"
proof -
  note facts = assms [unfolded checkPaid_def Let_def bindR_eq_Inr ensure_eq_Inr]
  then obtain q where q: "bigIntOf (ci_quantity input) = Inr q"
    and le: "\<not> (ci_maxRunWei input < mintPriceOf input * q + feeTotal (campaignOf i input custody)
      \<or> ci_dailyCapWei input < mintPriceOf input * q + feeTotal (campaignOf i input custody))" by blast
  have "0 < mintPriceOf input" using facts by blast
  moreover have "q = js_int (ci_quantity input)" using q by (auto simp: bigIntOf_def split: if_splits)
  ultimately show ?thesis using le by (simp add: paidFits_def campaignOf_def feeTotal_def)
qed

lemma freeFeeShape_Inr:
  assumes "freeFeeShape env input budget = Inr ()"
  shows "budget \<le> 2 * cf_priorityWei (ci_feePolicy input)
    \<or> (cf_priorityWei (ci_feePolicy input) \<le> MAX_FREE_TIP_WEI
       \<and> (\<exists>a. approvedAllowance env (ci_chainId input) = Some a \<and> budget \<le> a))"
  using assms by (auto simp: freeFeeShape_def Let_def bindR_eq_Inr split: option.splits if_splits)

lemma checkFree_Inr:
  assumes "checkFree env input (feeTotal (campaignOf i input custody)) = Inr ()"
  shows "freeFits env (campaignOf i input custody)"
proof -
  let ?c = "campaignOf i input custody" and ?k = "ci_chainId input"
  note facts = assms [unfolded checkFree_def Let_def bindR_eq_Inr ensure_eq_Inr]
  have price: "mintPriceOf input = 0" using facts by blast
  have shape: "freeFeeShape env input (feeTotal ?c) = Inr ()" using facts by auto
  have robinhood: "?k = 4663 \<Longrightarrow> feeTotal ?c \<le> ROBINHOOD_FREE_PER_WALLET_CAP_WEI
      \<and> ci_dailyCapWei input \<le> ROBINHOOD_FREE_ACTIVE_PERIOD_CAP_WEI"
    using facts by (auto simp: assertRobinhoodFreePolicy_def bindR_eq_Inr)
  have base: "?k = 8453 \<Longrightarrow> feeTotal ?c \<le> fl_freeFeeAllowanceWei BASE_PERSONAL_LIVE_FLEET_POLICY
      \<and> ci_dailyCapWei input \<le> fl_freeDailyCapWei BASE_PERSONAL_LIVE_FLEET_POLICY"
    using facts by (auto simp: not_less)
  show ?thesis unfolding freeFits_def
    using price freeFeeShape_Inr [OF shape] robinhood base by (simp add: campaignOf_def)
qed

text \<open>
  C29. A campaign is only created within its limits. When the creation succeeds, the campaign is
  stored; it is for a supported chain with the broadcast mode of that chain and verified for it; its
  quantity is a positive safe integer; its fee budget is the exact sum of its three parts and within
  the gas ceiling; a paid campaign has a positive price, and price times quantity plus fees stays
  within the run limit and the daily cap; a free one has price zero and a fee budget within
  twice its tip or the approved allowance, and within the limits of Robinhood and of Base.
\<close>

theorem campaign_within_limits:
  assumes "createCampaign env input s = (Inr campaign, s')"
  shows "campaign \<in> set (bs_campaigns s') \<and> chainFits campaign
    \<and> isSafeInteger (cm_quantity campaign) \<and> \<not> js_lt (cm_quantity campaign) (jint 1)
    \<and> cf_totalWei (cm_feePolicy campaign) = Some (feeTotal campaign)
    \<and> feeTotal campaign \<le> sl_gasCeilingWei (cm_spendPolicy campaign)
    \<and> (if cf_kind (cm_feePolicy campaign) = PaidKind then paidFits campaign else freeFits env campaign)"
proof -
  from assms obtain custody t where check: "checkCampaign env input custody t = Inr ()"
    and c: "campaign = campaignOf (ap_freshCampaign env t) input custody" and s': "s' = t\<lparr>bs_campaigns := bs_campaigns t @ [campaign]\<rparr>"
    by (rule createCampaign_Inr)
  from check obtain budget where identity: "checkIdentity input custody = Inr ()" and budget: "totalFeeBudget input = Inr budget"
    and kind: "(if cf_kind (ci_feePolicy input) = PaidKind then checkPaid env input budget t else checkFree env input budget) = Inr ()"
    by (auto simp: checkCampaign_def bindR_eq_Inr)
  note b = totalFeeBudget_Inr [OF budget, of "ap_freshCampaign env t" custody]
  have fits: "if cf_kind (cm_feePolicy campaign) = PaidKind then paidFits campaign else freeFits env campaign"
  proof (cases "cf_kind (ci_feePolicy input) = PaidKind")
    case True
    with kind b have "paidFits campaign" unfolding c by (simp add: checkPaid_Inr)
    with True show ?thesis by (simp add: c campaignOf_def)
  next
    case False
    with kind b have "freeFits env campaign" unfolding c by (simp add: checkFree_Inr)
    with False show ?thesis by (simp add: c campaignOf_def)
  qed
  have fields: "cm_quantity campaign = ci_quantity input" "cm_feePolicy campaign = ci_feePolicy input"
    "sl_gasCeilingWei (cm_spendPolicy campaign) = ci_gasCeilingWei input" by (simp_all add: c campaignOf_def)
  show ?thesis
    using checkIdentity_Inr [OF identity, of "ap_freshCampaign env t", folded c] b [folded c] fits by (simp add: s' fields)
qed

definition demoNew :: CampaignInput where
  "demoNew = \<lparr>ci_chainId = 8453, ci_contract = ''0xc'', ci_strategy = ''seadrop-v1-public'', ci_quantity = jint 2, ci_dryRun = None,
     ci_maxRunWei = 10, ci_dailyCapWei = 20, ci_gasCeilingWei = 9, ci_broadcastMode = Some ''public'',
     ci_chainVerification = \<lparr>vf_chainId = 8453, vf_status = ''verified'', vf_seaDropCompatible = True, vf_evidenceId = None,
       vf_checkedAt = None, vf_sourceBlock = None, vf_endpointReference = ''rpc''\<rparr>,
     ci_mintPriceWei = None,
     ci_feePolicy = \<lparr>cf_kind = FreeKind, cf_priorityWei = 4, cf_freeCapWei = Some 8, cf_l2BudgetWei = Some 3,
       cf_l1BudgetWei = Some 1, cf_totalWei = Some 8\<rparr>,
     ci_openingAt = None, ci_tMinusMs = None, ci_custodyPolicy = None\<rparr>"

theorem campaign_within_limits_witness:
  "fst (createCampaign demoApp demoNew (demoBackend CCompleted)) = Inr (campaignOf ''c2'' demoNew None)
   \<and> freeFits demoApp (campaignOf ''c2'' demoNew None) \<and> feeTotal (campaignOf ''c2'' demoNew None) = 8
   \<and> \<not> is_ok (fst (createCampaign demoApp (demoNew\<lparr>ci_quantity := jint 5\<rparr>) (demoBackend CCompleted)))"
proof -
  have ok: "fst (createCampaign demoApp demoNew (demoBackend CCompleted)) = Inr (campaignOf ''c2'' demoNew None)" by code_simp
  then obtain s' where "createCampaign demoApp demoNew (demoBackend CCompleted) = (Inr (campaignOf ''c2'' demoNew None), s')"
    by (auto simp: prod_eq_iff)
  note limits = campaign_within_limits [OF this]
  have "cf_kind (cm_feePolicy (campaignOf ''c2'' demoNew None)) \<noteq> PaidKind" by code_simp
  with limits have "freeFits demoApp (campaignOf ''c2'' demoNew None)" by (simp only: if_False)
  moreover have "feeTotal (campaignOf ''c2'' demoNew None) = 8" by code_simp
  moreover have "\<not> is_ok (fst (createCampaign demoApp (demoNew\<lparr>ci_quantity := jint 5\<rparr>) (demoBackend CCompleted)))" by code_simp
  ultimately show ?thesis using ok by blast
qed

end
