(* ===== verification/ServiceFacts.thy ===== *)
theory ServiceFacts
  imports ServiceOrchestrator JobStoreFacts ApplicationFacts
begin

text \<open>
  What the scheduler guarantees: a set kill switch blocks a tick, a service is ready only when nothing
  holds it back, a block is lifted only when nothing is unresolved, and, as the code stands, no scheduled job ever runs.
\<close>

section \<open>How jobs move the store\<close>

text \<open>
  Claiming jobs and blocking them are the only changes a running scheduler makes to the store outside its
  runtime. The rules hold for every preorder that respects these two.
\<close>

locale block_order = state_order R for R :: "BackendState \<Rightarrow> BackendState \<Rightarrow> bool" +
  assumes R_block: "updateJob redact now i patch s = (Inr j, s') \<Longrightarrow> jp_state patch = Some JBlocked \<Longrightarrow> R s s'"

locale service_order = block_order +
  assumes R_claim: "claimDue redact now limit s = (Inr cs, s') \<Longrightarrow> R s s'"

sublocale block_order \<subseteq> world: state_order "\<lambda>w w'. R (ow_store w) (ow_store w')"
  by unfold_locales (auto intro: R_refl R_trans)

lemma dryRun_refused: "appCommand env ''dry-run'' (dryRunInput job) s = (Inl ''VALIDATED_CAMPAIGN_REQUIRED'', s)"
  by (simp add: appCommand_def dryRunCommand_def dryRunInput_def)

definition jobRefusal :: "OrchEnv \<Rightarrow> ScheduledJob \<Rightarrow> string" where
  "jobRefusal env job =
     (if jo_mode job = DryRun \<and> oe_dryRunOnly env then ''VALIDATED_CAMPAIGN_REQUIRED'' else ''PHASE2_LIVE_MODE_DISABLED'')"

lemma attempt_refused: "attemptJob env input job w = (Inl (jobRefusal env job), w)"
  by (simp add: attemptJob_def bindS_def backendS_def dryRun_refused jobRefusal_def)

lemma runJob_blocks:
  "runJob env input job = bindS (settleJob env input (jo_id job) JBlocked (Some (jobRefusal env job))) (\<lambda>_. snapshotJobs)"
  by (rule ext) (simp add: runJob_def bindS_def catchS_def attempt_refused)

lemma transaction_error: "updateJob redact now i patch s = (Inl e, s') \<Longrightarrow> s' = s" "claimDue redact now limit s = (Inl e, s') \<Longrightarrow> s' = s"
  by (auto simp: updateJob_def claimDue_def storeTransaction_Inl)

context block_order
begin

lemma world_store: "follows m \<Longrightarrow> world.follows (backendS m)"
  by (rule world.followsI) (auto simp: backendS_def dest: followsD split: prod.splits)

lemma world_self: "world.follows (selfS f)"
  by (rule world.followsI) (auto simp: selfS_def intro: R_refl)

lemma world_snapshot: "world.follows snapshotJobs"
  by (rule world.followsI) (auto simp: snapshotJobs_def selfS_def intro: R_refl)

lemma world_when: "world.follows m \<Longrightarrow> world.follows (whenS c m)"
  by (simp add: whenS_def world.follows_return)

lemma world_quietly: "world.follows m \<Longrightarrow> world.follows (quietly m)"
  unfolding quietly_def by (intro world.follows_catch world.follows_return)

lemma world_onStore: "(\<And>s. R s (f s)) \<Longrightarrow> world.follows (onStore f)"
  unfolding onStore_def by (rule world_store) (rule followsI, auto simp: storeTransaction_def)

lemma follows_block: "jp_state patch = Some JBlocked \<Longrightarrow> follows (updateJob redact now i patch)"
proof (rule followsI)
  fix s r s'
  assume "jp_state patch = Some JBlocked" "updateJob redact now i patch s = (r, s')"
  then show "R s s'" by (cases r) (auto dest: transaction_error R_block intro: R_refl)
qed

lemma follows_quietly: "follows m \<Longrightarrow> follows (quietly m)"
  unfolding quietly_def by (intro follows_catch follows_return)

lemmas world_rules =
  follows_quietly world.follows_return world.follows_throw world.follows_get world.follows_bind world.follows_if world.follows_Let
  world.follows_forEach world.follows_case_prod world_store world_self world_snapshot world_when world_quietly follows_block

lemma world_runJob: "world.follows (runJob env input job)"
  unfolding runJob_blocks settleJob_def by (intro world_rules) simp

lemma world_blockLive: "world.follows (blockLiveJobs env input)"
  unfolding blockLiveJobs_def by (intro world_rules) (simp add: killedPatch_def)

lemma world_alert: "(\<And>i. follows (oe_killAlert env i)) \<Longrightarrow> world.follows (raiseKillAlert env)"
  unfolding raiseKillAlert_def by (intro world_rules)

end

context service_order
begin

lemma follows_claim: "follows (claimDue redact now limit)"
proof (rule followsI)
  fix s r s'
  assume "claimDue redact now limit s = (r, s')"
  then show "R s s'" by (cases r) (auto dest: transaction_error R_claim intro: R_refl)
qed

lemma world_claimAndRun: "world.follows (claimAndRun env input capacity)"
  unfolding claimAndRun_def by (intro world_rules follows_claim world_runJob)

end

text \<open>The parts of the store that decide about runs, and the jobs that came to an end.\<close>

definition sameRuns :: "BackendState \<Rightarrow> BackendState \<Rightarrow> bool" where
  "sameRuns s s' \<longleftrightarrow> bs_runs s' = bs_runs s \<and> bs_intents s' = bs_intents s \<and> bs_attempts s' = bs_attempts s
     \<and> bs_receipts s' = bs_receipts s \<and> bs_reconciliations s' = bs_reconciliations s
     \<and> bs_reservations s' = bs_reservations s \<and> bs_campaigns s' = bs_campaigns s \<and> bs_killed s' = bs_killed s"

definition jobsIn :: "JobState set \<Rightarrow> BackendState \<Rightarrow> string set" where
  "jobsIn S s = {i. \<exists>v\<in>set (map jobView (listJobs s)). fst v = i \<and> fst (snd v) \<in> S}"

lemma jobsIn_iff: "i \<in> jobsIn S s \<longleftrightarrow> (\<exists>j\<in>set (listJobs s). jo_id j = i \<and> jo_state j \<in> S)"
  by (simp add: jobsIn_def jobView_def)

lemma only_jobs:
  assumes "claimDue redact now limit s = (Inr cs, s') \<or> updateJob redact now i patch s = (Inr j, s')"
  shows "sameRuns s s' \<and> bs_runtime s' = bs_runtime s"
  using assms
  by (auto simp: claimDue_def updateJob_def storeTransaction_Inr sameRuns_def bindR_eq_Inr Let_def split: prod.splits option.splits)

lemma jobsInI: "v \<in> set (map jobView (listJobs s)) \<Longrightarrow> fst v = i \<Longrightarrow> fst (snd v) \<in> S \<Longrightarrow> i \<in> jobsIn S s"
  unfolding jobsIn_def by blast

lemma jobsInE:
  assumes "i \<in> jobsIn S s"
  obtains v where "v \<in> set (map jobView (listJobs s))" "fst v = i" "fst (snd v) \<in> S"
  using assms unfolding jobsIn_def by blast

lemma patched_views:
  assumes "\<And>v. fst (snd (f v)) = JBlocked" and "v \<in> set (updateFirst P f vs)"
  shows "v \<in> set vs \<or> fst (snd v) = JBlocked"
  using assms(2) by (induction vs) (auto simp: assms(1) split: if_splits)

lemma update_jobsIn:
  assumes "updateJob redact now i patch s = (Inr j, s')" and "jp_state patch = Some JBlocked" and "JBlocked \<notin> S"
  shows "jobsIn S s' \<subseteq> jobsIn S s"
proof
  fix k
  assume "k \<in> jobsIn S s'"
  then obtain v where v: "v \<in> set (map jobView (listJobs s'))" "fst v = k" "fst (snd v) \<in> S" by (rule jobsInE)
  have blocked: "fst (snd (patchView patch v)) = JBlocked" for v
    using assms(2) by (cases v) (simp add: patchView_def valueOr_def)
  have "v \<in> set (map jobView (listJobs s)) \<or> fst (snd v) = JBlocked"
    by (rule patched_views [OF blocked]) (rule v(1) [unfolded canonical.update_law [OF assms(1)]])
  then show "k \<in> jobsIn S s"
  proof
    assume "v \<in> set (map jobView (listJobs s))"
    then show ?thesis using v(2,3) by (rule jobsInI)
  next
    assume "fst (snd v) = JBlocked"
    with v(3) assms(3) show ?thesis by simp
  qed
qed

lemma claim_jobsIn:
  assumes "claimDue redact now limit s = (Inr cs, s')" and "JRunning \<notin> S"
  shows "jobsIn S s' \<subseteq> jobsIn S s"
proof
  fix k
  assume "k \<in> jobsIn S s'"
  then obtain v where v: "v \<in> set (map jobView (listJobs s'))" "fst v = k" "fst (snd v) \<in> S" by (rule jobsInE)
  from claimViews_out [OF canonical.claim_law [OF assms(1)] v(1)] show "k \<in> jobsIn S s"
  proof
    assume "v \<in> set (map jobView (listJobs s))"
    then show ?thesis using v(2,3) by (rule jobsInI)
  next
    assume "fst (snd v) = JRunning"
    with v(3) assms(2) show ?thesis by simp
  qed
qed

section \<open>Three orders\<close>

lemma sameRuns_refl: "sameRuns s s"
  by (simp add: sameRuns_def)

lemma sameRuns_trans: "sameRuns s t \<Longrightarrow> sameRuns t u \<Longrightarrow> sameRuns s u"
  by (simp add: sameRuns_def)

text \<open>No run is touched and no job comes to an end; only jobs change; no job starts.\<close>

definition unworked :: "BackendState \<Rightarrow> BackendState \<Rightarrow> bool" where
  "unworked s s' \<longleftrightarrow> sameRuns s s' \<and> jobsIn {JSucceeded, JFailed} s' \<subseteq> jobsIn {JSucceeded, JFailed} s"

definition controlled :: "BackendState \<Rightarrow> BackendState \<Rightarrow> bool" where
  "controlled s s' \<longleftrightarrow> sameRuns s s' \<and> bs_runtime s' = bs_runtime s"

definition unstarted :: "BackendState \<Rightarrow> BackendState \<Rightarrow> bool" where
  "unstarted s s' \<longleftrightarrow> controlled s s' \<and> jobsIn {JRunning} s' \<subseteq> jobsIn {JRunning} s"

interpretation work: service_order unworked
proof unfold_locales
  show "unworked s u" if "unworked s t" "unworked t u" for s t u
    using that unfolding unworked_def by (meson sameRuns_trans subset_trans)
  show "unworked s s'" if "updateJob redact now i patch s = (Inr j, s')" "jp_state patch = Some JBlocked" for redact now i patch s j s'
    using only_jobs [OF disjI2 [OF that(1)]] update_jobsIn [OF that] by (simp add: unworked_def)
  show "unworked s s'" if "claimDue redact now limit s = (Inr cs, s')" for redact now limit s cs s'
    using only_jobs [OF disjI1 [OF that]] claim_jobsIn [OF that] by (simp add: unworked_def)
qed (simp add: unworked_def sameRuns_refl)

interpretation control: service_order controlled
proof unfold_locales
  show "controlled s u" if "controlled s t" "controlled t u" for s t u
    using that unfolding controlled_def by (metis sameRuns_trans)
  show "controlled s s'" if "updateJob redact now i patch s = (Inr j, s')" "jp_state patch = Some JBlocked" for redact now i patch s j s'
    using only_jobs [OF disjI2 [OF that(1)]] by (simp add: controlled_def)
  show "controlled s s'" if "claimDue redact now limit s = (Inr cs, s')" for redact now limit s cs s'
    using only_jobs [OF disjI1 [OF that]] by (simp add: controlled_def)
qed (simp add: controlled_def sameRuns_refl)

interpretation idle: block_order unstarted
proof unfold_locales
  show "unstarted s u" if "unstarted s t" "unstarted t u" for s t u
    using that unfolding unstarted_def by (meson control.R_trans subset_trans)
  show "unstarted s s'" if "updateJob redact now i patch s = (Inr j, s')" "jp_state patch = Some JBlocked" for redact now i patch s j s'
    using control.R_block [OF that] update_jobsIn [OF that] by (simp add: unstarted_def)
qed (simp add: unstarted_def control.R_refl)

text \<open>The alert of a kill and the check of the enablement record leave runs, jobs and the runtime alone.\<close>

definition leftAlone :: "BackendState \<Rightarrow> BackendState \<Rightarrow> bool" where
  "leftAlone s s' \<longleftrightarrow> sameRuns s s' \<and> bs_runtime s' = bs_runtime s \<and> bs_jobs s' = bs_jobs s"

definition quiet :: "OrchEnv \<Rightarrow> bool" where
  "quiet env \<longleftrightarrow> (\<forall>i s. leftAlone s (snd (oe_killAlert env i s))) \<and> (\<forall>s. leftAlone s (snd (oe_switchOffExpired env s)))"

lemma leftAlone_orders:
  assumes "leftAlone s s'"
  shows "unworked s s'" and "controlled s s'" and "unstarted s s'"
  using assms by (simp_all add: leftAlone_def unworked_def controlled_def unstarted_def jobsIn_def listJobs_def)

lemma quiet_follows:
  assumes "quiet env"
  shows "work.follows (oe_killAlert env i)" "work.follows (oe_switchOffExpired env)"
    "idle.follows (oe_killAlert env i)" "control.follows (oe_killAlert env i)"
  using assms by (simp_all add: work.follows_def idle.follows_def control.follows_def quiet_def leftAlone_orders)

lemma unworked_runtime: "unworked s (s\<lparr>bs_runtime := r\<rparr>)"
  by (simp add: unworked_def sameRuns_def jobsIn_def listJobs_def)

lemma unworked_runtimes: "unworked s (blockFor reason s)" "unworked s (liftReason reason s)" "unworked s (liftKill s)"
  "unworked s (liftUnresolved s)"
  by (simp_all add: blockFor_def liftReason_def liftKill_def liftUnresolved_def Let_def unworked_runtime work.R_refl)

lemma work_tick:
  assumes "quiet env"
  shows "work.world.follows (tick env input)"
proof -
  note rules = work.world_rules work.world_onStore work.world_claimAndRun work.world_blockLive work.world_alert quiet_follows [OF assms]
  have block: "work.world.follows (blockWhenNeeded reason)" for reason
    unfolding blockWhenNeeded_def by (intro rules unworked_runtimes)
  have gate: "work.world.follows (backupGate env input)"
    unfolding backupGate_def by (intro rules block unworked_runtimes unworked_runtime)
  have killed: "work.world.follows (killedTick env input)" unfolding killedTick_def by (intro rules block)
  have "work.world.follows (openTick env input c)" for c unfolding openTick_def by (intro rules unworked_runtimes)
  then have body: "work.world.follows (tickBody env input)" unfolding tickBody_def by (intro rules gate killed)
  show ?thesis
  proof (rule work.world.followsI)
    fix w r w'
    assume run: "tick env input w = (r, w')"
    show "unworked (ow_store w) (ow_store w')"
    proof (cases "\<not> os_running (ow_self w) \<or> os_ticking (ow_self w)")
      case True
      with run show ?thesis by (auto simp: tick_def work.R_refl)
    next
      case False
      with run obtain u where "tickBody env input (w\<lparr>ow_self := (ow_self w)\<lparr>os_ticking := True\<rparr>\<rparr>) = (r, u)" "ow_store w' = ow_store u"
        by (auto simp: tick_def split: prod.splits)
      with work.world.followsD [OF body] show ?thesis by fastforce
    qed
  qed
qed

section \<open>The course of a tick\<close>

lemma tick_body:
  assumes "tick env input w = (r, w')" and "os_running (ow_self w)" and "\<not> os_ticking (ow_self w)"
  obtains u where "tickBody env input (w\<lparr>ow_self := (ow_self w)\<lparr>os_ticking := True\<rparr>\<rparr>) = (r, u)" "ow_store w' = ow_store u"
  using assms by (auto simp: tick_def split: prod.splits)

text \<open>What the backup check of a tick makes of the store.\<close>

definition gated :: "OrchEnv \<Rightarrow> bool \<Rightarrow> BackendState \<Rightarrow> BackendState" where
  "gated env ready s =
     (let s2 = (if oe_backupPath env \<and> rt_backup (bs_runtime s) \<noteq> ready
                then s\<lparr>bs_runtime := (bs_runtime s)\<lparr>rt_backup := ready\<rparr>\<rparr> else s)
      in if \<not> ready then (if blockedFor ''BACKUP_NOT_READY'' (bs_runtime s2) then s2 else blockFor ''BACKUP_NOT_READY'' s2)
         else if oe_backupPath env \<and> ''BACKUP_NOT_READY'' \<in> set (rt_blockingReasons (bs_runtime s2))
         then liftReason ''BACKUP_NOT_READY'' s2 else s2)"

definition tickReady :: "OrchEnv \<Rightarrow> TickInput \<Rightarrow> OrchWorld \<Rightarrow> bool" where
  "tickReady env input w \<longleftrightarrow> backupReady env input (observeBackup env input (ow_self w))"

lemma quietly_run: "quietly m s = (Inr (), snd (m s))"
  by (auto simp: quietly_def catchS_def split: prod.splits sum.splits)

lemma onStore_run: "onStore f w = (Inr (), w\<lparr>ow_store := f (ow_store w)\<rparr>)"
  by (simp add: onStore_def backendS_def storeTransaction_def)

lemma backupGate_run:
  assumes "quiet env"
  obtains s1 where "leftAlone (ow_store w) s1"
    "backupGate env input w = (Inr (tickReady env input w),
       w\<lparr>ow_self := observeBackup env input (ow_self w), ow_store := gated env (tickReady env input w) s1\<rparr>)"
proof
  define s1 where "s1 = snd (oe_switchOffExpired env (ow_store w))"
  show "leftAlone (ow_store w) s1" using assms by (simp add: quiet_def s1_def)
  show "backupGate env input w = (Inr (tickReady env input w),
       w\<lparr>ow_self := observeBackup env input (ow_self w), ow_store := gated env (tickReady env input w) s1\<rparr>)"
    by (simp add: backupGate_def bindS_def selfS_def backendS_def quietly_run s1_def [symmetric] tickReady_def [symmetric]
        whenS_def onStore_run blockWhenNeeded_def runtimeOf_def gated_def Let_def)
qed

lemma gated_same: "sameRuns s (gated env ready s)" "bs_jobs (gated env ready s) = bs_jobs s"
  by (simp_all add: gated_def Let_def sameRuns_def blockFor_def liftReason_def)

lemma withReason_in: "reason \<in> set (withReason reason rs)"
  by (simp add: withReason_def)

lemma blockFor_blocks: "blockedFor reason (bs_runtime (blockFor reason s))"
  by (simp add: blockedFor_def blockFor_def withReason_in)

lemma blockWhenNeeded_run:
  "\<exists>s. blockWhenNeeded reason w = (Inr (), w\<lparr>ow_store := s\<rparr>) \<and> blockedFor reason (bs_runtime s) \<and> sameRuns (ow_store w) s
     \<and> bs_jobs s = bs_jobs (ow_store w)"
proof (cases "blockedFor reason (runtimeOf w)")
  case True
  then show ?thesis
    by (intro exI [of _ "ow_store w"]) (simp add: blockWhenNeeded_def bindS_def whenS_def runtimeOf_def sameRuns_refl)
next
  case False
  then show ?thesis
    by (intro exI [of _ "blockFor reason (ow_store w)"])
       (simp add: blockWhenNeeded_def bindS_def whenS_def onStore_run blockFor_blocks, simp add: blockFor_def sameRuns_def)
qed

lemma observeBackup_ticking: "observeBackup env input (me\<lparr>os_ticking := b\<rparr>) = (observeBackup env input me)\<lparr>os_ticking := b\<rparr>"
  by (simp add: observeBackup_def Let_def split: option.split)

lemma tickReady_ticking: "tickReady env input (w\<lparr>ow_self := (ow_self w)\<lparr>os_ticking := b\<rparr>\<rparr>) = tickReady env input w"
  by (simp add: tickReady_def observeBackup_ticking backupReady_def)

lemma tick_course:
  assumes "quiet env" and "tick env input w = (r, w')" and "os_running (ow_self w)" and "\<not> os_ticking (ow_self w)"
  obtains s1 w1 u where "leftAlone (ow_store w) s1" "ow_store w1 = gated env (tickReady env input w) s1" "ow_store w' = ow_store u"
    "\<not> tickReady env input w \<Longrightarrow> r = Inr () \<and> u = w1"
    "tickReady env input w \<Longrightarrow> bs_killed (ow_store w) \<or> tk_probe input \<Longrightarrow> killedTick env input w1 = (r, u)"
    "tickReady env input w \<Longrightarrow> \<not> (bs_killed (ow_store w) \<or> tk_probe input) \<Longrightarrow> \<exists>capacity. openTick env input capacity w1 = (r, u)"
proof -
  let ?w = "w\<lparr>ow_self := (ow_self w)\<lparr>os_ticking := True\<rparr>\<rparr>"
  obtain u where body: "tickBody env input ?w = (r, u)" "ow_store w' = ow_store u"
    using tick_body [OF assms(2-4)] by blast
  obtain s1 where s1: "leftAlone (ow_store ?w) s1"
    and gate: "backupGate env input ?w = (Inr (tickReady env input ?w),
       ?w\<lparr>ow_self := observeBackup env input (ow_self ?w), ow_store := gated env (tickReady env input ?w) s1\<rparr>)"
    by (rule backupGate_run [OF assms(1)])
  define w1 where "w1 = ?w\<lparr>ow_self := observeBackup env input (ow_self ?w), ow_store := gated env (tickReady env input ?w) s1\<rparr>"
  have store: "ow_store w1 = gated env (tickReady env input w) s1" by (simp add: w1_def tickReady_ticking)
  have killed: "bs_killed (ow_store w1) = bs_killed (ow_store w)"
    using gated_same(1) [of s1 env "tickReady env input w"] s1 by (simp add: store sameRuns_def leftAlone_def)
  have rest: "(if \<not> tickReady env input w then returnS ()
      else bindS (getS (\<lambda>w. (bs_killed (ow_store w) \<or> tk_probe input, capacityOf env (ow_self w)))) (\<lambda>(killed, capacity).
        if killed then killedTick env input else openTick env input capacity)) w1 = (r, u)"
    using body(1) gate by (simp add: tickBody_def bindS_def w1_def tickReady_ticking)
  show thesis
    by (rule that [of s1 w1 u]) (use s1 store body(2) rest killed in \<open>auto simp: bindS_def split: if_splits\<close>)
qed

lemma killed_tick:
  assumes "quiet env" and "tick env input w = (r, w')" and "os_running (ow_self w)" and "\<not> os_ticking (ow_self w)"
    and "tickReady env input w" and "bs_killed (ow_store w) \<or> tk_probe input"
  shows "blockedFor ''KILL_SWITCH_ENGAGED'' (runtimeOf w') \<and> jobsIn {JRunning} (ow_store w') \<subseteq> jobsIn {JRunning} (ow_store w)
    \<and> sameRuns (ow_store w) (ow_store w')"
proof -
  obtain s1 w1 u where s1: "leftAlone (ow_store w) s1" and store: "ow_store w1 = gated env (tickReady env input w) s1"
      and u: "ow_store w' = ow_store u"
      and course: "tickReady env input w \<Longrightarrow> bs_killed (ow_store w) \<or> tk_probe input \<Longrightarrow> killedTick env input w1 = (r, u)"
    using tick_course [OF assms(1-4)] by metis
  have killed: "killedTick env input w1 = (r, u)" by (rule course [OF assms(5,6)])
  have "sameRuns (ow_store w) s1" "bs_jobs s1 = bs_jobs (ow_store w)" using s1 by (simp_all add: leftAlone_def)
  then have w1: "sameRuns (ow_store w) (ow_store w1)" "bs_jobs (ow_store w1) = bs_jobs (ow_store w)"
    unfolding store using gated_same sameRuns_trans by metis+
  obtain s2 where s2: "blockWhenNeeded ''KILL_SWITCH_ENGAGED'' w1 = (Inr (), w1\<lparr>ow_store := s2\<rparr>)"
    "blockedFor ''KILL_SWITCH_ENGAGED'' (bs_runtime s2)" "sameRuns (ow_store w1) s2" "bs_jobs s2 = bs_jobs (ow_store w1)"
    using blockWhenNeeded_run [of "''KILL_SWITCH_ENGAGED''" w1] by blast
  let ?rest = "bindS (raiseKillAlert env) (\<lambda>_. bindS (blockLiveJobs env input) (\<lambda>_. snapshotJobs))"
  have "idle.world.follows ?rest"
    by (intro idle.world.follows_bind idle.world_alert idle.world_blockLive idle.world_snapshot quiet_follows [OF assms(1)])
  moreover have "?rest (w1\<lparr>ow_store := s2\<rparr>) = (r, u)" using killed s2(1) by (simp add: killedTick_def bindS_def)
  ultimately have "unstarted s2 (ow_store u)" using idle.world.followsD by fastforce
  moreover have "jobsIn {JRunning} s2 = jobsIn {JRunning} (ow_store w)" using s2(4) w1(2) by (simp add: jobsIn_def listJobs_def)
  ultimately show ?thesis
    using s2(2,3) w1(1) u by (auto simp: unstarted_def controlled_def runtimeOf_def intro: sameRuns_trans)
qed

text \<open>
  C21. A kill blocks the scheduler. When a tick finds the kill set, in the store or by the kill file, and the
  backup is in order, then whether it ends normally or throws, the service is afterwards blocked with
  the reason KILL_SWITCH_ENGAGED, no job has been started, and no run, attempt, receipt or reservation was touched.
\<close>

theorem kill_blocks_tick:
  assumes "quiet env" and "tick env input w = (r, w')" and "os_running (ow_self w)" and "\<not> os_ticking (ow_self w)"
    and "tickReady env input w" and "bs_killed (ow_store w) \<or> tk_probe input"
  shows "blockedFor ''KILL_SWITCH_ENGAGED'' (runtimeOf w') \<and> jobsIn {JRunning} (ow_store w') \<subseteq> jobsIn {JRunning} (ow_store w)
    \<and> sameRuns (ow_store w) (ow_store w')"
  by (rule killed_tick [OF assms])

section \<open>When a tick leaves the service ready\<close>

definition opened :: "BackendState \<Rightarrow> BackendState" where
  "opened s = liftUnresolved (if ''KILL_SWITCH_ENGAGED'' \<in> set (rt_blockingReasons (bs_runtime s)) then liftKill s else s)"

lemma openTick_course:
  assumes "openTick env input capacity w = (r, u)"
  shows "blockedFor ''KILL_SWITCH_ENGAGED'' (runtimeOf u) \<or> controlled (opened (ow_store w)) (ow_store u)"
proof (cases "''KILL_SWITCH_ENGAGED'' \<in> set (rt_blockingReasons (runtimeOf w)) \<and> tk_probeAgain input")
  case True
  with assms have "runtimeOf u = bs_runtime (blockFor ''KILL_SWITCH_ENGAGED'' (liftKill (ow_store w)))"
    by (auto simp: openTick_def bindS_def selfS_def whenS_def onStore_run runtimeOf_def)
  then show ?thesis by (simp add: blockFor_blocks)
next
  case False
  with assms have "\<exists>w2. claimAndRun env input capacity w2 = (r, u) \<and> ow_store w2 = opened (ow_store w)"
    by (auto simp: openTick_def bindS_def selfS_def whenS_def onStore_run runtimeOf_def opened_def split: if_splits)
  then show ?thesis using control.world.followsD [OF control.world_claimAndRun] by fastforce
qed

lemma unresolved_same: "sameRuns s s' \<Longrightarrow> unresolvedRunIds s' = unresolvedRunIds s"
  by (simp add: unresolvedRunIds_def sameRuns_def unresolved_def hasSubmitted_def latestResult_def Let_def cong: filter_cong)

lemma sameRuns_runtime: "sameRuns s (s\<lparr>bs_runtime := rt\<rparr>)"
  by (simp add: sameRuns_def)

lemma opened_same: "sameRuns s (opened s)"
  by (auto simp: opened_def liftUnresolved_def liftKill_def liftReason_def Let_def sameRuns_def)

text \<open>Ready is only reported without a blocking reason.\<close>

definition clean :: "RuntimeStatus \<Rightarrow> bool" where
  "clean rt \<longleftrightarrow> (rt_startupState rt = SReady \<longrightarrow> rt_blockingReasons rt = [])"

lemma clean_lift: "clean (bs_runtime s) \<Longrightarrow> clean (bs_runtime (liftReason reason s))"
  by (auto simp: clean_def liftReason_def Let_def)

lemma clean_gated: "clean (bs_runtime s) \<Longrightarrow> clean (bs_runtime (gated env ready s))"
  by (auto simp: gated_def Let_def clean_def blockFor_def liftReason_def split: if_splits)

definition awaits :: "RuntimeStatus \<Rightarrow> bool" where
  "awaits rt \<longleftrightarrow> ''KILL_SWITCH_ENGAGED'' \<in> set (rt_blockingReasons rt) \<or> ''UNRESOLVED_EXECUTIONS'' \<in> set (rt_blockingReasons rt)"

lemma awaits_gated: "awaits (bs_runtime (gated env ready s)) = awaits (bs_runtime s)"
  by (simp add: awaits_def gated_def Let_def liftReason_def blockFor_def withReason_def)

lemma opened_ready:
  assumes "clean (bs_runtime s)" and "\<not> bs_killed s" and "rt_startupState (bs_runtime (opened s)) = SReady"
  shows "rt_blockingReasons (bs_runtime (opened s)) = []" and "awaits (bs_runtime s) \<Longrightarrow> unresolvedRunIds s = []"
proof -
  let ?t = "if ''KILL_SWITCH_ENGAGED'' \<in> set (rt_blockingReasons (bs_runtime s)) then liftKill s else s"
  have t: "clean (bs_runtime ?t)" "sameRuns s ?t" using assms(1) by (auto simp: clean_def liftKill_def Let_def sameRuns_def)
  have ready: "rt_startupState (bs_runtime (liftUnresolved ?t)) = SReady" using assms(3) by (simp only: opened_def)
  have "clean (bs_runtime (liftUnresolved ?t))" using t(1) clean_lift by (simp add: liftUnresolved_def)
  with ready have none: "rt_blockingReasons (bs_runtime (liftUnresolved ?t)) = []" by (simp only: clean_def)
  then show "rt_blockingReasons (bs_runtime (opened s)) = []" by (simp only: opened_def)
  show "unresolvedRunIds s = []" if "awaits (bs_runtime s)"
  proof (rule ccontr)
    assume open_: "unresolvedRunIds s \<noteq> []"
    then have "''UNRESOLVED_EXECUTIONS'' \<in> set (rt_blockingReasons (bs_runtime ?t))"
      using that assms(2) by (auto simp: awaits_def liftKill_def Let_def withReason_in)
    moreover have "unresolvedRunIds ?t \<noteq> []" using open_ unresolved_same [OF t(2)] by simp
    ultimately have "''UNRESOLVED_EXECUTIONS'' \<in> set (rt_blockingReasons (bs_runtime (liftUnresolved ?t)))"
      by (simp add: liftUnresolved_def)
    with none show False by simp
  qed
qed


section \<open>Scheduled jobs\<close>

text \<open>
  A scheduled dry run is always refused. Running a claimed dry-run job asks the application for a
  dry run without a validated campaign, which it refuses; so when running the job returns, the
  job is blocked with VALIDATED_CAMPAIGN_REQUIRED, and nothing but jobs has changed in the store: no run was armed or executed.
\<close>

theorem scheduled_dry_run_is_blocked:
  assumes "runJob env input job w = (Inr (), w')" and "jo_mode job = DryRun" and "oe_dryRunOnly env"
    and "oe_redact env ''VALIDATED_CAMPAIGN_REQUIRED'' = ''VALIDATED_CAMPAIGN_REQUIRED''"
  shows "ow_store w' = (ow_store w)\<lparr>bs_jobs := bs_jobs (ow_store w')\<rparr>
    \<and> (\<exists>j. find (\<lambda>j. jo_id j = jo_id job) (listJobs (ow_store w')) = Some j \<and> jo_state j = JBlocked
         \<and> jo_lastError j = Some ''VALIDATED_CAMPAIGN_REQUIRED'')"
proof -
  let ?s = "ow_store w" and ?i = "jo_id job"
  let ?patch = "\<lparr>jp_state = Some JBlocked, jp_lastError = Some ''VALIDATED_CAMPAIGN_REQUIRED'', jp_completedAt = Some (tk_now input),
       jp_updatedAt = None, jp_executeAt = None\<rparr>"
  have "jobRefusal env job = ''VALIDATED_CAMPAIGN_REQUIRED''" using assms(2,3) by (simp add: jobRefusal_def)
  with assms(1) obtain x where "updateJob (oe_redact env) (tk_now input) ?i ?patch ?s = (Inr x, ow_store w')"
    by (auto simp: runJob_blocks settleJob_def bindS_eq_Inr backendS_def snapshotJobs_def selfS_def split: prod.splits)
  then obtain r where r: "find (phase2Id ?i) (bs_jobs ?s) = Some r"
    and w': "ow_store w' = ?s\<lparr>bs_jobs := updateFirst (phase2Id ?i)
      (assignRecord (oe_redact env) (patchJob (oe_redact env) (tk_now input) ?patch (fromRecord r))) (bs_jobs ?s)\<rparr>"
    by (auto simp: updateJob_def storeTransaction_Inr bindR_eq_Inr Let_def split: option.splits)
  define f where "f = assignRecord (oe_redact env) (patchJob (oe_redact env) (tk_now input) ?patch (fromRecord r))"
  have "phase2Id ?i (f r)" using find_Some_in [OF r] by (simp add: f_def phase2Id_def patchJob_def fromRecord_def)
  then have "find (phase2Id ?i) (updateFirst (phase2Id ?i) f rs) = Some (f r)" if "find (phase2Id ?i) rs = Some r" for rs
    using that by (induction rs) (auto split: if_splits)
  then have "find (\<lambda>j. jo_id j = ?i) (listJobs (ow_store w')) = Some (fromRecord (f r))"
    by (simp add: find_listJobs w' f_def [symmetric] r)
  moreover have "jo_state (fromRecord (f r)) = JBlocked" "jo_lastError (fromRecord (f r)) = Some ''VALIDATED_CAMPAIGN_REQUIRED''"
    using assms(4) by (simp_all add: f_def fromRecord_def assignRecord_def toRecord_def patchJob_def Let_def valueOr_def firstOf_def keptText_def)
  ultimately show ?thesis by (simp add: w')
qed

text \<open>
  A tick never runs a job to its end. Whatever a tick does, normally or with an error, it leaves runs,
  intents, attempts, receipts, reservations and the kill alone, and no job succeeds or fails in it that had not before.
\<close>

theorem tick_completes_no_job:
  assumes "quiet env" and "tick env input w = (r, w')"
  shows "sameRuns (ow_store w) (ow_store w') \<and> jobsIn {JSucceeded, JFailed} (ow_store w') \<subseteq> jobsIn {JSucceeded, JFailed} (ow_store w)"
  using work.world.followsD [OF work_tick [OF assms(1)] assms(2)] by (simp add: unworked_def)

section \<open>A service to run\<close>

definition demoService :: OrchEnv where
  "demoService = \<lparr>oe_app = demoApp, oe_redact = id, oe_schedulerIntervalMs = jint 1000, oe_reconciliationIntervalMs = jint 30000,
     oe_maxConcurrentJobs = jint 2, oe_dryRunOnly = True, oe_backupPath = True, oe_backupMaxAgeMs = None,
     oe_requireOffHostBackup = False, oe_killAlert = (\<lambda>_. returnS ()), oe_switchOffExpired = returnS (),
     oe_freshOccurrence = (\<lambda>_. ''kill-1'')\<rparr>"

definition demoRunning :: "RuntimeStatus \<Rightarrow> OrchWorld" where
  "demoRunning rt = \<lparr>ow_store = (demoBackend CCompleted)\<lparr>bs_jobs := bs_jobs demoJobs, bs_runtime := rt\<rparr>,
     ow_self = \<lparr>os_running = True, os_ticking = False, os_jobsSnapshot = [], os_killAlertRecorded = False,
       os_killAlertOccurrence = None, os_lastBackupObservation = None, os_backupOk = None, os_backupRecordedAt = None\<rparr>\<rparr>"

definition demoRuntime :: RuntimeStatus where
  "demoRuntime = bs_runtime (demoBackend CCompleted)"

definition demoTick :: "bool \<Rightarrow> TickInput" where
  "demoTick probe = \<lparr>tk_now = demoTime 900,
     tk_backup = Some \<lparr>bf_status = Some ''ok'', bf_recordedAt = Some (demoTime 500), bf_offHost = False, bf_remoteVerified = False\<rparr>,
     tk_probe = probe, tk_probeAgain = False\<rparr>"

lemma demo_quiet: "quiet demoService"
  by (simp add: quiet_def demoService_def leftAlone_def sameRuns_refl)

lemma demo_self: "os_running (ow_self (demoRunning rt))" "\<not> os_ticking (ow_self (demoRunning rt))"
  by (simp_all add: demoRunning_def)

theorem kill_blocks_tick_witness:
  "rt_startupState (runtimeOf (demoRunning demoRuntime)) = SReady
   \<and> blockedFor ''KILL_SWITCH_ENGAGED'' (runtimeOf (snd (tick demoService (demoTick True) (demoRunning demoRuntime))))"
proof -
  have "tickReady demoService (demoTick True) (demoRunning demoRuntime)" by code_simp
  moreover have "tk_probe (demoTick True)" by (simp add: demoTick_def)
  ultimately have "blockedFor ''KILL_SWITCH_ENGAGED'' (runtimeOf (snd (tick demoService (demoTick True) (demoRunning demoRuntime))))"
    using kill_blocks_tick [OF demo_quiet prod.collapse [symmetric] demo_self] by blast
  moreover have "rt_startupState (runtimeOf (demoRunning demoRuntime)) = SReady" by code_simp
  ultimately show ?thesis by blast
qed

text \<open>A service that a kill file had blocked, and that is ready after the file is gone.\<close>

definition demoKilled :: RuntimeStatus where
  "demoKilled = demoRuntime\<lparr>rt_startupState := SBlocked, rt_blockingReasons := [''KILL_SWITCH_ENGAGED'', ''BACKUP_NOT_READY'']\<rparr>"


theorem scheduled_dry_run_is_blocked_witness:
  "map jo_state (listJobs (ow_store (snd (runJob demoService (demoTick False) (hd (listJobs demoJobs)) (demoRunning demoRuntime))))) = [JBlocked, JScheduled]
   \<and> (\<exists>j. jo_lastError j = Some ''VALIDATED_CAMPAIGN_REQUIRED''
        \<and> find (\<lambda>j. jo_id j = jo_id (hd (listJobs demoJobs)))
            (listJobs (ow_store (snd (runJob demoService (demoTick False) (hd (listJobs demoJobs)) (demoRunning demoRuntime))))) = Some j)"
proof -
  let ?r = "runJob demoService (demoTick False) (hd (listJobs demoJobs)) (demoRunning demoRuntime)"
  have "is_ok (fst ?r)" by code_simp
  then have run: "?r = (Inr (), snd ?r)" by (auto simp: prod_eq_iff)
  have "jo_mode (hd (listJobs demoJobs)) = DryRun" by code_simp
  moreover have "oe_dryRunOnly demoService" "oe_redact demoService ''VALIDATED_CAMPAIGN_REQUIRED'' = ''VALIDATED_CAMPAIGN_REQUIRED''"
    by (simp_all add: demoService_def)
  moreover have "map jo_state (listJobs (ow_store (snd ?r))) = [JBlocked, JScheduled]" by code_simp
  ultimately show ?thesis using scheduled_dry_run_is_blocked [OF run] by blast
qed

theorem tick_completes_no_job_witness:
  "map jo_state (listJobs (ow_store (snd (tick demoService (demoTick False) (demoRunning demoRuntime))))) = [JBlocked, JBlocked]
   \<and> sameRuns (ow_store (demoRunning demoRuntime)) (ow_store (snd (tick demoService (demoTick False) (demoRunning demoRuntime))))"
proof -
  have "map jo_state (listJobs (ow_store (snd (tick demoService (demoTick False) (demoRunning demoRuntime))))) = [JBlocked, JBlocked]" by code_simp
  then show ?thesis using tick_completes_no_job [OF demo_quiet prod.collapse [symmetric]] by blast
qed

end
