(* ===== verification/Funding.thy ===== *)
theory Funding
  imports BackendTypes
begin

text \<open>
  The funding of a run and the reminder of left-over balances (\<^verbatim>\<open>packages/backend/src/fleet-funding.ts\<close>). Both
  are pure planning: the owner sends the funds. The plan of a run names for each wallet what is missing
  and the envelope that the balance control of \<open>Compensating\<close> is then configured with.

  \<^item> An object keyed by address is a list of pairs; the loop sets each key once.
  \<^item> The time of a step is a \<open>Clock\<close>: the number, and its text as \<^verbatim>\<open>toISOString\<close> writes it.
\<close>

section \<open>Balance ceilings\<close>

definition IDLE_WALLET_MAX_WEI :: wei where "IDLE_WALLET_MAX_WEI = 400000000000000"
definition IDLE_FLEET_MAX_WEI :: wei where "IDLE_FLEET_MAX_WEI = 2000000000000000"
definition RUN_ENVELOPE_WALLET_MAX_WEI :: wei where "RUN_ENVELOPE_WALLET_MAX_WEI = 4100000000000000"
definition RUN_ENVELOPE_FLEET_MAX_WEI :: wei where "RUN_ENVELOPE_FLEET_MAX_WEI = 8500000000000000"

definition chainBalanceCeiling :: BalanceCeiling where
  "chainBalanceCeiling = \<lparr>bl_walletMaxWei = IDLE_WALLET_MAX_WEI, bl_fleetMaxWei = IDLE_FLEET_MAX_WEI,
     bl_runEnvelopeMaxWei = Some RUN_ENVELOPE_WALLET_MAX_WEI, bl_runEnvelopeFleetMaxWei = Some RUN_ENVELOPE_FLEET_MAX_WEI\<rparr>"

definition DEFAULT_IDLE_BALANCE_CEILINGS :: "(int \<times> BalanceCeiling) list" where
  "DEFAULT_IDLE_BALANCE_CEILINGS = [(1, chainBalanceCeiling), (8453, chainBalanceCeiling), (4663, chainBalanceCeiling)]"

definition EXCESS_REMINDER_AFTER_MS :: int where "EXCESS_REMINDER_AFTER_MS = 24 * 60 * 60 * 1000"
definition FUNDING_ROUNDING_MARGIN_WEI :: wei where "FUNDING_ROUNDING_MARGIN_WEI = 1000000000000"

definition roundUpToDisplay :: "wei \<Rightarrow> wei" where
  "roundUpToDisplay n = ((n + FUNDING_ROUNDING_MARGIN_WEI - 1) sdiv FUNDING_ROUNDING_MARGIN_WEI) * FUNDING_ROUNDING_MARGIN_WEI"

section \<open>The plan of a run\<close>

record FundingWalletInput =
  fw_address :: address
  fw_balanceWei :: wei
  fw_requiredWei :: wei

record FundingPlanItem =
  fi_wallet :: address
  fi_balanceWei :: string
  fi_requiredWei :: string
  fi_envelopeWei :: string
  fi_topUpWei :: string

record FundingPlan =
  fp_chainId :: int
  fp_items :: "FundingPlanItem list"
  fp_totalTopUpWei :: string
  fp_runEnvelopeWei :: "(address \<times> string) list"
  fp_minimumBalanceWei :: "(address \<times> string) list"
  fp_blockers :: "string list"
  fp_ready :: bool

record FundingRequest =
  fq_chainId :: int
  fq_ceiling :: "BalanceCeiling option"
  fq_wallets :: "FundingWalletInput list"
  fq_marginWei :: "wei option"

text \<open>The loop's variables: the set \<^verbatim>\<open>seen\<close>, the two sums and the plan.\<close>

record FundingLoop =
  fo_seen :: "address list"
  fo_total :: wei
  fo_envelopeTotal :: wei
  fo_plan :: FundingPlan

definition walletBound :: "BalanceCeiling \<Rightarrow> wei" where
  "walletBound c = raisedBound (bl_runEnvelopeMaxWei c) (bl_walletMaxWei c)"

definition fleetBound :: "BalanceCeiling \<Rightarrow> wei" where
  "fleetBound c = raisedBound (bl_runEnvelopeFleetMaxWei c) (bl_fleetMaxWei c)"

definition envelopeOf :: "BalanceCeiling \<Rightarrow> wei \<Rightarrow> FundingWalletInput \<Rightarrow> wei" where
  "envelopeOf c margin w =
     (let padded = fw_requiredWei w + margin
      in if padded > walletBound c \<and> fw_requiredWei w \<le> walletBound c then walletBound c else padded)"

definition limitOf :: "BalanceCeiling \<Rightarrow> wei \<Rightarrow> FundingWalletInput \<Rightarrow> wei" where
  "limitOf c margin w =
     (if envelopeOf c margin w > bl_walletMaxWei c then envelopeOf c margin w else bl_walletMaxWei c)"

definition topUpOf :: "BalanceCeiling \<Rightarrow> wei \<Rightarrow> FundingWalletInput \<Rightarrow> wei" where
  "topUpOf c margin w =
     (let limit = limitOf c margin w;
          shortfall = (if fw_requiredWei w > fw_balanceWei w then roundUpToDisplay (fw_requiredWei w - fw_balanceWei w) else 0);
          room = (if limit > fw_balanceWei w then limit - fw_balanceWei w else 0)
      in if shortfall > room then room else shortfall)"

definition blockPlan :: "string \<Rightarrow> FundingPlan \<Rightarrow> FundingPlan" where
  "blockPlan reason plan = plan\<lparr>fp_blockers := fp_blockers plan @ [reason]\<rparr>"

definition walletBlockers :: "BalanceCeiling \<Rightarrow> wei \<Rightarrow> FundingWalletInput \<Rightarrow> string list" where
  "walletBlockers c margin w =
     (let a = toLowerCase (fw_address w)
      in (if fw_requiredWei w > walletBound c then [''RUN_ENVELOPE_ABOVE_CHAIN_BOUND:'' @ a] else [])
         @ (if fw_balanceWei w > limitOf c margin w then [''WALLET_ABOVE_RUN_ENVELOPE:'' @ a] else []))"

definition planItem :: "BalanceCeiling \<Rightarrow> wei \<Rightarrow> FundingWalletInput \<Rightarrow> FundingPlanItem" where
  "planItem c margin w =
     \<lparr>fi_wallet = toLowerCase (fw_address w), fi_balanceWei = show_int (fw_balanceWei w),
      fi_requiredWei = show_int (fw_requiredWei w), fi_envelopeWei = show_int (envelopeOf c margin w),
      fi_topUpWei = show_int (topUpOf c margin w)\<rparr>"

definition planWallet :: "BalanceCeiling \<Rightarrow> wei \<Rightarrow> FundingWalletInput \<Rightarrow> FundingLoop \<Rightarrow> FundingLoop" where
  "planWallet c margin w l =
     (let a = toLowerCase (fw_address w); plan = fo_plan l
      in if \<not> ADDRESS (fw_address w) then l\<lparr>fo_plan := blockPlan ''WALLET_ADDRESS_INVALID'' plan\<rparr>
         else if a \<in> set (fo_seen l) then l\<lparr>fo_plan := blockPlan (''DUPLICATE_WALLET:'' @ a) plan\<rparr>
         else if fw_requiredWei w \<le> 0 \<or> fw_balanceWei w < 0
         then l\<lparr>fo_seen := fo_seen l @ [a], fo_plan := blockPlan (''REQUIREMENT_INVALID:'' @ a) plan\<rparr>
         else \<lparr>fo_seen = fo_seen l @ [a], fo_total = fo_total l + topUpOf c margin w,
               fo_envelopeTotal = fo_envelopeTotal l + limitOf c margin w,
               fo_plan = plan\<lparr>fp_items := fp_items plan @ [planItem c margin w],
                 fp_runEnvelopeWei := fp_runEnvelopeWei plan @ [(a, show_int (envelopeOf c margin w))],
                 fp_minimumBalanceWei := fp_minimumBalanceWei plan @ [(a, show_int (fw_requiredWei w))],
                 fp_blockers := fp_blockers plan @ walletBlockers c margin w\<rparr>\<rparr>)"

definition emptyPlan :: "int \<Rightarrow> FundingPlan" where
  "emptyPlan chainId = \<lparr>fp_chainId = chainId, fp_items = [], fp_totalTopUpWei = ''0'', fp_runEnvelopeWei = [],
     fp_minimumBalanceWei = [], fp_blockers = [], fp_ready = False\<rparr>"

definition finishPlan :: "BalanceCeiling \<Rightarrow> FundingLoop \<Rightarrow> FundingPlan" where
  "finishPlan c l =
     (let plan = (if fo_envelopeTotal l > fleetBound c then blockPlan ''RUN_ENVELOPE_ABOVE_FLEET_BOUND'' (fo_plan l) else fo_plan l)
      in plan\<lparr>fp_totalTopUpWei := show_int (fo_total l), fp_ready := (fp_blockers plan = [] \<and> fo_total l = 0)\<rparr>)"

definition planRunFunding :: "FundingRequest \<Rightarrow> FundingPlan" where
  "planRunFunding q =
     (let plan = emptyPlan (fq_chainId q)
      in case fq_ceiling q of
           None \<Rightarrow> blockPlan ''NO_BALANCE_CEILING_FOR_CHAIN'' plan
         | Some c \<Rightarrow>
             if bl_walletMaxWei c \<le> 0 \<or> bl_fleetMaxWei c \<le> 0 then blockPlan ''NO_BALANCE_CEILING_FOR_CHAIN'' plan
             else if fq_wallets q = [] then blockPlan ''NO_WALLETS'' plan
             else (let margin = (case fq_marginWei q of None \<Rightarrow> FUNDING_ROUNDING_MARGIN_WEI | Some m \<Rightarrow> m)
                   in if margin < 0 then blockPlan ''MARGIN_INVALID'' plan
                      else finishPlan c (fold (planWallet c margin) (fq_wallets q)
                             \<lparr>fo_seen = [], fo_total = 0, fo_envelopeTotal = 0, fo_plan = plan\<rparr>)))"

definition describeTopUps :: "FundingPlan \<Rightarrow> (address \<times> string) list" where
  "describeTopUps plan =
     map (\<lambda>i. (fi_wallet i, fi_topUpWei i)) (filter (\<lambda>i. decimalValue 0 (fi_topUpWei i) > 0) (fp_items plan))"

section \<open>The reminder of left-over balances\<close>

record Clock =
  ck_text :: string
  ck_ms :: int

definition stampOf :: "Clock \<Rightarrow> Stamp" where
  "stampOf now = \<lparr>st_text = ck_text now, st_time = Some (ck_ms now)\<rparr>"

record ExcessState =
  ex_firstAboveAt :: "Stamp option"
  ex_activityKey :: "string option"
  ex_lastReminderAt :: "Stamp option"

record ExcessObservation =
  eo_address :: address
  eo_balanceWei :: wei
  eo_nonce :: int

record ExcessReminder =
  er_wallet :: address
  er_balanceWei :: string
  er_excessWei :: string
  er_idleMs :: int

record ExcessInput =
  xi_previous :: "address \<rightharpoonup> ExcessState"
  xi_observations :: "ExcessObservation list"
  xi_walletMaxWei :: wei
  xi_runActive :: bool
  xi_now :: Clock
  xi_afterMs :: "int option"

text \<open>The clock of a wallet: kept while it stays above the ceiling without activity, else started.\<close>

definition excessClock :: "ExcessInput \<Rightarrow> ExcessObservation \<Rightarrow> ExcessState" where
  "excessClock i x =
     (let key = show_int (eo_nonce x);
          fresh = \<lparr>ex_firstAboveAt = Some (stampOf (xi_now i)), ex_activityKey = Some key, ex_lastReminderAt = None\<rparr>
      in case xi_previous i (toLowerCase (eo_address x)) of
           None \<Rightarrow> fresh
         | Some previous \<Rightarrow>
             if ex_firstAboveAt previous = None \<or> ex_activityKey previous \<noteq> Some key then fresh else previous)"

definition reminderDue :: "ExcessInput \<Rightarrow> ExcessState \<Rightarrow> int option" where
  "reminderDue i s =
     (let afterMs = (case xi_afterMs i of None \<Rightarrow> EXCESS_REMINDER_AFTER_MS | Some n \<Rightarrow> n); now = ck_ms (xi_now i)
      in case Option.bind (ex_firstAboveAt s) st_time of
           None \<Rightarrow> None
         | Some first \<Rightarrow>
             if now - first \<ge> afterMs
                \<and> (case Option.bind (ex_lastReminderAt s) st_time of None \<Rightarrow> True | Some latest \<Rightarrow> now - latest \<ge> afterMs)
             then Some (now - first) else None)"

fun stepExcess ::
  "ExcessInput \<Rightarrow> ExcessObservation list \<Rightarrow> (address \<rightharpoonup> ExcessState) \<times> ExcessReminder list \<Rightarrow>
     (address \<rightharpoonup> ExcessState) \<times> ExcessReminder list" where
  "stepExcess i [] (nxt, reminders) = (nxt, reminders)"
| "stepExcess i (x # xs) (nxt, reminders) =
     (let a = toLowerCase (eo_address x); s = excessClock i x
      in if \<not> ADDRESS a \<or> xi_runActive i \<or> eo_balanceWei x \<le> xi_walletMaxWei i then stepExcess i xs (nxt, reminders)
         else (case reminderDue i s of
                 None \<Rightarrow> stepExcess i xs (nxt(a \<mapsto> s), reminders)
               | Some idle \<Rightarrow>
                   stepExcess i xs
                     (nxt(a \<mapsto> s\<lparr>ex_lastReminderAt := Some (stampOf (xi_now i))\<rparr>),
                      reminders @ [\<lparr>er_wallet = a, er_balanceWei = show_int (eo_balanceWei x),
                        er_excessWei = show_int (eo_balanceWei x - xi_walletMaxWei i), er_idleMs = idle\<rparr>])))"

definition stepExcessTracker :: "ExcessInput \<Rightarrow> (address \<rightharpoonup> ExcessState) \<times> ExcessReminder list" where
  "stepExcessTracker i = stepExcess i (xi_observations i) (\<lambda>_. None, [])"

section \<open>Decimal texts\<close>

lemma digit_isDigit: "d < 10 \<Longrightarrow> isDigit (digit_char d)"
  by (simp add: isDigit_def digit_char_def)

lemma show_nat_digits: "list_all isDigit (show_nat n)"
proof (induction n rule: show_nat.induct)
  case (1 n)
  then show ?case by (cases "n < 10") (auto simp: show_nat.simps [of n] digit_isDigit)
qed

lemma decimalValue_snoc: "decimalValue acc (xs @ [c]) = decimalValue acc xs * 10 + (int (of_char c) - 48)"
  by (induction xs arbitrary: acc) auto

lemma decimalValue_show: "decimalValue 0 (show_nat n) = int n"
proof (induction n rule: show_nat.induct)
  case (1 n)
  have "int (n div 10) * 10 + int (n mod 10) = int n"
    by (metis div_mult_mod_eq of_nat_add of_nat_mult of_nat_numeral)
  with 1 show ?case
    by (cases "n < 10") (auto simp: show_nat.simps [of n] decimalValue_snoc digit_char_def)
qed

lemma show_nat_length: "n < 10 ^ Suc k \<Longrightarrow> length (show_nat n) \<le> Suc k"
proof (induction k arbitrary: n)
  case 0
  then show ?case by (simp add: show_nat.simps [of n])
next
  case (Suc k)
  then have "n div 10 < 10 ^ Suc k" by (simp add: div_less_iff_less_mult mult.commute)
  from Suc.IH [OF this] show ?case by (simp add: show_nat.simps [of n])
qed

lemma bigintOf_show: "0 \<le> n \<Longrightarrow> n < 10 ^ 40 \<Longrightarrow> bigintOf (Some (show_int n)) = Some n"
proof -
  assume n: "0 \<le> n" "n < 10 ^ 40"
  then have "nat n < 10 ^ Suc 39" by (simp add: nat_less_iff)
  from show_nat_length [OF this] have "length (show_nat (nat n)) \<le> 40" by simp
  moreover have "1 \<le> length (show_nat (nat n))" by (simp add: Suc_le_eq)
  ultimately show ?thesis using n by (simp add: bigintOf_def DECIMAL_def show_int_def show_nat_digits decimalValue_show)
qed

lemma decimalValue_show_int: "0 \<le> n \<Longrightarrow> decimalValue 0 (show_int n) = n"
  by (simp add: show_int_def decimalValue_show)

section \<open>Plans without blockers\<close>

abbreviation fundingKey :: "FundingWalletInput \<Rightarrow> address" where
  "fundingKey w \<equiv> toLowerCase (fw_address w)"

definition walletOk :: "BalanceCeiling \<Rightarrow> wei \<Rightarrow> FundingWalletInput \<Rightarrow> bool" where
  "walletOk c m w \<longleftrightarrow> ADDRESS (fw_address w) \<and> 0 < fw_requiredWei w \<and> 0 \<le> fw_balanceWei w
     \<and> fw_requiredWei w \<le> walletBound c \<and> fw_balanceWei w \<le> limitOf c m w"

lemma planWallet_clean:
  "fp_blockers (fo_plan (planWallet c m w l)) = [] \<longleftrightarrow>
     fp_blockers (fo_plan l) = [] \<and> fundingKey w \<notin> set (fo_seen l) \<and> walletOk c m w"
  by (auto simp: planWallet_def Let_def blockPlan_def walletBlockers_def walletOk_def)

lemma planWallet_ok:
  assumes "walletOk c m w" and "fundingKey w \<notin> set (fo_seen l)"
  shows "fo_seen (planWallet c m w l) = fo_seen l @ [fundingKey w]"
    and "fo_total (planWallet c m w l) = fo_total l + topUpOf c m w"
    and "fo_envelopeTotal (planWallet c m w l) = fo_envelopeTotal l + limitOf c m w"
    and "fp_items (fo_plan (planWallet c m w l)) = fp_items (fo_plan l) @ [planItem c m w]"
    and "fp_runEnvelopeWei (fo_plan (planWallet c m w l)) = fp_runEnvelopeWei (fo_plan l) @ [(fundingKey w, show_int (envelopeOf c m w))]"
    and "fp_minimumBalanceWei (fo_plan (planWallet c m w l)) = fp_minimumBalanceWei (fo_plan l) @ [(fundingKey w, show_int (fw_requiredWei w))]"
  using assms by (simp_all add: planWallet_def walletOk_def Let_def)

lemma planWallets_clean:
  "fp_blockers (fo_plan (fold (planWallet c m) ws l)) = [] \<longleftrightarrow>
     fp_blockers (fo_plan l) = [] \<and> list_all (walletOk c m) ws \<and> distinct (map fundingKey ws)
     \<and> set (map fundingKey ws) \<inter> set (fo_seen l) = {}"
proof (induction ws arbitrary: l)
  case (Cons w ws)
  show ?case
  proof (cases "walletOk c m w \<and> fundingKey w \<notin> set (fo_seen l)")
    case True
    then show ?thesis using Cons.IH [of "planWallet c m w l"] by (auto simp: planWallet_clean planWallet_ok)
  next
    case False
    then show ?thesis using Cons.IH [of "planWallet c m w l"] by (auto simp: planWallet_clean)
  qed
qed simp

lemma planWallets_ok:
  assumes "list_all (walletOk c m) ws" and "distinct (map fundingKey ws)" and "set (map fundingKey ws) \<inter> set (fo_seen l) = {}"
  shows "fo_total (fold (planWallet c m) ws l) = fo_total l + sum_list (map (topUpOf c m) ws)
    \<and> fo_envelopeTotal (fold (planWallet c m) ws l) = fo_envelopeTotal l + sum_list (map (limitOf c m) ws)
    \<and> fp_items (fo_plan (fold (planWallet c m) ws l)) = fp_items (fo_plan l) @ map (planItem c m) ws
    \<and> fp_runEnvelopeWei (fo_plan (fold (planWallet c m) ws l))
      = fp_runEnvelopeWei (fo_plan l) @ map (\<lambda>w. (fundingKey w, show_int (envelopeOf c m w))) ws
    \<and> fp_minimumBalanceWei (fo_plan (fold (planWallet c m) ws l))
      = fp_minimumBalanceWei (fo_plan l) @ map (\<lambda>w. (fundingKey w, show_int (fw_requiredWei w))) ws"
  using assms
proof (induction ws arbitrary: l)
  case (Cons w ws)
  then have one: "walletOk c m w" "fundingKey w \<notin> set (fo_seen l)" by auto
  from Cons.prems have "set (map fundingKey ws) \<inter> set (fo_seen (planWallet c m w l)) = {}"
    by (auto simp: planWallet_ok [OF one])
  with Cons.prems Cons.IH [of "planWallet c m w l"] show ?case by (simp add: planWallet_ok [OF one])
qed simp

definition marginOf :: "FundingRequest \<Rightarrow> wei" where
  "marginOf q = (case fq_marginWei q of None \<Rightarrow> FUNDING_ROUNDING_MARGIN_WEI | Some m \<Rightarrow> m)"

definition requestOk :: "FundingRequest \<Rightarrow> BalanceCeiling \<Rightarrow> bool" where
  "requestOk q c \<longleftrightarrow> 0 < bl_walletMaxWei c \<and> 0 < bl_fleetMaxWei c \<and> fq_wallets q \<noteq> [] \<and> 0 \<le> marginOf q
     \<and> list_all (walletOk c (marginOf q)) (fq_wallets q) \<and> distinct (map fundingKey (fq_wallets q))
     \<and> sum_list (map (limitOf c (marginOf q)) (fq_wallets q)) \<le> fleetBound c"

lemma plan_clean:
  "fp_blockers (planRunFunding q) = [] \<longleftrightarrow> (\<exists>c. fq_ceiling q = Some c \<and> requestOk q c)"
proof (cases "fq_ceiling q")
  case None
  then show ?thesis by (simp add: planRunFunding_def blockPlan_def Let_def)
next
  case (Some c)
  define l where "l = fold (planWallet c (marginOf q)) (fq_wallets q)
    \<lparr>fo_seen = [], fo_total = 0, fo_envelopeTotal = 0, fo_plan = emptyPlan (fq_chainId q)\<rparr>"
  have clean: "fp_blockers (fo_plan l) = [] \<longleftrightarrow> list_all (walletOk c (marginOf q)) (fq_wallets q) \<and> distinct (map fundingKey (fq_wallets q))"
    by (simp add: l_def planWallets_clean emptyPlan_def)
  have total: "fo_envelopeTotal l = sum_list (map (limitOf c (marginOf q)) (fq_wallets q))" if "fp_blockers (fo_plan l) = []"
    using that clean planWallets_ok [of c "marginOf q" "fq_wallets q"] by (simp add: l_def)
  have "fp_blockers (finishPlan c l) = [] \<longleftrightarrow> fp_blockers (fo_plan l) = [] \<and> fo_envelopeTotal l \<le> fleetBound c"
    by (auto simp: finishPlan_def Let_def blockPlan_def)
  with clean total Some show ?thesis
    by (auto simp: planRunFunding_def blockPlan_def Let_def requestOk_def marginOf_def [symmetric] l_def [symmetric])
qed

lemma plan_of_clean:
  assumes "fq_ceiling q = Some c" and "requestOk q c"
  shows "fp_ready (planRunFunding q) \<longleftrightarrow> sum_list (map (topUpOf c (marginOf q)) (fq_wallets q)) = 0"
    and "fp_items (planRunFunding q) = map (planItem c (marginOf q)) (fq_wallets q)"
    and "fp_runEnvelopeWei (planRunFunding q)
      = map (\<lambda>w. (fundingKey w, show_int (envelopeOf c (marginOf q) w))) (fq_wallets q)"
    and "fp_minimumBalanceWei (planRunFunding q) = map (\<lambda>w. (fundingKey w, show_int (fw_requiredWei w))) (fq_wallets q)"
proof -
  define l where "l = fold (planWallet c (marginOf q)) (fq_wallets q)
    \<lparr>fo_seen = [], fo_total = 0, fo_envelopeTotal = 0, fo_plan = emptyPlan (fq_chainId q)\<rparr>"
  have clean: "fp_blockers (fo_plan l) = []" using assms(2) by (simp add: l_def planWallets_clean emptyPlan_def requestOk_def)
  have plan: "planRunFunding q = finishPlan c l"
    using assms by (simp add: planRunFunding_def requestOk_def marginOf_def [symmetric] l_def Let_def)
  from assms(2) planWallets_ok [of c "marginOf q" "fq_wallets q"]
  have parts: "fo_total l = sum_list (map (topUpOf c (marginOf q)) (fq_wallets q))"
    "fo_envelopeTotal l = sum_list (map (limitOf c (marginOf q)) (fq_wallets q))"
    "fp_items (fo_plan l) = map (planItem c (marginOf q)) (fq_wallets q)"
    "fp_runEnvelopeWei (fo_plan l) = map (\<lambda>w. (fundingKey w, show_int (envelopeOf c (marginOf q) w))) (fq_wallets q)"
    "fp_minimumBalanceWei (fo_plan l) = map (\<lambda>w. (fundingKey w, show_int (fw_requiredWei w))) (fq_wallets q)"
    by (simp_all add: l_def requestOk_def emptyPlan_def)
  have fits: "\<not> fo_envelopeTotal l > fleetBound c" using assms(2) parts(2) by (simp add: requestOk_def)
  show "fp_ready (planRunFunding q) \<longleftrightarrow> sum_list (map (topUpOf c (marginOf q)) (fq_wallets q)) = 0"
    and "fp_items (planRunFunding q) = map (planItem c (marginOf q)) (fq_wallets q)"
    and "fp_runEnvelopeWei (planRunFunding q)
      = map (\<lambda>w. (fundingKey w, show_int (envelopeOf c (marginOf q) w))) (fq_wallets q)"
    and "fp_minimumBalanceWei (planRunFunding q) = map (\<lambda>w. (fundingKey w, show_int (fw_requiredWei w))) (fq_wallets q)"
    using fits clean parts by (simp_all add: plan finishPlan_def Let_def)
qed


section \<open>Paying a plan\<close>

text \<open>A wallet after the owner has sent it what the plan asks for.\<close>

definition received :: "FundingPlan \<Rightarrow> FundingWalletInput \<Rightarrow> FundingWalletInput" where
  "received plan w =
     w\<lparr>fw_balanceWei := fw_balanceWei w + (case map_of (describeTopUps plan) (fundingKey w) of None \<Rightarrow> 0 | Some t \<Rightarrow> decimalValue 0 t)\<rparr>"

definition paidRequest :: "FundingRequest \<Rightarrow> FundingRequest" where
  "paidRequest q = q\<lparr>fq_wallets := map (received (planRunFunding q)) (fq_wallets q)\<rparr>"

lemma roundUp_ge: "0 \<le> n \<Longrightarrow> n \<le> roundUpToDisplay n"
  using ceil_div_ge [of FUNDING_ROUNDING_MARGIN_WEI n]
  by (simp add: roundUpToDisplay_def sdiv_nonneg FUNDING_ROUNDING_MARGIN_WEI_def)

lemma required_within_limit: "walletOk c m w \<Longrightarrow> 0 \<le> m \<Longrightarrow> fw_requiredWei w \<le> limitOf c m w"
  by (auto simp: walletOk_def limitOf_def envelopeOf_def Let_def)

lemma limit_within_bound: "walletOk c m w \<Longrightarrow> limitOf c m w \<le> walletBound c"
  by (auto simp: walletOk_def limitOf_def envelopeOf_def Let_def walletBound_def raisedBound_def split: option.splits)

lemma topUp_facts:
  assumes "walletOk c m w" and "0 \<le> m"
  shows "0 \<le> topUpOf c m w" and "fw_requiredWei w \<le> fw_balanceWei w + topUpOf c m w"
    and "fw_balanceWei w + topUpOf c m w \<le> limitOf c m w"
proof -
  have within: "fw_requiredWei w \<le> limitOf c m w" "fw_balanceWei w \<le> limitOf c m w"
    using required_within_limit [OF assms] assms(1) by (auto simp: walletOk_def)
  have up: "fw_requiredWei w - fw_balanceWei w \<le> roundUpToDisplay (fw_requiredWei w - fw_balanceWei w)"
    if "fw_balanceWei w < fw_requiredWei w"
    using that by (intro roundUp_ge) simp
  show "0 \<le> topUpOf c m w" and "fw_requiredWei w \<le> fw_balanceWei w + topUpOf c m w"
    and "fw_balanceWei w + topUpOf c m w \<le> limitOf c m w"
    using within up by (auto simp: topUpOf_def Let_def)
qed

lemma key_differs:
  assumes "distinct (map f (x # xs))" and "y \<in> set xs"
  shows "f y \<noteq> f x"
proof -
  have "f y \<in> f ` set xs" using assms(2) by (rule imageI)
  with assms(1) show ?thesis by (simp del: image_iff) metis
qed

lemma topUp_asked:
  assumes "distinct (map fundingKey ws)" and "w \<in> set ws" and "\<forall>w\<in>set ws. 0 \<le> topUpOf c m w"
  shows "(case map_of (map (\<lambda>i. (fi_wallet i, fi_topUpWei i))
              (filter (\<lambda>i. decimalValue 0 (fi_topUpWei i) > 0) (map (planItem c m) ws))) (fundingKey w) of
            None \<Rightarrow> 0 | Some t \<Rightarrow> decimalValue 0 t) = topUpOf c m w"
  using assms
proof (induction ws)
  case (Cons x ws)
  have none: "map_of (map (\<lambda>i. (fi_wallet i, fi_topUpWei i))
      (filter (\<lambda>i. decimalValue 0 (fi_topUpWei i) > 0) (map (planItem c m) ws))) (fundingKey x) = None"
    using Cons.prems(1) by (force simp: map_of_eq_None_iff planItem_def)
  have x: "fi_wallet (planItem c m x) = fundingKey x" "decimalValue 0 (fi_topUpWei (planItem c m x)) = topUpOf c m x"
    using Cons.prems(3) by (simp_all add: planItem_def decimalValue_show_int)
  show ?case
  proof (cases "w = x")
    case True
    then show ?thesis using none x Cons.prems(3) by auto
  next
    case False
    then have w: "w \<in> set ws" using Cons.prems by simp
    note key_differs [OF Cons.prems(1) this]
    with w Cons show ?thesis by (simp add: x)
  qed
qed simp

lemma received_clean:
  assumes "fq_ceiling q = Some c" and "requestOk q c" and "w \<in> set (fq_wallets q)"
  shows "received (planRunFunding q) w = w\<lparr>fw_balanceWei := fw_balanceWei w + topUpOf c (marginOf q) w\<rparr>"
proof -
  have "\<forall>w\<in>set (fq_wallets q). 0 \<le> topUpOf c (marginOf q) w"
    using assms(2) topUp_facts(1) [of c "marginOf q"] by (auto simp: requestOk_def list_all_iff)
  from topUp_asked [OF _ assms(3) this] assms show ?thesis
    by (simp add: received_def describeTopUps_def plan_of_clean requestOk_def)
qed

lemma limit_received [simp]: "limitOf c m (w\<lparr>fw_balanceWei := b\<rparr>) = limitOf c m w"
  by (simp add: limitOf_def envelopeOf_def)

lemma paid_plan_ready:
  assumes "fq_ceiling q = Some c" and "requestOk q c"
  shows "requestOk (paidRequest q) c" and "fp_ready (planRunFunding (paidRequest q))"
proof -
  let ?m = "marginOf q"
  let ?w = "\<lambda>w. w\<lparr>fw_balanceWei := fw_balanceWei w + topUpOf c ?m w\<rparr>"
  have ws: "fq_wallets (paidRequest q) = map ?w (fq_wallets q)"
    using received_clean [OF assms] by (simp add: paidRequest_def)
  have m: "marginOf (paidRequest q) = ?m" "0 \<le> ?m" using assms(2) by (simp_all add: paidRequest_def marginOf_def requestOk_def)
  have ok: "walletOk c ?m (?w w)" and none: "topUpOf c ?m (?w w) = 0" if "w \<in> set (fq_wallets q)" for w
  proof -
    have w: "walletOk c ?m w" using assms(2) that by (auto simp: requestOk_def list_all_iff)
    note t = topUp_facts [OF w m(2)]
    show "walletOk c ?m (?w w)" using w t by (simp add: walletOk_def)
    show "topUpOf c ?m (?w w) = 0" using t by (simp add: topUpOf_def Let_def)
  qed
  show good: "requestOk (paidRequest q) c"
    using assms(2) ok by (simp add: requestOk_def ws m list_all_iff o_def)
  have "sum_list (map (topUpOf c ?m) (map ?w (fq_wallets q))) = 0"
    using none by (simp add: o_def cong: map_cong)
  then show "fp_ready (planRunFunding (paidRequest q))"
    using assms(1) plan_of_clean(1) [OF _ good] by (simp add: ws m) (simp add: paidRequest_def)
qed

section \<open>The balance control\<close>

lemma observeWallets_accept:
  assumes "\<forall>w\<in>set ws. ADDRESS (wb_address w) \<and> bigintOf (Some (wb_balanceWei w)) = Some (balanceOf w)
      \<and> balanceOf w \<le> walletLimitFor config limits (toLowerCase (wb_address w))
      \<and> (\<exists>m. bigintOf (dictLookup (ac_minimumBalanceWei config) (toLowerCase (wb_address w))) = Some m \<and> m \<le> balanceOf w)"
    and "distinct (map (\<lambda>w. toLowerCase (wb_address w)) ws)"
    and "set (map (\<lambda>w. toLowerCase (wb_address w)) ws) \<inter> set seen = {}"
  shows "observeWallets config limits ws seen fleet =
    Inr (seen @ map (\<lambda>w. toLowerCase (wb_address w)) ws, fleet + sum_list (map balanceOf ws))"
  using assms
proof (induction ws arbitrary: seen fleet)
  case (Cons w ws)
  then have w: "ADDRESS (wb_address w)" "toLowerCase (wb_address w) \<notin> set seen" "bigintOf (Some (wb_balanceWei w)) = Some (balanceOf w)"
    "balanceOf w \<le> walletLimitFor config limits (toLowerCase (wb_address w))"
    "\<exists>m. bigintOf (dictLookup (ac_minimumBalanceWei config) (toLowerCase (wb_address w))) = Some m \<and> m \<le> balanceOf w" by auto
  from Cons.prems have "set (map (\<lambda>w. toLowerCase (wb_address w)) ws) \<inter> set (seen @ [toLowerCase (wb_address w)]) = {}" by auto
  with Cons.IH [of "seen @ [toLowerCase (wb_address w)]" "fleet + balanceOf w"] Cons.prems w show ?case
    by (auto simp: Let_def)
qed simp

lemma map_of_wallet:
  assumes "distinct (map key ws)" and "w \<in> set ws"
  shows "map_of (map (\<lambda>w. (key w, f w)) ws) (key w) = Some (f w)"
  using assms
proof (induction ws)
  case (Cons x ws)
  then show ?case using key_differs [of key x ws w] by (cases "w = x") auto
qed simp

definition observedAs :: "FundingWalletInput \<Rightarrow> WalletBalance" where
  "observedAs w = \<lparr>wb_address = fw_address w, wb_balanceWei = show_int (fw_balanceWei w)\<rparr>"

lemma walletLimit_of_plan:
  assumes "walletOk c m w" and "walletBound c < 10 ^ 40" and "0 \<le> m"
    and "dictLookup (ac_runEnvelopeWei config) (fundingKey w) = Some (show_int (envelopeOf c m w))"
  shows "walletLimitFor config c (fundingKey w) = limitOf c m w"
proof -
  have "0 \<le> envelopeOf c m w" "envelopeOf c m w \<le> walletBound c"
    using assms(1,3) by (auto simp: walletOk_def envelopeOf_def Let_def)
  with assms(2) have b: "bigintOf (Some (show_int (envelopeOf c m w))) = Some (envelopeOf c m w)" and "envelopeOf c m w \<le> walletBound c"
    by (auto intro: bigintOf_show)
  then show ?thesis by (auto simp: walletLimitFor_def assms(4) limitOf_def walletBound_def [symmetric] Let_def)
qed


lemma paid_wallet:
  assumes "fq_ceiling q = Some c" and "requestOk q c" and "w \<in> set (fq_wallets (paidRequest q))"
  shows "walletOk c (marginOf q) w" and "fw_requiredWei w \<le> fw_balanceWei w"
    and "map_of (fp_runEnvelopeWei (planRunFunding q)) (fundingKey w) = Some (show_int (envelopeOf c (marginOf q) w))"
    and "map_of (fp_minimumBalanceWei (planRunFunding q)) (fundingKey w) = Some (show_int (fw_requiredWei w))"
proof -
  let ?m = "marginOf q"
  have m: "marginOf (paidRequest q) = ?m" "0 \<le> ?m" using assms(2) by (simp_all add: paidRequest_def marginOf_def requestOk_def)
  show "walletOk c ?m w" using paid_plan_ready(1) [OF assms(1,2)] assms(3) by (simp add: requestOk_def m list_all_iff)
  from assms(3) obtain v where v: "v \<in> set (fq_wallets q)" "w = v\<lparr>fw_balanceWei := fw_balanceWei v + topUpOf c ?m v\<rparr>"
    using received_clean [OF assms(1,2)] by (auto simp: paidRequest_def)
  then have "walletOk c ?m v" using assms(2) by (auto simp: requestOk_def list_all_iff)
  from topUp_facts(2) [OF this m(2)] v(2) show "fw_requiredWei w \<le> fw_balanceWei w" by simp
  have key: "fundingKey w = fundingKey v" "envelopeOf c ?m w = envelopeOf c ?m v" "fw_requiredWei w = fw_requiredWei v"
    by (simp_all add: v(2) envelopeOf_def)
  have "distinct (map fundingKey (fq_wallets q))" using assms(2) by (simp add: requestOk_def)
  note look = map_of_wallet [OF this v(1)]
  show "map_of (fp_runEnvelopeWei (planRunFunding q)) (fundingKey w) = Some (show_int (envelopeOf c ?m w))"
    and "map_of (fp_minimumBalanceWei (planRunFunding q)) (fundingKey w) = Some (show_int (fw_requiredWei w))"
    by (simp_all add: plan_of_clean [OF assms(1,2)] key look)
qed

lemma limits_of_plan:
  assumes "requestOk q c" and "walletBound c < 10 ^ 40" and "ac_runEnvelopeWei config = Some (fp_runEnvelopeWei (planRunFunding q))"
    and "fq_ceiling q = Some c"
  shows "map (walletLimitFor config c) (map fundingKey (fq_wallets (paidRequest q)))
    = map (limitOf c (marginOf q)) (fq_wallets (paidRequest q))"
proof -
  have m0: "0 \<le> marginOf q" using assms(1) by (simp add: requestOk_def)
  show ?thesis
    using paid_wallet [OF assms(4,1)]
    by (auto simp: dictLookup_def assms(3) intro!: walletLimit_of_plan assms(2) m0)
qed

lemma observed_plan:
  assumes "requestOk q c" and "walletBound c < 10 ^ 40" and "ac_runEnvelopeWei config = Some (fp_runEnvelopeWei (planRunFunding q))"
    and "ac_minimumBalanceWei config = Some (fp_minimumBalanceWei (planRunFunding q))" and "fq_ceiling q = Some c"
  shows "observeWallets config c (map observedAs (fq_wallets (paidRequest q))) [] 0
    = Inr (map fundingKey (fq_wallets (paidRequest q)), sum_list (map fw_balanceWei (fq_wallets (paidRequest q))))"
proof -
  let ?ws = "fq_wallets (paidRequest q)"
  have limits: "walletLimitFor config c (fundingKey w) = limitOf c (marginOf q) w" if "w \<in> set ?ws" for w
    using limits_of_plan [OF assms(1,2,3,5)] that by (simp add: map_eq_conv)
  have w: "bigintOf (Some (show_int (fw_balanceWei w))) = Some (fw_balanceWei w)" "ADDRESS (fw_address w)"
    "fw_balanceWei w \<le> walletLimitFor config c (fundingKey w)"
    "bigintOf (Some (show_int (fw_requiredWei w))) = Some (fw_requiredWei w)"
    if "w \<in> set ?ws" for w
  proof -
    note ok = paid_wallet(1) [OF assms(5,1) that]
    have "fw_balanceWei w \<le> walletBound c" "fw_requiredWei w \<le> walletBound c" "0 \<le> fw_balanceWei w" "0 \<le> fw_requiredWei w"
      using ok limit_within_bound [OF ok] by (auto simp: walletOk_def)
    with assms(2) show "bigintOf (Some (show_int (fw_balanceWei w))) = Some (fw_balanceWei w)"
      "bigintOf (Some (show_int (fw_requiredWei w))) = Some (fw_requiredWei w)"
      by (auto intro!: bigintOf_show)
    show "ADDRESS (fw_address w)" "fw_balanceWei w \<le> walletLimitFor config c (fundingKey w)"
      using ok limits [OF that] by (auto simp: walletOk_def)
  qed
  have balance: "balanceOf (observedAs w) = fw_balanceWei w" if "w \<in> set ?ws" for w
    using w(1) [OF that] by (simp add: balanceOf_def observedAs_def)
  have "distinct (map fundingKey ?ws)"
    using paid_plan_ready(1) [OF assms(5,1)] by (simp add: requestOk_def)
  then have "distinct (map (\<lambda>w. toLowerCase (wb_address w)) (map observedAs ?ws))" by (simp add: observedAs_def o_def)
  moreover have "\<forall>w\<in>set (map observedAs ?ws). ADDRESS (wb_address w) \<and> bigintOf (Some (wb_balanceWei w)) = Some (balanceOf w)
      \<and> balanceOf w \<le> walletLimitFor config c (toLowerCase (wb_address w))
      \<and> (\<exists>m. bigintOf (dictLookup (ac_minimumBalanceWei config) (toLowerCase (wb_address w))) = Some m \<and> m \<le> balanceOf w)"
    using w balance paid_wallet(2,4) [OF assms(5,1)] by (auto simp: observedAs_def dictLookup_def assms(4))
  moreover have "map balanceOf (map observedAs ?ws) = map fw_balanceWei ?ws" using balance by simp
  ultimately show ?thesis
    by (simp only: observeWallets_accept set_simps Int_empty_right) (simp add: observedAs_def o_def)
qed

text \<open>
  C24. Paying a funding plan funds the run. When the plan of a run has no blockers and the owner sends
  each wallet exactly what the plan asks for, planning again asks for nothing more and reports ready;
  and the balance control of the compensating controls, configured with the envelopes and minima of
  the plan, accepts these balances: no wallet is over its limit, none is short, and the fleet is within
  its limit. The control reads balances of at most 40 digits.
\<close>

theorem paid_plan_funds_run:
  assumes clean: "fp_blockers (planRunFunding q) = []"
    and ceiling: "ceilingFor config (cc_chainId evidence) = fq_ceiling q"
    and small: "\<forall>c. fq_ceiling q = Some c \<longrightarrow> walletBound c < 10 ^ 40"
    and envelopes: "ac_runEnvelopeWei config = Some (fp_runEnvelopeWei (planRunFunding q))"
    and minima: "ac_minimumBalanceWei config = Some (fp_minimumBalanceWei (planRunFunding q))"
    and balances: "cc_balances evidence = Some b" "ob_wallets b = map observedAs (fq_wallets (paidRequest q))"
    and fresh: "\<not> staleObservation (ob_observedAt b) (ob_expiresAt b) now"
    and digest: "computeWalletSetDigest sha256 (map fundingKey (fq_wallets q))
      = Inr (toLowerCase (xd_walletSetDigest (ac_expected config)))"
  shows "fp_ready (planRunFunding (paidRequest q)) \<and> checkBalances sha256 evidence config now = Inr None"
proof -
  from clean obtain c where c: "fq_ceiling q = Some c" and ok: "requestOk q c" by (auto simp: plan_clean)
  let ?m = "marginOf q" and ?ws = "fq_wallets (paidRequest q)"
  note paid = paid_plan_ready [OF c ok]
  have m: "marginOf (paidRequest q) = ?m" and m0: "0 \<le> ?m"
    using ok by (simp_all add: paidRequest_def marginOf_def requestOk_def)
  have keys: "map fundingKey ?ws = map fundingKey (fq_wallets q)" by (simp add: paidRequest_def received_def)
  have accepted: "observeWallets config c (map observedAs ?ws) [] 0
    = Inr (map fundingKey ?ws, sum_list (map fw_balanceWei ?ws))"
    by (rule observed_plan [OF ok small [rule_format, OF c] envelopes minima c])
  have limits: "map (walletLimitFor config c) (map fundingKey ?ws) = map (limitOf c ?m) ?ws"
    by (rule limits_of_plan [OF ok small [rule_format, OF c] envelopes c])
  have "sum_list (map fw_balanceWei ?ws) \<le> sum_list (map (limitOf c ?m) ?ws)"
    using paid(1) by (intro sum_list_mono) (auto simp: requestOk_def m list_all_iff walletOk_def)
  moreover have "sum_list (map (limitOf c ?m) ?ws) \<le> fleetBound c" using paid(1) by (simp add: requestOk_def m)
  ultimately have "sum_list (map fw_balanceWei ?ws) \<le> observedFleetLimit config c (map fundingKey ?ws)"
    by (simp only: observedFleetLimit_def envelopes limits fleetBound_def [symmetric] Let_def option.simps) auto
  moreover have "map observedAs ?ws \<noteq> []" "\<not> bl_walletMaxWei c \<le> 0" "\<not> bl_fleetMaxWei c \<le> 0"
    using paid(1) by (simp_all add: requestOk_def)
  ultimately have "checkBalances sha256 evidence config now = Inr None"
    using accepted fresh digest by (simp add: checkBalances_def ceiling c balances keys)
  with paid(2) show ?thesis by simp
qed


definition demoFunding :: FundingRequest where
  "demoFunding = \<lparr>fq_chainId = 1, fq_ceiling = Some demoLimits,
     fq_wallets = [\<lparr>fw_address = demoAddress ''0x1'', fw_balanceWei = 5, fw_requiredWei = 10\<rparr>], fq_marginWei = Some 3\<rparr>"

definition demoFundingConfig :: CompensatingAssuranceConfig where
  "demoFundingConfig = (ax_config demoAssurance)\<lparr>ac_runEnvelopeWei := Some (fp_runEnvelopeWei (planRunFunding demoFunding)),
     ac_minimumBalanceWei := Some (fp_minimumBalanceWei (planRunFunding demoFunding))\<rparr>"

definition demoFunded :: CompensatingControlsEvidence where
  "demoFunded = demoControls\<lparr>cc_balances := Some \<lparr>ob_observedAt = Some 500, ob_expiresAt = Some 2000,
     ob_wallets = map observedAs (fq_wallets (paidRequest demoFunding))\<rparr>\<rparr>"

theorem paid_plan_funds_run_witness:
  "describeTopUps (planRunFunding demoFunding) = [(toLowerCase (demoAddress ''0x1''), ''95'')]
   \<and> fp_ready (planRunFunding (paidRequest demoFunding))
   \<and> checkBalances (\<lambda>_. ''0'') demoFunded demoFundingConfig 1000 = Inr None"
proof -
  have c: "fq_ceiling demoFunding = Some demoLimits" by (simp add: demoFunding_def)
  have ok: "requestOk demoFunding demoLimits" by code_simp
  with c have clean: "fp_blockers (planRunFunding demoFunding) = []" by (simp add: plan_clean)
  have item: "map (planItem demoLimits (marginOf demoFunding)) (fq_wallets demoFunding)
      = [\<lparr>fi_wallet = toLowerCase (demoAddress ''0x1''), fi_balanceWei = ''5'', fi_requiredWei = ''10'', fi_envelopeWei = ''13'',
          fi_topUpWei = ''95''\<rparr>]" by code_simp
  have "decimalValue 0 ''95'' = 95" by code_simp
  then have asked: "describeTopUps (planRunFunding demoFunding) = [(toLowerCase (demoAddress ''0x1''), ''95'')]"
    by (simp add: describeTopUps_def plan_of_clean [OF c ok] item)
  have ceiling: "ceilingFor demoFundingConfig (cc_chainId demoFunded) = fq_ceiling demoFunding"
    by (simp add: c ceilingFor_def demoFundingConfig_def demoFunded_def demoAssurance_def demoControls_def)
  have small: "walletBound demoLimits < 10 ^ 40" by code_simp
  have digest: "computeWalletSetDigest (\<lambda>_. ''0'') (map fundingKey (fq_wallets demoFunding))
      = Inr (toLowerCase (xd_walletSetDigest (ac_expected demoFundingConfig)))"
  proof -
    have "computeWalletSetDigest (\<lambda>_. ''0'') (map fundingKey (fq_wallets demoFunding)) = Inr ''sha256:0''"
      and "toLowerCase ''sha256:0'' = ''sha256:0''" by code_simp+
    then show ?thesis by (simp add: demoFundingConfig_def demoAssurance_def)
  qed
  from c small have bound: "\<forall>c. fq_ceiling demoFunding = Some c \<longrightarrow> walletBound c < 10 ^ 40" by simp
  let ?b = "\<lparr>ob_observedAt = Some 500, ob_expiresAt = Some 2000, ob_wallets = map observedAs (fq_wallets (paidRequest demoFunding))\<rparr>"
  have config: "ac_runEnvelopeWei demoFundingConfig = Some (fp_runEnvelopeWei (planRunFunding demoFunding))"
    "ac_minimumBalanceWei demoFundingConfig = Some (fp_minimumBalanceWei (planRunFunding demoFunding))"
    and balances: "cc_balances demoFunded = Some ?b"
    by (simp_all add: demoFundingConfig_def demoFunded_def)
  have fresh: "\<not> staleObservation (ob_observedAt ?b) (ob_expiresAt ?b) 1000"
    by (simp add: staleObservation_def COMPENSATING_OBSERVATION_MAX_AGE_MS_def)
  from paid_plan_funds_run [OF clean ceiling bound config balances _ fresh digest] asked show ?thesis by simp
qed

end
