(* ===== verification/FleetWatcher.thy ===== *)
theory FleetWatcher
  imports Funding Coordinator JobStore
begin

text \<open>
  The independent watcher of the fleet's wallets (\<^verbatim>\<open>packages/backend/src/fleet-watcher.ts\<close>): it compares the
  transaction count and the balance of every wallet with the records of the backend, engages the kill
  switch on activity that these do not explain, and follows left-over balances.

  \<^item> \<open>WatchStore\<close> is what the watcher reads and writes of the backend store. Attempts and reservations
    are extended by the nonce and the time of update, which only the watcher reads.
  \<^item> The calls to the outside (reading a wallet, engaging the kill switch, alerting, verifying a return)
    may change the store and an arbitrary outside state, as other components work while they are
    awaited. \<open>fw_stamp\<close> is the fresh id and the time of an event.
  \<^item> The key of a wallet is the pair of its chain and its address in lower case. The texts of alerts
    are left out: an alert carries its kind and what identifies it. \<open>fw_cardOk\<close> says whether the text of
    a funding request can be written.
  \<^item> A balance text that is not a row of digits makes \<^verbatim>\<open>BigInt\<close> throw; other spellings that \<^verbatim>\<open>BigInt\<close>
    reads are not modelled. An event holds the members of \<^verbatim>\<open>data\<close> that are read, \<open>None\<close> when a member
    is missing or of another type.
\<close>

section \<open>Wallets and records\<close>

definition WATCH_ACTIVE_INTERVAL_MS :: int where "WATCH_ACTIVE_INTERVAL_MS = 2 * 60 * 1000"
definition WATCH_IDLE_INTERVAL_MS :: int where "WATCH_IDLE_INTERVAL_MS = 10 * 60 * 1000"
definition WATCH_BLIND_AFTER_FAILURES :: int where "WATCH_BLIND_AFTER_FAILURES = 3"
definition WATCH_HEALTHY_INTERVALS :: int where "WATCH_HEALTHY_INTERVALS = 3"
definition DAY_MS :: int where "DAY_MS = 24 * 60 * 60 * 1000"
definition BASELINE_REFRESH_MS :: int where "BASELINE_REFRESH_MS = 24 * 60 * 60 * 1000"
definition FUNDING_REQUEST_HORIZON_MS :: int where "FUNDING_REQUEST_HORIZON_MS = 7 * DAY_MS"
definition FUTURE_TOLERANCE_MS :: int where "FUTURE_TOLERANCE_MS = 5 * 60 * 1000"

record WatchTarget =
  wt_chainId :: int
  wt_address :: address

record WalletReading =
  wr_nonce :: jsnum
  wr_balanceWei :: wei

record WalletBaseline =
  wb_nonce :: jsnum
  wb_balance :: string
  wb_observedAt :: Stamp
  wb_excess :: "ExcessState option"

record WalletLedger =
  wl_knownNextNonce :: "jsnum option"
  wl_allowedFallWei :: wei

datatype WalletVerdict =
    VBaseline
  | VOk
  | VRise
  | VUnknownActivity jsnum jsnum
  | VUnexplainedFall wei wei
  | VRpcInconsistent

type_synonym watchKey = "int \<times> address"

definition keyOf :: "WatchTarget \<Rightarrow> watchKey" where
  "keyOf t = (wt_chainId t, toLowerCase (wt_address t))"

fun isKillClass :: "WalletVerdict \<Rightarrow> bool" where
  "isKillClass (VUnknownActivity _ _) = True"
| "isKillClass (VUnexplainedFall _ _) = True"
| "isKillClass _ = False"

definition bigIntText :: "string \<Rightarrow> dbError + wei" where
  "bigIntText s = (if s \<noteq> [] \<and> list_all isDigit s then Inr (decimalValue 0 s) else Inl ''SyntaxError'')"

definition expectedNonceOf :: "WalletBaseline \<Rightarrow> WalletLedger \<Rightarrow> jsnum" where
  "expectedNonceOf b ledger =
     js_max (wb_nonce b) (case wl_knownNextNonce ledger of None \<Rightarrow> wb_nonce b | Some n \<Rightarrow> n)"

definition judgeWallet :: "WalletReading \<Rightarrow> WalletBaseline option \<Rightarrow> WalletLedger \<Rightarrow> dbError + WalletVerdict" where
  "judgeWallet reading baseline ledger =
     (case baseline of
        None \<Rightarrow> Inr VBaseline
      | Some b \<Rightarrow>
          if js_lt (wr_nonce reading) (wb_nonce b) then Inr VRpcInconsistent
          else if js_lt (expectedNonceOf b ledger) (wr_nonce reading)
          then Inr (VUnknownActivity (wr_nonce reading) (expectedNonceOf b ledger))
          else bindR (bigIntText (wb_balance b)) (\<lambda>before.
            if wr_balanceWei reading < before
            then (let fall = before - wr_balanceWei reading
                  in if fall > wl_allowedFallWei ledger then Inr (VUnexplainedFall fall (wl_allowedFallWei ledger)) else Inr VOk)
            else Inr (if wr_balanceWei reading > before then VRise else VOk)))"

record WatchedAttempt = AttemptRecord +
  wa_nonce :: "jsnum option"

record WatchedReservation = Reservation +
  wv_updatedAt :: Stamp

datatype WatchFinding =
    UnknownActivity | UnexplainedFall | RiseAboveLimit | RpcInconsistent | WatcherBlind | AcceptRejected | BaselineAccepted

record WatchData =
  wd_chainId :: "int option"
  wd_address :: "address option"
  wd_nonce :: "jsnum option"
  wd_balanceWei :: "string option"
  wd_observedAt :: "Stamp option"
  wd_excess :: "ExcessState option"
  wd_kind :: "WatchFinding option"
  wd_killFailed :: bool
  wd_requestId :: "string option"
  wd_items :: "(address \<times> string) list option"

record WatchEvent =
  we_id :: string
  we_type :: string
  we_at :: Stamp
  we_data :: WatchData

record WatchStore =
  ws_runs :: "RunRecord list"
  ws_campaigns :: "Campaign list"
  ws_intents :: "IntentRecord list"
  ws_attempts :: "WatchedAttempt list"
  ws_reservations :: "WatchedReservation list"
  ws_events :: "WatchEvent list"
  ws_killed :: bool

section \<open>What the records explain\<close>

definition watchRunActive :: "WatchStore \<Rightarrow> bool" where
  "watchRunActive s \<longleftrightarrow> list_ex (\<lambda>r. rr_state r = CArmed \<or> rr_state r = CActive) (ws_runs s)"

text \<open>The chain of a run: of its intent, else of its campaign (the last one with that id).\<close>

definition runChain :: "WatchStore \<Rightarrow> string \<Rightarrow> int option" where
  "runChain s runId =
     (case find (\<lambda>i. ir_runId i = runId) (ws_intents s) of
        Some i \<Rightarrow> Some (cm_chainId (ir_campaignSnapshot i))
      | None \<Rightarrow>
          (case find (\<lambda>r. rr_id r = runId) (ws_runs s) of
             None \<Rightarrow> None
           | Some r \<Rightarrow> map_of (rev (map (\<lambda>c. (cm_id c, cm_chainId c)) (ws_campaigns s))) (rr_campaignId r)))"

definition ownAttempt :: "WatchStore \<Rightarrow> WatchTarget \<Rightarrow> WatchedAttempt \<Rightarrow> bool" where
  "ownAttempt s t a \<longleftrightarrow> toLowerCase (ar_wallet a) = toLowerCase (wt_address t) \<and> wa_nonce a \<noteq> None
     \<and> runChain s (ar_runId a) = Some (wt_chainId t)"

definition knownNextNonce :: "WatchStore \<Rightarrow> WatchTarget \<Rightarrow> jsnum option" where
  "knownNextNonce s t =
     fold (\<lambda>a known. Some (js_max (valueOr known (jint 0)) (js_add (valueOr (wa_nonce a) (jint 0)) (jint 1))))
       (filter (ownAttempt s t) (ws_attempts s)) None"

definition textGe :: "Stamp \<Rightarrow> Stamp \<Rightarrow> bool" where
  "textGe x y \<longleftrightarrow> textLe (st_text y) (st_text x)"

definition reservationChain :: "WatchStore \<Rightarrow> WatchedReservation \<Rightarrow> int option" where
  "reservationChain s r = (case rs_chainId r of None \<Rightarrow> runChain s (rs_runId r) | Some c \<Rightarrow> Some c)"

definition explains :: "WatchStore \<Rightarrow> WatchTarget \<Rightarrow> WalletBaseline option \<Rightarrow> WatchedReservation \<Rightarrow> bool" where
  "explains s t baseline r \<longleftrightarrow> toLowerCase (rs_wallet r) = toLowerCase (wt_address t)
     \<and> reservationChain s r = Some (wt_chainId t)
     \<and> (rs_status r = BReserved \<or> rs_status r = BReorged
        \<or> (case baseline of None \<Rightarrow> False | Some b \<Rightarrow> textGe (wv_updatedAt r) (wb_observedAt b)))"

definition ledgerFor :: "WatchStore \<Rightarrow> WatchTarget \<Rightarrow> WalletBaseline option \<Rightarrow> WalletLedger" where
  "ledgerFor s t baseline =
     \<lparr>wl_knownNextNonce = knownNextNonce s t,
      wl_allowedFallWei = sum_list (map rs_amountWei (filter (explains s t baseline) (ws_reservations s)))\<rparr>"

definition returnBlocked :: "WatchStore \<Rightarrow> WatchTarget \<Rightarrow> bool" where
  "returnBlocked s t \<longleftrightarrow> watchRunActive s
     \<or> list_ex (\<lambda>r. toLowerCase (rs_wallet r) = toLowerCase (wt_address t) \<and> (rs_status r = BReserved \<or> rs_status r = BReorged)
          \<and> (rs_chainId r = None \<or> rs_chainId r = Some (wt_chainId t))) (ws_reservations s)"

section \<open>The watcher\<close>

datatype WatchIdentity =
    DayIdentity int
  | ServiceDayIdentity int
  | InconsistentDayIdentity int
  | BalanceDayIdentity wei int
  | EventIdentity string
  | StopIdentity jsnum wei int "int option" bool bool

datatype WatchAlert =
    FindingAlert WatchFinding WatchTarget WatchIdentity bool bool bool bool
  | ExcessAlert int "ExcessReminder list" int
  | FundingAlert string int "(address \<times> string) list"

record TreasuryWatchProof =
  tp_chainId :: int
  tp_address :: address
  tp_fromNonce :: jsnum
  tp_toNonce :: jsnum
  tp_nonce :: jsnum
  tp_balanceWei :: wei
  tp_baselineNonce :: jsnum
  tp_baselineBalanceWei :: string
  tp_baselineObservedAt :: string
  tp_hashes :: "hash list"
  tp_blockNumber :: int
  tp_blockHash :: hash
  tp_totalValueWei :: wei
  tp_totalFeeWei :: wei

record WatchTickResult =
  wk_ran :: bool
  wk_checked :: int
  wk_failed :: int
  wk_findings :: "(address \<times> int \<times> WatchFinding) list"
  wk_reminders :: int
  wk_killed :: bool
  wk_killFailed :: bool

record WatcherState =
  wf_baselines :: "watchKey \<rightharpoonup> WalletBaseline"
  wf_lastFinding :: "watchKey \<rightharpoonup> WatchFinding \<times> jsnum \<times> wei"
  wf_readFailures :: "watchKey \<Rightarrow> int"
  wf_inconsistent :: "watchKey \<Rightarrow> int"
  wf_loaded :: bool
  wf_lastRunAt :: int
  wf_lastGoodAt :: int
  wf_lastAcceptSyncAt :: string

text \<open>The store, the outside, the fields of the watcher and the result that a check fills in.\<close>

record 'x WatchWorld =
  wx_store :: WatchStore
  wx_outside :: 'x
  wx_self :: WatcherState
  wx_result :: WatchTickResult

type_synonym ('x, 'a) storeEff = "(WatchStore \<times> 'x, dbError, 'a) eff"
type_synonym ('x, 'a) watchEff = "('x WatchWorld, dbError, 'a) eff"

record 'x FleetWatcherOptions =
  fw_targets :: "WatchTarget list"
  fw_ceilings :: "(int \<times> BalanceCeiling) list"
  fw_treasury :: address
  fw_read :: "WatchTarget \<Rightarrow> ('x, WalletReading) storeEff"
  fw_alert :: "WatchAlert \<Rightarrow> ('x, bool) storeEff"
  fw_verifyTreasuryReturn ::
    "(WatchTarget \<Rightarrow> WalletBaseline \<Rightarrow> WalletReading \<Rightarrow> WalletLedger \<Rightarrow> ('x, TreasuryWatchProof option) storeEff) option"
  fw_kill :: "WatchFinding \<Rightarrow> ('x, unit) storeEff"
  fw_stamp :: "'x \<Rightarrow> (string \<times> Clock) \<times> 'x"
  fw_cardOk :: "int \<Rightarrow> (address \<times> string) list \<Rightarrow> bool"
  fw_activeIntervalMs :: "int option"
  fw_idleIntervalMs :: "int option"

definition newWatcher :: "'x FleetWatcherOptions \<Rightarrow> dbError + WatcherState" where
  "newWatcher env =
     bindR (ensure (list_all (\<lambda>t. ADDRESS (wt_address t)) (fw_targets env)) ''FLEET_WATCH_ADDRESS_INVALID'') (\<lambda>_.
     bindR (ensure (fw_targets env \<noteq> []) ''FLEET_WATCH_TARGETS_REQUIRED'') (\<lambda>_.
     bindR (ensure (ADDRESS (fw_treasury env)) ''FLEET_WATCH_TREASURY_INVALID'') (\<lambda>_.
     Inr \<lparr>wf_baselines = (\<lambda>_. None), wf_lastFinding = (\<lambda>_. None), wf_readFailures = (\<lambda>_. 0), wf_inconsistent = (\<lambda>_. 0),
          wf_loaded = False, wf_lastRunAt = 0, wf_lastGoodAt = 0, wf_lastAcceptSyncAt = []\<rparr>)))"

definition watchCovers :: "'x FleetWatcherOptions \<Rightarrow> int \<Rightarrow> address list \<Rightarrow> bool" where
  "watchCovers env chainId wallets \<longleftrightarrow> wallets \<noteq> []
     \<and> list_all (\<lambda>w. toLowerCase w \<in> set (map (\<lambda>t. toLowerCase (wt_address t)) (filter (\<lambda>t. wt_chainId t = chainId) (fw_targets env)))) wallets"

definition activeInterval :: "'x FleetWatcherOptions \<Rightarrow> int" where
  "activeInterval env = valueOr (fw_activeIntervalMs env) WATCH_ACTIVE_INTERVAL_MS"

definition idleInterval :: "'x FleetWatcherOptions \<Rightarrow> int" where
  "idleInterval env = valueOr (fw_idleIntervalMs env) WATCH_IDLE_INTERVAL_MS"

definition isHealthy :: "'x FleetWatcherOptions \<Rightarrow> WatcherState \<Rightarrow> int \<Rightarrow> bool" where
  "isHealthy env self t \<longleftrightarrow> wf_lastGoodAt self \<noteq> 0
     \<and> t - wf_lastGoodAt self \<le> WATCH_HEALTHY_INTERVALS * max (idleInterval env) (activeInterval env)"

text \<open>What the coordinator asks of the watcher.\<close>

definition walletWatchOf :: "'x FleetWatcherOptions \<Rightarrow> WatcherState \<Rightarrow> int \<Rightarrow> WalletWatch" where
  "walletWatchOf env self t = \<lparr>ww_covers = watchCovers env, ww_healthy = isHealthy env self t\<rparr>"


section \<open>Steps\<close>

definition selfW :: "(WatcherState \<Rightarrow> WatcherState) \<Rightarrow> ('x, unit) watchEff" where
  "selfW f = modifyS (\<lambda>w. w\<lparr>wx_self := f (wx_self w)\<rparr>)"

definition resultW :: "(WatchTickResult \<Rightarrow> WatchTickResult) \<Rightarrow> ('x, unit) watchEff" where
  "resultW f = modifyS (\<lambda>w. w\<lparr>wx_result := f (wx_result w)\<rparr>)"

definition storeW :: "('x, 'a) storeEff \<Rightarrow> ('x, 'a) watchEff" where
  "storeW m w = (case m (wx_store w, wx_outside w) of (r, s, x) \<Rightarrow> (r, w\<lparr>wx_store := s, wx_outside := x\<rparr>))"

definition snapshotW :: "('x, WatchStore) watchEff" where
  "snapshotW = getS wx_store"

definition noData :: WatchData where
  "noData = \<lparr>wd_chainId = None, wd_address = None, wd_nonce = None, wd_balanceWei = None, wd_observedAt = None, wd_excess = None,
     wd_kind = None, wd_killFailed = False, wd_requestId = None, wd_items = None\<rparr>"

definition walletData :: "WatchTarget \<Rightarrow> WatchData" where
  "walletData t = noData\<lparr>wd_chainId := Some (wt_chainId t), wd_address := Some (toLowerCase (wt_address t))\<rparr>"

definition baselineData :: "WatchTarget \<Rightarrow> WalletBaseline \<Rightarrow> WatchData" where
  "baselineData t b = (walletData t)\<lparr>wd_nonce := Some (wb_nonce b), wd_balanceWei := Some (wb_balance b),
     wd_observedAt := Some (wb_observedAt b), wd_excess := wb_excess b\<rparr>"

text \<open>An event gets a fresh id and the time, and is appended in one transaction.\<close>

definition clockS :: "'x FleetWatcherOptions \<Rightarrow> ('x, string \<times> Clock) storeEff" where
  "clockS env p = (case fw_stamp env (snd p) of (stamp, x) \<Rightarrow> (Inr stamp, fst p, x))"

definition appendEvent :: "WatchEvent \<Rightarrow> WatchStore \<Rightarrow> WatchStore" where
  "appendEvent e s = s\<lparr>ws_events := ws_events s @ [e]\<rparr>"

definition storeEvent :: "'x FleetWatcherOptions \<Rightarrow> string \<Rightarrow> WatchData \<Rightarrow> ('x, unit) storeEff" where
  "storeEvent env kind data =
     bindS (clockS env) (\<lambda>(i, now).
     modifyS (\<lambda>(s, x). (appendEvent \<lparr>we_id = i, we_type = kind, we_at = stampOf now, we_data = data\<rparr> s, x)))"

definition sendAlert :: "'x FleetWatcherOptions \<Rightarrow> WatchAlert \<Rightarrow> ('x, unit) watchEff" where
  "sendAlert env a = quietly (bindS (storeW (fw_alert env a)) (\<lambda>_. returnS ()))"

text \<open>The flags of a finding: immediate, without a wallet, kill failed, repeated.\<close>

definition findingW ::
  "'x FleetWatcherOptions \<Rightarrow> WatchFinding \<Rightarrow> WatchTarget \<Rightarrow> WatchIdentity \<Rightarrow> bool \<Rightarrow> ('x, unit) watchEff" where
  "findingW env kind t i urgent = sendAlert env (FindingAlert kind t i urgent False False False)"

definition dayOf :: "Clock \<Rightarrow> int" where
  "dayOf now = ck_ms now div DAY_MS"

section \<open>Baselines\<close>

definition isBaselineEvent :: "WatchEvent \<Rightarrow> bool" where
  "isBaselineEvent e \<longleftrightarrow> we_type e = ''fleet_watch_baseline'' \<or> we_type e = ''fleet_watch_accept''"

text \<open>The newest event of each wallet on the watch list counts; the loop runs from the last event to the first.\<close>

definition loadEvent :: "'x FleetWatcherOptions \<Rightarrow> WatchEvent \<Rightarrow> (watchKey \<rightharpoonup> WalletBaseline) \<Rightarrow> (watchKey \<rightharpoonup> WalletBaseline)" where
  "loadEvent env e known =
     (let d = we_data e
      in if \<not> isBaselineEvent e then known
         else case (wd_chainId d, wd_address d, wd_nonce d, wd_balanceWei d) of
           (Some c, Some a, Some n, Some b) \<Rightarrow>
             let key = (c, toLowerCase a)
             in if key \<notin> set (map keyOf (fw_targets env)) \<or> known key \<noteq> None then known
                else known(key \<mapsto> \<lparr>wb_nonce = n, wb_balance = b, wb_observedAt = valueOr (wd_observedAt d) (we_at e), wb_excess = wd_excess d\<rparr>)
         | _ \<Rightarrow> known)"

definition loadW :: "'x FleetWatcherOptions \<Rightarrow> ('x, unit) watchEff" where
  "loadW env =
     bindS (getS (\<lambda>w. (wf_loaded (wx_self w), ws_events (wx_store w)))) (\<lambda>(loaded, events).
     if loaded then returnS ()
     else selfW (\<lambda>me. me\<lparr>wf_baselines := fold (loadEvent env) (rev events) (wf_baselines me), wf_loaded := True\<rparr>))"

definition setBaseline :: "WatchTarget \<Rightarrow> WalletBaseline \<Rightarrow> WatcherState \<Rightarrow> WatcherState" where
  "setBaseline t b me = me\<lparr>wf_baselines := (wf_baselines me)(keyOf t \<mapsto> b)\<rparr>"

definition forgetFinding :: "watchKey \<Rightarrow> WatcherState \<Rightarrow> WatcherState" where
  "forgetFinding key me = me\<lparr>wf_lastFinding := (wf_lastFinding me)(key := None)\<rparr>"

definition acceptCurrent :: "'x FleetWatcherOptions \<Rightarrow> WatchTarget \<Rightarrow> WalletReading \<Rightarrow> ('x, unit) watchEff" where
  "acceptCurrent env t reading =
     bindS (loadW env) (\<lambda>_.
     bindS (storeW (clockS env)) (\<lambda>(_, now).
     let b = \<lparr>wb_nonce = wr_nonce reading, wb_balance = show_int (wr_balanceWei reading), wb_observedAt = stampOf now, wb_excess = None\<rparr>
     in bindS (selfW (\<lambda>me. forgetFinding (keyOf t) (setBaseline t b me))) (\<lambda>_.
        storeW (storeEvent env ''fleet_watch_accept'' (baselineData t b)))))"

section \<open>Accepted states\<close>

definition textGt :: "string \<Rightarrow> string \<Rightarrow> bool" where
  "textGt x y \<longleftrightarrow> \<not> textLe x y"

record FoundAccept =
  fa_event :: WatchEvent
  fa_key :: watchKey
  fa_nonce :: jsnum
  fa_balanceWei :: string

definition acceptOf :: "'x FleetWatcherOptions \<Rightarrow> WatchEvent \<Rightarrow> FoundAccept list" where
  "acceptOf env e =
     (let d = we_data e
      in if we_type e \<noteq> ''fleet_watch_accept'' then []
         else case (wd_chainId d, wd_address d, wd_nonce d, wd_balanceWei d) of
           (Some c, Some a, Some n, Some b) \<Rightarrow>
             if DECIMAL b \<and> (c, toLowerCase a) \<in> set (map keyOf (fw_targets env))
             then [\<lparr>fa_event = e, fa_key = (c, toLowerCase a), fa_nonce = n, fa_balanceWei = b\<rparr>] else []
         | _ \<Rightarrow> [])"

definition newerStamp :: "Clock \<Rightarrow> WatchEvent \<Rightarrow> string \<Rightarrow> string" where
  "newerStamp now e newest =
     (if (case st_time (we_at e) of None \<Rightarrow> False | Some t \<Rightarrow> t \<le> ck_ms now + FUTURE_TOLERANCE_MS)
         \<and> textGt (st_text (we_at e)) newest then st_text (we_at e) else newest)"

text \<open>From the newest event back to the first one that was seen before.\<close>

definition unseenEvents :: "string \<Rightarrow> WatchStore \<Rightarrow> WatchEvent list" where
  "unseenEvents since s = takeWhile (\<lambda>e. \<not> (since \<noteq> [] \<and> textLe (st_text (we_at e)) since)) (rev (ws_events s))"

definition adoptAccept ::
  "'x FleetWatcherOptions \<Rightarrow> (watchKey \<rightharpoonup> WalletReading) \<Rightarrow> Clock \<Rightarrow> FoundAccept \<Rightarrow> ('x, unit) watchEff" where
  "adoptAccept env readings now accept =
     (case find (\<lambda>t. keyOf t = fa_key accept) (fw_targets env) of
        None \<Rightarrow> throwS ''TypeError''
      | Some target \<Rightarrow>
          bindS (getS (\<lambda>w. wf_baselines (wx_self w) (fa_key accept))) (\<lambda>known.
          let at' = we_at (fa_event accept); i = EventIdentity (we_id (fa_event accept))
          in if (case known of None \<Rightarrow> False | Some b \<Rightarrow> textLe (st_text at') (st_text (wb_observedAt b))) then returnS ()
             else let future = (case st_time at' of None \<Rightarrow> False | Some t \<Rightarrow> t > ck_ms now + FUTURE_TOLERANCE_MS);
                      ahead = (case readings (fa_key accept) of None \<Rightarrow> False | Some r \<Rightarrow> js_lt (wr_nonce r) (fa_nonce accept))
                  in if future \<or> ahead \<or> \<not> isSafeInteger (fa_nonce accept) \<or> js_lt (fa_nonce accept) (jint 0)
                     then findingW env AcceptRejected target i True
                     else bindS (selfW (\<lambda>me. forgetFinding (fa_key accept) (me\<lparr>wf_baselines := (wf_baselines me)(fa_key accept \<mapsto>
                            \<lparr>wb_nonce = fa_nonce accept, wb_balance = fa_balanceWei accept, wb_observedAt = at', wb_excess = None\<rparr>)\<rparr>))) (\<lambda>_.
                          findingW env BaselineAccepted target i True)))"

definition syncAccepts ::
  "'x FleetWatcherOptions \<Rightarrow> WatchStore \<Rightarrow> (watchKey \<rightharpoonup> WalletReading) \<Rightarrow> Clock \<Rightarrow> ('x, unit) watchEff" where
  "syncAccepts env s readings now =
     bindS (getS (\<lambda>w. wf_lastAcceptSyncAt (wx_self w))) (\<lambda>since.
     let events = unseenEvents since s;
         newest = fold (newerStamp now) events since;
         found = concat (map (acceptOf env) events)
     in bindS (if textGt newest since then selfW (\<lambda>me. me\<lparr>wf_lastAcceptSyncAt := newest\<rparr>) else returnS ()) (\<lambda>_.
        forEachS (rev found) (adoptAccept env readings now)))"


section \<open>A treasury return\<close>

definition TX_HASH :: "string \<Rightarrow> bool" where
  "TX_HASH h \<longleftrightarrow> toLowerCase (take 2 h) = ''0x'' \<and> length h = 66 \<and> all_hex (drop 2 h)"

definition sameLedger :: "WalletLedger \<Rightarrow> WalletLedger \<Rightarrow> bool" where
  "sameLedger a b \<longleftrightarrow> wl_knownNextNonce a = wl_knownNextNonce b \<and> wl_allowedFallWei a = wl_allowedFallWei b"

text \<open>The proof is about this wallet, this baseline and this reading, and is plausible in itself.\<close>

definition proofMatches :: "WatchTarget \<Rightarrow> WalletBaseline \<Rightarrow> WalletReading \<Rightarrow> TreasuryWatchProof \<Rightarrow> bool" where
  "proofMatches t b reading p \<longleftrightarrow>
     tp_chainId p = wt_chainId t \<and> toLowerCase (tp_address p) = toLowerCase (wt_address t)
     \<and> tp_baselineNonce p = wb_nonce b \<and> tp_baselineBalanceWei p = wb_balance b
     \<and> tp_baselineObservedAt p = st_text (wb_observedAt b)
     \<and> tp_toNonce p = wr_nonce reading \<and> tp_nonce p = wr_nonce reading \<and> tp_balanceWei p = wr_balanceWei reading"

definition hashesMatch :: "jsnum \<Rightarrow> WalletReading \<Rightarrow> TreasuryWatchProof \<Rightarrow> bool" where
  "hashesMatch first reading p \<longleftrightarrow>
     tp_fromNonce p = first \<and> \<not> js_le (wr_nonce reading) first \<and> \<not> js_lt (jint 8) (js_sub (wr_nonce reading) first)
     \<and> js_sub (wr_nonce reading) first = jint (int (length (tp_hashes p)))
     \<and> distinct (map toLowerCase (tp_hashes p)) \<and> list_all TX_HASH (tp_hashes p) \<and> TX_HASH (tp_blockHash p)
     \<and> 0 \<le> tp_blockNumber p"

definition amountsMatch :: "wei option \<Rightarrow> wei \<Rightarrow> WalletReading \<Rightarrow> WalletLedger \<Rightarrow> TreasuryWatchProof \<Rightarrow> bool" where
  "amountsMatch cap before reading ledger p \<longleftrightarrow>
     tp_totalValueWei p > 0 \<and> 0 \<le> tp_totalFeeWei p
     \<and> (case cap of None \<Rightarrow> False | Some c \<Rightarrow> tp_totalFeeWei p \<le> c)
     \<and> before - wr_balanceWei reading \<le> tp_totalValueWei p + tp_totalFeeWei p + wl_allowedFallWei ledger"

text \<open>The conditions after the awaited verification; a balance text that cannot be read throws.\<close>

definition checkProof ::
  "'x FleetWatcherOptions \<Rightarrow> WatchTarget \<Rightarrow> WalletBaseline \<Rightarrow> WalletReading \<Rightarrow> WalletLedger \<Rightarrow> WatchStore \<Rightarrow> WalletBaseline option \<Rightarrow>
     TreasuryWatchProof option \<Rightarrow> dbError + (TreasuryWatchProof \<times> WalletLedger) option" where
  "checkProof env t b reading ledger fresh current answer =
     (case answer of
        None \<Rightarrow> Inr None
      | Some p \<Rightarrow>
          if returnBlocked fresh t \<or> current \<noteq> Some b \<or> \<not> sameLedger (ledgerFor fresh t (Some b)) ledger
             \<or> \<not> proofMatches t b reading p \<or> \<not> hashesMatch (expectedNonceOf b ledger) reading p then Inr None
          else bindR (bigIntText (wb_balance b)) (\<lambda>before.
            Inr (if amountsMatch (map_option bl_walletMaxWei (map_of (fw_ceilings env) (wt_chainId t))) before reading ledger p
                 then Some (p, ledger) else None)))"

definition provenReturn ::
  "'x FleetWatcherOptions \<Rightarrow> WatchTarget \<Rightarrow> WalletBaseline \<Rightarrow> WalletReading \<Rightarrow> ('x, (TreasuryWatchProof \<times> WalletLedger) option) watchEff" where
  "provenReturn env t b reading =
     (case fw_verifyTreasuryReturn env of
        None \<Rightarrow> returnS None
      | Some verify \<Rightarrow>
          bindS snapshotW (\<lambda>state.
          if returnBlocked state t then returnS None
          else let ledger = ledgerFor state t (Some b)
            in catchS
              (bindS (storeW (verify t b reading ledger)) (\<lambda>answer.
               bindS snapshotW (\<lambda>fresh.
               bindS (getS (\<lambda>w. wf_baselines (wx_self w) (keyOf t))) (\<lambda>current.
               liftS (checkProof env t b reading ledger fresh current answer)))))
              (\<lambda>_. returnS None)))"

definition newestBaselineEvent :: "WatchTarget \<Rightarrow> WatchStore \<Rightarrow> WatchEvent option" where
  "newestBaselineEvent t s =
     find (\<lambda>e. isBaselineEvent e \<and> wd_chainId (we_data e) = Some (wt_chainId t)
        \<and> wd_address (we_data e) = Some (toLowerCase (wt_address t))) (rev (ws_events s))"

text \<open>In one transaction: the records are still those that were judged, then both events are stored.\<close>

definition storeReturn ::
  "'x FleetWatcherOptions \<Rightarrow> WatchTarget \<Rightarrow> WalletBaseline \<Rightarrow> bool \<Rightarrow> WalletBaseline \<Rightarrow> WalletLedger \<Rightarrow> ('x, bool) storeEff" where
  "storeReturn env t b current nxt ledger =
     bindS (getS fst) (\<lambda>fresh.
     if returnBlocked fresh t \<or> \<not> current \<or> \<not> sameLedger (ledgerFor fresh t (Some b)) ledger
        \<or> (case newestBaselineEvent t fresh of
             None \<Rightarrow> True
           | Some e \<Rightarrow> wd_nonce (we_data e) \<noteq> Some (wb_nonce b) \<or> wd_balanceWei (we_data e) \<noteq> Some (wb_balance b)
               \<or> st_text (valueOr (wd_observedAt (we_data e)) (we_at e)) \<noteq> st_text (wb_observedAt b))
     then returnS False
     else bindS (storeEvent env ''fleet_watch_treasury_return_verified'' (walletData t)) (\<lambda>_.
          bindS (storeEvent env ''fleet_watch_baseline'' (baselineData t nxt)) (\<lambda>_. returnS True)))"

definition acceptReturn ::
  "'x FleetWatcherOptions \<Rightarrow> WatchTarget \<Rightarrow> WalletBaseline \<Rightarrow> WalletReading \<Rightarrow> ('x, bool) watchEff" where
  "acceptReturn env t b reading =
     bindS (provenReturn env t b reading) (\<lambda>verified.
     case verified of
       None \<Rightarrow> returnS False
     | Some (p, ledger) \<Rightarrow>
         bindS (storeW (clockS env)) (\<lambda>(_, now).
         let nxt = \<lparr>wb_nonce = wr_nonce reading, wb_balance = show_int (wr_balanceWei reading), wb_observedAt = stampOf now,
                    wb_excess = wb_excess b\<rparr>
         in bindS (getS (\<lambda>w. wf_baselines (wx_self w) (keyOf t) = Some b)) (\<lambda>current.
            bindS (storeW (storeReturn env t b current nxt ledger)) (\<lambda>committed.
            if committed then bindS (selfW (\<lambda>me. forgetFinding (keyOf t) (setBaseline t nxt me))) (\<lambda>_. returnS True)
            else returnS False))))"

section \<open>Judging a wallet\<close>

text \<open>A finding that would stop signing is read once more.\<close>

definition confirmVerdict ::
  "'x FleetWatcherOptions \<Rightarrow> WatchTarget \<Rightarrow> WalletBaseline option \<Rightarrow> WalletVerdict \<Rightarrow> WalletReading \<Rightarrow>
     ('x, WalletVerdict \<times> WalletReading) watchEff" where
  "confirmVerdict env t baseline verdict reading =
     (if \<not> isKillClass verdict then returnS (verdict, reading)
      else catchS
        (bindS (storeW (fw_read env t)) (\<lambda>second.
         bindS snapshotW (\<lambda>fresh.
         bindS (liftS (judgeWallet second baseline (ledgerFor fresh t baseline))) (\<lambda>again.
         returnS (if isKillClass again then (again, second) else (VRpcInconsistent, reading))))))
        (\<lambda>_. returnS (verdict, reading)))"

definition rememberW ::
  "'x FleetWatcherOptions \<Rightarrow> WatchTarget \<Rightarrow> Clock \<Rightarrow> WalletBaseline option \<Rightarrow> WalletReading \<Rightarrow> ('x, unit) watchEff" where
  "rememberW env t now baseline reading =
     (let nxt = \<lparr>wb_nonce = wr_nonce reading, wb_balance = show_int (wr_balanceWei reading), wb_observedAt = stampOf now,
                 wb_excess = Option.bind baseline wb_excess\<rparr>
      in bindS (selfW (setBaseline t nxt)) (\<lambda>_. storeW (storeEvent env ''fleet_watch_baseline'' (baselineData t nxt))))"

text \<open>The loop runs from the last event to the first and ends at one that is a day old.\<close>

fun recentlyRequestedIn :: "int \<Rightarrow> WatchTarget \<Rightarrow> WatchEvent list \<Rightarrow> bool" where
  "recentlyRequestedIn horizon t [] = False"
| "recentlyRequestedIn horizon t (e # es) =
     (if (case st_time (we_at e) of None \<Rightarrow> False | Some x \<Rightarrow> x < horizon) then False
      else if we_type e = ''fleet_funding_requested'' \<and> wd_chainId (we_data e) = Some (wt_chainId t)
         \<and> list_ex (\<lambda>i. toLowerCase (fst i) = toLowerCase (wt_address t)) (valueOr (wd_items (we_data e)) []) then True
      else recentlyRequestedIn horizon t es)"

definition recentlyRequested :: "WatchStore \<Rightarrow> WatchTarget \<Rightarrow> Clock \<Rightarrow> bool" where
  "recentlyRequested s t now = recentlyRequestedIn (ck_ms now - DAY_MS) t (rev (ws_events s))"

definition noteFinding :: "WatchTarget \<Rightarrow> WatchFinding \<Rightarrow> WatchTickResult \<Rightarrow> WatchTickResult" where
  "noteFinding t kind r = r\<lparr>wk_findings := wk_findings r @ [(toLowerCase (wt_address t), wt_chainId t, kind)]\<rparr>"

definition actOnRise ::
  "'x FleetWatcherOptions \<Rightarrow> WatchStore \<Rightarrow> WatchTarget \<Rightarrow> Clock \<Rightarrow> WalletBaseline option \<Rightarrow> WalletReading \<Rightarrow> ('x, unit) watchEff" where
  "actOnRise env state t now baseline reading =
     bindS (rememberW env t now baseline reading) (\<lambda>_.
     if (case map_of (fw_ceilings env) (wt_chainId t) of None \<Rightarrow> False | Some c \<Rightarrow> wr_balanceWei reading > bl_walletMaxWei c)
        \<and> \<not> watchRunActive state \<and> \<not> recentlyRequested state t now
     then findingW env RiseAboveLimit t (BalanceDayIdentity (wr_balanceWei reading) (dayOf now)) False
     else returnS ())"

definition actOnInconsistent :: "'x FleetWatcherOptions \<Rightarrow> WatchTarget \<Rightarrow> Clock \<Rightarrow> ('x, unit) watchEff" where
  "actOnInconsistent env t now =
     bindS (resultW (noteFinding t RpcInconsistent)) (\<lambda>_.
     bindS (selfW (\<lambda>me. me\<lparr>wf_inconsistent := (wf_inconsistent me)(keyOf t := wf_inconsistent me (keyOf t) + 1)\<rparr>)) (\<lambda>_.
     bindS (getS (\<lambda>w. wf_inconsistent (wx_self w) (keyOf t))) (\<lambda>count.
     bindS (findingW env RpcInconsistent t (DayIdentity (dayOf now)) False) (\<lambda>_.
     if count \<ge> WATCH_BLIND_AFTER_FAILURES then findingW env WatcherBlind t (InconsistentDayIdentity (dayOf now)) True
     else returnS ()))))"

definition stopSigning :: "'x FleetWatcherOptions \<Rightarrow> WatchFinding \<Rightarrow> ('x, bool) watchEff" where
  "stopSigning env kind =
     bindS snapshotW (\<lambda>s.
     if ws_killed s then returnS False
     else catchS (bindS (storeW (fw_kill env kind)) (\<lambda>_. returnS False)) (\<lambda>_. returnS True))"

definition lastStop :: "WatchStore \<Rightarrow> int option" where
  "lastStop s = Option.bind (find (\<lambda>e. we_type e = ''kill'') (rev (ws_events s))) (\<lambda>e. st_time (we_at e))"

definition storedFinding :: "WatchStore \<Rightarrow> WatchTarget \<Rightarrow> WalletBaseline option \<Rightarrow> WatchFinding \<Rightarrow> WalletReading \<Rightarrow> bool" where
  "storedFinding s t baseline kind reading \<longleftrightarrow>
     list_ex (\<lambda>e. we_type e = ''fleet_watch_finding''
         \<and> textLe (case baseline of None \<Rightarrow> [] | Some b \<Rightarrow> st_text (wb_observedAt b)) (st_text (we_at e))
         \<and> wd_chainId (we_data e) = Some (wt_chainId t) \<and> wd_address (we_data e) = Some (toLowerCase (wt_address t))
         \<and> wd_kind (we_data e) = Some kind \<and> wd_nonce (we_data e) = Some (wr_nonce reading) \<and> wr_nonce reading \<noteq> NaN
         \<and> wd_balanceWei (we_data e) = Some (show_int (wr_balanceWei reading))) (ws_events s)"

text \<open>The kill switch comes first; the baseline stays where it is.\<close>

definition actOnActivity ::
  "'x FleetWatcherOptions \<Rightarrow> WatchTarget \<Rightarrow> Clock \<Rightarrow> WalletBaseline option \<Rightarrow> WatchFinding \<Rightarrow> WalletReading \<Rightarrow> ('x, unit) watchEff" where
  "actOnActivity env t now baseline kind reading =
     bindS (resultW (noteFinding t kind)) (\<lambda>_.
     bindS (stopSigning env kind) (\<lambda>killFailed.
     bindS (resultW (\<lambda>r. if killFailed then r\<lparr>wk_killFailed := True\<rparr> else r\<lparr>wk_killed := True\<rparr>)) (\<lambda>_.
     bindS snapshotW (\<lambda>s.
     bindS (getS (\<lambda>w. wf_lastFinding (wx_self w) (keyOf t))) (\<lambda>known.
     let findingKey = (kind, wr_nonce reading, wr_balanceWei reading);
         repeated = (known = Some findingKey \<or> storedFinding s t baseline kind reading);
         i = StopIdentity (wr_nonce reading) (wr_balanceWei reading) (dayOf now) (lastStop s) repeated killFailed
     in bindS (sendAlert env (FindingAlert kind t i True False killFailed repeated)) (\<lambda>_.
        bindS (getS (\<lambda>w. wf_lastFinding (wx_self w) (keyOf t))) (\<lambda>known'.
        if known' = Some findingKey then returnS ()
        else bindS (selfW (\<lambda>me. me\<lparr>wf_lastFinding := (wf_lastFinding me)(keyOf t \<mapsto> findingKey)\<rparr>)) (\<lambda>_.
          storeW (storeEvent env ''fleet_watch_finding'' ((walletData t)\<lparr>wd_kind := Some kind, wd_nonce := Some (wr_nonce reading),
            wd_balanceWei := Some (show_int (wr_balanceWei reading)), wd_killFailed := killFailed\<rparr>))))))))))"

definition actOnOk ::
  "'x FleetWatcherOptions \<Rightarrow> WatchTarget \<Rightarrow> Clock \<Rightarrow> WalletBaseline option \<Rightarrow> WalletReading \<Rightarrow> ('x, unit) watchEff" where
  "actOnOk env t now baseline reading =
     (let changed = (case baseline of None \<Rightarrow> True
            | Some b \<Rightarrow> wb_nonce b \<noteq> wr_nonce reading \<or> wb_balance b \<noteq> show_int (wr_balanceWei reading));
          stale = (case baseline of None \<Rightarrow> False
            | Some b \<Rightarrow> (case st_time (wb_observedAt b) of None \<Rightarrow> False | Some x \<Rightarrow> ck_ms now - x \<ge> BASELINE_REFRESH_MS))
      in bindS (selfW (forgetFinding (keyOf t))) (\<lambda>_.
         if changed \<or> stale then rememberW env t now baseline reading else returnS ()))"

definition judgeAndAct ::
  "'x FleetWatcherOptions \<Rightarrow> WatchStore \<Rightarrow> Clock \<Rightarrow> WatchTarget \<times> WalletReading \<Rightarrow> ('x, unit) watchEff" where
  "judgeAndAct env state now = (\<lambda>(t, reading).
     bindS (getS (\<lambda>w. wf_baselines (wx_self w) (keyOf t))) (\<lambda>baseline.
     bindS (liftS (judgeWallet reading baseline (ledgerFor state t baseline))) (\<lambda>first.
     bindS (confirmVerdict env t baseline first reading) (\<lambda>(verdict, effective).
     bindS (case (verdict, baseline) of
              (VUnknownActivity _ _, Some b) \<Rightarrow> acceptReturn env t b effective
            | _ \<Rightarrow> returnS False) (\<lambda>returned.
     if returned then returnS ()
     else bindS (if verdict = VRpcInconsistent then returnS ()
                 else selfW (\<lambda>me. me\<lparr>wf_inconsistent := (wf_inconsistent me)(keyOf t := 0)\<rparr>)) (\<lambda>_.
       case verdict of
         VBaseline \<Rightarrow> rememberW env t now baseline effective
       | VOk \<Rightarrow> actOnOk env t now baseline effective
       | VRise \<Rightarrow> actOnRise env state t now baseline effective
       | VRpcInconsistent \<Rightarrow> actOnInconsistent env t now
       | VUnknownActivity _ _ \<Rightarrow> actOnActivity env t now baseline UnknownActivity effective
       | VUnexplainedFall _ _ \<Rightarrow> actOnActivity env t now baseline UnexplainedFall effective))))))"

section \<open>Funding requests and left-over balances\<close>

fun fundingRequests :: "'x FleetWatcherOptions \<Rightarrow> int \<Rightarrow> WatchEvent list \<Rightarrow> WatchAlert list" where
  "fundingRequests env horizon [] = []"
| "fundingRequests env horizon (e # es) =
     (if (case st_time (we_at e) of None \<Rightarrow> False | Some x \<Rightarrow> x < horizon) then []
      else if we_type e \<noteq> ''fleet_funding_requested'' then fundingRequests env horizon es
      else case (wd_requestId (we_data e), wd_chainId (we_data e), wd_items (we_data e)) of
        (Some i, Some c, Some items) \<Rightarrow>
          (if items \<noteq> [] \<and> watchCovers env c (map fst items) \<and> fw_cardOk env c items then [FundingAlert i c items] else [])
          @ fundingRequests env horizon es
      | _ \<Rightarrow> fundingRequests env horizon es)"

definition deliverFundingRequests :: "'x FleetWatcherOptions \<Rightarrow> WatchStore \<Rightarrow> Clock \<Rightarrow> ('x, unit) watchEff" where
  "deliverFundingRequests env state now =
     forEachS (fundingRequests env (ck_ms now - FUNDING_REQUEST_HORIZON_MS) (take 5000 (rev (ws_events state)))) (sendAlert env)"

type_synonym walletObservation = "WatchTarget \<times> WalletReading"

definition previousExcess :: "(watchKey \<rightharpoonup> WalletBaseline) \<Rightarrow> walletObservation list \<Rightarrow> (address \<rightharpoonup> ExcessState)" where
  "previousExcess baselines observations =
     fold (\<lambda>(t, _) previous. case Option.bind (baselines (keyOf t)) wb_excess of
         None \<Rightarrow> previous | Some x \<Rightarrow> previous(toLowerCase (wt_address t) \<mapsto> x)) observations (\<lambda>_. None)"

definition excessInput ::
  "(watchKey \<rightharpoonup> WalletBaseline) \<Rightarrow> walletObservation list \<Rightarrow> BalanceCeiling \<Rightarrow> bool \<Rightarrow> Clock \<Rightarrow> ExcessInput" where
  "excessInput baselines observations c active now =
     \<lparr>xi_previous = previousExcess baselines observations,
      xi_observations = map (\<lambda>(t, r). \<lparr>eo_address = wt_address t, eo_balanceWei = wr_balanceWei r, eo_nonce = js_int (wr_nonce r)\<rparr>) observations,
      xi_walletMaxWei = bl_walletMaxWei c, xi_runActive = active, xi_now = now, xi_afterMs = None\<rparr>"

definition storeExcess :: "'x FleetWatcherOptions \<Rightarrow> (address \<rightharpoonup> ExcessState) \<Rightarrow> WatchTarget \<Rightarrow> ('x, unit) watchEff" where
  "storeExcess env after t =
     bindS (getS (\<lambda>w. wf_baselines (wx_self w) (keyOf t))) (\<lambda>baseline.
     case baseline of
       None \<Rightarrow> returnS ()
     | Some b \<Rightarrow>
         if after (toLowerCase (wt_address t)) = wb_excess b then returnS ()
         else let updated = b\<lparr>wb_excess := after (toLowerCase (wt_address t))\<rparr>
              in bindS (selfW (setBaseline t updated)) (\<lambda>_. storeW (storeEvent env ''fleet_watch_baseline'' (baselineData t updated))))"

text \<open>A reminder that was not delivered keeps the previous state of its wallets.\<close>

definition trackChain ::
  "'x FleetWatcherOptions \<Rightarrow> bool \<Rightarrow> Clock \<Rightarrow> int \<Rightarrow> walletObservation list \<Rightarrow> ('x, unit) watchEff" where
  "trackChain env active now chainId observations =
     (case map_of (fw_ceilings env) chainId of
        None \<Rightarrow> returnS ()
      | Some c \<Rightarrow>
          bindS (getS (\<lambda>w. wf_baselines (wx_self w))) (\<lambda>baselines.
          let previous = previousExcess baselines observations;
              (nxt, reminders) = stepExcessTracker (excessInput baselines observations c active now)
          in bindS (if reminders = [] then returnS True
                    else catchS (bindS (storeW (fw_alert env (ExcessAlert chainId reminders (dayOf now)))) (\<lambda>_. returnS True)) (\<lambda>_. returnS False)) (\<lambda>delivered.
             bindS (if delivered then resultW (\<lambda>r. r\<lparr>wk_reminders := wk_reminders r + int (length reminders)\<rparr>) else returnS ()) (\<lambda>_.
             let reminded = (if delivered then {} else set (map er_wallet reminders))
             in forEachS (map fst observations) (storeExcess env (\<lambda>a. if a \<in> reminded then previous a else nxt a))))))"

definition trackExcess ::
  "'x FleetWatcherOptions \<Rightarrow> walletObservation list \<Rightarrow> bool \<Rightarrow> Clock \<Rightarrow> ('x, unit) watchEff" where
  "trackExcess env observations active now =
     forEachS (rev (remdups (rev (map (\<lambda>x. wt_chainId (fst x)) observations)))) (\<lambda>c.
       trackChain env active now c (filter (\<lambda>x. wt_chainId (fst x) = c) observations))"

section \<open>A check\<close>

definition validReading :: "WalletReading \<Rightarrow> bool" where
  "validReading r \<longleftrightarrow> isSafeInteger (wr_nonce r) \<and> \<not> js_lt (wr_nonce r) (jint 0) \<and> 0 \<le> wr_balanceWei r"

definition observeWallet :: "'x FleetWatcherOptions \<Rightarrow> Clock \<Rightarrow> WatchTarget \<Rightarrow> ('x, walletObservation list) watchEff" where
  "observeWallet env now t =
     bindS (catchS (bindS (storeW (fw_read env t)) (\<lambda>r. returnS (Some r))) (\<lambda>_. returnS None)) (\<lambda>reading.
     case (case reading of None \<Rightarrow> None | Some r \<Rightarrow> if validReading r then Some r else None) of
       None \<Rightarrow>
         bindS (resultW (\<lambda>r. r\<lparr>wk_failed := wk_failed r + 1\<rparr>)) (\<lambda>_.
         bindS (selfW (\<lambda>me. me\<lparr>wf_readFailures := (wf_readFailures me)(keyOf t := wf_readFailures me (keyOf t) + 1)\<rparr>)) (\<lambda>_.
         bindS (getS (\<lambda>w. wf_readFailures (wx_self w) (keyOf t))) (\<lambda>failures.
         bindS (if failures \<ge> WATCH_BLIND_AFTER_FAILURES then findingW env WatcherBlind t (DayIdentity (dayOf now)) True else returnS ()) (\<lambda>_.
         returnS []))))
     | Some r \<Rightarrow>
         bindS (selfW (\<lambda>me. me\<lparr>wf_readFailures := (wf_readFailures me)(keyOf t := 0)\<rparr>)) (\<lambda>_.
         bindS (resultW (\<lambda>k. k\<lparr>wk_checked := wk_checked k + 1\<rparr>)) (\<lambda>_. returnS [(t, r)])))"

fun observeAll :: "'x FleetWatcherOptions \<Rightarrow> Clock \<Rightarrow> WatchTarget list \<Rightarrow> ('x, walletObservation list) watchEff" where
  "observeAll env now [] = returnS []"
| "observeAll env now (t # ts) =
     bindS (observeWallet env now t) (\<lambda>xs. bindS (observeAll env now ts) (\<lambda>ys. returnS (xs @ ys)))"

definition emptyResult :: WatchTickResult where
  "emptyResult = \<lparr>wk_ran = False, wk_checked = 0, wk_failed = 0, wk_findings = [], wk_reminders = 0, wk_killed = False, wk_killFailed = False\<rparr>"

definition readingsOf :: "walletObservation list \<Rightarrow> (watchKey \<rightharpoonup> WalletReading)" where
  "readingsOf observations = map_of (rev (map (\<lambda>(t, r). (keyOf t, r)) observations))"

definition checkWallets :: "'x FleetWatcherOptions \<Rightarrow> bool \<Rightarrow> Clock \<Rightarrow> ('x, unit) watchEff" where
  "checkWallets env active now =
     bindS (selfW (\<lambda>me. me\<lparr>wf_lastRunAt := ck_ms now\<rparr>)) (\<lambda>_.
     bindS (resultW (\<lambda>r. r\<lparr>wk_ran := True\<rparr>)) (\<lambda>_.
     bindS (observeAll env now (fw_targets env)) (\<lambda>observations.
     bindS snapshotW (\<lambda>state.
     bindS (syncAccepts env state (readingsOf observations) now) (\<lambda>_.
     bindS (forEachS observations (judgeAndAct env state now)) (\<lambda>_.
     bindS (deliverFundingRequests env state now) (\<lambda>_.
     bindS (trackExcess env observations active now) (\<lambda>_.
     bindS (getS wx_result) (\<lambda>r.
     if wk_failed r = 0 \<and> wk_checked r > 0 then selfW (\<lambda>me. me\<lparr>wf_lastGoodAt := ck_ms now\<rparr>) else returnS ())))))))))"

definition watchTick :: "'x FleetWatcherOptions \<Rightarrow> bool \<Rightarrow> ('x, WatchTickResult) watchEff" where
  "watchTick env force =
     bindS (loadW env) (\<lambda>_.
     bindS (storeW (clockS env)) (\<lambda>(_, now).
     bindS (resultW (\<lambda>_. emptyResult)) (\<lambda>_.
     bindS (getS (\<lambda>w. (watchRunActive (wx_store w), wf_lastRunAt (wx_self w)))) (\<lambda>(active, lastRunAt).
     bindS (if \<not> force \<and> lastRunAt \<noteq> 0 \<and> ck_ms now - lastRunAt < (if active then activeInterval env else idleInterval env) then returnS ()
            else checkWallets env active now) (\<lambda>_.
     getS wx_result)))))"

text \<open>When a check threw, the service tells the owner once a day.\<close>

definition reportBlind :: "'x FleetWatcherOptions \<Rightarrow> Clock \<Rightarrow> ('x, unit) watchEff" where
  "reportBlind env now =
     (case fw_targets env of
        [] \<Rightarrow> throwS ''TypeError''
      | t # _ \<Rightarrow> sendAlert env (FindingAlert WatcherBlind t (ServiceDayIdentity (dayOf now)) True True False False))"

end
