(* ===== verification/FleetWatcherFacts.thy ===== *)
theory FleetWatcherFacts
  imports FleetWatcher
begin

text \<open>
  What the watcher of the fleet guarantees: after a check that found activity nobody can explain, the
  kill switch is engaged or its failure is reported; and the remembered state of a wallet moves only to
  a state that the records explain, or that a verified return to the treasury explains.
\<close>

section \<open>Stopping\<close>

definition stopFinding :: "WatchFinding \<Rightarrow> bool" where
  "stopFinding k \<longleftrightarrow> k = UnknownActivity \<or> k = UnexplainedFall"

text \<open>Every finding that must stop signing has stoppedAll it, or the failure is on record.\<close>

definition stoppedAll :: "'x WatchWorld \<Rightarrow> bool" where
  "stoppedAll w \<longleftrightarrow> list_ex (\<lambda>f. stopFinding (snd (snd f))) (wk_findings (wx_result w)) \<longrightarrow>
     ws_killed (wx_store w) \<or> wk_killFailed (wx_result w)"

text \<open>A call never releases the kill switch.\<close>

definition keepsKilled :: "('x, 'a) storeEff \<Rightarrow> bool" where
  "keepsKilled m \<longleftrightarrow> (\<forall>s x r s' x'. m (s, x) = (r, s', x') \<longrightarrow> ws_killed s \<longrightarrow> ws_killed s')"

definition steadyOutside :: "'x FleetWatcherOptions \<Rightarrow> bool" where
  "steadyOutside env \<longleftrightarrow>
     (\<forall>t. keepsKilled (fw_read env t)) \<and> (\<forall>a. keepsKilled (fw_alert env a)) \<and> (\<forall>k. keepsKilled (fw_kill env k))
     \<and> (\<forall>verify t b r l. fw_verifyTreasuryReturn env = Some verify \<longrightarrow> keepsKilled (verify t b r l))
     \<and> (\<forall>k s x s' x'. fw_kill env k (s, x) = (Inr (), s', x') \<longrightarrow> ws_killed s')"

lemma stop_self [eff_order]: "keep.follows stoppedAll (selfW f)"
  by (simp add: keep.follows_def selfW_def stoppedAll_def)

lemma stop_store: "keepsKilled m \<Longrightarrow> keep.follows stoppedAll (storeW m)"
  by (rule keep.followsI) (auto simp: storeW_def stoppedAll_def keepsKilled_def split: prod.splits, blast)

lemma stop_result:
  assumes "\<And>r. list_ex (\<lambda>f. stopFinding (snd (snd f))) (wk_findings (f r)) \<longrightarrow> list_ex (\<lambda>f. stopFinding (snd (snd f))) (wk_findings r)"
    and "\<And>r. wk_killFailed r \<longrightarrow> wk_killFailed (f r)"
  shows "keep.follows stoppedAll (resultW f)"
  using assms by (auto simp: keep.follows_def resultW_def stoppedAll_def)

lemma killed_clock: "keepsKilled (clockS env)"
  by (auto simp: keepsKilled_def clockS_def split: prod.splits)

lemma storeEvent_Inr: "\<exists>p'. storeEvent env k d p = (Inr (), p')"
  by (auto simp: storeEvent_def bindS_def clockS_def split: prod.splits)

lemma killed_persist: "keepsKilled (storeEvent env k d)"
  by (auto simp: keepsKilled_def storeEvent_def bindS_def clockS_def modifyS_def appendEvent_def split: prod.splits)

lemma killed_return: "keepsKilled (storeReturn env t b current nxt ledger)"
  by (auto simp: keepsKilled_def storeReturn_def bindS_def storeEvent_def clockS_def getS_def returnS_def modifyS_def appendEvent_def
      split: prod.splits if_splits)

lemmas stop_calls [eff_order] = stop_store [OF killed_clock] stop_store [OF killed_persist] stop_store [OF killed_return]

lemma stop_snapshot [eff_order]: "keep.follows stoppedAll snapshotW"
  unfolding snapshotW_def by (rule keep.follows_get)

lemma stop_send: "steadyOutside env \<Longrightarrow> keep.follows stoppedAll (sendAlert env a)"
  unfolding sendAlert_def quietly_def by (intro eff_order stop_store) (simp add: steadyOutside_def)

lemma stop_finding: "steadyOutside env \<Longrightarrow> keep.follows stoppedAll (findingW env k t i u)"
  unfolding findingW_def by (rule stop_send)

lemma stop_load [eff_order]: "keep.follows stoppedAll (loadW env)"
  unfolding loadW_def by (intro eff_order)

lemma stop_adopt: "steadyOutside env \<Longrightarrow> keep.follows stoppedAll (adoptAccept env readings now accept)"
  unfolding adoptAccept_def by (intro eff_order stop_finding)

lemma stop_sync: "steadyOutside env \<Longrightarrow> keep.follows stoppedAll (syncAccepts env s readings now)"
  unfolding syncAccepts_def by (intro eff_order stop_adopt)

lemma stop_read: "steadyOutside env \<Longrightarrow> keep.follows stoppedAll (storeW (fw_read env t))"
  by (rule stop_store) (simp add: steadyOutside_def)

lemma stop_confirm: "steadyOutside env \<Longrightarrow> keep.follows stoppedAll (confirmVerdict env t baseline verdict reading)"
  unfolding confirmVerdict_def by (intro eff_order stop_read)

lemma stop_proven: "steadyOutside env \<Longrightarrow> keep.follows stoppedAll (provenReturn env t b reading)"
  unfolding provenReturn_def by (intro eff_order stop_store) (simp add: steadyOutside_def)

lemma stop_acceptReturn: "steadyOutside env \<Longrightarrow> keep.follows stoppedAll (acceptReturn env t b reading)"
  unfolding acceptReturn_def by (intro eff_order stop_proven)

lemma stop_remember [eff_order]: "keep.follows stoppedAll (rememberW env t now baseline reading)"
  unfolding rememberW_def by (intro eff_order)

lemma stop_ok [eff_order]: "keep.follows stoppedAll (actOnOk env t now baseline reading)"
  unfolding actOnOk_def by (intro eff_order)

lemma stop_rise: "steadyOutside env \<Longrightarrow> keep.follows stoppedAll (actOnRise env state t now baseline reading)"
  unfolding actOnRise_def by (intro eff_order stop_finding)

lemma stop_harmless: "\<not> stopFinding k \<Longrightarrow> keep.follows stoppedAll (resultW (noteFinding t k))"
  by (rule stop_result) (auto simp: noteFinding_def)

lemma stop_inconsistent: "steadyOutside env \<Longrightarrow> keep.follows stoppedAll (actOnInconsistent env t now)"
  unfolding actOnInconsistent_def by (intro eff_order stop_finding stop_harmless) (simp_all add: stopFinding_def)

lemma engaged: "steadyOutside env \<Longrightarrow> triple (\<lambda>_. True) (stopSigning env k) (\<lambda>failed w. ws_killed (wx_store w) \<or> failed) (\<lambda>_. False)"
  unfolding steadyOutside_def
  by (rule validI)
     (auto simp: stopSigning_def bindS_eq_Inr bindS_eq_Inl catchS_def snapshotW_def storeW_def split: prod.splits sum.splits if_splits,
      (metis (full_types) old.unit.exhaust)+)

lemma stop_activity:
  assumes "steadyOutside env"
  shows "keep.follows stoppedAll (actOnActivity env t now baseline k reading)"
proof -
  have flagged: "triple (\<lambda>w. ws_killed (wx_store w) \<or> failed)
      (resultW (\<lambda>r. if failed then r\<lparr>wk_killFailed := True\<rparr> else r\<lparr>wk_killed := True\<rparr>)) (\<lambda>_. stoppedAll) stoppedAll" for failed
    unfolding resultW_def by (rule valid_modify) (auto simp: stoppedAll_def)
  have noted: "triple stoppedAll (resultW (noteFinding t k)) (\<lambda>_ _. True) stoppedAll"
    unfolding resultW_def by (rule valid_modify) simp
  have tried: "triple (\<lambda>_. True) (stopSigning env k) (\<lambda>failed w. ws_killed (wx_store w) \<or> failed) stoppedAll"
    by (rule valid_weaken [OF engaged [OF assms]]) auto
  show ?thesis
    unfolding actOnActivity_def Let_def
    by (rule keep_valid, rule valid_bind [OF noted], rule valid_bind [OF tried], rule valid_bind [OF flagged], rule valid_keep)
       (intro eff_order stop_send assms)
qed

lemma stop_judge: "steadyOutside env \<Longrightarrow> keep.follows stoppedAll (judgeAndAct env state now x)"
  unfolding judgeAndAct_def
  by (intro eff_order stop_confirm) (auto split: WalletVerdict.split option.split intro!: eff_order stop_acceptReturn stop_rise stop_inconsistent stop_activity)

lemma stop_requests: "steadyOutside env \<Longrightarrow> keep.follows stoppedAll (deliverFundingRequests env state now)"
  unfolding deliverFundingRequests_def by (intro eff_order stop_send)

lemma stop_counted:
  assumes "\<And>r. wk_findings (f r) = wk_findings r" and "\<And>r. wk_killFailed (f r) = wk_killFailed r"
  shows "keep.follows stoppedAll (resultW f)"
  using assms by (intro stop_result) auto

lemma stop_excess [eff_order]: "keep.follows stoppedAll (storeExcess env after t)"
  unfolding storeExcess_def by (intro eff_order)

lemma stop_track: "steadyOutside env \<Longrightarrow> keep.follows stoppedAll (trackExcess env observations active now)"
  unfolding trackExcess_def trackChain_def
  by (intro eff_order stop_store stop_counted) (simp_all add: steadyOutside_def)

lemma stop_observe: "steadyOutside env \<Longrightarrow> keep.follows stoppedAll (observeWallet env now t)"
  unfolding observeWallet_def by (intro eff_order stop_read stop_counted stop_finding) simp_all

lemma stop_observeAll: "steadyOutside env \<Longrightarrow> keep.follows stoppedAll (observeAll env now ts)"
  by (induction ts) (auto intro!: eff_order stop_observe)

lemma stop_check: "steadyOutside env \<Longrightarrow> keep.follows stoppedAll (checkWallets env active now)"
  unfolding checkWallets_def
  by (intro eff_order stop_counted stop_observeAll stop_sync stop_judge stop_requests stop_track) simp_all


section \<open>Remembered states\<close>

definition recordsReading :: "WalletBaseline \<Rightarrow> WalletReading \<Rightarrow> bool" where
  "recordsReading b r \<longleftrightarrow> wb_nonce b = wr_nonce r \<and> wb_balance b = show_int (wr_balanceWei r)"

text \<open>No transaction beyond the known ones, and no fall beyond what the reservations allow.\<close>

definition explainedBy :: "WalletLedger \<Rightarrow> WalletBaseline \<Rightarrow> WalletReading \<Rightarrow> bool" where
  "explainedBy ledger b r \<longleftrightarrow> \<not> js_lt (wr_nonce r) (wb_nonce b) \<and> \<not> js_lt (expectedNonceOf b ledger) (wr_nonce r)
     \<and> (\<exists>before. bigIntText (wb_balance b) = Inr before
          \<and> (before \<le> wr_balanceWei r \<or> before - wr_balanceWei r \<le> wl_allowedFallWei ledger))"

text \<open>A proof of a return: its hashes account for every transaction since the baseline, its amounts for the fall.\<close>

definition provenBy :: "'x FleetWatcherOptions \<Rightarrow> WatchTarget \<Rightarrow> WalletBaseline \<Rightarrow> WalletReading \<Rightarrow> bool" where
  "provenBy env t b r \<longleftrightarrow>
     (\<exists>p ledger before. proofMatches t b r p \<and> hashesMatch (expectedNonceOf b ledger) r p \<and> bigIntText (wb_balance b) = Inr before
        \<and> amountsMatch (map_option bl_walletMaxWei (map_of (fw_ceilings env) (wt_chainId t))) before r ledger p)"

definition baselineIs :: "WatchTarget \<Rightarrow> WalletBaseline \<Rightarrow> 'x WatchWorld \<Rightarrow> bool" where
  "baselineIs t b w \<longleftrightarrow> wf_baselines (wx_self w) (keyOf t) = Some b"

definition movedSoundly ::
  "'x FleetWatcherOptions \<Rightarrow> WatchStore \<Rightarrow> WatchTarget \<Rightarrow> WalletBaseline \<Rightarrow> WalletReading \<Rightarrow> 'x WatchWorld \<Rightarrow> bool" where
  "movedSoundly env state t b reading w \<longleftrightarrow>
     (\<exists>b'. baselineIs t b' w \<and>
        (b' = b \<or> recordsReading b' reading \<and> explainedBy (ledgerFor state t (Some b)) b reading
         \<or> (\<exists>r. recordsReading b' r \<and> provenBy env t b r)))"

lemma is_store [eff_order]: "keep.follows (baselineIs t b) (storeW m)"
  by (rule keep.followsI) (auto simp: storeW_def baselineIs_def split: prod.splits)

lemma is_self [eff_order]: "(\<And>me. wf_baselines (f me) = wf_baselines me) \<Longrightarrow> keep.follows (baselineIs t b) (selfW f)"
  by (simp add: keep.follows_def selfW_def baselineIs_def)

lemma is_result [eff_order]: "keep.follows (baselineIs t b) (resultW f)"
  by (simp add: keep.follows_def resultW_def baselineIs_def)

lemma is_snapshot [eff_order]: "keep.follows (baselineIs t b) snapshotW"
  unfolding snapshotW_def by (rule keep.follows_get)

lemma is_send [eff_order]: "keep.follows (baselineIs t b) (sendAlert env a)"
  unfolding sendAlert_def quietly_def by (intro eff_order)

lemma is_finding [eff_order]: "keep.follows (baselineIs t b) (findingW env k t' i u)"
  unfolding findingW_def by (rule is_send)

lemma is_inconsistent: "keep.follows (baselineIs t b) (actOnInconsistent env t' now)"
  unfolding actOnInconsistent_def by (intro eff_order) simp

lemma is_activity: "keep.follows (baselineIs t b) (actOnActivity env t' now baseline k reading)"
  unfolding actOnActivity_def stopSigning_def by (intro eff_order) simp

lemma is_confirm: "keep.follows (baselineIs t b) (confirmVerdict env t' baseline v reading)"
  unfolding confirmVerdict_def by (intro eff_order)

lemma is_proven: "keep.follows (baselineIs t b) (provenReturn env t' b' reading)"
  unfolding provenReturn_def by (intro eff_order)

lemma valid_result: "keep.follows P m \<Longrightarrow> (\<And>s x s'. m s = (Inr x, s') \<Longrightarrow> F x) \<Longrightarrow> triple P m (\<lambda>x s. P s \<and> F x) P"
  by (rule validI) (auto dest: keep.followsD)

lemma confirm_result:
  "confirmVerdict env t baseline v reading w = (Inr x, w') \<Longrightarrow>
     x = (v, reading) \<or> isKillClass (fst x) \<or> fst x = VRpcInconsistent"
  by (auto simp: confirmVerdict_def catchS_def bindS_eq_Inr bindS_eq_Inl returnS_def split: if_splits prod.splits sum.splits)

lemma checkProof_Some: "checkProof env t b reading ledger fresh current answer = Inr (Some x) \<Longrightarrow> provenBy env t b reading"
  by (auto simp: checkProof_def provenBy_def bindR_eq_Inr split: option.splits if_splits)

lemma proven_result:
  assumes "provenReturn env t b reading w = (Inr (Some x), w')"
  shows "provenBy env t b reading"
proof (cases "fw_verifyTreasuryReturn env")
  case (Some verify)
  with assms show ?thesis
    by (auto simp: provenReturn_def Let_def bindS_eq_Inr catchS_eq_Inr split: if_splits dest: checkProof_Some)
qed (use assms in \<open>simp add: provenReturn_def\<close>)

lemma moved_same: "baselineIs t b w \<Longrightarrow> movedSoundly env state t b reading w"
  by (auto simp: movedSoundly_def)

lemma moved_keep: "keep.follows (baselineIs t b) m \<Longrightarrow> triple (baselineIs t b) m (\<lambda>_. movedSoundly env state t b reading) (movedSoundly env state t b reading)"
  by (rule valid_weaken [OF valid_keep [of "baselineIs t b"]]) (auto intro: moved_same)

lemma is_set: "triple (\<lambda>_. True) (selfW (setBaseline t b)) (\<lambda>_. baselineIs t b) E"
  by (simp add: triple_def selfW_def setBaseline_def baselineIs_def)

lemma moved_remember:
  assumes "explainedBy (ledgerFor state t (Some b)) b reading"
  shows "triple (\<lambda>_. True) (rememberW env t now baseline reading) (\<lambda>_. movedSoundly env state t b reading) (movedSoundly env state t b reading)"
proof -
  let ?n = "\<lparr>wb_nonce = wr_nonce reading, wb_balance = show_int (wr_balanceWei reading), wb_observedAt = stampOf now,
      wb_excess = Option.bind baseline wb_excess\<rparr>"
  have "movedSoundly env state t b reading w" if "baselineIs t ?n w" for w :: "'a WatchWorld"
    using that assms by (auto simp: movedSoundly_def recordsReading_def)
  then show ?thesis
    unfolding rememberW_def Let_def
    by (intro valid_bind [OF is_set] valid_weaken [OF valid_keep [OF is_store]]) auto
qed

lemma judged_explained:
  assumes "judgeWallet reading (Some b) ledger = Inr v" and "v = VOk \<or> v = VRise"
  shows "explainedBy ledger b reading"
  using assms by (auto simp: judgeWallet_def explainedBy_def bindR_eq_Inr Let_def split: if_splits)

lemma valid_known: "(F \<Longrightarrow> triple P m Q E) \<Longrightarrow> triple (\<lambda>s. P s \<and> F) m Q E"
  by (auto simp: triple_def)

lemma moved_return:
  "triple (baselineIs t b) (acceptReturn env t b r) (\<lambda>done w. if done then movedSoundly env state t b reading w else baselineIs t b w)
     (movedSoundly env state t b reading)"
proof -
  have set: "triple (\<lambda>_. True) (selfW (\<lambda>me. forgetFinding (keyOf t) (setBaseline t n me))) (\<lambda>_. baselineIs t n) E" for n E
    by (simp add: triple_def selfW_def setBaseline_def baselineIs_def forgetFinding_def)
  have moved: "movedSoundly env state t b reading w" if "baselineIs t n w" "recordsReading n r" "provenBy env t b r" for n w
    using that by (auto simp: movedSoundly_def)
  have stored: "triple (baselineIs t b) (bindS (storeW m) (\<lambda>c. if c then bindS (selfW (\<lambda>me. forgetFinding (keyOf t) (setBaseline t n me)))
        (\<lambda>_. returnS True) else returnS False))
      (\<lambda>done w. if done then movedSoundly env state t b reading w else baselineIs t b w) (movedSoundly env state t b reading)"
    if "recordsReading n r" "provenBy env t b r" for n and m :: "('a, bool) storeEff"
    using that
    by (intro valid_bind [OF valid_weaken [OF valid_keep [OF is_store [of t b m]]], where R = "\<lambda>_. baselineIs t b"] valid_if
        valid_bind [OF valid_weaken [OF set]] valid_return)
       (auto intro: moved_same moved)
  have later: "triple (baselineIs t b) (bindS m (\<lambda>x. f x)) (\<lambda>done w. if done then movedSoundly env state t b reading w else baselineIs t b w)
      (movedSoundly env state t b reading)"
    if "keep.follows (baselineIs t b) m"
      "\<And>x. triple (baselineIs t b) (f x) (\<lambda>done w. if done then movedSoundly env state t b reading w else baselineIs t b w)
        (movedSoundly env state t b reading)"
    for m :: "('a, 'c) watchEff" and f
    by (rule valid_bind [OF valid_weaken [OF valid_keep [OF that(1)]] that(2)]) (auto intro: moved_same)
  have rest: "triple (baselineIs t b) (case v of None \<Rightarrow> returnS False | Some (p, ledger) \<Rightarrow> f p ledger) 
      (\<lambda>done w. if done then movedSoundly env state t b reading w else baselineIs t b w) (movedSoundly env state t b reading)"
    if "\<And>p l. v = Some (p, l) \<Longrightarrow> triple (baselineIs t b) (f p l)
      (\<lambda>done w. if done then movedSoundly env state t b reading w else baselineIs t b w) (movedSoundly env state t b reading)"
    for v :: "(TreasuryWatchProof \<times> WalletLedger) option" and f
    using that by (cases v) (auto intro: valid_return split del: if_split)
  have noted: "triple (baselineIs t b) (provenReturn env t b r) (\<lambda>v w. baselineIs t b w \<and> (v \<noteq> None \<longrightarrow> provenBy env t b r)) (baselineIs t b)"
    by (rule valid_result [OF is_proven]) (auto dest: proven_result)
  have found: "triple (baselineIs t b) (provenReturn env t b r) (\<lambda>v w. baselineIs t b w \<and> (v \<noteq> None \<longrightarrow> provenBy env t b r))
      (movedSoundly env state t b reading)"
    by (rule valid_weaken [OF noted]) (auto intro: moved_same)
  show ?thesis
    unfolding acceptReturn_def
    by (rule valid_bind [OF found], rule valid_known, rule rest, rule later [OF is_store])
       (auto simp: Let_def recordsReading_def split: prod.split split del: if_split intro!: later [OF keep.follows_get] stored)
qed


lemma moved_judge:
  fixes env :: "'x FleetWatcherOptions"
  shows "triple (baselineIs t b) (judgeAndAct env state now (t, reading)) (\<lambda>_. movedSoundly env state t b reading) (movedSoundly env state t b reading)"
proof -
  let ?M = "movedSoundly env state t b reading" and ?l = "ledgerFor state t (Some b)"
  have seen: "triple (baselineIs t b) (getS (\<lambda>w. wf_baselines (wx_self w) (keyOf t))) (\<lambda>x w. baselineIs t b w \<and> x = Some b) ?M"
    by (auto simp: triple_def baselineIs_def)
  have judged: "triple (baselineIs t b) (liftS (judgeWallet reading (Some b) ?l)) (\<lambda>v w. baselineIs t b w \<and> judgeWallet reading (Some b) ?l = Inr v) ?M"
    by (auto simp: triple_def intro: moved_same split: sum.split)
  have checked: "triple (baselineIs t b) (confirmVerdict env t (Some b) v reading)
      (\<lambda>x w. baselineIs t b w \<and> (x = (v, reading) \<or> isKillClass (fst x) \<or> fst x = VRpcInconsistent)) ?M" for v
  proof -
    have "triple (baselineIs t b) (confirmVerdict env t (Some b) v reading)
      (\<lambda>x w. baselineIs t b w \<and> (x = (v, reading) \<or> isKillClass (fst x) \<or> fst x = VRpcInconsistent)) (baselineIs t b)"
      by (rule valid_result [OF is_confirm]) (erule confirm_result)
    then show ?thesis by (rule valid_weaken) (auto intro: moved_same)
  qed
  have cleared: "triple (baselineIs t b) (if c then returnS () else selfW (\<lambda>me. me\<lparr>wf_inconsistent := f me\<rparr>)) (\<lambda>_. baselineIs t b) ?M" for c f
    by (rule valid_weaken [OF valid_keep [of "baselineIs t b"]]) (auto intro!: eff_order intro: moved_same)
  have acted: "triple (baselineIs t b)
      (case v of VBaseline \<Rightarrow> rememberW env t now (Some b) r | VOk \<Rightarrow> actOnOk env t now (Some b) r | VRise \<Rightarrow> actOnRise env state t now (Some b) r
       | VRpcInconsistent \<Rightarrow> actOnInconsistent env t now | VUnknownActivity _ _ \<Rightarrow> actOnActivity env t now (Some b) UnknownActivity r
       | VUnexplainedFall _ _ \<Rightarrow> actOnActivity env t now (Some b) UnexplainedFall r) (\<lambda>_. ?M) ?M"
    if j: "judgeWallet reading (Some b) ?l = Inr first" and c: "(v, r) = (first, reading) \<or> isKillClass v \<or> v = VRpcInconsistent"
    for v r first
  proof -
    have fine: "explainedBy ?l b reading \<and> r = reading" if "v = VOk \<or> v = VRise"
      using that c j judged_explained by auto
    have kept: "triple (\<lambda>_. True) (rememberW env t now (Some b) r) (\<lambda>_. ?M) ?M" if "v = VOk \<or> v = VRise"
      using moved_remember fine [OF that] by blast
    have alerted: "triple ?M (if c then findingW env k t i u else returnS ()) (\<lambda>_. ?M) ?M" for c k i u
    proof -
      have "keep.follows (movedSoundly env state t b reading) (findingW env k t i u)"
        unfolding findingW_def sendAlert_def quietly_def
        by (rule keep.followsI) (auto simp: movedSoundly_def baselineIs_def storeW_def catchS_def bindS_def returnS_def split: prod.splits sum.splits)
      then show ?thesis by (intro valid_keep eff_order)
    qed
    have never: "v \<noteq> VBaseline" using c j by (auto simp: judgeWallet_def bindR_eq_Inr Let_def split: if_splits)
    show ?thesis
    proof (cases v)
      case VOk
      have "triple (baselineIs t b) (selfW (forgetFinding (keyOf t))) (\<lambda>_. baselineIs t b) ?M"
        by (rule valid_weaken [OF valid_keep [of "baselineIs t b"]]) (auto intro!: is_self intro: moved_same simp: forgetFinding_def)
      then show ?thesis
        using VOk kept unfolding actOnOk_def Let_def
        by (auto intro!: valid_bind valid_if valid_return moved_same intro: valid_weaken split del: if_split)
    next
      case VRise
      then have "triple (baselineIs t b) (rememberW env t now (Some b) r) (\<lambda>_. ?M) ?M"
        using kept by (auto intro: valid_weaken)
      then have "triple (baselineIs t b) (actOnRise env state t now (Some b) r) (\<lambda>_. ?M) ?M"
        unfolding actOnRise_def by (rule valid_bind) (rule alerted)
      with VRise show ?thesis by simp
    qed (use never in \<open>auto intro!: moved_keep is_inconsistent is_activity\<close>)
  qed
  have returned: "triple (baselineIs t b) (case (v, Some b) of (VUnknownActivity _ _, Some b) \<Rightarrow> acceptReturn env t b r | _ \<Rightarrow> returnS False)
      (\<lambda>done w. if done then ?M w else baselineIs t b w) ?M" for v r
    by (cases v) (auto intro: moved_return valid_return split del: if_split)
  have after: "triple (\<lambda>w. if x then ?M w else baselineIs t b w) (if x then returnS () else m) (\<lambda>_. ?M) ?M"
    if "triple (baselineIs t b) m (\<lambda>_. ?M) ?M" for x m
    using that by (cases x) (auto intro: valid_return)
  have core: "triple (baselineIs t b)
      (bindS (case (v, Some b) of (VUnknownActivity _ _, Some b) \<Rightarrow> acceptReturn env t b r | _ \<Rightarrow> returnS False) (\<lambda>returned.
        if returned then returnS ()
        else bindS (if v = VRpcInconsistent then returnS ()
                 else selfW (\<lambda>me. me\<lparr>wf_inconsistent := (wf_inconsistent me)(keyOf t := 0)\<rparr>)) (\<lambda>_. m))) (\<lambda>_. ?M) ?M"
    if "triple (baselineIs t b) m (\<lambda>_. ?M) ?M" for v r m
    by (rule valid_bind [OF returned], rule after)
       (rule valid_bind [OF valid_weaken [OF valid_keep [of "baselineIs t b"]] that], auto intro!: eff_order intro: moved_same)
  have paired: "triple P (f (fst x) (snd x)) Q E \<Longrightarrow> triple P (case x of (v, r) \<Rightarrow> f v r) Q E"
    for x :: "WalletVerdict \<times> WalletReading" and f :: "WalletVerdict \<Rightarrow> WalletReading \<Rightarrow> ('x, unit) watchEff" and P Q E
    by (cases x) simp
  show ?thesis
    unfolding judgeAndAct_def split_conv
    by (rule valid_bind [OF seen], rule valid_known, simp only:, rule valid_bind [OF judged], rule valid_known,
        rule valid_bind [OF checked], rule valid_known, rule paired, rule core [unfolded split_conv], rule acted, assumption) auto
qed


section \<open>Reports\<close>

definition inFindings :: "address \<times> int \<times> WatchFinding \<Rightarrow> 'x WatchWorld \<Rightarrow> bool" where
  "inFindings f w \<longleftrightarrow> f \<in> set (wk_findings (wx_result w))"

lemma in_store [eff_order]: "keep.follows (inFindings f) (storeW m)"
  by (rule keep.followsI) (auto simp: storeW_def inFindings_def split: prod.splits)

lemma in_self [eff_order]: "keep.follows (inFindings f) (selfW g)"
  by (simp add: keep.follows_def selfW_def inFindings_def)

lemma in_result: "(\<And>r. wk_findings (g r) = wk_findings r) \<Longrightarrow> keep.follows (inFindings f) (resultW g)"
  by (simp add: keep.follows_def resultW_def inFindings_def)

lemma in_snapshot [eff_order]: "keep.follows (inFindings f) snapshotW"
  unfolding snapshotW_def by (rule keep.follows_get)

lemma in_send [eff_order]: "keep.follows (inFindings f) (sendAlert env a)"
  unfolding sendAlert_def quietly_def by (intro eff_order)

lemma in_finding [eff_order]: "keep.follows (inFindings f) (findingW env k t i u)"
  unfolding findingW_def by (rule in_send)

abbreviation findingOf :: "WatchTarget \<Rightarrow> WatchFinding \<Rightarrow> address \<times> int \<times> WatchFinding" where
  "findingOf t k \<equiv> (toLowerCase (wt_address t), wt_chainId t, k)"

lemma noted: "triple (\<lambda>_. True) (resultW (noteFinding t k)) (\<lambda>_. inFindings (findingOf t k)) E"
  by (simp add: triple_def resultW_def noteFinding_def inFindings_def)

lemma activity_reported:
  "triple (\<lambda>_. True) (actOnActivity env t now baseline k reading) (\<lambda>_. inFindings (findingOf t k)) (\<lambda>_. True)"
  unfolding actOnActivity_def stopSigning_def Let_def
  by (rule valid_bind [OF noted], rule valid_weaken [OF valid_keep [of "inFindings (findingOf t k)"]])
     (auto intro!: eff_order in_result split del: if_split, simp split: if_split)

lemma inconsistent_reported:
  "triple (\<lambda>_. True) (actOnInconsistent env t now) (\<lambda>_. inFindings (findingOf t RpcInconsistent)) (\<lambda>_. True)"
  unfolding actOnInconsistent_def
  by (rule valid_bind [OF noted], rule valid_weaken [OF valid_keep [of "inFindings (findingOf t RpcInconsistent)"]])
     (auto intro!: eff_order)

definition answered ::
  "'x FleetWatcherOptions \<Rightarrow> WatchTarget \<Rightarrow> WalletBaseline \<Rightarrow> 'x WatchWorld \<Rightarrow> bool" where
  "answered env t b w \<longleftrightarrow>
     (\<exists>k. (stopFinding k \<or> k = RpcInconsistent) \<and> inFindings (findingOf t k) w)
     \<or> (\<exists>b' r. baselineIs t b' w \<and> recordsReading b' r \<and> provenBy env t b r)"

lemma return_answered:
  fixes env :: "'x FleetWatcherOptions"
  shows "triple (\<lambda>_. True) (acceptReturn env t b r) (\<lambda>done w. done \<longrightarrow> answered env t b w) (\<lambda>_. True)"
proof -
  have "answered env t b w'" if "acceptReturn env t b r w = (Inr True, w')" for w w' :: "'x WatchWorld"
    using that
    by (auto simp: acceptReturn_def bindS_eq_Inr Let_def selfW_def setBaseline_def forgetFinding_def answered_def baselineIs_def
        recordsReading_def split: option.splits prod.splits if_splits dest!: proven_result)
  then show ?thesis by (auto simp: triple_def split: prod.split sum.split)
qed

lemma alarm_answered:
  fixes env :: "'x FleetWatcherOptions"
  assumes "judgeWallet reading (Some b) (ledgerFor state t (Some b)) = Inr v" and "isKillClass v"
  shows "triple (baselineIs t b) (judgeAndAct env state now (t, reading)) (\<lambda>_. answered env t b) (\<lambda>_. True)"
proof -
  let ?T = "\<lambda>_ :: 'x WatchWorld. True"
  have seen: "triple (baselineIs t b) (getS (\<lambda>w. wf_baselines (wx_self w) (keyOf t))) (\<lambda>x w. True \<and> x = Some b) ?T"
    by (auto simp: triple_def baselineIs_def)
  have judged: "triple ?T (liftS (judgeWallet reading (Some b) (ledgerFor state t (Some b)))) (\<lambda>x w. True \<and> x = v) ?T"
    using assms(1) by (simp add: triple_def)
  have checked: "triple ?T (confirmVerdict env t (Some b) v reading)
      (\<lambda>x w. True \<and> (isKillClass (fst x) \<or> fst x = VRpcInconsistent)) ?T"
    using assms(2) by (intro validI) (auto dest: confirm_result)
  have returned: "triple ?T (case (u, Some b) of (VUnknownActivity _ _, Some b) \<Rightarrow> acceptReturn env t b r | _ \<Rightarrow> returnS False)
      (\<lambda>done w. done \<longrightarrow> answered env t b w) ?T" for u r
    by (cases u) (auto intro: return_answered valid_return)
  have after: "triple (\<lambda>w. x \<longrightarrow> answered env t b w) (if x then returnS () else m) (\<lambda>_. answered env t b) ?T"
    if "triple ?T m (\<lambda>_. answered env t b) ?T" for x m
    using that by (cases x) (auto intro: valid_return)
  have noted: "triple ?T (actOnActivity env t now (Some b) k r) (\<lambda>_. answered env t b) ?T" if "stopFinding k" for k r
    by (rule valid_weaken [OF activity_reported]) (use that in \<open>auto simp: answered_def\<close>)
  have odd: "triple ?T (actOnInconsistent env t now) (\<lambda>_. answered env t b) ?T"
    by (rule valid_weaken [OF inconsistent_reported]) (auto simp: answered_def)
  have acted: "triple ?T
      (case u of VBaseline \<Rightarrow> rememberW env t now (Some b) r | VOk \<Rightarrow> actOnOk env t now (Some b) r | VRise \<Rightarrow> actOnRise env state t now (Some b) r
       | VRpcInconsistent \<Rightarrow> actOnInconsistent env t now | VUnknownActivity _ _ \<Rightarrow> actOnActivity env t now (Some b) UnknownActivity r
       | VUnexplainedFall _ _ \<Rightarrow> actOnActivity env t now (Some b) UnexplainedFall r) (\<lambda>_. answered env t b) ?T"
    if "isKillClass u \<or> u = VRpcInconsistent" for u r
    using that odd by (cases u) (auto intro!: noted simp: stopFinding_def)
  have core: "triple ?T
      (bindS (case (u, Some b) of (VUnknownActivity _ _, Some b) \<Rightarrow> acceptReturn env t b r | _ \<Rightarrow> returnS False) (\<lambda>returned.
        if returned then returnS ()
        else bindS (if u = VRpcInconsistent then returnS ()
                 else selfW (\<lambda>me. me\<lparr>wf_inconsistent := (wf_inconsistent me)(keyOf t := 0)\<rparr>)) (\<lambda>_. m))) (\<lambda>_. answered env t b) ?T"
    if "triple ?T m (\<lambda>_. answered env t b) ?T" for u r m
    by (rule valid_bind [OF returned], rule after, rule valid_bind [OF _ that]) (simp add: triple_def split: prod.split sum.split)
  have paired: "triple P (f (fst x) (snd x)) Q E \<Longrightarrow> triple P (case x of (v, r) \<Rightarrow> f v r) Q E"
    for x :: "WalletVerdict \<times> WalletReading" and f :: "WalletVerdict \<Rightarrow> WalletReading \<Rightarrow> ('x, unit) watchEff" and P Q E
    by (cases x) simp
  show ?thesis
    unfolding judgeAndAct_def split_conv
    by (rule valid_bind [OF seen], rule valid_known, simp only:, rule valid_bind [OF judged], rule valid_known, simp only:,
        rule valid_bind [OF checked], rule valid_known, rule paired, rule core [unfolded split_conv], rule acted) auto
qed

section \<open>Properties\<close>

text \<open>
  C22. Activity that nobody can explain stops signing. When a check of the fleet ends with a finding of
  unknown activity or of an unexplained fall, the kill switch is engaged, or the result says that it
  could not be. The outside is only assumed not to release the switch meanwhile, and to have engaged it
  when engaging it succeeds.
\<close>

theorem unexplained_activity_stops:
  assumes "steadyOutside env" and "watchTick env force w = (Inr r, w')"
    and "f \<in> set (wk_findings r)" and "stopFinding (snd (snd f))"
  shows "ws_killed (wx_store w') \<or> wk_killFailed r"
proof -
  have empty: "triple P (resultW (\<lambda>_. emptyResult)) (\<lambda>_. stoppedAll) E" for P :: "'a WatchWorld \<Rightarrow> bool" and E
    by (simp add: triple_def resultW_def stoppedAll_def emptyResult_def)
  have ignored: "triple (\<lambda>_. True) m (\<lambda>_ _. True) (\<lambda>_. True)" for m :: "('a, 'c) watchEff"
    by (simp add: triple_def split: prod.split sum.split)
  have valid_case: "(\<And>a b. triple P (f a b) Q E) \<Longrightarrow> triple P (case x of (a, b) \<Rightarrow> f a b) Q E"
    for x :: "'c \<times> 'd" and f :: "'c \<Rightarrow> 'd \<Rightarrow> ('a, 'e) watchEff" and P Q E
    by (cases x) simp
  have stops: "keep.follows stoppedAll m \<Longrightarrow> triple stoppedAll m (\<lambda>_. stoppedAll) (\<lambda>_. True)" for m :: "('a, 'c) watchEff"
    by (rule valid_weaken [OF valid_keep [of stoppedAll]]) auto
  have "triple (\<lambda>_. True) (watchTick env force) (\<lambda>r w. stoppedAll w \<and> wx_result w = r) (\<lambda>_. True)"
    unfolding watchTick_def
    by (rule valid_bind [OF ignored], rule valid_bind [OF ignored], rule valid_case, rule valid_bind [OF empty],
        rule valid_bind [OF stops [OF keep.follows_get]], rule valid_case, rule valid_bind [OF stops], rule keep.follows_if)
       (auto intro: keep.follows_return stop_check assms(1) valid_get)
  from validD [OF this _ assms(2)] assms(3,4) show ?thesis
    by (auto simp: stoppedAll_def list_ex_iff)
qed



section \<open>A small fleet\<close>

text \<open>One wallet, remembered with three transactions; the chain shows five.\<close>

definition demoTarget :: WatchTarget where
  "demoTarget = \<lparr>wt_chainId = 1, wt_address = demoAddress ''0x1''\<rparr>"

definition demoRemembered :: WalletBaseline where
  "demoRemembered = \<lparr>wb_nonce = jint 3, wb_balance = ''100'', wb_observedAt = \<lparr>st_text = ''1970-01'', st_time = Some 0\<rparr>, wb_excess = None\<rparr>"

definition demoReading :: WalletReading where
  "demoReading = \<lparr>wr_nonce = jint 5, wr_balanceWei = 100\<rparr>"

definition demoWatch :: "unit FleetWatcherOptions" where
  "demoWatch = \<lparr>fw_targets = [demoTarget], fw_ceilings = [(1, demoLimits)], fw_treasury = demoAddress ''0x2'',
     fw_read = (\<lambda>_ p. (Inr demoReading, p)), fw_alert = (\<lambda>_ p. (Inr True, p)), fw_verifyTreasuryReturn = None,
     fw_kill = (\<lambda>_ p. (Inr (), (fst p)\<lparr>ws_killed := True\<rparr>, snd p)),
     fw_stamp = (\<lambda>x. ((''e'', \<lparr>ck_text = ''1970-02'', ck_ms = 1000\<rparr>), x)), fw_cardOk = (\<lambda>_ _. True),
     fw_activeIntervalMs = None, fw_idleIntervalMs = None\<rparr>"

definition demoWatched :: "unit WatchWorld" where
  "demoWatched = \<lparr>wx_store = \<lparr>ws_runs = [], ws_campaigns = [], ws_intents = [], ws_attempts = [], ws_reservations = [],
       ws_events = [], ws_killed = False\<rparr>,
     wx_outside = (),
     wx_self = \<lparr>wf_baselines = [keyOf demoTarget \<mapsto> demoRemembered], wf_lastFinding = (\<lambda>_. None), wf_readFailures = (\<lambda>_. 0),
       wf_inconsistent = (\<lambda>_. 0), wf_loaded = True, wf_lastRunAt = 0, wf_lastGoodAt = 0, wf_lastAcceptSyncAt = []\<rparr>,
     wx_result = emptyResult\<rparr>"

definition demoBusy :: "unit WatchWorld" where
  "demoBusy = demoWatched\<lparr>wx_self := (wx_self demoWatched)\<lparr>wf_lastRunAt := 1000\<rparr>,
     wx_result := emptyResult\<lparr>wk_ran := True, wk_checked := 1\<rparr>\<rparr>"

lemma demo_steadyOutside: "steadyOutside demoWatch"
  by (auto simp: steadyOutside_def demoWatch_def keepsKilled_def)

lemma demo_judged: "judgeWallet demoReading (Some demoRemembered) (ledgerFor (wx_store demoWatched) demoTarget (Some demoRemembered))
    = Inr (VUnknownActivity (jint 5) (jint 3))"
  by (simp add: judgeWallet_def ledgerFor_def knownNextNonce_def expectedNonceOf_def js_max_def demoReading_def demoRemembered_def demoWatched_def)

lemma demo_act: "\<exists>w. judgeAndAct demoWatch (wx_store demoWatched) c (demoTarget, demoReading) demoBusy = (Inr (), w)
    \<and> wk_findings (wx_result w) = [findingOf demoTarget UnknownActivity] \<and> \<not> wk_killFailed (wx_result w)
    \<and> wf_baselines (wx_self w) = [keyOf demoTarget \<mapsto> demoRemembered]"
  using demo_judged
  by (simp add: judgeAndAct_def bindS_def demoBusy_def confirmVerdict_def catchS_def storeW_def snapshotW_def demoWatch_def
      demoWatched_def acceptReturn_def provenReturn_def selfW_def resultW_def noteFinding_def emptyResult_def actOnActivity_def
      stopSigning_def Let_def sendAlert_def quietly_def storeEvent_def clockS_def appendEvent_def)

lemma demo_before: "bindS (loadW demoWatch) (\<lambda>_. bindS (storeW (clockS demoWatch)) (\<lambda>(_, now). bindS (resultW (\<lambda>_. emptyResult)) (\<lambda>_. f now)))
    demoWatched = f \<lparr>ck_text = ''1970-02'', ck_ms = 1000\<rparr> demoWatched"
  by (simp add: bindS_def loadW_def storeW_def clockS_def resultW_def demoWatch_def demoWatched_def)

lemma demo_checked: "\<exists>w. checkWallets demoWatch active \<lparr>ck_text = ''1970-02'', ck_ms = 1000\<rparr> demoWatched = (Inr (), w)
    \<and> wk_findings (wx_result w) = [findingOf demoTarget UnknownActivity] \<and> \<not> wk_killFailed (wx_result w)"
proof -
  let ?now = "\<lparr>ck_text = ''1970-02'', ck_ms = 1000\<rparr>"
  have target: "fw_targets demoWatch = [demoTarget]" "fw_ceilings demoWatch = [(1, demoLimits)]" by (simp_all add: demoWatch_def)
  have "observeWallet demoWatch ?now demoTarget
      (demoWatched\<lparr>wx_self := (wx_self demoWatched)\<lparr>wf_lastRunAt := 1000\<rparr>, wx_result := emptyResult\<lparr>wk_ran := True\<rparr>\<rparr>)
    = (Inr [(demoTarget, demoReading)], demoBusy)"
    by (simp add: observeWallet_def bindS_def catchS_def storeW_def demoWatch_def selfW_def resultW_def validReading_def demoReading_def
      MAX_SAFE_INTEGER_def demoWatched_def demoBusy_def emptyResult_def fun_upd_idem)
  then have observed: "observeAll demoWatch ?now (fw_targets demoWatch)
      (demoWatched\<lparr>wx_self := (wx_self demoWatched)\<lparr>wf_lastRunAt := 1000\<rparr>, wx_result := emptyResult\<lparr>wk_ran := True\<rparr>\<rparr>)
    = (Inr [(demoTarget, demoReading)], demoBusy)"
    by (simp add: target bindS_def)
  have store: "wx_store demoBusy = wx_store demoWatched" "ws_events (wx_store demoWatched) = []" by (simp_all add: demoBusy_def demoWatched_def)
  have empty: "wx_result demoWatched = emptyResult" by (simp add: demoWatched_def)
  have synced: "syncAccepts demoWatch (wx_store demoWatched) rs ?now demoBusy = (Inr (), demoBusy)" for rs
    by (simp add: syncAccepts_def bindS_def unseenEvents_def store demoBusy_def demoWatched_def textGt_def Let_def)
  from demo_act obtain w where acted: "judgeAndAct demoWatch (wx_store demoWatched) ?now (demoTarget, demoReading) demoBusy = (Inr (), w)"
    and w: "wk_findings (wx_result w) = [findingOf demoTarget UnknownActivity]" "\<not> wk_killFailed (wx_result w)"
      "wf_baselines (wx_self w) = [keyOf demoTarget \<mapsto> demoRemembered]" by blast
  have asked: "deliverFundingRequests demoWatch (wx_store demoWatched) ?now w = (Inr (), w)"
    by (simp add: deliverFundingRequests_def store)
  have limits: "wt_chainId demoTarget = 1" "\<not> bl_walletMaxWei demoLimits < wr_balanceWei demoReading" "wb_excess demoRemembered = None"
    by (simp_all add: demoTarget_def demoLimits_def demoReading_def demoRemembered_def)
  have tracked: "trackExcess demoWatch [(demoTarget, demoReading)] active ?now w = (Inr (), w\<lparr>wx_result := wx_result w\<rparr>)"
    using limits w(3)
    by (simp add: trackExcess_def trackChain_def target bindS_def stepExcessTracker_def excessInput_def storeExcess_def resultW_def Let_def)
  show ?thesis
    using w observed synced acted asked tracked
    by (simp add: checkWallets_def bindS_def selfW_def resultW_def snapshotW_def store empty)
qed

theorem unexplained_activity_stops_witness:
  "\<exists>r w'. watchTick demoWatch True demoWatched = (Inr r, w') \<and> findingOf demoTarget UnknownActivity \<in> set (wk_findings r)
     \<and> ws_killed (wx_store w')"
proof -
  let ?now = "\<lparr>ck_text = ''1970-02'', ck_ms = 1000\<rparr>"
  from demo_checked obtain w where
    w: "checkWallets demoWatch False ?now demoWatched = (Inr (), w)"
       "wk_findings (wx_result w) = [findingOf demoTarget UnknownActivity]" "\<not> wk_killFailed (wx_result w)" by blast
  have "\<not> watchRunActive (wx_store demoWatched)" by (simp add: watchRunActive_def demoWatched_def)
  with w(1) have run: "watchTick demoWatch True demoWatched = (Inr (wx_result w), w)"
    unfolding watchTick_def demo_before by (simp add: bindS_def)
  from unexplained_activity_stops [OF demo_steadyOutside run, of "findingOf demoTarget UnknownActivity"] w run show ?thesis
    by (auto simp: stopFinding_def)
qed



section \<open>A restart\<close>

text \<open>
  A watcher that runs refuses an accepted state with more transactions than the chain shows. A watcher
  that starts takes it over from its event unchecked; then the wallet's readings count as inconsistent,
  which never stops signing.
\<close>

theorem restart_adopts_refused_accept:
  assumes t: "t \<in> set (fw_targets env)" and event: "we_type e = ''fleet_watch_accept''" "we_data e = baselineData t b"
    and events: "ws_events (wx_store w) = es @ [e]" and fresh: "\<not> wf_loaded (wx_self w)" "wf_baselines (wx_self w) = (\<lambda>_. None)"
    and ahead: "js_lt (wr_nonce reading) (wb_nonce b)"
    and accept: "fa_key accept = keyOf t" "fa_nonce accept = wb_nonce b"
  shows "baselineIs t b (snd (loadW env w))"
    and "judgeWallet reading (Some b) ledger = Inr VRpcInconsistent"
    and "baselineIs t b0 v \<Longrightarrow> baselineIs t b0 (snd (adoptAccept env [keyOf t \<mapsto> reading] now accept v))"
proof -
  have stays: "m key = Some x \<Longrightarrow> fold (loadEvent env) xs m key = Some x" for m key x xs
  proof (induction xs arbitrary: m)
    case (Cons y ys)
    then have "loadEvent env y m key = Some x" by (auto simp: loadEvent_def Let_def split: option.splits if_splits)
    with Cons.IH show ?case by simp
  qed simp
  have "loadEvent env e (\<lambda>_. None) (keyOf t) = Some b"
    using t event by (auto simp: loadEvent_def isBaselineEvent_def baselineData_def walletData_def noData_def keyOf_def Let_def valueOr_def)
  from stays [of "loadEvent env e (\<lambda>_. None)" "keyOf t" b "rev es", OF this] show "baselineIs t b (snd (loadW env w))"
    using events fresh by (simp add: loadW_def bindS_def selfW_def baselineIs_def)
  show "judgeWallet reading (Some b) ledger = Inr VRpcInconsistent" using ahead by (simp add: judgeWallet_def)
  assume b0: "baselineIs t b0 v"
  obtain target where "find (\<lambda>x. keyOf x = fa_key accept) (fw_targets env) = Some target"
    using t accept(1) by (cases "find (\<lambda>x. keyOf x = fa_key accept) (fw_targets env)") (auto simp: find_None_iff)
  then have "keep.follows (baselineIs t b0) (adoptAccept env [keyOf t \<mapsto> reading] now accept)"
    using ahead accept unfolding adoptAccept_def Let_def by (auto intro!: eff_order)
  with b0 show "baselineIs t b0 (snd (adoptAccept env [keyOf t \<mapsto> reading] now accept v))"
    by (auto simp: keep.follows_def)
qed

end
