(* ===== verification/SpendLedger.thy ===== *)
theory SpendLedger
  imports BackendTypes CappedStore
begin

text \<open>
  The spend ledger of the backend store (\<^verbatim>\<open>packages/backend/src/spend-ledger.ts\<close>): reserving a batch of wallets for
  a run under the cap of the run and of the day, releasing and settling.

  \<^item> The random ids and the time of a reservation are arguments; \<open>day\<close> is the first ten characters of
    the time. Times of creation and update are left out.
  \<^item> \<open>beforeReserve\<close> may throw or change the state first, inside the same transaction.
\<close>

record BatchInput =
  bi_runId :: string
  bi_campaignId :: string
  bi_wallets :: "address list"
  bi_amountWei :: wei
  bi_capWei :: wei
  bi_chainId :: "int option"
  bi_dailyCapWei :: "wei option"

definition heldByRun :: "string \<Rightarrow> BackendState \<Rightarrow> wei" where
  "heldByRun runId s =
     sum_list (map rs_amountWei (filter (\<lambda>r. rs_status r \<noteq> BReleased \<and> rs_runId r = runId) (bs_reservations s)))"

definition heldOnDay :: "int \<Rightarrow> string \<Rightarrow> BackendState \<Rightarrow> wei" where
  "heldOnDay chainId day s =
     sum_list (map rs_amountWei
       (filter (\<lambda>r. rs_status r \<noteq> BReleased \<and> rs_chainId r = Some chainId \<and> rs_accountingDate r = day) (bs_reservations s)))"

definition newReservation :: "BatchInput \<Rightarrow> string \<Rightarrow> address \<times> string \<Rightarrow> Reservation" where
  "newReservation i day = (\<lambda>(w, x). \<lparr>rs_id = x, rs_runId = bi_runId i, rs_campaignId = bi_campaignId i, rs_chainId = bi_chainId i,
     rs_wallet = w, rs_amountWei = bi_amountWei i, rs_actualWei = None, rs_accountingDate = day, rs_status = BReserved\<rparr>)"

definition reserveIn :: "BatchInput \<Rightarrow> string \<Rightarrow> string list \<Rightarrow> BackendState \<Rightarrow> dbError + Reservation list \<times> BackendState" where
  "reserveIn i day ids s =
     (let batch = bi_amountWei i * int (length (bi_wallets i))
      in bindR (ensure (\<not> list_ex (\<lambda>r. rs_runId r = bi_runId i \<and> rs_status r \<noteq> BReleased) (bs_reservations s)) ''RUN_ALREADY_RESERVED'') (\<lambda>_.
         bindR (ensure (heldByRun (bi_runId i) s + batch \<le> bi_capWei i) ''SPEND_CAP_EXCEEDED'') (\<lambda>_.
         bindR (case (bi_chainId i, bi_dailyCapWei i) of
                  (Some c, Some cap) \<Rightarrow> ensure (heldOnDay c day s + batch \<le> cap) ''DAILY_SPEND_CAP_EXCEEDED''
                | _ \<Rightarrow> Inr ()) (\<lambda>_.
         let rows = map (newReservation i day) (zip (bi_wallets i) ids)
         in Inr (rows, s\<lparr>bs_reservations := bs_reservations s @ rows\<rparr>)))))"

definition reserveBatch ::
  "(BackendState \<Rightarrow> dbError + BackendState) \<Rightarrow> BatchInput \<Rightarrow> string \<Rightarrow> string list \<Rightarrow> (BackendState, dbError, Reservation list) eff" where
  "reserveBatch beforeReserve i day ids s =
     (if bi_wallets i = [] then (Inl ''EMPTY_RESERVATION_BATCH'', s)
      else if bi_amountWei i < 0 \<or> bi_capWei i < 0 \<or> (case bi_dailyCapWei i of None \<Rightarrow> False | Some c \<Rightarrow> c < 0)
      then (Inl ''INVALID_SPEND_AMOUNT'', s)
      else if \<not> distinct (map toLowerCase (bi_wallets i)) then (Inl ''DUPLICATE_WALLET'', s)
      else storeTransaction (\<lambda>s. bindR (beforeReserve s) (reserveIn i day ids)) s)"

definition reserveOne :: "BatchInput \<Rightarrow> string \<Rightarrow> string \<Rightarrow> (BackendState, dbError, Reservation) eff" where
  "reserveOne i day x = bindS (reserveBatch Inr i day [x]) (\<lambda>rows. returnS (hd rows))"

definition changeStatus :: "string \<Rightarrow> BackendStatus \<Rightarrow> wei option \<Rightarrow> (BackendState, dbError, unit) eff" where
  "changeStatus i status actual =
     storeTransaction (\<lambda>s.
       case find (\<lambda>r. rs_id r = i) (bs_reservations s) of
         None \<Rightarrow> Inl ''RESERVATION_NOT_FOUND''
       | Some r \<Rightarrow>
           if rs_status r \<noteq> BReserved then Inl ''INVALID_RESERVATION_TRANSITION''
           else if (case actual of None \<Rightarrow> False | Some a \<Rightarrow> a < 0 \<or> a > rs_amountWei r) then Inl ''INVALID_SETTLEMENT_AMOUNT''
           else Inr ((), s\<lparr>bs_reservations := updateFirst (\<lambda>r. rs_id r = i) (\<lambda>r. r\<lparr>rs_status := status,
             rs_actualWei := (if status = BSettled then Some (case actual of None \<Rightarrow> rs_amountWei r | Some a \<Rightarrow> a) else rs_actualWei r)\<rparr>)
             (bs_reservations s)\<rparr>))"

definition settleLedger :: "string \<Rightarrow> wei option \<Rightarrow> (BackendState, dbError, unit) eff" where
  "settleLedger i actual = changeStatus i BSettled actual"

definition releaseLedger :: "string \<Rightarrow> (BackendState, dbError, unit) eff" where
  "releaseLedger i = changeStatus i BReleased None"

definition available :: "string \<Rightarrow> wei \<Rightarrow> BackendState \<Rightarrow> wei" where
  "available runId capWei s = capWei - heldByRun runId s"

section \<open>The cap of a run\<close>

text \<open>The amounts of the reservations of a run, and whether none is negative.\<close>

definition ledgerOk :: "BackendState \<Rightarrow> bool" where
  "ledgerOk s \<longleftrightarrow> list_all (\<lambda>r. 0 \<le> rs_amountWei r) (bs_reservations s)"

text \<open>A step admits spending for the run, under a cap that is not larger; or it is any other step of the ledger.\<close>

definition keepsReservations :: "(BackendState \<Rightarrow> dbError + BackendState) \<Rightarrow> bool" where
  "keepsReservations f \<longleftrightarrow> (\<forall>s s'. f s = Inr s' \<longrightarrow> bs_reservations s' = bs_reservations s)"

definition runAdmits :: "string \<Rightarrow> wei \<Rightarrow> BackendState \<Rightarrow> BackendState \<Rightarrow> bool" where
  "runAdmits runId cap s s' \<longleftrightarrow>
     (\<exists>f i day ids r. keepsReservations f \<and> bi_runId i = runId \<and> bi_capWei i \<le> cap \<and> length ids = length (bi_wallets i)
        \<and> reserveBatch f i day ids s = (Inr r, s'))"

definition runLowers :: "string \<Rightarrow> BackendState \<Rightarrow> BackendState \<Rightarrow> bool" where
  "runLowers runId s s' \<longleftrightarrow>
     (\<exists>f i day ids r. keepsReservations f \<and> bi_runId i \<noteq> runId \<and> reserveBatch f i day ids s = (r, s'))
     \<or> (\<exists>i actual r. settleLedger i actual s = (r, s')) \<or> (\<exists>i r. releaseLedger i s = (r, s'))"

lemma reserveBatch_Inr:
  assumes "reserveBatch f i day ids s = (Inr rows, s')" and "keepsReservations f"
  shows "bs_reservations s' = bs_reservations s @ rows" and "rows = map (newReservation i day) (zip (bi_wallets i) ids)"
    and "0 \<le> bi_amountWei i" and "heldByRun (bi_runId i) s + bi_amountWei i * int (length (bi_wallets i)) \<le> bi_capWei i"
proof -
  from assms(1) obtain s1 where f: "f s = Inr s1" and r: "reserveIn i day ids s1 = Inr (rows, s')" and a: "0 \<le> bi_amountWei i"
    by (auto simp: reserveBatch_def storeTransaction_Inr bindR_eq_Inr split: if_splits)
  from f assms(2) have same: "bs_reservations s1 = bs_reservations s" by (simp add: keepsReservations_def)
  from r same a show "bs_reservations s' = bs_reservations s @ rows" "rows = map (newReservation i day) (zip (bi_wallets i) ids)"
    "0 \<le> bi_amountWei i" "heldByRun (bi_runId i) s + bi_amountWei i * int (length (bi_wallets i)) \<le> bi_capWei i"
    by (auto simp: reserveIn_def Let_def bindR_eq_Inr heldByRun_def)
qed

lemma newReservation_simps:
  "rs_amountWei (newReservation i day x) = bi_amountWei i" "rs_runId (newReservation i day x) = bi_runId i"
  "rs_status (newReservation i day x) = BReserved"
  by (simp_all add: newReservation_def split: prod.split)

lemma reserved_exposure:
  assumes "bs_reservations s' = bs_reservations s @ map (newReservation i day) xs"
  shows "heldByRun runId s' = heldByRun runId s + (if runId = bi_runId i then bi_amountWei i * int (length xs) else 0)"
  using assms by (auto simp: heldByRun_def newReservation_simps o_def sum_list_triv mult.commute)

lemma changed_exposure:
  assumes "bs_reservations s' = updateFirst P f (bs_reservations s)" and "ledgerOk s"
    and "\<And>r. rs_amountWei (f r) = rs_amountWei r" and "\<And>r. rs_runId (f r) = rs_runId r"
    and "find P (bs_reservations s) = Some r" and "rs_status r \<noteq> BReleased"
  shows "heldByRun runId s' \<le> heldByRun runId s" and "ledgerOk s'"
proof -
  have "sum_list (map rs_amountWei (filter (\<lambda>r. rs_status r \<noteq> BReleased \<and> rs_runId r = runId) (updateFirst P f xs)))
      \<le> sum_list (map rs_amountWei (filter (\<lambda>r. rs_status r \<noteq> BReleased \<and> rs_runId r = runId) xs))"
    if "list_all (\<lambda>r. 0 \<le> rs_amountWei r) xs" and "find P xs = Some r" for xs
    using that
  proof (induction xs)
    case (Cons x xs)
    then show ?case using assms(3,4) [of x] assms(6) by (auto split: if_splits)
  qed simp
  with assms(1,2,5) show "heldByRun runId s' \<le> heldByRun runId s" by (simp add: heldByRun_def ledgerOk_def)
  have "map rs_amountWei (bs_reservations s') = map rs_amountWei (bs_reservations s)"
    by (simp add: assms(1) updateFirst_map assms(3))
  then have "list_all (\<lambda>n. 0 \<le> n) (map rs_amountWei (bs_reservations s')) = list_all (\<lambda>n. 0 \<le> n) (map rs_amountWei (bs_reservations s))"
    by simp
  with assms(2) show "ledgerOk s'" by (simp add: ledgerOk_def list.pred_map o_def)
qed

lemma changeStatus_step:
  assumes "changeStatus i status actual s = (r, s')" and "ledgerOk s"
  shows "heldByRun runId s' \<le> heldByRun runId s \<and> ledgerOk s'"
proof (cases r)
  case (Inl e)
  with assms show ?thesis by (simp add: changeStatus_def storeTransaction_Inl)
next
  case (Inr u)
  with assms obtain x where "find (\<lambda>r. rs_id r = i) (bs_reservations s) = Some x" "rs_status x = BReserved"
    and "bs_reservations s' = updateFirst (\<lambda>r. rs_id r = i) (\<lambda>r. r\<lparr>rs_status := status,
             rs_actualWei := (if status = BSettled then Some (case actual of None \<Rightarrow> rs_amountWei r | Some a \<Rightarrow> a) else rs_actualWei r)\<rparr>)
             (bs_reservations s)"
    by (auto simp: changeStatus_def storeTransaction_Inr split: option.splits if_splits)
  with changed_exposure [OF this(3) assms(2)] show ?thesis by auto
qed

lemma reserveBatch_Inl: "reserveBatch f i day ids s = (Inl e, s') \<Longrightarrow> s' = s"
  by (auto simp: reserveBatch_def storeTransaction_Inl split: if_splits)

lemma reserveBatch_ok:
  assumes "reserveBatch f i day ids s = (Inr rows, s')" and "keepsReservations f" and "ledgerOk s"
  shows "ledgerOk s'"
  using assms reserveBatch_Inr [OF assms(1,2)] by (auto simp: ledgerOk_def list_all_iff newReservation_simps)

lemma runLowers_step:
  assumes "runLowers runId s s'" and "ledgerOk s"
  shows "heldByRun runId s' \<le> heldByRun runId s \<and> ledgerOk s'"
proof -
  have other: "heldByRun runId s' \<le> heldByRun runId s \<and> ledgerOk s'"
    if "keepsReservations f" "bi_runId i \<noteq> runId" "reserveBatch f i day ids s = (r, s')" for f i day ids r
  proof (cases r)
    case (Inl e)
    with that(3) assms(2) show ?thesis by (auto dest: reserveBatch_Inl)
  next
    case (Inr rows)
    with that have b: "reserveBatch f i day ids s = (Inr rows, s')" by simp
    from reserveBatch_Inr(1,2) [OF b that(1)] have "bs_reservations s' = bs_reservations s @ map (newReservation i day) (zip (bi_wallets i) ids)"
      by simp
    from reserved_exposure [OF this, of runId] that(2) reserveBatch_ok [OF b that(1) assms(2)] show ?thesis by auto
  qed
  with assms show ?thesis unfolding runLowers_def settleLedger_def releaseLedger_def by (blast dest: changeStatus_step)
qed

text \<open>The ledger is a capped store, at any cutoff: a run never holds more than its cap.\<close>

interpretation run_ledger: capped_store "\<lambda>_. heldByRun runId" "\<lambda>_. Some 0" ledgerOk "runAdmits runId cap" "runLowers runId" cap
  for runId cap
proof unfold_locales
  fix s s' and c d :: int
  assume ok: "ledgerOk s"
  {
    assume "runAdmits runId cap s s'"
    then obtain f i day ids rows where f: "keepsReservations f" and i: "bi_runId i = runId" "bi_capWei i \<le> cap"
      "length ids = length (bi_wallets i)" and b: "reserveBatch f i day ids s = (Inr rows, s')"
      by (auto simp: runAdmits_def)
    note rows = reserveBatch_Inr [OF b f]
    show "ledgerOk s'" by (rule reserveBatch_ok [OF b f ok])
    have "bs_reservations s' = bs_reservations s @ map (newReservation i day) (zip (bi_wallets i) ids)" using rows(1,2) by simp
    from reserved_exposure [OF this, of runId] rows(4) i
    have "heldByRun runId s' \<le> cap" by simp
    then show "\<exists>c d :: int. Some 0 = Some d \<and> c \<le> d \<and> heldByRun runId s' \<le> cap"
      by (intro exI [of _ 0]) simp
  next
    assume "runLowers runId s s'"
    from runLowers_step [OF this ok] show "ledgerOk s'" and "heldByRun runId s' \<le> heldByRun runId s" by auto
  }
qed auto

lemma run_cap_kept:
  assumes "run_ledger.steps runId cap s s'" and "ledgerOk s" and "heldByRun runId s \<le> cap"
  shows "0 \<le> available runId cap s'"
  using run_ledger.capKept_steps [OF assms(1)] assms(2,3) by (simp add: run_ledger.capKept_def available_def)

end
