(* ===== verification/AllowlistAuthority.thy ===== *)
theory AllowlistAuthority
  imports Allowlist Strategy Compensating
begin

text \<open>
  The published allowlist as a source of proofs: the parser of a published list
  (\<^verbatim>\<open>parsePublishedList\<close> of \<^verbatim>\<open>packages/engine/src/allowlist.ts\<close>), the qualification of the
  owner's wallets against the root read from the chain and the call that a qualified proof builds
  (\<^verbatim>\<open>packages/engine/src/allowlist-authority.ts\<close>).

  \<^item> \<open>ProofLib\<close> gathers the functions of libraries: the hashes of \<open>Hashing\<close>, \<^verbatim>\<open>JSON.parse\<close>
    (\<open>None\<close> when it throws), viem's \<^verbatim>\<open>getAddress\<close>, SHA-256 as hexadecimal text, \<^verbatim>\<open>Date.parse\<close>
    (\<open>None\<close> is not a number) and the ABI encoding of \<^verbatim>\<open>mintAllowList\<close> (\<open>None\<close> when it throws).
  \<^item> A node of a proof is the integer of its text, as in \<open>Allowlist\<close>; the root stays a text, whose form
    is checked here. The clock is an argument, in milliseconds.
\<close>

section \<open>Untyped values\<close>

text \<open>\<^verbatim>\<open>value[key]\<close>; a missing key reads as undefined.\<close>

fun fld :: "jsval \<Rightarrow> string \<Rightarrow> jsval" where
  "fld (JObj kvs) k = (case map_of kvs k of None \<Rightarrow> JUndef | Some v \<Rightarrow> v)"
| "fld _ k = JUndef"

text \<open>\<^verbatim>\<open>value \<and> typeof value === 'object'\<close>, arrays included.\<close>

fun isObject :: "jsval \<Rightarrow> bool" where
  "isObject (JObj _) = True"
| "isObject (JArr _) = True"
| "isObject _ = False"

definition HASH32 :: "string \<Rightarrow> bool" where
  "HASH32 s \<longleftrightarrow> take 2 s = ''0x'' \<and> length s = 66 \<and> all_hex (drop 2 s)"

definition hexInt :: "hex \<Rightarrow> int" where
  "hexInt s = hex_value 0 (drop 2 s)"

definition canonicalDecimal :: "string \<Rightarrow> bool" where
  "canonicalDecimal s \<longleftrightarrow> s \<noteq> [] \<and> list_all isDigit s \<and> (s = ''0'' \<or> hd s \<noteq> CHR ''0'')"

section \<open>The published list\<close>

datatype AllowlistError =
    FileNotJson
  | FileShapeInvalid
  | EntryInvalid nat "string option"
  | ContentDigestMismatch
  | AuthorityInvalid
  | WalletStageAmbiguous
  | WalletProofInvalid
  | EncodingFailed

record ProofLib =
  pl_hashing :: Hashing
  pl_parseJson :: "string \<Rightarrow> jsval option"
  pl_getAddress :: "string \<Rightarrow> address"
  pl_sha256 :: "string \<Rightarrow> string"
  pl_parseDate :: "string \<Rightarrow> int option"
  pl_encodeMint :: "address \<Rightarrow> address \<Rightarrow> int \<Rightarrow> MintParams \<Rightarrow> int list \<Rightarrow> hex option"

definition publishedRows :: "jsval \<Rightarrow> jsval list option" where
  "publishedRows raw =
     (case raw of
        JArr rows \<Rightarrow> Some rows
      | JObj _ \<Rightarrow> (case fld raw ''entries'' of JArr rows \<Rightarrow> Some rows | _ \<Rightarrow> None)
      | _ \<Rightarrow> None)"

text \<open>\<^verbatim>\<open>String(value)\<close> of a text or of a safe integer; other values are refused before.\<close>

fun numberText :: "jsval \<Rightarrow> string option" where
  "numberText (JStr s) = Some s"
| "numberText (JNum x) = (if isSafeInteger x then Some (show_int (js_int x)) else None)"
| "numberText _ = None"

definition entryNumber :: "nat \<Rightarrow> jsval \<Rightarrow> string \<Rightarrow> AllowlistError + int" where
  "entryNumber i params name =
     (case numberText (fld params name) of
        None \<Rightarrow> Inl (EntryInvalid i (Some name))
      | Some s \<Rightarrow>
          if s \<noteq> [] \<and> length s \<le> 78 \<and> list_all isDigit s \<and> decimalValue 0 s < 2 ^ 256 then Inr (decimalValue 0 s)
          else Inl (EntryInvalid i (Some name)))"

definition entryParams :: "nat \<Rightarrow> jsval \<Rightarrow> AllowlistError + MintParams" where
  "entryParams i params =
     bindR (entryNumber i params ''mintPrice'') (\<lambda>price.
     bindR (entryNumber i params ''maxTotalMintableByWallet'') (\<lambda>perWallet.
     bindR (entryNumber i params ''startTime'') (\<lambda>opens.
     bindR (entryNumber i params ''endTime'') (\<lambda>closes.
     bindR (entryNumber i params ''dropStageIndex'') (\<lambda>stage.
     bindR (entryNumber i params ''maxTokenSupplyForStage'') (\<lambda>supply.
     bindR (entryNumber i params ''feeBps'') (\<lambda>fee.
       case fld params ''restrictFeeRecipients'' of
         JBool b \<Rightarrow> Inr \<lparr>mp_mintPrice = price, mp_maxTotalMintableByWallet = perWallet, mp_startTime = opens, mp_endTime = closes,
           mp_dropStageIndex = stage, mp_maxTokenSupplyForStage = supply, mp_feeBps = fee, mp_restrictFeeRecipients = b\<rparr>
       | _ \<Rightarrow> Inl (EntryInvalid i (Some ''restrictFeeRecipients'')))))))))"

fun proofNode :: "jsval \<Rightarrow> int option" where
  "proofNode (JStr s) = (if HASH32 s then Some (hexInt s) else None)"
| "proofNode _ = None"

definition publishedProof :: "nat \<Rightarrow> jsval \<Rightarrow> AllowlistError + int list option" where
  "publishedProof i v =
     (case v of
        JUndef \<Rightarrow> Inr None
      | JArr vs \<Rightarrow>
          if length vs \<le> 64 \<and> list_all (\<lambda>node. proofNode node \<noteq> None) vs then Inr (Some (map (the \<circ> proofNode) vs))
          else Inl (EntryInvalid i (Some ''proof''))
      | _ \<Rightarrow> Inl (EntryInvalid i (Some ''proof'')))"

text \<open>One row; \<open>i\<close> is its position counted from one, as the error names it.\<close>

definition publishedEntry :: "ProofLib \<Rightarrow> nat \<Rightarrow> jsval \<Rightarrow> AllowlistError + PublishedEntry" where
  "publishedEntry L i row =
     (case fld row ''address'' of
        JStr addr \<Rightarrow>
          let params = fld row ''mintParams''
          in if \<not> isAddress (pl_hashing L) addr \<or> \<not> isObject params then Inl (EntryInvalid i None)
             else bindR (entryParams i params) (\<lambda>p.
                  bindR (publishedProof i (fld row ''proof'')) (\<lambda>proof.
                    Inr \<lparr>pe_address = pl_getAddress L addr, pe_mintParams = p, pe_proof = proof\<rparr>))
      | _ \<Rightarrow> Inl (EntryInvalid i None))"

definition parsePublishedList :: "ProofLib \<Rightarrow> string \<Rightarrow> AllowlistError + ListKind \<times> PublishedEntry list" where
  "parsePublishedList L txt =
     (case pl_parseJson L txt of
        None \<Rightarrow> Inl FileNotJson
      | Some raw \<Rightarrow>
          (case publishedRows raw of
             None \<Rightarrow> Inl FileShapeInvalid
           | Some rows \<Rightarrow>
               if rows = [] \<or> length rows > 100000 then Inl FileShapeInvalid
               else bindR (mapR (\<lambda>(i, row). publishedEntry L i row) (enumerate 1 rows)) (\<lambda>entries.
                      Inr (if list_all (\<lambda>e. pe_proof e \<noteq> None) entries then ProofsOnly else FullList, entries))))"

section \<open>Qualification of the owner's wallets\<close>

record AllowlistAuthoritySnapshot =
  as_chainId :: SupportedChainId
  as_nftContract :: address
  as_seaDrop :: address
  as_root :: hex
  as_blockNumber :: int
  as_blockHash :: hex
  as_observedAt :: string
  as_feeRecipient :: address

record AllowlistSourceBinding =
  src_chainId :: SupportedChainId
  src_nftContract :: address
  src_stageIndex :: string
  src_sourceId :: string
  src_contentDigest :: string

record VerifiedWalletProof =
  vw_wallet :: address
  vw_authority :: AllowlistAuthoritySnapshot
  vw_source :: AllowlistSourceBinding
  vw_mintParams :: MintParams
  vw_proof :: "int list"

text \<open>The snapshot was observed at most a minute ago and not in the future.\<close>

definition freshSnapshot :: "ProofLib \<Rightarrow> AllowlistAuthoritySnapshot \<Rightarrow> int \<Rightarrow> bool" where
  "freshSnapshot L a t =
     (case pl_parseDate L (as_observedAt a) of None \<Rightarrow> False | Some seen \<Rightarrow> 0 \<le> t - seen \<and> t - seen \<le> 60000)"

definition sourceIdChar :: "char \<Rightarrow> bool" where
  "sourceIdChar c \<longleftrightarrow> isDigit c \<or> c \<in> set ''ABCDEFGHIJKLMNOPQRSTUVWXYZabcdefghijklmnopqrstuvwxyz_-''"

definition authorityValid :: "ProofLib \<Rightarrow> AllowlistAuthoritySnapshot \<Rightarrow> AllowlistSourceBinding \<Rightarrow> int \<Rightarrow> bool" where
  "authorityValid L a s t \<longleftrightarrow>
     src_chainId s = as_chainId a \<and> validAddress (as_nftContract a) \<and>
     toLowerCase (src_nftContract s) = toLowerCase (as_nftContract a) \<and>
     toLowerCase (as_seaDrop a) = toLowerCase SEADROP_V1_ADDRESS \<and> validAddress (as_feeRecipient a) \<and>
     HASH32 (as_root a) \<and> drop 2 (as_root a) \<noteq> replicate 64 (CHR ''0'') \<and> HASH32 (as_blockHash a) \<and> 0 \<le> as_blockNumber a \<and>
     freshSnapshot L a t \<and>
     src_stageIndex s \<noteq> [] \<and> list_all isDigit (src_stageIndex s) \<and> hd (src_stageIndex s) \<noteq> CHR ''0'' \<and>
     take 7 (src_contentDigest s) = ''sha256:'' \<and> hexDigest (drop 7 (src_contentDigest s)) \<and>
     src_sourceId s \<noteq> [] \<and> length (src_sourceId s) \<le> 80 \<and> list_all sourceIdChar (src_sourceId s)"

text \<open>\<^verbatim>\<open>verifyProof\<close> with the root as a text: a root that is not a 32-byte hash equals no computed hash.\<close>

definition provesRoot :: "ProofLib \<Rightarrow> int list \<Rightarrow> hex \<Rightarrow> address \<Rightarrow> MintParams \<Rightarrow> bool" where
  "provesRoot L proof rt addr p \<longleftrightarrow>
     take 2 (toLowerCase rt) = ''0x'' \<and> length rt = 66 \<and> all_hex (drop 2 rt) \<and>
     verifyProof (pl_hashing L) proof (hexInt rt) (allowlistLeaf (pl_hashing L) addr p)"

definition mintableParams :: "MintParams \<Rightarrow> int \<Rightarrow> bool" where
  "mintableParams p unix \<longleftrightarrow>
     0 < mp_startTime p \<and> mp_startTime p < mp_endTime p \<and> unix \<le> mp_endTime p \<and>
     1 \<le> mp_maxTotalMintableByWallet p \<and> mp_maxTotalMintableByWallet p \<le> MAX_SAFE_INTEGER \<and>
     1 \<le> mp_maxTokenSupplyForStage p \<and> mp_feeBps p \<le> 10000 \<and> mp_endTime p \<le> 7258118400"

record QualifyInput =
  qi_text :: string
  qi_source :: AllowlistSourceBinding
  qi_authority :: AllowlistAuthoritySnapshot
  qi_wallets :: "address list"
  qi_now :: int

definition ownEntry :: "QualifyInput \<Rightarrow> PublishedEntry \<Rightarrow> bool" where
  "ownEntry i e \<longleftrightarrow>
     toLowerCase (pe_address e) \<in> toLowerCase ` set (qi_wallets i) \<and>
     show_int (mp_dropStageIndex (pe_mintParams e)) = src_stageIndex (qi_source i)"

text \<open>The proof of an entry that qualifies; \<open>None\<close> where the loop goes on with the next entry.\<close>

definition qualifiedEntry :: "ProofLib \<Rightarrow> QualifyInput \<Rightarrow> MerkleTree option \<Rightarrow> PublishedEntry \<Rightarrow> VerifiedWalletProof option" where
  "qualifiedEntry L i tree e =
     (if \<not> ownEntry i e \<or> \<not> mintableParams (pe_mintParams e) (qi_now i div 1000) then None
      else case entryProof (pl_hashing L) tree e of
             None \<Rightarrow> None
           | Some proof \<Rightarrow>
               if \<not> provesRoot L proof (as_root (qi_authority i)) (pe_address e) (pe_mintParams e) then None
               else Some \<lparr>vw_wallet = pe_address e, vw_authority = qi_authority i, vw_source = qi_source i,
                      vw_mintParams = pe_mintParams e, vw_proof = proof\<rparr>)"

fun qualifyLoop ::
  "ProofLib \<Rightarrow> QualifyInput \<Rightarrow> MerkleTree option \<Rightarrow> (string \<times> VerifiedWalletProof) list \<Rightarrow> PublishedEntry list \<Rightarrow>
   AllowlistError + (string \<times> VerifiedWalletProof) list" where
  "qualifyLoop L i tree found [] = Inr found"
| "qualifyLoop L i tree found (e # es) =
     (case qualifiedEntry L i tree e of
        None \<Rightarrow> qualifyLoop L i tree found es
      | Some v \<Rightarrow>
          if toLowerCase (pe_address e) \<in> fst ` set found then Inl WalletStageAmbiguous
          else qualifyLoop L i tree (found @ [(toLowerCase (pe_address e), v)]) es)"

definition qualifyWalletProofs :: "ProofLib \<Rightarrow> QualifyInput \<Rightarrow> AllowlistError + VerifiedWalletProof list" where
  "qualifyWalletProofs L i =
     bindR (ensure (''sha256:'' @ pl_sha256 L (qi_text i) = src_contentDigest (qi_source i)) ContentDigestMismatch) (\<lambda>_.
     bindR (ensure (authorityValid L (qi_authority i) (qi_source i) (qi_now i)) AuthorityInvalid) (\<lambda>_.
     bindR (parsePublishedList L (qi_text i)) (\<lambda>(kind, entries).
       let tree = (if kind = FullList
                   then Some (buildTree (pl_hashing L) (map (\<lambda>e. allowlistLeaf (pl_hashing L) (pe_address e) (pe_mintParams e)) entries))
                   else None)
       in bindR (qualifyLoop L i tree [] entries) (\<lambda>found. Inr (map snd found)))))"

section \<open>The call of a qualified proof\<close>

record AllowlistMint =
  km_to :: address
  km_data :: hex
  km_value :: wei

definition buildAllowlistMint ::
  "ProofLib \<Rightarrow> int \<Rightarrow> VerifiedWalletProof \<Rightarrow> address \<Rightarrow> int \<Rightarrow> AllowlistError + AllowlistMint" where
  "buildAllowlistMint L t proof wallet quantity =
     (let p = vw_mintParams proof; a = vw_authority proof; unix = t div 1000
      in if toLowerCase wallet \<noteq> toLowerCase (vw_wallet proof) \<or> \<bar>quantity\<bar> > MAX_SAFE_INTEGER \<or> quantity < 1
            \<or> quantity > mp_maxTotalMintableByWallet p \<or> unix < mp_startTime p \<or> unix > mp_endTime p
            \<or> \<not> freshSnapshot L a t \<or> \<not> validAddress wallet \<or> \<not> provesRoot L (vw_proof proof) (as_root a) wallet p
         then Inl WalletProofInvalid
         else case pl_encodeMint L (as_nftContract a) (as_feeRecipient a) quantity p (vw_proof proof) of
                None \<Rightarrow> Inl EncodingFailed
              | Some d \<Rightarrow> Inr \<lparr>km_to = as_seaDrop a, km_data = d, km_value = mp_mintPrice p * quantity\<rparr>)"

section \<open>What qualification establishes\<close>

definition qualifies :: "ProofLib \<Rightarrow> QualifyInput \<Rightarrow> VerifiedWalletProof \<Rightarrow> bool" where
  "qualifies L i v \<longleftrightarrow>
     toLowerCase (vw_wallet v) \<in> toLowerCase ` set (qi_wallets i) \<and>
     show_int (mp_dropStageIndex (vw_mintParams v)) = src_stageIndex (qi_source i) \<and>
     vw_authority v = qi_authority i \<and> vw_source v = qi_source i \<and>
     mintableParams (vw_mintParams v) (qi_now i div 1000) \<and>
     provesRoot L (vw_proof v) (as_root (qi_authority i)) (vw_wallet v) (vw_mintParams v)"

lemma qualifiedEntry_qualifies:
  "qualifiedEntry L i tree e = Some v \<Longrightarrow> qualifies L i v \<and> vw_wallet v = pe_address e"
  by (auto simp: qualifiedEntry_def qualifies_def ownEntry_def split: if_splits option.splits)

text \<open>The loop keeps one qualified proof per key, and the key of a proof is its wallet in lower case.\<close>

definition keyedProofs :: "ProofLib \<Rightarrow> QualifyInput \<Rightarrow> address set \<Rightarrow> (string \<times> VerifiedWalletProof) list \<Rightarrow> bool" where
  "keyedProofs L i A found \<longleftrightarrow>
     distinct (map fst found) \<and>
     (\<forall>(k, v) \<in> set found. k = toLowerCase (vw_wallet v) \<and> qualifies L i v \<and> vw_wallet v \<in> A)"

lemma qualifyLoop_keyed:
  assumes "qualifyLoop L i tree found es = Inr found'" and "keyedProofs L i A found" and "pe_address ` set es \<subseteq> A"
  shows "keyedProofs L i A found'"
  using assms
proof (induction es arbitrary: found)
  case (Cons e es)
  show ?case
  proof (cases "qualifiedEntry L i tree e")
    case None
    with Cons show ?thesis by simp
  next
    case (Some v)
    from Cons.prems(1) Some have new: "toLowerCase (pe_address e) \<notin> fst ` set found"
      and rest: "qualifyLoop L i tree (found @ [(toLowerCase (pe_address e), v)]) es = Inr found'"
      by (auto split: if_splits)
    have "keyedProofs L i A (found @ [(toLowerCase (pe_address e), v)])"
      using Cons.prems(2,3) new qualifiedEntry_qualifies [OF Some] by (auto simp: keyedProofs_def)
    from Cons.IH [OF rest this] Cons.prems(3) show ?thesis by simp
  qed
qed simp

lemma published_addresses:
  assumes "parsePublishedList L txt = Inr (kind, entries)"
  shows "pe_address ` set entries \<subseteq> pl_getAddress L ` {s. isAddress (pl_hashing L) s}"
proof -
  from assms obtain rows where m: "mapR (\<lambda>(i, row). publishedEntry L i row) (enumerate 1 rows) = Inr entries"
    by (auto simp: parsePublishedList_def bindR_eq_Inr split: option.splits if_splits)
  have one: "publishedEntry L i row = Inr e \<Longrightarrow> pe_address e \<in> pl_getAddress L ` {s. isAddress (pl_hashing L) s}" for i row e
    by (auto simp: publishedEntry_def Let_def bindR_eq_Inr split: jsval.splits if_splits)
  from m have "list_all2 (\<lambda>x e. (case x of (i, row) \<Rightarrow> publishedEntry L i row) = Inr e) (enumerate 1 rows) entries"
    by (simp add: mapR_eq_Inr)
  then have each: "publishedEntry L (fst (enumerate 1 rows ! j)) (snd (enumerate 1 rows ! j)) = Inr (entries ! j)"
    if "j < length entries" for j
    using that by (simp add: list_all2_conv_all_nth split_beta)
  show ?thesis
  proof (intro subsetI, elim imageE)
    fix a e
    assume "a = pe_address e" "e \<in> set entries"
    then obtain j where "j < length entries" "a = pe_address (entries ! j)" by (auto simp: in_set_conv_nth)
    with one [OF each] show "a \<in> pl_getAddress L ` {s. isAddress (pl_hashing L) s}" by blast
  qed
qed

lemma qualified_proofs:
  assumes "qualifyWalletProofs L i = Inr ps"
  shows "distinct (map (toLowerCase \<circ> vw_wallet) ps)"
    and "v \<in> set ps \<Longrightarrow> qualifies L i v \<and> (\<exists>s. isAddress (pl_hashing L) s \<and> vw_wallet v = pl_getAddress L s)"
    and "authorityValid L (qi_authority i) (qi_source i) (qi_now i)"
proof -
  from assms obtain kind entries tree found where parsed: "parsePublishedList L (qi_text i) = Inr (kind, entries)"
    and loop: "qualifyLoop L i tree [] entries = Inr found" and ps: "ps = map snd found"
    and valid: "authorityValid L (qi_authority i) (qi_source i) (qi_now i)"
    by (auto simp: qualifyWalletProofs_def Let_def bindR_eq_Inr)
  have k: "keyedProofs L i (pl_getAddress L ` {s. isAddress (pl_hashing L) s}) found"
    by (rule qualifyLoop_keyed [OF loop _ published_addresses [OF parsed]]) (simp add: keyedProofs_def)
  have "map (toLowerCase \<circ> vw_wallet) ps = map fst found"
    using k by (auto simp: ps keyedProofs_def)
  with k show "distinct (map (toLowerCase \<circ> vw_wallet) ps)" by (simp add: keyedProofs_def)
  show "v \<in> set ps \<Longrightarrow> qualifies L i v \<and> (\<exists>s. isAddress (pl_hashing L) s \<and> vw_wallet v = pl_getAddress L s)"
    using k by (fastforce simp: ps keyedProofs_def)
  show "authorityValid L (qi_authority i) (qi_source i) (qi_now i)" by (fact valid)
qed

lemma built_mint:
  assumes "buildAllowlistMint L t proof wallet q = Inr m"
  shows "toLowerCase wallet = toLowerCase (vw_wallet proof)" "1 \<le> q" "q \<le> mp_maxTotalMintableByWallet (vw_mintParams proof)"
    "freshSnapshot L (vw_authority proof) t"
    "provesRoot L (vw_proof proof) (as_root (vw_authority proof)) wallet (vw_mintParams proof)"
    "km_to m = as_seaDrop (vw_authority proof)" "km_value m = mp_mintPrice (vw_mintParams proof) * q"
    "pl_encodeMint L (as_nftContract (vw_authority proof)) (as_feeRecipient (vw_authority proof)) q (vw_mintParams proof)
       (vw_proof proof) = Some (km_data m)"
  using assms by (auto simp: buildAllowlistMint_def Let_def split: if_splits option.splits)


definition demoRoot :: hex where
  "demoRoot = ''0x'' @ replicate 62 (CHR ''0'') @ ''2a''"

definition demoOwner :: address where
  "demoOwner = ''0x'' @ replicate 40 (CHR ''a'')"

definition demoPublished :: jsval where
  "demoPublished = JArr [JObj [(''address'', JStr demoOwner), (''proof'', JArr []), (''mintParams'', JObj [
     (''mintPrice'', JStr ''0''), (''maxTotalMintableByWallet'', JStr ''2''), (''startTime'', JStr ''5''), (''endTime'', JStr ''90''),
     (''dropStageIndex'', JStr ''1''), (''maxTokenSupplyForStage'', JStr ''100''), (''feeBps'', JStr ''500''),
     (''restrictFeeRecipients'', JBool True)])]]"

definition demoProofLib :: ProofLib where
  "demoProofLib = \<lparr>pl_hashing = \<lparr>keccakPair = (\<lambda>a b. 10 * a + b), allowlistLeaf = (\<lambda>a p. int (length a)), isAddress = validAddress\<rparr>,
     pl_parseJson = (\<lambda>s. Some demoPublished), pl_getAddress = (\<lambda>s. s), pl_sha256 = (\<lambda>s. replicate 64 (CHR ''e'')),
     pl_parseDate = (\<lambda>s. Some 10000), pl_encodeMint = (\<lambda>nft fee q p proof. Some (''0x4300a4e6'' @ show_int q))\<rparr>"

definition demoSnapshot :: AllowlistAuthoritySnapshot where
  "demoSnapshot = \<lparr>as_chainId = Chain8453, as_nftContract = demoOwner, as_seaDrop = SEADROP_V1_ADDRESS, as_root = demoRoot,
     as_blockNumber = 7, as_blockHash = demoRoot, as_observedAt = ''t'', as_feeRecipient = OPENSEA_FEE_COLLECTOR\<rparr>"

definition demoQualify :: QualifyInput where
  "demoQualify = \<lparr>qi_text = ''[]'', qi_source = \<lparr>src_chainId = Chain8453, src_nftContract = demoOwner, src_stageIndex = ''1'',
       src_sourceId = ''team'', src_contentDigest = ''sha256:'' @ replicate 64 (CHR ''e'')\<rparr>,
     qi_authority = demoSnapshot, qi_wallets = [demoOwner], qi_now = 20000\<rparr>"

definition demoParams :: MintParams where
  "demoParams = \<lparr>mp_mintPrice = 0, mp_maxTotalMintableByWallet = 2, mp_startTime = 5, mp_endTime = 90, mp_dropStageIndex = 1,
     mp_maxTokenSupplyForStage = 100, mp_feeBps = 500, mp_restrictFeeRecipients = True\<rparr>"

definition demoVerified :: VerifiedWalletProof where
  "demoVerified = \<lparr>vw_wallet = demoOwner, vw_authority = demoSnapshot, vw_source = qi_source demoQualify,
     vw_mintParams = demoParams, vw_proof = []\<rparr>"

lemma demo_number: "entryNumber i (JObj kvs) k = Inr n"
  if "map_of kvs k = Some (JStr s)" "s \<noteq> []" "length s \<le> 78" "list_all isDigit s" "decimalValue 0 s = n" "n < 1000"
  using that by (simp add: entryNumber_def)

lemma demo_entry:
  "publishedEntry demoProofLib 1 (case demoPublished of JArr rows \<Rightarrow> hd rows | _ \<Rightarrow> JUndef) =
   Inr \<lparr>pe_address = demoOwner, pe_mintParams = demoParams, pe_proof = Some []\<rparr>"
proof -
  have "validAddress demoOwner" by code_simp
  then show ?thesis
    by (simp add: demoPublished_def publishedEntry_def demoProofLib_def publishedProof_def entryParams_def demo_number
        isDigit_def demoParams_def Let_def)
qed

lemma demo_parsed:
  "parsePublishedList demoProofLib txt =
   Inr (ProofsOnly, [\<lparr>pe_address = demoOwner, pe_mintParams = demoParams, pe_proof = Some []\<rparr>])"
  using demo_entry by (simp add: parsePublishedList_def publishedRows_def demoProofLib_def demoPublished_def)

lemma demo_authority: "authorityValid demoProofLib demoSnapshot (qi_source demoQualify) 20000"
proof -
  have "validAddress demoOwner \<and> validAddress OPENSEA_FEE_COLLECTOR" by code_simp
  moreover have "HASH32 demoRoot \<and> drop 2 demoRoot \<noteq> replicate 64 (CHR ''0'')" by code_simp
  moreover have "hexDigest (replicate 64 (CHR ''e''))" by code_simp
  moreover have "list_all sourceIdChar ''team''" by code_simp
  ultimately show ?thesis
    by (simp add: authorityValid_def demoSnapshot_def demoQualify_def demoProofLib_def freshSnapshot_def isDigit_def)
qed

lemma demo_root: "provesRoot demoProofLib [] demoRoot demoOwner p"
proof -
  have "take 2 (toLowerCase demoRoot) = ''0x'' \<and> length demoRoot = 66 \<and> all_hex (drop 2 demoRoot)" by code_simp
  moreover have "hexInt demoRoot = int (length demoOwner)" by code_simp
  ultimately show ?thesis by (simp add: provesRoot_def demoProofLib_def verifyProof_def)
qed

lemma demo_qualified: "qualifyWalletProofs demoProofLib demoQualify = Inr [demoVerified]"
proof -
  have stage: "show_int 1 = ''1''" by code_simp
  show ?thesis
    using demo_authority demo_root
    by (simp add: qualifyWalletProofs_def demo_parsed qualifiedEntry_def ownEntry_def mintableParams_def demoQualify_def
        demoVerified_def demoSnapshot_def demoParams_def entryProof_def stage MAX_SAFE_INTEGER_def)
      (simp add: demoProofLib_def)
qed


end
