(* ===== verification/TurnkeyPolicy.thy ===== *)
theory TurnkeyPolicy
  imports AllowlistAuthority "HOL-Library.Product_Lexorder"
begin

text \<open>
  The signing policy of the custody provider as the engine enforces it locally
  (\<^verbatim>\<open>packages/engine/src/turnkey-policy.ts\<close>): the validation and normal form of a policy, its
  canonical text, its binding to the provider and to the wallets, and the decision on an intent.

  \<^item> A policy arrives as an untyped value. In the normal form the constant fields (\<^verbatim>\<open>version\<close>,
    \<^verbatim>\<open>effect\<close>, \<^verbatim>\<open>provider\<close>, \<^verbatim>\<open>accessList\<close>) are left out; \<open>policyValue\<close> puts them back.
  \<^item> The kind of a family is tested through \<^verbatim>\<open>String(kind)\<close>, which also accepts an array that holds
    only the text, so the field keeps its untyped value.
  \<^item> An error is its message. \<^verbatim>\<open>keccak256(toBytes(text))\<close> and the functions in \<open>ProofLib\<close> are arguments.
  \<^item> The sorted JSON text of an access list is the sorted list itself; the order in which it is sorted does
    not matter where two of them are compared.
\<close>

section \<open>The policy\<close>

type_synonym tkError = string

datatype TurnkeyEnvironment = Production | Testnet

fun environmentOf :: "jsval \<Rightarrow> TurnkeyEnvironment option" where
  "environmentOf (JStr s) = (if s = ''production'' then Some Production else if s = ''testnet'' then Some Testnet else None)"
| "environmentOf _ = None"

fun environmentText :: "TurnkeyEnvironment \<Rightarrow> string" where
  "environmentText Production = ''production''"
| "environmentText Testnet = ''testnet''"

record TurnkeyProviderBinding =
  pb_provider :: string
  pb_environment :: TurnkeyEnvironment
  pb_organizationId :: string
  pb_userId :: string
  pb_policyId :: string
  pb_policyDigest :: hex

record TurnkeyPolicyScope =
  ts_environment :: TurnkeyEnvironment
  ts_organizationId :: string
  ts_userId :: string
  ts_policyId :: string
  ts_keyIds :: "string list"

record TurnkeyPolicyTransaction =
  tt_chainId :: SupportedChainId
  tt_from :: "address list"
  tt_to :: address
  tt_valueWei :: string
  tt_data :: hex
  tt_gasLimitMax :: string
  tt_maxFeePerGasMax :: string
  tt_maxPriorityFeePerGasMax :: string

record TurnkeyPolicyFamily =
  tf_kind :: jsval
  tf_maxQuantity :: int

record TurnkeyPolicyAst =
  ast_scope :: TurnkeyPolicyScope
  ast_transaction :: TurnkeyPolicyTransaction
  ast_family :: "TurnkeyPolicyFamily option"

definition KIND_ROBINHOOD_PUBLIC :: string where
  "KIND_ROBINHOOD_PUBLIC = ''robinhood-seadrop-public-v1''"

definition KIND_FREE_ALLOWLIST :: string where
  "KIND_FREE_ALLOWLIST = ''seadrop-free-allowlist-v1''"

definition KIND_FREE_PUBLIC :: string where
  "KIND_FREE_PUBLIC = ''seadrop-free-public-v1''"

section \<open>Tests on untyped values\<close>

fun isRecord :: "jsval \<Rightarrow> bool" where
  "isRecord (JObj _) = True"
| "isRecord _ = False"

definition exactKeys :: "jsval \<Rightarrow> string list \<Rightarrow> bool" where
  "exactKeys v keys \<longleftrightarrow> (case v of JObj kvs \<Rightarrow> sort (map fst kvs) = sort keys | _ \<Rightarrow> False)"

text \<open>White space of \<^verbatim>\<open>\s\<close> among the one-byte characters.\<close>

definition isWhiteChar :: "char \<Rightarrow> bool" where
  "isWhiteChar c \<longleftrightarrow> (let n = (of_char c :: nat) in 9 \<le> n \<and> n \<le> 13 \<or> n = 32 \<or> n = 160)"

fun nonEmptyText :: "jsval \<Rightarrow> bool" where
  "nonEmptyText (JStr s) = (s \<noteq> [] \<and> \<not> list_ex isWhiteChar s)"
| "nonEmptyText _ = False"

fun addressText :: "jsval \<Rightarrow> bool" where
  "addressText (JStr s) = validAddress s"
| "addressText _ = False"

fun textOf :: "jsval \<Rightarrow> string" where
  "textOf (JStr s) = s"
| "textOf _ = []"

fun isText :: "jsval \<Rightarrow> bool" where
  "isText (JStr _) = True"
| "isText _ = False"

fun supportedChainId :: "jsval \<Rightarrow> SupportedChainId option" where
  "supportedChainId (JNum x) =
     (if x = jint 1 then Some Chain1 else if x = jint 8453 then Some Chain8453 else if x = jint 4663 then Some Chain4663 else None)"
| "supportedChainId _ = None"

fun policyChainNumber :: "SupportedChainId \<Rightarrow> int" where
  "policyChainNumber Chain1 = 1"
| "policyChainNumber Chain8453 = 8453"
| "policyChainNumber Chain4663 = 4663"

text \<open>
  \<^verbatim>\<open>String(kind)\<close>, where it can be one of the kinds: of a text, and of an array that holds only such a
  value. The text of every other value holds another character or is empty.
\<close>

fun kindText :: "jsval \<Rightarrow> string option" where
  "kindText (JStr s) = Some s"
| "kindText (JArr [v]) = kindText v"
| "kindText _ = None"

definition normalizeHexBytes :: "string \<Rightarrow> tkError + hex" where
  "normalizeHexBytes s =
     (if toLowerCase (take 2 s) = ''0x'' \<and> even (length s) \<and> all_hex (drop 2 s) then Inr (toLowerCase s)
      else Inl ''TURNKEY_HEX_BYTES_INVALID'')"

definition normalizeStorageKey :: "hex \<Rightarrow> tkError + hex" where
  "normalizeStorageKey key =
     bindR (normalizeHexBytes key) (\<lambda>n. if length n = 66 then Inr n else Inl ''TURNKEY_ACCESS_LIST_INVALID'')"

definition normalizeAccessItem :: "TransactionAccessListItem \<Rightarrow> tkError + (address \<times> hex list)" where
  "normalizeAccessItem item =
     bindR (ensure (validAddress (al_address item)) ''TURNKEY_ACCESS_LIST_INVALID'') (\<lambda>_.
     bindR (mapR normalizeStorageKey (storageKeys item)) (\<lambda>keys.
       Inr (toLowerCase (al_address item), sort keys)))"

definition normalizeAccessList :: "TransactionAccessListItem list option \<Rightarrow> tkError + (address \<times> hex list) list" where
  "normalizeAccessList v =
     (case v of
        None \<Rightarrow> Inr []
      | Some items \<Rightarrow> bindR (mapR normalizeAccessItem items) (\<lambda>entries. Inr (sort entries)))"

section \<open>Validation\<close>

definition parseFamily :: "jsval \<Rightarrow> tkError + TurnkeyPolicyFamily option" where
  "parseFamily v =
     (if v = JUndef then Inr None
      else if isRecord v \<and> exactKeys v [''kind'', ''maxQuantity''] \<and>
              kindText (fld v ''kind'') \<in> Some ` {KIND_ROBINHOOD_PUBLIC, KIND_FREE_ALLOWLIST, KIND_FREE_PUBLIC}
           then (case fld v ''maxQuantity'' of
                   JNum x \<Rightarrow>
                     if isSafeInteger x \<and> 1 \<le> js_int x \<and> js_int x \<le> 15
                     then Inr (Some \<lparr>tf_kind = fld v ''kind'', tf_maxQuantity = js_int x\<rparr>)
                     else Inl ''TURNKEY_POLICY_FAMILY_INVALID''
                 | _ \<Rightarrow> Inl ''TURNKEY_POLICY_FAMILY_INVALID'')
      else Inl ''TURNKEY_POLICY_FAMILY_INVALID'')"

definition parseScope :: "jsval \<Rightarrow> tkError + TurnkeyPolicyScope" where
  "parseScope scope =
     (case (environmentOf (fld scope ''environment''), fld scope ''keyIds'') of
        (Some env, JArr keys) \<Rightarrow>
          if fld scope ''provider'' = JStr ''turnkey'' \<and> nonEmptyText (fld scope ''organizationId'') \<and>
             nonEmptyText (fld scope ''userId'') \<and> nonEmptyText (fld scope ''policyId'') \<and> list_all nonEmptyText keys \<and>
             distinct (map textOf keys) \<and> keys \<noteq> []
          then Inr \<lparr>ts_environment = env, ts_organizationId = textOf (fld scope ''organizationId''),
                 ts_userId = textOf (fld scope ''userId''), ts_policyId = textOf (fld scope ''policyId''),
                 ts_keyIds = sort (map textOf keys)\<rparr>
          else Inl ''TURNKEY_POLICY_SCOPE_INVALID''
      | _ \<Rightarrow> Inl ''TURNKEY_POLICY_SCOPE_INVALID'')"

definition parseTransaction :: "jsval \<Rightarrow> tkError + TurnkeyPolicyTransaction" where
  "parseTransaction tx =
     (let invalid = ''TURNKEY_POLICY_TRANSACTION_INVALID'';
          valueWei = fld tx ''valueWei''; gas = fld tx ''gasLimitMax'';
          fee = fld tx ''maxFeePerGasMax''; tip = fld tx ''maxPriorityFeePerGasMax''
      in case (supportedChainId (fld tx ''chainId''), fld tx ''from'', fld tx ''accessList'') of
           (Some chain, JArr senders, JArr items) \<Rightarrow>
             if senders = [] \<or> \<not> addressText (fld tx ''to'') \<or> \<not> isText valueWei \<or> \<not> isText (fld tx ''data'') \<or>
                \<not> isText gas \<or> \<not> isText fee \<or> \<not> isText tip
             then Inl invalid
             else if \<not> list_all addressText senders then Inl invalid
             else (let froms = map (\<lambda>a. toLowerCase (textOf a)) senders
                   in if \<not> distinct froms \<or> textOf valueWei \<noteq> ''0'' \<or> \<not> canonicalDecimal (textOf gas) \<or>
                         \<not> canonicalDecimal (textOf fee) \<or> \<not> canonicalDecimal (textOf tip) \<or> items \<noteq> []
                      then Inl invalid
                      else bindR (normalizeHexBytes (textOf (fld tx ''data''))) (\<lambda>data.
                             if data = ''0x'' then Inl invalid
                             else Inr \<lparr>tt_chainId = chain, tt_from = sort froms, tt_to = toLowerCase (textOf (fld tx ''to'')),
                                    tt_valueWei = textOf valueWei, tt_data = data, tt_gasLimitMax = textOf gas,
                                    tt_maxFeePerGasMax = textOf fee, tt_maxPriorityFeePerGasMax = textOf tip\<rparr>))
         | _ \<Rightarrow> Inl invalid)"

definition publicFamilyLimits :: "TurnkeyPolicyTransaction \<Rightarrow> TurnkeyPolicyFamily \<Rightarrow> tkError + unit" where
  "publicFamilyLimits tx f =
     (let gas = decimalValue 0 (tt_gasLimitMax tx); fee = decimalValue 0 (tt_maxFeePerGasMax tx);
          tip = decimalValue 0 (tt_maxPriorityFeePerGasMax tx)
      in bindR (ensure (tf_maxQuantity f \<le> (if tt_chainId tx = Chain8453 then 4 else 10)) ''TURNKEY_POLICY_FAMILY_INVALID'') (\<lambda>_.
           ensure (1 \<le> gas \<and> gas \<le> 500000 \<and> 1 \<le> fee \<and> fee \<le> 200000000 \<and> tip \<le> 100000000 \<and> tip \<le> fee)
             ''TURNKEY_POLICY_FAMILY_FEE_LIMIT_INVALID''))"

definition allowlistFamilyLimits :: "TurnkeyPolicyTransaction \<Rightarrow> TurnkeyPolicyFamily \<Rightarrow> tkError + unit" where
  "allowlistFamilyLimits tx f =
     (let gas = decimalValue 0 (tt_gasLimitMax tx); fee = decimalValue 0 (tt_maxFeePerGasMax tx);
          tip = decimalValue 0 (tt_maxPriorityFeePerGasMax tx);
          walletCap = (if tt_chainId tx = Chain1 then 400000000000000 else 200000000000000);
          feeCap = (if tt_chainId tx = Chain1 then 800000000 else 200000000)
      in bindR (ensure (\<not> (tt_chainId tx = Chain8453 \<and> 4 < tf_maxQuantity f)) ''TURNKEY_POLICY_FAMILY_INVALID'') (\<lambda>_.
           ensure (1 \<le> gas \<and> gas \<le> 500000 \<and> 1 \<le> fee \<and> fee \<le> feeCap \<and> tip \<le> 100000000 \<and> tip \<le> fee \<and>
               gas * fee \<le> walletCap)
             ''TURNKEY_POLICY_FAMILY_FEE_LIMIT_INVALID''))"

definition familyLimits :: "TurnkeyPolicyTransaction \<Rightarrow> TurnkeyPolicyFamily \<Rightarrow> tkError + unit" where
  "familyLimits tx f =
     (if tf_kind f = JStr KIND_FREE_PUBLIC then publicFamilyLimits tx f
      else if tf_kind f = JStr KIND_FREE_ALLOWLIST then allowlistFamilyLimits tx f
      else Inr ())"

text \<open>The contract and the selector to which a family is pinned.\<close>

definition familyPinned :: "TurnkeyPolicyTransaction \<Rightarrow> TurnkeyPolicyFamily \<Rightarrow> bool" where
  "familyPinned tx f \<longleftrightarrow>
     toLowerCase (tt_to tx) = toLowerCase SEADROP_V1_ADDRESS \<and> tt_valueWei tx = ''0'' \<and>
     (if tf_kind f = JStr KIND_ROBINHOOD_PUBLIC then tt_chainId tx = Chain4663 \<and> tt_data tx = ''0x161ac21f''
      else if tf_kind f = JStr KIND_FREE_PUBLIC then tt_data tx = ''0x161ac21f''
      else tt_data tx = ''0x4300a4e6'')"

definition SCOPE_KEYS :: "string list" where
  "SCOPE_KEYS = [''provider'', ''environment'', ''organizationId'', ''userId'', ''policyId'', ''keyIds'']"

definition TRANSACTION_KEYS :: "string list" where
  "TRANSACTION_KEYS = [''chainId'', ''from'', ''to'', ''valueWei'', ''data'', ''gasLimitMax'', ''maxFeePerGasMax'',
     ''maxPriorityFeePerGasMax'', ''accessList'']"

definition validateTurnkeyPolicyAst :: "jsval \<Rightarrow> tkError + TurnkeyPolicyAst" where
  "validateTurnkeyPolicyAst v =
     (let scope = fld v ''scope''; tx = fld v ''transaction''; keys = [''version'', ''effect'', ''scope'', ''transaction'']
      in bindR (ensure (isRecord v \<and> (exactKeys v keys \<or> exactKeys v (keys @ [''family'']))) ''TURNKEY_POLICY_AST_INVALID'') (\<lambda>_.
         bindR (ensure (fld v ''version'' = JNum (jint 1) \<and> fld v ''effect'' = JStr ''allow'' \<and> isRecord scope \<and> isRecord tx)
           ''TURNKEY_POLICY_AST_INVALID'') (\<lambda>_.
         bindR (ensure (exactKeys scope SCOPE_KEYS) ''TURNKEY_POLICY_SCOPE_INVALID'') (\<lambda>_.
         bindR (ensure (exactKeys tx TRANSACTION_KEYS) ''TURNKEY_POLICY_TRANSACTION_INVALID'') (\<lambda>_.
         bindR (parseFamily (fld v ''family'')) (\<lambda>family.
         bindR (parseScope scope) (\<lambda>s.
         bindR (parseTransaction tx) (\<lambda>t.
         bindR (case family of None \<Rightarrow> Inr () | Some f \<Rightarrow> familyLimits t f) (\<lambda>_.
         bindR (ensure (case family of None \<Rightarrow> True | Some f \<Rightarrow> familyPinned t f) ''TURNKEY_POLICY_FAMILY_INVALID'') (\<lambda>_.
           Inr \<lparr>ast_scope = s, ast_transaction = t, ast_family = family\<rparr>))))))))))"

text \<open>The normal form as a value again.\<close>

definition scopeValue :: "TurnkeyPolicyScope \<Rightarrow> jsval" where
  "scopeValue s = JObj [(''provider'', JStr ''turnkey''), (''environment'', JStr (environmentText (ts_environment s))),
     (''organizationId'', JStr (ts_organizationId s)), (''userId'', JStr (ts_userId s)), (''policyId'', JStr (ts_policyId s)),
     (''keyIds'', JArr (map JStr (ts_keyIds s)))]"

definition transactionValue :: "TurnkeyPolicyTransaction \<Rightarrow> jsval" where
  "transactionValue t = JObj [(''chainId'', JNum (jint (policyChainNumber (tt_chainId t)))), (''from'', JArr (map JStr (tt_from t))),
     (''to'', JStr (tt_to t)), (''valueWei'', JStr (tt_valueWei t)), (''data'', JStr (tt_data t)),
     (''gasLimitMax'', JStr (tt_gasLimitMax t)), (''maxFeePerGasMax'', JStr (tt_maxFeePerGasMax t)),
     (''maxPriorityFeePerGasMax'', JStr (tt_maxPriorityFeePerGasMax t)), (''accessList'', JArr [])]"

definition policyValue :: "TurnkeyPolicyAst \<Rightarrow> jsval" where
  "policyValue p = JObj ([(''version'', JNum (jint 1)), (''effect'', JStr ''allow''), (''scope'', scopeValue (ast_scope p)),
     (''transaction'', transactionValue (ast_transaction p))] @
     (case ast_family p of
        None \<Rightarrow> []
      | Some f \<Rightarrow> [(''family'', JObj [(''kind'', tf_kind f), (''maxQuantity'', JNum (jint (tf_maxQuantity f)))])]))"

section \<open>Canonical text and references\<close>

text \<open>\<^verbatim>\<open>JSON.stringify\<close> of a text: the quote, the backslash and the control characters are escaped.\<close>

definition hexChar :: "nat \<Rightarrow> char" where
  "hexChar n = ''0123456789abcdef'' ! n"

definition jsonChar :: "char \<Rightarrow> string" where
  "jsonChar c =
     (let n = (of_char c :: nat); bs = char_of (92 :: nat)
      in if n = 34 \<or> n = 92 then [bs, c]
         else if n = 8 then [bs, CHR ''b''] else if n = 9 then [bs, CHR ''t''] else if n = 10 then [bs, CHR ''n'']
         else if n = 12 then [bs, CHR ''f''] else if n = 13 then [bs, CHR ''r'']
         else if n < 32 then [bs, CHR ''u'', CHR ''0'', CHR ''0'', hexChar (n div 16), hexChar (n mod 16)]
         else [c])"

definition jsonText :: "string \<Rightarrow> string" where
  "jsonText s = [char_of (34 :: nat)] @ concat (map jsonChar s) @ [char_of (34 :: nat)]"

fun joinWith :: "string \<Rightarrow> string list \<Rightarrow> string" where
  "joinWith sep [] = []"
| "joinWith sep [s] = s"
| "joinWith sep (s # ss) = s @ sep @ joinWith sep ss"

text \<open>
  The canonical text sorts the keys of every object. The numbers of a policy are safe integers, whose
  text is their decimal; a bigint, which has no JSON text, does not occur.
\<close>

fun stableStringify :: "jsval \<Rightarrow> string" where
  "stableStringify JUndef = ''undefined''"
| "stableStringify JNull = ''null''"
| "stableStringify (JBool b) = (if b then ''true'' else ''false'')"
| "stableStringify (JNum x) = (if isFinite x then show_int (js_int x) else ''null'')"
| "stableStringify (JBig n) = show_int n"
| "stableStringify (JStr s) = jsonText s"
| "stableStringify (JArr vs) = ''['' @ joinWith '','' (map stableStringify vs) @ '']''"
| "stableStringify (JObj kvs) =
     [CHR 0x7B] @ joinWith '','' (map snd (sort_key fst (map (\<lambda>(k, v). (k, jsonText k @ '':'' @ stableStringify v)) kvs))) @ [CHR 0x7D]"

definition canonicalPolicyJson :: "jsval \<Rightarrow> tkError + string" where
  "canonicalPolicyJson policy = bindR (validateTurnkeyPolicyAst policy) (\<lambda>p. Inr (stableStringify (policyValue p)))"

definition canonicalPolicyDigest :: "(string \<Rightarrow> hex) \<Rightarrow> jsval \<Rightarrow> tkError + hex" where
  "canonicalPolicyDigest keccakText policy = bindR (canonicalPolicyJson policy) (\<lambda>txt. Inr (keccakText txt))"

definition digestText :: "string \<Rightarrow> bool" where
  "digestText s \<longleftrightarrow> toLowerCase (take 2 s) = ''0x'' \<and> length s = 66 \<and> all_hex (drop 2 s)"

definition turnkeyPolicyRef :: "string \<Rightarrow> hex \<Rightarrow> tkError + string" where
  "turnkeyPolicyRef policyId policyDigest =
     (if \<not> nonEmptyText (JStr policyId) \<or> \<not> digestText policyDigest then Inl ''TURNKEY_POLICY_REFERENCE_INVALID''
      else Inr (''turnkey:'' @ policyId @ '':'' @ toLowerCase policyDigest))"

section \<open>Binding to the provider and to the wallets\<close>

record TurnkeyWalletReference =
  tw_index :: int
  tw_address :: address
  tw_signWith :: string

definition validatePolicyBinding ::
  "(string \<Rightarrow> hex) \<Rightarrow> jsval \<Rightarrow> TurnkeyProviderBinding \<Rightarrow> TurnkeyWalletReference list \<Rightarrow> tkError + TurnkeyPolicyAst" where
  "validatePolicyBinding keccakText policy b wallets =
     bindR (validateTurnkeyPolicyAst policy) (\<lambda>p.
     let s = ast_scope p; invalid = ''TURNKEY_POLICY_PROVIDER_BINDING_INVALID''
     in if pb_provider b \<noteq> ''turnkey'' \<or> \<not> digestText (pb_policyDigest b) \<or> pb_policyId b \<noteq> ts_policyId s \<or>
           pb_organizationId b \<noteq> ts_organizationId s \<or> pb_userId b \<noteq> ts_userId s \<or> pb_environment b \<noteq> ts_environment s
        then Inl invalid
        else bindR (canonicalPolicyDigest keccakText (policyValue p)) (\<lambda>d.
          if toLowerCase d \<noteq> toLowerCase (pb_policyDigest b) then Inl invalid
          else if sort (map tw_signWith wallets) \<noteq> ts_keyIds s \<or>
                  sort (map (\<lambda>w. toLowerCase (tw_address w)) wallets) \<noteq> tt_from (ast_transaction p)
               then Inl ''TURNKEY_POLICY_WALLET_SCOPE_INVALID''
          else Inr p))"

record TurnkeyKeyInventoryEntry =
  ke_privateKeyId :: string
  ke_organizationId :: string
  ke_userId :: string
  ke_environment :: TurnkeyEnvironment
  ke_address :: string

record TurnkeyKeyInventory =
  ki_organizationId :: string
  ki_userId :: string
  ki_environment :: TurnkeyEnvironment
  ki_privateKeys :: "TurnkeyKeyInventoryEntry list"

text \<open>\<^verbatim>\<open>new Map(wallets)\<close>: a repeated key keeps the last address.\<close>

definition expectedKeys :: "TurnkeyWalletReference list \<Rightarrow> string \<Rightarrow> string option" where
  "expectedKeys wallets = map_of (rev (map (\<lambda>w. (tw_signWith w, toLowerCase (tw_address w))) wallets))"

definition inventoryKeyOk ::
  "TurnkeyProviderBinding \<Rightarrow> TurnkeyWalletReference list \<Rightarrow> string list \<Rightarrow> TurnkeyKeyInventoryEntry \<Rightarrow> bool" where
  "inventoryKeyOk b wallets seen key \<longleftrightarrow>
     ke_privateKeyId key \<notin> set seen \<and> ke_organizationId key = pb_organizationId b \<and> ke_userId key = pb_userId b \<and>
     ke_environment key = pb_environment b \<and> validAddress (ke_address key) \<and>
     expectedKeys wallets (ke_privateKeyId key) = Some (toLowerCase (ke_address key))"

fun inventoryLoop ::
  "TurnkeyProviderBinding \<Rightarrow> TurnkeyWalletReference list \<Rightarrow> string list \<Rightarrow> TurnkeyKeyInventoryEntry list \<Rightarrow> tkError + string list" where
  "inventoryLoop b wallets seen [] = Inr seen"
| "inventoryLoop b wallets seen (key # keys) =
     (if inventoryKeyOk b wallets seen key then inventoryLoop b wallets (seen @ [ke_privateKeyId key]) keys
      else Inl ''TURNKEY_KEY_INVENTORY_BINDING_INVALID'')"

definition validateKeyInventory ::
  "TurnkeyKeyInventory \<Rightarrow> TurnkeyProviderBinding \<Rightarrow> TurnkeyWalletReference list \<Rightarrow> tkError + unit" where
  "validateKeyInventory inventory b wallets =
     (let invalid = ''TURNKEY_KEY_INVENTORY_BINDING_INVALID''
      in if ki_organizationId inventory \<noteq> pb_organizationId b \<or> ki_userId inventory \<noteq> pb_userId b \<or>
            ki_environment inventory \<noteq> pb_environment b \<or> length (ki_privateKeys inventory) \<noteq> length wallets
         then Inl invalid
         else bindR (inventoryLoop b wallets [] (ki_privateKeys inventory)) (\<lambda>seen.
                ensure (length seen = length (remdups (map tw_signWith wallets))) invalid))"

section \<open>The decision on an intent\<close>

text \<open>
  An intent with the fields of its family context that only the signer reads: the proof of the wallet and
  whether a readiness check was supplied.
\<close>

record SigningIntent = TransactionIntent +
  si_allowlistProof :: "VerifiedWalletProof option"
  si_hasAssertReady :: bool

definition slice :: "nat \<Rightarrow> nat \<Rightarrow> string \<Rightarrow> string" where
  "slice a b s = take (b - a) (drop a s)"

definition robinhoodFamilyCalldata :: "hex \<Rightarrow> int \<Rightarrow> FamilyContext option \<Rightarrow> bool" where
  "robinhoodFamilyCalldata data maxQuantity context =
     (case context of
        None \<Rightarrow> False
      | Some c \<Rightarrow>
          length data = 266 \<and> toLowerCase (slice 0 10 data) = ''0x161ac21f'' \<and>
          slice 10 34 data = replicate 24 (CHR ''0'') \<and> slice 74 98 data = replicate 24 (CHR ''0'') \<and>
          validAddress (fc_nftContract c) \<and> validAddress (fc_feeRecipient c) \<and>
          toLowerCase (''0x'' @ slice 34 74 data) = toLowerCase (fc_nftContract c) \<and>
          toLowerCase (''0x'' @ slice 98 138 data) = toLowerCase (fc_feeRecipient c) \<and>
          slice 138 202 data = replicate 64 (CHR ''0'') \<and>
          1 \<le> hex_value 0 (slice 202 266 data) \<and> hex_value 0 (slice 202 266 data) \<le> maxQuantity)"

text \<open>
  The loop over the quantities; the clock is read again for every call that is built, \<open>nowAt q\<close> is its
  reading for the quantity \<open>q\<close>.
\<close>

fun someQuantityBuilds :: "ProofLib \<Rightarrow> (int \<Rightarrow> int) \<Rightarrow> VerifiedWalletProof \<Rightarrow> address \<Rightarrow> hex \<Rightarrow> int list \<Rightarrow> bool" where
  "someQuantityBuilds L nowAt proof from data [] = False"
| "someQuantityBuilds L nowAt proof from data (q # qs) =
     (case buildAllowlistMint L (nowAt q) proof from q of
        Inl _ \<Rightarrow> False
      | Inr m \<Rightarrow>
          if km_value m = 0 \<and> toLowerCase (km_data m) = toLowerCase data then True
          else someQuantityBuilds L nowAt proof from data qs)"

definition allowlistFamilyCalldata :: "ProofLib \<Rightarrow> (int \<Rightarrow> int) \<Rightarrow> SigningIntent \<Rightarrow> hex \<Rightarrow> int \<Rightarrow> bool" where
  "allowlistFamilyCalldata L nowAt intent data maxQuantity =
     (case (ti_familyContext intent, si_allowlistProof intent) of
        (Some c, Some proof) \<Rightarrow>
          let s = vw_source proof; a = vw_authority proof; p = vw_mintParams proof
          in truthy (ti_campaignId intent) \<and> truthy (ti_runId intent) \<and>
             src_chainId s = ti_chainId intent \<and> toLowerCase (src_nftContract s) = toLowerCase (fc_nftContract c) \<and>
             src_stageIndex s = show_int (mp_dropStageIndex p) \<and> as_chainId a = ti_chainId intent \<and>
             toLowerCase (as_nftContract a) = toLowerCase (fc_nftContract c) \<and>
             toLowerCase (as_feeRecipient a) = toLowerCase (fc_feeRecipient c) \<and>
             toLowerCase (as_seaDrop a) = toLowerCase (ti_to intent) \<and> mp_mintPrice p = 0 \<and> length (vw_proof proof) \<le> 64 \<and>
             someQuantityBuilds L nowAt proof (ti_from intent) data [1..maxQuantity]
      | _ \<Rightarrow> False)"

definition intentInBounds :: "TurnkeyPolicyTransaction \<Rightarrow> string \<Rightarrow> SigningIntent \<Rightarrow> bool" where
  "intentInBounds t expectedPolicyRef i \<longleftrightarrow>
     ti_policyRef i = Some expectedPolicyRef \<and> ti_chainId i = tt_chainId t \<and> 0 \<le> ti_nonce i \<and>
     validAddress (ti_from i) \<and> toLowerCase (ti_from i) \<in> set (tt_from t) \<and>
     validAddress (ti_to i) \<and> toLowerCase (ti_to i) = tt_to t \<and> ti_value i = decimalValue 0 (tt_valueWei t) \<and>
     0 \<le> ti_gasLimit i \<and> 0 \<le> ti_maxFeePerGas i \<and> 0 \<le> ti_maxPriorityFeePerGas i \<and>
     ti_gasLimit i \<le> decimalValue 0 (tt_gasLimitMax t) \<and> ti_maxFeePerGas i \<le> decimalValue 0 (tt_maxFeePerGasMax t) \<and>
     ti_maxPriorityFeePerGas i \<le> decimalValue 0 (tt_maxPriorityFeePerGasMax t)"

definition familyCalldata :: "ProofLib \<Rightarrow> (int \<Rightarrow> int) \<Rightarrow> SigningIntent \<Rightarrow> hex \<Rightarrow> TurnkeyPolicyFamily \<Rightarrow> bool" where
  "familyCalldata L nowAt i data f =
     (if tf_kind f = JStr KIND_ROBINHOOD_PUBLIC \<or> tf_kind f = JStr KIND_FREE_PUBLIC
      then robinhoodFamilyCalldata data (tf_maxQuantity f) (ti_familyContext i)
      else if tf_kind f = JStr KIND_FREE_ALLOWLIST then allowlistFamilyCalldata L nowAt i data (tf_maxQuantity f)
      else False)"

definition intentAllowed :: "ProofLib \<Rightarrow> (int \<Rightarrow> int) \<Rightarrow> SigningIntent \<Rightarrow> jsval \<Rightarrow> string \<Rightarrow> tkError + bool" where
  "intentAllowed L nowAt i policy expectedPolicyRef =
     bindR (validateTurnkeyPolicyAst policy) (\<lambda>p.
     let t = ast_transaction p
     in bindR (if intentInBounds t expectedPolicyRef i
               then bindR (normalizeAccessList (ti_accessList i)) (\<lambda>l. Inr (l = []))
               else Inr False) (\<lambda>common.
        bindR (normalizeHexBytes (ti_data i)) (\<lambda>data.
          Inr (common \<and> (case ast_family p of None \<Rightarrow> data = tt_data t | Some f \<Rightarrow> familyCalldata L nowAt i data f)))))"

text \<open>Every failure, of whatever step, is the same refusal.\<close>

definition validateTransactionIntent ::
  "ProofLib \<Rightarrow> (int \<Rightarrow> int) \<Rightarrow> SigningIntent \<Rightarrow> jsval \<Rightarrow> string \<Rightarrow> tkError + unit" where
  "validateTransactionIntent L nowAt i policy expectedPolicyRef =
     (case intentAllowed L nowAt i policy expectedPolicyRef of
        Inr True \<Rightarrow> Inr ()
      | _ \<Rightarrow> Inl ''TURNKEY_POLICY_INTENT_BLOCKED'')"

section \<open>The normal form is stable\<close>

lemma all_hex_lower: "all_hex (toLowerCase s) \<longleftrightarrow> all_hex s"
proof -
  have "(hex_digit (lower_char c) \<noteq> None) = (hex_digit c \<noteq> None)" for c
    by (auto simp: hex_digit_def lower_char_def Let_def of_char_of_small)
  then show ?thesis by (simp add: all_hex_def toLowerCase_def list_all_iff)
qed

lemma toLowerCase_take [js_simps]: "toLowerCase (take n s) = take n (toLowerCase s)"
  by (simp add: toLowerCase_def take_map)

lemma toLowerCase_drop [js_simps]: "toLowerCase (drop n s) = drop n (toLowerCase s)"
  by (simp add: toLowerCase_def drop_map)

lemma toLowerCase_append [js_simps]: "toLowerCase (xs @ ys) = toLowerCase xs @ toLowerCase ys"
  by (simp add: toLowerCase_def)

lemma lower_0x [simp]: "toLowerCase ''0x'' = ''0x''"
  by (simp add: toLowerCase_def lower_char_def)

lemma sort_eq_Nil [simp]: "sort xs = [] \<longleftrightarrow> xs = []"
  by (metis length_0_conv length_sort)

lemma lower_address: "validAddress s \<Longrightarrow> validAddress (toLowerCase s)"
proof -
  assume a: "validAddress s"
  then have "toLowerCase (take 2 s) = ''0x''" by (simp add: validAddress_def toLowerCase_def lower_char_def)
  then have "take 2 (toLowerCase s) = ''0x''" by (simp add: toLowerCase_take)
  moreover have "all_hex (drop 2 (toLowerCase s))"
    using a by (simp add: validAddress_def all_hex_lower flip: toLowerCase_drop)
  ultimately show ?thesis using a by (simp add: validAddress_def)
qed

lemma normalizeHexBytes_idem: "normalizeHexBytes s = Inr d \<Longrightarrow> normalizeHexBytes d = Inr d"
proof -
  assume "normalizeHexBytes s = Inr d"
  then have s: "toLowerCase (take 2 s) = ''0x''" "even (length s)" "all_hex (drop 2 s)" and d: "d = toLowerCase s"
    by (auto simp: normalizeHexBytes_def split: if_splits)
  have "all_hex (drop 2 d)" using s(3) by (simp add: d all_hex_lower flip: toLowerCase_drop)
  moreover have "toLowerCase (take 2 d) = ''0x''" using s(1) by (simp add: d toLowerCase_take)
  moreover have "even (length d)" using s(2) by (simp add: d)
  moreover have "toLowerCase d = d" by (simp add: d)
  ultimately show ?thesis by (simp add: normalizeHexBytes_def)
qed

text \<open>What holds of the parts of every validated policy.\<close>

definition wellScoped :: "TurnkeyPolicyScope \<Rightarrow> bool" where
  "wellScoped s \<longleftrightarrow>
     nonEmptyText (JStr (ts_organizationId s)) \<and> nonEmptyText (JStr (ts_userId s)) \<and> nonEmptyText (JStr (ts_policyId s)) \<and>
     list_all (\<lambda>k. nonEmptyText (JStr k)) (ts_keyIds s) \<and> distinct (ts_keyIds s) \<and> sorted (ts_keyIds s) \<and> ts_keyIds s \<noteq> []"

definition wellBounded :: "TurnkeyPolicyTransaction \<Rightarrow> bool" where
  "wellBounded t \<longleftrightarrow>
     tt_from t \<noteq> [] \<and> distinct (tt_from t) \<and> sorted (tt_from t) \<and>
     list_all (\<lambda>a. validAddress a \<and> toLowerCase a = a) (tt_from t) \<and> validAddress (tt_to t) \<and> toLowerCase (tt_to t) = tt_to t \<and>
     tt_valueWei t = ''0'' \<and> tt_data t \<noteq> ''0x'' \<and> normalizeHexBytes (tt_data t) = Inr (tt_data t) \<and>
     canonicalDecimal (tt_gasLimitMax t) \<and> canonicalDecimal (tt_maxFeePerGasMax t) \<and> canonicalDecimal (tt_maxPriorityFeePerGasMax t)"

definition wellFamily :: "TurnkeyPolicyTransaction \<Rightarrow> TurnkeyPolicyFamily \<Rightarrow> bool" where
  "wellFamily t f \<longleftrightarrow>
     kindText (tf_kind f) \<in> Some ` {KIND_ROBINHOOD_PUBLIC, KIND_FREE_ALLOWLIST, KIND_FREE_PUBLIC} \<and>
     1 \<le> tf_maxQuantity f \<and> tf_maxQuantity f \<le> 15 \<and> familyLimits t f = Inr () \<and> familyPinned t f"

definition wellFormedPolicy :: "TurnkeyPolicyAst \<Rightarrow> bool" where
  "wellFormedPolicy p \<longleftrightarrow>
     wellScoped (ast_scope p) \<and> wellBounded (ast_transaction p) \<and>
     (case ast_family p of None \<Rightarrow> True | Some f \<Rightarrow> wellFamily (ast_transaction p) f)"

lemma nonEmptyText_textOf: "nonEmptyText v \<Longrightarrow> nonEmptyText (JStr (textOf v))"
  by (cases v) auto

lemma addressText_textOf: "addressText v \<Longrightarrow> validAddress (textOf v)"
  by (cases v) auto

lemma parseScope_well: "parseScope v = Inr s \<Longrightarrow> wellScoped s"
  by (auto simp: parseScope_def wellScoped_def list_all_iff nonEmptyText_textOf distinct_map
      simp del: nonEmptyText.simps split: option.splits jsval.splits if_splits)

lemma parseTransaction_well: "parseTransaction v = Inr t \<Longrightarrow> wellBounded t"
  by (auto simp: parseTransaction_def Let_def wellBounded_def bindR_eq_Inr list_all_iff addressText_textOf lower_address
      normalizeHexBytes_idem simp del: addressText.simps split: option.splits jsval.splits if_splits)

lemma parseFamily_well:
  "parseFamily v = Inr (Some f) \<Longrightarrow>
   kindText (tf_kind f) \<in> Some ` {KIND_ROBINHOOD_PUBLIC, KIND_FREE_ALLOWLIST, KIND_FREE_PUBLIC} \<and>
   1 \<le> tf_maxQuantity f \<and> tf_maxQuantity f \<le> 15"
  by (auto simp: parseFamily_def split: jsval.splits if_splits)

lemma validated_policy_well: "validateTurnkeyPolicyAst v = Inr p \<Longrightarrow> wellFormedPolicy p"
  by (auto simp: validateTurnkeyPolicyAst_def Let_def bindR_eq_Inr wellFormedPolicy_def wellFamily_def
      parseScope_well parseTransaction_well dest!: parseFamily_well split: option.splits)

lemma fld_scopeValue [simp]:
  "isRecord (scopeValue s)" "exactKeys (scopeValue s) SCOPE_KEYS"
  "fld (scopeValue s) ''provider'' = JStr ''turnkey''" "fld (scopeValue s) ''environment'' = JStr (environmentText (ts_environment s))"
  "fld (scopeValue s) ''organizationId'' = JStr (ts_organizationId s)" "fld (scopeValue s) ''userId'' = JStr (ts_userId s)"
  "fld (scopeValue s) ''policyId'' = JStr (ts_policyId s)" "fld (scopeValue s) ''keyIds'' = JArr (map JStr (ts_keyIds s))"
  by (simp_all add: scopeValue_def exactKeys_def SCOPE_KEYS_def)

lemma fld_transactionValue [simp]:
  "isRecord (transactionValue t)" "exactKeys (transactionValue t) TRANSACTION_KEYS"
  "fld (transactionValue t) ''chainId'' = JNum (jint (policyChainNumber (tt_chainId t)))"
  "fld (transactionValue t) ''from'' = JArr (map JStr (tt_from t))" "fld (transactionValue t) ''to'' = JStr (tt_to t)"
  "fld (transactionValue t) ''valueWei'' = JStr (tt_valueWei t)" "fld (transactionValue t) ''data'' = JStr (tt_data t)"
  "fld (transactionValue t) ''gasLimitMax'' = JStr (tt_gasLimitMax t)"
  "fld (transactionValue t) ''maxFeePerGasMax'' = JStr (tt_maxFeePerGasMax t)"
  "fld (transactionValue t) ''maxPriorityFeePerGasMax'' = JStr (tt_maxPriorityFeePerGasMax t)"
  "fld (transactionValue t) ''accessList'' = JArr []"
  by (simp_all add: transactionValue_def exactKeys_def TRANSACTION_KEYS_def)

lemma environment_back [simp]: "environmentOf (JStr (environmentText e)) = Some e"
  by (cases e) simp_all

lemma chain_back [simp]: "supportedChainId (JNum (jint (policyChainNumber k))) = Some k"
  by (cases k) simp_all

lemma parse_scopeValue: "wellScoped s \<Longrightarrow> parseScope (scopeValue s) = Inr s"
  by (simp add: parseScope_def wellScoped_def list_all_iff comp_def sorted_sort_id del: environmentOf.simps)

lemma parse_transactionValue: "wellBounded t \<Longrightarrow> parseTransaction (transactionValue t) = Inr t"
proof -
  assume t: "wellBounded t"
  have "map (\<lambda>a. toLowerCase a) (tt_from t) = tt_from t"
    using t by (simp add: wellBounded_def list_all_iff map_idI)
  with t show ?thesis
    by (simp add: parseTransaction_def Let_def wellBounded_def list_all_iff comp_def sorted_sort_id
        del: supportedChainId.simps)
qed

lemma parse_familyValue:
  assumes "kindText k \<in> Some ` {KIND_ROBINHOOD_PUBLIC, KIND_FREE_ALLOWLIST, KIND_FREE_PUBLIC}" "1 \<le> q" "q \<le> 15"
  shows "parseFamily (JObj [(''kind'', k), (''maxQuantity'', JNum (jint q))]) = Inr (Some \<lparr>tf_kind = k, tf_maxQuantity = q\<rparr>)"
proof -
  have "js_int (jint q) = q" "isSafeInteger (jint q)" using assms by (simp_all add: MAX_SAFE_INTEGER_def)
  with assms show ?thesis by (auto simp: parseFamily_def exactKeys_def simp del: js_int.simps isSafeInteger.simps)
qed

lemma fld_policyValue [simp]:
  "isRecord (policyValue p)" "fld (policyValue p) ''version'' = JNum (jint 1)" "fld (policyValue p) ''effect'' = JStr ''allow''"
  "fld (policyValue p) ''scope'' = scopeValue (ast_scope p)" "fld (policyValue p) ''transaction'' = transactionValue (ast_transaction p)"
  "fld (policyValue p) ''family'' = (case ast_family p of None \<Rightarrow> JUndef
     | Some f \<Rightarrow> JObj [(''kind'', tf_kind f), (''maxQuantity'', JNum (jint (tf_maxQuantity f)))])"
  by (auto simp: policyValue_def split: option.splits)

lemma keys_policyValue:
  "exactKeys (policyValue p) [''version'', ''effect'', ''scope'', ''transaction''] \<or>
   exactKeys (policyValue p) [''version'', ''effect'', ''scope'', ''transaction'', ''family'']"
  by (cases "ast_family p") (simp_all add: policyValue_def exactKeys_def)

lemma validate_policyValue:
  assumes "wellFormedPolicy p"
  shows "validateTurnkeyPolicyAst (policyValue p) = Inr p"
proof -
  have s: "parseScope (scopeValue (ast_scope p)) = Inr (ast_scope p)"
    and t: "parseTransaction (transactionValue (ast_transaction p)) = Inr (ast_transaction p)"
    using assms by (simp_all add: wellFormedPolicy_def parse_scopeValue parse_transactionValue)
  have f: "parseFamily (fld (policyValue p) ''family'') = Inr (ast_family p)"
    using assms
    by (cases "ast_family p")
      (simp_all add: parseFamily_def [of JUndef] wellFormedPolicy_def wellFamily_def parse_familyValue del: image_insert)
  have keys: "exactKeys (policyValue p) [''version'', ''effect'', ''scope'', ''transaction''] \<or>
      exactKeys (policyValue p) ([''version'', ''effect'', ''scope'', ''transaction''] @ [''family''])"
    using keys_policyValue by simp
  have limits: "(case ast_family p of None \<Rightarrow> Inr () | Some f \<Rightarrow> familyLimits (ast_transaction p) f) = Inr ()"
    and pinned: "case ast_family p of None \<Rightarrow> True | Some f \<Rightarrow> familyPinned (ast_transaction p) f"
    using assms by (auto simp: wellFormedPolicy_def wellFamily_def split: option.splits)
  show ?thesis
    unfolding validateTurnkeyPolicyAst_def Let_def f
    using keys by (simp add: s t limits pinned del: fld_policyValue(6))
qed

text \<open>
  Validation is a normal form: the value of a validated policy validates to the same policy, so its
  canonical text and its digest are those of the value it came from.
\<close>

theorem policy_normal_form:
  assumes "validateTurnkeyPolicyAst v = Inr p"
  shows "validateTurnkeyPolicyAst (policyValue p) = Inr p \<and>
    canonicalPolicyJson (policyValue p) = canonicalPolicyJson v \<and>
    canonicalPolicyDigest keccakText (policyValue p) = canonicalPolicyDigest keccakText v"
  using validate_policyValue [OF validated_policy_well [OF assms]] assms
  by (simp add: canonicalPolicyJson_def canonicalPolicyDigest_def)

section \<open>What an accepted intent is\<close>

lemma validateTransactionIntent_ok:
  "validateTransactionIntent L nowAt i policy ref = Inr () \<longleftrightarrow> intentAllowed L nowAt i policy ref = Inr True"
  by (auto simp: validateTransactionIntent_def split: sum.splits bool.splits)

lemma validateTransactionIntent_cases:
  "validateTransactionIntent L nowAt i policy ref \<in> {Inr (), Inl ''TURNKEY_POLICY_INTENT_BLOCKED''}"
  by (auto simp: validateTransactionIntent_def split: sum.splits bool.splits)

lemma someQuantityBuilds_built:
  "someQuantityBuilds L nowAt proof from data qs \<Longrightarrow>
   \<exists>q m. q \<in> set qs \<and> buildAllowlistMint L (nowAt q) proof from q = Inr m \<and> km_value m = 0 \<and>
     toLowerCase (km_data m) = toLowerCase data"
  by (induction qs) (auto split: sum.splits if_splits)

text \<open>The parts of an accepted intent, for a policy without a family and for each family.\<close>

definition mintsQuantity :: "ProofLib \<Rightarrow> (int \<Rightarrow> int) \<Rightarrow> SigningIntent \<Rightarrow> TurnkeyPolicyFamily \<Rightarrow> int \<Rightarrow> bool" where
  "mintsQuantity L nowAt i f q \<longleftrightarrow>
     (if tf_kind f = JStr KIND_FREE_ALLOWLIST
      then (\<exists>proof m. si_allowlistProof i = Some proof \<and> toLowerCase (vw_wallet proof) = toLowerCase (ti_from i) \<and>
        buildAllowlistMint L (nowAt q) proof (ti_from i) q = Inr m \<and> km_value m = 0 \<and>
        toLowerCase (km_data m) = toLowerCase (ti_data i))
      else (\<exists>c. ti_familyContext i = Some c \<and> take 10 (toLowerCase (ti_data i)) = ''0x161ac21f'' \<and>
        ''0x'' @ slice 34 74 (toLowerCase (ti_data i)) = toLowerCase (fc_nftContract c) \<and>
        slice 138 202 (toLowerCase (ti_data i)) = replicate 64 (CHR ''0'') \<and> q = hex_value 0 (slice 202 266 (toLowerCase (ti_data i)))))"

lemma slice_lower: "toLowerCase (slice a b s) = slice a b (toLowerCase s)"
  by (simp add: slice_def toLowerCase_take toLowerCase_drop)

lemma robinhoodFamilyCalldata_mints:
  assumes "robinhoodFamilyCalldata (toLowerCase (ti_data i)) mx (ti_familyContext i)" and "tf_kind f \<noteq> JStr KIND_FREE_ALLOWLIST"
  shows "\<exists>q. 1 \<le> q \<and> q \<le> mx \<and> mintsQuantity L nowAt i f q"
proof -
  have low: "toLowerCase (slice a b (toLowerCase s)) = slice a b (toLowerCase s)" for a b s
    by (simp add: slice_lower)
  from assms obtain c where "ti_familyContext i = Some c" "slice 0 10 (toLowerCase (ti_data i)) = ''0x161ac21f''"
    "''0x'' @ slice 34 74 (toLowerCase (ti_data i)) = toLowerCase (fc_nftContract c)"
    "slice 138 202 (toLowerCase (ti_data i)) = replicate 64 (CHR ''0'')"
    and q: "1 \<le> hex_value 0 (slice 202 266 (toLowerCase (ti_data i)))" "hex_value 0 (slice 202 266 (toLowerCase (ti_data i))) \<le> mx"
    by (auto simp: robinhoodFamilyCalldata_def toLowerCase_append low simp del: append.simps split: option.splits)
  then have "mintsQuantity L nowAt i f (hex_value 0 (slice 202 266 (toLowerCase (ti_data i))))"
    using assms(2) by (simp add: mintsQuantity_def slice_def)
  with q show ?thesis by blast
qed

lemma allowlistFamilyCalldata_mints:
  assumes "allowlistFamilyCalldata L nowAt i (toLowerCase (ti_data i)) mx" and "tf_kind f = JStr KIND_FREE_ALLOWLIST"
  shows "\<exists>q. 1 \<le> q \<and> q \<le> mx \<and> mintsQuantity L nowAt i f q"
proof -
  from assms(1) obtain v where p: "si_allowlistProof i = Some v"
    and b: "someQuantityBuilds L nowAt v (ti_from i) (toLowerCase (ti_data i)) [1..mx]"
    by (auto simp: allowlistFamilyCalldata_def Let_def split: option.splits)
  from someQuantityBuilds_built [OF b] obtain q m where q: "1 \<le> q" "q \<le> mx"
    and m: "buildAllowlistMint L (nowAt q) v (ti_from i) q = Inr m" "km_value m = 0"
      "toLowerCase (km_data m) = toLowerCase (ti_data i)"
    by auto
  from built_mint(1) [OF m(1)] m p have "mintsQuantity L nowAt i f q" using assms(2) by (simp add: mintsQuantity_def)
  with q show ?thesis by blast
qed

lemma familyCalldata_mints:
  assumes "familyCalldata L nowAt i (toLowerCase (ti_data i)) f"
  shows "\<exists>q. 1 \<le> q \<and> q \<le> tf_maxQuantity f \<and> mintsQuantity L nowAt i f q"
proof (cases "tf_kind f = JStr KIND_FREE_ALLOWLIST")
  case True
  with assms show ?thesis
    by (intro allowlistFamilyCalldata_mints)
      (simp_all add: familyCalldata_def KIND_FREE_ALLOWLIST_def KIND_FREE_PUBLIC_def KIND_ROBINHOOD_PUBLIC_def)
next
  case False
  with assms show ?thesis
    by (intro robinhoodFamilyCalldata_mints) (auto simp: familyCalldata_def split: if_splits)
qed

lemma normalized_empty: "normalizeAccessList v = Inr [] \<Longrightarrow> v \<in> {None, Some []}"
  by (auto simp: normalizeAccessList_def bindR_eq_Inr mapR_eq_Inr split: option.splits)

lemma accepted_intent:
  assumes "validateTransactionIntent L nowAt i policy ref = Inr ()"
  obtains p where "validateTurnkeyPolicyAst policy = Inr p" "wellFormedPolicy p" "intentInBounds (ast_transaction p) ref i"
    "ti_accessList i \<in> {None, Some []}" "normalizeHexBytes (ti_data i) = Inr (toLowerCase (ti_data i))"
    "case ast_family p of None \<Rightarrow> toLowerCase (ti_data i) = tt_data (ast_transaction p)
     | Some f \<Rightarrow> familyCalldata L nowAt i (toLowerCase (ti_data i)) f"
proof -
  from assms obtain p d where p: "validateTurnkeyPolicyAst policy = Inr p" "intentInBounds (ast_transaction p) ref i"
    "normalizeAccessList (ti_accessList i) = Inr []"
    and n: "normalizeHexBytes (ti_data i) = Inr d"
    and d: "case ast_family p of None \<Rightarrow> d = tt_data (ast_transaction p) | Some f \<Rightarrow> familyCalldata L nowAt i d f"
    by (auto simp: validateTransactionIntent_ok intentAllowed_def Let_def bindR_eq_Inr split: if_splits)
  have "d = toLowerCase (ti_data i)" using n by (simp add: normalizeHexBytes_def split: if_splits)
  then show ?thesis using that p d n normalized_empty validated_policy_well by blast
qed

text \<open>
  An accepted intent is a transaction that the policy describes: no value, the pinned chain and
  contract, one of the policy's wallets, gas and fees within the maxima, no access list. Without a
  family the call data is the pinned text; with a family the contract is SeaDrop and the data is the
  family's mint of a quantity between one and the family's maximum.
\<close>

theorem accepted_intent_within_policy:
  assumes "validateTransactionIntent L nowAt i policy ref = Inr ()"
  shows "\<exists>p t. validateTurnkeyPolicyAst policy = Inr p \<and> t = ast_transaction p \<and>
    ti_value i = 0 \<and> ti_chainId i = tt_chainId t \<and> toLowerCase (ti_to i) = tt_to t \<and> toLowerCase (ti_from i) \<in> set (tt_from t) \<and>
    ti_gasLimit i \<le> decimalValue 0 (tt_gasLimitMax t) \<and> ti_maxFeePerGas i \<le> decimalValue 0 (tt_maxFeePerGasMax t) \<and>
    ti_maxPriorityFeePerGas i \<le> decimalValue 0 (tt_maxPriorityFeePerGasMax t) \<and> ti_accessList i \<in> {None, Some []} \<and>
    (case ast_family p of
       None \<Rightarrow> toLowerCase (ti_data i) = tt_data t
     | Some f \<Rightarrow> toLowerCase (ti_to i) = toLowerCase SEADROP_V1_ADDRESS \<and>
         (\<exists>q. 1 \<le> q \<and> q \<le> tf_maxQuantity f \<and> q \<le> 15 \<and> mintsQuantity L nowAt i f q))"
proof -
  from assms obtain p where p: "validateTurnkeyPolicyAst policy = Inr p" "wellFormedPolicy p"
    "intentInBounds (ast_transaction p) ref i" "ti_accessList i \<in> {None, Some []}"
    and d: "case ast_family p of None \<Rightarrow> toLowerCase (ti_data i) = tt_data (ast_transaction p)
     | Some f \<Rightarrow> familyCalldata L nowAt i (toLowerCase (ti_data i)) f"
    by (rule accepted_intent)
  have zero: "tt_valueWei (ast_transaction p) = ''0''" and low: "toLowerCase (tt_to (ast_transaction p)) = tt_to (ast_transaction p)"
    using p(2) by (simp_all add: wellFormedPolicy_def wellBounded_def)
  have "\<exists>q. 1 \<le> q \<and> q \<le> tf_maxQuantity f \<and> q \<le> 15 \<and> mintsQuantity L nowAt i f q" and
    "tt_to (ast_transaction p) = toLowerCase SEADROP_V1_ADDRESS" if "ast_family p = Some f" for f
    using that d p(2) familyCalldata_mints [of L nowAt i f] low
    by (fastforce simp: wellFormedPolicy_def wellFamily_def familyPinned_def)+
  with p d zero show ?thesis
    by (intro exI [of _ p] exI [of _ "ast_transaction p"]) (auto simp: intentInBounds_def split: option.splits)
qed

text \<open>
  C11. What an intent that a free family accepts can cost at most: its value and its gas at the maximal fee
  stay below the cap of a wallet, 0.0004 ether on Ethereum and 0.0002 ether elsewhere.
\<close>

theorem free_intent_cost_bounded:
  assumes "validateTransactionIntent L nowAt i policy ref = Inr ()" and "validateTurnkeyPolicyAst policy = Inr p"
    and "ast_family p = Some f" and "tf_kind f \<in> {JStr KIND_FREE_PUBLIC, JStr KIND_FREE_ALLOWLIST}"
  shows "ti_value i + ti_gasLimit i * ti_maxFeePerGas i \<le> (if ti_chainId i = Chain1 then 400000000000000 else 200000000000000)"
proof -
  obtain b: "intentInBounds (ast_transaction p) ref i" and w: "wellFormedPolicy p"
    using accepted_intent [OF assms(1)] assms(2) by (metis sum.inject(2))
  let ?g = "decimalValue 0 (tt_gasLimitMax (ast_transaction p))" and ?m = "decimalValue 0 (tt_maxFeePerGasMax (ast_transaction p))"
  have lim: "familyLimits (ast_transaction p) f = Inr ()" and zero: "tt_valueWei (ast_transaction p) = ''0''"
    using w assms(3) by (simp_all add: wellFormedPolicy_def wellFamily_def wellBounded_def)
  have i: "ti_value i = 0" "0 \<le> ti_gasLimit i" "ti_gasLimit i \<le> ?g" "0 \<le> ti_maxFeePerGas i" "ti_maxFeePerGas i \<le> ?m"
    "ti_chainId i = tt_chainId (ast_transaction p)" using b zero by (simp_all add: intentInBounds_def)
  have cost: "ti_gasLimit i * ti_maxFeePerGas i \<le> ?g * ?m" using i by (intro mult_mono) auto
  have "?g * ?m \<le> (if tt_chainId (ast_transaction p) = Chain1 then 400000000000000 else 200000000000000)"
  proof (cases "tf_kind f = JStr KIND_FREE_PUBLIC")
    case True
    then have "?g \<le> 500000" "?m \<le> 200000000" "1 \<le> ?g" "1 \<le> ?m"
      using lim by (auto simp: familyLimits_def publicFamilyLimits_def Let_def bindR_eq_Inr split: if_splits)
    then have "?g * ?m \<le> 500000 * 200000000" by (intro mult_mono') auto
    then show ?thesis by simp
  next
    case False
    then show ?thesis
      using lim assms(4) by (auto simp: familyLimits_def allowlistFamilyLimits_def Let_def bindR_eq_Inr split: if_splits)
  qed
  with cost i show ?thesis by simp
qed

section \<open>A policy and an intent\<close>

definition demoPolicy :: TurnkeyPolicyAst where
  "demoPolicy = \<lparr>
     ast_scope = \<lparr>ts_environment = Production, ts_organizationId = ''org'', ts_userId = ''user'', ts_policyId = ''pol'', ts_keyIds = [''key'']\<rparr>,
     ast_transaction = \<lparr>tt_chainId = Chain8453, tt_from = [demoOwner], tt_to = toLowerCase SEADROP_V1_ADDRESS, tt_valueWei = ''0'',
       tt_data = ''0x161ac21f'', tt_gasLimitMax = ''300000'', tt_maxFeePerGasMax = ''100000'', tt_maxPriorityFeePerGasMax = ''100''\<rparr>,
     ast_family = Some \<lparr>tf_kind = JStr KIND_FREE_PUBLIC, tf_maxQuantity = 4\<rparr>\<rparr>"

definition demoMintData :: hex where
  "demoMintData = ''0x161ac21f'' @ replicate 24 (CHR ''0'') @ replicate 40 (CHR ''b'') @ replicate 24 (CHR ''0'') @
     replicate 40 (CHR ''c'') @ replicate 64 (CHR ''0'') @ replicate 63 (CHR ''0'') @ ''2''"

definition demoSigningIntent :: SigningIntent where
  "demoSigningIntent = \<lparr>ti_chainId = Chain8453, ti_from = demoOwner, ti_to = SEADROP_V1_ADDRESS, ti_value = 0,
     ti_data = demoMintData, ti_nonce = 3, ti_gasLimit = 200000, ti_maxFeePerGas = 100000, ti_maxPriorityFeePerGas = 100,
     ti_accessList = None, ti_campaignId = Some ''c'', ti_runId = Some ''r'', ti_policyRef = Some ''turnkey:pol'',
     ti_evidenceRef = None,
     ti_familyContext = Some \<lparr>fc_nftContract = ''0x'' @ replicate 40 (CHR ''b''), fc_feeRecipient = ''0x'' @ replicate 40 (CHR ''c'')\<rparr>,
     si_allowlistProof = None, si_hasAssertReady = True\<rparr>"

lemma demo_wellBounded: "wellBounded (ast_transaction demoPolicy)"
proof -
  have "validAddress demoOwner \<and> toLowerCase demoOwner = demoOwner" by code_simp
  moreover have "validAddress SEADROP_V1_ADDRESS" by code_simp
  then have "validAddress (toLowerCase SEADROP_V1_ADDRESS)" by (rule lower_address)
  moreover have "normalizeHexBytes ''0x161ac21f'' = Inr ''0x161ac21f''" by code_simp
  moreover have "canonicalDecimal ''300000'' \<and> canonicalDecimal ''100000'' \<and> canonicalDecimal ''100''" by code_simp
  ultimately show ?thesis by (simp add: wellBounded_def demoPolicy_def)
qed

lemma demo_policy_valid: "validateTurnkeyPolicyAst (policyValue demoPolicy) = Inr demoPolicy"
proof (rule validate_policyValue)
  have "wellScoped (ast_scope demoPolicy)"
    by (simp add: wellScoped_def demoPolicy_def isWhiteChar_def)
  moreover have "wellFamily (ast_transaction demoPolicy) \<lparr>tf_kind = JStr KIND_FREE_PUBLIC, tf_maxQuantity = 4\<rparr>"
    by (simp add: wellFamily_def familyPinned_def familyLimits_def publicFamilyLimits_def demoPolicy_def
        KIND_FREE_PUBLIC_def KIND_ROBINHOOD_PUBLIC_def Let_def)
  ultimately show "wellFormedPolicy demoPolicy"
    using demo_wellBounded by (simp add: wellFormedPolicy_def) (simp add: demoPolicy_def)
qed

lemma demo_calldata:
  "robinhoodFamilyCalldata demoMintData 4 (Some \<lparr>fc_nftContract = ''0x'' @ replicate 40 (CHR ''b''), fc_feeRecipient = ''0x'' @ replicate 40 (CHR ''c'')\<rparr>)"
  by code_simp

lemma demo_intent_accepted:
  "validateTransactionIntent L nowAt demoSigningIntent (policyValue demoPolicy) ''turnkey:pol'' = Inr ()"
proof -
  have a: "validAddress demoOwner \<and> toLowerCase demoOwner = demoOwner \<and> validAddress SEADROP_V1_ADDRESS" by code_simp
  have n: "normalizeHexBytes demoMintData = Inr demoMintData" by code_simp
  have "intentInBounds (ast_transaction demoPolicy) ''turnkey:pol'' demoSigningIntent"
    using a by (simp add: intentInBounds_def demoPolicy_def demoSigningIntent_def)
  moreover have "familyCalldata L nowAt demoSigningIntent demoMintData \<lparr>tf_kind = JStr KIND_FREE_PUBLIC, tf_maxQuantity = 4\<rparr>"
    using demo_calldata by (simp add: familyCalldata_def demoSigningIntent_def)
  moreover have "ast_family demoPolicy = Some \<lparr>tf_kind = JStr KIND_FREE_PUBLIC, tf_maxQuantity = 4\<rparr>" by (simp add: demoPolicy_def)
  ultimately have "intentAllowed L nowAt demoSigningIntent (policyValue demoPolicy) ''turnkey:pol'' = Inr True"
    using n by (simp add: intentAllowed_def demo_policy_valid Let_def) (simp add: demoSigningIntent_def normalizeAccessList_def)
  then show ?thesis by (simp add: validateTransactionIntent_def)
qed

text \<open>The same policy with the contract written in mixed case.\<close>

definition demoRawPolicy :: TurnkeyPolicyAst where
  "demoRawPolicy = demoPolicy\<lparr>ast_transaction := (ast_transaction demoPolicy)\<lparr>tt_to := SEADROP_V1_ADDRESS\<rparr>\<rparr>"

lemma demo_raw_valid: "validateTurnkeyPolicyAst (policyValue demoRawPolicy) = Inr demoPolicy"
proof -
  have seadrop: "validAddress SEADROP_V1_ADDRESS" by code_simp
  have t: "parseTransaction (transactionValue (ast_transaction demoRawPolicy)) = parseTransaction (transactionValue (ast_transaction demoPolicy))"
    using demo_wellBounded seadrop
    by (simp add: parseTransaction_def Let_def demoRawPolicy_def wellBounded_def demoPolicy_def)
  have parts: "ast_scope demoRawPolicy = ast_scope demoPolicy" "ast_family demoRawPolicy = ast_family demoPolicy"
    by (simp_all add: demoRawPolicy_def)
  have keys: "exactKeys (policyValue demoRawPolicy) = exactKeys (policyValue demoPolicy)"
    by (rule ext) (simp add: exactKeys_def policyValue_def parts)
  show ?thesis
    using demo_policy_valid
    by (simp add: validateTurnkeyPolicyAst_def Let_def t parts keys)
qed

theorem policy_normal_form_witness:
  "canonicalPolicyJson (policyValue demoPolicy) = canonicalPolicyJson (policyValue demoRawPolicy) \<and>
   policyValue demoPolicy \<noteq> policyValue demoRawPolicy"
proof
  show "canonicalPolicyJson (policyValue demoPolicy) = canonicalPolicyJson (policyValue demoRawPolicy)"
    using policy_normal_form [OF demo_raw_valid] by simp
  have "tt_to (ast_transaction demoPolicy) \<noteq> tt_to (ast_transaction demoRawPolicy)" by code_simp
  then show "policyValue demoPolicy \<noteq> policyValue demoRawPolicy" by (auto simp: policyValue_def transactionValue_def)
qed

theorem accepted_intent_within_policy_witness:
  "\<exists>p. validateTurnkeyPolicyAst (policyValue demoPolicy) = Inr p \<and> toLowerCase demoOwner \<in> set (tt_from (ast_transaction p)) \<and>
    tt_chainId (ast_transaction p) = Chain8453"
  using accepted_intent_within_policy [OF demo_intent_accepted [of demoProofLib "\<lambda>q. 0"]]
  by (auto simp: demoSigningIntent_def)

theorem free_intent_cost_bounded_witness:
  "ti_value demoSigningIntent + ti_gasLimit demoSigningIntent * ti_maxFeePerGas demoSigningIntent \<le> 200000000000000"
  using free_intent_cost_bounded [OF demo_intent_accepted demo_policy_valid]
  by (simp add: demoPolicy_def demoSigningIntent_def)

text \<open>
  The kind of a family is compared through its text when it is parsed and directly when its limits are
  checked, so an array that holds the text passes validation without the limits of the kind; no intent
  is accepted under such a policy.
\<close>

lemma array_kind_escapes_limits:
  "familyLimits t \<lparr>tf_kind = JArr [JStr KIND_FREE_ALLOWLIST], tf_maxQuantity = 15\<rparr> = Inr ()"
  "kindText (JArr [JStr KIND_FREE_ALLOWLIST]) = Some KIND_FREE_ALLOWLIST"
  "validateTurnkeyPolicyAst policy = Inr p \<Longrightarrow> ast_family p = Some \<lparr>tf_kind = JArr vs, tf_maxQuantity = q\<rparr> \<Longrightarrow>
   validateTransactionIntent L nowAt i policy ref = Inl ''TURNKEY_POLICY_INTENT_BLOCKED''"
proof -
  show "familyLimits t \<lparr>tf_kind = JArr [JStr KIND_FREE_ALLOWLIST], tf_maxQuantity = 15\<rparr> = Inr ()"
    "kindText (JArr [JStr KIND_FREE_ALLOWLIST]) = Some KIND_FREE_ALLOWLIST" by (simp_all add: familyLimits_def)
  assume p: "validateTurnkeyPolicyAst policy = Inr p" "ast_family p = Some \<lparr>tf_kind = JArr vs, tf_maxQuantity = q\<rparr>"
  show "validateTransactionIntent L nowAt i policy ref = Inl ''TURNKEY_POLICY_INTENT_BLOCKED''"
  proof (rule ccontr)
    assume "\<not> ?thesis"
    then have "validateTransactionIntent L nowAt i policy ref = Inr ()" using validateTransactionIntent_cases by blast
    then show False by (rule accepted_intent) (use p in \<open>auto simp: familyCalldata_def\<close>)
  qed
qed

end
