(* ===== verification/TurnkeyAuthority.thy ===== *)
theory TurnkeyAuthority
  imports TurnkeyPolicy
begin

text \<open>
  The chain reads at the signing boundary: two providers on different hosts must agree, at a common recent
  block, on the facts that an intent relies on, for an allowlist mint
  (\<^verbatim>\<open>packages/engine/src/turnkey-allowlist-authority.ts\<close>) and for a public mint
  (\<^verbatim>\<open>packages/engine/src/turnkey-public-authority.ts\<close>).

  \<^item> A provider is the record of its answers, \<open>None\<close> for a call that fails; an answer of a contract is an
    untyped value. A block is its hash, if it has one, and its timestamp.
  \<^item> The two views are read concurrently. When both fail, the one that fails first decides the error; which
    one that is, is the argument \<open>earliest\<close>.
  \<^item> A clock reading is in milliseconds, \<open>None\<close> for an invalid date. Decoding and encoding of
    \<^verbatim>\<open>mintPublic\<close>, the parsing of a URL into its protocol and host, and the connection to an endpoint are
    arguments.
\<close>

section \<open>Two views at a common block\<close>

record AuthorityClient =
  ac_head :: "int option"
  ac_chainId :: "int option"
  ac_block :: "int \<Rightarrow> (string option \<times> int) option"
  ac_merkleRoot :: "address \<Rightarrow> int \<Rightarrow> jsval option"
  ac_feeRecipients :: "address \<Rightarrow> int \<Rightarrow> jsval option"
  ac_publicDrop :: "address \<Rightarrow> int \<Rightarrow> jsval option"
  ac_totalSupply :: "address \<Rightarrow> int \<Rightarrow> jsval option"
  ac_maxSupply :: "address \<Rightarrow> int \<Rightarrow> jsval option"

definition UNAVAILABLE :: tkError where
  "UNAVAILABLE = ''UNAVAILABLE''"

definition hostsAnswered :: "'a option \<Rightarrow> tkError + 'a" where
  "hostsAnswered v = (case v of None \<Rightarrow> Inl UNAVAILABLE | Some x \<Rightarrow> Inr x)"

text \<open>\<^verbatim>\<open>Promise.all\<close>: all the answers, or the error of the computation that failed first.\<close>

definition allOf :: "(tkError list \<Rightarrow> tkError) \<Rightarrow> (tkError + 'a) list \<Rightarrow> tkError + 'a list" where
  "allOf earliest rs =
     (let errors = concat (map (\<lambda>r. case r of Inl e \<Rightarrow> [e] | Inr _ \<Rightarrow> []) rs)
      in if errors = [] then mapR id rs else Inl (if earliest errors \<in> set errors then earliest errors else hd errors))"

definition outcome :: "tkError + 'a \<Rightarrow> tkError + unit" where
  "outcome r = bindR r (\<lambda>_. Inr ())"

definition addressList :: "jsval \<Rightarrow> string list option" where
  "addressList v =
     (case v of
        JArr vs \<Rightarrow> if list_all addressText vs then Some (sort (map (\<lambda>a. toLowerCase (textOf a)) vs)) else None
      | _ \<Rightarrow> None)"

text \<open>The fee recipient is one the contract allows, or the default collector where the stage does not restrict it.\<close>

definition recipientAllowed :: "string list \<Rightarrow> bool \<Rightarrow> address \<Rightarrow> bool" where
  "recipientAllowed fees restricted recipient \<longleftrightarrow>
     toLowerCase recipient \<in> set fees \<or> (\<not> restricted \<and> toLowerCase recipient = toLowerCase OPENSEA_FEE_COLLECTOR)"

text \<open>Two blocks behind the lower of the two heads.\<close>

definition commonBlock :: "int list \<Rightarrow> int" where
  "commonBlock heads = min (heads ! 0) (heads ! 1) - 2"

section \<open>The allowlist\<close>

record AllowlistView =
  lv_blockHash :: string
  lv_root :: string
  lv_fees :: "string list"

definition allowlistView ::
  "SupportedChainId \<Rightarrow> address \<Rightarrow> int option \<Rightarrow> int \<Rightarrow> AuthorityClient \<Rightarrow> tkError + AllowlistView" where
  "allowlistView chainId nft now blockNumber c =
     bindR (hostsAnswered (ac_chainId c)) (\<lambda>chain.
     bindR (hostsAnswered (ac_block c blockNumber)) (\<lambda>(blockHash, timestamp).
     bindR (hostsAnswered (ac_merkleRoot c nft blockNumber)) (\<lambda>root.
     bindR (hostsAnswered (ac_feeRecipients c nft blockNumber)) (\<lambda>fees.
       case (now, blockHash, root, addressList fees) of
         (Some t, Some h, JStr r, Some recipients) \<Rightarrow>
           let age = t - timestamp * 1000
           in if chain \<noteq> policyChainNumber chainId \<or> h = [] \<or> age < -30000 \<or> age > 300000 \<or> \<not> HASH32 r
              then Inl ''TURNKEY_ALLOWLIST_AUTHORITY_STALE''
              else Inr \<lparr>lv_blockHash = toLowerCase h, lv_root = toLowerCase r, lv_fees = recipients\<rparr>
       | _ \<Rightarrow> Inl ''TURNKEY_ALLOWLIST_AUTHORITY_STALE''))))"

definition readAllowlistAuthority ::
  "(tkError list \<Rightarrow> tkError) \<Rightarrow> SigningIntent \<Rightarrow> AuthorityClient list \<Rightarrow> int option \<Rightarrow> tkError + unit" where
  "readAllowlistAuthority earliest i clients now =
     (case (ti_familyContext i, si_allowlistProof i) of
        (Some _, Some proof) \<Rightarrow>
          let a = vw_authority proof
          in if length clients < 2 then Inl ''TURNKEY_ALLOWLIST_AUTHORITY_REQUIRED''
             else bindR (allOf earliest (map (\<lambda>c. hostsAnswered (ac_head c)) (take 2 clients))) (\<lambda>heads.
               if min (heads ! 0) (heads ! 1) < 2 then Inl ''TURNKEY_ALLOWLIST_AUTHORITY_STALE''
               else bindR (allOf earliest (map (allowlistView (ti_chainId i) (as_nftContract a) now (commonBlock heads)) (take 2 clients))) (\<lambda>views.
                 if views ! 0 \<noteq> views ! 1 then Inl ''TURNKEY_ALLOWLIST_RPC_DISAGREEMENT''
                 else if lv_root (views ! 0) \<noteq> toLowerCase (as_root a) \<or> as_chainId a \<noteq> ti_chainId i
                      then Inl ''TURNKEY_ALLOWLIST_ROOT_CHANGED''
                 else if \<not> recipientAllowed (lv_fees (views ! 0)) (mp_restrictFeeRecipients (vw_mintParams proof)) (as_feeRecipient a)
                      then Inl ''TURNKEY_ALLOWLIST_FEE_RECIPIENT_INVALID''
                 else Inr ()))
      | _ \<Rightarrow> Inl ''TURNKEY_ALLOWLIST_AUTHORITY_REQUIRED'')"

definition ALLOWLIST_SAFE_CODES :: "string list" where
  "ALLOWLIST_SAFE_CODES = [''TURNKEY_ALLOWLIST_AUTHORITY_REQUIRED'', ''TURNKEY_ALLOWLIST_AUTHORITY_STALE'',
     ''TURNKEY_ALLOWLIST_RPC_DISAGREEMENT'', ''TURNKEY_ALLOWLIST_ROOT_CHANGED'', ''TURNKEY_ALLOWLIST_FEE_RECIPIENT_INVALID'']"

definition safeCode :: "string list \<Rightarrow> tkError \<Rightarrow> tkError + 'a \<Rightarrow> tkError + 'a" where
  "safeCode safe otherwise r =
     (case r of Inr x \<Rightarrow> Inr x | Inl e \<Rightarrow> if e \<in> set safe then Inl e else Inl otherwise)"

definition assertIndependentAllowlistAuthority ::
  "(tkError list \<Rightarrow> tkError) \<Rightarrow> SigningIntent \<Rightarrow> AuthorityClient list \<Rightarrow> int option \<Rightarrow> tkError + unit" where
  "assertIndependentAllowlistAuthority earliest i clients now =
     safeCode ALLOWLIST_SAFE_CODES ''TURNKEY_ALLOWLIST_AUTHORITY_UNAVAILABLE'' (readAllowlistAuthority earliest i clients now)"

section \<open>Independent endpoints\<close>

type_synonym urlParser = "string \<Rightarrow> (string \<times> string) option"

fun firstOtherHost :: "(string \<Rightarrow> string option) \<Rightarrow> string \<Rightarrow> string list \<Rightarrow> string option" where
  "firstOtherHost hostOf host [] = None"
| "firstOtherHost hostOf host (e # es) =
     (case hostOf e of
        Some h \<Rightarrow> if toLowerCase h \<noteq> toLowerCase host then Some e else firstOtherHost hostOf host es
      | None \<Rightarrow> firstOtherHost hostOf host es)"

text \<open>
  The distinct endpoints in the order of their first occurrence; the first must parse, and the second of
  the pair is the first later one with another host.
\<close>

definition firstOccurrences :: "'a list \<Rightarrow> 'a list" where
  "firstOccurrences xs = rev (remdups (rev xs))"

definition endpointPair :: "tkError \<Rightarrow> (string \<Rightarrow> string option) \<Rightarrow> string list \<Rightarrow> tkError + (string \<times> string)" where
  "endpointPair required hostOf endpoints =
     (case firstOccurrences endpoints of
        [] \<Rightarrow> Inl required
      | e # es \<Rightarrow>
          (case hostOf e of
             None \<Rightarrow> Inl required
           | Some host \<Rightarrow>
               (case firstOtherHost hostOf host es of None \<Rightarrow> Inl required | Some other \<Rightarrow> Inr (e, other))))"

definition independentRpcEndpoints :: "urlParser \<Rightarrow> string list \<Rightarrow> tkError + (string \<times> string)" where
  "independentRpcEndpoints parse endpoints =
     endpointPair ''TURNKEY_ALLOWLIST_AUTHORITY_REQUIRED'' (\<lambda>e. map_option snd (parse e)) endpoints"

definition httpHost :: "urlParser \<Rightarrow> string \<Rightarrow> string option" where
  "httpHost parse e =
     (case parse e of
        Some (protocol, host) \<Rightarrow> if protocol \<in> {''http:'', ''https:''} then Some host else None
      | None \<Rightarrow> None)"

definition independentPublicRpcEndpoints :: "urlParser \<Rightarrow> string list \<Rightarrow> tkError + (string \<times> string)" where
  "independentPublicRpcEndpoints parse endpoints =
     endpointPair ''TURNKEY_PUBLIC_AUTHORITY_REQUIRED'' (httpHost parse) endpoints"

definition verifyTurnkeyAllowlistAuthority ::
  "(tkError list \<Rightarrow> tkError) \<Rightarrow> urlParser \<Rightarrow> (string \<Rightarrow> AuthorityClient) \<Rightarrow> tkError + string list \<Rightarrow> SigningIntent \<Rightarrow> int option \<Rightarrow>
   tkError + unit" where
  "verifyTurnkeyAllowlistAuthority earliest parse connect endpoints i now =
     safeCode ALLOWLIST_SAFE_CODES ''TURNKEY_ALLOWLIST_AUTHORITY_UNAVAILABLE''
       (bindR endpoints (\<lambda>es. bindR (independentRpcEndpoints parse es) (\<lambda>(a, b).
          assertIndependentAllowlistAuthority earliest i [connect a, connect b] now)))"

section \<open>The public drop\<close>

record PublicMint =
  pm_nft :: address
  pm_recipient :: address
  pm_quantity :: int

text \<open>
  The intent as a canonical public mint: its call data decodes to the contract and the recipient of its
  context, to a zero minter and to a small quantity, and encodes back to the same text.
\<close>

definition canonicalMint ::
  "decoder \<Rightarrow> encoder \<Rightarrow> SigningIntent \<Rightarrow> tkError + PublicMint" where
  "canonicalMint decode encode i =
     (case (ti_familyContext i, decode (ti_data i)) of
        (Some c, Some (nft, recipient, minter, quantity)) \<Rightarrow>
          if ti_value i = 0 \<and> validAddress (ti_to i) \<and> toLowerCase (ti_to i) = toLowerCase SEADROP_V1_ADDRESS \<and>
             validAddress (ti_from i) \<and> toLowerCase (ti_from i) \<noteq> zeroAddress \<and> truthy (ti_campaignId i) \<and> truthy (ti_runId i) \<and>
             validAddress (fc_nftContract c) \<and> toLowerCase (fc_nftContract c) \<noteq> zeroAddress \<and> validAddress (fc_feeRecipient c) \<and>
             toLowerCase nft = toLowerCase (fc_nftContract c) \<and> toLowerCase recipient = toLowerCase (fc_feeRecipient c) \<and>
             toLowerCase minter = zeroAddress \<and> 1 \<le> quantity \<and> quantity \<le> (if ti_chainId i = Chain8453 then 4 else 15) \<and>
             toLowerCase (encode (nft, recipient, minter, quantity)) = toLowerCase (ti_data i)
          then Inr \<lparr>pm_nft = nft, pm_recipient = recipient, pm_quantity = quantity\<rparr>
          else Inl ''TURNKEY_PUBLIC_INTENT_INVALID''
      | _ \<Rightarrow> Inl ''TURNKEY_PUBLIC_INTENT_INVALID'')"

record PublicDrop =
  dr_mintPrice :: wei
  dr_startTime :: int
  dr_endTime :: int
  dr_maxTotalMintableByWallet :: int
  dr_feeBps :: int
  dr_restrictFeeRecipients :: bool

definition boundedInteger :: "jsval \<Rightarrow> int \<Rightarrow> int option" where
  "boundedInteger v mx =
     (case v of JNum x \<Rightarrow> if isSafeInteger x \<and> 0 \<le> js_int x \<and> js_int x \<le> mx then Some (js_int x) else None | _ \<Rightarrow> None)"

definition publicDrop :: "jsval \<Rightarrow> tkError + PublicDrop" where
  "publicDrop v =
     (case (isRecord v, fld v ''mintPrice'', boundedInteger (fld v ''startTime'') (2 ^ 48 - 1), boundedInteger (fld v ''endTime'') (2 ^ 48 - 1),
        boundedInteger (fld v ''maxTotalMintableByWallet'') 65535, boundedInteger (fld v ''feeBps'') 10000, fld v ''restrictFeeRecipients'') of
        (True, JBig price, Some opens, Some closes, Some perWallet, Some fee, JBool restricted) \<Rightarrow>
          if 0 \<le> price \<and> price < 2 ^ 80
          then Inr \<lparr>dr_mintPrice = price, dr_startTime = opens, dr_endTime = closes, dr_maxTotalMintableByWallet = perWallet,
                 dr_feeBps = fee, dr_restrictFeeRecipients = restricted\<rparr>
          else Inl ''TURNKEY_PUBLIC_AUTHORITY_STALE''
      | _ \<Rightarrow> Inl ''TURNKEY_PUBLIC_AUTHORITY_STALE'')"

text \<open>A supply that cannot be read is unknown; one that is read must be a 256-bit number.\<close>

definition optionalSupply :: "jsval option \<Rightarrow> tkError + int option" where
  "optionalSupply v =
     (case v of
        None \<Rightarrow> Inr None
      | Some (JBig n) \<Rightarrow> if 0 \<le> n \<and> n < 2 ^ 256 then Inr (Some n) else Inl ''TURNKEY_PUBLIC_AUTHORITY_STALE''
      | Some _ \<Rightarrow> Inl ''TURNKEY_PUBLIC_AUTHORITY_STALE'')"

record PublicView =
  uv_blockHash :: string
  uv_timestamp :: int
  uv_drop :: PublicDrop
  uv_fees :: "string list"
  uv_supply :: "int option"
  uv_maximum :: "int option"

definition publicView :: "(tkError list \<Rightarrow> tkError) \<Rightarrow> SupportedChainId \<Rightarrow> address \<Rightarrow> int \<Rightarrow> AuthorityClient \<Rightarrow> tkError + PublicView" where
  "publicView earliest chainId nft blockNumber c =
     (let supply = optionalSupply (ac_totalSupply c nft blockNumber); maximum = optionalSupply (ac_maxSupply c nft blockNumber)
      in bindR (allOf earliest [outcome (hostsAnswered (ac_chainId c)), outcome (hostsAnswered (ac_block c blockNumber)),
             outcome (hostsAnswered (ac_publicDrop c nft blockNumber)), outcome (hostsAnswered (ac_feeRecipients c nft blockNumber)),
             outcome supply, outcome maximum]) (\<lambda>_.
         bindR (hostsAnswered (ac_chainId c)) (\<lambda>chain.
         bindR (hostsAnswered (ac_block c blockNumber)) (\<lambda>(blockHash, timestamp).
         bindR (hostsAnswered (ac_publicDrop c nft blockNumber)) (\<lambda>dropValue.
         bindR (hostsAnswered (ac_feeRecipients c nft blockNumber)) (\<lambda>feesValue.
         bindR supply (\<lambda>total.
         bindR maximum (\<lambda>most.
           case (blockHash, addressList feesValue) of
             (Some h, Some recipients) \<Rightarrow>
               if chain \<noteq> policyChainNumber chainId \<or> \<not> HASH32 h then Inl ''TURNKEY_PUBLIC_AUTHORITY_STALE''
               else bindR (publicDrop dropValue) (\<lambda>d.
                 Inr \<lparr>uv_blockHash = toLowerCase h, uv_timestamp = timestamp, uv_drop = d, uv_fees = recipients,
                   uv_supply = total, uv_maximum = most\<rparr>)
           | _ \<Rightarrow> Inl ''TURNKEY_PUBLIC_AUTHORITY_STALE''))))))))"

text \<open>The checks after both views agree, against the clock read at that moment.\<close>

definition judgePublicView :: "PublicMint \<Rightarrow> PublicView \<Rightarrow> int option \<Rightarrow> tkError + unit" where
  "judgePublicView mint v now =
     (let d = uv_drop v
      in case now of
           None \<Rightarrow> Inl ''TURNKEY_PUBLIC_AUTHORITY_STALE''
         | Some t \<Rightarrow>
             let age = t - uv_timestamp v * 1000; wall = t div 1000
             in if age < -30000 \<or> age > 300000 then Inl ''TURNKEY_PUBLIC_AUTHORITY_STALE''
                else if dr_mintPrice d \<noteq> 0 then Inl ''TURNKEY_PUBLIC_DROP_NOT_FREE''
                else if (dr_startTime d = 0 \<and> dr_endTime d = 0) \<or> dr_endTime d < dr_startTime d \<or>
                        uv_timestamp v < dr_startTime d \<or> uv_timestamp v > dr_endTime d \<or> wall < dr_startTime d \<or> wall > dr_endTime d
                     then Inl ''TURNKEY_PUBLIC_STAGE_NOT_OPEN''
                else if pm_quantity mint > dr_maxTotalMintableByWallet d then Inl ''TURNKEY_PUBLIC_QUANTITY_EXCEEDED''
                else if (case (uv_supply v, uv_maximum v) of (Some s, Some m) \<Rightarrow> s + pm_quantity mint > m | _ \<Rightarrow> False)
                     then Inl ''TURNKEY_PUBLIC_SUPPLY_EXCEEDED''
                else if \<not> recipientAllowed (uv_fees v) (dr_restrictFeeRecipients d) (pm_recipient mint)
                     then Inl ''TURNKEY_PUBLIC_FEE_RECIPIENT_INVALID''
                else Inr ())"

definition readPublicAuthority ::
  "(tkError list \<Rightarrow> tkError) \<Rightarrow> decoder \<Rightarrow> encoder \<Rightarrow> SigningIntent \<Rightarrow> AuthorityClient list \<Rightarrow>
   int option \<Rightarrow> tkError + unit" where
  "readPublicAuthority earliest decode encode i clients now =
     bindR (canonicalMint decode encode i) (\<lambda>mint.
     bindR (ensure (2 \<le> length clients) ''TURNKEY_PUBLIC_AUTHORITY_REQUIRED'') (\<lambda>_.
     bindR (allOf earliest (map (\<lambda>c. hostsAnswered (ac_head c)) (take 2 clients))) (\<lambda>heads.
     bindR (ensure (list_all (\<lambda>h. 2 \<le> h) heads) ''TURNKEY_PUBLIC_AUTHORITY_STALE'') (\<lambda>_.
     bindR (allOf earliest (map (publicView earliest (ti_chainId i) (pm_nft mint) (commonBlock heads)) (take 2 clients))) (\<lambda>views.
     bindR (ensure (views ! 0 = views ! 1) ''TURNKEY_PUBLIC_RPC_DISAGREEMENT'') (\<lambda>_.
       judgePublicView mint (views ! 0) now))))))"

definition PUBLIC_SAFE_CODES :: "string list" where
  "PUBLIC_SAFE_CODES = [''TURNKEY_PUBLIC_INTENT_INVALID'', ''TURNKEY_PUBLIC_AUTHORITY_REQUIRED'', ''TURNKEY_PUBLIC_AUTHORITY_STALE'',
     ''TURNKEY_PUBLIC_RPC_DISAGREEMENT'', ''TURNKEY_PUBLIC_DROP_NOT_FREE'', ''TURNKEY_PUBLIC_STAGE_NOT_OPEN'',
     ''TURNKEY_PUBLIC_QUANTITY_EXCEEDED'', ''TURNKEY_PUBLIC_SUPPLY_EXCEEDED'', ''TURNKEY_PUBLIC_FEE_RECIPIENT_INVALID'']"

definition assertIndependentPublicAuthority ::
  "(tkError list \<Rightarrow> tkError) \<Rightarrow> decoder \<Rightarrow> encoder \<Rightarrow> SigningIntent \<Rightarrow> AuthorityClient list \<Rightarrow>
   int option \<Rightarrow> tkError + unit" where
  "assertIndependentPublicAuthority earliest decode encode i clients now =
     safeCode PUBLIC_SAFE_CODES ''TURNKEY_PUBLIC_AUTHORITY_UNAVAILABLE'' (readPublicAuthority earliest decode encode i clients now)"

definition verifyTurnkeyPublicAuthority ::
  "(tkError list \<Rightarrow> tkError) \<Rightarrow> decoder \<Rightarrow> encoder \<Rightarrow> urlParser \<Rightarrow> (string \<Rightarrow> AuthorityClient) \<Rightarrow>
   tkError + string list \<Rightarrow> SigningIntent \<Rightarrow> int option \<Rightarrow> tkError + unit" where
  "verifyTurnkeyPublicAuthority earliest decode encode parse connect endpoints i now =
     safeCode PUBLIC_SAFE_CODES ''TURNKEY_PUBLIC_AUTHORITY_UNAVAILABLE''
       (bindR (canonicalMint decode encode i) (\<lambda>_. bindR endpoints (\<lambda>es.
          bindR (independentPublicRpcEndpoints parse es) (\<lambda>(a, b).
          assertIndependentPublicAuthority earliest decode encode i [connect a, connect b] now))))"

section \<open>What an authority check establishes\<close>

lemma allOf_ok: "allOf earliest rs = Inr xs \<Longrightarrow> rs = map Inr xs"
proof -
  assume h: "allOf earliest rs = Inr xs"
  then have none: "concat (map (\<lambda>r. case r of Inl e \<Rightarrow> [e] | Inr _ \<Rightarrow> []) rs) = []" and m: "mapR id rs = Inr xs"
    by (auto simp: allOf_def Let_def split: if_splits)
  from m have "list_all2 (\<lambda>r x. r = Inr x) rs xs" by (simp add: mapR_eq_Inr)
  then show ?thesis by (induction rs xs rule: list_all2_induct) auto
qed

lemma safeCode_ok [simp]: "safeCode safe otherwise r = Inr x \<longleftrightarrow> r = Inr x"
  by (auto simp: safeCode_def split: sum.splits if_splits)

lemma safeCode_code: "safeCode safe otherwise r = Inl e \<Longrightarrow> e \<in> set safe \<or> e = otherwise"
  by (auto simp: safeCode_def split: sum.splits if_splits)

lemma two_clients:
  assumes "2 \<le> length clients" and "map f (take 2 clients) = map Inr xs"
  shows "f (clients ! 0) = Inr (xs ! 0)" "f (clients ! 1) = Inr (xs ! 1)"
proof -
  from assms(1) obtain a b rest where c: "clients = a # b # rest"
    by (metis Suc_le_length_iff numeral_2_eq_2)
  with assms(2) obtain x y where "xs = [x, y]" by (auto simp: map_eq_Cons_conv numeral_2_eq_2)
  with assms(2) c show "f (clients ! 0) = Inr (xs ! 0)" "f (clients ! 1) = Inr (xs ! 1)" by auto
qed

lemma firstOtherHost_host:
  "firstOtherHost hostOf host es = Some e \<Longrightarrow> e \<in> set es \<and> (\<exists>h. hostOf e = Some h \<and> toLowerCase h \<noteq> toLowerCase host)"
  by (induction es) (auto split: option.splits if_splits)

lemma endpointPair_hosts:
  assumes "endpointPair required hostOf endpoints = Inr (a, b)"
  shows "{a, b} \<subseteq> set endpoints \<and> (\<exists>h h'. hostOf a = Some h \<and> hostOf b = Some h' \<and> toLowerCase h \<noteq> toLowerCase h')"
proof -
  from assms obtain es h where f: "firstOccurrences endpoints = a # es" "hostOf a = Some h"
    and o: "firstOtherHost hostOf h es = Some b"
    by (auto simp: endpointPair_def split: list.splits option.splits)
  have "set (firstOccurrences endpoints) = set endpoints" by (simp add: firstOccurrences_def)
  with f firstOtherHost_host [OF o] show ?thesis by (metis insert_subset list.set_intros(1) list.set_intros(2) empty_subsetI)
qed

text \<open>Two providers that answered alike at the same block, two behind the lower of their heads.\<close>

definition agree :: "(int \<Rightarrow> AuthorityClient \<Rightarrow> tkError + 'v) \<Rightarrow> AuthorityClient \<Rightarrow> AuthorityClient \<Rightarrow> 'v \<Rightarrow> bool" where
  "agree viewAt c c' v \<longleftrightarrow>
     (\<exists>h h'. ac_head c = Some h \<and> ac_head c' = Some h' \<and> 2 \<le> min h h' \<and> viewAt (min h h' - 2) c = Inr v \<and> viewAt (min h h' - 2) c' = Inr v)"

lemma agreeI:
  assumes "2 \<le> length clients" and "allOf earliest (map (\<lambda>c. hostsAnswered (ac_head c)) (take 2 clients)) = Inr heads"
    and "2 \<le> min (heads ! 0) (heads ! 1)"
    and "allOf earliest (map (viewAt (commonBlock heads)) (take 2 clients)) = Inr views" and "views ! 0 = views ! 1"
  shows "agree viewAt (clients ! 0) (clients ! 1) (views ! 0)"
proof -
  note two = two_clients [OF assms(1) allOf_ok [OF assms(2)]]
  have head: "ac_head c = Some h" if "hostsAnswered (ac_head c) = Inr h" for c h
    using that by (simp add: hostsAnswered_def split: option.splits)
  from two head have "ac_head (clients ! 0) = Some (heads ! 0)" "ac_head (clients ! 1) = Some (heads ! 1)" by auto
  moreover have "viewAt (commonBlock heads) (clients ! 0) = Inr (views ! 0)" "viewAt (commonBlock heads) (clients ! 1) = Inr (views ! 1)"
    using two_clients [OF assms(1) allOf_ok [OF assms(4)]] by auto
  ultimately show ?thesis using assms(3,5) by (auto simp: agree_def commonBlock_def)
qed

lemma public_authority:
  assumes "assertIndependentPublicAuthority earliest decode encode i clients now = Inr ()"
  obtains mint v where "canonicalMint decode encode i = Inr mint" "2 \<le> length clients"
    "agree (publicView earliest (ti_chainId i) (pm_nft mint)) (clients ! 0) (clients ! 1) v" "judgePublicView mint v now = Inr ()"
proof -
  from assms obtain mint heads views where m: "canonicalMint decode encode i = Inr mint" and two: "2 \<le> length clients"
    and heads: "allOf earliest (map (\<lambda>c. hostsAnswered (ac_head c)) (take 2 clients)) = Inr heads" "list_all (\<lambda>h. 2 \<le> h) heads"
    and views: "allOf earliest (map (publicView earliest (ti_chainId i) (pm_nft mint) (commonBlock heads)) (take 2 clients)) = Inr views"
      "views ! 0 = views ! 1" and j: "judgePublicView mint (views ! 0) now = Inr ()"
    by (auto simp: assertIndependentPublicAuthority_def readPublicAuthority_def bindR_eq_Inr)
  have "length heads = 2" using allOf_ok [OF heads(1)] two by (metis length_map length_take min.absorb2)
  then have "2 \<le> min (heads ! 0) (heads ! 1)" using heads(2) by (auto simp: list_all_length)
  from agreeI [where viewAt = "publicView earliest (ti_chainId i) (pm_nft mint)", OF two heads(1) this views] m two j that show ?thesis by blast
qed

text \<open>The facts on the chain that make a public mint of a quantity free, open, within its limits and its recipient allowed.\<close>

definition publicMintOpen :: "PublicMint \<Rightarrow> PublicView \<Rightarrow> int \<Rightarrow> bool" where
  "publicMintOpen mint v t \<longleftrightarrow>
     (let d = uv_drop v
      in dr_mintPrice d = 0 \<and> dr_startTime d \<le> uv_timestamp v \<and> uv_timestamp v \<le> dr_endTime d \<and>
         dr_startTime d \<le> t div 1000 \<and> t div 1000 \<le> dr_endTime d \<and> t - uv_timestamp v * 1000 \<le> 300000 \<and>
         pm_quantity mint \<le> dr_maxTotalMintableByWallet d \<and>
         (\<forall>s m. uv_supply v = Some s \<and> uv_maximum v = Some m \<longrightarrow> s + pm_quantity mint \<le> m) \<and>
         recipientAllowed (uv_fees v) (dr_restrictFeeRecipients d) (pm_recipient mint))"

lemma judged_open: "judgePublicView mint v now = Inr () \<Longrightarrow> \<exists>t. now = Some t \<and> publicMintOpen mint v t"
  by (auto simp: judgePublicView_def publicMintOpen_def Let_def split: option.splits if_splits)

text \<open>
  C16. A public mint passes the authority check only if two endpoints on different hosts answered alike at a
  common block, and by their answer the mint is free, open at the block and at the wall clock, within the
  limit of the wallet and the supply, and pays to an allowed recipient.
\<close>

theorem public_mint_needs_two_hosts:
  assumes "verifyTurnkeyPublicAuthority earliest decode encode parse connect endpoints i now = Inr ()"
  shows "\<exists>es a b host host' mint v t. endpoints = Inr es \<and> a \<in> set es \<and> b \<in> set es \<and>
    httpHost parse a = Some host \<and> httpHost parse b = Some host' \<and> toLowerCase host \<noteq> toLowerCase host' \<and>
    canonicalMint decode encode i = Inr mint \<and>
    agree (publicView earliest (ti_chainId i) (pm_nft mint)) (connect a) (connect b) v \<and>
    now = Some t \<and> publicMintOpen mint v t"
proof -
  from assms obtain es a b where es: "endpoints = Inr es" and pair: "independentPublicRpcEndpoints parse es = Inr (a, b)"
    and ok: "assertIndependentPublicAuthority earliest decode encode i [connect a, connect b] now = Inr ()"
    by (auto simp: verifyTurnkeyPublicAuthority_def bindR_eq_Inr)
  from ok obtain mint v where m: "canonicalMint decode encode i = Inr mint"
    and v: "agree (publicView earliest (ti_chainId i) (pm_nft mint)) (connect a) (connect b) v" "judgePublicView mint v now = Inr ()"
    by (rule public_authority) auto
  from judged_open [OF v(2)] obtain t where t: "now = Some t" "publicMintOpen mint v t" by blast
  from endpointPair_hosts [OF pair [unfolded independentPublicRpcEndpoints_def]] obtain h h' where
    "{a, b} \<subseteq> set es" "httpHost parse a = Some h" "httpHost parse b = Some h'" "toLowerCase h \<noteq> toLowerCase h'" by blast
  with es m v(1) t show ?thesis by blast
qed

definition demoNft :: address where
  "demoNft = ''0x'' @ replicate 40 (CHR ''b'')"

definition demoRecipient :: address where
  "demoRecipient = ''0x'' @ replicate 40 (CHR ''c'')"

definition demoClient :: AuthorityClient where
  "demoClient = \<lparr>ac_head = Some 12, ac_chainId = Some 8453, ac_block = (\<lambda>n. Some (Some demoRoot, 1000)), ac_merkleRoot = (\<lambda>a n. None),
     ac_feeRecipients = (\<lambda>a n. Some (JArr [JStr demoRecipient])),
     ac_publicDrop = (\<lambda>a n. Some (JObj [(''mintPrice'', JBig 0), (''startTime'', JNum (jint 900)), (''endTime'', JNum (jint 2000)),
       (''maxTotalMintableByWallet'', JNum (jint 3)), (''feeBps'', JNum (jint 500)), (''restrictFeeRecipients'', JBool True)])),
     ac_totalSupply = (\<lambda>a n. Some (JBig 5)), ac_maxSupply = (\<lambda>a n. None)\<rparr>"

definition demoUrl :: urlParser where
  "demoUrl e = Some (''https:'', e)"

definition demoDrop :: PublicDrop where
  "demoDrop = \<lparr>dr_mintPrice = 0, dr_startTime = 900, dr_endTime = 2000, dr_maxTotalMintableByWallet = 3, dr_feeBps = 500,
     dr_restrictFeeRecipients = True\<rparr>"

lemma demo_drop:
  "publicDrop (JObj [(''mintPrice'', JBig 0), (''startTime'', JNum (jint 900)), (''endTime'', JNum (jint 2000)),
     (''maxTotalMintableByWallet'', JNum (jint 3)), (''feeBps'', JNum (jint 500)), (''restrictFeeRecipients'', JBool True)]) = Inr demoDrop"
  by (simp add: publicDrop_def boundedInteger_def demoDrop_def MAX_SAFE_INTEGER_def)

lemma demo_view:
  "publicView hd Chain8453 demoNft 10 demoClient = Inr \<lparr>uv_blockHash = toLowerCase demoRoot, uv_timestamp = 1000, uv_drop = demoDrop,
     uv_fees = [demoRecipient], uv_supply = Some 5, uv_maximum = None\<rparr>"
proof -
  have h: "HASH32 demoRoot" and r: "validAddress demoRecipient \<and> toLowerCase demoRecipient = demoRecipient" by code_simp+
  then have a: "addressList (JArr [JStr demoRecipient]) = Some [demoRecipient]" by (simp add: addressList_def)
  show ?thesis
    unfolding publicView_def demoClient_def Let_def
    using h a by (simp add: hostsAnswered_def optionalSupply_def outcome_def allOf_def demo_drop del: of_int_numeral)
qed

lemma demo_mint:
  "canonicalMint (\<lambda>d. Some (demoNft, demoRecipient, zeroAddress, 2)) (\<lambda>args. demoMintData) demoSigningIntent =
   Inr \<lparr>pm_nft = demoNft, pm_recipient = demoRecipient, pm_quantity = 2\<rparr>"
proof -
  have "validAddress demoOwner \<and> toLowerCase demoOwner \<noteq> zeroAddress \<and> validAddress demoNft \<and> toLowerCase demoNft \<noteq> zeroAddress
      \<and> validAddress demoRecipient \<and> validAddress SEADROP_V1_ADDRESS \<and> toLowerCase zeroAddress = zeroAddress" by code_simp
  then show ?thesis by (simp add: canonicalMint_def demoSigningIntent_def demoNft_def demoRecipient_def)
qed

lemma demo_authority_ok:
  "verifyTurnkeyPublicAuthority hd (\<lambda>d. Some (demoNft, demoRecipient, zeroAddress, 2)) (\<lambda>args. demoMintData) demoUrl (\<lambda>e. demoClient)
     (Inr [''a.example'', ''b.example'']) demoSigningIntent (Some 1010000) = Inr ()"
proof -
  have pair: "independentPublicRpcEndpoints demoUrl [''a.example'', ''b.example''] = Inr (''a.example'', ''b.example'')" by code_simp
  have chain: "ti_chainId demoSigningIntent = Chain8453" by (simp add: demoSigningIntent_def)
  have head: "hostsAnswered (ac_head demoClient) = Inr 12" by (simp add: demoClient_def hostsAnswered_def)
  have r: "toLowerCase demoRecipient = demoRecipient" by code_simp
  have judged: "judgePublicView \<lparr>pm_nft = demoNft, pm_recipient = demoRecipient, pm_quantity = 2\<rparr>
      \<lparr>uv_blockHash = h, uv_timestamp = 1000, uv_drop = demoDrop, uv_fees = [demoRecipient], uv_supply = Some 5, uv_maximum = None\<rparr>
      (Some 1010000) = Inr ()" for h
    using r by (simp add: judgePublicView_def demoDrop_def recipientAllowed_def Let_def)
  show ?thesis
    by (simp add: verifyTurnkeyPublicAuthority_def demo_mint pair assertIndependentPublicAuthority_def readPublicAuthority_def head
        allOf_def chain commonBlock_def demo_view judged)
qed

theorem public_mint_needs_two_hosts_witness:
  "\<exists>a b host host'. httpHost demoUrl a = Some host \<and> httpHost demoUrl b = Some host' \<and> toLowerCase host \<noteq> toLowerCase host' \<and>
     a \<in> set [''a.example'', ''b.example'']"
  using public_mint_needs_two_hosts [OF demo_authority_ok] by auto

end
