(* ===== verification/TurnkeyRecord.thy ===== *)
theory TurnkeyRecord
  imports TurnkeyPolicy
begin

text \<open>
  The owner-signed policy record (\<^verbatim>\<open>packages/engine/src/turnkey-policy-record.ts\<close>): the projections of the
  provider's answers, the expressions that the provider's policy must have, the canonical record with its
  digest and signature, the catalog of approved records and the comparison with the provider's state.

  \<^item> \<open>RecordLib\<close> gathers the library functions: the dates and SHA-256 of \<open>ProofLib\<close>,
    \<^verbatim>\<open>toISOString\<close>, the type and the encoding of a public key (\<open>None\<close> when it does not parse), and the
    verification of a 64-byte signature. A key is its PEM text.
  \<^item> Two projections have the same canonical text exactly when they are equal, so texts that are only
    compared are the projections themselves. The addresses of a key are sorted by their canonical text
    in character order; two projections are compared after the same sort.
\<close>

section \<open>Projections of the provider's answers\<close>

record ProviderTimestamp =
  pt_seconds :: string
  pt_nanos :: string

record ProviderIdentity =
  id_organizationId :: string
  id_organizationName :: string
  id_userId :: string
  id_username :: string

datatype PolicyEffect = EffectAllow | EffectDeny

record ProviderPolicy =
  pp_policyId :: string
  pp_policyName :: string
  pp_effect :: PolicyEffect
  pp_createdAt :: ProviderTimestamp
  pp_updatedAt :: ProviderTimestamp
  pp_notes :: string
  pp_consensus :: string
  pp_condition :: string
  pp_time :: "string option"

record ProviderAddress =
  pa_format :: "string option"
  pa_address :: "string option"

record ProviderKey =
  pk_privateKeyId :: string
  pk_publicKey :: string
  pk_privateKeyName :: string
  pk_curve :: string
  pk_addresses :: "ProviderAddress list"
  pk_privateKeyTags :: "string list"
  pk_createdAt :: ProviderTimestamp
  pk_updatedAt :: "ProviderTimestamp option"
  pk_exported :: bool
  pk_imported :: bool

definition exactRecord :: "jsval \<Rightarrow> string list \<Rightarrow> tkError \<Rightarrow> tkError + unit" where
  "exactRecord v keys code = ensure (isRecord v \<and> exactKeys v keys) code"

definition optionalExactRecord :: "jsval \<Rightarrow> string list \<Rightarrow> string list \<Rightarrow> tkError \<Rightarrow> tkError + unit" where
  "optionalExactRecord v required optional code =
     (case v of
        JObj kvs \<Rightarrow>
          ensure (list_all (\<lambda>k. k \<in> set (map fst kvs)) required \<and> list_all (\<lambda>k. k \<in> set (required @ optional)) (map fst kvs)) code
      | _ \<Rightarrow> Inl code)"

definition brokenLine :: "string \<Rightarrow> bool" where
  "brokenLine s \<longleftrightarrow> list_ex (\<lambda>c. (of_char c :: nat) = 10 \<or> (of_char c :: nat) = 13) s"

definition stringValue :: "jsval \<Rightarrow> tkError \<Rightarrow> tkError + string" where
  "stringValue v code = (case v of JStr s \<Rightarrow> if brokenLine s then Inl code else Inr s | _ \<Rightarrow> Inl code)"

definition requiredString :: "jsval \<Rightarrow> tkError \<Rightarrow> tkError + string" where
  "requiredString v code = bindR (stringValue v code) (\<lambda>s. if s = [] then Inl code else Inr s)"

definition nullableString :: "jsval \<Rightarrow> tkError \<Rightarrow> tkError + string option" where
  "nullableString v code = (if v = JNull then Inr None else bindR (stringValue v code) (\<lambda>s. Inr (Some s)))"

text \<open>A missing field reads as null.\<close>

definition optionalString :: "jsval \<Rightarrow> tkError \<Rightarrow> tkError + string option" where
  "optionalString v code = (if v = JUndef then Inr None else nullableString v code)"

definition requiredIntegerString :: "jsval \<Rightarrow> tkError \<Rightarrow> tkError + string" where
  "requiredIntegerString v code =
     (case v of JStr s \<Rightarrow> if canonicalDecimal s then Inr s else Inl code | _ \<Rightarrow> Inl code)"

definition providerTimestamp :: "jsval \<Rightarrow> tkError + ProviderTimestamp" where
  "providerTimestamp v =
     (let code = ''TURNKEY_PROVIDER_TIMESTAMP_INVALID''
      in bindR (exactRecord v [''seconds'', ''nanos''] code) (\<lambda>_.
         bindR (requiredIntegerString (fld v ''seconds'') code) (\<lambda>seconds.
         bindR (requiredIntegerString (fld v ''nanos'') code) (\<lambda>nanos.
           if decimalValue 0 nanos > 999999999 then Inl code else Inr \<lparr>pt_seconds = seconds, pt_nanos = nanos\<rparr>))))"

definition projectTurnkeyProviderIdentity :: "jsval \<Rightarrow> tkError + ProviderIdentity" where
  "projectTurnkeyProviderIdentity v =
     (let code = ''TURNKEY_PROVIDER_IDENTITY_INVALID''
      in bindR (exactRecord v [''organizationId'', ''organizationName'', ''userId'', ''username''] code) (\<lambda>_.
         bindR (requiredString (fld v ''organizationId'') code) (\<lambda>organizationId.
         bindR (stringValue (fld v ''organizationName'') code) (\<lambda>organizationName.
         bindR (requiredString (fld v ''userId'') code) (\<lambda>userId.
         bindR (stringValue (fld v ''username'') code) (\<lambda>username.
           Inr \<lparr>id_organizationId = organizationId, id_organizationName = organizationName, id_userId = userId,
             id_username = username\<rparr>))))))"

definition policyEffect :: "jsval \<Rightarrow> PolicyEffect option" where
  "policyEffect v =
     (if v = JStr ''EFFECT_ALLOW'' then Some EffectAllow else if v = JStr ''EFFECT_DENY'' then Some EffectDeny else None)"

definition projectTurnkeyProviderPolicy :: "jsval \<Rightarrow> tkError + ProviderPolicy" where
  "projectTurnkeyProviderPolicy v =
     (let code = ''TURNKEY_PROVIDER_POLICY_INVALID''
      in bindR (optionalExactRecord v [''policyId'', ''policyName'', ''effect'', ''createdAt'', ''updatedAt'', ''notes'', ''consensus'', ''condition'']
             [''time''] code) (\<lambda>_.
         case policyEffect (fld v ''effect'') of
           None \<Rightarrow> Inl code
         | Some effect \<Rightarrow>
             bindR (requiredString (fld v ''policyId'') code) (\<lambda>policyId.
             bindR (stringValue (fld v ''policyName'') code) (\<lambda>policyName.
             bindR (providerTimestamp (fld v ''createdAt'')) (\<lambda>createdAt.
             bindR (providerTimestamp (fld v ''updatedAt'')) (\<lambda>updatedAt.
             bindR (stringValue (fld v ''notes'') code) (\<lambda>notes.
             bindR (stringValue (fld v ''consensus'') code) (\<lambda>consensus.
             bindR (stringValue (fld v ''condition'') code) (\<lambda>condition.
             bindR (optionalString (fld v ''time'') code) (\<lambda>time.
               Inr \<lparr>pp_policyId = policyId, pp_policyName = policyName, pp_effect = effect, pp_createdAt = createdAt,
                 pp_updatedAt = updatedAt, pp_notes = notes, pp_consensus = consensus, pp_condition = condition, pp_time = time\<rparr>))))))))))"

definition nullable :: "string option \<Rightarrow> jsval" where
  "nullable v = (case v of None \<Rightarrow> JNull | Some s \<Rightarrow> JStr s)"

definition addressValue :: "ProviderAddress \<Rightarrow> jsval" where
  "addressValue a = JObj [(''format'', nullable (pa_format a)), (''address'', nullable (pa_address a))]"

definition projectAddress :: "jsval \<Rightarrow> tkError + ProviderAddress" where
  "projectAddress v =
     (let code = ''TURNKEY_PROVIDER_KEY_INVALID''
      in bindR (optionalExactRecord v [] [''format'', ''address''] code) (\<lambda>_.
         bindR (optionalString (fld v ''format'') code) (\<lambda>format.
         bindR (optionalString (fld v ''address'') code) (\<lambda>addr.
           Inr \<lparr>pa_format = format, pa_address = map_option toLowerCase addr\<rparr>))))"

text \<open>\<^verbatim>\<open>replace(/^0x/i, '').toLowerCase()\<close>\<close>

definition bareHex :: "string \<Rightarrow> string" where
  "bareHex s = toLowerCase (if toLowerCase (take 2 s) = ''0x'' then drop 2 s else s)"

definition projectTurnkeyProviderKey :: "jsval \<Rightarrow> tkError + ProviderKey" where
  "projectTurnkeyProviderKey v =
     (let code = ''TURNKEY_PROVIDER_KEY_INVALID''
      in bindR (exactRecord v [''privateKeyId'', ''publicKey'', ''privateKeyName'', ''curve'', ''addresses'', ''privateKeyTags'',
             ''createdAt'', ''updatedAt'', ''exported'', ''imported''] code) (\<lambda>_.
         case (fld v ''addresses'', fld v ''privateKeyTags'', fld v ''exported'', fld v ''imported'') of
           (JArr addresses, JArr tags, JBool exported, JBool imported) \<Rightarrow>
             bindR (mapR projectAddress addresses) (\<lambda>addrs.
             bindR (mapR (\<lambda>t. requiredString t code) tags) (\<lambda>tagTexts.
             bindR (ensure (distinct tagTexts) code) (\<lambda>_.
             bindR (requiredString (fld v ''publicKey'') code) (\<lambda>publicKey.
             bindR (ensure (bareHex publicKey \<noteq> [] \<and> even (length (bareHex publicKey)) \<and> all_hex (bareHex publicKey)) code) (\<lambda>_.
             bindR (requiredString (fld v ''privateKeyId'') code) (\<lambda>privateKeyId.
             bindR (requiredString (fld v ''privateKeyName'') code) (\<lambda>privateKeyName.
             bindR (requiredString (fld v ''curve'') code) (\<lambda>curve.
             bindR (providerTimestamp (fld v ''createdAt'')) (\<lambda>createdAt.
             bindR (if fld v ''updatedAt'' = JNull then Inr None
                    else bindR (providerTimestamp (fld v ''updatedAt'')) (\<lambda>t. Inr (Some t))) (\<lambda>updatedAt.
               Inr \<lparr>pk_privateKeyId = privateKeyId, pk_publicKey = bareHex publicKey, pk_privateKeyName = privateKeyName, pk_curve = curve,
                 pk_addresses = sort_key (\<lambda>a. stableStringify (addressValue a)) addrs, pk_privateKeyTags = sort tagTexts,
                 pk_createdAt = createdAt, pk_updatedAt = updatedAt, pk_exported = exported, pk_imported = imported\<rparr>))))))))))
         | _ \<Rightarrow> Inl code))"

section \<open>The provider's policy\<close>

definition quotable :: "char \<Rightarrow> bool" where
  "quotable c \<longleftrightarrow> isDigit c \<or> c \<in> set ''ABCDEFGHIJKLMNOPQRSTUVWXYZabcdefghijklmnopqrstuvwxyz_:./-''"

definition quoteText :: "string \<Rightarrow> tkError + string" where
  "quoteText s =
     (if s \<noteq> [] \<and> list_all quotable s then Inr ([CHR 0x27] @ s @ [CHR 0x27])
      else Inl ''TURNKEY_PROVIDER_POLICY_EXPRESSION_INVALID'')"

definition listText :: "string list \<Rightarrow> tkError + string" where
  "listText values = bindR (mapR quoteText (sort values)) (\<lambda>qs. Inr (''['' @ joinWith '', '' qs @ '']''))"

text \<open>\<^verbatim>\<open>(index + 1).toString(16).padStart(64, '0')\<close>, for the quantities one to fifteen of a family.\<close>

definition quantityWord :: "nat \<Rightarrow> string" where
  "quantityWord n = replicate 63 (CHR ''0'') @ [hexChar n]"

definition zeroWord :: string where
  "zeroWord = [CHR 0x27] @ replicate 64 (CHR ''0'') @ [CHR 0x27]"

definition dataCondition :: "TurnkeyPolicyAst \<Rightarrow> tkError + string" where
  "dataCondition p =
     bindR (quoteText (toLowerCase (tt_data (ast_transaction p)))) (\<lambda>data.
     case ast_family p of
       None \<Rightarrow> Inr (''eth.tx.data == '' @ data)
     | Some f \<Rightarrow>
         bindR (listText (map quantityWord [1..<Suc (nat (tf_maxQuantity f))])) (\<lambda>quantities.
           Inr (joinWith '' && '' ([''eth.tx.data[0..10] == '' @ data, ''eth.tx.data[138..202] == '' @ zeroWord,
             ''eth.tx.data[202..266] in '' @ quantities] @
             (if tf_kind f = JStr KIND_FREE_ALLOWLIST then [''eth.tx.data[266..330] == '' @ zeroWord] else [])))))"

record ProviderExpressions =
  px_consensus :: string
  px_condition :: string

definition turnkeyProviderPolicyExpressions :: "jsval \<Rightarrow> tkError + ProviderExpressions" where
  "turnkeyProviderPolicyExpressions policyJs =
     bindR (validateTurnkeyPolicyAst policyJs) (\<lambda>p.
     let t = ast_transaction p
     in bindR (dataCondition p) (\<lambda>data.
        bindR (quoteText (ts_userId (ast_scope p))) (\<lambda>user.
        bindR (listText (ts_keyIds (ast_scope p))) (\<lambda>keys.
        bindR (listText (map toLowerCase (tt_from t))) (\<lambda>senders.
        bindR (quoteText (toLowerCase (tt_to t))) (\<lambda>recipient.
          Inr \<lparr>px_consensus = ''approvers.any(user, user.id == '' @ user @ '')'',
            px_condition = joinWith '' && ''
              [''activity.type == '' @ [CHR 0x27] @ ''ACTIVITY_TYPE_SIGN_TRANSACTION_V2'' @ [CHR 0x27],
               ''private_key.id in '' @ keys,
               ''eth.tx.chain_id == '' @ show_int (policyChainNumber (tt_chainId t)),
               ''eth.tx.from in '' @ senders,
               ''eth.tx.to == '' @ recipient,
               ''eth.tx.value == '' @ tt_valueWei t,
               data,
               ''eth.tx.gas <= '' @ tt_gasLimitMax t,
               ''eth.tx.max_fee_per_gas <= '' @ tt_maxFeePerGasMax t,
               ''eth.tx.max_priority_fee_per_gas <= '' @ tt_maxPriorityFeePerGasMax t]\<rparr>))))))"

section \<open>The canonical record\<close>

record RecordLib =
  rl_proof :: ProofLib
  rl_isoText :: "int \<Rightarrow> string"
  rl_publicKey :: "string \<Rightarrow> (string \<times> string) option"
  rl_verify :: "string \<Rightarrow> string \<Rightarrow> string \<Rightarrow> bool"

definition canonicalIso :: "RecordLib \<Rightarrow> jsval \<Rightarrow> tkError \<Rightarrow> tkError + string" where
  "canonicalIso R v code =
     (case v of
        JStr s \<Rightarrow>
          (case pl_parseDate (rl_proof R) s of
             None \<Rightarrow> Inl code
           | Some t \<Rightarrow> if rl_isoText R t = s then Inr s else Inl code)
      | _ \<Rightarrow> Inl code)"

definition dateOf :: "RecordLib \<Rightarrow> string \<Rightarrow> int" where
  "dateOf R s = (case pl_parseDate (rl_proof R) s of None \<Rightarrow> 0 | Some t \<Rightarrow> t)"

record RecordWallet =
  rw_index :: int
  rw_address :: address
  rw_signWith :: string
  rw_providerKey :: ProviderKey

record PolicyRecord =
  rc_environment :: TurnkeyEnvironment
  rc_identity :: ProviderIdentity
  rc_policy :: ProviderPolicy
  rc_enforcement :: TurnkeyPolicyAst
  rc_wallets :: "RecordWallet list"
  rc_issuedAt :: string
  rc_expiresAt :: string

definition recordWallet :: "nat \<Rightarrow> jsval \<Rightarrow> tkError + RecordWallet" where
  "recordWallet i v =
     (let code = ''TURNKEY_POLICY_RECORD_INVALID''
      in bindR (exactRecord v [''index'', ''address'', ''signWith'', ''providerKey''] code) (\<lambda>_.
         bindR (requiredString (fld v ''address'') code) (\<lambda>addr.
         bindR (requiredString (fld v ''signWith'') code) (\<lambda>signWith.
         bindR (ensure (fld v ''index'' = JNum (jint (int i)) \<and> validAddress (toLowerCase addr)) code) (\<lambda>_.
         bindR (projectTurnkeyProviderKey (fld v ''providerKey'')) (\<lambda>key.
         bindR (ensure (pk_privateKeyId key = signWith \<and> pk_curve key = ''CURVE_SECP256K1'' \<and> \<not> pk_exported key \<and>
             list_ex (\<lambda>a. pa_format a = Some ''ADDRESS_FORMAT_ETHEREUM'' \<and> pa_address a = Some (toLowerCase addr)) (pk_addresses key))
           ''TURNKEY_POLICY_RECORD_KEY_BINDING_INVALID'') (\<lambda>_.
           Inr \<lparr>rw_index = int i, rw_address = toLowerCase addr, rw_signWith = signWith, rw_providerKey = key\<rparr>)))))))"

text \<open>The provider enforces the very policy that is enforced locally, for the same user, keys and wallets.\<close>

definition recordBound :: "TurnkeyEnvironment \<Rightarrow> ProviderIdentity \<Rightarrow> ProviderPolicy \<Rightarrow> TurnkeyPolicyAst \<Rightarrow> ProviderExpressions \<Rightarrow> RecordWallet list \<Rightarrow> bool" where
  "recordBound env ident pol enf px wallets \<longleftrightarrow>
     pp_effect pol = EffectAllow \<and> pp_condition pol = px_condition px \<and> pp_consensus pol = px_consensus px \<and> pp_time pol = None \<and>
     pp_policyId pol = ts_policyId (ast_scope enf) \<and> id_organizationId ident = ts_organizationId (ast_scope enf) \<and>
     id_userId ident = ts_userId (ast_scope enf) \<and> env = ts_environment (ast_scope enf) \<and>
     sort (map rw_signWith wallets) = sort (ts_keyIds (ast_scope enf)) \<and>
     sort (map rw_address wallets) = sort (map toLowerCase (tt_from (ast_transaction enf)))"

definition RECORD_CONTEXT :: string where
  "RECORD_CONTEXT = ''mintbot.turnkey-policy-record/v1''"

definition RECORD_KEYS :: "string list" where
  "RECORD_KEYS = [''version'', ''context'', ''environment'', ''providerIdentity'', ''providerPolicy'', ''enforcementPolicy'',
     ''wallets'', ''issuedAt'', ''expiresAt'']"

definition validateTurnkeyCanonicalPolicyRecord :: "RecordLib \<Rightarrow> jsval \<Rightarrow> tkError + PolicyRecord" where
  "validateTurnkeyCanonicalPolicyRecord R v =
     (let code = ''TURNKEY_POLICY_RECORD_INVALID''
      in bindR (exactRecord v RECORD_KEYS code) (\<lambda>_.
         case (environmentOf (fld v ''environment''), fld v ''wallets'') of
           (Some env, JArr ws) \<Rightarrow>
             bindR (ensure (fld v ''version'' = JNum (jint 1) \<and> fld v ''context'' = JStr RECORD_CONTEXT \<and> ws \<noteq> []) code) (\<lambda>_.
             bindR (projectTurnkeyProviderIdentity (fld v ''providerIdentity'')) (\<lambda>ident.
             bindR (projectTurnkeyProviderPolicy (fld v ''providerPolicy'')) (\<lambda>pol.
             bindR (validateTurnkeyPolicyAst (fld v ''enforcementPolicy'')) (\<lambda>enf.
             bindR (turnkeyProviderPolicyExpressions (policyValue enf)) (\<lambda>px.
             bindR (canonicalIso R (fld v ''issuedAt'') code) (\<lambda>issuedAt.
             bindR (canonicalIso R (fld v ''expiresAt'') code) (\<lambda>expiresAt.
             bindR (ensure (dateOf R issuedAt < dateOf R expiresAt) code) (\<lambda>_.
             bindR (mapR (\<lambda>(i, w). recordWallet i w) (enumerate 0 ws)) (\<lambda>wallets.
             bindR (ensure (distinct (map rw_address wallets) \<and> distinct (map rw_signWith wallets)) ''TURNKEY_POLICY_RECORD_WALLET_DUPLICATE'') (\<lambda>_.
             bindR (ensure (recordBound env ident pol enf px wallets) ''TURNKEY_POLICY_RECORD_BINDING_INVALID'') (\<lambda>_.
               Inr \<lparr>rc_environment = env, rc_identity = ident, rc_policy = pol, rc_enforcement = enf, rc_wallets = wallets,
                 rc_issuedAt = issuedAt, rc_expiresAt = expiresAt\<rparr>)))))))))))
         | _ \<Rightarrow> Inl code))"

text \<open>The record as a value, for its canonical text.\<close>

definition timestampValue :: "ProviderTimestamp \<Rightarrow> jsval" where
  "timestampValue t = JObj [(''seconds'', JStr (pt_seconds t)), (''nanos'', JStr (pt_nanos t))]"

definition identityValue :: "ProviderIdentity \<Rightarrow> jsval" where
  "identityValue i = JObj [(''organizationId'', JStr (id_organizationId i)), (''organizationName'', JStr (id_organizationName i)),
     (''userId'', JStr (id_userId i)), (''username'', JStr (id_username i))]"

definition providerPolicyValue :: "ProviderPolicy \<Rightarrow> jsval" where
  "providerPolicyValue p = JObj [(''policyId'', JStr (pp_policyId p)), (''policyName'', JStr (pp_policyName p)),
     (''effect'', JStr (case pp_effect p of EffectAllow \<Rightarrow> ''EFFECT_ALLOW'' | EffectDeny \<Rightarrow> ''EFFECT_DENY'')),
     (''createdAt'', timestampValue (pp_createdAt p)), (''updatedAt'', timestampValue (pp_updatedAt p)), (''notes'', JStr (pp_notes p)),
     (''consensus'', JStr (pp_consensus p)), (''condition'', JStr (pp_condition p)), (''time'', nullable (pp_time p))]"

definition keyValue :: "ProviderKey \<Rightarrow> jsval" where
  "keyValue k = JObj [(''privateKeyId'', JStr (pk_privateKeyId k)), (''publicKey'', JStr (pk_publicKey k)),
     (''privateKeyName'', JStr (pk_privateKeyName k)), (''curve'', JStr (pk_curve k)), (''addresses'', JArr (map addressValue (pk_addresses k))),
     (''privateKeyTags'', JArr (map JStr (pk_privateKeyTags k))), (''createdAt'', timestampValue (pk_createdAt k)),
     (''updatedAt'', case pk_updatedAt k of None \<Rightarrow> JNull | Some t \<Rightarrow> timestampValue t), (''exported'', JBool (pk_exported k)),
     (''imported'', JBool (pk_imported k))]"

definition walletValue :: "RecordWallet \<Rightarrow> jsval" where
  "walletValue w = JObj [(''index'', JNum (jint (rw_index w))), (''address'', JStr (rw_address w)), (''signWith'', JStr (rw_signWith w)),
     (''providerKey'', keyValue (rw_providerKey w))]"

definition recordValue :: "PolicyRecord \<Rightarrow> jsval" where
  "recordValue r = JObj [(''version'', JNum (jint 1)), (''context'', JStr RECORD_CONTEXT),
     (''environment'', JStr (environmentText (rc_environment r))), (''providerIdentity'', identityValue (rc_identity r)),
     (''providerPolicy'', providerPolicyValue (rc_policy r)), (''enforcementPolicy'', policyValue (rc_enforcement r)),
     (''wallets'', JArr (map walletValue (rc_wallets r))), (''issuedAt'', JStr (rc_issuedAt r)), (''expiresAt'', JStr (rc_expiresAt r))]"

definition canonicalTurnkeyPolicyRecordJson :: "RecordLib \<Rightarrow> jsval \<Rightarrow> tkError + string" where
  "canonicalTurnkeyPolicyRecordJson R v =
     bindR (validateTurnkeyCanonicalPolicyRecord R v) (\<lambda>r. Inr (stableStringify (recordValue r)))"

definition signaturePayload :: "RecordLib \<Rightarrow> jsval \<Rightarrow> tkError + string" where
  "signaturePayload R v =
     bindR (canonicalTurnkeyPolicyRecordJson R v) (\<lambda>txt. Inr (''mintbot.turnkey-policy-record/signature/v1'' @ [CHR 0x00] @ txt))"

definition turnkeyPolicyRecordDigest :: "RecordLib \<Rightarrow> jsval \<Rightarrow> tkError + string" where
  "turnkeyPolicyRecordDigest R v = bindR (signaturePayload R v) (\<lambda>payload. Inr (''sha256:'' @ pl_sha256 (rl_proof R) payload))"

section \<open>Signatures\<close>

definition asPublicKey :: "RecordLib \<Rightarrow> string \<Rightarrow> tkError + string" where
  "asPublicKey R pem =
     (if containsText ''PRIVATE KEY'' pem then Inl ''TURNKEY_POLICY_APPROVER_KEY_INVALID''
      else case rl_publicKey R pem of
             None \<Rightarrow> Inl ''INVALID_KEY''
           | Some (keyType, der) \<Rightarrow> if keyType \<noteq> ''ed25519'' then Inl ''TURNKEY_POLICY_APPROVER_KEY_INVALID'' else Inr der)"

definition turnkeyPolicyApproverKeyId :: "RecordLib \<Rightarrow> string \<Rightarrow> tkError + string" where
  "turnkeyPolicyApproverKeyId R pem = bindR (asPublicKey R pem) (\<lambda>der. Inr (''ed25519:'' @ pl_sha256 (rl_proof R) der))"

definition authenticateRecord :: "RecordLib \<Rightarrow> string \<Rightarrow> jsval \<Rightarrow> tkError + PolicyRecord" where
  "authenticateRecord R pem v =
     (let code = ''TURNKEY_POLICY_SIGNATURE_INVALID''
      in bindR (asPublicKey R pem) (\<lambda>der.
         bindR (exactRecord v [''version'', ''algorithm'', ''keyId'', ''recordDigest'', ''record'', ''signature''] code) (\<lambda>_.
         bindR (turnkeyPolicyApproverKeyId R pem) (\<lambda>keyId.
         bindR (ensure (fld v ''version'' = JNum (jint 1) \<and> fld v ''algorithm'' = JStr ''Ed25519'' \<and> fld v ''keyId'' = JStr keyId \<and>
             isText (fld v ''signature'')) code) (\<lambda>_.
         bindR (validateTurnkeyCanonicalPolicyRecord R (fld v ''record'')) (\<lambda>r.
         bindR (turnkeyPolicyRecordDigest R (recordValue r)) (\<lambda>digest.
         bindR (ensure (fld v ''recordDigest'' = JStr digest) ''TURNKEY_POLICY_RECORD_DIGEST_MISMATCH'') (\<lambda>_.
         bindR (signaturePayload R (recordValue r)) (\<lambda>payload.
         bindR (ensure (rl_verify R der payload (textOf (fld v ''signature''))) code) (\<lambda>_. Inr r))))))))))"

definition currentAt :: "RecordLib \<Rightarrow> int option \<Rightarrow> PolicyRecord \<Rightarrow> bool" where
  "currentAt R now r \<longleftrightarrow> (case now of None \<Rightarrow> False | Some t \<Rightarrow> dateOf R (rc_issuedAt r) \<le> t \<and> t < dateOf R (rc_expiresAt r))"

definition verifyTurnkeySignedPolicyRecord :: "RecordLib \<Rightarrow> string \<Rightarrow> int option \<Rightarrow> jsval \<Rightarrow> tkError + PolicyRecord" where
  "verifyTurnkeySignedPolicyRecord R pem now v =
     bindR (authenticateRecord R pem v) (\<lambda>r. if currentAt R now r then Inr r else Inl ''TURNKEY_POLICY_RECORD_NOT_CURRENT'')"

section \<open>The catalog\<close>

text \<open>The loop over the authenticated records, with the policy ids and the digests seen so far.\<close>

fun catalogLoop :: "RecordLib \<Rightarrow> PolicyRecord \<Rightarrow> string list \<Rightarrow> string list \<Rightarrow> PolicyRecord list \<Rightarrow> tkError + unit" where
  "catalogLoop R r0 ids digests [] = Inr ()"
| "catalogLoop R r0 ids digests (r # rs) =
     bindR (turnkeyPolicyRecordDigest R (recordValue r)) (\<lambda>digest.
       if rc_environment r \<noteq> rc_environment r0 \<or> rc_identity r \<noteq> rc_identity r0 \<or> rc_wallets r \<noteq> rc_wallets r0 \<or>
          pp_policyId (rc_policy r) \<in> set ids \<or> digest \<in> set digests
       then Inl ''TURNKEY_POLICY_CATALOG_BINDING_INVALID''
       else catalogLoop R r0 (pp_policyId (rc_policy r) # ids) (digest # digests) rs)"

definition authenticateCatalog :: "RecordLib \<Rightarrow> string \<Rightarrow> bool \<Rightarrow> jsval \<Rightarrow> tkError + jsval list \<times> PolicyRecord list" where
  "authenticateCatalog R pem enforceRetentionLimit v =
     (let code = ''TURNKEY_POLICY_CATALOG_INVALID''
      in bindR (exactRecord v [''version'', ''context'', ''records''] code) (\<lambda>_.
         case fld v ''records'' of
           JArr items \<Rightarrow>
             bindR (ensure (fld v ''version'' = JNum (jint 1) \<and> fld v ''context'' = JStr ''mintbot.turnkey-policy-catalog/v1'' \<and> items \<noteq> [] \<and>
                 length items \<le> 1000 \<and> \<not> (enforceRetentionLimit \<and> length items > 25)) code) (\<lambda>_.
             bindR (mapR (authenticateRecord R pem) items) (\<lambda>records.
             bindR (catalogLoop R (hd records) [] [] records) (\<lambda>_. Inr (items, records))))
         | _ \<Rightarrow> Inl code))"

definition verifyTurnkeySignedPolicyCatalog :: "RecordLib \<Rightarrow> string \<Rightarrow> int option \<Rightarrow> jsval \<Rightarrow> tkError + PolicyRecord list" where
  "verifyTurnkeySignedPolicyCatalog R pem now v =
     bindR (authenticateCatalog R pem True v) (\<lambda>(items, records).
       if now = None then Inl ''TURNKEY_POLICY_RECORD_NOT_CURRENT'' else Inr (filter (currentAt R now) records))"

text \<open>Pruning keeps the signed entries that are current and not retired.\<close>

fun pruneLoop :: "RecordLib \<Rightarrow> string \<Rightarrow> int option \<Rightarrow> string list \<Rightarrow> jsval list \<Rightarrow> tkError + jsval list" where
  "pruneLoop R pem now retired [] = Inr []"
| "pruneLoop R pem now retired (v # vs) =
     bindR (authenticateRecord R pem v) (\<lambda>r.
     bindR (pruneLoop R pem now retired vs) (\<lambda>rest.
       Inr (if pp_policyId (rc_policy r) \<notin> set retired \<and> currentAt R now r then v # rest else rest)))"

definition pruneTurnkeySignedPolicyCatalog :: "RecordLib \<Rightarrow> string \<Rightarrow> int option \<Rightarrow> string list \<Rightarrow> jsval \<Rightarrow> tkError + jsval" where
  "pruneTurnkeySignedPolicyCatalog R pem now retired v =
     bindR (authenticateCatalog R pem False v) (\<lambda>(items, _).
     bindR (pruneLoop R pem now retired items) (\<lambda>kept.
       if kept = [] then Inl ''TURNKEY_POLICY_CATALOG_PRUNE_EMPTY''
       else if length kept > 25 then Inl ''TURNKEY_POLICY_CATALOG_RETENTION_LIMIT''
       else Inr (JObj [(''version'', JNum (jint 1)), (''context'', JStr ''mintbot.turnkey-policy-catalog/v1''), (''records'', JArr kept)])))"

section \<open>Creating and signing a record\<close>

text \<open>\<^verbatim>\<open>new Map(keys)\<close>: a repeated id keeps its last key.\<close>

definition keysById :: "ProviderKey list \<Rightarrow> string \<Rightarrow> ProviderKey option" where
  "keysById keys = map_of (rev (map (\<lambda>k. (pk_privateKeyId k, k)) keys))"

definition createWallet :: "(string \<Rightarrow> ProviderKey option) \<Rightarrow> nat \<Rightarrow> TurnkeyWalletReference \<Rightarrow> tkError + RecordWallet" where
  "createWallet byId i w =
     (if tw_index w \<noteq> int i then Inl ''TURNKEY_POLICY_RECORD_WALLET_INDEX_INVALID''
      else case byId (tw_signWith w) of
             None \<Rightarrow> Inl ''TURNKEY_PROVIDER_KEY_NOT_FOUND''
           | Some key \<Rightarrow> Inr \<lparr>rw_index = int i, rw_address = tw_address w, rw_signWith = tw_signWith w, rw_providerKey = key\<rparr>)"

record RecordInput =
  in_environment :: TurnkeyEnvironment
  in_identity :: jsval
  in_policy :: jsval
  in_enforcement :: jsval
  in_wallets :: "TurnkeyWalletReference list"
  in_keys :: "jsval list"
  in_issuedAt :: string
  in_expiresAt :: string

definition createTurnkeyPolicyRecord :: "RecordLib \<Rightarrow> RecordInput \<Rightarrow> tkError + PolicyRecord" where
  "createTurnkeyPolicyRecord R i =
     bindR (mapR projectTurnkeyProviderKey (in_keys i)) (\<lambda>keys.
     bindR (ensure (distinct (map pk_privateKeyId keys)) ''TURNKEY_PROVIDER_KEY_DUPLICATE'') (\<lambda>_.
     bindR (mapR (\<lambda>(n, w). createWallet (keysById keys) n w) (enumerate 0 (in_wallets i))) (\<lambda>wallets.
     bindR (projectTurnkeyProviderIdentity (in_identity i)) (\<lambda>ident.
     bindR (projectTurnkeyProviderPolicy (in_policy i)) (\<lambda>pol.
       validateTurnkeyCanonicalPolicyRecord R (JObj [(''version'', JNum (jint 1)), (''context'', JStr RECORD_CONTEXT),
         (''environment'', JStr (environmentText (in_environment i))), (''providerIdentity'', identityValue ident),
         (''providerPolicy'', providerPolicyValue pol), (''enforcementPolicy'', in_enforcement i),
         (''wallets'', JArr (map walletValue wallets)), (''issuedAt'', JStr (in_issuedAt i)), (''expiresAt'', JStr (in_expiresAt i))]))))))"

record SignedRecord =
  sr_keyId :: string
  sr_recordDigest :: string
  sr_record :: PolicyRecord
  sr_signature :: string

text \<open>
  Signing; \<open>sign\<close> is the signature of a text with the private key, and \<open>derived\<close> the type and encoding of the
  public key that belongs to it, \<open>None\<close> when the key does not parse.
\<close>

definition signTurnkeyPolicyRecord ::
  "RecordLib \<Rightarrow> (string \<times> string) option \<Rightarrow> (string \<Rightarrow> string) \<Rightarrow> jsval \<Rightarrow> tkError + SignedRecord" where
  "signTurnkeyPolicyRecord R derived sign v =
     bindR (validateTurnkeyCanonicalPolicyRecord R v) (\<lambda>r.
     case derived of
       None \<Rightarrow> Inl ''INVALID_KEY''
     | Some (keyType, der) \<Rightarrow>
         if keyType \<noteq> ''ed25519'' then Inl ''TURNKEY_POLICY_APPROVER_KEY_INVALID''
         else bindR (turnkeyPolicyRecordDigest R (recordValue r)) (\<lambda>digest.
              bindR (signaturePayload R (recordValue r)) (\<lambda>payload.
                Inr \<lparr>sr_keyId = ''ed25519:'' @ pl_sha256 (rl_proof R) der, sr_recordDigest = digest, sr_record = r,
                  sr_signature = sign payload\<rparr>)))"

definition signedValue :: "SignedRecord \<Rightarrow> jsval" where
  "signedValue s = JObj [(''version'', JNum (jint 1)), (''algorithm'', JStr ''Ed25519''), (''keyId'', JStr (sr_keyId s)),
     (''recordDigest'', JStr (sr_recordDigest s)), (''record'', recordValue (sr_record s)), (''signature'', JStr (sr_signature s))]"

section \<open>The state of the provider\<close>

record ActualProviderState =
  st_whoami :: jsval
  st_organization :: jsval
  st_policies :: "jsval list"
  st_privateKeys :: "jsval list"

definition assertNonRootRuntimeUser :: "jsval \<Rightarrow> ProviderIdentity \<Rightarrow> tkError + unit" where
  "assertNonRootRuntimeUser organization ident =
     (let code = ''TURNKEY_PROVIDER_ORGANIZATION_INVALID''; configs = fld organization ''configs''; quorum = fld configs ''quorum''
      in if \<not> isRecord organization \<or> \<not> isRecord configs \<or> \<not> isRecord quorum then Inl code
         else case (fld quorum ''threshold'', fld quorum ''userIds'') of
                (JNum x, JArr ids) \<Rightarrow>
                  if \<not> isSafeInteger x \<or> js_int x < 1 \<or> ids = [] \<or> \<not> list_all (\<lambda>i. isText i \<and> textOf i \<noteq> []) ids then Inl code
                  else if JStr (id_userId ident) \<in> set ids then Inl ''TURNKEY_PROVIDER_RUNTIME_USER_MUST_BE_NON_ROOT''
                  else Inr ()
              | _ \<Rightarrow> Inl code)"

text \<open>Every field of a provider policy is pinned but its name and the time of its last update.\<close>

definition sameProviderPolicyBinding :: "ProviderPolicy \<Rightarrow> ProviderPolicy \<Rightarrow> bool" where
  "sameProviderPolicyBinding actual expected \<longleftrightarrow>
     actual\<lparr>pp_policyName := [], pp_updatedAt := pp_updatedAt expected\<rparr> = expected\<lparr>pp_policyName := []\<rparr>"

definition onlyMatch :: "ProviderPolicy list \<Rightarrow> ProviderPolicy \<Rightarrow> bool" where
  "onlyMatch policies expected \<longleftrightarrow>
     (case filter (\<lambda>p. pp_policyId p = pp_policyId expected) policies of
        [p] \<Rightarrow> sameProviderPolicyBinding p expected
      | _ \<Rightarrow> False)"

definition approvedPolicyOk :: "ProviderPolicy list \<Rightarrow> ProviderPolicy \<Rightarrow> bool" where
  "approvedPolicyOk approved p \<longleftrightarrow>
     pp_effect p = EffectDeny \<or>
     (case find (\<lambda>a. pp_policyId a = pp_policyId p) approved of None \<Rightarrow> False | Some expected \<Rightarrow> sameProviderPolicyBinding p expected)"

definition checkApproved :: "RecordLib \<Rightarrow> PolicyRecord \<Rightarrow> ProviderPolicy list \<Rightarrow> PolicyRecord list \<Rightarrow> tkError + unit" where
  "checkApproved R r policies approved =
     bindR (turnkeyPolicyRecordDigest R (recordValue r)) (\<lambda>digest.
     bindR (ensure (list_ex (\<lambda>c. turnkeyPolicyRecordDigest R (recordValue c) = Inr digest) approved)
       ''TURNKEY_PROVIDER_POLICY_CATALOG_ACTIVE_RECORD_MISSING'') (\<lambda>_.
     bindR (ensure (list_all (\<lambda>c. rc_environment c = rc_environment r \<and> rc_identity c = rc_identity r \<and> rc_wallets c = rc_wallets r) approved
         \<and> distinct (map (pp_policyId \<circ> rc_policy) approved)) ''TURNKEY_POLICY_CATALOG_BINDING_INVALID'') (\<lambda>_.
     bindR (ensure (list_all (approvedPolicyOk (map rc_policy approved)) policies) ''TURNKEY_PROVIDER_POLICY_NOT_APPROVED'') (\<lambda>_.
       ensure (list_all (onlyMatch policies) (map rc_policy approved)) ''TURNKEY_PROVIDER_POLICY_DRIFT''))))"

definition validateTurnkeyActualProviderState ::
  "RecordLib \<Rightarrow> jsval \<Rightarrow> ActualProviderState \<Rightarrow> jsval list option \<Rightarrow> tkError + unit" where
  "validateTurnkeyActualProviderState R recordJs st approvedJs =
     bindR (validateTurnkeyCanonicalPolicyRecord R recordJs) (\<lambda>r.
     bindR (projectTurnkeyProviderIdentity (st_whoami st)) (\<lambda>ident.
     bindR (ensure (ident = rc_identity r) ''TURNKEY_PROVIDER_IDENTITY_DRIFT'') (\<lambda>_.
     bindR (mapR projectTurnkeyProviderPolicy (st_policies st)) (\<lambda>policies.
     bindR (assertNonRootRuntimeUser (st_organization st) (rc_identity r)) (\<lambda>_.
     bindR (case approvedJs of
              None \<Rightarrow> ensure (length policies = 1) ''TURNKEY_PROVIDER_POLICY_INVENTORY_NOT_ISOLATED''
            | Some vs \<Rightarrow> bindR (mapR (validateTurnkeyCanonicalPolicyRecord R) vs) (checkApproved R r policies)) (\<lambda>_.
     bindR (ensure (onlyMatch policies (rc_policy r)) ''TURNKEY_PROVIDER_POLICY_DRIFT'') (\<lambda>_.
     bindR (mapR projectTurnkeyProviderKey (st_privateKeys st)) (\<lambda>keys.
     bindR (ensure (distinct (map pk_privateKeyId keys)) ''TURNKEY_PROVIDER_KEY_DUPLICATE'') (\<lambda>_.
       ensure (list_all (\<lambda>w. keysById keys (rw_signWith w) = Some (rw_providerKey w)) (rc_wallets r)) ''TURNKEY_PROVIDER_KEY_DRIFT'')))))))))"

section \<open>A validated record is in normal form\<close>

lemma stringValue_ok [simp]: "\<not> brokenLine s \<Longrightarrow> stringValue (JStr s) code = Inr s"
  by (simp add: stringValue_def)

lemma stringValue_back: "stringValue v code = Inr s \<Longrightarrow> v = JStr s \<and> \<not> brokenLine s"
  by (auto simp: stringValue_def split: jsval.splits if_splits)

lemma requiredString_ok [simp]: "s \<noteq> [] \<Longrightarrow> \<not> brokenLine s \<Longrightarrow> requiredString (JStr s) code = Inr s"
  by (simp add: requiredString_def)

lemma requiredString_back: "requiredString v code = Inr s \<Longrightarrow> v = JStr s \<and> s \<noteq> [] \<and> \<not> brokenLine s"
  by (auto simp: requiredString_def bindR_eq_Inr dest: stringValue_back split: if_splits)

lemma brokenLine_lower [simp]: "brokenLine (toLowerCase s) = brokenLine s"
proof -
  have "((of_char (lower_char c) :: nat) = 10 \<or> (of_char (lower_char c) :: nat) = 13) = ((of_char c :: nat) = 10 \<or> (of_char c :: nat) = 13)" for c
    by (auto simp: lower_char_def Let_def of_char_of_small)
  then show ?thesis by (simp add: brokenLine_def toLowerCase_def list_ex_iff)
qed

lemma exactRecord_ok [simp]: "exactRecord v keys code = Inr u \<longleftrightarrow> isRecord v \<and> exactKeys v keys"
  by (simp add: exactRecord_def)

definition oneLine :: "string option \<Rightarrow> bool" where
  "oneLine v \<longleftrightarrow> (case v of None \<Rightarrow> True | Some s \<Rightarrow> \<not> brokenLine s)"

definition wellTimestamp :: "ProviderTimestamp \<Rightarrow> bool" where
  "wellTimestamp t \<longleftrightarrow> canonicalDecimal (pt_seconds t) \<and> canonicalDecimal (pt_nanos t) \<and> decimalValue 0 (pt_nanos t) \<le> 999999999"

lemma requiredIntegerString_eq: "requiredIntegerString v code = Inr s \<longleftrightarrow> v = JStr s \<and> canonicalDecimal s"
  by (auto simp: requiredIntegerString_def split: jsval.splits)

lemma timestamp_well: "providerTimestamp v = Inr t \<Longrightarrow> wellTimestamp t"
  by (auto simp: providerTimestamp_def Let_def bindR_eq_Inr requiredIntegerString_eq wellTimestamp_def split: if_splits)

lemma timestamp_back: "wellTimestamp t \<Longrightarrow> providerTimestamp (timestampValue t) = Inr t"
proof -
  assume t: "wellTimestamp t"
  have "exactKeys (timestampValue t) [''seconds'', ''nanos'']" by (simp add: timestampValue_def exactKeys_def)
  with t show ?thesis
    by (simp add: providerTimestamp_def Let_def exactRecord_def requiredIntegerString_def wellTimestamp_def)
      (simp add: timestampValue_def)
qed

lemma optionalString_well: "optionalString v code = Inr s \<Longrightarrow> oneLine s"
  by (auto simp: optionalString_def nullableString_def oneLine_def bindR_eq_Inr dest: stringValue_back split: if_splits)

lemma optionalString_nullable_ok: "oneLine s \<Longrightarrow> optionalString (nullable s) code = Inr s"
  by (cases s) (simp_all add: optionalString_def nullableString_def nullable_def oneLine_def)

definition wellIdentity :: "ProviderIdentity \<Rightarrow> bool" where
  "wellIdentity i \<longleftrightarrow> id_organizationId i \<noteq> [] \<and> id_userId i \<noteq> [] \<and>
     list_all (\<lambda>s. \<not> brokenLine s) [id_organizationId i, id_organizationName i, id_userId i, id_username i]"

lemma identity_well: "projectTurnkeyProviderIdentity v = Inr i \<Longrightarrow> wellIdentity i"
  by (auto simp: projectTurnkeyProviderIdentity_def Let_def bindR_eq_Inr wellIdentity_def dest: requiredString_back stringValue_back)

lemma identity_back: "wellIdentity i \<Longrightarrow> projectTurnkeyProviderIdentity (identityValue i) = Inr i"
proof -
  assume i: "wellIdentity i"
  have "exactKeys (identityValue i) [''organizationId'', ''organizationName'', ''userId'', ''username'']"
    by (simp add: identityValue_def exactKeys_def)
  with i show ?thesis
    by (simp add: projectTurnkeyProviderIdentity_def Let_def exactRecord_def wellIdentity_def)
      (simp add: identityValue_def)
qed

definition wellPolicy :: "ProviderPolicy \<Rightarrow> bool" where
  "wellPolicy p \<longleftrightarrow> pp_policyId p \<noteq> [] \<and> wellTimestamp (pp_createdAt p) \<and> wellTimestamp (pp_updatedAt p) \<and> oneLine (pp_time p) \<and>
     list_all (\<lambda>s. \<not> brokenLine s) [pp_policyId p, pp_policyName p, pp_notes p, pp_consensus p, pp_condition p]"

lemma policy_well: "projectTurnkeyProviderPolicy v = Inr p \<Longrightarrow> wellPolicy p"
  by (auto simp: projectTurnkeyProviderPolicy_def Let_def bindR_eq_Inr wellPolicy_def
      dest: requiredString_back stringValue_back timestamp_well optionalString_well split: option.splits)

lemma fld_providerPolicyValue:
  "fld (providerPolicyValue p) ''policyId'' = JStr (pp_policyId p)" "fld (providerPolicyValue p) ''policyName'' = JStr (pp_policyName p)"
  "policyEffect (fld (providerPolicyValue p) ''effect'') = Some (pp_effect p)"
  "fld (providerPolicyValue p) ''createdAt'' = timestampValue (pp_createdAt p)"
  "fld (providerPolicyValue p) ''updatedAt'' = timestampValue (pp_updatedAt p)" "fld (providerPolicyValue p) ''notes'' = JStr (pp_notes p)"
  "fld (providerPolicyValue p) ''consensus'' = JStr (pp_consensus p)" "fld (providerPolicyValue p) ''condition'' = JStr (pp_condition p)"
  "fld (providerPolicyValue p) ''time'' = nullable (pp_time p)"
  by (simp_all add: providerPolicyValue_def policyEffect_def split: PolicyEffect.split)

lemma policy_back: "wellPolicy p \<Longrightarrow> projectTurnkeyProviderPolicy (providerPolicyValue p) = Inr p"
proof -
  assume p: "wellPolicy p"
  have keys: "optionalExactRecord (providerPolicyValue p)
      [''policyId'', ''policyName'', ''effect'', ''createdAt'', ''updatedAt'', ''notes'', ''consensus'', ''condition''] [''time''] code = Inr ()" for code
    by (simp add: providerPolicyValue_def optionalExactRecord_def)
  show ?thesis
    using p by (simp add: projectTurnkeyProviderPolicy_def Let_def keys fld_providerPolicyValue wellPolicy_def timestamp_back
        optionalString_nullable_ok)
qed

definition wellAddress :: "ProviderAddress \<Rightarrow> bool" where
  "wellAddress a \<longleftrightarrow> oneLine (pa_format a) \<and> oneLine (pa_address a) \<and> map_option toLowerCase (pa_address a) = pa_address a"

lemma address_well: "projectAddress v = Inr a \<Longrightarrow> wellAddress a"
proof -
  have lower: "oneLine s \<Longrightarrow> oneLine (map_option toLowerCase s)" for s by (cases s) (simp_all add: oneLine_def)
  show "projectAddress v = Inr a \<Longrightarrow> wellAddress a"
    by (auto simp: projectAddress_def Let_def bindR_eq_Inr wellAddress_def option.map_comp comp_def lower dest!: optionalString_well)
qed

lemma address_back: "wellAddress a \<Longrightarrow> projectAddress (addressValue a) = Inr a"
proof -
  assume a: "wellAddress a"
  have keys: "optionalExactRecord (addressValue a) [] [''format'', ''address''] code = Inr ()" for code
    by (simp add: addressValue_def optionalExactRecord_def)
  have "fld (addressValue a) ''format'' = nullable (pa_format a)" "fld (addressValue a) ''address'' = nullable (pa_address a)"
    by (simp_all add: addressValue_def)
  with a show ?thesis
    by (simp add: projectAddress_def Let_def keys optionalString_nullable_ok wellAddress_def)
qed

lemma mapR_back:
  assumes "\<And>x. x \<in> set xs \<Longrightarrow> f (g x) = Inr x"
  shows "mapR f (map g xs) = Inr xs"
  using assms by (induction xs) auto

lemma mapR_each: "mapR f vs = Inr xs \<Longrightarrow> x \<in> set xs \<Longrightarrow> \<exists>v \<in> set vs. f v = Inr x"
  unfolding mapR_eq_Inr by (induction vs xs rule: list_all2_induct) auto

definition wellKey :: "ProviderKey \<Rightarrow> bool" where
  "wellKey k \<longleftrightarrow>
     list_all wellAddress (pk_addresses k) \<and> sort_key (\<lambda>a. stableStringify (addressValue a)) (pk_addresses k) = pk_addresses k \<and>
     list_all (\<lambda>t. t \<noteq> [] \<and> \<not> brokenLine t) (pk_privateKeyTags k) \<and> distinct (pk_privateKeyTags k) \<and> sorted (pk_privateKeyTags k) \<and>
     list_all (\<lambda>s. s \<noteq> [] \<and> \<not> brokenLine s) [pk_privateKeyId k, pk_publicKey k, pk_privateKeyName k, pk_curve k] \<and>
     bareHex (pk_publicKey k) = pk_publicKey k \<and> even (length (pk_publicKey k)) \<and> all_hex (pk_publicKey k) \<and>
     wellTimestamp (pk_createdAt k) \<and> (case pk_updatedAt k of None \<Rightarrow> True | Some t \<Rightarrow> wellTimestamp t)"

lemma hex_no_x: "all_hex s \<Longrightarrow> toLowerCase (take 2 s) \<noteq> ''0x''"
proof
  assume h: "all_hex s" and x: "toLowerCase (take 2 s) = ''0x''"
  then have "all_hex (take 2 s)" by (simp add: all_hex_def list_all_iff) (meson in_set_takeD)
  then have "all_hex ''0x''" using x by (metis all_hex_lower)
  then show False by (simp add: all_hex_def hex_digit_def)
qed

lemma bareHex_idem: "all_hex (bareHex s) \<Longrightarrow> bareHex (bareHex s) = bareHex s"
  using hex_no_x [of "bareHex s"] by (simp add: bareHex_def)

lemma bareHex_line: "\<not> brokenLine s \<Longrightarrow> \<not> brokenLine (bareHex s)"
  by (auto simp: bareHex_def brokenLine_def [of "drop 2 s"] brokenLine_def [of s] list_ex_iff dest: in_set_dropD)

lemma sort_key_idem: "sort_key f (sort_key f xs) = sort_key f xs"
  by (simp add: sorted_sort_key sort_key_id_if_sorted)

lemma key_well: "projectTurnkeyProviderKey v = Inr k \<Longrightarrow> wellKey k"
proof -
  assume "projectTurnkeyProviderKey v = Inr k"
  then obtain addresses tags exported imported addrs tagTexts publicKey privateKeyId privateKeyName curve createdAt updatedAt where
    m: "mapR projectAddress addresses = Inr addrs" "mapR (\<lambda>t. requiredString t ''TURNKEY_PROVIDER_KEY_INVALID'') tags = Inr tagTexts"
    and d: "distinct tagTexts"
    and texts: "requiredString (fld v ''publicKey'') ''TURNKEY_PROVIDER_KEY_INVALID'' = Inr publicKey"
      "requiredString (fld v ''privateKeyId'') ''TURNKEY_PROVIDER_KEY_INVALID'' = Inr privateKeyId"
      "requiredString (fld v ''privateKeyName'') ''TURNKEY_PROVIDER_KEY_INVALID'' = Inr privateKeyName"
      "requiredString (fld v ''curve'') ''TURNKEY_PROVIDER_KEY_INVALID'' = Inr curve"
    and hex: "bareHex publicKey \<noteq> []" "even (length (bareHex publicKey))" "all_hex (bareHex publicKey)"
    and times: "providerTimestamp (fld v ''createdAt'') = Inr createdAt" "case updatedAt of None \<Rightarrow> True | Some t \<Rightarrow> wellTimestamp t"
    and k: "k = \<lparr>pk_privateKeyId = privateKeyId, pk_publicKey = bareHex publicKey, pk_privateKeyName = privateKeyName, pk_curve = curve,
        pk_addresses = sort_key (\<lambda>a. stableStringify (addressValue a)) addrs, pk_privateKeyTags = sort tagTexts,
        pk_createdAt = createdAt, pk_updatedAt = updatedAt, pk_exported = exported, pk_imported = imported\<rparr>"
    by (auto simp: projectTurnkeyProviderKey_def Let_def bindR_eq_Inr timestamp_well split: jsval.splits if_splits)
  have "a \<in> set addrs \<Longrightarrow> wellAddress a" for a using mapR_each [OF m(1)] address_well by blast
  moreover have "t \<in> set tagTexts \<Longrightarrow> t \<noteq> [] \<and> \<not> brokenLine t" for t using mapR_each [OF m(2)] requiredString_back by blast
  ultimately show ?thesis
    using d hex times texts [THEN requiredString_back]
    by (simp add: k wellKey_def list_all_iff sort_key_idem bareHex_idem bareHex_line timestamp_well)
qed

lemma fld_keyValue:
  "fld (keyValue k) ''privateKeyId'' = JStr (pk_privateKeyId k)" "fld (keyValue k) ''publicKey'' = JStr (pk_publicKey k)"
  "fld (keyValue k) ''privateKeyName'' = JStr (pk_privateKeyName k)" "fld (keyValue k) ''curve'' = JStr (pk_curve k)"
  "fld (keyValue k) ''addresses'' = JArr (map addressValue (pk_addresses k))"
  "fld (keyValue k) ''privateKeyTags'' = JArr (map JStr (pk_privateKeyTags k))"
  "fld (keyValue k) ''createdAt'' = timestampValue (pk_createdAt k)"
  "fld (keyValue k) ''updatedAt'' = (case pk_updatedAt k of None \<Rightarrow> JNull | Some t \<Rightarrow> timestampValue t)"
  "fld (keyValue k) ''exported'' = JBool (pk_exported k)" "fld (keyValue k) ''imported'' = JBool (pk_imported k)"
  by (simp_all add: keyValue_def)

lemma keys_keyValue:
  "exactKeys (keyValue k) [''privateKeyId'', ''publicKey'', ''privateKeyName'', ''curve'', ''addresses'', ''privateKeyTags'',
     ''createdAt'', ''updatedAt'', ''exported'', ''imported'']" "isRecord (keyValue k)"
  by (simp_all add: keyValue_def exactKeys_def)

lemma key_back: "wellKey k \<Longrightarrow> projectTurnkeyProviderKey (keyValue k) = Inr k"
proof -
  assume k: "wellKey k"
  have a: "mapR projectAddress (map addressValue (pk_addresses k)) = Inr (pk_addresses k)"
    using k by (intro mapR_back address_back) (simp add: wellKey_def list_all_iff)
  have t: "mapR (\<lambda>t. requiredString t code) (map JStr (pk_privateKeyTags k)) = Inr (pk_privateKeyTags k)" for code
    using k by (intro mapR_back requiredString_ok) (auto simp: wellKey_def list_all_iff)
  have u: "(if fld (keyValue k) ''updatedAt'' = JNull then Inr None
      else bindR (providerTimestamp (fld (keyValue k) ''updatedAt'')) (\<lambda>t. Inr (Some t))) = Inr (pk_updatedAt k)"
    using k by (cases "pk_updatedAt k") (simp_all add: fld_keyValue wellKey_def timestamp_back, simp add: timestampValue_def)
  have e: "exactRecord (keyValue k) [''privateKeyId'', ''publicKey'', ''privateKeyName'', ''curve'', ''addresses'', ''privateKeyTags'',
      ''createdAt'', ''updatedAt'', ''exported'', ''imported''] code = Inr ()" for code
    by (simp add: keys_keyValue)
  show ?thesis
    unfolding projectTurnkeyProviderKey_def Let_def e u
    using k by (simp add: fld_keyValue a t wellKey_def timestamp_back sorted_sort_id)
qed

lemma canonicalIso_back: "canonicalIso R v code = Inr s \<Longrightarrow> canonicalIso R (JStr s) code' = Inr s"
  by (auto simp: canonicalIso_def split: jsval.splits option.splits if_splits)

definition wellWallet :: "nat \<Rightarrow> RecordWallet \<Rightarrow> bool" where
  "wellWallet i w \<longleftrightarrow>
     rw_index w = int i \<and> validAddress (rw_address w) \<and> toLowerCase (rw_address w) = rw_address w \<and> \<not> brokenLine (rw_address w) \<and>
     rw_signWith w \<noteq> [] \<and> \<not> brokenLine (rw_signWith w) \<and> wellKey (rw_providerKey w) \<and>
     pk_privateKeyId (rw_providerKey w) = rw_signWith w \<and> pk_curve (rw_providerKey w) = ''CURVE_SECP256K1'' \<and>
     \<not> pk_exported (rw_providerKey w) \<and>
     list_ex (\<lambda>a. pa_format a = Some ''ADDRESS_FORMAT_ETHEREUM'' \<and> pa_address a = Some (rw_address w)) (pk_addresses (rw_providerKey w))"

lemma wallet_well: "recordWallet i v = Inr w \<Longrightarrow> wellWallet i w"
  by (auto simp: recordWallet_def Let_def bindR_eq_Inr wellWallet_def key_well dest!: requiredString_back)

lemma fld_walletValue:
  "fld (walletValue w) ''index'' = JNum (jint (rw_index w))" "fld (walletValue w) ''address'' = JStr (rw_address w)"
  "fld (walletValue w) ''signWith'' = JStr (rw_signWith w)" "fld (walletValue w) ''providerKey'' = keyValue (rw_providerKey w)"
  "isRecord (walletValue w)" "exactKeys (walletValue w) [''index'', ''address'', ''signWith'', ''providerKey'']"
  by (simp_all add: walletValue_def exactKeys_def)

lemma wallet_back:
  assumes "wellWallet i w"
  shows "recordWallet i (walletValue w) = Inr w"
proof -
  have e: "exactRecord (walletValue w) [''index'', ''address'', ''signWith'', ''providerKey''] code = Inr ()" for code
    by (simp add: fld_walletValue)
  have "validAddress (rw_address w) \<Longrightarrow> rw_address w \<noteq> []" by (auto simp: validAddress_def)
  with assms have "requiredString (JStr (rw_address w)) code = Inr (rw_address w)" "requiredString (JStr (rw_signWith w)) code = Inr (rw_signWith w)"
    "projectTurnkeyProviderKey (keyValue (rw_providerKey w)) = Inr (rw_providerKey w)" for code
    by (auto simp: wellWallet_def key_back)
  with assms show ?thesis
    unfolding recordWallet_def Let_def e by (simp add: fld_walletValue wellWallet_def)
qed

lemma mapR_enumerate_back:
  assumes "mapR (\<lambda>(i, v). f i v) (enumerate n vs) = Inr xs" and "\<And>i v x. f i v = Inr x \<Longrightarrow> f i (g x) = Inr x"
  shows "mapR (\<lambda>(i, v). f i v) (enumerate n (map g xs)) = Inr xs"
  using assms(1)
proof (induction vs arbitrary: n xs)
  case (Cons v vs)
  then show ?case by (auto simp: bindR_eq_Inr assms(2))
qed simp

lemma fld_recordValue:
  "fld (recordValue r) ''version'' = JNum (jint 1)" "fld (recordValue r) ''context'' = JStr RECORD_CONTEXT"
  "fld (recordValue r) ''environment'' = JStr (environmentText (rc_environment r))"
  "fld (recordValue r) ''providerIdentity'' = identityValue (rc_identity r)"
  "fld (recordValue r) ''providerPolicy'' = providerPolicyValue (rc_policy r)"
  "fld (recordValue r) ''enforcementPolicy'' = policyValue (rc_enforcement r)"
  "fld (recordValue r) ''wallets'' = JArr (map walletValue (rc_wallets r))"
  "fld (recordValue r) ''issuedAt'' = JStr (rc_issuedAt r)" "fld (recordValue r) ''expiresAt'' = JStr (rc_expiresAt r)"
  "isRecord (recordValue r)" "exactKeys (recordValue r) RECORD_KEYS"
  by (simp_all add: recordValue_def exactKeys_def RECORD_KEYS_def)

text \<open>The parts of a validated record.\<close>

definition wellRecord :: "RecordLib \<Rightarrow> PolicyRecord \<Rightarrow> bool" where
  "wellRecord R r \<longleftrightarrow>
     wellIdentity (rc_identity r) \<and> wellPolicy (rc_policy r) \<and> wellFormedPolicy (rc_enforcement r) \<and> rc_wallets r \<noteq> [] \<and>
     mapR (\<lambda>(i, w). recordWallet i w) (enumerate 0 (map walletValue (rc_wallets r))) = Inr (rc_wallets r) \<and>
     distinct (map rw_address (rc_wallets r)) \<and> distinct (map rw_signWith (rc_wallets r)) \<and>
     canonicalIso R (JStr (rc_issuedAt r)) ''TURNKEY_POLICY_RECORD_INVALID'' = Inr (rc_issuedAt r) \<and>
     canonicalIso R (JStr (rc_expiresAt r)) ''TURNKEY_POLICY_RECORD_INVALID'' = Inr (rc_expiresAt r) \<and>
     dateOf R (rc_issuedAt r) < dateOf R (rc_expiresAt r) \<and>
     (\<exists>px. turnkeyProviderPolicyExpressions (policyValue (rc_enforcement r)) = Inr px \<and>
        recordBound (rc_environment r) (rc_identity r) (rc_policy r) (rc_enforcement r) px (rc_wallets r))"

lemma record_well:
  assumes "validateTurnkeyCanonicalPolicyRecord R v = Inr r"
  shows "wellRecord R r"
proof -
  from assms obtain ws where m: "mapR (\<lambda>(i, w). recordWallet i w) (enumerate 0 ws) = Inr (rc_wallets r)" and ne: "ws \<noteq> []"
    and rest: "wellIdentity (rc_identity r)" "wellPolicy (rc_policy r)" "wellFormedPolicy (rc_enforcement r)"
      "distinct (map rw_address (rc_wallets r))" "distinct (map rw_signWith (rc_wallets r))"
      "canonicalIso R (JStr (rc_issuedAt r)) ''TURNKEY_POLICY_RECORD_INVALID'' = Inr (rc_issuedAt r)"
      "canonicalIso R (JStr (rc_expiresAt r)) ''TURNKEY_POLICY_RECORD_INVALID'' = Inr (rc_expiresAt r)"
      "dateOf R (rc_issuedAt r) < dateOf R (rc_expiresAt r)"
      "\<exists>px. turnkeyProviderPolicyExpressions (policyValue (rc_enforcement r)) = Inr px \<and>
        recordBound (rc_environment r) (rc_identity r) (rc_policy r) (rc_enforcement r) px (rc_wallets r)"
    by (auto simp: validateTurnkeyCanonicalPolicyRecord_def Let_def bindR_eq_Inr identity_well policy_well validated_policy_well
        canonicalIso_back split: option.splits jsval.splits)
  have "mapR (\<lambda>(i, w). recordWallet i w) (enumerate 0 (map walletValue (rc_wallets r))) = Inr (rc_wallets r)"
    using mapR_enumerate_back [OF m] wallet_back [OF wallet_well] by blast
  moreover have "rc_wallets r \<noteq> []" using m ne mapR_length by fastforce
  ultimately show ?thesis using rest by (simp add: wellRecord_def)
qed

lemma record_back:
  assumes "wellRecord R r"
  shows "validateTurnkeyCanonicalPolicyRecord R (recordValue r) = Inr r"
proof -
  have e: "exactRecord (recordValue r) RECORD_KEYS code = Inr ()" for code by (simp add: fld_recordValue)
  from assms obtain px where "turnkeyProviderPolicyExpressions (policyValue (rc_enforcement r)) = Inr px"
    "recordBound (rc_environment r) (rc_identity r) (rc_policy r) (rc_enforcement r) px (rc_wallets r)"
    by (auto simp: wellRecord_def)
  with assms show ?thesis
    unfolding validateTurnkeyCanonicalPolicyRecord_def Let_def e
    by (simp add: fld_recordValue wellRecord_def identity_back policy_back validate_policyValue del: environmentOf.simps)
qed

section \<open>Signing and approving\<close>

lemma digest_of_record: "wellRecord R r \<Longrightarrow>
    turnkeyPolicyRecordDigest R (recordValue r) =
    Inr (''sha256:'' @ pl_sha256 (rl_proof R)
      (''mintbot.turnkey-policy-record/signature/v1'' @ [CHR 0x00] @ stableStringify (recordValue r)))"
  by (simp add: turnkeyPolicyRecordDigest_def signaturePayload_def canonicalTurnkeyPolicyRecordJson_def record_back)

lemma payload_of_record: "wellRecord R r \<Longrightarrow>
    signaturePayload R (recordValue r) =
    Inr (''mintbot.turnkey-policy-record/signature/v1'' @ [CHR 0x00] @ stableStringify (recordValue r))"
  by (simp add: signaturePayload_def canonicalTurnkeyPolicyRecordJson_def record_back)

lemma authenticated_record:
  assumes "authenticateRecord R pem v = Inr r"
  shows "wellRecord R r" "validateTurnkeyCanonicalPolicyRecord R (fld v ''record'') = Inr r"
    "\<exists>der payload. asPublicKey R pem = Inr der \<and> signaturePayload R (recordValue r) = Inr payload \<and>
       rl_verify R der payload (textOf (fld v ''signature''))"
  using assms by (auto simp: authenticateRecord_def Let_def bindR_eq_Inr record_well)

lemma fld_signedValue:
  "fld (signedValue s) ''version'' = JNum (jint 1)" "fld (signedValue s) ''algorithm'' = JStr ''Ed25519''"
  "fld (signedValue s) ''keyId'' = JStr (sr_keyId s)" "fld (signedValue s) ''recordDigest'' = JStr (sr_recordDigest s)"
  "fld (signedValue s) ''record'' = recordValue (sr_record s)" "fld (signedValue s) ''signature'' = JStr (sr_signature s)"
  "isRecord (signedValue s)" "exactKeys (signedValue s) [''version'', ''algorithm'', ''keyId'', ''recordDigest'', ''record'', ''signature'']"
  by (simp_all add: signedValue_def exactKeys_def)

text \<open>
  C15. What the owner signs is what the engine later authenticates: a signed record, read back with the
  matching public key inside its period, yields the record that was validated before signing. The
  signature scheme verifies what it signed.
\<close>

theorem signed_record_verifies:
  assumes signed: "signTurnkeyPolicyRecord R (Some (''ed25519'', der)) sign v = Inr s"
    and key: "rl_publicKey R pem = Some (''ed25519'', der)" "\<not> containsText ''PRIVATE KEY'' pem"
    and scheme: "\<And>payload. rl_verify R der payload (sign payload)"
    and period: "currentAt R now (sr_record s)"
  shows "validateTurnkeyCanonicalPolicyRecord R v = Inr (sr_record s) \<and>
    verifyTurnkeySignedPolicyRecord R pem now (signedValue s) = Inr (sr_record s)"
proof -
  from signed obtain r digest payload where r: "validateTurnkeyCanonicalPolicyRecord R v = Inr r"
    and d: "turnkeyPolicyRecordDigest R (recordValue r) = Inr digest" and p: "signaturePayload R (recordValue r) = Inr payload"
    and s: "s = \<lparr>sr_keyId = ''ed25519:'' @ pl_sha256 (rl_proof R) der, sr_recordDigest = digest, sr_record = r, sr_signature = sign payload\<rparr>"
    by (auto simp: signTurnkeyPolicyRecord_def bindR_eq_Inr)
  have pub: "asPublicKey R pem = Inr der" using key by (simp add: asPublicKey_def)
  have e: "exactRecord (signedValue s) [''version'', ''algorithm'', ''keyId'', ''recordDigest'', ''record'', ''signature''] code = Inr ()" for code
    by (simp add: fld_signedValue)
  have "authenticateRecord R pem (signedValue s) = Inr r"
    unfolding authenticateRecord_def Let_def e
    using d p scheme record_back [OF record_well [OF r]]
    by (simp add: pub turnkeyPolicyApproverKeyId_def fld_signedValue s)
  with period r show ?thesis by (simp add: verifyTurnkeySignedPolicyRecord_def s)
qed

text \<open>The loop over a catalog accepts only records of one fleet, each with its own policy and digest.\<close>

lemma catalogLoop_ok:
  assumes "catalogLoop R r0 ids digests rs = Inr ()"
  shows "(\<forall>r \<in> set rs. rc_environment r = rc_environment r0 \<and> rc_identity r = rc_identity r0 \<and> rc_wallets r = rc_wallets r0 \<and>
      pp_policyId (rc_policy r) \<notin> set ids) \<and> distinct (map (pp_policyId \<circ> rc_policy) rs)"
  using assms
proof (induction rs arbitrary: ids digests)
  case (Cons r rs)
  then obtain digest where "catalogLoop R r0 (pp_policyId (rc_policy r) # ids) (digest # digests) rs = Inr ()"
    and ok: "rc_environment r = rc_environment r0" "rc_identity r = rc_identity r0" "rc_wallets r = rc_wallets r0"
      "pp_policyId (rc_policy r) \<notin> set ids"
    by (auto simp: bindR_eq_Inr split: if_splits)
  from Cons.IH [OF this(1)] ok show ?case by auto
qed simp

text \<open>A record that the owner signed: some entry of the catalog carries it with a signature that verifies.\<close>

definition ownerSigned :: "RecordLib \<Rightarrow> string \<Rightarrow> jsval \<Rightarrow> PolicyRecord \<Rightarrow> bool" where
  "ownerSigned R pem v r \<longleftrightarrow>
     validateTurnkeyCanonicalPolicyRecord R (fld v ''record'') = Inr r \<and>
     (\<exists>der. asPublicKey R pem = Inr der \<and>
        rl_verify R der (''mintbot.turnkey-policy-record/signature/v1'' @ [CHR 0x00] @ stableStringify (recordValue r))
          (textOf (fld v ''signature'')))"

lemma authenticated_ownerSigned: "authenticateRecord R pem v = Inr r \<Longrightarrow> ownerSigned R pem v r"
  using authenticated_record [of R pem v r] by (auto simp: ownerSigned_def payload_of_record)

text \<open>
  The catalog yields only policies the owner signed and that are in force: each was authenticated with the
  pinned key over its own canonical text, its period contains the current time, the expressions the
  provider holds are those of the policy enforced locally, and all of them are of one fleet with
  different policy ids.
\<close>

theorem catalog_is_owner_signed:
  assumes "verifyTurnkeySignedPolicyCatalog R pem now v = Inr rs" and "r \<in> set rs"
  shows "(\<exists>items item. fld v ''records'' = JArr items \<and> length items \<le> 25 \<and> item \<in> set items \<and> ownerSigned R pem item r) \<and>
    currentAt R now r \<and>
    (\<exists>px. turnkeyProviderPolicyExpressions (policyValue (rc_enforcement r)) = Inr px \<and>
       pp_condition (rc_policy r) = px_condition px \<and> pp_consensus (rc_policy r) = px_consensus px) \<and>
    distinct (map (pp_policyId \<circ> rc_policy) rs) \<and>
    (\<forall>r' \<in> set rs. rc_identity r' = rc_identity r \<and> rc_wallets r' = rc_wallets r \<and> rc_environment r' = rc_environment r)"
proof -
  from assms(1) obtain items records where items: "fld v ''records'' = JArr items" "length items \<le> 25"
    and m: "mapR (authenticateRecord R pem) items = Inr records" and loop: "catalogLoop R (hd records) [] [] records = Inr ()"
    and rs: "rs = filter (currentAt R now) records"
    by (auto simp: verifyTurnkeySignedPolicyCatalog_def authenticateCatalog_def Let_def bindR_eq_Inr split: jsval.splits if_splits)
  from assms(2) rs have mem: "r \<in> set records" and cur: "currentAt R now r" by auto
  from mapR_each [OF m mem] obtain item where item: "item \<in> set items" "authenticateRecord R pem item = Inr r" by blast
  from authenticated_record(1) [OF item(2)] have "\<exists>px. turnkeyProviderPolicyExpressions (policyValue (rc_enforcement r)) = Inr px \<and>
      pp_condition (rc_policy r) = px_condition px \<and> pp_consensus (rc_policy r) = px_consensus px"
    by (auto simp: wellRecord_def recordBound_def)
  moreover have "distinct (map (pp_policyId \<circ> rc_policy) rs)"
    using catalogLoop_ok [OF loop] by (simp add: rs distinct_map_filter)
  moreover have "rc_identity r' = rc_identity r \<and> rc_wallets r' = rc_wallets r \<and> rc_environment r' = rc_environment r" if "r' \<in> set rs" for r'
    using catalogLoop_ok [OF loop] that mem by (simp add: rs)
  ultimately show ?thesis using items item(1) authenticated_ownerSigned [OF item(2)] cur by blast
qed

section \<open>A record\<close>

definition demoExpressions :: ProviderExpressions where
  "demoExpressions = (case turnkeyProviderPolicyExpressions (policyValue demoPolicy) of Inr px \<Rightarrow> px | Inl _ \<Rightarrow> undefined)"

lemma brokenLine_append [simp]: "brokenLine (s @ t) \<longleftrightarrow> brokenLine s \<or> brokenLine t"
  by (simp add: brokenLine_def)

text \<open>The texts of an expression are single lines, since quoted texts hold no line break.\<close>

lemma quotable_line: "list_all quotable s \<Longrightarrow> \<not> brokenLine s"
proof -
  have "quotable c \<Longrightarrow> (of_char c :: nat) \<noteq> 10 \<and> (of_char c :: nat) \<noteq> 13" for c by (auto simp: quotable_def isDigit_def)
  then show "list_all quotable s \<Longrightarrow> \<not> brokenLine s" by (auto simp: brokenLine_def list_all_iff list_ex_iff)
qed

lemma quoteText_line: "quoteText s = Inr q \<Longrightarrow> \<not> brokenLine q"
  by (auto simp: quoteText_def quotable_line brokenLine_def [of "[c]" for c] brokenLine_def [of "[]"] brokenLine_def [of "c # cs" for c cs]
      dest: quotable_line [unfolded brokenLine_def] split: if_splits)

lemma joinWith_line: "\<not> brokenLine sep \<Longrightarrow> list_all (\<lambda>x. \<not> brokenLine x) xs \<Longrightarrow> \<not> brokenLine (joinWith sep xs)"
  by (induction sep xs rule: joinWith.induct) (auto simp: brokenLine_def [of "[]"])

lemma short_line [simp]: "\<not> brokenLine []" "\<not> brokenLine '', ''" "\<not> brokenLine '' && ''"
  by (simp_all add: brokenLine_def)

lemma listText_line: "listText vs = Inr q \<Longrightarrow> \<not> brokenLine q"
proof -
  assume "listText vs = Inr q"
  then obtain qs where m: "mapR quoteText (sort vs) = Inr qs" and q: "q = ''['' @ joinWith '', '' qs @ '']''"
    by (auto simp: listText_def bindR_eq_Inr)
  have "list_all (\<lambda>x. \<not> brokenLine x) qs" using mapR_each [OF m] quoteText_line by (auto simp: list_all_iff)
  then have "\<not> brokenLine (joinWith '', '' qs)" by (simp add: joinWith_line)
  moreover have "\<not> brokenLine ''[''" "\<not> brokenLine '']''" by (simp_all add: brokenLine_def)
  ultimately show ?thesis unfolding q brokenLine_append by blast
qed

lemma listText_total:
  assumes "list_all (\<lambda>s. s \<noteq> [] \<and> list_all quotable s) vs"
  shows "\<exists>q. listText vs = Inr q"
proof -
  have "mapR quoteText xs = Inr (map (\<lambda>s. [CHR 0x27] @ s @ [CHR 0x27]) xs)" if "list_all (\<lambda>s. s \<noteq> [] \<and> list_all quotable s) xs" for xs
    using that by (induction xs) (auto simp: quoteText_def)
  from this [of "sort vs"] assms show ?thesis by (auto simp: listText_def list_all_iff)
qed

lemma demo_data: "\<exists>d. dataCondition demoPolicy = Inr d \<and> \<not> brokenLine d"
proof -
  have low: "toLowerCase ''0x161ac21f'' = ''0x161ac21f''" by code_simp
  have q: "\<exists>x. quoteText ''0x161ac21f'' = Inr x" by (simp add: quoteText_def quotable_def isDigit_def)
  have "list_all (\<lambda>s. s \<noteq> [] \<and> list_all quotable s) (map quantityWord [1, 2, 3, 4])" by code_simp
  then obtain y where y: "listText (map quantityWord [1, 2, 3, 4]) = Inr y" using listText_total by blast
  have four: "[1..<Suc (nat 4)] = [1, 2, 3, 4]" by code_simp
  obtain x where x: "quoteText ''0x161ac21f'' = Inr x" using q by blast
  have z: "\<not> brokenLine zeroWord" by code_simp
  have parts: "\<not> brokenLine ''eth.tx.data[0..10] == ''" "\<not> brokenLine ''eth.tx.data[138..202] == ''" "\<not> brokenLine ''eth.tx.data[202..266] in ''"
    by (simp_all add: brokenLine_def)
  have "dataCondition demoPolicy = Inr (joinWith '' && '' [''eth.tx.data[0..10] == '' @ x, ''eth.tx.data[138..202] == '' @ zeroWord,
      ''eth.tx.data[202..266] in '' @ y])"
    unfolding dataCondition_def using x y four low
    by (simp add: demoPolicy_def KIND_FREE_PUBLIC_def KIND_FREE_ALLOWLIST_def)
  moreover have "\<not> brokenLine (joinWith '' && '' [''eth.tx.data[0..10] == '' @ x, ''eth.tx.data[138..202] == '' @ zeroWord,
      ''eth.tx.data[202..266] in '' @ y])"
    using parts z quoteText_line [OF x] listText_line [OF y] by (intro joinWith_line) (simp_all only: list.pred_inject brokenLine_append short_line simp_thms)
  ultimately show ?thesis by blast
qed

lemma demo_expressions:
  "turnkeyProviderPolicyExpressions (policyValue demoPolicy) = Inr demoExpressions"
  "\<not> brokenLine (px_consensus demoExpressions)" "\<not> brokenLine (px_condition demoExpressions)"
proof -
  have n: "show_int 8453 = ''8453''" by (simp add: show_int_def show_nat.simps digit_char_def char_of_def bit_0)
  have seadrop: "toLowerCase SEADROP_V1_ADDRESS = ''0x00005ea00ac477b1030ce78506496e8c2de24bf5''" by code_simp
  have low: "list_all quotable demoOwner" "list_all quotable (toLowerCase SEADROP_V1_ADDRESS)"
    unfolding seadrop by (simp_all add: demoOwner_def quotable_def isDigit_def list_all_iff)
  have owner: "toLowerCase demoOwner = demoOwner" by code_simp
  have ne: "demoOwner \<noteq> []" "toLowerCase SEADROP_V1_ADDRESS \<noteq> []" by (simp_all add: demoOwner_def SEADROP_V1_ADDRESS_def toLowerCase_def)
  have "\<exists>k. listText [''key''] = Inr k" by (rule listText_total) (simp add: quotable_def isDigit_def)
  moreover have "\<exists>k. listText [demoOwner] = Inr k" by (rule listText_total) (use low ne in simp)
  moreover have "\<exists>k. quoteText (toLowerCase SEADROP_V1_ADDRESS) = Inr k" using low ne by (simp add: quoteText_def)
  moreover have "\<exists>k. quoteText ''user'' = Inr k" by (simp add: quoteText_def quotable_def isDigit_def)
  ultimately obtain d k f t u where p: "dataCondition demoPolicy = Inr d" "listText [''key''] = Inr k" "listText [demoOwner] = Inr f"
    "quoteText (toLowerCase SEADROP_V1_ADDRESS) = Inr t" "quoteText ''user'' = Inr u" and d: "\<not> brokenLine d"
    using demo_data by blast
  note lines = d listText_line [OF p(2)] listText_line [OF p(3)] quoteText_line [OF p(4)] quoteText_line [OF p(5)]
  have fields: "ts_userId (ast_scope demoPolicy) = ''user''" "ts_keyIds (ast_scope demoPolicy) = [''key'']"
    "tt_from (ast_transaction demoPolicy) = [demoOwner]" "tt_to (ast_transaction demoPolicy) = toLowerCase SEADROP_V1_ADDRESS"
    "tt_chainId (ast_transaction demoPolicy) = Chain8453" "tt_valueWei (ast_transaction demoPolicy) = ''0''"
    "tt_gasLimitMax (ast_transaction demoPolicy) = ''300000''" "tt_maxFeePerGasMax (ast_transaction demoPolicy) = ''100000''"
    "tt_maxPriorityFeePerGasMax (ast_transaction demoPolicy) = ''100''"
    by (simp_all add: demoPolicy_def)
  have "\<exists>px. turnkeyProviderPolicyExpressions (policyValue demoPolicy) = Inr px \<and> \<not> brokenLine (px_consensus px) \<and> \<not> brokenLine (px_condition px)"
    using lines owner
    by (simp add: turnkeyProviderPolicyExpressions_def demo_policy_valid Let_def fields p n)
      (simp add: brokenLine_def)
  then show "turnkeyProviderPolicyExpressions (policyValue demoPolicy) = Inr demoExpressions"
    "\<not> brokenLine (px_consensus demoExpressions)" "\<not> brokenLine (px_condition demoExpressions)"
    by (auto simp: demoExpressions_def)
qed

definition demoTimestamp :: ProviderTimestamp where
  "demoTimestamp = \<lparr>pt_seconds = ''17'', pt_nanos = ''0''\<rparr>"

definition demoKey :: ProviderKey where
  "demoKey = \<lparr>pk_privateKeyId = ''key'', pk_publicKey = ''ab'', pk_privateKeyName = ''name'', pk_curve = ''CURVE_SECP256K1'',
     pk_addresses = [\<lparr>pa_format = Some ''ADDRESS_FORMAT_ETHEREUM'', pa_address = Some demoOwner\<rparr>], pk_privateKeyTags = [],
     pk_createdAt = demoTimestamp, pk_updatedAt = None, pk_exported = False, pk_imported = True\<rparr>"

definition demoPolicyRecord :: PolicyRecord where
  "demoPolicyRecord = \<lparr>rc_environment = Production,
     rc_identity = \<lparr>id_organizationId = ''org'', id_organizationName = ''o'', id_userId = ''user'', id_username = ''u''\<rparr>,
     rc_policy = \<lparr>pp_policyId = ''pol'', pp_policyName = ''p'', pp_effect = EffectAllow, pp_createdAt = demoTimestamp,
       pp_updatedAt = demoTimestamp, pp_notes = [], pp_consensus = px_consensus demoExpressions,
       pp_condition = px_condition demoExpressions, pp_time = None\<rparr>,
     rc_enforcement = demoPolicy,
     rc_wallets = [\<lparr>rw_index = 0, rw_address = demoOwner, rw_signWith = ''key'', rw_providerKey = demoKey\<rparr>],
     rc_issuedAt = ''a'', rc_expiresAt = ''ab''\<rparr>"

definition demoRecordLib :: RecordLib where
  "demoRecordLib = \<lparr>rl_proof = demoProofLib\<lparr>pl_parseDate := (\<lambda>s. Some (int (length s)))\<rparr>,
     rl_isoText = (\<lambda>t. if t = 1 then ''a'' else ''ab''), rl_publicKey = (\<lambda>pem. Some (''ed25519'', pem)),
     rl_verify = (\<lambda>der payload signature. signature = ''signed'' @ payload)\<rparr>"

lemma demo_key_well: "wellKey demoKey"
proof -
  have "toLowerCase demoOwner = demoOwner" "\<not> brokenLine demoOwner" "bareHex ''ab'' = ''ab''" "all_hex ''ab''"
    "canonicalDecimal ''17''" "canonicalDecimal ''0''"
    by code_simp+
  then show ?thesis
    by (simp add: wellKey_def demoKey_def wellAddress_def oneLine_def wellTimestamp_def demoTimestamp_def)
      (simp add: brokenLine_def)
qed

lemma demo_record_well: "wellRecord demoRecordLib demoPolicyRecord"
proof -
  have o: "toLowerCase demoOwner = demoOwner" "\<not> brokenLine demoOwner" "validAddress demoOwner" by code_simp+
  have w: "wellWallet 0 \<lparr>rw_index = 0, rw_address = demoOwner, rw_signWith = ''key'', rw_providerKey = demoKey\<rparr>"
    using demo_key_well o by (simp add: wellWallet_def) (simp add: demoKey_def brokenLine_def)
  have p: "wellFormedPolicy demoPolicy" by (rule validated_policy_well [OF demo_policy_valid])
  have t: "wellTimestamp demoTimestamp" using demo_key_well by (simp add: wellKey_def demoKey_def)
  have i: "wellIdentity (rc_identity demoPolicyRecord)" by (simp add: wellIdentity_def demoPolicyRecord_def brokenLine_def)
  have q: "wellPolicy (rc_policy demoPolicyRecord)"
    using t demo_expressions(2,3) by (simp add: wellPolicy_def demoPolicyRecord_def oneLine_def) (simp add: brokenLine_def)
  have b: "recordBound Production (rc_identity demoPolicyRecord) (rc_policy demoPolicyRecord) demoPolicy demoExpressions (rc_wallets demoPolicyRecord)"
    using o by (simp add: recordBound_def demoPolicyRecord_def demoPolicy_def)
  have d: "canonicalIso demoRecordLib (JStr ''a'') code = Inr ''a''" "canonicalIso demoRecordLib (JStr ''ab'') code = Inr ''ab''"
    "dateOf demoRecordLib ''a'' < dateOf demoRecordLib ''ab''" for code
    by (simp_all add: canonicalIso_def dateOf_def demoRecordLib_def)
  show ?thesis
    unfolding wellRecord_def using i q p b d wallet_back [OF w] demo_expressions(1)
    by (simp add: demoPolicyRecord_def [THEN arg_cong, of rc_enforcement] demoPolicyRecord_def [THEN arg_cong, of rc_environment]
        demoPolicyRecord_def [THEN arg_cong, of rc_wallets] demoPolicyRecord_def [THEN arg_cong, of rc_issuedAt]
        demoPolicyRecord_def [THEN arg_cong, of rc_expiresAt])
qed

definition demoSigned :: SignedRecord where
  "demoSigned = \<lparr>sr_keyId = ''ed25519:'' @ replicate 64 (CHR ''e''), sr_recordDigest = ''sha256:'' @ replicate 64 (CHR ''e''),
     sr_record = demoPolicyRecord,
     sr_signature = ''signed'' @ ''mintbot.turnkey-policy-record/signature/v1'' @ [CHR 0x00] @ stableStringify (recordValue demoPolicyRecord)\<rparr>"

lemma demo_signs:
  "signTurnkeyPolicyRecord demoRecordLib (Some (''ed25519'', ''pem'')) (\<lambda>payload. ''signed'' @ payload) (recordValue demoPolicyRecord) = Inr demoSigned"
  using demo_record_well
  by (simp add: signTurnkeyPolicyRecord_def record_back digest_of_record payload_of_record demoSigned_def)
    (simp add: demoRecordLib_def demoProofLib_def)

lemma demo_library:
  "rl_publicKey demoRecordLib ''pem'' = Some (''ed25519'', ''pem'')" "\<not> containsText ''PRIVATE KEY'' ''pem''"
  "rl_verify demoRecordLib ''pem'' payload (''signed'' @ payload)"
  by (simp_all add: demoRecordLib_def isPrefixOf_def)

lemma demo_current: "currentAt demoRecordLib (Some 1) demoPolicyRecord"
  by (simp add: currentAt_def dateOf_def demoRecordLib_def demoPolicyRecord_def)

theorem signed_record_verifies_witness:
  "verifyTurnkeySignedPolicyRecord demoRecordLib ''pem'' (Some 1) (signedValue demoSigned) = Inr demoPolicyRecord"
  using signed_record_verifies [OF demo_signs demo_library(1) demo_library(2) demo_library(3), of "Some 1"] demo_current
  by (simp add: demoSigned_def)

lemma demo_authenticated: "authenticateRecord demoRecordLib ''pem'' (signedValue demoSigned) = Inr demoPolicyRecord"
proof -
  have e: "exactRecord (signedValue demoSigned) [''version'', ''algorithm'', ''keyId'', ''recordDigest'', ''record'', ''signature''] code = Inr ()" for code
    by (simp add: fld_signedValue)
  have pub: "asPublicKey demoRecordLib ''pem'' = Inr ''pem''" using demo_library(1,2) by (simp add: asPublicKey_def)
  have sha: "pl_sha256 (rl_proof demoRecordLib) = (\<lambda>s. replicate 64 (CHR ''e''))" by (simp add: demoRecordLib_def demoProofLib_def)
  show ?thesis
    unfolding authenticateRecord_def Let_def e using demo_record_well demo_library(3)
    by (simp add: pub turnkeyPolicyApproverKeyId_def fld_signedValue sha demoSigned_def record_back digest_of_record payload_of_record)
qed

definition demoCatalog :: jsval where
  "demoCatalog = JObj [(''version'', JNum (jint 1)), (''context'', JStr ''mintbot.turnkey-policy-catalog/v1''),
     (''records'', JArr [signedValue demoSigned])]"

theorem catalog_is_owner_signed_witness:
  "verifyTurnkeySignedPolicyCatalog demoRecordLib ''pem'' (Some 1) demoCatalog = Inr [demoPolicyRecord] \<and>
   (\<exists>item. ownerSigned demoRecordLib ''pem'' item demoPolicyRecord)"
proof
  have e: "exactRecord demoCatalog [''version'', ''context'', ''records''] code = Inr ()" for code
    by (simp add: demoCatalog_def exactKeys_def)
  show v: "verifyTurnkeySignedPolicyCatalog demoRecordLib ''pem'' (Some 1) demoCatalog = Inr [demoPolicyRecord]"
    unfolding verifyTurnkeySignedPolicyCatalog_def authenticateCatalog_def Let_def e
    using demo_record_well demo_current
    by (simp add: demoCatalog_def demo_authenticated digest_of_record)
  show "\<exists>item. ownerSigned demoRecordLib ''pem'' item demoPolicyRecord"
    using catalog_is_owner_signed [OF v, of demoPolicyRecord] by auto
qed

end
