(* ===== verification/TurnkeySigner.thy ===== *)
theory TurnkeySigner
  imports TurnkeyRecord
begin

text \<open>
  The signer over the custody provider (\<^verbatim>\<open>packages/engine/src/turnkey-signer.ts\<close>) and the bundle from which
  it may be configured (\<^verbatim>\<open>validateTurnkeyPolicyBundle\<close> of \<^verbatim>\<open>packages/engine/src/turnkey-bundle.ts\<close>):
  the wallet map, the choice of the policy record, the construction of the signer and the signing of an
  intent with every check before and after the provider's call.

  \<^item> \<open>SignerEnv\<close> holds what signing calls on a world of type \<open>'s\<close>: the clock, the authority checks, the
    readiness check of the intent, the provider, and the serialisation, parsing and recovery of viem. A call
    returns a result and moves the world.
  \<^item> Reading and parsing the secret files is not modelled: \<open>resolveSigner\<close> starts from their contents.
  \<^item> The fields of a signer do not change while a call runs, except that \<^verbatim>\<open>zeroize\<close> drops the client and the
    wallets, which a running call has already taken.
\<close>

section \<open>Wallet map and file access\<close>

record TurnkeyWalletMap =
  wm_policyRecordDigest :: jsval
  wm_wallets :: "TurnkeyWalletReference list"

definition mapWallet :: "nat \<Rightarrow> jsval \<Rightarrow> tkError + TurnkeyWalletReference" where
  "mapWallet position v =
     (case (fld v ''index'', fld v ''address'', fld v ''signWith'') of
        (JNum x, JStr addr, JStr signWith) \<Rightarrow>
          if x = jint (int position) \<and> isSafeInteger x \<and> validAddress addr \<and> signWith \<noteq> []
          then Inr \<lparr>tw_index = int position, tw_address = addr, tw_signWith = signWith\<rparr>
          else Inl ''TURNKEY_WALLET_MAP_INVALID''
      | _ \<Rightarrow> Inl ''TURNKEY_WALLET_MAP_INVALID'')"

text \<open>The loop over the wallets with the addresses and the keys seen so far.\<close>

fun noDuplicates :: "string list \<Rightarrow> string list \<Rightarrow> TurnkeyWalletReference list \<Rightarrow> bool" where
  "noDuplicates addresses keys [] = True"
| "noDuplicates addresses keys (w # ws) =
     (if toLowerCase (tw_address w) \<in> set addresses \<or> tw_signWith w \<in> set keys then False
      else noDuplicates (toLowerCase (tw_address w) # addresses) (tw_signWith w # keys) ws)"

definition recordDigestText :: "string \<Rightarrow> bool" where
  "recordDigestText s \<longleftrightarrow> take 7 s = ''sha256:'' \<and> hexDigest (drop 7 s)"

text \<open>The pattern of the digest is tested on its text, as for the kind of a family, and the value is kept as it is.\<close>

definition validateTurnkeyWalletMap :: "jsval \<Rightarrow> tkError + TurnkeyWalletMap" where
  "validateTurnkeyWalletMap v =
     (let invalid = ''TURNKEY_WALLET_MAP_INVALID''
      in case (fld v ''wallets'', kindText (fld v ''policyRecordDigest'')) of
           (JArr ws, Some digest) \<Rightarrow>
             bindR (ensure (fld v ''version'' = JNum (jint 2) \<and> ws \<noteq> [] \<and> recordDigestText digest \<and>
                 exactKeys v [''policyRecordDigest'', ''version'', ''wallets'']) invalid) (\<lambda>_.
             bindR (mapR (\<lambda>(i, w). mapWallet i w) (enumerate 0 ws)) (\<lambda>wallets.
             bindR (ensure (noDuplicates [] [] wallets) ''TURNKEY_WALLET_MAP_DUPLICATE'') (\<lambda>_.
               Inr \<lparr>wm_policyRecordDigest = fld v ''policyRecordDigest'', wm_wallets = wallets\<rparr>)))
         | _ \<Rightarrow> Inl invalid)"

text \<open>A mode is the number of its permission bits; \<^verbatim>\<open>0o037\<close> are the bits of group writing and of all others.\<close>

definition isSecureTurnkeyFileAccess :: "nat \<Rightarrow> int \<Rightarrow> int \<Rightarrow> int \<Rightarrow> int list \<Rightarrow> bool" where
  "isSecureTurnkeyFileAccess mode uid gid runtimeUid runtimeGroups =
     (let groupLimited = (mode mod 32 = 0); ownerOnly = (mode mod 64 = 0)
      in if uid = runtimeUid then ((runtimeUid = 0 \<and> groupLimited) \<or> ownerOnly) \<and> mode div 256 mod 2 = 1
         else uid = 0 \<and> gid \<in> set runtimeGroups \<and> groupLimited \<and> mode div 32 mod 2 = 1)"

section \<open>Choosing the policy record\<close>

record PolicySelection =
  ps_policyReference :: string
  ps_policyDigest :: hex
  ps_recordDigest :: string

definition turnkeyPolicySelection :: "RecordLib \<Rightarrow> (string \<Rightarrow> hex) \<Rightarrow> PolicyRecord \<Rightarrow> tkError + PolicySelection" where
  "turnkeyPolicySelection R keccakText r =
     bindR (canonicalPolicyDigest keccakText (policyValue (rc_enforcement r))) (\<lambda>d.
     bindR (turnkeyPolicyRef (ts_policyId (ast_scope (rc_enforcement r))) d) (\<lambda>ref.
     bindR (turnkeyPolicyRecordDigest R (recordValue r)) (\<lambda>digest.
       Inr \<lparr>ps_policyReference = ref, ps_policyDigest = d, ps_recordDigest = digest\<rparr>)))"

definition selectTurnkeyPolicyRecord ::
  "RecordLib \<Rightarrow> (string \<Rightarrow> hex) \<Rightarrow> PolicyRecord list \<Rightarrow> string \<Rightarrow> string option \<Rightarrow> tkError + PolicyRecord" where
  "selectTurnkeyPolicyRecord R keccakText records ref recordDigest =
     bindR (mapR (turnkeyPolicySelection R keccakText) records) (\<lambda>selections.
     case filter (\<lambda>(r, s). ps_policyReference s = ref \<and> (case recordDigest of None \<Rightarrow> True | Some d \<Rightarrow> ps_recordDigest s = d))
            (zip records selections) of
       [(r, _)] \<Rightarrow> Inr r
     | _ \<Rightarrow> Inl ''TURNKEY_POLICY_SELECTION_NOT_FOUND'')"

section \<open>The bundle\<close>

record PolicyBundle =
  pbd_active :: PolicyRecord
  pbd_approved :: "PolicyRecord list"
  pbd_walletMap :: TurnkeyWalletMap

text \<open>The validated parts of the bundle; the code returns the bundle itself.\<close>

definition validateTurnkeyPolicyBundle :: "RecordLib \<Rightarrow> string \<Rightarrow> int option \<Rightarrow> jsval \<Rightarrow> tkError + PolicyBundle" where
  "validateTurnkeyPolicyBundle R pem now v =
     bindR (ensure (isRecord v \<and> fld v ''version'' = JNum (jint 1) \<and> fld v ''context'' = JStr ''mintbot.turnkey-policy-bundle/v1'' \<and>
         exactKeys v [''activeRecord'', ''catalog'', ''context'', ''version'', ''walletMap'']) ''TURNKEY_POLICY_BUNDLE_INVALID'') (\<lambda>_.
     bindR (verifyTurnkeySignedPolicyRecord R pem now (fld v ''activeRecord'')) (\<lambda>active.
     bindR (verifyTurnkeySignedPolicyCatalog R pem now (fld v ''catalog'')) (\<lambda>approved.
     bindR (validateTurnkeyWalletMap (fld v ''walletMap'')) (\<lambda>wm.
     bindR (turnkeyPolicyRecordDigest R (recordValue active)) (\<lambda>digest.
     bindR (ensure (wm_policyRecordDigest wm = JStr digest \<and>
         list_ex (\<lambda>r. turnkeyPolicyRecordDigest R (recordValue r) = Inr digest) approved) ''TURNKEY_POLICY_BUNDLE_BINDING_INVALID'') (\<lambda>_.
     bindR (ensure (map (\<lambda>w. (tw_index w, toLowerCase (tw_address w), tw_signWith w)) (wm_wallets wm) =
         map (\<lambda>w. (rw_index w, rw_address w, rw_signWith w)) (rc_wallets active)) ''TURNKEY_POLICY_BUNDLE_BINDING_INVALID'') (\<lambda>_.
       Inr \<lparr>pbd_active = active, pbd_approved = approved, pbd_walletMap = wm\<rparr>)))))))"

section \<open>Constructing a signer\<close>

record SignerOptions =
  so_organizationId :: string
  so_environment :: TurnkeyEnvironment
  so_userId :: string
  so_wallets :: "TurnkeyWalletReference list"
  so_policyRecord :: jsval
  so_approved :: "jsval list option"
  so_generateAppProofs :: "bool option"

record TurnkeySigner =
  sg_connected :: bool
  sg_organizationId :: string
  sg_policyId :: string
  sg_policyDigest :: hex
  sg_policy :: TurnkeyPolicyAst
  sg_record :: PolicyRecord
  sg_approved :: "PolicyRecord list option"
  sg_recordDigest :: string
  sg_notBefore :: int
  sg_expiresAt :: int
  sg_wallets :: "TurnkeyWalletReference list"
  sg_generateAppProofs :: bool

definition newTurnkeySigner :: "RecordLib \<Rightarrow> (string \<Rightarrow> hex) \<Rightarrow> SignerOptions \<Rightarrow> tkError + TurnkeySigner" where
  "newTurnkeySigner R keccakText opts =
     bindR (ensure (so_organizationId opts \<noteq> []) ''TURNKEY_ORGANIZATION_REQUIRED'') (\<lambda>_.
     bindR (ensure (so_userId opts \<noteq> []) ''TURNKEY_PROVIDER_BINDING_REQUIRED'') (\<lambda>_.
     bindR (ensure (so_wallets opts \<noteq> []) ''TURNKEY_WALLET_MAP_EMPTY'') (\<lambda>_.
     bindR (validateTurnkeyCanonicalPolicyRecord R (so_policyRecord opts)) (\<lambda>r.
     let p = rc_enforcement r
     in bindR (canonicalPolicyDigest keccakText (policyValue p)) (\<lambda>d.
        bindR (ensure (rc_environment r = so_environment opts \<and> id_organizationId (rc_identity r) = so_organizationId opts \<and>
            id_userId (rc_identity r) = so_userId opts) ''TURNKEY_PROVIDER_BINDING_REQUIRED'') (\<lambda>_.
        bindR (validatePolicyBinding keccakText (policyValue p)
            \<lparr>pb_provider = ''turnkey'', pb_environment = so_environment opts, pb_organizationId = so_organizationId opts,
             pb_userId = so_userId opts, pb_policyId = ts_policyId (ast_scope p), pb_policyDigest = d\<rparr> (so_wallets opts)) (\<lambda>_.
        bindR (ensure (map (\<lambda>w. (rw_index w, rw_address w, rw_signWith w)) (rc_wallets r) =
            map (\<lambda>w. (tw_index w, toLowerCase (tw_address w), tw_signWith w)) (so_wallets opts)) ''TURNKEY_POLICY_RECORD_WALLET_MAP_MISMATCH'') (\<lambda>_.
        bindR (case so_approved opts of
                 None \<Rightarrow> Inr None
               | Some vs \<Rightarrow> bindR (mapR (validateTurnkeyCanonicalPolicyRecord R) vs) (\<lambda>rs. Inr (Some rs))) (\<lambda>approved.
        bindR (turnkeyPolicyRecordDigest R (recordValue r)) (\<lambda>digest.
          Inr \<lparr>sg_connected = True, sg_organizationId = so_organizationId opts, sg_policyId = ts_policyId (ast_scope p),
            sg_policyDigest = d, sg_policy = p, sg_record = r, sg_approved = approved, sg_recordDigest = digest,
            sg_notBefore = dateOf R (rc_issuedAt r), sg_expiresAt = dateOf R (rc_expiresAt r), sg_wallets = so_wallets opts,
            sg_generateAppProofs = (case so_generateAppProofs opts of None \<Rightarrow> True | Some b \<Rightarrow> b)\<rparr>))))))))))"

definition zeroizeSigner :: "TurnkeySigner \<Rightarrow> TurnkeySigner" where
  "zeroizeSigner sg = sg\<lparr>sg_connected := False, sg_wallets := []\<rparr>"

definition listSignerWallets :: "TurnkeySigner \<Rightarrow> tkError + (int \<times> address) list" where
  "listSignerWallets sg =
     (if sg_connected sg then Inr (map (\<lambda>w. (tw_index w, tw_address w)) (sg_wallets sg)) else Inl ''TURNKEY_SIGNER_ZEROIZED'')"

definition signerPolicyReference :: "TurnkeySigner \<Rightarrow> tkError + string" where
  "signerPolicyReference sg =
     (if sg_connected sg then turnkeyPolicyRef (sg_policyId sg) (sg_policyDigest sg) else Inl ''TURNKEY_SIGNER_ZEROIZED'')"

record SecretConfig =
  sf_organizationId :: string
  sf_environment :: TurnkeyEnvironment
  sf_userId :: string

text \<open>
  \<^verbatim>\<open>fromSecrets\<close> after its files are read: the signed record and the catalog, if one is configured, the wallet
  map, and the policy and the record that the caller asks for.
\<close>

definition chooseRecord ::
  "RecordLib \<Rightarrow> (string \<Rightarrow> hex) \<Rightarrow> PolicyRecord \<Rightarrow> string \<Rightarrow> PolicyRecord list option \<Rightarrow> string option \<Rightarrow> string option \<Rightarrow>
   tkError + PolicyRecord" where
  "chooseRecord R keccakText active activeDigest approved ref digest =
     (case approved of
        Some rs \<Rightarrow>
          bindR (ensure (list_ex (\<lambda>r. turnkeyPolicyRecordDigest R (recordValue r) = Inr activeDigest) rs)
            ''TURNKEY_PROVIDER_POLICY_CATALOG_ACTIVE_RECORD_MISSING'') (\<lambda>_.
          if truthy ref then selectTurnkeyPolicyRecord R keccakText rs (the ref) digest else Inr active)
      | None \<Rightarrow>
          bindR (if truthy ref
                 then bindR (turnkeyPolicySelection R keccakText active) (\<lambda>s. Inr (ps_policyReference s \<noteq> the ref))
                 else Inr False) (\<lambda>other.
          if other \<or> (digest \<noteq> None \<and> Some activeDigest \<noteq> digest)
          then Inl ''TURNKEY_POLICY_SELECTION_NOT_FOUND''
          else Inr active))"

definition resolveSigner ::
  "RecordLib \<Rightarrow> (string \<Rightarrow> hex) \<Rightarrow> string \<Rightarrow> int option \<Rightarrow> SecretConfig \<Rightarrow> jsval \<Rightarrow> jsval option \<Rightarrow> TurnkeyWalletMap \<Rightarrow>
   string option \<Rightarrow> string option \<Rightarrow> tkError + TurnkeySigner" where
  "resolveSigner R keccakText pem now cfg signedRecord catalog wm ref digest =
     bindR (ensure (\<not> (truthy ref \<and> \<not> truthy digest)) ''TURNKEY_POLICY_RECORD_DIGEST_REQUIRED'') (\<lambda>_.
     bindR (verifyTurnkeySignedPolicyRecord R pem now signedRecord) (\<lambda>active.
     bindR (turnkeyPolicyRecordDigest R (recordValue active)) (\<lambda>activeDigest.
     bindR (case catalog of None \<Rightarrow> Inr None
            | Some c \<Rightarrow> bindR (verifyTurnkeySignedPolicyCatalog R pem now c) (\<lambda>rs. Inr (Some rs))) (\<lambda>approved.
     bindR (chooseRecord R keccakText active activeDigest approved ref digest) (\<lambda>r.
     bindR (turnkeyPolicyRecordDigest R (recordValue r)) (\<lambda>chosen.
     bindR (ensure (digest = None \<or> digest = Some chosen) ''TURNKEY_POLICY_SELECTION_NOT_FOUND'') (\<lambda>_.
     bindR (ensure (case approved of
            None \<Rightarrow> JStr chosen = wm_policyRecordDigest wm
          | Some rs \<Rightarrow> list_ex (\<lambda>c. map_sum id JStr (turnkeyPolicyRecordDigest R (recordValue c)) = Inr (wm_policyRecordDigest wm)) rs)
        ''TURNKEY_POLICY_RECORD_DIGEST_MISMATCH'') (\<lambda>_.
       newTurnkeySigner R keccakText
         \<lparr>so_organizationId = sf_organizationId cfg, so_environment = sf_environment cfg, so_userId = sf_userId cfg, so_wallets = wm_wallets wm,
          so_policyRecord = recordValue r, so_approved = map_option (map recordValue) approved, so_generateAppProofs = None\<rparr>))))))))"

section \<open>Signing\<close>

record SignRequest =
  rq_signWith :: string
  rq_unsignedTransaction :: string
  rq_generateAppProofs :: bool

record ActivityIntent =
  ai_signWith :: "string option"
  ai_unsignedTransaction :: "string option"
  ai_type :: "string option"

record SigningActivity =
  ay_id :: string
  ay_organizationId :: string
  ay_status :: string
  ay_type :: string
  ay_fingerprint :: string
  ay_appProofs :: jsval
  ay_intent :: "ActivityIntent option"
  ay_signedTransaction :: jsval

record SignResponse =
  re_signedTransaction :: jsval
  re_activity :: "SigningActivity option"

record ParsedSigned =
  px_type :: string
  px_chainId :: "int option"
  px_nonce :: "int option"
  px_to :: "address option"
  px_value :: "wei option"
  px_data :: "hex option"
  px_gas :: "int option"
  px_maxFeePerGas :: "wei option"
  px_maxPriorityFeePerGas :: "wei option"
  px_accessList :: "TransactionAccessListItem list option"

record 's SignerEnv =
  se_lib :: ProofLib
  se_now :: "'s \<Rightarrow> int option"
  se_nowAt :: "'s \<Rightarrow> int \<Rightarrow> int"
  se_verifyAllowlist :: "(SigningIntent \<Rightarrow> ('s, tkError, unit) eff) option"
  se_verifyPublic :: "(SigningIntent \<Rightarrow> ('s, tkError, unit) eff) option"
  se_assertReady :: "('s, tkError, unit) eff"
  se_serialize :: "SigningIntent \<Rightarrow> tkError + string"
  se_sign :: "SignRequest \<Rightarrow> ('s, tkError, SignResponse) eff"
  se_parse :: "hex \<Rightarrow> ParsedSigned option"
  se_recover :: "hex \<Rightarrow> address option"

text \<open>An invalid clock reading is \<open>None\<close>.\<close>

definition policyCurrent :: "TurnkeySigner \<Rightarrow> int option \<Rightarrow> bool" where
  "policyCurrent sg now \<longleftrightarrow> (case now of None \<Rightarrow> False | Some t \<Rightarrow> sg_notBefore sg \<le> t \<and> t < sg_expiresAt sg)"

definition assertPolicyCurrent :: "'s SignerEnv \<Rightarrow> TurnkeySigner \<Rightarrow> ('s, tkError, unit) eff" where
  "assertPolicyCurrent E sg =
     bindS (getS (se_now E)) (\<lambda>t. ensureS (policyCurrent sg t) ''TURNKEY_POLICY_RECORD_NOT_CURRENT'')"

definition checkIntent :: "'s SignerEnv \<Rightarrow> TurnkeySigner \<Rightarrow> SigningIntent \<Rightarrow> string \<Rightarrow> ('s, tkError, unit) eff" where
  "checkIntent E sg i ref =
     bindS (getS (se_nowAt E)) (\<lambda>nowAt. liftS (validateTransactionIntent (se_lib E) nowAt i (policyValue (sg_policy sg)) ref))"

definition rehearsalShape :: "SigningIntent \<Rightarrow> bool" where
  "rehearsalShape i \<longleftrightarrow>
     ti_gasLimit i = 0 \<and> ti_value i = 0 \<and> ti_maxFeePerGas i = 0 \<and> ti_maxPriorityFeePerGas i = 0 \<and> ti_nonce i = MAX_SAFE_INTEGER \<and>
     (case ti_familyContext i of None \<Rightarrow> False | Some c \<Rightarrow> fc_nftContract c = zeroAddress \<and> fc_feeRecipient c = zeroAddress)"

text \<open>The readiness check of the intent, and everything that may have changed while it ran.\<close>

definition readyAgain :: "'s SignerEnv \<Rightarrow> TurnkeySigner \<Rightarrow> SigningIntent \<Rightarrow> string \<Rightarrow> ('s, tkError, unit) eff" where
  "readyAgain E sg i ref =
     bindS (se_assertReady E) (\<lambda>_. bindS (assertPolicyCurrent E sg) (\<lambda>_. checkIntent E sg i ref))"

definition publicStage :: "'s SignerEnv \<Rightarrow> TurnkeySigner \<Rightarrow> SigningIntent \<Rightarrow> string \<Rightarrow> bool \<Rightarrow> ('s, tkError, unit) eff" where
  "publicStage E sg i ref rehearsal =
     bindS (ensureS (truthy (ti_campaignId i) \<and> truthy (ti_runId i) \<and> ti_familyContext i \<noteq> None \<and> si_hasAssertReady i)
       ''TURNKEY_PUBLIC_AUTHORITY_REQUIRED'') (\<lambda>_.
     bindS (if rehearsal then ensureS (rehearsalShape i) ''TURNKEY_PUBLIC_REHEARSAL_UNSAFE''
            else case se_verifyPublic E of
                   None \<Rightarrow> throwS ''TURNKEY_PUBLIC_AUTHORITY_REQUIRED''
                 | Some verify \<Rightarrow>
                     bindS (ensureS (0 < ti_gasLimit i \<and> 0 < ti_maxFeePerGas i \<and>
                         fc_nftContract (the (ti_familyContext i)) \<noteq> zeroAddress) ''TURNKEY_PUBLIC_AUTHORITY_REQUIRED'') (\<lambda>_. verify i)) (\<lambda>_.
       readyAgain E sg i ref))"

definition allowlistStage :: "'s SignerEnv \<Rightarrow> TurnkeySigner \<Rightarrow> SigningIntent \<Rightarrow> string \<Rightarrow> bool \<Rightarrow> ('s, tkError, unit) eff" where
  "allowlistStage E sg i ref rehearsal =
     bindS (ensureS (ti_familyContext i \<noteq> None \<and> si_hasAssertReady i) ''TURNKEY_ALLOWLIST_AUTHORITY_REQUIRED'') (\<lambda>_.
     bindS (if rehearsal then ensureS (rehearsalShape i) ''TURNKEY_ALLOWLIST_REHEARSAL_UNSAFE''
            else case se_verifyAllowlist E of
                   None \<Rightarrow> throwS ''TURNKEY_ALLOWLIST_AUTHORITY_REQUIRED''
                 | Some verify \<Rightarrow> verify i) (\<lambda>_.
       readyAgain E sg i ref))"

definition familyKind :: "TurnkeySigner \<Rightarrow> jsval option" where
  "familyKind sg = map_option tf_kind (ast_family (sg_policy sg))"

definition familyStage :: "'s SignerEnv \<Rightarrow> TurnkeySigner \<Rightarrow> SigningIntent \<Rightarrow> string \<Rightarrow> bool \<Rightarrow> ('s, tkError, unit) eff" where
  "familyStage E sg i ref rehearsal =
     bindS (if familyKind sg = Some (JStr KIND_FREE_PUBLIC) then publicStage E sg i ref rehearsal else returnS ()) (\<lambda>_.
       if familyKind sg = Some (JStr KIND_FREE_ALLOWLIST) then allowlistStage E sg i ref rehearsal else returnS ())"

text \<open>The signed bytes of a response, with the prefix that the provider may leave out.\<close>

definition prefixed :: "jsval \<Rightarrow> hex option" where
  "prefixed v = (case v of JStr s \<Rightarrow> Some (if take 2 s = ''0x'' then s else ''0x'' @ s) | _ \<Rightarrow> None)"

definition signedBytes :: "SignResponse \<Rightarrow> tkError + hex" where
  "signedBytes r =
     (case prefixed (re_signedTransaction r) of
        None \<Rightarrow> Inl ''TURNKEY_SIGNED_TRANSACTION_INVALID''
      | Some s \<Rightarrow> if drop 2 s \<noteq> [] \<and> all_hex (drop 2 s) then Inr s else Inl ''TURNKEY_SIGNED_TRANSACTION_INVALID'')"

definition arrayOrMissing :: "jsval \<Rightarrow> bool" where
  "arrayOrMissing v \<longleftrightarrow> (case v of JUndef \<Rightarrow> True | JArr _ \<Rightarrow> True | _ \<Rightarrow> False)"

text \<open>The activity that the provider reports is the request that was sent.\<close>

definition activityMatches :: "TurnkeySigner \<Rightarrow> TurnkeyWalletReference \<Rightarrow> string \<Rightarrow> hex \<Rightarrow> SigningActivity \<Rightarrow> bool" where
  "activityMatches sg w unsigned signed a \<longleftrightarrow>
     ay_organizationId a = sg_organizationId sg \<and> ay_status a = ''ACTIVITY_STATUS_COMPLETED'' \<and>
     ay_type a = ''ACTIVITY_TYPE_SIGN_TRANSACTION_V2'' \<and> ay_id a \<noteq> [] \<and> ay_fingerprint a \<noteq> [] \<and>
     (case ay_intent a of
        None \<Rightarrow> False
      | Some t \<Rightarrow> ai_signWith t = Some (tw_signWith w) \<and> ai_unsignedTransaction t = Some unsigned \<and>
          ai_type t = Some ''TRANSACTION_TYPE_ETHEREUM'') \<and>
     map_option toLowerCase (prefixed (ay_signedTransaction a)) = Some (toLowerCase signed) \<and> arrayOrMissing (ay_appProofs a)"

definition normalizeData :: "hex option \<Rightarrow> tkError + string" where
  "normalizeData v = normalizeHexBytes (case v of None \<Rightarrow> ''0x'' | Some d \<Rightarrow> d)"

definition sameOptionalAddress :: "address option \<Rightarrow> address \<Rightarrow> bool" where
  "sameOptionalAddress left right \<longleftrightarrow> map_option toLowerCase left = Some (toLowerCase right)"

definition weiOrZero :: "int option \<Rightarrow> int" where
  "weiOrZero v = (case v of None \<Rightarrow> 0 | Some n \<Rightarrow> n)"

definition sameOk :: "tkError + 'a \<Rightarrow> tkError + 'a \<Rightarrow> bool" where
  "sameOk a b \<longleftrightarrow> is_ok a \<and> a = b"

text \<open>The bytes that came back are the transaction that was asked for, signed by the wallet.\<close>

definition transactionMatches :: "SigningIntent \<Rightarrow> ParsedSigned \<Rightarrow> bool" where
  "transactionMatches i tx \<longleftrightarrow>
     px_type tx = ''eip1559'' \<and> px_chainId tx = Some (policyChainNumber (ti_chainId i)) \<and> px_nonce tx = Some (ti_nonce i) \<and>
     sameOptionalAddress (px_to tx) (ti_to i) \<and> weiOrZero (px_value tx) = ti_value i \<and>
     sameOk (normalizeData (px_data tx)) (normalizeData (Some (ti_data i))) \<and> weiOrZero (px_gas tx) = ti_gasLimit i \<and>
     weiOrZero (px_maxFeePerGas tx) = ti_maxFeePerGas i \<and> weiOrZero (px_maxPriorityFeePerGas tx) = ti_maxPriorityFeePerGas i"

record SigningEvidence =
  sv_activityId :: string
  sv_activityFingerprint :: string
  sv_appProofCount :: nat

definition proofCount :: "jsval \<Rightarrow> nat" where
  "proofCount v = (case v of JArr vs \<Rightarrow> length vs | _ \<Rightarrow> 0)"

definition checkBoundary :: "'s SignerEnv \<Rightarrow> TurnkeyWalletReference \<Rightarrow> SigningIntent \<Rightarrow> hex \<Rightarrow> tkError + unit" where
  "checkBoundary E w i signed =
     (case (se_parse E signed, se_recover E signed) of
        (Some tx, Some recovered) \<Rightarrow>
          ensure (transactionMatches i tx \<and> sameOk (normalizeAccessList (px_accessList tx)) (normalizeAccessList (ti_accessList i)) \<and>
            sameOptionalAddress (Some recovered) (tw_address w)) ''TURNKEY_SIGNED_TRANSACTION_BOUNDARY_INVALID''
      | _ \<Rightarrow> Inl ''TURNKEY_SIGNED_TRANSACTION_INVALID'')"

definition acceptResponse ::
  "'s SignerEnv \<Rightarrow> TurnkeySigner \<Rightarrow> TurnkeyWalletReference \<Rightarrow> SigningIntent \<Rightarrow> string \<Rightarrow> SignResponse \<Rightarrow> tkError + hex \<times> SigningEvidence" where
  "acceptResponse E sg w i unsigned r =
     bindR (signedBytes r) (\<lambda>signed.
     case re_activity r of
       None \<Rightarrow> Inl ''TURNKEY_SIGNING_ACTIVITY_INVALID''
     | Some a \<Rightarrow>
         bindR (ensure (activityMatches sg w unsigned signed a) ''TURNKEY_SIGNING_ACTIVITY_INVALID'') (\<lambda>_.
         bindR (checkBoundary E w i signed) (\<lambda>_.
           Inr (signed, \<lparr>sv_activityId = ay_id a, sv_activityFingerprint = ay_fingerprint a,
             sv_appProofCount = proofCount (ay_appProofs a)\<rparr>))))"

definition signWithEvidence ::
  "'s SignerEnv \<Rightarrow> TurnkeySigner \<Rightarrow> int \<Rightarrow> SigningIntent \<Rightarrow> bool \<Rightarrow> ('s, tkError, hex \<times> SigningEvidence) eff" where
  "signWithEvidence E sg walletIndex i rehearsal =
     bindS (assertPolicyCurrent E sg) (\<lambda>_.
     bindS (ensureS (sg_connected sg) ''TURNKEY_SIGNER_ZEROIZED'') (\<lambda>_.
     case find (\<lambda>w. tw_index w = walletIndex) (sg_wallets sg) of
       None \<Rightarrow> throwS ''TURNKEY_WALLET_NOT_FOUND''
     | Some w \<Rightarrow>
         bindS (ensureS (toLowerCase (ti_from i) = toLowerCase (tw_address w)) ''TURNKEY_SIGNER_WALLET_MISMATCH'') (\<lambda>_.
         bindS (liftS (turnkeyPolicyRef (sg_policyId sg) (sg_policyDigest sg))) (\<lambda>ref.
         bindS (ensureS (ti_policyRef i = Some ref) ''TURNKEY_POLICY_REFERENCE_MISMATCH'') (\<lambda>_.
         bindS (checkIntent E sg i ref) (\<lambda>_.
         bindS (familyStage E sg i ref rehearsal) (\<lambda>_.
         bindS (liftS (se_serialize E i)) (\<lambda>unsigned.
         bindS (catchS (se_sign E \<lparr>rq_signWith = tw_signWith w, rq_unsignedTransaction = unsigned, rq_generateAppProofs = sg_generateAppProofs sg\<rparr>)
             (\<lambda>_. throwS ''TURNKEY_SIGN_TRANSACTION_FAILED'')) (\<lambda>r.
           liftS (acceptResponse E sg w i unsigned r))))))))))"

definition signTransactionWithEvidence ::
  "'s SignerEnv \<Rightarrow> TurnkeySigner \<Rightarrow> int \<Rightarrow> SigningIntent \<Rightarrow> ('s, tkError, hex \<times> SigningEvidence) eff" where
  "signTransactionWithEvidence E sg walletIndex i = signWithEvidence E sg walletIndex i False"

definition signTurnkeyTransaction :: "'s SignerEnv \<Rightarrow> TurnkeySigner \<Rightarrow> int \<Rightarrow> SigningIntent \<Rightarrow> ('s, tkError, hex) eff" where
  "signTurnkeyTransaction E sg walletIndex i =
     bindS (signTransactionWithEvidence E sg walletIndex i) (\<lambda>(signed, _). returnS signed)"

section \<open>Rehearsals\<close>

text \<open>
  A rehearsal signs an intent that cannot be broadcast (no gas, the largest nonce, no real collection) and
  returns only the hash of the signed bytes.
\<close>

definition rehearsalIntent :: "TurnkeySigner \<Rightarrow> TurnkeyWalletReference \<Rightarrow> string \<Rightarrow> hex \<Rightarrow> VerifiedWalletProof option \<Rightarrow> SigningIntent" where
  "rehearsalIntent sg w ref data walletProof =
     \<lparr>ti_chainId = tt_chainId (ast_transaction (sg_policy sg)), ti_from = tw_address w, ti_to = tt_to (ast_transaction (sg_policy sg)),
      ti_value = 0, ti_data = data, ti_nonce = MAX_SAFE_INTEGER, ti_gasLimit = 0, ti_maxFeePerGas = 0, ti_maxPriorityFeePerGas = 0,
      ti_accessList = Some [], ti_campaignId = Some ''rehearsal'', ti_runId = Some ''rehearsal'', ti_policyRef = Some ref,
      ti_evidenceRef = None, ti_familyContext = Some \<lparr>fc_nftContract = zeroAddress, fc_feeRecipient = zeroAddress\<rparr>,
      si_allowlistProof = walletProof, si_hasAssertReady = True\<rparr>"

definition rehearsalParams :: MintParams where
  "rehearsalParams = \<lparr>mp_mintPrice = 0, mp_maxTotalMintableByWallet = 1, mp_startTime = 1, mp_endTime = 7258118400, mp_dropStageIndex = 1,
     mp_maxTokenSupplyForStage = 1, mp_feeBps = 0, mp_restrictFeeRecipients = False\<rparr>"

text \<open>The root is the wallet's own leaf, as the text of a 32-byte hash.\<close>

definition rehearsalProof :: "TurnkeySigner \<Rightarrow> TurnkeyWalletReference \<Rightarrow> hex \<Rightarrow> string \<Rightarrow> VerifiedWalletProof" where
  "rehearsalProof sg w leaf observedAt =
     (let t = ast_transaction (sg_policy sg); zeroHash = replicate 64 (CHR ''0'')
      in \<lparr>vw_wallet = tw_address w,
          vw_authority = \<lparr>as_chainId = tt_chainId t, as_nftContract = zeroAddress, as_seaDrop = tt_to t, as_root = leaf, as_blockNumber = 0,
            as_blockHash = ''0x'' @ zeroHash, as_observedAt = observedAt, as_feeRecipient = zeroAddress\<rparr>,
          vw_source = \<lparr>src_chainId = tt_chainId t, src_nftContract = zeroAddress, src_stageIndex = ''1'', src_sourceId = ''rehearsal'',
            src_contentDigest = ''sha256:'' @ zeroHash\<rparr>,
          vw_mintParams = rehearsalParams, vw_proof = []\<rparr>)"

record RehearsalLib =
  rh_leafText :: "address \<Rightarrow> MintParams \<Rightarrow> hex"
  rh_isoText :: "int option \<Rightarrow> tkError + string"
  rh_encodePublic :: hex
  rh_keccak :: "hex \<Rightarrow> hex"

definition rehearsalResult :: "RehearsalLib \<Rightarrow> hex \<times> SigningEvidence \<Rightarrow> hex \<times> SigningEvidence" where
  "rehearsalResult H r = (rh_keccak H (fst r), snd r)"

definition rehearseFreeAllowlist ::
  "RehearsalLib \<Rightarrow> 's SignerEnv \<Rightarrow> TurnkeySigner \<Rightarrow> int \<Rightarrow> ('s, tkError, hex \<times> SigningEvidence) eff" where
  "rehearseFreeAllowlist H E sg walletIndex =
     bindS (ensureS (familyKind sg = Some (JStr KIND_FREE_ALLOWLIST)) ''TURNKEY_ALLOWLIST_REHEARSAL_POLICY_REQUIRED'') (\<lambda>_.
     case find (\<lambda>w. tw_index w = walletIndex) (sg_wallets sg) of
       None \<Rightarrow> throwS ''TURNKEY_WALLET_NOT_FOUND''
     | Some w \<Rightarrow>
         bindS (se_assertReady E) (\<lambda>_.
         bindS (getS (se_now E)) (\<lambda>t.
         bindS (liftS (rh_isoText H t)) (\<lambda>observedAt.
         let p = rehearsalProof sg w (rh_leafText H (tw_address w) rehearsalParams) observedAt
         in bindS (getS (\<lambda>s. buildAllowlistMint (se_lib E) (se_nowAt E s 1) p (tw_address w) 1)) (\<lambda>built.
            bindS (ensureS (is_ok built) ''ALLOWLIST_WALLET_PROOF_INVALID'') (\<lambda>_.
            bindS (liftS (signerPolicyReference sg)) (\<lambda>ref.
            bindS (signWithEvidence E sg walletIndex (rehearsalIntent sg w ref (km_data (projr built)) (Some p)) True) (\<lambda>r.
              returnS (rehearsalResult H r)))))))))"

definition rehearseFreePublic ::
  "RehearsalLib \<Rightarrow> 's SignerEnv \<Rightarrow> TurnkeySigner \<Rightarrow> int \<Rightarrow> ('s, tkError, hex \<times> SigningEvidence) eff" where
  "rehearseFreePublic H E sg walletIndex =
     bindS (ensureS (familyKind sg = Some (JStr KIND_FREE_PUBLIC)) ''TURNKEY_PUBLIC_REHEARSAL_POLICY_REQUIRED'') (\<lambda>_.
     case find (\<lambda>w. tw_index w = walletIndex) (sg_wallets sg) of
       None \<Rightarrow> throwS ''TURNKEY_WALLET_NOT_FOUND''
     | Some w \<Rightarrow>
         bindS (se_assertReady E) (\<lambda>_.
         bindS (liftS (signerPolicyReference sg)) (\<lambda>ref.
         bindS (signWithEvidence E sg walletIndex (rehearsalIntent sg w ref (rh_encodePublic H) None) True) (\<lambda>r.
           returnS (rehearsalResult H r)))))"

section \<open>Health\<close>

record 's ProviderReads =
  rd_whoami :: "('s, tkError, jsval) eff"
  rd_organization :: "('s, tkError, jsval) eff"
  rd_policies :: "('s, tkError, jsval list) eff"
  rd_privateKeys :: "('s, tkError, jsval list) eff"

record HealthReport =
  hr_organizationId :: string
  hr_walletCount :: nat
  hr_policyId :: string
  hr_policyDigest :: hex
  hr_policyRecordDigest :: string

text \<open>The four reads run concurrently; here they are made one after the other.\<close>

definition probeSigner :: "RecordLib \<Rightarrow> 's SignerEnv \<Rightarrow> 's ProviderReads \<Rightarrow> TurnkeySigner \<Rightarrow> ('s, tkError, HealthReport) eff" where
  "probeSigner R E reads sg =
     bindS (assertPolicyCurrent E sg) (\<lambda>_.
     bindS (ensureS (sg_connected sg) ''TURNKEY_SIGNER_ZEROIZED'') (\<lambda>_.
     bindS (rd_whoami reads) (\<lambda>whoami.
     bindS (rd_organization reads) (\<lambda>organization.
     bindS (rd_policies reads) (\<lambda>policies.
     bindS (rd_privateKeys reads) (\<lambda>privateKeys.
     bindS (liftS (validateTurnkeyActualProviderState R (recordValue (sg_record sg))
         \<lparr>st_whoami = whoami, st_organization = organization, st_policies = policies, st_privateKeys = privateKeys\<rparr>
         (map_option (map recordValue) (sg_approved sg)))) (\<lambda>_.
       returnS \<lparr>hr_organizationId = sg_organizationId sg, hr_walletCount = length (sg_wallets sg), hr_policyId = sg_policyId sg,
         hr_policyDigest = sg_policyDigest sg, hr_policyRecordDigest = sg_recordDigest sg\<rparr>)))))))"

section \<open>What a signature establishes\<close>

lemma checkIntent_ok:
  "checkIntent E sg i ref s = (Inr (), s') \<Longrightarrow>
   validateTransactionIntent (se_lib E) (se_nowAt E s) i (policyValue (sg_policy sg)) ref = Inr ()"
  by (auto simp: checkIntent_def eff_simps)

lemma assertPolicyCurrent_ok: "assertPolicyCurrent E sg s = (Inr (), s') \<longleftrightarrow> policyCurrent sg (se_now E s) \<and> s' = s"
  by (auto simp: assertPolicyCurrent_def eff_simps split: if_splits)

text \<open>
  The steps before the request to the provider, for an intent that was signed: the check of the policy's
  period, of the intent, and for a free family the authority check and a second check of both.
\<close>

definition authorised :: "'s SignerEnv \<Rightarrow> TurnkeySigner \<Rightarrow> SigningIntent \<Rightarrow> string \<Rightarrow> bool" where
  "authorised E sg i ref \<longleftrightarrow>
     (\<exists>s. policyCurrent sg (se_now E s) \<and>
        validateTransactionIntent (se_lib E) (se_nowAt E s) i (policyValue (sg_policy sg)) ref = Inr ())"

lemma readyAgain_ok: "readyAgain E sg i ref s = (Inr (), s') \<Longrightarrow> authorised E sg i ref"
  by (auto simp: readyAgain_def eff_simps assertPolicyCurrent_ok authorised_def dest!: checkIntent_ok)

definition authorityAnswered :: "'s SignerEnv \<Rightarrow> TurnkeySigner \<Rightarrow> SigningIntent \<Rightarrow> bool" where
  "authorityAnswered E sg i \<longleftrightarrow>
     (familyKind sg = Some (JStr KIND_FREE_PUBLIC) \<longrightarrow> (\<exists>verify s s'. se_verifyPublic E = Some verify \<and> verify i s = (Inr (), s'))) \<and>
     (familyKind sg = Some (JStr KIND_FREE_ALLOWLIST) \<longrightarrow> (\<exists>verify s s'. se_verifyAllowlist E = Some verify \<and> verify i s = (Inr (), s')))"

lemma publicStage_ok:
  "publicStage E sg i ref rehearsal s = (Inr (), s') \<Longrightarrow>
   (if rehearsal then rehearsalShape i else \<exists>verify s s'. se_verifyPublic E = Some verify \<and> verify i s = (Inr (), s'))"
  by (auto simp: publicStage_def eff_simps split: if_splits option.splits)

lemma allowlistStage_ok:
  "allowlistStage E sg i ref rehearsal s = (Inr (), s') \<Longrightarrow>
   (if rehearsal then rehearsalShape i else \<exists>verify s s'. se_verifyAllowlist E = Some verify \<and> verify i s = (Inr (), s'))"
  by (auto simp: allowlistStage_def eff_simps split: if_splits option.splits)

lemma familyStage_ok:
  assumes "familyStage E sg i ref rehearsal s = (Inr (), s')"
  shows "rehearsal \<or> authorityAnswered E sg i"
    and "rehearsal \<Longrightarrow> familyKind sg \<in> {Some (JStr KIND_FREE_PUBLIC), Some (JStr KIND_FREE_ALLOWLIST)} \<Longrightarrow> rehearsalShape i"
proof -
  have ne: "KIND_FREE_PUBLIC \<noteq> KIND_FREE_ALLOWLIST" by (simp add: KIND_FREE_PUBLIC_def KIND_FREE_ALLOWLIST_def)
  show "rehearsal \<or> authorityAnswered E sg i"
    "rehearsal \<Longrightarrow> familyKind sg \<in> {Some (JStr KIND_FREE_PUBLIC), Some (JStr KIND_FREE_ALLOWLIST)} \<Longrightarrow> rehearsalShape i"
    using assms ne
    by (fastforce simp: familyStage_def authorityAnswered_def eff_simps dest!: publicStage_ok allowlistStage_ok split: if_splits)+
qed

lemma signed_steps:
  assumes "signWithEvidence E sg walletIndex i rehearsal s = (Inr (signed, ev), s')"
  obtains w ref unsigned r s1 s2 where "find (\<lambda>w. tw_index w = walletIndex) (sg_wallets sg) = Some w" "sg_connected sg"
    "toLowerCase (ti_from i) = toLowerCase (tw_address w)" "ti_policyRef i = Some ref" "authorised E sg i ref"
    "familyStage E sg i ref rehearsal s1 = (Inr (), s2)" "acceptResponse E sg w i unsigned r = Inr (signed, ev)"
proof -
  from assms obtain w where w: "find (\<lambda>w. tw_index w = walletIndex) (sg_wallets sg) = Some w"
    by (auto simp: signWithEvidence_def eff_simps split: option.splits)
  from assms w show ?thesis
    by (auto simp: signWithEvidence_def eff_simps assertPolicyCurrent_ok authorised_def split: if_splits dest!: checkIntent_ok
        intro!: that)
qed

lemma acceptResponse_ok:
  assumes "acceptResponse E sg w i unsigned r = Inr (signed, ev)"
  obtains tx recovered where "se_parse E signed = Some tx" "se_recover E signed = Some recovered" "transactionMatches i tx"
    "toLowerCase recovered = toLowerCase (tw_address w)"
proof -
  from assms have "checkBoundary E w i signed = Inr ()"
    by (auto simp: acceptResponse_def bindR_eq_Inr split: option.split_asm)
  then show ?thesis by (auto simp: checkBoundary_def sameOptionalAddress_def intro: that split: option.split_asm)
qed


lemma rehearsal_shape_signed:
  assumes "signWithEvidence E sg walletIndex i True s = (Inr (signed, ev), s')"
    and "familyKind sg \<in> {Some (JStr KIND_FREE_PUBLIC), Some (JStr KIND_FREE_ALLOWLIST)}"
  shows "\<exists>tx. se_parse E signed = Some tx \<and> weiOrZero (px_gas tx) = 0 \<and> weiOrZero (px_maxFeePerGas tx) = 0 \<and> weiOrZero (px_value tx) = 0 \<and>
    px_nonce tx = Some MAX_SAFE_INTEGER"
proof -
  from assms(1) obtain w ref unsigned r s1 s2 where stage: "familyStage E sg i ref True s1 = (Inr (), s2)"
    and r: "acceptResponse E sg w i unsigned r = Inr (signed, ev)" by (rule signed_steps)
  from familyStage_ok(2) [OF stage] assms(2) have "rehearsalShape i" by simp
  moreover from r obtain tx where "se_parse E signed = Some tx" "transactionMatches i tx" by (rule acceptResponse_ok)
  ultimately show ?thesis by (auto simp: rehearsalShape_def transactionMatches_def)
qed

text \<open>
  A rehearsal never produces a transaction that a chain could execute: what was signed has no gas, no
  fee, no value and the largest nonce, and the caller receives its hash, not its bytes.
\<close>

theorem rehearsal_cannot_be_mined:
  assumes "rehearseFreeAllowlist H E sg walletIndex s = (Inr (h, ev), s') \<or> rehearseFreePublic H E sg walletIndex s = (Inr (h, ev), s')"
  shows "\<exists>signed tx. h = rh_keccak H signed \<and> se_parse E signed = Some tx \<and> weiOrZero (px_gas tx) = 0 \<and> weiOrZero (px_maxFeePerGas tx) = 0 \<and>
    weiOrZero (px_value tx) = 0 \<and> px_nonce tx = Some MAX_SAFE_INTEGER"
proof -
  from assms obtain i signed s1 where sig: "signWithEvidence E sg walletIndex i True s1 = (Inr (signed, ev), s')" and h: "h = rh_keccak H signed"
    and kind: "familyKind sg \<in> {Some (JStr KIND_FREE_PUBLIC), Some (JStr KIND_FREE_ALLOWLIST)}"
    by (auto simp: rehearseFreeAllowlist_def rehearseFreePublic_def eff_simps Let_def rehearsalResult_def split: if_splits option.splits)
  from rehearsal_shape_signed [OF sig kind] h show ?thesis by blast
qed

text \<open>
  After \<^verbatim>\<open>zeroize\<close> the signer makes no call any more: signing and probing fail without a step of the
  world, and the wallets and the reference are refused.
\<close>

theorem zeroized_signer_refuses:
  "\<exists>e. signWithEvidence E (zeroizeSigner sg) walletIndex i rehearsal s = (Inl e, s) \<and>
     probeSigner R E reads (zeroizeSigner sg) s = (Inl e, s) \<and> e \<in> {''TURNKEY_POLICY_RECORD_NOT_CURRENT'', ''TURNKEY_SIGNER_ZEROIZED''} \<and>
     listSignerWallets (zeroizeSigner sg) = Inl ''TURNKEY_SIGNER_ZEROIZED'' \<and>
     signerPolicyReference (zeroizeSigner sg) = Inl ''TURNKEY_SIGNER_ZEROIZED''"
  by (cases "policyCurrent (zeroizeSigner sg) (se_now E s)")
    (simp_all add: signWithEvidence_def probeSigner_def assertPolicyCurrent_def zeroizeSigner_def listSignerWallets_def
      signerPolicyReference_def bindS_def)

section \<open>A signer configured from its secrets\<close>

lemma mapR_zip: "mapR f vs = Inr xs \<Longrightarrow> (v, x) \<in> set (zip vs xs) \<Longrightarrow> f v = Inr x"
  by (induction vs arbitrary: xs) (auto simp: bindR_eq_Inr)

lemma selected_record:
  assumes "selectTurnkeyPolicyRecord R K rs ref d = Inr r"
  shows "r \<in> set rs" "\<exists>s. turnkeyPolicySelection R K r = Inr s \<and> ps_policyReference s = ref"
proof -
  let ?P = "\<lambda>(r :: PolicyRecord, s :: PolicySelection). ps_policyReference s = ref \<and> (case d of None \<Rightarrow> True | Some d \<Rightarrow> ps_recordDigest s = d)"
  from assms obtain sels where sels: "mapR (turnkeyPolicySelection R K) rs = Inr sels" and "(case filter ?P (zip rs sels) of [(r, _)] \<Rightarrow> Inr r | _ \<Rightarrow> Inl ''TURNKEY_POLICY_SELECTION_NOT_FOUND'') = Inr r"
    unfolding selectTurnkeyPolicyRecord_def bindR_eq_Inr by blast
  then obtain s where "filter ?P (zip rs sels) = [(r, s)]" by (auto split: list.split_asm prod.split_asm)
  then have "(r, s) \<in> set (filter ?P (zip rs sels))" by (simp only: list.set_intros(1))
  then have s: "(r, s) \<in> set (zip rs sels)" "ps_policyReference s = ref" by auto
  then show "r \<in> set rs" by (metis set_zip_leftD)
  from mapR_zip [OF sels s(1)] s(2) show "\<exists>s. turnkeyPolicySelection R K r = Inr s \<and> ps_policyReference s = ref" by blast
qed

lemma new_signer:
  assumes "newTurnkeySigner R K opts = Inr sg" and "so_policyRecord opts = recordValue r" and "wellRecord R r"
  shows "sg_record sg = r" "sg_policy sg = rc_enforcement r" "sg_notBefore sg = dateOf R (rc_issuedAt r)"
    "sg_expiresAt sg = dateOf R (rc_expiresAt r)" "sg_wallets sg = so_wallets opts"
    "map (\<lambda>w. (rw_index w, rw_address w, rw_signWith w)) (rc_wallets r) =
     map (\<lambda>w. (tw_index w, toLowerCase (tw_address w), tw_signWith w)) (sg_wallets sg)"
    "turnkeyPolicyRecordDigest R (recordValue r) = Inr (sg_recordDigest sg)"
    "turnkeyPolicySelection R K r = Inr s \<Longrightarrow> signerPolicyReference sg = Inr (ps_policyReference s)"
  using assms by (auto simp: signerPolicyReference_def turnkeyPolicySelection_def newTurnkeySigner_def Let_def bindR_eq_Inr record_back split: option.splits)

lemma chosen_record:
  "chooseRecord R K active activeDigest approved ref digest = Inr r \<Longrightarrow> r = active \<or> (\<exists>rs. approved = Some rs \<and> r \<in> set rs)"
  by (auto simp: chooseRecord_def bindR_eq_Inr split: option.splits if_splits dest: selected_record)

lemma chosen_reference:
  "chooseRecord R K active activeDigest approved ref digest = Inr r \<Longrightarrow> truthy ref \<Longrightarrow>
   \<exists>s. turnkeyPolicySelection R K r = Inr s \<and> ps_policyReference s = the ref"
  by (auto simp: chooseRecord_def bindR_eq_Inr split: option.splits if_splits dest: selected_record(2))

text \<open>A signed entry that may configure the signer: the signed record itself or an entry of the catalog.\<close>

definition configuredEntry :: "jsval \<Rightarrow> jsval option \<Rightarrow> jsval \<Rightarrow> bool" where
  "configuredEntry signedRecord catalog item \<longleftrightarrow>
     item = signedRecord \<or> (\<exists>c items. catalog = Some c \<and> fld c ''records'' = JArr items \<and> item \<in> set items)"

lemma verified_entries:
  assumes "verifyTurnkeySignedPolicyCatalog R pem now c = Inr rs" and "r \<in> set rs"
  shows "wellRecord R r \<and> currentAt R now r \<and> (\<exists>items item. fld c ''records'' = JArr items \<and> item \<in> set items \<and> ownerSigned R pem item r)"
proof -
  from assms(1) obtain items records where items: "fld c ''records'' = JArr items" and m: "mapR (authenticateRecord R pem) items = Inr records"
    and rs: "rs = filter (currentAt R now) records"
    by (auto simp: verifyTurnkeySignedPolicyCatalog_def authenticateCatalog_def Let_def bindR_eq_Inr split: jsval.splits if_splits)
  from assms(2) rs have "r \<in> set records" "currentAt R now r" by auto
  with mapR_each [OF m this(1)] items show ?thesis using authenticated_record(1) authenticated_ownerSigned by blast
qed

text \<open>
  C10. The signer that the service builds from its secrets works under a policy that the owner signed and that
  is in force: the record is authenticated by the pinned key, its period holds the current time and is the
  period the signer checks, and the signer's wallets are exactly those of the record. A reference or a digest
  that the caller asked for is that of the signer.
\<close>

theorem resolved_signer_is_approved:
  assumes "resolveSigner R K pem now cfg signedRecord catalog wm ref digest = Inr sg"
  shows "\<exists>item. configuredEntry signedRecord catalog item \<and> ownerSigned R pem item (sg_record sg) \<and> currentAt R now (sg_record sg) \<and>
    policyCurrent sg now \<and> sg_policy sg = rc_enforcement (sg_record sg) \<and>
    map (\<lambda>w. (rw_index w, rw_address w, rw_signWith w)) (rc_wallets (sg_record sg)) =
      map (\<lambda>w. (tw_index w, toLowerCase (tw_address w), tw_signWith w)) (wm_wallets wm) \<and>
    (truthy ref \<longrightarrow> signerPolicyReference sg = Inr (the ref)) \<and> digest \<in> {None, Some (sg_recordDigest sg)}"
proof -
  from assms obtain active activeDigest approved r where active: "verifyTurnkeySignedPolicyRecord R pem now signedRecord = Inr active"
    and approved: "(case catalog of None \<Rightarrow> Inr None | Some c \<Rightarrow> bindR (verifyTurnkeySignedPolicyCatalog R pem now c) (\<lambda>rs. Inr (Some rs))) = Inr approved"
    and chosen: "chooseRecord R K active activeDigest approved ref digest = Inr r"
    and new: "newTurnkeySigner R K \<lparr>so_organizationId = sf_organizationId cfg, so_environment = sf_environment cfg, so_userId = sf_userId cfg,
          so_wallets = wm_wallets wm, so_policyRecord = recordValue r, so_approved = map_option (map recordValue) approved,
          so_generateAppProofs = None\<rparr> = Inr sg"
    and digest: "\<exists>c. turnkeyPolicyRecordDigest R (recordValue r) = Inr c \<and> digest \<in> {None, Some c}"
    by (auto simp: resolveSigner_def bindR_eq_Inr)
  have r: "wellRecord R r \<and> currentAt R now r \<and> (\<exists>item. configuredEntry signedRecord catalog item \<and> ownerSigned R pem item r)"
  proof (cases "r = active")
    case True
    from active have "authenticateRecord R pem signedRecord = Inr active" "currentAt R now active"
      by (auto simp: verifyTurnkeySignedPolicyRecord_def bindR_eq_Inr split: if_splits)
    with True show ?thesis using authenticated_record(1) authenticated_ownerSigned by (metis configuredEntry_def)
  next
    case False
    with chosen_record [OF chosen] obtain rs where rs: "approved = Some rs" "r \<in> set rs" by blast
    with approved obtain c where c: "catalog = Some c" "verifyTurnkeySignedPolicyCatalog R pem now c = Inr rs"
      by (auto simp: bindR_eq_Inr split: option.splits)
    from verified_entries [OF c(2) rs(2)] c(1) show ?thesis by (auto simp: configuredEntry_def)
  qed
  then have "wellRecord R r" by simp
  note sg = new_signer [OF new _ this, simplified]
  have "policyCurrent sg now" using r sg by (cases now) (simp_all add: policyCurrent_def currentAt_def)
  moreover have "sg_wallets sg = wm_wallets wm" using new_signer(5) [OF new] r by simp
  moreover have "signerPolicyReference sg = Inr (the ref)" if "truthy ref"
    using chosen_reference [OF chosen that] sg(8) by auto
  moreover have "digest \<in> {None, Some (sg_recordDigest sg)}" using digest sg(7) by auto
  ultimately show ?thesis using r sg by auto
qed

section \<open>A signer and its calls\<close>

definition demoDigest :: hex where
  "demoDigest = ''0x'' @ replicate 64 (CHR ''d'')"

definition demoRef :: string where
  "demoRef = ''turnkey:'' @ ''pol'' @ '':'' @ demoDigest"

definition demoWallet :: TurnkeyWalletReference where
  "demoWallet = \<lparr>tw_index = 0, tw_address = demoOwner, tw_signWith = ''key''\<rparr>"

definition demoRecordDigest :: string where
  "demoRecordDigest = ''sha256:'' @ replicate 64 (CHR ''e'')"

definition demoSigner :: TurnkeySigner where
  "demoSigner = \<lparr>sg_connected = True, sg_organizationId = ''org'', sg_policyId = ''pol'', sg_policyDigest = demoDigest, sg_policy = demoPolicy,
     sg_record = demoPolicyRecord, sg_approved = Some [demoPolicyRecord], sg_recordDigest = demoRecordDigest, sg_notBefore = 1, sg_expiresAt = 2,
     sg_wallets = [demoWallet], sg_generateAppProofs = True\<rparr>"

lemma demo_ref: "turnkeyPolicyRef ''pol'' demoDigest = Inr demoRef"
proof -
  have "digestText demoDigest" "toLowerCase demoDigest = demoDigest" by code_simp+
  then show ?thesis by (simp add: turnkeyPolicyRef_def isWhiteChar_def demoRef_def)
qed

lemma demo_digest: "turnkeyPolicyRecordDigest demoRecordLib (recordValue demoPolicyRecord) = Inr demoRecordDigest"
  using digest_of_record [OF demo_record_well] by (simp add: demoRecordLib_def demoProofLib_def demoRecordDigest_def)

lemma demo_binding:
  "validatePolicyBinding (\<lambda>s. demoDigest) (policyValue demoPolicy)
     \<lparr>pb_provider = ''turnkey'', pb_environment = Production, pb_organizationId = ''org'', pb_userId = ''user'', pb_policyId = ''pol'',
      pb_policyDigest = demoDigest\<rparr> [demoWallet] = Inr demoPolicy"
proof -
  have d: "digestText demoDigest" "toLowerCase demoOwner = demoOwner" by code_simp+
  have p: "ts_policyId (ast_scope demoPolicy) = ''pol''" "ts_organizationId (ast_scope demoPolicy) = ''org''"
    "ts_userId (ast_scope demoPolicy) = ''user''" "ts_environment (ast_scope demoPolicy) = Production"
    "ts_keyIds (ast_scope demoPolicy) = [''key'']" "tt_from (ast_transaction demoPolicy) = [demoOwner]"
    by (simp_all add: demoPolicy_def)
  show ?thesis
    by (simp add: validatePolicyBinding_def demo_policy_valid Let_def p d canonicalPolicyDigest_def canonicalPolicyJson_def demoWallet_def)
qed

lemma demo_new_signer:
  "newTurnkeySigner demoRecordLib (\<lambda>s. demoDigest)
     \<lparr>so_organizationId = ''org'', so_environment = Production, so_userId = ''user'', so_wallets = [demoWallet],
      so_policyRecord = recordValue demoPolicyRecord, so_approved = Some [recordValue demoPolicyRecord], so_generateAppProofs = None\<rparr> = Inr demoSigner"
proof -
  have o: "toLowerCase demoOwner = demoOwner" by code_simp
  have r: "rc_environment demoPolicyRecord = Production" "id_organizationId (rc_identity demoPolicyRecord) = ''org''"
    "id_userId (rc_identity demoPolicyRecord) = ''user''" "rc_enforcement demoPolicyRecord = demoPolicy"
    "rc_wallets demoPolicyRecord = [\<lparr>rw_index = 0, rw_address = demoOwner, rw_signWith = ''key'', rw_providerKey = demoKey\<rparr>]"
    "rc_issuedAt demoPolicyRecord = ''a''" "rc_expiresAt demoPolicyRecord = ''ab''"
    by (simp_all add: demoPolicyRecord_def)
  have d: "dateOf demoRecordLib ''a'' = 1" "dateOf demoRecordLib ''ab'' = 2" by (simp_all add: dateOf_def demoRecordLib_def)
  have c: "canonicalPolicyDigest (\<lambda>s. demoDigest) (policyValue demoPolicy) = Inr demoDigest"
    by (simp add: canonicalPolicyDigest_def canonicalPolicyJson_def demo_policy_valid)
  have i: "ts_policyId (ast_scope demoPolicy) = ''pol''" by (simp add: demoPolicy_def)
  show ?thesis
    using demo_binding
    by (simp add: newTurnkeySigner_def record_back [OF demo_record_well] Let_def r c i demo_digest d)
      (simp add: demoSigner_def demoWallet_def o)
qed

definition demoMap :: TurnkeyWalletMap where
  "demoMap = \<lparr>wm_policyRecordDigest = JStr demoRecordDigest, wm_wallets = [demoWallet]\<rparr>"

definition demoSecrets :: SecretConfig where
  "demoSecrets = \<lparr>sf_organizationId = ''org'', sf_environment = Production, sf_userId = ''user''\<rparr>"

lemma demo_catalog: "verifyTurnkeySignedPolicyCatalog demoRecordLib ''pem'' (Some 1) demoCatalog = Inr [demoPolicyRecord]"
proof -
  have e: "exactRecord demoCatalog [''version'', ''context'', ''records''] code = Inr ()" for code
    by (simp add: demoCatalog_def exactKeys_def)
  show ?thesis
    unfolding verifyTurnkeySignedPolicyCatalog_def authenticateCatalog_def Let_def e
    using demo_record_well demo_current by (simp add: demoCatalog_def demo_authenticated digest_of_record)
qed

lemma demo_truthy: "demoRef \<noteq> []" "demoRecordDigest \<noteq> []"
  by (simp_all add: demoRef_def demoRecordDigest_def)

lemma demo_selection:
  "selectTurnkeyPolicyRecord demoRecordLib (\<lambda>s. demoDigest) [demoPolicyRecord] demoRef (Some demoRecordDigest) = Inr demoPolicyRecord"
proof -
  have p: "rc_enforcement demoPolicyRecord = demoPolicy" "ts_policyId (ast_scope demoPolicy) = ''pol''"
    by (simp_all add: demoPolicyRecord_def demoPolicy_def)
  have "canonicalPolicyDigest (\<lambda>s. demoDigest) (policyValue demoPolicy) = Inr demoDigest"
    by (simp add: canonicalPolicyDigest_def canonicalPolicyJson_def demo_policy_valid)
  with p show ?thesis
    by (simp add: selectTurnkeyPolicyRecord_def turnkeyPolicySelection_def demo_ref demo_digest)
qed

lemma demo_resolves:
  "resolveSigner demoRecordLib (\<lambda>s. demoDigest) ''pem'' (Some 1) demoSecrets (signedValue demoSigned) (Some demoCatalog) demoMap
     (Some demoRef) (Some demoRecordDigest) = Inr demoSigner"
  using demo_new_signer demo_current demo_selection demo_truthy
  by (simp add: resolveSigner_def verifyTurnkeySignedPolicyRecord_def demo_authenticated demo_digest demo_catalog chooseRecord_def demoMap_def
      demoSecrets_def)

theorem resolved_signer_is_approved_witness:
  "\<exists>item. ownerSigned demoRecordLib ''pem'' item demoPolicyRecord \<and> sg_policy demoSigner = rc_enforcement demoPolicyRecord \<and>
     signerPolicyReference demoSigner = Inr demoRef"
  using resolved_signer_is_approved [OF demo_resolves] by (auto simp: demoSigner_def demo_truthy)

text \<open>A world without state: the provider signs what it is asked to sign.\<close>

definition demoResponse :: "SignRequest \<Rightarrow> SignResponse" where
  "demoResponse q = \<lparr>re_signedTransaction = JStr ''02ab'', re_activity = Some \<lparr>ay_id = ''a'', ay_organizationId = ''org'',
     ay_status = ''ACTIVITY_STATUS_COMPLETED'', ay_type = ''ACTIVITY_TYPE_SIGN_TRANSACTION_V2'', ay_fingerprint = ''f'', ay_appProofs = JUndef,
     ay_intent = Some \<lparr>ai_signWith = Some (rq_signWith q), ai_unsignedTransaction = Some (rq_unsignedTransaction q),
       ai_type = Some ''TRANSACTION_TYPE_ETHEREUM''\<rparr>,
     ay_signedTransaction = JStr ''0x02AB''\<rparr>\<rparr>"

definition parsedOf :: "SigningIntent \<Rightarrow> ParsedSigned" where
  "parsedOf i = \<lparr>px_type = ''eip1559'', px_chainId = Some (policyChainNumber (ti_chainId i)), px_nonce = Some (ti_nonce i), px_to = Some (ti_to i),
     px_value = None, px_data = Some (ti_data i), px_gas = Some (ti_gasLimit i), px_maxFeePerGas = Some (ti_maxFeePerGas i),
     px_maxPriorityFeePerGas = Some (ti_maxPriorityFeePerGas i), px_accessList = None\<rparr>"

definition demoEnv :: "SigningIntent \<Rightarrow> unit SignerEnv" where
  "demoEnv i = \<lparr>se_lib = demoProofLib, se_now = (\<lambda>s. Some 1), se_nowAt = (\<lambda>s q. 0), se_verifyAllowlist = None,
     se_verifyPublic = Some (\<lambda>i. returnS ()), se_assertReady = returnS (), se_serialize = (\<lambda>i. Inr ''02''),
     se_sign = (\<lambda>q. returnS (demoResponse q)), se_parse = (\<lambda>h. Some (parsedOf i)), se_recover = (\<lambda>h. Some demoOwner)\<rparr>"

lemma demo_response_accepted:
  assumes "ti_value i = 0" "normalizeHexBytes (ti_data i) = Inr d" "ti_accessList i \<in> {None, Some []}"
  shows "\<exists>ev. acceptResponse (demoEnv i) demoSigner demoWallet i ''02'' (demoResponse
    \<lparr>rq_signWith = ''key'', rq_unsignedTransaction = ''02'', rq_generateAppProofs = True\<rparr>) = Inr (''0x02ab'', ev)"
proof -
  have h: "all_hex ''02ab''" "toLowerCase ''0x02AB'' = ''0x02ab''" "toLowerCase ''0x02ab'' = ''0x02ab''" by code_simp+
  have b: "checkBoundary (demoEnv i) demoWallet i ''0x02ab'' = Inr ()"
    using assms by (auto simp: checkBoundary_def demoEnv_def transactionMatches_def parsedOf_def sameOptionalAddress_def weiOrZero_def sameOk_def
        normalizeData_def demoWallet_def normalizeAccessList_def)
  have s: "signedBytes (demoResponse q) = Inr ''0x02ab''" for q
    using h by (simp add: signedBytes_def demoResponse_def prefixed_def)
  let ?q = "\<lparr>rq_signWith = ''key'', rq_unsignedTransaction = ''02'', rq_generateAppProofs = True\<rparr>"
  obtain a where a: "re_activity (demoResponse ?q) = Some a" by (simp add: demoResponse_def)
  have "activityMatches demoSigner demoWallet ''02'' ''0x02ab'' a"
    using a h by (auto simp: demoResponse_def activityMatches_def demoSigner_def demoWallet_def prefixed_def arrayOrMissing_def)
  then show ?thesis by (simp add: acceptResponse_def s a b)
qed

text \<open>An intent of the wallet that passes every check is signed.\<close>

lemma demo_signs_intent:
  assumes "toLowerCase (ti_from i) = toLowerCase demoOwner" and ref: "ti_policyRef i = Some demoRef"
    and ok: "validateTransactionIntent demoProofLib (\<lambda>q. 0) i (policyValue demoPolicy) demoRef = Inr ()"
    and stage: "familyStage (demoEnv i) demoSigner i demoRef rehearsal () = (Inr (), ())"
  shows "\<exists>ev. signWithEvidence (demoEnv i) demoSigner 0 i rehearsal () = (Inr (''0x02ab'', ev), ())"
proof -
  from accepted_intent [OF ok] demo_policy_valid have i: "ti_value i = 0" "normalizeHexBytes (ti_data i) = Inr (toLowerCase (ti_data i))"
    "ti_accessList i \<in> {None, Some []}"
    by (auto simp: intentInBounds_def demoPolicy_def)
  from demo_response_accepted [OF i] obtain ev where ev: "acceptResponse (demoEnv i) demoSigner demoWallet i ''02'' (demoResponse
    \<lparr>rq_signWith = ''key'', rq_unsignedTransaction = ''02'', rq_generateAppProofs = True\<rparr>) = Inr (''0x02ab'', ev)" by blast
  have check: "checkIntent (demoEnv i) demoSigner i demoRef () = (Inr (), ())"
    using ok by (simp add: checkIntent_def bindS_def demoEnv_def demoSigner_def)
  have cur: "assertPolicyCurrent (demoEnv i) demoSigner () = (Inr (), ())"
    by (simp add: assertPolicyCurrent_ok policyCurrent_def demoEnv_def demoSigner_def)
  have fields: "sg_connected demoSigner" "sg_wallets demoSigner = [demoWallet]" "sg_policyId demoSigner = ''pol''"
    "sg_policyDigest demoSigner = demoDigest" "sg_generateAppProofs demoSigner" "tw_index demoWallet = 0" "tw_address demoWallet = demoOwner"
    "tw_signWith demoWallet = ''key''" by (simp_all add: demoSigner_def demoWallet_def)
  have env: "se_serialize (demoEnv i) = (\<lambda>i. Inr ''02'')" "se_sign (demoEnv i) = (\<lambda>q. returnS (demoResponse q))" by (simp_all add: demoEnv_def)
  show ?thesis
    using assms(1) ref ev
    by (simp add: signWithEvidence_def bindS_def cur fields demo_ref check stage env catchS_def)
qed

lemma demo_accepts:
  assumes "intentInBounds (ast_transaction demoPolicy) ref i" "ti_accessList i \<in> {None, Some []}"
    and "normalizeHexBytes (ti_data i) = Inr (ti_data i)" "robinhoodFamilyCalldata (ti_data i) 4 (ti_familyContext i)"
  shows "validateTransactionIntent L nowAt i (policyValue demoPolicy) ref = Inr ()"
proof -
  have "normalizeAccessList (ti_accessList i) = Inr []" using assms(2) by (auto simp: normalizeAccessList_def)
  moreover have "ast_family demoPolicy = Some \<lparr>tf_kind = JStr KIND_FREE_PUBLIC, tf_maxQuantity = 4\<rparr>" by (simp add: demoPolicy_def)
  ultimately have "intentAllowed L nowAt i (policyValue demoPolicy) ref = Inr True"
    using assms by (simp add: intentAllowed_def demo_policy_valid Let_def familyCalldata_def)
  then show ?thesis by (simp add: validateTransactionIntent_def)
qed

lemma demo_addresses: "validAddress demoOwner" "toLowerCase demoOwner = demoOwner" "validAddress SEADROP_V1_ADDRESS"
  "validAddress (toLowerCase SEADROP_V1_ADDRESS)"
  by code_simp+

definition demoFreeIntent :: SigningIntent where
  "demoFreeIntent = demoSigningIntent\<lparr>ti_policyRef := Some demoRef\<rparr>"

lemma demo_free_accepted: "validateTransactionIntent L nowAt demoFreeIntent (policyValue demoPolicy) demoRef = Inr ()"
proof (rule demo_accepts)
  show "intentInBounds (ast_transaction demoPolicy) demoRef demoFreeIntent"
    using demo_addresses by (simp add: intentInBounds_def demoPolicy_def demoFreeIntent_def demoSigningIntent_def)
  have "normalizeHexBytes demoMintData = Inr demoMintData" by code_simp
  then show "normalizeHexBytes (ti_data demoFreeIntent) = Inr (ti_data demoFreeIntent)" by (simp add: demoFreeIntent_def demoSigningIntent_def)
  show "robinhoodFamilyCalldata (ti_data demoFreeIntent) 4 (ti_familyContext demoFreeIntent)"
    using demo_calldata by (simp add: demoFreeIntent_def demoSigningIntent_def)
qed (simp add: demoFreeIntent_def demoSigningIntent_def)

lemma demo_kind: "familyKind demoSigner = Some (JStr KIND_FREE_PUBLIC)" "KIND_FREE_PUBLIC \<noteq> KIND_FREE_ALLOWLIST"
  by (simp_all add: familyKind_def demoSigner_def demoPolicy_def KIND_FREE_PUBLIC_def KIND_FREE_ALLOWLIST_def)

lemma demo_ready:
  assumes "validateTransactionIntent demoProofLib (\<lambda>q. 0) j (policyValue demoPolicy) demoRef = Inr ()"
  shows "readyAgain (demoEnv i) demoSigner j demoRef () = (Inr (), ())"
proof -
  have "assertPolicyCurrent (demoEnv i) demoSigner () = (Inr (), ())"
    by (simp add: assertPolicyCurrent_ok policyCurrent_def demoEnv_def demoSigner_def)
  moreover have "checkIntent (demoEnv i) demoSigner j demoRef () = (Inr (), ())"
    using assms by (simp add: checkIntent_def bindS_def demoEnv_def demoSigner_def)
  moreover have "se_assertReady (demoEnv i) = returnS ()" by (simp add: demoEnv_def)
  ultimately show ?thesis by (simp add: readyAgain_def bindS_def)
qed

lemma demo_signs_free: "\<exists>ev. signWithEvidence (demoEnv demoFreeIntent) demoSigner 0 demoFreeIntent False () = (Inr (''0x02ab'', ev), ())"
proof (rule demo_signs_intent [OF _ _ demo_free_accepted])
  have z: "''0x'' @ replicate 40 (CHR ''b'') \<noteq> zeroAddress" by code_simp
  have "publicStage (demoEnv demoFreeIntent) demoSigner demoFreeIntent demoRef False () = (Inr (), ())"
    unfolding publicStage_def using demo_ready [OF demo_free_accepted] z
    by (simp add: bindS_def demoFreeIntent_def demoSigningIntent_def demoEnv_def [THEN arg_cong, of se_verifyPublic])
      (simp add: demoEnv_def)?
  then show "familyStage (demoEnv demoFreeIntent) demoSigner demoFreeIntent demoRef False () = (Inr (), ())"
    using demo_kind by (simp add: familyStage_def bindS_def)
qed (simp_all add: demoFreeIntent_def demoSigningIntent_def)


definition demoRehearsalLib :: RehearsalLib where
  "demoRehearsalLib = \<lparr>rh_leafText = (\<lambda>a p. demoRoot), rh_isoText = (\<lambda>t. Inr ''t''),
     rh_encodePublic = ''0x161ac21f'' @ replicate 255 (CHR ''0'') @ ''1'', rh_keccak = (\<lambda>h. demoDigest)\<rparr>"

definition demoRehearsalIntent :: SigningIntent where
  "demoRehearsalIntent = rehearsalIntent demoSigner demoWallet demoRef (''0x161ac21f'' @ replicate 255 (CHR ''0'') @ ''1'') None"

lemma demo_rehearsal_accepted: "validateTransactionIntent L nowAt demoRehearsalIntent (policyValue demoPolicy) demoRef = Inr ()"
proof (rule demo_accepts)
  have "toLowerCase (toLowerCase SEADROP_V1_ADDRESS) = toLowerCase SEADROP_V1_ADDRESS" by simp
  then show "intentInBounds (ast_transaction demoPolicy) demoRef demoRehearsalIntent"
    using demo_addresses
    by (simp add: intentInBounds_def demoPolicy_def demoRehearsalIntent_def rehearsalIntent_def demoSigner_def demoWallet_def MAX_SAFE_INTEGER_def)
  have "normalizeHexBytes (''0x161ac21f'' @ replicate 255 (CHR ''0'') @ ''1'') = Inr (''0x161ac21f'' @ replicate 255 (CHR ''0'') @ ''1'')" by code_simp
  then show "normalizeHexBytes (ti_data demoRehearsalIntent) = Inr (ti_data demoRehearsalIntent)"
    by (simp add: demoRehearsalIntent_def rehearsalIntent_def)
  have "robinhoodFamilyCalldata (''0x161ac21f'' @ replicate 255 (CHR ''0'') @ ''1'') 4
      (Some \<lparr>fc_nftContract = zeroAddress, fc_feeRecipient = zeroAddress\<rparr>)" by code_simp
  then show "robinhoodFamilyCalldata (ti_data demoRehearsalIntent) 4 (ti_familyContext demoRehearsalIntent)"
    by (simp add: demoRehearsalIntent_def rehearsalIntent_def)
qed (simp add: demoRehearsalIntent_def rehearsalIntent_def)

lemma demo_rehearses:
  "\<exists>ev. rehearseFreePublic demoRehearsalLib (demoEnv demoRehearsalIntent) demoSigner 0 () = (Inr (demoDigest, ev), ())"
proof -
  have shape: "rehearsalShape demoRehearsalIntent"
    by (simp add: rehearsalShape_def demoRehearsalIntent_def rehearsalIntent_def)
  have fields: "truthy (ti_campaignId demoRehearsalIntent)" "truthy (ti_runId demoRehearsalIntent)" "\<exists>c. ti_familyContext demoRehearsalIntent = Some c"
    "si_hasAssertReady demoRehearsalIntent" by (simp_all add: demoRehearsalIntent_def rehearsalIntent_def)
  have "publicStage (demoEnv demoRehearsalIntent) demoSigner demoRehearsalIntent demoRef True () = (Inr (), ())"
    unfolding publicStage_def using demo_ready [OF demo_rehearsal_accepted] shape fields by (auto simp: bindS_def)
  then have stage: "familyStage (demoEnv demoRehearsalIntent) demoSigner demoRehearsalIntent demoRef True () = (Inr (), ())"
    using demo_kind by (simp add: familyStage_def bindS_def)
  have "\<exists>ev. signWithEvidence (demoEnv demoRehearsalIntent) demoSigner 0 demoRehearsalIntent True () = (Inr (''0x02ab'', ev), ())"
    by (rule demo_signs_intent [OF _ _ demo_rehearsal_accepted stage])
      (simp_all add: demoRehearsalIntent_def rehearsalIntent_def demoWallet_def)
  then obtain ev where ev: "signWithEvidence (demoEnv demoRehearsalIntent) demoSigner 0 demoRehearsalIntent True () = (Inr (''0x02ab'', ev), ())" by blast
  have s: "sg_wallets demoSigner = [demoWallet]" "tw_index demoWallet = 0" "signerPolicyReference demoSigner = Inr demoRef"
    "se_assertReady (demoEnv demoRehearsalIntent) = returnS ()"
    using demo_ref by (simp_all add: demoSigner_def demoWallet_def signerPolicyReference_def demoEnv_def)
  have i: "rehearsalIntent demoSigner demoWallet demoRef (rh_encodePublic demoRehearsalLib) None = demoRehearsalIntent"
    by (simp add: demoRehearsalIntent_def demoRehearsalLib_def)
  have k: "rehearsalResult demoRehearsalLib (''0x02ab'', ev) = (demoDigest, ev)" by (simp add: rehearsalResult_def demoRehearsalLib_def)
  have "rehearseFreePublic demoRehearsalLib (demoEnv demoRehearsalIntent) demoSigner 0 () = (Inr (demoDigest, ev), ())"
    using ev k demo_kind(1) by (simp add: rehearseFreePublic_def bindS_def s i)
  then show ?thesis by blast
qed

theorem rehearsal_cannot_be_mined_witness:
  "\<exists>signed tx. demoDigest = rh_keccak demoRehearsalLib signed \<and> se_parse (demoEnv demoRehearsalIntent) signed = Some tx \<and>
     weiOrZero (px_gas tx) = 0 \<and> px_nonce tx = Some MAX_SAFE_INTEGER"
proof -
  obtain ev where ev: "rehearseFreePublic demoRehearsalLib (demoEnv demoRehearsalIntent) demoSigner 0 () = (Inr (demoDigest, ev), ())"
    using demo_rehearses by blast
  from rehearsal_cannot_be_mined [OF disjI2, OF ev] show ?thesis by blast
qed

end
