(* ===== verification/Spec2Isabelle.thy ===== *)
theory Spec2Isabelle
  imports ReplacementLadder FeeGuard GasStrategy Fleet DropRecheck NonceManager Finality Providers
    Broadcasters PreSign Allowlist Strategy EngineTheorems FleetAdmission ServiceFacts FleetWatcherFacts SpendLedger
    TurnkeyAuthority TurnkeySigner
begin

text \<open>
  A verification development of palmora-supremos, a bot that mints NFTs of a drop with a fleet of
  wallets on Ethereum, Base and Robinhood, under limits that its owner has approved. The TypeScript
  sources are under \<^verbatim>\<open>src/packages\<close>: \<^verbatim>\<open>engine\<close> prepares, signs and broadcasts transactions,
  \<^verbatim>\<open>database\<close> holds the canonical tables and the accounting of spending, and \<^verbatim>\<open>backend\<close> admits runs, drives
  the engine and supervises it. \<^verbatim>\<open>cli\<close> and \<^verbatim>\<open>web\<close> are the operator's surfaces.

  \<^bold>\<open>How the parts interact.\<close> The operator's command (\<open>Application\<close>) arms and executes a run through
  the coordinator (\<open>Coordinator\<close>). A live run must pass the gates: custody evidence and the operational
  probe (\<open>Custody\<close>, with the compensating controls of \<open>Compensating\<close>), accepted chain evidence and a
  simulation per wallet (\<open>Evidence\<close>), the owner's enablement of the chain (\<open>Enablement\<close>), the watch on
  the wallets (\<open>FleetWatcher\<close>), and the admission of the canonical store (\<open>CanonicalStore\<close>), which reserves the
  worst case of every wallet in the database (\<open>SpendReservations\<close>) under the daily caps of wallets and
  fleet. Then the engine runs a fleet (\<open>Admission\<close>: which wallets may mint; \<open>MintEngine\<close>: the run of one
  wallet), which reserves, signs, stores, broadcasts, replaces, watches and settles. The scheduler
  (\<open>ServiceOrchestrator\<close>) ticks over the stored jobs (\<open>JobStore\<close>), and stops when the kill switch is set.

  \<^bold>\<open>Foundations.\<close>
  \<^item> \<open>Prelude\<close>: results of fallible code (\<open>'e + 'a\<close>), JavaScript numbers, texts, dynamic values. A thrown
    error is \<open>Inl\<close>. A \<^verbatim>\<open>bigint\<close> is an \<open>int\<close>, a \<^verbatim>\<open>number\<close> is a \<open>jsnum\<close> (an exact rational, an infinity
    or \<open>NaN\<close>; rounding is not modelled) or, where the code only stores safe integers, an \<open>int\<close>.
  \<^item> \<open>Effects\<close>: state passing with errors (\<open>('s, 'e, 'a) eff\<close>), the order calculus (locale \<open>state_order\<close>:
    every step moves the state along a preorder, or keeps an invariant), pre- and postconditions
    (\<open>triple\<close>), endless loops as \<open>partial_function (option)\<close>, and programs with surroundings: a
    clock, an arbitrary outside that answers every call, and the trace of the events that matter.
  \<^item> \<open>Types\<close>, \<open>Database\<close>, \<open>BackendTypes\<close>: the records of \<^verbatim>\<open>engine/src/types.ts\<close>, of the SQLite tables and of
    \<^verbatim>\<open>backend/src/types.ts\<close>, with the all-or-nothing transaction of \<^verbatim>\<open>store.ts\<close>.

  \<^bold>\<open>Engine\<close> (\<^verbatim>\<open>packages/engine/src\<close>).
  \<^item> \<open>ReplacementPolicy\<close>, \<open>ReplacementLadder\<close> (\<^verbatim>\<open>replacement-policy.ts\<close>, \<^verbatim>\<open>replacement-ladder.ts\<close>): bounded
    replacements of a pending transaction. The loop may run forever, so it is a partial function; the
    locales \<open>ladder_env\<close> (what its dependencies owe: time passes while it sleeps) and \<open>ladder_inv\<close> (what
    they keep) give that it returns and what holds then.
  \<^item> \<open>FeeGuard\<close> (\<^verbatim>\<open>fee-guard.ts\<close>, \<^verbatim>\<open>base-fees.ts\<close>), \<open>GasStrategy\<close>, \<open>Fleet\<close> (\<^verbatim>\<open>fleet-selection.ts\<close>, \<^verbatim>\<open>fire-lanes.ts\<close>),
    \<open>Safety\<close> (\<^verbatim>\<open>safety.ts\<close>), \<open>DropRecheck\<close>, \<open>NonceManager\<close> (a step relation over arrivals and finished
    bodies), \<open>Lifecycle\<close> (\<^verbatim>\<open>lifecycle.ts\<close>, \<^verbatim>\<open>reconciliation.ts\<close>), \<open>Finality\<close> (\<^verbatim>\<open>finality-observer.ts\<close>,
    \<^verbatim>\<open>receipt-watcher.ts\<close>), \<open>Chains\<close>, \<open>Providers\<close>, \<open>Broadcasters\<close>, \<open>PreSign\<close>, \<open>Allowlist\<close>, \<open>Strategy\<close>.
    The contracts are the locales \<open>latch\<close> (a switch that stays on: kill switch, spend cap, drop recheck),
    \<open>finality_observer\<close> and \<open>broadcaster\<close>, interpreted on every observer and broadcaster.
  \<^item> \<open>Admission\<close>, \<open>MintEngine\<close> (\<^verbatim>\<open>mint-engine.ts\<close>): the preflight of the fleet and the body of
    \<^verbatim>\<open>executeFleet\<close> for one wallet, stage by stage. \<open>EngineSafety\<close> keeps an invariant over the trace through
    every stage, \<open>EngineRun\<close> composes the stages and shows that the run returns, \<open>EngineTheorems\<close> states
    what follows.
  \<^item> The signing authority. \<open>AllowlistAuthority\<close> (\<^verbatim>\<open>allowlist-authority.ts\<close>, the parser of \<^verbatim>\<open>allowlist.ts\<close>):
    which wallets of a published list may mint. \<open>TurnkeyPolicy\<close> (\<^verbatim>\<open>turnkey-policy.ts\<close>): the policy language of
    the signer, its normal form and its decision on an intent. \<open>TurnkeyAuthority\<close>
    (\<^verbatim>\<open>turnkey-allowlist-authority.ts\<close>, \<^verbatim>\<open>turnkey-public-authority.ts\<close>): the independent reads before signing.
    \<open>TurnkeyRecord\<close> (\<^verbatim>\<open>turnkey-policy-record.ts\<close>): the record that the owner signs, its catalog, and the
    comparison with the state of the provider. \<open>TurnkeySigner\<close> (\<^verbatim>\<open>turnkey-signer.ts\<close>, \<^verbatim>\<open>turnkey-bundle.ts\<close>): how
    the signer is built from a signed record, and its checks before and after the provider signs.

  \<^bold>\<open>Database and backend\<close> (\<^verbatim>\<open>packages/database/src\<close>, \<^verbatim>\<open>packages/backend/src\<close>).
  \<^item> \<open>SpendReservations\<close>, \<open>SpendSafety\<close> (\<^verbatim>\<open>spend-reservations.ts\<close>, \<^verbatim>\<open>spend-window.ts\<close>): the operations, the
    type invariant of the tables, the abstract accounts they refine, and the cap of a wallet.
    \<open>CappedStore\<close> is the contract of a store that admits under a cap over a rolling window, with the
    theorem that no sequence of steps exceeds it; it is interpreted for the wallet's cap, for the
    fleet's caps in \<open>FleetAdmission\<close> and for the run's cap in \<open>SpendLedger\<close> (\<^verbatim>\<open>spend-ledger.ts\<close>).
  \<^item> \<open>CanonicalStore\<close>, \<open>FleetAdmission\<close> (\<^verbatim>\<open>canonical-store.ts\<close>): admission, settlement, closing.
  \<^item> \<open>Enablement\<close>, \<open>Compensating\<close>, \<open>Custody\<close>, \<open>Evidence\<close>: the gates of a live run.
  \<^item> \<open>Coordinator\<close> (\<^verbatim>\<open>coordinator.ts\<close>): \<open>CoordinatorOrder\<close> is the locale of the orders that every operation
    moves along; \<open>CoordinatorSafety\<close> and \<open>CoordinatorFacts\<close> interpret it for the state machine of runs
    and for readiness, \<open>ApplicationFacts\<close> for the record of commands.
  \<^item> \<open>Application\<close> (\<^verbatim>\<open>application.ts\<close>), \<open>JobStore\<close> (\<^verbatim>\<open>job-store.ts\<close>, \<^verbatim>\<open>canonical-job-store.ts\<close>) with the
    locale \<open>job_store\<close> interpreted on both and a refinement between them, \<open>ServiceOrchestrator\<close>
    (\<^verbatim>\<open>service-orchestrator.ts\<close>, \<^verbatim>\<open>kill-switch-release.ts\<close>) with \<open>ServiceFacts\<close>.
  \<^item> \<open>Funding\<close> (\<^verbatim>\<open>fleet-funding.ts\<close>): the funding plan of a run and the reminder of left-over balances; a
    paid plan passes the balance control of \<open>Compensating\<close>. \<open>FleetWatcher\<close>, \<open>FleetWatcherFacts\<close>
    (\<^verbatim>\<open>fleet-watcher.ts\<close>): the watch on the wallets and what it guarantees.

  \<^bold>\<open>What the theorems show.\<close> Signing happens only under an accepted reservation that covers the
  transaction; what is broadcast was signed, checked against its intent and stored; a reservation is
  released only when nothing can have been submitted and settled only on a final receipt; a wallet's
  run returns; a dry run touches nothing. No sequence of admissions, settlements and releases exceeds
  the cap of a wallet or of the fleet, and the tables refine simple accounts. A live arm rests on an
  approval of the same request, on sound custody, on accepted evidence and on a watcher; the engine is
  asked only after admission; runs follow their state machine; start-up reports ready only when
  nothing is open; a tick under the kill switch starts nothing; unexplained activity of a wallet stops
  signing. The signer returns only bytes that its owner's policy allows, from a wallet of the policy, after
  two independent hosts confirmed the mint. Beside these: equivalence of the two reconcilers, termination of the receipt watch, the
  round trip of Merkle proofs, the FIFO mutual exclusion of nonces, and the behaviour of the error
  paths, some of which are flaws that the theorems pin down.

  \<^bold>\<open>Bounds and termination.\<close> No fuel is used. Loops that end by their data are structural; the
  replacement ladder and the receipt watch are partial functions (\<open>repeatS\<close> of \<open>Effects\<close>), shown to
  return because every round lets time pass and their deadline is finite;
  retries and replacement attempts are bounded by the configuration of the source.

  \<^bold>\<open>The outside.\<close> Nodes, relays, the custody provider, SQLite's constraints, hashes, the clock, random
  ids and the components that are awaited are arguments of the definitions. A call may answer anything
  and may change the store; what a theorem needs of them is a named hypothesis (such as
  \<open>steadyOutside\<close>: nobody releases the kill switch meanwhile), with a witness that it can hold.

  \<^bold>\<open>Not modelled.\<close> Requests to nodes and to the custody provider, the reading and installing of secret
  files and bundles, the import of keys and the local keystore (\<^verbatim>\<open>chain-facts.ts\<close>, \<^verbatim>\<open>turnkey-import.ts\<close>,
  \<^verbatim>\<open>turnkey-bundle-installer.ts\<close>, \<^verbatim>\<open>signer.ts\<close>, \<^verbatim>\<open>secrets.ts\<close>) are I/O. Read models, health reports, messages, notifications, redaction and the dashboard only present
  the state. The Phase 2 orchestrator (\<^verbatim>\<open>orchestrator.ts\<close>) is not used by the service. Market
  intelligence never arms a run. The command line parses input and wires the parts. Of the canonical
  store, the persistence callbacks of the engine, the snapshot readers, and the rows of contracts and
  collections are left out. Promises that race or run in parallel inside one wallet's run or one tick run
  one after the other; interleavings are modelled where they decide the outcome (\<open>NonceManager\<close>,
  \<open>DropRecheck\<close>, the gate of \<open>Admission\<close>).
\<close>

end
